(* ===== verification/Civora_Prelude.thy ===== *)
theory Civora_Prelude
  imports Main "HOL-Library.List_Lexorder" "HOL-Library.Char_ord"
begin

section \<open>Shared notions of the development\<close>

text \<open>
  What every component uses: identifiers and instants, the error values of the Go code with
  the search that errors.Is makes through wrapped errors, database transactions as functions
  on an explicit store (with InTransaction of src/internal/database/db.go), the SQL fragments
  the repositories are written in, and the small lemmas that carry the component proofs.
\<close>

subsection \<open>Identifiers, instants, request contexts\<close>

text \<open>
  A \<^verbatim>\<open>uuid.UUID\<close> is a number, \<open>0\<close> being \<^verbatim>\<open>uuid.Nil\<close>; an instant is the number of
  nanoseconds since the Unix epoch. The two sources of fresh data of a request, uuid.New()
  and time.Now(), are read from the request context: \<open>ctx_uuid c k\<close> and \<open>ctx_time c k\<close> are
  the values returned at the call site with index \<open>k\<close>.
\<close>

type_synonym uuid = nat
type_synonym instant = int

abbreviation (input) uuid_nil :: uuid where
  "uuid_nil \<equiv> 0"

record ctx =
  ctx_uuid :: "nat \<Rightarrow> uuid"
  ctx_time :: "nat \<Rightarrow> instant"
  ctx_request_id :: string

subsection \<open>Errors\<close>

text \<open>
  \<open>Err\<close> is a sentinel or a plain message, \<open>Wrap\<close> is fmt.Errorf with one \<^verbatim>\<open>%w\<close>, \<open>Join\<close> with
  two; the typed errors
  of the workflow engine carry their fields. \<open>GoPanic\<close> is a run-time panic (the handler's
  recovery middleware turns it into a failed request).
\<close>

datatype go_error =
    Err string
  | Wrap string go_error
  | Join go_error go_error
  | SqlNoRows
  | SqlConstraint string
  | is_ErrWorkflowInstanceNotFound: ErrWorkflowInstanceNotFound uuid
  | is_ErrWorkflowDefinitionNotFound: ErrWorkflowDefinitionNotFound uuid
  | is_ErrWorkflowDefinitionNotActive: ErrWorkflowDefinitionNotActive uuid
  | ErrTenantViolation
  | is_TerminalStateError: TerminalStateError string
  | ErrConcurrentModification
  | is_ErrTransitionNotFound: ErrTransitionNotFound string string
  | is_ErrUnauthorizedTransition: ErrUnauthorizedTransition string "string list"
  | GoPanic string

text \<open>
  errors.Is: equality along the chain of wrapped errors, except that the typed errors of
  the workflow domain answer for any error of their own type, as their \<^verbatim>\<open>Is\<close> methods say.
\<close>

definition same_error_type :: "go_error \<Rightarrow> go_error \<Rightarrow> bool" where
  "same_error_type e t \<longleftrightarrow> e = t
     \<or> (is_ErrWorkflowInstanceNotFound e \<and> is_ErrWorkflowInstanceNotFound t)
     \<or> (is_ErrWorkflowDefinitionNotFound e \<and> is_ErrWorkflowDefinitionNotFound t)
     \<or> (is_ErrWorkflowDefinitionNotActive e \<and> is_ErrWorkflowDefinitionNotActive t)
     \<or> (is_TerminalStateError e \<and> is_TerminalStateError t)
     \<or> (is_ErrTransitionNotFound e \<and> is_ErrTransitionNotFound t)
     \<or> (is_ErrUnauthorizedTransition e \<and> is_ErrUnauthorizedTransition t)"

primrec unwrap_chain :: "go_error \<Rightarrow> go_error list" where
  "unwrap_chain (Wrap m e) = Wrap m e # unwrap_chain e"
| "unwrap_chain (Join a b) = Join a b # unwrap_chain a @ unwrap_chain b"
| "unwrap_chain (Err m) = [Err m]"
| "unwrap_chain SqlNoRows = [SqlNoRows]"
| "unwrap_chain (SqlConstraint m) = [SqlConstraint m]"
| "unwrap_chain (ErrWorkflowInstanceNotFound u) = [ErrWorkflowInstanceNotFound u]"
| "unwrap_chain (ErrWorkflowDefinitionNotFound u) = [ErrWorkflowDefinitionNotFound u]"
| "unwrap_chain (ErrWorkflowDefinitionNotActive u) = [ErrWorkflowDefinitionNotActive u]"
| "unwrap_chain ErrTenantViolation = [ErrTenantViolation]"
| "unwrap_chain (TerminalStateError m) = [TerminalStateError m]"
| "unwrap_chain ErrConcurrentModification = [ErrConcurrentModification]"
| "unwrap_chain (ErrTransitionNotFound f t) = [ErrTransitionNotFound f t]"
| "unwrap_chain (ErrUnauthorizedTransition k rs) = [ErrUnauthorizedTransition k rs]"
| "unwrap_chain (GoPanic m) = [GoPanic m]"

definition errors_Is :: "go_error \<Rightarrow> go_error \<Rightarrow> bool" where
  "errors_Is e t \<longleftrightarrow> (\<exists>e' \<in> set (unwrap_chain e). same_error_type e' t)"

subsection \<open>Transactions\<close>

text \<open>
  Code that runs inside a database transaction is a function from the store it sees to a
  result and the store it leaves. A failing statement does not undo the statements before
  it: that is what \<open>InTransaction\<close> is for.
\<close>

type_synonym ('s, 'a) tx = "'s \<Rightarrow> (go_error + 'a) \<times> 's"

definition tx_return :: "'a \<Rightarrow> ('s, 'a) tx" where
  "tx_return a = (\<lambda>s. (Inr a, s))"

definition tx_throw :: "go_error \<Rightarrow> ('s, 'a) tx" where
  "tx_throw e = (\<lambda>s. (Inl e, s))"

definition tx_bind :: "('s, 'a) tx \<Rightarrow> ('a \<Rightarrow> ('s, 'b) tx) \<Rightarrow> ('s, 'b) tx" where
  "tx_bind m f = (\<lambda>s. case m s of (Inl e, s') \<Rightarrow> (Inl e, s') | (Inr a, s') \<Rightarrow> f a s')"

definition tx_seq :: "('s, 'a) tx \<Rightarrow> ('s, 'b) tx \<Rightarrow> ('s, 'b) tx" where
  "tx_seq m k = tx_bind m (\<lambda>_. k)"

definition tx_guard :: "bool \<Rightarrow> go_error \<Rightarrow> ('s, unit) tx" where
  "tx_guard b e = (if b then tx_return () else tx_throw e)"

definition tx_when :: "bool \<Rightarrow> ('s, unit) tx \<Rightarrow> ('s, unit) tx" where
  "tx_when b m = (if b then m else tx_return ())"

definition tx_gets :: "('s \<Rightarrow> 'a) \<Rightarrow> ('s, 'a) tx" where
  "tx_gets f = (\<lambda>s. (Inr (f s), s))"

definition tx_modify :: "('s \<Rightarrow> 's) \<Rightarrow> ('s, unit) tx" where
  "tx_modify f = (\<lambda>s. (Inr (), f s))"

definition tx_lift :: "(go_error + 'a) \<Rightarrow> ('s, 'a) tx" where
  "tx_lift r = (\<lambda>s. (r, s))"

text \<open>\<^verbatim>\<open>if err != nil { return g(err) }\<close>: the error of a call is replaced, the result kept.\<close>

definition tx_map_error :: "(go_error \<Rightarrow> go_error) \<Rightarrow> ('s, 'a) tx \<Rightarrow> ('s, 'a) tx" where
  "tx_map_error g m = (\<lambda>s. case m s of (Inl e, s') \<Rightarrow> (Inl (g e), s') | (Inr a, s') \<Rightarrow> (Inr a, s'))"

text \<open>The result of a call together with its error, for code that inspects both.\<close>

definition tx_try :: "('s, 'a) tx \<Rightarrow> ('s, go_error + 'a) tx" where
  "tx_try m = (\<lambda>s. case m s of (r, s') \<Rightarrow> (Inr r, s'))"

text \<open>
  InTransaction: the function runs on the store; an error rolls every statement back and is
  returned, success commits.
\<close>

definition InTransaction :: "('s, 'a) tx \<Rightarrow> ('s, 'a) tx" where
  "InTransaction fn = (\<lambda>s. case fn s of
     (Inl e, _) \<Rightarrow> (Inl e, s)
   | (Inr a, s') \<Rightarrow> (Inr a, s'))"

subsection \<open>Reasoning about transactions\<close>

named_theorems tx_Inr \<open>when a transaction succeeds\<close>

lemma tx_return_Inr [tx_Inr]: "tx_return a s = (Inr b, s') \<longleftrightarrow> b = a \<and> s' = s"
  by (auto simp: tx_return_def)

lemma tx_throw_Inr [tx_Inr]: "tx_throw e s = (Inr b, s') \<longleftrightarrow> False"
  by (simp add: tx_throw_def)

lemma tx_bind_Inr [tx_Inr]:
  "tx_bind m f s = (Inr b, s') \<longleftrightarrow> (\<exists>a s1. m s = (Inr a, s1) \<and> f a s1 = (Inr b, s'))"
  by (auto simp: tx_bind_def split: prod.splits sum.splits)

lemma tx_seq_Inr [tx_Inr]:
  "tx_seq m k s = (Inr b, s') \<longleftrightarrow> (\<exists>a s1. m s = (Inr a, s1) \<and> k s1 = (Inr b, s'))"
  by (simp add: tx_seq_def tx_bind_Inr)

lemma tx_guard_Inr [tx_Inr]: "tx_guard p e s = (Inr u, s') \<longleftrightarrow> p \<and> s' = s"
  by (auto simp: tx_guard_def tx_return_def tx_throw_def)

lemma tx_when_Inr [tx_Inr]: "tx_when p m s = (Inr u, s') \<longleftrightarrow> (if p then m s = (Inr u, s') else s' = s)"
  by (auto simp: tx_when_def tx_return_def)

lemma tx_gets_Inr [tx_Inr]: "tx_gets f s = (Inr b, s') \<longleftrightarrow> b = f s \<and> s' = s"
  by (auto simp: tx_gets_def)

lemma tx_modify_Inr [tx_Inr]: "tx_modify f s = (Inr b, s') \<longleftrightarrow> s' = f s"
  by (auto simp: tx_modify_def)

lemma tx_lift_Inr [tx_Inr]: "tx_lift r s = (Inr b, s') \<longleftrightarrow> r = Inr b \<and> s' = s"
  by (auto simp: tx_lift_def)

lemma tx_map_error_Inr [tx_Inr]: "tx_map_error g m s = (Inr b, s') \<longleftrightarrow> m s = (Inr b, s')"
  by (auto simp: tx_map_error_def split: prod.splits sum.splits)

lemma tx_try_Inr [tx_Inr]: "tx_try m s = (Inr r, s') \<longleftrightarrow> m s = (r, s')"
  by (auto simp: tx_try_def split: prod.splits)

lemma InTransaction_Inr [tx_Inr]: "InTransaction m s = (Inr b, s') \<longleftrightarrow> m s = (Inr b, s')"
  by (auto simp: InTransaction_def split: prod.splits sum.splits)

text \<open>A transaction that fails leaves the store it started from.\<close>

lemma InTransaction_Inl: "InTransaction m s = (Inl e, s') \<Longrightarrow> s' = s"
  by (auto simp: InTransaction_def split: prod.splits sum.splits)

lemmas tx_defs = tx_return_def tx_throw_def tx_bind_def tx_seq_def tx_guard_def tx_when_def tx_gets_def
  tx_modify_def tx_lift_def tx_map_error_def tx_try_def InTransaction_def

text \<open>
  Frames: a relation between the store before and the store after that holds when nothing
  happens and composes. Every combinator keeps it, so a component proves it for its
  statements only.
\<close>

definition tx_framed :: "('s \<Rightarrow> 's \<Rightarrow> bool) \<Rightarrow> ('s, 'a) tx \<Rightarrow> bool" where
  "tx_framed R m \<longleftrightarrow> (\<forall>s. R s (snd (m s)))"

locale tx_frame =
  fixes R :: "'s \<Rightarrow> 's \<Rightarrow> bool"
  assumes refl: "R s s" and trans: "R s1 s2 \<Longrightarrow> R s2 s3 \<Longrightarrow> R s1 s3"
begin

lemma framedI: "(\<And>s. R s (snd (m s))) \<Longrightarrow> tx_framed R m"
  by (simp add: tx_framed_def)

lemma framedD: "tx_framed R m \<Longrightarrow> m s = (r, s') \<Longrightarrow> R s s'"
  by (metis tx_framed_def snd_conv)

lemma return: "tx_framed R (tx_return a)"
  by (simp add: tx_framed_def tx_return_def refl)

lemma throw: "tx_framed R (tx_throw e)"
  by (simp add: tx_framed_def tx_throw_def refl)

lemma guard: "tx_framed R (tx_guard p e)"
  by (simp add: tx_guard_def return throw)

lemma gets: "tx_framed R (tx_gets f)"
  by (simp add: tx_framed_def tx_gets_def refl)

lemma lift: "tx_framed R (tx_lift r)"
  by (simp add: tx_framed_def tx_lift_def refl)

lemma bind:
  assumes "tx_framed R m" "\<And>a. tx_framed R (f a)"
  shows "tx_framed R (tx_bind m f)"
proof (rule framedI)
  fix s
  obtain r s1 where m: "m s = (r, s1)" by fastforce
  then have "R s s1" using assms(1) by (rule framedD [rotated])
  moreover have "R s1 (snd (f a s1))" for a using assms(2) by (simp add: tx_framed_def)
  ultimately show "R s (snd (tx_bind m f s))"
    using m by (auto simp: tx_bind_def split: sum.split intro: trans)
qed

lemma seq: "tx_framed R m \<Longrightarrow> tx_framed R k \<Longrightarrow> tx_framed R (tx_seq m k)"
  by (simp add: tx_seq_def bind)

lemma when_true: "(p \<Longrightarrow> tx_framed R m) \<Longrightarrow> tx_framed R (tx_when p m)"
  by (simp add: tx_when_def return)

lemma map_error: "tx_framed R m \<Longrightarrow> tx_framed R (tx_map_error g m)"
  by (auto simp: tx_framed_def tx_map_error_def split: prod.split sum.split) (metis snd_conv)+

lemma in_transaction: "tx_framed R m \<Longrightarrow> tx_framed R (InTransaction m)"
  by (auto simp: tx_framed_def InTransaction_def refl split: prod.split sum.split) (metis snd_conv)+

end

text \<open>
  Requests that only read outside their transaction are atomic: when they fail, the store is
  the one they started from.
\<close>

definition tx_pure :: "('s, 'a) tx \<Rightarrow> bool" where
  "tx_pure m \<longleftrightarrow> (\<forall>s. snd (m s) = s)"

definition tx_atomic :: "('s, 'a) tx \<Rightarrow> bool" where
  "tx_atomic m \<longleftrightarrow> (\<forall>s e s'. m s = (Inl e, s') \<longrightarrow> s' = s)"

named_theorems tx_atomic_intros \<open>requests that change nothing when they fail\<close>

lemma tx_atomicD: "tx_atomic m \<Longrightarrow> m s = (Inl e, s') \<Longrightarrow> s' = s"
  by (simp add: tx_atomic_def)

lemma tx_pure_atomic: "tx_pure m \<Longrightarrow> tx_atomic m"
  by (simp add: tx_pure_def tx_atomic_def) (metis snd_conv)

lemma tx_pure_intros [tx_atomic_intros]:
  "tx_pure (tx_return a)" "tx_pure (tx_throw e)" "tx_pure (tx_gets f)" "tx_pure (tx_lift r)" "tx_pure (tx_guard b e)"
  "tx_pure (\<lambda>s. (h s, s))"
  by (simp_all add: tx_pure_def tx_defs)

lemma tx_pure_map_error [tx_atomic_intros]: "tx_pure m \<Longrightarrow> tx_pure (tx_map_error g m)"
  by (auto simp: tx_pure_def tx_map_error_def split: prod.split sum.split) (metis snd_conv)+

lemma tx_pure_bind [tx_atomic_intros]:
  assumes "tx_pure m" "\<And>a. tx_pure (f a)"
  shows "tx_pure (tx_bind m f)"
proof -
  have "snd (tx_bind m f s) = s" for s
  proof (cases "m s")
    case (Pair r s1)
    then have "s1 = s" using assms(1) by (metis tx_pure_def snd_conv)
    then show ?thesis using Pair assms(2) by (auto simp: tx_bind_def tx_pure_def split: sum.split)
  qed
  then show ?thesis by (simp add: tx_pure_def)
qed

lemma tx_atomic_transaction [tx_atomic_intros]: "tx_atomic (InTransaction m)"
  by (auto simp: tx_atomic_def dest: InTransaction_Inl)

lemma tx_atomic_bind [tx_atomic_intros]:
  assumes "tx_pure m" "\<And>a. tx_atomic (f a)"
  shows "tx_atomic (tx_bind m f)"
  unfolding tx_atomic_def
proof (intro allI impI)
  fix s e s' assume r: "tx_bind m f s = (Inl e, s')"
  obtain x s1 where m: "m s = (x, s1)" by fastforce
  then have "s1 = s" using assms(1) by (metis tx_pure_def snd_conv)
  then show "s' = s"
    using r m assms(2) by (cases x) (auto simp: tx_bind_def tx_atomic_def)
qed

lemma tx_atomic_seq [tx_atomic_intros]: "tx_pure m \<Longrightarrow> tx_atomic k \<Longrightarrow> tx_atomic (tx_seq m k)"
  by (simp add: tx_seq_def tx_atomic_bind)

lemma tx_pure_seq [tx_atomic_intros]: "tx_pure m \<Longrightarrow> tx_pure k \<Longrightarrow> tx_pure (tx_seq m k)"
  by (simp add: tx_seq_def tx_pure_bind)

lemma tx_atomic_then_return [tx_atomic_intros]: "tx_atomic m \<Longrightarrow> tx_atomic (tx_bind m (\<lambda>a. tx_return (g a)))"
  by (auto simp: tx_atomic_def tx_bind_def tx_return_def split: prod.splits sum.splits)

subsection \<open>Lists\<close>

lemma find_Some_mem: "List.find p xs = Some x \<Longrightarrow> x \<in> set xs \<and> p x"
  by (induction xs) (auto split: if_splits)

lemma find_only:
  "x \<in> set xs \<Longrightarrow> p x \<Longrightarrow> (\<And>y. y \<in> set xs \<Longrightarrow> p y \<Longrightarrow> y = x) \<Longrightarrow> List.find p xs = Some x"
  by (induction xs) (simp, metis List.find.simps(2) set_ConsD list.set_intros)

lemma by_distinct_key: "distinct (map f xs) \<Longrightarrow> x \<in> set xs \<Longrightarrow> y \<in> set xs \<Longrightarrow> f x = f y \<Longrightarrow> x = y"
  by (auto simp: distinct_map inj_on_def)

end
