(* ===== verification/Go_Values.thy ===== *)
theory Go_Values
  imports Complex_Main Civora_Prelude
begin

section \<open>Dynamically typed values\<close>

text \<open>
  The \<^verbatim>\<open>interface{}\<close> values the rules engine, the forms and the facts documents hold: what
  encoding/json produces (with and without UseNumber) and what Go code puts there. Numbers
  are exact: a float64 is the rational it denotes (\<open>None\<close> for NaN and the infinities), a
  json.Number keeps its literal and is read by \<open>SetString\<close> as big.Rat does. A time.Time is an
  instant in UTC.
\<close>

datatype goval =
    GNil
  | GBool bool
  | GNumber string
  | GInt int
  | GFloat64 "rat option"
  | GInt32 int
  | GFloat32 "rat option"
  | GString string
  | GTime instant
  | GArray "goval list"
  | GObject "(string \<times> goval) list"

text \<open>
  A Go map has no order and no duplicate keys; as an association list its first entry for a
  key is the entry.
\<close>

type_synonym facts = "(string \<times> goval) list"

subsection \<open>Decimal digits\<close>

definition is_digit :: "char \<Rightarrow> bool" where
  "is_digit c \<longleftrightarrow> 48 \<le> (of_char c :: nat) \<and> (of_char c :: nat) \<le> 57"

definition digit_val :: "char \<Rightarrow> nat" where
  "digit_val c = (of_char c :: nat) - 48"

definition digits_val :: "string \<Rightarrow> nat" where
  "digits_val s = foldl (\<lambda>n c. 10 * n + digit_val c) 0 s"

definition digit_char :: "nat \<Rightarrow> char" where
  "digit_char n = char_of (48 + n)"

text \<open>strconv.Itoa on a natural number.\<close>

fun dec_string :: "nat \<Rightarrow> string" where
  "dec_string n = (if n < 10 then [digit_char n] else dec_string (n div 10) @ [digit_char (n mod 10)])"

declare dec_string.simps [simp del]

lemma of_char_digit_char: "n < 10 \<Longrightarrow> (of_char (digit_char n) :: nat) = 48 + n"
  unfolding digit_char_def by simp

lemma digit_char_inj: "a < 10 \<Longrightarrow> b < 10 \<Longrightarrow> digit_char a = digit_char b \<longleftrightarrow> a = b"
  using of_char_digit_char [of a] of_char_digit_char [of b] by (metis add_left_cancel)

lemma digit_val_digit_char [simp]: "n < 10 \<Longrightarrow> digit_val (digit_char n) = n"
  by (simp add: digit_val_def of_char_digit_char)

lemma is_digit_digit_char [simp]: "n < 10 \<Longrightarrow> is_digit (digit_char n)"
  by (simp add: is_digit_def of_char_digit_char)

lemma dec_string_digits: "c \<in> set (dec_string n) \<Longrightarrow> is_digit c"
proof (induction n rule: dec_string.induct)
  case (1 n)
  show ?case
  proof (cases "n < 10")
    case True
    with 1(2) show ?thesis by (simp add: dec_string.simps [of n])
  next
    case False
    with 1(2) have "c \<in> set (dec_string (n div 10)) \<or> c = digit_char (n mod 10)"
      by (auto simp: dec_string.simps [of n])
    with 1(1) [OF False] show ?thesis by auto
  qed
qed

lemma digits_val_snoc: "digits_val (s @ [c]) = 10 * digits_val s + digit_val c"
  by (simp add: digits_val_def)

text \<open>Printing then reading a number gives it back, so printing is injective.\<close>

lemma digits_val_dec_string [simp]: "digits_val (dec_string n) = n"
proof (induction n rule: dec_string.induct)
  case (1 n)
  show ?case
  proof (cases "n < 10")
    case True
    then show ?thesis by (simp add: dec_string.simps [of n] digits_val_def)
  next
    case False
    with 1 have "digits_val (dec_string (n div 10)) = n div 10" by simp
    with False show ?thesis by (subst dec_string.simps) (simp add: digits_val_snoc)
  qed
qed

lemma dec_string_nonempty [simp]: "dec_string n \<noteq> []"
  by (subst dec_string.simps) simp

lemma dec_string_inj: "dec_string a = dec_string b \<longleftrightarrow> a = b"
  by (metis digits_val_dec_string)

subsection \<open>Numbers\<close>

text \<open>
  The literal of a json.Number: an optional minus sign, digits, an optional fraction and an
  optional exponent; big.Rat reads it exactly.
\<close>

definition strip_sign :: "string \<Rightarrow> bool \<times> string" where
  "strip_sign s = (case s of [] \<Rightarrow> (False, []) | c # r \<Rightarrow> if c = CHR ''-'' then (True, r) else (False, s))"

definition strip_fraction :: "string \<Rightarrow> (string \<times> string) option" where
  "strip_fraction s = (case s of [] \<Rightarrow> Some ([], [])
     | c # r \<Rightarrow> if c = CHR ''.''
                then (if takeWhile is_digit r = [] then None
                      else Some (takeWhile is_digit r, dropWhile is_digit r))
                else Some ([], s))"

definition read_exponent :: "string \<Rightarrow> int option" where
  "read_exponent s = (case s of [] \<Rightarrow> Some 0
     | c # r \<Rightarrow> if c = CHR ''e'' \<or> c = CHR ''E''
         then (let plus = (r \<noteq> [] \<and> hd r = CHR ''+'');
                   (neg, ds) = (if plus then (False, tl r) else strip_sign r)
               in if ds \<noteq> [] \<and> list_all is_digit ds
                  then Some (if neg then - int (digits_val ds) else int (digits_val ds))
                  else None)
         else None)"

definition scale10 :: "rat \<Rightarrow> int \<Rightarrow> rat" where
  "scale10 m e = (if e < 0 then m / 10 ^ nat (- e) else m * 10 ^ nat e)"

text \<open>
  The sign, the digits as a number, how many of them are a fraction, and the exponent; the
  number they denote; and what big.Rat makes of them, which refuses an exponent that is no int64
  and, unless the number is zero, a scale of more than a million.
\<close>

definition read_number :: "string \<Rightarrow> (bool \<times> nat \<times> nat \<times> int) option" where
  "read_number s = (let (neg, body) = strip_sign s; ip = takeWhile is_digit body in
     if ip = [] then None
     else (case strip_fraction (dropWhile is_digit body) of
         None \<Rightarrow> None
       | Some (fp, rest) \<Rightarrow>
           map_option (\<lambda>e. (neg, digits_val (ip @ fp), length fp, e)) (read_exponent rest)))"

definition decimal_value :: "bool \<Rightarrow> nat \<Rightarrow> int \<Rightarrow> rat" where
  "decimal_value neg m e = (if neg then - 1 else 1) * scale10 (of_nat m) e"

definition number_value :: "string \<Rightarrow> rat option" where
  "number_value s = map_option (\<lambda>(neg, m, d, e). decimal_value neg m (e - int d)) (read_number s)"

definition SetString :: "string \<Rightarrow> rat option" where
  "SetString s = (case read_number s of
     None \<Rightarrow> None
   | Some (neg, m, d, e) \<Rightarrow>
       if e < - (2 ^ 63) \<or> 2 ^ 63 \<le> e then None
       else if m = 0 then Some 0
       else if 1000000 < \<bar>e - int d\<bar> then None
       else Some (decimal_value neg m (e - int d)))"

text \<open>isNumber / isJSONNumber of engine.go and rule.go, and toRat.\<close>

definition isNumber :: "goval \<Rightarrow> bool" where
  "isNumber v = (case v of GNumber _ \<Rightarrow> True | GInt _ \<Rightarrow> True | GFloat64 _ \<Rightarrow> True
     | GInt32 _ \<Rightarrow> True | GFloat32 _ \<Rightarrow> True | _ \<Rightarrow> False)"

definition isJSONNumber :: "goval \<Rightarrow> bool" where
  "isJSONNumber v = (case v of GNumber _ \<Rightarrow> True | GInt _ \<Rightarrow> True | GFloat64 _ \<Rightarrow> True
     | GInt32 _ \<Rightarrow> True | GFloat32 _ \<Rightarrow> True | _ \<Rightarrow> False)"

definition isJSONObject :: "goval \<Rightarrow> bool" where
  "isJSONObject v = (case v of GObject _ \<Rightarrow> True | _ \<Rightarrow> False)"

definition isJSONArray :: "goval \<Rightarrow> bool" where
  "isJSONArray v = (case v of GArray _ \<Rightarrow> True | _ \<Rightarrow> False)"

definition isStringType :: "goval \<Rightarrow> bool" where
  "isStringType v = (case v of GString _ \<Rightarrow> True | _ \<Rightarrow> False)"

definition isBoolean :: "goval \<Rightarrow> bool" where
  "isBoolean v = (case v of GBool _ \<Rightarrow> True | _ \<Rightarrow> False)"

definition isNull :: "goval \<Rightarrow> bool" where
  "isNull v \<longleftrightarrow> v = GNil"

definition toRat :: "goval \<Rightarrow> rat option" where
  "toRat v = (case v of
     GNumber n \<Rightarrow> SetString n
   | GInt n \<Rightarrow> Some (of_int n)
   | GFloat64 r \<Rightarrow> r
   | GString s \<Rightarrow> SetString s
   | _ \<Rightarrow> None)"

lemmas goval_tests = isNumber_def isJSONNumber_def isJSONObject_def isJSONArray_def
  isStringType_def isBoolean_def isNull_def

end
