(* ===== verification/Rule_Temporal.thy ===== *)
theory Rule_Temporal
  imports Go_Values
begin

section \<open>Dates and date-times of the rules engine\<close>

text \<open>
  parseTemporal of src/internal/rules/domain/trace.go and the two recognisers beside it. A
  value is accepted when time.Parse reads it and Format prints it back unchanged, so the
  accepted strings are exactly \<open>YYYY-MM-DD\<close> and \<open>YYYY-MM-DDThh:mm:ss\<close> with \<open>Z\<close> or a
  non-zero numeric offset, every field in range; the value is the instant in UTC.
\<close>

subsection \<open>The calendar of package time\<close>

definition is_leap :: "nat \<Rightarrow> bool" where
  "is_leap y \<longleftrightarrow> y mod 4 = 0 \<and> (y mod 100 \<noteq> 0 \<or> y mod 400 = 0)"

definition days_in_month :: "nat \<Rightarrow> nat \<Rightarrow> nat" where
  "days_in_month y m =
     (if m = 2 then (if is_leap y then 29 else 28)
      else if m \<in> {4, 6, 9, 11} then 30 else 31)"

text \<open>Days before the first of January of year \<open>y\<close>, counted from year 0, and before a month.\<close>

fun days_before_year :: "nat \<Rightarrow> nat" where
  "days_before_year y = 365 * y + (y + 3) div 4 - (y + 99) div 100 + (y + 399) div 400"

primrec days_before_month :: "nat \<Rightarrow> nat \<Rightarrow> nat" where
  "days_before_month y 0 = 0"
| "days_before_month y (Suc m) = days_before_month y m + (if m = 0 then 0 else days_in_month y m)"

definition epoch_days :: nat where
  "epoch_days = 719528"

definition valid_date :: "nat \<Rightarrow> nat \<Rightarrow> nat \<Rightarrow> bool" where
  "valid_date y m d \<longleftrightarrow> 1 \<le> m \<and> m \<le> 12 \<and> 1 \<le> d \<and> d \<le> days_in_month y m"

definition day_number :: "nat \<Rightarrow> nat \<Rightarrow> nat \<Rightarrow> nat" where
  "day_number y m d = days_before_year y + days_before_month y m + (d - 1)"

subsection \<open>Reading\<close>

definition num2 :: "char \<Rightarrow> char \<Rightarrow> nat option" where
  "num2 a b = (if is_digit a \<and> is_digit b then Some (10 * digit_val a + digit_val b) else None)"

definition num4 :: "char \<Rightarrow> char \<Rightarrow> char \<Rightarrow> char \<Rightarrow> nat option" where
  "num4 a b c d = (if is_digit a \<and> is_digit b \<and> is_digit c \<and> is_digit d
     then Some (1000 * digit_val a + 100 * digit_val b + 10 * digit_val c + digit_val d) else None)"

definition parse_date :: "string \<Rightarrow> (nat \<times> nat \<times> nat) option" where
  "parse_date s = (case s of
     [y1, y2, y3, y4, s1, m1, m2, s2, d1, d2] \<Rightarrow>
       (case (num4 y1 y2 y3 y4, num2 m1 m2, num2 d1 d2) of
          (Some y, Some m, Some d) \<Rightarrow>
            if s1 = CHR ''-'' \<and> s2 = CHR ''-'' \<and> valid_date y m d then Some (y, m, d) else None
        | _ \<Rightarrow> None)
   | _ \<Rightarrow> None)"

definition parse_clock :: "string \<Rightarrow> (nat \<times> nat \<times> nat) option" where
  "parse_clock s = (case s of
     [h1, h2, c1, m1, m2, c2, s1, s2] \<Rightarrow>
       (case (num2 h1 h2, num2 m1 m2, num2 s1 s2) of
          (Some h, Some m, Some sec) \<Rightarrow>
            if c1 = CHR '':'' \<and> c2 = CHR '':'' \<and> h < 24 \<and> m < 60 \<and> sec < 60
            then Some (h, m, sec) else None
        | _ \<Rightarrow> None)
   | _ \<Rightarrow> None)"

text \<open>The offset in seconds: \<open>Z\<close>, or a signed \<open>hh:mm\<close> that is not zero (Format prints \<open>Z\<close> then).\<close>

definition parse_zone :: "string \<Rightarrow> int option" where
  "parse_zone s = (case s of
     [z] \<Rightarrow> if z = CHR ''Z'' then Some 0 else None
   | [sg, h1, h2, c, m1, m2] \<Rightarrow>
       (case (num2 h1 h2, num2 m1 m2) of
          (Some h, Some m) \<Rightarrow>
            if c = CHR '':'' \<and> h \<le> 24 \<and> m < 60 \<and> 0 < h + m \<and> (sg = CHR ''+'' \<or> sg = CHR ''-'')
            then Some ((if sg = CHR ''-'' then - 1 else 1) * int (3600 * h + 60 * m)) else None
        | _ \<Rightarrow> None)
   | _ \<Rightarrow> None)"

definition nanos :: "int \<Rightarrow> instant" where
  "nanos sec = 1000000000 * sec"

definition instant_of :: "nat \<times> nat \<times> nat \<Rightarrow> nat \<times> nat \<times> nat \<Rightarrow> int \<Rightarrow> instant" where
  "instant_of dt clk off = (case dt of (y, m, d) \<Rightarrow> case clk of (h, mi, sec) \<Rightarrow>
     nanos (86400 * (int (day_number y m d) - int epoch_days)
            + int (3600 * h + 60 * mi + sec) - off))"

definition isRFC3339Date :: "string \<Rightarrow> bool" where
  "isRFC3339Date s \<longleftrightarrow> parse_date s \<noteq> None"

definition parse_datetime :: "string \<Rightarrow> instant option" where
  "parse_datetime s =
     (if length s \<ge> 20 \<and> s ! 10 = CHR ''T''
      then (case (parse_date (take 10 s), parse_clock (take 8 (drop 11 s)), parse_zone (drop 19 s)) of
              (Some dt, Some clk, Some off) \<Rightarrow> Some (instant_of dt clk off)
            | _ \<Rightarrow> None)
      else None)"

definition isRFC3339DateTime :: "string \<Rightarrow> bool" where
  "isRFC3339DateTime s \<longleftrightarrow> parse_datetime s \<noteq> None"

definition parseTemporal :: "string \<Rightarrow> instant option" where
  "parseTemporal s = (case parse_date s of
     Some dt \<Rightarrow> Some (instant_of dt (0, 0, 0) 0)
   | None \<Rightarrow> parse_datetime s)"

subsection \<open>The calendar is monotone\<close>

text \<open>
  Day numbers order dates lexicographically, and the printed form of a date orders like it.
\<close>

lemma div_step: "0 < k \<Longrightarrow> (Suc y + (k - 1)) div k = (y + (k - 1)) div k + (if y mod k = 0 then 1 else 0)"
  for k y :: nat
proof -
  assume "0 < k"
  then have "Suc (y + (k - 1)) = y + k" by simp
  then have "Suc (y + (k - 1)) mod k = y mod k" by (metis mod_add_self2)
  with div_Suc [of "y + (k - 1)" k] show ?thesis by simp
qed

lemma leap_arith:
  fixes A B C y :: nat
  assumes "B \<le> 365 * y + A" "q400 \<Longrightarrow> q100" "q100 \<Longrightarrow> q4"
  shows "365 * Suc y + (A + (if q4 then 1 else 0)) - (B + (if q100 then 1 else 0)) + (C + (if q400 then 1 else 0))
    = 365 * y + A - B + C + 365 + (if q4 \<and> (\<not> q100 \<or> q400) then 1 else 0)"
  using assms by (cases q4; cases q100; cases q400; simp)

lemma year_step: "days_before_year (Suc y) = days_before_year y + 365 + (if is_leap y then 1 else 0)"
proof -
  define A B C where "A = (y + 3) div 4" and "B = (y + 99) div 100" and "C = (y + 399) div 400"
  have le: "B \<le> 365 * y + A" unfolding A_def B_def by linarith
  have s: "(Suc y + 3) div 4 = A + (if y mod 4 = 0 then 1 else 0)"
    "(Suc y + 99) div 100 = B + (if y mod 100 = 0 then 1 else 0)"
    "(Suc y + 399) div 400 = C + (if y mod 400 = 0 then 1 else 0)"
    using div_step [of 4 y] div_step [of 100 y] div_step [of 400 y] by (simp_all add: A_def B_def C_def)
  have m: "y mod 400 = 0 \<Longrightarrow> y mod 100 = 0" "y mod 100 = 0 \<Longrightarrow> y mod 4 = 0"
    using mod_mod_cancel [of 100 400 y] mod_mod_cancel [of 4 100 y] by simp_all
  have e1: "days_before_year (Suc y) = 365 * Suc y + (A + (if y mod 4 = 0 then 1 else 0))
      - (B + (if y mod 100 = 0 then 1 else 0)) + (C + (if y mod 400 = 0 then 1 else 0))"
    unfolding days_before_year.simps s ..
  have e2: "days_before_year y = 365 * y + A - B + C"
    unfolding days_before_year.simps A_def B_def C_def ..
  show ?thesis unfolding is_leap_def by (simp only: e1 e2 leap_arith [OF le m])
qed

lemma months: "days_before_month y 12 + days_in_month y 12 = 365 + (if is_leap y then 1 else 0)"
  by (simp add: numeral_eq_Suc days_in_month_def)
lemma dbm_mono: "m \<le> n \<Longrightarrow> days_before_month y m \<le> days_before_month y n"
  by (induction n) (auto simp: le_Suc_eq)
lemma month_step: "1 \<le> m \<Longrightarrow> m < n \<Longrightarrow> days_before_month y m + days_in_month y m \<le> days_before_month y n"
  using dbm_mono [of "Suc m" n y] by auto
lemma year_mono: "y < y' \<Longrightarrow> days_before_year (Suc y) \<le> days_before_year y'"
proof (induction y')
  case (Suc y')
  then show ?case using year_step [of y'] by (cases "y = y'") (auto simp del: days_before_year.simps)
qed simp

definition date_less :: "nat \<times> nat \<times> nat \<Rightarrow> nat \<times> nat \<times> nat \<Rightarrow> bool" where
  "date_less a b = (case a of (y, m, d) \<Rightarrow> case b of (y', m', d') \<Rightarrow>
     y < y' \<or> y = y' \<and> (m < m' \<or> m = m' \<and> d < d'))"

lemma day_number_less:
  assumes "valid_date y m d" "valid_date y' m' d'" "date_less (y, m, d) (y', m', d')"
  shows "day_number y m d < day_number y' m' d'"
proof -
  have d: "1 \<le> d" "d \<le> days_in_month y m" "1 \<le> m" "m \<le> 12" "1 \<le> d'" "1 \<le> m'"
    using assms by (auto simp: valid_date_def)
  consider "y < y'" | "y = y'" "m < m'" | "y = y'" "m = m'" "d < d'"
    using assms(3) by (auto simp: date_less_def)
  then show ?thesis
  proof cases
    case 1
    have "days_before_month y m + d \<le> 365 + (if is_leap y then 1 else 0)"
    proof (cases "m = 12")
      case True
      with d months [of y] show ?thesis by simp
    next
      case False
      with d month_step [of m 12 y] months [of y] show ?thesis by auto
    qed
    with 1 d year_step [of y] year_mono [OF 1] show ?thesis
      by (auto simp: day_number_def simp del: days_before_year.simps)
  next
    case 2
    with d month_step [of m m' y] show ?thesis
      by (auto simp: day_number_def simp del: days_before_year.simps)
  next
    case 3
    with d show ?thesis by (auto simp: day_number_def)
  qed
qed

lemma day_number_less_iff:
  assumes "valid_date y m d" "valid_date y' m' d'"
  shows "day_number y m d < day_number y' m' d' \<longleftrightarrow> date_less (y, m, d) (y', m', d')"
proof -
  consider "date_less (y, m, d) (y', m', d')" | "y = y'" "m = m'" "d = d'" | "date_less (y', m', d') (y, m, d)"
    by (auto simp: date_less_def) linarith
  then show ?thesis
  proof cases
    case 1
    with day_number_less [OF assms] show ?thesis by simp
  next
    case 2
    then show ?thesis by (simp add: date_less_def)
  next
    case 3
    with day_number_less [OF assms(2,1)] have "\<not> day_number y m d < day_number y' m' d'" by simp
    moreover from 3 have "\<not> date_less (y, m, d) (y', m', d')" by (auto simp: date_less_def)
    ultimately show ?thesis by simp
  qed
qed

lemma digit_less: "is_digit a \<Longrightarrow> is_digit b \<Longrightarrow> a < b \<longleftrightarrow> digit_val a < digit_val b"
  by (auto simp: is_digit_def digit_val_def less_char_def)
lemma digit_eq: "is_digit a \<Longrightarrow> is_digit b \<Longrightarrow> a = b \<longleftrightarrow> digit_val a = digit_val b"
  by (metis digit_less less_irrefl linorder_neqE)
lemma digit_le: "is_digit a \<Longrightarrow> digit_val a \<le> 9"
  by (auto simp: is_digit_def digit_val_def)

lemma parse_date_shape:
  "parse_date s = Some (y, m, d) \<Longrightarrow> valid_date y m d \<and> (\<exists>y1 y2 y3 y4 m1 m2 d1 d2.
     s = [y1, y2, y3, y4, CHR ''-'', m1, m2, CHR ''-'', d1, d2]
     \<and> list_all is_digit [y1, y2, y3, y4, m1, m2, d1, d2]
     \<and> y = 1000 * digit_val y1 + 100 * digit_val y2 + 10 * digit_val y3 + digit_val y4
     \<and> m = 10 * digit_val m1 + digit_val m2 \<and> d = 10 * digit_val d1 + digit_val d2)"
  by (auto simp: parse_date_def num2_def num4_def split: list.splits if_splits option.splits)

lemma lex_snoc: "b \<le> 9 \<Longrightarrow> b' \<le> (9::nat) \<Longrightarrow>
   10 * a + b < 10 * a' + b' \<longleftrightarrow> a < a' \<or> a = a' \<and> b < b'" by linarith
lemma eq_snoc: "b \<le> 9 \<Longrightarrow> b' \<le> (9::nat) \<Longrightarrow>
   10 * a + b = 10 * a' + b' \<longleftrightarrow> a = a' \<and> b = b'"
  by (cases a a' rule: linorder_cases) (auto dest: less_imp_add_positive)
lemma horner4: "1000 * a + 100 * b + 10 * c + d = 10 * (10 * (10 * a + b) + c) + (d::nat)" by simp

lemma date_less_string:
  assumes "parse_date s = Some dt" "parse_date s' = Some dt'"
  shows "date_less dt dt' \<longleftrightarrow> s < s'"
  proof -
  obtain y m d where dt: "dt = (y, m, d)" using prod_cases3 by blast
  obtain y' m' d' where dt': "dt' = (y', m', d')" using prod_cases3 by blast
  obtain y1 y2 y3 y4 m1 m2 d1 d2 where s: "s = [y1, y2, y3, y4, CHR ''-'', m1, m2, CHR ''-'', d1, d2]"
    and g: "is_digit y1" "is_digit y2" "is_digit y3" "is_digit y4" "is_digit m1" "is_digit m2" "is_digit d1" "is_digit d2"
    and v: "y = 1000 * digit_val y1 + 100 * digit_val y2 + 10 * digit_val y3 + digit_val y4"
      "m = 10 * digit_val m1 + digit_val m2" "d = 10 * digit_val d1 + digit_val d2"
    using parse_date_shape [OF assms(1) [unfolded dt]] by (auto simp del: One_nat_def)
  obtain z1 z2 z3 z4 n1 n2 e1 e2 where s': "s' = [z1, z2, z3, z4, CHR ''-'', n1, n2, CHR ''-'', e1, e2]"
    and g': "is_digit z1" "is_digit z2" "is_digit z3" "is_digit z4" "is_digit n1" "is_digit n2" "is_digit e1" "is_digit e2"
    and v': "y' = 1000 * digit_val z1 + 100 * digit_val z2 + 10 * digit_val z3 + digit_val z4"
      "m' = 10 * digit_val n1 + digit_val n2" "d' = 10 * digit_val e1 + digit_val e2"
    using parse_date_shape [OF assms(2) [unfolded dt']] by auto
  note le = g [THEN digit_le] g' [THEN digit_le]
  show ?thesis unfolding dt dt' s s' v v' date_less_def prod.case horner4
    by (simp only: lex_snoc eq_snoc le digit_less digit_eq g g' Cons_less_Cons order.irrefl
        less_irrefl simp_thms conj_assoc disj_assoc conj_disj_distribL not_less_Nil) blast?
qed

text \<open>The instants of the years 0 to 9999, the ones the format prints with four year digits.\<close>

definition four_digit_year :: "instant \<Rightarrow> bool" where
  "four_digit_year t \<longleftrightarrow> - (86400 * int epoch_days) \<le> t div 1000000000
     \<and> t div 1000000000 < 86400 * (int (days_before_year 10000) - int epoch_days)"

end
