(* ===== verification/Rule_Conditions.thy ===== *)
theory Rule_Conditions
  imports Rule_Temporal
begin

section \<open>Rule sets and their validation\<close>

text \<open>
  The data of src/internal/rules/domain/types.go, the condition trees of rule.go with their
  validation, and the rule-set validation and cloning of rule_set.go. Package regexp is the
  parameter \<open>re\<close>: regexp.Compile gives the matcher of a pattern, or nothing when the pattern
  does not compile. Error messages are the format strings of the source without their
  arguments.
\<close>

type_synonym regexp = "string \<Rightarrow> (string \<Rightarrow> bool) option"

subsection \<open>Operators and outcomes\<close>

datatype Operator =
    OpEqual | OpNotEqual | OpGreaterThan | OpGreaterThanEqual | OpLessThan | OpLessThanEqual
  | OpIn | OpNotIn | OpIs | OpIsNot | OpExists | OpNotExists | OpContains | OpMatches
  | OpBefore | OpAfter | OpOnOrBefore | OpOnOrAfter | OpOther string

datatype Outcome =
    OutcomeEligible | OutcomeIneligible | OutcomeRequiresReview | OutcomeInformationRequired
  | OutcomeFlag | OutcomeScore | OutcomeError | OutcomeOther string

datatype EvaluationStatus =
    StatusEligible | StatusIneligible | StatusRequiresReview | StatusInformationRequired
  | StatusFlag | StatusScore | StatusError

datatype RuleSetStatus = StatusDraft | StatusPublished | StatusArchived

datatype Trigger = TriggerManual | TriggerAutomatic | TriggerOther string

definition IsValidOutcome :: "Outcome \<Rightarrow> bool" where
  "IsValidOutcome o' = (case o' of OutcomeOther _ \<Rightarrow> False | _ \<Rightarrow> True)"

definition IsValidOperator :: "Operator \<Rightarrow> bool" where
  "IsValidOperator op = (case op of OpOther _ \<Rightarrow> False | _ \<Rightarrow> True)"

definition operator_string :: "Operator \<Rightarrow> string" where
  "operator_string op = (case op of
     OpEqual \<Rightarrow> ''eq'' | OpNotEqual \<Rightarrow> ''neq'' | OpGreaterThan \<Rightarrow> ''gt''
   | OpGreaterThanEqual \<Rightarrow> ''gte'' | OpLessThan \<Rightarrow> ''lt'' | OpLessThanEqual \<Rightarrow> ''lte''
   | OpIn \<Rightarrow> ''in'' | OpNotIn \<Rightarrow> ''not_in'' | OpIs \<Rightarrow> ''is'' | OpIsNot \<Rightarrow> ''is_not''
   | OpExists \<Rightarrow> ''exists'' | OpNotExists \<Rightarrow> ''not_exists'' | OpContains \<Rightarrow> ''contains''
   | OpMatches \<Rightarrow> ''matches'' | OpBefore \<Rightarrow> ''before'' | OpAfter \<Rightarrow> ''after''
   | OpOnOrBefore \<Rightarrow> ''on_or_before'' | OpOnOrAfter \<Rightarrow> ''on_or_after'' | OpOther s \<Rightarrow> s)"

definition numericOperators :: "Operator \<Rightarrow> bool" where
  "numericOperators op \<longleftrightarrow> op \<in> {OpGreaterThan, OpGreaterThanEqual, OpLessThan, OpLessThanEqual}"

definition membershipOperators :: "Operator \<Rightarrow> bool" where
  "membershipOperators op \<longleftrightarrow> op \<in> {OpIn, OpNotIn}"

definition booleanOperators :: "Operator \<Rightarrow> bool" where
  "booleanOperators op \<longleftrightarrow> op \<in> {OpIs, OpIsNot}"

definition existenceOperators :: "Operator \<Rightarrow> bool" where
  "existenceOperators op \<longleftrightarrow> op \<in> {OpExists, OpNotExists}"

definition stringOperators :: "Operator \<Rightarrow> bool" where
  "stringOperators op \<longleftrightarrow> op \<in> {OpContains, OpMatches}"

definition temporalOperators :: "Operator \<Rightarrow> bool" where
  "temporalOperators op \<longleftrightarrow> op \<in> {OpBefore, OpAfter, OpOnOrBefore, OpOnOrAfter}"

lemmas operator_classes = numericOperators_def membershipOperators_def booleanOperators_def
  existenceOperators_def stringOperators_def temporalOperators_def

definition OperatorCategory :: "Operator \<Rightarrow> string" where
  "OperatorCategory op =
     (if numericOperators op then ''numeric''
      else if membershipOperators op then ''membership''
      else if booleanOperators op then ''boolean''
      else if existenceOperators op then ''existence''
      else if stringOperators op then ''string''
      else if temporalOperators op then ''temporal''
      else if op = OpEqual \<or> op = OpNotEqual then ''equality''
      else ''unknown'')"

subsection \<open>Conditions, rules and rule sets\<close>

text \<open>
  A condition carries the leaf fields and the group fields side by side, as the Go struct
  does; \<open>IsLeaf\<close> and \<open>IsGroup\<close> tell which ones count.
\<close>

datatype Condition =
  Condition (cond_Field: string) (cond_Operator: Operator) (cond_Value: goval)
    (cond_All: "Condition list") (cond_Any: "Condition list") (cond_Not: "Condition option")

definition IsLeaf :: "Condition \<Rightarrow> bool" where
  "IsLeaf c \<longleftrightarrow> cond_Field c \<noteq> []"

definition IsGroup :: "Condition \<Rightarrow> bool" where
  "IsGroup c \<longleftrightarrow> 0 < length (cond_All c) \<or> 0 < length (cond_Any c) \<or> cond_Not c \<noteq> None"

record Rule =
  rule_ID :: uuid
  Priority :: int
  rule_Outcome :: Outcome
  Conditions :: Condition
  rule_Active :: bool
  rule_CreatedAt :: instant

record RuleSet =
  rs_ID :: uuid
  rs_OrganizationID :: uuid
  rs_CaseID :: "uuid option"
  rs_Key :: string
  rs_Name :: string
  rs_Description :: string
  rs_Version :: int
  rs_Status :: RuleSetStatus
  DefaultOutcome :: Outcome
  Rules :: "Rule list"
  Triggers :: "string list"
  rs_CreatedBy :: uuid
  rs_CreatedAt :: instant
  rs_UpdatedAt :: instant

subsection \<open>Fact paths\<close>

text \<open>
  splitFactPath: dots separate segments outside brackets, empty segments are dropped. The
  loop carries the segment being built and whether a bracket is open.
\<close>

fun split_path :: "string \<Rightarrow> string \<Rightarrow> bool \<Rightarrow> string list" where
  "split_path [] cur inb = (if cur = [] then [] else [cur])"
| "split_path (r # rs) cur inb =
     (if r = CHR ''['' then split_path rs (cur @ [r]) True
      else if r = CHR '']'' then split_path rs (cur @ [r]) False
      else if r = CHR ''.'' \<and> \<not> inb
        then (if cur \<noteq> [] then cur # split_path rs [] inb else split_path rs [] inb)
      else split_path rs (cur @ [r]) inb)"

definition splitFactPath :: "string \<Rightarrow> string list" where
  "splitFactPath path = split_path path [] False"

definition isValidFactPath :: "string \<Rightarrow> bool" where
  "isValidFactPath path =
     (if path = [] \<or> 256 < length path then False
      else list_all (\<lambda>seg. seg \<noteq> []) (splitFactPath path))"

subsection \<open>Validation of conditions\<close>

definition ErrInvalidOperator :: go_error where "ErrInvalidOperator = Err ''invalid operator''"
definition ErrTypeMismatch :: go_error where "ErrTypeMismatch = Err ''type mismatch in condition''"
definition ErrMaxDepthExceeded :: go_error where
  "ErrMaxDepthExceeded = Err ''maximum condition nesting depth exceeded''"
definition ErrInvalidFactPath :: go_error where "ErrInvalidFactPath = Err ''invalid fact path''"
definition ErrDuplicateRulePriority :: go_error where
  "ErrDuplicateRulePriority = Err ''duplicate rule priority''"

definition MaxConditionNestingDepth :: nat where "MaxConditionNestingDepth = 10"
definition MaxConditionsPerRuleSet :: nat where "MaxConditionsPerRuleSet = 500"
definition MaxRulesPerRuleSet :: nat where "MaxRulesPerRuleSet = 100"

text \<open>
  The branch for \<^verbatim>\<open>op == OpMatches\<close> comes after the one for the string operators, which
  contain it, exactly as in the source.
\<close>

definition validateValueForOperator :: "regexp \<Rightarrow> Operator \<Rightarrow> goval \<Rightarrow> go_error option" where
  "validateValueForOperator re op val =
     (if numericOperators op then
        (if isJSONNumber val then None
         else Some (Wrap ''operator requires a numeric value'' ErrTypeMismatch))
      else if membershipOperators op then
        (case val of
           GArray arr \<Rightarrow>
             (if list_ex (\<lambda>e. isJSONObject e \<or> isJSONArray e) arr
              then Some (Wrap ''array element must not be object/array'' ErrTypeMismatch) else None)
         | _ \<Rightarrow> Some (Wrap ''operator requires an array value'' ErrTypeMismatch))
      else if booleanOperators op then
        (if isBoolean val then None
         else Some (Wrap ''operator requires a boolean value'' ErrTypeMismatch))
      else if stringOperators op then
        (if isStringType val then None
         else Some (Wrap ''operator requires a string value'' ErrTypeMismatch))
      else if temporalOperators op then
        (case val of
           GString s \<Rightarrow>
             (case parseTemporal s of
                Some _ \<Rightarrow> None
              | None \<Rightarrow> Some (Wrap ''operator requires a valid RFC3339 date or date-time value''
                                ErrInvalidOperator))
         | _ \<Rightarrow> Some (Wrap ''operator requires a string value'' ErrTypeMismatch))
      else if op = OpMatches then
        (case val of
           GString p \<Rightarrow>
             (case re p of
                Some _ \<Rightarrow> None
              | None \<Rightarrow> Some (Wrap ''invalid regex pattern for matches'' ErrInvalidOperator))
         | _ \<Rightarrow> Some (Wrap ''operator requires a string value'' ErrTypeMismatch))
      else
        (if isJSONObject val \<or> isJSONArray val
         then Some (Wrap ''operator requires a scalar value'' ErrTypeMismatch) else None))"

definition validateLeaf :: "regexp \<Rightarrow> string \<Rightarrow> Operator \<Rightarrow> goval \<Rightarrow> go_error option" where
  "validateLeaf re f op v =
     (if f = [] then Some (Err ''leaf condition requires a field'')
      else if \<not> IsValidOperator op then Some (Wrap ''invalid operator'' ErrInvalidOperator)
      else if \<not> isValidFactPath f then Some (Wrap ''invalid fact path'' ErrInvalidFactPath)
      else if existenceOperators op then None
      else if v = GNil then Some (Err ''condition value is required for operator'')
      else validateValueForOperator re op v)"

definition group_count :: "Condition list \<Rightarrow> Condition list \<Rightarrow> Condition option \<Rightarrow> nat" where
  "group_count al an nt = (if 0 < length al then 1 else 0) + (if 0 < length an then 1 else 0)
     + (if nt \<noteq> None then 1 else 0)"

fun ValidateCondition :: "regexp \<Rightarrow> Condition \<Rightarrow> nat \<Rightarrow> go_error option"
and ValidateConditions :: "regexp \<Rightarrow> Condition list \<Rightarrow> nat \<Rightarrow> go_error option" where
  "ValidateCondition re (Condition f op v al an nt) depth =
     (if MaxConditionNestingDepth < depth then Some ErrMaxDepthExceeded
      else if f \<noteq> [] then validateLeaf re f op v
      else if 0 < length al \<or> 0 < length an \<or> nt \<noteq> None then
        (if group_count al an nt \<noteq> 1
         then Some (Err ''group condition must define exactly one of all/any/not'')
         else (case ValidateConditions re al (depth + 1) of
                 Some e \<Rightarrow> Some e
               | None \<Rightarrow>
                   (case ValidateConditions re an (depth + 1) of
                      Some e \<Rightarrow> Some e
                    | None \<Rightarrow>
                        (case nt of
                           None \<Rightarrow> None
                         | Some n \<Rightarrow> ValidateCondition re n (depth + 1)))))
      else Some (Err ''condition must be a leaf or a group''))"
| "ValidateConditions re [] depth = None"
| "ValidateConditions re (c # cs) depth =
     (case ValidateCondition re c depth of
        Some e \<Rightarrow> Some e
      | None \<Rightarrow> ValidateConditions re cs depth)"

text \<open>Clone of a condition tree: a deep copy, so the same value.\<close>

primrec Condition_Clone :: "Condition \<Rightarrow> Condition" where
  "Condition_Clone (Condition f op v al an nt) =
     Condition f op v (map Condition_Clone al) (map Condition_Clone an) (map_option Condition_Clone nt)"

fun countConditions :: "Condition \<Rightarrow> nat" where
  "countConditions (Condition f op v al an nt) =
     (if f \<noteq> [] then 1
      else sum_list (map countConditions al) + sum_list (map countConditions an)
           + (case nt of None \<Rightarrow> 0 | Some n \<Rightarrow> countConditions n))"

subsection \<open>Validation of rule sets\<close>

definition validate_rule :: "regexp \<Rightarrow> Rule \<Rightarrow> int list \<Rightarrow> go_error list" where
  "validate_rule re r seen =
     (if Priority r < 0 then [Err ''priority must be >= 0''] else [])
     @ (if \<not> IsValidOutcome (rule_Outcome r) then [Err ''invalid outcome''] else [])
     @ (if \<not> IsValidOperator (cond_Operator (Conditions r)) \<and> \<not> IsGroup (Conditions r)
           \<and> \<not> IsLeaf (Conditions r) then [Err ''condition must be leaf or group''] else [])
     @ (case ValidateCondition re (Conditions r) 0 of Some e \<Rightarrow> [Wrap ''rule'' e] | None \<Rightarrow> [])
     @ (if Priority r \<in> set seen then [ErrDuplicateRulePriority] else [])"

fun validate_rules :: "regexp \<Rightarrow> Rule list \<Rightarrow> int list \<Rightarrow> go_error list" where
  "validate_rules re [] seen = []"
| "validate_rules re (r # rs) seen = validate_rule re r seen @ validate_rules re rs (Priority r # seen)"

definition rule_set_errors :: "regexp \<Rightarrow> RuleSet \<Rightarrow> go_error list" where
  "rule_set_errors re rs =
     (if rs_OrganizationID rs = uuid_nil then [Err ''organization_id is required''] else [])
     @ (if rs_Key rs = [] then [Err ''key is required''] else [])
     @ (if rs_Name rs = [] then [Err ''name is required''] else [])
     @ (if rs_Version rs < 1 then [Err ''version must be >= 1''] else [])
     @ (if \<not> IsValidOutcome (DefaultOutcome rs) then [Err ''invalid default_outcome''] else [])
     @ (if MaxRulesPerRuleSet < length (Rules rs) then [Err ''too many rules''] else [])
     @ validate_rules re (Rules rs) []
     @ (if MaxConditionsPerRuleSet < sum_list (map (countConditions \<circ> Conditions) (Rules rs))
        then [Err ''too many total conditions''] else [])"

definition ValidateRuleSet :: "regexp \<Rightarrow> RuleSet \<Rightarrow> go_error option" where
  "ValidateRuleSet re rs =
     (if rule_set_errors re rs \<noteq> [] then Some (Err ''rule set validation failed'') else None)"

subsection \<open>Construction and versioning\<close>

definition validateKey :: "string \<Rightarrow> go_error option" where
  "validateKey key = (if key = [] then Some (Err ''key is required'')
     else if 100 < length key then Some (Err ''key exceeds maximum length of 100 characters'')
     else None)"

definition validateName :: "string \<Rightarrow> go_error option" where
  "validateName name = (if 200 < length name
     then Some (Err ''name exceeds maximum length of 200 characters'') else None)"

definition validateDescription :: "string \<Rightarrow> go_error option" where
  "validateDescription desc = (if 2000 < length desc
     then Some (Err ''description exceeds maximum length of 2000 characters'') else None)"

definition ValidateOutcome :: "Outcome \<Rightarrow> go_error option" where
  "ValidateOutcome o' = (if IsValidOutcome o' then None else Some (Err ''invalid default_outcome''))"

definition check :: "go_error option \<Rightarrow> go_error + 'a \<Rightarrow> go_error + 'a" where
  "check oe k = (case oe of Some e \<Rightarrow> Inl e | None \<Rightarrow> k)"

definition NewRuleSet :: "regexp \<Rightarrow> ctx \<Rightarrow> uuid option \<Rightarrow> uuid option \<Rightarrow> string \<Rightarrow> string \<Rightarrow> string
    \<Rightarrow> Outcome \<Rightarrow> Rule list \<Rightarrow> string list \<Rightarrow> uuid \<Rightarrow> go_error + RuleSet" where
  "NewRuleSet re c orgID caseID key name description defaultOutcome rules triggers createdBy =
     (case orgID of
        None \<Rightarrow> Inl (Err ''organization_id is required'')
      | Some org \<Rightarrow>
          if org = uuid_nil then Inl (Err ''organization_id is required'')
          else check (validateKey key)
            (if name = [] then Inl (Err ''name is required'')
             else check (validateName name) (check (validateDescription description)
               (check (ValidateOutcome defaultOutcome)
                 (let rs = \<lparr>rs_ID = ctx_uuid c 0, rs_OrganizationID = org,
                     rs_CaseID = (case caseID of Some i \<Rightarrow> if i \<noteq> uuid_nil then Some i else None
                                  | None \<Rightarrow> None),
                     rs_Key = key, rs_Name = name, rs_Description = description, rs_Version = 1,
                     rs_Status = StatusDraft, DefaultOutcome = defaultOutcome, Rules = rules,
                     Triggers = triggers, rs_CreatedBy = createdBy, rs_CreatedAt = ctx_time c 0,
                     rs_UpdatedAt = ctx_time c 0\<rparr>
                  in check (ValidateRuleSet re rs) (Inr rs))))))"

text \<open>Clone of a rule set: every rule gets a fresh id, the version is the next one.\<close>

fun clone_rules :: "ctx \<Rightarrow> nat \<Rightarrow> Rule list \<Rightarrow> Rule list" where
  "clone_rules c k [] = []"
| "clone_rules c k (r # rs) =
     \<lparr>rule_ID = ctx_uuid c k, Priority = Priority r, rule_Outcome = rule_Outcome r,
      Conditions = Condition_Clone (Conditions r), rule_Active = rule_Active r,
      rule_CreatedAt = rule_CreatedAt r\<rparr> # clone_rules c (Suc k) rs"

definition RuleSet_Clone :: "ctx \<Rightarrow> RuleSet \<Rightarrow> RuleSet" where
  "RuleSet_Clone c rs = rs\<lparr>Rules := clone_rules c 0 (Rules rs),
     rs_ID := ctx_uuid c (length (Rules rs)), rs_Version := rs_Version rs + 1\<rparr>"

end
