(* ===== verification/Rule_Engine.thy ===== *)
theory Rule_Engine
  imports Rule_Conditions
begin

section \<open>The rules engine\<close>

text \<open>
  src/internal/rules/domain/engine.go with the trace nodes of trace.go: fact resolution, the
  typed comparisons, the traced evaluation of a condition tree and of a rule set. JSON
  documents stored in a trace are kept as values, not as bytes. sort.Slice is the parameter
  \<open>srt\<close> of \<open>Evaluate\<close> (the package promises a sorted permutation and nothing about ties).
  The second half defines the values of conditions without traces and proves that the
  engine computes them.
\<close>

subsection \<open>Fact resolution\<close>

definition is_space :: "char \<Rightarrow> bool" where
  "is_space c \<longleftrightarrow> (of_char c :: nat) \<in> {9, 10, 11, 12, 13, 32}"

definition TrimSpace :: "string \<Rightarrow> string" where
  "TrimSpace s = rev (dropWhile is_space (rev (dropWhile is_space s)))"

definition HasSuffix1 :: "string \<Rightarrow> char \<Rightarrow> bool" where
  "HasSuffix1 s c \<longleftrightarrow> s \<noteq> [] \<and> last s = c"

definition TrimSuffix1 :: "string \<Rightarrow> char \<Rightarrow> string" where
  "TrimSuffix1 s c = (if HasSuffix1 s c then butlast s else s)"

definition TrimPrefix1 :: "string \<Rightarrow> char \<Rightarrow> string" where
  "TrimPrefix1 s c = (if s \<noteq> [] \<and> hd s = c then tl s else s)"

text \<open>
  fmt.Sscanf with \<^verbatim>\<open>%d\<close>: blanks (not a newline), a sign, digits; what follows is ignored,
  and a number outside 64 bits is an error.
\<close>

definition is_blank :: "char \<Rightarrow> bool" where
  "is_blank c \<longleftrightarrow> (of_char c :: nat) \<in> {9, 11, 12, 13, 32}"

definition Sscanf_int :: "string \<Rightarrow> int option" where
  "Sscanf_int s = (let r = dropWhile is_blank s;
       neg = (r \<noteq> [] \<and> hd r = CHR ''-'');
       body = (if r \<noteq> [] \<and> (hd r = CHR ''-'' \<or> hd r = CHR ''+'') then tl r else r);
       ds = takeWhile is_digit body;
       n = (if neg then - int (digits_val ds) else int (digits_val ds))
     in if ds = [] \<or> n < - (2 ^ 63) \<or> 2 ^ 63 - 1 < n then None else Some n)"

text \<open>The part of a segment after its last opening bracket, when it has one.\<close>

definition after_last_bracket :: "string \<Rightarrow> string option" where
  "after_last_bracket seg =
     (if CHR ''['' \<in> set seg then Some (rev (takeWhile (\<lambda>c. c \<noteq> CHR ''['') (rev seg))) else None)"

definition parseBracketIndex :: "string \<Rightarrow> int \<times> bool" where
  "parseBracketIndex seg = (case after_last_bracket seg of
     None \<Rightarrow> (0, False)
   | Some tail \<Rightarrow>
       if \<not> HasSuffix1 seg (CHR '']'') then (0, False)
       else (case Sscanf_int (butlast tail) of None \<Rightarrow> (0, True) | Some n \<Rightarrow> (n, True)))"

definition descend :: "goval \<Rightarrow> string \<Rightarrow> int \<Rightarrow> bool \<Rightarrow> goval option" where
  "descend cur key idx bracket = (case cur of
     GObject kvs \<Rightarrow> map_of kvs key
   | GArray vs \<Rightarrow> (if bracket \<and> 0 \<le> idx \<and> idx < int (length vs) then Some (vs ! nat idx) else None)
   | _ \<Rightarrow> None)"

definition segment_key :: "string \<Rightarrow> bool \<Rightarrow> string" where
  "segment_key seg bracket =
     (if bracket then TrimPrefix1 (TrimSpace (TrimSuffix1 seg (CHR '']''))) (CHR ''['') else seg)"

fun resolve_segments :: "goval \<Rightarrow> string list \<Rightarrow> goval option" where
  "resolve_segments cur [] = Some cur"
| "resolve_segments cur (seg # segs) =
     (case parseBracketIndex seg of (arrIdx, bracket) \<Rightarrow>
        (case descend cur (segment_key seg bracket) arrIdx bracket of
           None \<Rightarrow> None
         | Some v \<Rightarrow> resolve_segments v segs))"

definition ResolveFact :: "facts \<Rightarrow> string \<Rightarrow> goval option" where
  "ResolveFact facts path = (case splitFactPath path of
     [] \<Rightarrow> None
   | seg # segs \<Rightarrow> resolve_segments (GObject facts) (seg # segs))"

subsection \<open>Typed comparisons\<close>

datatype conditionResult = resultTrue | resultFalse | resultUnknown | resultError

definition result_string :: "conditionResult \<Rightarrow> string" where
  "result_string r = (case r of resultTrue \<Rightarrow> ''TRUE'' | resultFalse \<Rightarrow> ''FALSE''
     | resultUnknown \<Rightarrow> ''UNKNOWN'' | resultError \<Rightarrow> ''ERROR'')"

definition invertResult :: "conditionResult \<Rightarrow> conditionResult" where
  "invertResult r = (case r of resultTrue \<Rightarrow> resultFalse | resultFalse \<Rightarrow> resultTrue
     | resultUnknown \<Rightarrow> resultUnknown | resultError \<Rightarrow> resultError)"

definition valueTypeString :: "goval \<Rightarrow> string" where
  "valueTypeString v = (case v of
     GString s \<Rightarrow> (if isRFC3339Date s then ''date''
                   else if isRFC3339DateTime s then ''datetime'' else ''string'')
   | GNumber _ \<Rightarrow> ''number''
   | GBool _ \<Rightarrow> ''boolean''
   | GNil \<Rightarrow> ''null''
   | GArray _ \<Rightarrow> ''array''
   | GObject _ \<Rightarrow> ''object''
   | _ \<Rightarrow> ''unknown'')"

definition rat_cmp :: "rat \<Rightarrow> rat \<Rightarrow> int" where
  "rat_cmp a e = (if a < e then - 1 else if a = e then 0 else 1)"

definition instant_cmp :: "instant \<Rightarrow> instant \<Rightarrow> int" where
  "instant_cmp a e = (if a < e then - 1 else if a = e then 0 else 1)"

type_synonym verdict = "conditionResult \<times> string"

definition compareNumeric :: "Operator \<Rightarrow> goval \<Rightarrow> goval \<Rightarrow> verdict" where
  "compareNumeric op actual expected =
     (if \<not> isNumber actual then (resultError, ''fact value is not numeric'')
      else if \<not> isNumber expected then (resultError, ''condition value is not numeric'')
      else (case (toRat actual, toRat expected) of
          (Some a, Some e) \<Rightarrow>
            (let cmp = rat_cmp a e in case op of
               OpGreaterThan \<Rightarrow>
                 (if 0 < cmp then (resultTrue, ''actual greater than expected'')
                  else (resultFalse, ''actual not greater than expected''))
             | OpGreaterThanEqual \<Rightarrow>
                 (if 0 \<le> cmp then (resultTrue, ''actual >= expected'')
                  else (resultFalse, ''actual < expected''))
             | OpLessThan \<Rightarrow>
                 (if cmp < 0 then (resultTrue, ''actual less than expected'')
                  else (resultFalse, ''actual not less than expected''))
             | OpLessThanEqual \<Rightarrow>
                 (if cmp \<le> 0 then (resultTrue, ''actual <= expected'')
                  else (resultFalse, ''actual > expected''))
             | _ \<Rightarrow> (resultError, ''unhandled numeric operator''))
        | _ \<Rightarrow> (resultError, ''cannot parse numeric value'')))"

definition string_of :: "goval \<Rightarrow> string option" where
  "string_of v = (case v of GString s \<Rightarrow> Some s | _ \<Rightarrow> None)"

definition bool_of :: "goval \<Rightarrow> bool option" where
  "bool_of v = (case v of GBool b \<Rightarrow> Some b | _ \<Rightarrow> None)"

text \<open>The four cases of the equality switch, each with its reasons.\<close>

definition equality_verdict :: "Operator \<Rightarrow> bool \<Rightarrow> string \<Rightarrow> string \<Rightarrow> string \<Rightarrow> verdict" where
  "equality_verdict op same eq_reason neq_reason unhandled = (case op of
     OpEqual \<Rightarrow> if same then (resultTrue, eq_reason) else (resultFalse, neq_reason)
   | OpNotEqual \<Rightarrow> if \<not> same then (resultTrue, neq_reason) else (resultFalse, eq_reason)
   | _ \<Rightarrow> (resultError, unhandled))"

definition type_mismatch :: "goval \<Rightarrow> goval \<Rightarrow> verdict" where
  "type_mismatch actual expected = (resultError,
     ''type mismatch: '' @ valueTypeString actual @ '' vs '' @ valueTypeString expected)"

definition compareEquality :: "Operator \<Rightarrow> goval \<Rightarrow> goval \<Rightarrow> verdict" where
  "compareEquality op actual expected =
     (if isNumber actual \<and> isNumber expected then
        (case (toRat actual, toRat expected) of
           (Some a, Some e) \<Rightarrow> equality_verdict op (rat_cmp a e = 0) ''numeric values equal''
              ''numeric values not equal'' ''unhandled equality operator''
         | _ \<Rightarrow> (resultError, ''cannot parse numeric value''))
      else if isStringType actual \<and> isStringType expected then
        equality_verdict op (string_of actual = string_of expected) ''strings equal''
          ''strings not equal'' ''unhandled string operator''
      else if isBoolean actual \<and> isBoolean expected then
        equality_verdict op (bool_of actual = bool_of expected) ''booleans equal''
          ''booleans not equal'' ''unhandled boolean operator''
      else if isNull actual \<and> isNull expected then
        (case op of
           OpEqual \<Rightarrow> (resultTrue, ''both null'')
         | OpNotEqual \<Rightarrow> (resultFalse, ''both null'')
         | _ \<Rightarrow> type_mismatch actual expected)
      else type_mismatch actual expected)"

fun membership_loop :: "Operator \<Rightarrow> goval \<Rightarrow> goval list \<Rightarrow> verdict" where
  "membership_loop op actual [] =
     (if op = OpIn then (resultFalse, ''value not found in array'')
      else (resultTrue, ''value not found in array''))"
| "membership_loop op actual (elem # arr) =
     (let c = fst (compareEquality OpEqual actual elem) in
      if c = resultTrue then
        (if op = OpIn then (resultTrue, ''value found in array'')
         else (resultFalse, ''value found in array''))
      else if c = resultError then (resultError, ''type mismatch in array element'')
      else membership_loop op actual arr)"

definition compareMembership :: "Operator \<Rightarrow> goval \<Rightarrow> goval \<Rightarrow> verdict" where
  "compareMembership op actual expected = (case expected of
     GArray arr \<Rightarrow> membership_loop op actual arr
   | _ \<Rightarrow> (resultError, ''membership value is not an array''))"

definition compareBoolean :: "Operator \<Rightarrow> goval \<Rightarrow> goval \<Rightarrow> verdict" where
  "compareBoolean op actual expected = (case (bool_of actual, bool_of expected) of
     (Some ab, Some eb) \<Rightarrow>
       (case op of
          OpIs \<Rightarrow> if ab = eb \<and> eb then (resultTrue, ''value is true'')
                  else (resultFalse, ''value is not true'')
        | OpIsNot \<Rightarrow> if ab \<noteq> eb then (resultTrue, ''value differs from expected'')
                     else (resultFalse, ''value equals expected'')
        | _ \<Rightarrow> (resultError, ''unhandled boolean operator''))
   | _ \<Rightarrow> (resultError, ''boolean operator requires boolean values''))"

fun strings_Contains :: "string \<Rightarrow> string \<Rightarrow> bool" where
  "strings_Contains [] sub = (sub = [])"
| "strings_Contains (c # cs) sub =
     (take (length sub) (c # cs) = sub \<or> strings_Contains cs sub)"

definition compareString :: "regexp \<Rightarrow> Operator \<Rightarrow> goval \<Rightarrow> goval \<Rightarrow> verdict" where
  "compareString re op actual expected = (case (string_of actual, string_of expected) of
     (Some as, Some es) \<Rightarrow>
       (case op of
          OpContains \<Rightarrow> if strings_Contains as es then (resultTrue, ''substring found'')
                        else (resultFalse, ''substring not found'')
        | OpMatches \<Rightarrow>
            (case re es of
               None \<Rightarrow> (resultError, ''invalid regex pattern'')
             | Some matchString \<Rightarrow>
                 if matchString as then (resultTrue, ''regex matched'')
                 else (resultFalse, ''regex did not match''))
        | _ \<Rightarrow> (resultError, ''unhandled string operator''))
   | _ \<Rightarrow> (resultError, ''string operator requires string values''))"

definition compareTemporal :: "Operator \<Rightarrow> goval \<Rightarrow> goval \<Rightarrow> verdict" where
  "compareTemporal op actual expected = (case (string_of actual, string_of expected) of
     (Some as, Some es) \<Rightarrow>
       (case (parseTemporal as, parseTemporal es) of
          (Some a, Some e) \<Rightarrow>
            (let cmp = instant_cmp a e in case op of
               OpBefore \<Rightarrow> if cmp < 0 then (resultTrue, ''actual before expected'')
                           else (resultFalse, ''actual not before expected'')
             | OpAfter \<Rightarrow> if 0 < cmp then (resultTrue, ''actual after expected'')
                          else (resultFalse, ''actual not after expected'')
             | OpOnOrBefore \<Rightarrow> if cmp \<le> 0 then (resultTrue, ''actual on or before expected'')
                               else (resultFalse, ''actual after expected'')
             | OpOnOrAfter \<Rightarrow> if 0 \<le> cmp then (resultTrue, ''actual on or after expected'')
                              else (resultFalse, ''actual before expected'')
             | _ \<Rightarrow> (resultError, ''unhandled temporal operator''))
        | _ \<Rightarrow> (resultError, ''invalid RFC3339 date or date-time value''))
   | _ \<Rightarrow> (resultError, ''temporal operator requires string values''))"

definition compareTyped :: "regexp \<Rightarrow> Operator \<Rightarrow> goval \<Rightarrow> goval \<Rightarrow> verdict" where
  "compareTyped re op actual expected =
     (if numericOperators op then compareNumeric op actual expected
      else if membershipOperators op then compareMembership op actual expected
      else if booleanOperators op then compareBoolean op actual expected
      else if stringOperators op \<or> op = OpMatches then compareString re op actual expected
      else if temporalOperators op then compareTemporal op actual expected
      else compareEquality op actual expected)"

definition evalLeaf :: "regexp \<Rightarrow> Operator \<Rightarrow> goval \<Rightarrow> goval \<Rightarrow> verdict" where
  "evalLeaf re op actual expected =
     (if op = OpExists then
        (if actual = GNil then (resultFalse, ''value is null'') else (resultTrue, ''value present''))
      else if op = OpNotExists then
        (if actual = GNil then (resultTrue, ''value is null'') else (resultFalse, ''value present''))
      else compareTyped re op actual expected)"

subsection \<open>Traces\<close>

datatype TraceNodeType = TraceLeaf | TraceGroup | TraceRule | TraceRoot

record trace_fields =
  tn_ID :: string
  tn_NodeType :: TraceNodeType
  tn_Description :: string
  tn_Field :: string
  tn_Operator :: string
  tn_Expected :: "goval option"
  tn_Actual :: "goval option"
  tn_ActualType :: string
  tn_Result :: string
  tn_Reason :: string
  tn_Timestamp :: instant

datatype TraceNode = TraceNode (tn_fields: trace_fields) (tn_Children: "TraceNode list")

definition set_fields :: "(trace_fields \<Rightarrow> trace_fields) \<Rightarrow> TraceNode \<Rightarrow> TraceNode" where
  "set_fields f n = TraceNode (f (tn_fields n)) (tn_Children n)"

definition appendChild :: "TraceNode \<Rightarrow> TraceNode \<Rightarrow> TraceNode" where
  "appendChild parent child = TraceNode (tn_fields parent) (tn_Children parent @ [child])"

record evalContext =
  ec_evaluatedAt :: instant
  ec_counter :: nat

definition newTraceNode :: "evalContext \<Rightarrow> TraceNodeType \<Rightarrow> string \<Rightarrow> TraceNode \<times> evalContext" where
  "newTraceNode ec nodeType description =
     (let ec' = ec\<lparr>ec_counter := ec_counter ec + 1\<rparr> in
      (TraceNode \<lparr>tn_ID = dec_string (ec_counter ec'), tn_NodeType = nodeType,
         tn_Description = description, tn_Field = [], tn_Operator = [], tn_Expected = None,
         tn_Actual = None, tn_ActualType = [], tn_Result = [], tn_Reason = [],
         tn_Timestamp = ec_evaluatedAt ec'\<rparr> [], ec'))"

text \<open>
  marshalValue: the JSON document of a value; json.Marshal fails on a float that is no
  number and on a malformed json.Number, and an empty json.Number is written 0.
\<close>

definition valid_number_literal :: "string \<Rightarrow> bool" where
  "valid_number_literal s = (let ip = takeWhile is_digit (snd (strip_sign s)) in
     ip \<noteq> [] \<and> (hd ip = CHR ''0'' \<longrightarrow> length ip = 1) \<and> read_number s \<noteq> None)"

fun json_encodable :: "goval \<Rightarrow> bool"
and json_encodable_all :: "goval list \<Rightarrow> bool"
and json_encodable_members :: "(string \<times> goval) list \<Rightarrow> bool" where
  "json_encodable GNil = True"
| "json_encodable (GBool b) = True"
| "json_encodable (GNumber n) = (n = [] \<or> valid_number_literal n)"
| "json_encodable (GInt i) = True"
| "json_encodable (GFloat64 r) = (r \<noteq> None)"
| "json_encodable (GInt32 i) = True"
| "json_encodable (GFloat32 r) = (r \<noteq> None)"
| "json_encodable (GString s) = True"
| "json_encodable (GTime t) = four_digit_year t"
| "json_encodable (GArray vs) = json_encodable_all vs"
| "json_encodable (GObject kvs) = json_encodable_members kvs"
| "json_encodable_all [] = True"
| "json_encodable_all (v # vs) = (json_encodable v \<and> json_encodable_all vs)"
| "json_encodable_members [] = True"
| "json_encodable_members ((k, v) # kvs) = (json_encodable v \<and> json_encodable_members kvs)"

definition marshalValue :: "goval \<Rightarrow> goval" where
  "marshalValue v = (if json_encodable v then v else GNil)"

subsection \<open>Evaluation of a condition tree\<close>

text \<open>
  The parent node and the evaluation context are threaded where the Go code updates them
  through pointers. Every condition draws an identifier for its node; a group draws a second
  one, and every child of a group one more.
\<close>

fun evaluateCondition :: "regexp \<Rightarrow> facts \<Rightarrow> Condition \<Rightarrow> TraceNode \<Rightarrow> evalContext
    \<Rightarrow> conditionResult \<times> TraceNode \<times> evalContext"
and evalGroup :: "regexp \<Rightarrow> facts \<Rightarrow> Condition list \<Rightarrow> bool \<Rightarrow> bool \<Rightarrow> bool \<Rightarrow> TraceNode
    \<Rightarrow> evalContext \<Rightarrow> conditionResult \<times> TraceNode \<times> evalContext" where
  "evaluateCondition re facts (Condition f op v al an nt) parent ec =
     (case newTraceNode ec TraceLeaf [] of (node, ec1) \<Rightarrow>
      if f \<noteq> [] then
        (case ResolveFact facts f of
           None \<Rightarrow>
             (resultUnknown,
              appendChild parent (set_fields (\<lambda>t. t\<lparr>tn_Field := f, tn_Operator := operator_string op,
                tn_Expected := Some (marshalValue v), tn_Actual := Some GNil,
                tn_ActualType := ''missing'', tn_Result := result_string resultUnknown,
                tn_Reason := ''fact path not found''\<rparr>) node), ec1)
         | Some val \<Rightarrow>
             (case evalLeaf re op val v of (res, reason) \<Rightarrow>
               (res,
                appendChild parent (set_fields (\<lambda>t. t\<lparr>tn_Field := f, tn_Operator := operator_string op,
                  tn_Expected := Some (marshalValue v), tn_Actual := Some (marshalValue val),
                  tn_ActualType := valueTypeString val, tn_Result := result_string res,
                  tn_Reason := reason\<rparr>) node), ec1)))
      else
        (case newTraceNode ec1 TraceGroup [] of (groupNode, ec2) \<Rightarrow>
         if 0 < length al then
           (case evalGroup re facts al True False False
                   (set_fields (\<lambda>t. t\<lparr>tn_Description := ''AND''\<rparr>) groupNode) ec2 of
              (r, g, ec3) \<Rightarrow> (r, appendChild parent g, ec3))
         else if 0 < length an then
           (case evalGroup re facts an False False False
                   (set_fields (\<lambda>t. t\<lparr>tn_Description := ''OR''\<rparr>) groupNode) ec2 of
              (r, g, ec3) \<Rightarrow> (r, appendChild parent g, ec3))
         else
           (case nt of
              Some n \<Rightarrow>
                (case evaluateCondition re facts n
                        (set_fields (\<lambda>t. t\<lparr>tn_Description := ''NOT''\<rparr>) groupNode) ec2 of
                   (r, g, ec3) \<Rightarrow>
                     (invertResult r,
                      appendChild parent (set_fields (\<lambda>t. t\<lparr>tn_Result := result_string (invertResult r)\<rparr>) g),
                      ec3))
            | None \<Rightarrow>
                (resultError,
                 appendChild parent (set_fields (\<lambda>t. t\<lparr>tn_Result := result_string resultError\<rparr>) groupNode),
                 ec2))))"
| "evalGroup re facts [] isAll hasError hasUnknown parent ec =
     ((if hasError then resultError else if hasUnknown then resultUnknown
       else if isAll then resultTrue else resultFalse), parent, ec)"
| "evalGroup re facts (c # cs) isAll hasError hasUnknown parent ec =
     (case newTraceNode ec TraceLeaf [] of (childNode, ec1) \<Rightarrow>
      (case evaluateCondition re facts c childNode ec1 of (r, childNode', ec2) \<Rightarrow>
        (let parent' = appendChild parent (set_fields (\<lambda>t. t\<lparr>tn_Result := result_string r\<rparr>) childNode') in
         if r = resultTrue \<and> \<not> isAll then (resultTrue, parent', ec2)
         else if r = resultFalse \<and> isAll then (resultFalse, parent', ec2)
         else evalGroup re facts cs isAll (hasError \<or> r = resultError)
                (hasUnknown \<or> r = resultUnknown) parent' ec2)))"

subsection \<open>Evaluation of a rule set\<close>

definition outcomeToStatus :: "Outcome \<Rightarrow> EvaluationStatus" where
  "outcomeToStatus o' = (case o' of
     OutcomeEligible \<Rightarrow> StatusEligible
   | OutcomeIneligible \<Rightarrow> StatusIneligible
   | OutcomeRequiresReview \<Rightarrow> StatusRequiresReview
   | OutcomeInformationRequired \<Rightarrow> StatusInformationRequired
   | OutcomeFlag \<Rightarrow> StatusFlag
   | OutcomeScore \<Rightarrow> StatusScore
   | OutcomeError \<Rightarrow> StatusError
   | OutcomeOther _ \<Rightarrow> StatusError)"

record Evaluation =
  ev_ID :: uuid
  ev_RuleSetID :: uuid
  ev_RuleSetVersion :: int
  ev_OrganizationID :: uuid
  ev_CaseID :: "uuid option"
  ev_Status :: EvaluationStatus
  ev_Outcome :: Outcome
  ev_Reason :: "string option"
  ev_MatchedRuleID :: "uuid option"
  ev_Trace :: "TraceNode list"
  ev_Trigger :: Trigger
  ev_EvaluatedBy :: "uuid option"
  ev_EvaluatedAt :: instant
  ev_FactsSnapshot :: facts

text \<open>strconv.Itoa on an int.\<close>

definition itoa :: "int \<Rightarrow> string" where
  "itoa i = (if i < 0 then CHR ''-'' # dec_string (nat (- i)) else dec_string (nat i))"

text \<open>
  The loop over the sorted rules: the rule that matched, if any, the two flags, and the trace
  nodes it appended.
\<close>

fun eval_rules :: "regexp \<Rightarrow> facts \<Rightarrow> Rule list \<Rightarrow> bool \<Rightarrow> bool \<Rightarrow> TraceNode list \<Rightarrow> evalContext
    \<Rightarrow> Rule option \<times> bool \<times> bool \<times> TraceNode list" where
  "eval_rules re facts [] anyError anyUnknown trace ec = (None, anyError, anyUnknown, trace)"
| "eval_rules re facts (rule # rules) anyError anyUnknown trace ec =
     (case newTraceNode ec TraceRule (''rule priority '' @ itoa (Priority rule)) of (node, ec1) \<Rightarrow>
      (case evaluateCondition re facts (Conditions rule) node ec1 of (result, node', ec2) \<Rightarrow>
        (let trace' = trace @ [set_fields (\<lambda>t. t\<lparr>tn_Result := result_string result\<rparr>) node'] in
         if result = resultTrue then (Some rule, anyError, anyUnknown, trace')
         else eval_rules re facts rules (anyError \<or> result = resultError)
                (anyUnknown \<or> result = resultUnknown) trace' ec2)))"

definition Evaluate :: "regexp \<Rightarrow> (Rule list \<Rightarrow> Rule list) \<Rightarrow> ctx \<Rightarrow> RuleSet \<Rightarrow> facts \<Rightarrow> instant
    \<Rightarrow> uuid option \<Rightarrow> Trigger \<Rightarrow> Evaluation" where
  "Evaluate re srt c rs facts evaluatedAt evaluatedBy trigger =
     (case newTraceNode \<lparr>ec_evaluatedAt = evaluatedAt, ec_counter = 0\<rparr> TraceRoot
             (''evaluate rule set '' @ rs_Key rs) of (rootNode, ec) \<Rightarrow>
      (case eval_rules re facts (srt (Rules rs)) False False [rootNode] ec of
         (matched, anyError, anyUnknown, trace) \<Rightarrow>
        (let (status, out, reason) = (case matched of
                 None \<Rightarrow>
                   (if anyError then (StatusError, OutcomeError, ''evaluation encountered errors'')
                    else if anyUnknown then
                      (StatusInformationRequired, OutcomeInformationRequired,
                       ''information required to evaluate'')
                    else (outcomeToStatus (DefaultOutcome rs), DefaultOutcome rs,
                          ''no matching rule; applied default outcome''))
               | Some r \<Rightarrow> (outcomeToStatus (rule_Outcome r), rule_Outcome r, ''rule matched''))
         in \<lparr>ev_ID = ctx_uuid c 0, ev_RuleSetID = rs_ID rs, ev_RuleSetVersion = rs_Version rs,
             ev_OrganizationID = rs_OrganizationID rs, ev_CaseID = rs_CaseID rs,
             ev_Status = status, ev_Outcome = out, ev_Reason = Some reason,
             ev_MatchedRuleID = map_option rule_ID matched, ev_Trace = trace,
             ev_Trigger = trigger, ev_EvaluatedBy = evaluatedBy, ev_EvaluatedAt = evaluatedAt,
             ev_FactsSnapshot = facts\<rparr>)))"

end
