(* ===== verification/Go_Text.thy ===== *)
theory Go_Text
  imports Rule_Engine "HOL-Library.Word"
begin

section \<open>Texts the program hashes and prints\<close>

text \<open>
  The parts of the Go standard library and of package uuid whose output enters the audit
  hash: UUID.String, Time.Format with microseconds, json.Marshal, hex.EncodeToString and
  crypto/sha256. SHA-256 is defined in full; the proofs use nothing of it but its type.
\<close>

subsection \<open>Fixed-width numbers\<close>

text \<open>\<open>n\<close> in base \<open>b\<close> with exactly \<open>w\<close> digits.\<close>

fun fixed_digits :: "(nat \<Rightarrow> char) \<Rightarrow> nat \<Rightarrow> nat \<Rightarrow> nat \<Rightarrow> string" where
  "fixed_digits ch b 0 n = []"
| "fixed_digits ch b (Suc w) n = fixed_digits ch b w (n div b) @ [ch (n mod b)]"

definition hex_char :: "nat \<Rightarrow> char" where
  "hex_char n = (if n < 10 then digit_char n else char_of (87 + n))"

lemma fixed_digits_length [simp]: "length (fixed_digits ch b w n) = w"
  by (induction w arbitrary: n) simp_all

lemma fixed_digits_set: "0 < b \<Longrightarrow> c \<in> set (fixed_digits ch b w n) \<Longrightarrow> \<exists>d < b. c = ch d"
  by (induction w arbitrary: n) (auto intro: mod_less_divisor)

lemma fixed_digits_inj:
  assumes "inj_on ch {..<b}" "0 < b"
  shows "m < b ^ w \<Longrightarrow> n < b ^ w \<Longrightarrow> fixed_digits ch b w m = fixed_digits ch b w n \<Longrightarrow> m = n"
proof (induction w arbitrary: m n)
  case (Suc w)
  have "m div b < b ^ w" "n div b < b ^ w"
    using Suc.prems assms(2) by (simp_all add: less_mult_imp_div_less mult.commute)
  with Suc have "m div b = n div b" by simp
  moreover have "m mod b = n mod b"
    using Suc.prems(3) assms by (auto simp: inj_on_def)
  ultimately show ?case by (metis div_mult_mod_eq)
qed simp

lemma inj_digit_char: "inj_on digit_char {..<10}"
  by (auto simp: inj_on_def digit_char_inj)

lemma of_char_hex_char: "n < 16 \<Longrightarrow> (of_char (hex_char n) :: nat) = (if n < 10 then 48 + n else 87 + n)"
  by (simp add: hex_char_def of_char_digit_char)

lemma inj_hex_char: "inj_on hex_char {..<16}"
proof (rule inj_onI)
  fix x y :: nat assume xy: "x \<in> {..<16}" "y \<in> {..<16}" "hex_char x = hex_char y"
  then have "(if x < 10 then 48 + x else 87 + x) = (if y < 10 then 48 + y else 87 + y)"
    using of_char_hex_char [of x] of_char_hex_char [of y] by (simp only: lessThan_iff)
  then show "x = y" by (simp split: if_splits)
qed

subsection \<open>UUID.String\<close>

definition uuid_string :: "uuid \<Rightarrow> string" where
  "uuid_string u = fixed_digits hex_char 16 8 (u div 16 ^ 24) @ ''-''
     @ fixed_digits hex_char 16 4 (u div 16 ^ 20 mod 16 ^ 4) @ ''-''
     @ fixed_digits hex_char 16 4 (u div 16 ^ 16 mod 16 ^ 4) @ ''-''
     @ fixed_digits hex_char 16 4 (u div 16 ^ 12 mod 16 ^ 4) @ ''-''
     @ fixed_digits hex_char 16 12 (u mod 16 ^ 12)"

definition valid_uuid :: "uuid \<Rightarrow> bool" where
  "valid_uuid u \<longleftrightarrow> u < 16 ^ 32"

subsection \<open>Time.Format\<close>

text \<open>The year and month that contain a day, counted from the first of January of year 0.\<close>

function year_from :: "nat \<Rightarrow> nat \<Rightarrow> nat" where
  "year_from y n = (if days_before_year (Suc y) \<le> n \<and> y \<le> n then year_from (Suc y) n else y)"
  by pat_completeness auto
termination by (relation "measure (\<lambda>(y, n). Suc n - y)") auto

declare year_from.simps [simp del]

definition year_of :: "nat \<Rightarrow> nat" where
  "year_of n = year_from (n div 366) n"

definition month_of :: "nat \<Rightarrow> nat \<Rightarrow> nat" where
  "month_of y k = length (takeWhile (\<lambda>m. days_before_month y m \<le> k) [1..<13])"

definition format_micros :: "instant \<Rightarrow> string" where
  "format_micros t =
     (let secs = t div 1000000000; us = nat (t mod 1000000000 div 1000);
          days = nat (secs div 86400 + int epoch_days); clock = nat (secs mod 86400);
          y = year_of days; k = days - days_before_year y; m = month_of y k;
          d = Suc (k - days_before_month y m)
      in fixed_digits digit_char 10 4 y @ ''-'' @ fixed_digits digit_char 10 2 m @ ''-''
         @ fixed_digits digit_char 10 2 d @ ''T'' @ fixed_digits digit_char 10 2 (clock div 3600)
         @ '':'' @ fixed_digits digit_char 10 2 (clock div 60 mod 60)
         @ '':'' @ fixed_digits digit_char 10 2 (clock mod 60)
         @ ''.'' @ fixed_digits digit_char 10 6 us @ ''Z'')"

text \<open>The layout RFC3339Nano: the nanoseconds without their trailing zeros.\<close>

definition format_nanos :: "instant \<Rightarrow> string" where
  "format_nanos t = (let ns = fixed_digits digit_char 10 9 (nat (t mod 1000000000));
       frac = rev (dropWhile (\<lambda>c. c = CHR ''0'') (rev ns))
     in take 19 (format_micros t) @ (if frac = [] then [] else CHR ''.'' # frac) @ ''Z'')"

lemma format_nanos_nonempty [simp]: "format_nanos t \<noteq> []"
  by (simp add: format_nanos_def Let_def)

definition trunc_micros :: "instant \<Rightarrow> instant" where
  "trunc_micros t = t div 1000 * 1000"

subsection \<open>json.Marshal\<close>

text \<open>
  Strings are valid UTF-8. The escapes are those of encoding/json with HTML escaping on,
  the line separators U+2028 and U+2029 included.
\<close>

definition json_escape_char :: "char \<Rightarrow> string" where
  "json_escape_char c = (let n = (of_char c :: nat) in
     if n = 34 \<or> n = 92 then [char_of (92::nat), c]
     else if n = 8 then char_of (92::nat) # ''b''
     else if n = 12 then char_of (92::nat) # ''f''
     else if n = 10 then char_of (92::nat) # ''n''
     else if n = 13 then char_of (92::nat) # ''r''
     else if n = 9 then char_of (92::nat) # ''t''
     else if n < 32 \<or> n = 60 \<or> n = 62 \<or> n = 38
       then char_of (92::nat) # ''u00'' @ fixed_digits hex_char 16 2 n
     else [c])"

fun json_escape :: "string \<Rightarrow> string" where
  "json_escape [] = []"
| "json_escape (c # cs) =
     (if (of_char c :: nat) = 226 \<and> 2 \<le> length cs \<and> (of_char (cs ! 0) :: nat) = 128
          \<and> ((of_char (cs ! 1) :: nat) = 168 \<or> (of_char (cs ! 1) :: nat) = 169)
      then char_of (92::nat) # ''u202'' @ [if (of_char (cs ! 1) :: nat) = 168 then CHR ''8'' else CHR ''9'']
           @ json_escape (drop 2 cs)
      else json_escape_char c @ json_escape cs)"

definition json_string :: "string \<Rightarrow> string" where
  "json_string s = [char_of (34::nat)] @ json_escape s @ [char_of (34::nat)]"

fun join_with :: "string \<Rightarrow> string list \<Rightarrow> string" where
  "join_with sep [] = []"
| "join_with sep [x] = x"
| "join_with sep (x # xs) = x @ sep @ join_with sep xs"

text \<open>
  A float64 that is an integer of at most 2 to the 53 prints as that integer; the shortest
  decimal of any other float64 is the argument \<open>ft\<close> (strconv.FormatFloat). The members of a
  map are written in the order of their keys.
\<close>

definition float_text :: "(rat \<Rightarrow> string) \<Rightarrow> rat \<Rightarrow> string" where
  "float_text ft r = (if r = of_int \<lfloor>r\<rfloor> \<and> \<bar>\<lfloor>r\<rfloor>\<bar> \<le> 2 ^ 53 then itoa \<lfloor>r\<rfloor> else ft r)"

fun json_text :: "(rat \<Rightarrow> string) \<Rightarrow> goval \<Rightarrow> string option"
and json_texts :: "(rat \<Rightarrow> string) \<Rightarrow> goval list \<Rightarrow> string list option"
and json_members :: "(rat \<Rightarrow> string) \<Rightarrow> (string \<times> goval) list \<Rightarrow> (string \<times> string) list option" where
  "json_text ft GNil = Some ''null''"
| "json_text ft (GBool b) = Some (if b then ''true'' else ''false'')"
| "json_text ft (GNumber n) =
     (if n = [] then Some ''0'' else if valid_number_literal n then Some n else None)"
| "json_text ft (GInt i) = Some (itoa i)"
| "json_text ft (GFloat64 r) = map_option (float_text ft) r"
| "json_text ft (GInt32 i) = Some (itoa i)"
| "json_text ft (GFloat32 r) = map_option (float_text ft) r"
| "json_text ft (GString s) = Some (json_string s)"
| "json_text ft (GTime t) = (if four_digit_year t then Some (json_string (format_nanos t)) else None)"
| "json_text ft (GArray vs) =
     map_option (\<lambda>ts. ''['' @ join_with '','' ts @ '']'') (json_texts ft vs)"
| "json_text ft (GObject kvs) =
     map_option (\<lambda>ms. [char_of (123::nat)]
         @ join_with '','' (map (\<lambda>(k, t). json_string k @ '':'' @ t) (sort_key fst ms))
         @ [char_of (125::nat)])
       (json_members ft kvs)"
| "json_texts ft [] = Some []"
| "json_texts ft (v # vs) = (case json_text ft v of None \<Rightarrow> None
     | Some t \<Rightarrow> map_option ((#) t) (json_texts ft vs))"
| "json_members ft [] = Some []"
| "json_members ft ((k, v) # kvs) = (case json_text ft v of None \<Rightarrow> None
     | Some t \<Rightarrow> map_option ((#) (k, t)) (json_members ft kvs))"

text \<open>
  What a value is after json.Marshal, a jsonb column and json.Unmarshal into an interface:
  every number is a float64. An int is rounded to 53 significant bits, half to even.
\<close>

definition round53 :: "int \<Rightarrow> int" where
  "round53 i = (let n = nat \<bar>i\<bar>; k = length (takeWhile (\<lambda>j. 2 ^ (53 + j) \<le> n) [0..<64]) in
     if n \<le> 2 ^ 53 then i
     else (let q = n div 2 ^ k; r = n mod 2 ^ k; half = 2 ^ (k - 1);
               q' = (if half < r \<or> (r = half \<and> q mod 2 = 1) then q + 1 else q)
           in (if i < 0 then - 1 else 1) * int (q' * 2 ^ k)))"

text \<open>The float64 nearest to a number, ties to even, within the range of normal numbers.\<close>

fun bit_length :: "nat \<Rightarrow> nat" where
  "bit_length n = (if n = 0 then 0 else Suc (bit_length (n div 2)))"

declare bit_length.simps [simp del]

definition pow2 :: "int \<Rightarrow> rat" where
  "pow2 k = (if k < 0 then 1 / 2 ^ nat (- k) else 2 ^ nat k)"

definition round_float64 :: "rat \<Rightarrow> rat" where
  "round_float64 r = (if r = 0 then 0 else
     (let (n, d) = quotient_of \<bar>r\<bar>; k = int (bit_length (nat n)) - int (bit_length (nat d));
          e = (if pow2 k \<le> \<bar>r\<bar> then k else k - 1) - 52; m = \<lfloor>\<bar>r\<bar> / pow2 e\<rfloor>; rest = \<bar>r\<bar> / pow2 e - of_int m;
          m' = (if 1 / 2 < rest \<or> (rest = 1 / 2 \<and> m mod 2 = 1) then m + 1 else m)
      in (if r < 0 then - 1 else 1) * (of_int m' * pow2 e)))"

fun json_decoded :: "goval \<Rightarrow> goval"
and json_decoded_list :: "goval list \<Rightarrow> goval list"
and json_decoded_members :: "(string \<times> goval) list \<Rightarrow> (string \<times> goval) list" where
  "json_decoded GNil = GNil"
| "json_decoded (GBool b) = GBool b"
| "json_decoded (GNumber n) = GFloat64 (if n = [] then Some 0 else map_option round_float64 (number_value n))"
| "json_decoded (GInt i) = GFloat64 (Some (of_int (round53 i)))"
| "json_decoded (GFloat64 r) = GFloat64 r"
| "json_decoded (GInt32 i) = GFloat64 (Some (of_int i))"
| "json_decoded (GFloat32 r) = GFloat64 r"
| "json_decoded (GString s) = GString s"
| "json_decoded (GTime t) = GString (format_nanos t)"
| "json_decoded (GArray vs) = GArray (json_decoded_list vs)"
| "json_decoded (GObject kvs) = GObject (json_decoded_members kvs)"
| "json_decoded_list [] = []"
| "json_decoded_list (v # vs) = json_decoded v # json_decoded_list vs"
| "json_decoded_members [] = []"
| "json_decoded_members ((k, v) # kvs) = (k, json_decoded v) # json_decoded_members kvs"

text \<open>Values whose numbers survive the round trip: ints of at most 53 bits and float64s.\<close>

fun exact_numbers :: "goval \<Rightarrow> bool"
and exact_numbers_list :: "goval list \<Rightarrow> bool"
and exact_numbers_members :: "(string \<times> goval) list \<Rightarrow> bool" where
  "exact_numbers GNil = True"
| "exact_numbers (GBool b) = True"
| "exact_numbers (GNumber n) = False"
| "exact_numbers (GInt i) = (\<bar>i\<bar> \<le> 2 ^ 53)"
| "exact_numbers (GFloat64 r) = True"
| "exact_numbers (GInt32 i) = (\<bar>i\<bar> < 2 ^ 31)"
| "exact_numbers (GFloat32 r) = False"
| "exact_numbers (GString s) = True"
| "exact_numbers (GTime t) = four_digit_year t"
| "exact_numbers (GArray vs) = exact_numbers_list vs"
| "exact_numbers (GObject kvs) = exact_numbers_members kvs"
| "exact_numbers_list [] = True"
| "exact_numbers_list (v # vs) = (exact_numbers v \<and> exact_numbers_list vs)"
| "exact_numbers_members [] = True"
| "exact_numbers_members ((k, v) # kvs) = (exact_numbers v \<and> exact_numbers_members kvs)"

lemma float_text_int: "\<bar>i\<bar> \<le> 2 ^ 53 \<Longrightarrow> float_text ft (of_int i) = itoa i"
  by (simp add: float_text_def)

lemma round53_small: "\<bar>i\<bar> \<le> 2 ^ 53 \<Longrightarrow> round53 i = i"
  by (simp add: round53_def Let_def nat_le_iff)

lemma json_text_decoded:
  "exact_numbers v \<Longrightarrow> json_text ft (json_decoded v) = json_text ft v"
  "exact_numbers_list vs \<Longrightarrow> json_texts ft (json_decoded_list vs) = json_texts ft vs"
  "exact_numbers_members kvs \<Longrightarrow> json_members ft (json_decoded_members kvs) = json_members ft kvs"
proof (induction v and vs and kvs rule: json_decoded_json_decoded_list_json_decoded_members.induct)
  case (4 i)
  then show ?case by (simp add: round53_small float_text_int)
next
  case (6 i)
  then show ?case by (simp add: float_text_int)
qed (simp_all split: option.split)

subsection \<open>SHA-256\<close>

type_synonym w32 = "32 word"

text \<open>The constants are the fractional parts of roots of the first primes.\<close>

definition small_primes :: "nat list" where
  "small_primes = filter (\<lambda>p. list_all (\<lambda>d. p mod d \<noteq> 0) [2..<p]) [2..<312]"

fun root_bits :: "nat \<Rightarrow> nat \<Rightarrow> nat \<Rightarrow> nat \<Rightarrow> nat" where
  "root_bits k x 0 acc = acc"
| "root_bits k x (Suc n) acc = root_bits k x n (if (acc + 2 ^ n) ^ k \<le> x then acc + 2 ^ n else acc)"

definition sha_K :: "w32 list" where
  "sha_K = map (\<lambda>p. of_nat (root_bits 3 (p * 2 ^ 96) 35 0)) small_primes"

definition sha_init :: "w32 list" where
  "sha_init = map (\<lambda>p. of_nat (root_bits 2 (p * 2 ^ 64) 35 0)) [2, 3, 5, 7, 11, 13, 17, 19]"

unbundle bit_operations_syntax

definition sha_s0 :: "w32 \<Rightarrow> w32" where
  "sha_s0 x = word_rotr 7 x XOR word_rotr 18 x XOR drop_bit 3 x"

definition sha_s1 :: "w32 \<Rightarrow> w32" where
  "sha_s1 x = word_rotr 17 x XOR word_rotr 19 x XOR drop_bit 10 x"

definition sha_S0 :: "w32 \<Rightarrow> w32" where
  "sha_S0 x = word_rotr 2 x XOR word_rotr 13 x XOR word_rotr 22 x"

definition sha_S1 :: "w32 \<Rightarrow> w32" where
  "sha_S1 x = word_rotr 6 x XOR word_rotr 11 x XOR word_rotr 25 x"

text \<open>Padding to a multiple of 64 bytes, the bit length in the last eight.\<close>

definition sha_pad :: "string \<Rightarrow> nat list" where
  "sha_pad s = (let bs = map (of_char :: char \<Rightarrow> nat) s; l = length s in
     bs @ [128] @ replicate ((119 - l mod 64) mod 64) 0
     @ map (\<lambda>i. 8 * l div 256 ^ (7 - i) mod 256) [0..<8])"

fun sha_words :: "nat list \<Rightarrow> w32 list" where
  "sha_words (a # b # c # d # bs) =
     of_nat (((a * 256 + b) * 256 + c) * 256 + d) # sha_words bs"
| "sha_words bs = []"

text \<open>The message schedule is kept newest first.\<close>

fun sha_schedule :: "nat \<Rightarrow> w32 list \<Rightarrow> w32 list" where
  "sha_schedule 0 ws = ws"
| "sha_schedule (Suc n) ws =
     sha_schedule n ((sha_s1 (ws ! 1) + ws ! 6 + sha_s0 (ws ! 14) + ws ! 15) # ws)"

definition sha_round :: "w32 list \<Rightarrow> w32 \<times> w32 \<Rightarrow> w32 list" where
  "sha_round st kw = (case st of
     [a, b, c, d, e, f, g, h] \<Rightarrow>
       (let t1 = h + sha_S1 e + ((e AND f) XOR (NOT e AND g)) + fst kw + snd kw;
            t2 = sha_S0 a + ((a AND b) XOR (a AND c) XOR (b AND c))
        in [t1 + t2, a, b, c, d + t1, e, f, g])
   | _ \<Rightarrow> st)"

definition sha_block :: "w32 list \<Rightarrow> w32 list \<Rightarrow> w32 list" where
  "sha_block st ws =
     map2 (+) st (foldl sha_round st (zip sha_K (rev (sha_schedule 48 (rev ws)))))"

fun sha_blocks :: "nat \<Rightarrow> w32 list \<Rightarrow> w32 list \<Rightarrow> w32 list" where
  "sha_blocks 0 st ws = st"
| "sha_blocks (Suc n) st ws = sha_blocks n (sha_block st (take 16 ws)) (drop 16 ws)"

definition sha256_hex :: "string \<Rightarrow> string" where
  "sha256_hex s = (let ws = sha_words (sha_pad s) in
     concat (map (\<lambda>w. fixed_digits hex_char 16 8 (unat w)) (sha_blocks (length ws div 16) sha_init ws)))"

subsection \<open>What the texts determine\<close>

declare days_before_year.simps [simp del]

abbreviation (input) bar :: char where "bar \<equiv> CHR ''|''"

lemma digits_no_bar: "bar \<notin> set (fixed_digits digit_char 10 w n)"
proof
  assume "bar \<in> set (fixed_digits digit_char 10 w n)"
  then obtain d where "d < 10" "bar = digit_char d"
    using fixed_digits_set [of 10 bar digit_char w n] by auto
  then have "(of_char bar :: nat) = 48 + d" by (simp only: of_char_digit_char)
  with \<open>d < 10\<close> show False by simp
qed

lemma hex_no_bar: "bar \<notin> set (fixed_digits hex_char 16 w n)"
proof
  assume "bar \<in> set (fixed_digits hex_char 16 w n)"
  then obtain d where "d < 16" "bar = hex_char d"
    using fixed_digits_set [of 16 bar hex_char w n] by auto
  then have "(of_char bar :: nat) = (if d < 10 then 48 + d else 87 + d)" by (simp only: of_char_hex_char)
  with \<open>d < 16\<close> show False by (simp split: if_splits)
qed

lemma uuid_string_no_bar: "bar \<notin> set (uuid_string u)"
  by (simp add: uuid_string_def hex_no_bar)

lemma uuid_string_length: "length (uuid_string u) = 36"
  by (simp add: uuid_string_def)

lemmas hex_digits_inj = fixed_digits_inj [OF inj_hex_char]
lemmas dec_digits_inj = fixed_digits_inj [OF inj_digit_char]

text \<open>The number a uuid is, put together again from its five groups.\<close>

lemma uuid_groups: "u = ((((u div 16 ^ 24) * 16 ^ 4 + u div 16 ^ 20 mod 16 ^ 4) * 16 ^ 4 + u div 16 ^ 16 mod 16 ^ 4)
     * 16 ^ 4 + u div 16 ^ 12 mod 16 ^ 4) * 16 ^ 12 + u mod (16::nat) ^ 12"
proof -
  have step: "(x div (a * b)) * b + x div a mod b = x div a" for x a b :: nat
    by (metis div_mult2_eq div_mult_mod_eq)
  have "u div 16 ^ 24 * 16 ^ 4 + u div 16 ^ 20 mod 16 ^ 4 = u div 16 ^ 20"
    "u div 16 ^ 20 * 16 ^ 4 + u div 16 ^ 16 mod 16 ^ 4 = u div 16 ^ 16"
    "u div 16 ^ 16 * 16 ^ 4 + u div 16 ^ 12 mod 16 ^ 4 = u div 16 ^ 12"
    "u div 16 ^ 12 * 16 ^ 12 + u mod 16 ^ 12 = u"
    using step [of u "16 ^ 20" "16 ^ 4"] step [of u "16 ^ 16" "16 ^ 4"] step [of u "16 ^ 12" "16 ^ 4"]
    by (simp_all add: div_mult_mod_eq flip: power_add)
  then show ?thesis by simp
qed

lemma uuid_string_inj:
  assumes "valid_uuid u" "valid_uuid v" "uuid_string u = uuid_string v"
  shows "u = v"
proof -
  have lt: "u div 16 ^ 24 < 16 ^ 8" "v div 16 ^ 24 < 16 ^ 8"
    using assms(1,2) by (simp_all add: valid_uuid_def div_less_iff_less_mult)
  have g: "fixed_digits hex_char 16 8 (u div 16 ^ 24) = fixed_digits hex_char 16 8 (v div 16 ^ 24)"
    "fixed_digits hex_char 16 4 (u div 16 ^ 20 mod 16 ^ 4) = fixed_digits hex_char 16 4 (v div 16 ^ 20 mod 16 ^ 4)"
    "fixed_digits hex_char 16 4 (u div 16 ^ 16 mod 16 ^ 4) = fixed_digits hex_char 16 4 (v div 16 ^ 16 mod 16 ^ 4)"
    "fixed_digits hex_char 16 4 (u div 16 ^ 12 mod 16 ^ 4) = fixed_digits hex_char 16 4 (v div 16 ^ 12 mod 16 ^ 4)"
    "fixed_digits hex_char 16 12 (u mod 16 ^ 12) = fixed_digits hex_char 16 12 (v mod 16 ^ 12)"
    using assms(3) unfolding uuid_string_def by (simp_all only: append_eq_append_conv fixed_digits_length append.assoc list.size length_append simp_thms) 
  have "u div 16 ^ 24 = v div 16 ^ 24" using g(1) lt by (intro hex_digits_inj) auto
  moreover have "u div 16 ^ 20 mod 16 ^ 4 = v div 16 ^ 20 mod 16 ^ 4" using g(2) by (intro hex_digits_inj) auto
  moreover have "u div 16 ^ 16 mod 16 ^ 4 = v div 16 ^ 16 mod 16 ^ 4" using g(3) by (intro hex_digits_inj) auto
  moreover have "u div 16 ^ 12 mod 16 ^ 4 = v div 16 ^ 12 mod 16 ^ 4" using g(4) by (intro hex_digits_inj) auto
  moreover have "u mod 16 ^ 12 = v mod 16 ^ 12" using g(5) by (intro hex_digits_inj) auto
  ultimately show ?thesis using uuid_groups [of u] uuid_groups [of v] by (simp only:)
qed

lemma format_micros_length: "length (format_micros t) = 27"
  by (simp add: format_micros_def Let_def)

lemma format_micros_no_bar: "bar \<notin> set (format_micros t)"
  by (simp add: format_micros_def Let_def digits_no_bar)

lemma micros_div: "t div 1000000000 = t div 1000 div (1000000::int)"
  using zdiv_zmult2_eq [of 1000000 t 1000] by simp

lemma micros_mod: "t mod 1000000000 div 1000 = t div 1000 mod (1000000::int)"
proof -
  have "t mod (1000 * 1000000) = 1000 * (t div 1000 mod 1000000) + t mod 1000"
    by (rule zmod_zmult2_eq) simp
  then show ?thesis by simp
qed

lemma format_micros_trunc: "format_micros (trunc_micros t) = format_micros t"
proof -
  have "trunc_micros t div 1000 = t div 1000" by (simp add: trunc_micros_def)
  then show ?thesis by (simp only: format_micros_def micros_div micros_mod)
qed

lemma sha_round_length: "length (sha_round st kw) = length st"
  by (auto simp: sha_round_def Let_def split: list.split)

lemma sha_fold_length: "length (foldl sha_round st kws) = length st"
  by (induction kws arbitrary: st) (simp_all add: sha_round_length)

lemma sha_blocks_length: "length (sha_blocks n st ws) = length st"
  by (induction n arbitrary: st ws) (simp_all add: sha_block_def sha_fold_length)

lemma sha256_hex_length: "length (sha256_hex s) = 64"
proof -
  have "length (concat (map (\<lambda>w. fixed_digits hex_char 16 8 (unat (w :: w32))) ws)) = 8 * length ws" for ws
    by (induction ws) simp_all
  then show ?thesis by (simp add: sha256_hex_def Let_def sha_blocks_length sha_init_def)
qed

lemma sha256_hex_no_bar: "bar \<notin> set (sha256_hex s)"
  by (auto simp: sha256_hex_def Let_def hex_no_bar)

text \<open>The printed time determines the instant up to microseconds, within the years 0 to 9999.\<close>

lemma dby_mono: "y \<le> y' \<Longrightarrow> days_before_year y \<le> days_before_year y'"
proof (induction y')
  case (Suc y')
  then show ?case using year_step [of y'] by (cases "y = Suc y'") (auto simp del: days_before_year.simps)
qed simp

lemma dby_lower: "y \<le> days_before_year y"
proof (induction y)
  case (Suc y)
  then show ?case using year_step [of y] by (simp del: days_before_year.simps)
qed simp

lemma dby_upper: "days_before_year y \<le> 366 * y"
proof (induction y)
  case (Suc y)
  then show ?case using year_step [of y] by (simp split: if_splits)
qed (simp add: days_before_year.simps)

lemma year_from_spec:
  "days_before_year y \<le> n \<Longrightarrow>
     days_before_year (year_from y n) \<le> n \<and> n < days_before_year (Suc (year_from y n))"
proof (induction y n rule: year_from.induct)
  case (1 y n)
  show ?case
  proof (cases "days_before_year (Suc y) \<le> n \<and> y \<le> n")
    case True
    with 1 show ?thesis by (simp add: year_from.simps [of y n] del: days_before_year.simps)
  next
    case False
    moreover have "y \<le> n" using 1(2) dby_lower [of y] by linarith
    ultimately show ?thesis using 1(2)
      by (simp add: year_from.simps [of y n] del: days_before_year.simps)
  qed
qed

lemma year_of_spec: "days_before_year (year_of n) \<le> n \<and> n < days_before_year (Suc (year_of n))"
proof -
  have "days_before_year (n div 366) \<le> n" by (rule order_trans [OF dby_upper]) simp
  then show ?thesis unfolding year_of_def by (rule year_from_spec)
qed

lemma year_of_bound: "n < days_before_year 10000 \<Longrightarrow> year_of n < 10000"
  using year_of_spec [of n] dby_mono [of 10000 "year_of n"] by (meson not_le order.strict_trans1 order.strict_trans2 less_irrefl)

lemma month_of_spec:
  assumes "k < 365 + (if is_leap y then 1 else 0)"
  shows "1 \<le> month_of y k" "month_of y k \<le> 12" "days_before_month y (month_of y k) \<le> k"
    "k - days_before_month y (month_of y k) < 31"
proof -
  let ?P = "\<lambda>m. days_before_month y m \<le> k"
  let ?m = "month_of y k"
  have len: "?m \<le> 12" unfolding month_of_def
    by (rule order_trans [OF length_takeWhile_le]) simp
  have one: "?P 1" by simp
  have "1 \<le> ?m" unfolding month_of_def using one by (simp add: upt_rec)
  moreover have "?P ?m"
  proof -
    have "?P ([1..<13] ! (?m - 1))"
      using \<open>1 \<le> ?m\<close> nth_mem [of "?m - 1" "takeWhile ?P [1..<13]"]
      by (metis (mono_tags, lifting) Suc_le_eq diff_less less_numeral_extra(1) month_of_def set_takeWhileD takeWhile_nth One_nat_def)
    then show ?thesis using \<open>1 \<le> ?m\<close> len by (simp add: nth_upt)
  qed
  moreover have "k - days_before_month y ?m < 31"
  proof (cases "?m < 12")
    case True
    have "\<not> ?P ([1..<13] ! ?m)"
      using True nth_length_takeWhile [of ?P "[1..<13]"] by (simp add: month_of_def)
    then have "k < days_before_month y (Suc ?m)" using True by simp
    then show ?thesis using \<open>1 \<le> ?m\<close> by (auto simp: days_in_month_def split: if_splits)
  next
    case False
    with len have "?m = 12" by simp
    then show ?thesis using months [of y] assms by (simp add: days_in_month_def split: if_splits)
  qed
  ultimately show "1 \<le> ?m" "?m \<le> 12" "days_before_month y ?m \<le> k" "k - days_before_month y ?m < 31"
    using len by auto
qed

definition day_of_year :: "nat \<Rightarrow> nat" where
  "day_of_year n = n - days_before_year (year_of n)"

lemma day_of_year_bound: "day_of_year n < 365 + (if is_leap (year_of n) then 1 else 0)"
  using year_of_spec [of n] year_step [of "year_of n"] unfolding day_of_year_def
  by (cases "is_leap (year_of n)") auto

lemma calendar_inj:
  assumes "year_of a = year_of b" "month_of (year_of a) (day_of_year a) = month_of (year_of b) (day_of_year b)"
    and "day_of_year a - days_before_month (year_of a) (month_of (year_of a) (day_of_year a))
       = day_of_year b - days_before_month (year_of b) (month_of (year_of b) (day_of_year b))"
  shows "a = b"
proof -
  have "day_of_year a = day_of_year b"
    using assms month_of_spec(3) [OF day_of_year_bound [of a]] month_of_spec(3) [OF day_of_year_bound [of b]]
    by simp
  with assms(1) have "a - days_before_year (year_of b) = b - days_before_year (year_of b)"
    by (simp add: day_of_year_def)
  moreover have "days_before_year (year_of b) \<le> a" "days_before_year (year_of b) \<le> b"
    using assms(1) year_of_spec [of a] year_of_spec [of b] by auto
  ultimately show ?thesis by linarith
qed

lemma days_window:
  "- (86400 * int epoch_days) \<le> s \<Longrightarrow> 0 \<le> s div 86400 + int epoch_days"
  "s < 86400 * (int (days_before_year 10000) - int epoch_days)
     \<Longrightarrow> s div 86400 + int epoch_days < int (days_before_year 10000)"
proof -
  have *: "s div 86400 + e < n" if "s < 86400 * (n - e)" for s e n :: int
  proof -
    define q r where "q = s div 86400" and "r = s mod 86400"
    have "s = q * 86400 + r" "0 \<le> r" unfolding q_def r_def by simp_all
    with that show ?thesis unfolding q_def [symmetric] by (simp add: algebra_simps)
  qed
  show "- (86400 * int epoch_days) \<le> s \<Longrightarrow> 0 \<le> s div 86400 + int epoch_days" by linarith
  show "s < 86400 * (int (days_before_year 10000) - int epoch_days)
     \<Longrightarrow> s div 86400 + int epoch_days < int (days_before_year 10000)" by (rule *)
qed

text \<open>The numbers a formatted instant shows.\<close>

lemma format_micros_fields:
  assumes "format_micros t = format_micros t'" "four_digit_year t" "four_digit_year t'"
  shows "trunc_micros t = trunc_micros t'"
proof -
  define S S' where "S = t div 1000000000" and "S' = t' div 1000000000"
  define U U' where "U = nat (t mod 1000000000 div 1000)" and "U' = nat (t' mod 1000000000 div 1000)"
  define D D' where "D = nat (S div 86400 + int epoch_days)" and "D' = nat (S' div 86400 + int epoch_days)"
  define C C' where "C = nat (S mod 86400)" and "C' = nat (S' mod 86400)"
  let ?M = "\<lambda>n. month_of (year_of n) (day_of_year n)"
  let ?d = "\<lambda>n. Suc (day_of_year n - days_before_month (year_of n) (?M n))"
  have form: "format_micros x = fixed_digits digit_char 10 4 (year_of n) @ ''-'' @ fixed_digits digit_char 10 2 (?M n) @ ''-''
       @ fixed_digits digit_char 10 2 (?d n) @ ''T'' @ fixed_digits digit_char 10 2 (c div 3600)
       @ '':'' @ fixed_digits digit_char 10 2 (c div 60 mod 60)
       @ '':'' @ fixed_digits digit_char 10 2 (c mod 60) @ ''.'' @ fixed_digits digit_char 10 6 u @ ''Z''"
    if "n = nat (x div 1000000000 div 86400 + int epoch_days)" "c = nat (x div 1000000000 mod 86400)"
      "u = nat (x mod 1000000000 div 1000)" for x n c u
    unfolding that format_micros_def Let_def day_of_year_def ..
  have eqs: "fixed_digits digit_char 10 4 (year_of D) = fixed_digits digit_char 10 4 (year_of D')"
    "fixed_digits digit_char 10 2 (?M D) = fixed_digits digit_char 10 2 (?M D')"
    "fixed_digits digit_char 10 2 (?d D) = fixed_digits digit_char 10 2 (?d D')"
    "fixed_digits digit_char 10 2 (C div 3600) = fixed_digits digit_char 10 2 (C' div 3600)"
    "fixed_digits digit_char 10 2 (C div 60 mod 60) = fixed_digits digit_char 10 2 (C' div 60 mod 60)"
    "fixed_digits digit_char 10 2 (C mod 60) = fixed_digits digit_char 10 2 (C' mod 60)"
    "fixed_digits digit_char 10 6 U = fixed_digits digit_char 10 6 U'"
    using assms(1) form [of D t C U] form [of D' t' C' U']
    unfolding D_def D'_def C_def C'_def U_def U'_def S_def S'_def
    by (simp_all only: append_eq_append_conv fixed_digits_length list.size length_append simp_thms)
  have S: "0 \<le> S div 86400 + int epoch_days" "S div 86400 + int epoch_days < int (days_before_year 10000)"
    "0 \<le> S' div 86400 + int epoch_days" "S' div 86400 + int epoch_days < int (days_before_year 10000)"
    using assms(2,3) days_window [of S] days_window [of S'] unfolding four_digit_year_def S_def S'_def by blast+
  then have "D < days_before_year 10000" "D' < days_before_year 10000"
    unfolding D_def D'_def by linarith+
  then have y: "year_of D < 10 ^ 4" "year_of D' < 10 ^ 4" using year_of_bound by auto
  have m: "?M n < 10 ^ 2" "?d n < 10 ^ 2" for n
    using month_of_spec [OF day_of_year_bound [of n]] by auto
  have e: "year_of D = year_of D'" by (rule dec_digits_inj [OF _ y eqs(1)]) simp
  have e2: "?M D = ?M D'" by (rule dec_digits_inj [OF _ m(1) m(1) eqs(2)]) simp
  have "?d D = ?d D'" by (rule dec_digits_inj [OF _ m(2) m(2) eqs(3)]) simp
  then have "D = D'" by (intro calendar_inj [OF e e2]) (simp only: nat.inject)
  then have days: "S div 86400 = S' div 86400" using S unfolding D_def D'_def by linarith
  have c: "C < 86400" "C' < 86400" unfolding C_def C'_def by auto
  then have "C div 3600 < 10 ^ 2" "C' div 3600 < 10 ^ 2" by auto
  then have "C div 3600 = C' div 3600" using eqs(4) by (intro dec_digits_inj) auto
  moreover have "C div 60 mod 60 = C' div 60 mod 60" using eqs(5) by (intro dec_digits_inj) auto
  moreover have "C mod 60 = C' mod 60" using eqs(6) by (intro dec_digits_inj) auto
  moreover have "x = x div 3600 * 3600 + x div 60 mod 60 * 60 + x mod 60" for x :: nat
  proof -
    define q r where "q = x div 60" and "r = x mod 60"
    have "x = q * 60 + r" "q = q div 60 * 60 + q mod 60" unfolding q_def r_def by simp_all
    moreover have "(a * 60 + b) * 60 + c = a * 3600 + b * 60 + c" for a b c :: nat by simp
    ultimately have "x = q div 60 * 3600 + q mod 60 * 60 + r" by metis
    then show ?thesis using div_mult2_eq [of x 60 60] unfolding q_def r_def by simp
  qed
  ultimately have "C = C'" by metis
  then have "S mod 86400 = S' mod 86400" unfolding C_def C'_def by (simp add: nat_eq_iff2)
  with days have sec: "S = S'" by (metis div_mult_mod_eq)
  have "U < 10 ^ 6" "U' < 10 ^ 6" unfolding U_def U'_def micros_mod by auto
  then have "U = U'" using eqs(7) by (intro dec_digits_inj) auto
  then have "t div 1000 mod 1000000 = t' div 1000 mod 1000000"
    unfolding U_def U'_def micros_mod by (simp add: nat_eq_iff2)
  moreover have "t div 1000 div 1000000 = t' div 1000 div 1000000"
    using sec unfolding S_def S'_def micros_div .
  ultimately have "t div 1000 = t' div 1000" by (metis div_mult_mod_eq)
  then show ?thesis by (simp add: trunc_micros_def)
qed
end
