(* ===== verification/Rule_Json.thy ===== *)
theory Rule_Json
  imports Go_Text
begin

section \<open>Rules as JSON documents\<close>

text \<open>
  MarshalJSON and UnmarshalJSON of a condition (src/internal/rules/domain/rule.go), by which
  rules reach the tables and come back. A document is the value it denotes. The text of an
  operator, a value in the range of float64 and the other fields of a rule survive the way
  through a document as they are; the value of a condition is decoded as json.Unmarshal
  decodes into an interface, so its numbers become float64s. The last part shows what a
  validated condition is after the round trip.
\<close>

subsection \<open>Encoding\<close>

fun ConditionJSON :: "Condition \<Rightarrow> goval option"
and ConditionsJSON :: "Condition list \<Rightarrow> goval list option" where
  "ConditionJSON (Condition f op v al an nt) =
     (if f \<noteq> [] then
        (if json_encodable v
         then Some (GObject ([(''field'', GString f), (''operator'', GString (operator_string op))]
                @ (if v \<noteq> GNil then [(''value'', v)] else [])))
         else None)
      else if al = [] \<and> an = [] \<and> nt = None then None
      else (case (ConditionsJSON al, ConditionsJSON an,
                  (case nt of None \<Rightarrow> Some GNil | Some n \<Rightarrow> ConditionJSON n)) of
          (Some als, Some ans, Some n) \<Rightarrow>
            Some (GObject ((if 0 < length al then [(''all'', GArray als)] else [])
               @ (if 0 < length an then [(''any'', GArray ans)] else [])
               @ (if nt \<noteq> None then [(''not'', n)] else [])))
        | _ \<Rightarrow> None))"
| "ConditionsJSON [] = Some []"
| "ConditionsJSON (c # cs) = (case ConditionJSON c of
     None \<Rightarrow> None
   | Some d \<Rightarrow> map_option ((#) d) (ConditionsJSON cs))"

subsection \<open>Decoding\<close>

definition Operator_of :: "string \<Rightarrow> Operator" where
  "Operator_of s = (case List.find (\<lambda>op. operator_string op = s)
       [OpEqual, OpNotEqual, OpGreaterThan, OpGreaterThanEqual, OpLessThan, OpLessThanEqual, OpIn, OpNotIn,
        OpIs, OpIsNot, OpExists, OpNotExists, OpContains, OpMatches, OpBefore, OpAfter, OpOnOrBefore, OpOnOrAfter] of
     Some op \<Rightarrow> op | None \<Rightarrow> OpOther s)"

text \<open>A string member of the raw struct: absent and null leave it empty.\<close>

definition raw_string :: "(string \<times> goval) list \<Rightarrow> string \<Rightarrow> go_error + string" where
  "raw_string kvs k = (case map_of kvs k of
     None \<Rightarrow> Inr [] | Some GNil \<Rightarrow> Inr [] | Some (GString s) \<Rightarrow> Inr s
   | Some _ \<Rightarrow> Inl (Err ''json: cannot unmarshal into Go struct field of type string''))"

text \<open>A raw message that is present and not null.\<close>

definition raw_message :: "(string \<times> goval) list \<Rightarrow> string \<Rightarrow> goval option" where
  "raw_message kvs k = (case map_of kvs k of None \<Rightarrow> None | Some v \<Rightarrow> if v = GNil then None else Some v)"

text \<open>The shape of the condition: a leaf or exactly one group.\<close>

definition raw_shape :: "bool \<Rightarrow> bool \<Rightarrow> bool \<Rightarrow> bool \<Rightarrow> go_error option" where
  "raw_shape isLeaf hasAll hasAny hasNot =
     (let groupCount = (if hasAll then 1 else 0) + (if hasAny then 1 else 0) + (if hasNot then 1 else (0::nat)) in
      if isLeaf \<and> 0 < groupCount then Some (Err ''condition cannot be both a leaf and a group'')
      else if \<not> isLeaf \<and> groupCount = 0 then Some (Err ''condition must be either a leaf or a group'')
      else if 1 < groupCount then Some (Err ''condition can only define one of: all, any, not'')
      else None)"

definition not_an_array :: "go_error + 'a" where
  "not_an_array = Inl (Err ''json: cannot unmarshal into Go value of type []domain.Condition'')"

text \<open>
  UnmarshalJSON once its parts are decoded: the condition under not with the raw struct, the
  two groups after the shape is checked.
\<close>

definition condition_of_raw :: "(string \<times> goval) list \<Rightarrow> go_error + Condition option \<Rightarrow> go_error + Condition list
    \<Rightarrow> go_error + Condition list \<Rightarrow> go_error + Condition" where
  "condition_of_raw kvs rawNot rawAll rawAny =
     (case (raw_string kvs ''field'', raw_string kvs ''operator'', rawNot) of
        (Inr f, Inr op, Inr nt) \<Rightarrow>
          (case raw_shape (f \<noteq> [] \<or> op \<noteq> []) (raw_message kvs ''all'' \<noteq> None) (raw_message kvs ''any'' \<noteq> None)
                  (nt \<noteq> None) of
             Some e \<Rightarrow> Inl e
           | None \<Rightarrow>
               (case (rawAll, rawAny) of
                  (Inl e, _) \<Rightarrow> Inl (Wrap ''all group decode'' e)
                | (Inr al, Inl e) \<Rightarrow> Inl (Wrap ''any group decode'' e)
                | (Inr al, Inr an) \<Rightarrow> Inr (Condition f (Operator_of op)
                    (case raw_message kvs ''value'' of None \<Rightarrow> GNil | Some v \<Rightarrow> json_decoded v) al an nt)))
      | (Inl e, _, _) \<Rightarrow> Inl (Wrap ''condition decode'' e)
      | (Inr _, Inl e, _) \<Rightarrow> Inl (Wrap ''condition decode'' e)
      | (Inr _, Inr _, Inl e) \<Rightarrow> Inl (Wrap ''condition decode'' e))"

lemma raw_message_size:
  assumes "raw_message kvs k = Some v"
  shows "size v < size (GObject kvs)"
proof -
  have "(k, v) \<in> set kvs" using assms by (auto simp: raw_message_def map_of_SomeD split: option.splits if_splits)
  then have "size v \<le> size_list (size_prod (\<lambda>_. 0) size) kvs"
    by (intro size_list_estimation' [of "(k, v)"]) auto
  then show ?thesis by simp
qed

function (sequential) DecodeCondition :: "goval \<Rightarrow> go_error + Condition"
and DecodeConditions :: "goval list \<Rightarrow> go_error + Condition list" where
  "DecodeCondition (GObject kvs) = condition_of_raw kvs
     (case raw_message kvs ''not'' of None \<Rightarrow> Inr None | Some n \<Rightarrow> map_sum id Some (DecodeCondition n))
     (case raw_message kvs ''all'' of None \<Rightarrow> Inr [] | Some (GArray cs) \<Rightarrow> DecodeConditions cs | Some _ \<Rightarrow> not_an_array)
     (case raw_message kvs ''any'' of None \<Rightarrow> Inr [] | Some (GArray cs) \<Rightarrow> DecodeConditions cs | Some _ \<Rightarrow> not_an_array)"
| "DecodeCondition GNil = Inl (Err ''condition must be either a leaf or a group'')"
| "DecodeCondition v = Inl (Wrap ''condition decode'' (Err ''json: cannot unmarshal into Go value''))"
| "DecodeConditions [] = Inr []"
| "DecodeConditions (v # vs) = (case DecodeCondition v of
     Inl e \<Rightarrow> Inl e
   | Inr c \<Rightarrow> map_sum id ((#) c) (DecodeConditions vs))"
  by pat_completeness auto

termination
  by (relation "measure (case_sum size (size_list size))") (auto dest: raw_message_size)

subsection \<open>Rules, facts and traces\<close>

text \<open>MarshalRulesJSON and UnmarshalRulesJSON, and the same for the rule of a template.\<close>

definition rule_encodable :: "Rule \<Rightarrow> bool" where
  "rule_encodable r \<longleftrightarrow> ConditionJSON (Conditions r) \<noteq> None \<and> four_digit_year (rule_CreatedAt r)"

definition rule_decoded :: "Rule \<Rightarrow> go_error + Rule" where
  "rule_decoded r = (case ConditionJSON (Conditions r) of
     None \<Rightarrow> Inl (Err ''empty condition'')
   | Some doc \<Rightarrow> map_sum id (\<lambda>k. r\<lparr>Conditions := k\<rparr>) (DecodeCondition doc))"

fun rules_decoded :: "Rule list \<Rightarrow> go_error + Rule list" where
  "rules_decoded [] = Inr []"
| "rules_decoded (r # rs) = (case rule_decoded r of
     Inl e \<Rightarrow> Inl e
   | Inr r' \<Rightarrow> map_sum id ((#) r') (rules_decoded rs))"

text \<open>
  A number in a jsonb column is a numeric: it is printed without an exponent, with the digits
  of its scale after the point, and zero has no sign. Numbers are within the range of numeric.
\<close>

definition jsonb_number :: "string \<Rightarrow> string" where
  "jsonb_number s = (case read_number s of
     None \<Rightarrow> s
   | Some (neg, m, d, e) \<Rightarrow>
       (let ds = nat (int d - e); k = m * 10 ^ nat (e - int d)
        in (if neg \<and> m \<noteq> 0 then ''-'' else []) @ dec_string (k div 10 ^ ds)
           @ (if ds = 0 then [] else CHR ''.'' # fixed_digits digit_char 10 ds k)))"

text \<open>
  What json.Marshal, a jsonb column and a decoder with UseNumber make of a value: every number
  is its literal. The text of a float64 that is no small integer is the argument \<open>nt\<close>.
\<close>

fun json_numbered :: "(rat \<Rightarrow> string) \<Rightarrow> goval \<Rightarrow> goval"
and json_numbered_list :: "(rat \<Rightarrow> string) \<Rightarrow> goval list \<Rightarrow> goval list"
and json_numbered_members :: "(rat \<Rightarrow> string) \<Rightarrow> (string \<times> goval) list \<Rightarrow> (string \<times> goval) list" where
  "json_numbered nt GNil = GNil"
| "json_numbered nt (GBool b) = GBool b"
| "json_numbered nt (GNumber n) = GNumber (if n = [] then ''0'' else jsonb_number n)"
| "json_numbered nt (GInt i) = GNumber (itoa i)"
| "json_numbered nt (GFloat64 r) = (case r of None \<Rightarrow> GNil | Some x \<Rightarrow> GNumber (jsonb_number (float_text nt x)))"
| "json_numbered nt (GInt32 i) = GNumber (itoa i)"
| "json_numbered nt (GFloat32 r) = (case r of None \<Rightarrow> GNil | Some x \<Rightarrow> GNumber (jsonb_number (float_text nt x)))"
| "json_numbered nt (GString s) = GString s"
| "json_numbered nt (GTime t) = GString (format_nanos t)"
| "json_numbered nt (GArray vs) = GArray (json_numbered_list nt vs)"
| "json_numbered nt (GObject kvs) = GObject (json_numbered_members nt kvs)"
| "json_numbered_list nt [] = []"
| "json_numbered_list nt (v # vs) = json_numbered nt v # json_numbered_list nt vs"
| "json_numbered_members nt [] = []"
| "json_numbered_members nt ((k, v) # kvs) = (k, json_numbered nt v) # json_numbered_members nt kvs"

text \<open>The documents in a trace are raw JSON: the column prints their numbers, too.\<close>

primrec json_trace :: "(rat \<Rightarrow> string) \<Rightarrow> TraceNode \<Rightarrow> TraceNode" where
  "json_trace nt (TraceNode t children) = TraceNode
     (t\<lparr>tn_Expected := map_option (json_numbered nt) (tn_Expected t),
        tn_Actual := map_option (json_numbered nt) (tn_Actual t)\<rparr>) (map (json_trace nt) children)"

text \<open>A trace is encodable when its times are; its documents are valid by construction.\<close>

fun trace_encodable :: "TraceNode \<Rightarrow> bool" where
  "trace_encodable (TraceNode t children) = (four_digit_year (tn_Timestamp t) \<and> list_all trace_encodable children)"

subsection \<open>The round trip of validated rules\<close>

fun stored_condition :: "Condition \<Rightarrow> Condition" where
  "stored_condition (Condition f op v al an nt) =
     (if f \<noteq> [] then Condition f op (json_decoded v) [] [] None
      else Condition [] (OpOther []) GNil (map stored_condition al) (map stored_condition an)
             (map_option stored_condition nt))"

definition stored_rule :: "Rule \<Rightarrow> Rule" where
  "stored_rule r = r\<lparr>Conditions := stored_condition (Conditions r)\<rparr>"

lemma Operator_of_string: "IsValidOperator op \<Longrightarrow> Operator_of (operator_string op) = op"
  by (cases op) (simp_all add: IsValidOperator_def Operator_of_def operator_string_def)

lemma ConditionJSON_object: "ConditionJSON c = Some d \<Longrightarrow> \<exists>kvs. d = GObject kvs"
  by (cases c) (auto split: if_splits option.splits)

lemma raw_simps [simp]:
  "raw_string [] k = Inr []" "raw_message [] k = None"
  "raw_string ((k', v) # kvs) k = (if k' = k then (case v of GNil \<Rightarrow> Inr [] | GString s \<Rightarrow> Inr s
     | _ \<Rightarrow> Inl (Err ''json: cannot unmarshal into Go struct field of type string'')) else raw_string kvs k)"
  "raw_message ((k', v) # kvs) k = (if k' = k then if v = GNil then None else Some v else raw_message kvs k)"
  by (auto simp: raw_string_def raw_message_def split: goval.split)

lemma decoded_leaf:
  assumes "validateLeaf re f op v = None" "f \<noteq> []" "ConditionJSON (Condition f op v al an nt) = Some doc"
  shows "DecodeCondition doc = Inr (Condition f op (json_decoded v) [] [] None)"
proof -
  have "IsValidOperator op" using assms(1,2) by (simp add: validateLeaf_def split: if_splits)
  then show ?thesis
    using assms(2,3) by (auto simp: condition_of_raw_def raw_shape_def Operator_of_string split: if_splits)
qed

text \<open>A group has exactly one of the three lists.\<close>

lemma validated_group:
  assumes "ValidateCondition re (Condition [] op v al an nt) d = None"
  obtains (all) "al \<noteq> []" "an = []" "nt = None" "ValidateConditions re al (d + 1) = None"
    | (any) "al = []" "an \<noteq> []" "nt = None" "ValidateConditions re an (d + 1) = None"
    | (neg) n where "al = []" "an = []" "nt = Some n" "ValidateCondition re n (d + 1) = None"
  using assms by (auto simp: group_count_def split: if_splits option.splits)

lemma condition_roundtrip:
  "ValidateCondition re c d = None \<Longrightarrow> ConditionJSON c = Some doc \<Longrightarrow> DecodeCondition doc = Inr (stored_condition c)"
  "ValidateConditions re cs d = None \<Longrightarrow> ConditionsJSON cs = Some docs
     \<Longrightarrow> DecodeConditions docs = Inr (map stored_condition cs) \<and> (docs = [] \<longleftrightarrow> cs = [])"
proof (induction c and cs arbitrary: d doc and d docs rule: ConditionJSON_ConditionsJSON.induct)
  case (1 f op v al an nt)
  show ?case
  proof (cases "f = []")
    case False
    then have "validateLeaf re f op v = None" using 1(4) by (simp split: if_splits)
    then show ?thesis using decoded_leaf [OF _ False 1(5)] False by simp
  next
    case True
    have group: "ValidateCondition re (Condition [] op v al an nt) d = None" using 1(4) True by simp
    then show ?thesis
    proof (cases rule: validated_group)
      case all
      obtain docs where docs: "ConditionsJSON al = Some docs" "doc = GObject [(''all'', GArray docs)]"
        using 1(5) True all by (auto split: option.splits if_splits)
      then have "DecodeConditions docs = Inr (map stored_condition al)"
        using 1(1) [OF _ _ all(4)] True all by simp
      then show ?thesis using docs True all by (simp add: condition_of_raw_def raw_shape_def Operator_of_def operator_string_def)
    next
      case any
      obtain docs where docs: "ConditionsJSON an = Some docs" "doc = GObject [(''any'', GArray docs)]"
        using 1(5) True any by (auto split: option.splits if_splits)
      then have "DecodeConditions docs = Inr (map stored_condition an)"
        using 1(2) [OF _ _ any(4)] True any by simp
      then show ?thesis using docs True any by (simp add: condition_of_raw_def raw_shape_def Operator_of_def operator_string_def)
    next
      case (neg n)
      obtain k where k: "ConditionJSON n = Some k" "doc = GObject [(''not'', k)]"
        using 1(5) True neg by (auto split: option.splits if_splits)
      then have "DecodeCondition k = Inr (stored_condition n)"
        using 1(3) [OF _ _ neg(3) neg(4)] True neg by simp
      moreover have "k \<noteq> GNil" using ConditionJSON_object [OF k(1)] by auto
      ultimately show ?thesis
        using k True neg by (simp add: condition_of_raw_def raw_shape_def Operator_of_def operator_string_def)
    qed
  qed
qed (auto split: option.splits)

lemma json_decoded_types [simp]:
  "isJSONNumber (json_decoded v) = isJSONNumber v" "isBoolean (json_decoded v) = isBoolean v"
  "isJSONObject (json_decoded v) = isJSONObject v" "isJSONArray (json_decoded v) = isJSONArray v"
  "json_decoded v = GNil \<longleftrightarrow> v = GNil"
  by (cases v; simp add: goval_tests; fail)+

lemma list_ex_decoded:
  "list_ex (\<lambda>e. isJSONObject e \<or> isJSONArray e) (json_decoded_list vs) = list_ex (\<lambda>e. isJSONObject e \<or> isJSONArray e) vs"
  by (induction vs) simp_all

lemmas list_ex_decoded_case = list_ex_decoded [unfolded isJSONObject_def isJSONArray_def]

lemma stored_value_valid:
  "validateValueForOperator re op v = None \<Longrightarrow> validateValueForOperator re op (json_decoded v) = None"
  by (cases v) (auto simp: validateValueForOperator_def list_ex_decoded_case goval_tests split: if_splits)

lemma stored_leaf_valid: "validateLeaf re f op v = None \<Longrightarrow> validateLeaf re f op (json_decoded v) = None"
  using stored_value_valid by (auto simp: validateLeaf_def split: if_splits)

lemma stored_condition_valid:
  "ValidateCondition re c d = None \<Longrightarrow> ValidateCondition re (stored_condition c) d = None"
  "ValidateConditions re cs d = None \<Longrightarrow> ValidateConditions re (map stored_condition cs) d = None"
proof (induction re c d and re cs d rule: ValidateCondition_ValidateConditions.induct)
  case (1 re f op v al an nt d)
  show ?case
  proof (cases "f = []")
    case False
    then show ?thesis using 1(4) stored_leaf_valid by (simp split: if_splits)
  next
    case True
    then have "ValidateCondition re (Condition [] op v al an nt) d = None" using 1(4) by simp
    then show ?thesis
      by (cases rule: validated_group) (use 1 True in \<open>auto simp: group_count_def split: if_splits option.splits\<close>)
  qed
qed (auto split: option.splits)

lemma countConditions_stored: "countConditions (stored_condition c) = countConditions c"
  by (induction c rule: countConditions.induct) (simp add: comp_def cong: map_cong split: option.splits)

lemma json_decoded_idem [simp]:
  "json_decoded (json_decoded v) = json_decoded v"
  "json_decoded_list (json_decoded_list vs) = json_decoded_list vs"
  "json_decoded_members (json_decoded_members kvs) = json_decoded_members kvs"
  by (induction v and vs and kvs rule: json_decoded_json_decoded_list_json_decoded_members.induct) auto

text \<open>Conditions whose values are as a JSON document gives them, and their evaluation.\<close>

fun decoded_values :: "Condition \<Rightarrow> bool" where
  "decoded_values (Condition f op v al an nt) = (if f \<noteq> [] then json_decoded v = v
     else list_all decoded_values al \<and> list_all decoded_values an
          \<and> (case nt of None \<Rightarrow> True | Some n \<Rightarrow> decoded_values n))"

lemma evaluate_stored:
  "decoded_values c \<Longrightarrow> evaluateCondition re facts (stored_condition c) p ec = evaluateCondition re facts c p ec"
  "list_all decoded_values cs \<Longrightarrow> evalGroup re facts (map stored_condition cs) isAll e u p ec = evalGroup re facts cs isAll e u p ec"
proof (induction re facts c p ec and re facts cs isAll e u p ec rule: evaluateCondition_evalGroup.induct)
  case (1 re facts f op v al an nt parent ec)
  then show ?case by (auto simp: Let_def split: prod.splits option.splits if_splits)
next
  case (2 re facts isAll hasError hasUnknown parent ec)
  then show ?case by simp
next
  case (3 re facts c cs isAll hasError hasUnknown parent ec)
  then show ?case by (auto simp: Let_def split: prod.splits if_splits)
qed

text \<open>Rule sets.\<close>

definition stored_set :: "RuleSet \<Rightarrow> RuleSet" where
  "stored_set rs = rs\<lparr>Rules := map stored_rule (Rules rs)\<rparr>"

lemma stored_rule_simps [simp]:
  "rule_ID (stored_rule r) = rule_ID r" "Rule.Priority (stored_rule r) = Rule.Priority r"
  "rule_Outcome (stored_rule r) = rule_Outcome r" "rule_Active (stored_rule r) = rule_Active r"
  "Conditions (stored_rule r) = stored_condition (Conditions r)"
  by (simp_all add: stored_rule_def)

lemma validated_shape: "ValidateCondition re c d = None \<Longrightarrow> IsGroup c \<or> IsLeaf c"
  by (cases c) (auto simp: IsGroup_def IsLeaf_def split: if_splits)

lemma validate_rule_stored: "validate_rule re r seen = [] \<Longrightarrow> validate_rule re (stored_rule r) seen = []"
  using validated_shape [OF stored_condition_valid(1) [of re "Conditions r" 0]] stored_condition_valid(1) [of re "Conditions r" 0]
  by (auto simp: validate_rule_def split: if_splits option.splits)

lemma validate_rules_stored: "validate_rules re rs seen = [] \<Longrightarrow> validate_rules re (map stored_rule rs) seen = []"
  by (induction re rs seen rule: validate_rules.induct) (simp_all add: validate_rule_stored)

lemma stored_set_valid: "ValidateRuleSet re rs = None \<Longrightarrow> ValidateRuleSet re (stored_set rs) = None"
  by (auto simp: ValidateRuleSet_def rule_set_errors_def stored_set_def validate_rules_stored comp_def
      countConditions_stored split: if_splits)

lemma rules_decoded_validated:
  "validate_rules re rs seen = [] \<Longrightarrow> list_all rule_encodable rs \<Longrightarrow> rules_decoded rs = Inr (map stored_rule rs)"
proof (induction re rs seen rule: validate_rules.induct)
  case (2 re r rs seen)
  then obtain doc where "ConditionJSON (Conditions r) = Some doc" by (auto simp: rule_encodable_def)
  moreover have "ValidateCondition re (Conditions r) 0 = None"
    using 2(2) by (auto simp: validate_rule_def split: option.splits)
  ultimately have "rule_decoded r = Inr (stored_rule r)"
    using condition_roundtrip(1) by (simp add: rule_decoded_def stored_rule_def)
  then show ?case using 2 by simp
qed simp

lemma rule_set_decoded:
  "ValidateRuleSet re rs = None \<Longrightarrow> list_all rule_encodable (Rules rs) \<Longrightarrow> rules_decoded (Rules rs) = Inr (map stored_rule (Rules rs))"
  by (rule rules_decoded_validated [of re _ "[]"]) (simp_all add: ValidateRuleSet_def rule_set_errors_def split: if_splits)

end
