(* ===== verification/Audit_Chain.thy ===== *)
theory Audit_Chain
  imports Go_Text "HOL-Library.Product_Lexorder"
begin

section \<open>The audit trail\<close>

text \<open>
  internal/audit: the events and their hash chain (domain/event.go), the repository
  (infrastructure/postgres/audit_repository.go), the service (application/service.go) and
  the verification pass (infrastructure/maintenance.go). The table audit.audit_events is the
  list of its rows in order of insertion; a row is kept as the repository reads it back: the
  timestamp in microseconds, the metadata as jsonb gives it. \<open>ft\<close> is strconv.FormatFloat.
\<close>

subsection \<open>Events and their hash\<close>

record AuditEvent =
  ae_ID :: uuid
  ae_OrganizationID :: uuid
  ae_ActorID :: "uuid option"
  ae_Action :: string
  ae_Resource :: string
  ae_ResourceID :: "string option"
  ae_Outcome :: string
  ae_RequestID :: "string option"
  ae_Metadata :: goval
  ae_Timestamp :: instant
  ae_PreviousHash :: "string option"
  ae_Hash :: string

definition opt_text :: "string option \<Rightarrow> string" where
  "opt_text s = (case s of None \<Rightarrow> [] | Some t \<Rightarrow> t)"

text \<open>The bytes ComputeHash writes into the hash, once the metadata is rendered.\<close>

definition hash_input :: "AuditEvent \<Rightarrow> string \<Rightarrow> string" where
  "hash_input e meta =
     uuid_string (ae_OrganizationID e) @ ''|''
     @ opt_text (map_option uuid_string (ae_ActorID e)) @ ''|''
     @ ae_Action e @ ''|'' @ ae_Resource e @ ''|''
     @ opt_text (ae_ResourceID e) @ ''|''
     @ ae_Outcome e @ ''|''
     @ opt_text (ae_RequestID e) @ ''|''
     @ meta @ ''|''
     @ format_micros (ae_Timestamp e) @ ''|''
     @ opt_text (ae_PreviousHash e)"

definition ErrMetadataUnmarshal :: go_error where
  "ErrMetadataUnmarshal = Err ''audit metadata is not JSON-serializable''"

definition ComputeHash :: "(rat \<Rightarrow> string) \<Rightarrow> AuditEvent \<Rightarrow> go_error + string" where
  "ComputeHash ft e = (case json_text ft (ae_Metadata e) of
     None \<Rightarrow> Inl (Wrap ''audit metadata'' ErrMetadataUnmarshal)
   | Some meta \<Rightarrow> Inr (sha256_hex (hash_input e meta)))"

definition VerifyIntegrity :: "(rat \<Rightarrow> string) \<Rightarrow> AuditEvent \<Rightarrow> bool" where
  "VerifyIntegrity ft e = (case ComputeHash ft e of Inl _ \<Rightarrow> False | Inr h \<Rightarrow> ae_Hash e = h)"

definition NewAuditEvent :: "(rat \<Rightarrow> string) \<Rightarrow> ctx \<Rightarrow> uuid \<Rightarrow> uuid \<Rightarrow> string \<Rightarrow> string \<Rightarrow> string option
    \<Rightarrow> string \<Rightarrow> string option \<Rightarrow> goval \<Rightarrow> string option \<Rightarrow> go_error + AuditEvent" where
  "NewAuditEvent ft c orgID actorID action resource resourceID outcome requestID metadata previousHash =
     (let ev = \<lparr>ae_ID = ctx_uuid c 0, ae_OrganizationID = orgID, ae_ActorID = Some actorID,
          ae_Action = action, ae_Resource = resource, ae_ResourceID = resourceID,
          ae_Outcome = outcome, ae_RequestID = requestID, ae_Metadata = metadata,
          ae_Timestamp = ctx_time c 0, ae_PreviousHash = previousHash, ae_Hash = []\<rparr>
      in (case ComputeHash ft ev of Inl e \<Rightarrow> Inl e | Inr h \<Rightarrow> Inr (ev\<lparr>ae_Hash := h\<rparr>)))"

text \<open>
  VerifyChain: the counts of verified and failed events and the error, if any. An event is
  \<open>None\<close> for a nil pointer; after a failure the next event is not compared with anything.
\<close>

fun verify_loop :: "(rat \<Rightarrow> string) \<Rightarrow> AuditEvent option list \<Rightarrow> string option \<Rightarrow> nat \<Rightarrow> nat \<Rightarrow> nat \<times> nat" where
  "verify_loop ft [] prev verified failed = (verified, failed)"
| "verify_loop ft (None # evs) prev verified failed = verify_loop ft evs None verified (failed + 1)"
| "verify_loop ft (Some ev # evs) prev verified failed =
     (if \<not> VerifyIntegrity ft ev then verify_loop ft evs None verified (failed + 1)
      else if ae_PreviousHash ev \<noteq> None \<and> prev \<noteq> None \<and> ae_PreviousHash ev \<noteq> prev
        then verify_loop ft evs None verified (failed + 1)
      else verify_loop ft evs (Some (ae_Hash ev)) (verified + 1) failed)"

definition VerifyChain :: "(rat \<Rightarrow> string) \<Rightarrow> AuditEvent option list \<Rightarrow> nat \<times> nat \<times> go_error option" where
  "VerifyChain ft evs = (case verify_loop ft evs None 0 0 of (verified, failed) \<Rightarrow>
     (verified, failed,
      if 0 < failed then Some (Err ''audit chain verification failed'') else None))"

definition audit_IsValidOutcome :: "string \<Rightarrow> bool" where
  "audit_IsValidOutcome s \<longleftrightarrow> s = ''success'' \<or> s = ''failure''"

record RecordEventParams =
  rp_OrganizationID :: uuid
  rp_ActorID :: "uuid option"
  rp_Action :: string
  rp_Resource :: string
  rp_ResourceID :: "string option"
  rp_Outcome :: string
  rp_RequestID :: "string option"
  rp_Metadata :: goval

subsection \<open>The repository\<close>

text \<open>
  The state of a component extends \<open>audit_db\<close>. The vocabulary of the check constraint
  valid_audit_action is data of the migrations, kept beside the rows.
\<close>

record audit_db =
  audit_events :: "AuditEvent list"
  audit_vocabulary :: "string list"

definition stored :: "AuditEvent \<Rightarrow> AuditEvent" where
  "stored e = e\<lparr>ae_Timestamp := trunc_micros (ae_Timestamp e),
                ae_Metadata := json_decoded (ae_Metadata e)\<rparr>"

definition chain_key :: "AuditEvent \<Rightarrow> instant \<times> uuid" where
  "chain_key e = (ae_Timestamp e, ae_ID e)"

definition org_events :: "uuid \<Rightarrow> AuditEvent list \<Rightarrow> AuditEvent list" where
  "org_events orgID rows = filter (\<lambda>e. ae_OrganizationID e = orgID) rows"

text \<open>ORDER BY timestamp ASC, id ASC and its reverse.\<close>

definition ascending_events :: "AuditEvent list \<Rightarrow> AuditEvent list" where
  "ascending_events rows = sort_key chain_key rows"

definition descending_events :: "AuditEvent list \<Rightarrow> AuditEvent list" where
  "descending_events rows = rev (ascending_events rows)"

definition last_hash :: "uuid \<Rightarrow> AuditEvent list \<Rightarrow> string option" where
  "last_hash orgID rows = (case descending_events (org_events orgID rows) of
     [] \<Rightarrow> None | e # _ \<Rightarrow> Some (ae_Hash e))"

definition GetLastHash :: "uuid \<Rightarrow> ('s audit_db_scheme, string option) tx" where
  "GetLastHash orgID = tx_gets (\<lambda>s. last_hash orgID (audit_events s))"

text \<open>INSERT INTO audit.audit_events: the primary key and the check on the action.\<close>

definition insert_event :: "AuditEvent \<Rightarrow> ('s audit_db_scheme, unit) tx" where
  "insert_event e = (\<lambda>s.
     if ae_ID e \<in> ae_ID ` set (audit_events s)
       then (Inl (Wrap ''failed to insert audit event'' (SqlConstraint ''audit_events_pkey'')), s)
     else if ae_Action e \<notin> set (audit_vocabulary s)
       then (Inl (Wrap ''failed to insert audit event'' (SqlConstraint ''valid_audit_action'')), s)
     else (Inr (), s\<lparr>audit_events := audit_events s @ [stored e]\<rparr>))"

definition writeEvent :: "(rat \<Rightarrow> string) \<Rightarrow> uuid \<Rightarrow> AuditEvent \<Rightarrow> ('s audit_db_scheme, unit) tx" where
  "writeEvent ft orgID event =
     tx_bind (GetLastHash orgID) (\<lambda>lastHash.
       (let event1 = event\<lparr>ae_PreviousHash := lastHash\<rparr> in
        tx_bind (tx_map_error (Wrap ''failed to compute audit hash'') (tx_lift (ComputeHash ft event1)))
          (\<lambda>h. insert_event (event1\<lparr>ae_Hash := h\<rparr>))))"

definition RecordEventTx :: "(rat \<Rightarrow> string) \<Rightarrow> uuid \<Rightarrow> AuditEvent \<Rightarrow> ('s audit_db_scheme, unit) tx" where
  "RecordEventTx ft orgID event = writeEvent ft orgID event"

definition repo_RecordEvent :: "(rat \<Rightarrow> string) \<Rightarrow> uuid \<Rightarrow> AuditEvent \<Rightarrow> ('s audit_db_scheme, unit) tx" where
  "repo_RecordEvent ft orgID event = InTransaction (writeEvent ft orgID event)"

text \<open>Save stores the event as it is, with the hash its caller computed.\<close>

definition audit_Save :: "(rat \<Rightarrow> string) \<Rightarrow> AuditEvent \<Rightarrow> ('s audit_db_scheme, unit) tx" where
  "audit_Save ft event = (case json_text ft (ae_Metadata event) of
     None \<Rightarrow> tx_throw (Err ''failed to marshal metadata'')
   | Some _ \<Rightarrow> insert_event event)"

text \<open>LIMIT and OFFSET; a negative number is an error of the database.\<close>

definition limit_offset :: "int \<Rightarrow> int \<Rightarrow> 'a list \<Rightarrow> go_error + 'a list" where
  "limit_offset limit offset xs =
     (if limit < 0 \<or> offset < 0 then Inl (Err ''LIMIT and OFFSET must not be negative'')
      else Inr (take (nat limit) (drop (nat offset) xs)))"

definition audit_FindByOrganization :: "uuid \<Rightarrow> int \<Rightarrow> int \<Rightarrow> ('s audit_db_scheme, AuditEvent list) tx" where
  "audit_FindByOrganization orgID limit offset = (\<lambda>s.
     (limit_offset limit offset (descending_events (org_events orgID (audit_events s))), s))"

definition audit_CountByOrganization :: "uuid \<Rightarrow> ('s audit_db_scheme, int) tx" where
  "audit_CountByOrganization orgID = tx_gets (\<lambda>s. int (length (org_events orgID (audit_events s))))"

definition audit_FindByResource :: "uuid \<Rightarrow> string \<Rightarrow> ('s audit_db_scheme, AuditEvent list) tx" where
  "audit_FindByResource orgID resourceID = tx_gets (\<lambda>s.
     ascending_events (filter (\<lambda>e. ae_ResourceID e = Some resourceID) (org_events orgID (audit_events s))))"

definition AllOrganizationIDs :: "('s audit_db_scheme, uuid list) tx" where
  "AllOrganizationIDs = tx_gets (\<lambda>s. sort (remdups (map ae_OrganizationID (audit_events s))))"

definition repo_PurgeOld :: "instant \<Rightarrow> ('s audit_db_scheme, int) tx" where
  "repo_PurgeOld olderThan = tx_return 0"

subsection \<open>The service\<close>

record AuditConfig =
  Enabled :: bool
  HashChainEnabled :: bool
  RetentionDays :: int

text \<open>
  recordEvent; \<open>inTx\<close> tells whether a transaction was handed in, otherwise the repository
  opens its own.
\<close>

definition recordEvent :: "(rat \<Rightarrow> string) \<Rightarrow> AuditConfig \<Rightarrow> ctx \<Rightarrow> bool \<Rightarrow> RecordEventParams
    \<Rightarrow> ('s audit_db_scheme, unit) tx" where
  "recordEvent ft cfg c inTx params =
     (if \<not> Enabled cfg then tx_return ()
      else if \<not> audit_IsValidOutcome (rp_Outcome params) then tx_throw (Err ''invalid outcome'')
      else (let actorID = (case rp_ActorID params of None \<Rightarrow> uuid_nil | Some a \<Rightarrow> a);
                event = \<lparr>ae_ID = ctx_uuid c 0, ae_OrganizationID = rp_OrganizationID params,
                  ae_ActorID = (if actorID = uuid_nil then None else Some actorID),
                  ae_Action = rp_Action params, ae_Resource = rp_Resource params,
                  ae_ResourceID = rp_ResourceID params, ae_Outcome = rp_Outcome params,
                  ae_RequestID = rp_RequestID params, ae_Metadata = rp_Metadata params,
                  ae_Timestamp = ctx_time c 0, ae_PreviousHash = None, ae_Hash = []\<rparr>
            in tx_map_error (Wrap ''failed to record audit event'')
                 (if inTx then RecordEventTx ft (rp_OrganizationID params) event
                  else repo_RecordEvent ft (rp_OrganizationID params) event)))"

definition RecordEvent :: "(rat \<Rightarrow> string) \<Rightarrow> AuditConfig \<Rightarrow> ctx \<Rightarrow> RecordEventParams
    \<Rightarrow> ('s audit_db_scheme, unit) tx" where
  "RecordEvent ft cfg c params = recordEvent ft cfg c False params"

definition RecordEventInTx :: "(rat \<Rightarrow> string) \<Rightarrow> AuditConfig \<Rightarrow> ctx \<Rightarrow> RecordEventParams
    \<Rightarrow> ('s audit_db_scheme, unit) tx" where
  "RecordEventInTx ft cfg c params = recordEvent ft cfg c True params"

text \<open>AddDate with a number of days on a UTC time.\<close>

definition service_PurgeOld :: "AuditConfig \<Rightarrow> ctx \<Rightarrow> ('s audit_db_scheme, int) tx" where
  "service_PurgeOld cfg c =
     (if RetentionDays cfg \<le> 0 then tx_return 0
      else repo_PurgeOld (ctx_time c 0 - nanos (86400 * RetentionDays cfg)))"

subsection \<open>Verification of the stored chains\<close>

definition VerifyOrganization :: "(rat \<Rightarrow> string) \<Rightarrow> AuditConfig \<Rightarrow> uuid
    \<Rightarrow> ('s audit_db_scheme, nat \<times> nat) tx" where
  "VerifyOrganization ft cfg orgID =
     (if \<not> HashChainEnabled cfg then tx_return (0, 0)
      else tx_bind (audit_CountByOrganization orgID) (\<lambda>count.
        tx_bind (audit_FindByOrganization orgID count 0) (\<lambda>events.
          (case VerifyChain ft (map Some (rev events)) of
             (verified, failed, Some e) \<Rightarrow> tx_throw (Wrap ''audit chain verification failed'' e)
           | (verified, failed, None) \<Rightarrow> tx_return (verified, failed)))))"

text \<open>The loop over the organizations, with the three running totals.\<close>

fun verify_orgs :: "(rat \<Rightarrow> string) \<Rightarrow> AuditConfig \<Rightarrow> uuid list \<Rightarrow> nat \<times> nat \<times> nat
    \<Rightarrow> ('s audit_db_scheme, nat \<times> nat \<times> nat) tx" where
  "verify_orgs ft cfg [] totals = tx_return totals"
| "verify_orgs ft cfg (orgID # orgs) (totalVerified, totalFailed, orgsChecked) =
     tx_bind (VerifyOrganization ft cfg orgID) (\<lambda>(v, f).
       verify_orgs ft cfg orgs (totalVerified + v, totalFailed + f, orgsChecked + 1))"

definition VerifyAllOrganizations :: "(rat \<Rightarrow> string) \<Rightarrow> AuditConfig
    \<Rightarrow> ('s audit_db_scheme, nat \<times> nat \<times> nat) tx" where
  "VerifyAllOrganizations ft cfg =
     (if \<not> HashChainEnabled cfg then tx_return (0, 0, 0)
      else tx_bind AllOrganizationIDs (\<lambda>orgIDs. verify_orgs ft cfg orgIDs (0, 0, 0)))"

definition RunOnce :: "(rat \<Rightarrow> string) \<Rightarrow> AuditConfig \<Rightarrow> ('s audit_db_scheme, nat \<times> nat \<times> nat \<times> int) tx" where
  "RunOnce ft cfg = tx_bind (VerifyAllOrganizations ft cfg)
     (\<lambda>(verified, failed, orgs). tx_return (verified, failed, orgs, 0))"

text \<open>
  One tick of the background loop on the number of consecutive errors: the new number, and
  whether the alert of three failures in a row and the integrity alert are logged.
\<close>

definition background_tick :: "(rat \<Rightarrow> string) \<Rightarrow> AuditConfig \<Rightarrow> nat \<Rightarrow> 's audit_db_scheme \<Rightarrow> nat \<times> bool \<times> bool" where
  "background_tick ft cfg consecutiveErrs s = (case fst (RunOnce ft cfg s) of
     Inl _ \<Rightarrow> (consecutiveErrs + 1, 3 \<le> consecutiveErrs + 1, False)
   | Inr (verified, failed, _, _) \<Rightarrow> (0, False, 0 < failed))"

subsection \<open>Recording as a frame\<close>

text \<open>Whatever recording does, it only adds rows to the audit table.\<close>

definition audit_grows :: "'s audit_db_scheme \<Rightarrow> 's audit_db_scheme \<Rightarrow> bool" where
  "audit_grows s s' \<longleftrightarrow> (\<exists>es. s' = s\<lparr>audit_events := audit_events s @ es\<rparr>)"

lemma audit_grows_refl: "audit_grows s s"
  unfolding audit_grows_def by (rule exI [of _ "[]"]) simp

lemma audit_grows_trans: "audit_grows s1 s2 \<Longrightarrow> audit_grows s2 s3 \<Longrightarrow> audit_grows s1 s3"
  by (auto simp: audit_grows_def)

interpretation audit_frame: tx_frame audit_grows
  by unfold_locales (rule audit_grows_refl, rule audit_grows_trans)

lemma insert_event_frame: "tx_framed audit_grows (insert_event e)"
  by (rule audit_frame.framedI) (auto simp: insert_event_def audit_grows_refl, auto simp: audit_grows_def)

lemma writeEvent_frame: "tx_framed audit_grows (writeEvent ft orgID e)"
  unfolding writeEvent_def GetLastHash_def Let_def
  by (intro audit_frame.bind audit_frame.gets audit_frame.map_error audit_frame.lift insert_event_frame)

lemma RecordEventInTx_frame: "tx_framed audit_grows (RecordEventInTx ft cfg c params)"
  unfolding RecordEventInTx_def recordEvent_def RecordEventTx_def repo_RecordEvent_def Let_def
  by (auto intro: audit_frame.return audit_frame.throw audit_frame.map_error writeEvent_frame)

end
