(* ===== verification/Workflow_Definition.thy ===== *)
theory Workflow_Definition
  imports Audit_Chain
begin

section \<open>Workflow definitions\<close>

text \<open>
  internal/workflow/domain/workflow.go: definitions with their states and transitions,
  instances and their history, and the validation of definitions and of single transitions.
  Validation messages are the field and the fixed part of the message of the source, with
  the key where the source appends one.
\<close>

subsection \<open>Data\<close>

datatype WorkflowDefinitionStatus = WorkflowStatusDraft | WorkflowStatusActive | WorkflowStatusArchived

definition def_status_string :: "WorkflowDefinitionStatus \<Rightarrow> string" where
  "def_status_string st = (case st of WorkflowStatusDraft \<Rightarrow> ''DRAFT''
     | WorkflowStatusActive \<Rightarrow> ''ACTIVE'' | WorkflowStatusArchived \<Rightarrow> ''ARCHIVED'')"

record WorkflowState =
  ws_ID :: uuid
  ws_WorkflowDefID :: uuid
  ws_TenantID :: uuid
  ws_Key :: string
  ws_Name :: string
  ws_Description :: string
  ws_Category :: string
  Terminal :: bool
  DisplayOrder :: int
  ResponsibleRole :: string
  ws_CreatedAt :: instant

record TransitionCondition =
  tc_Type :: string
  tc_Field :: string
  tc_Operator :: string
  tc_Value :: goval

record WorkflowTransition =
  wt_ID :: uuid
  wt_WorkflowDefID :: uuid
  wt_TenantID :: uuid
  wt_Key :: string
  wt_Name :: string
  FromState :: string
  ToState :: string
  wt_Description :: string
  wt_Conditions :: "TransitionCondition list"
  AllowedRoles :: "string list"
  wt_Active :: bool
  DecisionType :: string
  wt_CreatedAt :: instant

record WorkflowDefinition =
  wd_ID :: uuid
  wd_TenantID :: uuid
  wd_Key :: string
  wd_Name :: string
  wd_Description :: string
  wd_Version :: int
  wd_Status :: WorkflowDefinitionStatus
  InitialState :: string
  wd_States :: "WorkflowState list"
  wd_Transitions :: "WorkflowTransition list"
  wd_Metadata :: goval
  wd_CreatedAt :: instant
  wd_UpdatedAt :: instant

record WorkflowInstance =
  wi_ID :: uuid
  wi_TenantID :: uuid
  wi_WorkflowDefID :: uuid
  wi_WorkflowDefVersion :: int
  wi_CaseID :: uuid
  CurrentState :: string
  StartedAt :: instant
  CompletedAt :: "instant option"
  wi_Metadata :: goval
  wi_Version :: int
  wi_Definition :: "WorkflowDefinition option"

record WorkflowTransitionHistory =
  wh_ID :: uuid
  wh_TenantID :: uuid
  wh_InstanceID :: uuid
  wh_CaseID :: uuid
  wh_FromState :: string
  wh_ToState :: string
  wh_TransitionKey :: string
  wh_ActorID :: "uuid option"
  OccurredAt :: instant
  wh_Reason :: string
  wh_Metadata :: goval
  wh_DecisionID :: "uuid option"

type_synonym WorkflowValidationError = "string \<times> string"

subsection \<open>Validation of a definition\<close>

definition basic_errors :: "WorkflowDefinition \<Rightarrow> WorkflowValidationError list" where
  "basic_errors def =
     (if wd_Key def = [] then [(''key'', ''key is required'')] else [])
     @ (if wd_Name def = [] then [(''name'', ''name is required'')] else [])
     @ (if wd_Version def < 1 then [(''version'', ''version must be >= 1'')] else [])
     @ (if InitialState def = [] then [(''initial_state'', ''initial_state is required'')] else [])
     @ (if wd_States def = [] then [(''states'', ''at least one state is required'')] else [])"

text \<open>The loop over the states, with the keys already seen.\<close>

fun state_errors :: "string list \<Rightarrow> WorkflowState list \<Rightarrow> WorkflowValidationError list" where
  "state_errors seen [] = []"
| "state_errors seen (s # ss) =
     (if ws_Key s = [] then (''states[].key'', ''state key is required'') # state_errors seen ss
      else (if ws_Key s \<in> set seen
            then [(''states[].key'', ''duplicate state key: '' @ ws_Key s)] else [])
           @ state_errors (ws_Key s # seen) ss)"

definition state_keys :: "WorkflowDefinition \<Rightarrow> string list" where
  "state_keys def = filter (\<lambda>k. k \<noteq> []) (map ws_Key (wd_States def))"

definition transition_tag :: "WorkflowTransition \<Rightarrow> string" where
  "transition_tag t = FromState t @ ''->'' @ ToState t @ ''('' @ wt_Key t @ '')''"

text \<open>The loop over the transitions, with the keys and the tags already seen.\<close>

fun transition_errors :: "string list \<Rightarrow> string list \<Rightarrow> string list \<Rightarrow> WorkflowTransition list
    \<Rightarrow> WorkflowValidationError list" where
  "transition_errors keys seen tags [] = []"
| "transition_errors keys seen tags (t # ts) =
     (if wt_Key t = []
      then (''transitions[].key'', ''transition key is required'') # transition_errors keys seen tags ts
      else (if wt_Key t \<in> set seen
            then [(''transitions[].key'', ''duplicate transition key: '' @ wt_Key t)] else [])
        @ (if FromState t \<notin> set keys
           then [(''transitions[].from_state'', ''transition references unknown from_state: '' @ FromState t)]
           else [])
        @ (if ToState t \<notin> set keys
           then [(''transitions[].to_state'', ''transition references unknown to_state: '' @ ToState t)]
           else [])
        @ (if transition_tag t \<in> set tags
           then [(''transitions'', ''duplicate transition: '' @ transition_tag t)] else [])
        @ transition_errors keys (wt_Key t # seen) (transition_tag t # tags) ts)"

definition outgoing :: "WorkflowDefinition \<Rightarrow> string \<Rightarrow> WorkflowTransition list" where
  "outgoing def key = filter (\<lambda>t. FromState t = key \<and> wt_Active t) (wd_Transitions def)"

definition terminal_errors :: "WorkflowDefinition \<Rightarrow> WorkflowValidationError list" where
  "terminal_errors def = concat (map (\<lambda>s.
     if Terminal s \<and> 0 < length (outgoing def (ws_Key s))
     then [(''states['' @ ws_Key s @ ''].terminal'',
            ''terminal state cannot have outgoing transitions: '' @ ws_Key s)]
     else []) (wd_States def))"

definition ValidateWorkflowDefinition :: "WorkflowDefinition \<Rightarrow> WorkflowValidationError list" where
  "ValidateWorkflowDefinition def =
     (if basic_errors def \<noteq> [] then basic_errors def
      else state_errors [] (wd_States def)
        @ transition_errors (state_keys def) [] [] (wd_Transitions def)
        @ (if InitialState def \<notin> set (state_keys def)
           then [(''initial_state'', ''initial_state does not match any state key'')] else [])
        @ terminal_errors def)"

subsection \<open>Validation of a transition\<close>

definition ValidateStateTransition :: "WorkflowDefinition \<Rightarrow> string \<Rightarrow> string \<Rightarrow> string
    \<Rightarrow> WorkflowValidationError list" where
  "ValidateStateTransition def fromState toState transitionKey =
     (if fromState = toState then [(''transition'', ''cannot transition to the same state'')]
      else (case List.find (\<lambda>s. ws_Key s = fromState) (wd_States def) of
          None \<Rightarrow> [(''from_state'', ''unknown state: '' @ fromState)]
        | Some from \<Rightarrow>
            if Terminal from
            then [(''from_state'', ''cannot transition from terminal state: '' @ fromState)]
            else (case List.find (\<lambda>t. FromState t = fromState \<and> ToState t = toState
                         \<and> wt_Key t = transitionKey \<and> wt_Active t) (wd_Transitions def) of
                None \<Rightarrow> [(''transition'', ''no valid transition from '' @ fromState @ '' to '' @ toState)]
              | Some _ \<Rightarrow> [])))"

subsection \<open>What validation guarantees\<close>

lemma state_errors_ok:
  "state_errors seen ss = [] \<longleftrightarrow>
     (\<forall>s \<in> set ss. ws_Key s \<noteq> [] \<and> ws_Key s \<notin> set seen) \<and> distinct (map ws_Key ss)"
  by (induction ss arbitrary: seen) (auto, metis image_eqI)

lemma transition_errors_ok:
  "transition_errors keys seen tags ts = [] \<Longrightarrow>
     (\<forall>t \<in> set ts. wt_Key t \<noteq> [] \<and> wt_Key t \<notin> set seen \<and> FromState t \<in> set keys \<and> ToState t \<in> set keys)
     \<and> distinct (map wt_Key ts)"
proof (induction ts arbitrary: seen tags)
  case (Cons t ts)
  from Cons.prems have *: "transition_errors keys (wt_Key t # seen) (transition_tag t # tags) ts = []"
    and "wt_Key t \<noteq> []" "wt_Key t \<notin> set seen" "FromState t \<in> set keys" "ToState t \<in> set keys"
    by (auto split: if_splits)
  with Cons.IH [OF *] show ?case by auto
qed simp

text \<open>A definition that is consistent as a graph: what the executor relies on.\<close>

definition consistent_definition :: "WorkflowDefinition \<Rightarrow> bool" where
  "consistent_definition def \<longleftrightarrow>
     distinct (map ws_Key (wd_States def)) \<and> distinct (map wt_Key (wd_Transitions def))
     \<and> InitialState def \<in> ws_Key ` set (wd_States def)
     \<and> (\<forall>t \<in> set (wd_Transitions def).
          FromState t \<in> ws_Key ` set (wd_States def) \<and> ToState t \<in> ws_Key ` set (wd_States def))
     \<and> (\<forall>s \<in> set (wd_States def). Terminal s \<longrightarrow> outgoing def (ws_Key s) = [])"

lemma validated_consistent:
  assumes "ValidateWorkflowDefinition def = []"
  shows "consistent_definition def"
proof -
  have e: "state_errors [] (wd_States def) = []" "terminal_errors def = []"
    "transition_errors (state_keys def) [] [] (wd_Transitions def) = []"
    "InitialState def \<in> set (state_keys def)"
    using assms by (auto simp: ValidateWorkflowDefinition_def split: if_splits)
  have "set (state_keys def) \<subseteq> ws_Key ` set (wd_States def)" by (auto simp: state_keys_def)
  moreover have "\<forall>s \<in> set (wd_States def). Terminal s \<longrightarrow> outgoing def (ws_Key s) = []"
    using e(2) by (auto simp: terminal_errors_def split: if_splits)
  ultimately show ?thesis
    using e(1,4) transition_errors_ok [OF e(3)] by (auto simp: consistent_definition_def state_errors_ok)
qed

end
