(* ===== verification/Workflow_Store.thy ===== *)
theory Workflow_Store
  imports Workflow_Definition
begin

section \<open>The tables of the workflow engine\<close>

text \<open>
  The repositories of internal/workflow/infrastructure/postgres on the tables of migrations
  0009 and 0029. A table is the list of its rows in order of insertion; primary keys and
  unique indexes make an insertion fail, and deleting a definition that instances refer to is
  restricted. Foreign keys into organizations, users and cases hold by assumption. Text is
  ordered by bytes; ORDER BY created_at alone is taken as stable.
\<close>

record wf_db = audit_db +
  workflow_definitions :: "WorkflowDefinition list"
  workflow_states :: "WorkflowState list"
  workflow_transitions :: "WorkflowTransition list"
  workflow_instances :: "WorkflowInstance list"
  workflow_history :: "WorkflowTransitionHistory list"

subsection \<open>SQL fragments\<close>

text \<open>QueryRow and Scan: the first row, or sql.ErrNoRows inside the repository's message.\<close>

definition query_row :: "string \<Rightarrow> 'a list \<Rightarrow> go_error + 'a" where
  "query_row msg rows = (case rows of [] \<Rightarrow> Inl (Wrap msg SqlNoRows) | r # _ \<Rightarrow> Inr r)"

text \<open>UPDATE ... SET f WHERE p, and the number of rows it affects.\<close>

definition update_where :: "('a \<Rightarrow> bool) \<Rightarrow> ('a \<Rightarrow> 'a) \<Rightarrow> 'a list \<Rightarrow> 'a list" where
  "update_where p f rows = map (\<lambda>r. if p r then f r else r) rows"

definition affected :: "('a \<Rightarrow> bool) \<Rightarrow> 'a list \<Rightarrow> nat" where
  "affected p rows = length (filter p rows)"

text \<open>What a column of type INTEGER holds; anything else is refused.\<close>

definition int4 :: "int \<Rightarrow> bool" where
  "int4 i \<longleftrightarrow> - (2 ^ 31) \<le> i \<and> i < 2 ^ 31"

definition unique_violation :: "string \<Rightarrow> string \<Rightarrow> go_error" where
  "unique_violation msg index = Wrap msg (SqlConstraint index)"

lemma map_update_where:
  "(\<And>r. g (f r) = g r) \<Longrightarrow> map g (update_where p f rows) = map g rows"
  by (simp add: update_where_def)

lemma set_update_where:
  "x \<in> set (update_where p f rows) \<longleftrightarrow> (\<exists>r \<in> set rows. x = (if p r then f r else r))"
  by (auto simp: update_where_def)

subsection \<open>Definitions\<close>

text \<open>A definition row: the metadata as jsonb gives it back, no states, no transitions.\<close>

definition def_row :: "WorkflowDefinition \<Rightarrow> WorkflowDefinition" where
  "def_row def = def\<lparr>wd_States := [], wd_Transitions := [], wd_Metadata := json_decoded (wd_Metadata def),
     wd_CreatedAt := trunc_micros (wd_CreatedAt def), wd_UpdatedAt := trunc_micros (wd_UpdatedAt def)\<rparr>"

definition saveDefinition :: "WorkflowDefinition \<Rightarrow> ('s wf_db_scheme, unit) tx" where
  "saveDefinition def = (\<lambda>s.
     if \<not> json_encodable (wd_Metadata def)
       then (Inl (Err ''failed to marshal workflow definition metadata''), s)
     else if \<not> int4 (wd_Version def) then (Inl (Err ''failed to insert workflow definition''), s)
     else if wd_ID def \<in> wd_ID ` set (workflow_definitions s)
       then (Inl (unique_violation ''failed to insert workflow definition'' ''workflow_definitions_pkey''), s)
     else if \<exists>d \<in> set (workflow_definitions s). wd_TenantID d = wd_TenantID def
               \<and> wd_Key d = wd_Key def \<and> wd_Version d = wd_Version def
       then (Inl (unique_violation ''failed to insert workflow definition''
                    ''workflow_definitions_organization_id_key_version_key''), s)
     else (Inr (), s\<lparr>workflow_definitions := workflow_definitions s @ [def_row def]\<rparr>))"

definition scan_def :: "WorkflowDefinition list \<Rightarrow> go_error + WorkflowDefinition" where
  "scan_def rows = query_row ''failed to scan workflow definition'' rows"

definition def_FindByID :: "uuid \<Rightarrow> uuid \<Rightarrow> 's wf_db_scheme \<Rightarrow> go_error + WorkflowDefinition" where
  "def_FindByID tenantID i s =
     scan_def (filter (\<lambda>d. wd_TenantID d = tenantID \<and> wd_ID d = i) (workflow_definitions s))"

definition def_FindByIDTx :: "uuid \<Rightarrow> uuid \<Rightarrow> ('s wf_db_scheme, WorkflowDefinition) tx" where
  "def_FindByIDTx tenantID i = (\<lambda>s. (def_FindByID tenantID i s, s))"

definition FindByKeyAndVersion :: "uuid \<Rightarrow> string \<Rightarrow> int \<Rightarrow> 's wf_db_scheme \<Rightarrow> go_error + WorkflowDefinition" where
  "FindByKeyAndVersion tenantID key version s =
     scan_def (filter (\<lambda>d. wd_TenantID d = tenantID \<and> wd_Key d = key \<and> wd_Version d = version)
       (workflow_definitions s))"

definition latest_first :: "WorkflowDefinition list \<Rightarrow> WorkflowDefinition list" where
  "latest_first rows = sort_key (\<lambda>d. - wd_Version d) rows"

definition def_FindByKey :: "uuid \<Rightarrow> string \<Rightarrow> 's wf_db_scheme \<Rightarrow> go_error + WorkflowDefinition" where
  "def_FindByKey tenantID key s =
     scan_def (latest_first (filter (\<lambda>d. wd_TenantID d = tenantID \<and> wd_Key d = key) (workflow_definitions s)))"

definition def_FindByKeyTx :: "uuid \<Rightarrow> string \<Rightarrow> ('s wf_db_scheme, WorkflowDefinition) tx" where
  "def_FindByKeyTx tenantID key = (\<lambda>s. (def_FindByKey tenantID key s, s))"

definition def_FindLatestActiveByKey :: "uuid \<Rightarrow> string \<Rightarrow> 's wf_db_scheme \<Rightarrow> go_error + WorkflowDefinition" where
  "def_FindLatestActiveByKey tenantID key s =
     scan_def (latest_first (filter (\<lambda>d. wd_TenantID d = tenantID \<and> wd_Key d = key
       \<and> wd_Status d = WorkflowStatusActive) (workflow_definitions s)))"

definition def_FindLatestActiveByKeyTx :: "uuid \<Rightarrow> string \<Rightarrow> ('s wf_db_scheme, WorkflowDefinition) tx" where
  "def_FindLatestActiveByKeyTx tenantID key = (\<lambda>s. (def_FindLatestActiveByKey tenantID key s, s))"

text \<open>metadata->>'service_type' of a definition.\<close>

definition service_type_of :: "WorkflowDefinition \<Rightarrow> string option" where
  "service_type_of d = (case wd_Metadata d of
     GObject kvs \<Rightarrow> (case map_of kvs ''service_type'' of Some (GString s) \<Rightarrow> Some s | _ \<Rightarrow> None)
   | _ \<Rightarrow> None)"

definition FindByServiceType :: "uuid \<Rightarrow> string \<Rightarrow> 's wf_db_scheme \<Rightarrow> go_error + WorkflowDefinition" where
  "FindByServiceType tenantID serviceType s =
     scan_def (latest_first (filter (\<lambda>d. wd_TenantID d = tenantID \<and> wd_Status d = WorkflowStatusActive
       \<and> service_type_of d = Some serviceType) (workflow_definitions s)))"

definition newest_first :: "WorkflowDefinition list \<Rightarrow> WorkflowDefinition list" where
  "newest_first rows = sort_key (\<lambda>d. - wd_CreatedAt d) rows"

definition def_ListByOrganization :: "uuid \<Rightarrow> int \<Rightarrow> int \<Rightarrow> 's wf_db_scheme
    \<Rightarrow> go_error + WorkflowDefinition list \<times> nat" where
  "def_ListByOrganization tenantID limit offset s =
     (let rows = filter (\<lambda>d. wd_TenantID d = tenantID) (workflow_definitions s) in
      case limit_offset limit offset (newest_first rows) of
        Inl e \<Rightarrow> Inl (Wrap ''failed to query workflow definitions'' e)
      | Inr page \<Rightarrow> Inr (page, length rows))"

definition def_ListActiveByOrganization :: "uuid \<Rightarrow> int \<Rightarrow> int \<Rightarrow> 's wf_db_scheme
    \<Rightarrow> go_error + WorkflowDefinition list \<times> nat" where
  "def_ListActiveByOrganization tenantID limit offset s =
     (let rows = filter (\<lambda>d. wd_TenantID d = tenantID \<and> wd_Status d = WorkflowStatusActive)
                   (workflow_definitions s) in
      case limit_offset limit offset (newest_first rows) of
        Inl e \<Rightarrow> Inl (Wrap ''failed to query active workflow definitions'' e)
      | Inr page \<Rightarrow> Inr (page, length rows))"

definition GetActiveByID :: "uuid \<Rightarrow> uuid \<Rightarrow> 's wf_db_scheme \<Rightarrow> go_error + WorkflowDefinition" where
  "GetActiveByID tenantID i s =
     scan_def (filter (\<lambda>d. wd_ID d = i \<and> wd_TenantID d = tenantID \<and> wd_Status d = WorkflowStatusActive)
       (workflow_definitions s))"

text \<open>deleteDefinition; states and transitions go with it (ON DELETE CASCADE).\<close>

definition deleteDefinition :: "uuid \<Rightarrow> uuid \<Rightarrow> ('s wf_db_scheme, unit) tx" where
  "deleteDefinition tenantID i = (\<lambda>s.
     let p = (\<lambda>d. wd_TenantID d = tenantID \<and> wd_ID d = i) in
     if affected p (workflow_definitions s) = 0 then (Inl (Err ''workflow definition not found''), s)
     else if i \<in> wi_WorkflowDefID ` set (workflow_instances s)
       then (Inl (unique_violation ''failed to delete workflow definition''
                    ''workflow_instances_workflow_definition_id_fkey''), s)
     else (Inr (), s\<lparr>workflow_definitions := filter (\<lambda>d. \<not> p d) (workflow_definitions s),
            workflow_states := filter (\<lambda>x. ws_WorkflowDefID x \<noteq> i) (workflow_states s),
            workflow_transitions := filter (\<lambda>t. wt_WorkflowDefID t \<noteq> i) (workflow_transitions s)\<rparr>))"

text \<open>The version of the argument is both the new version and the one the row must have.\<close>

definition updateDefinition :: "instant \<Rightarrow> WorkflowDefinition \<Rightarrow> ('s wf_db_scheme, unit) tx" where
  "updateDefinition dbnow def = (\<lambda>s.
     let p = (\<lambda>d. wd_TenantID d = wd_TenantID def \<and> wd_ID d = wd_ID def \<and> wd_Version d = wd_Version def) in
     if \<not> json_encodable (wd_Metadata def)
       then (Inl (Err ''failed to marshal workflow definition metadata''), s)
     else if \<not> int4 (wd_Version def) then (Inl (Err ''failed to update workflow definition''), s)
     else if (\<exists>d \<in> set (workflow_definitions s). p d)
          \<and> (\<exists>d \<in> set (workflow_definitions s). wd_ID d \<noteq> wd_ID def \<and> wd_TenantID d = wd_TenantID def
               \<and> wd_Key d = wd_Key def \<and> wd_Version d = wd_Version def)
       then (Inl (unique_violation ''failed to update workflow definition''
                    ''workflow_definitions_organization_id_key_version_key''), s)
     else if affected p (workflow_definitions s) = 0 then (Inl (Err ''concurrent modification detected''), s)
     else (Inr (), s\<lparr>workflow_definitions := update_where p
            (\<lambda>d. d\<lparr>wd_Key := wd_Key def, wd_Name := wd_Name def, wd_Description := wd_Description def,
                   wd_Version := wd_Version def, wd_Status := wd_Status def, InitialState := InitialState def,
                   wd_Metadata := json_decoded (wd_Metadata def), wd_UpdatedAt := dbnow\<rparr>)
            (workflow_definitions s)\<rparr>))"

definition def_updateStatus :: "instant \<Rightarrow> uuid \<Rightarrow> uuid \<Rightarrow> WorkflowDefinitionStatus \<Rightarrow> int
    \<Rightarrow> ('s wf_db_scheme, unit) tx" where
  "def_updateStatus dbnow tenantID i status version = (\<lambda>s.
     let p = (\<lambda>d. wd_TenantID d = tenantID \<and> wd_ID d = i \<and> wd_Version d = version) in
     if affected p (workflow_definitions s) = 0 then (Inl (Err ''concurrent modification detected''), s)
     else (Inr (), s\<lparr>workflow_definitions := update_where p
            (\<lambda>d. d\<lparr>wd_Status := status, wd_UpdatedAt := dbnow\<rparr>) (workflow_definitions s)\<rparr>))"

subsection \<open>States and transitions\<close>

definition state_row :: "WorkflowState \<Rightarrow> WorkflowState" where
  "state_row x = x\<lparr>ws_CreatedAt := trunc_micros (ws_CreatedAt x)\<rparr>"

fun state_saveBatch :: "WorkflowState list \<Rightarrow> ('s wf_db_scheme, unit) tx" where
  "state_saveBatch [] = tx_return ()"
| "state_saveBatch (x # xs) = (\<lambda>s.
     if \<not> int4 (DisplayOrder x) then (Inl (Err ''failed to insert workflow state''), s)
     else if ws_ID x \<in> ws_ID ` set (workflow_states s)
     then (Inl (unique_violation ''failed to insert workflow state'' ''workflow_states_pkey''), s)
     else state_saveBatch xs (s\<lparr>workflow_states := workflow_states s @ [state_row x]\<rparr>))"

definition state_deleteBatch :: "uuid \<Rightarrow> uuid \<Rightarrow> ('s wf_db_scheme, unit) tx" where
  "state_deleteBatch tenantID defID = tx_modify (\<lambda>s. s\<lparr>workflow_states :=
     filter (\<lambda>x. \<not> (ws_WorkflowDefID x = defID \<and> ws_TenantID x = tenantID)) (workflow_states s)\<rparr>)"

definition state_FindByDefinitionID :: "uuid \<Rightarrow> uuid \<Rightarrow> 's wf_db_scheme \<Rightarrow> WorkflowState list" where
  "state_FindByDefinitionID tenantID defID s = sort_key (\<lambda>x. (DisplayOrder x, ws_Key x))
     (filter (\<lambda>x. ws_WorkflowDefID x = defID \<and> ws_TenantID x = tenantID) (workflow_states s))"

definition conditions_encodable :: "WorkflowTransition \<Rightarrow> bool" where
  "conditions_encodable t = list_all (\<lambda>k. json_encodable (tc_Value k)) (wt_Conditions t)"

definition transition_row :: "WorkflowTransition \<Rightarrow> WorkflowTransition" where
  "transition_row t = t\<lparr>wt_Conditions := map (\<lambda>k. k\<lparr>tc_Value := json_decoded (tc_Value k)\<rparr>) (wt_Conditions t),
     wt_CreatedAt := trunc_micros (wt_CreatedAt t)\<rparr>"

fun transition_saveBatch :: "WorkflowTransition list \<Rightarrow> ('s wf_db_scheme, unit) tx" where
  "transition_saveBatch [] = tx_return ()"
| "transition_saveBatch (t # ts) = (\<lambda>s.
     if \<not> conditions_encodable t then (Inl (Err ''failed to marshal transition conditions''), s)
     else if wt_ID t \<in> wt_ID ` set (workflow_transitions s)
     then (Inl (unique_violation ''failed to insert workflow transition'' ''workflow_transitions_pkey''), s)
     else transition_saveBatch ts (s\<lparr>workflow_transitions := workflow_transitions s @ [transition_row t]\<rparr>))"

definition transition_deleteBatch :: "uuid \<Rightarrow> uuid \<Rightarrow> ('s wf_db_scheme, unit) tx" where
  "transition_deleteBatch tenantID defID = tx_modify (\<lambda>s. s\<lparr>workflow_transitions :=
     filter (\<lambda>t. \<not> (wt_WorkflowDefID t = defID \<and> wt_TenantID t = tenantID)) (workflow_transitions s)\<rparr>)"

definition transition_FindByDefinitionID :: "uuid \<Rightarrow> uuid \<Rightarrow> 's wf_db_scheme \<Rightarrow> WorkflowTransition list" where
  "transition_FindByDefinitionID tenantID defID s = sort_key wt_Key
     (filter (\<lambda>t. wt_WorkflowDefID t = defID \<and> wt_TenantID t = tenantID) (workflow_transitions s))"

definition transition_FindByFromState :: "uuid \<Rightarrow> uuid \<Rightarrow> string \<Rightarrow> 's wf_db_scheme \<Rightarrow> WorkflowTransition list" where
  "transition_FindByFromState tenantID defID fromState s =
     filter (\<lambda>t. wt_WorkflowDefID t = defID \<and> wt_TenantID t = tenantID \<and> FromState t = fromState \<and> wt_Active t)
       (workflow_transitions s)"

subsection \<open>Instances and history\<close>

definition instance_row :: "WorkflowInstance \<Rightarrow> WorkflowInstance" where
  "instance_row i = i\<lparr>StartedAt := trunc_micros (StartedAt i),
     CompletedAt := map_option trunc_micros (CompletedAt i), wi_Metadata := json_decoded (wi_Metadata i),
     wi_Version := 1, wi_Definition := None\<rparr>"

definition saveInstance :: "WorkflowInstance \<Rightarrow> ('s wf_db_scheme, unit) tx" where
  "saveInstance i = (\<lambda>s.
     if \<not> json_encodable (wi_Metadata i)
       then (Inl (Err ''failed to marshal workflow instance metadata''), s)
     else if \<not> int4 (wi_WorkflowDefVersion i) then (Inl (Err ''failed to insert workflow instance''), s)
     else if wi_ID i \<in> wi_ID ` set (workflow_instances s)
       then (Inl (unique_violation ''failed to insert workflow instance'' ''workflow_instances_pkey''), s)
     else if wi_CaseID i \<in> wi_CaseID ` set (workflow_instances s)
       then (Inl (unique_violation ''failed to insert workflow instance'' ''idx_workflow_instances_case_unique''), s)
     else (Inr (), s\<lparr>workflow_instances := workflow_instances s @ [instance_row i]\<rparr>))"

definition scan_instance :: "WorkflowInstance list \<Rightarrow> go_error + WorkflowInstance" where
  "scan_instance rows = query_row ''failed to scan workflow instance'' rows"

definition instance_FindByID :: "uuid \<Rightarrow> uuid \<Rightarrow> 's wf_db_scheme \<Rightarrow> go_error + WorkflowInstance" where
  "instance_FindByID tenantID i s =
     scan_instance (filter (\<lambda>x. wi_TenantID x = tenantID \<and> wi_ID x = i) (workflow_instances s))"

definition instance_FindByCaseID :: "uuid \<Rightarrow> uuid \<Rightarrow> 's wf_db_scheme \<Rightarrow> go_error + WorkflowInstance" where
  "instance_FindByCaseID tenantID caseID s =
     scan_instance (filter (\<lambda>x. wi_TenantID x = tenantID \<and> wi_CaseID x = caseID) (workflow_instances s))"

definition instance_FindByDefinitionID :: "uuid \<Rightarrow> uuid \<Rightarrow> int \<Rightarrow> int \<Rightarrow> 's wf_db_scheme
    \<Rightarrow> go_error + WorkflowInstance list \<times> nat" where
  "instance_FindByDefinitionID tenantID defID limit offset s =
     (let rows = filter (\<lambda>x. wi_TenantID x = tenantID \<and> wi_WorkflowDefID x = defID) (workflow_instances s) in
      case limit_offset limit offset (sort_key (\<lambda>x. - StartedAt x) rows) of
        Inl e \<Rightarrow> Inl (Wrap ''failed to query workflow instances'' e)
      | Inr page \<Rightarrow> Inr (page, length rows))"

definition CountActiveByDefinitionID :: "uuid \<Rightarrow> uuid \<Rightarrow> 's wf_db_scheme \<Rightarrow> nat" where
  "CountActiveByDefinitionID tenantID defID s =
     length (filter (\<lambda>x. wi_TenantID x = tenantID \<and> wi_WorkflowDefID x = defID \<and> CompletedAt x = None)
       (workflow_instances s))"

text \<open>The guarded updates: the row must still have the version that was read.\<close>

definition at_version :: "uuid \<Rightarrow> uuid \<Rightarrow> int \<Rightarrow> WorkflowInstance \<Rightarrow> bool" where
  "at_version tenantID i version x \<longleftrightarrow> wi_TenantID x = tenantID \<and> wi_ID x = i \<and> wi_Version x = version"

definition instance_updateState :: "uuid \<Rightarrow> uuid \<Rightarrow> string \<Rightarrow> int \<Rightarrow> ('s wf_db_scheme, unit) tx" where
  "instance_updateState tenantID i state version = (\<lambda>s.
     if affected (at_version tenantID i version) (workflow_instances s) = 0 then (Inl ErrConcurrentModification, s)
     else if \<not> int4 (version + 1) then (Inl (Err ''failed to update workflow instance state''), s)
     else (Inr (), s\<lparr>workflow_instances := update_where (at_version tenantID i version)
            (\<lambda>x. x\<lparr>CurrentState := state, wi_Version := wi_Version x + 1\<rparr>) (workflow_instances s)\<rparr>))"

definition instance_complete :: "instant \<Rightarrow> uuid \<Rightarrow> uuid \<Rightarrow> int \<Rightarrow> ('s wf_db_scheme, unit) tx" where
  "instance_complete dbnow tenantID i version = (\<lambda>s.
     if affected (at_version tenantID i version) (workflow_instances s) = 0 then (Inl ErrConcurrentModification, s)
     else if \<not> int4 (version + 1) then (Inl (Err ''failed to complete workflow instance''), s)
     else (Inr (), s\<lparr>workflow_instances := update_where (at_version tenantID i version)
            (\<lambda>x. x\<lparr>CompletedAt := Some dbnow, wi_Version := wi_Version x + 1\<rparr>) (workflow_instances s)\<rparr>))"

definition history_row :: "WorkflowTransitionHistory \<Rightarrow> WorkflowTransitionHistory" where
  "history_row h = h\<lparr>OccurredAt := trunc_micros (OccurredAt h), wh_Metadata := json_decoded (wh_Metadata h),
     wh_DecisionID := (case wh_DecisionID h of Some d \<Rightarrow> if d \<noteq> uuid_nil then Some d else None | None \<Rightarrow> None)\<rparr>"

definition saveHistory :: "WorkflowTransitionHistory \<Rightarrow> ('s wf_db_scheme, unit) tx" where
  "saveHistory h = (\<lambda>s.
     if \<not> json_encodable (wh_Metadata h)
       then (Inl (Err ''failed to marshal workflow transition history metadata''), s)
     else if wh_ID h \<in> wh_ID ` set (workflow_history s)
       then (Inl (unique_violation ''failed to insert workflow transition history''
                    ''workflow_transition_history_pkey''), s)
     else (Inr (), s\<lparr>workflow_history := workflow_history s @ [history_row h]\<rparr>))"

definition history_order :: "WorkflowTransitionHistory list \<Rightarrow> WorkflowTransitionHistory list" where
  "history_order rows = sort_key (\<lambda>h. (OccurredAt h, wh_ID h)) rows"

definition history_FindByInstanceID :: "uuid \<Rightarrow> uuid \<Rightarrow> int \<Rightarrow> int \<Rightarrow> 's wf_db_scheme
    \<Rightarrow> go_error + WorkflowTransitionHistory list" where
  "history_FindByInstanceID tenantID instanceID limit offset s =
     limit_offset limit offset (history_order
       (filter (\<lambda>h. wh_InstanceID h = instanceID \<and> wh_TenantID h = tenantID) (workflow_history s)))"

definition history_FindByCaseID :: "uuid \<Rightarrow> uuid \<Rightarrow> int \<Rightarrow> int \<Rightarrow> 's wf_db_scheme
    \<Rightarrow> go_error + WorkflowTransitionHistory list" where
  "history_FindByCaseID tenantID caseID limit offset s =
     limit_offset limit offset (history_order
       (filter (\<lambda>h. wh_CaseID h = caseID \<and> wh_TenantID h = tenantID) (workflow_history s)))"

end
