(* ===== verification/Workflow_Service.thy ===== *)
theory Workflow_Service
  imports Workflow_Store
begin

section \<open>The workflow service\<close>

text \<open>
  internal/workflow/application/service.go. The auditor and the transition observer are
  optional functions; fresh ids and clock readings come from the request context, by call
  site. Reads that go through the connection pool see the committed store, statements of a
  transaction the store of that transaction: \<open>executeTransition\<close> takes both.
\<close>

subsection \<open>Auditing\<close>

type_synonym 's auditor = "(RecordEventParams \<Rightarrow> ('s, unit) tx) option"

definition RecordAuditEventInTx :: "'s auditor \<Rightarrow> RecordEventParams \<Rightarrow> ('s, unit) tx" where
  "RecordAuditEventInTx auditor params = (case auditor of
     None \<Rightarrow> tx_return ()
   | Some record \<Rightarrow> tx_map_error (Wrap ''failed to record audit event'') (record params))"

definition audit_params :: "ctx \<Rightarrow> uuid \<Rightarrow> uuid \<Rightarrow> string \<Rightarrow> string \<Rightarrow> uuid \<Rightarrow> (string \<times> goval) list
    \<Rightarrow> RecordEventParams" where
  "audit_params c orgID actorID action resource resourceID meta =
     \<lparr>rp_OrganizationID = orgID, rp_ActorID = Some actorID, rp_Action = action, rp_Resource = resource,
      rp_ResourceID = Some (uuid_string resourceID), rp_Outcome = ''success'',
      rp_RequestID = Some (ctx_request_id c), rp_Metadata = GObject meta\<rparr>"

subsection \<open>Creating definitions\<close>

record CreateWorkflowDefinitionParams =
  cwp_TenantID :: uuid
  cwp_ActorID :: uuid
  cwp_Key :: string
  cwp_Name :: string
  cwp_Description :: string
  cwp_Version :: int
  cwp_InitialState :: string
  cwp_States :: "WorkflowState list"
  cwp_Transitions :: "WorkflowTransition list"
  cwp_Metadata :: goval

record UpdateWorkflowDefinitionParams =
  uwp_TenantID :: uuid
  uwp_ID :: uuid
  uwp_ActorID :: uuid
  uwp_Key :: string
  uwp_Name :: string
  uwp_Description :: string
  uwp_Version :: int
  uwp_InitialState :: string
  uwp_States :: "WorkflowState list"
  uwp_Transitions :: "WorkflowTransition list"
  uwp_Metadata :: goval

record ExecuteTransitionParams =
  etp_TenantID :: uuid
  etp_InstanceID :: uuid
  etp_TransitionKey :: string
  etp_ActorID :: uuid
  etp_ActorRole :: string
  etp_Reason :: string
  etp_DecisionID :: "uuid option"

text \<open>time.Time{}: the first instant of year 1.\<close>

definition zero_time :: instant where
  "zero_time = nanos (- 62135596800)"

text \<open>The loops that complete states and transitions; the k-th fresh id is drawn at site \<open>k\<close>.\<close>

fun adopt_states :: "ctx \<Rightarrow> nat \<Rightarrow> WorkflowDefinition \<Rightarrow> WorkflowState list \<Rightarrow> WorkflowState list" where
  "adopt_states c k def [] = []"
| "adopt_states c k def (x # xs) =
     x\<lparr>ws_ID := (if ws_ID x = uuid_nil then ctx_uuid c k else ws_ID x), ws_WorkflowDefID := wd_ID def,
       ws_TenantID := wd_TenantID def,
       ws_CreatedAt := (if ws_CreatedAt x = zero_time then wd_CreatedAt def else ws_CreatedAt x)\<rparr>
     # adopt_states c (Suc k) def xs"

fun adopt_transitions :: "ctx \<Rightarrow> nat \<Rightarrow> WorkflowDefinition \<Rightarrow> WorkflowTransition list \<Rightarrow> WorkflowTransition list" where
  "adopt_transitions c k def [] = []"
| "adopt_transitions c k def (t # ts) =
     t\<lparr>wt_ID := (if wt_ID t = uuid_nil then ctx_uuid c k else wt_ID t), wt_WorkflowDefID := wd_ID def,
       wt_TenantID := wd_TenantID def,
       wt_CreatedAt := (if wt_CreatedAt t = zero_time then wd_CreatedAt def else wt_CreatedAt t)\<rparr>
     # adopt_transitions c (Suc k) def ts"

definition new_definition :: "ctx \<Rightarrow> CreateWorkflowDefinitionParams \<Rightarrow> WorkflowDefinition" where
  "new_definition c p = \<lparr>wd_ID = ctx_uuid c 0, wd_TenantID = cwp_TenantID p, wd_Key = cwp_Key p,
     wd_Name = cwp_Name p, wd_Description = cwp_Description p, wd_Version = cwp_Version p,
     wd_Status = WorkflowStatusDraft, InitialState = cwp_InitialState p, wd_States = cwp_States p,
     wd_Transitions = cwp_Transitions p, wd_Metadata = cwp_Metadata p,
     wd_CreatedAt = ctx_time c 0, wd_UpdatedAt = ctx_time c 0\<rparr>"

text \<open>A lookup whose ErrNoRows means there is nothing: \<open>existing != nil\<close>.\<close>

definition optional_row :: "string \<Rightarrow> ('s, 'a) tx \<Rightarrow> ('s, 'a option) tx" where
  "optional_row msg m = tx_bind (tx_try m) (\<lambda>r. case r of
     Inr a \<Rightarrow> tx_return (Some a)
   | Inl e \<Rightarrow> if errors_Is e SqlNoRows then tx_return None else tx_throw (Wrap msg e))"

definition CreateWorkflowDefinition :: "'s wf_db_scheme auditor \<Rightarrow> ctx \<Rightarrow> CreateWorkflowDefinitionParams
    \<Rightarrow> ('s wf_db_scheme, WorkflowDefinition) tx" where
  "CreateWorkflowDefinition auditor c params =
     (let def0 = new_definition c params;
          states = adopt_states c 1 def0 (cwp_States params);
          transitions = adopt_transitions c (1 + length states) def0 (cwp_Transitions params);
          def = def0\<lparr>wd_States := states, wd_Transitions := transitions\<rparr>
      in if ValidateWorkflowDefinition def0 \<noteq> [] then tx_throw (Err ''invalid workflow definition'')
         else InTransaction
           (tx_bind (optional_row ''failed to check duplicate key''
                       (def_FindByKeyTx (cwp_TenantID params) (cwp_Key params))) (\<lambda>existing.
            tx_seq (tx_guard (existing = None) (Err ''workflow definition with key already exists''))
           (tx_seq (tx_map_error (Wrap ''failed to save workflow definition'') (saveDefinition def0))
           (tx_seq (tx_map_error (Wrap ''failed to save workflow states'') (state_saveBatch states))
           (tx_seq (tx_map_error (Wrap ''failed to save workflow transitions'') (transition_saveBatch transitions))
           (tx_seq (RecordAuditEventInTx auditor (audit_params c (wd_TenantID def) (cwp_ActorID params)
                      ''workflow.definition_created'' ''workflow_definition'' (wd_ID def)
                      [(''key'', GString (wd_Key def)), (''version'', GInt (wd_Version def)),
                       (''status'', GString (def_status_string (wd_Status def)))]))
             (tx_return def))))))))"

subsection \<open>The life cycle of a definition\<close>

text \<open>FindByIDTx with the service's not-found error.\<close>

definition load_definition_tx :: "uuid \<Rightarrow> uuid \<Rightarrow> ('s wf_db_scheme, WorkflowDefinition) tx" where
  "load_definition_tx tenantID i = tx_map_error
     (\<lambda>e. if errors_Is e SqlNoRows then ErrWorkflowDefinitionNotFound i
          else Wrap ''workflow definition not found'' e)
     (def_FindByIDTx tenantID i)"

definition key_version :: "WorkflowDefinition \<Rightarrow> (string \<times> goval) list" where
  "key_version def = [(''key'', GString (wd_Key def)), (''version'', GInt (wd_Version def))]"

definition ActivateWorkflowDefinition :: "'s wf_db_scheme auditor \<Rightarrow> ctx \<Rightarrow> uuid \<Rightarrow> uuid \<Rightarrow> uuid
    \<Rightarrow> ('s wf_db_scheme, unit) tx" where
  "ActivateWorkflowDefinition auditor c tenantID i actorID = InTransaction
     (tx_bind (load_definition_tx tenantID i) (\<lambda>def.
      tx_seq (tx_guard (wd_Status def = WorkflowStatusDraft) (Err ''only draft definitions can be activated''))
     (tx_bind (optional_row ''failed to check active definitions''
                 (def_FindLatestActiveByKeyTx tenantID (wd_Key def))) (\<lambda>activeDef.
      tx_seq (tx_guard (case activeDef of None \<Rightarrow> True | Some a \<Rightarrow> wd_ID a = wd_ID def)
                (Err ''another active version already exists''))
     (tx_seq (tx_map_error (Wrap ''failed to activate workflow definition'')
                (def_updateStatus (ctx_time c 1) tenantID i WorkflowStatusActive (wd_Version def)))
       (RecordAuditEventInTx auditor (audit_params c tenantID actorID ''workflow.definition_activated''
          ''workflow_definition'' (wd_ID def) (key_version def))))))))"

definition ArchiveWorkflowDefinition :: "'s wf_db_scheme auditor \<Rightarrow> ctx \<Rightarrow> uuid \<Rightarrow> uuid \<Rightarrow> uuid
    \<Rightarrow> ('s wf_db_scheme, unit) tx" where
  "ArchiveWorkflowDefinition auditor c tenantID i actorID = InTransaction
     (tx_bind (load_definition_tx tenantID i) (\<lambda>def.
      tx_seq (tx_guard (wd_Status def = WorkflowStatusActive) (Err ''only active definitions can be archived''))
     (tx_bind (tx_gets (CountActiveByDefinitionID tenantID (wd_ID def))) (\<lambda>activeCount.
      tx_seq (tx_guard (activeCount = 0) (Err ''cannot archive workflow definition with active instances''))
     (tx_seq (tx_map_error (Wrap ''failed to archive workflow definition'')
                (def_updateStatus (ctx_time c 1) tenantID i WorkflowStatusArchived (wd_Version def)))
       (RecordAuditEventInTx auditor (audit_params c tenantID actorID ''workflow.definition_archived''
          ''workflow_definition'' (wd_ID def) (key_version def))))))))"

definition DeleteWorkflowDefinition :: "'s wf_db_scheme auditor \<Rightarrow> ctx \<Rightarrow> uuid \<Rightarrow> uuid \<Rightarrow> uuid
    \<Rightarrow> ('s wf_db_scheme, unit) tx" where
  "DeleteWorkflowDefinition auditor c tenantID i actorID = InTransaction
     (tx_bind (load_definition_tx tenantID i) (\<lambda>def.
      tx_seq (tx_guard (wd_Status def = WorkflowStatusDraft) (Err ''only draft definitions can be deleted''))
     (tx_seq (transition_deleteBatch tenantID (wd_ID def))
     (tx_seq (state_deleteBatch tenantID (wd_ID def))
     (tx_seq (tx_map_error (Wrap ''failed to delete workflow definition'') (deleteDefinition tenantID i))
       (RecordAuditEventInTx auditor (audit_params c tenantID actorID ''workflow.definition_deleted''
          ''workflow_definition'' (wd_ID def) (key_version def))))))))"

text \<open>
  The update validates the definition as FindByIDTx returned it, before it looks at the new
  states and transitions.
\<close>

fun reassign_states :: "ctx \<Rightarrow> nat \<Rightarrow> WorkflowDefinition \<Rightarrow> WorkflowState list \<Rightarrow> WorkflowState list" where
  "reassign_states c k def [] = []"
| "reassign_states c k def (x # xs) =
     x\<lparr>ws_ID := (if ws_ID x = uuid_nil then ctx_uuid c k else ws_ID x), ws_WorkflowDefID := wd_ID def,
       ws_TenantID := wd_TenantID def\<rparr> # reassign_states c (Suc k) def xs"

fun reassign_transitions :: "ctx \<Rightarrow> nat \<Rightarrow> WorkflowDefinition \<Rightarrow> WorkflowTransition list \<Rightarrow> WorkflowTransition list" where
  "reassign_transitions c k def [] = []"
| "reassign_transitions c k def (t # ts) =
     t\<lparr>wt_ID := (if wt_ID t = uuid_nil then ctx_uuid c k else wt_ID t), wt_WorkflowDefID := wd_ID def,
       wt_TenantID := wd_TenantID def\<rparr> # reassign_transitions c (Suc k) def ts"

definition updated_definition :: "ctx \<Rightarrow> UpdateWorkflowDefinitionParams \<Rightarrow> WorkflowDefinition \<Rightarrow> WorkflowDefinition" where
  "updated_definition c p def = def\<lparr>wd_Key := uwp_Key p, wd_Name := uwp_Name p,
     wd_Description := uwp_Description p, wd_Version := uwp_Version p, InitialState := uwp_InitialState p,
     wd_Metadata := (if uwp_Metadata p \<noteq> GNil then uwp_Metadata p else wd_Metadata def),
     wd_UpdatedAt := ctx_time c 0\<rparr>"

definition UpdateWorkflowDefinition :: "'s wf_db_scheme auditor \<Rightarrow> ctx \<Rightarrow> UpdateWorkflowDefinitionParams
    \<Rightarrow> ('s wf_db_scheme, WorkflowDefinition) tx" where
  "UpdateWorkflowDefinition auditor c params = InTransaction
     (tx_bind (load_definition_tx (uwp_TenantID params) (uwp_ID params)) (\<lambda>def.
      tx_seq (tx_guard (wd_Status def = WorkflowStatusDraft) (Err ''only draft definitions can be updated''))
     (tx_seq (tx_when (uwp_Key params \<noteq> wd_Key def)
        (tx_bind (optional_row ''failed to check duplicate key''
                    (def_FindByKeyTx (uwp_TenantID params) (uwp_Key params))) (\<lambda>existing.
           tx_guard (case existing of None \<Rightarrow> True | Some e \<Rightarrow> wd_ID e = wd_ID def)
             (Err ''workflow definition with key already exists''))))
     (let def1 = updated_definition c params def;
          states = reassign_states c 0 def1 (uwp_States params);
          transitions = reassign_transitions c (length states) def1 (uwp_Transitions params)
      in tx_seq (tx_guard (ValidateWorkflowDefinition def1 = []) (Err ''invalid workflow definition''))
        (tx_seq (tx_map_error (Wrap ''failed to save workflow definition'') (updateDefinition (ctx_time c 1) def1))
        (tx_seq (tx_map_error (Wrap ''failed to save workflow states'') (state_saveBatch states))
        (tx_seq (tx_map_error (Wrap ''failed to save workflow transitions'') (transition_saveBatch transitions))
        (tx_seq (RecordAuditEventInTx auditor (audit_params c (wd_TenantID def1) (uwp_ActorID params)
                   ''workflow.definition_updated'' ''workflow_definition'' (wd_ID def1) (key_version def1)))
          (tx_return (def1\<lparr>wd_States := states, wd_Transitions := transitions\<rparr>))))))))))"

subsection \<open>Reading definitions\<close>

definition with_graph :: "uuid \<Rightarrow> 's wf_db_scheme \<Rightarrow> WorkflowDefinition \<Rightarrow> WorkflowDefinition" where
  "with_graph tenantID s def = def\<lparr>wd_States := state_FindByDefinitionID tenantID (wd_ID def) s,
     wd_Transitions := transition_FindByDefinitionID tenantID (wd_ID def) s\<rparr>"

definition GetWorkflowDefinition :: "uuid \<Rightarrow> uuid \<Rightarrow> 's wf_db_scheme \<Rightarrow> go_error + WorkflowDefinition" where
  "GetWorkflowDefinition tenantID i s = (case def_FindByID tenantID i s of
     Inl e \<Rightarrow> Inl (Wrap ''workflow definition not found'' e)
   | Inr def \<Rightarrow> Inr (with_graph tenantID s def))"

definition ListWorkflowDefinitions :: "uuid \<Rightarrow> int \<Rightarrow> int \<Rightarrow> 's wf_db_scheme
    \<Rightarrow> go_error + WorkflowDefinition list \<times> nat" where
  "ListWorkflowDefinitions tenantID limit offset s = (case def_ListByOrganization tenantID limit offset s of
     Inl e \<Rightarrow> Inl (Wrap ''failed to list workflow definitions'' e)
   | Inr (defs, n) \<Rightarrow> Inr (map (with_graph tenantID s) defs, n))"

text \<open>The slice expression panics when its bounds are not within the slice.\<close>

definition ListActiveForSelection :: "uuid \<Rightarrow> int \<Rightarrow> int \<Rightarrow> 's wf_db_scheme
    \<Rightarrow> go_error + WorkflowDefinition list \<times> nat" where
  "ListActiveForSelection tenantID limit offset s = (case def_ListByOrganization tenantID 10000 0 s of
     Inl e \<Rightarrow> Inl (Wrap ''failed to list workflow definitions'' e)
   | Inr (defs, _) \<Rightarrow>
       (let active = filter (\<lambda>d. wd_Status d = WorkflowStatusActive) defs; n = int (length active);
            e = (if offset + limit > n then n else offset + limit)
        in if n \<le> offset then Inr ([], length active)
           else if offset < 0 \<or> e < offset then Inl (GoPanic ''slice bounds out of range'')
           else Inr (take (nat (e - offset)) (drop (nat offset) active), length active)))"

definition FindLatestActiveByKey :: "uuid \<Rightarrow> string \<Rightarrow> 's wf_db_scheme \<Rightarrow> go_error + WorkflowDefinition" where
  "FindLatestActiveByKey tenantID key s = (case def_FindLatestActiveByKey tenantID key s of
     Inl e \<Rightarrow> Inl e
   | Inr def \<Rightarrow> Inr (with_graph tenantID s def))"

subsection \<open>Instances\<close>

definition new_instance :: "ctx \<Rightarrow> uuid \<Rightarrow> uuid \<Rightarrow> WorkflowDefinition \<Rightarrow> WorkflowInstance" where
  "new_instance c tenantID caseID def = \<lparr>wi_ID = ctx_uuid c 0, wi_TenantID = tenantID,
     wi_WorkflowDefID = wd_ID def, wi_WorkflowDefVersion = wd_Version def, wi_CaseID = caseID,
     CurrentState = InitialState def, StartedAt = ctx_time c 0, CompletedAt = None,
     wi_Metadata = GObject [], wi_Version = 1, wi_Definition = None\<rparr>"

definition createInstanceForCaseByDefID :: "'s wf_db_scheme auditor \<Rightarrow> ctx \<Rightarrow> uuid \<Rightarrow> uuid \<Rightarrow> uuid \<Rightarrow> uuid
    \<Rightarrow> ('s wf_db_scheme, WorkflowInstance) tx" where
  "createInstanceForCaseByDefID auditor c tenantID caseID workflowDefID actorID =
     tx_bind (load_definition_tx tenantID workflowDefID) (\<lambda>def.
      tx_seq (tx_guard (wd_Status def = WorkflowStatusActive) (ErrWorkflowDefinitionNotActive workflowDefID))
     (let i = new_instance c tenantID caseID def in
      tx_seq (tx_map_error (Wrap ''failed to create workflow instance'') (saveInstance i))
     (tx_seq (RecordAuditEventInTx auditor (audit_params c tenantID actorID ''workflow.instance_created''
                ''workflow_instance'' (wi_ID i)
                [(''workflow_definition_id'', GString (uuid_string (wd_ID def))),
                 (''workflow_definition_version'', GInt (wd_Version def)),
                 (''case_id'', GString (uuid_string caseID)),
                 (''initial_state'', GString (InitialState def))]))
       (tx_return (i\<lparr>wi_Definition := Some def\<rparr>)))))"

definition CreateInstanceForCaseByDefID :: "'s wf_db_scheme auditor \<Rightarrow> ctx \<Rightarrow> uuid \<Rightarrow> uuid \<Rightarrow> uuid \<Rightarrow> uuid
    \<Rightarrow> ('s wf_db_scheme, WorkflowInstance) tx" where
  "CreateInstanceForCaseByDefID auditor c tenantID caseID workflowDefID actorID =
     InTransaction (createInstanceForCaseByDefID auditor c tenantID caseID workflowDefID actorID)"

definition CreateInstanceForCaseByDefIDTx :: "'s wf_db_scheme auditor \<Rightarrow> ctx \<Rightarrow> uuid \<Rightarrow> uuid \<Rightarrow> uuid \<Rightarrow> uuid
    \<Rightarrow> ('s wf_db_scheme, WorkflowInstance) tx" where
  "CreateInstanceForCaseByDefIDTx auditor c tenantID caseID workflowDefID actorID =
     createInstanceForCaseByDefID auditor c tenantID caseID workflowDefID actorID"

subsection \<open>Executing a transition\<close>

text \<open>statesMap: the last state of a key wins.\<close>

definition statesMap :: "WorkflowDefinition \<Rightarrow> string \<Rightarrow> WorkflowState option" where
  "statesMap def = map_of (rev (map (\<lambda>x. (ws_Key x, x)) (wd_States def)))"

definition role_allowed :: "WorkflowTransition \<Rightarrow> string \<Rightarrow> bool" where
  "role_allowed t role \<longleftrightarrow> AllowedRoles t = [] \<or> role \<in> set (AllowedRoles t)"

text \<open>The checks before the first write, on the committed store.\<close>

definition plan_transition :: "'s wf_db_scheme \<Rightarrow> ExecuteTransitionParams
    \<Rightarrow> go_error + WorkflowInstance \<times> WorkflowDefinition \<times> WorkflowTransition \<times> WorkflowState" where
  "plan_transition s params =
     (case instance_FindByID (etp_TenantID params) (etp_InstanceID params) s of
        Inl e \<Rightarrow> Inl (if errors_Is e SqlNoRows then ErrWorkflowInstanceNotFound (etp_InstanceID params)
                      else Wrap ''workflow instance not found'' e)
      | Inr i \<Rightarrow>
     (case def_FindByID (etp_TenantID params) (wi_WorkflowDefID i) s of
        Inl e \<Rightarrow> Inl (if errors_Is e SqlNoRows then ErrWorkflowDefinitionNotFound (wi_WorkflowDefID i)
                      else Wrap ''workflow definition not found'' e)
      | Inr def0 \<Rightarrow>
          if wd_TenantID def0 \<noteq> etp_TenantID params then Inl ErrTenantViolation
          else (let def = with_graph (etp_TenantID params) s def0 in
            case statesMap def (CurrentState i) of
              None \<Rightarrow> Inl (Err ''instance in unknown state'')
            | Some currentState \<Rightarrow>
                if Terminal currentState then Inl (TerminalStateError (CurrentState i))
                else (case List.find (\<lambda>t. FromState t = CurrentState i \<and> wt_Key t = etp_TransitionKey params
                               \<and> wt_Active t) (wd_Transitions def) of
                    None \<Rightarrow> Inl (ErrTransitionNotFound (CurrentState i) [])
                  | Some t \<Rightarrow>
                      if \<not> role_allowed t (etp_ActorRole params)
                      then Inl (ErrUnauthorizedTransition (wt_Key t) (AllowedRoles t))
                      else (case statesMap def (ToState t) of
                          None \<Rightarrow> Inl (Err ''transition targets unknown state'')
                        | Some targetState \<Rightarrow> Inr (i, def, t, targetState))))))"

definition transition_history :: "ctx \<Rightarrow> ExecuteTransitionParams \<Rightarrow> WorkflowInstance \<Rightarrow> WorkflowTransition
    \<Rightarrow> WorkflowTransitionHistory" where
  "transition_history c params i t = \<lparr>wh_ID = ctx_uuid c 0, wh_TenantID = etp_TenantID params,
     wh_InstanceID = wi_ID i, wh_CaseID = wi_CaseID i, wh_FromState = CurrentState i,
     wh_ToState = ToState t, wh_TransitionKey = wt_Key t, wh_ActorID = Some (etp_ActorID params),
     OccurredAt = ctx_time c 0, wh_Reason = etp_Reason params, wh_Metadata = GObject [],
     wh_DecisionID = etp_DecisionID params\<rparr>"

definition transition_audit :: "ctx \<Rightarrow> ExecuteTransitionParams \<Rightarrow> WorkflowInstance \<Rightarrow> WorkflowTransition
    \<Rightarrow> RecordEventParams" where
  "transition_audit c params i t = audit_params c (etp_TenantID params) (etp_ActorID params)
     ''workflow.transition'' ''workflow_instance'' (wi_ID i)
     ([(''workflow_instance_id'', GString (uuid_string (wi_ID i))), (''transition'', GString (wt_Key t)),
       (''from_state'', GString (CurrentState i)), (''to_state'', GString (ToState t))]
      @ (if etp_Reason params \<noteq> [] then [(''reason'', GString (etp_Reason params))] else []))"

type_synonym 's observer = "(WorkflowInstance \<Rightarrow> WorkflowTransition \<Rightarrow> bool \<Rightarrow> ('s, unit) tx) option"

definition notify :: "'s observer \<Rightarrow> WorkflowInstance \<Rightarrow> WorkflowTransition \<Rightarrow> bool \<Rightarrow> ('s, unit) tx" where
  "notify observer i t targetTerminal = (case observer of
     None \<Rightarrow> tx_return ()
   | Some obs \<Rightarrow> tx_map_error (Wrap ''workflow transition observer failed'') (obs i t targetTerminal))"

text \<open>The writes, in order, on the store of the transaction.\<close>

definition apply_transition :: "'s wf_db_scheme auditor \<Rightarrow> 's wf_db_scheme observer \<Rightarrow> ctx
    \<Rightarrow> ExecuteTransitionParams \<Rightarrow> WorkflowInstance \<Rightarrow> WorkflowTransition \<Rightarrow> WorkflowState
    \<Rightarrow> ('s wf_db_scheme, unit) tx" where
  "apply_transition auditor observer c params i t targetState =
     tx_seq (tx_map_error (Wrap ''failed to update workflow instance state'')
               (instance_updateState (etp_TenantID params) (wi_ID i) (ToState t) (wi_Version i)))
    (tx_seq (tx_map_error (Wrap ''failed to save transition history'')
               (saveHistory (transition_history c params i t)))
    (tx_seq (tx_when (Terminal targetState)
               (tx_map_error (Wrap ''failed to complete workflow instance'')
                 (instance_complete (ctx_time c 1) (etp_TenantID params) (wi_ID i) (wi_Version i + 1))))
    (tx_seq (RecordAuditEventInTx auditor (transition_audit c params i t))
      (notify observer i t (Terminal targetState)))))"

definition moved_instance :: "WorkflowInstance \<Rightarrow> WorkflowDefinition \<Rightarrow> WorkflowTransition \<Rightarrow> WorkflowInstance" where
  "moved_instance i def t =
     i\<lparr>CurrentState := ToState t, wi_Version := wi_Version i + 1, wi_Definition := Some def\<rparr>"

text \<open>
  executeTransition: \<open>committed\<close> is the store the pool reads; \<open>outer\<close> tells whether the
  caller's transaction is used or one is opened.
\<close>

definition executeTransition :: "'s wf_db_scheme auditor \<Rightarrow> 's wf_db_scheme observer \<Rightarrow> ctx
    \<Rightarrow> 's wf_db_scheme \<Rightarrow> bool \<Rightarrow> ExecuteTransitionParams \<Rightarrow> ('s wf_db_scheme, WorkflowInstance) tx" where
  "executeTransition auditor observer c committed outer params =
     (case plan_transition committed params of
        Inl e \<Rightarrow> tx_throw e
      | Inr (i, def, t, targetState) \<Rightarrow>
          tx_seq (if outer then apply_transition auditor observer c params i t targetState
                  else InTransaction (apply_transition auditor observer c params i t targetState))
            (tx_return (moved_instance i def t)))"

definition ExecuteTransition :: "'s wf_db_scheme auditor \<Rightarrow> 's wf_db_scheme observer \<Rightarrow> ctx
    \<Rightarrow> ExecuteTransitionParams \<Rightarrow> ('s wf_db_scheme, WorkflowInstance) tx" where
  "ExecuteTransition auditor observer c params = (\<lambda>s. executeTransition auditor observer c s False params s)"

definition ExecuteTransitionInTx :: "'s wf_db_scheme auditor \<Rightarrow> 's wf_db_scheme observer \<Rightarrow> ctx
    \<Rightarrow> 's wf_db_scheme \<Rightarrow> ExecuteTransitionParams \<Rightarrow> ('s wf_db_scheme, WorkflowInstance) tx" where
  "ExecuteTransitionInTx auditor observer c committed params =
     executeTransition auditor observer c committed True params"

subsection \<open>Queries on instances\<close>

definition GetInstanceByCaseID :: "uuid \<Rightarrow> uuid \<Rightarrow> 's wf_db_scheme \<Rightarrow> go_error + WorkflowInstance" where
  "GetInstanceByCaseID tenantID caseID s = (case instance_FindByCaseID tenantID caseID s of
     Inl e \<Rightarrow> Inl (Join (ErrWorkflowInstanceNotFound caseID) e)
   | Inr i \<Rightarrow> Inr i)"

definition GetValidTransitions :: "uuid \<Rightarrow> uuid \<Rightarrow> 's wf_db_scheme \<Rightarrow> go_error + WorkflowTransition list" where
  "GetValidTransitions tenantID instanceID s =
     (case instance_FindByID tenantID instanceID s of
        Inl e \<Rightarrow> Inl (ErrWorkflowInstanceNotFound instanceID)
      | Inr i \<Rightarrow>
     (case def_FindByID tenantID (wi_WorkflowDefID i) s of
        Inl e \<Rightarrow> Inl (ErrWorkflowDefinitionNotFound (wi_WorkflowDefID i))
      | Inr def0 \<Rightarrow>
          (let def = def0\<lparr>wd_States := state_FindByDefinitionID tenantID (wd_ID def0) s\<rparr> in
           Inr (filter (\<lambda>t. statesMap def (ToState t) \<noteq> None)
                 (transition_FindByFromState tenantID (wd_ID def0) (CurrentState i) s)))))"

definition GetTransitionForDecision :: "uuid \<Rightarrow> uuid \<Rightarrow> string \<Rightarrow> 's wf_db_scheme
    \<Rightarrow> go_error + WorkflowTransition option" where
  "GetTransitionForDecision tenantID instanceID decisionType s =
     (case GetValidTransitions tenantID instanceID s of
        Inl e \<Rightarrow> Inl e
      | Inr ts \<Rightarrow> Inr (List.find (\<lambda>t. DecisionType t = decisionType) ts))"

definition GetWorkflowHistoryByCaseID :: "uuid \<Rightarrow> uuid \<Rightarrow> 's wf_db_scheme
    \<Rightarrow> go_error + WorkflowTransitionHistory list" where
  "GetWorkflowHistoryByCaseID tenantID caseID s =
     (case history_FindByCaseID tenantID caseID 100 0 s of
        Inl e \<Rightarrow> Inl (Wrap ''failed to load workflow history'' e)
      | Inr hs \<Rightarrow> Inr hs)"

end
