(* ===== verification/Form_Domain.thy ===== *)
theory Form_Domain
  imports Workflow_Service "HOL-Library.Log_Nat"
begin

section \<open>Forms, assignments and submissions\<close>

text \<open>
  internal/forms/domain (form.go, validation.go), internal/form_submission/domain and
  internal/workflow_form_assignment/domain: the data, and the validation of keys, names,
  field definitions and options. A text is its UTF-8 bytes. An error is the sentinel it wraps
  inside the fixed part of its message.
\<close>

subsection \<open>Statuses and field types\<close>

datatype FormStatus = FormStatusDraft | FormStatusActive | FormStatusArchived

datatype FormVersionStatus = FormVersionStatusDraft | FormVersionStatusPublished | FormVersionStatusArchived

text \<open>A field type is a string; \<open>FieldTypeOther\<close> stands for one that is not in the list.\<close>

datatype FieldType =
    FieldTypeText | FieldTypeTextarea | FieldTypeNumber | FieldTypeDecimal | FieldTypeDate
  | FieldTypeDatetime | FieldTypeBoolean | FieldTypeSelect | FieldTypeMultiSelect | FieldTypeRadio
  | FieldTypeCheckbox | FieldTypeEmail | FieldTypePhone | FieldTypeOther string

definition field_type_string :: "FieldType \<Rightarrow> string" where
  "field_type_string t = (case t of
     FieldTypeText \<Rightarrow> ''TEXT'' | FieldTypeTextarea \<Rightarrow> ''TEXTAREA'' | FieldTypeNumber \<Rightarrow> ''NUMBER''
   | FieldTypeDecimal \<Rightarrow> ''DECIMAL'' | FieldTypeDate \<Rightarrow> ''DATE'' | FieldTypeDatetime \<Rightarrow> ''DATETIME''
   | FieldTypeBoolean \<Rightarrow> ''BOOLEAN'' | FieldTypeSelect \<Rightarrow> ''SELECT''
   | FieldTypeMultiSelect \<Rightarrow> ''MULTISELECT'' | FieldTypeRadio \<Rightarrow> ''RADIO''
   | FieldTypeCheckbox \<Rightarrow> ''CHECKBOX'' | FieldTypeEmail \<Rightarrow> ''EMAIL'' | FieldTypePhone \<Rightarrow> ''PHONE''
   | FieldTypeOther s \<Rightarrow> s)"

definition IsValidFieldType :: "FieldType \<Rightarrow> bool" where
  "IsValidFieldType t = (case t of FieldTypeOther _ \<Rightarrow> False | _ \<Rightarrow> True)"

subsection \<open>Data\<close>

record FormOption =
  fo_Label :: string
  fo_Value :: string

record FormField =
  ff_ID :: uuid
  ff_FormID :: uuid
  FormVersionID :: uuid
  ff_OrganizationID :: uuid
  ff_Key :: string
  Label :: string
  ff_Type :: FieldType
  Required :: bool
  ff_Description :: string
  Placeholder :: string
  DefaultValue :: "string option"
  Validation :: facts
  Options :: "FormOption list"
  ff_Order :: int
  ff_CreatedAt :: instant
  ff_UpdatedAt :: instant

record FormVersion =
  fv_ID :: uuid
  FormID :: uuid
  fv_OrganizationID :: uuid
  fv_Version :: int
  fv_Status :: FormVersionStatus
  fv_CreatedByID :: uuid
  fv_CreatedAt :: instant
  PublishedAt :: "instant option"
  fv_UpdatedAt :: instant
  Fields :: "FormField list"

record Form =
  fm_ID :: uuid
  fm_OrganizationID :: uuid
  fm_Key :: string
  fm_Name :: string
  fm_Description :: string
  fm_Status :: FormStatus
  fm_CreatedByID :: uuid
  fm_CreatedAt :: instant
  fm_UpdatedAt :: instant
  Versions :: "FormVersion list"

record WorkflowStateFormAssignment =
  fa_ID :: uuid
  fa_TenantID :: uuid
  fa_WorkflowDefinitionID :: uuid
  WorkflowStateKey :: string
  fa_FormID :: uuid
  fa_FormVersionID :: uuid
  fa_Required :: bool
  fa_DisplayOrder :: int
  fa_Active :: bool
  fa_CreatedBy :: uuid
  fa_CreatedAt :: instant
  fa_UpdatedAt :: instant

datatype SubmissionStatus = SubmissionStatusSubmitted | SubmissionStatusRejected
  | SubmissionStatusCorrected | SubmissionStatusApproved

record FormSubmission =
  sb_ID :: uuid
  sb_TenantID :: uuid
  sb_CaseID :: uuid
  sb_FormID :: uuid
  sb_FormVersionID :: uuid
  SubmittedBy :: uuid
  sb_Status :: SubmissionStatus
  sb_Data :: facts
  SubmittedAt :: instant
  sb_UpdatedAt :: instant

subsection \<open>Errors\<close>

text \<open>
  The sentinels of the domain packages and those of the application packages are different
  values with the same texts; the package is part of the name.
\<close>

definition forms_domain :: "string \<Rightarrow> go_error" where
  "forms_domain m = Err (''forms/domain: '' @ m)"

abbreviation (input) "dErrFormNotFound \<equiv> forms_domain ''form not found''"
abbreviation (input) "dErrFormInvalidInput \<equiv> forms_domain ''invalid form input''"
abbreviation (input) "dErrFormVersionNotFound \<equiv> forms_domain ''form version not found''"
abbreviation (input) "dErrFormFieldNotFound \<equiv> forms_domain ''form field not found''"
abbreviation (input) "dErrFormInvalidStatus \<equiv> forms_domain ''invalid form status transition''"
abbreviation (input) "dErrFormVersionStatus \<equiv> forms_domain ''invalid form version status''"
abbreviation (input) "dErrFormFieldTypeInvalid \<equiv> forms_domain ''invalid field type''"
abbreviation (input) "dErrFormFieldInvalid \<equiv> forms_domain ''invalid field input''"
abbreviation (input) "dErrFormOptionInvalid \<equiv> forms_domain ''invalid option''"

text \<open>The first of a series of checks that fails.\<close>

primrec first_error :: "go_error option list \<Rightarrow> go_error option" where
  "first_error [] = None"
| "first_error (c # cs) = (case c of Some e \<Rightarrow> Some e | None \<Rightarrow> first_error cs)"

definition unless :: "bool \<Rightarrow> go_error \<Rightarrow> go_error option" where
  "unless b e = (if b then None else Some e)"

lemma first_error_None: "first_error cs = None \<longleftrightarrow> (\<forall>c \<in> set cs. c = None)"
  by (induction cs) (auto split: option.split)

lemma unless_None [simp]: "unless b e = None \<longleftrightarrow> b"
  by (simp add: unless_def)

subsection \<open>Numbers\<close>

text \<open>
  Arithmetic on float64: a value is the rational it denotes, \<open>None\<close> a NaN (the infinities do
  not come out of encoding/json). Reading a decimal rounds to the nearest float64, ties to
  even, and fails beyond the range.
\<close>

type_synonym float64 = "rat option"

definition float_less :: "float64 \<Rightarrow> float64 \<Rightarrow> bool" where
  "float_less a b = (case (a, b) of (Some x, Some y) \<Rightarrow> x < y | _ \<Rightarrow> False)"

definition pow2 :: "int \<Rightarrow> rat" where
  "pow2 e = (if 0 \<le> e then 2 ^ nat e else 1 / 2 ^ nat (- e))"

definition round_even :: "rat \<Rightarrow> int" where
  "round_even q = (let k = \<lfloor>q\<rfloor>; r = q - of_int k in
     if 1 / 2 < r \<or> (r = 1 / 2 \<and> odd k) then k + 1 else k)"

definition float_exponent :: "rat \<Rightarrow> int" where
  "float_exponent x = (case quotient_of x of (n, d) \<Rightarrow>
     let e = int (floorlog 2 (nat n)) - int (floorlog 2 (nat d)) - 53 in
     max (- 1074) (if pow2 53 \<le> x / pow2 e then e + 1 else e))"

definition nearest_float :: "rat \<Rightarrow> rat option" where
  "nearest_float x = (if x = 0 then Some 0
     else let e = float_exponent \<bar>x\<bar>; m = of_int (round_even (\<bar>x\<bar> / pow2 e)) * pow2 e in
       if pow2 1024 \<le> m then None else Some (if x < 0 then - m else m))"

text \<open>getFloat of validation.go: the number under a key, if it is a float64 or an int.\<close>

definition constraint_float :: "facts \<Rightarrow> string \<Rightarrow> float64 option" where
  "constraint_float v key = (case map_of v key of
     Some (GFloat64 r) \<Rightarrow> Some r
   | Some (GInt i) \<Rightarrow> Some (Some (of_int (round53 i)))
   | _ \<Rightarrow> None)"

definition isFinite :: "float64 \<Rightarrow> bool" where
  "isFinite f \<longleftrightarrow> f \<noteq> None \<and> float_less (Some (- (10 ^ 308))) f \<and> float_less f (Some (10 ^ 308))"

subsection \<open>Texts\<close>

text \<open>
  strings.ToLower maps the ASCII letters itself; what it makes of a text with other
  characters comes from the Unicode tables, the argument \<open>lower\<close>.
\<close>

definition is_ascii :: "string \<Rightarrow> bool" where
  "is_ascii s = list_all (\<lambda>c. (of_char c :: nat) < 128) s"

definition ascii_lower :: "char \<Rightarrow> char" where
  "ascii_lower c = (let n = (of_char c :: nat) in if 65 \<le> n \<and> n \<le> 90 then char_of (n + 32) else c)"

definition ToLower :: "(string \<Rightarrow> string) \<Rightarrow> string \<Rightarrow> string" where
  "ToLower lower s = (if is_ascii s then map ascii_lower s else lower s)"

text \<open>strings.ContainsFunc with unicode.IsControl: U+0000 to U+001F and U+007F to U+009F.\<close>

fun contains_control :: "string \<Rightarrow> bool" where
  "contains_control [] = False"
| "contains_control (c # cs) = (let n = (of_char c :: nat) in
     n < 32 \<or> n = 127
     \<or> (n = 194 \<and> cs \<noteq> [] \<and> 128 \<le> (of_char (hd cs) :: nat) \<and> (of_char (hd cs) :: nat) \<le> 159)
     \<or> contains_control cs)"

definition ValidateFormKey :: "(string \<Rightarrow> string) \<Rightarrow> string \<Rightarrow> go_error option" where
  "ValidateFormKey lower key = first_error
     [unless (key \<noteq> []) (Wrap ''key is required'' dErrFormInvalidInput),
      unless (length key \<le> 100) (Wrap ''key exceeds maximum length'' dErrFormInvalidInput),
      unless (ToLower lower key = key) (Wrap ''key must be lowercase'' dErrFormInvalidInput),
      unless (\<not> contains_control key) (Wrap ''key must not contain control characters'' dErrFormInvalidInput)]"

definition ValidateFormName :: "string \<Rightarrow> go_error option" where
  "ValidateFormName name = first_error
     [unless (name \<noteq> []) (Wrap ''name is required'' dErrFormInvalidInput),
      unless (length name \<le> 200) (Wrap ''name exceeds maximum length'' dErrFormInvalidInput)]"

definition ValidateFormDescription :: "string \<Rightarrow> go_error option" where
  "ValidateFormDescription desc =
     unless (desc = [] \<or> length desc \<le> 2000) (Wrap ''description exceeds maximum length'' dErrFormInvalidInput)"

definition ValidateFieldKey :: "(string \<Rightarrow> string) \<Rightarrow> string \<Rightarrow> go_error option" where
  "ValidateFieldKey lower key = first_error
     [unless (key \<noteq> []) (Wrap ''key is required'' dErrFormFieldInvalid),
      unless (length key \<le> 100) (Wrap ''key exceeds maximum length'' dErrFormFieldInvalid),
      unless (ToLower lower key = key) (Wrap ''key must be lowercase'' dErrFormFieldInvalid),
      unless (\<not> contains_control key) (Wrap ''key must not contain control characters'' dErrFormFieldInvalid)]"

definition ValidateFieldLabel :: "string \<Rightarrow> go_error option" where
  "ValidateFieldLabel label = first_error
     [unless (label \<noteq> []) (Wrap ''label is required'' dErrFormFieldInvalid),
      unless (length label \<le> 200) (Wrap ''label exceeds maximum length'' dErrFormFieldInvalid)]"

definition ValidateFieldType :: "FieldType \<Rightarrow> go_error option" where
  "ValidateFieldType t = unless (IsValidFieldType t) (Wrap (field_type_string t) dErrFormFieldTypeInvalid)"

subsection \<open>Status transitions\<close>

definition ValidateFormStatusTransition :: "FormStatus \<Rightarrow> FormStatus \<Rightarrow> go_error option" where
  "ValidateFormStatusTransition st to = unless
     (case st of FormStatusDraft \<Rightarrow> to = FormStatusActive \<or> to = FormStatusArchived
      | FormStatusActive \<Rightarrow> to = FormStatusArchived
      | FormStatusArchived \<Rightarrow> False)
     (Wrap ''cannot transition'' dErrFormInvalidStatus)"

definition ValidateVersionStatusTransition :: "FormVersionStatus \<Rightarrow> FormVersionStatus \<Rightarrow> go_error option" where
  "ValidateVersionStatusTransition st to = unless
     (case st of FormVersionStatusDraft \<Rightarrow> to = FormVersionStatusPublished \<or> to = FormVersionStatusArchived
      | FormVersionStatusPublished \<Rightarrow> to = FormVersionStatusArchived
      | FormVersionStatusArchived \<Rightarrow> False)
     (Wrap ''cannot transition'' dErrFormVersionStatus)"

subsection \<open>Constraints of a field\<close>

definition has_key :: "facts \<Rightarrow> string \<Rightarrow> bool" where
  "has_key v key \<longleftrightarrow> map_of v key \<noteq> None"

text \<open>The first of the two spellings that holds a number.\<close>

definition either_float :: "facts \<Rightarrow> string \<Rightarrow> string \<Rightarrow> float64 option" where
  "either_float v k1 k2 = (case constraint_float v k1 of Some f \<Rightarrow> Some f | None \<Rightarrow> constraint_float v k2)"

definition exceeds :: "float64 option \<Rightarrow> float64 option \<Rightarrow> bool" where
  "exceeds a b = (case (a, b) of (Some x, Some y) \<Rightarrow> float_less y x | _ \<Rightarrow> False)"

definition length_check :: "facts \<Rightarrow> string \<Rightarrow> go_error option" where
  "length_check v key = (if \<not> has_key v key then None
     else (case constraint_float v key of
         None \<Rightarrow> Some (Err (key @ '' must be a number''))
       | Some f \<Rightarrow> unless (\<not> (float_less f (Some 0) \<or> float_less (Some 1000000) f))
             (Err (key @ '' must be between 0 and 1000000''))))"

definition validateLengthFieldValidation :: "facts \<Rightarrow> go_error option" where
  "validateLengthFieldValidation v = first_error
     (map (length_check v) [''min_length'', ''minLength'', ''max_length'', ''maxLength'']
      @ [unless (\<not> exceeds (either_float v ''min_length'' ''minLength'') (either_float v ''max_length'' ''maxLength''))
           (Err ''min_length cannot exceed max_length'')])"

definition finite_check :: "float64 option \<Rightarrow> go_error \<Rightarrow> go_error option" where
  "finite_check f e = (case f of None \<Rightarrow> None | Some x \<Rightarrow> unless (isFinite x) e)"

definition validateNumericFieldValidation :: "facts \<Rightarrow> go_error option" where
  "validateNumericFieldValidation v =
     (let lo = either_float v ''min_value'' ''minValue''; hi = either_float v ''max_value'' ''maxValue'' in
      first_error
        [finite_check lo (Err ''min_value must be a finite number''),
         finite_check hi (Err ''max_value must be a finite number''),
         unless (\<not> exceeds lo hi) (Err ''min_value cannot exceed max_value'')])"

definition validateDateFormatValidation :: "facts \<Rightarrow> go_error option" where
  "validateDateFormatValidation v = (case map_of v ''format'' of
     Some (GString f) \<Rightarrow> unless (f \<in> {''date'', ''datetime'', ''iso8601''}) (Err (''unsupported format: '' @ f))
   | _ \<Rightarrow> None)"

definition number_check :: "facts \<Rightarrow> string \<Rightarrow> go_error option" where
  "number_check v key = unless (has_key v key \<longrightarrow> constraint_float v key \<noteq> None)
     (Wrap (key @ '' must be a number'') dErrFormFieldInvalid)"

definition validateCommonFieldValidation :: "regexp \<Rightarrow> facts \<Rightarrow> go_error option" where
  "validateCommonFieldValidation re v = first_error
     (map (number_check v) [''min_length'', ''max_length'', ''minLength'', ''maxLength'',
        ''min_value'', ''max_value'', ''minValue'', ''maxValue'']
      @ [case map_of v ''pattern'' of
           Some (GString p) \<Rightarrow> unless (re p \<noteq> None) (Wrap ''invalid pattern'' dErrFormFieldInvalid)
         | _ \<Rightarrow> None])"

definition type_constraints :: "FieldType \<Rightarrow> facts \<Rightarrow> go_error option" where
  "type_constraints t v =
     (if t = FieldTypeText \<or> t = FieldTypeTextarea then validateLengthFieldValidation v
      else if t = FieldTypeNumber \<or> t = FieldTypeDecimal then validateNumericFieldValidation v
      else if t = FieldTypeDate \<or> t = FieldTypeDatetime then validateDateFormatValidation v
      else None)"

definition is_choice :: "FieldType \<Rightarrow> bool" where
  "is_choice t \<longleftrightarrow> t = FieldTypeSelect \<or> t = FieldTypeMultiSelect \<or> t = FieldTypeRadio \<or> t = FieldTypeCheckbox"

text \<open>A nil map is \<open>None\<close>. Choice and boolean fields return before the common checks.\<close>

definition ValidateFieldValidation :: "regexp \<Rightarrow> FieldType \<Rightarrow> facts option \<Rightarrow> go_error option" where
  "ValidateFieldValidation re t validation = (case validation of
     None \<Rightarrow> None
   | Some v \<Rightarrow>
       if \<not> IsValidFieldType t
       then Some (Wrap (''unknown field type: '' @ field_type_string t) dErrFormFieldTypeInvalid)
       else if is_choice t \<or> t = FieldTypeBoolean then None
       else first_error [type_constraints t v, validateCommonFieldValidation re v])"

text \<open>The loop over the options, with the values already seen.\<close>

fun option_errors :: "string list \<Rightarrow> FormOption list \<Rightarrow> go_error option" where
  "option_errors seen [] = None"
| "option_errors seen (o' # os) =
     (if fo_Label o' = [] then Some (Wrap ''option has empty label'' dErrFormOptionInvalid)
      else if fo_Value o' = [] then Some (Wrap ''option has empty value'' dErrFormOptionInvalid)
      else if 200 < length (fo_Label o')
        then Some (Wrap ''option label exceeds maximum length'' dErrFormOptionInvalid)
      else if fo_Value o' \<in> set seen then Some (Wrap ''duplicate option value'' dErrFormOptionInvalid)
      else option_errors (fo_Value o' # seen) os)"

definition ValidateFieldOptions :: "FieldType \<Rightarrow> FormOption list \<Rightarrow> go_error option" where
  "ValidateFieldOptions t options =
     (if \<not> is_choice t
      then unless (options = []) (Wrap ''options only allowed for choice fields'' dErrFormOptionInvalid)
      else first_error
        [unless (options \<noteq> []) (Wrap ''at least one option is required'' dErrFormOptionInvalid),
         unless (length options \<le> 100) (Wrap ''too many options'' dErrFormOptionInvalid),
         option_errors [] options])"

text \<open>Options are not looked at for a checkbox, nor for the fields that take none.\<close>

definition ValidateField :: "regexp \<Rightarrow> FieldType \<Rightarrow> string \<Rightarrow> FormOption list \<Rightarrow> facts option \<Rightarrow> go_error option" where
  "ValidateField re t label options validation = first_error
     [ValidateFieldLabel label, ValidateFieldType t, ValidateFieldValidation re t validation,
      if t = FieldTypeSelect \<or> t = FieldTypeMultiSelect \<or> t = FieldTypeRadio
      then ValidateFieldOptions t options else None]"

subsection \<open>Construction\<close>

definition NewForm :: "(string \<Rightarrow> string) \<Rightarrow> ctx \<Rightarrow> uuid \<Rightarrow> string \<Rightarrow> string \<Rightarrow> string \<Rightarrow> uuid \<Rightarrow> go_error + Form" where
  "NewForm lower c orgID key name description createdByID =
     (case first_error [ValidateFormKey lower key, ValidateFormName name, ValidateFormDescription description] of
        Some e \<Rightarrow> Inl e
      | None \<Rightarrow> Inr \<lparr>fm_ID = ctx_uuid c 0, fm_OrganizationID = orgID, fm_Key = key, fm_Name = name,
          fm_Description = description, fm_Status = FormStatusDraft, fm_CreatedByID = createdByID,
          fm_CreatedAt = ctx_time c 0, fm_UpdatedAt = ctx_time c 0, Versions = []\<rparr>)"

definition NewFormVersion :: "ctx \<Rightarrow> uuid \<Rightarrow> uuid \<Rightarrow> uuid \<Rightarrow> FormVersion" where
  "NewFormVersion c formID orgID createdByID = \<lparr>fv_ID = ctx_uuid c 0, FormID = formID,
     fv_OrganizationID = orgID, fv_Version = 1, fv_Status = FormVersionStatusDraft,
     fv_CreatedByID = createdByID, fv_CreatedAt = ctx_time c 0, PublishedAt = None,
     fv_UpdatedAt = ctx_time c 0, Fields = []\<rparr>"

definition NewWorkflowStateFormAssignment :: "ctx \<Rightarrow> uuid \<Rightarrow> uuid \<Rightarrow> uuid \<Rightarrow> uuid \<Rightarrow> uuid \<Rightarrow> string \<Rightarrow> bool \<Rightarrow> int
    \<Rightarrow> go_error + WorkflowStateFormAssignment" where
  "NewWorkflowStateFormAssignment c tenantID workflowDefID formID formVersionID createdBy stateKey required displayOrder =
     (case first_error [unless (stateKey \<noteq> []) (Err ''workflow state key is required''),
                        unless (0 \<le> displayOrder) (Err ''display order must be non-negative'')] of
        Some e \<Rightarrow> Inl e
      | None \<Rightarrow> Inr \<lparr>fa_ID = ctx_uuid c 0, fa_TenantID = tenantID, fa_WorkflowDefinitionID = workflowDefID,
          WorkflowStateKey = stateKey, fa_FormID = formID, fa_FormVersionID = formVersionID,
          fa_Required = required, fa_DisplayOrder = displayOrder, fa_Active = True,
          fa_CreatedBy = createdBy, fa_CreatedAt = ctx_time c 0, fa_UpdatedAt = ctx_time c 0\<rparr>)"

definition ValidateAssignment :: "uuid \<Rightarrow> uuid \<Rightarrow> uuid \<Rightarrow> uuid \<Rightarrow> string \<Rightarrow> go_error option" where
  "ValidateAssignment tenantID workflowDefID formID formVersionID stateKey = first_error
     [unless (tenantID \<noteq> uuid_nil) (Err ''tenant ID is required''),
      unless (workflowDefID \<noteq> uuid_nil) (Err ''workflow definition ID is required''),
      unless (formID \<noteq> uuid_nil) (Err ''form ID is required''),
      unless (formVersionID \<noteq> uuid_nil) (Err ''form version ID is required''),
      unless (stateKey \<noteq> []) (Err ''invalid workflow state key'')]"

definition NewFormSubmission :: "ctx \<Rightarrow> uuid \<Rightarrow> uuid \<Rightarrow> uuid \<Rightarrow> uuid \<Rightarrow> uuid \<Rightarrow> facts option \<Rightarrow> SubmissionStatus
    \<Rightarrow> go_error + FormSubmission" where
  "NewFormSubmission c tenantID caseID formID formVersionID submittedBy data status =
     (case first_error
        [unless (tenantID \<noteq> uuid_nil) (Err ''tenant ID is required''),
         unless (caseID \<noteq> uuid_nil) (Err ''case ID is required''),
         unless (formID \<noteq> uuid_nil) (Err ''form ID is required''),
         unless (formVersionID \<noteq> uuid_nil) (Err ''form version ID is required''),
         unless (submittedBy \<noteq> uuid_nil) (Err ''submitted by is required''),
         unless (data \<noteq> None) (Err ''submission data is required'')] of
        Some e \<Rightarrow> Inl e
      | None \<Rightarrow> Inr \<lparr>sb_ID = ctx_uuid c 0, sb_TenantID = tenantID, sb_CaseID = caseID, sb_FormID = formID,
          sb_FormVersionID = formVersionID, SubmittedBy = submittedBy, sb_Status = status,
          sb_Data = the data, SubmittedAt = ctx_time c 0, sb_UpdatedAt = ctx_time c 0\<rparr>)"

end
