(* ===== verification/Rule_Domain.thy ===== *)
theory Rule_Domain
  imports Rule_Json Form_Domain
begin

section \<open>Rule templates and assignments\<close>

text \<open>
  rule_template.go, rule_assignment.go and errors.go of internal/rules/domain: reusable rules,
  and the binding of a rule set to a state of a workflow.
\<close>

definition rules_domain :: "string \<Rightarrow> go_error" where
  "rules_domain m = Err (''rules/domain: '' @ m)"

abbreviation (input) "dErrRuleSetNotFound \<equiv> rules_domain ''rule set not found''"

subsection \<open>Templates\<close>

datatype RuleTemplateScope = RuleTemplateScopeOrg | RuleTemplateScopeGlobal | RuleTemplateScopeOther string

primrec scope_string :: "RuleTemplateScope \<Rightarrow> string" where
  "scope_string RuleTemplateScopeOrg = ''ORG''"
| "scope_string RuleTemplateScopeGlobal = ''GLOBAL''"
| "scope_string (RuleTemplateScopeOther s) = s"

record RuleTemplate =
  rt_ID :: uuid
  rt_Scope :: RuleTemplateScope
  rt_OrganizationID :: "uuid option"
  rt_Key :: string
  rt_Name :: string
  rt_Description :: string
  rt_Category :: string
  rt_Rule :: Rule
  rt_CreatedBy :: uuid
  rt_CreatedAt :: instant
  rt_UpdatedAt :: instant

definition ValidateRuleTemplateKey :: "string \<Rightarrow> go_error option" where
  "ValidateRuleTemplateKey key = first_error
     [unless (key \<noteq> []) (Err ''key is required''),
      unless (length key \<le> 100) (Err ''key exceeds maximum length of 100 characters'')]"

text \<open>An organization that is given, and is not the nil identifier.\<close>

definition given_id :: "uuid option \<Rightarrow> bool" where
  "given_id i \<longleftrightarrow> i \<noteq> None \<and> i \<noteq> Some uuid_nil"

definition NewRuleTemplate :: "regexp \<Rightarrow> ctx \<Rightarrow> RuleTemplateScope \<Rightarrow> uuid option \<Rightarrow> string \<Rightarrow> string \<Rightarrow> string \<Rightarrow> string
    \<Rightarrow> Rule \<Rightarrow> uuid \<Rightarrow> go_error + RuleTemplate" where
  "NewRuleTemplate re c scope orgID key name description category rule createdBy =
     (case first_error
        [unless (scope = RuleTemplateScopeOrg \<or> scope = RuleTemplateScopeGlobal) (Err ''invalid scope''),
         unless (scope = RuleTemplateScopeOrg \<longrightarrow> given_id orgID) (Err ''organization_id required for org scope''),
         unless (scope = RuleTemplateScopeGlobal \<longrightarrow> \<not> given_id orgID)
           (Err ''organization_id must be nil for global scope''),
         ValidateRuleTemplateKey key,
         unless (name \<noteq> []) (Err ''name is required''),
         unless (length name \<le> 200) (Err ''name exceeds maximum length of 200 characters''),
         unless (length description \<le> 2000) (Err ''description exceeds maximum length of 2000 characters''),
         unless (length category \<le> 100) (Err ''category exceeds maximum length of 100 characters''),
         unless (IsValidOutcome (rule_Outcome rule)) (Err ''invalid rule outcome''),
         map_option (Wrap ''invalid rule condition'') (ValidateCondition re (Conditions rule) 0)] of
        Some e \<Rightarrow> Inl e
      | None \<Rightarrow> Inr \<lparr>rt_ID = ctx_uuid c 0, rt_Scope = scope, rt_OrganizationID = orgID, rt_Key = key, rt_Name = name,
          rt_Description = description, rt_Category = category, rt_Rule = rule, rt_CreatedBy = createdBy,
          rt_CreatedAt = ctx_time c 0, rt_UpdatedAt = ctx_time c 0\<rparr>)"

definition RuleTemplate_Clone :: "ctx \<Rightarrow> uuid option \<Rightarrow> uuid \<Rightarrow> RuleTemplate \<Rightarrow> RuleTemplate" where
  "RuleTemplate_Clone c orgID createdBy rt = rt\<lparr>rt_ID := ctx_uuid c 0, rt_OrganizationID := orgID,
     rt_CreatedBy := createdBy, rt_CreatedAt := ctx_time c 0, rt_UpdatedAt := ctx_time c 1,
     rt_Rule := \<lparr>rule_ID = ctx_uuid c 1, Rule.Priority = Rule.Priority (rt_Rule rt), rule_Outcome = rule_Outcome (rt_Rule rt),
       Conditions = Condition_Clone (Conditions (rt_Rule rt)), rule_Active = rule_Active (rt_Rule rt),
       rule_CreatedAt = ctx_time c 2\<rparr>\<rparr>"

subsection \<open>Assignments\<close>

record WorkflowStateRuleAssignment =
  ra_ID :: uuid
  ra_OrganizationID :: uuid
  ra_WorkflowDefID :: uuid
  ra_WorkflowStateKey :: string
  ra_RuleSetID :: uuid
  ra_Required :: bool
  ra_Active :: bool
  ra_DisplayOrder :: int
  ra_CreatedAt :: instant
  ra_UpdatedAt :: instant

definition assignment_Validate :: "WorkflowStateRuleAssignment \<Rightarrow> go_error option" where
  "assignment_Validate w = first_error
     [unless (ra_OrganizationID w \<noteq> uuid_nil) (Err ''organization_id is required''),
      unless (ra_WorkflowDefID w \<noteq> uuid_nil) (Err ''workflow_definition_id is required''),
      unless (ra_WorkflowStateKey w \<noteq> []) (Err ''workflow_state_key is required''),
      unless (ra_RuleSetID w \<noteq> uuid_nil) (Err ''rule_set_id is required''),
      unless (0 \<le> ra_DisplayOrder w) (Err ''display_order must be non-negative'')]"

end
