(* ===== verification/Case_Domain.thy ===== *)
theory Case_Domain
  imports Form_Domain
begin

section \<open>Cases and the validation of submitted forms\<close>

text \<open>
  internal/cases/domain/case.go, and the functions of internal/cases/application/service.go
  that check the data of a submission against the fields of a form version.
\<close>

subsection \<open>Cases\<close>

text \<open>Status, service type and priority are strings; the named statuses are those of case.go.\<close>

record Case =
  cs_ID :: uuid
  cs_OrganizationID :: uuid
  CaseNumber :: string
  Title :: string
  cs_Description :: string
  cs_Status :: string
  WorkflowState :: string
  ServiceType :: string
  Priority :: string
  PersonID :: "uuid option"
  AssignedToID :: "uuid option"
  cs_CreatedByID :: uuid
  cs_CreatedAt :: instant
  cs_UpdatedAt :: instant
  ClosedAt :: "instant option"
  WorkflowInstanceID :: "uuid option"
  WorkflowKey :: string
  WorkflowID :: "uuid option"
  cs_Version :: int

definition cases_domain :: "string \<Rightarrow> go_error" where
  "cases_domain m = Err (''cases/domain: '' @ m)"

abbreviation (input) "ErrCaseNumberConflict \<equiv> cases_domain ''case number conflict''"
abbreviation (input) "dErrCaseInvalidInput \<equiv> cases_domain ''invalid case input''"

definition IsClosed :: "string \<Rightarrow> bool" where
  "IsClosed status \<longleftrightarrow> status = ''CLOSED'' \<or> status = ''REJECTED''"

definition ValidateServiceType :: "string \<Rightarrow> go_error option" where
  "ValidateServiceType t = unless (t \<noteq> []) (Wrap ''service_type is required'' dErrCaseInvalidInput)"

definition validateCaseInput :: "string \<Rightarrow> string \<Rightarrow> go_error option" where
  "validateCaseInput title description = first_error
     [unless (length title \<le> 200) (Wrap ''title exceeds maximum length'' dErrCaseInvalidInput),
      unless (length description \<le> 10000) (Wrap ''description exceeds maximum length'' dErrCaseInvalidInput)]"

text \<open>t.Format("20060102").\<close>

definition compact_date :: "instant \<Rightarrow> string" where
  "compact_date t = (let days = nat (t div 1000000000 div 86400 + int epoch_days); y = year_of days;
       k = days - days_before_year y; m = month_of y k
     in fixed_digits digit_char 10 4 y @ fixed_digits digit_char 10 2 m
        @ fixed_digits digit_char 10 2 (Suc (k - days_before_month y m)))"

definition GenerateCaseNumber :: "instant \<Rightarrow> uuid \<Rightarrow> string" where
  "GenerateCaseNumber t u = ''CAS-'' @ compact_date t @ ''-''
     @ fixed_digits digit_char 10 8 (nat (t mod 1000000000) mod 100000000) @ ''-'' @ take 8 (uuid_string u)"

text \<open>The id is drawn at site 0, the number at site 1.\<close>

definition NewCase :: "ctx \<Rightarrow> uuid \<Rightarrow> uuid \<Rightarrow> string \<Rightarrow> string \<Rightarrow> string \<Rightarrow> string \<Rightarrow> uuid option \<Rightarrow> go_error + Case" where
  "NewCase c orgID createdByID title description serviceType priority personID =
     (case validateCaseInput title description of
        Some e \<Rightarrow> Inl e
      | None \<Rightarrow> Inr \<lparr>cs_ID = ctx_uuid c 0, cs_OrganizationID = orgID,
          CaseNumber = GenerateCaseNumber (ctx_time c 0) (ctx_uuid c 1), Title = title,
          cs_Description = description, cs_Status = ''NEW'', WorkflowState = [], ServiceType = serviceType,
          Priority = priority, PersonID = personID, AssignedToID = None, cs_CreatedByID = createdByID,
          cs_CreatedAt = ctx_time c 0, cs_UpdatedAt = ctx_time c 0, ClosedAt = None,
          WorkflowInstanceID = None, WorkflowKey = [], WorkflowID = None, cs_Version = 1\<rparr>)"

definition ValidateConsistency :: "string \<Rightarrow> Case \<Rightarrow> go_error option" where
  "ValidateConsistency workflowState cs = unless
     (WorkflowInstanceID cs = None \<or> workflowState = [] \<or> cs_Status cs = workflowState)
     (cases_domain ''case status contradicts workflow state'')"

definition StatusFromWorkflowState :: "string \<Rightarrow> go_error + string" where
  "StatusFromWorkflowState st = (if st = [] then Inl (Err ''workflow state cannot be empty'') else Inr st)"

definition AssignTo :: "instant \<Rightarrow> uuid \<Rightarrow> Case \<Rightarrow> Case" where
  "AssignTo now userID cs = cs\<lparr>AssignedToID := Some userID, cs_UpdatedAt := now\<rparr>"

definition RegenerateCaseNumber :: "instant \<Rightarrow> uuid \<Rightarrow> Case \<Rightarrow> Case" where
  "RegenerateCaseNumber now u cs = cs\<lparr>CaseNumber := GenerateCaseNumber now u\<rparr>"

definition SyncStatusFromWorkflow :: "instant \<Rightarrow> string \<Rightarrow> Case \<Rightarrow> Case" where
  "SyncStatusFromWorkflow now st cs = (if st = [] then cs
     else cs\<lparr>cs_Status := st, cs_UpdatedAt := now,
             ClosedAt := (if IsClosed st then Some now else ClosedAt cs)\<rparr>)"

definition IsValidStatus :: "string \<Rightarrow> bool" where
  "IsValidStatus st \<longleftrightarrow> st \<noteq> [] \<and> length st \<le> 100 \<and> \<not> contains_control st"

subsection \<open>Texts of email addresses and telephone numbers\<close>

definition is_letter :: "char \<Rightarrow> bool" where
  "is_letter c \<longleftrightarrow> (let n = (of_char c :: nat) in (65 \<le> n \<and> n \<le> 90) \<or> (97 \<le> n \<and> n \<le> 122))"

definition domain_char :: "char \<Rightarrow> bool" where
  "domain_char c \<longleftrightarrow> is_letter c \<or> is_digit c \<or> c = CHR ''.'' \<or> c = CHR ''-''"

definition local_char :: "char \<Rightarrow> bool" where
  "local_char c \<longleftrightarrow> domain_char c \<or> c \<in> {CHR ''_'', CHR ''%'', CHR ''+''}"

text \<open>
  \<^verbatim>\<open>^[a-zA-Z0-9._%+\-]+@[a-zA-Z0-9.\-]+\.[a-zA-Z]{2,}$\<close>: no class holds the at sign, and the last
  part has no dot, so the text splits at its first at sign and its last dot.
\<close>

definition IsValidEmail :: "string \<Rightarrow> bool" where
  "IsValidEmail s = (let localpart = takeWhile (\<lambda>c. c \<noteq> CHR ''@'') s; rest = drop (length localpart) s;
       tld = rev (takeWhile (\<lambda>c. c \<noteq> CHR ''.'') (rev (tl rest)));
       host = take (length (tl rest) - length tld - 1) (tl rest)
     in rest \<noteq> [] \<and> localpart \<noteq> [] \<and> list_all local_char localpart
        \<and> length tld < length (tl rest) \<and> host \<noteq> [] \<and> list_all domain_char host
        \<and> 2 \<le> length tld \<and> list_all is_letter tld)"

text \<open>\<^verbatim>\<open>^[+\d\s\-().]{7,25}$\<close>\<close>

definition phone_char :: "char \<Rightarrow> bool" where
  "phone_char c \<longleftrightarrow> is_digit c \<or> c \<in> {CHR ''+'', CHR ''-'', CHR ''('', CHR '')'', CHR ''.'', CHR '' ''}
     \<or> (of_char c :: nat) \<in> {9, 10, 12, 13}"

definition IsValidPhone :: "string \<Rightarrow> bool" where
  "IsValidPhone s \<longleftrightarrow> 7 \<le> length s \<and> length s \<le> 25 \<and> list_all phone_char s"

subsection \<open>Date-times\<close>

text \<open>
  time.Parse with the layouts of isValidDatetime: the hour may have one digit, a fraction may
  follow the seconds, a space of the layout stands for any number of spaces. A parser maps a
  text to what is left of it.
\<close>

definition take_char :: "char \<Rightarrow> string \<Rightarrow> string option" where
  "take_char ch s = (case s of [] \<Rightarrow> None | a # r \<Rightarrow> if a = ch then Some r else None)"

definition take_spaces :: "string \<Rightarrow> string option" where
  "take_spaces s = (case take_char CHR '' '' s of None \<Rightarrow> None | Some r \<Rightarrow> Some (dropWhile (\<lambda>a. a = CHR '' '') r))"

definition take_two :: "nat \<Rightarrow> string \<Rightarrow> string option" where
  "take_two bound s = (case s of a # b # r \<Rightarrow>
       (case num2 a b of Some n \<Rightarrow> if n < bound then Some r else None | None \<Rightarrow> None)
     | _ \<Rightarrow> None)"

definition take_hour :: "string \<Rightarrow> string option" where
  "take_hour s = (case s of
     [] \<Rightarrow> None
   | a # r \<Rightarrow> if \<not> is_digit a then None
       else (case r of b # _ \<Rightarrow> if is_digit b then take_two 24 s else Some r | [] \<Rightarrow> Some r))"

definition take_fraction :: "string \<Rightarrow> string" where
  "take_fraction s = (case s of
     a # b # r \<Rightarrow> if (a = CHR ''.'' \<or> a = CHR '','') \<and> is_digit b then dropWhile is_digit r else s
   | _ \<Rightarrow> s)"

definition take_seconds :: "string \<Rightarrow> string option" where
  "take_seconds s = Option.bind (take_char CHR '':'' s) (\<lambda>r.
     map_option take_fraction (take_two 60 r))"

definition take_zone :: "string \<Rightarrow> string option" where
  "take_zone s = (case s of
     [] \<Rightarrow> None
   | a # r \<Rightarrow> if a = CHR ''Z'' then Some r
       else if a = CHR ''+'' \<or> a = CHR ''-''
       then Option.bind (take_two 25 r) (\<lambda>r. Option.bind (take_char CHR '':'' r) (take_two 61))
       else None)"

definition parses :: "(string \<Rightarrow> string option) \<Rightarrow> bool \<Rightarrow> bool \<Rightarrow> string \<Rightarrow> bool" where
  "parses sep secs zone s \<longleftrightarrow> parse_date (take 10 s) \<noteq> None
     \<and> Option.bind (sep (drop 10 s)) (\<lambda>r. Option.bind (take_hour r) (\<lambda>r.
         Option.bind (take_char CHR '':'' r) (\<lambda>r. Option.bind (take_two 60 r) (\<lambda>r.
         Option.bind (if secs then take_seconds r else Some r) (\<lambda>r.
         if zone then take_zone r else Some r))))) = Some []"

definition isValidDatetime :: "string \<Rightarrow> bool" where
  "isValidDatetime s \<longleftrightarrow> parses (take_char CHR ''T'') True True s \<or> parses (take_char CHR ''T'') True False s
     \<or> parses (take_char CHR ''T'') False False s \<or> parses take_spaces True False s
     \<or> parses take_spaces False False s"

subsection \<open>Submitted values\<close>

definition cases_app :: "string \<Rightarrow> go_error" where
  "cases_app m = Err (''cases/application: '' @ m)"

abbreviation (input) "ErrUnknownFields \<equiv> cases_app ''submission contains unknown fields''"
abbreviation (input) "ErrFieldValidationFailed \<equiv> cases_app ''field validation failed''"
abbreviation (input) "ErrOptionValidationFailed \<equiv> cases_app ''option validation failed''"

text \<open>getFloat: the outer option is the error.\<close>

definition getFloat :: "goval \<Rightarrow> float64 option" where
  "getFloat v = (case v of
     GFloat64 r \<Rightarrow> Some r
   | GFloat32 r \<Rightarrow> Some r
   | GInt i \<Rightarrow> Some (Some (of_int (round53 i)))
   | GNumber n \<Rightarrow> (case number_value n of None \<Rightarrow> None | Some q \<Rightarrow> map_option Some (nearest_float q))
   | _ \<Rightarrow> None)"

fun validationNumber :: "facts \<Rightarrow> string list \<Rightarrow> float64 option" where
  "validationNumber v [] = None"
| "validationNumber v (k # ks) = (case Option.bind (map_of v k) getFloat of
     Some f \<Rightarrow> Some f | None \<Rightarrow> validationNumber v ks)"

text \<open>int(f): truncation; out of range the smallest int64, as on amd64.\<close>

definition go_int :: "rat \<Rightarrow> int" where
  "go_int q = (let i = (if q < 0 then - \<lfloor>- q\<rfloor> else \<lfloor>q\<rfloor>) in
     if - (2 ^ 63) \<le> i \<and> i < 2 ^ 63 then i else - (2 ^ 63))"

text \<open>A length bound that is absent, not positive or not a number is not enforced.\<close>

definition length_bound :: "facts \<Rightarrow> string list \<Rightarrow> int option" where
  "length_bound v keys = (case validationNumber v keys of
     Some (Some q) \<Rightarrow> if 0 < q then Some (go_int q) else None
   | _ \<Rightarrow> None)"

definition validatePatternConstraint :: "regexp \<Rightarrow> FormField \<Rightarrow> string \<Rightarrow> go_error option" where
  "validatePatternConstraint re f s = (case map_of (Validation f) ''pattern'' of
     Some (GString p) \<Rightarrow> if p = [] then None
       else (case re p of
           None \<Rightarrow> Some (Wrap ''field has invalid pattern'' ErrFieldValidationFailed)
         | Some m \<Rightarrow> unless (m s) (Wrap ''field does not match the required pattern'' ErrFieldValidationFailed))
   | _ \<Rightarrow> None)"

definition failed :: "string \<Rightarrow> go_error" where
  "failed m = Wrap m ErrFieldValidationFailed"

definition text_error :: "regexp \<Rightarrow> FormField \<Rightarrow> string \<Rightarrow> go_error option" where
  "text_error re f s = first_error
     [case length_bound (Validation f) [''minLength'', ''min_length''] of
        None \<Rightarrow> None | Some n \<Rightarrow> unless (n \<le> int (length s)) (failed ''too short''),
      case length_bound (Validation f) [''maxLength'', ''max_length''] of
        None \<Rightarrow> None | Some n \<Rightarrow> unless (int (length s) \<le> n) (failed ''too long''),
      if ff_Type f = FieldTypeEmail
      then first_error [unless (IsValidEmail s) (failed ''not a valid email''), validatePatternConstraint re f s]
      else if ff_Type f = FieldTypePhone
      then first_error [unless (IsValidPhone s) (failed ''not a valid phone number''), validatePatternConstraint re f s]
      else None]"

definition number_error :: "FormField \<Rightarrow> float64 \<Rightarrow> go_error option" where
  "number_error f x = first_error
     [case validationNumber (Validation f) [''minValue'', ''min_value''] of
        None \<Rightarrow> None | Some lo \<Rightarrow> unless (\<not> float_less x lo) (failed ''below minimum''),
      case validationNumber (Validation f) [''maxValue'', ''max_value''] of
        None \<Rightarrow> None | Some hi \<Rightarrow> unless (\<not> float_less hi x) (failed ''above maximum'')]"

definition option_values :: "FormField \<Rightarrow> string set" where
  "option_values f = fo_Value ` set (Options f)"

definition is_option :: "FormField \<Rightarrow> goval \<Rightarrow> bool" where
  "is_option f v = (case v of GString s \<Rightarrow> s \<in> option_values f | _ \<Rightarrow> False)"

definition expect_string :: "goval \<Rightarrow> (string \<Rightarrow> go_error option) \<Rightarrow> go_error option" where
  "expect_string v k = (case v of GString s \<Rightarrow> k s | _ \<Rightarrow> Some (failed ''expected string''))"

definition typed_error :: "regexp \<Rightarrow> FormField \<Rightarrow> goval \<Rightarrow> go_error option" where
  "typed_error re f v = (case ff_Type f of
     FieldTypeText \<Rightarrow> expect_string v (text_error re f)
   | FieldTypeTextarea \<Rightarrow> expect_string v (text_error re f)
   | FieldTypeEmail \<Rightarrow> expect_string v (text_error re f)
   | FieldTypePhone \<Rightarrow> expect_string v (text_error re f)
   | FieldTypeNumber \<Rightarrow> (case getFloat v of None \<Rightarrow> Some (failed ''expected number'') | Some x \<Rightarrow> number_error f x)
   | FieldTypeDecimal \<Rightarrow> (case getFloat v of None \<Rightarrow> Some (failed ''expected number'') | Some x \<Rightarrow> number_error f x)
   | FieldTypeDate \<Rightarrow> expect_string v (\<lambda>s. unless (parse_date s \<noteq> None) (failed ''not a valid date''))
   | FieldTypeDatetime \<Rightarrow> expect_string v (\<lambda>s. unless (isValidDatetime s) (failed ''not a valid datetime''))
   | FieldTypeBoolean \<Rightarrow> unless (isBoolean v) (failed ''expected boolean'')
   | FieldTypeCheckbox \<Rightarrow> unless (isBoolean v) (failed ''expected boolean'')
   | FieldTypeSelect \<Rightarrow> expect_string v (\<lambda>s. unless (s \<in> option_values f) (Wrap ''invalid option'' ErrOptionValidationFailed))
   | FieldTypeRadio \<Rightarrow> expect_string v (\<lambda>s. unless (s \<in> option_values f) (Wrap ''invalid option'' ErrOptionValidationFailed))
   | FieldTypeMultiSelect \<Rightarrow> (case v of
         GArray vs \<Rightarrow> unless (list_all (is_option f) vs) (Wrap ''invalid option'' ErrOptionValidationFailed)
       | _ \<Rightarrow> Some (failed ''expected array''))
   | FieldTypeOther _ \<Rightarrow> None)"

definition is_blank :: "goval \<Rightarrow> bool" where
  "is_blank v \<longleftrightarrow> v = GNil \<or> v = GString []"

definition validateFieldValue :: "regexp \<Rightarrow> FormField \<Rightarrow> goval \<Rightarrow> go_error option" where
  "validateFieldValue re f v =
     (if is_blank v then unless (\<not> Required f) (failed ''field is required'') else typed_error re f v)"

text \<open>The loop over the fields, after the check that every key belongs to a field.\<close>

fun field_errors :: "regexp \<Rightarrow> facts \<Rightarrow> FormField list \<Rightarrow> go_error option" where
  "field_errors re data [] = None"
| "field_errors re data (f # fs) = (case map_of data (ff_Key f) of
     None \<Rightarrow> if Required f then Some (failed ''required field is missing'') else field_errors re data fs
   | Some v \<Rightarrow> (case validateFieldValue re f v of
         Some e \<Rightarrow> Some e
       | None \<Rightarrow> field_errors re data fs))"

definition validateSubmissionData :: "regexp \<Rightarrow> facts \<Rightarrow> FormField list \<Rightarrow> go_error option" where
  "validateSubmissionData re data ffs =
     (if fst ` set data \<subseteq> ff_Key ` set ffs then field_errors re data ffs
      else Some (Wrap ''unknown field'' ErrUnknownFields))"

end
