(* ===== verification/Review_Domain.thy ===== *)
theory Review_Domain
  imports Case_Domain
begin

section \<open>Decisions and reviews\<close>

text \<open>
  internal/decisions/domain and internal/review_queue/domain: the data of decisions and of the
  entries of the review queue, the construction of both, and the state machine of a review.
\<close>

subsection \<open>Decisions\<close>

datatype DecisionType = DecisionTypeApproved | DecisionTypeRejected | DecisionTypeNeedsMoreInformation
  | DecisionTypeEscalate | DecisionTypeOther string

primrec decision_string :: "DecisionType \<Rightarrow> string" where
  "decision_string DecisionTypeApproved = ''APPROVED''"
| "decision_string DecisionTypeRejected = ''REJECTED''"
| "decision_string DecisionTypeNeedsMoreInformation = ''NEEDS_MORE_INFORMATION''"
| "decision_string DecisionTypeEscalate = ''ESCALATE''"
| "decision_string (DecisionTypeOther d) = d"

text \<open>The conversion DecisionType(s) of a text.\<close>

definition DecisionType_of :: "string \<Rightarrow> DecisionType" where
  "DecisionType_of d = (if d = ''APPROVED'' then DecisionTypeApproved else if d = ''REJECTED'' then DecisionTypeRejected
     else if d = ''NEEDS_MORE_INFORMATION'' then DecisionTypeNeedsMoreInformation
     else if d = ''ESCALATE'' then DecisionTypeEscalate else DecisionTypeOther d)"

record Decision =
  dc_ID :: uuid
  dc_OrganizationID :: uuid
  ServiceRequestID :: uuid
  dc_Decision :: DecisionType
  dc_Reason :: string
  DecisionMaker :: uuid
  DecidedAt :: instant
  dc_CreatedAt :: instant
  SupersededByID :: "uuid option"
  dc_WorkflowState :: string
  dc_RuleEvaluationIDs :: "uuid list"
  dc_EvidenceIDs :: "uuid list"
  dc_FormSubmissionID :: "uuid option"
  ReviewQueueEntryID :: "uuid option"
  dc_Version :: int

definition decisions_domain :: "string \<Rightarrow> go_error" where
  "decisions_domain m = Err (''decisions/domain: '' @ m)"

abbreviation (input) "dErrDecisionNotFound \<equiv> decisions_domain ''decision not found''"
abbreviation (input) "dErrDecisionInvalidInput \<equiv> decisions_domain ''invalid decision input''"

definition ReasonRequired :: "DecisionType \<Rightarrow> bool" where
  "ReasonRequired d = (case d of DecisionTypeApproved \<Rightarrow> False | _ \<Rightarrow> True)"

definition NewDecisionWithContext :: "ctx \<Rightarrow> uuid \<Rightarrow> uuid \<Rightarrow> uuid \<Rightarrow> DecisionType \<Rightarrow> string \<Rightarrow> string \<Rightarrow> uuid list
    \<Rightarrow> uuid list \<Rightarrow> uuid option \<Rightarrow> uuid option \<Rightarrow> int \<Rightarrow> go_error + Decision" where
  "NewDecisionWithContext c orgID serviceRequestID decisionMaker decision reason workflowState ruleEvalIDs evidenceIDs
     formSubmissionID reviewQueueEntryID version =
     (case first_error
        [unless (length reason \<le> 5000) (Wrap ''reason exceeds maximum length of 5000 characters'' dErrDecisionInvalidInput),
         unless (ReasonRequired decision \<longrightarrow> reason \<noteq> []) (Wrap ''reason is required'' dErrDecisionInvalidInput)] of
        Some e \<Rightarrow> Inl e
      | None \<Rightarrow> Inr \<lparr>dc_ID = ctx_uuid c 0, dc_OrganizationID = orgID, ServiceRequestID = serviceRequestID,
          dc_Decision = decision, dc_Reason = reason, DecisionMaker = decisionMaker, DecidedAt = ctx_time c 0,
          dc_CreatedAt = ctx_time c 0, SupersededByID = None, dc_WorkflowState = workflowState,
          dc_RuleEvaluationIDs = ruleEvalIDs, dc_EvidenceIDs = evidenceIDs, dc_FormSubmissionID = formSubmissionID,
          ReviewQueueEntryID = reviewQueueEntryID, dc_Version = (if version < 1 then 1 else version)\<rparr>)"

definition NewDecision :: "ctx \<Rightarrow> uuid \<Rightarrow> uuid \<Rightarrow> uuid \<Rightarrow> DecisionType \<Rightarrow> string \<Rightarrow> go_error + Decision" where
  "NewDecision c orgID serviceRequestID decisionMaker decision reason =
     NewDecisionWithContext c orgID serviceRequestID decisionMaker decision reason [] [] [] None None 1"

definition NewSupersedingDecision :: "ctx \<Rightarrow> uuid \<Rightarrow> uuid \<Rightarrow> uuid \<Rightarrow> DecisionType \<Rightarrow> string \<Rightarrow> Decision option \<Rightarrow> string
    \<Rightarrow> uuid list \<Rightarrow> uuid list \<Rightarrow> uuid option \<Rightarrow> uuid option \<Rightarrow> go_error + Decision" where
  "NewSupersedingDecision c orgID serviceRequestID decisionMaker decision reason superseded workflowState ruleEvalIDs
     evidenceIDs formSubmissionID reviewQueueEntryID =
     NewDecisionWithContext c orgID serviceRequestID decisionMaker decision reason workflowState ruleEvalIDs evidenceIDs
       formSubmissionID reviewQueueEntryID (case superseded of None \<Rightarrow> 1 | Some d \<Rightarrow> dc_Version d + 1)"

subsection \<open>Reviews\<close>

datatype ReviewStatus = ReviewStatusPending | ReviewStatusAssigned | ReviewStatusInReview | ReviewStatusCompleted
  | ReviewStatusEscalated | ReviewStatusWaitingInfo | ReviewStatusOther string

record ReviewQueueEntry =
  rv_ID :: uuid
  rv_OrganizationID :: uuid
  rv_CaseID :: uuid
  rv_WorkflowInstanceID :: uuid
  rv_Status :: ReviewStatus
  rv_AssignedToID :: "uuid option"
  rv_Priority :: string
  rv_WorkflowState :: string
  rv_RuleEvaluationIDs :: "uuid list"
  rv_EvidenceIDs :: "uuid list"
  MissingInformation :: "string list"
  rv_FormSubmissionID :: "uuid option"
  rv_CreatedAt :: instant
  rv_UpdatedAt :: instant
  rv_CompletedAt :: "instant option"
  rv_Metadata :: goval

definition review_domain :: "string \<Rightarrow> go_error" where
  "review_domain m = Err (''review_queue/domain: '' @ m)"

abbreviation (input) "dErrReviewNotFound \<equiv> review_domain ''review queue entry not found''"
abbreviation (input) "dErrReviewInvalidInput \<equiv> review_domain ''invalid review input''"

definition NewReviewQueueEntry :: "ctx \<Rightarrow> uuid \<Rightarrow> uuid \<Rightarrow> uuid \<Rightarrow> string \<Rightarrow> string \<Rightarrow> uuid list \<Rightarrow> uuid list \<Rightarrow> uuid option
    \<Rightarrow> ReviewQueueEntry" where
  "NewReviewQueueEntry c orgID caseID workflowInstanceID workflowState priority ruleEvalIDs evidenceIDs formSubmissionID =
     \<lparr>rv_ID = ctx_uuid c 0, rv_OrganizationID = orgID, rv_CaseID = caseID, rv_WorkflowInstanceID = workflowInstanceID,
      rv_Status = ReviewStatusPending, rv_AssignedToID = None, rv_Priority = priority, rv_WorkflowState = workflowState,
      rv_RuleEvaluationIDs = ruleEvalIDs, rv_EvidenceIDs = evidenceIDs, MissingInformation = [],
      rv_FormSubmissionID = formSubmissionID, rv_CreatedAt = ctx_time c 0, rv_UpdatedAt = ctx_time c 0,
      rv_CompletedAt = None, rv_Metadata = GObject []\<rparr>"

definition CanTransition :: "ReviewStatus \<Rightarrow> ReviewStatus \<Rightarrow> bool" where
  "CanTransition status target = (case status of
     ReviewStatusPending \<Rightarrow> target = ReviewStatusAssigned
   | ReviewStatusAssigned \<Rightarrow> target = ReviewStatusInReview \<or> target = ReviewStatusPending
   | ReviewStatusInReview \<Rightarrow> target = ReviewStatusCompleted \<or> target = ReviewStatusEscalated
       \<or> target = ReviewStatusWaitingInfo \<or> target = ReviewStatusAssigned
   | ReviewStatusWaitingInfo \<Rightarrow> target = ReviewStatusInReview \<or> target = ReviewStatusAssigned \<or> target = ReviewStatusPending
   | ReviewStatusCompleted \<Rightarrow> False
   | ReviewStatusEscalated \<Rightarrow> False
   | ReviewStatusOther _ \<Rightarrow> False)"

definition final_status :: "ReviewStatus \<Rightarrow> bool" where
  "final_status st \<longleftrightarrow> st = ReviewStatusCompleted \<or> st = ReviewStatusEscalated"

definition IsFinal :: "ReviewQueueEntry \<Rightarrow> bool" where
  "IsFinal r = final_status (rv_Status r)"

text \<open>Transition changes the entry in place; the two clock readings are sites 0 and 1.\<close>

definition Transition :: "ctx \<Rightarrow> ReviewStatus \<Rightarrow> uuid option \<Rightarrow> ReviewQueueEntry \<Rightarrow> go_error + ReviewQueueEntry" where
  "Transition c target assignedToID r =
     (if \<not> CanTransition (rv_Status r) target then Inl (Wrap ''cannot transition'' dErrReviewInvalidInput)
      else Inr (r\<lparr>rv_Status := target, rv_UpdatedAt := ctx_time c 0,
        rv_AssignedToID := (if assignedToID = None then rv_AssignedToID r else assignedToID),
        rv_CompletedAt := (if final_status target then Some (ctx_time c 1) else rv_CompletedAt r)\<rparr>))"

definition valid_review_status :: "ReviewStatus \<Rightarrow> bool" where
  "valid_review_status st \<longleftrightarrow> st \<in> {ReviewStatusPending, ReviewStatusAssigned, ReviewStatusInReview,
     ReviewStatusCompleted, ReviewStatusEscalated, ReviewStatusWaitingInfo}"

definition ValidateReviewStatus :: "ReviewStatus \<Rightarrow> go_error option" where
  "ValidateReviewStatus st = unless (valid_review_status st) (Wrap ''invalid review status'' dErrReviewInvalidInput)"

end
