(* ===== verification/Form_Store.thy ===== *)
theory Form_Store
  imports Form_Domain
begin

section \<open>The tables of forms, assignments and submissions\<close>

text \<open>
  The repositories in infrastructure/postgres of internal/forms, internal/form_submission and
  internal/workflow_form_assignment, on the tables of migrations 0015, 0016 and 0017. Foreign
  keys hold by assumption and SELECT ... FOR UPDATE reads like SELECT. Statements that the
  repositories would run on a nil transaction panic.
\<close>

record form_db = wf_db +
  forms :: "Form list"
  form_versions :: "FormVersion list"
  form_fields :: "FormField list"
  form_assignments :: "WorkflowStateFormAssignment list"
  form_submissions :: "FormSubmission list"

definition nil_transaction :: go_error where
  "nil_transaction = GoPanic ''invalid memory address or nil pointer dereference''"

text \<open>QueryRow and Scan where sql.ErrNoRows is replaced by an error of the domain.\<close>

definition row_or :: "go_error \<Rightarrow> 'a list \<Rightarrow> go_error + 'a" where
  "row_or e rows = (case rows of [] \<Rightarrow> Inl e | r # _ \<Rightarrow> Inr r)"

text \<open>The number of characters of a text: of its bytes that do not continue a character.\<close>

definition char_length :: "string \<Rightarrow> nat" where
  "char_length s = length (filter (\<lambda>c. \<not> (128 \<le> (of_char c :: nat) \<and> (of_char c :: nat) < 192)) s)"

subsection \<open>Forms\<close>

definition form_row :: "Form \<Rightarrow> Form" where
  "form_row f = f\<lparr>fm_CreatedAt := trunc_micros (fm_CreatedAt f), fm_UpdatedAt := trunc_micros (fm_UpdatedAt f),
     Versions := []\<rparr>"

definition form_Save :: "Form \<Rightarrow> ('s form_db_scheme, unit) tx" where
  "form_Save f = (\<lambda>s.
     if fm_ID f \<in> fm_ID ` set (forms s)
       then (Inl (unique_violation ''failed to save form'' ''forms_pkey''), s)
     else if \<exists>g \<in> set (forms s). fm_OrganizationID g = fm_OrganizationID f \<and> fm_Key g = fm_Key f
       then (Inl (unique_violation ''failed to save form'' ''forms_organization_id_key_key''), s)
     else (Inr (), s\<lparr>forms := forms s @ [form_row f]\<rparr>))"

definition form_FindByID :: "uuid \<Rightarrow> uuid \<Rightarrow> 's form_db_scheme \<Rightarrow> go_error + Form" where
  "form_FindByID orgID i s =
     row_or dErrFormNotFound (filter (\<lambda>f. fm_OrganizationID f = orgID \<and> fm_ID f = i) (forms s))"

definition form_FindByKey :: "uuid \<Rightarrow> string \<Rightarrow> 's form_db_scheme \<Rightarrow> go_error + Form" where
  "form_FindByKey orgID key s =
     row_or dErrFormNotFound (filter (\<lambda>f. fm_OrganizationID f = orgID \<and> fm_Key f = key) (forms s))"

definition form_FindByIDs :: "uuid \<Rightarrow> uuid list \<Rightarrow> 's form_db_scheme \<Rightarrow> Form list" where
  "form_FindByIDs orgID ids s = (if ids = [] then []
     else filter (\<lambda>f. fm_OrganizationID f = orgID \<and> fm_ID f \<in> set ids) (forms s))"

definition form_List :: "uuid \<Rightarrow> int \<Rightarrow> int \<Rightarrow> 's form_db_scheme \<Rightarrow> go_error + Form list \<times> nat" where
  "form_List orgID limit offset s =
     (let rows = filter (\<lambda>f. fm_OrganizationID f = orgID) (forms s) in
      case limit_offset limit offset (sort_key (\<lambda>f. - fm_CreatedAt f) rows) of
        Inl e \<Rightarrow> Inl (Wrap ''failed to list forms'' e)
      | Inr page \<Rightarrow> Inr (page, length rows))"

definition form_Update :: "instant \<Rightarrow> uuid \<Rightarrow> uuid \<Rightarrow> Form \<Rightarrow> ('s form_db_scheme, unit) tx" where
  "form_Update dbnow orgID i f = (\<lambda>s.
     let p = (\<lambda>g. fm_OrganizationID g = orgID \<and> fm_ID g = i) in
     if affected p (forms s) = 0 then (Inl dErrFormNotFound, s)
     else (Inr (), s\<lparr>forms := update_where p
            (\<lambda>g. g\<lparr>fm_Name := fm_Name f, fm_Description := fm_Description f, fm_Status := fm_Status f,
                   fm_UpdatedAt := dbnow\<rparr>) (forms s)\<rparr>))"

subsection \<open>Versions\<close>

text \<open>A version without publication time is stored with the zero time, not with NULL.\<close>

definition stored_published_at :: "FormVersion \<Rightarrow> instant option" where
  "stored_published_at v = Some (case PublishedAt v of None \<Rightarrow> zero_time | Some t \<Rightarrow> trunc_micros t)"

definition version_row :: "FormVersion \<Rightarrow> FormVersion" where
  "version_row v = v\<lparr>fv_CreatedAt := trunc_micros (fv_CreatedAt v), PublishedAt := stored_published_at v,
     fv_UpdatedAt := trunc_micros (fv_UpdatedAt v), Fields := []\<rparr>"

text \<open>INSERT ... ON CONFLICT (id) DO UPDATE.\<close>

definition version_Save :: "FormVersion \<Rightarrow> ('s form_db_scheme, unit) tx" where
  "version_Save v = (\<lambda>s.
     if \<exists>w \<in> set (form_versions s). fv_ID w = fv_ID v
       then (Inr (), s\<lparr>form_versions := update_where (\<lambda>w. fv_ID w = fv_ID v)
              (\<lambda>w. w\<lparr>fv_Status := fv_Status v, PublishedAt := stored_published_at v,
                     fv_UpdatedAt := trunc_micros (fv_UpdatedAt v)\<rparr>) (form_versions s)\<rparr>)
     else if \<not> int4 (fv_Version v) then (Inl (Err ''failed to save form version''), s)
     else if \<exists>w \<in> set (form_versions s). FormID w = FormID v \<and> fv_Version w = fv_Version v
       then (Inl (unique_violation ''failed to save form version'' ''form_versions_form_id_version_key''), s)
     else (Inr (), s\<lparr>form_versions := form_versions s @ [version_row v]\<rparr>))"

definition newest_version :: "FormVersion list \<Rightarrow> FormVersion list" where
  "newest_version rows = sort_key (\<lambda>v. - fv_Version v) rows"

definition FindLatest :: "uuid \<Rightarrow> uuid \<Rightarrow> 's form_db_scheme \<Rightarrow> go_error + FormVersion" where
  "FindLatest orgID formID s = row_or dErrFormVersionNotFound
     (newest_version (filter (\<lambda>v. FormID v = formID \<and> fv_OrganizationID v = orgID) (form_versions s)))"

definition FindActiveVersion :: "uuid \<Rightarrow> uuid \<Rightarrow> 's form_db_scheme \<Rightarrow> go_error + FormVersion" where
  "FindActiveVersion orgID formID s = row_or dErrFormVersionNotFound
     (newest_version (filter (\<lambda>v. FormID v = formID \<and> fv_OrganizationID v = orgID
        \<and> fv_Status v = FormVersionStatusPublished) (form_versions s)))"

definition version_FindByID :: "uuid \<Rightarrow> uuid \<Rightarrow> 's form_db_scheme \<Rightarrow> go_error + FormVersion" where
  "version_FindByID orgID i s = row_or dErrFormVersionNotFound
     (filter (\<lambda>v. fv_ID v = i \<and> fv_OrganizationID v = orgID) (form_versions s))"

definition version_FindByIDs :: "uuid \<Rightarrow> uuid list \<Rightarrow> 's form_db_scheme \<Rightarrow> FormVersion list" where
  "version_FindByIDs orgID ids s = (if ids = [] then []
     else filter (\<lambda>v. fv_OrganizationID v = orgID \<and> fv_ID v \<in> set ids) (form_versions s))"

definition ListByFormID :: "uuid \<Rightarrow> uuid \<Rightarrow> 's form_db_scheme \<Rightarrow> FormVersion list" where
  "ListByFormID orgID formID s =
     sort_key fv_Version (filter (\<lambda>v. FormID v = formID \<and> fv_OrganizationID v = orgID) (form_versions s))"

subsection \<open>Fields\<close>

definition decoded_facts :: "facts \<Rightarrow> facts" where
  "decoded_facts v = json_decoded_members v"

text \<open>A missing default value is stored as the empty text.\<close>

definition field_row :: "FormField \<Rightarrow> FormField" where
  "field_row f = f\<lparr>DefaultValue := Some (case DefaultValue f of None \<Rightarrow> [] | Some d \<Rightarrow> d),
     Validation := decoded_facts (Validation f), ff_CreatedAt := trunc_micros (ff_CreatedAt f),
     ff_UpdatedAt := trunc_micros (ff_UpdatedAt f)\<rparr>"

definition field_Save :: "FormField \<Rightarrow> ('s form_db_scheme, unit) tx" where
  "field_Save f = (\<lambda>s.
     if \<not> json_encodable (GObject (Validation f)) then (Inl (Err ''failed to marshal validation''), s)
     else if \<not> IsValidFieldType (ff_Type f) \<or> \<not> int4 (ff_Order f)
       then (Inl (Wrap ''failed to save field'' (SqlConstraint ''valid_field_type'')), s)
     else if ff_ID f \<in> ff_ID ` set (form_fields s)
       then (Inl (unique_violation ''failed to save field'' ''form_fields_pkey''), s)
     else if \<exists>g \<in> set (form_fields s). FormVersionID g = FormVersionID f \<and> ff_Key g = ff_Key f
       then (Inl (unique_violation ''failed to save field'' ''form_fields_form_version_id_key_key''), s)
     else (Inr (), s\<lparr>form_fields := form_fields s @ [field_row f]\<rparr>))"

definition field_order :: "FormField list \<Rightarrow> FormField list" where
  "field_order rows = sort_key (\<lambda>f. (ff_Order f, ff_ID f)) rows"

definition FindByVersion :: "uuid \<Rightarrow> uuid \<Rightarrow> 's form_db_scheme \<Rightarrow> FormField list" where
  "FindByVersion orgID versionID s =
     field_order (filter (\<lambda>f. FormVersionID f = versionID \<and> ff_OrganizationID f = orgID) (form_fields s))"

definition FindFieldsByVersionIDs :: "uuid \<Rightarrow> uuid list \<Rightarrow> 's form_db_scheme \<Rightarrow> FormField list" where
  "FindFieldsByVersionIDs orgID ids s = (if ids = [] then []
     else field_order (filter (\<lambda>f. ff_OrganizationID f = orgID \<and> FormVersionID f \<in> set ids) (form_fields s)))"

definition field_FindByID :: "uuid \<Rightarrow> uuid \<Rightarrow> 's form_db_scheme \<Rightarrow> go_error + FormField" where
  "field_FindByID orgID i s = row_or dErrFormFieldNotFound
     (filter (\<lambda>f. ff_ID f = i \<and> ff_OrganizationID f = orgID) (form_fields s))"

definition field_Update :: "instant \<Rightarrow> FormField \<Rightarrow> ('s form_db_scheme, unit) tx" where
  "field_Update dbnow f = (\<lambda>s.
     let p = (\<lambda>g. ff_ID g = ff_ID f \<and> FormVersionID g = FormVersionID f) in
     if \<not> json_encodable (GObject (Validation f)) then (Inl (Err ''failed to marshal validation''), s)
     else if affected p (form_fields s) = 0 then (Inl dErrFormFieldNotFound, s)
     else if \<not> IsValidFieldType (ff_Type f) \<or> \<not> int4 (ff_Order f)
       then (Inl (Wrap ''failed to update field'' (SqlConstraint ''valid_field_type'')), s)
     else (Inr (), s\<lparr>form_fields := update_where p
            (\<lambda>g. g\<lparr>Label := Label f, ff_Type := ff_Type f, Required := Required f,
                   ff_Description := ff_Description f, Placeholder := Placeholder f,
                   DefaultValue := DefaultValue (field_row f), Validation := Validation (field_row f),
                   Options := Options f, ff_Order := ff_Order f, ff_UpdatedAt := dbnow\<rparr>)
            (form_fields s)\<rparr>))"

definition field_Delete :: "uuid \<Rightarrow> uuid \<Rightarrow> ('s form_db_scheme, unit) tx" where
  "field_Delete orgID i = (\<lambda>s.
     let p = (\<lambda>g. ff_ID g = i \<and> ff_OrganizationID g = orgID) in
     if affected p (form_fields s) = 0 then (Inl dErrFormFieldNotFound, s)
     else (Inr (), s\<lparr>form_fields := filter (\<lambda>g. \<not> p g) (form_fields s)\<rparr>))"

fun UpdateOrder :: "instant \<Rightarrow> uuid \<Rightarrow> FormField list \<Rightarrow> ('s form_db_scheme, unit) tx" where
  "UpdateOrder dbnow orgID [] = tx_return ()"
| "UpdateOrder dbnow orgID (f # fs) =
     tx_seq (tx_guard (int4 (ff_Order f)) (Err ''failed to update field order''))
    (tx_seq (tx_modify (\<lambda>s. s\<lparr>form_fields := update_where (\<lambda>g. ff_ID g = ff_ID f \<and> ff_OrganizationID g = orgID)
        (\<lambda>g. g\<lparr>ff_Order := ff_Order f, ff_UpdatedAt := dbnow\<rparr>) (form_fields s)\<rparr>))
      (UpdateOrder dbnow orgID fs))"

subsection \<open>Assignments of forms to workflow states\<close>

definition assignment_row :: "WorkflowStateFormAssignment \<Rightarrow> WorkflowStateFormAssignment" where
  "assignment_row a = a\<lparr>fa_CreatedAt := trunc_micros (fa_CreatedAt a), fa_UpdatedAt := trunc_micros (fa_UpdatedAt a)\<rparr>"

text \<open>Two assignments to the same state.\<close>

definition same_state :: "WorkflowStateFormAssignment \<Rightarrow> WorkflowStateFormAssignment \<Rightarrow> bool" where
  "same_state a b \<longleftrightarrow> fa_TenantID a = fa_TenantID b \<and> fa_WorkflowDefinitionID a = fa_WorkflowDefinitionID b
     \<and> WorkflowStateKey a = WorkflowStateKey b"

definition order_ok :: "int \<Rightarrow> bool" where
  "order_ok i \<longleftrightarrow> 0 \<le> i \<and> int4 i"

definition assignment_Save :: "WorkflowStateFormAssignment \<Rightarrow> ('s form_db_scheme, unit) tx" where
  "assignment_Save a = (\<lambda>s.
     let msg = ''failed to save workflow state form assignment'' in
     if 100 < char_length (WorkflowStateKey a) then (Inl (Err msg), s)
     else if \<not> order_ok (fa_DisplayOrder a) then (Inl (Wrap msg (SqlConstraint ''valid_display_order'')), s)
     else if fa_ID a \<in> fa_ID ` set (form_assignments s)
       then (Inl (unique_violation msg ''workflow_state_form_assignments_pkey''), s)
     else if \<exists>b \<in> set (form_assignments s). same_state a b \<and> fa_FormVersionID b = fa_FormVersionID a
       then (Inl (unique_violation msg ''unique_workflow_state_form_version''), s)
     else if \<exists>b \<in> set (form_assignments s). same_state a b \<and> fa_DisplayOrder b = fa_DisplayOrder a
       then (Inl (unique_violation msg ''unique_workflow_state_display_order''), s)
     else (Inr (), s\<lparr>form_assignments := form_assignments s @ [assignment_row a]\<rparr>))"

definition assignment_FindByID :: "uuid \<Rightarrow> uuid \<Rightarrow> 's form_db_scheme \<Rightarrow> go_error + WorkflowStateFormAssignment" where
  "assignment_FindByID tenantID i s = row_or (Err ''assignment not found'')
     (filter (\<lambda>a. fa_TenantID a = tenantID \<and> fa_ID a = i) (form_assignments s))"

definition FindByWorkflowAndState :: "uuid \<Rightarrow> uuid \<Rightarrow> string \<Rightarrow> 's form_db_scheme
    \<Rightarrow> WorkflowStateFormAssignment list" where
  "FindByWorkflowAndState tenantID defID stateKey s = sort_key fa_DisplayOrder
     (filter (\<lambda>a. fa_TenantID a = tenantID \<and> fa_WorkflowDefinitionID a = defID \<and> WorkflowStateKey a = stateKey)
       (form_assignments s))"

definition ListByWorkflow :: "uuid \<Rightarrow> uuid \<Rightarrow> 's form_db_scheme \<Rightarrow> WorkflowStateFormAssignment list" where
  "ListByWorkflow tenantID defID s = sort_key (\<lambda>a. (WorkflowStateKey a, fa_DisplayOrder a))
     (filter (\<lambda>a. fa_TenantID a = tenantID \<and> fa_WorkflowDefinitionID a = defID) (form_assignments s))"

definition assignment_Update :: "WorkflowStateFormAssignment \<Rightarrow> ('s form_db_scheme, unit) tx" where
  "assignment_Update a = (\<lambda>s.
     let msg = ''failed to update workflow state form assignment'';
         p = (\<lambda>b. fa_TenantID b = fa_TenantID a \<and> fa_ID b = fa_ID a) in
     if affected p (form_assignments s) = 0 then (Inr (), s)
     else if \<not> order_ok (fa_DisplayOrder a) then (Inl (Wrap msg (SqlConstraint ''valid_display_order'')), s)
     else if \<exists>b \<in> set (form_assignments s). \<not> p b \<and> fa_DisplayOrder b = fa_DisplayOrder a
               \<and> (\<exists>r \<in> set (form_assignments s). p r \<and> same_state r b)
       then (Inl (unique_violation msg ''unique_workflow_state_display_order''), s)
     else (Inr (), s\<lparr>form_assignments := update_where p
            (\<lambda>b. b\<lparr>fa_Required := fa_Required a, fa_DisplayOrder := fa_DisplayOrder a, fa_Active := fa_Active a,
                   fa_UpdatedAt := trunc_micros (fa_UpdatedAt a)\<rparr>) (form_assignments s)\<rparr>))"

definition assignment_Delete :: "uuid \<Rightarrow> uuid \<Rightarrow> ('s form_db_scheme, unit) tx" where
  "assignment_Delete tenantID i = tx_modify (\<lambda>s. s\<lparr>form_assignments :=
     filter (\<lambda>a. \<not> (fa_TenantID a = tenantID \<and> fa_ID a = i)) (form_assignments s)\<rparr>)"

definition DeleteByWorkflowAndStateTx :: "uuid \<Rightarrow> uuid \<Rightarrow> string \<Rightarrow> ('s form_db_scheme, unit) tx" where
  "DeleteByWorkflowAndStateTx tenantID defID stateKey = tx_modify (\<lambda>s. s\<lparr>form_assignments :=
     filter (\<lambda>a. \<not> (fa_TenantID a = tenantID \<and> fa_WorkflowDefinitionID a = defID \<and> WorkflowStateKey a = stateKey))
       (form_assignments s)\<rparr>)"

text \<open>Delete and DeleteByWorkflowAndState pass a nil transaction to these.\<close>

definition assignment_Delete_nil :: "uuid \<Rightarrow> uuid \<Rightarrow> ('s form_db_scheme, unit) tx" where
  "assignment_Delete_nil tenantID i = tx_throw nil_transaction"

definition DeleteByWorkflowAndState :: "uuid \<Rightarrow> uuid \<Rightarrow> string \<Rightarrow> ('s form_db_scheme, unit) tx" where
  "DeleteByWorkflowAndState tenantID defID stateKey = tx_throw nil_transaction"

subsection \<open>Submissions\<close>

definition dErrSubmissionNotFound :: go_error where
  "dErrSubmissionNotFound = Err ''submission not found''"

definition submission_row :: "FormSubmission \<Rightarrow> FormSubmission" where
  "submission_row x = x\<lparr>sb_Data := decoded_facts (sb_Data x), SubmittedAt := trunc_micros (SubmittedAt x),
     sb_UpdatedAt := trunc_micros (sb_UpdatedAt x)\<rparr>"

definition submission_Save :: "FormSubmission \<Rightarrow> ('s form_db_scheme, unit) tx" where
  "submission_Save x = (\<lambda>s.
     if \<not> json_encodable (GObject (sb_Data x)) then (Inl (Err ''failed to save form submission''), s)
     else if sb_ID x \<in> sb_ID ` set (form_submissions s)
       then (Inl (unique_violation ''failed to save form submission'' ''form_submissions_pkey''), s)
     else if \<exists>y \<in> set (form_submissions s). sb_TenantID y = sb_TenantID x \<and> sb_CaseID y = sb_CaseID x
               \<and> sb_FormVersionID y = sb_FormVersionID x
       then (Inl (unique_violation ''failed to save form submission'' ''unique_case_form_version''), s)
     else (Inr (), s\<lparr>form_submissions := form_submissions s @ [submission_row x]\<rparr>))"

definition submission_FindByID :: "uuid \<Rightarrow> uuid \<Rightarrow> 's form_db_scheme \<Rightarrow> go_error + FormSubmission" where
  "submission_FindByID tenantID i s = row_or dErrSubmissionNotFound
     (filter (\<lambda>x. sb_TenantID x = tenantID \<and> sb_ID x = i) (form_submissions s))"

definition FindByCaseAndFormVersion :: "uuid \<Rightarrow> uuid \<Rightarrow> uuid \<Rightarrow> 's form_db_scheme \<Rightarrow> go_error + FormSubmission" where
  "FindByCaseAndFormVersion tenantID caseID formVersionID s = row_or dErrSubmissionNotFound
     (filter (\<lambda>x. sb_TenantID x = tenantID \<and> sb_CaseID x = caseID \<and> sb_FormVersionID x = formVersionID)
       (form_submissions s))"

definition submission_ListByCase :: "uuid \<Rightarrow> uuid \<Rightarrow> 's form_db_scheme \<Rightarrow> FormSubmission list" where
  "submission_ListByCase tenantID caseID s = sort_key (\<lambda>x. - SubmittedAt x)
     (filter (\<lambda>x. sb_TenantID x = tenantID \<and> sb_CaseID x = caseID) (form_submissions s))"

definition FindLatestByFormAndCase :: "uuid \<Rightarrow> uuid \<Rightarrow> string \<Rightarrow> 's form_db_scheme \<Rightarrow> go_error + FormSubmission" where
  "FindLatestByFormAndCase tenantID caseID formKey s = row_or dErrSubmissionNotFound
     (sort_key (\<lambda>x. - SubmittedAt x)
       (filter (\<lambda>x. sb_TenantID x = tenantID \<and> sb_CaseID x = caseID
            \<and> (\<exists>f \<in> set (forms s). fm_ID f = sb_FormID x \<and> fm_Key f = formKey)) (form_submissions s)))"

definition submission_Update :: "FormSubmission \<Rightarrow> ('s form_db_scheme, unit) tx" where
  "submission_Update x = (\<lambda>s.
     if \<not> json_encodable (GObject (sb_Data x)) then (Inl (Err ''failed to update form submission''), s)
     else (Inr (), s\<lparr>form_submissions := update_where (\<lambda>y. sb_TenantID y = sb_TenantID x \<and> sb_ID y = sb_ID x)
            (\<lambda>y. y\<lparr>sb_Status := sb_Status x, sb_Data := decoded_facts (sb_Data x),
                   sb_UpdatedAt := trunc_micros (sb_UpdatedAt x)\<rparr>) (form_submissions s)\<rparr>))"

definition submission_Delete :: "uuid \<Rightarrow> uuid \<Rightarrow> ('s form_db_scheme, unit) tx" where
  "submission_Delete tenantID i = tx_modify (\<lambda>s. s\<lparr>form_submissions :=
     filter (\<lambda>y. \<not> (sb_TenantID y = tenantID \<and> sb_ID y = i)) (form_submissions s)\<rparr>)"

text \<open>Save, Update and Delete pass a nil transaction to the variants with one.\<close>

definition submission_Save_nil :: "FormSubmission \<Rightarrow> ('s form_db_scheme, unit) tx" where
  "submission_Save_nil x = tx_throw nil_transaction"

definition submission_Update_nil :: "FormSubmission \<Rightarrow> ('s form_db_scheme, unit) tx" where
  "submission_Update_nil x = tx_throw nil_transaction"

definition submission_Delete_nil :: "uuid \<Rightarrow> uuid \<Rightarrow> ('s form_db_scheme, unit) tx" where
  "submission_Delete_nil tenantID i = tx_throw nil_transaction"

end
