(* ===== verification/Form_Service.thy ===== *)
theory Form_Service
  imports Form_Store
begin

section \<open>The form service and the assignment service\<close>

text \<open>
  internal/forms/application/service.go and
  internal/workflow_form_assignment/application/service.go. Both read through the connection
  pool before they open a transaction that only writes: every operation takes the committed
  store it reads next to the store its transaction runs on.
\<close>

definition forms_app :: "string \<Rightarrow> go_error" where
  "forms_app m = Err (''forms/application: '' @ m)"

abbreviation (input) "ErrFormNotFound \<equiv> forms_app ''form not found''"
abbreviation (input) "ErrFormInvalidInput \<equiv> forms_app ''invalid form input''"
abbreviation (input) "ErrFormKeyExists \<equiv> forms_app ''form key already exists''"
abbreviation (input) "ErrFormVersionNotFound \<equiv> forms_app ''form version not found''"
abbreviation (input) "ErrFormFieldNotFound \<equiv> forms_app ''form field not found''"
abbreviation (input) "ErrFormInvalidStatus \<equiv> forms_app ''invalid form status transition''"
abbreviation (input) "ErrFormVersionStatus \<equiv> forms_app ''invalid form version status''"
abbreviation (input) "ErrFormFieldDuplicate \<equiv> forms_app ''duplicate field key''"
abbreviation (input) "ErrFormFieldInvalid \<equiv> forms_app ''invalid field input''"
abbreviation (input) "ErrFormOptionInvalid \<equiv> forms_app ''invalid option''"

text \<open>A check or a read whose failure ends the operation with an error made from it.\<close>

definition tx_check :: "(go_error \<Rightarrow> go_error) \<Rightarrow> go_error option \<Rightarrow> ('s, unit) tx" where
  "tx_check g oe = (case oe of None \<Rightarrow> tx_return () | Some e \<Rightarrow> tx_throw (g e))"

definition tx_read :: "(go_error \<Rightarrow> go_error) \<Rightarrow> (go_error + 'a) \<Rightarrow> ('s, 'a) tx" where
  "tx_read g r = tx_map_error g (tx_lift r)"

text \<open>\<^verbatim>\<open>fmt.Errorf("%w: %v", sentinel, err)\<close> keeps the sentinel only.\<close>

definition instead :: "go_error \<Rightarrow> go_error \<Rightarrow> go_error" where
  "instead sentinel e = Wrap '''' sentinel"

text \<open>A lookup whose not-found error means there is nothing.\<close>

definition optional :: "go_error \<Rightarrow> string \<Rightarrow> (go_error + 'a) \<Rightarrow> go_error + 'a option" where
  "optional notFound msg r = (case r of
     Inr a \<Rightarrow> Inr (Some a)
   | Inl e \<Rightarrow> if errors_Is e notFound then Inr None else Inl (Wrap msg e))"

lemma tx_check_Inr [tx_Inr]: "tx_check g oe s = (Inr u, s') \<longleftrightarrow> oe = None \<and> s' = s"
  by (auto simp: tx_check_def tx_return_def tx_throw_def split: option.splits)

lemma tx_read_Inr [tx_Inr]: "tx_read g r s = (Inr a, s') \<longleftrightarrow> r = Inr a \<and> s' = s"
  by (simp add: tx_read_def tx_Inr)

subsection \<open>Forms\<close>

record CreateFormParams =
  cf_OrganizationID :: uuid
  cf_Key :: string
  cf_Name :: string
  cf_Description :: string
  cf_CreatedByID :: uuid

record UpdateFormParams =
  uf_OrganizationID :: uuid
  uf_ID :: uuid
  uf_Name :: string
  uf_Description :: string
  uf_ActorID :: uuid

definition form_audit :: "'s form_db_scheme auditor \<Rightarrow> ctx \<Rightarrow> uuid \<Rightarrow> uuid \<Rightarrow> string \<Rightarrow> uuid \<Rightarrow> (string \<times> goval) list
    \<Rightarrow> ('s form_db_scheme, unit) tx" where
  "form_audit auditor c orgID actorID action formID meta =
     RecordAuditEventInTx auditor (audit_params c orgID actorID action ''form'' formID meta)"

definition CreateForm :: "(string \<Rightarrow> string) \<Rightarrow> 's form_db_scheme auditor \<Rightarrow> ctx \<Rightarrow> CreateFormParams
    \<Rightarrow> ('s form_db_scheme, Form) tx" where
  "CreateForm lower auditor c p =
     tx_seq (tx_check (instead ErrFormInvalidInput) (first_error
        [ValidateFormKey lower (cf_Key p), ValidateFormName (cf_Name p), ValidateFormDescription (cf_Description p)]))
    (tx_bind (tx_read (instead ErrFormInvalidInput)
        (NewForm lower c (cf_OrganizationID p) (cf_Key p) (cf_Name p) (cf_Description p) (cf_CreatedByID p))) (\<lambda>form.
     InTransaction
       (tx_bind (\<lambda>s. (optional dErrFormNotFound ''failed to check duplicate key''
                    (form_FindByKey (cf_OrganizationID p) (cf_Key p) s), s)) (\<lambda>existing.
        tx_seq (tx_guard (existing = None) (Wrap ''key'' ErrFormKeyExists))
       (tx_seq (tx_map_error (Wrap ''failed to save form'') (form_Save form))
       (tx_seq (form_audit auditor c (fm_OrganizationID form) (fm_CreatedByID form) ''form.created'' (fm_ID form)
                  [(''key'', GString (fm_Key form)), (''name'', GString (fm_Name form))])
         (tx_return form)))))))"

definition UpdateForm :: "'s form_db_scheme auditor \<Rightarrow> ctx \<Rightarrow> 's form_db_scheme \<Rightarrow> UpdateFormParams
    \<Rightarrow> ('s form_db_scheme, Form) tx" where
  "UpdateForm auditor c committed p =
     tx_bind (tx_read (instead ErrFormNotFound) (form_FindByID (uf_OrganizationID p) (uf_ID p) committed)) (\<lambda>form.
     tx_seq (tx_guard (fm_Status form \<noteq> FormStatusArchived) (Wrap ''form is already archived'' ErrFormInvalidStatus))
    (tx_seq (tx_check (instead ErrFormInvalidInput)
               (if uf_Name p \<noteq> [] then ValidateFormName (uf_Name p) else None))
    (tx_seq (tx_check (instead ErrFormInvalidInput)
               (if uf_Description p \<noteq> [] then ValidateFormDescription (uf_Description p) else None))
    (let form' = form\<lparr>fm_Name := (if uf_Name p \<noteq> [] then uf_Name p else fm_Name form),
           fm_Description := (if uf_Description p \<noteq> [] then uf_Description p else fm_Description form),
           fm_UpdatedAt := ctx_time c 0\<rparr>
     in InTransaction
       (tx_seq (tx_map_error (Wrap ''failed to update form'')
                  (form_Update (ctx_time c 1) (uf_OrganizationID p) (uf_ID p) form'))
       (tx_seq (form_audit auditor c (fm_OrganizationID form') (uf_ActorID p) ''form.updated'' (fm_ID form') [])
         (tx_return form')))))))"

definition ArchiveForm :: "'s form_db_scheme auditor \<Rightarrow> ctx \<Rightarrow> 's form_db_scheme \<Rightarrow> uuid \<Rightarrow> uuid \<Rightarrow> uuid
    \<Rightarrow> ('s form_db_scheme, Form) tx" where
  "ArchiveForm auditor c committed orgID formID actorID =
     tx_bind (tx_read (instead ErrFormNotFound) (form_FindByID orgID formID committed)) (\<lambda>form.
     tx_seq (tx_guard (fm_Status form \<noteq> FormStatusArchived) (Wrap ''form is already archived'' ErrFormInvalidStatus))
    (tx_seq (tx_check id (ValidateFormStatusTransition (fm_Status form) FormStatusArchived))
    (let form' = form\<lparr>fm_Status := FormStatusArchived, fm_UpdatedAt := ctx_time c 0\<rparr>
     in InTransaction
       (tx_seq (tx_map_error (Wrap ''failed to archive form'') (form_Update (ctx_time c 1) orgID formID form'))
       (tx_seq (form_audit auditor c (fm_OrganizationID form') actorID ''form.archived'' (fm_ID form') [])
         (tx_return form'))))))"

subsection \<open>Versions\<close>

definition CreateVersion :: "'s form_db_scheme auditor \<Rightarrow> ctx \<Rightarrow> 's form_db_scheme \<Rightarrow> uuid \<Rightarrow> uuid \<Rightarrow> uuid
    \<Rightarrow> ('s form_db_scheme, FormVersion) tx" where
  "CreateVersion auditor c committed orgID formID actorID =
     tx_bind (tx_read (instead ErrFormNotFound) (form_FindByID orgID formID committed)) (\<lambda>form.
     tx_bind (tx_lift (optional dErrFormVersionNotFound ''failed to find latest version''
                (FindLatest orgID formID committed))) (\<lambda>existing.
     let version = (NewFormVersion c formID orgID actorID)
           \<lparr>fv_Version := (case existing of None \<Rightarrow> 1 | Some v \<Rightarrow> fv_Version v + 1)\<rparr>
     in InTransaction
       (tx_seq (tx_map_error (Wrap ''failed to save version'') (version_Save version))
       (tx_seq (form_audit auditor c (fm_OrganizationID form) actorID ''form.version_created'' (fm_ID form)
                  [(''version'', GInt (fv_Version version))])
         (tx_return version)))))"

text \<open>The version with its publication; the form it belongs to becomes active.\<close>

definition published :: "ctx \<Rightarrow> FormVersion \<Rightarrow> FormVersion" where
  "published c v = v\<lparr>fv_Status := FormVersionStatusPublished, PublishedAt := Some (ctx_time c 0),
     fv_UpdatedAt := ctx_time c 0\<rparr>"

definition PublishVersion :: "'s form_db_scheme auditor \<Rightarrow> ctx \<Rightarrow> 's form_db_scheme \<Rightarrow> uuid \<Rightarrow> uuid \<Rightarrow> uuid
    \<Rightarrow> ('s form_db_scheme, FormVersion) tx" where
  "PublishVersion auditor c committed orgID versionID actorID =
     tx_bind (tx_read (instead ErrFormVersionNotFound) (version_FindByID orgID versionID committed)) (\<lambda>version.
     tx_bind (tx_read (instead ErrFormNotFound) (form_FindByID orgID (FormID version) committed)) (\<lambda>form.
     tx_seq (tx_guard (fv_Status version = FormVersionStatusDraft)
               (Wrap ''only draft versions can be published'' ErrFormVersionStatus))
    (tx_seq (tx_check id (ValidateVersionStatusTransition (fv_Status version) FormVersionStatusPublished))
    (tx_bind (tx_lift (optional dErrFormVersionNotFound ''failed to check active version''
                (FindActiveVersion orgID (FormID version) committed))) (\<lambda>active.
     tx_seq (tx_guard (case active of None \<Rightarrow> True | Some a \<Rightarrow> fv_Version a \<le> fv_Version version)
               (Wrap ''cannot publish older version'' ErrFormVersionStatus))
    (let version' = published c version;
         form' = form\<lparr>fm_Status := FormStatusActive, fm_UpdatedAt := ctx_time c 0\<rparr>
     in InTransaction
       (tx_seq (tx_map_error (Wrap ''failed to save published version'') (version_Save version'))
       (tx_seq (tx_map_error (Wrap ''failed to update form status'')
                  (form_Update (ctx_time c 1) orgID (FormID version) form'))
       (tx_seq (form_audit auditor c (fm_OrganizationID form') actorID ''form.published'' (fm_ID form')
                  [(''version'', GInt (fv_Version version'))])
         (tx_return version'))))))))))"

subsection \<open>Fields\<close>

record AddFieldParams =
  af_OrganizationID :: uuid
  af_FormID :: uuid
  af_VersionID :: uuid
  af_Key :: string
  af_Label :: string
  af_Type :: FieldType
  af_Required :: bool
  af_Description :: string
  af_Placeholder :: string
  af_DefaultValue :: "string option"
  af_Validation :: "facts option"
  af_Options :: "FormOption list"
  af_Order :: int
  af_ActorID :: uuid

record UpdateFieldParams =
  ud_OrganizationID :: uuid
  ud_FieldID :: uuid
  ud_Label :: string
  ud_Required :: bool
  ud_Description :: string
  ud_Placeholder :: string
  ud_DefaultValue :: "string option"
  ud_Validation :: "facts option"
  ud_Options :: "FormOption list option"
  ud_ActorID :: uuid

definition NewFormField :: "ctx \<Rightarrow> AddFieldParams \<Rightarrow> FormField" where
  "NewFormField c p = \<lparr>ff_ID = ctx_uuid c 0, ff_FormID = af_FormID p, FormVersionID = af_VersionID p,
     ff_OrganizationID = af_OrganizationID p, ff_Key = af_Key p, Label = af_Label p, ff_Type = af_Type p,
     Required = af_Required p, ff_Description = af_Description p, Placeholder = af_Placeholder p,
     DefaultValue = af_DefaultValue p,
     Validation = (case af_Validation p of None \<Rightarrow> [] | Some v \<Rightarrow> v), Options = af_Options p,
     ff_Order = af_Order p, ff_CreatedAt = ctx_time c 0, ff_UpdatedAt = ctx_time c 0\<rparr>"

text \<open>The form is looked up, but not compared with the form of the version.\<close>

definition AddField :: "regexp \<Rightarrow> (string \<Rightarrow> string) \<Rightarrow> 's form_db_scheme auditor \<Rightarrow> ctx \<Rightarrow> 's form_db_scheme
    \<Rightarrow> AddFieldParams \<Rightarrow> ('s form_db_scheme, FormField) tx" where
  "AddField re lower auditor c committed p =
     tx_bind (tx_read (instead ErrFormNotFound) (form_FindByID (af_OrganizationID p) (af_FormID p) committed)) (\<lambda>form.
     tx_bind (tx_read (instead ErrFormVersionNotFound)
                (version_FindByID (af_OrganizationID p) (af_VersionID p) committed)) (\<lambda>version.
     tx_seq (tx_guard (fv_Status version = FormVersionStatusDraft)
               (Wrap ''cannot add fields to non-draft version'' ErrFormVersionStatus))
    (tx_seq (tx_check (instead ErrFormFieldInvalid) (ValidateFieldKey lower (af_Key p)))
    (tx_seq (tx_check (instead ErrFormFieldInvalid)
               (ValidateField re (af_Type p) (af_Label p) (af_Options p) (af_Validation p)))
    (tx_seq (tx_guard (af_Key p \<notin> ff_Key ` set (FindByVersion (af_OrganizationID p) (af_VersionID p) committed))
               (Wrap ''key'' ErrFormFieldDuplicate))
    (let field = NewFormField c p
     in InTransaction
       (tx_seq (tx_map_error (Wrap ''failed to save field'') (field_Save field))
       (tx_seq (form_audit auditor c (fm_OrganizationID form) (af_ActorID p) ''field.created'' (fm_ID form)
                  [(''field_key'', GString (ff_Key field)), (''field_type'', GString (field_type_string (ff_Type field))),
                   (''version'', GInt (fv_Version version))])
         (tx_return field)))))))))"

definition updated_field :: "ctx \<Rightarrow> UpdateFieldParams \<Rightarrow> FormField \<Rightarrow> FormField" where
  "updated_field c p f = f\<lparr>Label := (if ud_Label p \<noteq> [] then ud_Label p else Label f), Required := ud_Required p,
     ff_Description := (if ud_Description p \<noteq> [] then ud_Description p else ff_Description f),
     Placeholder := (if ud_Placeholder p \<noteq> [] then ud_Placeholder p else Placeholder f),
     DefaultValue := ud_DefaultValue p,
     Validation := (case ud_Validation p of None \<Rightarrow> Validation f | Some v \<Rightarrow> v),
     Options := (case ud_Options p of None \<Rightarrow> Options f | Some os \<Rightarrow> os), ff_UpdatedAt := ctx_time c 0\<rparr>"

definition UpdateField :: "regexp \<Rightarrow> 's form_db_scheme auditor \<Rightarrow> ctx \<Rightarrow> 's form_db_scheme \<Rightarrow> UpdateFieldParams
    \<Rightarrow> ('s form_db_scheme, FormField) tx" where
  "UpdateField re auditor c committed p =
     tx_bind (tx_read (instead ErrFormFieldNotFound)
                (field_FindByID (ud_OrganizationID p) (ud_FieldID p) committed)) (\<lambda>field.
     tx_bind (tx_read (instead ErrFormVersionNotFound)
                (version_FindByID (ud_OrganizationID p) (FormVersionID field) committed)) (\<lambda>version.
     tx_seq (tx_guard (fv_Status version = FormVersionStatusDraft)
               (Wrap ''cannot modify fields in non-draft version'' ErrFormVersionStatus))
    (tx_seq (tx_check (instead ErrFormFieldInvalid)
               (if ud_Label p \<noteq> [] then ValidateFieldLabel (ud_Label p) else None))
    (tx_seq (tx_check (instead ErrFormFieldInvalid) (ValidateFieldValidation re (ff_Type field) (ud_Validation p)))
    (tx_seq (tx_check (instead ErrFormOptionInvalid)
               (case ud_Options p of None \<Rightarrow> None | Some os \<Rightarrow> ValidateFieldOptions (ff_Type field) os))
    (let field' = updated_field c p field
     in InTransaction
       (tx_seq (tx_map_error (Wrap ''failed to update field'') (field_Update (ctx_time c 1) field'))
       (tx_seq (form_audit auditor c (ff_OrganizationID field') (ud_ActorID p) ''field.updated'' (ff_FormID field')
                  [(''field_key'', GString (ff_Key field')), (''field_type'', GString (field_type_string (ff_Type field')))])
         (tx_return field')))))))))"

definition DeleteField :: "'s form_db_scheme auditor \<Rightarrow> ctx \<Rightarrow> 's form_db_scheme \<Rightarrow> uuid \<Rightarrow> uuid \<Rightarrow> uuid
    \<Rightarrow> ('s form_db_scheme, FormField) tx" where
  "DeleteField auditor c committed orgID fieldID actorID =
     tx_bind (tx_read (instead ErrFormFieldNotFound) (field_FindByID orgID fieldID committed)) (\<lambda>field.
     tx_bind (tx_read (instead ErrFormVersionNotFound)
                (version_FindByID orgID (FormVersionID field) committed)) (\<lambda>version.
     tx_seq (tx_guard (fv_Status version = FormVersionStatusDraft)
               (Wrap ''cannot delete fields from non-draft version'' ErrFormVersionStatus))
       (InTransaction
         (tx_seq (tx_map_error (Wrap ''failed to delete field'') (field_Delete orgID fieldID))
         (tx_seq (form_audit auditor c (ff_OrganizationID field) actorID ''field.deleted'' (ff_FormID field)
                    [(''field_key'', GString (ff_Key field))])
           (tx_return field))))))"

subsection \<open>Reading forms\<close>

definition with_versions :: "uuid \<Rightarrow> 's form_db_scheme \<Rightarrow> Form \<Rightarrow> Form" where
  "with_versions orgID s form = form\<lparr>Versions := Versions form
     @ map (\<lambda>v. v\<lparr>Fields := FindByVersion orgID (fv_ID v) s\<rparr>) (ListByFormID orgID (fm_ID form) s)\<rparr>"

definition GetForm :: "uuid \<Rightarrow> uuid \<Rightarrow> 's form_db_scheme \<Rightarrow> go_error + Form" where
  "GetForm orgID formID s = (case form_FindByID orgID formID s of
     Inl e \<Rightarrow> Inl (instead ErrFormNotFound e)
   | Inr form \<Rightarrow> Inr (with_versions orgID s form))"

definition clamp_page :: "int \<Rightarrow> int" where
  "clamp_page limit = (if limit \<le> 0 then 20 else if limit > 200 then 200 else limit)"

definition ListForms :: "uuid \<Rightarrow> int \<Rightarrow> int \<Rightarrow> 's form_db_scheme \<Rightarrow> go_error + Form list \<times> nat" where
  "ListForms orgID limit offset s =
     (case form_List orgID (clamp_page limit) (if offset < 0 then 0 else offset) s of
        Inl e \<Rightarrow> Inl (Wrap ''failed to list forms'' e)
      | Inr r \<Rightarrow> Inr r)"

definition GetActiveVersion :: "uuid \<Rightarrow> uuid \<Rightarrow> 's form_db_scheme \<Rightarrow> go_error + FormVersion" where
  "GetActiveVersion orgID formID s = (case FindActiveVersion orgID formID s of
     Inl e \<Rightarrow> Inl (Wrap ''failed to find active version'' e)
   | Inr v \<Rightarrow> Inr v)"

record FormFieldView =
  vw_Key :: string
  vw_Label :: string
  vw_Type :: string
  vw_Required :: bool
  vw_Options :: "FormOption list"

definition field_view :: "Form \<Rightarrow> FormField \<Rightarrow> FormFieldView" where
  "field_view form f = \<lparr>vw_Key = ''form.'' @ fm_Key form @ ''.'' @ ff_Key f,
     vw_Label = fm_Name form @ '': '' @ Label f, vw_Type = field_type_string (ff_Type f),
     vw_Required = Required f, vw_Options = Options f\<rparr>"

text \<open>The loop over the forms; the first active form without a published version ends it.\<close>

fun discoverable :: "uuid \<Rightarrow> 's form_db_scheme \<Rightarrow> Form list \<Rightarrow> go_error + FormFieldView list" where
  "discoverable orgID s [] = Inr []"
| "discoverable orgID s (form # fs) =
     (if fm_Status form \<noteq> FormStatusActive then discoverable orgID s fs
      else (case FindActiveVersion orgID (fm_ID form) s of
          Inl e \<Rightarrow> Inl (Wrap ''failed to find active version for form'' e)
        | Inr v \<Rightarrow> (case discoverable orgID s fs of
              Inl e \<Rightarrow> Inl e
            | Inr views \<Rightarrow> Inr (map (field_view form) (FindByVersion orgID (fv_ID v) s) @ views))))"

definition ListDiscoverableFields :: "uuid \<Rightarrow> 's form_db_scheme \<Rightarrow> go_error + FormFieldView list" where
  "ListDiscoverableFields orgID s = (case form_List orgID 200 0 s of
     Inl e \<Rightarrow> Inl (Wrap ''failed to list forms'' e)
   | Inr (fs, _) \<Rightarrow> discoverable orgID s fs)"

subsection \<open>Assignments\<close>

text \<open>The service's errors wrap those of the domain.\<close>

definition assignment_error :: "string \<Rightarrow> go_error" where
  "assignment_error m = Wrap m (Err (''workflow_form_assignment/domain: '' @ m))"

abbreviation (input) "ErrWorkflowNotFound \<equiv> assignment_error ''workflow definition not found''"
abbreviation (input) "ErrAssignmentNotFound \<equiv> assignment_error ''assignment not found''"
abbreviation (input) "ErrAssignmentAlreadyExists \<equiv> assignment_error ''assignment already exists for this state and form version''"
abbreviation (input) "ErrInvalidWorkflowState \<equiv> assignment_error ''invalid workflow state key''"
abbreviation (input) "ErrInvalidFormVersion \<equiv> assignment_error ''invalid form version''"
abbreviation (input) "ErrDuplicateDisplayOrder \<equiv> assignment_error ''display order already in use for this state''"
abbreviation (input) "ErrAssignedFormArchived \<equiv> Err ''form is archived and cannot be assigned''"

record CreateAssignmentParams =
  ca_TenantID :: uuid
  ca_WorkflowDefinitionID :: uuid
  ca_WorkflowStateKey :: string
  ca_FormID :: uuid
  ca_FormVersionID :: uuid
  ca_Required :: bool
  ca_DisplayOrder :: int
  ca_Active :: bool
  ca_CreatedBy :: uuid

record UpdateAssignmentParams =
  ua_TenantID :: uuid
  ua_AssignmentID :: uuid
  ua_Required :: "bool option"
  ua_DisplayOrder :: "int option"
  ua_Active :: "bool option"
  ua_ActorID :: uuid

definition stateExistsInWorkflow :: "WorkflowDefinition \<Rightarrow> string \<Rightarrow> bool" where
  "stateExistsInWorkflow def stateKey \<longleftrightarrow> stateKey \<in> ws_Key ` set (wd_States def)"

text \<open>The loop over the assignments that exist: the first conflict decides the error.\<close>

fun assignment_conflict :: "uuid \<Rightarrow> int \<Rightarrow> WorkflowStateFormAssignment list \<Rightarrow> go_error option" where
  "assignment_conflict versionID displayOrder [] = None"
| "assignment_conflict versionID displayOrder (a # as) =
     (if fa_FormVersionID a = versionID then Some ErrAssignmentAlreadyExists
      else if fa_Active a \<and> fa_DisplayOrder a = displayOrder then Some ErrDuplicateDisplayOrder
      else assignment_conflict versionID displayOrder as)"

definition assignment_audit :: "'s form_db_scheme auditor \<Rightarrow> ctx \<Rightarrow> uuid \<Rightarrow> uuid \<Rightarrow> string \<Rightarrow> uuid \<Rightarrow> (string \<times> goval) list
    \<Rightarrow> ('s form_db_scheme, unit) tx" where
  "assignment_audit auditor c orgID actorID action i meta =
     RecordAuditEventInTx auditor (audit_params c orgID actorID action ''workflow_form_assignment'' i meta)"

definition CreateAssignment :: "'s form_db_scheme auditor \<Rightarrow> ctx \<Rightarrow> 's form_db_scheme \<Rightarrow> CreateAssignmentParams
    \<Rightarrow> ('s form_db_scheme, WorkflowStateFormAssignment) tx" where
  "CreateAssignment auditor c committed p =
     tx_seq (tx_check (instead ErrInvalidWorkflowState) (ValidateAssignment (ca_TenantID p)
        (ca_WorkflowDefinitionID p) (ca_FormID p) (ca_FormVersionID p) (ca_WorkflowStateKey p)))
    (tx_bind (tx_read (\<lambda>_. ErrWorkflowNotFound)
        (def_FindByID (ca_TenantID p) (ca_WorkflowDefinitionID p) committed)) (\<lambda>def.
     tx_seq (tx_guard (stateExistsInWorkflow
          (def\<lparr>wd_States := state_FindByDefinitionID (ca_TenantID p) (ca_WorkflowDefinitionID p) committed\<rparr>)
          (ca_WorkflowStateKey p)) ErrInvalidWorkflowState)
    (tx_bind (tx_read (instead ErrInvalidFormVersion) (form_FindByID (ca_TenantID p) (ca_FormID p) committed)) (\<lambda>form.
     tx_seq (tx_guard (fm_Status form \<noteq> FormStatusArchived) ErrAssignedFormArchived)
    (tx_bind (tx_read (\<lambda>_. ErrInvalidFormVersion)
        (version_FindByID (ca_TenantID p) (ca_FormVersionID p) committed)) (\<lambda>version.
     tx_seq (tx_guard (fv_Status version = FormVersionStatusPublished) ErrInvalidFormVersion)
    (tx_seq (tx_guard (FormID version = ca_FormID p) ErrInvalidFormVersion)
    (tx_seq (tx_check id (assignment_conflict (ca_FormVersionID p) (ca_DisplayOrder p)
        (FindByWorkflowAndState (ca_TenantID p) (ca_WorkflowDefinitionID p) (ca_WorkflowStateKey p) committed)))
    (tx_bind (tx_lift (NewWorkflowStateFormAssignment c (ca_TenantID p) (ca_WorkflowDefinitionID p) (ca_FormID p)
        (ca_FormVersionID p) (ca_CreatedBy p) (ca_WorkflowStateKey p) (ca_Required p) (ca_DisplayOrder p))) (\<lambda>a0.
     let a = a0\<lparr>fa_Active := ca_Active p\<rparr>
     in InTransaction
       (tx_seq (tx_map_error (Wrap ''failed to save assignment'') (assignment_Save a))
       (tx_seq (assignment_audit auditor c (ca_TenantID p) (ca_CreatedBy p) ''workflow_form_assignment.created'' (fa_ID a)
          [(''workflow_definition_id'', GString (uuid_string (ca_WorkflowDefinitionID p))),
           (''workflow_state_key'', GString (ca_WorkflowStateKey p)), (''form_id'', GString (uuid_string (ca_FormID p))),
           (''form_version_id'', GString (uuid_string (ca_FormVersionID p))),
           (''required'', GBool (ca_Required p)), (''display_order'', GInt (ca_DisplayOrder p))])
         (tx_return a)))))))))))))"

definition assignment_keys :: "WorkflowStateFormAssignment \<Rightarrow> (string \<times> goval) list" where
  "assignment_keys a = [(''workflow_definition_id'', GString (uuid_string (fa_WorkflowDefinitionID a))),
     (''workflow_state_key'', GString (WorkflowStateKey a)),
     (''form_version_id'', GString (uuid_string (fa_FormVersionID a)))]"

text \<open>The display order must be free among the other active assignments of the state.\<close>

definition order_check :: "'s form_db_scheme \<Rightarrow> WorkflowStateFormAssignment \<Rightarrow> UpdateAssignmentParams \<Rightarrow> go_error option" where
  "order_check committed a p = (case ua_DisplayOrder p of
     None \<Rightarrow> None
   | Some n \<Rightarrow> first_error
       [unless (0 \<le> n) (Err ''display order must be non-negative''),
        unless (\<not> (\<exists>b \<in> set (FindByWorkflowAndState (ua_TenantID p) (fa_WorkflowDefinitionID a) (WorkflowStateKey a) committed).
             fa_ID b \<noteq> fa_ID a \<and> fa_Active b \<and> fa_DisplayOrder b = n)) ErrDuplicateDisplayOrder])"

definition updated_assignment :: "ctx \<Rightarrow> UpdateAssignmentParams \<Rightarrow> WorkflowStateFormAssignment \<Rightarrow> WorkflowStateFormAssignment" where
  "updated_assignment c p a = a
     \<lparr>fa_Required := (case ua_Required p of None \<Rightarrow> fa_Required a | Some b \<Rightarrow> b),
      fa_Active := (case ua_Active p of None \<Rightarrow> fa_Active a | Some b \<Rightarrow> b),
      fa_DisplayOrder := (case ua_DisplayOrder p of None \<Rightarrow> fa_DisplayOrder a | Some n \<Rightarrow> n),
      fa_UpdatedAt := ctx_time c 0\<rparr>"

definition UpdateAssignment :: "'s form_db_scheme auditor \<Rightarrow> ctx \<Rightarrow> 's form_db_scheme \<Rightarrow> UpdateAssignmentParams
    \<Rightarrow> ('s form_db_scheme, WorkflowStateFormAssignment) tx" where
  "UpdateAssignment auditor c committed p =
     tx_bind (tx_read (\<lambda>_. ErrAssignmentNotFound)
                (assignment_FindByID (ua_TenantID p) (ua_AssignmentID p) committed)) (\<lambda>a.
     tx_seq (tx_check id (order_check committed a p))
    (let a' = updated_assignment c p a
     in InTransaction
       (tx_seq (tx_map_error (Wrap ''failed to update assignment'') (assignment_Update a'))
       (tx_seq (assignment_audit auditor c (ua_TenantID p) (ua_ActorID p) ''workflow_form_assignment.updated'' (fa_ID a')
                  (assignment_keys a' @ [(''required'', GBool (fa_Required a')),
                     (''display_order'', GInt (fa_DisplayOrder a')), (''active'', GBool (fa_Active a'))]))
         (tx_return a')))))"

definition DeleteAssignment :: "'s form_db_scheme auditor \<Rightarrow> ctx \<Rightarrow> 's form_db_scheme \<Rightarrow> uuid \<Rightarrow> uuid \<Rightarrow> uuid
    \<Rightarrow> ('s form_db_scheme, unit) tx" where
  "DeleteAssignment auditor c committed tenantID i actorID =
     tx_bind (tx_read (\<lambda>_. ErrAssignmentNotFound) (assignment_FindByID tenantID i committed)) (\<lambda>a.
     InTransaction
       (tx_seq (tx_map_error (Wrap ''failed to delete assignment'') (assignment_Delete tenantID i))
         (assignment_audit auditor c tenantID actorID ''workflow_form_assignment.deleted'' (fa_ID a) (assignment_keys a))))"

definition GetAssignment :: "uuid \<Rightarrow> uuid \<Rightarrow> 's form_db_scheme \<Rightarrow> go_error + WorkflowStateFormAssignment" where
  "GetAssignment tenantID i s = (case assignment_FindByID tenantID i s of
     Inl e \<Rightarrow> Inl ErrAssignmentNotFound | Inr a \<Rightarrow> Inr a)"

definition ListAssignmentsByWorkflow :: "uuid \<Rightarrow> uuid \<Rightarrow> 's form_db_scheme
    \<Rightarrow> go_error + WorkflowStateFormAssignment list" where
  "ListAssignmentsByWorkflow tenantID defID s = (case def_FindByID tenantID defID s of
     Inl e \<Rightarrow> Inl ErrWorkflowNotFound | Inr _ \<Rightarrow> Inr (ListByWorkflow tenantID defID s))"

definition GetAssignmentsForState :: "uuid \<Rightarrow> uuid \<Rightarrow> string \<Rightarrow> 's form_db_scheme
    \<Rightarrow> go_error + WorkflowStateFormAssignment list" where
  "GetAssignmentsForState tenantID defID stateKey s = (case def_FindByID tenantID defID s of
     Inl e \<Rightarrow> Inl ErrWorkflowNotFound | Inr _ \<Rightarrow> Inr (FindByWorkflowAndState tenantID defID stateKey s))"

definition GetFormsForCaseState :: "uuid \<Rightarrow> uuid \<Rightarrow> string \<Rightarrow> 's form_db_scheme
    \<Rightarrow> go_error + WorkflowStateFormAssignment list" where
  "GetFormsForCaseState tenantID defID stateKey s = GetAssignmentsForState tenantID defID stateKey s"

end
