(* ===== verification/Case_Store.thy ===== *)
theory Case_Store
  imports Case_Domain Form_Service
begin

section \<open>The table of cases\<close>

text \<open>
  internal/cases/infrastructure/postgres/case_repository.go on the table of migrations 0003,
  0004 and 0011 to 0014: unique numbers per organization, a closing time for the status
  CLOSED, a status that is not blank.
\<close>

record case_db = form_db +
  cases :: "Case list"

definition status_blank :: "string \<Rightarrow> bool" where
  "status_blank st = list_all (\<lambda>c. c = CHR '' '') st"

text \<open>The CHECK constraints chk_closed_at_when_closed and chk_case_status_nonempty.\<close>

definition case_row_ok :: "Case \<Rightarrow> bool" where
  "case_row_ok r \<longleftrightarrow> (cs_Status r = ''CLOSED'' \<longrightarrow> ClosedAt r \<noteq> None) \<and> \<not> status_blank (cs_Status r)
     \<and> int4 (cs_Version r)"

text \<open>
  scanCase reads workflow_id into a byte slice and converts it to an array of sixteen bytes:
  the driver hands a uuid column out as text, so that the sixteen bytes are its first sixteen
  characters.
\<close>

definition uuid_of_text :: "string \<Rightarrow> uuid" where
  "uuid_of_text s = foldl (\<lambda>n c. n * 256 + of_char c) 0 (take 16 s)"

definition scanned_case :: "Case \<Rightarrow> Case" where
  "scanned_case r = r\<lparr>WorkflowID := map_option (\<lambda>u. uuid_of_text (uuid_string u)) (WorkflowID r)\<rparr>"

definition scanCase :: "Case list \<Rightarrow> go_error + Case" where
  "scanCase rows = (case query_row ''failed to scan case'' rows of Inl e \<Rightarrow> Inl e | Inr r \<Rightarrow> Inr (scanned_case r))"

subsection \<open>Insertion\<close>

definition case_row :: "Case \<Rightarrow> Case" where
  "case_row cs = cs\<lparr>cs_CreatedAt := trunc_micros (cs_CreatedAt cs), cs_UpdatedAt := trunc_micros (cs_UpdatedAt cs),
     ClosedAt := map_option trunc_micros (ClosedAt cs)\<rparr>"

datatype insert_result = Inserted | UniqueViolation | CheckViolation

definition case_insert_result :: "Case \<Rightarrow> Case list \<Rightarrow> insert_result" where
  "case_insert_result cs rows =
     (if \<not> case_row_ok cs then CheckViolation
      else if cs_ID cs \<in> cs_ID ` set rows
           \<or> (\<exists>r \<in> set rows. cs_OrganizationID r = cs_OrganizationID cs \<and> CaseNumber r = CaseNumber cs)
        then UniqueViolation
      else Inserted)"

text \<open>
  The five attempts of saveCase. The case is changed in place: a new number is drawn after
  every unique violation. In a transaction the first failing statement aborts it, and the
  next one is refused with another error.
\<close>

fun insert_attempts :: "bool \<Rightarrow> ctx \<Rightarrow> nat \<Rightarrow> nat \<Rightarrow> bool \<Rightarrow> Case \<Rightarrow> ('s case_db_scheme, Case) tx" where
  "insert_attempts in_tx c k 0 aborted cs = tx_throw ErrCaseNumberConflict"
| "insert_attempts in_tx c k (Suc n) aborted cs = (\<lambda>s.
     if aborted then (Inl (Wrap ''failed to insert case'' (Err ''current transaction is aborted'')), s)
     else (case case_insert_result cs (cases s) of
         Inserted \<Rightarrow> (Inr cs, s\<lparr>cases := cases s @ [case_row cs]\<rparr>)
       | UniqueViolation \<Rightarrow> insert_attempts in_tx c (Suc k) n in_tx
             (RegenerateCaseNumber (ctx_time c k) (ctx_uuid c k) cs) s
       | CheckViolation \<Rightarrow> (Inl (Wrap ''failed to insert case'' (SqlConstraint ''cases'')), s)))"

definition case_SaveTx :: "ctx \<Rightarrow> nat \<Rightarrow> Case \<Rightarrow> ('s case_db_scheme, Case) tx" where
  "case_SaveTx c k cs = insert_attempts True c k 5 False cs"

definition case_Save :: "ctx \<Rightarrow> nat \<Rightarrow> Case \<Rightarrow> ('s case_db_scheme, Case) tx" where
  "case_Save c k cs = insert_attempts False c k 5 False cs"

subsection \<open>Queries\<close>

definition case_FindByID :: "uuid \<Rightarrow> uuid \<Rightarrow> 's case_db_scheme \<Rightarrow> go_error + Case" where
  "case_FindByID orgID i s = scanCase (filter (\<lambda>r. cs_OrganizationID r = orgID \<and> cs_ID r = i) (cases s))"

definition case_FindByIDTx :: "uuid \<Rightarrow> uuid \<Rightarrow> ('s case_db_scheme, Case) tx" where
  "case_FindByIDTx orgID i = (\<lambda>s. (case_FindByID orgID i s, s))"

record CaseFilter =
  cfl_Status :: string
  cfl_PersonID :: "uuid option"

definition case_matches :: "uuid \<Rightarrow> CaseFilter \<Rightarrow> Case \<Rightarrow> bool" where
  "case_matches orgID flt r \<longleftrightarrow> cs_OrganizationID r = orgID
     \<and> (cfl_Status flt = [] \<or> cs_Status r = cfl_Status flt)
     \<and> (case cfl_PersonID flt of None \<Rightarrow> True | Some p \<Rightarrow> PersonID r = Some p)"

definition newest_cases :: "Case list \<Rightarrow> Case list" where
  "newest_cases rows = map scanned_case (sort_key (\<lambda>r. - cs_CreatedAt r) rows)"

definition FindByOrganizationWithFilter :: "uuid \<Rightarrow> int \<Rightarrow> int \<Rightarrow> CaseFilter \<Rightarrow> 's case_db_scheme
    \<Rightarrow> go_error + Case list" where
  "FindByOrganizationWithFilter orgID limit offset flt s =
     (case limit_offset limit offset (newest_cases (filter (case_matches orgID flt) (cases s))) of
        Inl e \<Rightarrow> Inl (Wrap ''failed to query cases'' e)
      | Inr page \<Rightarrow> Inr page)"

definition case_FindByOrganization :: "uuid \<Rightarrow> int \<Rightarrow> int \<Rightarrow> 's case_db_scheme \<Rightarrow> go_error + Case list" where
  "case_FindByOrganization orgID limit offset s =
     FindByOrganizationWithFilter orgID limit offset \<lparr>cfl_Status = [], cfl_PersonID = None\<rparr> s"

definition case_CountByOrganization :: "uuid \<Rightarrow> CaseFilter \<Rightarrow> 's case_db_scheme \<Rightarrow> nat" where
  "case_CountByOrganization orgID flt s = length (filter (case_matches orgID flt) (cases s))"

record CaseStatistics =
  st_Total :: nat
  st_Open :: nat
  st_Closed :: nat
  st_Rejected :: nat
  st_Urgent :: nat
  st_AwaitingReview :: nat
  st_AwaitingDecision :: nat
  st_InProgress :: nat
  st_FollowUp :: nat
  ByStatus :: "(string \<times> nat) list"
  ByServiceType :: "(string \<times> nat) list"
  ByPriority :: "(string \<times> nat) list"
  RecentCases :: "Case list"

text \<open>SELECT key, COUNT(*) ... GROUP BY key.\<close>

definition scanCounts :: "string list \<Rightarrow> (string \<times> nat) list" where
  "scanCounts keys = map (\<lambda>k. (k, count_list keys k)) (remdups keys)"

definition Statistics :: "uuid \<Rightarrow> 's case_db_scheme \<Rightarrow> CaseStatistics" where
  "Statistics orgID s = (let rows = filter (\<lambda>r. cs_OrganizationID r = orgID) (cases s);
       n = (\<lambda>st. length (filter (\<lambda>r. cs_Status r = st) rows)) in
     \<lparr>st_Total = length rows, st_Open = length (filter (\<lambda>r. \<not> IsClosed (cs_Status r)) rows),
      st_Closed = n ''CLOSED'', st_Rejected = n ''REJECTED'',
      st_Urgent = length (filter (\<lambda>r. Priority r = ''URGENT'') rows),
      st_AwaitingReview = n ''IN_REVIEW'', st_AwaitingDecision = n ''DECISION_PENDING'',
      st_InProgress = n ''IN_PROGRESS'', st_FollowUp = n ''FOLLOW_UP'',
      ByStatus = scanCounts (map cs_Status rows), ByServiceType = scanCounts (map ServiceType rows),
      ByPriority = scanCounts (map Priority rows), RecentCases = take 5 (newest_cases rows)\<rparr>)"

subsection \<open>Updates\<close>

text \<open>An update of the rows that satisfy p: no row, a row that breaks a constraint, or success.\<close>

definition case_update :: "string \<Rightarrow> go_error \<Rightarrow> (Case \<Rightarrow> bool) \<Rightarrow> (Case \<Rightarrow> Case) \<Rightarrow> ('s case_db_scheme, unit) tx" where
  "case_update msg none p f = (\<lambda>s.
     if affected p (cases s) = 0 then (Inl none, s)
     else if \<exists>r \<in> set (cases s). p r \<and> \<not> case_row_ok (f r) then (Inl (Wrap msg (SqlConstraint ''cases'')), s)
     else (Inr (), s\<lparr>cases := update_where p f (cases s)\<rparr>))"

definition case_at :: "uuid \<Rightarrow> uuid \<Rightarrow> int \<Rightarrow> Case \<Rightarrow> bool" where
  "case_at orgID i version r \<longleftrightarrow> cs_OrganizationID r = orgID \<and> cs_ID r = i \<and> cs_Version r = version"

definition concurrent_case :: go_error where
  "concurrent_case = Err ''concurrent modification detected''"

definition case_UpdateStatus :: "instant \<Rightarrow> uuid \<Rightarrow> uuid \<Rightarrow> string \<Rightarrow> int \<Rightarrow> ('s case_db_scheme, unit) tx" where
  "case_UpdateStatus dbnow orgID i status version =
     case_update ''failed to update case status'' concurrent_case (case_at orgID i version)
       (\<lambda>r. r\<lparr>cs_Status := status, cs_Version := cs_Version r + 1, cs_UpdatedAt := dbnow, WorkflowState := status,
              ClosedAt := (if IsClosed status then Some dbnow else ClosedAt r)\<rparr>)"

text \<open>closed_at is set for a terminal state and cleared for any other.\<close>

definition UpdateWorkflowStateTx :: "instant \<Rightarrow> uuid \<Rightarrow> uuid \<Rightarrow> string \<Rightarrow> int \<Rightarrow> bool \<Rightarrow> ('s case_db_scheme, unit) tx" where
  "UpdateWorkflowStateTx dbnow orgID i st version isTerminal =
     case_update ''failed to update workflow state'' concurrent_case (case_at orgID i version)
       (\<lambda>r. r\<lparr>WorkflowState := st, cs_Status := st, cs_Version := cs_Version r + 1, cs_UpdatedAt := dbnow,
              ClosedAt := (if isTerminal then Some dbnow else None)\<rparr>)"

definition case_by_id :: "uuid \<Rightarrow> uuid \<Rightarrow> Case \<Rightarrow> bool" where
  "case_by_id orgID i r \<longleftrightarrow> cs_OrganizationID r = orgID \<and> cs_ID r = i"

definition case_Assign :: "instant \<Rightarrow> uuid \<Rightarrow> uuid \<Rightarrow> uuid \<Rightarrow> ('s case_db_scheme, unit) tx" where
  "case_Assign dbnow orgID i userID =
     case_update ''failed to assign case'' (Err ''no rows affected'') (case_by_id orgID i)
       (\<lambda>r. r\<lparr>AssignedToID := Some userID, cs_UpdatedAt := dbnow\<rparr>)"

definition case_UpdateWorkflowInstanceID :: "instant \<Rightarrow> uuid \<Rightarrow> uuid \<Rightarrow> uuid \<Rightarrow> ('s case_db_scheme, unit) tx" where
  "case_UpdateWorkflowInstanceID dbnow orgID i instanceID =
     case_update ''failed to update workflow instance id'' (Err ''no rows affected'') (case_by_id orgID i)
       (\<lambda>r. r\<lparr>WorkflowInstanceID := Some instanceID, cs_UpdatedAt := dbnow\<rparr>)"

end
