(* ===== verification/Review_Store.thy ===== *)
theory Review_Store
  imports Review_Domain Case_Store
begin

section \<open>The tables of decisions and reviews\<close>

text \<open>
  The repositories in infrastructure/postgres of internal/decisions and internal/review_queue,
  on the tables of migrations 0003, 0006, 0026 and 0030 and of 0027 and 0028. The lists of identifiers are
  stored as JSON arrays, which give them back. FOR UPDATE SKIP LOCKED reads like SELECT.
\<close>

record review_db = case_db +
  decisions :: "Decision list"
  review_queue :: "ReviewQueueEntry list"

subsection \<open>Decisions\<close>

definition decision_row :: "Decision \<Rightarrow> Decision" where
  "decision_row d = d\<lparr>DecidedAt := trunc_micros (DecidedAt d), dc_CreatedAt := trunc_micros (dc_CreatedAt d),
     ReviewQueueEntryID := (if ReviewQueueEntryID d = Some uuid_nil then None else ReviewQueueEntryID d)\<rparr>"

definition same_request :: "Decision \<Rightarrow> Decision \<Rightarrow> bool" where
  "same_request d e \<longleftrightarrow> dc_OrganizationID e = dc_OrganizationID d \<and> ServiceRequestID e = ServiceRequestID d"

definition valid_decision :: "DecisionType \<Rightarrow> bool" where
  "valid_decision d \<longleftrightarrow> decision_string d \<in> {''APPROVED'', ''REJECTED'', ''NEEDS_MORE_INFORMATION'', ''ESCALATE''}"

definition saveDecision :: "Decision \<Rightarrow> ('s review_db_scheme, unit) tx" where
  "saveDecision d = (\<lambda>s.
     if \<not> int4 (dc_Version d) then (Inl (Err ''failed to insert decision''), s)
     else if \<not> valid_decision (dc_Decision d)
       then (Inl (Wrap ''failed to insert decision'' (SqlConstraint ''valid_decision'')), s)
     else if dc_ID d \<in> dc_ID ` set (decisions s)
       then (Inl (unique_violation ''failed to insert decision'' ''decisions_pkey''), s)
     else if \<exists>e \<in> set (decisions s). same_request d e \<and> dc_Version e = dc_Version d
       then (Inl (unique_violation ''failed to insert decision'' ''idx_decisions_service_request_version_unique''), s)
     else (Inr (), s\<lparr>decisions := decisions s @ [decision_row d]\<rparr>))"

definition updateDecision :: "uuid \<Rightarrow> Decision \<Rightarrow> ('s review_db_scheme, unit) tx" where
  "updateDecision orgID d = tx_modify (\<lambda>s. s\<lparr>decisions := update_where
     (\<lambda>r. dc_ID r = dc_ID d \<and> dc_OrganizationID r = orgID)
     (\<lambda>r. r\<lparr>SupersededByID := (if SupersededByID d = Some uuid_nil then None else SupersededByID d)\<rparr>) (decisions s)\<rparr>)"

definition decision_FindByID :: "uuid \<Rightarrow> uuid \<Rightarrow> 's review_db_scheme \<Rightarrow> go_error + Decision" where
  "decision_FindByID orgID i s =
     row_or dErrDecisionNotFound (filter (\<lambda>d. dc_OrganizationID d = orgID \<and> dc_ID d = i) (decisions s))"

definition request_decisions :: "uuid \<Rightarrow> uuid \<Rightarrow> Decision list \<Rightarrow> Decision list" where
  "request_decisions orgID srID D = filter (\<lambda>d. dc_OrganizationID d = orgID \<and> ServiceRequestID d = srID) D"

definition FindByServiceRequest :: "uuid \<Rightarrow> uuid \<Rightarrow> 's review_db_scheme \<Rightarrow> go_error + Decision" where
  "FindByServiceRequest orgID srID s =
     row_or dErrDecisionNotFound (sort_key (\<lambda>d. - dc_Version d) (request_decisions orgID srID (decisions s)))"

definition decision_FindByOrganization :: "uuid \<Rightarrow> int \<Rightarrow> int \<Rightarrow> 's review_db_scheme \<Rightarrow> go_error + Decision list" where
  "decision_FindByOrganization orgID limit offset s =
     (case limit_offset limit offset (sort_key (\<lambda>d. - dc_CreatedAt d)
          (filter (\<lambda>d. dc_OrganizationID d = orgID) (decisions s))) of
        Inl e \<Rightarrow> Inl (Wrap ''failed to query decisions'' e)
      | Inr page \<Rightarrow> Inr page)"

definition decision_CountByOrganization :: "uuid \<Rightarrow> 's review_db_scheme \<Rightarrow> nat" where
  "decision_CountByOrganization orgID s = length (filter (\<lambda>d. dc_OrganizationID d = orgID) (decisions s))"

definition ListByServiceRequest :: "uuid \<Rightarrow> uuid \<Rightarrow> 's review_db_scheme \<Rightarrow> Decision list" where
  "ListByServiceRequest orgID srID s = sort_key dc_Version (request_decisions orgID srID (decisions s))"

subsection \<open>Reviews\<close>

definition review_row :: "ReviewQueueEntry \<Rightarrow> ReviewQueueEntry" where
  "review_row r = r\<lparr>rv_CreatedAt := trunc_micros (rv_CreatedAt r), rv_UpdatedAt := trunc_micros (rv_UpdatedAt r),
     rv_CompletedAt := map_option trunc_micros (rv_CompletedAt r), rv_Metadata := json_decoded (rv_Metadata r)\<rparr>"

definition saveReview :: "ReviewQueueEntry \<Rightarrow> ('s review_db_scheme, unit) tx" where
  "saveReview r = (\<lambda>s.
     if \<not> valid_review_status (rv_Status r)
       then (Inl (Wrap ''failed to insert review queue entry'' (SqlConstraint ''valid_review_status'')), s)
     else if rv_ID r \<in> rv_ID ` set (review_queue s)
       then (Inl (unique_violation ''failed to insert review queue entry'' ''review_queue_pkey''), s)
     else (Inr (), s\<lparr>review_queue := review_queue s @ [review_row r]\<rparr>))"

definition review_FindByID :: "uuid \<Rightarrow> uuid \<Rightarrow> 's review_db_scheme \<Rightarrow> go_error + ReviewQueueEntry" where
  "review_FindByID orgID i s =
     row_or dErrReviewNotFound (filter (\<lambda>r. rv_OrganizationID r = orgID \<and> rv_ID r = i) (review_queue s))"

definition review_FindByIDTx :: "uuid \<Rightarrow> uuid \<Rightarrow> ('s review_db_scheme, ReviewQueueEntry) tx" where
  "review_FindByIDTx orgID i = (\<lambda>s. (review_FindByID orgID i s, s))"

definition review_FindByCaseID :: "uuid \<Rightarrow> uuid \<Rightarrow> 's review_db_scheme \<Rightarrow> go_error + ReviewQueueEntry" where
  "review_FindByCaseID orgID caseID s = row_or dErrReviewNotFound
     (sort_key (\<lambda>r. - rv_CreatedAt r) (filter (\<lambda>r. rv_OrganizationID r = orgID \<and> rv_CaseID r = caseID) (review_queue s)))"

definition priority_rank :: "string \<Rightarrow> nat" where
  "priority_rank p = (if p = ''URGENT'' then 1 else if p = ''HIGH'' then 2 else if p = ''NORMAL'' then 3
     else if p = ''LOW'' then 4 else 5)"

text \<open>ORDER BY two keys: a stable sort by the second, then by the first.\<close>

definition queue_order :: "ReviewQueueEntry list \<Rightarrow> ReviewQueueEntry list" where
  "queue_order rs = sort_key (\<lambda>r. priority_rank (rv_Priority r)) (sort_key rv_CreatedAt rs)"

definition review_ListByOrganization :: "uuid \<Rightarrow> ReviewStatus option \<Rightarrow> uuid option \<Rightarrow> int \<Rightarrow> int \<Rightarrow> 's review_db_scheme
    \<Rightarrow> go_error + ReviewQueueEntry list \<times> nat" where
  "review_ListByOrganization orgID status assignedToID limit offset s =
     (let rows = filter (\<lambda>r. rv_OrganizationID r = orgID \<and> (status = None \<or> status = Some (rv_Status r))
                   \<and> (assignedToID = None \<or> rv_AssignedToID r = assignedToID)) (review_queue s) in
      case limit_offset limit offset (queue_order rows) of
        Inl e \<Rightarrow> Inl (Wrap ''failed to query review queue'' e)
      | Inr page \<Rightarrow> Inr (page, length rows))"

text \<open>UpdateStatusTx writes the status and the reviewer only, and does not look at the number of rows.\<close>

definition review_key :: "uuid \<Rightarrow> uuid \<Rightarrow> ReviewQueueEntry \<Rightarrow> bool" where
  "review_key orgID i r \<longleftrightarrow> rv_OrganizationID r = orgID \<and> rv_ID r = i"

definition UpdateStatusTx :: "instant \<Rightarrow> uuid \<Rightarrow> uuid \<Rightarrow> ReviewStatus \<Rightarrow> uuid option \<Rightarrow> ('s review_db_scheme, unit) tx" where
  "UpdateStatusTx now orgID i status assignedToID = (\<lambda>s.
     if (\<exists>r \<in> set (review_queue s). review_key orgID i r) \<and> \<not> valid_review_status status
       then (Inl (Wrap ''failed to update review queue status'' (SqlConstraint ''valid_review_status'')), s)
     else (Inr (), s\<lparr>review_queue := update_where (review_key orgID i)
        (\<lambda>r. r\<lparr>rv_Status := status, rv_AssignedToID := assignedToID, rv_UpdatedAt := trunc_micros now\<rparr>) (review_queue s)\<rparr>))"

definition review_Delete :: "uuid \<Rightarrow> uuid \<Rightarrow> ('s review_db_scheme, unit) tx" where
  "review_Delete orgID i = tx_modify (\<lambda>s. s\<lparr>review_queue := filter (\<lambda>r. \<not> review_key orgID i r) (review_queue s)\<rparr>)"

end
