(* ===== verification/Rule_Store.thy ===== *)
theory Rule_Store
  imports Rule_Domain Review_Store
begin

section \<open>The tables of the rules engine\<close>

text \<open>
  The repositories in internal/rules/infrastructure/postgres, on the tables of migrations 0019
  and 0021 to 0025. A rule set is kept with the rules it was saved with; scanning it decodes
  their document. Foreign keys into organizations and users hold by assumption, those into
  cases, workflow definitions and rule sets are checked; that the deletion of one of these
  takes the rows that refer to it along is modelled for rule sets only.
\<close>

record rules_db = review_db +
  rule_sets :: "RuleSet list"
  evaluations :: "Evaluation list"
  rule_templates :: "RuleTemplate list"
  rule_assignments :: "WorkflowStateRuleAssignment list"

definition given :: "uuid option \<Rightarrow> uuid option" where
  "given i = (if i = Some uuid_nil then None else i)"

text \<open>The errors in whose text isPostgresUniqueViolation and isUniqueViolation find their mark.\<close>

definition rules_unique_indexes :: "string list" where
  "rules_unique_indexes = [''rule_sets_pkey'', ''rule_sets_uniq_version'', ''rule_sets_uniq_published'',
     ''evaluations_pkey'', ''rule_templates_pkey'', ''rule_templates_uniq_org_key'', ''rule_templates_uniq_global_key'',
     ''workflow_state_rule_assignments_pkey'', ''idx_wsra_unique'', ''idx_wsra_display_order'']"

definition isUniqueViolation :: "go_error \<Rightarrow> bool" where
  "isUniqueViolation e \<longleftrightarrow> list_ex (\<lambda>i. SqlConstraint i \<in> set (unwrap_chain e)) rules_unique_indexes"

subsection \<open>Rule sets\<close>

definition valid_default_outcome :: "Outcome \<Rightarrow> bool" where
  "valid_default_outcome o' \<longleftrightarrow> o' \<in> {OutcomeEligible, OutcomeIneligible, OutcomeRequiresReview,
     OutcomeInformationRequired, OutcomeFlag, OutcomeScore}"

definition rs_row :: "RuleSet \<Rightarrow> RuleSet" where
  "rs_row rs = rs\<lparr>rs_CaseID := given (rs_CaseID rs), rs_CreatedAt := trunc_micros (rs_CreatedAt rs),
     rs_UpdatedAt := trunc_micros (rs_UpdatedAt rs)\<rparr>"

definition same_version :: "RuleSet \<Rightarrow> RuleSet \<Rightarrow> bool" where
  "same_version a b \<longleftrightarrow> rs_OrganizationID a = rs_OrganizationID b \<and> rs_Key a = rs_Key b \<and> rs_Version a = rs_Version b"

text \<open>
  The partial index on published rule sets; two NULLs in case_id are not equal, so it says
  nothing about rule sets without a case.
\<close>

definition same_published :: "RuleSet \<Rightarrow> RuleSet \<Rightarrow> bool" where
  "same_published a b \<longleftrightarrow> rs_Status a = StatusPublished \<and> rs_Status b = StatusPublished
     \<and> rs_OrganizationID a = rs_OrganizationID b \<and> rs_Key a = rs_Key b
     \<and> rs_CaseID a = rs_CaseID b \<and> rs_CaseID a \<noteq> None"

definition rule_set_Save :: "RuleSet \<Rightarrow> ('s rules_db_scheme, unit) tx" where
  "rule_set_Save rs = (\<lambda>s.
     let msg = ''failed to save rule set''; row = rs_row rs in
     if \<not> list_all rule_encodable (Rules rs) then (Inl (Err ''failed to marshal rules''), s)
     else if \<not> int4 (rs_Version rs) then (Inl (Err msg), s)
     else if \<not> valid_default_outcome (DefaultOutcome rs) then (Inl (Wrap msg (SqlConstraint ''valid_default_outcome'')), s)
     else if rs_ID rs \<in> rs_ID ` set (rule_sets s) then (Inl (unique_violation msg ''rule_sets_pkey''), s)
     else if \<exists>x \<in> set (rule_sets s). same_published row x
       then (Inl (unique_violation msg ''rule_sets_uniq_published''), s)
     else if \<exists>x \<in> set (rule_sets s). same_version row x
       then (Inl (unique_violation msg ''rule_sets_uniq_version''), s)
     else if rs_CaseID row \<noteq> None \<and> the (rs_CaseID row) \<notin> cs_ID ` set (cases s)
       then (Inl (Wrap msg (SqlConstraint ''rule_sets_case_id_fkey'')), s)
     else (Inr (), s\<lparr>rule_sets := rule_sets s @ [row]\<rparr>))"

definition scanRuleSet :: "RuleSet \<Rightarrow> go_error + RuleSet" where
  "scanRuleSet row = (case rules_decoded (Rules row) of
     Inl e \<Rightarrow> Inl (Wrap ''failed to decode rules JSON'' e)
   | Inr rules \<Rightarrow> Inr (row\<lparr>Rules := rules\<rparr>))"

definition scan_rule_set :: "RuleSet list \<Rightarrow> go_error + RuleSet" where
  "scan_rule_set rows = (case rows of [] \<Rightarrow> Inl dErrRuleSetNotFound | r # _ \<Rightarrow> scanRuleSet r)"

fun scan_rule_sets :: "RuleSet list \<Rightarrow> go_error + RuleSet list" where
  "scan_rule_sets [] = Inr []"
| "scan_rule_sets (r # rs) = (case scanRuleSet r of
     Inl e \<Rightarrow> Inl e
   | Inr x \<Rightarrow> map_sum id ((#) x) (scan_rule_sets rs))"

definition rule_set_at :: "uuid \<Rightarrow> uuid \<Rightarrow> RuleSet \<Rightarrow> bool" where
  "rule_set_at orgID i r \<longleftrightarrow> rs_OrganizationID r = orgID \<and> rs_ID r = i"

definition rule_set_FindByID :: "uuid \<Rightarrow> uuid \<Rightarrow> 's rules_db_scheme \<Rightarrow> go_error + RuleSet" where
  "rule_set_FindByID orgID i s = scan_rule_set (filter (rule_set_at orgID i) (rule_sets s))"

definition rule_set_FindByIDTx :: "uuid \<Rightarrow> uuid \<Rightarrow> ('s rules_db_scheme, RuleSet) tx" where
  "rule_set_FindByIDTx orgID i = (\<lambda>s. (rule_set_FindByID orgID i s, s))"

text \<open>FOR UPDATE reads like SELECT.\<close>

definition FindByIDForUpdateTx :: "uuid \<Rightarrow> uuid \<Rightarrow> ('s rules_db_scheme, RuleSet) tx" where
  "FindByIDForUpdateTx orgID i = (\<lambda>s. (rule_set_FindByID orgID i s, s))"

definition with_key :: "uuid \<Rightarrow> string \<Rightarrow> 's rules_db_scheme \<Rightarrow> RuleSet list" where
  "with_key orgID key s = filter (\<lambda>r. rs_OrganizationID r = orgID \<and> rs_Key r = key) (rule_sets s)"

definition latest_versions :: "RuleSet list \<Rightarrow> RuleSet list" where
  "latest_versions rows = sort_key (\<lambda>r. - rs_Version r) rows"

definition rule_set_FindByKey :: "uuid \<Rightarrow> string \<Rightarrow> 's rules_db_scheme \<Rightarrow> go_error + RuleSet" where
  "rule_set_FindByKey orgID key s = scan_rule_set (latest_versions (with_key orgID key s))"

definition rule_set_FindByKeyAndVersion :: "uuid \<Rightarrow> string \<Rightarrow> int \<Rightarrow> 's rules_db_scheme \<Rightarrow> go_error + RuleSet" where
  "rule_set_FindByKeyAndVersion orgID key version s =
     scan_rule_set (filter (\<lambda>r. rs_Version r = version) (with_key orgID key s))"

text \<open>A page of rows in some order, and the number of all.\<close>

definition rule_set_page :: "string \<Rightarrow> int \<Rightarrow> int \<Rightarrow> RuleSet list \<Rightarrow> go_error + RuleSet list \<times> nat" where
  "rule_set_page msg limit offset rows = (case limit_offset limit offset rows of
     Inl e \<Rightarrow> Inl (Wrap msg e)
   | Inr page \<Rightarrow> map_sum id (\<lambda>sets. (sets, length rows)) (scan_rule_sets page))"

definition newest_sets :: "RuleSet list \<Rightarrow> RuleSet list" where
  "newest_sets rows = sort_key (\<lambda>r. - rs_CreatedAt r) rows"

definition rule_set_List :: "uuid \<Rightarrow> int \<Rightarrow> int \<Rightarrow> 's rules_db_scheme \<Rightarrow> go_error + RuleSet list \<times> nat" where
  "rule_set_List orgID limit offset s = rule_set_page ''failed to list rule sets'' limit offset
     (newest_sets (filter (\<lambda>r. rs_OrganizationID r = orgID) (rule_sets s)))"

definition rule_set_ListByCase :: "uuid \<Rightarrow> uuid \<Rightarrow> int \<Rightarrow> int \<Rightarrow> 's rules_db_scheme \<Rightarrow> go_error + RuleSet list \<times> nat" where
  "rule_set_ListByCase orgID caseID limit offset s = rule_set_page ''failed to list rule sets by case'' limit offset
     (newest_sets (filter (\<lambda>r. rs_OrganizationID r = orgID \<and> rs_CaseID r = Some caseID) (rule_sets s)))"

definition rule_set_ListVersions :: "uuid \<Rightarrow> string \<Rightarrow> int \<Rightarrow> int \<Rightarrow> 's rules_db_scheme \<Rightarrow> go_error + RuleSet list \<times> nat" where
  "rule_set_ListVersions orgID key limit offset s =
     rule_set_page ''failed to list versions'' limit offset (latest_versions (with_key orgID key s))"

text \<open>Without a case the query has two parameters and gets three arguments.\<close>

definition FindPublished :: "uuid \<Rightarrow> string \<Rightarrow> uuid option \<Rightarrow> 's rules_db_scheme \<Rightarrow> go_error + RuleSet" where
  "FindPublished orgID key caseID s = (case given caseID of
     None \<Rightarrow> Inl (Wrap ''failed to scan rule set'' (Err ''expected 2 arguments, got 3''))
   | Some i \<Rightarrow> scan_rule_set (latest_versions (filter (\<lambda>r. rs_Status r = StatusPublished \<and> rs_CaseID r = Some i)
       (with_key orgID key s))))"

definition rule_set_CountByKey :: "uuid \<Rightarrow> string \<Rightarrow> 's rules_db_scheme \<Rightarrow> nat" where
  "rule_set_CountByKey orgID key s = length (with_key orgID key s)"

text \<open>UPDATE rules.rule_sets SET f: the unique indexes are checked against the other rows.\<close>

definition rule_set_update :: "string \<Rightarrow> uuid \<Rightarrow> uuid \<Rightarrow> (RuleSet \<Rightarrow> bool) \<Rightarrow> (RuleSet \<Rightarrow> RuleSet)
    \<Rightarrow> ('s rules_db_scheme, unit) tx" where
  "rule_set_update msg orgID i p f = (\<lambda>s.
     let q = (\<lambda>r. rule_set_at orgID i r \<and> p r); rows = filter q (rule_sets s) in
     if \<exists>r \<in> set rows. \<not> valid_default_outcome (DefaultOutcome (f r)) \<or> \<not> int4 (rs_Version (f r))
       then (Inl (Wrap msg (SqlConstraint ''valid_default_outcome'')), s)
     else if \<exists>r \<in> set rows. \<exists>x \<in> set (rule_sets s). \<not> q x \<and> same_published (f r) x
       then (Inl (unique_violation msg ''rule_sets_uniq_published''), s)
     else if \<exists>r \<in> set rows. \<exists>x \<in> set (rule_sets s). \<not> q x \<and> same_version (f r) x
       then (Inl (unique_violation msg ''rule_sets_uniq_version''), s)
     else if rows = [] then (Inl dErrRuleSetNotFound, s)
     else (Inr (), s\<lparr>rule_sets := update_where q f (rule_sets s)\<rparr>))"

definition rule_set_Update :: "instant \<Rightarrow> RuleSet \<Rightarrow> ('s rules_db_scheme, unit) tx" where
  "rule_set_Update dbnow rs =
     tx_seq (tx_guard (list_all rule_encodable (Rules rs)) (Err ''failed to marshal rules''))
       (rule_set_update ''query execution error'' (rs_OrganizationID rs) (rs_ID rs) (\<lambda>_. True)
          (\<lambda>r. r\<lparr>rs_Name := rs_Name rs, rs_Description := rs_Description rs, rs_Version := rs_Version rs,
                 rs_Status := rs_Status rs, DefaultOutcome := DefaultOutcome rs, Rules := Rules rs,
                 rs_UpdatedAt := dbnow, Triggers := Triggers rs\<rparr>))"

definition rule_set_UpdateStatus :: "instant \<Rightarrow> uuid \<Rightarrow> uuid \<Rightarrow> RuleSetStatus \<Rightarrow> RuleSetStatus
    \<Rightarrow> ('s rules_db_scheme, unit) tx" where
  "rule_set_UpdateStatus dbnow orgID i old to =
     rule_set_update ''failed to update rule set status'' orgID i (\<lambda>r. rs_Status r = old)
       (\<lambda>r. r\<lparr>rs_Status := to, rs_UpdatedAt := dbnow\<rparr>)"

text \<open>Evaluations restrict the deletion of their rule set, assignments go with it.\<close>

definition rule_set_Delete :: "uuid \<Rightarrow> uuid \<Rightarrow> ('s rules_db_scheme, unit) tx" where
  "rule_set_Delete orgID i = (\<lambda>s.
     if affected (rule_set_at orgID i) (rule_sets s) = 0 then (Inl dErrRuleSetNotFound, s)
     else if i \<in> ev_RuleSetID ` set (evaluations s)
       then (Inl (Wrap ''failed to delete rule set'' (SqlConstraint ''evaluations_rule_set_id_fkey'')), s)
     else (Inr (), s\<lparr>rule_sets := filter (\<lambda>r. \<not> rule_set_at orgID i r) (rule_sets s),
                     rule_assignments := filter (\<lambda>a. ra_RuleSetID a \<noteq> i) (rule_assignments s)\<rparr>))"

subsection \<open>Evaluations\<close>

text \<open>
  A missing reason is stored as the empty text; the trace and the facts are stored as JSON
  documents, kept here as the values that a decoder with UseNumber reads from them. The argument
  \<open>nt\<close> is strconv.FormatFloat.
\<close>

definition evaluation_row :: "(rat \<Rightarrow> string) \<Rightarrow> Evaluation \<Rightarrow> Evaluation" where
  "evaluation_row nt ev = ev\<lparr>ev_CaseID := given (ev_CaseID ev), ev_MatchedRuleID := given (ev_MatchedRuleID ev),
     ev_Trace := map (json_trace nt) (ev_Trace ev), ev_FactsSnapshot := json_numbered_members nt (ev_FactsSnapshot ev),
     ev_EvaluatedBy := given (ev_EvaluatedBy ev), ev_Reason := Some (case ev_Reason ev of None \<Rightarrow> [] | Some r \<Rightarrow> r),
     ev_EvaluatedAt := trunc_micros (ev_EvaluatedAt ev)\<rparr>"

definition evaluation_Save :: "(rat \<Rightarrow> string) \<Rightarrow> Evaluation \<Rightarrow> ('s rules_db_scheme, unit) tx" where
  "evaluation_Save nt ev = (\<lambda>s.
     let msg = ''failed to save evaluation'' in
     if \<not> list_all trace_encodable (ev_Trace ev) then (Inl (Err ''failed to marshal trace''), s)
     else if \<not> json_encodable (GObject (ev_FactsSnapshot ev)) then (Inl (Err ''failed to marshal facts snapshot''), s)
     else if \<not> int4 (ev_RuleSetVersion ev) then (Inl (Err msg), s)
     else if \<not> IsValidOutcome (ev_Outcome ev) then (Inl (Wrap msg (SqlConstraint ''valid_evaluation_outcome'')), s)
     else if ev_Trigger ev \<noteq> TriggerManual \<and> ev_Trigger ev \<noteq> TriggerAutomatic
       then (Inl (Wrap msg (SqlConstraint ''valid_evaluation_trigger'')), s)
     else if ev_ID ev \<in> ev_ID ` set (evaluations s) then (Inl (unique_violation msg ''evaluations_pkey''), s)
     else if ev_RuleSetID ev \<notin> rs_ID ` set (rule_sets s)
       then (Inl (Wrap msg (SqlConstraint ''evaluations_rule_set_id_fkey'')), s)
     else if given (ev_CaseID ev) \<noteq> None \<and> the (given (ev_CaseID ev)) \<notin> cs_ID ` set (cases s)
       then (Inl (Wrap msg (SqlConstraint ''evaluations_case_id_fkey'')), s)
     else (Inr (), s\<lparr>evaluations := evaluations s @ [evaluation_row nt ev]\<rparr>))"

definition scanEvaluation :: "Evaluation \<Rightarrow> Evaluation" where
  "scanEvaluation row = row\<lparr>ev_CaseID := given (ev_CaseID row), ev_MatchedRuleID := given (ev_MatchedRuleID row),
     ev_EvaluatedBy := given (ev_EvaluatedBy row)\<rparr>"

definition evaluation_FindByID :: "uuid \<Rightarrow> uuid \<Rightarrow> 's rules_db_scheme \<Rightarrow> go_error + Evaluation" where
  "evaluation_FindByID orgID i s = map_sum id scanEvaluation (row_or dErrRuleSetNotFound
     (filter (\<lambda>ev. ev_OrganizationID ev = orgID \<and> ev_ID ev = i) (evaluations s)))"

definition evaluation_page :: "int \<Rightarrow> int \<Rightarrow> Evaluation list \<Rightarrow> go_error + Evaluation list \<times> nat" where
  "evaluation_page limit offset rows = (case limit_offset limit offset (sort_key (\<lambda>ev. - ev_EvaluatedAt ev) rows) of
     Inl e \<Rightarrow> Inl (Wrap ''failed to list evaluations'' e)
   | Inr page \<Rightarrow> Inr (map scanEvaluation page, length rows))"

definition evaluation_ListByRuleSet :: "uuid \<Rightarrow> uuid \<Rightarrow> int \<Rightarrow> int \<Rightarrow> 's rules_db_scheme
    \<Rightarrow> go_error + Evaluation list \<times> nat" where
  "evaluation_ListByRuleSet orgID ruleSetID limit offset s = evaluation_page limit offset
     (filter (\<lambda>ev. ev_OrganizationID ev = orgID \<and> ev_RuleSetID ev = ruleSetID) (evaluations s))"

definition evaluation_ListByCase :: "uuid \<Rightarrow> uuid \<Rightarrow> int \<Rightarrow> int \<Rightarrow> 's rules_db_scheme
    \<Rightarrow> go_error + Evaluation list \<times> nat" where
  "evaluation_ListByCase orgID caseID limit offset s = evaluation_page limit offset
     (filter (\<lambda>ev. ev_OrganizationID ev = orgID \<and> ev_CaseID ev = Some caseID) (evaluations s))"

subsection \<open>Templates\<close>

definition template_row :: "RuleTemplate \<Rightarrow> RuleTemplate" where
  "template_row rt = rt\<lparr>rt_CreatedAt := trunc_micros (rt_CreatedAt rt), rt_UpdatedAt := trunc_micros (rt_UpdatedAt rt)\<rparr>"

definition same_template :: "RuleTemplate \<Rightarrow> RuleTemplate \<Rightarrow> bool" where
  "same_template a b \<longleftrightarrow> rt_Scope a = rt_Scope b \<and> rt_Key a = rt_Key b
     \<and> (rt_Scope a = RuleTemplateScopeOrg \<longrightarrow> rt_OrganizationID a = rt_OrganizationID b)"

definition template_Save :: "RuleTemplate \<Rightarrow> ('s rules_db_scheme, unit) tx" where
  "template_Save rt = (\<lambda>s.
     let msg = ''failed to save rule template'' in
     if \<not> rule_encodable (rt_Rule rt) then (Inl (Err ''failed to marshal rule''), s)
     else if \<not> (rt_Scope rt = RuleTemplateScopeOrg \<and> rt_OrganizationID rt \<noteq> None)
          \<and> \<not> (rt_Scope rt = RuleTemplateScopeGlobal \<and> rt_OrganizationID rt = None)
       then (Inl (Wrap msg (SqlConstraint ''valid_rule_template_org'')), s)
     else if rt_ID rt \<in> rt_ID ` set (rule_templates s) then (Inl (unique_violation msg ''rule_templates_pkey''), s)
     else if \<exists>x \<in> set (rule_templates s). same_template rt x
       then (Inl (unique_violation msg (if rt_Scope rt = RuleTemplateScopeOrg then ''rule_templates_uniq_org_key''
                                        else ''rule_templates_uniq_global_key'')), s)
     else (Inr (), s\<lparr>rule_templates := rule_templates s @ [template_row rt]\<rparr>))"

definition scanTemplate :: "RuleTemplate \<Rightarrow> go_error + RuleTemplate" where
  "scanTemplate row = (case rule_decoded (rt_Rule row) of
     Inl e \<Rightarrow> Inl (Wrap ''failed to unmarshal rule'' e)
   | Inr rule \<Rightarrow> Inr (row\<lparr>rt_Rule := rule\<rparr>))"

fun scan_templates :: "RuleTemplate list \<Rightarrow> go_error + RuleTemplate list" where
  "scan_templates [] = Inr []"
| "scan_templates (r # rs) = (case scanTemplate r of
     Inl e \<Rightarrow> Inl e
   | Inr x \<Rightarrow> map_sum id ((#) x) (scan_templates rs))"

definition template_visible :: "uuid \<Rightarrow> RuleTemplate \<Rightarrow> bool" where
  "template_visible orgID r \<longleftrightarrow> rt_OrganizationID r = Some orgID \<or> rt_OrganizationID r = None"

definition first_template :: "RuleTemplate list \<Rightarrow> go_error + RuleTemplate" where
  "first_template rows = (case rows of [] \<Rightarrow> Inl dErrRuleSetNotFound | r # _ \<Rightarrow> scanTemplate r)"

definition template_FindByID :: "uuid \<Rightarrow> uuid \<Rightarrow> 's rules_db_scheme \<Rightarrow> go_error + RuleTemplate" where
  "template_FindByID orgID i s = first_template (filter (\<lambda>r. rt_ID r = i \<and> template_visible orgID r) (rule_templates s))"

text \<open>No ORDER BY: of an own and a global template the one stored first.\<close>

definition template_FindByKey :: "uuid \<Rightarrow> string \<Rightarrow> 's rules_db_scheme \<Rightarrow> go_error + RuleTemplate" where
  "template_FindByKey orgID key s =
     first_template (filter (\<lambda>r. rt_Key r = key \<and> template_visible orgID r) (rule_templates s))"

definition template_page :: "int \<Rightarrow> int \<Rightarrow> RuleTemplate list \<Rightarrow> go_error + RuleTemplate list \<times> nat" where
  "template_page limit offset rows = (case limit_offset limit offset (sort_key (\<lambda>r. - rt_CreatedAt r) rows) of
     Inl e \<Rightarrow> Inl (Wrap ''failed to list rule templates'' e)
   | Inr page \<Rightarrow> map_sum id (\<lambda>ts. (ts, length rows)) (scan_templates page))"

definition template_List :: "uuid \<Rightarrow> RuleTemplateScope \<Rightarrow> string \<Rightarrow> int \<Rightarrow> int \<Rightarrow> 's rules_db_scheme
    \<Rightarrow> go_error + RuleTemplate list \<times> nat" where
  "template_List orgID scope category limit offset s = template_page limit offset
     (filter (\<lambda>r. template_visible orgID r \<and> (scope_string scope = [] \<or> rt_Scope r = scope)
        \<and> (category = [] \<or> rt_Category r = category)) (rule_templates s))"

definition template_ListGlobal :: "string \<Rightarrow> int \<Rightarrow> int \<Rightarrow> 's rules_db_scheme \<Rightarrow> go_error + RuleTemplate list \<times> nat" where
  "template_ListGlobal category limit offset s = template_page limit offset
     (filter (\<lambda>r. rt_OrganizationID r = None \<and> (category = [] \<or> rt_Category r = category)) (rule_templates s))"

definition template_Delete :: "uuid \<Rightarrow> uuid \<Rightarrow> ('s rules_db_scheme, unit) tx" where
  "template_Delete orgID i = tx_modify (\<lambda>s. s\<lparr>rule_templates :=
     filter (\<lambda>r. \<not> (rt_ID r = i \<and> template_visible orgID r)) (rule_templates s)\<rparr>)"

definition template_CountByKey :: "uuid \<Rightarrow> string \<Rightarrow> 's rules_db_scheme \<Rightarrow> nat" where
  "template_CountByKey orgID key s =
     length (filter (\<lambda>r. rt_Key r = key \<and> template_visible orgID r) (rule_templates s))"

subsection \<open>Assignments of rule sets to workflow states\<close>

definition ra_row :: "WorkflowStateRuleAssignment \<Rightarrow> WorkflowStateRuleAssignment" where
  "ra_row a = a\<lparr>ra_CreatedAt := trunc_micros (ra_CreatedAt a), ra_UpdatedAt := trunc_micros (ra_UpdatedAt a)\<rparr>"

definition same_rule_state :: "WorkflowStateRuleAssignment \<Rightarrow> WorkflowStateRuleAssignment \<Rightarrow> bool" where
  "same_rule_state a b \<longleftrightarrow> ra_OrganizationID a = ra_OrganizationID b \<and> ra_WorkflowDefID a = ra_WorkflowDefID b
     \<and> ra_WorkflowStateKey a = ra_WorkflowStateKey b"

text \<open>SaveTx sets both times before the insertion.\<close>

definition rule_assignment_Save :: "instant \<Rightarrow> WorkflowStateRuleAssignment \<Rightarrow> ('s rules_db_scheme, unit) tx" where
  "rule_assignment_Save now a0 = (\<lambda>s.
     let a = a0\<lparr>ra_CreatedAt := now, ra_UpdatedAt := now\<rparr> in
     if assignment_Validate a \<noteq> None then (Inl (Wrap ''invalid assignment'' (the (assignment_Validate a))), s)
     else if \<not> order_ok (ra_DisplayOrder a) then (Inl (Err ''integer out of range''), s)
     else if ra_ID a \<in> ra_ID ` set (rule_assignments s)
       then (Inl (SqlConstraint ''workflow_state_rule_assignments_pkey''), s)
     else if \<exists>b \<in> set (rule_assignments s). same_rule_state a b \<and> ra_RuleSetID b = ra_RuleSetID a
       then (Inl (SqlConstraint ''idx_wsra_unique''), s)
     else if \<exists>b \<in> set (rule_assignments s). same_rule_state a b \<and> ra_DisplayOrder b = ra_DisplayOrder a
       then (Inl (SqlConstraint ''idx_wsra_display_order''), s)
     else if ra_WorkflowDefID a \<notin> wd_ID ` set (workflow_definitions s) \<or> ra_RuleSetID a \<notin> rs_ID ` set (rule_sets s)
       then (Inl (SqlConstraint ''workflow_state_rule_assignments_fkey''), s)
     else (Inr (), s\<lparr>rule_assignments := rule_assignments s @ [ra_row a]\<rparr>))"

definition rule_assignment_at :: "uuid \<Rightarrow> uuid \<Rightarrow> WorkflowStateRuleAssignment \<Rightarrow> bool" where
  "rule_assignment_at orgID i a \<longleftrightarrow> ra_ID a = i \<and> ra_OrganizationID a = orgID"

definition rule_assignment_FindByID :: "uuid \<Rightarrow> uuid \<Rightarrow> 's rules_db_scheme \<Rightarrow> go_error + WorkflowStateRuleAssignment" where
  "rule_assignment_FindByID orgID i s = row_or SqlNoRows (filter (rule_assignment_at orgID i) (rule_assignments s))"

definition FindRulesByWorkflowAndState :: "uuid \<Rightarrow> uuid \<Rightarrow> string \<Rightarrow> 's rules_db_scheme
    \<Rightarrow> WorkflowStateRuleAssignment list" where
  "FindRulesByWorkflowAndState orgID defID stateKey s = sort_key ra_DisplayOrder
     (filter (\<lambda>a. ra_OrganizationID a = orgID \<and> ra_WorkflowDefID a = defID \<and> ra_WorkflowStateKey a = stateKey
        \<and> ra_Active a) (rule_assignments s))"

definition rule_assignment_ListByRuleSet :: "uuid \<Rightarrow> uuid \<Rightarrow> 's rules_db_scheme \<Rightarrow> WorkflowStateRuleAssignment list" where
  "rule_assignment_ListByRuleSet orgID ruleSetID s =
     filter (\<lambda>a. ra_OrganizationID a = orgID \<and> ra_RuleSetID a = ruleSetID) (rule_assignments s)"

definition rule_assignment_ListByWorkflow :: "uuid \<Rightarrow> uuid \<Rightarrow> 's rules_db_scheme \<Rightarrow> WorkflowStateRuleAssignment list" where
  "rule_assignment_ListByWorkflow orgID defID s = sort_key (\<lambda>a. (ra_WorkflowStateKey a, ra_DisplayOrder a))
     (filter (\<lambda>a. ra_OrganizationID a = orgID \<and> ra_WorkflowDefID a = defID) (rule_assignments s))"

text \<open>UpdateTx does not look at the number of rows; the state of the row decides which others conflict.\<close>

definition rule_assignment_Update :: "instant \<Rightarrow> WorkflowStateRuleAssignment \<Rightarrow> ('s rules_db_scheme, unit) tx" where
  "rule_assignment_Update now a = (\<lambda>s.
     let p = rule_assignment_at (ra_OrganizationID a) (ra_ID a); rows = filter p (rule_assignments s) in
     if rows = [] then (Inr (), s)
     else if \<not> order_ok (ra_DisplayOrder a) then (Inl (Err ''integer out of range''), s)
     else if \<exists>r \<in> set rows. \<exists>b \<in> set (rule_assignments s). \<not> p b \<and> same_rule_state r b \<and> ra_RuleSetID b = ra_RuleSetID a
       then (Inl (SqlConstraint ''idx_wsra_unique''), s)
     else if \<exists>r \<in> set rows. \<exists>b \<in> set (rule_assignments s). \<not> p b \<and> same_rule_state r b \<and> ra_DisplayOrder b = ra_DisplayOrder a
       then (Inl (SqlConstraint ''idx_wsra_display_order''), s)
     else if ra_RuleSetID a \<notin> rs_ID ` set (rule_sets s)
       then (Inl (SqlConstraint ''workflow_state_rule_assignments_fkey''), s)
     else (Inr (), s\<lparr>rule_assignments := update_where p
            (\<lambda>b. b\<lparr>ra_RuleSetID := ra_RuleSetID a, ra_Required := ra_Required a, ra_Active := ra_Active a,
                   ra_DisplayOrder := ra_DisplayOrder a, ra_UpdatedAt := trunc_micros now\<rparr>) (rule_assignments s)\<rparr>))"

definition rule_assignment_Delete :: "uuid \<Rightarrow> uuid \<Rightarrow> ('s rules_db_scheme, unit) tx" where
  "rule_assignment_Delete orgID i = tx_modify (\<lambda>s. s\<lparr>rule_assignments :=
     filter (\<lambda>a. \<not> rule_assignment_at orgID i a) (rule_assignments s)\<rparr>)"

end
