(* ===== verification/Rule_Service.thy ===== *)
theory Rule_Service
  imports Rule_Store
begin

section \<open>The rule set service\<close>

text \<open>
  internal/rules/application/service.go: the life cycle of rule sets, their evaluation on
  given facts, and rule templates. What an operation reads before its transaction it reads
  from the committed store; the form service is the field discoverer.
\<close>

record 's RuleSetService =
  rulesAuditor :: "'s auditor"
  fieldDiscoverer :: bool

definition rules_app :: "string \<Rightarrow> go_error" where
  "rules_app m = Err (''rules/application: '' @ m)"

abbreviation (input) "aErrRuleSetNotFound \<equiv> rules_app ''rule set not found''"
abbreviation (input) "aErrRuleSetInvalid \<equiv> rules_app ''rule set is invalid''"
abbreviation (input) "aErrRuleSetNotDraft \<equiv> rules_app ''rule set is not a draft''"
abbreviation (input) "aErrRuleSetNotPublished \<equiv> rules_app ''rule set is not published''"
abbreviation (input) "aErrRuleSetArchived \<equiv> rules_app ''rule set is archived''"
abbreviation (input) "aErrRuleSetKeyExists \<equiv> rules_app ''rule set key already exists''"
abbreviation (input) "aErrInvalidOutcome \<equiv> rules_app ''invalid outcome''"
abbreviation (input) "aErrEvaluationNotFound \<equiv> rules_app ''evaluation not found''"
abbreviation (input) "aErrInvalidTrigger \<equiv> rules_app ''invalid trigger''"
abbreviation (input) "aErrRuleTemplateNotFound \<equiv> rules_app ''rule template not found''"
abbreviation (input) "aErrRuleTemplateInvalid \<equiv> rules_app ''rule template is invalid''"
abbreviation (input) "aErrRuleTemplateKeyExists \<equiv> rules_app ''rule template key already exists''"

definition rs_status_string :: "RuleSetStatus \<Rightarrow> string" where
  "rs_status_string st = (case st of StatusDraft \<Rightarrow> ''DRAFT'' | StatusPublished \<Rightarrow> ''PUBLISHED'' | StatusArchived \<Rightarrow> ''ARCHIVED'')"

definition isValidDefaultOutcome :: "Outcome \<Rightarrow> bool" where
  "isValidDefaultOutcome o' \<longleftrightarrow> o' \<in> {OutcomeEligible, OutcomeIneligible, OutcomeRequiresReview,
     OutcomeInformationRequired, OutcomeFlag, OutcomeScore}"

definition svc_validateKey :: "string \<Rightarrow> go_error option" where
  "svc_validateKey key = first_error
     [unless (key \<noteq> []) (Err ''key is required''),
      unless (length key \<le> 100) (Err ''key exceeds maximum length of 100 characters'')]"

definition svc_validateName :: "string \<Rightarrow> go_error option" where
  "svc_validateName name = first_error
     [unless (name \<noteq> []) (Err ''name is required''),
      unless (length name \<le> 200) (Err ''name exceeds maximum length of 200 characters'')]"

definition svc_validateDescription :: "string \<Rightarrow> go_error option" where
  "svc_validateDescription desc =
     unless (length desc \<le> 2000) (Err ''description exceeds maximum length of 2000 characters'')"

definition rule_audit :: "'s rules_db_scheme RuleSetService \<Rightarrow> ctx \<Rightarrow> uuid \<Rightarrow> uuid \<Rightarrow> string \<Rightarrow> uuid
    \<Rightarrow> (string \<times> goval) list \<Rightarrow> ('s rules_db_scheme, unit) tx" where
  "rule_audit svc c orgID actorID action i meta = tx_map_error (Wrap ''failed to record audit event'')
     (RecordAuditEventInTx (rulesAuditor svc) (audit_params c orgID actorID action ''ruleset'' i meta))"

subsection \<open>Rule sets\<close>

record CreateRuleSetParams =
  cr_OrganizationID :: uuid
  cr_CaseID :: "uuid option"
  cr_Key :: string
  cr_Name :: string
  cr_Description :: string
  cr_DefaultOutcome :: Outcome
  cr_Rules :: "Rule list"
  cr_Triggers :: "string list"
  cr_ActorID :: uuid

definition key_conflict :: "go_error \<Rightarrow> go_error" where
  "key_conflict e = (if isUniqueViolation e then Wrap ''key'' aErrRuleSetKeyExists
     else Wrap ''failed to save rule set'' e)"

definition CreateRuleSet :: "regexp \<Rightarrow> 's rules_db_scheme RuleSetService \<Rightarrow> ctx \<Rightarrow> 's rules_db_scheme
    \<Rightarrow> CreateRuleSetParams \<Rightarrow> ('s rules_db_scheme, RuleSet) tx" where
  "CreateRuleSet re svc c committed p =
     tx_seq (tx_check id (first_error
        [unless (cr_OrganizationID p \<noteq> uuid_nil) (Wrap ''organization_id is required'' aErrRuleSetInvalid),
         map_option (instead aErrRuleSetInvalid) (svc_validateKey (cr_Key p)),
         map_option (instead aErrRuleSetInvalid) (svc_validateName (cr_Name p)),
         map_option (instead aErrRuleSetInvalid) (svc_validateDescription (cr_Description p)),
         unless (isValidDefaultOutcome (cr_DefaultOutcome p)) (Wrap ''default outcome'' aErrInvalidOutcome)]))
    (tx_bind (tx_lift (optional dErrRuleSetNotFound ''failed to check duplicate key''
                (rule_set_FindByKey (cr_OrganizationID p) (cr_Key p) committed))) (\<lambda>existing.
     tx_seq (tx_guard (existing = None) (Wrap ''key'' aErrRuleSetKeyExists))
    (tx_bind (tx_read (instead aErrRuleSetInvalid)
        (NewRuleSet re c (Some (cr_OrganizationID p)) (cr_CaseID p) (cr_Key p) (cr_Name p) (cr_Description p)
           (cr_DefaultOutcome p) (cr_Rules p) (cr_Triggers p) (cr_ActorID p))) (\<lambda>rs.
     InTransaction
       (tx_seq (tx_map_error key_conflict (rule_set_Save rs))
       (tx_seq (rule_audit svc c (rs_OrganizationID rs) (cr_ActorID p) ''ruleset.created'' (rs_ID rs)
                  [(''key'', GString (rs_Key rs)), (''version'', GInt (rs_Version rs)),
                   (''status'', GString (rs_status_string (rs_Status rs)))])
         (tx_return rs)))))))"

text \<open>The rules and the triggers may be nil; the default outcome may be empty.\<close>

record UpdateRuleSetParams =
  ur_OrganizationID :: uuid
  ur_ID :: uuid
  ur_Name :: string
  ur_Description :: string
  ur_DefaultOutcome :: Outcome
  ur_Rules :: "Rule list option"
  ur_Triggers :: "string list option"
  ur_ActorID :: uuid

definition updated_rule_set :: "ctx \<Rightarrow> UpdateRuleSetParams \<Rightarrow> RuleSet \<Rightarrow> RuleSet" where
  "updated_rule_set c p rs = rs\<lparr>rs_Name := ur_Name p, rs_Description := ur_Description p,
     DefaultOutcome := (if ur_DefaultOutcome p \<noteq> OutcomeOther [] then ur_DefaultOutcome p else DefaultOutcome rs),
     Rules := (case ur_Rules p of None \<Rightarrow> Rules rs | Some rules \<Rightarrow> rules),
     Triggers := (case ur_Triggers p of None \<Rightarrow> Triggers rs | Some ts \<Rightarrow> ts), rs_UpdatedAt := ctx_time c 0\<rparr>"

definition UpdateRuleSet :: "regexp \<Rightarrow> 's rules_db_scheme RuleSetService \<Rightarrow> ctx \<Rightarrow> UpdateRuleSetParams
    \<Rightarrow> ('s rules_db_scheme, RuleSet) tx" where
  "UpdateRuleSet re svc c p =
     tx_seq (tx_check id (first_error
        [unless (ur_OrganizationID p \<noteq> uuid_nil) (Wrap ''organization_id is required'' aErrRuleSetInvalid),
         map_option (instead aErrRuleSetInvalid) (svc_validateName (ur_Name p)),
         map_option (instead aErrRuleSetInvalid) (svc_validateDescription (ur_Description p)),
         unless (ur_DefaultOutcome p \<noteq> OutcomeOther [] \<longrightarrow> isValidDefaultOutcome (ur_DefaultOutcome p))
           (Wrap ''default outcome'' aErrInvalidOutcome)]))
    (InTransaction
      (tx_bind (tx_map_error (instead aErrRuleSetNotFound) (FindByIDForUpdateTx (ur_OrganizationID p) (ur_ID p))) (\<lambda>rs.
       tx_seq (tx_guard (rs_Status rs = StatusDraft) (Wrap ''only draft rule sets can be modified'' aErrRuleSetNotDraft))
      (tx_seq (tx_guard (case ur_Rules p of None \<Rightarrow> True | Some rules \<Rightarrow> length rules \<le> MaxRulesPerRuleSet)
                 (Wrap ''maximum rules'' aErrRuleSetInvalid))
      (let rs' = updated_rule_set c p rs in
       tx_seq (tx_check (instead aErrRuleSetInvalid) (ValidateRuleSet re rs'))
      (tx_seq (tx_map_error (Wrap ''failed to update rule set'') (rule_set_Update (ctx_time c 1) rs'))
      (tx_seq (rule_audit svc c (rs_OrganizationID rs') (ur_ActorID p) ''ruleset.updated'' (rs_ID rs')
                 [(''version'', GInt (rs_Version rs')), (''status'', GString (rs_status_string (rs_Status rs')))])
        (tx_return rs'))))))))"

text \<open>Listing: the page is read first and filtered afterwards, and the total is what is left.\<close>

record ListRuleSetsParams =
  ls_OrganizationID :: uuid
  ls_CaseID :: "uuid option"
  ls_Key :: string
  ls_Status :: string
  ls_Limit :: int
  ls_Offset :: int

definition filterRuleSets :: "RuleSet list \<Rightarrow> string \<Rightarrow> string \<Rightarrow> RuleSet list" where
  "filterRuleSets items key status = filter (\<lambda>rs. (key = [] \<or> rs_Key rs = key)
     \<and> (status = [] \<or> rs_status_string (rs_Status rs) = status)) items"

definition ListRuleSets :: "ListRuleSetsParams \<Rightarrow> 's rules_db_scheme \<Rightarrow> go_error + RuleSet list \<times> nat" where
  "ListRuleSets p s =
     (let limit = clamp_page (ls_Limit p); offset = (if ls_Offset p < 0 then 0 else ls_Offset p);
          found = (if given_id (ls_CaseID p)
            then rule_set_ListByCase (ls_OrganizationID p) (the (ls_CaseID p)) limit offset s
            else rule_set_List (ls_OrganizationID p) limit offset s) in
      if ls_OrganizationID p = uuid_nil then Inl (Wrap ''organization_id is required'' aErrRuleSetInvalid)
      else (case found of
          Inl e \<Rightarrow> Inl (Wrap ''failed to list rule sets'' e)
        | Inr (items, _) \<Rightarrow> (let filtered = filterRuleSets items (ls_Key p) (ls_Status p)
                            in Inr (filtered, length filtered))))"

definition GetRuleSet :: "uuid \<Rightarrow> uuid \<Rightarrow> 's rules_db_scheme \<Rightarrow> go_error + RuleSet" where
  "GetRuleSet orgID i s = map_sum (instead aErrRuleSetNotFound) id (rule_set_FindByID orgID i s)"

definition GetRuleSetByKey :: "uuid \<Rightarrow> string \<Rightarrow> 's rules_db_scheme \<Rightarrow> go_error + RuleSet" where
  "GetRuleSetByKey orgID key s = map_sum (instead aErrRuleSetNotFound) id (rule_set_FindByKey orgID key s)"

definition ListRuleSetVersions :: "uuid \<Rightarrow> string \<Rightarrow> int \<Rightarrow> int \<Rightarrow> 's rules_db_scheme \<Rightarrow> go_error + RuleSet list \<times> nat" where
  "ListRuleSetVersions orgID key limit offset s =
     (if orgID = uuid_nil then Inl (Wrap ''organization_id is required'' aErrRuleSetInvalid)
      else if key = [] then Inl (Wrap ''key is required'' aErrRuleSetInvalid)
      else map_sum (Wrap ''failed to list versions'') id (rule_set_ListVersions orgID key limit offset s))"

definition key_and_version :: "RuleSet \<Rightarrow> (string \<times> goval) list" where
  "key_and_version rs = [(''key'', GString (rs_Key rs)), (''version'', GInt (rs_Version rs))]"

definition CreateRuleSetVersion :: "'s rules_db_scheme RuleSetService \<Rightarrow> ctx \<Rightarrow> 's rules_db_scheme \<Rightarrow> uuid \<Rightarrow> uuid
    \<Rightarrow> uuid \<Rightarrow> ('s rules_db_scheme, RuleSet) tx" where
  "CreateRuleSetVersion svc c committed orgID i actorID =
     tx_bind (tx_read (instead aErrRuleSetNotFound) (rule_set_FindByID orgID i committed)) (\<lambda>current.
     let clone = (RuleSet_Clone c current)\<lparr>rs_Status := StatusDraft, rs_UpdatedAt := ctx_time c 0\<rparr> in
     InTransaction
       (tx_seq (tx_map_error (Wrap ''failed to save new version'') (rule_set_Save clone))
       (tx_seq (rule_audit svc c (rs_OrganizationID clone) actorID ''ruleset.version_created'' (rs_ID clone)
                  (key_and_version clone))
         (tx_return clone))))"

text \<open>Publishing and archiving: the guarded update, whose not-found error means a concurrent change.\<close>

definition change_rule_set_status :: "'s rules_db_scheme RuleSetService \<Rightarrow> ctx \<Rightarrow> RuleSetStatus \<Rightarrow> RuleSetStatus
    \<Rightarrow> go_error \<Rightarrow> string \<Rightarrow> uuid \<Rightarrow> uuid \<Rightarrow> uuid \<Rightarrow> RuleSet \<Rightarrow> ('s rules_db_scheme, RuleSet) tx" where
  "change_rule_set_status svc c old to changed action orgID i actorID rs =
     (let rs' = rs\<lparr>rs_Status := to, rs_UpdatedAt := ctx_time c 0\<rparr> in
      InTransaction
       (tx_seq (tx_map_error (\<lambda>e. if errors_Is e dErrRuleSetNotFound then Wrap ''status changed concurrently'' changed
                   else Wrap ''failed to change the status'' e)
                  (rule_set_UpdateStatus (ctx_time c 1) orgID i old to))
       (tx_seq (rule_audit svc c (rs_OrganizationID rs') actorID action (rs_ID rs') (key_and_version rs'))
         (tx_return rs'))))"

definition PublishRuleSet :: "regexp \<Rightarrow> 's rules_db_scheme RuleSetService \<Rightarrow> ctx \<Rightarrow> 's rules_db_scheme \<Rightarrow> uuid \<Rightarrow> uuid
    \<Rightarrow> uuid \<Rightarrow> ('s rules_db_scheme, RuleSet) tx" where
  "PublishRuleSet re svc c committed orgID i actorID =
     tx_bind (tx_read (instead aErrRuleSetNotFound) (rule_set_FindByID orgID i committed)) (\<lambda>rs.
     tx_seq (tx_guard (rs_Status rs = StatusDraft) (Wrap ''only draft rule sets can be published'' aErrRuleSetNotDraft))
    (tx_seq (tx_check (instead aErrRuleSetInvalid) (ValidateRuleSet re rs))
      (change_rule_set_status svc c StatusDraft StatusPublished aErrRuleSetNotDraft ''ruleset.published'' orgID i actorID rs)))"

definition ArchiveRuleSet :: "'s rules_db_scheme RuleSetService \<Rightarrow> ctx \<Rightarrow> 's rules_db_scheme \<Rightarrow> uuid \<Rightarrow> uuid
    \<Rightarrow> uuid \<Rightarrow> ('s rules_db_scheme, RuleSet) tx" where
  "ArchiveRuleSet svc c committed orgID i actorID =
     tx_bind (tx_read (instead aErrRuleSetNotFound) (rule_set_FindByID orgID i committed)) (\<lambda>rs.
     tx_seq (tx_guard (rs_Status rs \<noteq> StatusArchived) (Wrap ''already archived'' aErrRuleSetArchived))
    (tx_seq (tx_guard (rs_Status rs = StatusPublished) (Wrap ''only published rule sets can be archived'' aErrRuleSetArchived))
      (change_rule_set_status svc c StatusPublished StatusArchived aErrRuleSetArchived ''ruleset.archived'' orgID i actorID rs)))"

definition DeleteRuleSet :: "'s rules_db_scheme RuleSetService \<Rightarrow> ctx \<Rightarrow> uuid \<Rightarrow> uuid \<Rightarrow> uuid
    \<Rightarrow> ('s rules_db_scheme, unit) tx" where
  "DeleteRuleSet svc c orgID i actorID = InTransaction
     (tx_bind (tx_map_error (instead aErrRuleSetNotFound) (FindByIDForUpdateTx orgID i)) (\<lambda>rs.
      tx_seq (tx_guard (rs_Status rs = StatusDraft) (Wrap ''only draft rule sets can be deleted'' aErrRuleSetNotDraft))
     (tx_seq (tx_map_error (Wrap ''failed to delete rule set'') (rule_set_Delete orgID i))
       (rule_audit svc c (rs_OrganizationID rs) actorID ''ruleset.deleted'' (rs_ID rs) (key_and_version rs)))))"

subsection \<open>Evaluation\<close>

record EvaluateRuleSetParams =
  ep_OrganizationID :: uuid
  ep_ID :: uuid
  ep_CaseID :: "uuid option"
  ep_Facts :: "facts option"
  ep_Trigger :: Trigger
  ep_ActorID :: "uuid option"
  ep_EvaluatedAt :: "instant option"

definition outcome_string :: "Outcome \<Rightarrow> string" where
  "outcome_string o' = (case o' of OutcomeEligible \<Rightarrow> ''ELIGIBLE'' | OutcomeIneligible \<Rightarrow> ''INELIGIBLE''
     | OutcomeRequiresReview \<Rightarrow> ''REQUIRES_REVIEW'' | OutcomeInformationRequired \<Rightarrow> ''INFORMATION_REQUIRED''
     | OutcomeFlag \<Rightarrow> ''FLAG'' | OutcomeScore \<Rightarrow> ''SCORE'' | OutcomeError \<Rightarrow> ''ERROR'' | OutcomeOther s \<Rightarrow> s)"

definition evaluation_status_string :: "EvaluationStatus \<Rightarrow> string" where
  "evaluation_status_string st = (case st of StatusEligible \<Rightarrow> ''ELIGIBLE'' | StatusIneligible \<Rightarrow> ''INELIGIBLE''
     | StatusRequiresReview \<Rightarrow> ''REQUIRES_REVIEW'' | StatusInformationRequired \<Rightarrow> ''INFORMATION_REQUIRED''
     | StatusFlag \<Rightarrow> ''FLAG'' | StatusScore \<Rightarrow> ''SCORE'' | StatusError \<Rightarrow> ''ERROR'')"

text \<open>
  The evaluation recorded for a rule set that does not validate; its reason goes on with the text
  of the validation error, which is left out like the texts of errors elsewhere.
\<close>

definition invalid_evaluation :: "ctx \<Rightarrow> RuleSet \<Rightarrow> uuid \<Rightarrow> uuid option \<Rightarrow> facts \<Rightarrow> instant \<Rightarrow> uuid option \<Rightarrow> Trigger
    \<Rightarrow> Evaluation" where
  "invalid_evaluation c rs orgID caseID facts evaluatedAt evaluatedBy trigger =
     \<lparr>ev_ID = ctx_uuid c 0, ev_RuleSetID = rs_ID rs, ev_RuleSetVersion = rs_Version rs, ev_OrganizationID = orgID,
      ev_CaseID = caseID, ev_Status = StatusError, ev_Outcome = OutcomeError,
      ev_Reason = Some ''rule set validation failed'', ev_MatchedRuleID = None, ev_Trace = [], ev_Trigger = trigger,
      ev_EvaluatedBy = evaluatedBy, ev_EvaluatedAt = evaluatedAt, ev_FactsSnapshot = facts\<rparr>"

definition evaluation_action :: "Trigger \<Rightarrow> string" where
  "evaluation_action trigger = (if trigger = TriggerAutomatic then ''evaluation.automatic'' else ''evaluation.manual'')"

definition evaluation_meta :: "RuleSet \<Rightarrow> Evaluation \<Rightarrow> (string \<times> goval) list" where
  "evaluation_meta rs ev = [(''rule_set_id'', GString (uuid_string (rs_ID rs))), (''rule_set_version'', GInt (rs_Version rs)),
       (''key'', GString (rs_Key rs))]
     @ (case ev_MatchedRuleID ev of None \<Rightarrow> [] | Some i \<Rightarrow> [(''matched_rule_id'', GString (uuid_string i))])
     @ [(''outcome'', GString (outcome_string (ev_Outcome ev))),
        (''status'', GString (evaluation_status_string (ev_Status ev)))]"

definition evaluation_audit_params :: "ctx \<Rightarrow> uuid option \<Rightarrow> Evaluation \<Rightarrow> (string \<times> goval) list \<Rightarrow> RecordEventParams" where
  "evaluation_audit_params c actorID ev meta = (audit_params c (ev_OrganizationID ev) uuid_nil
     (evaluation_action (ev_Trigger ev)) ''evaluation'' (ev_ID ev) meta)\<lparr>rp_ActorID := actorID\<rparr>"

text \<open>The defaults of a request: a manual trigger, the present time, no facts.\<close>

definition requested_trigger :: "EvaluateRuleSetParams \<Rightarrow> Trigger" where
  "requested_trigger p = (if ep_Trigger p = TriggerOther [] then TriggerManual else ep_Trigger p)"

definition requested_time :: "ctx \<Rightarrow> EvaluateRuleSetParams \<Rightarrow> instant" where
  "requested_time c p = (case ep_EvaluatedAt p of None \<Rightarrow> ctx_time c 0 | Some t \<Rightarrow> t)"

definition requested_facts :: "EvaluateRuleSetParams \<Rightarrow> facts" where
  "requested_facts p = (case ep_Facts p of None \<Rightarrow> [] | Some fs \<Rightarrow> fs)"

definition requested_evaluation :: "regexp \<Rightarrow> (Rule list \<Rightarrow> Rule list) \<Rightarrow> ctx \<Rightarrow> EvaluateRuleSetParams \<Rightarrow> RuleSet
    \<Rightarrow> Evaluation" where
  "requested_evaluation re srt c p rs =
     (let ev = Evaluate re srt c rs (requested_facts p) (requested_time c p) (ep_ActorID p) (requested_trigger p)
      in if ep_CaseID p \<noteq> None then ev\<lparr>ev_CaseID := ep_CaseID p\<rparr> else ev)"

definition EvaluateRuleSet :: "(rat \<Rightarrow> string) \<Rightarrow> regexp \<Rightarrow> (Rule list \<Rightarrow> Rule list) \<Rightarrow> 's rules_db_scheme RuleSetService \<Rightarrow> ctx
    \<Rightarrow> 's rules_db_scheme \<Rightarrow> EvaluateRuleSetParams \<Rightarrow> ('s rules_db_scheme, Evaluation) tx" where
  "EvaluateRuleSet nt re srt svc c committed p =
     tx_bind (tx_read (instead aErrRuleSetNotFound) (rule_set_FindByID (ep_OrganizationID p) (ep_ID p) committed)) (\<lambda>rs.
     tx_seq (tx_guard (rs_Status rs \<noteq> StatusArchived) (Wrap ''rule set is archived'' aErrRuleSetArchived))
    (tx_seq (tx_guard (rs_Status rs = StatusPublished)
               (Wrap ''only published rule sets can be evaluated'' aErrRuleSetNotPublished))
    (tx_seq (tx_guard (requested_trigger p = TriggerManual \<or> requested_trigger p = TriggerAutomatic) aErrInvalidTrigger)
    (if ValidateRuleSet re rs \<noteq> None
     then (let ev = invalid_evaluation c rs (rs_OrganizationID rs) (rs_CaseID rs) (requested_facts p) (requested_time c p)
                      (ep_ActorID p) (requested_trigger p) in
       InTransaction (tx_seq (tx_map_error (Wrap ''failed to save evaluation'') (evaluation_Save nt ev)) (tx_return ev)))
     else (let ev = requested_evaluation re srt c p rs in
       InTransaction
        (tx_seq (tx_map_error (Wrap ''failed to save evaluation'') (evaluation_Save nt ev))
        (tx_seq (tx_map_error (Wrap ''failed to record audit event'') (RecordAuditEventInTx (rulesAuditor svc)
                   (evaluation_audit_params c (ep_ActorID p) ev (evaluation_meta rs ev))))
          (tx_return ev))))))))"

definition GetEvaluation :: "uuid \<Rightarrow> uuid \<Rightarrow> 's rules_db_scheme \<Rightarrow> go_error + Evaluation" where
  "GetEvaluation orgID i s = map_sum (instead aErrEvaluationNotFound) id (evaluation_FindByID orgID i s)"

definition ListEvaluationsByRuleSet :: "uuid \<Rightarrow> uuid \<Rightarrow> int \<Rightarrow> int \<Rightarrow> 's rules_db_scheme
    \<Rightarrow> go_error + Evaluation list \<times> nat" where
  "ListEvaluationsByRuleSet orgID ruleSetID limit offset s = map_sum (Wrap ''failed to list evaluations'') id
     (evaluation_ListByRuleSet orgID ruleSetID (clamp_page limit) (if offset < 0 then 0 else offset) s)"

definition ListEvaluationsByCase :: "uuid \<Rightarrow> uuid \<Rightarrow> int \<Rightarrow> int \<Rightarrow> 's rules_db_scheme
    \<Rightarrow> go_error + Evaluation list \<times> nat" where
  "ListEvaluationsByCase orgID caseID limit offset s = map_sum (Wrap ''failed to list evaluations by case'') id
     (evaluation_ListByCase orgID caseID (clamp_page limit) (if offset < 0 then 0 else offset) s)"

definition ListRuleFields :: "'s rules_db_scheme RuleSetService \<Rightarrow> uuid \<Rightarrow> 's rules_db_scheme \<Rightarrow> go_error + FormFieldView list" where
  "ListRuleFields svc orgID s = (if fieldDiscoverer svc then ListDiscoverableFields orgID s
     else Inl (Err ''field discovery is not configured''))"

subsection \<open>Templates\<close>

record CreateRuleTemplateParams =
  ct_OrganizationID :: uuid
  ct_Scope :: RuleTemplateScope
  ct_Key :: string
  ct_Name :: string
  ct_Description :: string
  ct_Category :: string
  ct_Rule :: Rule
  ct_ActorID :: uuid

definition template_audit :: "'s rules_db_scheme RuleSetService \<Rightarrow> ctx \<Rightarrow> uuid \<Rightarrow> uuid \<Rightarrow> string \<Rightarrow> uuid
    \<Rightarrow> (string \<times> goval) list \<Rightarrow> ('s rules_db_scheme, unit) tx" where
  "template_audit svc c orgID actorID action i meta = tx_map_error (Wrap ''failed to record audit event'')
     (RecordAuditEventInTx (rulesAuditor svc) (audit_params c orgID actorID action ''ruletemplate'' i meta))"

definition CreateRuleTemplate :: "regexp \<Rightarrow> 's rules_db_scheme RuleSetService \<Rightarrow> ctx \<Rightarrow> 's rules_db_scheme
    \<Rightarrow> CreateRuleTemplateParams \<Rightarrow> ('s rules_db_scheme, RuleTemplate) tx" where
  "CreateRuleTemplate re svc c committed p =
     tx_seq (tx_check id (first_error
        [unless (ct_Scope p = RuleTemplateScopeOrg \<longrightarrow> ct_OrganizationID p \<noteq> uuid_nil)
           (Wrap ''organization_id required for org scope'' aErrRuleTemplateInvalid),
         unless (ct_Scope p = RuleTemplateScopeGlobal \<longrightarrow> ct_OrganizationID p = uuid_nil)
           (Wrap ''organization_id must be nil for global scope'' aErrRuleTemplateInvalid),
         map_option (instead aErrRuleTemplateInvalid) (ValidateRuleTemplateKey (ct_Key p)),
         unless (ct_Name p \<noteq> []) (Wrap ''name is required'' aErrRuleTemplateInvalid),
         unless (length (ct_Name p) \<le> 200) (Wrap ''name exceeds maximum length'' aErrRuleTemplateInvalid),
         unless (length (ct_Description p) \<le> 2000) (Wrap ''description exceeds maximum length'' aErrRuleTemplateInvalid),
         unless (length (ct_Category p) \<le> 100) (Wrap ''category exceeds maximum length'' aErrRuleTemplateInvalid),
         unless (IsValidOutcome (rule_Outcome (ct_Rule p))) (Wrap ''invalid rule outcome'' aErrRuleTemplateInvalid),
         map_option (instead aErrRuleTemplateInvalid) (ValidateCondition re (Conditions (ct_Rule p)) 0)]))
    (tx_seq (tx_guard (template_CountByKey (ct_OrganizationID p) (ct_Key p) committed = 0)
               (Wrap ''key'' aErrRuleTemplateKeyExists))
    (tx_bind (tx_read (instead aErrRuleTemplateInvalid)
        (NewRuleTemplate re c (ct_Scope p) (if ct_Scope p = RuleTemplateScopeOrg then Some (ct_OrganizationID p) else None)
           (ct_Key p) (ct_Name p) (ct_Description p) (ct_Category p) (ct_Rule p) (ct_ActorID p))) (\<lambda>rt.
     InTransaction
       (tx_seq (tx_map_error (Wrap ''failed to save rule template'') (template_Save rt))
       (tx_seq (template_audit svc c (ct_OrganizationID p) (ct_ActorID p) ''ruletemplate.created'' (rt_ID rt)
                  [(''key'', GString (rt_Key rt)), (''scope'', GString (scope_string (rt_Scope rt))),
                   (''category'', GString (rt_Category rt))])
         (tx_return rt))))))"

text \<open>The global list takes limit and offset as they are.\<close>

record ListRuleTemplatesParams =
  lt_OrganizationID :: uuid
  lt_Scope :: RuleTemplateScope
  lt_Category :: string
  lt_Limit :: int
  lt_Offset :: int

definition ListRuleTemplates :: "ListRuleTemplatesParams \<Rightarrow> 's rules_db_scheme \<Rightarrow> go_error + RuleTemplate list \<times> nat" where
  "ListRuleTemplates p s =
     (if lt_Scope p = RuleTemplateScopeGlobal then template_ListGlobal (lt_Category p) (lt_Limit p) (lt_Offset p) s
      else if lt_OrganizationID p = uuid_nil
        then Inl (Wrap ''organization_id required for org scope'' aErrRuleTemplateInvalid)
      else template_List (lt_OrganizationID p) (lt_Scope p) (lt_Category p) (clamp_page (lt_Limit p))
             (if lt_Offset p < 0 then 0 else lt_Offset p) s)"

definition GetRuleTemplate :: "uuid \<Rightarrow> uuid \<Rightarrow> 's rules_db_scheme \<Rightarrow> go_error + RuleTemplate" where
  "GetRuleTemplate orgID i s = map_sum (instead aErrRuleTemplateNotFound) id (template_FindByID orgID i s)"

definition GetRuleTemplateByKey :: "uuid \<Rightarrow> string \<Rightarrow> 's rules_db_scheme \<Rightarrow> go_error + RuleTemplate" where
  "GetRuleTemplateByKey orgID key s = map_sum (instead aErrRuleTemplateNotFound) id (template_FindByKey orgID key s)"

definition DeleteRuleTemplate :: "'s rules_db_scheme RuleSetService \<Rightarrow> ctx \<Rightarrow> 's rules_db_scheme \<Rightarrow> uuid \<Rightarrow> uuid \<Rightarrow> uuid
    \<Rightarrow> ('s rules_db_scheme, unit) tx" where
  "DeleteRuleTemplate svc c committed orgID i actorID =
     tx_bind (tx_read (instead aErrRuleTemplateNotFound) (template_FindByID orgID i committed)) (\<lambda>rt.
     InTransaction
       (tx_seq (tx_map_error (Wrap ''failed to delete rule template'') (template_Delete orgID i))
         (template_audit svc c orgID actorID ''ruletemplate.deleted'' (rt_ID rt) [(''key'', GString (rt_Key rt))])))"

definition InstantiateRuleTemplate :: "ctx \<Rightarrow> uuid \<Rightarrow> uuid \<Rightarrow> 's rules_db_scheme \<Rightarrow> go_error + Rule" where
  "InstantiateRuleTemplate c orgID templateID s = (case template_FindByID orgID templateID s of
     Inl e \<Rightarrow> Inl (instead aErrRuleTemplateNotFound e)
   | Inr rt \<Rightarrow> Inr ((rt_Rule rt)\<lparr>rule_ID := ctx_uuid c 0, rule_CreatedAt := ctx_time c 0\<rparr>))"

end
