(* ===== verification/Rule_Assignments.thy ===== *)
theory Rule_Assignments
  imports Rule_Service
begin

section \<open>The rule assignment service\<close>

text \<open>
  internal/rules/application/rule_assignment_service.go: which rule sets are evaluated at which
  state of a workflow. A rule set is looked up in the organization before it is assigned; the
  workflow and its state are not.
\<close>

abbreviation (input) "ErrRuleAssignmentNotFound \<equiv> Err ''rule assignment not found''"
abbreviation (input) "ErrRuleAssignmentConflict \<equiv> Err ''rule assignment conflict''"

record CreateRuleAssignmentParams =
  cra_OrganizationID :: uuid
  cra_WorkflowDefID :: uuid
  cra_WorkflowStateKey :: string
  cra_RuleSetID :: uuid
  cra_Required :: bool
  cra_Active :: bool
  cra_DisplayOrder :: int
  cra_ActorID :: uuid

definition rule_assignment_audit :: "'s rules_db_scheme auditor \<Rightarrow> ctx \<Rightarrow> uuid \<Rightarrow> uuid \<Rightarrow> string \<Rightarrow> uuid
    \<Rightarrow> goval \<Rightarrow> ('s rules_db_scheme, unit) tx" where
  "rule_assignment_audit auditor c actorID orgID action i meta = RecordAuditEventInTx auditor
     ((audit_params c orgID actorID action ''rule_assignment'' i [])\<lparr>rp_Metadata := meta\<rparr>)"

definition rule_assignment_conflict :: "string \<Rightarrow> go_error \<Rightarrow> go_error" where
  "rule_assignment_conflict msg e = (if isUniqueViolation e then instead ErrRuleAssignmentConflict e else Wrap msg e)"

definition new_rule_assignment :: "ctx \<Rightarrow> CreateRuleAssignmentParams \<Rightarrow> WorkflowStateRuleAssignment" where
  "new_rule_assignment c p = \<lparr>ra_ID = ctx_uuid c 0, ra_OrganizationID = cra_OrganizationID p,
     ra_WorkflowDefID = cra_WorkflowDefID p, ra_WorkflowStateKey = cra_WorkflowStateKey p,
     ra_RuleSetID = cra_RuleSetID p, ra_Required = cra_Required p, ra_Active = cra_Active p,
     ra_DisplayOrder = cra_DisplayOrder p, ra_CreatedAt = ctx_time c 0, ra_UpdatedAt = ctx_time c 0\<rparr>"

text \<open>SaveTx overwrites the two times with a later reading of the clock.\<close>

definition CreateRuleAssignment :: "'s rules_db_scheme auditor \<Rightarrow> ctx \<Rightarrow> 's rules_db_scheme
    \<Rightarrow> CreateRuleAssignmentParams \<Rightarrow> ('s rules_db_scheme, WorkflowStateRuleAssignment) tx" where
  "CreateRuleAssignment auditor c committed p =
     tx_seq (tx_check id (first_error
        [unless (cra_OrganizationID p \<noteq> uuid_nil) (Wrap ''organization_id is required'' aErrRuleSetInvalid),
         unless (cra_WorkflowDefID p \<noteq> uuid_nil) (Wrap ''workflow_definition_id is required'' aErrRuleSetInvalid),
         unless (cra_WorkflowStateKey p \<noteq> []) (Wrap ''workflow_state_key is required'' aErrRuleSetInvalid),
         unless (cra_RuleSetID p \<noteq> uuid_nil) (Wrap ''rule_set_id is required'' aErrRuleSetInvalid),
         unless (0 \<le> cra_DisplayOrder p) (Wrap ''display_order must be non-negative'' aErrRuleSetInvalid)]))
    (tx_bind (tx_read (instead aErrRuleSetNotFound)
        (rule_set_FindByID (cra_OrganizationID p) (cra_RuleSetID p) committed)) (\<lambda>_.
     let a = new_rule_assignment c p in
     tx_seq (tx_check (instead aErrRuleSetInvalid) (assignment_Validate a))
    (InTransaction
       (tx_seq (tx_map_error (rule_assignment_conflict ''failed to save rule assignment'')
                  (rule_assignment_Save (ctx_time c 1) a))
       (tx_seq (rule_assignment_audit auditor c (cra_ActorID p) (ra_OrganizationID a) ''rule_assignment.created'' (ra_ID a)
                  (GObject [(''workflow_definition_id'', GString (uuid_string (ra_WorkflowDefID a))),
                   (''workflow_state_key'', GString (ra_WorkflowStateKey a)),
                   (''rule_set_id'', GString (uuid_string (ra_RuleSetID a)))]))
         (tx_return (a\<lparr>ra_CreatedAt := ctx_time c 1, ra_UpdatedAt := ctx_time c 1\<rparr>)))))))"

record UpdateRuleAssignmentParams =
  ura_OrganizationID :: uuid
  ura_ID :: uuid
  ura_RuleSetID :: "uuid option"
  ura_Required :: "bool option"
  ura_Active :: "bool option"
  ura_DisplayOrder :: "int option"
  ura_ActorID :: uuid

definition or_else :: "'a option \<Rightarrow> 'a \<Rightarrow> 'a" where
  "or_else given_value current = (case given_value of None \<Rightarrow> current | Some v \<Rightarrow> v)"

definition updated_rule_assignment :: "ctx \<Rightarrow> UpdateRuleAssignmentParams \<Rightarrow> WorkflowStateRuleAssignment
    \<Rightarrow> WorkflowStateRuleAssignment" where
  "updated_rule_assignment c p a = a\<lparr>ra_RuleSetID := or_else (ura_RuleSetID p) (ra_RuleSetID a),
     ra_Required := or_else (ura_Required p) (ra_Required a), ra_Active := or_else (ura_Active p) (ra_Active a),
     ra_DisplayOrder := or_else (ura_DisplayOrder p) (ra_DisplayOrder a), ra_UpdatedAt := ctx_time c 0\<rparr>"

definition UpdateRuleAssignment :: "'s rules_db_scheme auditor \<Rightarrow> ctx \<Rightarrow> 's rules_db_scheme
    \<Rightarrow> UpdateRuleAssignmentParams \<Rightarrow> ('s rules_db_scheme, WorkflowStateRuleAssignment) tx" where
  "UpdateRuleAssignment auditor c committed p =
     tx_seq (tx_check id (first_error
        [unless (ura_OrganizationID p \<noteq> uuid_nil) (Wrap ''organization_id is required'' aErrRuleSetInvalid),
         unless (ura_ID p \<noteq> uuid_nil) (Wrap ''id is required'' aErrRuleSetInvalid)]))
    (tx_bind (tx_read (instead ErrRuleAssignmentNotFound)
        (rule_assignment_FindByID (ura_OrganizationID p) (ura_ID p) committed)) (\<lambda>found.
     tx_seq (case ura_RuleSetID p of
         None \<Rightarrow> tx_return ()
       | Some i \<Rightarrow> tx_bind (tx_read (instead aErrRuleSetNotFound) (rule_set_FindByID (ura_OrganizationID p) i committed))
           (\<lambda>_. tx_return ()))
    (let a = updated_rule_assignment c p found in
     tx_seq (tx_check (instead aErrRuleSetInvalid) (assignment_Validate a))
    (InTransaction
       (tx_seq (tx_map_error (rule_assignment_conflict ''failed to update rule assignment'')
                  (rule_assignment_Update (ctx_time c 1) a))
       (tx_seq (rule_assignment_audit auditor c (ura_ActorID p) (ra_OrganizationID a) ''rule_assignment.updated'' (ra_ID a)
                  (GObject [(''rule_set_id'', GString (uuid_string (ra_RuleSetID a))),
                   (''display_order'', GInt (ra_DisplayOrder a))]))
         (tx_return (a\<lparr>ra_UpdatedAt := ctx_time c 1\<rparr>))))))))"

definition GetRuleAssignment :: "uuid \<Rightarrow> uuid \<Rightarrow> 's rules_db_scheme \<Rightarrow> go_error + WorkflowStateRuleAssignment" where
  "GetRuleAssignment orgID i s =
     (if orgID = uuid_nil then Inl (Wrap ''organization_id is required'' aErrRuleSetInvalid)
      else map_sum (instead ErrRuleAssignmentNotFound) id (rule_assignment_FindByID orgID i s))"

definition ListRuleAssignments :: "uuid \<Rightarrow> uuid \<Rightarrow> 's rules_db_scheme \<Rightarrow> go_error + WorkflowStateRuleAssignment list" where
  "ListRuleAssignments orgID defID s =
     (if orgID = uuid_nil then Inl (Wrap ''organization_id is required'' aErrRuleSetInvalid)
      else if defID = uuid_nil then Inl (Wrap ''workflow_definition_id is required'' aErrRuleSetInvalid)
      else Inr (rule_assignment_ListByWorkflow orgID defID s))"

definition DeleteRuleAssignment :: "'s rules_db_scheme auditor \<Rightarrow> ctx \<Rightarrow> 's rules_db_scheme \<Rightarrow> uuid \<Rightarrow> uuid \<Rightarrow> uuid
    \<Rightarrow> ('s rules_db_scheme, unit) tx" where
  "DeleteRuleAssignment auditor c committed orgID i actorID =
     tx_seq (tx_check id (first_error
        [unless (orgID \<noteq> uuid_nil) (Wrap ''organization_id is required'' aErrRuleSetInvalid),
         unless (i \<noteq> uuid_nil) (Wrap ''id is required'' aErrRuleSetInvalid)]))
    (tx_bind (tx_read (instead ErrRuleAssignmentNotFound) (rule_assignment_FindByID orgID i committed)) (\<lambda>_.
     InTransaction
       (tx_seq (tx_map_error (Wrap ''failed to delete rule assignment'') (rule_assignment_Delete orgID i))
         (rule_assignment_audit auditor c actorID orgID ''rule_assignment.deleted'' i GNil))))"

end
