(* ===== verification/Case_Service.thy ===== *)
theory Case_Service
  imports Case_Store
begin

section \<open>The case service\<close>

text \<open>
  internal/cases/application/service.go. The collaborators of a CaseService are the fields of
  a record: the auditor, the lookup of a person's organization, the optional user checker, the
  auditor of the workflow service (\<open>wfAvailable\<close> tells whether there is one), whether
  SetFormRepos was called, and the optional evaluation of rules after a transition. Reads
  outside a transaction see the committed store.
\<close>

record 's CaseService =
  caseAuditor :: "'s auditor"
  personFinder :: "uuid \<Rightarrow> uuid \<Rightarrow> go_error + uuid"
  userChecker :: "(uuid \<Rightarrow> uuid \<Rightarrow> go_error + bool) option"
  wfAvailable :: bool
  wfAuditor :: "'s auditor"
  formRepos :: bool
  ruleIntegration :: "(uuid \<Rightarrow> uuid \<Rightarrow> ('s, unit) tx) option"

abbreviation (input) "ErrCaseNotFound \<equiv> cases_app ''case not found''"
abbreviation (input) "ErrCaseInvalidInput \<equiv> cases_app ''invalid input''"
abbreviation (input) "ErrCaseTransition \<equiv> cases_app ''invalid state transition''"
abbreviation (input) "ErrCaseTenantViolation \<equiv> cases_app ''user does not belong to organization''"
abbreviation (input) "ErrPersonNotFound \<equiv> cases_app ''person not found''"
abbreviation (input) "ErrPersonTenantViolation \<equiv> cases_app ''person does not belong to organization''"
abbreviation (input) "ErrWorkflowNotAvailable \<equiv> cases_app ''workflow engine not available for this operation''"
abbreviation (input) "cErrWorkflowInstanceNotFound \<equiv> cases_app ''workflow instance not found''"
abbreviation (input) "ErrFormNotAssigned \<equiv> cases_app ''form is not assigned to the current workflow state''"
abbreviation (input) "ErrFormNotPublished \<equiv> cases_app ''form version is not published''"
abbreviation (input) "ErrFormArchived \<equiv> cases_app ''form is archived''"
abbreviation (input) "ErrSubmissionExists \<equiv> cases_app ''submission already exists for this case and form version''"
abbreviation (input) "ErrRequiredFormsIncomplete \<equiv> Err ''required forms are not complete''"
abbreviation (input) "ErrFormServices \<equiv> Err ''form services not initialized''"

text \<open>The values drawn after the first \<open>n\<close> of a context: those of a call with its own sites.\<close>

definition later_ctx :: "nat \<Rightarrow> ctx \<Rightarrow> ctx" where
  "later_ctx n c = c\<lparr>ctx_uuid := (\<lambda>k. ctx_uuid c (n + k)), ctx_time := (\<lambda>k. ctx_time c (n + k))\<rparr>"

definition case_audit :: "'s case_db_scheme CaseService \<Rightarrow> ctx \<Rightarrow> uuid \<Rightarrow> uuid \<Rightarrow> string \<Rightarrow> uuid
    \<Rightarrow> (string \<times> goval) list \<Rightarrow> ('s case_db_scheme, unit) tx" where
  "case_audit svc c orgID actorID action caseID meta =
     RecordAuditEventInTx (caseAuditor svc) (audit_params c orgID actorID action ''case'' caseID meta)"

subsection \<open>Creating a case\<close>

record CreateCaseParams =
  cc_OrganizationID :: uuid
  cc_Title :: string
  cc_Description :: string
  cc_ServiceType :: string
  cc_Priority :: string
  cc_PersonID :: "uuid option"
  cc_CreatedByID :: uuid
  cc_WorkflowID :: "uuid option"

definition given_workflow :: "uuid option \<Rightarrow> bool" where
  "given_workflow w \<longleftrightarrow> (case w of None \<Rightarrow> False | Some i \<Rightarrow> i \<noteq> uuid_nil)"

text \<open>The workflow of the new case: the given one, or that of the service type.\<close>

definition choose_workflow :: "'s case_db_scheme CaseService \<Rightarrow> 's case_db_scheme \<Rightarrow> CreateCaseParams
    \<Rightarrow> go_error + uuid" where
  "choose_workflow svc committed p =
     (if given_workflow (cc_WorkflowID p) then Inr (the (cc_WorkflowID p))
      else if formRepos svc
      then (case FindByServiceType (cc_OrganizationID p) (cc_ServiceType p) committed of
              Inl e \<Rightarrow> Inl (instead ErrWorkflowNotAvailable e)
            | Inr def \<Rightarrow> if wd_ID def = uuid_nil then Inl (Wrap ''workflow_id is required'' ErrCaseInvalidInput)
                         else Inr (wd_ID def))
      else Inl (Wrap ''workflow_id is required'' ErrCaseInvalidInput))"

text \<open>
  After the case is saved: audit, workflow instance, mirror of its state. The instance is
  created for the workflow of the request, whose pointer may be nil.
\<close>

definition link_instance :: "ctx \<Rightarrow> Case \<Rightarrow> WorkflowInstance \<Rightarrow> ('s case_db_scheme, Case) tx" where
  "link_instance c cs i =
     (let cs1 = SyncStatusFromWorkflow (ctx_time c 2) (CurrentState i)
            (cs\<lparr>WorkflowInstanceID := Some (wi_ID i), WorkflowState := CurrentState i\<rparr>)
      in tx_seq (tx_map_error (Wrap ''failed to link workflow instance'')
                   (case_UpdateWorkflowInstanceID (ctx_time c 1) (cs_OrganizationID cs) (cs_ID cs) (wi_ID i)))
        (tx_seq (tx_map_error (Wrap ''failed to update case status'')
                   (case_UpdateStatus (ctx_time c 1) (cs_OrganizationID cs) (cs_ID cs) (cs_Status cs1) (cs_Version cs)))
          (tx_return (cs1\<lparr>cs_Version := cs_Version cs + 1\<rparr>))))"

definition after_save :: "'s case_db_scheme CaseService \<Rightarrow> ctx \<Rightarrow> CreateCaseParams \<Rightarrow> Case
    \<Rightarrow> ('s case_db_scheme, Case) tx" where
  "after_save svc c p cs =
     tx_seq (case_audit svc c (cs_OrganizationID cs) (cs_CreatedByID cs) ''case.created'' (cs_ID cs) [])
       (if \<not> wfAvailable svc then tx_return cs
        else (case cc_WorkflowID p of
            None \<Rightarrow> tx_throw nil_transaction
          | Some w \<Rightarrow> tx_bind (tx_map_error (Wrap ''failed to create workflow instance for case'')
                (CreateInstanceForCaseByDefIDTx (wfAuditor svc) (later_ctx 20 c) (cs_OrganizationID cs) (cs_ID cs) w
                   (cs_CreatedByID cs)))
              (link_instance c cs)))"

text \<open>The loop has no condition: \<open>None\<close> is a loop that does not return.\<close>

partial_function (option) create_loop :: "'s case_db_scheme CaseService \<Rightarrow> ctx \<Rightarrow> CreateCaseParams \<Rightarrow> nat \<Rightarrow> Case
    \<Rightarrow> 's case_db_scheme \<Rightarrow> ((go_error + Case) \<times> 's case_db_scheme) option" where
  "create_loop svc c p attempts cs s = (case case_SaveTx c (2 + 6 * attempts) cs s of
     (Inl e, s') \<Rightarrow>
       if errors_Is e ErrCaseNumberConflict \<and> attempts < 2
       then create_loop svc c p (attempts + 1)
              (RegenerateCaseNumber (ctx_time c (7 + 6 * attempts)) (ctx_uuid c (7 + 6 * attempts)) cs) s'
       else Some (Inl (Wrap ''failed to save case'' e), s')
   | (Inr cs', s') \<Rightarrow> Some (after_save svc c p cs' s'))"

definition diverges :: go_error where
  "diverges = GoPanic ''the loop does not return''"

definition CreateCase :: "'s case_db_scheme CaseService \<Rightarrow> ctx \<Rightarrow> 's case_db_scheme \<Rightarrow> CreateCaseParams
    \<Rightarrow> ('s case_db_scheme, Case) tx" where
  "CreateCase svc c committed p =
     tx_seq (tx_check (instead ErrCaseInvalidInput) (ValidateServiceType (cc_ServiceType p)))
    (tx_seq (tx_guard (cc_Title p \<noteq> []) (Wrap ''title is required'' ErrCaseInvalidInput))
    (tx_seq (case cc_PersonID p of
         None \<Rightarrow> tx_return ()
       | Some person \<Rightarrow> tx_bind (tx_read (instead ErrPersonNotFound) (personFinder svc (cc_OrganizationID p) person))
           (\<lambda>orgID. tx_guard (orgID = cc_OrganizationID p) ErrPersonTenantViolation))
    (tx_bind (tx_lift (choose_workflow svc committed p)) (\<lambda>w.
     tx_bind (tx_read (instead ErrCaseInvalidInput)
         (NewCase c (cc_OrganizationID p) (cc_CreatedByID p) (cc_Title p) (cc_Description p) (cc_ServiceType p)
            (cc_Priority p) (cc_PersonID p))) (\<lambda>cs.
     InTransaction (\<lambda>s. case create_loop svc c p 0 (cs\<lparr>WorkflowID := Some w\<rparr>) s of
         None \<Rightarrow> (Inl diverges, s)
       | Some r \<Rightarrow> r))))))"

subsection \<open>The transition observer\<close>

definition missing_forms :: "uuid \<Rightarrow> uuid \<Rightarrow> uuid \<Rightarrow> string \<Rightarrow> 's form_db_scheme \<Rightarrow> uuid list" where
  "missing_forms tenantID caseID defID stateKey s = map fa_FormVersionID
     (filter (\<lambda>a. fa_Active a \<and> fa_Required a
          \<and> FindByCaseAndFormVersion tenantID caseID (fa_FormVersionID a) s = Inl dErrSubmissionNotFound)
       (FindByWorkflowAndState tenantID defID stateKey s))"

definition checkRequiredFormsCompleteInTx :: "'s case_db_scheme CaseService \<Rightarrow> uuid \<Rightarrow> uuid \<Rightarrow> uuid \<Rightarrow> string
    \<Rightarrow> ('s case_db_scheme, unit) tx" where
  "checkRequiredFormsCompleteInTx svc tenantID caseID defID stateKey = (\<lambda>s.
     if formRepos svc \<and> missing_forms tenantID caseID defID stateKey s \<noteq> []
     then (Inl (Wrap ''missing form versions'' ErrRequiredFormsIncomplete), s) else (Inr (), s))"

definition EvaluateCaseRules :: "'s case_db_scheme CaseService \<Rightarrow> uuid \<Rightarrow> uuid \<Rightarrow> ('s case_db_scheme, unit) tx" where
  "EvaluateCaseRules svc orgID caseID = (case ruleIntegration svc of
     None \<Rightarrow> tx_throw (Err ''rule integration not configured'')
   | Some evaluate \<Rightarrow> evaluate orgID caseID)"

definition OnTransition :: "'s case_db_scheme CaseService \<Rightarrow> ctx \<Rightarrow> WorkflowInstance \<Rightarrow> WorkflowTransition \<Rightarrow> bool
    \<Rightarrow> ('s case_db_scheme, unit) tx" where
  "OnTransition svc c i t targetTerminal =
     tx_seq (checkRequiredFormsCompleteInTx svc (wi_TenantID i) (wi_CaseID i) (wi_WorkflowDefID i) (FromState t))
    (tx_bind (case_FindByIDTx (wi_TenantID i) (wi_CaseID i)) (\<lambda>cs.
     tx_seq (UpdateWorkflowStateTx (ctx_time c 1) (wi_TenantID i) (wi_CaseID i) (ToState t) (cs_Version cs) targetTerminal)
       (if ruleIntegration svc = None then tx_return ()
        else tx_map_error (Wrap ''rule evaluation on transition failed'')
               (EvaluateCaseRules svc (wi_TenantID i) (wi_CaseID i)))))"

text \<open>NewCaseService registers the service as the observer of the workflow service.\<close>

definition case_observer :: "'s case_db_scheme CaseService \<Rightarrow> ctx \<Rightarrow> 's case_db_scheme observer" where
  "case_observer svc c = Some (OnTransition svc c)"

subsection \<open>Changing the status\<close>

record ChangeCaseStatusParams =
  ch_OrganizationID :: uuid
  ch_CaseID :: uuid
  ch_Status :: string
  ch_ActorID :: uuid
  ch_ActorRole :: string

definition status_transition :: "ChangeCaseStatusParams \<Rightarrow> WorkflowInstance \<Rightarrow> WorkflowTransition
    \<Rightarrow> ExecuteTransitionParams" where
  "status_transition p i t = \<lparr>etp_TenantID = ch_OrganizationID p, etp_InstanceID = wi_ID i,
     etp_TransitionKey = wt_Key t, etp_ActorID = ch_ActorID p, etp_ActorRole = ch_ActorRole p, etp_Reason = [],
     etp_DecisionID = None\<rparr>"

definition refreshed_case :: "ctx \<Rightarrow> Case \<Rightarrow> Case \<Rightarrow> Case" where
  "refreshed_case c cs updated = cs\<lparr>cs_Status := cs_Status updated, WorkflowState := WorkflowState updated,
     cs_Version := cs_Version updated,
     ClosedAt := (if IsClosed (cs_Status updated) then Some (ctx_time c 3) else ClosedAt cs)\<rparr>"

definition changeStatusViaWorkflow :: "'s case_db_scheme CaseService \<Rightarrow> ctx \<Rightarrow> 's case_db_scheme
    \<Rightarrow> ChangeCaseStatusParams \<Rightarrow> ('s case_db_scheme, Case) tx" where
  "changeStatusViaWorkflow svc c committed p =
     tx_seq (tx_guard (wfAvailable svc) ErrWorkflowNotAvailable)
    (tx_bind (tx_read (\<lambda>_. ErrCaseNotFound) (case_FindByID (ch_OrganizationID p) (ch_CaseID p) committed)) (\<lambda>cs.
     tx_bind (tx_read (Wrap ''workflow instance not found'')
         (GetInstanceByCaseID (ch_OrganizationID p) (ch_CaseID p) committed)) (\<lambda>i.
     tx_bind (tx_read (Wrap ''failed to get valid transitions'')
         (GetValidTransitions (ch_OrganizationID p) (wi_ID i) committed)) (\<lambda>ts.
     (case List.find (\<lambda>t. ToState t = ch_Status p) ts of
        None \<Rightarrow> tx_throw (Wrap ''no transition leads to status'' ErrCaseTransition)
      | Some t \<Rightarrow> InTransaction
          (tx_seq (checkRequiredFormsCompleteInTx svc (ch_OrganizationID p) (ch_CaseID p) (wi_WorkflowDefID i)
                     (CurrentState i))
          (tx_seq (tx_map_error (Wrap ''workflow transition failed'')
                     (ExecuteTransitionInTx (wfAuditor svc) (case_observer svc c) c committed (status_transition p i t)))
          (tx_bind (tx_map_error (Wrap ''failed to reload case after workflow transition'')
                     (case_FindByIDTx (ch_OrganizationID p) (ch_CaseID p))) (\<lambda>updated.
           tx_seq (case_audit svc c (cs_OrganizationID cs) (ch_ActorID p) ''case.transition'' (cs_ID cs)
                     [(''from'', GString (CurrentState i)), (''to'', GString (cs_Status updated))])
             (tx_return (refreshed_case c cs updated)))))))))))"

definition ChangeStatus :: "'s case_db_scheme CaseService \<Rightarrow> ctx \<Rightarrow> 's case_db_scheme \<Rightarrow> ChangeCaseStatusParams
    \<Rightarrow> ('s case_db_scheme, Case) tx" where
  "ChangeStatus svc c committed p = (if \<not> wfAvailable svc then tx_throw ErrWorkflowNotAvailable
     else changeStatusViaWorkflow svc c committed p)"

text \<open>SyncCaseStatus, without a transaction of its own.\<close>

definition SyncCaseStatus :: "ctx \<Rightarrow> 's case_db_scheme \<Rightarrow> uuid \<Rightarrow> uuid \<Rightarrow> string \<Rightarrow> ('s case_db_scheme, unit) tx" where
  "SyncCaseStatus c committed tenantID caseID stateKey =
     tx_bind (tx_lift (case_FindByID tenantID caseID committed)) (\<lambda>cs.
       case_UpdateStatus (ctx_time c 1) tenantID caseID
         (cs_Status (SyncStatusFromWorkflow (ctx_time c 0) stateKey cs)) (cs_Version cs))"

subsection \<open>Assigning a case\<close>

definition AssignCase :: "'s case_db_scheme CaseService \<Rightarrow> ctx \<Rightarrow> 's case_db_scheme \<Rightarrow> uuid \<Rightarrow> uuid \<Rightarrow> uuid \<Rightarrow> uuid
    \<Rightarrow> ('s case_db_scheme, Case) tx" where
  "AssignCase svc c committed orgID caseID userID actorID =
     tx_bind (tx_read (\<lambda>_. ErrCaseNotFound) (case_FindByID orgID caseID committed)) (\<lambda>cs.
     tx_seq (case userChecker svc of
         None \<Rightarrow> tx_return ()
       | Some belongs \<Rightarrow> tx_bind (tx_read (Wrap ''failed to validate assignee'') (belongs orgID userID))
           (\<lambda>valid. tx_guard valid ErrCaseTenantViolation))
    (InTransaction
      (tx_seq (tx_map_error (Wrap ''failed to assign case'') (case_Assign (ctx_time c 1) orgID caseID userID))
      (tx_seq (case_audit svc c (cs_OrganizationID cs) actorID ''case.assigned'' (cs_ID cs)
                 [(''assigned_to'', GString (uuid_string userID))])
        (tx_return (AssignTo (ctx_time c 0) userID cs))))))"

subsection \<open>Reading cases\<close>

definition GetCase :: "uuid \<Rightarrow> uuid \<Rightarrow> 's case_db_scheme \<Rightarrow> go_error + Case" where
  "GetCase orgID caseID s = (case case_FindByID orgID caseID s of Inl e \<Rightarrow> Inl ErrCaseNotFound | Inr cs \<Rightarrow> Inr cs)"

definition ListCases :: "uuid \<Rightarrow> int \<Rightarrow> int \<Rightarrow> CaseFilter \<Rightarrow> 's case_db_scheme \<Rightarrow> go_error + Case list \<times> nat" where
  "ListCases orgID limit offset flt s =
     (case FindByOrganizationWithFilter orgID (clamp_page limit) (if offset < 0 then 0 else offset) flt s of
        Inl e \<Rightarrow> Inl (Wrap ''failed to list cases'' e)
      | Inr page \<Rightarrow> Inr (page, case_CountByOrganization orgID flt s))"

definition GetStatistics :: "uuid \<Rightarrow> 's case_db_scheme \<Rightarrow> go_error + CaseStatistics" where
  "GetStatistics orgID s = Inr (Statistics orgID s)"

record TimelineEvent =
  te_ID :: uuid
  te_Action :: string
  te_Resource :: string
  te_Outcome :: string
  te_Timestamp :: instant
  te_Metadata :: goval

definition GetCaseTimeline :: "uuid \<Rightarrow> uuid \<Rightarrow> ('s case_db_scheme, TimelineEvent list) tx" where
  "GetCaseTimeline orgID caseID =
     tx_bind (tx_map_error (Wrap ''failed to get case timeline'') (audit_FindByResource orgID (uuid_string caseID)))
       (\<lambda>evs. tx_return (map (\<lambda>ev. \<lparr>te_ID = ae_ID ev, te_Action = ae_Action ev, te_Resource = ae_Resource ev,
          te_Outcome = ae_Outcome ev, te_Timestamp = ae_Timestamp ev, te_Metadata = ae_Metadata ev\<rparr>) evs))"

definition GetWorkflowInstance :: "'s case_db_scheme CaseService \<Rightarrow> uuid \<Rightarrow> uuid \<Rightarrow> 's case_db_scheme
    \<Rightarrow> go_error + WorkflowInstance" where
  "GetWorkflowInstance svc tenantID caseID s = (if \<not> wfAvailable svc then Inl ErrWorkflowNotAvailable
     else GetInstanceByCaseID tenantID caseID s)"

end
