(* ===== verification/Rule_Integration.thy ===== *)
theory Rule_Integration
  imports Rule_Assignments Case_Service "HOL-Library.AList"
begin

section \<open>Rules on cases\<close>

text \<open>
  internal/rules/application/case_integration.go and form_resolver.go: the facts known of a
  case, and the evaluation of the rule sets assigned to its workflow state. The transaction of
  the parameters is modelled by what the calls read: \<open>None\<close> is the caller's transaction,
  \<open>Some committed\<close> no transaction, in which case every read sees the committed store and every
  evaluation is saved in a transaction of its own. The k-th evaluation of a request has its own
  values of the context and its own auditor.
\<close>

type_synonym 's integrationAuditor = "nat \<Rightarrow> 's auditor"

text \<open>What a read sees.\<close>

definition tx_view :: "'s option \<Rightarrow> ('s \<Rightarrow> go_error + 'a) \<Rightarrow> ('s, 'a) tx" where
  "tx_view v f = (\<lambda>s. (f (or_else v s), s))"

abbreviation (input) "dErrCaseNotFound \<equiv> cases_domain ''case not found''"
abbreviation (input) "rErrCaseNotFound \<equiv> Err ''case not found''"

subsection \<open>Triggers and missing facts\<close>

definition TriggerWorkflowTransition :: string where
  "TriggerWorkflowTransition = ''workflow_transition''"

definition triggersMatch :: "string list \<Rightarrow> string \<Rightarrow> bool" where
  "triggersMatch triggers event \<longleftrightarrow> length triggers = 0 \<or> event = []
     \<or> list_ex (\<lambda>t. t = event \<or> t = TriggerWorkflowTransition) triggers"

text \<open>
  The fields that do not resolve, in the order in which they are met, each once: what the loop
  has found is also what it has seen. A leaf is a condition with a field; its groups are not
  looked at.
\<close>

fun findMissingInCondition :: "facts \<Rightarrow> Condition \<Rightarrow> string list \<Rightarrow> string list" where
  "findMissingInCondition facts (Condition field op v all any neg) missing =
     (if field \<noteq> []
      then (if ResolveFact facts field = None \<and> field \<notin> set missing then missing @ [field] else missing)
      else (let missing1 = fold (findMissingInCondition facts) all missing;
                missing2 = fold (findMissingInCondition facts) any missing1
            in (case neg of None \<Rightarrow> missing2 | Some c \<Rightarrow> findMissingInCondition facts c missing2)))"

definition findMissingFacts :: "RuleSet \<Rightarrow> facts \<Rightarrow> string list" where
  "findMissingFacts rs facts = fold (\<lambda>rule. findMissingInCondition facts (Conditions rule)) (Rules rs) []"

subsection \<open>The facts of a case\<close>

text \<open>
  FormKeyResolver: of a form the rules use its key. The variants with and without a
  transaction of form_resolver.go differ in what they read only.
\<close>

record FormView =
  fw_ID :: uuid
  fw_Key :: string
  fw_Name :: string
  fw_OrganizationID :: uuid

definition toFormView :: "Form \<Rightarrow> FormView" where
  "toFormView form = \<lparr>fw_ID = fm_ID form, fw_Key = fm_Key form, fw_Name = fm_Name form,
     fw_OrganizationID = fm_OrganizationID form\<rparr>"

definition form_resolver_error :: "string \<Rightarrow> string \<Rightarrow> go_error \<Rightarrow> go_error" where
  "form_resolver_error missing msg e = (if errors_Is e dErrFormNotFound then Wrap missing e else Wrap msg e)"

definition resolver_FindByID :: "uuid \<Rightarrow> uuid \<Rightarrow> 's form_db_scheme \<Rightarrow> go_error + FormView" where
  "resolver_FindByID orgID formID s =
     map_sum (form_resolver_error ''form not found'' ''failed to resolve form'') toFormView (form_FindByID orgID formID s)"

definition resolver_FindByKey :: "uuid \<Rightarrow> string \<Rightarrow> 's form_db_scheme \<Rightarrow> go_error + FormView" where
  "resolver_FindByKey orgID key s =
     map_sum (form_resolver_error ''form key not found'' ''failed to resolve form key'') toFormView (form_FindByKey orgID key s)"

text \<open>Duration.Hours of a difference of two times, which saturates.\<close>

definition time_Sub :: "instant \<Rightarrow> instant \<Rightarrow> int" where
  "time_Sub t u = max (- (2 ^ 63)) (min (2 ^ 63 - 1) (t - u))"

definition duration_Hours :: "int \<Rightarrow> rat" where
  "duration_Hours d = (let hour = 3600000000000; h = sgn d * (\<bar>d\<bar> div hour); nsec = d - h * hour
     in round_float64 (of_int h + round_float64 (of_int nsec / of_int hour)))"

definition age_days :: "instant \<Rightarrow> instant \<Rightarrow> rat" where
  "age_days now created = (if created = zero_time then 0 else round_float64 (duration_Hours (time_Sub created now) / - 24))"

definition case_facts :: "instant \<Rightarrow> Case \<Rightarrow> facts" where
  "case_facts now cs =
     [(''id'', GString (uuid_string (cs_ID cs))), (''status'', GString (cs_Status cs)),
      (''workflow_state'', GString (WorkflowState cs)), (''case_number'', GString (CaseNumber cs)),
      (''title'', GString (Title cs)), (''service_type'', GString (ServiceType cs)),
      (''priority'', GString (Case.Priority cs)), (''age_days'', GFloat64 (Some (age_days now (cs_CreatedAt cs))))]"

definition submission_status_string :: "SubmissionStatus \<Rightarrow> string" where
  "submission_status_string st = (case st of SubmissionStatusSubmitted \<Rightarrow> ''submitted''
     | SubmissionStatusRejected \<Rightarrow> ''rejected'' | SubmissionStatusCorrected \<Rightarrow> ''corrected''
     | SubmissionStatusApproved \<Rightarrow> ''approved'')"

text \<open>The submitted data overwrite the three entries of the submission itself.\<close>

definition submission_facts :: "FormSubmission \<Rightarrow> facts" where
  "submission_facts sub = sb_Data sub @ filter (\<lambda>(k, _). k \<notin> fst ` set (sb_Data sub))
     [(''submitted_at'', GTime (SubmittedAt sub)), (''form_id'', GString (uuid_string (sb_FormID sub))),
      (''status'', GString (submission_status_string (sb_Status sub)))]"

definition latest_by_key :: "uuid \<Rightarrow> 's form_db_scheme \<Rightarrow> FormSubmission \<Rightarrow> (string \<times> FormSubmission) list
    \<Rightarrow> (string \<times> FormSubmission) list" where
  "latest_by_key orgID s sub latest = (case resolver_FindByID orgID (sb_FormID sub) s of
     Inl e \<Rightarrow> latest
   | Inr view \<Rightarrow> (case map_of latest (fw_Key view) of
       None \<Rightarrow> AList.update (fw_Key view) sub latest
     | Some existing \<Rightarrow> if SubmittedAt existing < SubmittedAt sub then AList.update (fw_Key view) sub latest else latest))"

definition assembled_facts :: "instant \<Rightarrow> uuid \<Rightarrow> uuid \<Rightarrow> 's case_db_scheme \<Rightarrow> go_error + facts" where
  "assembled_facts now orgID caseID s = (case case_FindByID orgID caseID s of
     Inl e \<Rightarrow> Inl (Wrap ''case not found'' e)
   | Inr cs \<Rightarrow> Inr [(''case'', GObject (case_facts now cs)),
       (''form'', GObject (map (\<lambda>(key, sub). (key, GObject (submission_facts sub)))
          (fold (latest_by_key orgID s) (submission_ListByCase orgID caseID s) [])))])"

definition AssembleFactsFromCase :: "ctx \<Rightarrow> 's case_db_scheme option \<Rightarrow> uuid \<Rightarrow> uuid \<Rightarrow> ('s case_db_scheme, facts) tx" where
  "AssembleFactsFromCase c v orgID caseID = tx_view v (assembled_facts (ctx_time c 1) orgID caseID)"

subsection \<open>The evaluation of a case\<close>

record 's EvaluateCaseRulesParams =
  ec_OrganizationID :: uuid
  ec_CaseID :: uuid
  ec_ActorID :: uuid
  ec_Facts :: "facts option"
  ec_Trigger :: Trigger
  ec_Event :: string
  ec_Tx :: "'s option"

record CaseRuleEvaluation =
  ce_RuleSetID :: uuid
  ce_RuleSetKey :: string
  ce_RuleSetName :: string
  ce_RuleSetVersion :: int
  ce_Status :: EvaluationStatus
  ce_Outcome :: Outcome
  ce_Reason :: "string option"
  ce_MatchedRuleID :: "uuid option"
  ce_Trace :: "TraceNode list"
  ce_MissingFacts :: "string list"
  ce_EvaluatedAt :: instant
  ce_Trigger :: Trigger

record CaseRuleEvaluationResult =
  cx_CaseID :: uuid
  cx_WorkflowState :: string
  AssignedRuleSets :: "uuid list"
  Evaluations :: "CaseRuleEvaluation list"
  HasMissingFacts :: bool
  cx_EvaluatedAt :: instant

definition hasAnyMissing :: "CaseRuleEvaluation list \<Rightarrow> bool" where
  "hasAnyMissing evals \<longleftrightarrow> list_ex (\<lambda>e. ce_Status e = StatusInformationRequired \<or> length (ce_MissingFacts e) > 0) evals"

definition recordEvaluationAudit :: "'s rules_db_scheme auditor \<Rightarrow> ctx \<Rightarrow> Evaluation \<Rightarrow> ('s rules_db_scheme, unit) tx" where
  "recordEvaluationAudit auditor c ev = RecordAuditEventInTx auditor (evaluation_audit_params c (ev_EvaluatedBy ev) ev
     ([(''rule_set_id'', GString (uuid_string (ev_RuleSetID ev))), (''rule_set_version'', GInt (ev_RuleSetVersion ev)),
       (''case_id'', GString (uuid_string (or_else (ev_CaseID ev) uuid_nil))),
       (''outcome'', GString (outcome_string (ev_Outcome ev))),
       (''status'', GString (evaluation_status_string (ev_Status ev)))]
      @ (case ev_MatchedRuleID ev of None \<Rightarrow> [] | Some i \<Rightarrow> [(''matched_rule_id'', GString (uuid_string i))])))"

definition saveEvaluation :: "(rat \<Rightarrow> string) \<Rightarrow> 's rules_db_scheme auditor \<Rightarrow> ctx \<Rightarrow> 's rules_db_scheme option \<Rightarrow> Evaluation
    \<Rightarrow> ('s rules_db_scheme, unit) tx" where
  "saveEvaluation nt auditor c v ev =
     (let save = tx_seq (tx_map_error (Wrap ''failed to save evaluation'') (evaluation_Save nt ev))
                        (recordEvaluationAudit auditor c ev)
      in if v = None then save else InTransaction save)"

definition case_rule_evaluation :: "RuleSet \<Rightarrow> Evaluation \<Rightarrow> string list \<Rightarrow> CaseRuleEvaluation" where
  "case_rule_evaluation rs ev missing = \<lparr>ce_RuleSetID = rs_ID rs, ce_RuleSetKey = rs_Key rs, ce_RuleSetName = rs_Name rs,
     ce_RuleSetVersion = rs_Version rs, ce_Status = ev_Status ev, ce_Outcome = ev_Outcome ev, ce_Reason = ev_Reason ev,
     ce_MatchedRuleID = ev_MatchedRuleID ev, ce_Trace = ev_Trace ev, ce_MissingFacts = missing,
     ce_EvaluatedAt = ev_EvaluatedAt ev, ce_Trigger = ev_Trigger ev\<rparr>"

text \<open>What a rule set says of the facts: the evaluation to save, and the facts it misses.\<close>

definition evaluated_rule_set :: "regexp \<Rightarrow> (Rule list \<Rightarrow> Rule list) \<Rightarrow> ctx \<Rightarrow> 's EvaluateCaseRulesParams \<Rightarrow> facts \<Rightarrow> RuleSet
    \<Rightarrow> Evaluation \<times> string list" where
  "evaluated_rule_set re srt c p facts rs =
     (let evaluatedBy = (if ec_ActorID p \<noteq> uuid_nil then Some (ec_ActorID p) else None) in
      if ValidateRuleSet re rs \<noteq> None
      then (invalid_evaluation c rs (ec_OrganizationID p) (Some (ec_CaseID p)) facts (ctx_time c 0) evaluatedBy
              (ec_Trigger p), [])
      else (let ev = (Evaluate re srt c rs facts (ctx_time c 0) evaluatedBy (ec_Trigger p))\<lparr>ev_CaseID := Some (ec_CaseID p)\<rparr>
            in (ev, if ev_Status ev = StatusInformationRequired then findMissingFacts rs facts else [])))"

definition selected_rule_set :: "string \<Rightarrow> go_error + RuleSet \<Rightarrow> RuleSet option" where
  "selected_rule_set event found = (case found of
     Inl e \<Rightarrow> None
   | Inr rs \<Rightarrow> if rs_Status rs = StatusPublished \<and> triggersMatch (Triggers rs) event then Some rs else None)"

text \<open>The loop over the assignments; a rule set that is not found is passed over.\<close>

fun evaluate_assignments :: "(rat \<Rightarrow> string) \<Rightarrow> regexp \<Rightarrow> (Rule list \<Rightarrow> Rule list) \<Rightarrow> 's rules_db_scheme integrationAuditor \<Rightarrow> ctx
    \<Rightarrow> 's rules_db_scheme EvaluateCaseRulesParams \<Rightarrow> facts \<Rightarrow> nat \<Rightarrow> WorkflowStateRuleAssignment list
    \<Rightarrow> CaseRuleEvaluationResult \<Rightarrow> ('s rules_db_scheme, CaseRuleEvaluationResult) tx" where
  "evaluate_assignments nt re srt auditor c p facts k [] res = tx_return res"
| "evaluate_assignments nt re srt auditor c p facts k (a # as) res =
     (if \<not> ra_Active a then evaluate_assignments nt re srt auditor c p facts k as res
      else (let res1 = res\<lparr>AssignedRuleSets := AssignedRuleSets res @ [ra_RuleSetID a]\<rparr> in
       tx_bind (tx_try (tx_view (ec_Tx p) (rule_set_FindByID (ec_OrganizationID p) (ra_RuleSetID a)))) (\<lambda>found.
       (case selected_rule_set (ec_Event p) found of
          None \<Rightarrow> evaluate_assignments nt re srt auditor c p facts k as res1
        | Some rs \<Rightarrow>
           (case evaluated_rule_set re srt (later_ctx (2 + k) c) p facts rs of (ev, missing) \<Rightarrow>
            tx_seq (tx_map_error (Wrap ''failed to save evaluation'') (saveEvaluation nt (auditor k) c (ec_Tx p) ev))
              (evaluate_assignments nt re srt auditor c p facts (Suc k) as
                 (res1\<lparr>Evaluations := Evaluations res1 @ [case_rule_evaluation rs ev missing]\<rparr>)))))))"

text \<open>The case that is asked for, with its workflow instance.\<close>

definition evaluated_case :: "'s EvaluateCaseRulesParams \<Rightarrow> ('s \<Rightarrow> go_error + Case) \<Rightarrow> ('s, Case) tx" where
  "evaluated_case p lookup = tx_map_error
     (\<lambda>e. if errors_Is e dErrCaseNotFound then Wrap ''case not found'' rErrCaseNotFound else Wrap ''case lookup failed'' e)
     (tx_view (ec_Tx p) lookup)"

definition evaluated_instance :: "'s EvaluateCaseRulesParams \<Rightarrow> ('s \<Rightarrow> go_error + WorkflowInstance)
    \<Rightarrow> ('s, WorkflowInstance) tx" where
  "evaluated_instance p lookup = tx_map_error
     (\<lambda>e. if errors_Is e SqlNoRows then Err ''workflow instance not found'' else Wrap ''workflow instance lookup failed'' e)
     (tx_view (ec_Tx p) lookup)"

definition integration_EvaluateCaseRules :: "(rat \<Rightarrow> string) \<Rightarrow> regexp \<Rightarrow> (Rule list \<Rightarrow> Rule list) \<Rightarrow> 's rules_db_scheme integrationAuditor
    \<Rightarrow> ctx \<Rightarrow> 's rules_db_scheme EvaluateCaseRulesParams \<Rightarrow> ('s rules_db_scheme, CaseRuleEvaluationResult) tx" where
  "integration_EvaluateCaseRules nt re srt auditor c p0 =
     (let p = p0\<lparr>ec_Trigger := (if ec_Trigger p0 = TriggerOther [] then TriggerManual else ec_Trigger p0)\<rparr>;
          orgID = ec_OrganizationID p; caseID = ec_CaseID p in
      tx_seq (tx_guard (ec_Trigger p = TriggerManual \<or> ec_Trigger p = TriggerAutomatic) aErrInvalidTrigger)
     (tx_bind (evaluated_case p (case_FindByID orgID caseID)) (\<lambda>cs.
      tx_seq (tx_guard (WorkflowInstanceID cs \<noteq> None) (Err ''case has no workflow instance''))
     (tx_bind (evaluated_instance p (instance_FindByCaseID orgID caseID)) (\<lambda>i.
      tx_bind (tx_view (ec_Tx p) (\<lambda>s. Inr (FindRulesByWorkflowAndState orgID (wi_WorkflowDefID i) (CurrentState i) s)))
       (\<lambda>assignments.
      tx_bind (case ec_Facts p of
          Some facts \<Rightarrow> tx_return facts
        | None \<Rightarrow> tx_map_error (Wrap ''failed to assemble facts'') (AssembleFactsFromCase c (ec_Tx p) orgID caseID)) (\<lambda>facts.
      tx_bind (evaluate_assignments nt re srt auditor c p facts 0 assignments
          \<lparr>cx_CaseID = caseID, cx_WorkflowState = CurrentState i, AssignedRuleSets = [], Evaluations = [],
           HasMissingFacts = False, cx_EvaluatedAt = ctx_time c 0\<rparr>) (\<lambda>res.
      tx_return (res\<lparr>HasMissingFacts := hasAnyMissing (Evaluations res)\<rparr>)))))))))"

definition integration_ListEvaluationsByCase :: "uuid \<Rightarrow> uuid \<Rightarrow> int \<Rightarrow> int \<Rightarrow> 's rules_db_scheme
    \<Rightarrow> go_error + Evaluation list \<times> nat" where
  "integration_ListEvaluationsByCase orgID caseID limit offset s =
     evaluation_ListByCase orgID caseID (clamp_page limit) (if offset < 0 then 0 else offset) s"

text \<open>
  What the observer of transitions calls: the ruleIntegration of the case service, in its
  transaction, on behalf of no user.
\<close>

definition transition_params :: "uuid \<Rightarrow> uuid \<Rightarrow> 's EvaluateCaseRulesParams" where
  "transition_params orgID caseID = \<lparr>ec_OrganizationID = orgID, ec_CaseID = caseID, ec_ActorID = uuid_nil, ec_Facts = None,
     ec_Trigger = TriggerAutomatic, ec_Event = TriggerWorkflowTransition, ec_Tx = None\<rparr>"

definition transition_rules :: "(rat \<Rightarrow> string) \<Rightarrow> regexp \<Rightarrow> (Rule list \<Rightarrow> Rule list) \<Rightarrow> 's rules_db_scheme integrationAuditor \<Rightarrow> ctx
    \<Rightarrow> uuid \<Rightarrow> uuid \<Rightarrow> ('s rules_db_scheme, unit) tx" where
  "transition_rules nt re srt auditor c orgID caseID =
     tx_bind (integration_EvaluateCaseRules nt re srt auditor c (transition_params orgID caseID)) (\<lambda>_. tx_return ())"

definition GetCaseEvaluations :: "'s rules_db_scheme CaseService \<Rightarrow> uuid \<Rightarrow> uuid \<Rightarrow> int \<Rightarrow> int
    \<Rightarrow> 's rules_db_scheme \<Rightarrow> go_error + Evaluation list \<times> nat" where
  "GetCaseEvaluations svc orgID caseID limit offset s =
     (if ruleIntegration svc = None then Inl (Err ''rule integration not configured'')
      else integration_ListEvaluationsByCase orgID caseID limit offset s)"

definition AssembleCaseFacts :: "'s case_db_scheme CaseService \<Rightarrow> ctx \<Rightarrow> uuid \<Rightarrow> uuid \<Rightarrow> 's case_db_scheme
    \<Rightarrow> go_error + facts" where
  "AssembleCaseFacts svc c orgID caseID committed =
     (if ruleIntegration svc = None then Inl (Err ''rule integration not configured'')
      else fst (AssembleFactsFromCase c (Some committed) orgID caseID committed))"

end
