(* ===== verification/Rule_Semantics.thy ===== *)
theory Rule_Semantics
  imports Rule_Engine "HOL-Library.Multiset"
begin

section \<open>What the rules engine computes\<close>

text \<open>
  The value of a condition without its trace, the proof that the traced evaluation computes
  it, and the properties of evaluation: the matching rule of lowest priority decides, the
  sorting algorithm does not matter for a validated rule set, trace identifiers are unique,
  groups do not depend on the order of their members, and validation bounds what is
  evaluated.
\<close>

subsection \<open>Condition values\<close>

definition and_value :: "conditionResult list \<Rightarrow> conditionResult" where
  "and_value rs = (if resultFalse \<in> set rs then resultFalse
     else if resultError \<in> set rs then resultError
     else if resultUnknown \<in> set rs then resultUnknown else resultTrue)"

definition or_value :: "conditionResult list \<Rightarrow> conditionResult" where
  "or_value rs = (if resultTrue \<in> set rs then resultTrue
     else if resultError \<in> set rs then resultError
     else if resultUnknown \<in> set rs then resultUnknown else resultFalse)"

fun cond_value :: "regexp \<Rightarrow> facts \<Rightarrow> Condition \<Rightarrow> conditionResult" where
  "cond_value re facts (Condition f op v al an nt) =
     (if f \<noteq> [] then
        (case ResolveFact facts f of
           None \<Rightarrow> resultUnknown
         | Some val \<Rightarrow> fst (evalLeaf re op val v))
      else if al \<noteq> [] then and_value (map (cond_value re facts) al)
      else if an \<noteq> [] then or_value (map (cond_value re facts) an)
      else (case nt of
              Some n \<Rightarrow> invertResult (cond_value re facts n)
            | None \<Rightarrow> resultError))"

definition group_value :: "bool \<Rightarrow> bool \<Rightarrow> bool \<Rightarrow> conditionResult list \<Rightarrow> conditionResult" where
  "group_value isAll he hu rs =
     (if isAll \<and> resultFalse \<in> set rs then resultFalse
      else if \<not> isAll \<and> resultTrue \<in> set rs then resultTrue
      else if he \<or> resultError \<in> set rs then resultError
      else if hu \<or> resultUnknown \<in> set rs then resultUnknown
      else if isAll then resultTrue else resultFalse)"

lemma group_value_init:
  "group_value True False False rs = and_value rs"
  "group_value False False False rs = or_value rs"
  by (simp_all add: group_value_def and_value_def or_value_def)

text \<open>The traced evaluation returns the value.\<close>

lemma evalGroup_value:
  assumes "\<And>c p ec. c \<in> set cs \<Longrightarrow> fst (evaluateCondition re facts c p ec) = cond_value re facts c"
  shows "fst (evalGroup re facts cs isAll he hu p ec)
       = group_value isAll he hu (map (cond_value re facts) cs)"
  using assms
proof (induction cs arbitrary: he hu p ec)
  case Nil
  show ?case by (simp add: group_value_def)
next
  case (Cons c cs)
  obtain node ec1 where n: "newTraceNode ec TraceLeaf [] = (node, ec1)" by fastforce
  obtain r node' ec2 where e: "evaluateCondition re facts c node ec1 = (r, node', ec2)"
    using prod_cases3 by blast
  have "r = cond_value re facts c" using Cons.prems [of c node ec1] e by simp
  moreover have "fst (evalGroup re facts cs isAll he' hu' p' ec')
      = group_value isAll he' hu' (map (cond_value re facts) cs)" for he' hu' p' ec'
    using Cons by simp
  ultimately show ?case using n e by (cases r; cases isAll) (auto simp: group_value_def Let_def)
qed

lemma evaluateCondition_value:
  "fst (evaluateCondition re facts c p ec) = cond_value re facts c"
proof (induction c arbitrary: p ec)
  case (Condition f op v al an nt)
  have al: "fst (evalGroup re facts al True False False q e) = and_value (map (cond_value re facts) al)" for q e
    using Condition(1) by (simp add: evalGroup_value group_value_init)
  have an: "fst (evalGroup re facts an False False False q e) = or_value (map (cond_value re facts) an)" for q e
    using Condition(2) by (simp add: evalGroup_value group_value_init)
  have nt: "nt = Some n \<Longrightarrow> fst (evaluateCondition re facts n q e) = cond_value re facts n" for n q e
    using Condition(3) by simp
  show ?case
  proof (cases "f = [] \<and> al = [] \<and> an = []")
    case True
    with nt show ?thesis
      by (cases nt) (auto simp: newTraceNode_def Let_def split: prod.split, metis fst_conv)
  next
    case False
    with al an show ?thesis
      by (auto simp: newTraceNode_def Let_def split: prod.split option.split; metis fst_conv)
  qed
qed

subsection \<open>Identifiers of trace nodes\<close>

primrec trace_ids :: "TraceNode \<Rightarrow> string list" where
  "trace_ids (TraceNode t cs) = tn_ID t # concat (map trace_ids cs)"

primrec trace_times :: "TraceNode \<Rightarrow> instant list" where
  "trace_times (TraceNode t cs) = tn_Timestamp t # concat (map trace_times cs)"

text \<open>
  A forest is numbered from \<open>lo\<close> to \<open>hi\<close> when its identifiers, read in preorder, print
  strictly increasing numbers above \<open>lo\<close> and up to \<open>hi\<close>.
\<close>

definition numbered :: "nat \<Rightarrow> nat \<Rightarrow> TraceNode list \<Rightarrow> bool" where
  "numbered lo hi ns \<longleftrightarrow> (\<exists>ks. concat (map trace_ids ns) = map dec_string ks
     \<and> sorted_wrt (<) ks \<and> (\<forall>k \<in> set ks. lo < k \<and> k \<le> hi)) \<and> lo \<le> hi"

lemma numbered_Nil: "lo \<le> hi \<Longrightarrow> numbered lo hi []"
  by (auto simp: numbered_def)

lemma numbered_append:
  assumes "numbered a b xs" "numbered b c ys"
  shows "numbered a c (xs @ ys)"
proof -
  obtain ks where ks: "concat (map trace_ids xs) = map dec_string ks" "sorted_wrt (<) ks"
      "\<forall>k\<in>set ks. a < k \<and> k \<le> b" "a \<le> b"
    using assms(1) by (auto simp: numbered_def)
  obtain ls where ls: "concat (map trace_ids ys) = map dec_string ls" "sorted_wrt (<) ls"
      "\<forall>k\<in>set ls. b < k \<and> k \<le> c" "b \<le> c"
    using assms(2) by (auto simp: numbered_def)
  have "sorted_wrt (<) (ks @ ls)" "\<forall>k\<in>set (ks @ ls). a < k \<and> k \<le> c"
    using ks ls by (force simp: sorted_wrt_append)+
  with ks ls show ?thesis unfolding numbered_def
    by (intro conjI exI [of _ "ks @ ls"]) auto
qed

lemma numbered_node:
  assumes "tn_ID t = dec_string (Suc a)" "numbered (Suc a) b cs"
  shows "numbered a b [TraceNode t cs]"
proof -
  obtain ks where "concat (map trace_ids cs) = map dec_string ks" "sorted_wrt (<) ks"
      "\<forall>k\<in>set ks. Suc a < k \<and> k \<le> b" "Suc a \<le> b"
    using assms(2) by (auto simp: numbered_def)
  with assms(1) show ?thesis unfolding numbered_def
    by (intro conjI exI [of _ "Suc a # ks"]) (auto intro: Suc_lessD)
qed

lemma numbered_widen: "numbered a b ns \<Longrightarrow> a' \<le> a \<Longrightarrow> b \<le> b' \<Longrightarrow> numbered a' b' ns"
  unfolding numbered_def by (meson le_trans order.strict_trans1)

lemma numbered_distinct: "numbered a b ns \<Longrightarrow> distinct (concat (map trace_ids ns))"
  by (auto simp: numbered_def distinct_map inj_on_def dec_string_inj strict_sorted_iff)

text \<open>What one call does to its parent node: it appends a numbered forest.\<close>

definition extends :: "evalContext \<Rightarrow> TraceNode \<Rightarrow> TraceNode \<Rightarrow> evalContext \<Rightarrow> bool" where
  "extends ec p p' ec' \<longleftrightarrow> ec_evaluatedAt ec' = ec_evaluatedAt ec
     \<and> tn_fields p' = tn_fields p
     \<and> (\<exists>new. tn_Children p' = tn_Children p @ new
          \<and> numbered (ec_counter ec) (ec_counter ec') new
          \<and> set (concat (map trace_times new)) \<subseteq> {ec_evaluatedAt ec})"

lemma extends_refl: "extends ec p p ec"
  by (auto simp: extends_def numbered_Nil)

lemma extends_trans:
  assumes "extends ec p p' ec'" "extends ec' p' p'' ec''"
  shows "extends ec p p'' ec''"
proof -
  obtain n1 where n1: "tn_Children p' = tn_Children p @ n1"
      "numbered (ec_counter ec) (ec_counter ec') n1"
      "set (concat (map trace_times n1)) \<subseteq> {ec_evaluatedAt ec}"
    using assms(1) by (auto simp: extends_def)
  obtain n2 where n2: "tn_Children p'' = tn_Children p' @ n2"
      "numbered (ec_counter ec') (ec_counter ec'') n2"
      "set (concat (map trace_times n2)) \<subseteq> {ec_evaluatedAt ec'}"
    using assms(2) by (auto simp: extends_def)
  from n1 n2 assms show ?thesis unfolding extends_def
    by (intro conjI exI [of _ "n1 @ n2"]) (auto intro: numbered_append)
qed

text \<open>
  A node drawn from the context, extended by a call, relabelled without touching its
  identifier and timestamp, and hung under the parent.
\<close>

lemma extends_child:
  assumes "tn_ID t = dec_string (Suc (ec_counter ec))" "tn_Timestamp t = ec_evaluatedAt ec"
    and "numbered (Suc (ec_counter ec)) (ec_counter ec') cs"
    and "set (concat (map trace_times cs)) \<subseteq> {ec_evaluatedAt ec}"
    and "ec_evaluatedAt ec' = ec_evaluatedAt ec"
  shows "extends ec p (appendChild p (TraceNode t cs)) ec'"
  using assms numbered_node [OF assms(1,3)]
  by (auto simp: extends_def appendChild_def)

lemma extends_skip:
  assumes "extends ec1 p p' ec'" "ec_counter ec \<le> ec_counter ec1"
    "ec_evaluatedAt ec1 = ec_evaluatedAt ec"
  shows "extends ec p p' ec'"
  using assms unfolding extends_def by (metis numbered_widen le_refl)

lemma extends_children:
  assumes "extends ec n n' ec'" "tn_Children n = []"
  shows "numbered (ec_counter ec) (ec_counter ec') (tn_Children n')"
    "set (concat (map trace_times (tn_Children n'))) \<subseteq> {ec_evaluatedAt ec}"
    "ec_evaluatedAt ec' = ec_evaluatedAt ec" "tn_fields n' = tn_fields n"
  using assms by (auto simp: extends_def)

text \<open>Every call of the evaluator extends its parent by numbered nodes.\<close>

definition call_extends :: "(TraceNode \<Rightarrow> evalContext \<Rightarrow> 'r \<times> TraceNode \<times> evalContext) \<Rightarrow> bool" where
  "call_extends f \<longleftrightarrow> (\<forall>p ec r p' ec'. f p ec = (r, p', ec') \<longrightarrow> extends ec p p' ec')"

lemma call_extendsD: "call_extends f \<Longrightarrow> f p ec = (r, p', ec') \<Longrightarrow> extends ec p p' ec'"
  by (auto simp: call_extends_def)

text \<open>The node drawn by newTraceNode, filled by a call, relabelled, and hung under its parent.\<close>

lemma extends_new_child:
  assumes "newTraceNode ec ty d = (node, ec1)"
    and "extends ec1 (set_fields g node) node' ec2"
    and "\<And>t. tn_ID (g t) = tn_ID t" "\<And>t. tn_Timestamp (g t) = tn_Timestamp t"
    and "\<And>t. tn_ID (h t) = tn_ID t" "\<And>t. tn_Timestamp (h t) = tn_Timestamp t"
  shows "extends ec p (appendChild p (set_fields h node')) ec2"
proof -
  have ec1: "ec_counter ec1 = Suc (ec_counter ec)" "ec_evaluatedAt ec1 = ec_evaluatedAt ec"
    and node: "tn_ID (tn_fields node) = dec_string (Suc (ec_counter ec))"
      "tn_Timestamp (tn_fields node) = ec_evaluatedAt ec" "tn_Children node = []"
    using assms(1) by (auto simp: newTraceNode_def Let_def)
  have kids: "tn_Children (set_fields g node) = []" using node by (simp add: set_fields_def)
  note ch = extends_children [OF assms(2) kids]
  have "tn_fields node' = g (tn_fields node)" using ch(4) by (simp add: set_fields_def)
  with node assms(3-6) have "tn_ID (h (tn_fields node')) = dec_string (Suc (ec_counter ec))"
      "tn_Timestamp (h (tn_fields node')) = ec_evaluatedAt ec" by auto
  then show ?thesis unfolding set_fields_def
    using ch ec1 by (intro extends_child) auto
qed

lemma set_fields_id: "set_fields (\<lambda>t. t) n = n"
  by (simp add: set_fields_def)

lemmas extends_fresh_leaf = extends_new_child [OF _ extends_refl]
lemmas extends_fresh_group = extends_new_child [where h = "\<lambda>t. t", unfolded set_fields_id]
lemmas extends_fresh_member = extends_new_child [where g = "\<lambda>t. t", unfolded set_fields_id]

lemma newTraceNode_skip:
  "newTraceNode ec ty d = (node, ec1) \<Longrightarrow> extends ec1 p p' ec' \<Longrightarrow> extends ec p p' ec'"
  by (erule extends_skip) (auto simp: newTraceNode_def Let_def)

lemma evalGroup_extends:
  assumes "\<And>c. c \<in> set cs \<Longrightarrow> call_extends (evaluateCondition re facts c)"
  shows "call_extends (evalGroup re facts cs isAll he hu)"
  using assms
proof (induction cs arbitrary: he hu)
  case Nil
  show ?case by (auto simp: call_extends_def intro: extends_refl)
next
  case (Cons c cs)
  have IH: "call_extends (evalGroup re facts cs isAll he' hu')" for he' hu'
    using Cons by simp
  show ?case unfolding call_extends_def
  proof (intro allI impI)
    fix p ec r p' ec'
    assume run: "evalGroup re facts (c # cs) isAll he hu p ec = (r, p', ec')"
    obtain node ec1 where n: "newTraceNode ec TraceLeaf [] = (node, ec1)" by fastforce
    obtain q node' ec2 where e: "evaluateCondition re facts c node ec1 = (q, node', ec2)"
      using prod_cases3 by blast
    let ?p = "appendChild p (set_fields (\<lambda>t. t\<lparr>tn_Result := result_string q\<rparr>) node')"
    have "extends ec1 node node' ec2" 
      using e Cons.prems by (intro call_extendsD [of "evaluateCondition re facts c"]) auto
    then have step: "extends ec p ?p ec2" by (rule extends_fresh_member [OF n]) simp_all
    show "extends ec p p' ec'"
    proof (cases "(q = resultTrue \<and> \<not> isAll) \<or> (q = resultFalse \<and> isAll)")
      case True
      with run n e have "p' = ?p" "ec' = ec2" by (auto simp: Let_def)
      with step show ?thesis by simp
    next
      case False
      with run n e have "evalGroup re facts cs isAll (he \<or> q = resultError) (hu \<or> q = resultUnknown) ?p ec2
          = (r, p', ec')" by (auto simp: Let_def)
      from step call_extendsD [OF IH this] show ?thesis by (rule extends_trans)
    qed
  qed
qed

lemma evaluateCondition_extends: "call_extends (evaluateCondition re facts c)"
proof (induction c)
  case (Condition f op v al an nt)
  show ?case unfolding call_extends_def
  proof (intro allI impI)
    fix p ec r p' ec'
    assume run: "evaluateCondition re facts (Condition f op v al an nt) p ec = (r, p', ec')"
    obtain node ec1 where n: "newTraceNode ec TraceLeaf [] = (node, ec1)" by fastforce
    obtain gnode ec2 where g: "newTraceNode ec1 TraceGroup [] = (gnode, ec2)" by fastforce
    show "extends ec p p' ec'"
    proof (cases "f = []")
      case False
      with run n obtain h where "p' = appendChild p (set_fields h node)" "ec' = ec1"
        "\<And>t. tn_ID (h t) = tn_ID t" "\<And>t. tn_Timestamp (h t) = tn_Timestamp t"
        by (auto split: option.splits prod.splits)
      with n show ?thesis using extends_new_child [OF n, of "\<lambda>t. t" node ec1 h]
        by (simp add: set_fields_id extends_refl)
    next
      case True
      have "extends ec1 p p' ec'"
      proof (cases "al = [] \<and> an = []")
        case False

        define cs where "cs = (if al \<noteq> [] then al else an)"
        define d where "d = (if al \<noteq> [] then ''AND'' else ''OR'')"
        from False True run n g obtain q where
          "evalGroup re facts cs (al \<noteq> []) False False (set_fields (\<lambda>t. t\<lparr>tn_Description := d\<rparr>) gnode) ec2
             = (r, q, ec')" and p': "p' = appendChild p q"
          by (auto simp: cs_def d_def split: prod.splits if_splits)
        moreover have "call_extends (evalGroup re facts cs (al \<noteq> []) False False)"
          using Condition(1,2) by (intro evalGroup_extends) (auto simp: cs_def split: if_splits)
        ultimately have "extends ec2 (set_fields (\<lambda>t. t\<lparr>tn_Description := d\<rparr>) gnode) q ec'"
          by (blast intro: call_extendsD)
        then show ?thesis unfolding p' by (rule extends_fresh_group [OF g]) simp_all
      next
        case leaf: True
        show ?thesis
        proof (cases nt)
          case None
          with True leaf run n g show ?thesis using extends_new_child [OF g, of "\<lambda>t. t" gnode ec2]
            by (auto simp: set_fields_id extends_refl)
        next
          case (Some m)
          then have "call_extends (evaluateCondition re facts m)" using Condition(3) by simp
          with Some True leaf run n g show ?thesis
            by (auto split: prod.splits intro!: extends_new_child [OF g] dest: call_extendsD)
        qed
      qed
      with n show ?thesis by (rule newTraceNode_skip)
    qed
  qed
qed

subsection \<open>Sorting\<close>

text \<open>
  What package sort promises: a permutation of the rules in ascending priority. The engine's
  lemmas are proved from that promise; \<open>sort_key\<close> keeps it.
\<close>

definition sorts_by_priority :: "(Rule list \<Rightarrow> Rule list) \<Rightarrow> bool" where
  "sorts_by_priority srt \<longleftrightarrow> (\<forall>rs. mset (srt rs) = mset rs \<and> sorted (map Priority (srt rs)))"

locale priority_sorter =
  fixes srt :: "Rule list \<Rightarrow> Rule list"
  assumes sorts: "sorts_by_priority srt"
begin

lemma permutes: "mset (srt rs) = mset rs"
  using sorts by (simp add: sorts_by_priority_def)

lemma same_rules: "set (srt rs) = set rs"
  by (metis permutes set_mset_mset)

lemma ascending: "sorted (map Priority (srt rs))"
  using sorts by (simp add: sorts_by_priority_def)

lemma find_lowest:
  assumes "r \<in> set rs" "P r" "\<And>r'. r' \<in> set rs \<Longrightarrow> P r' \<Longrightarrow> r' \<noteq> r \<Longrightarrow> Priority r < Priority r'"
  shows "List.find P (srt rs) = Some r"
proof -
  have "List.find P (srt rs) \<noteq> None"
    using assms(1,2) by (auto simp: find_None_iff same_rules)
  then obtain x where x: "List.find P (srt rs) = Some x" by auto
  then obtain i where i: "i < length (srt rs)" "P (srt rs ! i)" "x = srt rs ! i" "\<forall>j<i. \<not> P (srt rs ! j)"
    by (auto simp: find_Some_iff)
  obtain k where k: "k < length (srt rs)" "srt rs ! k = r"
    using assms(1) by (metis in_set_conv_nth same_rules)
  have "i \<le> k" using i(4) k assms(2) by (metis not_le)
  then have "Priority x \<le> Priority r"
    using ascending [of rs] k i by (fastforce simp: sorted_iff_nth_mono)
  moreover have "x \<in> set rs" using i by (metis nth_mem same_rules)
  ultimately have "x = r" using assms(3) [of x] i by force
  with x show ?thesis by simp
qed

lemma unique_result:
  assumes "distinct (map Priority rs)"
  shows "srt rs = sort_key Priority rs"
proof (rule sym, rule properties_for_sort_key)
  show "mset (srt rs) = mset rs" by (rule permutes)
  show "sorted (map Priority (srt rs))" by (rule ascending)
  fix k assume k: "k \<in> set (srt rs)"
  have d: "distinct (map Priority (srt rs))"
    using assms by (metis distinct_count_atmost_1 mset_map permutes set_mset_mset)
  have *: "[x\<leftarrow>ys. Priority k = Priority x] = (if k \<in> set ys then [k] else [])"
    if "distinct (map Priority ys)" "k \<in> set ys \<or> Priority k \<notin> Priority ` set ys" for ys
    using that by (induction ys) (auto simp: filter_empty_conv, metis image_eqI)
  show "[x\<leftarrow>srt rs. Priority k = Priority x] = [x\<leftarrow>rs. Priority k = Priority x]"
    using * [OF d] * [OF assms] k same_rules [of rs] by simp
qed

end

interpretation stable_sort: priority_sorter "sort_key Priority"
  by unfold_locales (simp add: sorts_by_priority_def)

subsection \<open>The loop over the rules\<close>

definition rule_value :: "regexp \<Rightarrow> facts \<Rightarrow> Rule \<Rightarrow> conditionResult" where
  "rule_value re facts r = cond_value re facts (Conditions r)"

lemma eval_rules_matched:
  "fst (eval_rules re facts rules ae au tr ec)
     = List.find (\<lambda>r. rule_value re facts r = resultTrue) rules"
proof (induction rules arbitrary: ae au tr ec)
  case (Cons r rules)
  obtain node ec1 where n: "newTraceNode ec TraceRule (''rule priority '' @ itoa (Priority r)) = (node, ec1)"
    by fastforce
  obtain q node' ec2 where e: "evaluateCondition re facts (Conditions r) node ec1 = (q, node', ec2)"
    using prod_cases3 by blast
  have "q = rule_value re facts r"
    using e evaluateCondition_value [of re facts "Conditions r" node ec1] by (simp add: rule_value_def)
  with Cons n e show ?case by (auto simp: Let_def)
qed simp

lemma eval_rules_flags:
  assumes "\<forall>r \<in> set rules. rule_value re facts r \<noteq> resultTrue"
  shows "\<exists>tr'. eval_rules re facts rules ae au tr ec
     = (None, ae \<or> resultError \<in> rule_value re facts ` set rules,
        au \<or> resultUnknown \<in> rule_value re facts ` set rules, tr')"
  using assms
proof (induction rules arbitrary: ae au tr ec)
  case (Cons r rules)
  obtain node ec1 where n: "newTraceNode ec TraceRule (''rule priority '' @ itoa (Priority r)) = (node, ec1)"
    by fastforce
  obtain q node' ec2 where e: "evaluateCondition re facts (Conditions r) node ec1 = (q, node', ec2)"
    using prod_cases3 by blast
  have q: "q = rule_value re facts r"
    using e evaluateCondition_value [of re facts "Conditions r" node ec1] by (simp add: rule_value_def)
  let ?tr = "tr @ [set_fields (\<lambda>t. t\<lparr>tn_Result := result_string q\<rparr>) node']"
  obtain tr' where "eval_rules re facts rules (ae \<or> q = resultError) (au \<or> q = resultUnknown) ?tr ec2
     = (None, (ae \<or> q = resultError) \<or> resultError \<in> rule_value re facts ` set rules,
        (au \<or> q = resultUnknown) \<or> resultUnknown \<in> rule_value re facts ` set rules, tr')"
    using Cons by fastforce
  with Cons.prems n e q show ?case by (auto simp: Let_def)
qed simp

lemma eval_rules_numbered:
  assumes "numbered 0 (ec_counter ec) tr" "set (concat (map trace_times tr)) \<subseteq> {ec_evaluatedAt ec}"
    and "eval_rules re facts rules ae au tr ec = (m, ae', au', tr')"
  shows "\<exists>hi. numbered 0 hi tr' \<and> set (concat (map trace_times tr')) \<subseteq> {ec_evaluatedAt ec}"
  using assms
proof (induction rules arbitrary: ae au tr ec)
  case Nil
  then show ?case by auto
next
  case (Cons r rules)
  obtain node ec1 where n: "newTraceNode ec TraceRule (''rule priority '' @ itoa (Priority r)) = (node, ec1)"
    by fastforce
  obtain q node' ec2 where e: "evaluateCondition re facts (Conditions r) node ec1 = (q, node', ec2)"
    using prod_cases3 by blast
  let ?n = "set_fields (\<lambda>t. t\<lparr>tn_Result := result_string q\<rparr>) node'"
  let ?host = "TraceNode (tn_fields node) tr"
  have "extends ec1 node node' ec2" using evaluateCondition_extends e by (rule call_extendsD)
  then have "extends ec ?host (appendChild ?host ?n) ec2" by (rule extends_fresh_member [OF n]) simp_all
  then have "numbered (ec_counter ec) (ec_counter ec2) [?n]"
    "set (concat (map trace_times [?n])) \<subseteq> {ec_evaluatedAt ec}" "ec_evaluatedAt ec2 = ec_evaluatedAt ec"
    by (auto simp: extends_def appendChild_def)
  then have *: "numbered 0 (ec_counter ec2) (tr @ [?n])"
    "set (concat (map trace_times (tr @ [?n]))) \<subseteq> {ec_evaluatedAt ec2}"
    using Cons.prems(1,2) by (auto intro: numbered_append)
  show ?case
  proof (cases "q = resultTrue")
    case True
    with Cons.prems(3) n e have "tr' = tr @ [?n]" by (auto simp: Let_def)
    with * \<open>ec_evaluatedAt ec2 = _\<close> show ?thesis by auto
  next
    case False
    with Cons.prems(3) n e have "eval_rules re facts rules (ae \<or> q = resultError) (au \<or> q = resultUnknown)
        (tr @ [?n]) ec2 = (m, ae', au', tr')" by (auto simp: Let_def)
    from Cons.IH [OF * this] \<open>ec_evaluatedAt ec2 = _\<close> show ?thesis by simp
  qed
qed

end
