(* ===== verification/Rule_Properties.thy ===== *)
theory Rule_Properties
  imports Rule_Semantics
begin

section \<open>Properties of the rules engine\<close>

text \<open>
  The claims about Evaluate, ResolveFact, the temporal operators, ValidateRuleSet and Clone,
  each with the instance that shows its hypotheses can hold.
\<close>

subsection \<open>Paths without brackets and dots\<close>

definition plain_key :: "string \<Rightarrow> bool" where
  "plain_key k \<longleftrightarrow> k \<noteq> [] \<and> CHR ''['' \<notin> set k \<and> CHR '']'' \<notin> set k \<and> CHR ''.'' \<notin> set k"

lemma split_path_plain:
  "CHR ''['' \<notin> set k \<Longrightarrow> CHR '']'' \<notin> set k \<Longrightarrow> inb \<or> CHR ''.'' \<notin> set k
     \<Longrightarrow> split_path (k @ rest) cur inb = split_path rest (cur @ k) inb"
  by (induction k arbitrary: cur) auto

lemma split_plain_key: "plain_key k \<Longrightarrow> splitFactPath k = [k]"
  using split_path_plain [of k False "[]" "[]"] by (simp add: plain_key_def splitFactPath_def)

lemma resolve_plain_key: "plain_key k \<Longrightarrow> ResolveFact facts k = map_of facts k"
  by (auto simp: ResolveFact_def split_plain_key parseBracketIndex_def after_last_bracket_def
      segment_key_def descend_def plain_key_def split: option.split)

subsection \<open>Which outcome an evaluation has\<close>

lemma Evaluate_fields:
  assumes "List.find (\<lambda>r. rule_value re facts r = resultTrue) (srt (Rules rs)) = Some r"
  shows "ev_Outcome (Evaluate re srt c rs facts t eb tr) = rule_Outcome r"
    "ev_Status (Evaluate re srt c rs facts t eb tr) = outcomeToStatus (rule_Outcome r)"
    "ev_MatchedRuleID (Evaluate re srt c rs facts t eb tr) = Some (rule_ID r)"
proof -
  have *: "fst (eval_rules re facts (srt (Rules rs)) False False ns ec) = Some r" for ns ec
    by (simp add: eval_rules_matched assms)
  obtain n ec where n: "newTraceNode \<lparr>ec_evaluatedAt = t, ec_counter = 0\<rparr> TraceRoot
      (''evaluate rule set '' @ rs_Key rs) = (n, ec)" by fastforce
  obtain e u tr' where "eval_rules re facts (srt (Rules rs)) False False [n] ec = (Some r, e, u, tr')"
    using * [of "[n]" ec] by (metis prod_cases4 fst_conv)
  with n show "ev_Outcome (Evaluate re srt c rs facts t eb tr) = rule_Outcome r"
    "ev_Status (Evaluate re srt c rs facts t eb tr) = outcomeToStatus (rule_Outcome r)"
    "ev_MatchedRuleID (Evaluate re srt c rs facts t eb tr) = Some (rule_ID r)"
    by (simp_all add: Evaluate_def Let_def)
qed

definition fallback_outcome :: "conditionResult set \<Rightarrow> Outcome \<Rightarrow> Outcome" where
  "fallback_outcome vs d = (if resultError \<in> vs then OutcomeError
     else if resultUnknown \<in> vs then OutcomeInformationRequired else d)"

lemma Evaluate_fallback_fields:
  assumes "\<forall>r \<in> set (srt (Rules rs)). rule_value re facts r \<noteq> resultTrue"
  shows "ev_Outcome (Evaluate re srt c rs facts t eb tr)
      = fallback_outcome (rule_value re facts ` set (srt (Rules rs))) (DefaultOutcome rs)"
    "ev_Status (Evaluate re srt c rs facts t eb tr)
      = outcomeToStatus (fallback_outcome (rule_value re facts ` set (srt (Rules rs))) (DefaultOutcome rs))"
    "ev_MatchedRuleID (Evaluate re srt c rs facts t eb tr) = None"
proof -
  obtain n ec where n: "newTraceNode \<lparr>ec_evaluatedAt = t, ec_counter = 0\<rparr> TraceRoot
      (''evaluate rule set '' @ rs_Key rs) = (n, ec)" by fastforce
  obtain tr' where "eval_rules re facts (srt (Rules rs)) False False [n] ec
     = (None, resultError \<in> rule_value re facts ` set (srt (Rules rs)),
        resultUnknown \<in> rule_value re facts ` set (srt (Rules rs)), tr')"
    using eval_rules_flags [OF assms, of False False "[n]" ec] by auto
  with n show "ev_Outcome (Evaluate re srt c rs facts t eb tr)
      = fallback_outcome (rule_value re facts ` set (srt (Rules rs))) (DefaultOutcome rs)"
    "ev_Status (Evaluate re srt c rs facts t eb tr)
      = outcomeToStatus (fallback_outcome (rule_value re facts ` set (srt (Rules rs))) (DefaultOutcome rs))"
    "ev_MatchedRuleID (Evaluate re srt c rs facts t eb tr) = None"
    by (simp_all add: Evaluate_def Let_def fallback_outcome_def outcomeToStatus_def)
qed

text \<open>
  C3: of the rules whose condition is TRUE, the one with the lowest priority number decides
  the outcome, the status and the matched rule of the evaluation, whatever the other rules
  give and however the sorting algorithm orders them.
\<close>

theorem Evaluate_lowest_priority_wins:
  assumes "sorts_by_priority srt"
    and "r \<in> set (Rules rs)" and "cond_value re facts (Conditions r) = resultTrue"
    and "\<forall>r' \<in> set (Rules rs). cond_value re facts (Conditions r') = resultTrue \<and> r' \<noteq> r
           \<longrightarrow> Priority r < Priority r'"
  shows "ev_Outcome (Evaluate re srt c rs facts t eb tr) = rule_Outcome r
    \<and> ev_Status (Evaluate re srt c rs facts t eb tr) = outcomeToStatus (rule_Outcome r)
    \<and> ev_MatchedRuleID (Evaluate re srt c rs facts t eb tr) = Some (rule_ID r)"
proof -
  have "List.find (\<lambda>r. rule_value re facts r = resultTrue) (srt (Rules rs)) = Some r"
    using assms by (intro priority_sorter.find_lowest) (auto simp: priority_sorter_def rule_value_def)
  then show ?thesis by (simp add: Evaluate_fields)
qed

definition demo_rule :: "nat \<Rightarrow> int \<Rightarrow> Outcome \<Rightarrow> Operator \<Rightarrow> Rule" where
  "demo_rule i p o' op = \<lparr>rule_ID = i, Priority = p, rule_Outcome = o',
     Conditions = Condition ''income'' op (GInt 1000) [] [] None, rule_Active = True, rule_CreatedAt = 0\<rparr>"

definition demo_rules :: "Rule list \<Rightarrow> RuleSet" where
  "demo_rules rules = \<lparr>rs_ID = 5, rs_OrganizationID = 6, rs_CaseID = None, rs_Key = ''k'', rs_Name = ''n'',
     rs_Description = [], rs_Version = 1, rs_Status = StatusDraft, DefaultOutcome = OutcomeIneligible,
     Rules = rules, Triggers = [], rs_CreatedBy = 7, rs_CreatedAt = 0, rs_UpdatedAt = 0\<rparr>"

definition demo_ctx :: ctx where
  "demo_ctx = \<lparr>ctx_uuid = \<lambda>k. 1000 + k, ctx_time = \<lambda>k. 0, ctx_request_id = ''req''\<rparr>"

lemma demo_values:
  "cond_value re [(''income'', GInt n)] (Conditions (demo_rule i p o' OpGreaterThan))
     = (if 1000 < n then resultTrue else resultFalse)"
  "cond_value re [(''income'', GInt n)] (Conditions (demo_rule i p o' OpLessThan))
     = (if n < 1000 then resultTrue else resultFalse)"
  "cond_value re [] (Conditions (demo_rule i p o' op)) = resultUnknown"
proof -
  have p: "plain_key ''income''" by (simp add: plain_key_def)
  have "(1000::rat) < of_int n \<longleftrightarrow> 1000 < n" "of_int n < (1000::rat) \<longleftrightarrow> n < 1000"
    "(of_int n = (1000::rat)) \<longleftrightarrow> n = 1000"
    by linarith+
  then show "cond_value re [(''income'', GInt n)] (Conditions (demo_rule i p o' OpGreaterThan))
     = (if 1000 < n then resultTrue else resultFalse)"
  "cond_value re [(''income'', GInt n)] (Conditions (demo_rule i p o' OpLessThan))
     = (if n < 1000 then resultTrue else resultFalse)"
  "cond_value re [] (Conditions (demo_rule i p o' op)) = resultUnknown"
    by (simp_all add: demo_rule_def resolve_plain_key [OF p] evalLeaf_def compareTyped_def
      operator_classes compareNumeric_def isNumber_def toRat_def rat_cmp_def)
qed

theorem Evaluate_lowest_priority_wins_witness:
  "ev_Outcome (Evaluate Map.empty (sort_key Priority) demo_ctx
      (demo_rules [demo_rule 1 9 OutcomeFlag OpGreaterThan, demo_rule 2 3 OutcomeEligible OpGreaterThan])
      [(''income'', GInt 1500)] 0 None TriggerManual) = OutcomeEligible"
  using Evaluate_lowest_priority_wins [of "sort_key Priority" "demo_rule 2 3 OutcomeEligible OpGreaterThan"
      "demo_rules [demo_rule 1 9 OutcomeFlag OpGreaterThan, demo_rule 2 3 OutcomeEligible OpGreaterThan]"
      Map.empty "[(''income'', GInt 1500)]" demo_ctx 0 None TriggerManual]
  by (simp add: stable_sort.sorts demo_rules_def demo_values) (simp add: demo_rule_def)

text \<open>
  When no rule is TRUE, nothing is matched, and the outcome is ERROR if some rule is in
  error, otherwise INFORMATION_REQUIRED if some rule is unknown, otherwise the default of the
  rule set; the order of the rules plays no part.
\<close>

theorem Evaluate_no_match:
  assumes "sorts_by_priority srt"
    and "\<forall>r \<in> set (Rules rs). cond_value re facts (Conditions r) \<noteq> resultTrue"
  shows "ev_MatchedRuleID (Evaluate re srt c rs facts t eb tr) = None
    \<and> ev_Outcome (Evaluate re srt c rs facts t eb tr)
        = (if \<exists>r \<in> set (Rules rs). cond_value re facts (Conditions r) = resultError then OutcomeError
           else if \<exists>r \<in> set (Rules rs). cond_value re facts (Conditions r) = resultUnknown
             then OutcomeInformationRequired
           else DefaultOutcome rs)"
proof -
  have s: "set (srt (Rules rs)) = set (Rules rs)"
    using assms(1) by (intro priority_sorter.same_rules) (simp add: priority_sorter_def)
  then have "\<forall>r \<in> set (srt (Rules rs)). rule_value re facts r \<noteq> resultTrue"
    using assms(2) by (simp add: rule_value_def)
  note fields = Evaluate_fallback_fields [of srt rs re facts c t eb tr, OF this, unfolded s]
  have "v \<in> rule_value re facts ` set (Rules rs)
      \<longleftrightarrow> (\<exists>r \<in> set (Rules rs). cond_value re facts (Conditions r) = v)" for v
    by (auto simp: rule_value_def)
  with fields show ?thesis by (simp add: fallback_outcome_def)
qed

theorem Evaluate_no_match_witness:
  "ev_Outcome (Evaluate Map.empty (sort_key Priority) demo_ctx
      (demo_rules [demo_rule 1 9 OutcomeFlag OpGreaterThan]) [(''income'', GInt 10)] 0 None TriggerManual)
     = OutcomeIneligible"
  using Evaluate_no_match [of "sort_key Priority" "demo_rules [demo_rule 1 9 OutcomeFlag OpGreaterThan]"
      Map.empty "[(''income'', GInt 10)]" demo_ctx 0 None TriggerManual]
  by (simp add: stable_sort.sorts demo_rules_def demo_values)

subsection \<open>Validated rule sets\<close>

lemma validate_rules_priorities:
  "validate_rules re rs seen = [] \<Longrightarrow> distinct (map Priority rs) \<and> set (map Priority rs) \<inter> set seen = {}
     \<and> (\<forall>r \<in> set rs. 0 \<le> Priority r \<and> IsValidOutcome (rule_Outcome r)
          \<and> ValidateCondition re (Conditions r) 0 = None)"
proof (induction rs arbitrary: seen)
  case (Cons r rs)
  then have "validate_rule re r seen = []" "validate_rules re rs (Priority r # seen) = []" by simp_all
  with Cons.IH [of "Priority r # seen"] show ?case
    by (auto simp: validate_rule_def split: if_splits option.splits)
qed simp

lemma ValidateRuleSet_priorities:
  "ValidateRuleSet re rs = None \<Longrightarrow> distinct (map Priority (Rules rs))"
  using validate_rules_priorities [of re "Rules rs" "[]"]
  by (auto simp: ValidateRuleSet_def rule_set_errors_def split: if_splits)

text \<open>
  On a rule set that passes ValidateRuleSet, any two sorting algorithms give the same
  evaluation, trace included.
\<close>

theorem Evaluate_sort_independent:
  assumes "ValidateRuleSet re rs = None"
    and "sorts_by_priority srt1" and "sorts_by_priority srt2"
  shows "Evaluate re srt1 c rs facts t eb tr = Evaluate re srt2 c rs facts t eb tr"
proof -
  have "distinct (map Priority (Rules rs))"
    by (rule ValidateRuleSet_priorities [OF assms(1)])
  then have "srt1 (Rules rs) = srt2 (Rules rs)"
    using assms(2,3) by (simp add: priority_sorter.unique_result priority_sorter_def)
  then show ?thesis by (simp add: Evaluate_def)
qed

lemma demo_valid:
  "ValidateCondition re (Conditions (demo_rule i p o' OpGreaterThan)) 0 = None"
proof -
  have p: "plain_key ''income''" by (simp add: plain_key_def)
  show ?thesis
    by (simp add: demo_rule_def MaxConditionNestingDepth_def validateLeaf_def IsValidOperator_def
        isValidFactPath_def split_plain_key [OF p] existenceOperators_def validateValueForOperator_def
        numericOperators_def isJSONNumber_def)
qed

lemma demo_rule_set_valid:
  "ValidateRuleSet re (demo_rules [demo_rule 1 9 OutcomeFlag OpGreaterThan,
      demo_rule 2 3 OutcomeEligible OpGreaterThan]) = None"
  by (simp add: ValidateRuleSet_def rule_set_errors_def demo_rules_def validate_rule_def demo_valid
      MaxRulesPerRuleSet_def MaxConditionsPerRuleSet_def IsValidOutcome_def)
    (simp add: demo_rule_def IsValidOutcome_def IsValidOperator_def)

theorem Evaluate_sort_independent_witness:
  "Evaluate Map.empty (sort_key Priority) demo_ctx
     (demo_rules [demo_rule 1 9 OutcomeFlag OpGreaterThan, demo_rule 2 3 OutcomeEligible OpGreaterThan])
     [(''income'', GInt 1500)] 0 None TriggerManual
   = Evaluate Map.empty (\<lambda>rs. rev (rev (sort_key Priority rs))) demo_ctx
     (demo_rules [demo_rule 1 9 OutcomeFlag OpGreaterThan, demo_rule 2 3 OutcomeEligible OpGreaterThan])
     [(''income'', GInt 1500)] 0 None TriggerManual"
  by (rule Evaluate_sort_independent [OF demo_rule_set_valid])
    (simp_all add: sorts_by_priority_def)

text \<open>The height of a condition tree and the shape every node of a validated tree has.\<close>

fun cond_height :: "Condition \<Rightarrow> nat" where
  "cond_height (Condition f op v al an nt) =
     (if f \<noteq> [] then 0
      else Suc (foldr max (map cond_height al @ map cond_height an
                @ (case nt of None \<Rightarrow> [] | Some n \<Rightarrow> [cond_height n])) 0))"

fun cond_shape :: "Condition \<Rightarrow> bool" where
  "cond_shape (Condition f op v al an nt) =
     (if f \<noteq> [] then IsValidOperator op \<and> length f \<le> 256 \<and> (existenceOperators op \<or> v \<noteq> GNil)
      else group_count al an nt = 1 \<and> list_all cond_shape al \<and> list_all cond_shape an
           \<and> (case nt of None \<Rightarrow> True | Some n \<Rightarrow> cond_shape n))"

lemma foldr_max_le: "foldr max xs (0::nat) \<le> k \<longleftrightarrow> (\<forall>x \<in> set xs. x \<le> k)"
  by (induction xs) auto

lemma ValidateConditions_all:
  "ValidateConditions re cs d = None \<longleftrightarrow> (\<forall>c \<in> set cs. ValidateCondition re c d = None)"
  by (induction cs) (auto split: option.split)

lemma validated_tree:
  "ValidateCondition re c d = None \<Longrightarrow> d + cond_height c \<le> MaxConditionNestingDepth \<and> cond_shape c"
proof (induction c arbitrary: d)
  case (Condition f op v al an nt)
  show ?case
  proof (cases "f = []")
    case False
    with Condition.prems show ?thesis
      by (auto simp: validateLeaf_def isValidFactPath_def split: if_splits)
  next
    case True
    have checks: "ValidateConditions re al (d + 1) = None" "ValidateConditions re an (d + 1) = None"
      "\<forall>n. nt = Some n \<longrightarrow> ValidateCondition re n (d + 1) = None" "group_count al an nt = 1"
      "0 < length al \<or> 0 < length an \<or> nt \<noteq> None"
      using Condition.prems True by (auto split: if_splits option.splits)
    have kids: "\<forall>c \<in> set al \<union> set an \<union> set_option nt. Suc d + cond_height c \<le> MaxConditionNestingDepth
        \<and> cond_shape c" and ne: "set al \<union> set an \<union> set_option nt \<noteq> {}" and "group_count al an nt = 1"
    proof -
      have IH: "ValidateCondition re x (Suc d) = None
          \<Longrightarrow> Suc d + cond_height x \<le> MaxConditionNestingDepth \<and> cond_shape x"
        if "x \<in> set al \<union> set an \<union> set_option nt" for x
        using that Condition.IH(1,2) [of x "Suc d"] Condition.IH(3) [of x "Suc d"] by blast
      from checks show "\<forall>c \<in> set al \<union> set an \<union> set_option nt. Suc d + cond_height c \<le> MaxConditionNestingDepth
        \<and> cond_shape c" by (intro ballI IH) (auto simp: ValidateConditions_all)
      from checks show "set al \<union> set an \<union> set_option nt \<noteq> {}" "group_count al an nt = 1"
        by (auto simp: not_Some_eq)
    qed
    then obtain m where m: "Suc d + m = MaxConditionNestingDepth" by (metis ex_in_conv le_Suc_ex add.assoc)
    with kids have "\<forall>c \<in> set al \<union> set an \<union> set_option nt. cond_height c \<le> m" by force
    then have "foldr max (map cond_height al @ map cond_height an
        @ (case nt of None \<Rightarrow> [] | Some n \<Rightarrow> [cond_height n])) 0 \<le> m"
      unfolding foldr_max_le by (auto split: option.splits)
    then have "d + cond_height (Condition f op v al an nt) \<le> MaxConditionNestingDepth"
      using m True by (simp del: foldr_append)
    with kids True \<open>group_count al an nt = 1\<close> show ?thesis
      by (auto simp: list_all_iff split: option.splits simp del: cond_height.simps)
  qed
qed

text \<open>
  C39: ValidateRuleSet accepts a rule set only within the limits of the engine: at most 100
  rules and 500 leaf conditions, priorities that are non-negative and pairwise distinct,
  valid outcomes, trees at most ten groups deep in which every leaf has a known operator, a
  path of at most 256 bytes and a value where the operator needs one, and every group exactly
  one of all/any/not.
\<close>

theorem ValidateRuleSet_bounds:
  assumes "ValidateRuleSet re rs = None"
  shows "length (Rules rs) \<le> 100 \<and> sum_list (map (countConditions \<circ> Conditions) (Rules rs)) \<le> 500
    \<and> distinct (map Priority (Rules rs)) \<and> IsValidOutcome (DefaultOutcome rs) \<and> 1 \<le> rs_Version rs
    \<and> (\<forall>r \<in> set (Rules rs). 0 \<le> Priority r \<and> IsValidOutcome (rule_Outcome r)
         \<and> cond_height (Conditions r) \<le> 10 \<and> cond_shape (Conditions r))"
proof -
  have e: "rule_set_errors re rs = []" using assms by (auto simp: ValidateRuleSet_def split: if_splits)
  then have "validate_rules re (Rules rs) [] = []" by (simp add: rule_set_errors_def)
  note v = validate_rules_priorities [OF this]
  have "\<forall>r \<in> set (Rules rs). cond_height (Conditions r) \<le> 10 \<and> cond_shape (Conditions r)"
    using v validated_tree [of re _ 0] by (auto simp: MaxConditionNestingDepth_def)
  with e v show ?thesis
    by (auto simp: rule_set_errors_def MaxRulesPerRuleSet_def MaxConditionsPerRuleSet_def split: if_splits)
qed

theorem ValidateRuleSet_bounds_witness:
  "0 \<le> Priority (demo_rule 1 9 OutcomeFlag OpGreaterThan)
   \<and> cond_shape (Conditions (demo_rule 1 9 OutcomeFlag OpGreaterThan))"
  using ValidateRuleSet_bounds [OF demo_rule_set_valid] by (simp add: demo_rules_def)

subsection \<open>Traces\<close>

text \<open>
  no two nodes of the trace of an evaluation, at any depth, carry the same identifier, and
  every node carries the time of the evaluation, so equal inputs give equal traces.
\<close>

theorem Evaluate_trace_ids_distinct:
  "distinct (concat (map trace_ids (ev_Trace (Evaluate re srt c rs facts t eb tr))))
   \<and> set (concat (map trace_times (ev_Trace (Evaluate re srt c rs facts t eb tr)))) \<subseteq> {t}
   \<and> (\<forall>c'. ev_Trace (Evaluate re srt c' rs facts t eb tr) = ev_Trace (Evaluate re srt c rs facts t eb tr))"
proof -
  obtain n ec where n: "newTraceNode \<lparr>ec_evaluatedAt = t, ec_counter = 0\<rparr> TraceRoot
      (''evaluate rule set '' @ rs_Key rs) = (n, ec)" by fastforce
  then have ec: "ec_counter ec = 1" "ec_evaluatedAt ec = t" and "tn_ID (tn_fields n) = dec_string (Suc 0)"
    "tn_Timestamp (tn_fields n) = t" "tn_Children n = []"
    by (auto simp: newTraceNode_def Let_def)
  then have "numbered 0 1 [n]" "set (concat (map trace_times [n])) \<subseteq> {t}"
    using numbered_node [of "tn_fields n" 0 1 "[]"] by (cases n; simp add: numbered_Nil)+
  obtain m e u tr' where run: "eval_rules re facts (srt (Rules rs)) False False [n] ec = (m, e, u, tr')"
    using prod_cases4 by blast
  obtain hi where "numbered 0 hi tr'" "set (concat (map trace_times tr')) \<subseteq> {t}"
    using eval_rules_numbered [OF _ _ run] ec \<open>numbered 0 1 [n]\<close> \<open>set _ \<subseteq> {t}\<close> by auto
  moreover have "ev_Trace (Evaluate re srt c' rs facts t eb tr) = tr'" for c'
    using n run by (simp add: Evaluate_def Let_def split: prod.split)
  ultimately show ?thesis using numbered_distinct by auto
qed

subsection \<open>Groups\<close>

lemma and_value_cong: "set rs = set rs' \<Longrightarrow> and_value rs = and_value rs'"
  by (simp add: and_value_def)

lemma or_value_cong: "set rs = set rs' \<Longrightarrow> or_value rs = or_value rs'"
  by (simp add: or_value_def)

lemma invert_and: "invertResult (and_value rs) = or_value (map invertResult rs)"
proof -
  have "invertResult r = resultTrue \<longleftrightarrow> r = resultFalse" "invertResult r = resultError \<longleftrightarrow> r = resultError"
    "invertResult r = resultUnknown \<longleftrightarrow> r = resultUnknown" for r
    by (cases r; simp add: invertResult_def)+
  then have "resultTrue \<in> invertResult ` set rs \<longleftrightarrow> resultFalse \<in> set rs"
    "resultError \<in> invertResult ` set rs \<longleftrightarrow> resultError \<in> set rs"
    "resultUnknown \<in> invertResult ` set rs \<longleftrightarrow> resultUnknown \<in> set rs"
    by (metis image_iff)+
  then show ?thesis by (simp add: and_value_def or_value_def invertResult_def)
qed

definition negated :: "Condition \<Rightarrow> Condition" where
  "negated c = Condition [] OpEqual GNil [] [] (Some c)"

text \<open>
  groups behave as conjunction and disjunction in the four-valued logic TRUE, FALSE,
  UNKNOWN, ERROR: the result of an all or any group depends only on the set of its members
  (not on their order or repetition, although evaluation stops early), and negating an all
  group is the any group of the negated members.
\<close>

theorem group_laws:
  "set cs = set cs' \<Longrightarrow>
     fst (evaluateCondition re facts (Condition [] op v cs [] None) p ec)
       = fst (evaluateCondition re facts (Condition [] op v cs' [] None) p' ec')
   \<and> fst (evaluateCondition re facts (Condition [] op v [] cs None) p ec)
       = fst (evaluateCondition re facts (Condition [] op v [] cs' None) p' ec')
   \<and> (cs \<noteq> [] \<longrightarrow> fst (evaluateCondition re facts (negated (Condition [] op v cs [] None)) p ec)
       = fst (evaluateCondition re facts (Condition [] op v [] (map negated cs') None) p' ec'))"
proof -
  assume eq: "set cs = set cs'"
  then have e: "cs = [] \<longleftrightarrow> cs' = []" by (metis set_empty)
  have al: "cond_value re facts (Condition [] op v ds [] None)
      = (if ds = [] then resultError else and_value (map (cond_value re facts) ds))" for ds
    by simp
  have an: "cond_value re facts (Condition [] op v [] ds None)
      = (if ds = [] then resultError else or_value (map (cond_value re facts) ds))" for ds
    by simp
  have ng: "cond_value re facts (negated d) = invertResult (cond_value re facts d)" for d
    by (simp add: negated_def)
  have "and_value (map (cond_value re facts) cs) = and_value (map (cond_value re facts) cs')"
    "or_value (map (cond_value re facts) cs) = or_value (map (cond_value re facts) cs')"
    using eq by (auto intro!: and_value_cong or_value_cong)
  moreover have "map (cond_value re facts) (map negated cs') = map invertResult (map (cond_value re facts) cs')"
    by (simp add: ng)
  ultimately show ?thesis
    unfolding evaluateCondition_value al an ng using e
    by (auto simp: invert_and simp del: map_map)
qed

theorem group_laws_witness:
  "fst (evaluateCondition Map.empty []
      (Condition [] OpEqual GNil [Conditions (demo_rule 1 9 OutcomeFlag OpGreaterThan),
          Conditions (demo_rule 2 3 OutcomeFlag OpLessThan)] [] None)
      (fst (newTraceNode \<lparr>ec_evaluatedAt = 0, ec_counter = 0\<rparr> TraceRoot [])) \<lparr>ec_evaluatedAt = 0, ec_counter = 0\<rparr>)
   = fst (evaluateCondition Map.empty []
      (Condition [] OpEqual GNil [Conditions (demo_rule 2 3 OutcomeFlag OpLessThan),
          Conditions (demo_rule 1 9 OutcomeFlag OpGreaterThan)] [] None)
      (fst (newTraceNode \<lparr>ec_evaluatedAt = 0, ec_counter = 0\<rparr> TraceRoot [])) \<lparr>ec_evaluatedAt = 0, ec_counter = 0\<rparr>)"
  by (rule conjunct1 [OF group_laws]) auto

subsection \<open>Dates\<close>

lemma instant_of_less:
  "instant_of (y, m, d) (0, 0, 0) 0 < instant_of (y', m', d') (0, 0, 0) 0
     \<longleftrightarrow> day_number y m d < day_number y' m' d'"
  by (simp add: instant_of_def nanos_def)

lemma parseTemporal_date_less:
  assumes "isRFC3339Date a" "isRFC3339Date b"
  obtains x y where "parseTemporal a = Some x" "parseTemporal b = Some y"
    "x < y \<longleftrightarrow> a < b" "y < x \<longleftrightarrow> b < a"
proof -
  obtain da where da: "parse_date a = Some da" using assms(1) by (auto simp: isRFC3339Date_def)
  obtain db where db: "parse_date b = Some db" using assms(2) by (auto simp: isRFC3339Date_def)
  obtain y m d where a: "da = (y, m, d)" using prod_cases3 by blast
  obtain y' m' d' where b: "db = (y', m', d')" using prod_cases3 by blast
  have v: "valid_date y m d" "valid_date y' m' d'"
    using parse_date_shape da db a b by blast+
  show ?thesis
    using that [of "instant_of da (0,0,0) 0" "instant_of db (0,0,0) 0"] da db
      day_number_less_iff [OF v] day_number_less_iff [OF v(2,1)]
      date_less_string [OF da db] date_less_string [OF db da]
    by (simp add: parseTemporal_def instant_of_less a b)
qed

text \<open>
  on dates written YYYY-MM-DD the four temporal operators never fail and agree with the
  order of the strings.
\<close>

theorem temporal_dates_as_strings:
  assumes "isRFC3339Date a" and "isRFC3339Date b"
  shows "fst (evalLeaf re OpBefore (GString a) (GString b)) = (if a < b then resultTrue else resultFalse)
    \<and> fst (evalLeaf re OpAfter (GString a) (GString b)) = (if b < a then resultTrue else resultFalse)
    \<and> fst (evalLeaf re OpOnOrBefore (GString a) (GString b)) = (if a \<le> b then resultTrue else resultFalse)
    \<and> fst (evalLeaf re OpOnOrAfter (GString a) (GString b)) = (if b \<le> a then resultTrue else resultFalse)"
proof -
  obtain x y where xy: "parseTemporal a = Some x" "parseTemporal b = Some y"
    "x < y \<longleftrightarrow> a < b" "y < x \<longleftrightarrow> b < a"
    using parseTemporal_date_less [OF assms] by blast
  then have "x = y \<longleftrightarrow> a = b" by (metis less_irrefl linorder_neqE)
  with xy show ?thesis
    by (auto simp: evalLeaf_def compareTyped_def operator_classes compareTemporal_def string_of_def
        instant_cmp_def Let_def)
qed

theorem temporal_dates_as_strings_witness:
  "fst (evalLeaf Map.empty OpBefore (GString ''2024-02-29'') (GString ''2024-03-01'')) = resultTrue"
proof -
  have "isRFC3339Date ''2024-02-29''" "isRFC3339Date ''2024-03-01''"
    by (simp_all add: isRFC3339Date_def parse_date_def num2_def num4_def is_digit_def digit_val_def
        valid_date_def days_in_month_def is_leap_def)
  from temporal_dates_as_strings [OF this, of Map.empty] show ?thesis by (simp add: less_char_def)
qed

subsection \<open>Paths into arrays\<close>

lemma digits_free_of: "c \<in> set (dec_string n) \<Longrightarrow> c \<noteq> CHR ''['' \<and> c \<noteq> CHR '']'' \<and> c \<noteq> CHR ''.'' \<and> \<not> is_space c"
  using dec_string_digits [of c n] by (auto simp: is_digit_def is_space_def)

lemma Sscanf_dec_string:
  assumes "n < 2 ^ 63"
  shows "Sscanf_int (dec_string n) = Some (int n)"
proof -
  have dg: "\<forall>c \<in> set (dec_string n). is_digit c" using dec_string_digits by auto
  have nb: "is_digit c \<Longrightarrow> \<not> is_blank c \<and> c \<noteq> CHR ''-'' \<and> c \<noteq> CHR ''+''" for c
    by (auto simp: is_digit_def is_blank_def)
  have "dropWhile is_blank (dec_string n) = dec_string n"
    using dg nb by (cases "dec_string n") auto
  moreover have "hd (dec_string n) \<noteq> CHR ''-''" "hd (dec_string n) \<noteq> CHR ''+''"
    using dg nb by (metis dec_string_nonempty hd_in_set)+
  moreover have tw: "takeWhile is_digit (dec_string n) = dec_string n" using dg by (simp add: takeWhile_eq_all_conv)
  ultimately show ?thesis using assms by (simp add: Sscanf_int_def Let_def tw)
qed

lemma parse_bracket_segment:
  assumes "n < 2 ^ 63"
  shows "parseBracketIndex (k @ ''['' @ dec_string n @ '']'') = (int n, True)"
proof -
  have "takeWhile (\<lambda>c. c \<noteq> CHR ''['') (rev (dec_string n) @ CHR ''['' # rev k) = rev (dec_string n)"
    using digits_free_of by (subst takeWhile_append2) auto
  then have "after_last_bracket (k @ ''['' @ dec_string n @ '']'') = Some (dec_string n @ '']'')"
    by (simp add: after_last_bracket_def)
  then show ?thesis using Sscanf_dec_string [OF assms]
    by (simp add: parseBracketIndex_def HasSuffix1_def butlast_append)
qed

lemma TrimSpace_solid: "s \<noteq> [] \<Longrightarrow> \<not> is_space (hd s) \<Longrightarrow> \<not> is_space (last s) \<Longrightarrow> TrimSpace s = s"
  by (simp add: TrimSpace_def dropWhile_eq_self_iff [THEN iffD2] hd_rev)

lemma segment_key_indexed:
  assumes "k = [] \<or> \<not> is_space (hd k)" "k = [] \<or> hd k \<noteq> CHR ''[''"
  shows "segment_key (k @ ''['' @ dec_string n @ '']'') True
    = (if k = [] then dec_string n else k @ ''['' @ dec_string n)"
proof -
  have "\<not> is_space (last (dec_string n))"
    using digits_free_of [of "last (dec_string n)" n] by simp
  then have "TrimSpace (k @ CHR ''['' # dec_string n) = k @ CHR ''['' # dec_string n"
    using assms(1) by (intro TrimSpace_solid) (auto simp: hd_append is_space_def)
  then show ?thesis using assms(2)
    by (auto simp: segment_key_def TrimSuffix1_def HasSuffix1_def TrimPrefix1_def butlast_append hd_append)
qed

lemma split_indexed:
  assumes "plain_key k"
  shows "splitFactPath (k @ ''['' @ dec_string n @ '']'') = [k @ ''['' @ dec_string n @ '']'']"
    "splitFactPath (k @ ''.['' @ dec_string n @ '']'') = [k, ''['' @ dec_string n @ '']'']"
proof -
  have k: "CHR ''['' \<notin> set k" "CHR '']'' \<notin> set k" "CHR ''.'' \<notin> set k" "k \<noteq> []"
    using assms by (auto simp: plain_key_def)
  have d: "CHR ''['' \<notin> set (dec_string n)" "CHR '']'' \<notin> set (dec_string n)"
    using digits_free_of by blast+
  have tail: "split_path (dec_string n @ '']'') cur True = [cur @ dec_string n @ '']'']" for cur
    using split_path_plain [OF d, of True "'']''" cur] by simp
  show "splitFactPath (k @ ''['' @ dec_string n @ '']'') = [k @ ''['' @ dec_string n @ '']'']"
    "splitFactPath (k @ ''.['' @ dec_string n @ '']'') = [k, ''['' @ dec_string n @ '']'']"
    using k tail by (simp_all add: splitFactPath_def split_path_plain)
qed

text \<open>
  an index is only followed when it is a segment of its own. The path "k.[n]" yields
  element \<open>n\<close> of the array under key \<open>k\<close>, but "k[n]" is looked up as the object key "k[n"
  (without the closing bracket), so it misses the array that is there.
\<close>

theorem ResolveFact_array_index:
  assumes "plain_key k" and "\<not> is_space (hd k)" and "n < 2 ^ 63"
  shows "ResolveFact facts (k @ ''['' @ dec_string n @ '']'') = map_of facts (k @ ''['' @ dec_string n)
    \<and> (\<forall>vs. map_of facts k = Some (GArray vs) \<longrightarrow>
         ResolveFact facts (k @ ''.['' @ dec_string n @ '']'') = (if n < length vs then Some (vs ! n) else None))"
proof
  have k: "k \<noteq> []" "hd k \<noteq> CHR ''[''" using assms(1) by (metis hd_in_set plain_key_def)+
  show "ResolveFact facts (k @ ''['' @ dec_string n @ '']'') = map_of facts (k @ ''['' @ dec_string n)"
    using k assms segment_key_indexed [of k n] parse_bracket_segment [OF assms(3), of k]
    by (simp add: ResolveFact_def split_indexed descend_def split: option.split del: append_Cons append.simps)
  have pk: "parseBracketIndex k = (0, False)"
    using assms(1) by (simp add: parseBracketIndex_def after_last_bracket_def plain_key_def)
  show "\<forall>vs. map_of facts k = Some (GArray vs) \<longrightarrow>
      ResolveFact facts (k @ ''.['' @ dec_string n @ '']'') = (if n < length vs then Some (vs ! n) else None)"
    using parse_bracket_segment [OF assms(3), of "[]", unfolded append.simps(1)] assms(1)
    by (auto simp: ResolveFact_def split_indexed pk segment_key_def [of k] descend_def
        simp del: append_Cons append.simps) 
qed

theorem ResolveFact_array_index_witness:
  "ResolveFact [(''items'', GArray [GInt 4])] (''items'' @ ''['' @ dec_string 0 @ '']'') = None
   \<and> ResolveFact [(''items'', GArray [GInt 4])] (''items'' @ ''.['' @ dec_string 0 @ '']'') = Some (GInt 4)"
  using ResolveFact_array_index [of "''items''" 0 "[(''items'', GArray [GInt 4])]"]
  by (simp add: plain_key_def is_space_def)

subsection \<open>Clones\<close>

lemma Condition_Clone_id: "Condition_Clone c = c"
proof (induction c)
  case (Condition f op v al an nt)
  then show ?case by (cases nt) (simp_all add: map_idI)
qed

definition anonymous :: "Rule \<Rightarrow> Rule" where
  "anonymous r = r\<lparr>rule_ID := 0\<rparr>"

lemma anonymous_simps [simp]:
  "Priority (anonymous r) = Priority r" "rule_Outcome (anonymous r) = rule_Outcome r"
  "Conditions (anonymous r) = Conditions r"
  by (simp_all add: anonymous_def)

lemma clone_rules_anonymous: "map anonymous (clone_rules c k rs) = map anonymous rs"
  by (induction rs arbitrary: k) (simp_all add: anonymous_def Condition_Clone_id)

lemma same_anonymous:
  assumes "map anonymous xs = map anonymous ys"
  shows "map Priority xs = map Priority ys" "map Conditions xs = map Conditions ys"
    "validate_rules re xs seen = validate_rules re ys seen" "length xs = length ys"
proof -
  have "map Priority zs = map Priority (map anonymous zs)" "map Conditions zs = map Conditions (map anonymous zs)" for zs
    by simp_all
  with assms show "map Priority xs = map Priority ys" "map Conditions xs = map Conditions ys" by metis+
  have "validate_rules re zs seen = validate_rules re (map anonymous zs) seen" for zs
    by (induction zs arbitrary: seen) (simp_all add: validate_rule_def)
  with assms show "validate_rules re xs seen = validate_rules re ys seen" by metis
  show "length xs = length ys" using assms by (metis length_map)
qed

lemma sort_anonymous:
  assumes "map anonymous xs = map anonymous ys"
  shows "map anonymous (sort_key Priority xs) = map anonymous (sort_key Priority ys)"
proof -
  have ins: "map anonymous (insort_key Priority z zs) = insort_key Priority (anonymous z) (map anonymous zs)" for z zs
    by (induction zs) simp_all
  have "map anonymous (sort_key Priority zs) = sort_key Priority (map anonymous zs)" for zs
    by (induction zs) (simp_all add: ins)
  with assms show ?thesis by metis
qed

lemma eval_rules_anonymous:
  "eval_rules re facts (map anonymous rules) ae au tr ec
     = (case eval_rules re facts rules ae au tr ec of (m, e, u, t) \<Rightarrow> (map_option anonymous m, e, u, t))"
  by (induction rules arbitrary: ae au tr ec) (simp_all add: Let_def split: prod.split)

text \<open>
  cloning a valid rule set gives the next version, which is valid again and evaluates
  every facts document to the same status, outcome and trace; only the rule ids are fresh.
\<close>

theorem RuleSet_Clone_evaluates_alike:
  assumes "ValidateRuleSet re rs = None" and "sorts_by_priority srt"
  shows "rs_Version (RuleSet_Clone c rs) = rs_Version rs + 1
    \<and> ValidateRuleSet re (RuleSet_Clone c rs) = None
    \<and> ev_Outcome (Evaluate re srt c' (RuleSet_Clone c rs) facts t eb tr) = ev_Outcome (Evaluate re srt c' rs facts t eb tr)
    \<and> ev_Status (Evaluate re srt c' (RuleSet_Clone c rs) facts t eb tr) = ev_Status (Evaluate re srt c' rs facts t eb tr)
    \<and> ev_Trace (Evaluate re srt c' (RuleSet_Clone c rs) facts t eb tr) = ev_Trace (Evaluate re srt c' rs facts t eb tr)"
proof -
  let ?cl = "RuleSet_Clone c rs"
  have anon: "map anonymous (Rules ?cl) = map anonymous (Rules rs)"
    by (simp add: RuleSet_Clone_def clone_rules_anonymous)
  note same = same_anonymous [OF anon]
  have conds: "map (countConditions \<circ> Conditions) (Rules ?cl) = map (countConditions \<circ> Conditions) (Rules rs)"
    using same(2) by (metis map_map)
  have fields: "rs_OrganizationID ?cl = rs_OrganizationID rs" "rs_Key ?cl = rs_Key rs" "rs_Name ?cl = rs_Name rs"
    "DefaultOutcome ?cl = DefaultOutcome rs" "rs_Version ?cl = rs_Version rs + 1" "length (Rules ?cl) = length (Rules rs)"
    using same(4) by (simp_all add: RuleSet_Clone_def)
  have "1 \<le> rs_Version rs" using assms(1)
    by (auto simp: ValidateRuleSet_def rule_set_errors_def split: if_splits)
  then have valid: "ValidateRuleSet re ?cl = None"
    using assms(1) unfolding ValidateRuleSet_def rule_set_errors_def fields same(3) conds by simp
  have al: "map anonymous (srt (Rules ?cl)) = map anonymous (srt (Rules rs))"
    using ValidateRuleSet_priorities [OF assms(1)] assms(2) same(1) sort_anonymous [OF anon]
    by (simp add: priority_sorter.unique_result priority_sorter_def)
  show ?thesis
  proof (intro conjI)
    have run: "(case eval_rules re facts (srt (Rules ?cl)) False False ns ec of (m, e, u, t) \<Rightarrow> (map_option anonymous m, e, u, t))
      = (case eval_rules re facts (srt (Rules rs)) False False ns ec of (m, e, u, t) \<Rightarrow> (map_option anonymous m, e, u, t))" for ns ec
      using al by (metis eval_rules_anonymous)
    obtain n ec where n: "newTraceNode \<lparr>ec_evaluatedAt = t, ec_counter = 0\<rparr> TraceRoot
      (''evaluate rule set '' @ rs_Key rs) = (n, ec)" by fastforce
    obtain m e u tr1 where r1: "eval_rules re facts (srt (Rules ?cl)) False False [n] ec = (m, e, u, tr1)"
      using prod_cases4 by blast
    obtain m' e' u' tr2 where r2: "eval_rules re facts (srt (Rules rs)) False False [n] ec = (m', e', u', tr2)"
      using prod_cases4 by blast
    have eqs: "map_option anonymous m = map_option anonymous m'" "e = e'" "u = u'" "tr1 = tr2"
      using run [of "[n]" ec] r1 r2 by auto
    then have "map_option rule_Outcome m = map_option rule_Outcome m'"
      by (cases m; cases m'; simp) (metis anonymous_simps(2))
    with eqs n r1 r2 fields show "ev_Outcome (Evaluate re srt c' ?cl facts t eb tr) = ev_Outcome (Evaluate re srt c' rs facts t eb tr)"
      "ev_Status (Evaluate re srt c' ?cl facts t eb tr) = ev_Status (Evaluate re srt c' rs facts t eb tr)"
      "ev_Trace (Evaluate re srt c' ?cl facts t eb tr) = ev_Trace (Evaluate re srt c' rs facts t eb tr)"
      by (cases m; cases m'; simp add: Evaluate_def Let_def)+
  qed (use fields valid in auto)
qed

theorem RuleSet_Clone_evaluates_alike_witness:
  "rs_Version (RuleSet_Clone demo_ctx (demo_rules [demo_rule 1 9 OutcomeFlag OpGreaterThan,
      demo_rule 2 3 OutcomeEligible OpGreaterThan])) = 2"
  using RuleSet_Clone_evaluates_alike [OF demo_rule_set_valid [of Map.empty] stable_sort.sorts, where c = demo_ctx]
  by (simp add: demo_rules_def)

end
