(* ===== verification/Decision_Service.thy ===== *)
theory Decision_Service
  imports Review_Store Case_Service
begin

section \<open>The decision service\<close>

text \<open>
  internal/decisions/application/service.go. A decision on a case moves the case along a
  transition of its workflow, in the transaction that stores it; a later decision supersedes
  it. The workflow service and the case service, which observes its transitions, are those of
  the record \<open>CaseService\<close>; the users belong to another module, as there.
\<close>

record 's DecisionService =
  decisionUsers :: "uuid \<Rightarrow> uuid \<Rightarrow> go_error + bool"
  decisionAuditor :: "'s auditor"
  decisionWorkflow :: bool

definition decisions_app :: "string \<Rightarrow> go_error" where
  "decisions_app m = Err (''decisions/application: '' @ m)"

abbreviation (input) "aErrDecisionNotFound \<equiv> decisions_app ''decision not found''"
abbreviation (input) "aErrDecisionInput \<equiv> decisions_app ''invalid decision input''"
abbreviation (input) "aErrDecisionCaseNotFound \<equiv> decisions_app ''case not found''"
abbreviation (input) "aErrDecisionUserNotFound \<equiv> decisions_app ''user not found''"
abbreviation (input) "aErrDecisionWorkflow \<equiv> decisions_app ''workflow engine not available for this operation''"
abbreviation (input) "aErrDecisionTransition \<equiv> decisions_app ''invalid state transition''"

record MakeDecisionParams =
  md_OrganizationID :: uuid
  md_ServiceRequestID :: uuid
  md_Decision :: DecisionType
  md_Reason :: string
  md_ActorID :: uuid
  md_ActorRole :: string
  md_WorkflowState :: string
  md_RuleEvaluationIDs :: "uuid list"
  md_EvidenceIDs :: "uuid list"
  md_FormSubmissionID :: "uuid option"

record SupersedeDecisionParams =
  sd_OrganizationID :: uuid
  sd_ServiceRequestID :: uuid
  sd_Decision :: DecisionType
  sd_Reason :: string
  sd_ActorID :: uuid
  sd_WorkflowState :: string
  sd_RuleEvaluationIDs :: "uuid list"
  sd_EvidenceIDs :: "uuid list"
  sd_FormSubmissionID :: "uuid option"

subsection \<open>Making a decision\<close>

text \<open>The key of the transition: anything that neither rejects nor escalates approves.\<close>

definition transition_key :: "DecisionType \<Rightarrow> string" where
  "transition_key d = (if d = DecisionTypeRejected then ''reject''
     else if d = DecisionTypeEscalate then ''escalate'' else ''approve'')"

definition decision_transition :: "MakeDecisionParams \<Rightarrow> uuid \<Rightarrow> string \<Rightarrow> uuid \<Rightarrow> ExecuteTransitionParams" where
  "decision_transition p instanceID key decisionID = \<lparr>etp_TenantID = md_OrganizationID p, etp_InstanceID = instanceID,
     etp_TransitionKey = key, etp_ActorID = md_ActorID p, etp_ActorRole = md_ActorRole p, etp_Reason = md_Reason p,
     etp_DecisionID = Some decisionID\<rparr>"

definition decision_keys :: "Decision \<Rightarrow> (string \<times> goval) list" where
  "decision_keys d = [(''service_request_id'', GString (uuid_string (ServiceRequestID d))),
     (''decision'', GString (decision_string (dc_Decision d))), (''workflow_state'', GString (dc_WorkflowState d)),
     (''version'', GInt (dc_Version d))]"

definition decision_audit :: "'s review_db_scheme DecisionService \<Rightarrow> ctx \<Rightarrow> string option \<Rightarrow> uuid \<Rightarrow> uuid \<Rightarrow> string
    \<Rightarrow> uuid \<Rightarrow> (string \<times> goval) list \<Rightarrow> ('s review_db_scheme, unit) tx" where
  "decision_audit ds c requestID orgID actorID action i meta = RecordAuditEventInTx (decisionAuditor ds)
     ((audit_params c orgID actorID action ''decision'' i meta)\<lparr>rp_RequestID := requestID\<rparr>)"

text \<open>Lookup and checks on the committed store, as far as the case and its earlier decision go.\<close>

definition decidable_case :: "'s review_db_scheme DecisionService \<Rightarrow> 's review_db_scheme \<Rightarrow> uuid \<Rightarrow> uuid
    \<Rightarrow> ('s review_db_scheme, unit) tx" where
  "decidable_case ds committed orgID caseID =
     tx_bind (tx_read (instead aErrDecisionCaseNotFound) (case_FindByID orgID caseID committed)) (\<lambda>cs.
       tx_guard (cs_OrganizationID cs = orgID) aErrDecisionCaseNotFound)"

definition known_user :: "'s review_db_scheme DecisionService \<Rightarrow> uuid \<Rightarrow> uuid \<Rightarrow> ('s review_db_scheme, unit) tx" where
  "known_user ds orgID actorID =
     tx_bind (tx_read (Wrap ''failed to validate actor'') (decisionUsers ds orgID actorID)) (\<lambda>valid.
       tx_guard valid aErrDecisionUserNotFound)"

definition MakeDecision :: "'s review_db_scheme CaseService \<Rightarrow> 's review_db_scheme DecisionService \<Rightarrow> ctx
    \<Rightarrow> 's review_db_scheme \<Rightarrow> MakeDecisionParams \<Rightarrow> ('s review_db_scheme, Decision) tx" where
  "MakeDecision svc ds c committed p =
     tx_seq (decidable_case ds committed (md_OrganizationID p) (md_ServiceRequestID p))
    (tx_seq (case FindByServiceRequest (md_OrganizationID p) (md_ServiceRequestID p) committed of
         Inr existing \<Rightarrow> tx_throw (Wrap ''decision already exists for this service request'' aErrDecisionInput)
       | Inl e \<Rightarrow> tx_return ())
    (tx_seq (known_user ds (md_OrganizationID p) (md_ActorID p))
    (tx_seq (tx_guard (decisionWorkflow ds) aErrDecisionWorkflow)
    (tx_bind (tx_read (Wrap ''workflow instance not found'')
         (GetInstanceByCaseID (md_OrganizationID p) (md_ServiceRequestID p) committed)) (\<lambda>i.
     tx_bind (tx_read (Wrap ''failed to get valid transitions'')
         (GetValidTransitions (md_OrganizationID p) (wi_ID i) committed)) (\<lambda>ts.
     (case List.find (\<lambda>t. wt_Key t = transition_key (md_Decision p)) ts of
        None \<Rightarrow> tx_throw (Wrap ''no valid transition for decision'' aErrDecisionTransition)
      | Some t \<Rightarrow>
          tx_bind (tx_read (instead aErrDecisionInput)
             (NewDecisionWithContext c (md_OrganizationID p) (md_ServiceRequestID p) (md_ActorID p) (md_Decision p)
                (md_Reason p) (if md_WorkflowState p \<noteq> [] then md_WorkflowState p else CurrentState i)
                (md_RuleEvaluationIDs p) (md_EvidenceIDs p) (md_FormSubmissionID p) None 1)) (\<lambda>d.
          InTransaction
            (tx_seq (tx_map_error (Wrap ''failed to save decision'') (saveDecision d))
            (tx_seq (tx_map_error (Wrap ''workflow transition failed'')
                (ExecuteTransitionInTx (wfAuditor svc) (case_observer svc (later_ctx 20 c)) (later_ctx 20 c) committed
                   (decision_transition p (wi_ID i) (wt_Key t) (dc_ID d))))
            (tx_seq (decision_audit ds c (Some (ctx_request_id c)) (dc_OrganizationID d) (md_ActorID p) ''decision.made'' (dc_ID d)
                (decision_keys d))
              (tx_return d))))))))))))"

subsection \<open>Decisions made by a review\<close>

definition CreateDecisionTx :: "'s review_db_scheme DecisionService \<Rightarrow> ctx \<Rightarrow> uuid \<Rightarrow> uuid \<Rightarrow> uuid \<Rightarrow> DecisionType
    \<Rightarrow> string \<Rightarrow> string \<Rightarrow> uuid list \<Rightarrow> uuid list \<Rightarrow> uuid option \<Rightarrow> uuid option
    \<Rightarrow> ('s review_db_scheme, Decision) tx" where
  "CreateDecisionTx ds c orgID serviceRequestID decisionMaker decision reason workflowState ruleEvalIDs evidenceIDs
     formSubmissionID reviewQueueEntryID =
     tx_bind (tx_read (instead aErrDecisionInput)
        (NewDecisionWithContext c orgID serviceRequestID decisionMaker decision reason workflowState ruleEvalIDs
           evidenceIDs formSubmissionID reviewQueueEntryID 1)) (\<lambda>d.
     tx_seq (tx_map_error (Wrap ''failed to save decision'') (saveDecision d))
    (tx_seq (decision_audit ds c None (dc_OrganizationID d) decisionMaker ''decision.made'' (dc_ID d) (decision_keys d))
      (tx_return d)))"

subsection \<open>Superseding a decision\<close>

definition SupersedeDecision :: "'s review_db_scheme DecisionService \<Rightarrow> ctx \<Rightarrow> 's review_db_scheme
    \<Rightarrow> SupersedeDecisionParams \<Rightarrow> ('s review_db_scheme, Decision) tx" where
  "SupersedeDecision ds c committed p =
     tx_seq (decidable_case ds committed (sd_OrganizationID p) (sd_ServiceRequestID p))
    (tx_bind (tx_read (\<lambda>_. Wrap ''no existing decision to supersede'' aErrDecisionInput)
         (FindByServiceRequest (sd_OrganizationID p) (sd_ServiceRequestID p) committed)) (\<lambda>existing.
     tx_seq (known_user ds (sd_OrganizationID p) (sd_ActorID p))
    (tx_bind (tx_read (instead aErrDecisionInput)
         (NewSupersedingDecision c (sd_OrganizationID p) (sd_ServiceRequestID p) (sd_ActorID p) (sd_Decision p)
            (sd_Reason p) (Some existing) (sd_WorkflowState p) (sd_RuleEvaluationIDs p) (sd_EvidenceIDs p)
            (sd_FormSubmissionID p) None)) (\<lambda>d.
     InTransaction
       (tx_seq (tx_map_error (Wrap ''failed to update superseded decision'')
           (updateDecision (dc_OrganizationID existing) (existing\<lparr>SupersededByID := Some (dc_ID d)\<rparr>)))
       (tx_seq (tx_map_error (Wrap ''failed to save superseding decision'') (saveDecision d))
       (tx_seq (decision_audit ds c (Some (ctx_request_id c)) (dc_OrganizationID d) (sd_ActorID p) ''decision.superseded'' (dc_ID d)
           [(''service_request_id'', GString (uuid_string (ServiceRequestID d))),
            (''decision'', GString (decision_string (dc_Decision d))),
            (''supersedes_version'', GInt (dc_Version existing)), (''new_version'', GInt (dc_Version d)),
            (''previous_decision_id'', GString (uuid_string (dc_ID existing))),
            (''workflow_state'', GString (dc_WorkflowState d))])
         (tx_return d))))))))"

subsection \<open>Reading decisions\<close>

definition GetDecisionHistory :: "uuid \<Rightarrow> uuid \<Rightarrow> 's review_db_scheme \<Rightarrow> go_error + Decision list" where
  "GetDecisionHistory orgID serviceRequestID s = Inr (ListByServiceRequest orgID serviceRequestID s)"

definition GetDecision :: "uuid \<Rightarrow> uuid \<Rightarrow> 's review_db_scheme \<Rightarrow> go_error + Decision" where
  "GetDecision orgID i s = (case decision_FindByID orgID i s of Inl e \<Rightarrow> Inl aErrDecisionNotFound | Inr d \<Rightarrow> Inr d)"

definition GetDecisionByServiceRequest :: "uuid \<Rightarrow> uuid \<Rightarrow> 's review_db_scheme \<Rightarrow> go_error + Decision" where
  "GetDecisionByServiceRequest orgID serviceRequestID s =
     (case FindByServiceRequest orgID serviceRequestID s of Inl e \<Rightarrow> Inl aErrDecisionNotFound | Inr d \<Rightarrow> Inr d)"

definition ListDecisions :: "uuid \<Rightarrow> int \<Rightarrow> int \<Rightarrow> 's review_db_scheme \<Rightarrow> go_error + Decision list \<times> nat" where
  "ListDecisions orgID limit offset s =
     (case decision_FindByOrganization orgID (clamp_page limit) (if offset < 0 then 0 else offset) s of
        Inl e \<Rightarrow> Inl (Wrap ''failed to list decisions'' e)
      | Inr page \<Rightarrow> Inr (page, decision_CountByOrganization orgID s))"

end
