(* ===== verification/Review_Service.thy ===== *)
theory Review_Service
  imports Decision_Service
begin

section \<open>The review queue service\<close>

text \<open>
  internal/review_queue/application/service.go. A reviewer claims an entry, starts the review
  and ends it with a decision: the entry changes its status, the decision service stores a
  decision, and the workflow makes the transition configured for the type of the decision, all in
  one transaction. The entry is read before the transaction; the workflow is read once before
  it (\<open>before\<close>) and once during it, outside its connection (\<open>during\<close>).
\<close>

record 's ReviewQueueService =
  reviewUsers :: "uuid \<Rightarrow> uuid \<Rightarrow> go_error + bool"
  reviewAuditor :: "'s auditor"
  reviewWorkflow :: bool
  reviewDecisions :: bool

definition review_app :: "string \<Rightarrow> go_error" where
  "review_app m = Err (''review_queue/application: '' @ m)"

abbreviation (input) "aErrReviewNotFound \<equiv> review_app ''review queue entry not found''"
abbreviation (input) "aErrReviewInvalidInput \<equiv> review_app ''invalid review input''"
abbreviation (input) "aErrReviewNotPending \<equiv> review_app ''review is not pending''"
abbreviation (input) "aErrReviewNotAssigned \<equiv> review_app ''review is not assigned to the caller''"
abbreviation (input) "aErrReviewNotInReview \<equiv> review_app ''review is not in review''"
abbreviation (input) "aErrReviewCaseNotFound \<equiv> review_app ''case not found''"
abbreviation (input) "aErrReviewUserNotFound \<equiv> review_app ''user not found''"

definition review_audit :: "'s review_db_scheme ReviewQueueService \<Rightarrow> ctx \<Rightarrow> uuid \<Rightarrow> uuid \<Rightarrow> string \<Rightarrow> uuid
    \<Rightarrow> (string \<times> goval) list \<Rightarrow> ('s review_db_scheme, unit) tx" where
  "review_audit rs c orgID actorID action i meta =
     RecordAuditEventInTx (reviewAuditor rs)
       ((audit_params c orgID actorID action ''review_queue'' i meta)\<lparr>rp_RequestID := None\<rparr>)"

definition set_status :: "instant \<Rightarrow> uuid \<Rightarrow> uuid \<Rightarrow> ReviewStatus \<Rightarrow> uuid option \<Rightarrow> ('s review_db_scheme, unit) tx" where
  "set_status now orgID i status assignedToID =
     tx_map_error (Wrap ''failed to update review status'') (UpdateStatusTx now orgID i status assignedToID)"

subsection \<open>Claiming and starting a review\<close>

definition ClaimReview :: "'s review_db_scheme ReviewQueueService \<Rightarrow> ctx \<Rightarrow> 's review_db_scheme \<Rightarrow> uuid \<Rightarrow> uuid \<Rightarrow> uuid
    \<Rightarrow> ('s review_db_scheme, ReviewQueueEntry) tx" where
  "ClaimReview rs c committed orgID reviewID reviewerID =
     tx_bind (tx_read (\<lambda>_. aErrReviewNotFound) (review_FindByID orgID reviewID committed)) (\<lambda>seen.
     tx_bind (tx_read (instead aErrReviewCaseNotFound) (case_FindByID orgID (rv_CaseID seen) committed)) (\<lambda>cs.
     tx_seq (tx_guard (cs_OrganizationID cs = orgID) aErrReviewCaseNotFound)
    (tx_bind (tx_read (Wrap ''failed to validate reviewer'') (reviewUsers rs orgID reviewerID)) (\<lambda>valid.
     tx_seq (tx_guard valid aErrReviewUserNotFound)
    (InTransaction
      (tx_bind (review_FindByIDTx orgID reviewID) (\<lambda>r.
       tx_seq (tx_guard (rv_Status r = ReviewStatusPending) aErrReviewNotPending)
      (tx_bind (tx_lift (Transition c ReviewStatusAssigned (Some reviewerID) r)) (\<lambda>r'.
       tx_seq (set_status (ctx_time c 2) orgID (rv_ID r') ReviewStatusAssigned (Some reviewerID))
      (tx_seq (review_audit rs c orgID reviewerID ''review.claimed'' (rv_ID r')
                 [(''case_id'', GString (uuid_string (rv_CaseID r')))])
        (tx_return r')))))))))))"

text \<open>The entry as its reviewer sees it, moved to a new status.\<close>

definition own_review :: "ctx \<Rightarrow> 's review_db_scheme \<Rightarrow> uuid \<Rightarrow> uuid \<Rightarrow> uuid \<Rightarrow> bool \<Rightarrow> ReviewStatus
    \<Rightarrow> go_error + ReviewQueueEntry" where
  "own_review c committed orgID reviewID reviewerID active target =
     (case review_FindByID orgID reviewID committed of
        Inl e \<Rightarrow> Inl aErrReviewNotFound
      | Inr r \<Rightarrow>
          if rv_AssignedToID r \<noteq> Some reviewerID then Inl aErrReviewNotAssigned
          else if active \<and> rv_Status r \<noteq> ReviewStatusInReview \<and> rv_Status r \<noteq> ReviewStatusAssigned
            then Inl aErrReviewNotInReview
          else Transition c target (rv_AssignedToID r) r)"

definition StartReview :: "'s review_db_scheme ReviewQueueService \<Rightarrow> ctx \<Rightarrow> 's review_db_scheme \<Rightarrow> uuid \<Rightarrow> uuid \<Rightarrow> uuid
    \<Rightarrow> ('s review_db_scheme, ReviewQueueEntry) tx" where
  "StartReview rs c committed orgID reviewID reviewerID =
     tx_bind (tx_lift (own_review c committed orgID reviewID reviewerID False ReviewStatusInReview)) (\<lambda>r.
     tx_seq (InTransaction
       (tx_seq (set_status (ctx_time c 2) orgID (rv_ID r) ReviewStatusInReview (rv_AssignedToID r))
         (review_audit rs c orgID reviewerID ''review.started'' (rv_ID r)
            [(''case_id'', GString (uuid_string (rv_CaseID r)))])))
       (tx_return r))"

subsection \<open>Ending a review\<close>

text \<open>The state the decision is recorded for.\<close>

definition seen_state :: "'s review_db_scheme ReviewQueueService \<Rightarrow> 's review_db_scheme \<Rightarrow> uuid \<Rightarrow> ReviewQueueEntry
    \<Rightarrow> string" where
  "seen_state rs before orgID r = (if reviewWorkflow rs
     then (case GetInstanceByCaseID orgID (rv_CaseID r) before of Inr i \<Rightarrow> CurrentState i | Inl e \<Rightarrow> rv_WorkflowState r)
     else rv_WorkflowState r)"

text \<open>The decision of the review: its identifier, when there is a decision service.\<close>

definition record_decision :: "'s review_db_scheme DecisionService \<Rightarrow> 's review_db_scheme ReviewQueueService \<Rightarrow> ctx
    \<Rightarrow> uuid \<Rightarrow> uuid \<Rightarrow> ReviewQueueEntry \<Rightarrow> DecisionType \<Rightarrow> string \<Rightarrow> string \<Rightarrow> ('s review_db_scheme, uuid option) tx" where
  "record_decision ds rs c orgID reviewerID r decision reason state =
     (if \<not> reviewDecisions rs then tx_return None
      else tx_bind (tx_map_error (Wrap ''failed to create decision'')
          (CreateDecisionTx ds c orgID (rv_CaseID r) reviewerID decision reason state (rv_RuleEvaluationIDs r)
             (rv_EvidenceIDs r) (rv_FormSubmissionID r) (Some (rv_ID r))))
        (\<lambda>d. tx_return (Some (dc_ID d))))"

definition review_transition :: "uuid \<Rightarrow> uuid \<Rightarrow> uuid \<Rightarrow> string \<Rightarrow> string \<Rightarrow> uuid option \<Rightarrow> ExecuteTransitionParams" where
  "review_transition orgID reviewerID instanceID key reason decisionID = \<lparr>etp_TenantID = orgID,
     etp_InstanceID = instanceID, etp_TransitionKey = key, etp_ActorID = reviewerID, etp_ActorRole = [],
     etp_Reason = reason, etp_DecisionID = decisionID\<rparr>"

text \<open>
  The transition for the decision, if the workflow offers one: the lookups that fail are
  ignored, an error of the transition is not.
\<close>

definition offered_transition :: "uuid \<Rightarrow> uuid \<Rightarrow> DecisionType \<Rightarrow> 's review_db_scheme
    \<Rightarrow> (WorkflowInstance \<times> WorkflowTransition) option" where
  "offered_transition orgID caseID decision during = (case GetInstanceByCaseID orgID caseID during of
     Inl e \<Rightarrow> None
   | Inr i \<Rightarrow> (case GetTransitionForDecision orgID (wi_ID i) (decision_string decision) during of
       Inr (Some t) \<Rightarrow> Some (i, t)
     | _ \<Rightarrow> None))"

definition follow_decision :: "'s review_db_scheme CaseService \<Rightarrow> 's review_db_scheme ReviewQueueService \<Rightarrow> ctx
    \<Rightarrow> 's review_db_scheme \<Rightarrow> uuid \<Rightarrow> uuid \<Rightarrow> ReviewQueueEntry \<Rightarrow> DecisionType \<Rightarrow> string \<Rightarrow> uuid option
    \<Rightarrow> ('s review_db_scheme, unit) tx" where
  "follow_decision svc rs c during orgID reviewerID r decision reason decisionID =
     (if \<not> reviewWorkflow rs then tx_return ()
      else (case offered_transition orgID (rv_CaseID r) decision during of
          None \<Rightarrow> tx_return ()
        | Some (i, t) \<Rightarrow> tx_seq (tx_map_error (Wrap ''failed to execute workflow transition'')
            (ExecuteTransitionInTx (wfAuditor svc) (case_observer svc (later_ctx 20 c)) (later_ctx 20 c) during
               (review_transition orgID reviewerID (wi_ID i) (wt_Key t) reason decisionID)))
            (tx_return ())))"

text \<open>What completing, escalating and asking for information have in common.\<close>

definition end_review :: "'s review_db_scheme CaseService \<Rightarrow> 's review_db_scheme DecisionService
    \<Rightarrow> 's review_db_scheme ReviewQueueService \<Rightarrow> ctx \<Rightarrow> 's review_db_scheme \<Rightarrow> 's review_db_scheme \<Rightarrow> uuid \<Rightarrow> uuid
    \<Rightarrow> ReviewQueueEntry \<Rightarrow> ReviewStatus \<Rightarrow> go_error option \<Rightarrow> DecisionType \<Rightarrow> string \<Rightarrow> string
    \<Rightarrow> (string \<times> goval) list \<Rightarrow> ('s review_db_scheme, unit) tx" where
  "end_review svc ds rs c before during orgID reviewerID r status checked decision reason action meta = InTransaction
     (tx_seq (set_status (ctx_time c 2) orgID (rv_ID r) status (rv_AssignedToID r))
     (tx_seq (tx_check id checked)
     (tx_bind (record_decision ds rs c orgID reviewerID r decision reason (seen_state rs before orgID r)) (\<lambda>decisionID.
      tx_seq (follow_decision svc rs c during orgID reviewerID r decision reason decisionID)
        (review_audit rs c orgID reviewerID action (rv_ID r) meta)))))"

definition validateDecisionType :: "DecisionType \<Rightarrow> go_error option" where
  "validateDecisionType d = unless (valid_decision d) (Wrap ''invalid decision type'' aErrReviewInvalidInput)"

definition CompleteReview :: "'s review_db_scheme CaseService \<Rightarrow> 's review_db_scheme DecisionService
    \<Rightarrow> 's review_db_scheme ReviewQueueService \<Rightarrow> ctx \<Rightarrow> 's review_db_scheme \<Rightarrow> 's review_db_scheme
    \<Rightarrow> uuid \<Rightarrow> uuid \<Rightarrow> uuid \<Rightarrow> string \<Rightarrow> string \<Rightarrow> ('s review_db_scheme, ReviewQueueEntry) tx" where
  "CompleteReview svc ds rs c before during orgID reviewID reviewerID decision reason =
     tx_bind (tx_lift (own_review c before orgID reviewID reviewerID True ReviewStatusCompleted)) (\<lambda>r.
     tx_seq (end_review svc ds rs c before during orgID reviewerID r ReviewStatusCompleted
         (first_error [validateDecisionType (DecisionType_of decision),
            unless (ReasonRequired (DecisionType_of decision) \<longrightarrow> reason \<noteq> []) aErrReviewInvalidInput])
         (DecisionType_of decision) reason ''review.completed''
         [(''case_id'', GString (uuid_string (rv_CaseID r))), (''decision'', GString decision)])
       (tx_return r))"

definition EscalateReview :: "'s review_db_scheme CaseService \<Rightarrow> 's review_db_scheme DecisionService
    \<Rightarrow> 's review_db_scheme ReviewQueueService \<Rightarrow> ctx \<Rightarrow> 's review_db_scheme \<Rightarrow> 's review_db_scheme
    \<Rightarrow> uuid \<Rightarrow> uuid \<Rightarrow> uuid \<Rightarrow> string \<Rightarrow> ('s review_db_scheme, ReviewQueueEntry) tx" where
  "EscalateReview svc ds rs c before during orgID reviewID reviewerID reason =
     tx_bind (tx_lift (own_review c before orgID reviewID reviewerID True ReviewStatusEscalated)) (\<lambda>r.
     tx_seq (end_review svc ds rs c before during orgID reviewerID r ReviewStatusEscalated
         (unless (reviewDecisions rs \<longrightarrow> reason \<noteq> []) aErrReviewInvalidInput)
         DecisionTypeEscalate reason ''review.escalated''
         [(''case_id'', GString (uuid_string (rv_CaseID r))), (''reason'', GString reason)])
       (tx_return r))"

text \<open>The missing fields are returned and audited, but not stored.\<close>

definition RequestInformation :: "'s review_db_scheme CaseService \<Rightarrow> 's review_db_scheme DecisionService
    \<Rightarrow> 's review_db_scheme ReviewQueueService \<Rightarrow> ctx \<Rightarrow> 's review_db_scheme \<Rightarrow> 's review_db_scheme
    \<Rightarrow> uuid \<Rightarrow> uuid \<Rightarrow> uuid \<Rightarrow> string list \<Rightarrow> string \<Rightarrow> ('s review_db_scheme, ReviewQueueEntry) tx" where
  "RequestInformation svc ds rs c before during orgID reviewID reviewerID missing reason =
     tx_bind (tx_lift (own_review c before orgID reviewID reviewerID True ReviewStatusWaitingInfo)) (\<lambda>r.
     tx_seq (end_review svc ds rs c before during orgID reviewerID r ReviewStatusWaitingInfo None
         DecisionTypeNeedsMoreInformation reason ''review.requested_information''
         [(''case_id'', GString (uuid_string (rv_CaseID r))), (''missing_fields'', GArray (map GString missing)),
          (''reason'', GString reason)])
       (tx_return (r\<lparr>MissingInformation := missing\<rparr>)))"

subsection \<open>The queue\<close>

definition GetQueue :: "uuid \<Rightarrow> ReviewStatus option \<Rightarrow> uuid option \<Rightarrow> int \<Rightarrow> int \<Rightarrow> 's review_db_scheme
    \<Rightarrow> go_error + ReviewQueueEntry list \<times> nat" where
  "GetQueue orgID status assignedToID limit offset s =
     (case review_ListByOrganization orgID status assignedToID (clamp_page limit) (if offset < 0 then 0 else offset) s of
        Inl e \<Rightarrow> Inl (Wrap ''failed to list review queue'' e)
      | Inr r \<Rightarrow> Inr r)"

definition GetReview :: "uuid \<Rightarrow> uuid \<Rightarrow> 's review_db_scheme \<Rightarrow> go_error + ReviewQueueEntry" where
  "GetReview orgID reviewID s =
     (case review_FindByID orgID reviewID s of Inl e \<Rightarrow> Inl aErrReviewNotFound | Inr r \<Rightarrow> Inr r)"

text \<open>Save, called by the handler that creates an entry.\<close>

definition SaveReview :: "ReviewQueueEntry \<Rightarrow> ('s review_db_scheme, unit) tx" where
  "SaveReview r = saveReview r"

text \<open>The handler CreateReview, from the parsed request on: the priority has a default, the case is not looked up.\<close>

definition CreateReview :: "ctx \<Rightarrow> uuid \<Rightarrow> uuid \<Rightarrow> uuid \<Rightarrow> string \<Rightarrow> string \<Rightarrow> uuid list \<Rightarrow> uuid list \<Rightarrow> uuid option
    \<Rightarrow> string list \<Rightarrow> ('s review_db_scheme, ReviewQueueEntry) tx" where
  "CreateReview c orgID caseID workflowInstanceID workflowState priority ruleEvalIDs evidenceIDs formSubmissionID missing =
     (let e = NewReviewQueueEntry c orgID caseID workflowInstanceID workflowState priority ruleEvalIDs evidenceIDs
                formSubmissionID;
          entry = e\<lparr>MissingInformation := missing,
                rv_Priority := (if rv_Priority e = [] then ''NORMAL'' else rv_Priority e)\<rparr> in
      tx_seq (SaveReview entry) (tx_return entry))"

end
