(* ===== verification/Case_Forms.thy ===== *)
theory Case_Forms
  imports Case_Service
begin

section \<open>Forms of a case\<close>

text \<open>
  The part of internal/cases/application/service.go that serves forms: which forms a case
  offers in its current state, submitting one, reading submissions, and what is still missing
  before the case can move on.
\<close>

subsection \<open>Available forms\<close>

record FormFieldAvailability =
  av_Key :: string
  av_Label :: string
  av_Type :: FieldType
  av_Required :: bool
  av_Placeholder :: string
  av_Options :: "FormOption list"
  av_Validation :: facts

record CaseFormAvailability =
  cfa_AssignmentID :: uuid
  cfa_FormID :: uuid
  cfa_FormVersionID :: uuid
  cfa_FormKey :: string
  cfa_FormName :: string
  cfa_FormDescription :: string
  cfa_Version :: int
  cfa_Required :: bool
  cfa_DisplayOrder :: int
  cfa_Active :: bool
  cfa_Fields :: "FormFieldAvailability list"

definition field_availability :: "FormField \<Rightarrow> FormFieldAvailability" where
  "field_availability f = \<lparr>av_Key = ff_Key f, av_Label = Label f, av_Type = ff_Type f, av_Required = Required f,
     av_Placeholder = Placeholder f, av_Options = Options f, av_Validation = Validation f\<rparr>"

text \<open>formByID and versionByID: maps filled by a loop.\<close>

definition form_by_id :: "Form list \<Rightarrow> uuid \<Rightarrow> Form option" where
  "form_by_id fs i = map_of (rev (map (\<lambda>f. (fm_ID f, f)) fs)) i"

definition version_by_id :: "FormVersion list \<Rightarrow> uuid \<Rightarrow> FormVersion option" where
  "version_by_id vs i = map_of (rev (map (\<lambda>v. (fv_ID v, v)) vs)) i"

definition availability :: "WorkflowStateFormAssignment \<Rightarrow> Form \<Rightarrow> FormVersion \<Rightarrow> FormField list \<Rightarrow> CaseFormAvailability" where
  "availability a form v flds = \<lparr>cfa_AssignmentID = fa_ID a, cfa_FormID = fm_ID form, cfa_FormVersionID = fv_ID v,
     cfa_FormKey = fm_Key form, cfa_FormName = fm_Name form, cfa_FormDescription = fm_Description form,
     cfa_Version = fv_Version v, cfa_Required = fa_Required a, cfa_DisplayOrder = fa_DisplayOrder a,
     cfa_Active = fa_Active a, cfa_Fields = map field_availability flds\<rparr>"

text \<open>
  The forms behind a list of assignments: batch reads of the forms, the versions and the
  fields of the published versions, then one entry per assignment whose form is not archived
  and whose version is published.
\<close>

definition available_forms :: "uuid \<Rightarrow> WorkflowStateFormAssignment list \<Rightarrow> 's form_db_scheme \<Rightarrow> CaseFormAvailability list" where
  "available_forms orgID as s =
     (let fs = form_FindByIDs orgID (map fa_FormID as) s;
          vs = version_FindByIDs orgID (map fa_FormVersionID as) s;
          flds = FindFieldsByVersionIDs orgID
            (map fv_ID (filter (\<lambda>v. fv_Status v = FormVersionStatusPublished) vs)) s
      in concat (map (\<lambda>a. case (form_by_id fs (fa_FormID a), version_by_id vs (fa_FormVersionID a)) of
            (Some form, Some v) \<Rightarrow>
              if fm_Status form = FormStatusArchived \<or> fv_Status v \<noteq> FormVersionStatusPublished then []
              else [availability a form v (filter (\<lambda>f. FormVersionID f = fv_ID v) flds)]
          | _ \<Rightarrow> []) as))"

text \<open>The workflow instance of the case, and its absence: the start of every operation below.\<close>

definition case_instance :: "uuid \<Rightarrow> Case \<Rightarrow> 's case_db_scheme \<Rightarrow> go_error + WorkflowInstance" where
  "case_instance orgID cs s = (case WorkflowInstanceID cs of
     None \<Rightarrow> Inl cErrWorkflowInstanceNotFound
   | Some i \<Rightarrow> (case instance_FindByID orgID i s of
         Inl e \<Rightarrow> Inl cErrWorkflowInstanceNotFound | Inr x \<Rightarrow> Inr x))"

definition state_assignments :: "uuid \<Rightarrow> WorkflowInstance \<Rightarrow> 's case_db_scheme \<Rightarrow> WorkflowStateFormAssignment list" where
  "state_assignments orgID i s = FindByWorkflowAndState orgID (wi_WorkflowDefID i) (CurrentState i) s"

definition GetCaseForms :: "'s case_db_scheme CaseService \<Rightarrow> uuid \<Rightarrow> uuid \<Rightarrow> 's case_db_scheme
    \<Rightarrow> go_error + CaseFormAvailability list" where
  "GetCaseForms svc orgID caseID s =
     (if \<not> formRepos svc then Inl ErrFormServices
      else (case case_FindByID orgID caseID s of
          Inl e \<Rightarrow> Inl ErrCaseNotFound
        | Inr cs \<Rightarrow> if WorkflowInstanceID cs = None then Inr []
            else (case case_instance orgID cs s of
                Inl e \<Rightarrow> Inl e
              | Inr i \<Rightarrow> Inr (available_forms orgID (filter fa_Active (state_assignments orgID i s)) s))))"

subsection \<open>Submitting a form\<close>

record SubmissionResponse =
  sr_ID :: uuid
  sr_CaseID :: uuid
  sr_FormID :: uuid
  sr_FormVersionID :: uuid
  sr_Status :: SubmissionStatus
  sr_Data :: facts
  sr_SubmittedBy :: uuid
  sr_SubmittedAt :: instant
  sr_UpdatedAt :: instant

definition submission_response :: "FormSubmission \<Rightarrow> SubmissionResponse" where
  "submission_response x = \<lparr>sr_ID = sb_ID x, sr_CaseID = sb_CaseID x, sr_FormID = sb_FormID x,
     sr_FormVersionID = sb_FormVersionID x, sr_Status = sb_Status x, sr_Data = sb_Data x,
     sr_SubmittedBy = SubmittedBy x, sr_SubmittedAt = SubmittedAt x, sr_UpdatedAt = sb_UpdatedAt x\<rparr>"

text \<open>A nil map has no keys.\<close>

definition entries :: "facts option \<Rightarrow> facts" where
  "entries data = (case data of None \<Rightarrow> [] | Some d \<Rightarrow> d)"

text \<open>The transaction of SubmitForm: every check is made again on the rows it locks.\<close>

definition submit_tx :: "regexp \<Rightarrow> 's case_db_scheme CaseService \<Rightarrow> ctx \<Rightarrow> uuid \<Rightarrow> uuid \<Rightarrow> uuid \<Rightarrow> uuid \<Rightarrow> facts option
    \<Rightarrow> WorkflowInstance \<Rightarrow> ('s case_db_scheme, FormSubmission) tx" where
  "submit_tx re svc c orgID caseID submittedBy formVersionID data i =
     tx_bind (tx_map_error (\<lambda>_. ErrFormNotPublished) (\<lambda>s. (version_FindByID orgID formVersionID s, s))) (\<lambda>v.
     tx_seq (tx_guard (fv_Status v = FormVersionStatusPublished) ErrFormNotPublished)
    (tx_bind (tx_map_error (\<lambda>_. ErrFormNotPublished) (\<lambda>s. (form_FindByID orgID (FormID v) s, s))) (\<lambda>form.
     tx_seq (tx_guard (fm_Status form \<noteq> FormStatusArchived) ErrFormArchived)
    (tx_bind (tx_read (Wrap ''failed to create submission'')
         (NewFormSubmission c orgID caseID (FormID v) formVersionID submittedBy data SubmissionStatusSubmitted)) (\<lambda>x.
     tx_bind (tx_gets (\<lambda>s. state_assignments orgID i s)) (\<lambda>as.
     tx_seq (tx_guard (\<exists>a \<in> set as. fa_FormVersionID a = formVersionID \<and> fa_Active a) ErrFormNotAssigned)
    (tx_bind (tx_gets (\<lambda>s. FindByCaseAndFormVersion orgID caseID formVersionID s)) (\<lambda>existing.
     tx_seq (case existing of
         Inr _ \<Rightarrow> tx_throw ErrSubmissionExists
       | Inl e \<Rightarrow> tx_guard (e = dErrSubmissionNotFound) (Wrap ''failed to check existing submission'' e))
    (tx_bind (tx_gets (\<lambda>s. FindByVersion orgID formVersionID s)) (\<lambda>flds.
     tx_seq (tx_check id (validateSubmissionData re (entries data) flds))
    (tx_seq (tx_map_error (Wrap ''failed to save submission'') (submission_Save x))
    (tx_seq (RecordAuditEventInTx (caseAuditor svc) (audit_params c orgID submittedBy ''form.submitted''
        ''form_submission'' (sb_ID x)
        [(''case_id'', GString (uuid_string caseID)), (''form_id'', GString (uuid_string (fm_ID form))),
         (''form_version_id'', GString (uuid_string formVersionID)),
         (''field_count'', GInt (int (length (remdups (map fst (entries data))))))]))
      (tx_return x)))))))))))))"

definition SubmitForm :: "regexp \<Rightarrow> 's case_db_scheme CaseService \<Rightarrow> ctx \<Rightarrow> 's case_db_scheme \<Rightarrow> uuid \<Rightarrow> uuid \<Rightarrow> uuid
    \<Rightarrow> uuid \<Rightarrow> facts option \<Rightarrow> ('s case_db_scheme, SubmissionResponse) tx" where
  "SubmitForm re svc c committed orgID caseID submittedBy formVersionID data =
     tx_seq (tx_guard (formRepos svc) ErrFormServices)
    (tx_bind (tx_read (\<lambda>_. ErrCaseNotFound) (case_FindByID orgID caseID committed)) (\<lambda>cs.
     tx_bind (tx_lift (case_instance orgID cs committed)) (\<lambda>i.
     tx_seq (tx_check id (validateSubmissionData re (entries data) (FindByVersion orgID formVersionID committed)))
    (tx_bind (InTransaction (submit_tx re svc c orgID caseID submittedBy formVersionID data i)) (\<lambda>x.
     tx_return (submission_response x))))))"

text \<open>
  The first active assignment of the state whose form has the key. Without SetFormRepos the
  repositories are nil.
\<close>

definition assignment_for_key :: "uuid \<Rightarrow> string \<Rightarrow> WorkflowStateFormAssignment list \<Rightarrow> 's case_db_scheme
    \<Rightarrow> WorkflowStateFormAssignment option" where
  "assignment_for_key orgID formKey as s = List.find (\<lambda>a. fa_Active a
     \<and> (case form_FindByID orgID (fa_FormID a) s of Inl e \<Rightarrow> False | Inr form \<Rightarrow> fm_Key form = formKey)) as"

definition version_for_key :: "'s case_db_scheme CaseService \<Rightarrow> uuid \<Rightarrow> uuid \<Rightarrow> string \<Rightarrow> 's case_db_scheme
    \<Rightarrow> go_error + uuid" where
  "version_for_key svc orgID caseID formKey s =
     (case case_FindByID orgID caseID s of
        Inl e \<Rightarrow> Inl ErrCaseNotFound
      | Inr cs \<Rightarrow>
          if WorkflowInstanceID cs = None then Inl cErrWorkflowInstanceNotFound
          else if \<not> formRepos svc then Inl nil_transaction
          else (case case_instance orgID cs s of
              Inl e \<Rightarrow> Inl e
            | Inr i \<Rightarrow> (case assignment_for_key orgID formKey (state_assignments orgID i s) s of
                  None \<Rightarrow> Inl ErrFormNotAssigned
                | Some a \<Rightarrow> Inr (fa_FormVersionID a))))"

definition SubmitFormByKey :: "regexp \<Rightarrow> 's case_db_scheme CaseService \<Rightarrow> ctx \<Rightarrow> 's case_db_scheme \<Rightarrow> uuid \<Rightarrow> uuid \<Rightarrow> uuid
    \<Rightarrow> string \<Rightarrow> facts option \<Rightarrow> ('s case_db_scheme, SubmissionResponse) tx" where
  "SubmitFormByKey re svc c committed orgID caseID submittedBy formKey data =
     tx_bind (tx_lift (version_for_key svc orgID caseID formKey committed)) (\<lambda>v.
       SubmitForm re svc c committed orgID caseID submittedBy v data)"

subsection \<open>Reading submissions\<close>

definition GetFormSubmissionByKey :: "'s case_db_scheme CaseService \<Rightarrow> uuid \<Rightarrow> uuid \<Rightarrow> string \<Rightarrow> 's case_db_scheme
    \<Rightarrow> go_error + SubmissionResponse" where
  "GetFormSubmissionByKey svc orgID caseID formKey s =
     (if \<not> formRepos svc then Inl ErrFormServices
      else (case version_for_key svc orgID caseID formKey s of
          Inl e \<Rightarrow> Inl e
        | Inr v \<Rightarrow> (case FindByCaseAndFormVersion orgID caseID v s of
              Inl e \<Rightarrow> Inl e | Inr x \<Rightarrow> Inr (submission_response x))))"

text \<open>The submission of a version: of several the last one of the list, as the loop leaves it.\<close>

definition submission_of_version :: "FormSubmission list \<Rightarrow> uuid \<Rightarrow> SubmissionResponse option" where
  "submission_of_version xs v = map_of (rev (map (\<lambda>x. (sb_FormVersionID x, submission_response x)) xs)) v"

definition GetCaseFormSubmissions :: "'s case_db_scheme CaseService \<Rightarrow> uuid \<Rightarrow> uuid \<Rightarrow> 's case_db_scheme
    \<Rightarrow> go_error + (string \<times> SubmissionResponse option) list" where
  "GetCaseFormSubmissions svc orgID caseID s =
     (if \<not> formRepos svc then Inl ErrFormServices
      else (case case_FindByID orgID caseID s of
          Inl e \<Rightarrow> Inl ErrCaseNotFound
        | Inr cs \<Rightarrow> if WorkflowInstanceID cs = None then Inr []
            else (case case_instance orgID cs s of
                Inl e \<Rightarrow> Inl e
              | Inr i \<Rightarrow> (let xs = submission_ListByCase orgID caseID s in
                  Inr (foldl (\<lambda>m a. case form_FindByID orgID (fa_FormID a) s of
                           Inl e \<Rightarrow> m
                         | Inr form \<Rightarrow> (fm_Key form, submission_of_version xs (fa_FormVersionID a)) # m)
                       [] (filter fa_Active (state_assignments orgID i s)))))))"

definition GetSubmission :: "'s case_db_scheme CaseService \<Rightarrow> uuid \<Rightarrow> uuid \<Rightarrow> uuid \<Rightarrow> 's case_db_scheme
    \<Rightarrow> go_error + SubmissionResponse" where
  "GetSubmission svc orgID caseID submissionID s =
     (if \<not> formRepos svc then Inl ErrFormServices
      else (case submission_FindByID orgID submissionID s of
          Inl e \<Rightarrow> Inl dErrSubmissionNotFound
        | Inr x \<Rightarrow> if sb_CaseID x \<noteq> caseID then Inl dErrSubmissionNotFound else Inr (submission_response x)))"

definition ListSubmissions :: "'s case_db_scheme CaseService \<Rightarrow> uuid \<Rightarrow> uuid \<Rightarrow> 's case_db_scheme
    \<Rightarrow> go_error + SubmissionResponse list" where
  "ListSubmissions svc orgID caseID s = (if \<not> formRepos svc then Inl ErrFormServices
     else Inr (map submission_response (submission_ListByCase orgID caseID s)))"

subsection \<open>What is missing\<close>

record WorkflowRequirements =
  wr_CaseID :: uuid
  wr_CurrentState :: string
  TotalRequired :: nat
  SubmittedCount :: nat
  MissingRequired :: "CaseFormAvailability list"
  SubmittedForms :: "SubmissionResponse list"
  CanProceed :: bool

definition GetWorkflowRequirements :: "'s case_db_scheme CaseService \<Rightarrow> uuid \<Rightarrow> uuid \<Rightarrow> 's case_db_scheme
    \<Rightarrow> go_error + WorkflowRequirements" where
  "GetWorkflowRequirements svc orgID caseID s =
     (if \<not> formRepos svc then Inl ErrFormServices
      else (case case_FindByID orgID caseID s of
          Inl e \<Rightarrow> Inl ErrCaseNotFound
        | Inr cs \<Rightarrow> if WorkflowInstanceID cs = None
            then Inr \<lparr>wr_CaseID = caseID, wr_CurrentState = WorkflowState cs, TotalRequired = 0, SubmittedCount = 0,
                   MissingRequired = [], SubmittedForms = [], CanProceed = True\<rparr>
            else (case case_instance orgID cs s of
                Inl e \<Rightarrow> Inl e
              | Inr i \<Rightarrow>
                  (let required = available_forms orgID
                         (filter (\<lambda>a. fa_Active a \<and> fa_Required a) (state_assignments orgID i s)) s;
                       xs = submission_ListByCase orgID caseID s;
                       missing = filter (\<lambda>a. cfa_FormVersionID a \<notin> sb_FormVersionID ` set xs) required
                   in Inr \<lparr>wr_CaseID = caseID, wr_CurrentState = CurrentState i, TotalRequired = length required,
                        SubmittedCount = length xs, MissingRequired = missing,
                        SubmittedForms = map submission_response xs, CanProceed = missing = []\<rparr>))))"

end
