(* ===== verification/Workflow_Effects.thy ===== *)
theory Workflow_Effects
  imports Workflow_Service "HOL-Library.Multiset"
begin

section \<open>What the operations of the workflow service do\<close>

text \<open>
  For each operation the exact change it makes to the workflow tables when it succeeds. The
  tables are compared through \<open>wf_tables\<close>, so that the theorems hold for every auditor and
  observer that leave them alone: the locale \<open>wf_environment\<close>, interpreted on the audit
  service.
\<close>

subsection \<open>The tables and the environment\<close>

definition wf_tables :: "'s wf_db_scheme \<Rightarrow> WorkflowDefinition list \<times> WorkflowState list
    \<times> WorkflowTransition list \<times> WorkflowInstance list \<times> WorkflowTransitionHistory list" where
  "wf_tables s = (workflow_definitions s, workflow_states s, workflow_transitions s,
     workflow_instances s, workflow_history s)"

definition same_tables :: "'s wf_db_scheme \<Rightarrow> 's wf_db_scheme \<Rightarrow> bool" where
  "same_tables s s' \<longleftrightarrow> wf_tables s' = wf_tables s"

lemma same_tables_simps:
  "same_tables s s' \<Longrightarrow> workflow_definitions s' = workflow_definitions s"
  "same_tables s s' \<Longrightarrow> workflow_states s' = workflow_states s"
  "same_tables s s' \<Longrightarrow> workflow_transitions s' = workflow_transitions s"
  "same_tables s s' \<Longrightarrow> workflow_instances s' = workflow_instances s"
  "same_tables s s' \<Longrightarrow> workflow_history s' = workflow_history s"
  by (simp_all add: same_tables_def wf_tables_def)

interpretation wf_frame: tx_frame same_tables
  by unfold_locales (simp_all add: same_tables_def)

definition quiet_auditor :: "'s wf_db_scheme auditor \<Rightarrow> bool" where
  "quiet_auditor auditor \<longleftrightarrow> (\<forall>record params. auditor = Some record \<longrightarrow> tx_framed same_tables (record params))"

definition quiet_observer :: "'s wf_db_scheme observer \<Rightarrow> bool" where
  "quiet_observer observer \<longleftrightarrow> (\<forall>obs i t b. observer = Some obs \<longrightarrow> tx_framed same_tables (obs i t b))"

lemma audit_grows_same_tables: "audit_grows s s' \<Longrightarrow> same_tables s s'"
  by (auto simp: audit_grows_def same_tables_def wf_tables_def)

text \<open>The audit service is such an auditor.\<close>

lemma audit_service_quiet: "quiet_auditor (Some (RecordEventInTx ft cfg c))"
  using RecordEventInTx_frame [of ft cfg c] audit_grows_same_tables
  by (auto simp: quiet_auditor_def tx_framed_def)

lemma no_auditor_quiet: "quiet_auditor None" and no_observer_quiet: "quiet_observer None"
  by (simp_all add: quiet_auditor_def quiet_observer_def)

locale wf_environment =
  fixes auditor :: "'s wf_db_scheme auditor" and observer :: "'s wf_db_scheme observer"
  assumes auditor_quiet: "quiet_auditor auditor" and observer_quiet: "quiet_observer observer"
begin

lemma audit_frame: "tx_framed same_tables (RecordAuditEventInTx auditor params)"
  using auditor_quiet unfolding RecordAuditEventInTx_def quiet_auditor_def
  by (auto split: option.split intro: wf_frame.return wf_frame.map_error)

lemma audit_tables: "RecordAuditEventInTx auditor params s = (r, s') \<Longrightarrow> wf_tables s' = wf_tables s"
  using wf_frame.framedD [OF audit_frame] by (simp add: same_tables_def)

lemma notify_tables: "notify observer i t b s = (r, s') \<Longrightarrow> wf_tables s' = wf_tables s"
proof -
  have "tx_framed same_tables (notify observer i t b)"
    using observer_quiet unfolding notify_def quiet_observer_def
    by (auto split: option.split intro: wf_frame.return wf_frame.map_error)
  then show "notify observer i t b s = (r, s') \<Longrightarrow> wf_tables s' = wf_tables s"
    using wf_frame.framedD by (auto simp: same_tables_def)
qed

end

text \<open>The service with the audit trail and no observer.\<close>

interpretation audited: wf_environment "Some (RecordEventInTx ft cfg c)" None for ft cfg c
  by unfold_locales (rule audit_service_quiet, rule no_observer_quiet)

subsection \<open>Statements\<close>

lemma query_row_Inr: "query_row msg rows = Inr r \<longleftrightarrow> (\<exists>rest. rows = r # rest)"
  by (auto simp: query_row_def split: list.split)

lemma query_row_Inl: "query_row msg rows = Inl e \<longleftrightarrow> rows = [] \<and> e = Wrap msg SqlNoRows"
  by (auto simp: query_row_def split: list.split)

lemma query_row_mem: "query_row msg (filter p rows) = Inr r \<Longrightarrow> r \<in> set rows \<and> p r"
proof -
  assume "query_row msg (filter p rows) = Inr r"
  then obtain rest where "filter p rows = r # rest" by (auto simp: query_row_Inr)
  then have "r \<in> set (filter p rows)" by simp
  then show "r \<in> set rows \<and> p r" by simp
qed

lemma ErrNoRows_wrapped [simp]: "errors_Is (Wrap msg SqlNoRows) SqlNoRows"
  by (simp add: errors_Is_def same_error_type_def)

lemma row_ids [simp]: "ws_ID (state_row x) = ws_ID x" "wt_ID (transition_row t) = wt_ID t"
  by (simp_all add: state_row_def transition_row_def)

lemma state_saveBatch_Inr:
  "state_saveBatch xs s = (Inr (), s') \<longleftrightarrow>
     s' = s\<lparr>workflow_states := workflow_states s @ map state_row xs\<rparr> \<and> (\<forall>x \<in> set xs. int4 (DisplayOrder x))
     \<and> distinct (map ws_ID xs) \<and> ws_ID ` set xs \<inter> ws_ID ` set (workflow_states s) = {}"
proof (induction xs arbitrary: s)
  case (Cons x xs)
  show ?case by (auto simp: Cons.IH)
qed (auto simp: tx_Inr)

lemma transition_saveBatch_Inr:
  "transition_saveBatch ts s = (Inr (), s') \<longleftrightarrow>
     s' = s\<lparr>workflow_transitions := workflow_transitions s @ map transition_row ts\<rparr>
     \<and> (\<forall>t \<in> set ts. conditions_encodable t)
     \<and> distinct (map wt_ID ts) \<and> wt_ID ` set ts \<inter> wt_ID ` set (workflow_transitions s) = {}"
proof (induction ts arbitrary: s)
  case (Cons t ts)
  show ?case by (auto simp: Cons.IH)
qed (auto simp: tx_Inr)

lemma saveDefinition_Inr:
  "saveDefinition def s = (Inr (), s') \<longleftrightarrow>
     s' = s\<lparr>workflow_definitions := workflow_definitions s @ [def_row def]\<rparr>
     \<and> json_encodable (wd_Metadata def) \<and> int4 (wd_Version def) \<and> wd_ID def \<notin> wd_ID ` set (workflow_definitions s)
     \<and> \<not> (\<exists>d \<in> set (workflow_definitions s). wd_TenantID d = wd_TenantID def
            \<and> wd_Key d = wd_Key def \<and> wd_Version d = wd_Version def)"
  by (auto simp: saveDefinition_def)

lemma saveInstance_Inr:
  "saveInstance i s = (Inr (), s') \<longleftrightarrow>
     s' = s\<lparr>workflow_instances := workflow_instances s @ [instance_row i]\<rparr>
     \<and> json_encodable (wi_Metadata i) \<and> int4 (wi_WorkflowDefVersion i) \<and> wi_ID i \<notin> wi_ID ` set (workflow_instances s)
     \<and> wi_CaseID i \<notin> wi_CaseID ` set (workflow_instances s)"
  by (auto simp: saveInstance_def)

lemma saveHistory_Inr:
  "saveHistory h s = (Inr (), s') \<longleftrightarrow>
     s' = s\<lparr>workflow_history := workflow_history s @ [history_row h]\<rparr>
     \<and> json_encodable (wh_Metadata h) \<and> wh_ID h \<notin> wh_ID ` set (workflow_history s)"
  by (auto simp: saveHistory_def)

lemma affected_0: "affected p rows = 0 \<longleftrightarrow> (\<forall>r \<in> set rows. \<not> p r)"
  by (auto simp: affected_def filter_empty_conv)

lemma updateState_Inr:
  "instance_updateState tenantID i st v s = (Inr (), s') \<longleftrightarrow>
     (\<exists>x \<in> set (workflow_instances s). at_version tenantID i v x) \<and> int4 (v + 1)
     \<and> s' = s\<lparr>workflow_instances := update_where (at_version tenantID i v)
            (\<lambda>x. x\<lparr>CurrentState := st, wi_Version := wi_Version x + 1\<rparr>) (workflow_instances s)\<rparr>"
  by (auto simp: instance_updateState_def affected_0)

lemma complete_Inr:
  "instance_complete now tenantID i v s = (Inr (), s') \<longleftrightarrow>
     (\<exists>x \<in> set (workflow_instances s). at_version tenantID i v x) \<and> int4 (v + 1)
     \<and> s' = s\<lparr>workflow_instances := update_where (at_version tenantID i v)
            (\<lambda>x. x\<lparr>CompletedAt := Some now, wi_Version := wi_Version x + 1\<rparr>) (workflow_instances s)\<rparr>"
  by (auto simp: instance_complete_def affected_0)

lemma updateStatus_Inr:
  "def_updateStatus now tenantID i st v s = (Inr (), s') \<longleftrightarrow>
     (\<exists>d \<in> set (workflow_definitions s). wd_TenantID d = tenantID \<and> wd_ID d = i \<and> wd_Version d = v)
     \<and> s' = s\<lparr>workflow_definitions := update_where
            (\<lambda>d. wd_TenantID d = tenantID \<and> wd_ID d = i \<and> wd_Version d = v)
            (\<lambda>d. d\<lparr>wd_Status := st, wd_UpdatedAt := now\<rparr>) (workflow_definitions s)\<rparr>"
  by (auto simp: def_updateStatus_def affected_0 Let_def)

lemma deleteDefinition_Inr:
  "deleteDefinition tenantID i s = (Inr u, s') \<Longrightarrow>
     i \<notin> wi_WorkflowDefID ` set (workflow_instances s)
     \<and> s' = s\<lparr>workflow_definitions := filter (\<lambda>d. \<not> (wd_TenantID d = tenantID \<and> wd_ID d = i)) (workflow_definitions s),
            workflow_states := filter (\<lambda>x. ws_WorkflowDefID x \<noteq> i) (workflow_states s),
            workflow_transitions := filter (\<lambda>t. wt_WorkflowDefID t \<noteq> i) (workflow_transitions s)\<rparr>"
  by (auto simp: deleteDefinition_def Let_def split: if_splits)

lemma load_definition_Inr:
  "load_definition_tx tenantID i s = (Inr def, s') \<longleftrightarrow> def_FindByID tenantID i s = Inr def \<and> s' = s"
  by (auto simp: load_definition_tx_def tx_Inr def_FindByIDTx_def)

lemma optional_row_Inr:
  "optional_row msg m s = (Inr r, s') \<Longrightarrow>
     (\<exists>a. r = Some a \<and> m s = (Inr a, s')) \<or> (r = None \<and> (\<exists>e. m s = (Inl e, s') \<and> errors_Is e SqlNoRows))"
  by (cases "m s"; cases "fst (m s)") (auto simp: optional_row_def tx_Inr split: sum.splits if_splits)

lemma def_FindByID_Inr:
  "def_FindByID tenantID i s = Inr d \<Longrightarrow> d \<in> set (workflow_definitions s) \<and> wd_TenantID d = tenantID \<and> wd_ID d = i"
  unfolding def_FindByID_def scan_def_def by (drule query_row_mem) simp

lemma instance_FindByID_Inr:
  "instance_FindByID tenantID i s = Inr x \<Longrightarrow>
     x \<in> set (workflow_instances s) \<and> wi_TenantID x = tenantID \<and> wi_ID x = i"
  unfolding instance_FindByID_def scan_instance_def by (drule query_row_mem) simp

lemma scan_def_None: "scan_def rows = Inl e \<longleftrightarrow> rows = [] \<and> e = Wrap ''failed to scan workflow definition'' SqlNoRows"
  by (simp add: scan_def_def query_row_Inl)

lemma def_FindByKey_optional:
  assumes "optional_row msg (def_FindByKeyTx tenantID key) s = (Inr r, s')"
  shows "s' = s" "r = None \<longleftrightarrow> \<not> (\<exists>d \<in> set (workflow_definitions s). wd_TenantID d = tenantID \<and> wd_Key d = key)"
proof -
  show "s' = s" using optional_row_Inr [OF assms] by (auto simp: def_FindByKeyTx_def)
  show "r = None \<longleftrightarrow> \<not> (\<exists>d \<in> set (workflow_definitions s). wd_TenantID d = tenantID \<and> wd_Key d = key)"
    using optional_row_Inr [OF assms]
    by (auto simp: def_FindByKeyTx_def def_FindByKey_def scan_def_def query_row_Inr query_row_Inl
        latest_first_def filter_empty_conv simp flip: set_empty)
qed

subsection \<open>Operations\<close>

lemma wf_tables_eq:
  "wf_tables s = (D, S, T, I, H) \<longleftrightarrow> workflow_definitions s = D \<and> workflow_states s = S
     \<and> workflow_transitions s = T \<and> workflow_instances s = I \<and> workflow_history s = H"
  by (simp add: wf_tables_def)

context wf_environment
begin

lemma CreateWorkflowDefinition_Inr:
  assumes "CreateWorkflowDefinition auditor c params s = (Inr def, s')"
  defines "def0 \<equiv> new_definition c params"
  defines "states \<equiv> adopt_states c (Suc 0) def0 (cwp_States params)"
  defines "transitions \<equiv> adopt_transitions c (Suc (length states)) def0 (cwp_Transitions params)"
  shows "ValidateWorkflowDefinition def0 = []" "def = def0\<lparr>wd_States := states, wd_Transitions := transitions\<rparr>"
    and "\<not> (\<exists>d \<in> set (workflow_definitions s). wd_TenantID d = cwp_TenantID params \<and> wd_Key d = cwp_Key params)"
    and "wd_ID def0 \<notin> wd_ID ` set (workflow_definitions s)"
    and "wf_tables s' = (workflow_definitions s @ [def_row def0], workflow_states s @ map state_row states,
           workflow_transitions s @ map transition_row transitions, workflow_instances s, workflow_history s)"
proof -
  have v: "ValidateWorkflowDefinition def0 = []"
    using assms(1) by (auto simp: CreateWorkflowDefinition_def Let_def def0_def tx_Inr split: if_splits)
  obtain r s0 u1 s1 u2 s2 u3 s3 where
      f: "optional_row ''failed to check duplicate key''
            (def_FindByKeyTx (cwp_TenantID params) (cwp_Key params)) s = (Inr r, s0)"
    and r: "r = None" and d: "saveDefinition def0 s0 = (Inr u1, s1)"
    and st: "state_saveBatch states s1 = (Inr u2, s2)"
    and tr: "transition_saveBatch transitions s2 = (Inr u3, s3)"
    and au: "\<exists>ps u. RecordAuditEventInTx auditor ps s3 = (Inr u, s')"
    and def: "def = def0\<lparr>wd_States := states, wd_Transitions := transitions\<rparr>"
    using assms(1) v
    by (simp add: CreateWorkflowDefinition_def Let_def tx_Inr flip: def0_def states_def transitions_def) blast
  have s': "wf_tables s' = wf_tables s3" using au audit_tables by blast
  have k: "s0 = s" "\<not> (\<exists>d \<in> set (workflow_definitions s). wd_TenantID d = cwp_TenantID params \<and> wd_Key d = cwp_Key params)"
    using def_FindByKey_optional [OF f] r by auto
  show "ValidateWorkflowDefinition def0 = []" "def = def0\<lparr>wd_States := states, wd_Transitions := transitions\<rparr>"
    "\<not> (\<exists>d \<in> set (workflow_definitions s). wd_TenantID d = cwp_TenantID params \<and> wd_Key d = cwp_Key params)"
    by (rule v, rule def, rule k(2))
  show "wd_ID def0 \<notin> wd_ID ` set (workflow_definitions s)"
    using d k(1) by (simp add: saveDefinition_Inr)
  show "wf_tables s' = (workflow_definitions s @ [def_row def0], workflow_states s @ map state_row states,
      workflow_transitions s @ map transition_row transitions, workflow_instances s, workflow_history s)"
    using s' d st tr k(1)
    by (simp add: saveDefinition_Inr state_saveBatch_Inr transition_saveBatch_Inr wf_tables_eq)
qed

text \<open>The set of rows that an update of the status of one definition touches.\<close>

lemma ActivateWorkflowDefinition_Inr:
  assumes "ActivateWorkflowDefinition auditor c tenantID i actorID s = (Inr u, s')"
  obtains def where "def_FindByID tenantID i s = Inr def" "wd_Status def = WorkflowStatusDraft"
    "\<forall>d \<in> set (workflow_definitions s). wd_TenantID d = tenantID \<and> wd_Key d = wd_Key def
       \<and> wd_Status d = WorkflowStatusActive \<longrightarrow> (\<exists>a. def_FindLatestActiveByKey tenantID (wd_Key def) s = Inr a \<and> wd_ID a = i)"
    "wf_tables s' = (update_where (\<lambda>d. wd_TenantID d = tenantID \<and> wd_ID d = i \<and> wd_Version d = wd_Version def)
            (\<lambda>d. d\<lparr>wd_Status := WorkflowStatusActive, wd_UpdatedAt := ctx_time c 1\<rparr>) (workflow_definitions s),
       workflow_states s, workflow_transitions s, workflow_instances s, workflow_history s)"
proof -
  obtain def r s1 s2 u1 ps u2 where l: "def_FindByID tenantID i s = Inr def" "wd_Status def = WorkflowStatusDraft"
    and f: "optional_row ''failed to check active definitions''
              (def_FindLatestActiveByKeyTx tenantID (wd_Key def)) s = (Inr r, s1)"
    and g: "case r of None \<Rightarrow> True | Some a \<Rightarrow> wd_ID a = wd_ID def"
    and up: "def_updateStatus (ctx_time c 1) tenantID i WorkflowStatusActive (wd_Version def) s1 = (Inr u1, s2)"
    and au: "RecordAuditEventInTx auditor ps s2 = (Inr u2, s')"
    using assms by (simp add: ActivateWorkflowDefinition_def tx_Inr load_definition_Inr) blast
  have id: "wd_ID def = i" using def_FindByID_Inr [OF l(1)] by simp
  have s1: "s1 = s" using optional_row_Inr [OF f] by (auto simp: def_FindLatestActiveByKeyTx_def)
  have "\<exists>a. def_FindLatestActiveByKey tenantID (wd_Key def) s = Inr a \<and> wd_ID a = i"
    if "d \<in> set (workflow_definitions s)" "wd_TenantID d = tenantID" "wd_Key d = wd_Key def"
      "wd_Status d = WorkflowStatusActive" for d
    using optional_row_Inr [OF f] g id that
    by (auto simp: def_FindLatestActiveByKeyTx_def def_FindLatestActiveByKey_def scan_def_None latest_first_def
        filter_empty_conv simp flip: set_empty)
  then show ?thesis
    using that [OF l] audit_tables [OF au] up s1 by (auto simp: updateStatus_Inr) (simp add: wf_tables_def)
qed

lemma ArchiveWorkflowDefinition_Inr:
  assumes "ArchiveWorkflowDefinition auditor c tenantID i actorID s = (Inr u, s')"
  obtains def where "def_FindByID tenantID i s = Inr def" "wd_Status def = WorkflowStatusActive"
    "\<forall>x \<in> set (workflow_instances s). wi_TenantID x = tenantID \<and> wi_WorkflowDefID x = i \<longrightarrow> CompletedAt x \<noteq> None"
    "wf_tables s' = (update_where (\<lambda>d. wd_TenantID d = tenantID \<and> wd_ID d = i \<and> wd_Version d = wd_Version def)
            (\<lambda>d. d\<lparr>wd_Status := WorkflowStatusArchived, wd_UpdatedAt := ctx_time c 1\<rparr>) (workflow_definitions s),
       workflow_states s, workflow_transitions s, workflow_instances s, workflow_history s)"
proof -
  obtain def s2 u1 ps u2 where l: "def_FindByID tenantID i s = Inr def" "wd_Status def = WorkflowStatusActive"
    and g: "CountActiveByDefinitionID tenantID (wd_ID def) s = 0"
    and up: "def_updateStatus (ctx_time c 1) tenantID i WorkflowStatusArchived (wd_Version def) s = (Inr u1, s2)"
    and au: "RecordAuditEventInTx auditor ps s2 = (Inr u2, s')"
    using assms by (simp add: ArchiveWorkflowDefinition_def tx_Inr load_definition_Inr) blast
  have "wd_ID def = i" using def_FindByID_Inr [OF l(1)] by simp
  then have "\<forall>x \<in> set (workflow_instances s). wi_TenantID x = tenantID \<and> wi_WorkflowDefID x = i \<longrightarrow> CompletedAt x \<noteq> None"
    using g by (auto simp: CountActiveByDefinitionID_def filter_empty_conv)
  then show ?thesis
    using that [OF l] audit_tables [OF au] up by (auto simp: updateStatus_Inr) (simp add: wf_tables_def)
qed

lemma DeleteWorkflowDefinition_Inr:
  assumes "DeleteWorkflowDefinition auditor c tenantID i actorID s = (Inr u, s')"
  obtains def where "def_FindByID tenantID i s = Inr def" "wd_Status def = WorkflowStatusDraft"
    "i \<notin> wi_WorkflowDefID ` set (workflow_instances s)"
    "wf_tables s' = (filter (\<lambda>d. \<not> (wd_TenantID d = tenantID \<and> wd_ID d = i)) (workflow_definitions s),
       filter (\<lambda>x. ws_WorkflowDefID x \<noteq> i) (workflow_states s),
       filter (\<lambda>t. wt_WorkflowDefID t \<noteq> i) (workflow_transitions s), workflow_instances s, workflow_history s)"
proof -
  obtain def u1 s1 s2 s3 u2 u3 ps u4 where l: "def_FindByID tenantID i s = Inr def" "wd_Status def = WorkflowStatusDraft"
    and t: "transition_deleteBatch tenantID (wd_ID def) s = (Inr u1, s1)"
    and st: "state_deleteBatch tenantID (wd_ID def) s1 = (Inr u2, s2)"
    and d: "deleteDefinition tenantID i s2 = (Inr u3, s3)"
    and au: "RecordAuditEventInTx auditor ps s3 = (Inr u4, s')"
    using assms by (simp add: DeleteWorkflowDefinition_def tx_Inr load_definition_Inr) blast
  have "wd_ID def = i" using def_FindByID_Inr [OF l(1)] by simp
  then show ?thesis
    using that [OF l] t st deleteDefinition_Inr [OF d] audit_tables [OF au]
    by (auto simp: transition_deleteBatch_def state_deleteBatch_def tx_Inr wf_tables_def cong: conj_cong
        intro!: filter_cong)
qed

lemma createInstanceForCaseByDefID_Inr:
  assumes "createInstanceForCaseByDefID auditor c tenantID caseID workflowDefID actorID s = (Inr i, s')"
  obtains def where "def_FindByID tenantID workflowDefID s = Inr def" "wd_Status def = WorkflowStatusActive"
    "i = (new_instance c tenantID caseID def)\<lparr>wi_Definition := Some def\<rparr>"
    "wi_ID i \<notin> wi_ID ` set (workflow_instances s)" "caseID \<notin> wi_CaseID ` set (workflow_instances s)"
    "wf_tables s' = (workflow_definitions s, workflow_states s, workflow_transitions s,
       workflow_instances s @ [instance_row (new_instance c tenantID caseID def)], workflow_history s)"
proof -
  obtain def u1 s1 ps u2 where l: "def_FindByID tenantID workflowDefID s = Inr def" "wd_Status def = WorkflowStatusActive"
    and i: "i = (new_instance c tenantID caseID def)\<lparr>wi_Definition := Some def\<rparr>"
    and sv: "saveInstance (new_instance c tenantID caseID def) s = (Inr u1, s1)"
    and au: "RecordAuditEventInTx auditor ps s1 = (Inr u2, s')"
    using assms by (simp add: createInstanceForCaseByDefID_def Let_def tx_Inr load_definition_Inr) blast
  show ?thesis
    using that [OF l i] sv audit_tables [OF au] i
    by (auto simp: saveInstance_Inr new_instance_def wf_tables_def)
qed

lemma apply_transition_Inr:
  assumes "apply_transition auditor observer c params i t targetState s = (Inr u, s')"
    and "distinct (map wi_ID (workflow_instances s))"
  shows "\<exists>x \<in> set (workflow_instances s). at_version (etp_TenantID params) (wi_ID i) (wi_Version i) x"
    and "wh_ID (transition_history c params i t) \<notin> wh_ID ` set (workflow_history s)"
    and "wf_tables s' = (workflow_definitions s, workflow_states s, workflow_transitions s,
       update_where (at_version (etp_TenantID params) (wi_ID i) (wi_Version i))
         (\<lambda>x. x\<lparr>CurrentState := ToState t,
            CompletedAt := (if Terminal targetState then Some (ctx_time c 1) else CompletedAt x),
            wi_Version := wi_Version x + (if Terminal targetState then 2 else 1)\<rparr>) (workflow_instances s),
       workflow_history s @ [history_row (transition_history c params i t)])"
proof -
  let ?p = "at_version (etp_TenantID params) (wi_ID i) (wi_Version i)"
  let ?q = "at_version (etp_TenantID params) (wi_ID i) (wi_Version i + 1)"
  let ?I = "workflow_instances s"
  obtain s1 s2 s3 s4 ps where
      a: "instance_updateState (etp_TenantID params) (wi_ID i) (ToState t) (wi_Version i) s = (Inr (), s1)"
    and b: "saveHistory (transition_history c params i t) s1 = (Inr (), s2)"
    and d: "if Terminal targetState then instance_complete (ctx_time c 1) (etp_TenantID params) (wi_ID i)
              (wi_Version i + 1) s2 = (Inr (), s3) else s3 = s2"
    and e: "RecordAuditEventInTx auditor ps s3 = (Inr (), s4)"
    and f: "notify observer i t (Terminal targetState) s4 = (Inr (), s')"
    using assms(1) by (simp add: apply_transition_def tx_Inr cong: if_cong del: One_nat_def) blast
  have s': "wf_tables s' = wf_tables s3"
    using audit_tables [OF e] notify_tables [OF f] by simp
  show "\<exists>x \<in> set ?I. ?p x" using a by (simp add: updateState_Inr)
  show "wh_ID (transition_history c params i t) \<notin> wh_ID ` set (workflow_history s)"
    using a b by (auto simp: updateState_Inr saveHistory_Inr)
  have only: "\<not> ?q x" if x: "x \<in> set ?I" for x
  proof
    assume "?q x"
    moreover obtain y where "y \<in> set ?I" "?p y" using a by (auto simp: updateState_Inr)
    ultimately have "x = y" using x assms(2) by (auto simp: at_version_def distinct_map inj_on_def)
    with \<open>?q x\<close> \<open>?p y\<close> show False by (simp add: at_version_def)
  qed
  have "?q (x\<lparr>CurrentState := ToState t, wi_Version := wi_Version x + 1\<rparr>) \<longleftrightarrow> ?p x" for x
    by (auto simp: at_version_def)
  then show "wf_tables s' = (workflow_definitions s, workflow_states s, workflow_transitions s,
       update_where ?p
         (\<lambda>x. x\<lparr>CurrentState := ToState t,
            CompletedAt := (if Terminal targetState then Some (ctx_time c 1) else CompletedAt x),
            wi_Version := wi_Version x + (if Terminal targetState then 2 else 1)\<rparr>) ?I,
       workflow_history s @ [history_row (transition_history c params i t)])"
    using s' a b d only
    by (cases "Terminal targetState")
      (auto simp: updateState_Inr saveHistory_Inr complete_Inr wf_tables_def update_where_def)
qed

end

end
