(* ===== verification/Form_Effects.thy ===== *)
theory Form_Effects
  imports Form_Service Workflow_Effects
begin

section \<open>What the operations on forms do\<close>

text \<open>
  For each operation of the form service and the assignment service the change it makes to
  the tables when it succeeds. The auditor may only append to the audit trail: the locale
  \<open>recorder\<close>, interpreted on the audit service.
\<close>

subsection \<open>The auditor\<close>

definition growing_auditor :: "'s audit_db_scheme auditor \<Rightarrow> bool" where
  "growing_auditor auditor \<longleftrightarrow> (\<forall>record params. auditor = Some record \<longrightarrow> tx_framed audit_grows (record params))"

locale recorder =
  fixes auditor :: "'s audit_db_scheme auditor"
  assumes growing: "growing_auditor auditor"
begin

lemma audit_grows: "RecordAuditEventInTx auditor params s = (r, s') \<Longrightarrow> audit_grows s s'"
proof -
  have "tx_framed audit_grows (RecordAuditEventInTx auditor params)"
    using growing unfolding RecordAuditEventInTx_def growing_auditor_def
    by (auto split: option.split intro: audit_frame.return audit_frame.map_error)
  then show "RecordAuditEventInTx auditor params s = (r, s') \<Longrightarrow> audit_grows s s'"
    by (rule audit_frame.framedD)
qed

end

lemma audit_service_grows: "growing_auditor (Some (RecordEventInTx ft cfg c))"
  using RecordEventInTx_frame [of ft cfg c] by (auto simp: growing_auditor_def)

lemma no_auditor_grows: "growing_auditor None"
  by (simp add: growing_auditor_def)

interpretation audit_recorder: recorder "Some (RecordEventInTx ft cfg c)" for ft cfg c
  by unfold_locales (rule audit_service_grows)

lemma growing_is_quiet: "growing_auditor auditor \<Longrightarrow> quiet_auditor auditor"
  by (auto simp: growing_auditor_def quiet_auditor_def tx_framed_def audit_grows_same_tables)

text \<open>The tables an audit record leaves alone.\<close>

lemma audit_grows_tables:
  "audit_grows s s' \<Longrightarrow> wf_tables s' = wf_tables s"
  "audit_grows s s' \<Longrightarrow> wf_db.more s' = wf_db.more s"
  by (auto simp: audit_grows_def wf_tables_def)

definition form_tables :: "'s form_db_scheme \<Rightarrow> Form list \<times> FormVersion list \<times> FormField list
    \<times> WorkflowStateFormAssignment list \<times> FormSubmission list" where
  "form_tables s = (forms s, form_versions s, form_fields s, form_assignments s, form_submissions s)"

lemma form_tables_eq:
  "form_tables s = (F, V, L, A, B) \<longleftrightarrow> forms s = F \<and> form_versions s = V \<and> form_fields s = L
     \<and> form_assignments s = A \<and> form_submissions s = B"
  by (simp add: form_tables_def)

lemma audit_grows_forms:
  "audit_grows s s' \<Longrightarrow> form_tables s' = form_tables s" "audit_grows s s' \<Longrightarrow> form_db.more s' = form_db.more s"
  by (auto simp: audit_grows_def form_tables_def)

subsection \<open>Statements\<close>

lemma row_or_Inr: "row_or e rows = Inr r \<longleftrightarrow> (\<exists>rest. rows = r # rest)"
  by (auto simp: row_or_def split: list.split)

lemma row_or_Inl: "row_or e rows = Inl e' \<longleftrightarrow> rows = [] \<and> e' = e"
  by (auto simp: row_or_def split: list.split)

lemma row_or_in: "row_or e rows = Inr r \<Longrightarrow> r \<in> set rows"
  by (auto simp: row_or_Inr)

lemma row_or_mem: "row_or e (filter p rows) = Inr r \<Longrightarrow> r \<in> set rows \<and> p r"
  by (drule row_or_in) simp

lemma row_or_sorted_mem: "row_or e (sort_key k (filter p rows)) = Inr r \<Longrightarrow> r \<in> set rows \<and> p r"
  by (drule row_or_in) simp

lemma form_FindByID_Inr:
  "form_FindByID orgID i s = Inr f \<Longrightarrow> f \<in> set (forms s) \<and> fm_OrganizationID f = orgID \<and> fm_ID f = i"
  unfolding form_FindByID_def by (drule row_or_mem) simp

lemma version_FindByID_Inr:
  "version_FindByID orgID i s = Inr v \<Longrightarrow> v \<in> set (form_versions s) \<and> fv_OrganizationID v = orgID \<and> fv_ID v = i"
  unfolding version_FindByID_def by (drule row_or_mem) simp

lemma field_FindByID_Inr:
  "field_FindByID orgID i s = Inr f \<Longrightarrow> f \<in> set (form_fields s) \<and> ff_OrganizationID f = orgID \<and> ff_ID f = i"
  unfolding field_FindByID_def by (drule row_or_mem) simp

lemma assignment_FindByID_Inr:
  "assignment_FindByID tenantID i s = Inr a \<Longrightarrow> a \<in> set (form_assignments s) \<and> fa_TenantID a = tenantID \<and> fa_ID a = i"
  unfolding assignment_FindByID_def by (drule row_or_mem) simp

lemma optional_Inr:
  "optional e msg r = Inr x \<longleftrightarrow> (case r of Inr a \<Rightarrow> x = Some a | Inl e' \<Rightarrow> x = None \<and> errors_Is e' e)"
  by (auto simp: optional_def split: sum.splits)

lemma errors_Is_refl [simp]: "errors_Is e e"
  by (cases e) (simp_all add: errors_Is_def same_error_type_def)

lemma optional_row:
  "optional e msg (row_or e rows) = Inr x \<longleftrightarrow> x = (case rows of [] \<Rightarrow> None | r # _ \<Rightarrow> Some r)"
  by (auto simp: optional_Inr row_or_def split: list.splits)

lemma form_Save_Inr:
  "form_Save f s = (Inr (), s') \<longleftrightarrow> s' = s\<lparr>forms := forms s @ [form_row f]\<rparr> \<and> fm_ID f \<notin> fm_ID ` set (forms s)
     \<and> \<not> (\<exists>g \<in> set (forms s). fm_OrganizationID g = fm_OrganizationID f \<and> fm_Key g = fm_Key f)"
  by (auto simp: form_Save_def)

lemma form_Update_Inr:
  "form_Update n orgID i f s = (Inr (), s') \<longleftrightarrow>
     (\<exists>g \<in> set (forms s). fm_OrganizationID g = orgID \<and> fm_ID g = i)
     \<and> s' = s\<lparr>forms := update_where (\<lambda>g. fm_OrganizationID g = orgID \<and> fm_ID g = i)
          (\<lambda>g. g\<lparr>fm_Name := fm_Name f, fm_Description := fm_Description f, fm_Status := fm_Status f,
                 fm_UpdatedAt := n\<rparr>) (forms s)\<rparr>"
  by (auto simp: form_Update_def affected_0 Let_def)

lemma version_Save_Inr:
  "version_Save v s = (Inr (), s') \<longleftrightarrow>
     (if \<exists>w \<in> set (form_versions s). fv_ID w = fv_ID v
      then s' = s\<lparr>form_versions := update_where (\<lambda>w. fv_ID w = fv_ID v)
             (\<lambda>w. w\<lparr>fv_Status := fv_Status v, PublishedAt := stored_published_at v,
                    fv_UpdatedAt := trunc_micros (fv_UpdatedAt v)\<rparr>) (form_versions s)\<rparr>
      else int4 (fv_Version v)
        \<and> \<not> (\<exists>w \<in> set (form_versions s). FormID w = FormID v \<and> fv_Version w = fv_Version v)
        \<and> s' = s\<lparr>form_versions := form_versions s @ [version_row v]\<rparr>)"
  by (auto simp: version_Save_def)

lemma field_Save_Inr:
  "field_Save f s = (Inr (), s') \<longleftrightarrow> s' = s\<lparr>form_fields := form_fields s @ [field_row f]\<rparr>
     \<and> json_encodable (GObject (Validation f)) \<and> IsValidFieldType (ff_Type f) \<and> int4 (ff_Order f)
     \<and> ff_ID f \<notin> ff_ID ` set (form_fields s)
     \<and> \<not> (\<exists>g \<in> set (form_fields s). FormVersionID g = FormVersionID f \<and> ff_Key g = ff_Key f)"
  by (auto simp: field_Save_def)

definition field_changes :: "instant \<Rightarrow> FormField \<Rightarrow> FormField \<Rightarrow> FormField" where
  "field_changes n f g = g\<lparr>Label := Label f, ff_Type := ff_Type f, Required := Required f,
     ff_Description := ff_Description f, Placeholder := Placeholder f,
     DefaultValue := DefaultValue (field_row f), Validation := Validation (field_row f),
     Options := Options f, ff_Order := ff_Order f, ff_UpdatedAt := n\<rparr>"

lemma field_Update_Inr:
  "field_Update n f s = (Inr (), s') \<longleftrightarrow>
     (\<exists>g \<in> set (form_fields s). ff_ID g = ff_ID f \<and> FormVersionID g = FormVersionID f)
     \<and> json_encodable (GObject (Validation f)) \<and> IsValidFieldType (ff_Type f) \<and> int4 (ff_Order f)
     \<and> s' = s\<lparr>form_fields := update_where (\<lambda>g. ff_ID g = ff_ID f \<and> FormVersionID g = FormVersionID f)
          (field_changes n f) (form_fields s)\<rparr>"
  by (auto simp: field_Update_def affected_0 Let_def field_changes_def [abs_def])

lemma field_Delete_Inr:
  "field_Delete orgID i s = (Inr (), s') \<longleftrightarrow>
     (\<exists>g \<in> set (form_fields s). ff_ID g = i \<and> ff_OrganizationID g = orgID)
     \<and> s' = s\<lparr>form_fields := filter (\<lambda>g. \<not> (ff_ID g = i \<and> ff_OrganizationID g = orgID)) (form_fields s)\<rparr>"
  by (auto simp: field_Delete_def affected_0 Let_def)

lemma assignment_Save_Inr:
  "assignment_Save a s = (Inr (), s') \<longleftrightarrow> s' = s\<lparr>form_assignments := form_assignments s @ [assignment_row a]\<rparr>
     \<and> char_length (WorkflowStateKey a) \<le> 100 \<and> order_ok (fa_DisplayOrder a)
     \<and> fa_ID a \<notin> fa_ID ` set (form_assignments s)
     \<and> \<not> (\<exists>b \<in> set (form_assignments s). same_state a b \<and> fa_FormVersionID b = fa_FormVersionID a)
     \<and> \<not> (\<exists>b \<in> set (form_assignments s). same_state a b \<and> fa_DisplayOrder b = fa_DisplayOrder a)"
  by (auto simp: assignment_Save_def Let_def)

lemma submission_Save_Inr:
  "submission_Save x s = (Inr (), s') \<longleftrightarrow> s' = s\<lparr>form_submissions := form_submissions s @ [submission_row x]\<rparr>
     \<and> json_encodable (GObject (sb_Data x)) \<and> sb_ID x \<notin> sb_ID ` set (form_submissions s)
     \<and> \<not> (\<exists>y \<in> set (form_submissions s). sb_TenantID y = sb_TenantID x \<and> sb_CaseID y = sb_CaseID x
            \<and> sb_FormVersionID y = sb_FormVersionID x)"
  by (auto simp: submission_Save_def)

subsection \<open>Operations\<close>

text \<open>A recorder on the store of forms.\<close>

locale form_recorder =
  fixes auditor :: "'s form_db_scheme auditor"
  assumes form_growing: "growing_auditor auditor"

sublocale form_recorder \<subseteq> recorder auditor
  by unfold_locales (rule form_growing)

interpretation form_audit_recorder: form_recorder "Some (RecordEventInTx ft cfg c)" for ft cfg c
  by unfold_locales (rule audit_service_grows)

context form_recorder
begin

lemma form_audit_grows: "form_audit auditor c orgID actorID action i meta s = (r, s') \<Longrightarrow> audit_grows s s'"
  unfolding form_audit_def by (rule audit_grows)

lemma assignment_audit_grows: "assignment_audit auditor c orgID actorID action i meta s = (r, s') \<Longrightarrow> audit_grows s s'"
  unfolding assignment_audit_def by (rule audit_grows)

lemma CreateForm_Inr:
  assumes "CreateForm lower auditor c p s = (Inr form, s')"
  obtains s1 where "NewForm lower c (cf_OrganizationID p) (cf_Key p) (cf_Name p) (cf_Description p) (cf_CreatedByID p) = Inr form"
    "form_Save form s = (Inr (), s1)" "audit_grows s1 s'"
  using assms by (simp add: CreateForm_def tx_Inr) (blast dest: form_audit_grows)

lemma UpdateForm_Inr:
  assumes "UpdateForm auditor c committed p s = (Inr form, s')"
  obtains old s1 where "form_FindByID (uf_OrganizationID p) (uf_ID p) committed = Inr old"
    "fm_Status old \<noteq> FormStatusArchived"
    "form = old\<lparr>fm_Name := (if uf_Name p \<noteq> [] then uf_Name p else fm_Name old),
       fm_Description := (if uf_Description p \<noteq> [] then uf_Description p else fm_Description old),
       fm_UpdatedAt := ctx_time c 0\<rparr>"
    "form_Update (ctx_time c 1) (uf_OrganizationID p) (uf_ID p) form s = (Inr (), s1)" "audit_grows s1 s'"
  using assms by (simp add: UpdateForm_def Let_def tx_Inr) (blast dest: form_audit_grows)

lemma ArchiveForm_Inr:
  assumes "ArchiveForm auditor c committed orgID formID actorID s = (Inr form, s')"
  obtains old s1 where "form_FindByID orgID formID committed = Inr old" "fm_Status old \<noteq> FormStatusArchived"
    "form = old\<lparr>fm_Status := FormStatusArchived, fm_UpdatedAt := ctx_time c 0\<rparr>"
    "form_Update (ctx_time c 1) orgID formID form s = (Inr (), s1)" "audit_grows s1 s'"
  using assms by (simp add: ArchiveForm_def Let_def tx_Inr) (blast dest: form_audit_grows)

lemma CreateVersion_Inr:
  assumes "CreateVersion auditor c committed orgID formID actorID s = (Inr v, s')"
  obtains form latest s1 where "form_FindByID orgID formID committed = Inr form"
    "optional dErrFormVersionNotFound ''failed to find latest version'' (FindLatest orgID formID committed) = Inr latest"
    "v = (NewFormVersion c formID orgID actorID)\<lparr>fv_Version := (case latest of None \<Rightarrow> 1 | Some w \<Rightarrow> fv_Version w + 1)\<rparr>"
    "version_Save v s = (Inr (), s1)" "audit_grows s1 s'"
  using assms by (simp add: CreateVersion_def Let_def tx_Inr) (blast dest: form_audit_grows)

lemma PublishVersion_Inr:
  assumes "PublishVersion auditor c committed orgID versionID actorID s = (Inr v, s')"
  obtains old form active s1 s2 where "version_FindByID orgID versionID committed = Inr old"
    "form_FindByID orgID (FormID old) committed = Inr form" "fv_Status old = FormVersionStatusDraft"
    "optional dErrFormVersionNotFound ''failed to check active version'' (FindActiveVersion orgID (FormID old) committed) = Inr active"
    "case active of None \<Rightarrow> True | Some a \<Rightarrow> fv_Version a \<le> fv_Version old" "v = published c old"
    "version_Save v s = (Inr (), s1)"
    "form_Update (ctx_time c 1) orgID (FormID old)
       (form\<lparr>fm_Status := FormStatusActive, fm_UpdatedAt := ctx_time c 0\<rparr>) s1 = (Inr (), s2)" "audit_grows s2 s'"
  using assms by (simp add: PublishVersion_def Let_def tx_Inr) (blast dest: form_audit_grows)

lemma AddField_Inr:
  assumes "AddField re lower auditor c committed p s = (Inr f, s')"
  obtains form v s1 where "form_FindByID (af_OrganizationID p) (af_FormID p) committed = Inr form"
    "version_FindByID (af_OrganizationID p) (af_VersionID p) committed = Inr v" "fv_Status v = FormVersionStatusDraft"
    "ValidateFieldKey lower (af_Key p) = None"
    "ValidateField re (af_Type p) (af_Label p) (af_Options p) (af_Validation p) = None"
    "f = NewFormField c p" "field_Save f s = (Inr (), s1)" "audit_grows s1 s'"
  using assms by (simp add: AddField_def Let_def tx_Inr) (blast dest: form_audit_grows)

lemma UpdateField_Inr:
  assumes "UpdateField re auditor c committed p s = (Inr f, s')"
  obtains old v s1 where "field_FindByID (ud_OrganizationID p) (ud_FieldID p) committed = Inr old"
    "version_FindByID (ud_OrganizationID p) (FormVersionID old) committed = Inr v" "fv_Status v = FormVersionStatusDraft"
    "ValidateFieldValidation re (ff_Type old) (ud_Validation p) = None"
    "f = updated_field c p old" "field_Update (ctx_time c 1) f s = (Inr (), s1)" "audit_grows s1 s'"
  using assms by (simp add: UpdateField_def Let_def tx_Inr) (blast dest: form_audit_grows)

lemma DeleteField_Inr:
  assumes "DeleteField auditor c committed orgID fieldID actorID s = (Inr f, s')"
  obtains v s1 where "field_FindByID orgID fieldID committed = Inr f"
    "version_FindByID orgID (FormVersionID f) committed = Inr v" "fv_Status v = FormVersionStatusDraft"
    "field_Delete orgID fieldID s = (Inr (), s1)" "audit_grows s1 s'"
  using assms by (simp add: DeleteField_def Let_def tx_Inr) (blast dest: form_audit_grows)

lemma CreateAssignment_Inr:
  assumes "CreateAssignment auditor c committed p s = (Inr a, s')"
  obtains d form v a0 s1 where "def_FindByID (ca_TenantID p) (ca_WorkflowDefinitionID p) committed = Inr d"
    "ca_WorkflowStateKey p \<in> ws_Key ` set (state_FindByDefinitionID (ca_TenantID p) (ca_WorkflowDefinitionID p) committed)"
    "form_FindByID (ca_TenantID p) (ca_FormID p) committed = Inr form" "fm_Status form \<noteq> FormStatusArchived"
    "version_FindByID (ca_TenantID p) (ca_FormVersionID p) committed = Inr v" "fv_Status v = FormVersionStatusPublished"
    "FormID v = ca_FormID p"
    "NewWorkflowStateFormAssignment c (ca_TenantID p) (ca_WorkflowDefinitionID p) (ca_FormID p) (ca_FormVersionID p)
       (ca_CreatedBy p) (ca_WorkflowStateKey p) (ca_Required p) (ca_DisplayOrder p) = Inr a0"
    "a = a0\<lparr>fa_Active := ca_Active p\<rparr>" "assignment_Save a s = (Inr (), s1)" "audit_grows s1 s'"
  using assms by (simp add: CreateAssignment_def Let_def tx_Inr stateExistsInWorkflow_def)
    (blast dest: assignment_audit_grows)

lemma UpdateAssignment_Inr:
  assumes "UpdateAssignment auditor c committed p s = (Inr a, s')"
  obtains old s1 where "assignment_FindByID (ua_TenantID p) (ua_AssignmentID p) committed = Inr old"
    "a = updated_assignment c p old" "assignment_Update a s = (Inr (), s1)" "audit_grows s1 s'"
  using assms by (simp add: UpdateAssignment_def Let_def tx_Inr) (blast dest: assignment_audit_grows)

lemma DeleteAssignment_Inr:
  assumes "DeleteAssignment auditor c committed tenantID i actorID s = (Inr u, s')"
  obtains a s1 where "assignment_FindByID tenantID i committed = Inr a"
    "assignment_Delete tenantID i s = (Inr (), s1)" "audit_grows s1 s'"
  using assms by (simp add: DeleteAssignment_def Let_def tx_Inr) (blast dest: assignment_audit_grows)

end

subsection \<open>Failing requests\<close>

lemma tx_check_pure [tx_atomic_intros]: "tx_pure (tx_check g oe)"
  by (cases oe) (simp_all add: tx_check_def tx_atomic_intros)

lemma tx_read_pure [tx_atomic_intros]: "tx_pure (tx_read g r)"
  by (simp add: tx_read_def tx_atomic_intros)

lemma form_requests_atomic:
  "tx_atomic (CreateForm lower auditor c cp)" "tx_atomic (UpdateForm auditor c committed up)"
  "tx_atomic (ArchiveForm auditor c committed orgID formID actorID)"
  "tx_atomic (CreateVersion auditor c committed orgID formID actorID)"
  "tx_atomic (PublishVersion auditor c committed orgID versionID actorID)"
  "tx_atomic (AddField re lower auditor c committed ap)" "tx_atomic (UpdateField re auditor c committed dp)"
  "tx_atomic (DeleteField auditor c committed orgID fieldID actorID)"
  "tx_atomic (CreateAssignment auditor c committed kp)" "tx_atomic (UpdateAssignment auditor c committed mp)"
  "tx_atomic (DeleteAssignment auditor c committed tenantID i actorID)"
  unfolding CreateForm_def UpdateForm_def ArchiveForm_def CreateVersion_def PublishVersion_def AddField_def
    UpdateField_def DeleteField_def CreateAssignment_def UpdateAssignment_def DeleteAssignment_def Let_def
  by (intro tx_atomic_intros)+

end
