(* ===== verification/Workflow_Invariants.thy ===== *)
theory Workflow_Invariants
  imports Workflow_Effects
begin

section \<open>What the workflow tables always satisfy\<close>

text \<open>
  The invariant of the five tables, its preservation by every change the operations make,
  and the relation between the tables of two moments of one run that makes a decision taken
  on an earlier read still valid (\<open>wf_evolves\<close>).
\<close>

subsection \<open>Graphs\<close>

definition state_view :: "WorkflowState \<Rightarrow> string \<times> bool" where
  "state_view x = (ws_Key x, Terminal x)"

definition transition_view :: "WorkflowTransition \<Rightarrow> string \<times> string \<times> string \<times> bool" where
  "transition_view t = (wt_Key t, FromState t, ToState t, wt_Active t)"

lemma row_views [simp]: "state_view (state_row x) = state_view x" "transition_view (transition_row t) = transition_view t"
  by (simp_all add: state_view_def state_row_def transition_view_def transition_row_def)

lemma adopted_views:
  "map state_view (adopt_states c k def xs) = map state_view xs"
  "map transition_view (adopt_transitions c k def ts) = map transition_view ts"
  by (induction xs arbitrary: k) (simp_all add: state_view_def,
    induction ts arbitrary: k, simp_all add: transition_view_def)

text \<open>Consistency only looks at the views, and not at their order.\<close>

lemma consistent_views:
  "consistent_definition def \<longleftrightarrow>
     (let V = map state_view (wd_States def); W = map transition_view (wd_Transitions def); K = fst ` set V in
      distinct (map fst V) \<and> distinct (map fst W) \<and> InitialState def \<in> K
      \<and> (\<forall>w \<in> set W. fst (snd w) \<in> K \<and> fst (snd (snd w)) \<in> K)
      \<and> (\<forall>v \<in> set V. snd v \<longrightarrow> (\<forall>w \<in> set W. fst (snd w) = fst v \<longrightarrow> \<not> snd (snd (snd w)))))"
  by (auto simp: consistent_definition_def Let_def state_view_def transition_view_def outgoing_def
      filter_empty_conv image_image o_def)

lemma consistent_cong:
  assumes "InitialState d = InitialState d'"
    and "mset (map state_view (wd_States d)) = mset (map state_view (wd_States d'))"
    and "mset (map transition_view (wd_Transitions d)) = mset (map transition_view (wd_Transitions d'))"
  shows "consistent_definition d \<longleftrightarrow> consistent_definition d'"
proof -
  have k: "distinct (map fst xs) \<longleftrightarrow> distinct (map fst ys)" if "mset xs = mset ys" for xs ys :: "(string \<times> 'x) list"
    using that by (metis mset_eq_imp_distinct_iff mset_map)
  show ?thesis
    unfolding consistent_views Let_def
    using assms(1) k [OF assms(2)] k [OF assms(3)] mset_eq_setD [OF assms(2)] mset_eq_setD [OF assms(3)]
    by presburger
qed

definition def_states :: "WorkflowDefinition \<Rightarrow> WorkflowState list \<Rightarrow> WorkflowState list" where
  "def_states d S = filter (\<lambda>x. ws_WorkflowDefID x = wd_ID d \<and> ws_TenantID x = wd_TenantID d) S"

definition def_transitions :: "WorkflowDefinition \<Rightarrow> WorkflowTransition list \<Rightarrow> WorkflowTransition list" where
  "def_transitions d T = filter (\<lambda>t. wt_WorkflowDefID t = wd_ID d \<and> wt_TenantID t = wd_TenantID d) T"

definition graph_ok :: "WorkflowDefinition \<Rightarrow> WorkflowState list \<Rightarrow> WorkflowTransition list \<Rightarrow> bool" where
  "graph_ok d S T \<longleftrightarrow>
     consistent_definition (d\<lparr>wd_States := def_states d S, wd_Transitions := def_transitions d T\<rparr>)"

lemma with_graph_rows:
  "set (wd_States (with_graph (wd_TenantID d) s d)) = set (def_states d (workflow_states s))"
  "set (wd_Transitions (with_graph (wd_TenantID d) s d)) = set (def_transitions d (workflow_transitions s))"
  by (simp_all add: with_graph_def state_FindByDefinitionID_def transition_FindByDefinitionID_def
      def_states_def def_transitions_def)

lemma with_graph_consistent:
  "consistent_definition (with_graph (wd_TenantID d) s d) \<longleftrightarrow> graph_ok d (workflow_states s) (workflow_transitions s)"
  unfolding graph_ok_def
  by (rule consistent_cong)
    (simp_all add: with_graph_def state_FindByDefinitionID_def transition_FindByDefinitionID_def
      def_states_def def_transitions_def)

lemma consistent_key_unique:
  "consistent_definition d \<Longrightarrow> x \<in> set (wd_States d) \<Longrightarrow> y \<in> set (wd_States d) \<Longrightarrow> ws_Key x = ws_Key y \<Longrightarrow> x = y"
  by (auto simp: consistent_definition_def distinct_map inj_on_def)

lemma statesMap_Some: "statesMap d k = Some x \<Longrightarrow> x \<in> set (wd_States d) \<and> ws_Key x = k"
  by (auto simp: statesMap_def dest: map_of_SomeD)

lemma statesMap_None: "statesMap d k = None \<longleftrightarrow> k \<notin> ws_Key ` set (wd_States d)"
  by (force simp: statesMap_def map_of_eq_None_iff)

lemma statesMap_consistent:
  assumes "consistent_definition d" "x \<in> set (wd_States d)"
  shows "statesMap d (ws_Key x) = Some x"
proof -
  obtain y where y: "statesMap d (ws_Key x) = Some y"
    using statesMap_None [of d "ws_Key x"] assms(2) by auto
  then show ?thesis using statesMap_Some [OF y] consistent_key_unique [OF assms] by metis
qed

subsection \<open>The invariant\<close>

fun history_path :: "string \<Rightarrow> WorkflowTransitionHistory list \<Rightarrow> string \<Rightarrow> bool" where
  "history_path a [] b \<longleftrightarrow> a = b"
| "history_path a (h # hs) b \<longleftrightarrow> wh_FromState h = a \<and> history_path (wh_ToState h) hs b"

lemma history_path_snoc:
  "history_path a (hs @ [h]) b \<longleftrightarrow> history_path a hs (wh_FromState h) \<and> wh_ToState h = b"
  by (induction hs arbitrary: a) auto

definition history_of :: "WorkflowInstance \<Rightarrow> WorkflowTransitionHistory list \<Rightarrow> WorkflowTransitionHistory list" where
  "history_of i H = filter (\<lambda>h. wh_InstanceID h = wi_ID i) H"

definition takes :: "WorkflowTransition \<Rightarrow> WorkflowTransitionHistory \<Rightarrow> bool" where
  "takes t h \<longleftrightarrow> wt_Active t \<and> wt_Key t = wh_TransitionKey h \<and> FromState t = wh_FromState h \<and> ToState t = wh_ToState h"

definition terminal_key :: "WorkflowState list \<Rightarrow> string \<Rightarrow> bool" where
  "terminal_key states k \<longleftrightarrow> (\<exists>x \<in> set states. ws_Key x = k \<and> Terminal x)"

definition instance_ok :: "WorkflowDefinition \<Rightarrow> WorkflowState list \<Rightarrow> WorkflowTransition list
    \<Rightarrow> WorkflowTransitionHistory list \<Rightarrow> WorkflowInstance \<Rightarrow> bool" where
  "instance_ok d S T hs i \<longleftrightarrow>
     CurrentState i \<in> ws_Key ` set (def_states d S)
     \<and> history_path (InitialState d) hs (CurrentState i)
     \<and> (\<forall>h \<in> set hs. \<exists>t \<in> set (def_transitions d T). takes t h)
     \<and> (CompletedAt i \<noteq> None \<longleftrightarrow> hs \<noteq> [] \<and> terminal_key (def_states d S) (CurrentState i))
     \<and> wi_Version i = 1 + int (length hs) + (if CompletedAt i = None then 0 else 1)"

text \<open>An instance runs a definition of its tenant, which has been activated.\<close>

definition runs :: "WorkflowDefinition \<Rightarrow> WorkflowInstance \<Rightarrow> bool" where
  "runs d i \<longleftrightarrow> wd_ID d = wi_WorkflowDefID i \<and> wd_TenantID d = wi_TenantID i
     \<and> wd_Version d = wi_WorkflowDefVersion i \<and> wd_Status d \<noteq> WorkflowStatusDraft"

definition tables_ok :: "WorkflowDefinition list \<times> WorkflowState list \<times> WorkflowTransition list
    \<times> WorkflowInstance list \<times> WorkflowTransitionHistory list \<Rightarrow> bool" where
  "tables_ok = (\<lambda>(D, S, T, I, H).
     (\<forall>d \<in> set D. wd_States d = []) \<and> distinct (map wd_ID D)
     \<and> distinct (map wi_ID I) \<and> distinct (map wi_CaseID I)
     \<and> (\<forall>x \<in> set S. ws_WorkflowDefID x \<in> wd_ID ` set D)
     \<and> (\<forall>t \<in> set T. wt_WorkflowDefID t \<in> wd_ID ` set D)
     \<and> (\<forall>h \<in> set H. wh_InstanceID h \<in> wi_ID ` set I)
     \<and> (\<forall>d \<in> set D. graph_ok d S T)
     \<and> (\<forall>i \<in> set I. \<exists>d \<in> set D. runs d i \<and> instance_ok d S T (history_of i H) i))"

definition wf_ok :: "'s wf_db_scheme \<Rightarrow> bool" where
  "wf_ok s \<longleftrightarrow> tables_ok (wf_tables s)"

lemma tables_okI:
  assumes "\<And>d. d \<in> set D \<Longrightarrow> wd_States d = []" "distinct (map wd_ID D)"
    and "distinct (map wi_ID I)" "distinct (map wi_CaseID I)"
    and "\<And>x. x \<in> set S \<Longrightarrow> ws_WorkflowDefID x \<in> wd_ID ` set D"
    and "\<And>t. t \<in> set T \<Longrightarrow> wt_WorkflowDefID t \<in> wd_ID ` set D"
    and "\<And>h. h \<in> set H \<Longrightarrow> wh_InstanceID h \<in> wi_ID ` set I"
    and "\<And>d. d \<in> set D \<Longrightarrow> graph_ok d S T"
    and "\<And>i. i \<in> set I \<Longrightarrow> \<exists>d \<in> set D. runs d i \<and> instance_ok d S T (history_of i H) i"
  shows "tables_ok (D, S, T, I, H)"
  using assms by (simp add: tables_ok_def)

lemma tables_okD:
  assumes "tables_ok (D, S, T, I, H)"
  shows "d \<in> set D \<Longrightarrow> wd_States d = []" and "distinct (map wd_ID D)"
    and "distinct (map wi_ID I)" and "distinct (map wi_CaseID I)"
    and "x \<in> set S \<Longrightarrow> ws_WorkflowDefID x \<in> wd_ID ` set D"
    and "t \<in> set T \<Longrightarrow> wt_WorkflowDefID t \<in> wd_ID ` set D"
    and "h \<in> set H \<Longrightarrow> wh_InstanceID h \<in> wi_ID ` set I"
    and "d \<in> set D \<Longrightarrow> graph_ok d S T"
    and "i \<in> set I \<Longrightarrow> \<exists>d \<in> set D. runs d i \<and> instance_ok d S T (history_of i H) i"
  using assms by (simp_all add: tables_ok_def)

subsection \<open>The changes the operations make\<close>

text \<open>Definition rows may change in their status (never back to DRAFT) and their update time.\<close>

lemma tables_ok_map:
  assumes "tables_ok (D, S, T, I, H)"
    and f: "\<And>d. wd_ID (f d) = wd_ID d" "\<And>d. wd_TenantID (f d) = wd_TenantID d"
      "\<And>d. wd_Version (f d) = wd_Version d" "\<And>d. wd_States (f d) = wd_States d"
      "\<And>d. InitialState (f d) = InitialState d"
      "\<And>d. wd_Status d \<noteq> WorkflowStatusDraft \<Longrightarrow> wd_Status (f d) \<noteq> WorkflowStatusDraft"
  shows "tables_ok (map f D, S, T, I, H)"
proof -
  have defs: "def_states (f d) S = def_states d S" "def_transitions (f d) T = def_transitions d T" for d
    by (simp_all add: def_states_def def_transitions_def f)
  have g: "graph_ok (f d) S T \<longleftrightarrow> graph_ok d S T" for d
    unfolding graph_ok_def by (rule consistent_cong) (simp_all add: f defs)
  have i: "instance_ok (f d) S T hs i \<longleftrightarrow> instance_ok d S T hs i" "runs d i \<Longrightarrow> runs (f d) i" for d hs i
    by (simp_all add: instance_ok_def runs_def f defs)
  show ?thesis
  proof (rule tables_okI)
    fix k assume "k \<in> set I"
    then obtain d where "d \<in> set D" "runs d k" "instance_ok d S T (history_of k H) k"
      using tables_okD(9) [OF assms(1)] by blast
    then show "\<exists>d \<in> set (map f D). runs d k \<and> instance_ok d S T (history_of k H) k"
      using i by (intro bexI [of _ "f d"]) auto
  qed (use tables_okD [OF assms(1)] in \<open>auto simp: image_image f g o_def\<close>)
qed

lemma tables_ok_status:
  assumes "tables_ok (D, S, T, I, H)" "st \<noteq> WorkflowStatusDraft"
  shows "tables_ok (update_where p (\<lambda>d. d\<lparr>wd_Status := st, wd_UpdatedAt := n\<rparr>) D, S, T, I, H)"
  unfolding update_where_def using assms by (intro tables_ok_map) auto

lemma def_states_other:
  "\<forall>x \<in> set S'. ws_WorkflowDefID x \<noteq> wd_ID d \<Longrightarrow> def_states d (S @ S') = def_states d S"
  by (auto simp: def_states_def filter_empty_conv)

lemma def_transitions_other:
  "\<forall>t \<in> set T'. wt_WorkflowDefID t \<noteq> wd_ID d \<Longrightarrow> def_transitions d (T @ T') = def_transitions d T"
  by (auto simp: def_transitions_def filter_empty_conv)

text \<open>A new definition with its states and transitions.\<close>

lemma tables_ok_create:
  assumes ok: "tables_ok (D, S, T, I, H)" and new: "wd_ID d0 \<notin> wd_ID ` set D" "wd_States d0 = []"
    and S': "\<forall>x \<in> set S'. ws_WorkflowDefID x = wd_ID d0 \<and> ws_TenantID x = wd_TenantID d0"
    and T': "\<forall>t \<in> set T'. wt_WorkflowDefID t = wd_ID d0 \<and> wt_TenantID t = wd_TenantID d0"
    and c: "consistent_definition (d0\<lparr>wd_States := S', wd_Transitions := T'\<rparr>)"
  shows "tables_ok (D @ [d0], S @ S', T @ T', I, H)"
proof -
  have old: "def_states d (S @ S') = def_states d S" "def_transitions d (T @ T') = def_transitions d T"
    if "d \<in> set D" for d
    using that new(1) S' T' by (auto intro!: def_states_other def_transitions_other)
  have "\<forall>x \<in> set S. ws_WorkflowDefID x \<noteq> wd_ID d0" "\<forall>t \<in> set T. wt_WorkflowDefID t \<noteq> wd_ID d0"
    using tables_okD(5,6) [OF ok] new(1) by metis+
  then have "def_states d0 (S @ S') = S'" "def_transitions d0 (T @ T') = T'"
    using S' T' by (auto simp: def_states_def def_transitions_def filter_empty_conv filter_id_conv)
  then have g: "graph_ok d0 (S @ S') (T @ T')" using c by (simp add: graph_ok_def)
  have o: "graph_ok d (S @ S') (T @ T') \<longleftrightarrow> graph_ok d S T"
    "instance_ok d (S @ S') (T @ T') hs i \<longleftrightarrow> instance_ok d S T hs i" if "d \<in> set D" for d hs i
    by (simp_all add: graph_ok_def instance_ok_def old [OF that])
  show ?thesis
  proof (rule tables_okI)
    fix k assume "k \<in> set I"
    then show "\<exists>d \<in> set (D @ [d0]). runs d k \<and> instance_ok d (S @ S') (T @ T') (history_of k H) k"
      using tables_okD(9) [OF ok] o(2) by fastforce
  qed (use tables_okD(1-8) [OF ok] new S' T' g o(1) in auto)
qed

text \<open>Deleting a definition no instance refers to.\<close>

lemma tables_ok_delete:
  assumes ok: "tables_ok (D, S, T, I, H)" and d: "d \<in> set D" "wd_ID d = i" "wd_TenantID d = tn"
    and free: "i \<notin> wi_WorkflowDefID ` set I"
  shows "tables_ok (filter (\<lambda>d. \<not> (wd_TenantID d = tn \<and> wd_ID d = i)) D, filter (\<lambda>x. ws_WorkflowDefID x \<noteq> i) S,
    filter (\<lambda>t. wt_WorkflowDefID t \<noteq> i) T, I, H)"
proof -
  have "d' = d" if "d' \<in> set D" "wd_ID d' = i" for d'
    using by_distinct_key [OF tables_okD(2) [OF ok], of d' d] d that by simp
  then have D: "filter (\<lambda>d. \<not> (wd_TenantID d = tn \<and> wd_ID d = i)) D = filter (\<lambda>d. wd_ID d \<noteq> i) D"
    using d by (intro filter_cong refl) metis
  have old: "def_states d (filter (\<lambda>x. ws_WorkflowDefID x \<noteq> i) S) = def_states d S"
    "def_transitions d (filter (\<lambda>t. wt_WorkflowDefID t \<noteq> i) T) = def_transitions d T" if "wd_ID d \<noteq> i" for d
    using that by (auto simp: def_states_def def_transitions_def intro!: filter_cong)
  have o: "graph_ok d (filter (\<lambda>x. ws_WorkflowDefID x \<noteq> i) S) (filter (\<lambda>t. wt_WorkflowDefID t \<noteq> i) T) \<longleftrightarrow> graph_ok d S T"
    "instance_ok d (filter (\<lambda>x. ws_WorkflowDefID x \<noteq> i) S) (filter (\<lambda>t. wt_WorkflowDefID t \<noteq> i) T) hs k
       \<longleftrightarrow> instance_ok d S T hs k" if "wd_ID d \<noteq> i" for d hs k
    by (simp_all add: graph_ok_def instance_ok_def old [OF that])
  show ?thesis unfolding D
  proof (rule tables_okI)
    fix k assume k: "k \<in> set I"
    then obtain e where e: "e \<in> set D" "runs e k" "instance_ok e S T (history_of k H) k"
      using tables_okD(9) [OF ok] by blast
    then have "wd_ID e \<noteq> i" using free k by (auto simp: runs_def)
    then show "\<exists>d \<in> set (filter (\<lambda>d. wd_ID d \<noteq> i) D). runs d k
        \<and> instance_ok d (filter (\<lambda>x. ws_WorkflowDefID x \<noteq> i) S) (filter (\<lambda>t. wt_WorkflowDefID t \<noteq> i) T) (history_of k H) k"
      using e o(2) by auto
  next
    fix x assume "x \<in> set (filter (\<lambda>x. ws_WorkflowDefID x \<noteq> i) S)"
    then show "ws_WorkflowDefID x \<in> wd_ID ` set (filter (\<lambda>d. wd_ID d \<noteq> i) D)"
      using tables_okD(5) [OF ok, of x] by auto
  next
    fix t assume "t \<in> set (filter (\<lambda>t. wt_WorkflowDefID t \<noteq> i) T)"
    then show "wt_WorkflowDefID t \<in> wd_ID ` set (filter (\<lambda>d. wd_ID d \<noteq> i) D)"
      using tables_okD(6) [OF ok, of t] by auto
  qed (use tables_okD(1-4,7,8) [OF ok] o(1) in \<open>simp_all add: distinct_map_filter\<close>)
qed

text \<open>A new instance starts in the initial state, without history.\<close>

lemma tables_ok_instance:
  assumes ok: "tables_ok (D, S, T, I, H)" and d: "d \<in> set D" "runs d i"
    and new: "wi_ID i \<notin> wi_ID ` set I" "wi_CaseID i \<notin> wi_CaseID ` set I"
    and start: "CurrentState i = InitialState d" "CompletedAt i = None" "wi_Version i = 1"
  shows "tables_ok (D, S, T, I @ [i], H)"
proof -
  have "\<forall>h \<in> set H. wh_InstanceID h \<noteq> wi_ID i" using tables_okD(7) [OF ok] new(1) by metis
  then have none: "history_of i H = []" by (simp add: history_of_def filter_empty_conv)
  have "InitialState d \<in> ws_Key ` set (def_states d S)"
    using tables_okD(8) [OF ok d(1)] by (simp add: graph_ok_def consistent_definition_def)
  then have i: "instance_ok d S T (history_of i H) i" using start none by (simp add: instance_ok_def)
  show ?thesis
    by (rule tables_okI) (use tables_okD [OF ok] new d i in auto)
qed

text \<open>The moved instance, and the history row that records the move.\<close>

definition moved :: "WorkflowTransition \<Rightarrow> bool \<Rightarrow> instant \<Rightarrow> WorkflowInstance \<Rightarrow> WorkflowInstance" where
  "moved t final n x = x\<lparr>CurrentState := ToState t, CompletedAt := (if final then Some n else CompletedAt x),
     wi_Version := wi_Version x + (if final then 2 else 1)\<rparr>"

lemma moved_simps [simp]:
  "wi_ID (moved t final n x) = wi_ID x" "wi_TenantID (moved t final n x) = wi_TenantID x"
  "wi_CaseID (moved t final n x) = wi_CaseID x" "wi_WorkflowDefID (moved t final n x) = wi_WorkflowDefID x"
  "wi_WorkflowDefVersion (moved t final n x) = wi_WorkflowDefVersion x"
  "CurrentState (moved t final n x) = ToState t"
  "CompletedAt (moved t final n x) = (if final then Some n else CompletedAt x)"
  "wi_Version (moved t final n x) = wi_Version x + (if final then 2 else 1)"
  by (simp_all add: moved_def)

lemma terminal_key_state:
  assumes "graph_ok d S T" "x \<in> set (def_states d S)"
  shows "terminal_key (def_states d S) (ws_Key x) \<longleftrightarrow> Terminal x"
  using assms consistent_key_unique [of "d\<lparr>wd_States := def_states d S, wd_Transitions := def_transitions d T\<rparr>" _ x]
  by (auto simp: terminal_key_def graph_ok_def)

lemma moved_instance_ok:
  assumes g: "graph_ok d S T" and ok: "instance_ok d S T hs i"
    and t: "t \<in> set (def_transitions d T)" "takes t h" "wh_FromState h = CurrentState i"
    and live: "\<not> terminal_key (def_states d S) (CurrentState i)"
    and x: "x \<in> set (def_states d S)" "ws_Key x = ToState t"
  shows "instance_ok d S T (hs @ [h]) (moved t (Terminal x) n i)"
proof -
  have "CompletedAt i = None" using ok live by (auto simp: instance_ok_def)
  moreover have "terminal_key (def_states d S) (ToState t) \<longleftrightarrow> Terminal x"
    using terminal_key_state [OF g x(1)] x(2) by simp
  ultimately show ?thesis
    using ok t x by (force simp: instance_ok_def history_path_snoc takes_def)
qed

lemma tables_ok_move:
  assumes ok: "tables_ok (D, S, T, I, H)" and d: "d \<in> set D" "runs d i" and i: "i \<in> set I"
    and t: "t \<in> set (def_transitions d T)" "takes t h" "wh_FromState h = CurrentState i" "wh_InstanceID h = wi_ID i"
    and live: "\<not> terminal_key (def_states d S) (CurrentState i)"
    and x: "x \<in> set (def_states d S)" "ws_Key x = ToState t"
  shows "tables_ok (D, S, T, map (\<lambda>y. if y = i then moved t (Terminal x) n y else y) I, H @ [h])"
    (is "tables_ok (D, S, T, map ?f I, _)")
proof (rule tables_okI)
  have keys: "wi_ID (?f y) = wi_ID y" "wi_CaseID (?f y) = wi_CaseID y" for y by simp_all
  show "distinct (map wi_ID (map ?f I))" "distinct (map wi_CaseID (map ?f I))"
    using tables_okD(3,4) [OF ok] by (simp_all add: o_def keys del: if_image_distrib)
  have ids: "wi_ID ` set (map ?f I) = wi_ID ` set I"
    using keys by (metis (no_types, lifting) list.set_map map_map comp_apply map_ext)
  fix h' assume "h' \<in> set (H @ [h])"
  then show "wh_InstanceID h' \<in> wi_ID ` set (map ?f I)"
    unfolding ids using tables_okD(7) [OF ok] t(4) i by auto
next
  fix y' assume "y' \<in> set (map ?f I)"
  then obtain y where y: "y \<in> set I" "y' = ?f y" by auto
  obtain e where e: "e \<in> set D" "runs e y" "instance_ok e S T (history_of y H) y"
    using tables_okD(9) [OF ok y(1)] by blast
  have r: "runs e y'" using e(2) y(2) by (simp add: runs_def)
  show "\<exists>d \<in> set D. runs d y' \<and> instance_ok d S T (history_of y' (H @ [h])) y'"
  proof (cases "y = i")
    case True
    have "wd_ID e = wd_ID d" using e(2) d(2) True by (simp add: runs_def)
    then have "e = d" using by_distinct_key [OF tables_okD(2) [OF ok] e(1) d(1)] by simp
    moreover have "history_of y' (H @ [h]) = history_of i H @ [h]"
      using y(2) True t(4) by (simp add: history_of_def)
    ultimately show ?thesis
      using moved_instance_ok [OF tables_okD(8) [OF ok d(1)] _ t(1-3) live x] e r y(2) True by auto
  next
    case False
    then have "wi_ID y \<noteq> wi_ID i" using by_distinct_key [OF tables_okD(3) [OF ok] y(1) i] by auto
    then have "history_of y' (H @ [h]) = history_of y H" using y(2) False t(4) by (simp add: history_of_def)
    then show ?thesis using e r y(2) False by auto
  qed
qed (use tables_okD [OF ok] in auto)

end
