(* ===== verification/Workflow_Runs.thy ===== *)
theory Workflow_Runs
  imports Workflow_Invariants
begin

section \<open>Runs of the workflow service\<close>

text \<open>
  When a transition can be planned, what a plan made on an earlier store is still worth, the
  preservation of the invariant by every operation, and the runs of the service as an
  inductive relation in which a transition may have been planned on any earlier store.
\<close>

subsection \<open>Planning\<close>

lemma query_row_only:
  assumes "r \<in> set rows" "p r" "\<And>r'. r' \<in> set rows \<Longrightarrow> p r' \<Longrightarrow> r' = r"
  shows "query_row msg (filter p rows) = Inr r"
proof -
  have "filter p rows \<noteq> []" using assms(1,2) by (auto simp: filter_empty_conv)
  then obtain r' rest where e: "filter p rows = r' # rest" by (cases "filter p rows") auto
  then have "r' \<in> set (filter p rows)" by simp
  then have "r' = r" using assms(3) by simp
  then show ?thesis using e by (simp add: query_row_Inr)
qed

lemma def_FindByID_only:
  assumes "wf_ok s" "d \<in> set (workflow_definitions s)"
  shows "def_FindByID (wd_TenantID d) (wd_ID d) s = Inr d"
  unfolding def_FindByID_def scan_def_def
  by (rule query_row_only)
    (use assms by_distinct_key [OF tables_okD(2)] in \<open>auto simp: wf_ok_def wf_tables_def\<close>)

lemma instance_FindByID_only:
  assumes "wf_ok s" "i \<in> set (workflow_instances s)"
  shows "instance_FindByID (wi_TenantID i) (wi_ID i) s = Inr i"
  unfolding instance_FindByID_def scan_instance_def
  by (rule query_row_only)
    (use assms by_distinct_key [OF tables_okD(3)] in \<open>auto simp: wf_ok_def wf_tables_def\<close>)

text \<open>What makes a transition possible, read off the tables.\<close>

definition enabled :: "'s wf_db_scheme \<Rightarrow> ExecuteTransitionParams \<Rightarrow> WorkflowInstance \<Rightarrow> WorkflowDefinition
    \<Rightarrow> WorkflowTransition \<Rightarrow> WorkflowState \<Rightarrow> bool" where
  "enabled s params i d t x \<longleftrightarrow>
     i \<in> set (workflow_instances s) \<and> wi_ID i = etp_InstanceID params \<and> wi_TenantID i = etp_TenantID params
     \<and> d \<in> set (workflow_definitions s) \<and> runs d i
     \<and> \<not> terminal_key (def_states d (workflow_states s)) (CurrentState i)
     \<and> t \<in> set (def_transitions d (workflow_transitions s)) \<and> wt_Active t
     \<and> FromState t = CurrentState i \<and> wt_Key t = etp_TransitionKey params \<and> role_allowed t (etp_ActorRole params)
     \<and> x \<in> set (def_states d (workflow_states s)) \<and> ws_Key x = ToState t"

lemma plan_transition_enabled:
  assumes ok: "wf_ok s" and plan: "plan_transition s params = Inr (i, def, t, x)"
  obtains d where "enabled s params i d t x" "def = with_graph (etp_TenantID params) s d"
proof -
  note tables = ok [unfolded wf_ok_def wf_tables_def]
  obtain d y where i: "instance_FindByID (etp_TenantID params) (etp_InstanceID params) s = Inr i"
    and d: "def_FindByID (etp_TenantID params) (wi_WorkflowDefID i) s = Inr d"
    and def: "def = with_graph (etp_TenantID params) s d"
    and y: "statesMap def (CurrentState i) = Some y" "\<not> Terminal y"
    and t: "List.find (\<lambda>t. FromState t = CurrentState i \<and> wt_Key t = etp_TransitionKey params \<and> wt_Active t)
              (wd_Transitions def) = Some t"
    and r: "role_allowed t (etp_ActorRole params)" and x: "statesMap def (ToState t) = Some x"
    using plan by (auto simp: plan_transition_def Let_def split: sum.splits option.splits if_splits)
  note i' = instance_FindByID_Inr [OF i] and d' = def_FindByID_Inr [OF d]
  obtain e where e: "e \<in> set (workflow_definitions s)" "runs e i"
    using tables_okD(9) [OF tables] i' by blast
  then have "e = d" using by_distinct_key [OF tables_okD(2) [OF tables], of e d] d' by (simp add: runs_def)
  with e have runs: "runs d i" by simp
  note rows = with_graph_rows [of d s, folded def] d'
  have g: "graph_ok d (workflow_states s) (workflow_transitions s)" using tables_okD(8) [OF tables] d' by blast
  have "y \<in> set (def_states d (workflow_states s))" "ws_Key y = CurrentState i"
    and x': "x \<in> set (def_states d (workflow_states s))" "ws_Key x = ToState t"
    using statesMap_Some [OF y(1)] statesMap_Some [OF x] with_graph_rows(1) [of d s] d' def by auto
  then have "\<not> terminal_key (def_states d (workflow_states s)) (CurrentState i)"
    using terminal_key_state [OF g] y(2) by metis
  moreover have "t \<in> set (def_transitions d (workflow_transitions s))" "wt_Active t"
    "FromState t = CurrentState i" "wt_Key t = etp_TransitionKey params"
    using t with_graph_rows(2) [of d s] d' def find_Some_mem [OF t] by auto
  ultimately have "enabled s params i d t x" using i' d' runs r x' by (simp add: enabled_def)
  then show ?thesis using def that by blast
qed

lemma enabled_plan_transition:
  assumes ok: "wf_ok s" and en: "enabled s params i d t x"
  shows "plan_transition s params = Inr (i, with_graph (etp_TenantID params) s d, t, x)"
proof -
  note tables = ok [unfolded wf_ok_def wf_tables_def] and e = en [unfolded enabled_def runs_def]
  let ?def = "with_graph (etp_TenantID params) s d"
  have tn: "wd_TenantID d = etp_TenantID params" using e by simp
  note rows = with_graph_rows [of d s, unfolded tn]
  have g: "graph_ok d (workflow_states s) (workflow_transitions s)" using tables_okD(8) [OF tables] e by blast
  then have c: "consistent_definition ?def" using with_graph_consistent [of d s] tn by simp
  have look: "instance_FindByID (etp_TenantID params) (etp_InstanceID params) s = Inr i"
    "def_FindByID (etp_TenantID params) (wi_WorkflowDefID i) s = Inr d"
    using instance_FindByID_only [OF ok, of i] def_FindByID_only [OF ok, of d] e by simp_all
  obtain k where k: "k \<in> set (def_states d (workflow_states s))" "ws_Key k = CurrentState i"
  proof -
    have "\<forall>t \<in> set (def_transitions d (workflow_transitions s)). FromState t \<in> ws_Key ` set (def_states d (workflow_states s))"
      using g by (simp add: graph_ok_def consistent_definition_def)
    then have "FromState t \<in> ws_Key ` set (def_states d (workflow_states s))" using e by blast
    then show ?thesis using that e by auto
  qed
  then have "\<not> Terminal k" using e terminal_key_state [OF g k(1)] by simp
  moreover have "statesMap ?def (CurrentState i) = Some k" "statesMap ?def (ToState t) = Some x"
    using statesMap_consistent [OF c, of k] statesMap_consistent [OF c, of x] k e rows by auto
  moreover have "List.find (\<lambda>t. FromState t = CurrentState i \<and> wt_Key t = etp_TransitionKey params \<and> wt_Active t)
      (wd_Transitions ?def) = Some t" (is "List.find ?p _ = _")
  proof -
    have u: "t' = t" if "t' \<in> set (wd_Transitions ?def)" "?p t'" for t'
      using by_distinct_key [of wt_Key "wd_Transitions ?def" t' t] that c e rows
      by (auto simp: consistent_definition_def)
    have "t \<in> set (wd_Transitions ?def)" "?p t" using e rows by auto
    then show ?thesis using u by (rule find_only)
  qed
  moreover have "role_allowed t (etp_ActorRole params)" using e by simp
  ultimately show ?thesis by (simp add: plan_transition_def Let_def look tn)
qed

subsection \<open>Between two moments of a run\<close>

text \<open>
  Instances stay, with their version growing at every change; a definition that has left
  DRAFT stays, with its graph, changing only its status and update time.
\<close>

definition same_instance :: "WorkflowInstance \<Rightarrow> WorkflowInstance \<Rightarrow> bool" where
  "same_instance x y \<longleftrightarrow> wi_ID y = wi_ID x \<and> wi_Version x \<le> wi_Version y
     \<and> (wi_Version x = wi_Version y \<longrightarrow> y = x)"

definition same_definition :: "'s wf_db_scheme \<Rightarrow> 's wf_db_scheme \<Rightarrow> WorkflowDefinition \<Rightarrow> WorkflowDefinition \<Rightarrow> bool" where
  "same_definition s s' d d' \<longleftrightarrow> wd_Status d' \<noteq> WorkflowStatusDraft
     \<and> d' = d\<lparr>wd_Status := wd_Status d', wd_UpdatedAt := wd_UpdatedAt d'\<rparr>
     \<and> def_states d' (workflow_states s') = def_states d (workflow_states s)
     \<and> def_transitions d' (workflow_transitions s') = def_transitions d (workflow_transitions s)"

definition wf_evolves :: "'s wf_db_scheme \<Rightarrow> 's wf_db_scheme \<Rightarrow> bool" where
  "wf_evolves s s' \<longleftrightarrow>
     (\<forall>x \<in> set (workflow_instances s). \<exists>y \<in> set (workflow_instances s'). same_instance x y)
     \<and> (\<forall>d \<in> set (workflow_definitions s). wd_Status d \<noteq> WorkflowStatusDraft \<longrightarrow>
          (\<exists>d' \<in> set (workflow_definitions s'). same_definition s s' d d'))"

lemma same_instance_trans: "same_instance x y \<Longrightarrow> same_instance y z \<Longrightarrow> same_instance x z"
  by (auto simp: same_instance_def)

lemma same_definition_keys:
  assumes "same_definition s s' d d'"
  shows "wd_ID d' = wd_ID d" "wd_TenantID d' = wd_TenantID d" "wd_Version d' = wd_Version d"
    "InitialState d' = InitialState d" "wd_Key d' = wd_Key d"
proof -
  obtain st n where "d' = d\<lparr>wd_Status := st, wd_UpdatedAt := n\<rparr>"
    using assms unfolding same_definition_def by blast
  then show "wd_ID d' = wd_ID d" "wd_TenantID d' = wd_TenantID d" "wd_Version d' = wd_Version d"
    "InitialState d' = InitialState d" "wd_Key d' = wd_Key d" by simp_all
qed

lemma same_definition_trans:
  assumes "same_definition s s' d d'" "same_definition s' s'' d' d''"
  shows "same_definition s s'' d d''"
proof -
  have "d'' = d\<lparr>wd_Status := wd_Status d', wd_UpdatedAt := wd_UpdatedAt d'\<rparr>
      \<lparr>wd_Status := wd_Status d'', wd_UpdatedAt := wd_UpdatedAt d''\<rparr>"
    using assms unfolding same_definition_def by metis
  then have "d'' = d\<lparr>wd_Status := wd_Status d'', wd_UpdatedAt := wd_UpdatedAt d''\<rparr>" by simp
  then show ?thesis using assms unfolding same_definition_def by metis
qed

interpretation evolution: tx_frame wf_evolves
proof unfold_locales
  show "wf_evolves s s" for s :: "'s wf_db_scheme"
    by (auto simp: wf_evolves_def same_instance_def same_definition_def)
  show "wf_evolves s1 s3" if ev: "wf_evolves s1 s2" "wf_evolves s2 s3" for s1 s2 s3 :: "'s wf_db_scheme"
    unfolding wf_evolves_def
  proof (intro conjI ballI impI)
    fix x assume "x \<in> set (workflow_instances s1)"
    then obtain y where y: "y \<in> set (workflow_instances s2)" "same_instance x y"
      using ev(1) unfolding wf_evolves_def by blast
    then obtain z where "z \<in> set (workflow_instances s3)" "same_instance y z"
      using ev(2) unfolding wf_evolves_def by blast
    then show "\<exists>z \<in> set (workflow_instances s3). same_instance x z"
      using same_instance_trans [OF y(2)] by blast
  next
    fix d assume "d \<in> set (workflow_definitions s1)" "wd_Status d \<noteq> WorkflowStatusDraft"
    then obtain d' where d': "d' \<in> set (workflow_definitions s2)" "same_definition s1 s2 d d'"
      using ev(1) unfolding wf_evolves_def by blast
    moreover have "wd_Status d' \<noteq> WorkflowStatusDraft" using d'(2) by (simp add: same_definition_def)
    ultimately show "\<exists>d'' \<in> set (workflow_definitions s3). same_definition s1 s3 d d''"
      using ev(2) same_definition_trans [OF d'(2)] unfolding wf_evolves_def by blast
  qed
qed

lemma evolves_same_tables: "wf_tables s = wf_tables s' \<Longrightarrow> wf_evolves s s'"
  using evolution.refl [of s]
  by (simp add: wf_evolves_def wf_tables_def same_definition_def)

text \<open>
  Optimistic locking at work: an instance that still has the version that was read is the
  instance that was read, and what was planned for it can still be planned.
\<close>

lemma stale_enabled:
  assumes ok: "wf_ok s0" "wf_ok s" and ev: "wf_evolves s0 s" and en: "enabled s0 params i d t x"
    and v: "\<exists>y \<in> set (workflow_instances s). at_version (etp_TenantID params) (wi_ID i) (wi_Version i) y"
  obtains d' where "enabled s params i d' t x" "same_definition s0 s d d'"
proof -
  note e = en [unfolded enabled_def]
  note D = tables_okD [OF ok(2) [unfolded wf_ok_def wf_tables_def]]
  obtain y where y: "y \<in> set (workflow_instances s)" "wi_ID y = wi_ID i" "wi_Version y = wi_Version i"
    using v by (auto simp: at_version_def)
  have old: "i \<in> set (workflow_instances s0)" "d \<in> set (workflow_definitions s0)" "wd_Status d \<noteq> WorkflowStatusDraft"
    using e by (simp_all add: runs_def)
  obtain z where z: "z \<in> set (workflow_instances s)" "same_instance i z"
    using ev old(1) unfolding wf_evolves_def by blast
  have "z = y" using by_distinct_key [OF D(3) z(1) y(1)] z(2) y(2) by (simp add: same_instance_def)
  then have i: "i \<in> set (workflow_instances s)" using y z by (simp add: same_instance_def)
  obtain d' where d': "d' \<in> set (workflow_definitions s)" "same_definition s0 s d d'"
    using ev old(2,3) unfolding wf_evolves_def by blast
  have "runs d' i"
    using d'(2) e same_definition_keys [OF d'(2)] by (simp add: runs_def same_definition_def)
  then have "enabled s params i d' t x"
    using e i d' by (simp add: enabled_def same_definition_def)
  then show ?thesis using that d'(2) by blast
qed

subsection \<open>Every operation keeps the invariant\<close>

text \<open>The update of a definition validates a definition without states: it always fails.\<close>

lemma no_states_invalid: "wd_States def = [] \<Longrightarrow> ValidateWorkflowDefinition def \<noteq> []"
  by (simp add: ValidateWorkflowDefinition_def basic_errors_def)

lemma UpdateWorkflowDefinition_fails:
  assumes "wf_ok s"
  shows "\<exists>e. UpdateWorkflowDefinition auditor c params s = (Inl e, s)"
proof -
  have "UpdateWorkflowDefinition auditor c params s \<noteq> (Inr def', s')" for def' s'
  proof
    assume "UpdateWorkflowDefinition auditor c params s = (Inr def', s')"
    then obtain d where d: "def_FindByID (uwp_TenantID params) (uwp_ID params) s = Inr d"
      and v: "ValidateWorkflowDefinition (updated_definition c params d) = []"
      by (auto simp: UpdateWorkflowDefinition_def tx_Inr load_definition_Inr Let_def)
    have "wd_States d = []"
      using def_FindByID_Inr [OF d] tables_okD(1) [OF assms [unfolded wf_ok_def wf_tables_def]] by blast
    then show False using v no_states_invalid [of "updated_definition c params d"]
      by (simp add: updated_definition_def)
  qed
  then obtain e s' where "UpdateWorkflowDefinition auditor c params s = (Inl e, s')"
    by (metis sum.exhaust_sel surj_pair sumE)
  moreover then have "s' = s" unfolding UpdateWorkflowDefinition_def by (rule InTransaction_Inl)
  ultimately show ?thesis by blast
qed

lemma def_row_keys [simp]: "wd_ID (def_row d) = wd_ID d" "wd_TenantID (def_row d) = wd_TenantID d"
  "wd_States (def_row d) = []" "InitialState (def_row d) = InitialState d" "wd_Status (def_row d) = wd_Status d"
  "wd_Key (def_row d) = wd_Key d" "wd_Version (def_row d) = wd_Version d"
  by (simp_all add: def_row_def)

lemma adopted_owner:
  "x \<in> set (adopt_states c k def xs) \<Longrightarrow> ws_WorkflowDefID x = wd_ID def \<and> ws_TenantID x = wd_TenantID def"
  "t \<in> set (adopt_transitions c k def ts) \<Longrightarrow> wt_WorkflowDefID t = wd_ID def \<and> wt_TenantID t = wd_TenantID def"
  by (induction xs arbitrary: k; auto) (induction ts arbitrary: k; auto)

lemma row_owner [simp]:
  "ws_WorkflowDefID (state_row x) = ws_WorkflowDefID x" "ws_TenantID (state_row x) = ws_TenantID x"
  "wt_WorkflowDefID (transition_row t) = wt_WorkflowDefID t" "wt_TenantID (transition_row t) = wt_TenantID t"
  by (simp_all add: state_row_def transition_row_def)

lemma wf_ok_tables: "wf_ok s \<longleftrightarrow> tables_ok (workflow_definitions s, workflow_states s, workflow_transitions s,
    workflow_instances s, workflow_history s)"
  by (simp add: wf_ok_def wf_tables_def)

text \<open>Two forms in which the definitions and their graphs survive.\<close>

lemma evolvesI:
  assumes "\<And>x. x \<in> set (workflow_instances s) \<Longrightarrow> \<exists>y \<in> set (workflow_instances s'). same_instance x y"
    and "\<And>d. d \<in> set (workflow_definitions s) \<Longrightarrow> wd_Status d \<noteq> WorkflowStatusDraft
           \<Longrightarrow> \<exists>d' \<in> set (workflow_definitions s'). same_definition s s' d d'"
  shows "wf_evolves s s'"
  using assms by (simp add: wf_evolves_def)

lemma same_instance_refl [simp]: "same_instance x x"
  by (simp add: same_instance_def)

lemma same_instance_in: "x \<in> set xs \<Longrightarrow> \<exists>y \<in> set xs. same_instance x y"
  by (rule bexI) simp_all

lemma evolves_status:
  assumes t: "wf_tables s' = (update_where p (\<lambda>d. d\<lparr>wd_Status := st, wd_UpdatedAt := n\<rparr>) (workflow_definitions s),
       workflow_states s, workflow_transitions s, workflow_instances s, workflow_history s)"
    and st: "st \<noteq> WorkflowStatusDraft"
  shows "wf_evolves s s'"
proof (rule evolvesI)
  fix d assume d: "d \<in> set (workflow_definitions s)" "wd_Status d \<noteq> WorkflowStatusDraft"
  let ?d = "if p d then d\<lparr>wd_Status := st, wd_UpdatedAt := n\<rparr> else d"
  have "?d \<in> set (workflow_definitions s')"
    using t d(1) by (auto simp: wf_tables_eq update_where_def)
  moreover have "same_definition s s' d ?d"
    using t d(2) st by (auto simp: same_definition_def wf_tables_eq def_states_def def_transitions_def)
  ultimately show "\<exists>d' \<in> set (workflow_definitions s'). same_definition s s' d d'" by blast
qed (use t in \<open>auto simp: wf_tables_eq intro: same_instance_in\<close>)

context wf_environment
begin

lemma create_keeps:
  assumes ok: "wf_ok s" and run: "CreateWorkflowDefinition auditor c params s = (Inr def, s')"
  shows "wf_ok s' \<and> wf_evolves s s'"
proof -
  let ?d = "new_definition c params"
  note e = CreateWorkflowDefinition_Inr [OF run]
  note t = e(5) and ok' = ok [unfolded wf_ok_tables]
  define S where "S = map state_row (adopt_states c (Suc 0) ?d (cwp_States params))"
  define T where "T = map transition_row (adopt_transitions c
    (Suc (length (adopt_states c (Suc 0) ?d (cwp_States params)))) ?d (cwp_Transitions params))"
  note t = e(5) [folded S_def T_def]
  have own: "\<forall>x \<in> set S. ws_WorkflowDefID x = wd_ID (def_row ?d) \<and> ws_TenantID x = wd_TenantID (def_row ?d)"
    "\<forall>t \<in> set T. wt_WorkflowDefID t = wd_ID (def_row ?d) \<and> wt_TenantID t = wd_TenantID (def_row ?d)"
    by (auto simp: S_def T_def dest: adopted_owner)
  have views: "map state_view S = map state_view (wd_States ?d)"
    "map transition_view T = map transition_view (wd_Transitions ?d)"
    by (simp_all add: S_def T_def o_def adopted_views new_definition_def)
  have "consistent_definition ((def_row ?d)\<lparr>wd_States := S, wd_Transitions := T\<rparr>) \<longleftrightarrow> consistent_definition ?d"
    by (rule consistent_cong) (simp_all add: views del: mset_map)
  then have "tables_ok (wf_tables s')"
    unfolding t using e(1) e(4) own validated_consistent by (intro tables_ok_create [OF ok']) auto
  moreover have "wf_evolves s s'"
  proof (rule evolvesI)
    fix d assume d: "d \<in> set (workflow_definitions s)" "wd_Status d \<noteq> WorkflowStatusDraft"
    then have "wd_ID d \<noteq> wd_ID ?d" using e(4) by (metis imageI)
    then have "same_definition s s' d d"
      using t d(2) own by (auto simp: same_definition_def wf_tables_eq def_states_other def_transitions_other)
    then show "\<exists>d' \<in> set (workflow_definitions s'). same_definition s s' d d'"
      using t d(1) by (auto simp: wf_tables_eq)
  qed (use t in \<open>auto simp: wf_tables_eq intro: same_instance_in\<close>)
  ultimately show ?thesis by (simp add: wf_ok_def)
qed

lemma activate_keeps:
  assumes ok: "wf_ok s" and run: "ActivateWorkflowDefinition auditor c tenantID i actorID s = (Inr u, s')"
  shows "wf_ok s' \<and> wf_evolves s s'"
  by (rule ActivateWorkflowDefinition_Inr [OF run])
    (use ok [unfolded wf_ok_tables] in \<open>auto simp: wf_ok_def intro: tables_ok_status elim!: evolves_status\<close>)

lemma archive_keeps:
  assumes ok: "wf_ok s" and run: "ArchiveWorkflowDefinition auditor c tenantID i actorID s = (Inr u, s')"
  shows "wf_ok s' \<and> wf_evolves s s'"
  by (rule ArchiveWorkflowDefinition_Inr [OF run])
    (use ok [unfolded wf_ok_tables] in \<open>auto simp: wf_ok_def intro: tables_ok_status elim!: evolves_status\<close>)

lemma delete_keeps:
  assumes ok: "wf_ok s" and run: "DeleteWorkflowDefinition auditor c tenantID i actorID s = (Inr u, s')"
  shows "wf_ok s' \<and> wf_evolves s s'"
proof (rule DeleteWorkflowDefinition_Inr [OF run])
  fix def
  assume d: "def_FindByID tenantID i s = Inr def" "wd_Status def = WorkflowStatusDraft"
    and free: "i \<notin> wi_WorkflowDefID ` set (workflow_instances s)"
    and t: "wf_tables s' = (filter (\<lambda>d. \<not> (wd_TenantID d = tenantID \<and> wd_ID d = i)) (workflow_definitions s),
       filter (\<lambda>x. ws_WorkflowDefID x \<noteq> i) (workflow_states s),
       filter (\<lambda>t. wt_WorkflowDefID t \<noteq> i) (workflow_transitions s), workflow_instances s, workflow_history s)"
  note ok' = ok [unfolded wf_ok_tables] and d' = def_FindByID_Inr [OF d(1)]
  have "wf_evolves s s'"
  proof (rule evolvesI)
    fix e assume e: "e \<in> set (workflow_definitions s)" "wd_Status e \<noteq> WorkflowStatusDraft"
    then have "wd_ID e \<noteq> i" using by_distinct_key [OF tables_okD(2) [OF ok'], of e def] d' d(2) by auto
    moreover from this have "same_definition s s' e e"
      using t e(2) by (auto simp: same_definition_def wf_tables_eq def_states_def def_transitions_def intro!: filter_cong)
    ultimately show "\<exists>d' \<in> set (workflow_definitions s'). same_definition s s' e d'"
      using t e(1) by (auto simp: wf_tables_eq)
  qed (use t in \<open>auto simp: wf_tables_eq intro: same_instance_in\<close>)
  moreover have "tables_ok (wf_tables s')" unfolding t by (rule tables_ok_delete [OF ok' _ _ _ free]) (use d' in auto)
  ultimately show "wf_ok s' \<and> wf_evolves s s'" by (simp add: wf_ok_def)
qed

lemma create_instance_keeps:
  assumes ok: "wf_ok s" and run: "createInstanceForCaseByDefID auditor c tenantID caseID defID actorID s = (Inr i, s')"
  shows "wf_ok s' \<and> wf_evolves s s'"
proof (rule createInstanceForCaseByDefID_Inr [OF run])
  fix d
  let ?i = "instance_row (new_instance c tenantID caseID d)"
  assume d: "def_FindByID tenantID defID s = Inr d" "wd_Status d = WorkflowStatusActive"
    and i: "i = (new_instance c tenantID caseID d)\<lparr>wi_Definition := Some d\<rparr>"
    and new: "wi_ID i \<notin> wi_ID ` set (workflow_instances s)" "caseID \<notin> wi_CaseID ` set (workflow_instances s)"
    and t: "wf_tables s' = (workflow_definitions s, workflow_states s, workflow_transitions s,
       workflow_instances s @ [?i], workflow_history s)"
  note d' = def_FindByID_Inr [OF d(1)]
  have "runs d ?i" using d' d(2) by (simp add: runs_def instance_row_def new_instance_def)
  then have "tables_ok (wf_tables s')"
    unfolding t using d' new i
    by (intro tables_ok_instance [OF ok [unfolded wf_ok_tables], of d]) (simp_all add: instance_row_def new_instance_def)
  moreover have "wf_evolves s s'"
    by (rule evolvesI) (use t in \<open>auto simp: wf_tables_eq same_definition_def intro!: bexI\<close>)
  ultimately show "wf_ok s' \<and> wf_evolves s s'" by (simp add: wf_ok_def)
qed

text \<open>A transition planned on \<open>s0\<close> and written on \<open>s\<close>: the exact effect.\<close>

lemma executeTransition_Inr:
  assumes ok: "wf_ok s0" "wf_ok s" and ev: "wf_evolves s0 s"
    and run: "executeTransition auditor observer c s0 outer params s = (Inr res, s')"
  obtains i d def t x where "plan_transition s0 params = Inr (i, def, t, x)" "res = moved_instance i def t"
    "enabled s params i d t x" "wh_ID (transition_history c params i t) \<notin> wh_ID ` set (workflow_history s)"
    "wf_tables s' = (workflow_definitions s, workflow_states s, workflow_transitions s,
       map (\<lambda>y. if y = i then moved t (Terminal x) (ctx_time c 1) y else y) (workflow_instances s),
       workflow_history s @ [history_row (transition_history c params i t)])"
proof -
  note ok' = ok(2) [unfolded wf_ok_tables]
  note ids = tables_okD(3) [OF ok']
  obtain i def t x where plan: "plan_transition s0 params = Inr (i, def, t, x)"
    and a: "apply_transition auditor observer c params i t x s = (Inr (), s')"
    and res: "res = moved_instance i def t"
    using run by (auto simp: executeTransition_def tx_Inr split: sum.splits prod.splits if_splits)
  note e = apply_transition_Inr [OF a ids]
  obtain d0 where "enabled s0 params i d0 t x"
    using plan_transition_enabled [OF ok(1) plan] by blast
  from stale_enabled [OF ok ev this e(1)] obtain d where en: "enabled s params i d t x" by blast
  then have i: "i \<in> set (workflow_instances s)" "wi_TenantID i = etp_TenantID params"
    by (simp_all add: enabled_def)
  have "at_version (etp_TenantID params) (wi_ID i) (wi_Version i) y \<longleftrightarrow> y = i"
    if "y \<in> set (workflow_instances s)" for y
    using i by_distinct_key [OF ids that i(1)] by (auto simp: at_version_def)
  then have "wf_tables s' = (workflow_definitions s, workflow_states s, workflow_transitions s,
       map (\<lambda>y. if y = i then moved t (Terminal x) (ctx_time c 1) y else y) (workflow_instances s),
       workflow_history s @ [history_row (transition_history c params i t)])"
    unfolding e(3) update_where_def by (auto simp: moved_def)
  then show ?thesis using that [OF plan res en e(2)] by blast
qed

lemma execute_keeps:
  assumes ok: "wf_ok s0" "wf_ok s" and ev: "wf_evolves s0 s"
    and run: "executeTransition auditor observer c s0 outer params s = (Inr res, s')"
  shows "wf_ok s' \<and> wf_evolves s s'"
proof (rule executeTransition_Inr [OF assms])
  fix i d def t x
  assume en: "enabled s params i d t x"
    and t: "wf_tables s' = (workflow_definitions s, workflow_states s, workflow_transitions s,
       map (\<lambda>y. if y = i then moved t (Terminal x) (ctx_time c 1) y else y) (workflow_instances s),
       workflow_history s @ [history_row (transition_history c params i t)])"
  let ?h = "history_row (transition_history c params i t)"
  have h: "takes t ?h" "wh_FromState ?h = CurrentState i" "wh_InstanceID ?h = wi_ID i"
    using en by (simp_all add: enabled_def takes_def history_row_def transition_history_def)
  have "tables_ok (wf_tables s')"
    unfolding t using en h
    by (intro tables_ok_move [OF ok(2) [unfolded wf_ok_tables], of d]) (simp_all add: enabled_def)
  moreover have "wf_evolves s s'"
  proof (rule evolvesI)
    let ?f = "\<lambda>y. if y = i then moved t (Terminal x) (ctx_time c 1) y else y"
    have I: "workflow_instances s' = map ?f (workflow_instances s)" using t by (simp add: wf_tables_eq)
    fix y assume "y \<in> set (workflow_instances s)"
    then have "?f y \<in> set (workflow_instances s')" unfolding I set_map by (rule imageI)
    moreover have "same_instance y (if y = i then moved t (Terminal x) (ctx_time c 1) y else y)"
      by (simp add: same_instance_def)
    ultimately show "\<exists>z \<in> set (workflow_instances s'). same_instance y z" by blast
  next
    fix d assume "d \<in> set (workflow_definitions s)" "wd_Status d \<noteq> WorkflowStatusDraft"
    then show "\<exists>d' \<in> set (workflow_definitions s'). same_definition s s' d d'"
      using t by (auto simp: wf_tables_eq same_definition_def intro!: bexI)
  qed
  ultimately show "wf_ok s' \<and> wf_evolves s s'" by (simp add: wf_ok_def)
qed

end

subsection \<open>Runs\<close>

text \<open>
  A run is the list of its committed stores, the latest first. Every request of the service
  may come next, whatever its outcome; a transition is planned on any store of the run: the
  one that was current when its reads were made.
\<close>

inductive wf_run :: "'s wf_db_scheme auditor \<Rightarrow> 's wf_db_scheme observer \<Rightarrow> 's wf_db_scheme list \<Rightarrow> bool"
  for auditor observer where
  start: "wf_tables s = ([], [], [], [], []) \<Longrightarrow> wf_run auditor observer [s]"
| create: "wf_run auditor observer (s # run) \<Longrightarrow> CreateWorkflowDefinition auditor c params s = (r1, s')
    \<Longrightarrow> wf_run auditor observer (s' # s # run)"
| update: "wf_run auditor observer (s # run) \<Longrightarrow> UpdateWorkflowDefinition auditor c uparams s = (r1, s')
    \<Longrightarrow> wf_run auditor observer (s' # s # run)"
| activate: "wf_run auditor observer (s # run) \<Longrightarrow> ActivateWorkflowDefinition auditor c tenantID i actorID s = (r2, s')
    \<Longrightarrow> wf_run auditor observer (s' # s # run)"
| archive: "wf_run auditor observer (s # run) \<Longrightarrow> ArchiveWorkflowDefinition auditor c tenantID i actorID s = (r2, s')
    \<Longrightarrow> wf_run auditor observer (s' # s # run)"
| delete: "wf_run auditor observer (s # run) \<Longrightarrow> DeleteWorkflowDefinition auditor c tenantID i actorID s = (r2, s')
    \<Longrightarrow> wf_run auditor observer (s' # s # run)"
| start_instance: "wf_run auditor observer (s # run)
    \<Longrightarrow> CreateInstanceForCaseByDefID auditor c tenantID caseID i actorID s = (r3, s')
    \<Longrightarrow> wf_run auditor observer (s' # s # run)"
| transition: "wf_run auditor observer (s # run) \<Longrightarrow> s0 \<in> set (s # run)
    \<Longrightarrow> executeTransition auditor observer c s0 False eparams s = (r3, s')
    \<Longrightarrow> wf_run auditor observer (s' # s # run)"

inductive_cases wf_run_NilE: "wf_run auditor observer []"

lemma executeTransition_Inl: "executeTransition auditor observer c s0 False params s = (Inl e, s') \<Longrightarrow> s' = s"
  by (auto simp: executeTransition_def tx_defs split: sum.splits prod.splits)

lemma CreateWorkflowDefinition_Inl: "CreateWorkflowDefinition auditor c params s = (Inl e, s') \<Longrightarrow> s' = s"
  by (auto simp: CreateWorkflowDefinition_def Let_def tx_throw_def dest: InTransaction_Inl split: if_splits)

lemma definition_calls_Inl:
  "ActivateWorkflowDefinition auditor c tenantID i actorID s = (Inl e, s') \<Longrightarrow> s' = s"
  "ArchiveWorkflowDefinition auditor c tenantID i actorID s = (Inl e, s') \<Longrightarrow> s' = s"
  "DeleteWorkflowDefinition auditor c tenantID i actorID s = (Inl e, s') \<Longrightarrow> s' = s"
  unfolding ActivateWorkflowDefinition_def ArchiveWorkflowDefinition_def DeleteWorkflowDefinition_def
  by (rule InTransaction_Inl, assumption)+

text \<open>Every store of a run is consistent and evolves into the latest one.\<close>

definition run_ok :: "'s wf_db_scheme list \<Rightarrow> bool" where
  "run_ok run \<longleftrightarrow> (\<forall>s \<in> set run. wf_ok s) \<and> (\<forall>s \<in> set run. wf_evolves s (hd run))"

lemma run_ok_next:
  assumes "run_ok (s # run)" "\<And>e. r = Inl e \<Longrightarrow> s' = s"
    and "\<And>v. wf_ok s \<Longrightarrow> r = Inr v \<Longrightarrow> wf_ok s' \<and> wf_evolves s s'"
  shows "run_ok (s' # s # run)"
proof -
  have "wf_ok s' \<and> wf_evolves s s'"
    using assms evolution.refl by (cases r) (auto simp: run_ok_def)
  then show ?thesis using assms(1) evolution.trans evolution.refl unfolding run_ok_def by fastforce
qed

context wf_environment
begin

lemma wf_run_ok: "wf_run auditor observer run \<Longrightarrow> run_ok run"
proof (induction rule: wf_run.induct)
  case (start s)
  then show ?case by (simp add: run_ok_def wf_ok_def tables_ok_def evolution.refl)
next
  case (create s run c params r1 s')
  show ?case
    by (rule run_ok_next [OF create.IH, of r1]) (use create.hyps CreateWorkflowDefinition_Inl create_keeps in blast)+
next
  case (update s run c params r1 s')
  show ?case
    by (rule run_ok_next [OF update.IH, of r1])
      (use update UpdateWorkflowDefinition_fails [of s auditor c params] in \<open>auto simp: run_ok_def\<close>)
next
  case (activate s run c tenantID i actorID r2 s')
  show ?case
    by (rule run_ok_next [OF activate.IH, of r2])
      (use activate.hyps in \<open>auto dest: definition_calls_Inl activate_keeps\<close>)
next
  case (archive s run c tenantID i actorID r2 s')
  show ?case
    by (rule run_ok_next [OF archive.IH, of r2])
      (use archive.hyps in \<open>auto dest: definition_calls_Inl archive_keeps\<close>)
next
  case (delete s run c tenantID i actorID r2 s')
  show ?case
    by (rule run_ok_next [OF delete.IH, of r2])
      (use delete.hyps in \<open>auto dest: definition_calls_Inl delete_keeps\<close>)
next
  case (start_instance s run c tenantID caseID i actorID r3 s')
  show ?case
  proof (rule run_ok_next [OF start_instance.IH, of r3])
    fix v assume "wf_ok s" "r3 = Inr v"
    then show "wf_ok s' \<and> wf_evolves s s'"
      using start_instance.hyps create_instance_keeps
      by (auto simp: CreateInstanceForCaseByDefID_def InTransaction_Inr)
  qed (use start_instance.hyps InTransaction_Inl in \<open>auto simp: CreateInstanceForCaseByDefID_def\<close>)
next
  case (transition s run s0 c params r3 s')
  show ?case
  proof (rule run_ok_next [OF transition.IH, of r3])
    fix v assume "wf_ok s" "r3 = Inr v"
    then show "wf_ok s' \<and> wf_evolves s s'"
      using transition.hyps transition.IH execute_keeps [of s0 s] by (auto simp: run_ok_def)
  qed (use transition.hyps in \<open>auto dest: executeTransition_Inl\<close>)
qed

end

end
