(* ===== verification/Case_Effects.thy ===== *)
theory Case_Effects
  imports Case_Forms Form_Effects Workflow_Runs
begin

section \<open>What the operations on cases do\<close>

text \<open>
  The change each operation of the case service makes when it succeeds, and the composition
  with the workflow service: a transition runs the observer of the case service inside its
  transaction. The auditors append to the audit trail only, and the evaluation of rules keeps
  the tables modelled here: the locale \<open>case_environment\<close>, interpreted on the audit service.
\<close>

subsection \<open>The workflow service leaves forms and cases alone\<close>

definition same_more :: "'s wf_db_scheme \<Rightarrow> 's wf_db_scheme \<Rightarrow> bool" where
  "same_more s s' \<longleftrightarrow> wf_db.more s' = wf_db.more s"

interpretation more_frame: tx_frame same_more
  by unfold_locales (simp_all add: same_more_def)

lemma audit_more_frame:
  assumes "growing_auditor auditor" shows "tx_framed same_more (RecordAuditEventInTx auditor ps)"
proof -
  have "recorder auditor" using assms by (rule recorder.intro)
  then have "audit_grows s s'" if "RecordAuditEventInTx auditor ps s = (r, s')" for s r s'
    using that by (rule recorder.audit_grows)
  then show ?thesis
    by (intro more_frame.framedI) (metis audit_grows_tables(2) prod.collapse same_more_def)
qed

lemma more_framedI: "(\<And>s. wf_db.more (snd (m s)) = wf_db.more s) \<Longrightarrow> tx_framed same_more m"
  by (rule more_frame.framedI) (simp add: same_more_def)

lemma more_try: "tx_framed same_more m \<Longrightarrow> tx_framed same_more (tx_try m)"
  by (auto simp: tx_framed_def tx_try_def split: prod.split) (metis snd_conv)

lemma more_statements:
  "tx_framed same_more (saveDefinition d)" "tx_framed same_more (def_FindByKeyTx tn k)"
  "tx_framed same_more (def_FindByIDTx tn i)" "tx_framed same_more (def_FindLatestActiveByKeyTx tn k)"
  "tx_framed same_more (deleteDefinition tn i)" "tx_framed same_more (def_updateStatus n tn i st v)"
  "tx_framed same_more (state_deleteBatch tn i)" "tx_framed same_more (transition_deleteBatch tn i)"
  "tx_framed same_more (saveInstance x)" "tx_framed same_more (instance_updateState tn i k v)"
  "tx_framed same_more (instance_complete n tn i v)" "tx_framed same_more (saveHistory h)"
  by (rule more_framedI, simp add: saveDefinition_def def_FindByKeyTx_def def_FindByIDTx_def
      def_FindLatestActiveByKeyTx_def deleteDefinition_def def_updateStatus_def state_deleteBatch_def
      transition_deleteBatch_def saveInstance_def instance_updateState_def instance_complete_def saveHistory_def
      tx_modify_def Let_def)+

lemma more_batches: "tx_framed same_more (state_saveBatch xs)" "tx_framed same_more (transition_saveBatch ts)"
proof -
  have "wf_db.more (snd (state_saveBatch xs s)) = wf_db.more s" for s :: "'s wf_db_scheme"
    by (induction xs arbitrary: s) (simp_all add: tx_return_def)
  then show "tx_framed same_more (state_saveBatch xs)" by (rule more_framedI)
  have "wf_db.more (snd (transition_saveBatch ts s)) = wf_db.more s" for s :: "'s wf_db_scheme"
    by (induction ts arbitrary: s) (simp_all add: tx_return_def)
  then show "tx_framed same_more (transition_saveBatch ts)" by (rule more_framedI)
qed

lemmas more_intros = more_frame.return more_frame.throw more_frame.guard more_frame.gets more_frame.lift
  more_frame.bind more_frame.seq more_frame.when_true more_frame.map_error more_frame.in_transaction more_try
  more_statements more_batches audit_more_frame

lemma optional_row_more: "tx_framed same_more m \<Longrightarrow> tx_framed same_more (optional_row msg m)"
  unfolding optional_row_def by (intro more_intros) (auto split: sum.split intro: more_intros)

lemma load_definition_more: "tx_framed same_more (load_definition_tx tn i)"
  unfolding load_definition_tx_def by (intro more_intros)

lemma definition_requests_more:
  assumes "growing_auditor auditor"
  shows "tx_framed same_more (CreateWorkflowDefinition auditor c params)"
    "tx_framed same_more (ActivateWorkflowDefinition auditor c tn i actorID)"
    "tx_framed same_more (ArchiveWorkflowDefinition auditor c tn i actorID)"
    "tx_framed same_more (DeleteWorkflowDefinition auditor c tn i actorID)"
    "tx_framed same_more (createInstanceForCaseByDefID auditor c tn caseID i actorID)"
  unfolding CreateWorkflowDefinition_def ActivateWorkflowDefinition_def ArchiveWorkflowDefinition_def
    DeleteWorkflowDefinition_def createInstanceForCaseByDefID_def Let_def
  by (auto intro!: more_intros optional_row_more load_definition_more assms)

subsection \<open>Transitions and their observer\<close>

text \<open>
  The store on which the observer is called: the workflow tables with the transition made,
  everything else as before.
\<close>

lemma transition_before_observer:
  assumes g: "growing_auditor auditor"
    and a: "apply_transition auditor observer c params i t x s = (Inr (), s')"
  obtains s1 where "notify observer i t (Terminal x) s1 = (Inr (), s')" "wf_db.more s1 = wf_db.more s"
    "apply_transition auditor None c params i t x s = (Inr (), s1)"
proof -
  obtain s1 where n: "notify observer i t (Terminal x) s1 = (Inr (), s')"
    and q: "apply_transition auditor None c params i t x s = (Inr (), s1)"
    using a by (auto simp: apply_transition_def tx_Inr notify_def)
  have "tx_framed same_more (apply_transition auditor None c params i t x)"
    unfolding apply_transition_def notify_def by (auto intro!: more_intros g)
  then have "same_more s s1" using q by (rule more_frame.framedD)
  then show ?thesis using n q that by (simp add: same_more_def)
qed

text \<open>The tables of the development outside the audit trail.\<close>

definition same_records :: "'s case_db_scheme \<Rightarrow> 's case_db_scheme \<Rightarrow> bool" where
  "same_records s s' \<longleftrightarrow> wf_tables s' = wf_tables s \<and> form_tables s' = form_tables s \<and> cases s' = cases s"

interpretation records_frame: tx_frame same_records
  by unfold_locales (simp_all add: same_records_def)

lemma audit_grows_records: "audit_grows s s' \<Longrightarrow> same_records s s'"
  by (auto simp: audit_grows_def same_records_def wf_tables_def form_tables_def)

locale case_environment =
  fixes svc :: "'s case_db_scheme CaseService"
  assumes case_auditor: "growing_auditor (caseAuditor svc)"
    and wf_auditor: "growing_auditor (wfAuditor svc)"
    and rules_quiet: "\<And>evaluate orgID caseID. ruleIntegration svc = Some evaluate
      \<Longrightarrow> tx_framed same_records (evaluate orgID caseID)"
begin

lemma audit_records:
  "RecordAuditEventInTx (caseAuditor svc) ps s = (r, s') \<Longrightarrow> same_records s s'"
  "RecordAuditEventInTx (wfAuditor svc) ps s = (r, s') \<Longrightarrow> same_records s s'"
  using recorder.audit_grows [OF recorder.intro [OF case_auditor]] recorder.audit_grows [OF recorder.intro [OF wf_auditor]]
  by (blast intro: audit_grows_records)+

lemma case_audit_records: "case_audit svc c orgID actorID action i meta s = (r, s') \<Longrightarrow> same_records s s'"
  unfolding case_audit_def by (rule audit_records)

lemma evaluate_records: "EvaluateCaseRules svc orgID caseID s = (r, s') \<Longrightarrow> same_records s s'"
  unfolding EvaluateCaseRules_def
  by (cases "ruleIntegration svc") (auto simp: tx_throw_def records_frame.refl dest: records_frame.framedD [OF rules_quiet])

end

interpretation audited_cases: case_environment
  "\<lparr>caseAuditor = Some (RecordEventInTx ft cfg c), personFinder = pf, userChecker = uc, wfAvailable = w,
    wfAuditor = Some (RecordEventInTx ft cfg c), formRepos = fr, ruleIntegration = None\<rparr>" for ft cfg c pf uc w fr
  by unfold_locales (simp_all add: audit_service_grows)

subsection \<open>Statements on cases\<close>

lemma case_update_Inr:
  "case_update msg none p f s = (Inr u, s') \<longleftrightarrow> (\<exists>r \<in> set (cases s). p r)
     \<and> (\<forall>r \<in> set (cases s). p r \<longrightarrow> case_row_ok (f r)) \<and> s' = s\<lparr>cases := update_where p f (cases s)\<rparr>"
  by (auto simp: case_update_def affected_0)

lemma case_FindByID_Inr:
  "case_FindByID orgID i s = Inr cs \<Longrightarrow>
     \<exists>r \<in> set (cases s). cs_OrganizationID r = orgID \<and> cs_ID r = i \<and> cs = scanned_case r"
  by (auto simp: case_FindByID_def scanCase_def split: sum.splits dest!: query_row_mem)

lemma scanned_case_simps [simp]:
  "cs_ID (scanned_case r) = cs_ID r" "cs_OrganizationID (scanned_case r) = cs_OrganizationID r"
  "cs_Status (scanned_case r) = cs_Status r" "cs_Version (scanned_case r) = cs_Version r"
  "WorkflowState (scanned_case r) = WorkflowState r" "WorkflowInstanceID (scanned_case r) = WorkflowInstanceID r"
  "ClosedAt (scanned_case r) = ClosedAt r" "cs_CreatedByID (scanned_case r) = cs_CreatedByID r"
  "cs_CreatedAt (scanned_case r) = cs_CreatedAt r" "AssignedToID (scanned_case r) = AssignedToID r"
  by (simp_all add: scanned_case_def)

text \<open>The row of a case after a transition to a state.\<close>

definition state_changes :: "instant \<Rightarrow> string \<Rightarrow> bool \<Rightarrow> Case \<Rightarrow> Case" where
  "state_changes n st final r = r\<lparr>WorkflowState := st, cs_Status := st, cs_Version := cs_Version r + 1,
     cs_UpdatedAt := n, ClosedAt := (if final then Some n else None)\<rparr>"

lemma state_changes_simps [simp]:
  "cs_ID (state_changes n st final r) = cs_ID r" "cs_OrganizationID (state_changes n st final r) = cs_OrganizationID r"
  "WorkflowInstanceID (state_changes n st final r) = WorkflowInstanceID r"
  "cs_Status (state_changes n st final r) = st" "WorkflowState (state_changes n st final r) = st"
  "ClosedAt (state_changes n st final r) = (if final then Some n else None)"
  "cs_Version (state_changes n st final r) = cs_Version r + 1" "CaseNumber (state_changes n st final r) = CaseNumber r"
  by (simp_all add: state_changes_def)

lemma checkRequired_Inr:
  "checkRequiredFormsCompleteInTx svc tn caseID defID k s = (Inr u, s') \<longleftrightarrow>
     s' = s \<and> (formRepos svc \<longrightarrow> missing_forms tn caseID defID k s = [])"
  by (auto simp: checkRequiredFormsCompleteInTx_def)

context case_environment
begin

lemma OnTransition_Inr:
  assumes "OnTransition svc c i t final s = (Inr u, s')"
  obtains r where "r \<in> set (cases s)" "cs_OrganizationID r = wi_TenantID i" "cs_ID r = wi_CaseID i"
    "formRepos svc \<Longrightarrow> missing_forms (wi_TenantID i) (wi_CaseID i) (wi_WorkflowDefID i) (FromState t) s = []"
    "case_row_ok (state_changes (ctx_time c 1) (ToState t) final r)"
    "cases s' = update_where (case_at (wi_TenantID i) (wi_CaseID i) (cs_Version r))
       (state_changes (ctx_time c 1) (ToState t) final) (cases s)"
    "wf_tables s' = wf_tables s" "form_tables s' = form_tables s"
proof -
  let ?p = "\<lambda>cs. case_at (wi_TenantID i) (wi_CaseID i) (cs_Version cs)"
  let ?f = "state_changes (ctx_time c 1) (ToState t) final"
  obtain cs s1 where m: "formRepos svc \<longrightarrow> missing_forms (wi_TenantID i) (wi_CaseID i) (wi_WorkflowDefID i) (FromState t) s = []"
    and cs: "case_FindByID (wi_TenantID i) (wi_CaseID i) s = Inr cs"
    and up: "UpdateWorkflowStateTx (ctx_time c 1) (wi_TenantID i) (wi_CaseID i) (ToState t) (cs_Version cs) final s = (Inr (), s1)"
    and ev: "s' = s1 \<or> EvaluateCaseRules svc (wi_TenantID i) (wi_CaseID i) s1 = (Inr (), s')"
    using assms by (auto simp: OnTransition_def tx_Inr checkRequired_Inr case_FindByIDTx_def split: if_splits)
  obtain r where r: "r \<in> set (cases s)" "cs_OrganizationID r = wi_TenantID i" "cs_ID r = wi_CaseID i" "cs = scanned_case r"
    using case_FindByID_Inr [OF cs] by blast
  have s1: "s1 = s\<lparr>cases := update_where (?p cs) ?f (cases s)\<rparr>" "\<forall>q \<in> set (cases s). ?p cs q \<longrightarrow> case_row_ok (?f q)"
    using up by (auto simp: UpdateWorkflowStateTx_def case_update_Inr state_changes_def [abs_def])
  have "same_records s1 s'" using ev evaluate_records records_frame.refl by blast
  then have "cases s' = update_where (?p r) ?f (cases s)" "wf_tables s' = wf_tables s" "form_tables s' = form_tables s"
    using s1(1) r(4) by (simp_all add: same_records_def wf_tables_def form_tables_def)
  moreover have "case_row_ok (?f r)" using s1(2) r by (simp add: case_at_def)
  ultimately show ?thesis using that [OF r(1-3)] m by blast
qed

text \<open>The case service is an observer that leaves the workflow tables alone.\<close>

lemma observer_quiet: "quiet_observer (case_observer svc c)"
proof -
  have "tx_framed same_tables (checkRequiredFormsCompleteInTx svc a b d k)" for a b d k
    by (rule wf_frame.framedI) (simp add: checkRequiredFormsCompleteInTx_def same_tables_def)
  moreover have "tx_framed same_tables (case_FindByIDTx a b :: ('s case_db_scheme, Case) tx)" for a b
    by (rule wf_frame.framedI) (simp add: case_FindByIDTx_def same_tables_def)
  moreover have "tx_framed same_tables (UpdateWorkflowStateTx n a b st v fin :: ('s case_db_scheme, unit) tx)"
    for n a b st v fin
    by (rule wf_frame.framedI) (simp add: UpdateWorkflowStateTx_def case_update_def same_tables_def wf_tables_def)
  moreover have "tx_framed same_tables (EvaluateCaseRules svc a b)" for a b
  proof (rule wf_frame.framedI)
    show "same_tables s (snd (EvaluateCaseRules svc a b s))" for s
      using evaluate_records [of a b s] by (metis prod.collapse same_records_def same_tables_def)
  qed
  ultimately show ?thesis
    unfolding quiet_observer_def case_observer_def OnTransition_def
    by (auto intro!: wf_frame.seq wf_frame.bind wf_frame.return wf_frame.map_error)
qed

lemma environment: "wf_environment (wfAuditor svc) (case_observer svc c)"
  by unfold_locales (rule growing_is_quiet [OF wf_auditor], rule observer_quiet)

end

text \<open>A transition inside a transaction that writes nothing else of what is modelled here.\<close>

definition moves_case :: "'s case_db_scheme CaseService \<Rightarrow> ctx \<Rightarrow> 's case_db_scheme \<Rightarrow> ExecuteTransitionParams
    \<Rightarrow> 's case_db_scheme \<Rightarrow> 's case_db_scheme \<Rightarrow> bool" where
  "moves_case svc c s0 params s s' \<longleftrightarrow> (\<exists>s1 res s2. same_records s s1
     \<and> executeTransition (wfAuditor svc) (case_observer svc c) c s0 True params s1 = (Inr res, s2) \<and> same_records s2 s')"

lemma more_records:
  assumes "wf_db.more s' = wf_db.more s"
  shows "cases s' = cases s" "form_tables s' = form_tables s"
  using assms by (cases s; cases s'; simp add: form_tables_def)+

lemma missing_forms_cong: "form_tables s' = form_tables s \<Longrightarrow> missing_forms tn caseID defID k s' = missing_forms tn caseID defID k s"
  by (simp add: missing_forms_def FindByWorkflowAndState_def FindByCaseAndFormVersion_def form_tables_def)

context case_environment
begin

text \<open>A transition planned on \<open>s0\<close> and made on \<open>s\<close>: the instance moves and its case with it.\<close>

lemma case_transition_Inr:
  assumes ok: "wf_ok s0" "wf_ok s" and ev: "wf_evolves s0 s"
    and run: "executeTransition (wfAuditor svc) (case_observer svc c) c s0 outer params s = (Inr res, s')"
  obtains i d def t x r where "plan_transition s0 params = Inr (i, def, t, x)" "res = moved_instance i def t"
    "enabled s params i d t x"
    "wf_tables s' = (workflow_definitions s, workflow_states s, workflow_transitions s,
       map (\<lambda>y. if y = i then moved t (Terminal x) (ctx_time c 1) y else y) (workflow_instances s),
       workflow_history s @ [history_row (transition_history c params i t)])"
    "r \<in> set (cases s)" "cs_OrganizationID r = wi_TenantID i" "cs_ID r = wi_CaseID i"
    "formRepos svc \<Longrightarrow> missing_forms (wi_TenantID i) (wi_CaseID i) (wi_WorkflowDefID i) (CurrentState i) s = []"
    "case_row_ok (state_changes (ctx_time c 1) (ToState t) (Terminal x) r)"
    "cases s' = update_where (case_at (wi_TenantID i) (wi_CaseID i) (cs_Version r))
       (state_changes (ctx_time c 1) (ToState t) (Terminal x)) (cases s)"
    "form_tables s' = form_tables s"
proof (rule wf_environment.executeTransition_Inr [OF environment ok ev run])
  fix i d def t x
  assume plan: "plan_transition s0 params = Inr (i, def, t, x)" and res: "res = moved_instance i def t"
    and en: "enabled s params i d t x"
    and tables: "wf_tables s' = (workflow_definitions s, workflow_states s, workflow_transitions s,
       map (\<lambda>y. if y = i then moved t (Terminal x) (ctx_time c 1) y else y) (workflow_instances s),
       workflow_history s @ [history_row (transition_history c params i t)])"
  have "apply_transition (wfAuditor svc) (case_observer svc c) c params i t x s = (Inr (), s')"
    using run plan by (auto simp: executeTransition_def tx_Inr split: if_splits)
  then obtain s1 where n: "notify (case_observer svc c) i t (Terminal x) s1 = (Inr (), s')"
    and more: "wf_db.more s1 = wf_db.more s"
    using transition_before_observer [OF wf_auditor] by metis
  note same = more_records [OF more]
  have "OnTransition svc c i t (Terminal x) s1 = (Inr (), s')"
    using n by (simp add: notify_def case_observer_def tx_Inr)
  then show thesis
  proof (rule OnTransition_Inr)
    fix r
    assume "r \<in> set (cases s1)" "cs_OrganizationID r = wi_TenantID i" "cs_ID r = wi_CaseID i"
      "formRepos svc \<Longrightarrow> missing_forms (wi_TenantID i) (wi_CaseID i) (wi_WorkflowDefID i) (FromState t) s1 = []"
      "case_row_ok (state_changes (ctx_time c 1) (ToState t) (Terminal x) r)"
      "cases s' = update_where (case_at (wi_TenantID i) (wi_CaseID i) (cs_Version r))
         (state_changes (ctx_time c 1) (ToState t) (Terminal x)) (cases s1)"
      "form_tables s' = form_tables s1"
    moreover have "FromState t = CurrentState i" using en by (simp add: enabled_def)
    ultimately show thesis
      using that [OF plan res en tables] same missing_forms_cong [OF same(2)] by simp
  qed
qed

lemma ChangeStatus_Inr:
  assumes "ChangeStatus svc c committed p s = (Inr cs', s')"
  obtains cs i ts t res s1 updated where
    "case_FindByID (ch_OrganizationID p) (ch_CaseID p) committed = Inr cs"
    "GetInstanceByCaseID (ch_OrganizationID p) (ch_CaseID p) committed = Inr i"
    "GetValidTransitions (ch_OrganizationID p) (wi_ID i) committed = Inr ts"
    "t \<in> set ts" "ToState t = ch_Status p"
    "executeTransition (wfAuditor svc) (case_observer svc c) c committed True (status_transition p i t) s = (Inr res, s1)"
    "case_FindByID (ch_OrganizationID p) (ch_CaseID p) s1 = Inr updated" "same_records s1 s'"
    "cs' = refreshed_case c cs updated"
proof -
  obtain cs i ts t res s1 updated u where
    r: "case_FindByID (ch_OrganizationID p) (ch_CaseID p) committed = Inr cs"
    "GetInstanceByCaseID (ch_OrganizationID p) (ch_CaseID p) committed = Inr i"
    "GetValidTransitions (ch_OrganizationID p) (wi_ID i) committed = Inr ts"
    and t: "List.find (\<lambda>t. ToState t = ch_Status p) ts = Some t"
    and e: "executeTransition (wfAuditor svc) (case_observer svc c) c committed True (status_transition p i t) s = (Inr res, s1)"
    "case_FindByID (ch_OrganizationID p) (ch_CaseID p) s1 = Inr updated"
    and a: "case_audit svc c (cs_OrganizationID cs) (ch_ActorID p) ''case.transition'' (cs_ID cs)
              [(''from'', GString (CurrentState i)), (''to'', GString (cs_Status updated))] s1 = (Inr u, s')"
    and cs': "cs' = refreshed_case c cs updated"
    using assms
    by (auto simp: ChangeStatus_def changeStatusViaWorkflow_def tx_Inr checkRequired_Inr ExecuteTransitionInTx_def
        case_FindByIDTx_def split: option.splits if_splits)
  show ?thesis
    using that [OF r _ _ e case_audit_records [OF a] cs'] find_Some_mem [OF t] by blast
qed

lemma AssignCase_Inr:
  assumes "AssignCase svc c committed orgID caseID userID actorID s = (Inr cs, s')"
  obtains r s1 where "r \<in> set (cases s)" "cs_OrganizationID r = orgID" "cs_ID r = caseID"
    "s1 = s\<lparr>cases := update_where (case_by_id orgID caseID)
       (\<lambda>r. r\<lparr>AssignedToID := Some userID, cs_UpdatedAt := ctx_time c 1\<rparr>) (cases s)\<rparr>" "same_records s1 s'"
proof -
  obtain cs0 :: Case and s1 u where "case_Assign (ctx_time c 1) orgID caseID userID s = (Inr (), s1)"
    and "case_audit svc c (cs_OrganizationID cs0) actorID ''case.assigned'' (cs_ID cs0)
                 [(''assigned_to'', GString (uuid_string userID))] s1 = (Inr u, s')"
    using assms by (auto simp: AssignCase_def tx_Inr split: option.splits)
  then show ?thesis
    using that case_audit_records by (auto simp: case_Assign_def case_update_Inr case_by_id_def)
qed

text \<open>
  Creating a case: inside a transaction the first unique violation aborts it, so that neither
  the attempts of the repository nor the retries of the service get a second chance.
\<close>

end

lemma case_SaveTx_once:
  "case_SaveTx c k cs s = (case case_insert_result cs (cases s) of
     Inserted \<Rightarrow> (Inr cs, s\<lparr>cases := cases s @ [case_row cs]\<rparr>)
   | UniqueViolation \<Rightarrow> (Inl (Wrap ''failed to insert case'' (Err ''current transaction is aborted'')), s)
   | CheckViolation \<Rightarrow> (Inl (Wrap ''failed to insert case'' (SqlConstraint ''cases'')), s))"
  by (simp add: case_SaveTx_def eval_nat_numeral split: insert_result.split)

lemma create_loop_once:
  "create_loop svc c p n cs s = Some (case case_SaveTx c (2 + 6 * n) cs s of
     (Inl e, s') \<Rightarrow> (Inl (Wrap ''failed to save case'' e), s')
   | (Inr cs', s') \<Rightarrow> after_save svc c p cs' s')"
  by (subst create_loop.simps)
    (simp add: case_SaveTx_once errors_Is_def same_error_type_def cases_domain_def split: insert_result.split)

lemma CreateCase_once:
  assumes "CreateCase svc c committed p s = (Inr cs', s')"
  obtains w cs where "choose_workflow svc committed p = Inr w"
    "NewCase c (cc_OrganizationID p) (cc_CreatedByID p) (cc_Title p) (cc_Description p) (cc_ServiceType p)
       (cc_Priority p) (cc_PersonID p) = Inr cs"
    "case_insert_result (cs\<lparr>WorkflowID := Some w\<rparr>) (cases s) = Inserted"
    "after_save svc c p (cs\<lparr>WorkflowID := Some w\<rparr>) (s\<lparr>cases := cases s @ [case_row (cs\<lparr>WorkflowID := Some w\<rparr>)]\<rparr>)
       = (Inr cs', s')"
proof -
  obtain s0 w cs where r: "choose_workflow svc committed p = Inr w"
    "NewCase c (cc_OrganizationID p) (cc_CreatedByID p) (cc_Title p) (cc_Description p) (cc_ServiceType p)
       (cc_Priority p) (cc_PersonID p) = Inr cs"
    and l: "create_loop svc c p 0 (cs\<lparr>WorkflowID := Some w\<rparr>) s = Some (Inr cs', s')"
    using assms by (auto simp: CreateCase_def tx_Inr create_loop_once split: option.splits)
  then show ?thesis
    using that by (auto simp: create_loop_once case_SaveTx_once split: insert_result.splits)
qed

text \<open>The row of a case once its workflow instance is linked, at the state of the instance.\<close>

definition linked_row :: "instant \<Rightarrow> WorkflowInstance \<Rightarrow> string \<Rightarrow> Case \<Rightarrow> Case" where
  "linked_row n i st r = r\<lparr>WorkflowInstanceID := Some (wi_ID i), cs_Status := st, cs_Version := cs_Version r + 1,
     cs_UpdatedAt := n, WorkflowState := st, ClosedAt := (if IsClosed st then Some n else ClosedAt r)\<rparr>"

lemma linked_row_simps [simp]:
  "cs_ID (linked_row n i st r) = cs_ID r" "cs_OrganizationID (linked_row n i st r) = cs_OrganizationID r"
  "WorkflowInstanceID (linked_row n i st r) = Some (wi_ID i)" "CaseNumber (linked_row n i st r) = CaseNumber r"
  "cs_Status (linked_row n i st r) = st" "WorkflowState (linked_row n i st r) = st"
  by (simp_all add: linked_row_def)

lemma case_row_simps [simp]:
  "cs_ID (case_row r) = cs_ID r" "cs_OrganizationID (case_row r) = cs_OrganizationID r"
  "cs_Version (case_row r) = cs_Version r" "CaseNumber (case_row r) = CaseNumber r"
  "WorkflowInstanceID (case_row r) = WorkflowInstanceID r" "cs_Status (case_row r) = cs_Status r"
  by (simp_all add: case_row_def)

lemma update_where_new: "(\<And>r. r \<in> set rows \<Longrightarrow> \<not> p r) \<Longrightarrow> p x \<Longrightarrow> update_where p f (rows @ [x]) = rows @ [f x]"
  by (simp add: update_where_def map_idI)

lemma link_instance_Inr:
  assumes "link_instance c cs i s = (Inr cs', s')" "cases s = rows @ [case_row cs]" "cs_ID cs \<notin> cs_ID ` set rows"
  defines "st \<equiv> (if CurrentState i = [] then cs_Status cs else CurrentState i)"
  shows "cases s' = rows @ [linked_row (ctx_time c 1) i st (case_row cs)]" "wf_tables s' = wf_tables s"
    "form_tables s' = form_tables s" "\<not> status_blank st" "cs_Status cs' = st"
proof -
  let ?id = "case_by_id (cs_OrganizationID cs) (cs_ID cs)"
  let ?at = "case_at (cs_OrganizationID cs) (cs_ID cs) (cs_Version cs)"
  define n where "n = ctx_time c 1"
  define link where "link = (\<lambda>r. r\<lparr>WorkflowInstanceID := Some (wi_ID i), cs_UpdatedAt := n\<rparr> :: Case)"
  define move where "move = (\<lambda>r. r\<lparr>cs_Status := st, cs_Version := cs_Version r + 1, cs_UpdatedAt := n, WorkflowState := st,
     ClosedAt := (if IsClosed st then Some n else ClosedAt r)\<rparr> :: Case)"
  have other: "\<not> ?id r" "\<not> ?at r" if "r \<in> set rows" for r
    using assms(3) that unfolding case_by_id_def case_at_def by (metis imageI)+
  have st: "cs_Status (SyncStatusFromWorkflow n (CurrentState i) (cs\<lparr>WorkflowInstanceID := x, WorkflowState := y\<rparr>)) = st"
    for n x y by (simp add: SyncStatusFromWorkflow_def st_def)
  obtain s1 where l: "case_update ''failed to update workflow instance id'' (Err ''no rows affected'') ?id link s = (Inr (), s1)"
    and u: "case_update ''failed to update case status'' concurrent_case ?at move s1 = (Inr (), s')"
    and cs': "cs_Status cs' = st"
    using assms(1) unfolding link_def move_def n_def
    by (auto simp: link_instance_def Let_def tx_Inr st case_UpdateWorkflowInstanceID_def case_UpdateStatus_def
        cong: if_cong)
  have "?id (case_row cs)" "?at (link (case_row cs))"
    by (simp_all add: case_by_id_def case_at_def link_def)
  then have s1: "s1 = s\<lparr>cases := rows @ [link (case_row cs)]\<rparr>"
    and "s' = s1\<lparr>cases := rows @ [move (link (case_row cs))]\<rparr>" and "case_row_ok (move (link (case_row cs)))"
    using l u other assms(2) by (auto simp: case_update_Inr update_where_new)
  moreover have "move (link (case_row cs)) = linked_row n i st (case_row cs)"
    by (simp add: move_def link_def linked_row_def)
  ultimately show "cases s' = rows @ [linked_row (ctx_time c 1) i st (case_row cs)]" "wf_tables s' = wf_tables s"
    "form_tables s' = form_tables s" "\<not> status_blank st" "cs_Status cs' = st"
    using cs' by (simp_all add: n_def case_row_ok_def wf_tables_def form_tables_def)
qed

context case_environment
begin

lemma after_save_Inr:
  assumes "after_save svc c p cs s = (Inr cs', s')" "wfAvailable svc"
    "cases s = rows @ [case_row cs]" "cs_ID cs \<notin> cs_ID ` set rows"
  obtains w d i where "cc_WorkflowID p = Some w" "def_FindByID (cs_OrganizationID cs) w s = Inr d"
    "wd_Status d = WorkflowStatusActive" "i = new_instance (later_ctx 20 c) (cs_OrganizationID cs) (cs_ID cs) d"
    "wi_ID i \<notin> wi_ID ` set (workflow_instances s)" "cs_ID cs \<notin> wi_CaseID ` set (workflow_instances s)"
    "wf_tables s' = (workflow_definitions s, workflow_states s, workflow_transitions s,
       workflow_instances s @ [instance_row i], workflow_history s)"
    "cases s' = rows @ [linked_row (ctx_time c 1) i (if InitialState d = [] then cs_Status cs else InitialState d) (case_row cs)]"
    "form_tables s' = form_tables s" "\<not> status_blank (if InitialState d = [] then cs_Status cs else InitialState d)"
    "wf_ok s \<Longrightarrow> wf_ok s' \<and> wf_evolves s s'"
proof -
  obtain w s1 s2 i u where w: "cc_WorkflowID p = Some w"
    and a: "case_audit svc c (cs_OrganizationID cs) (cs_CreatedByID cs) ''case.created'' (cs_ID cs) [] s = (Inr u, s1)"
    and ci: "createInstanceForCaseByDefID (wfAuditor svc) (later_ctx 20 c) (cs_OrganizationID cs) (cs_ID cs) w
               (cs_CreatedByID cs) s1 = (Inr i, s2)"
    and li: "link_instance c cs i s2 = (Inr cs', s')"
    using assms(1,2) by (auto simp: after_save_def tx_Inr CreateInstanceForCaseByDefIDTx_def split: option.splits)
  note same = case_audit_records [OF a, unfolded same_records_def]
  have more: "cases s2 = cases s1" "form_tables s2 = form_tables s1"
    using more_records more_frame.framedD [OF definition_requests_more(5) [OF wf_auditor] ci] by (auto simp: same_more_def)
  have rows: "cases s2 = rows @ [case_row cs]" using more same assms(3) by simp
  note link = link_instance_Inr [OF li rows assms(4)]
  have keeps: "wf_ok s' \<and> wf_evolves s s'" if "wf_ok s"
  proof -
    have "wf_ok s1" "wf_evolves s s1" using that same evolves_same_tables [of s s1] by (simp_all add: wf_ok_def)
    moreover from this have "wf_ok s2" "wf_evolves s1 s2"
      using wf_environment.create_instance_keeps [OF environment _ ci] by blast+
    moreover have "wf_evolves s2 s'" using link(2) evolves_same_tables [of s2 s'] by simp
    ultimately show ?thesis using link(2) evolution.trans unfolding wf_ok_def by metis
  qed
  show ?thesis
  proof (rule wf_environment.createInstanceForCaseByDefID_Inr [OF environment ci])
    fix d
    assume d: "def_FindByID (cs_OrganizationID cs) w s1 = Inr d" "wd_Status d = WorkflowStatusActive"
      and i: "i = (new_instance (later_ctx 20 c) (cs_OrganizationID cs) (cs_ID cs) d)\<lparr>wi_Definition := Some d\<rparr>"
      and new: "wi_ID i \<notin> wi_ID ` set (workflow_instances s1)" "cs_ID cs \<notin> wi_CaseID ` set (workflow_instances s1)"
      and t: "wf_tables s2 = (workflow_definitions s1, workflow_states s1, workflow_transitions s1,
         workflow_instances s1 @ [instance_row (new_instance (later_ctx 20 c) (cs_OrganizationID cs) (cs_ID cs) d)],
         workflow_history s1)"
    have tables: "workflow_definitions s1 = workflow_definitions s" "workflow_states s1 = workflow_states s"
      "workflow_transitions s1 = workflow_transitions s" "workflow_instances s1 = workflow_instances s"
      "workflow_history s1 = workflow_history s"
      using same by (simp_all add: wf_tables_def)
    have "def_FindByID (cs_OrganizationID cs) w s = Inr d" using d(1) tables by (simp add: def_FindByID_def)
    moreover have "linked_row n i st r = linked_row n (new_instance (later_ctx 20 c) (cs_OrganizationID cs) (cs_ID cs) d) st r"
      for n st r unfolding i by (simp add: linked_row_def)
    moreover have "CurrentState i = InitialState d" unfolding i by (simp add: new_instance_def)
    ultimately show thesis
      using that [OF w _ d(2) refl] i new t link more same tables keeps by (simp cong: if_cong)
  qed
qed

lemma no_row_Inr:
  "(case r of Inr x \<Rightarrow> tx_throw e | Inl e' \<Rightarrow> tx_guard (e' = none) (f e')) s = (Inr u, s') \<longleftrightarrow> r = Inl none \<and> s' = s"
  by (auto simp: tx_Inr split: sum.split)

text \<open>A submission: one more row, and the checks its transaction has made on the store it runs on.\<close>

lemma SubmitForm_Inr:
  assumes "SubmitForm re svc c committed orgID caseID submittedBy v data s = (Inr res, s')"
  obtains cs i ver form x where "case_FindByID orgID caseID committed = Inr cs" "case_instance orgID cs committed = Inr i"
    "version_FindByID orgID v s = Inr ver" "fv_Status ver = FormVersionStatusPublished"
    "form_FindByID orgID (FormID ver) s = Inr form" "fm_Status form \<noteq> FormStatusArchived"
    "NewFormSubmission c orgID caseID (FormID ver) v submittedBy data SubmissionStatusSubmitted = Inr x"
    "\<exists>a \<in> set (state_assignments orgID i s). fa_FormVersionID a = v \<and> fa_Active a"
    "FindByCaseAndFormVersion orgID caseID v s = Inl dErrSubmissionNotFound"
    "validateSubmissionData re (entries data) (FindByVersion orgID v s) = None"
    "submission_Save x s = (Inr (), s\<lparr>form_submissions := form_submissions s @ [submission_row x]\<rparr>)"
    "res = submission_response x" "wf_tables s' = wf_tables s" "cases s' = cases s"
    "form_tables s' = (forms s, form_versions s, form_fields s, form_assignments s,
       form_submissions s @ [submission_row x])"
proof -
  obtain cs i x where r: "formRepos svc" "case_FindByID orgID caseID committed = Inr cs"
    "case_instance orgID cs committed = Inr i"
    and t: "submit_tx re svc c orgID caseID submittedBy v data i s = (Inr x, s')" and res: "res = submission_response x"
    using assms by (auto simp: SubmitForm_def tx_Inr)
  obtain ver form ps s1 u where c: "version_FindByID orgID v s = Inr ver" "fv_Status ver = FormVersionStatusPublished"
    "form_FindByID orgID (FormID ver) s = Inr form" "fm_Status form \<noteq> FormStatusArchived"
    "NewFormSubmission c orgID caseID (FormID ver) v submittedBy data SubmissionStatusSubmitted = Inr x"
    "\<exists>a \<in> set (state_assignments orgID i s). fa_FormVersionID a = v \<and> fa_Active a"
    "FindByCaseAndFormVersion orgID caseID v s = Inl dErrSubmissionNotFound"
    "validateSubmissionData re (entries data) (FindByVersion orgID v s) = None"
    and sv: "submission_Save x s = (Inr (), s1)" and a: "RecordAuditEventInTx (caseAuditor svc) ps s1 = (Inr u, s')"
    using t by (simp add: submit_tx_def tx_Inr no_row_Inr) blast
  have s1: "s1 = s\<lparr>form_submissions := form_submissions s @ [submission_row x]\<rparr>"
    using sv by (simp add: submission_Save_Inr)
  show ?thesis
    using that [OF r(2,3) c _ res] sv audit_records(1) [OF a] unfolding s1
    by (simp add: same_records_def wf_tables_def form_tables_def)
qed

end

end
