(* ===== verification/Case_Runs.thy ===== *)
theory Case_Runs
  imports Case_Effects
begin

section \<open>Cases and their workflow instances\<close>

text \<open>
  Runs of the workflow service and the case service together, and the invariant that ties the
  two: the row of a case mirrors the workflow instance it is linked to.
\<close>

subsection \<open>The invariant\<close>

text \<open>
  The row of the case an instance belongs to. An instance has moved when its version is no
  longer the first one.
\<close>

definition mirrors :: "WorkflowInstance \<Rightarrow> Case \<Rightarrow> bool" where
  "mirrors i r \<longleftrightarrow> cs_ID r = wi_CaseID i \<and> cs_OrganizationID r = wi_TenantID i
     \<and> WorkflowInstanceID r = Some (wi_ID i) \<and> cs_Status r = CurrentState i \<and> WorkflowState r = CurrentState i
     \<and> (1 < wi_Version i \<longrightarrow> (ClosedAt r \<noteq> None \<longleftrightarrow> CompletedAt i \<noteq> None))"

definition mirrored :: "WorkflowDefinition list \<Rightarrow> WorkflowInstance list \<Rightarrow> Case list \<Rightarrow> bool" where
  "mirrored D I C \<longleftrightarrow> (\<forall>d \<in> set D. InitialState d \<noteq> []) \<and> distinct (map cs_ID C)
     \<and> (\<forall>r \<in> set C. case_row_ok r)
     \<and> (\<forall>i \<in> set I. \<exists>r \<in> set C. mirrors i r)
     \<and> (\<forall>r \<in> set C. \<forall>k. WorkflowInstanceID r = Some k \<longrightarrow> (\<exists>i \<in> set I. wi_ID i = k \<and> mirrors i r))"

definition cases_ok :: "'s case_db_scheme \<Rightarrow> bool" where
  "cases_ok s \<longleftrightarrow> mirrored (workflow_definitions s) (workflow_instances s) (cases s)"

lemma mirroredD:
  assumes "mirrored D I C"
  shows "d \<in> set D \<Longrightarrow> InitialState d \<noteq> []" "distinct (map cs_ID C)" "r \<in> set C \<Longrightarrow> case_row_ok r"
    "i \<in> set I \<Longrightarrow> \<exists>r \<in> set C. mirrors i r"
    "r \<in> set C \<Longrightarrow> WorkflowInstanceID r = Some k \<Longrightarrow> \<exists>i \<in> set I. wi_ID i = k \<and> mirrors i r"
  using assms by (auto simp: mirrored_def)

lemma mirror_unique:
  assumes "mirrored D I C" "i \<in> set I" "r \<in> set C" "cs_ID r = wi_CaseID i"
  shows "mirrors i r"
proof -
  obtain q where "q \<in> set C" "mirrors i q" using mirroredD(4) [OF assms(1,2)] by blast
  moreover from this have "q = r"
    using by_distinct_key [OF mirroredD(2) [OF assms(1)], of q r] assms(3,4) by (simp add: mirrors_def)
  ultimately show ?thesis by simp
qed

subsection \<open>Changes that keep it\<close>

lemma mirrored_new_case:
  assumes ok: "mirrored D I C" and r: "cs_ID r \<notin> cs_ID ` set C" "case_row_ok r" "WorkflowInstanceID r = None"
  shows "mirrored D I (C @ [r])"
  unfolding mirrored_def
proof (intro conjI ballI allI impI)
  show "distinct (map cs_ID (C @ [r]))" using mirroredD(2) [OF ok] r(1) by simp
  show "\<exists>q \<in> set (C @ [r]). mirrors i q" if "i \<in> set I" for i using mirroredD(4) [OF ok that] by auto
  show "\<exists>i \<in> set I. wi_ID i = k \<and> mirrors i q"
    if "q \<in> set (C @ [r])" "WorkflowInstanceID q = Some k" for q k
    using that r(3) mirroredD(5) [OF ok] by auto
qed (use mirroredD(1,3) [OF ok] r in auto)

lemma mirrored_new_instance:
  assumes ok: "mirrored D I C" and r: "cs_ID r \<notin> cs_ID ` set C" "case_row_ok r" and m: "mirrors i r"
  shows "mirrored D (I @ [i]) (C @ [r])"
  unfolding mirrored_def
proof (intro conjI ballI allI impI)
  show "distinct (map cs_ID (C @ [r]))" using mirroredD(2) [OF ok] r(1) by simp
  show "\<exists>q \<in> set (C @ [r]). mirrors j q" if "j \<in> set (I @ [i])" for j
    using that mirroredD(4) [OF ok, of j] m by auto
  show "\<exists>j \<in> set (I @ [i]). wi_ID j = k \<and> mirrors j q"
    if "q \<in> set (C @ [r])" "WorkflowInstanceID q = Some k" for q k
    using that m mirroredD(5) [OF ok, of q k] by (auto simp: mirrors_def)
qed (use mirroredD(1,3) [OF ok] r in auto)

text \<open>A transition of an instance, with its case.\<close>

lemma mirrored_transition:
  assumes ok: "mirrored D I C" and ids: "distinct (map wi_CaseID I)" and i: "i \<in> set I" "CompletedAt i = None" "1 \<le> wi_Version i"
    and r: "r \<in> set C" "cs_OrganizationID r = wi_TenantID i" "cs_ID r = wi_CaseID i"
    and row: "case_row_ok (state_changes n (ToState t) final r)"
  shows "mirrored D (map (\<lambda>y. if y = i then moved t final n y else y) I)
    (update_where (case_at (wi_TenantID i) (wi_CaseID i) (cs_Version r)) (state_changes n (ToState t) final) C)"
proof -
  let ?f = "\<lambda>y. if y = i then moved t final n y else y"
  let ?g = "\<lambda>q. if q = r then state_changes n (ToState t) final q else q"
  have only: "case_at (wi_TenantID i) (wi_CaseID i) (cs_Version r) q \<longleftrightarrow> q = r" if "q \<in> set C" for q
    using by_distinct_key [OF mirroredD(2) [OF ok] that r(1)] r by (auto simp: case_at_def)
  then have C: "update_where (case_at (wi_TenantID i) (wi_CaseID i) (cs_Version r)) (state_changes n (ToState t) final) C
      = map ?g C"
    unfolding update_where_def by (intro map_cong refl) simp
  have here: "mirrors (moved t final n i) (?g r)"
    using mirror_unique [OF ok i(1) r(1,3)] i(2,3) by (simp add: mirrors_def moved_def)
  have pair: "mirrors (?f y) (?g q)" if "y \<in> set I" "q \<in> set C" "mirrors y q" for y q
  proof -
    have "y = i \<longleftrightarrow> q = r"
      using that(3) r(3) by_distinct_key [OF ids that(1) i(1)] by_distinct_key [OF mirroredD(2) [OF ok] that(2) r(1)]
      by (auto simp: mirrors_def)
    then show ?thesis using that(3) here by (cases "q = r") auto
  qed
  show ?thesis
    unfolding C mirrored_def
  proof (intro conjI ballI allI impI)
    have "map cs_ID (map ?g C) = map cs_ID C" by simp
    then show "distinct (map cs_ID (map ?g C))" using mirroredD(2) [OF ok] by metis
    show "case_row_ok q" if "q \<in> set (map ?g C)" for q
      using that row mirroredD(3) [OF ok] by (auto split: if_splits)
    show "\<exists>q \<in> set (map ?g C). mirrors y q" if y: "y \<in> set (map ?f I)" for y
    proof -
      obtain z where z: "z \<in> set I" "y = ?f z" using y unfolding set_map image_iff by blast
      then obtain q where "q \<in> set C" "mirrors z q" using mirroredD(4) [OF ok] by blast
      then show ?thesis using pair z by (intro bexI [of _ "?g q"]) auto
    qed
    show "\<exists>y \<in> set (map ?f I). wi_ID y = k \<and> mirrors y q" if q: "q \<in> set (map ?g C)" "WorkflowInstanceID q = Some k" for q k
    proof -
      obtain p where p: "p \<in> set C" "q = ?g p" "WorkflowInstanceID p = Some k" using q by (auto split: if_splits)
      then obtain y where y: "y \<in> set I" "wi_ID y = k" "mirrors y p" using mirroredD(5) [OF ok] by blast
      then have "wi_ID (?f y) = k" "mirrors (?f y) q" using pair [OF y(1) p(1) y(3)] y(2) p(2) by auto
      then show ?thesis using y(1) by (intro bexI [of _ "?f y"]) auto
    qed
  qed (use mirroredD(1) [OF ok] in auto)
qed

text \<open>Changes of cases that do not show in the mirror, and of definitions that keep the initial state.\<close>

lemma mirrored_case_change:
  assumes ok: "mirrored D I C"
    and g: "\<And>r. cs_ID (g r) = cs_ID r" "\<And>r i. mirrors i (g r) = mirrors i r"
      "\<And>r. WorkflowInstanceID (g r) = WorkflowInstanceID r" "\<And>r. r \<in> set C \<Longrightarrow> case_row_ok (g r)"
  shows "mirrored D I (map g C)"
  using ok g unfolding mirrored_def by (simp add: o_def)

lemma mirrored_definitions:
  "mirrored D I C \<Longrightarrow> (\<And>d. d \<in> set D' \<Longrightarrow> InitialState d \<noteq> []) \<Longrightarrow> mirrored D' I C"
  by (simp add: mirrored_def)

subsection \<open>Runs\<close>

text \<open>The requests on definitions, whatever their outcome.\<close>

inductive definition_request :: "'s case_db_scheme auditor \<Rightarrow> 's case_db_scheme \<Rightarrow> 's case_db_scheme \<Rightarrow> bool" for auditor where
  create: "CreateWorkflowDefinition auditor c params s = (r1, s') \<Longrightarrow> definition_request auditor s s'"
| update: "UpdateWorkflowDefinition auditor c uparams s = (r1, s') \<Longrightarrow> definition_request auditor s s'"
| activate: "ActivateWorkflowDefinition auditor c tenantID i actorID s = (r2, s') \<Longrightarrow> definition_request auditor s s'"
| archive: "ArchiveWorkflowDefinition auditor c tenantID i actorID s = (r2, s') \<Longrightarrow> definition_request auditor s s'"
| delete: "DeleteWorkflowDefinition auditor c tenantID i actorID s = (r2, s') \<Longrightarrow> definition_request auditor s s'"

text \<open>
  A run is the list of its committed stores, the latest first. The reads that a request makes
  before its transaction may come from any of them. The instance of a case is only created by
  CreateCase; requests of other services leave the workflow tables and the cases alone, except
  that they may execute a transition inside their own transaction (\<open>nested\<close>).
\<close>

inductive case_run :: "'s case_db_scheme CaseService \<Rightarrow> 's case_db_scheme list \<Rightarrow> bool" for svc where
  start: "wf_tables s = ([], [], [], [], []) \<Longrightarrow> cases s = [] \<Longrightarrow> case_run svc [s]"
| workflow: "case_run svc (s # run) \<Longrightarrow> definition_request (wfAuditor svc) s s' \<Longrightarrow> case_run svc (s' # s # run)"
| transition: "case_run svc (s # run) \<Longrightarrow> s0 \<in> set (s # run)
    \<Longrightarrow> executeTransition (wfAuditor svc) (case_observer svc c) c s0 False eparams s = (r1, s')
    \<Longrightarrow> case_run svc (s' # s # run)"
| create_case: "case_run svc (s # run) \<Longrightarrow> s0 \<in> set (s # run) \<Longrightarrow> CreateCase svc c s0 cparams s = (r2, s')
    \<Longrightarrow> case_run svc (s' # s # run)"
| change_status: "case_run svc (s # run) \<Longrightarrow> s0 \<in> set (s # run) \<Longrightarrow> ChangeStatus svc c s0 sparams s = (r2, s')
    \<Longrightarrow> case_run svc (s' # s # run)"
| assign: "case_run svc (s # run) \<Longrightarrow> s0 \<in> set (s # run)
    \<Longrightarrow> AssignCase svc c s0 orgID caseID userID actorID s = (r2, s') \<Longrightarrow> case_run svc (s' # s # run)"
| nested: "case_run svc (s # run) \<Longrightarrow> s0 \<in> set (s # run) \<Longrightarrow> same_records s s1
    \<Longrightarrow> executeTransition (wfAuditor svc) (case_observer svc c) c s0 True eparams s1 = (Inr res, s2)
    \<Longrightarrow> same_records s2 s' \<Longrightarrow> case_run svc (s' # s # run)"
| elsewhere: "case_run svc (s # run) \<Longrightarrow> wf_tables s' = wf_tables s \<Longrightarrow> cases s' = cases s
    \<Longrightarrow> case_run svc (s' # s # run)"

inductive_cases case_run_NilE: "case_run svc []"

definition case_run_ok :: "'s case_db_scheme list \<Rightarrow> bool" where
  "case_run_ok run \<longleftrightarrow> run_ok run \<and> (\<forall>s \<in> set run. cases_ok s)"

definition keeps_ok :: "'s case_db_scheme \<Rightarrow> 's case_db_scheme \<Rightarrow> bool" where
  "keeps_ok s s' \<longleftrightarrow> wf_ok s' \<and> wf_evolves s s' \<and> cases_ok s'"

lemma case_run_next:
  assumes "case_run_ok (s # run)" "s' = s \<or> keeps_ok s s'"
  shows "case_run_ok (s' # s # run)"
proof -
  have ok: "run_ok (s # run)" "cases_ok s" "\<forall>s \<in> set (s # run). cases_ok s"
    using assms(1) by (simp_all add: case_run_ok_def)
  have "run_ok (s' # s # run)"
  proof (rule run_ok_next [OF ok(1), of "Inr ()"])
    show "wf_ok s' \<and> wf_evolves s s'" if "wf_ok s"
      using assms(2) that evolution.refl by (auto simp: keeps_ok_def)
  qed simp
  moreover have "cases_ok s'" using assms(2) ok(2) by (auto simp: keeps_ok_def)
  ultimately show ?thesis using ok(3) by (simp add: case_run_ok_def)
qed

text \<open>A request that changes nothing when it fails.\<close>

lemma atomic_outcome:
  assumes "tx_atomic m" "m s = (r, s')" "\<And>a. m s = (Inr a, s') \<Longrightarrow> keeps_ok s s'"
  shows "s' = s \<or> keeps_ok s s'"
  using assms by (cases r) (auto dest: tx_atomicD)

lemma case_requests_atomic:
  "tx_atomic (CreateCase svc c s0 p)" "tx_atomic (ChangeStatus svc c s0 q)"
  "tx_atomic (AssignCase svc c s0 orgID caseID userID actorID)"
proof -
  show "tx_atomic (CreateCase svc c s0 p)"
    unfolding CreateCase_def by (cases "cc_PersonID p") (simp_all, (intro tx_atomic_intros)+)
  show "tx_atomic (ChangeStatus svc c s0 q)"
    unfolding ChangeStatus_def changeStatusViaWorkflow_def
    by (auto intro!: tx_atomic_intros tx_pure_atomic [OF tx_pure_intros(2)] split: option.split)
  show "tx_atomic (AssignCase svc c s0 orgID caseID userID actorID)"
    unfolding AssignCase_def by (cases "userChecker svc") (simp_all, (intro tx_atomic_intros)+)
qed

lemma same_keeps: "wf_ok s \<Longrightarrow> cases_ok s \<Longrightarrow> wf_tables s' = wf_tables s \<Longrightarrow> cases s' = cases s \<Longrightarrow> keeps_ok s s'"
  using evolves_same_tables [of s s'] by (simp add: keeps_ok_def cases_ok_def wf_ok_def wf_tables_def)

text \<open>The definitions that a request leaves have the initial states of the old ones, or a validated one.\<close>

lemma initial_update_where:
  assumes "mirrored D I C" "d \<in> set (update_where p (\<lambda>d. d\<lparr>wd_Status := st, wd_UpdatedAt := n\<rparr>) D)"
  shows "InitialState d \<noteq> []"
  using assms mirroredD(1) [OF assms(1)] by (auto simp: update_where_def split: if_splits)

lemma validated_initial: "ValidateWorkflowDefinition def = [] \<Longrightarrow> InitialState def \<noteq> []"
  by (auto simp: ValidateWorkflowDefinition_def basic_errors_def split: if_splits)

context case_environment
begin

lemma definition_request_keeps:
  assumes req: "definition_request (wfAuditor svc) s s'" and ok: "wf_ok s" "cases_ok s"
  shows "s' = s \<or> keeps_ok s s'"
proof -
  have env: "wf_environment (wfAuditor svc) None"
    using environment by (simp add: wf_environment_def no_observer_quiet)
  have step: "keeps_ok s s'"
    if "wf_ok s' \<and> wf_evolves s s'" "same_more s s'" "wf_tables s' = (D, S, T, workflow_instances s, H)"
      "\<And>d. d \<in> set D \<Longrightarrow> InitialState d \<noteq> []" for D S T H
    using that ok(2) more_records [of s' s] mirrored_definitions [of "workflow_definitions s" "workflow_instances s" "cases s" D]
    by (simp add: keeps_ok_def cases_ok_def same_more_def wf_tables_eq)
  note m = ok(2) [unfolded cases_ok_def]
  note more = more_frame.framedD [OF definition_requests_more(1) [OF wf_auditor]]
    more_frame.framedD [OF definition_requests_more(2) [OF wf_auditor]]
    more_frame.framedD [OF definition_requests_more(3) [OF wf_auditor]]
    more_frame.framedD [OF definition_requests_more(4) [OF wf_auditor]]
  from req show ?thesis
  proof cases
    case (create c params r)
    show ?thesis
    proof (cases r)
      case (Inl e)
      then show ?thesis using create CreateWorkflowDefinition_Inl by blast
    next
      case (Inr d)
      note run = create [unfolded Inr]
      note e = wf_environment.CreateWorkflowDefinition_Inr [OF env run]
      have "InitialState x \<noteq> []" if "x \<in> set (workflow_definitions s @ [def_row (new_definition c params)])" for x
        using that mirroredD(1) [OF m] validated_initial [OF e(1)] by (auto simp: def_row_def)
      then show ?thesis
        using step [OF wf_environment.create_keeps [OF env ok(1) run] more(1) [OF run] e(5)] by blast
    qed
  next
    case (update c params r)
    then show ?thesis using UpdateWorkflowDefinition_fails [OF ok(1)] by (metis prod.inject)
  next
    case (activate c tenantID i actorID r)
    show ?thesis
    proof (cases r)
      case (Inr u)
      note run = activate [unfolded Inr]
      show ?thesis
        by (rule wf_environment.ActivateWorkflowDefinition_Inr [OF env run], rule disjI2,
          rule step [OF wf_environment.activate_keeps [OF env ok(1) run] more(2) [OF run]], assumption)
          (rule initial_update_where [OF m])
    qed (use activate definition_calls_Inl in auto)
  next
    case (archive c tenantID i actorID r)
    show ?thesis
    proof (cases r)
      case (Inr u)
      note run = archive [unfolded Inr]
      show ?thesis
        by (rule wf_environment.ArchiveWorkflowDefinition_Inr [OF env run], rule disjI2,
          rule step [OF wf_environment.archive_keeps [OF env ok(1) run] more(3) [OF run]], assumption)
          (rule initial_update_where [OF m])
    qed (use archive definition_calls_Inl in auto)
  next
    case (delete c tenantID i actorID r)
    show ?thesis
    proof (cases r)
      case (Inr u)
      note run = delete [unfolded Inr]
      show ?thesis
        by (rule wf_environment.DeleteWorkflowDefinition_Inr [OF env run], rule disjI2,
          rule step [OF wf_environment.delete_keeps [OF env ok(1) run] more(4) [OF run]], assumption)
          (use mirroredD(1) [OF m] in auto)
    qed (use delete definition_calls_Inl in auto)
  qed
qed

end

lemma enabled_live:
  assumes ok: "wf_ok s" and en: "enabled s params i d t x"
  shows "i \<in> set (workflow_instances s)" "CompletedAt i = None" "1 \<le> wi_Version i"
proof -
  note ok' = ok [unfolded wf_ok_tables]
  show i: "i \<in> set (workflow_instances s)" using en by (simp add: enabled_def)
  obtain d' where "d' \<in> set (workflow_definitions s)" "runs d' i"
    and "instance_ok d' (workflow_states s) (workflow_transitions s) (history_of i (workflow_history s)) i"
    using tables_okD(9) [OF ok' i] by blast
  moreover from this have "d' = d"
    using en by_distinct_key [OF tables_okD(2) [OF ok'], of d' d] by (auto simp: enabled_def runs_def)
  ultimately show "CompletedAt i = None" "1 \<le> wi_Version i"
    using en by (auto simp: instance_ok_def enabled_def)
qed

context case_environment
begin

lemma transition_keeps:
  assumes ok: "wf_ok s0" "wf_ok s" "cases_ok s" and ev: "wf_evolves s0 s"
    and run: "executeTransition (wfAuditor svc) (case_observer svc c) c s0 outer params s = (Inr res, s')"
  shows "keeps_ok s s'"
proof (rule case_transition_Inr [OF ok(1,2) ev run])
  fix i d t x r
  assume en: "enabled s params i d t x" and r: "r \<in> set (cases s)" "cs_OrganizationID r = wi_TenantID i" "cs_ID r = wi_CaseID i"
    and row: "case_row_ok (state_changes (ctx_time c 1) (ToState t) (Terminal x) r)"
    and t: "wf_tables s' = (workflow_definitions s, workflow_states s, workflow_transitions s,
       map (\<lambda>y. if y = i then moved t (Terminal x) (ctx_time c 1) y else y) (workflow_instances s),
       workflow_history s @ [history_row (transition_history c params i t)])"
    and C: "cases s' = update_where (case_at (wi_TenantID i) (wi_CaseID i) (cs_Version r))
       (state_changes (ctx_time c 1) (ToState t) (Terminal x)) (cases s)"
  note live = enabled_live [OF ok(2) en]
  have "mirrored (workflow_definitions s)
      (map (\<lambda>y. if y = i then moved t (Terminal x) (ctx_time c 1) y else y) (workflow_instances s)) (cases s')"
    unfolding C by (rule mirrored_transition [OF ok(3) [unfolded cases_ok_def] _ live r row])
      (rule tables_okD(4) [OF ok(2) [unfolded wf_ok_tables]])
  then show ?thesis
    using t wf_environment.execute_keeps [OF environment ok(1,2) ev run]
    by (simp add: keeps_ok_def cases_ok_def wf_tables_eq)
qed

lemma create_case_keeps:
  assumes ok: "wf_ok s" "cases_ok s" and run: "CreateCase svc c s0 p s = (Inr cs', s')"
  shows "keeps_ok s s'"
proof (rule CreateCase_once [OF run])
  note m = ok(2) [unfolded cases_ok_def]
  fix w and cs0 :: Case
  define cs where "cs = cs0\<lparr>WorkflowID := Some w\<rparr>"
  assume new: "NewCase c (cc_OrganizationID p) (cc_CreatedByID p) (cc_Title p) (cc_Description p) (cc_ServiceType p)
       (cc_Priority p) (cc_PersonID p) = Inr cs0"
    and ins: "case_insert_result (cs0\<lparr>WorkflowID := Some w\<rparr>) (cases s) = Inserted"
    and saved: "after_save svc c p (cs0\<lparr>WorkflowID := Some w\<rparr>)
      (s\<lparr>cases := cases s @ [case_row (cs0\<lparr>WorkflowID := Some w\<rparr>)]\<rparr>) = (Inr cs', s')"
  let ?s = "s\<lparr>cases := cases s @ [case_row cs]\<rparr>"
  have cs: "WorkflowInstanceID cs = None" "cs_Status cs = ''NEW''" "ClosedAt cs = None" "cs_Version cs = 1"
    using new by (auto simp: cs_def NewCase_def split: option.splits)
  have id: "cs_ID cs \<notin> cs_ID ` set (cases s)" "case_row_ok cs"
    using ins by (auto simp: case_insert_result_def cs_def split: if_splits)
  have row: "case_row_ok (case_row cs)" using id(2) by (auto simp: case_row_ok_def case_row_def)
  have ok': "wf_ok ?s" "wf_evolves s ?s"
    using ok(1) evolves_same_tables [of s ?s] by (simp_all add: wf_ok_def wf_tables_def)
  note saved = saved [folded cs_def]
  show ?thesis
  proof (cases "wfAvailable svc")
    case True
    show ?thesis
    proof (rule after_save_Inr [OF saved True _ id(1)])
      show "cases ?s = cases s @ [case_row cs]" by simp
      fix v and d :: WorkflowDefinition and i
      let ?st = "if InitialState d = [] then cs_Status cs else InitialState d"
      let ?r = "linked_row (ctx_time c 1) i ?st (case_row cs)"
      assume d: "def_FindByID (cs_OrganizationID cs) v ?s = Inr d"
        and i: "i = new_instance (later_ctx 20 c) (cs_OrganizationID cs) (cs_ID cs) d"
        and C: "cases s' = cases s @ [?r]" and blank: "\<not> status_blank ?st"
        and t: "wf_tables s' = (workflow_definitions ?s, workflow_states ?s, workflow_transitions ?s,
          workflow_instances ?s @ [instance_row i], workflow_history ?s)"
        and keeps: "wf_ok ?s \<Longrightarrow> wf_ok s' \<and> wf_evolves ?s s'"
      have st: "?st = InitialState d" using def_FindByID_Inr [OF d] mirroredD(1) [OF m, of d] by simp
      have "mirrors (instance_row i) ?r"
        unfolding st by (simp add: mirrors_def i new_instance_def instance_row_def)
      moreover have "case_row_ok ?r"
        using blank cs(4) by (simp add: case_row_ok_def IsClosed_def linked_row_def int4_def)
      ultimately have "mirrored (workflow_definitions s) (workflow_instances s @ [instance_row i]) (cases s')"
        unfolding C by (intro mirrored_new_instance [OF m]) (simp_all add: id)
      then show ?thesis
        using t keeps [OF ok'(1)] evolution.trans [OF ok'(2)] by (simp add: keeps_ok_def cases_ok_def wf_tables_eq)
    qed
  next
    case False
    then have "\<exists>u. case_audit svc c (cs_OrganizationID cs) (cs_CreatedByID cs) ''case.created'' (cs_ID cs) [] ?s = (Inr u, s')"
      using saved by (auto simp: after_save_def tx_Inr)
    then have "same_records ?s s'" using case_audit_records by blast
    moreover have "mirrored (workflow_definitions s) (workflow_instances s) (cases s @ [case_row cs])"
      using mirrored_new_case [OF m, of "case_row cs"] id(1) row cs(1) by simp
    ultimately show ?thesis
      using ok(1) evolves_same_tables [of s s']
      by (simp add: keeps_ok_def cases_ok_def same_records_def wf_ok_def wf_tables_def)
  qed
qed

text \<open>A transition inside the transaction of another service, with its own writes around it.\<close>

lemma same_records_ok:
  "same_records s s' \<Longrightarrow> wf_ok s \<Longrightarrow> wf_ok s'" "same_records s s' \<Longrightarrow> cases_ok s \<Longrightarrow> cases_ok s'"
  "same_records s s' \<Longrightarrow> wf_evolves s s'"
  using evolves_same_tables [of s s'] by (simp_all add: same_records_def cases_ok_def wf_ok_def wf_tables_def)

lemma nested_keeps:
  assumes ok: "wf_ok s0" "wf_ok s" "cases_ok s" and ev: "wf_evolves s0 s" and s1: "same_records s s1"
    and run: "executeTransition (wfAuditor svc) (case_observer svc c) c s0 outer params s1 = (Inr res, s2)"
    and s2: "same_records s2 s'"
  shows "keeps_ok s s'"
proof -
  note same = same_records_ok [OF s1]
  have "keeps_ok s1 s2" by (rule transition_keeps [OF ok(1) same(1) [OF ok(2)] same(2) [OF ok(3)]
      evolution.trans [OF ev same(3)] run])
  then show ?thesis
    using same_records_ok [OF s2] evolution.trans [OF same(3)] evolution.trans by (meson keeps_ok_def)
qed

lemma change_status_keeps:
  assumes ok: "wf_ok s0" "wf_ok s" "cases_ok s" and ev: "wf_evolves s0 s"
    and run: "ChangeStatus svc c s0 p s = (Inr cs', s')"
  shows "keeps_ok s s'"
  by (rule ChangeStatus_Inr [OF run]) (rule nested_keeps [OF ok ev records_frame.refl])

lemma assign_keeps:
  assumes ok: "wf_ok s" "cases_ok s" and run: "AssignCase svc c s0 orgID caseID userID actorID s = (Inr cs, s')"
  shows "keeps_ok s s'"
proof (rule AssignCase_Inr [OF run])
  fix s1
  define g where "g = (\<lambda>r. if case_by_id orgID caseID r
     then r\<lparr>AssignedToID := Some userID, cs_UpdatedAt := ctx_time c 1\<rparr> else r)"
  assume "s1 = s\<lparr>cases := update_where (case_by_id orgID caseID)
       (\<lambda>r. r\<lparr>AssignedToID := Some userID, cs_UpdatedAt := ctx_time c 1\<rparr>) (cases s)\<rparr>" and same: "same_records s1 s'"
  then have s1: "s1 = s\<lparr>cases := map g (cases s)\<rparr>" unfolding g_def update_where_def by blast
  then have t: "wf_tables s' = wf_tables s" "cases s' = map g (cases s)"
    using same by (simp_all add: same_records_def wf_tables_def)
  have "mirrored (workflow_definitions s) (workflow_instances s) (map g (cases s))"
    using mirroredD(3) [OF ok(2) [unfolded cases_ok_def]]
    by (intro mirrored_case_change [OF ok(2) [unfolded cases_ok_def]]) (auto simp: mirrors_def case_row_ok_def g_def)
  then show ?thesis
    using t ok(1) evolves_same_tables [of s s'] by (simp add: keeps_ok_def cases_ok_def wf_ok_def wf_tables_def)
qed

lemma case_run_is_ok: "case_run svc run \<Longrightarrow> case_run_ok run"
proof (induction rule: case_run.induct)
  case (start s)
  then show ?case
    by (simp add: case_run_ok_def run_ok_def wf_ok_def tables_ok_def evolution.refl cases_ok_def mirrored_def wf_tables_eq)
      (simp add: wf_tables_def)
next
  case (workflow s run s')
  then show ?case
    by (intro case_run_next definition_request_keeps) (auto simp: case_run_ok_def run_ok_def)
next
  case (transition s run s0 c params r s')
  have ok: "wf_ok s0" "wf_ok s" "cases_ok s" "wf_evolves s0 s"
    using transition.IH transition.hyps(2) by (auto simp: case_run_ok_def run_ok_def)
  have "s' = s \<or> keeps_ok s s'"
    using transition.hyps(3) transition_keeps [OF ok] executeTransition_Inl by (cases r) blast+
  then show ?case by (rule case_run_next [OF transition.IH])
next
  case (create_case s run s0 c p r s')
  have ok: "wf_ok s" "cases_ok s" using create_case.IH by (auto simp: case_run_ok_def run_ok_def)
  show ?case
    by (rule case_run_next [OF create_case.IH],
      rule atomic_outcome [OF case_requests_atomic(1) create_case.hyps(3) create_case_keeps [OF ok]])
next
  case (change_status s run s0 c p r s')
  have ok: "wf_ok s0" "wf_ok s" "cases_ok s" "wf_evolves s0 s"
    using change_status.IH change_status.hyps(2) by (auto simp: case_run_ok_def run_ok_def)
  show ?case
    by (rule case_run_next [OF change_status.IH],
      rule atomic_outcome [OF case_requests_atomic(2) change_status.hyps(3) change_status_keeps [OF ok]])
next
  case (assign s run s0 c orgID caseID userID actorID r s')
  have ok: "wf_ok s" "cases_ok s" using assign.IH by (auto simp: case_run_ok_def run_ok_def)
  show ?case
    by (rule case_run_next [OF assign.IH],
      rule atomic_outcome [OF case_requests_atomic(3) assign.hyps(3) assign_keeps [OF ok]])
next
  case (nested s run s0 s1 c params res s2 s')
  have ok: "wf_ok s0" "wf_ok s" "cases_ok s" "wf_evolves s0 s"
    using nested.IH nested.hyps(2) by (auto simp: case_run_ok_def run_ok_def)
  show ?case by (rule case_run_next [OF nested.IH disjI2 [OF nested_keeps [OF ok nested.hyps(3-5)]]])
next
  case (elsewhere s run s')
  then show ?case
    by (intro case_run_next disjI2 same_keeps) (auto simp: case_run_ok_def run_ok_def)
qed

end

end
