(* ===== verification/Review_Effects.thy ===== *)
theory Review_Effects
  imports Review_Service Case_Runs
begin

section \<open>What the operations on decisions and reviews do\<close>

text \<open>
  The changes that the decision service and the review queue make when they succeed. Their
  transitions run inside their own transactions; the locale \<open>review_environment\<close> extends
  the one of the case service by what the new auditors and the evaluation of rules keep.
\<close>

subsection \<open>The tables\<close>

definition same_reviews :: "'s review_db_scheme \<Rightarrow> 's review_db_scheme \<Rightarrow> bool" where
  "same_reviews s s' \<longleftrightarrow> decisions s' = decisions s \<and> review_queue s' = review_queue s"

interpretation reviews_frame: tx_frame same_reviews
  by unfold_locales (simp_all add: same_reviews_def)

lemma more_same_reviews: "wf_db.more s' = wf_db.more s \<Longrightarrow> same_reviews s s'" for s :: "'s review_db_scheme"
  by (cases s; cases s'; simp add: same_reviews_def)

lemma more_framed_reviews: "tx_framed same_more m \<Longrightarrow> tx_framed same_reviews m" for m :: "('s review_db_scheme, 'a) tx"
  by (simp add: tx_framed_def same_more_def more_same_reviews)

lemma audit_grows_reviews: "audit_grows s s' \<Longrightarrow> same_reviews s s'" for s :: "'s review_db_scheme"
  by (drule audit_grows_tables(2)) (rule more_same_reviews)

lemma audit_framed_reviews: "growing_auditor auditor \<Longrightarrow> tx_framed same_reviews (RecordAuditEventInTx auditor ps)"
  for auditor :: "'s review_db_scheme auditor"
  by (rule more_framed_reviews [OF audit_more_frame])

lemma records_of_update [simp]:
  "same_records s (s\<lparr>decisions := D\<rparr>)" "same_records s (s\<lparr>review_queue := Q\<rparr>)"
  by (simp_all add: same_records_def wf_tables_def form_tables_def)

subsection \<open>The environment\<close>

locale review_environment = case_environment svc for svc :: "'s review_db_scheme CaseService" +
  fixes ds :: "'s review_db_scheme DecisionService" and rs :: "'s review_db_scheme ReviewQueueService"
  assumes decision_auditor: "growing_auditor (decisionAuditor ds)"
    and review_auditor: "growing_auditor (reviewAuditor rs)"
    and rules_keep_reviews: "\<And>evaluate orgID caseID. ruleIntegration svc = Some evaluate
      \<Longrightarrow> tx_framed same_reviews (evaluate orgID caseID)"
begin

lemma decision_audit_same:
  "decision_audit ds c requestID orgID actorID action i meta s = (r, s') \<Longrightarrow> same_records s s' \<and> same_reviews s s'"
  using recorder.audit_grows [OF recorder.intro [OF decision_auditor]]
  by (auto simp: decision_audit_def intro: audit_grows_records audit_grows_reviews)

lemma review_audit_same:
  "review_audit rs c orgID actorID action i meta s = (r, s') \<Longrightarrow> same_records s s' \<and> same_reviews s s'"
  using recorder.audit_grows [OF recorder.intro [OF review_auditor]]
  by (auto simp: review_audit_def intro: audit_grows_records audit_grows_reviews)

lemma OnTransition_reviews: "tx_framed same_reviews (OnTransition svc c i t final)"
proof -
  have "tx_framed same_reviews (checkRequiredFormsCompleteInTx svc a b d k)" for a b d k
    by (rule reviews_frame.framedI) (simp add: checkRequiredFormsCompleteInTx_def same_reviews_def)
  moreover have "tx_framed same_reviews (case_FindByIDTx a b :: ('s review_db_scheme, Case) tx)" for a b
    by (rule reviews_frame.framedI) (simp add: case_FindByIDTx_def same_reviews_def)
  moreover have "tx_framed same_reviews (UpdateWorkflowStateTx n a b st v fin :: ('s review_db_scheme, unit) tx)"
    for n a b st v fin
    by (rule reviews_frame.framedI) (simp add: UpdateWorkflowStateTx_def case_update_def same_reviews_def)
  moreover have "tx_framed same_reviews (EvaluateCaseRules svc a b)" for a b
    unfolding EvaluateCaseRules_def
    by (auto intro: reviews_frame.throw rules_keep_reviews split: option.split)
  ultimately show ?thesis
    unfolding OnTransition_def
    by (auto intro!: reviews_frame.seq reviews_frame.bind reviews_frame.return reviews_frame.map_error)
qed

text \<open>A transition leaves decisions and reviews alone, observer included.\<close>

lemma transition_reviews:
  assumes "executeTransition (wfAuditor svc) (case_observer svc c) c s0 outer params s = (Inr res, s')"
  shows "same_reviews s s'"
proof -
  obtain i def t x where a: "apply_transition (wfAuditor svc) (case_observer svc c) c params i t x s = (Inr (), s')"
    using assms by (auto simp: executeTransition_def tx_Inr split: if_splits sum.splits prod.splits)
  obtain s1 where n: "notify (case_observer svc c) i t (Terminal x) s1 = (Inr (), s')"
    and more: "wf_db.more s1 = wf_db.more s"
    using transition_before_observer [OF wf_auditor a] by metis
  have "OnTransition svc c i t (Terminal x) s1 = (Inr (), s')"
    using n by (simp add: notify_def case_observer_def tx_Inr)
  then have "same_reviews s1 s'" by (rule reviews_frame.framedD [OF OnTransition_reviews])
  then show ?thesis using more_same_reviews [OF more] reviews_frame.trans by blast
qed

end

interpretation audited_reviews: review_environment
  "\<lparr>caseAuditor = Some (RecordEventInTx ft cfg c), personFinder = pf, userChecker = uc, wfAvailable = w,
    wfAuditor = Some (RecordEventInTx ft cfg c), formRepos = fr, ruleIntegration = None\<rparr>"
  "\<lparr>decisionUsers = du, decisionAuditor = Some (RecordEventInTx ft cfg c), decisionWorkflow = dw\<rparr>"
  "\<lparr>reviewUsers = ru, reviewAuditor = Some (RecordEventInTx ft cfg c), reviewWorkflow = rw, reviewDecisions = rd\<rparr>"
  for ft cfg c pf uc w fr du dw ru rw rd
  by unfold_locales (simp_all add: audit_service_grows)

subsection \<open>Statements\<close>

lemma saveDecision_Inr:
  "saveDecision d s = (Inr u, s') \<longleftrightarrow> int4 (dc_Version d) \<and> valid_decision (dc_Decision d)
     \<and> dc_ID d \<notin> dc_ID ` set (decisions s) \<and> (\<forall>e \<in> set (decisions s). same_request d e \<longrightarrow> dc_Version e \<noteq> dc_Version d)
     \<and> s' = s\<lparr>decisions := decisions s @ [decision_row d]\<rparr>"
  by (auto simp: saveDecision_def)

lemma updateDecision_Inr:
  "updateDecision orgID d s = (Inr u, s') \<longleftrightarrow> s' = s\<lparr>decisions := update_where
     (\<lambda>r. dc_ID r = dc_ID d \<and> dc_OrganizationID r = orgID)
     (\<lambda>r. r\<lparr>SupersededByID := (if SupersededByID d = Some uuid_nil then None else SupersededByID d)\<rparr>) (decisions s)\<rparr>"
  by (simp add: updateDecision_def tx_Inr)

lemma UpdateStatusTx_Inr:
  "UpdateStatusTx now orgID i st a s = (Inr u, s') \<longleftrightarrow>
     ((\<exists>r \<in> set (review_queue s). review_key orgID i r) \<longrightarrow> valid_review_status st)
     \<and> s' = s\<lparr>review_queue := update_where (review_key orgID i)
        (\<lambda>r. r\<lparr>rv_Status := st, rv_AssignedToID := a, rv_UpdatedAt := trunc_micros now\<rparr>) (review_queue s)\<rparr>"
  by (auto simp: UpdateStatusTx_def)

lemma NewDecisionWithContext_Inr:
  assumes "NewDecisionWithContext c orgID srID maker decision reason st rules ev form entry v = Inr d"
  shows "dc_ID d = ctx_uuid c 0" "dc_OrganizationID d = orgID" "ServiceRequestID d = srID" "dc_Decision d = decision"
    "SupersededByID d = None" "dc_Version d = (if v < 1 then 1 else v)" "DecisionMaker d = maker"
    "ReviewQueueEntryID d = entry" "ReasonRequired decision \<Longrightarrow> reason \<noteq> []" "dc_Reason d = reason" "dc_WorkflowState d = st"
  using assms by (auto simp: NewDecisionWithContext_def unless_def split: option.splits if_splits)

lemma decision_row_simps [simp]:
  "dc_ID (decision_row d) = dc_ID d" "dc_OrganizationID (decision_row d) = dc_OrganizationID d"
  "ServiceRequestID (decision_row d) = ServiceRequestID d" "dc_Decision (decision_row d) = dc_Decision d"
  "SupersededByID (decision_row d) = SupersededByID d" "dc_Version (decision_row d) = dc_Version d"
  "DecisionMaker (decision_row d) = DecisionMaker d" "dc_Reason (decision_row d) = dc_Reason d"
  by (simp_all add: decision_row_def)

lemma FindByServiceRequest_Inr:
  assumes "FindByServiceRequest orgID srID s = Inr d"
  shows "d \<in> set (decisions s)" "dc_OrganizationID d = orgID" "ServiceRequestID d = srID"
    "\<And>e. e \<in> set (decisions s) \<Longrightarrow> dc_OrganizationID e = orgID \<Longrightarrow> ServiceRequestID e = srID \<Longrightarrow> dc_Version e \<le> dc_Version d"
proof -
  let ?L = "sort_key (\<lambda>d. - dc_Version d) (request_decisions orgID srID (decisions s))"
  obtain ds where L: "?L = d # ds" using assms by (auto simp: FindByServiceRequest_def row_or_def split: list.splits)
  then have d: "set (d # ds) = set (request_decisions orgID srID (decisions s))" by (metis set_sort)
  then have "d \<in> set (request_decisions orgID srID (decisions s))" by auto
  then show "d \<in> set (decisions s)" "dc_OrganizationID d = orgID" "ServiceRequestID d = srID"
    by (auto simp: request_decisions_def)
  have "sorted (map (\<lambda>d. - dc_Version d) (d # ds))" using sorted_sort_key [of "\<lambda>d. - dc_Version d"] L by metis
  then show "dc_Version e \<le> dc_Version d"
    if "e \<in> set (decisions s)" "dc_OrganizationID e = orgID" "ServiceRequestID e = srID" for e
    using that d by (auto simp: request_decisions_def set_eq_iff)
qed

subsection \<open>Decisions\<close>

text \<open>A new first decision of a case.\<close>

definition first_decision :: "Decision list \<Rightarrow> Decision \<Rightarrow> bool" where
  "first_decision D d \<longleftrightarrow> dc_Version d = 1 \<and> SupersededByID d = None \<and> dc_ID d \<notin> dc_ID ` set D
     \<and> (\<forall>e \<in> set D. same_request d e \<longrightarrow> dc_Version e \<noteq> 1)"

lemma ExecuteTransitionInTx_Inr:
  "ExecuteTransitionInTx auditor observer c s0 params s = (Inr u, s')
     \<longleftrightarrow> executeTransition auditor observer c s0 True params s = (Inr u, s')"
  by (simp add: ExecuteTransitionInTx_def tx_Inr)

lemma decidable_case_Inr:
  "decidable_case ds committed orgID caseID s = (Inr u, s') \<longleftrightarrow>
     s' = s \<and> (\<exists>cs. case_FindByID orgID caseID committed = Inr cs)"
proof -
  have "cs_OrganizationID cs = orgID" if "case_FindByID orgID caseID committed = Inr cs" for cs
    using case_FindByID_Inr [OF that] by auto
  then show ?thesis by (simp add: decidable_case_def tx_Inr tx_read_def) blast
qed

lemma known_user_Inr: "known_user ds orgID actorID s = (Inr u, s') \<longleftrightarrow> s' = s \<and> decisionUsers ds orgID actorID = Inr True"
  by (auto simp: known_user_def tx_Inr tx_read_def)

context review_environment
begin

lemma MakeDecision_Inr:
  assumes "MakeDecision svc ds c committed p s = (Inr d, s')"
  obtains i ts t where
    "GetInstanceByCaseID (md_OrganizationID p) (md_ServiceRequestID p) committed = Inr i"
    "GetValidTransitions (md_OrganizationID p) (wi_ID i) committed = Inr ts"
    "t \<in> set ts" "wt_Key t = transition_key (md_Decision p)"
    "dc_OrganizationID d = md_OrganizationID p" "ServiceRequestID d = md_ServiceRequestID p" "dc_ID d = ctx_uuid c 0"
    "dc_Decision d = md_Decision p" "first_decision (decisions s) d"
    "moves_case svc (later_ctx 20 c) committed (decision_transition p (wi_ID i) (wt_Key t) (dc_ID d)) s s'"
    "decisions s' = decisions s @ [decision_row d]" "review_queue s' = review_queue s"
proof -
  obtain i ts t res s1 s2 st u where
    r: "GetInstanceByCaseID (md_OrganizationID p) (md_ServiceRequestID p) committed = Inr i"
    "GetValidTransitions (md_OrganizationID p) (wi_ID i) committed = Inr ts"
    and t: "List.find (\<lambda>t. wt_Key t = transition_key (md_Decision p)) ts = Some t"
    and d: "NewDecisionWithContext c (md_OrganizationID p) (md_ServiceRequestID p) (md_ActorID p) (md_Decision p)
              (md_Reason p) st (md_RuleEvaluationIDs p) (md_EvidenceIDs p) (md_FormSubmissionID p) None 1 = Inr d"
    and v: "saveDecision d s = (Inr (), s1)"
    and e: "executeTransition (wfAuditor svc) (case_observer svc (later_ctx 20 c)) (later_ctx 20 c) committed True
       (decision_transition p (wi_ID i) (wt_Key t) (dc_ID d)) s1 = (Inr res, s2)"
    and a: "decision_audit ds c (Some (ctx_request_id c)) (dc_OrganizationID d) (md_ActorID p) ''decision.made'' (dc_ID d) (decision_keys d) s2 = (Inr u, s')"
    using assms
    by (auto simp: MakeDecision_def tx_Inr tx_read_def ExecuteTransitionInTx_Inr decidable_case_Inr known_user_Inr split: option.splits sum.splits)
  note new = NewDecisionWithContext_Inr [OF d]
  note same = decision_audit_same [OF a] transition_reviews [OF e]
  have "first_decision (decisions s) d" "s1 = s\<lparr>decisions := decisions s @ [decision_row d]\<rparr>"
    using v new(5,6) by (simp_all add: saveDecision_Inr first_decision_def)
  moreover from this have "decisions s' = decisions s @ [decision_row d]" "review_queue s' = review_queue s"
    using same by (simp_all add: same_reviews_def)
  moreover have "moves_case svc (later_ctx 20 c) committed (decision_transition p (wi_ID i) (wt_Key t) (dc_ID d)) s s'"
    using e same calculation(2) by (auto simp: moves_case_def intro!: exI [of _ s1])
  ultimately show thesis
    using that [OF r _ _ new(2,3,1,4)] find_Some_mem [OF t] by blast
qed

lemma CreateDecisionTx_Inr:
  assumes "CreateDecisionTx ds c orgID srID maker decision reason st rules ev form entry s = (Inr d, s')"
  shows "dc_OrganizationID d = orgID" "ServiceRequestID d = srID" "dc_ID d = ctx_uuid c 0" "dc_Decision d = decision"
    "DecisionMaker d = maker" "ReviewQueueEntryID d = entry" "first_decision (decisions s) d"
    "decisions s' = decisions s @ [decision_row d]" "review_queue s' = review_queue s" "same_records s s'"
proof -
  obtain s1 u where d: "NewDecisionWithContext c orgID srID maker decision reason st rules ev form entry 1 = Inr d"
    and v: "saveDecision d s = (Inr (), s1)"
    and a: "decision_audit ds c None (dc_OrganizationID d) maker ''decision.made'' (dc_ID d) (decision_keys d) s1 = (Inr u, s')"
    using assms by (auto simp: CreateDecisionTx_def tx_Inr tx_read_def)
  note new = NewDecisionWithContext_Inr [OF d]
  note same = decision_audit_same [OF a]
  have s1: "s1 = s\<lparr>decisions := decisions s @ [decision_row d]\<rparr>" using v by (simp add: saveDecision_Inr)
  show "dc_OrganizationID d = orgID" "ServiceRequestID d = srID" "dc_ID d = ctx_uuid c 0" "dc_Decision d = decision"
    "DecisionMaker d = maker" "ReviewQueueEntryID d = entry" by (fact new)+
  show "first_decision (decisions s) d" using v new(5,6) by (simp add: saveDecision_Inr first_decision_def)
  show "decisions s' = decisions s @ [decision_row d]" "review_queue s' = review_queue s"
    using same s1 by (simp_all add: same_reviews_def)
  show "same_records s s'" using same s1 records_frame.trans [OF records_of_update(1)] by blast
qed

lemma SupersedeDecision_Inr:
  assumes "SupersedeDecision ds c committed p s = (Inr d, s')"
  obtains x where "FindByServiceRequest (sd_OrganizationID p) (sd_ServiceRequestID p) committed = Inr x"
    "dc_OrganizationID d = sd_OrganizationID p" "ServiceRequestID d = sd_ServiceRequestID p" "dc_ID d = ctx_uuid c 0"
    "dc_Decision d = sd_Decision p" "dc_Version d = (if dc_Version x + 1 < 1 then 1 else dc_Version x + 1)"
    "SupersededByID d = None"
    "dc_ID d \<notin> dc_ID ` set (decisions s)"
    "\<And>e. e \<in> set (decisions s) \<Longrightarrow> same_request d e \<Longrightarrow> dc_Version e \<noteq> dc_Version d"
    "decisions s' = update_where (\<lambda>r. dc_ID r = dc_ID x \<and> dc_OrganizationID r = sd_OrganizationID p)
       (\<lambda>r. r\<lparr>SupersededByID := (if dc_ID d = uuid_nil then None else Some (dc_ID d))\<rparr>) (decisions s) @ [decision_row d]"
    "review_queue s' = review_queue s" "same_records s s'"
proof -
  obtain x s1 s2 u meta where x: "FindByServiceRequest (sd_OrganizationID p) (sd_ServiceRequestID p) committed = Inr x"
    and d: "NewSupersedingDecision c (sd_OrganizationID p) (sd_ServiceRequestID p) (sd_ActorID p) (sd_Decision p)
            (sd_Reason p) (Some x) (sd_WorkflowState p) (sd_RuleEvaluationIDs p) (sd_EvidenceIDs p)
            (sd_FormSubmissionID p) None = Inr d"
    and up: "updateDecision (dc_OrganizationID x) (x\<lparr>SupersededByID := Some (dc_ID d)\<rparr>) s = (Inr (), s1)"
    and v: "saveDecision d s1 = (Inr (), s2)"
    and a: "decision_audit ds c (Some (ctx_request_id c)) (dc_OrganizationID d) (sd_ActorID p) ''decision.superseded'' (dc_ID d) meta s2 = (Inr u, s')"
    using assms by (auto simp: SupersedeDecision_def tx_Inr tx_read_def decidable_case_Inr known_user_Inr)
  define U where "U = update_where (\<lambda>r. dc_ID r = dc_ID x \<and> dc_OrganizationID r = sd_OrganizationID p)
       (\<lambda>r. r\<lparr>SupersededByID := (if dc_ID d = uuid_nil then None else Some (dc_ID d))\<rparr>) (decisions s)"
  note new = NewDecisionWithContext_Inr [OF d [unfolded NewSupersedingDecision_def]]
  note same = decision_audit_same [OF a]
  have s1: "s1 = s\<lparr>decisions := U\<rparr>"
    using up FindByServiceRequest_Inr(2) [OF x] by (simp add: updateDecision_Inr U_def cong: if_cong)
  have s2: "s2 = s\<lparr>decisions := U @ [decision_row d]\<rparr>" using v s1 by (simp add: saveDecision_Inr)
  have keep: "\<exists>y \<in> set U. dc_ID y = dc_ID e \<and> dc_OrganizationID y = dc_OrganizationID e
      \<and> ServiceRequestID y = ServiceRequestID e \<and> dc_Version y = dc_Version e" if "e \<in> set (decisions s)" for e
    using that unfolding U_def update_where_def set_map by (intro bexI [OF _ imageI [OF that]]) auto
  have new_in: "dc_ID d \<notin> dc_ID ` set U" "\<And>y. y \<in> set U \<Longrightarrow> same_request d y \<Longrightarrow> dc_Version y \<noteq> dc_Version d"
    using v unfolding s1 saveDecision_Inr by simp_all
  have old: "dc_ID e \<noteq> dc_ID d \<and> (same_request d e \<longrightarrow> dc_Version e \<noteq> dc_Version d)" if e: "e \<in> set (decisions s)" for e
  proof -
    obtain y where y: "y \<in> set U" "dc_ID y = dc_ID e" "dc_OrganizationID y = dc_OrganizationID e"
      "ServiceRequestID y = ServiceRequestID e" "dc_Version y = dc_Version e"
      using keep [OF e] by blast
    have "dc_ID y \<noteq> dc_ID d" using new_in(1) y(1) by (metis imageI)
    then show ?thesis using new_in(2) [OF y(1)] y(2-5) by (simp add: same_request_def)
  qed
  then have fresh: "dc_ID d \<notin> dc_ID ` set (decisions s)"
    "\<And>e. e \<in> set (decisions s) \<Longrightarrow> same_request d e \<Longrightarrow> dc_Version e \<noteq> dc_Version d"
    by (metis imageE, blast)
  have tables: "decisions s' = U @ [decision_row d]" "review_queue s' = review_queue s"
    using same s2 by (simp_all add: same_reviews_def)
  have "same_records s s'" using same s2 records_frame.trans [OF records_of_update(1)] by blast
  then show thesis using that [OF x new(2,3,1,4) _ new(5) fresh tables [unfolded U_def]] new(6) by simp
qed

end

subsection \<open>Reviews\<close>

definition reviewed :: "instant \<Rightarrow> ReviewStatus \<Rightarrow> uuid option \<Rightarrow> ReviewQueueEntry \<Rightarrow> ReviewQueueEntry" where
  "reviewed now st a r = r\<lparr>rv_Status := st, rv_AssignedToID := a, rv_UpdatedAt := trunc_micros now\<rparr>"

lemma reviewed_simps [simp]:
  "rv_ID (reviewed now st a r) = rv_ID r" "rv_OrganizationID (reviewed now st a r) = rv_OrganizationID r"
  "rv_CaseID (reviewed now st a r) = rv_CaseID r" "rv_Status (reviewed now st a r) = st"
  "rv_AssignedToID (reviewed now st a r) = a" "rv_CompletedAt (reviewed now st a r) = rv_CompletedAt r"
  "MissingInformation (reviewed now st a r) = MissingInformation r"
  by (simp_all add: reviewed_def)

lemma set_status_Inr:
  "set_status now orgID i st a s = (Inr u, s') \<Longrightarrow>
     s' = s\<lparr>review_queue := update_where (review_key orgID i) (reviewed now st a) (review_queue s)\<rparr>"
  by (simp add: set_status_def tx_Inr UpdateStatusTx_Inr reviewed_def [abs_def])

lemma review_FindByID_Inr:
  "review_FindByID orgID i s = Inr r \<Longrightarrow> r \<in> set (review_queue s) \<and> rv_OrganizationID r = orgID \<and> rv_ID r = i"
  by (auto simp: review_FindByID_def dest!: row_or_mem)

lemma Transition_Inr:
  "Transition c target a r = Inr r' \<Longrightarrow> CanTransition (rv_Status r) target \<and> rv_ID r' = rv_ID r
     \<and> rv_OrganizationID r' = rv_OrganizationID r \<and> rv_CaseID r' = rv_CaseID r \<and> rv_Status r' = target
     \<and> rv_AssignedToID r' = (if a = None then rv_AssignedToID r else a)"
  by (auto simp: Transition_def split: if_splits)

lemma own_review_Inr:
  assumes "own_review c committed orgID i reviewerID active target = Inr r"
  obtains q where "q \<in> set (review_queue committed)" "rv_OrganizationID q = orgID" "rv_ID q = i"
    "rv_AssignedToID q = Some reviewerID" "CanTransition (rv_Status q) target" "active \<Longrightarrow> rv_Status q = ReviewStatusInReview \<or> rv_Status q = ReviewStatusAssigned"
    "rv_ID r = i" "rv_CaseID r = rv_CaseID q" "rv_AssignedToID r = Some reviewerID" "rv_Status r = target"
  using assms
  by (auto simp: own_review_def split: sum.splits if_splits dest!: review_FindByID_Inr Transition_Inr)

text \<open>The decision that a review records, if it records one.\<close>

definition review_decides :: "'s review_db_scheme ReviewQueueService \<Rightarrow> uuid \<Rightarrow> ReviewQueueEntry \<Rightarrow> uuid \<Rightarrow> DecisionType
    \<Rightarrow> uuid option \<Rightarrow> Decision list \<Rightarrow> Decision list \<Rightarrow> bool" where
  "review_decides rs orgID r reviewerID decision decisionID D D' \<longleftrightarrow>
     (if \<not> reviewDecisions rs then decisionID = None \<and> D' = D
      else (\<exists>d. first_decision D d \<and> dc_OrganizationID d = orgID \<and> ServiceRequestID d = rv_CaseID r
        \<and> dc_Decision d = decision \<and> DecisionMaker d = reviewerID \<and> ReviewQueueEntryID d = Some (rv_ID r)
        \<and> decisionID = Some (dc_ID d) \<and> D' = D @ [decision_row d]))"

context review_environment
begin

lemma ClaimReview_Inr:
  assumes "ClaimReview rs c s0 orgID i a s = (Inr r, s')"
  obtains q where "q \<in> set (review_queue s)" "rv_OrganizationID q = orgID" "rv_ID q = i" "rv_Status q = ReviewStatusPending"
    "review_queue s' = update_where (review_key orgID i) (reviewed (ctx_time c 2) ReviewStatusAssigned (Some a)) (review_queue s)"
    "decisions s' = decisions s" "same_records s s'"
proof -
  obtain q s1 u where q: "review_FindByID orgID i s = Inr q" "rv_Status q = ReviewStatusPending"
    and t: "Transition c ReviewStatusAssigned (Some a) q = Inr r"
    and st: "set_status (ctx_time c 2) orgID (rv_ID r) ReviewStatusAssigned (Some a) s = (Inr (), s1)"
    and au: "review_audit rs c orgID a ''review.claimed'' (rv_ID r)
               [(''case_id'', GString (uuid_string (rv_CaseID r)))] s1 = (Inr u, s')"
    using assms by (auto simp: ClaimReview_def tx_Inr tx_read_def review_FindByIDTx_def)
  note s1 = set_status_Inr [OF st] and au = review_audit_same [OF au]
  have "rv_ID r = i" using review_FindByID_Inr [OF q(1)] Transition_Inr [OF t] by simp
  moreover have "same_records s s'" using s1 au records_frame.trans [OF records_of_update(2)] by blast
  ultimately show thesis
    using that [of q] review_FindByID_Inr [OF q(1)] q(2) s1 au by (simp add: same_reviews_def)
qed

lemma StartReview_Inr:
  assumes "StartReview rs c s0 orgID i a s = (Inr r, s')"
  obtains q where "q \<in> set (review_queue s0)" "rv_OrganizationID q = orgID" "rv_ID q = i" "CanTransition (rv_Status q) ReviewStatusInReview"
    "review_queue s' = update_where (review_key orgID i) (reviewed (ctx_time c 2) ReviewStatusInReview (Some a)) (review_queue s)"
    "decisions s' = decisions s" "same_records s s'"
proof -
  obtain s1 u where own: "own_review c s0 orgID i a False ReviewStatusInReview = Inr r"
    and st: "set_status (ctx_time c 2) orgID (rv_ID r) ReviewStatusInReview (rv_AssignedToID r) s = (Inr (), s1)"
    and au: "review_audit rs c orgID a ''review.started'' (rv_ID r)
               [(''case_id'', GString (uuid_string (rv_CaseID r)))] s1 = (Inr u, s')"
    using assms by (auto simp: StartReview_def tx_Inr)
  note s1 = set_status_Inr [OF st] and au = review_audit_same [OF au]
  have same: "same_records s s'" using s1 au records_frame.trans [OF records_of_update(2)] by blast
  show thesis
  proof (rule own_review_Inr [OF own])
    fix q
    assume "q \<in> set (review_queue s0)" "rv_OrganizationID q = orgID" "rv_ID q = i"
      "CanTransition (rv_Status q) ReviewStatusInReview" "rv_ID r = i" "rv_AssignedToID r = Some a"
    then show thesis using that [of q] s1 au same by (simp add: same_reviews_def)
  qed
qed

lemma record_decision_Inr:
  assumes "record_decision ds rs c orgID reviewerID r decision reason st s = (Inr decisionID, s')"
  shows "review_decides rs orgID r reviewerID decision decisionID (decisions s) (decisions s')"
    "review_queue s' = review_queue s" "same_records s s'"
  using assms
  by (auto simp: record_decision_def review_decides_def tx_Inr records_frame.refl dest: CreateDecisionTx_Inr
      split: if_splits intro: CreateDecisionTx_Inr)

lemma follow_decision_Inr:
  assumes "follow_decision svc rs c during orgID reviewerID r decision reason decisionID s = (Inr u, s')"
  obtains "s' = s" "reviewWorkflow rs \<Longrightarrow> offered_transition orgID (rv_CaseID r) decision during = None"
  | i t res where "reviewWorkflow rs" "offered_transition orgID (rv_CaseID r) decision during = Some (i, t)"
    "executeTransition (wfAuditor svc) (case_observer svc (later_ctx 20 c)) (later_ctx 20 c) during True
       (review_transition orgID reviewerID (wi_ID i) (wt_Key t) reason decisionID) s = (Inr res, s')"
  using assms
  by (auto simp: follow_decision_def tx_Inr ExecuteTransitionInTx_Inr split: if_splits option.splits)

lemma end_review_Inr:
  assumes "end_review svc ds rs c before during orgID reviewerID r st checked decision reason action meta s = (Inr u, s')"
  obtains decisionID where
    "review_decides rs orgID r reviewerID decision decisionID (decisions s) (decisions s')"
    "review_queue s' = update_where (review_key orgID (rv_ID r)) (reviewed (ctx_time c 2) st (rv_AssignedToID r)) (review_queue s)"
    "checked = None"
    "(reviewWorkflow rs \<longrightarrow> offered_transition orgID (rv_CaseID r) decision during = None) \<and> same_records s s'
     \<or> (\<exists>i t. reviewWorkflow rs \<and> offered_transition orgID (rv_CaseID r) decision during = Some (i, t)
         \<and> moves_case svc (later_ctx 20 c) during
             (review_transition orgID reviewerID (wi_ID i) (wt_Key t) reason decisionID) s s')"
proof -
  obtain s1 s2 decisionID s3 v where st: "set_status (ctx_time c 2) orgID (rv_ID r) st (rv_AssignedToID r) s = (Inr (), s1)"
    and ch: "checked = None"
    and rd: "record_decision ds rs c orgID reviewerID r decision reason (seen_state rs before orgID r) s1 = (Inr decisionID, s2)"
    and fd: "follow_decision svc rs c during orgID reviewerID r decision reason decisionID s2 = (Inr (), s3)"
    and au: "review_audit rs c orgID reviewerID action (rv_ID r) meta s3 = (Inr v, s')"
    using assms by (auto simp: end_review_def tx_Inr tx_check_def split: option.splits)
  note s1 = set_status_Inr [OF st] and rd = record_decision_Inr [OF rd] and au = review_audit_same [OF au]
  have s2: "same_records s s2" using s1 rd(3) records_frame.trans [OF records_of_update(2)] by blast
  have s3: "same_reviews s2 s3"
    by (rule follow_decision_Inr [OF fd]) (use transition_reviews reviews_frame.refl in blast)+
  have rev: "same_reviews s2 s'" using s3 au reviews_frame.trans by blast
  have "review_decides rs orgID r reviewerID decision decisionID (decisions s) (decisions s')"
    "review_queue s' = update_where (review_key orgID (rv_ID r)) (reviewed (ctx_time c 2) st (rv_AssignedToID r)) (review_queue s)"
    using rev rd(1,2) s1 by (simp_all add: same_reviews_def)
  moreover have "(reviewWorkflow rs \<longrightarrow> offered_transition orgID (rv_CaseID r) decision during = None) \<and> same_records s s'
     \<or> (\<exists>i t. reviewWorkflow rs \<and> offered_transition orgID (rv_CaseID r) decision during = Some (i, t)
         \<and> moves_case svc (later_ctx 20 c) during
             (review_transition orgID reviewerID (wi_ID i) (wt_Key t) reason decisionID) s s')"
  proof (rule follow_decision_Inr [OF fd])
    assume "s3 = s2" "reviewWorkflow rs \<Longrightarrow> offered_transition orgID (rv_CaseID r) decision during = None"
    then show ?thesis using s2 au records_frame.trans by blast
  next
    fix i t res
    assume "reviewWorkflow rs" "offered_transition orgID (rv_CaseID r) decision during = Some (i, t)"
      "executeTransition (wfAuditor svc) (case_observer svc (later_ctx 20 c)) (later_ctx 20 c) during True
       (review_transition orgID reviewerID (wi_ID i) (wt_Key t) reason decisionID) s2 = (Inr res, s3)"
    then show ?thesis using s2 au unfolding moves_case_def by blast
  qed
  ultimately show thesis using that ch by blast
qed

end

end
