(* ===== verification/Rule_Effects.thy ===== *)
theory Rule_Effects
  imports Rule_Integration Rule_Properties Review_Effects
begin

section \<open>What the operations on rules do\<close>

text \<open>
  The changes the services of the rules engine make when they succeed, for auditors that append
  to the audit trail only (the locale \<open>rule_services\<close>, interpreted on the audit service), and
  their frames: no operation on rules touches the tables of workflows, forms, cases, decisions
  and reviews, so that the evaluation of rules is an environment of the case service.
\<close>

subsection \<open>The tables\<close>

definition rules_tables :: "'s rules_db_scheme \<Rightarrow> RuleSet list \<times> Evaluation list \<times> RuleTemplate list
    \<times> WorkflowStateRuleAssignment list" where
  "rules_tables s = (rule_sets s, evaluations s, rule_templates s, rule_assignments s)"

definition same_rules :: "'s rules_db_scheme \<Rightarrow> 's rules_db_scheme \<Rightarrow> bool" where
  "same_rules s s' \<longleftrightarrow> rules_tables s' = rules_tables s"

interpretation rules_frame: tx_frame same_rules
  by unfold_locales (simp_all add: same_rules_def)

lemma same_rulesD:
  assumes "same_rules s s'"
  shows "rule_sets s' = rule_sets s" "evaluations s' = evaluations s" "rule_templates s' = rule_templates s"
    "rule_assignments s' = rule_assignments s"
  using assms by (simp_all add: same_rules_def rules_tables_def)

lemma more_same_rules: "wf_db.more s' = wf_db.more s \<Longrightarrow> same_rules s s'" for s :: "'s rules_db_scheme"
  by (cases s; cases s'; simp add: same_rules_def rules_tables_def)

lemma more_framed_rules: "tx_framed same_more m \<Longrightarrow> tx_framed same_rules m" for m :: "('s rules_db_scheme, 'a) tx"
  by (simp add: tx_framed_def same_more_def more_same_rules)

lemma audit_grows_rules: "audit_grows s s' \<Longrightarrow> same_rules s s'" for s :: "'s rules_db_scheme"
  by (drule audit_grows_tables(2)) (rule more_same_rules)

text \<open>Everything outside the audit trail and the tables of rules.\<close>

definition same_outside :: "'s rules_db_scheme \<Rightarrow> 's rules_db_scheme \<Rightarrow> bool" where
  "same_outside s s' \<longleftrightarrow> same_records s s' \<and> same_reviews s s'"

interpretation outside_frame: tx_frame same_outside
  using records_frame.trans reviews_frame.trans
  by unfold_locales (auto simp: same_outside_def records_frame.refl reviews_frame.refl)

lemma audit_grows_outside: "audit_grows s s' \<Longrightarrow> same_outside s s'"
  by (simp add: same_outside_def audit_grows_records audit_grows_reviews)

lemma outside_of_update [simp]:
  "same_outside s (s\<lparr>rule_sets := A\<rparr>)" "same_outside s (s\<lparr>evaluations := B\<rparr>)" "same_outside s (s\<lparr>rule_templates := C\<rparr>)"
  "same_outside s (s\<lparr>rule_assignments := D\<rparr>)" "same_outside s (s\<lparr>rule_sets := A, rule_assignments := D\<rparr>)" "same_outside s s"
  by (simp_all add: same_outside_def same_records_def same_reviews_def wf_tables_def form_tables_def)

lemma outside_framedI: "(\<And>s. same_outside s (snd (m s))) \<Longrightarrow> tx_framed same_outside m"
  by (rule outside_frame.framedI)

lemma outside_statements:
  "tx_framed same_outside (evaluation_Save nt ev)" "tx_framed same_outside (tx_view v f)"
  by (rule outside_framedI, simp add: evaluation_Save_def tx_view_def Let_def)+

lemma outside_try: "tx_framed same_outside m \<Longrightarrow> tx_framed same_outside (tx_try m)"
  by (auto simp: tx_framed_def tx_try_def split: prod.split) (metis snd_conv)

lemma audit_outside:
  assumes "growing_auditor auditor" shows "tx_framed same_outside (RecordAuditEventInTx auditor ps)"
proof (rule outside_framedI)
  fix s
  obtain r s' where "RecordAuditEventInTx auditor ps s = (r, s')" by fastforce
  moreover from this have "audit_grows s s'" by (rule recorder.audit_grows [OF recorder.intro [OF assms]])
  ultimately show "same_outside s (snd (RecordAuditEventInTx auditor ps s))" by (simp add: audit_grows_outside)
qed

lemmas outside_intros = outside_frame.return outside_frame.throw outside_frame.guard outside_frame.lift
  outside_frame.bind outside_frame.seq outside_frame.map_error outside_frame.in_transaction outside_try
  outside_statements audit_outside

subsection \<open>The environment\<close>

locale rule_services =
  fixes svc :: "'s rules_db_scheme RuleSetService" and assigner :: "'s rules_db_scheme auditor"
    and integration :: "'s rules_db_scheme integrationAuditor"
  assumes rules_auditor: "growing_auditor (rulesAuditor svc)" and assigner_grows: "growing_auditor assigner"
    and integration_grows: "growing_auditor (integration k)"
begin

lemma rules_audit:
  "RecordAuditEventInTx (rulesAuditor svc) ps s = (r, s') \<Longrightarrow> same_rules s s'"
  "RecordAuditEventInTx assigner ps s = (r, s') \<Longrightarrow> same_rules s s'"
  "RecordAuditEventInTx (integration k) ps s = (r, s') \<Longrightarrow> same_rules s s'"
  using recorder.audit_grows [OF recorder.intro [OF rules_auditor]] recorder.audit_grows [OF recorder.intro [OF assigner_grows]]
    recorder.audit_grows [OF recorder.intro [OF integration_grows]]
  by (blast intro: audit_grows_rules)+

lemma rule_audit_Inr: "rule_audit svc c orgID actorID action i meta s = (Inr u, s') \<Longrightarrow> same_rules s s'"
  by (auto simp: rule_audit_def tx_Inr dest: rules_audit)

lemma template_audit_Inr: "template_audit svc c orgID actorID action i meta s = (Inr u, s') \<Longrightarrow> same_rules s s'"
  by (auto simp: template_audit_def tx_Inr dest: rules_audit)

lemma rule_assignment_audit_Inr: "rule_assignment_audit assigner c actorID orgID action i meta s = (Inr u, s') \<Longrightarrow> same_rules s s'"
  by (auto simp: rule_assignment_audit_def dest: rules_audit)

lemma evaluation_audit_Inr: "recordEvaluationAudit (integration k) c ev s = (Inr u, s') \<Longrightarrow> same_rules s s'"
  by (auto simp: recordEvaluationAudit_def dest: rules_audit)

text \<open>The evaluation of the rules of a case keeps everything else.\<close>

lemma saveEvaluation_outside: "tx_framed same_outside (saveEvaluation nt (integration k) c v ev)"
  unfolding saveEvaluation_def Let_def recordEvaluationAudit_def
  by (auto intro!: outside_intros integration_grows)

lemma evaluate_assignments_outside: "tx_framed same_outside (evaluate_assignments nt re srt integration c p facts k as res)"
proof (induction as arbitrary: k res)
  case (Cons a as)
  then show ?case
    by (auto simp: Let_def intro!: outside_intros saveEvaluation_outside split: option.split prod.split)
qed (simp add: outside_frame.return)

lemma integration_outside: "tx_framed same_outside (integration_EvaluateCaseRules nt re srt integration c p)"
  unfolding integration_EvaluateCaseRules_def evaluated_case_def evaluated_instance_def AssembleFactsFromCase_def Let_def
  by (auto intro!: outside_intros evaluate_assignments_outside split: option.split)

lemma transition_rules_outside: "tx_framed same_outside (transition_rules nt re srt integration c orgID caseID)"
  unfolding transition_rules_def by (intro outside_intros integration_outside)

lemma transition_rules_quiet:
  "tx_framed same_records (transition_rules nt re srt integration c orgID caseID)"
  "tx_framed same_reviews (transition_rules nt re srt integration c orgID caseID)"
  using transition_rules_outside [of nt re srt c orgID caseID] by (auto simp: tx_framed_def same_outside_def)

end

interpretation audited_rules: rule_services
  "\<lparr>rulesAuditor = Some (RecordEventInTx ft cfg c), fieldDiscoverer = fd\<rparr>" "Some (RecordEventInTx ft cfg c)"
  "\<lambda>k. Some (RecordEventInTx ft cfg (later_ctx k c))" for ft cfg c fd
  by unfold_locales (simp_all add: audit_service_grows)

text \<open>The case service with the evaluation of rules is an environment of cases and reviews.\<close>

interpretation ruled_reviews: review_environment
  "\<lparr>caseAuditor = Some (RecordEventInTx ft cfg c), personFinder = pf, userChecker = uc, wfAvailable = w,
    wfAuditor = Some (RecordEventInTx ft cfg c), formRepos = fr,
    ruleIntegration = Some (transition_rules ft re srt (\<lambda>k. Some (RecordEventInTx ft cfg (later_ctx k c))) c)\<rparr>"
  "\<lparr>decisionUsers = du, decisionAuditor = Some (RecordEventInTx ft cfg c), decisionWorkflow = dw\<rparr>"
  "\<lparr>reviewUsers = ru, reviewAuditor = Some (RecordEventInTx ft cfg c), reviewWorkflow = rw, reviewDecisions = rd\<rparr>"
  for ft cfg c pf uc w fr re srt du dw ru rw rd
  by unfold_locales (auto simp: audit_service_grows audited_rules.transition_rules_quiet)

end
