(* ===== verification/Rule_Runs.thy ===== *)
theory Rule_Runs
  imports Rule_Effects
begin

section \<open>Runs of the rules services\<close>

text \<open>
  The invariant of the tables of rules and the runs in which the requests of the services
  interleave: rule sets that were published stay as they are, versions are unique, and every
  evaluation is what the engine says of a rule set that is still there.
\<close>

subsection \<open>Rule sets that are frozen\<close>

definition frozen :: "RuleSet \<Rightarrow> RuleSet \<Rightarrow> bool" where
  "frozen r r' \<longleftrightarrow> r' = r\<lparr>rs_Status := rs_Status r', rs_UpdatedAt := rs_UpdatedAt r'\<rparr>
     \<and> (rs_Status r' = rs_Status r \<or> rs_Status r = StatusPublished \<and> rs_Status r' = StatusArchived)"

lemma frozen_refl [simp]: "frozen r r"
  by (simp add: frozen_def)

lemma frozen_self: "r \<in> A \<Longrightarrow> \<exists>x \<in> A. frozen r x"
  using frozen_refl by blast

lemma frozen_trans: "frozen a b \<Longrightarrow> frozen b d \<Longrightarrow> frozen a d"
  unfolding frozen_def by (cases a; cases b; cases d; auto)

lemma frozenD:
  assumes "frozen r r'"
  shows "rs_ID r' = rs_ID r" "rs_OrganizationID r' = rs_OrganizationID r" "rs_Version r' = rs_Version r" "rs_Key r' = rs_Key r"
    "Rules r' = Rules r" "DefaultOutcome r' = DefaultOutcome r" "rs_Status r \<noteq> StatusDraft \<Longrightarrow> rs_Status r' \<noteq> StatusDraft"
  using assms unfolding frozen_def by (cases r; cases r'; auto)+

subsection \<open>The invariant of rule sets\<close>

definition valid_row :: "regexp \<Rightarrow> RuleSet \<Rightarrow> bool" where
  "valid_row re r \<longleftrightarrow> ValidateRuleSet re r = None \<and> list_all rule_encodable (Rules r)"

definition sets_ok :: "regexp \<Rightarrow> RuleSet list \<Rightarrow> bool" where
  "sets_ok re RS \<longleftrightarrow> distinct (map rs_ID RS) \<and> (\<forall>r \<in> set RS. valid_row re r)
     \<and> (\<forall>a \<in> set RS. \<forall>b \<in> set RS. same_version a b \<or> same_published a b \<longrightarrow> a = b)"

lemma sets_okD:
  assumes "sets_ok re RS"
  shows "distinct (map rs_ID RS)" "r \<in> set RS \<Longrightarrow> valid_row re r"
    "a \<in> set RS \<Longrightarrow> b \<in> set RS \<Longrightarrow> same_version a b \<Longrightarrow> a = b"
    "a \<in> set RS \<Longrightarrow> b \<in> set RS \<Longrightarrow> same_published a b \<Longrightarrow> a = b"
    "a \<in> set RS \<Longrightarrow> b \<in> set RS \<Longrightarrow> rs_ID a = rs_ID b \<Longrightarrow> a = b"
  using assms by (auto simp: sets_ok_def distinct_map inj_on_def)

lemma same_sym:
  "same_version a b \<longleftrightarrow> same_version b a" "same_published a b \<longleftrightarrow> same_published b a"
  unfolding same_version_def same_published_def by metis+

lemma sets_ok_Nil [simp]: "sets_ok re []"
  by (simp add: sets_ok_def)

lemma sets_ok_append:
  assumes "sets_ok re RS" "valid_row re r" "rs_ID r \<notin> rs_ID ` set RS"
    "\<And>x. x \<in> set RS \<Longrightarrow> \<not> same_version r x \<and> \<not> same_published r x"
  shows "sets_ok re (RS @ [r])"
  unfolding sets_ok_def
proof (intro conjI ballI impI)
  show "a = b" if "a \<in> set (RS @ [r])" "b \<in> set (RS @ [r])" "same_version a b \<or> same_published a b" for a b
    using that assms(4) sets_okD(3,4) [OF assms(1)] same_sym by auto
qed (use assms sets_okD(1,2) [OF assms(1)] in auto)

lemma sets_ok_filter: "sets_ok re RS \<Longrightarrow> sets_ok re (filter p RS)"
  by (auto simp: sets_ok_def distinct_map_filter)

text \<open>One row is rewritten; it keeps its identity and its version.\<close>

definition same_identity :: "RuleSet \<Rightarrow> RuleSet \<Rightarrow> bool" where
  "same_identity r r' \<longleftrightarrow> rs_ID r' = rs_ID r \<and> rs_OrganizationID r' = rs_OrganizationID r \<and> rs_Key r' = rs_Key r
     \<and> rs_Version r' = rs_Version r"

lemma sets_ok_update:
  assumes ok: "sets_ok re RS" and id: "\<And>x. x \<in> set RS \<Longrightarrow> q x \<Longrightarrow> same_identity x (f x) \<and> valid_row re (f x)"
    and pub: "\<And>x y. x \<in> set RS \<Longrightarrow> q x \<Longrightarrow> y \<in> set RS \<Longrightarrow> \<not> q y \<Longrightarrow> \<not> same_published (f x) y"
    and one: "\<And>x y. x \<in> set RS \<Longrightarrow> q x \<Longrightarrow> y \<in> set RS \<Longrightarrow> q y \<Longrightarrow> x = y"
  shows "sets_ok re (update_where q f RS)"
proof -
  let ?g = "\<lambda>r. if q r then f r else r"
  have same: "same_identity x (?g x)" if "x \<in> set RS" for x using id that by (simp add: same_identity_def)
  have ids: "map rs_ID (update_where q f RS) = map rs_ID RS"
    unfolding update_where_def using same by (simp add: same_identity_def)
  have eq: "x = y" if "x \<in> set RS" "y \<in> set RS" "same_version (?g x) (?g y) \<or> same_published (?g x) (?g y)" for x y
    using that(3)
  proof
    assume "same_version (?g x) (?g y)"
    then have "same_version x y" using same that(1,2) by (auto simp: same_version_def same_identity_def)
    then show "x = y" by (rule sets_okD(3) [OF ok that(1,2)])
  next
    assume p: "same_published (?g x) (?g y)"
    show "x = y"
    proof (cases "q x"; cases "q y")
      assume "q x" "\<not> q y" then show ?thesis using pub that(1,2) p by auto
    next
      assume "\<not> q x" "q y" then show ?thesis using pub [of y x] that(1,2) p same_sym(2) by auto
    next
      assume "\<not> q x" "\<not> q y" then show ?thesis using p sets_okD(4) [OF ok that(1,2)] by simp
    qed (use one that(1,2) in simp)
  qed
  show ?thesis
    unfolding sets_ok_def ids
  proof (intro conjI ballI impI)
    show "a = b" if ab: "a \<in> set (update_where q f RS)" "b \<in> set (update_where q f RS)" "same_version a b \<or> same_published a b" for a b
    proof -
      obtain x y where "x \<in> set RS" "a = ?g x" "y \<in> set RS" "b = ?g y" using ab(1,2) by (auto simp: set_update_where)
      then show ?thesis using eq [of x y] ab(3) by simp
    qed
    show "distinct (map rs_ID RS)" by (rule sets_okD(1) [OF ok])
    show "valid_row re r" if "r \<in> set (update_where q f RS)" for r
      using that id sets_okD(2) [OF ok] unfolding set_update_where by fastforce
  qed
qed

subsection \<open>Reading rule sets\<close>

lemma ValidateRuleSet_cong:
  "rs_OrganizationID a = rs_OrganizationID b \<Longrightarrow> rs_Key a = rs_Key b \<Longrightarrow> rs_Name a = rs_Name b \<Longrightarrow> rs_Version a = rs_Version b
   \<Longrightarrow> DefaultOutcome a = DefaultOutcome b \<Longrightarrow> Rules a = Rules b \<Longrightarrow> ValidateRuleSet re a = ValidateRuleSet re b"
  by (simp add: ValidateRuleSet_def rule_set_errors_def)

lemma rs_row_simps [simp]:
  "rs_ID (rs_row r) = rs_ID r" "rs_OrganizationID (rs_row r) = rs_OrganizationID r" "rs_Key (rs_row r) = rs_Key r"
  "rs_Version (rs_row r) = rs_Version r" "rs_Status (rs_row r) = rs_Status r" "Rules (rs_row r) = Rules r"
  "rs_Name (rs_row r) = rs_Name r" "DefaultOutcome (rs_row r) = DefaultOutcome r" "Triggers (rs_row r) = Triggers r"
  by (simp_all add: rs_row_def)

lemma stored_set_simps [simp]:
  "rs_ID (stored_set r) = rs_ID r" "rs_OrganizationID (stored_set r) = rs_OrganizationID r" "rs_Key (stored_set r) = rs_Key r"
  "rs_Version (stored_set r) = rs_Version r" "rs_Status (stored_set r) = rs_Status r" "rs_CaseID (stored_set r) = rs_CaseID r"
  "rs_Name (stored_set r) = rs_Name r" "DefaultOutcome (stored_set r) = DefaultOutcome r" "Triggers (stored_set r) = Triggers r"
  "rs_Description (stored_set r) = rs_Description r" "Rules (stored_set r) = map stored_rule (Rules r)"
  by (simp_all add: stored_set_def)

lemma scan_valid: "valid_row re r \<Longrightarrow> scanRuleSet r = Inr (stored_set r)"
  by (simp add: valid_row_def scanRuleSet_def rule_set_decoded [of re] stored_set_def)

lemma rule_set_found:
  assumes "rule_set_FindByID orgID i s = Inr rs" "sets_ok re (rule_sets s)"
  obtains r where "r \<in> set (rule_sets s)" "rule_set_at orgID i r" "rs = stored_set r" "ValidateRuleSet re rs = None"
proof -
  obtain r rest where f: "filter (rule_set_at orgID i) (rule_sets s) = r # rest" and rs: "scanRuleSet r = Inr rs"
    using assms(1) by (auto simp: rule_set_FindByID_def scan_rule_set_def split: list.splits)
  from f have "r \<in> set (filter (rule_set_at orgID i) (rule_sets s))" by simp
  then have r: "r \<in> set (rule_sets s)" "rule_set_at orgID i r" by simp_all
  have v: "valid_row re r" by (rule sets_okD(2) [OF assms(2) r(1)])
  then have "rs = stored_set r" using rs scan_valid by simp
  moreover from this have "ValidateRuleSet re rs = None" using v by (simp add: valid_row_def stored_set_valid)
  ultimately show thesis using r that by blast
qed

lemma rule_set_at_unique:
  "sets_ok re RS \<Longrightarrow> x \<in> set RS \<Longrightarrow> y \<in> set RS \<Longrightarrow> rule_set_at orgID i x \<Longrightarrow> rule_set_at orgID i y \<Longrightarrow> x = y"
  by (rule sets_okD(5)) (simp_all add: rule_set_at_def)

lemma stored_row_found:
  assumes "sets_ok re (rule_sets s)" "r \<in> set (rule_sets s)"
  shows "rule_set_FindByID (rs_OrganizationID r) (rs_ID r) s = Inr (stored_set r)"
proof -
  have "x = r" if "x \<in> set (filter (rule_set_at (rs_OrganizationID r) (rs_ID r)) (rule_sets s))" for x
    using that rule_set_at_unique [OF assms(1) _ assms(2)] by (auto simp: rule_set_at_def)
  moreover have "r \<in> set (filter (rule_set_at (rs_OrganizationID r) (rs_ID r)) (rule_sets s))"
    using assms(2) by (simp add: rule_set_at_def)
  ultimately obtain rest where "filter (rule_set_at (rs_OrganizationID r) (rs_ID r)) (rule_sets s) = r # rest"
    by (metis list.exhaust list.set_intros(1) list.set(1) empty_iff)
  then show ?thesis
    using scan_valid [OF sets_okD(2) [OF assms]] by (simp add: rule_set_FindByID_def scan_rule_set_def)
qed

subsection \<open>Evaluations\<close>

text \<open>The part of an evaluation that the engine decides, and a rule set that reproduces it.\<close>

lemma Evaluate_agree:
  assumes "rs_Key a = rs_Key b" "Rules a = Rules b" "DefaultOutcome a = DefaultOutcome b"
  shows "ev_Status (Evaluate re srt c a facts t by tr) = ev_Status (Evaluate re srt c' b facts t by' tr')"
    "ev_Outcome (Evaluate re srt c a facts t by tr) = ev_Outcome (Evaluate re srt c' b facts t by' tr')"
    "ev_MatchedRuleID (Evaluate re srt c a facts t by tr) = ev_MatchedRuleID (Evaluate re srt c' b facts t by' tr')"
    "ev_Trace (Evaluate re srt c a facts t by tr) = ev_Trace (Evaluate re srt c' b facts t by' tr')"
  using assms by (auto simp: Evaluate_def Let_def split: prod.split option.split)

definition reproduced :: "(rat \<Rightarrow> string) \<Rightarrow> regexp \<Rightarrow> (Rule list \<Rightarrow> Rule list) \<Rightarrow> RuleSet \<Rightarrow> Evaluation \<Rightarrow> bool" where
  "reproduced nt re srt r ev \<longleftrightarrow> rs_ID r = ev_RuleSetID ev \<and> rs_Version r = ev_RuleSetVersion ev
     \<and> rs_OrganizationID r = ev_OrganizationID ev \<and> rs_Status r \<noteq> StatusDraft
     \<and> (\<exists>facts c t. trunc_micros t = ev_EvaluatedAt ev \<and> ev_FactsSnapshot ev = json_numbered_members nt facts
          \<and> (let e = Evaluate re srt c (stored_set r) facts t (ev_EvaluatedBy ev) (ev_Trigger ev)
             in ev_Status ev = ev_Status e \<and> ev_Outcome ev = ev_Outcome e \<and> ev_MatchedRuleID ev = given (ev_MatchedRuleID e)
                \<and> ev_Trace ev = map (json_trace nt) (ev_Trace e)))"

lemma reproduced_frozen:
  assumes "reproduced nt re srt r ev" "frozen r r'" shows "reproduced nt re srt r' ev"
proof -
  note same = frozenD [OF assms(2)]
  have st: "rs_Key (stored_set r') = rs_Key (stored_set r)" "Rules (stored_set r') = Rules (stored_set r)"
    "DefaultOutcome (stored_set r') = DefaultOutcome (stored_set r)"
    using same by simp_all
  have agree: "ev_Status (Evaluate re srt c (stored_set r') fs t b q) = ev_Status (Evaluate re srt c (stored_set r) fs t b q)"
    "ev_Outcome (Evaluate re srt c (stored_set r') fs t b q) = ev_Outcome (Evaluate re srt c (stored_set r) fs t b q)"
    "ev_MatchedRuleID (Evaluate re srt c (stored_set r') fs t b q) = ev_MatchedRuleID (Evaluate re srt c (stored_set r) fs t b q)"
    "ev_Trace (Evaluate re srt c (stored_set r') fs t b q) = ev_Trace (Evaluate re srt c (stored_set r) fs t b q)" for c fs t b q
    by (rule Evaluate_agree [OF st])+
  show ?thesis
    using assms(1) same(1-3,7) unfolding reproduced_def Let_def agree by auto
qed

lemma Evaluate_simps [simp]:
  "ev_RuleSetID (Evaluate re srt c rs facts t by tr) = rs_ID rs"
  "ev_RuleSetVersion (Evaluate re srt c rs facts t by tr) = rs_Version rs"
  "ev_OrganizationID (Evaluate re srt c rs facts t by tr) = rs_OrganizationID rs"
  "ev_EvaluatedAt (Evaluate re srt c rs facts t by tr) = t"
  "ev_FactsSnapshot (Evaluate re srt c rs facts t by tr) = facts"
  "ev_EvaluatedBy (Evaluate re srt c rs facts t by tr) = by" "ev_Trigger (Evaluate re srt c rs facts t by tr) = tr"
  "ev_ID (Evaluate re srt c rs facts t by tr) = ctx_uuid c 0"
  by (simp_all add: Evaluate_def Let_def split: prod.split option.split)

lemma evaluation_row_simps [simp]:
  "ev_ID (evaluation_row nt ev) = ev_ID ev" "ev_RuleSetID (evaluation_row nt ev) = ev_RuleSetID ev"
  "ev_RuleSetVersion (evaluation_row nt ev) = ev_RuleSetVersion ev" "ev_OrganizationID (evaluation_row nt ev) = ev_OrganizationID ev"
  "ev_Status (evaluation_row nt ev) = ev_Status ev" "ev_Outcome (evaluation_row nt ev) = ev_Outcome ev"
  "ev_MatchedRuleID (evaluation_row nt ev) = given (ev_MatchedRuleID ev)" "ev_Trace (evaluation_row nt ev) = map (json_trace nt) (ev_Trace ev)"
  "ev_Trigger (evaluation_row nt ev) = ev_Trigger ev" "ev_EvaluatedBy (evaluation_row nt ev) = given (ev_EvaluatedBy ev)"
  "ev_EvaluatedAt (evaluation_row nt ev) = trunc_micros (ev_EvaluatedAt ev)"
  "ev_FactsSnapshot (evaluation_row nt ev) = json_numbered_members nt (ev_FactsSnapshot ev)" "ev_CaseID (evaluation_row nt ev) = given (ev_CaseID ev)"
  by (simp_all add: evaluation_row_def)

lemma evaluated_reproduced:
  assumes "rs_Status r \<noteq> StatusDraft"
  shows "reproduced nt re srt r (evaluation_row nt ((Evaluate re srt c (stored_set r) facts t by tr)\<lparr>ev_CaseID := i\<rparr>))"
proof -
  note agree = Evaluate_agree [OF refl refl refl, of re srt c "stored_set r" facts t "by" tr c "given by" tr]
  show ?thesis
    unfolding reproduced_def Let_def
    by (intro conjI exI [of _ facts] exI [of _ c] exI [of _ t]) (simp_all add: assms agree)
qed

subsection \<open>The invariant of the store\<close>

definition rules_ok :: "(rat \<Rightarrow> string) \<Rightarrow> regexp \<Rightarrow> (Rule list \<Rightarrow> Rule list) \<Rightarrow> 's rules_db_scheme \<Rightarrow> bool" where
  "rules_ok nt re srt s \<longleftrightarrow> sets_ok re (rule_sets s)
     \<and> (\<forall>ev \<in> set (evaluations s). \<exists>r \<in> set (rule_sets s). reproduced nt re srt r ev)"

definition rules_keep :: "'s rules_db_scheme \<Rightarrow> 's rules_db_scheme \<Rightarrow> bool" where
  "rules_keep s s' \<longleftrightarrow> (\<forall>r \<in> set (rule_sets s). rs_Status r \<noteq> StatusDraft \<longrightarrow> (\<exists>r' \<in> set (rule_sets s'). frozen r r'))
     \<and> (\<exists>evs. evaluations s' = evaluations s @ evs)"

interpretation rules_history: tx_frame rules_keep
proof unfold_locales
  show "rules_keep s s" for s :: "'s rules_db_scheme"
    unfolding rules_keep_def using frozen_refl by blast
  show "rules_keep s1 s3" if "rules_keep s1 s2" "rules_keep s2 s3" for s1 s2 s3 :: "'s rules_db_scheme"
    using that frozen_trans frozenD(7) unfolding rules_keep_def by (metis append.assoc)
qed

definition rules_step :: "(rat \<Rightarrow> string) \<Rightarrow> regexp \<Rightarrow> (Rule list \<Rightarrow> Rule list) \<Rightarrow> 's rules_db_scheme \<Rightarrow> 's rules_db_scheme \<Rightarrow> bool" where
  "rules_step nt re srt s s' \<longleftrightarrow> (rules_ok nt re srt s \<longrightarrow> rules_ok nt re srt s' \<and> rules_keep s s')"

interpretation rules_step: tx_frame "rules_step nt re srt"
proof unfold_locales
  show "rules_step nt re srt s s" for s :: "'s rules_db_scheme"
    using rules_history.refl by (auto simp: rules_step_def)
  show "rules_step nt re srt s1 s3" if "rules_step nt re srt s1 s2" "rules_step nt re srt s2 s3" for s1 s2 s3 :: "'s rules_db_scheme"
    using that rules_history.trans by (auto simp: rules_step_def)
qed

lemma same_rules_step: "same_rules s s' \<Longrightarrow> rules_step nt re srt s s'"
  using rules_history.refl [of s] by (simp add: rules_step_def rules_ok_def rules_keep_def same_rulesD)

lemma step_same: "rules_step nt re srt s s1 \<Longrightarrow> same_rules s1 s' \<Longrightarrow> rules_step nt re srt s s'"
  using rules_step.trans same_rules_step by blast

text \<open>A change of the rule sets only; what evaluations refer to must stay.\<close>

lemma rules_step_sets:
  assumes "evaluations s' = evaluations s"
    and "rules_ok nt re srt s \<Longrightarrow> sets_ok re (rule_sets s')"
    and "\<And>r. rules_ok nt re srt s \<Longrightarrow> r \<in> set (rule_sets s) \<Longrightarrow> rs_Status r \<noteq> StatusDraft \<Longrightarrow> \<exists>r' \<in> set (rule_sets s'). frozen r r'"
  shows "rules_step nt re srt s s'"
  unfolding rules_step_def
proof (intro impI conjI)
  assume ok: "rules_ok nt re srt s"
  show "rules_keep s s'" using assms(1) assms(3) [OF ok] by (simp add: rules_keep_def)
  show "rules_ok nt re srt s'"
    unfolding rules_ok_def
  proof (intro conjI ballI)
    fix ev assume "ev \<in> set (evaluations s')"
    then obtain r where r: "r \<in> set (rule_sets s)" "reproduced nt re srt r ev" using ok assms(1) by (auto simp: rules_ok_def)
    then obtain r' where "r' \<in> set (rule_sets s')" "frozen r r'" using assms(3) [OF ok r(1)] by (auto simp: reproduced_def)
    then show "\<exists>r \<in> set (rule_sets s'). reproduced nt re srt r ev" using reproduced_frozen [OF r(2)] by blast
  qed (rule assms(2) [OF ok])
qed

lemma kept_reproduced:
  assumes "rules_keep s0 s" "r \<in> set (rule_sets s0)" "reproduced nt re srt r ev"
  shows "\<exists>r' \<in> set (rule_sets s). reproduced nt re srt r' ev"
proof -
  obtain r' where "r' \<in> set (rule_sets s)" "frozen r r'"
    using assms by (auto simp: rules_keep_def reproduced_def)
  then show ?thesis using reproduced_frozen [OF assms(3)] by blast
qed

lemma rules_step_evaluated:
  assumes "rule_sets s' = rule_sets s" "evaluations s' = evaluations s @ [row]"
    "rules_ok nt re srt s \<Longrightarrow> \<exists>r \<in> set (rule_sets s). reproduced nt re srt r row"
  shows "rules_step nt re srt s s'"
  using assms frozen_refl unfolding rules_step_def rules_ok_def rules_keep_def by (simp, blast)

subsection \<open>The statements\<close>

lemma rule_set_Save_Inr:
  "rule_set_Save rs s = (Inr u, s') \<Longrightarrow> list_all rule_encodable (Rules rs) \<and> int4 (rs_Version rs)
     \<and> rs_ID rs \<notin> rs_ID ` set (rule_sets s) \<and> (\<forall>x \<in> set (rule_sets s). \<not> same_published (rs_row rs) x \<and> \<not> same_version (rs_row rs) x)
     \<and> s' = s\<lparr>rule_sets := rule_sets s @ [rs_row rs]\<rparr>"
  by (auto simp: rule_set_Save_def Let_def split: if_splits)

lemma rule_set_Save_step:
  assumes "rule_set_Save rs s = (Inr u, s')" "rules_ok nt re srt s \<Longrightarrow> ValidateRuleSet re rs = None"
  shows "rules_step nt re srt s s'"
proof -
  note w = rule_set_Save_Inr [OF assms(1)]
  have "ValidateRuleSet re (rs_row rs) = ValidateRuleSet re rs" by (rule ValidateRuleSet_cong) simp_all
  then have "valid_row re (rs_row rs)" if "rules_ok nt re srt s" using w assms(2) [OF that] by (simp add: valid_row_def)
  then show ?thesis
    using w by (intro rules_step_sets) (auto simp: rules_ok_def intro: sets_ok_append dest: frozen_self)
qed

lemma rule_set_update_Inr:
  assumes "rule_set_update msg orgID i p f s = (Inr u, s')"
  defines "q \<equiv> \<lambda>r. rule_set_at orgID i r \<and> p r"
  shows "s' = s\<lparr>rule_sets := update_where q f (rule_sets s)\<rparr>" "\<exists>r \<in> set (rule_sets s). q r"
    "x \<in> set (rule_sets s) \<Longrightarrow> q x \<Longrightarrow> y \<in> set (rule_sets s) \<Longrightarrow> \<not> q y \<Longrightarrow> \<not> same_published (f x) y \<and> \<not> same_version (f x) y"
  using assms(1) unfolding rule_set_update_def q_def [symmetric] Let_def
  by (auto simp: filter_empty_conv split: if_splits)

lemma rule_set_update_step:
  assumes u: "rule_set_update msg orgID i p f s = (Inr u, s')"
    and keep: "\<And>r. rules_ok nt re srt s \<Longrightarrow> r \<in> set (rule_sets s) \<Longrightarrow> rule_set_at orgID i r \<Longrightarrow> p r
      \<Longrightarrow> same_identity r (f r) \<and> valid_row re (f r) \<and> (rs_Status r \<noteq> StatusDraft \<longrightarrow> frozen r (f r))"
  shows "rules_step nt re srt s s'"
proof -
  let ?q = "\<lambda>r. rule_set_at orgID i r \<and> p r"
  note w = rule_set_update_Inr [OF u]
  show ?thesis
  proof (rule rules_step_sets)
    assume ok: "rules_ok nt re srt s"
    then have so: "sets_ok re (rule_sets s)" by (simp add: rules_ok_def)
    show "sets_ok re (rule_sets s')"
      unfolding w(1) RuleSet.simps rules_db.simps
      using keep [OF ok] w(3) rule_set_at_unique [OF so] by (simp, intro sets_ok_update [OF so]) blast+
    fix r assume r: "r \<in> set (rule_sets s)" "rs_Status r \<noteq> StatusDraft"
    have "(if ?q r then f r else r) \<in> set (rule_sets s')" using r(1) by (simp add: w(1) set_update_where) blast
    moreover have "frozen r (if ?q r then f r else r)" using keep [OF ok r(1)] r(2) by simp
    ultimately show "\<exists>r' \<in> set (rule_sets s'). frozen r r'" by blast
  qed (simp add: w(1))
qed

text \<open>A change of the status along the life cycle.\<close>

lemma rule_set_UpdateStatus_step:
  assumes "rule_set_UpdateStatus now orgID i old to s = (Inr u, s')"
    and "old = StatusDraft \<or> old = StatusPublished \<and> to = StatusArchived"
  shows "rules_step nt re srt s s'"
  using assms(1) unfolding rule_set_UpdateStatus_def
proof (rule rule_set_update_step)
  fix r assume ok: "rules_ok nt re srt s" and r: "r \<in> set (rule_sets s)" and old: "rs_Status r = old"
  let ?r = "r\<lparr>rs_Status := to, rs_UpdatedAt := now\<rparr>"
  have "ValidateRuleSet re ?r = ValidateRuleSet re r" by (rule ValidateRuleSet_cong) simp_all
  moreover have "valid_row re r" using ok r sets_okD(2) by (auto simp: rules_ok_def)
  ultimately show "same_identity r ?r \<and> valid_row re ?r \<and> (rs_Status r \<noteq> StatusDraft \<longrightarrow> frozen r ?r)"
    using assms(2) old by (auto simp: same_identity_def valid_row_def frozen_def)
qed

lemma rule_set_Delete_Inr:
  "rule_set_Delete orgID i s = (Inr u, s') \<Longrightarrow> i \<notin> ev_RuleSetID ` set (evaluations s)
     \<and> s' = s\<lparr>rule_sets := filter (\<lambda>r. \<not> rule_set_at orgID i r) (rule_sets s),
              rule_assignments := filter (\<lambda>a. ra_RuleSetID a \<noteq> i) (rule_assignments s)\<rparr>"
  by (auto simp: rule_set_Delete_def split: if_splits)

lemma evaluation_Save_Inr:
  "evaluation_Save nt ev s = (Inr u, s') \<Longrightarrow> ev_ID ev \<notin> ev_ID ` set (evaluations s) \<and> ev_RuleSetID ev \<in> rs_ID ` set (rule_sets s)
     \<and> s' = s\<lparr>evaluations := evaluations s @ [evaluation_row nt ev]\<rparr>"
  by (auto simp: evaluation_Save_def Let_def split: if_splits)

lemma same_sets_step:
  "rule_sets s' = rule_sets s \<Longrightarrow> evaluations s' = evaluations s \<Longrightarrow> rules_step nt re srt s s'"
  by (intro rules_step_sets) (auto simp: rules_ok_def intro: frozen_self)

lemma same_rules_sets: "same_rules s s' \<Longrightarrow> rule_sets s' = rule_sets s \<and> evaluations s' = evaluations s"
  by (simp add: same_rulesD)

lemma assignment_statements:
  "rule_assignment_Save now a s = (Inr u, s') \<Longrightarrow> rule_sets s' = rule_sets s \<and> evaluations s' = evaluations s"
  "rule_assignment_Update now a s = (Inr u, s') \<Longrightarrow> rule_sets s' = rule_sets s \<and> evaluations s' = evaluations s"
  "rule_assignment_Delete orgID i s = (Inr u, s') \<Longrightarrow> rule_sets s' = rule_sets s \<and> evaluations s' = evaluations s"
  "template_Save rt s = (Inr u, s') \<Longrightarrow> rule_sets s' = rule_sets s \<and> evaluations s' = evaluations s"
  "template_Delete orgID i s = (Inr u, s') \<Longrightarrow> rule_sets s' = rule_sets s \<and> evaluations s' = evaluations s"
  by (auto simp: rule_assignment_Save_def rule_assignment_Update_def rule_assignment_Delete_def template_Save_def
      template_Delete_def Let_def tx_Inr split: if_splits)

subsection \<open>The requests\<close>

lemma rules_step_Inl: "InTransaction m s = (Inl e, s') \<Longrightarrow> rules_step nt re srt s s'"
  by (drule InTransaction_Inl) (simp add: rules_step.refl)

lemma atomic_rules_step:
  "tx_atomic m \<Longrightarrow> m s = (r, s') \<Longrightarrow> (\<And>a. m s = (Inr a, s') \<Longrightarrow> rules_step nt re srt s s') \<Longrightarrow> rules_step nt re srt s s'"
  by (cases r) (auto dest: tx_atomicD simp: rules_step.refl)

lemma updated_simps [simp]:
  "rs_ID (updated_rule_set c p r) = rs_ID r" "rs_OrganizationID (updated_rule_set c p r) = rs_OrganizationID r"
  "rs_Key (updated_rule_set c p r) = rs_Key r" "rs_Version (updated_rule_set c p r) = rs_Version r"
  "rs_Status (updated_rule_set c p r) = rs_Status r" "rs_CaseID (updated_rule_set c p r) = rs_CaseID r"
  by (simp_all add: updated_rule_set_def)

lemma clone_valid:
  assumes "ValidateRuleSet re rs = None" "1 \<le> rs_Version rs"
  shows "ValidateRuleSet re ((RuleSet_Clone c rs)\<lparr>rs_Status := st, rs_UpdatedAt := t\<rparr>) = None"
proof -
  note same = same_anonymous [OF clone_rules_anonymous [of c 0 "Rules rs"]]
  have "sum_list (map (countConditions \<circ> Conditions) (clone_rules c 0 (Rules rs))) = sum_list (map (countConditions \<circ> Conditions) (Rules rs))"
    using same(2) by (metis map_map)
  then show ?thesis
    using assms same(3,4) by (auto simp: ValidateRuleSet_def rule_set_errors_def RuleSet_Clone_def split: if_splits)
qed

lemma valid_version: "ValidateRuleSet re rs = None \<Longrightarrow> 1 \<le> rs_Version rs"
  by (simp add: ValidateRuleSet_def rule_set_errors_def split: if_splits)

lemma NewRuleSet_valid: "NewRuleSet re c orgID i key name d o' rules ts who = Inr rs \<Longrightarrow> ValidateRuleSet re rs = None"
  by (auto simp: NewRuleSet_def check_def Let_def split: option.splits if_splits)

context rule_services
begin

lemma CreateRuleSet_Inr:
  assumes "CreateRuleSet re svc c committed p s = (Inr rs, s')"
  obtains s1 where "NewRuleSet re c (Some (cr_OrganizationID p)) (cr_CaseID p) (cr_Key p) (cr_Name p) (cr_Description p)
       (cr_DefaultOutcome p) (cr_Rules p) (cr_Triggers p) (cr_ActorID p) = Inr rs"
    "rule_set_Save rs s = (Inr (), s1)" "same_rules s1 s'"
  using assms by (auto simp: CreateRuleSet_def tx_Inr tx_read_def dest!: rule_audit_Inr)

lemma CreateRuleSet_step:
  assumes "CreateRuleSet re svc c committed p s = (Inr rs, s')" shows "rules_step nt re srt s s'"
  using CreateRuleSet_Inr [OF assms] NewRuleSet_valid rule_set_Save_step step_same by metis

lemma CreateRuleSetVersion_step:
  assumes r: "CreateRuleSetVersion svc c committed orgID i actorID s = (Inr rs, s')" and ok: "rules_ok nt re srt committed"
  shows "rules_step nt re srt s s'"
proof -
  obtain cur s1 where f: "rule_set_FindByID orgID i committed = Inr cur"
    and sv: "rule_set_Save ((RuleSet_Clone c cur)\<lparr>rs_Status := StatusDraft, rs_UpdatedAt := ctx_time c 0\<rparr>) s = (Inr (), s1)"
    and a: "same_rules s1 s'"
    using r by (auto simp: CreateRuleSetVersion_def tx_Inr tx_read_def Let_def dest!: rule_audit_Inr)
  have "ValidateRuleSet re cur = None" using rule_set_found [OF f] ok by (metis rules_ok_def)
  then have "rules_step nt re srt s s1" by (intro rule_set_Save_step [OF sv] clone_valid valid_version)
  then show ?thesis using a by (rule step_same)
qed

lemma UpdateRuleSet_step:
  assumes "UpdateRuleSet re svc c p s = (Inr rs, s')" shows "rules_step nt re srt s s'"
proof -
  obtain found s1 where f: "rule_set_FindByID (ur_OrganizationID p) (ur_ID p) s = Inr found" and st: "rs_Status found = StatusDraft"
    and v: "ValidateRuleSet re (updated_rule_set c p found) = None"
    and u: "rule_set_Update (ctx_time c 1) (updated_rule_set c p found) s = (Inr (), s1)" and a: "same_rules s1 s'"
    using assms by (auto simp: UpdateRuleSet_def FindByIDForUpdateTx_def tx_Inr Let_def dest!: rule_audit_Inr)
  let ?rs = "updated_rule_set c p found"
  have enc: "list_all rule_encodable (Rules ?rs)" using u by (simp add: rule_set_Update_def tx_Inr)
  have "rules_step nt re srt s s1"
  proof (rule rule_set_update_step)
    show "rule_set_update ''query execution error'' (rs_OrganizationID ?rs) (rs_ID ?rs) (\<lambda>_. True)
          (\<lambda>r. r\<lparr>rs_Name := rs_Name ?rs, rs_Description := rs_Description ?rs, rs_Version := rs_Version ?rs,
                 rs_Status := rs_Status ?rs, DefaultOutcome := DefaultOutcome ?rs, Rules := Rules ?rs,
                 rs_UpdatedAt := ctx_time c 1, Triggers := Triggers ?rs\<rparr>) s = (Inr (), s1)"
      using u by (simp add: rule_set_Update_def tx_Inr)
  next
    fix r assume ok: "rules_ok nt re srt s" and r: "r \<in> set (rule_sets s)" and at_r: "rule_set_at (rs_OrganizationID ?rs) (rs_ID ?rs) r"
    then have so: "sets_ok re (rule_sets s)" by (simp add: rules_ok_def)
    obtain r' where r': "r' \<in> set (rule_sets s)" "rule_set_at (ur_OrganizationID p) (ur_ID p) r'" "found = stored_set r'"
      using rule_set_found [OF f so] by metis
    have same: "r = r'" using r'(1,3) at_r by (intro sets_okD(5) [OF so r]) (simp_all add: rule_set_at_def)
    let ?g = "r\<lparr>rs_Name := rs_Name ?rs, rs_Description := rs_Description ?rs, rs_Version := rs_Version ?rs,
                 rs_Status := rs_Status ?rs, DefaultOutcome := DefaultOutcome ?rs, Rules := Rules ?rs,
                 rs_UpdatedAt := ctx_time c 1, Triggers := Triggers ?rs\<rparr>"
    have "ValidateRuleSet re ?g = ValidateRuleSet re ?rs"
      by (rule ValidateRuleSet_cong) (simp_all add: same r'(3))
    then have "valid_row re ?g" unfolding valid_row_def using v enc by simp
    moreover have "same_identity r ?g" by (simp add: same_identity_def same r'(3))
    moreover have "rs_Status r = StatusDraft" using st by (simp add: same r'(3))
    ultimately show "same_identity r ?g \<and> valid_row re ?g \<and> (rs_Status r \<noteq> StatusDraft \<longrightarrow> frozen r ?g)" by blast
  qed
  then show ?thesis using a by (rule step_same)
qed

lemma change_status_step:
  assumes "change_rule_set_status svc c old to changed action orgID i actorID rs s = (Inr x, s')"
    "old = StatusDraft \<or> old = StatusPublished \<and> to = StatusArchived"
  shows "rules_step nt re srt s s'"
proof -
  obtain s1 where "rule_set_UpdateStatus (ctx_time c 1) orgID i old to s = (Inr (), s1)" "same_rules s1 s'"
    using assms(1) by (auto simp: change_rule_set_status_def tx_Inr Let_def dest!: rule_audit_Inr)
  then show ?thesis using rule_set_UpdateStatus_step [OF _ assms(2)] step_same by metis
qed

lemma PublishRuleSet_step: "PublishRuleSet re' svc c committed orgID i actorID s = (Inr x, s') \<Longrightarrow> rules_step nt re srt s s'"
  by (auto simp: PublishRuleSet_def tx_Inr tx_read_def intro: change_status_step)

lemma ArchiveRuleSet_step: "ArchiveRuleSet svc c committed orgID i actorID s = (Inr x, s') \<Longrightarrow> rules_step nt re srt s s'"
  by (auto simp: ArchiveRuleSet_def tx_Inr tx_read_def intro: change_status_step)

lemma DeleteRuleSet_step:
  assumes "DeleteRuleSet svc c orgID i actorID s = (Inr u, s')" shows "rules_step nt re srt s s'"
proof -
  obtain rs s1 where f: "rule_set_FindByID orgID i s = Inr rs" and st: "rs_Status rs = StatusDraft"
    and d: "rule_set_Delete orgID i s = (Inr (), s1)" and a: "same_rules s1 s'"
    using assms by (auto simp: DeleteRuleSet_def FindByIDForUpdateTx_def tx_Inr dest!: rule_audit_Inr)
  note w = rule_set_Delete_Inr [OF d]
  have "rules_step nt re srt s s1"
  proof (rule rules_step_sets)
    assume ok: "rules_ok nt re srt s"
    then have so: "sets_ok re (rule_sets s)" by (simp add: rules_ok_def)
    show "sets_ok re (rule_sets s1)" using w sets_ok_filter [OF so] by simp
    fix r assume r: "r \<in> set (rule_sets s)" "rs_Status r \<noteq> StatusDraft"
    obtain r' where "r' \<in> set (rule_sets s)" "rule_set_at orgID i r'" "rs = stored_set r'" using rule_set_found [OF f so] by metis
    then have "\<not> rule_set_at orgID i r" using rule_set_at_unique [OF so r(1)] r(2) st by auto
    then show "\<exists>r' \<in> set (rule_sets s1). frozen r r'" using w r(1) by (intro frozen_self) simp
  qed (use w in simp)
  then show ?thesis using a by (rule step_same)
qed

end

subsection \<open>Evaluations in requests\<close>

text \<open>What was found before in a published state is reproduced by what is there now.\<close>

lemma found_reproduced:
  assumes f: "rule_set_FindByID orgID i s0 = Inr rs" "rs_Status rs = StatusPublished"
    and ok: "rules_ok nt re srt s0" "rules_keep s0 s"
  shows "\<exists>r \<in> set (rule_sets s). reproduced nt re srt r
     (evaluation_row nt ((Evaluate re srt c rs facts t by tr)\<lparr>ev_CaseID := k\<rparr>))"
proof -
  obtain r where r: "r \<in> set (rule_sets s0)" "rs = stored_set r" using rule_set_found [OF f(1)] ok(1) by (metis rules_ok_def)
  then have "reproduced nt re srt r (evaluation_row nt ((Evaluate re srt c rs facts t by tr)\<lparr>ev_CaseID := k\<rparr>))"
    using f(2) evaluated_reproduced by simp
  then show ?thesis using kept_reproduced [OF ok(2) r(1)] by blast
qed

lemma found_valid: "rule_set_FindByID orgID i s0 = Inr rs \<Longrightarrow> rules_ok nt re srt s0 \<Longrightarrow> ValidateRuleSet re rs = None"
  using rule_set_found unfolding rules_ok_def by metis

lemma evaluation_Save_step:
  assumes "evaluation_Save nt ev s = (Inr u, s')"
    and "rules_ok nt re srt s \<Longrightarrow> \<exists>r \<in> set (rule_sets s). reproduced nt re srt r (evaluation_row nt ev)"
  shows "rules_step nt re srt s s'"
  using evaluation_Save_Inr [OF assms(1)] assms(2) by (intro rules_step_evaluated) auto

text \<open>A view of the store: the present one, or an earlier one.\<close>

definition seen_ok :: "(rat \<Rightarrow> string) \<Rightarrow> regexp \<Rightarrow> (Rule list \<Rightarrow> Rule list) \<Rightarrow> 's rules_db_scheme option \<Rightarrow> 's rules_db_scheme \<Rightarrow> bool" where
  "seen_ok nt re srt v s \<longleftrightarrow> rules_ok nt re srt (or_else v s) \<and> rules_keep (or_else v s) s"

lemma seen_ok_next:
  assumes "seen_ok nt re srt v s" "rules_step nt re srt s s'" "rules_ok nt re srt s" shows "seen_ok nt re srt v s'"
  using assms rules_history.trans rules_history.refl by (cases v) (auto simp: seen_ok_def or_else_def rules_step_def)

lemma evaluated_rule_set_valid:
  "ValidateRuleSet re rs = None \<Longrightarrow> \<exists>by. fst (evaluated_rule_set re srt c p facts rs)
     = (Evaluate re srt c rs facts (ctx_time c 0) by (ec_Trigger p))\<lparr>ev_CaseID := Some (ec_CaseID p)\<rparr>"
  by (auto simp: evaluated_rule_set_def Let_def)

lemma case_kept: "\<exists>k. ev = ev\<lparr>ev_CaseID := k\<rparr>"
  by (rule exI [of _ "ev_CaseID ev"]) simp

context rule_services
begin

lemma EvaluateRuleSet_Inr:
  assumes e: "EvaluateRuleSet nt re srt svc c committed p s = (Inr ev, s')"
  obtains rs s1 where "rule_set_FindByID (ep_OrganizationID p) (ep_ID p) committed = Inr rs" "rs_Status rs = StatusPublished"
    "ValidateRuleSet re rs = None \<Longrightarrow> ev = requested_evaluation re srt c p rs"
    "evaluation_Save nt ev s = (Inr (), s1)" "same_rules s1 s'"
proof -
  define tr where "tr = requested_trigger p"
  obtain rs where f: "rule_set_FindByID (ep_OrganizationID p) (ep_ID p) committed = Inr rs" "rs_Status rs = StatusPublished"
    and body: "(if ValidateRuleSet re rs \<noteq> None
     then InTransaction (tx_seq (tx_map_error (Wrap ''failed to save evaluation'') (evaluation_Save nt
        (invalid_evaluation c rs (rs_OrganizationID rs) (rs_CaseID rs) (requested_facts p) (requested_time c p) (ep_ActorID p) tr)))
        (tx_return (invalid_evaluation c rs (rs_OrganizationID rs) (rs_CaseID rs) (requested_facts p) (requested_time c p) (ep_ActorID p) tr)))
     else InTransaction
        (tx_seq (tx_map_error (Wrap ''failed to save evaluation'') (evaluation_Save nt (requested_evaluation re srt c p rs)))
        (tx_seq (tx_map_error (Wrap ''failed to record audit event'') (RecordAuditEventInTx (rulesAuditor svc)
                   (evaluation_audit_params c (ep_ActorID p) (requested_evaluation re srt c p rs)
                      (evaluation_meta rs (requested_evaluation re srt c p rs)))))
          (tx_return (requested_evaluation re srt c p rs))))) s = (Inr ev, s')"
    using e unfolding EvaluateRuleSet_def tx_read_def Let_def tr_def [symmetric] tx_bind_Inr tx_seq_Inr tx_guard_Inr
      tx_map_error_Inr tx_lift_Inr by blast
  show thesis
  proof (cases "ValidateRuleSet re rs = None")
    case True
    then show ?thesis using that [OF f] body by (auto simp: tx_Inr dest!: rules_audit(1))
  next
    case False
    then show ?thesis using that [OF f _ _ rules_frame.refl] body by (auto simp: tx_Inr)
  qed
qed

lemma EvaluateRuleSet_step:
  assumes e: "EvaluateRuleSet nt re srt svc c committed p s = (Inr ev, s')"
    and ok: "rules_ok nt re srt committed" "rules_keep committed s"
  shows "rules_step nt re srt s s'"
proof -
  obtain rs s1 where f: "rule_set_FindByID (ep_OrganizationID p) (ep_ID p) committed = Inr rs" "rs_Status rs = StatusPublished"
    and v: "ValidateRuleSet re rs = None \<Longrightarrow> ev = requested_evaluation re srt c p rs"
    and sv: "evaluation_Save nt ev s = (Inr (), s1)" "same_rules s1 s'"
    using EvaluateRuleSet_Inr [OF e] by metis
  have "\<exists>k. ev = (Evaluate re srt c rs (requested_facts p) (requested_time c p) (ep_ActorID p) (requested_trigger p))\<lparr>ev_CaseID := k\<rparr>"
    using v [OF found_valid [OF f(1) ok(1)]] case_kept by (auto simp: requested_evaluation_def Let_def)
  then have "\<exists>r \<in> set (rule_sets s). reproduced nt re srt r (evaluation_row nt ev)"
    using found_reproduced [OF f ok] by metis
  then have "rules_step nt re srt s s1" by (intro evaluation_Save_step [OF sv(1)])
  then show ?thesis using sv(2) by (rule step_same)
qed

lemma saveEvaluation_step:
  assumes sv: "saveEvaluation nt (integration k) c v ev s = (r, s')"
    and ev: "\<exists>r \<in> set (rule_sets s). reproduced nt re srt r (evaluation_row nt ev)"
  shows "rules_step nt re srt s s'"
proof -
  have one: "rules_step nt re srt s s1" if "evaluation_Save nt ev s = (x, s1)" for x s1
  proof (cases x)
    case (Inl e)
    then have "s1 = s" using that by (auto simp: evaluation_Save_def Let_def split: if_splits)
    then show ?thesis by (simp add: rules_step.refl)
  next
    case (Inr u)
    then show ?thesis using that ev by (auto intro: evaluation_Save_step)
  qed
  have two: "rules_step nt re srt s s1"
    if "tx_seq (tx_map_error (Wrap ''failed to save evaluation'') (evaluation_Save nt ev)) (recordEvaluationAudit (integration k) c ev) s = (x, s1)"
    for x s1
    using that rules_audit(3) one step_same [OF one]
    by (auto simp: tx_seq_def tx_bind_def tx_map_error_def recordEvaluationAudit_def split: prod.splits sum.splits)
  show ?thesis
  proof (cases "v = None")
    case True
    then show ?thesis using sv two by (simp add: saveEvaluation_def)
  next
    case False
    then show ?thesis using sv two
      by (auto simp: saveEvaluation_def InTransaction_def rules_step.refl split: prod.splits sum.splits)
  qed
qed

text \<open>The loop over the assignments: whether it returns or fails, what it has saved is reproduced.\<close>

lemma evaluate_assignments_step:
  "evaluate_assignments nt re srt integration c p facts k as res s = (r, s') \<Longrightarrow> rules_ok nt re srt s \<Longrightarrow> seen_ok nt re srt (ec_Tx p) s
   \<Longrightarrow> rules_step nt re srt s s'"
proof (induction as arbitrary: k res s)
  case (Cons a as)
  note rest = Cons.IH [OF _ Cons.prems(2,3)]
  define found where "found = rule_set_FindByID (ec_OrganizationID p) (ra_RuleSetID a) (or_else (ec_Tx p) s)"
  define res1 where "res1 = res\<lparr>AssignedRuleSets := AssignedRuleSets res @ [ra_RuleSetID a]\<rparr>"
  show ?case
  proof (cases "ra_Active a \<and> selected_rule_set (ec_Event p) found \<noteq> None")
    case False
    then show ?thesis
      using Cons.prems(1) rest by (auto simp: tx_bind_def tx_try_def tx_view_def Let_def found_def split: if_splits option.splits)
  next
    case True
    then obtain rs where sel: "ra_Active a" "selected_rule_set (ec_Event p) found = Some rs" by blast
    then have f: "found = Inr rs" "rs_Status rs = StatusPublished" by (auto simp: selected_rule_set_def split: sum.splits if_splits)
    obtain ev missing where e: "evaluated_rule_set re srt (later_ctx (2 + k) c) p facts rs = (ev, missing)" by fastforce
    obtain x s1 where sv: "saveEvaluation nt (integration k) c (ec_Tx p) ev s = (x, s1)" by fastforce
    have seen: "rules_ok nt re srt (or_else (ec_Tx p) s)" "rules_keep (or_else (ec_Tx p) s) s"
      using Cons.prems(3) by (simp_all add: seen_ok_def)
    obtain b where ev: "ev = (Evaluate re srt (later_ctx (2 + k) c) rs facts (ctx_time (later_ctx (2 + k) c) 0) b (ec_Trigger p))
        \<lparr>ev_CaseID := Some (ec_CaseID p)\<rparr>"
      using evaluated_rule_set_valid [OF found_valid [OF f(1) [unfolded found_def] seen(1)], of srt "later_ctx (2 + k) c" p facts] e
      by auto
    have "\<exists>r \<in> set (rule_sets s). reproduced nt re srt r (evaluation_row nt ev)"
      unfolding ev by (rule found_reproduced [OF f(1) [unfolded found_def] f(2) seen])
    then have one: "rules_step nt re srt s s1" by (rule saveEvaluation_step [OF sv])
    then have ok: "rules_ok nt re srt s1" using Cons.prems(2) by (simp add: rules_step_def)
    note rest = Cons.IH [OF _ ok seen_ok_next [OF Cons.prems(3) one Cons.prems(2)]]
    show ?thesis
    proof (cases x)
      case (Inl err)
      then have "s' = s1"
        using Cons.prems(1) sel e sv
        by (auto simp: tx_bind_def tx_try_def tx_view_def tx_seq_def tx_map_error_def Let_def found_def)
      then show ?thesis using one by simp
    next
      case (Inr u)
      then have "evaluate_assignments nt re srt integration c p facts (Suc k) as
          (res1\<lparr>Evaluations := Evaluations res1 @ [case_rule_evaluation rs ev missing]\<rparr>) s1 = (r, s')"
        using Cons.prems(1) sel e sv
        by (auto simp: tx_bind_def tx_try_def tx_view_def tx_seq_def tx_map_error_def Let_def found_def res1_def)
      then show ?thesis using rest one rules_step.trans by blast
    qed
  qed
qed (simp add: tx_return_def rules_step.refl)

lemma integration_step:
  assumes "integration_EvaluateCaseRules nt re srt integration c p s = (r, s')" "rules_ok nt re srt s" "seen_ok nt re srt (ec_Tx p) s"
  shows "rules_step nt re srt s s'"
proof -
  let ?p = "p\<lparr>ec_Trigger := (if ec_Trigger p = TriggerOther [] then TriggerManual else ec_Trigger p)\<rparr>"
  have "s' = s \<or> (\<exists>facts as res x. evaluate_assignments nt re srt integration c ?p facts 0 as res s = (x, s'))"
    using assms(1)
    by (auto simp: integration_EvaluateCaseRules_def evaluated_case_def evaluated_instance_def AssembleFactsFromCase_def
        tx_bind_def tx_seq_def tx_guard_def tx_map_error_def tx_view_def tx_return_def tx_throw_def Let_def
        split: prod.splits sum.splits option.splits if_splits)
  then show ?thesis
    using evaluate_assignments_step [where p = ?p] assms(2,3) rules_step.refl by (auto; blast)
qed

lemma transition_rules_step:
  assumes "transition_rules nt re srt integration c orgID caseID s = (r, s')" "rules_ok nt re srt s"
  shows "rules_step nt re srt s s'"
proof -
  obtain x where "integration_EvaluateCaseRules nt re srt integration c (transition_params orgID caseID) s = (x, s')"
    using assms(1) by (auto simp: transition_rules_def tx_bind_def tx_return_def split: prod.splits sum.splits)
  then show ?thesis
    by (rule integration_step) (simp_all add: assms(2) seen_ok_def transition_params_def or_else_def rules_history.refl)
qed

text \<open>Assignments and templates leave rule sets and evaluations alone.\<close>

lemma other_steps:
  "CreateRuleAssignment assigner c committed pc s = (Inr a, s') \<Longrightarrow> rules_step nt re srt s s'"
  "UpdateRuleAssignment assigner c committed pu s = (Inr a, s') \<Longrightarrow> rules_step nt re srt s s'"
  "DeleteRuleAssignment assigner c committed orgID i actorID s = (Inr u, s') \<Longrightarrow> rules_step nt re srt s s'"
  "CreateRuleTemplate re' svc c committed pt s = (Inr t, s') \<Longrightarrow> rules_step nt re srt s s'"
  "DeleteRuleTemplate svc c committed orgID i actorID s = (Inr u, s') \<Longrightarrow> rules_step nt re srt s s'"
  by (auto simp: CreateRuleAssignment_def UpdateRuleAssignment_def DeleteRuleAssignment_def CreateRuleTemplate_def
      DeleteRuleTemplate_def tx_Inr tx_read_def Let_def
      simp del: first_error.simps split: option.splits
      dest!: assignment_statements rule_assignment_audit_Inr template_audit_Inr same_rules_sets intro!: same_sets_step)

end

lemma rules_requests_atomic:
  "tx_atomic (CreateRuleSet re svc c s0 pc)" "tx_atomic (UpdateRuleSet re svc c pu)"
  "tx_atomic (CreateRuleSetVersion svc c s0 orgID i actorID)" "tx_atomic (PublishRuleSet re svc c s0 orgID i actorID)"
  "tx_atomic (ArchiveRuleSet svc c s0 orgID i actorID)" "tx_atomic (DeleteRuleSet svc c orgID i actorID)"
  "tx_atomic (EvaluateRuleSet nt re srt svc c s0 pe)"
  "tx_atomic (CreateRuleAssignment assigner c s0 pa)" "tx_atomic (UpdateRuleAssignment assigner c s0 pb)"
  "tx_atomic (DeleteRuleAssignment assigner c s0 orgID i actorID)"
  "tx_atomic (CreateRuleTemplate re svc c s0 pt)" "tx_atomic (DeleteRuleTemplate svc c s0 orgID i actorID)"
proof -
  note pure = tx_pure_intros(1,2,4,5) tx_pure_map_error tx_pure_bind tx_pure_seq
  have read: "tx_pure (tx_read g r)" for g r unfolding tx_read_def by (intro pure)
  have chk: "tx_pure (tx_check g e)" for g e unfolding tx_check_def by (cases e) (simp_all add: pure)
  note all = tx_atomic_transaction tx_atomic_bind tx_atomic_seq pure read chk
  show "tx_atomic (CreateRuleSet re svc c s0 pc)" unfolding CreateRuleSet_def by (intro all)
  show "tx_atomic (UpdateRuleSet re svc c pu)" unfolding UpdateRuleSet_def by (intro all)
  show "tx_atomic (CreateRuleSetVersion svc c s0 orgID i actorID)" unfolding CreateRuleSetVersion_def Let_def by (intro all)
  have change: "tx_atomic (change_rule_set_status svc c a b e t orgID i actorID rs)" for a b e t rs
    unfolding change_rule_set_status_def Let_def by (intro all)
  show "tx_atomic (PublishRuleSet re svc c s0 orgID i actorID)" unfolding PublishRuleSet_def by (intro all change)
  show "tx_atomic (ArchiveRuleSet svc c s0 orgID i actorID)" unfolding ArchiveRuleSet_def by (intro all change)
  show "tx_atomic (DeleteRuleSet svc c orgID i actorID)" unfolding DeleteRuleSet_def by (intro all)
  have evaluated: "tx_atomic (if b then InTransaction m else InTransaction n)" for b and m n :: "('b, 'c) tx"
    by (simp add: tx_atomic_transaction)
  show "tx_atomic (EvaluateRuleSet nt re srt svc c s0 pe)"
    unfolding EvaluateRuleSet_def Let_def by (intro all evaluated)
  show "tx_atomic (CreateRuleAssignment assigner c s0 pa)" unfolding CreateRuleAssignment_def Let_def by (intro all)
  have looked: "tx_pure (case o' of None \<Rightarrow> tx_return () | Some i \<Rightarrow> tx_bind (f i) (\<lambda>_. tx_return ()))"
    if "\<And>i. tx_pure (f i)" for o' and f :: "uuid \<Rightarrow> ('b, 'c) tx"
    using that by (auto split: option.split intro!: pure)
  show "tx_atomic (UpdateRuleAssignment assigner c s0 pb)" unfolding UpdateRuleAssignment_def Let_def by (intro all looked)
  show "tx_atomic (DeleteRuleAssignment assigner c s0 orgID i actorID)" unfolding DeleteRuleAssignment_def by (intro all)
  show "tx_atomic (CreateRuleTemplate re svc c s0 pt)" unfolding CreateRuleTemplate_def by (intro all)
  show "tx_atomic (DeleteRuleTemplate svc c s0 orgID i actorID)" unfolding DeleteRuleTemplate_def by (intro all)
qed

subsection \<open>Runs\<close>

text \<open>
  The requests of the three services. What a request reads before its transaction is any
  earlier store of the run.
\<close>

inductive rules_request :: "(rat \<Rightarrow> string) \<Rightarrow> regexp \<Rightarrow> (Rule list \<Rightarrow> Rule list) \<Rightarrow> 's rules_db_scheme RuleSetService \<Rightarrow> 's rules_db_scheme auditor
    \<Rightarrow> 's rules_db_scheme integrationAuditor \<Rightarrow> 's rules_db_scheme set \<Rightarrow> 's rules_db_scheme \<Rightarrow> 's rules_db_scheme \<Rightarrow> bool"
  for nt re srt svc assigner integration earlier s where
  create: "s0 \<in> earlier \<Longrightarrow> CreateRuleSet re svc c s0 pc s = (r1, s') \<Longrightarrow> rules_request nt re srt svc assigner integration earlier s s'"
| update: "UpdateRuleSet re svc c pu s = (r1, s') \<Longrightarrow> rules_request nt re srt svc assigner integration earlier s s'"
| new_version: "s0 \<in> earlier \<Longrightarrow> CreateRuleSetVersion svc c s0 orgID i actorID s = (r1, s')
    \<Longrightarrow> rules_request nt re srt svc assigner integration earlier s s'"
| publish: "s0 \<in> earlier \<Longrightarrow> PublishRuleSet re svc c s0 orgID i actorID s = (r1, s')
    \<Longrightarrow> rules_request nt re srt svc assigner integration earlier s s'"
| archive: "s0 \<in> earlier \<Longrightarrow> ArchiveRuleSet svc c s0 orgID i actorID s = (r1, s')
    \<Longrightarrow> rules_request nt re srt svc assigner integration earlier s s'"
| delete: "DeleteRuleSet svc c orgID i actorID s = (r2, s') \<Longrightarrow> rules_request nt re srt svc assigner integration earlier s s'"
| evaluate: "s0 \<in> earlier \<Longrightarrow> EvaluateRuleSet nt re srt svc c s0 pe s = (r3, s')
    \<Longrightarrow> rules_request nt re srt svc assigner integration earlier s s'"
| evaluate_case: "s0 \<in> earlier \<Longrightarrow> ec_Tx p = Some s0 \<Longrightarrow> integration_EvaluateCaseRules nt re srt integration c p s = (r4, s')
    \<Longrightarrow> rules_request nt re srt svc assigner integration earlier s s'"
| assign: "s0 \<in> earlier \<Longrightarrow> CreateRuleAssignment assigner c s0 pa s = (r5, s')
    \<Longrightarrow> rules_request nt re srt svc assigner integration earlier s s'"
| reassign: "s0 \<in> earlier \<Longrightarrow> UpdateRuleAssignment assigner c s0 pb s = (r5, s')
    \<Longrightarrow> rules_request nt re srt svc assigner integration earlier s s'"
| unassign: "s0 \<in> earlier \<Longrightarrow> DeleteRuleAssignment assigner c s0 orgID i actorID s = (r2, s')
    \<Longrightarrow> rules_request nt re srt svc assigner integration earlier s s'"
| create_template: "s0 \<in> earlier \<Longrightarrow> CreateRuleTemplate re svc c s0 pt s = (r6, s')
    \<Longrightarrow> rules_request nt re srt svc assigner integration earlier s s'"
| delete_template: "s0 \<in> earlier \<Longrightarrow> DeleteRuleTemplate svc c s0 orgID i actorID s = (r2, s')
    \<Longrightarrow> rules_request nt re srt svc assigner integration earlier s s'"

text \<open>
  A run is the list of its committed stores, the latest first. Beside the requests there are
  transitions of cases, which evaluate rules inside their transaction (\<open>moved\<close>), and changes of
  other tables (\<open>elsewhere\<close>).
\<close>

inductive rules_run :: "(rat \<Rightarrow> string) \<Rightarrow> regexp \<Rightarrow> (Rule list \<Rightarrow> Rule list) \<Rightarrow> 's rules_db_scheme RuleSetService \<Rightarrow> 's rules_db_scheme auditor
    \<Rightarrow> 's rules_db_scheme integrationAuditor \<Rightarrow> 's rules_db_scheme list \<Rightarrow> bool" for nt re srt svc assigner integration where
  no_rules: "rules_tables s = ([], [], [], []) \<Longrightarrow> rules_run nt re srt svc assigner integration [s]"
| ruling: "rules_run nt re srt svc assigner integration (s # run)
    \<Longrightarrow> rules_request nt re srt svc assigner integration (set (s # run)) s s' \<Longrightarrow> rules_run nt re srt svc assigner integration (s' # s # run)"
| moved: "rules_run nt re srt svc assigner integration (s # run) \<Longrightarrow> same_rules s s1
    \<Longrightarrow> transition_rules nt re srt integration c orgID caseID s1 = (Inr u, s2) \<Longrightarrow> same_rules s2 s'
    \<Longrightarrow> rules_run nt re srt svc assigner integration (s' # s # run)"
| elsewhere: "rules_run nt re srt svc assigner integration (s # run) \<Longrightarrow> same_rules s s'
    \<Longrightarrow> rules_run nt re srt svc assigner integration (s' # s # run)"

inductive_cases rules_run_NilE: "rules_run nt re srt svc assigner integration []"

definition rules_run_ok :: "(rat \<Rightarrow> string) \<Rightarrow> regexp \<Rightarrow> (Rule list \<Rightarrow> Rule list) \<Rightarrow> 's rules_db_scheme list \<Rightarrow> bool" where
  "rules_run_ok nt re srt run \<longleftrightarrow> (\<forall>s \<in> set run. rules_ok nt re srt s \<and> rules_keep s (hd run))"

lemma rules_run_next:
  assumes "rules_run_ok nt re srt (s # run)" "rules_step nt re srt s s'"
  shows "rules_run_ok nt re srt (s' # s # run)"
proof -
  have "rules_ok nt re srt s'" "rules_keep s s'" using assms by (simp_all add: rules_run_ok_def rules_step_def)
  then show ?thesis using assms(1) rules_history.refl [of s'] rules_history.trans [of _ s s'] by (auto simp: rules_run_ok_def)
qed

context rule_services
begin

lemma request_step:
  assumes req: "rules_request nt re srt svc assigner integration E s s'" and ok: "rules_ok nt re srt s"
    and before: "\<And>s0. s0 \<in> E \<Longrightarrow> rules_ok nt re srt s0 \<and> rules_keep s0 s"
  shows "rules_step nt re srt s s'"
  using req
proof cases
  case (create s0 c pc r)
  then show ?thesis using atomic_rules_step [OF rules_requests_atomic(1)] CreateRuleSet_step by metis
next
  case (update c pu r)
  then show ?thesis using atomic_rules_step [OF rules_requests_atomic(2)] UpdateRuleSet_step by metis
next
  case (new_version s0 c orgID i actorID r)
  then show ?thesis using atomic_rules_step [OF rules_requests_atomic(3)] CreateRuleSetVersion_step before by metis
next
  case (publish s0 c orgID i actorID r)
  then show ?thesis using atomic_rules_step [OF rules_requests_atomic(4)] PublishRuleSet_step by metis
next
  case (archive s0 c orgID i actorID r)
  then show ?thesis using atomic_rules_step [OF rules_requests_atomic(5)] ArchiveRuleSet_step by metis
next
  case (delete c orgID i actorID r)
  then show ?thesis using atomic_rules_step [OF rules_requests_atomic(6)] DeleteRuleSet_step by metis
next
  case (evaluate s0 c pe r)
  then show ?thesis using atomic_rules_step [OF rules_requests_atomic(7)] EvaluateRuleSet_step before by metis
next
  case (evaluate_case s0 p c r)
  then show ?thesis using integration_step ok before by (auto simp: seen_ok_def or_else_def)
next
  case (assign s0 c pa r)
  then show ?thesis using atomic_rules_step [OF rules_requests_atomic(8)] other_steps(1) by metis
next
  case (reassign s0 c pb r)
  then show ?thesis using atomic_rules_step [OF rules_requests_atomic(9)] other_steps(2) by metis
next
  case (unassign s0 c orgID i actorID r)
  then show ?thesis using atomic_rules_step [OF rules_requests_atomic(10)] other_steps(3) by metis
next
  case (create_template s0 c pt r)
  then show ?thesis using atomic_rules_step [OF rules_requests_atomic(11)] other_steps(4) by metis
next
  case (delete_template s0 c orgID i actorID r)
  then show ?thesis using atomic_rules_step [OF rules_requests_atomic(12)] other_steps(5) by metis
qed

lemma rules_run_is_ok: "rules_run nt re srt svc assigner integration run \<Longrightarrow> rules_run_ok nt re srt run"
proof (induction rule: rules_run.induct)
  case (no_rules s)
  then have "rules_ok nt re srt s" by (simp add: rules_tables_def rules_ok_def)
  then show ?case using rules_history.refl [of s] by (simp add: rules_run_ok_def)
next
  case (ruling s run s')
  then show ?case by (intro rules_run_next request_step [OF ruling.hyps(2)]) (auto simp: rules_run_ok_def)
next
  case (moved s run s1 c orgID caseID u s2 s')
  have "rules_ok nt re srt s" using moved.IH by (simp add: rules_run_ok_def)
  then have "rules_ok nt re srt s1" using same_rules_step [OF moved.hyps(2)] by (auto simp: rules_step_def)
  then have "rules_step nt re srt s1 s2" by (rule transition_rules_step [OF moved.hyps(3)])
  then have "rules_step nt re srt s s'"
    using rules_step.trans same_rules_step moved.hyps(2,4) by metis
  with moved.IH show ?case by (rule rules_run_next)
next
  case (elsewhere s run s')
  then show ?case using rules_run_next same_rules_step by blast
qed

end

end
