(* ===== verification/Rule_Cases.thy ===== *)
theory Rule_Cases
  imports Rule_Runs
begin

section \<open>What the rules say of a case\<close>

text \<open>
  The evaluation of the rules of a case in closed form: which rule sets are due, what is saved
  of each, what a transition of a case saves, which submissions the facts come from, and which
  facts are reported as missing.
\<close>

subsection \<open>What is due\<close>

definition due_rule_sets :: "string \<Rightarrow> uuid \<Rightarrow> 's rules_db_scheme \<Rightarrow> WorkflowStateRuleAssignment list \<Rightarrow> RuleSet list" where
  "due_rule_sets event orgID s as = List.map_filter
     (\<lambda>a. if ra_Active a then selected_rule_set event (rule_set_FindByID orgID (ra_RuleSetID a) s) else None) as"

fun due_evaluations :: "regexp \<Rightarrow> (Rule list \<Rightarrow> Rule list) \<Rightarrow> ctx \<Rightarrow> 's EvaluateCaseRulesParams \<Rightarrow> facts \<Rightarrow> nat \<Rightarrow> RuleSet list
    \<Rightarrow> (Evaluation \<times> string list) list" where
  "due_evaluations re srt c p facts k [] = []"
| "due_evaluations re srt c p facts k (rs # rss) =
     evaluated_rule_set re srt (later_ctx (2 + k) c) p facts rs # due_evaluations re srt c p facts (Suc k) rss"

lemma due_cong: "rule_sets s' = rule_sets s \<Longrightarrow> due_rule_sets event orgID s' as = due_rule_sets event orgID s as"
  by (simp add: due_rule_sets_def rule_set_FindByID_def cong: if_cong)

lemma assembled_facts_cong:
  assumes "same_records s s'"
  shows "assembled_facts now orgID caseID s' = assembled_facts now orgID caseID s"
proof -
  have "resolver_FindByID orgID i s' = resolver_FindByID orgID i s" for i
    using assms by (simp add: same_records_def resolver_FindByID_def form_FindByID_def form_tables_def)
  then have "latest_by_key orgID s' = latest_by_key orgID s" by (intro ext) (simp add: latest_by_key_def)
  moreover have "case_FindByID orgID caseID s' = case_FindByID orgID caseID s"
    "submission_ListByCase orgID caseID s' = submission_ListByCase orgID caseID s"
    using assms by (simp_all add: same_records_def case_FindByID_def submission_ListByCase_def form_tables_def)
  ultimately show ?thesis unfolding assembled_facts_def by (simp only:)
qed

lemma instance_cong: "same_records s s' \<Longrightarrow> instance_FindByCaseID orgID caseID s' = instance_FindByCaseID orgID caseID s"
  by (simp add: same_records_def instance_FindByCaseID_def wf_tables_def)

context rule_services
begin

lemma saveEvaluation_Inr:
  assumes "saveEvaluation nt (integration k) c v ev s = (Inr u, s')"
  shows "evaluations s' = evaluations s @ [evaluation_row nt ev]" "rule_sets s' = rule_sets s" "rule_assignments s' = rule_assignments s"
proof -
  obtain s1 where "evaluation_Save nt ev s = (Inr (), s1)" "same_rules s1 s'"
    using assms by (auto simp: saveEvaluation_def Let_def tx_Inr split: if_splits dest!: evaluation_audit_Inr)
  then show "evaluations s' = evaluations s @ [evaluation_row nt ev]" "rule_sets s' = rule_sets s" "rule_assignments s' = rule_assignments s"
    using same_rulesD [of s1 s'] evaluation_Save_Inr [of nt ev s "()" s1] by simp_all
qed

lemma evaluate_assignments_Inr:
  "evaluate_assignments nt re srt integration c p facts k as res s = (Inr res', s') \<Longrightarrow> ec_Tx p = None
   \<Longrightarrow> evaluations s' = evaluations s @ map (evaluation_row nt \<circ> fst) (due_evaluations re srt c p facts k (due_rule_sets (ec_Event p) (ec_OrganizationID p) s as))
     \<and> rule_sets s' = rule_sets s \<and> rule_assignments s' = rule_assignments s
     \<and> AssignedRuleSets res' = AssignedRuleSets res @ map ra_RuleSetID (filter ra_Active as)
     \<and> Evaluations res' = Evaluations res @ map2 (\<lambda>rs (ev, missing). case_rule_evaluation rs ev missing)
         (due_rule_sets (ec_Event p) (ec_OrganizationID p) s as)
         (due_evaluations re srt c p facts k (due_rule_sets (ec_Event p) (ec_OrganizationID p) s as))
     \<and> cx_CaseID res' = cx_CaseID res \<and> cx_WorkflowState res' = cx_WorkflowState res"
proof (induction as arbitrary: k res s)
  case Nil
  then show ?case by (simp add: tx_return_def due_rule_sets_def)
next
  case (Cons a as)
  let ?found = "rule_set_FindByID (ec_OrganizationID p) (ra_RuleSetID a) s"
  show ?case
  proof (cases "ra_Active a \<and> selected_rule_set (ec_Event p) ?found \<noteq> None")
    case False
    then show ?thesis
      using Cons.prems Cons.IH [of k _ s] by (auto simp: tx_Inr tx_view_def or_else_def Let_def due_rule_sets_def split: if_splits)
  next
    case True
    then obtain rs where sel: "ra_Active a" "selected_rule_set (ec_Event p) ?found = Some rs" by blast
    obtain ev missing where e: "evaluated_rule_set re srt (later_ctx (2 + k) c) p facts rs = (ev, missing)" by fastforce
    obtain s1 where sv: "saveEvaluation nt (integration k) c (ec_Tx p) ev s = (Inr (), s1)"
      and rest: "evaluate_assignments nt re srt integration c p facts (Suc k) as
         (res\<lparr>AssignedRuleSets := AssignedRuleSets res @ [ra_RuleSetID a],
              Evaluations := Evaluations res @ [case_rule_evaluation rs ev missing]\<rparr>) s1 = (Inr res', s')"
      using Cons.prems sel e by (auto simp: tx_Inr tx_view_def or_else_def Let_def)
    note one = saveEvaluation_Inr [OF sv]
    have due: "due_rule_sets (ec_Event p) (ec_OrganizationID p) s (a # as) = rs # due_rule_sets (ec_Event p) (ec_OrganizationID p) s as"
      using sel by (simp add: due_rule_sets_def)
    show ?thesis
      using Cons.IH [OF rest Cons.prems(2)] one sel(1) e unfolding due due_cong [OF one(2)] by simp
  qed
qed

text \<open>The evaluation in the transaction of a caller.\<close>

lemma integration_Inr:
  assumes r: "integration_EvaluateCaseRules nt re srt integration c p0 s = (Inr res, s')" and tx: "ec_Tx p0 = None"
  defines "p \<equiv> p0\<lparr>ec_Trigger := (if ec_Trigger p0 = TriggerOther [] then TriggerManual else ec_Trigger p0)\<rparr>"
  obtains cs i facts as where "case_FindByID (ec_OrganizationID p0) (ec_CaseID p0) s = Inr cs" "WorkflowInstanceID cs \<noteq> None"
    "instance_FindByCaseID (ec_OrganizationID p0) (ec_CaseID p0) s = Inr i"
    "facts = or_else (ec_Facts p0) facts" "ec_Facts p0 = None \<Longrightarrow> assembled_facts (ctx_time c 1) (ec_OrganizationID p0) (ec_CaseID p0) s = Inr facts"
    "as = FindRulesByWorkflowAndState (ec_OrganizationID p0) (wi_WorkflowDefID i) (CurrentState i) s"
    "evaluations s' = evaluations s @ map (evaluation_row nt \<circ> fst)
       (due_evaluations re srt c p facts 0 (due_rule_sets (ec_Event p0) (ec_OrganizationID p0) s as))"
    "rule_sets s' = rule_sets s" "rule_assignments s' = rule_assignments s" "cx_WorkflowState res = CurrentState i"
    "AssignedRuleSets res = map ra_RuleSetID as"
    "Evaluations res = map2 (\<lambda>rs (ev, missing). case_rule_evaluation rs ev missing) (due_rule_sets (ec_Event p0) (ec_OrganizationID p0) s as)
       (due_evaluations re srt c p facts 0 (due_rule_sets (ec_Event p0) (ec_OrganizationID p0) s as))"
    "HasMissingFacts res = hasAnyMissing (Evaluations res)"
proof -
  have p: "ec_OrganizationID p = ec_OrganizationID p0" "ec_CaseID p = ec_CaseID p0" "ec_Facts p = ec_Facts p0" "ec_Event p = ec_Event p0"
    "ec_Tx p = None" by (simp_all add: p_def tx)
  obtain cs i facts res1 where f: "case_FindByID (ec_OrganizationID p0) (ec_CaseID p0) s = Inr cs" "WorkflowInstanceID cs \<noteq> None"
    "instance_FindByCaseID (ec_OrganizationID p0) (ec_CaseID p0) s = Inr i"
    and facts: "facts = or_else (ec_Facts p0) facts" "ec_Facts p0 = None \<Longrightarrow> assembled_facts (ctx_time c 1) (ec_OrganizationID p0) (ec_CaseID p0) s = Inr facts"
    and e: "evaluate_assignments nt re srt integration c p facts 0
        (FindRulesByWorkflowAndState (ec_OrganizationID p0) (wi_WorkflowDefID i) (CurrentState i) s)
        \<lparr>cx_CaseID = ec_CaseID p0, cx_WorkflowState = CurrentState i, AssignedRuleSets = [], Evaluations = [],
           HasMissingFacts = False, cx_EvaluatedAt = ctx_time c 0\<rparr> s = (Inr res1, s')"
    and res: "res = res1\<lparr>HasMissingFacts := hasAnyMissing (Evaluations res1)\<rparr>"
    using r unfolding integration_EvaluateCaseRules_def Let_def p_def [symmetric] p
    by (cases "ec_Facts p0")
      (auto simp: tx_Inr evaluated_case_def evaluated_instance_def AssembleFactsFromCase_def tx_view_def p or_else_def)
  have active: "filter ra_Active (FindRulesByWorkflowAndState o' d st s) = FindRulesByWorkflowAndState o' d st s" for o' d st
    by (auto simp: FindRulesByWorkflowAndState_def filter_id_conv)
  show thesis
    using that [OF f facts refl] evaluate_assignments_Inr [OF e p(5)] unfolding p active by (simp add: res)
qed

text \<open>A transition of a case: its observer evaluates the rules of the state that was entered.\<close>

lemma transition_rules_Inr:
  assumes "transition_rules nt re srt integration c orgID caseID s = (Inr u, s')"
  obtains i facts where "instance_FindByCaseID orgID caseID s' = Inr i" "assembled_facts (ctx_time c 1) orgID caseID s' = Inr facts"
    "rule_sets s' = rule_sets s" "rule_assignments s' = rule_assignments s"
    "evaluations s' = evaluations s @ map (evaluation_row nt \<circ> fst) (due_evaluations re srt c
       (transition_params orgID caseID :: 's rules_db_scheme EvaluateCaseRulesParams) facts 0
       (due_rule_sets TriggerWorkflowTransition orgID s' (FindRulesByWorkflowAndState orgID (wi_WorkflowDefID i) (CurrentState i) s')))"
proof -
  let ?p = "transition_params orgID caseID :: 's rules_db_scheme EvaluateCaseRulesParams"
  obtain res where r: "integration_EvaluateCaseRules nt re srt integration c ?p s = (Inr res, s')"
    using assms by (auto simp: transition_rules_def tx_Inr)
  have p: "ec_Tx ?p = None" "ec_OrganizationID ?p = orgID" "ec_CaseID ?p = caseID" "ec_Facts ?p = None"
    "ec_Event ?p = TriggerWorkflowTransition"
    "?p\<lparr>ec_Trigger := (if ec_Trigger ?p = TriggerOther [] then TriggerManual else ec_Trigger ?p)\<rparr> = ?p"
    by (simp_all add: transition_params_def)
  obtain i facts as where i: "instance_FindByCaseID orgID caseID s = Inr i" and facts: "assembled_facts (ctx_time c 1) orgID caseID s = Inr facts"
    and as: "as = FindRulesByWorkflowAndState orgID (wi_WorkflowDefID i) (CurrentState i) s"
    and e: "evaluations s' = evaluations s @ map (evaluation_row nt \<circ> fst) (due_evaluations re srt c ?p facts 0
       (due_rule_sets TriggerWorkflowTransition orgID s as))" "rule_sets s' = rule_sets s" "rule_assignments s' = rule_assignments s"
    by (rule integration_Inr [OF r p(1), unfolded p]) (use p(4) in blast)
  have "same_records s s'"
    using outside_frame.framedD [OF transition_rules_outside assms] by (simp add: same_outside_def)
  then have "instance_FindByCaseID orgID caseID s' = Inr i" "assembled_facts (ctx_time c 1) orgID caseID s' = Inr facts"
    using i facts instance_cong assembled_facts_cong by metis+
  moreover have "FindRulesByWorkflowAndState orgID (wi_WorkflowDefID i) (CurrentState i) s' = as"
    by (simp add: as FindRulesByWorkflowAndState_def e(3))
  ultimately show thesis using that [of i facts] e unfolding due_cong [OF e(2)] by simp
qed

lemma executeTransition_rules:
  assumes csvc: "growing_auditor (wfAuditor csvc)" "ruleIntegration csvc = Some (transition_rules nt re srt integration c')"
    and e: "executeTransition (wfAuditor csvc) (case_observer csvc c) c s0 outer params s = (Inr res, s')"
  obtains s1 where "same_rules s s1"
    "transition_rules nt re srt integration c' (wi_TenantID res) (wi_CaseID res) s1 = (Inr (), s')"
proof -
  obtain i def t x where a: "apply_transition (wfAuditor csvc) (case_observer csvc c) c params i t x s = (Inr (), s')"
    and res: "res = moved_instance i def t"
    using e by (auto simp: executeTransition_def tx_Inr split: if_splits sum.splits prod.splits)
  obtain s1 where n: "notify (case_observer csvc c) i t (Terminal x) s1 = (Inr (), s')" and more: "wf_db.more s1 = wf_db.more s"
    using transition_before_observer [OF csvc(1) a] by metis
  have o': "OnTransition csvc c i t (Terminal x) s1 = (Inr (), s')"
    using n by (simp add: notify_def case_observer_def tx_Inr)
  have "\<exists>n s2. UpdateWorkflowStateTx (ctx_time c 1) (wi_TenantID i) (wi_CaseID i) (ToState t) n (Terminal x) s1 = (Inr (), s2)
      \<and> EvaluateCaseRules csvc (wi_TenantID i) (wi_CaseID i) s2 = (Inr (), s')"
    using o' csvc(2) unfolding OnTransition_def by (simp add: tx_Inr case_FindByIDTx_def checkRequired_Inr) blast
  then obtain n s2 where w: "UpdateWorkflowStateTx (ctx_time c 1) (wi_TenantID i) (wi_CaseID i) (ToState t) n (Terminal x) s1 = (Inr (), s2)"
    and v: "EvaluateCaseRules csvc (wi_TenantID i) (wi_CaseID i) s2 = (Inr (), s')" by blast
  from w have u: "same_rules s1 s2"
    by (auto simp: UpdateWorkflowStateTx_def case_update_Inr same_rules_def rules_tables_def)
  have "same_rules s s2" using more_same_rules [OF more] u rules_frame.trans by blast
  then show thesis using that v csvc(2) by (simp add: res EvaluateCaseRules_def moved_instance_def)
qed

end

subsection \<open>Missing facts\<close>

text \<open>The fields of the leaves that the evaluation of a condition can meet.\<close>

fun leaf_fields :: "Condition \<Rightarrow> string set" where
  "leaf_fields (Condition field op v all any neg) =
     (if field \<noteq> [] then {field}
      else (\<Union>c \<in> set all. leaf_fields c) \<union> (\<Union>c \<in> set any. leaf_fields c) \<union> (case neg of None \<Rightarrow> {} | Some c \<Rightarrow> leaf_fields c))"

lemma fold_missing:
  assumes "\<And>c m. c \<in> set cs \<Longrightarrow> distinct m \<Longrightarrow> distinct (f c m) \<and> set (f c m) = set m \<union> A c" "distinct m"
  shows "distinct (fold f cs m) \<and> set (fold f cs m) = set m \<union> (\<Union>c \<in> set cs. A c)"
  using assms by (induction cs arbitrary: m) auto

lemma findMissingInCondition_set:
  "distinct m \<Longrightarrow> distinct (findMissingInCondition facts c m)
     \<and> set (findMissingInCondition facts c m) = set m \<union> {f \<in> leaf_fields c. ResolveFact facts f = None}"
proof (induction c arbitrary: m)
  case (Condition field op v al an neg)
  show ?case
  proof (cases "field = []")
    case False
    then show ?thesis using Condition.prems by auto
  next
    case True
    let ?A = "\<lambda>c. {f \<in> leaf_fields c. ResolveFact facts f = None}"
    define m1 where "m1 = fold (findMissingInCondition facts) al m"
    define m2 where "m2 = fold (findMissingInCondition facts) an m1"
    have m1: "distinct m1" "set m1 = set m \<union> (\<Union>c \<in> set al. ?A c)"
      unfolding m1_def using fold_missing [of al "findMissingInCondition facts" ?A m] Condition.IH(1) Condition.prems by auto
    have m2: "distinct m2" "set m2 = set m1 \<union> (\<Union>c \<in> set an. ?A c)"
      unfolding m2_def using fold_missing [of an "findMissingInCondition facts" ?A m1] Condition.IH(2) m1(1) by auto
    have e: "findMissingInCondition facts (Condition field op v al an neg) m
        = (case neg of None \<Rightarrow> m2 | Some c \<Rightarrow> findMissingInCondition facts c m2)"
      by (simp add: True m1_def m2_def Let_def split: option.split)
    show ?thesis
    proof (cases neg)
      case None
      then show ?thesis unfolding e using m1 m2 True by auto
    next
      case (Some c)
      then show ?thesis unfolding e using m1 m2 True Condition.IH(3) [of c m2] by auto
    qed
  qed
qed

lemma findMissingFacts_set:
  "distinct (findMissingFacts rs facts)
   \<and> set (findMissingFacts rs facts) = {f. (\<exists>r \<in> set (Rules rs). f \<in> leaf_fields (Conditions r)) \<and> ResolveFact facts f = None}"
proof -
  let ?f = "\<lambda>rule. findMissingInCondition facts (Conditions rule)"
  have "distinct (fold ?f (Rules rs) []) \<and> set (fold ?f (Rules rs) [])
      = set [] \<union> (\<Union>r \<in> set (Rules rs). {f \<in> leaf_fields (Conditions r). ResolveFact facts f = None})"
    by (rule fold_missing) (use findMissingInCondition_set in auto)
  then show ?thesis unfolding findMissingFacts_def by auto
qed

text \<open>A condition is unknown only if a fact it asks for is missing.\<close>

lemma compare_known:
  "fst (compareNumeric op a b) \<noteq> resultUnknown" "fst (compareEquality op a b) \<noteq> resultUnknown"
  "fst (compareBoolean op a b) \<noteq> resultUnknown" "fst (compareString re op a b) \<noteq> resultUnknown"
  "fst (compareTemporal op a b) \<noteq> resultUnknown"
  by (cases op; simp add: compareNumeric_def compareEquality_def equality_verdict_def type_mismatch_def compareBoolean_def
      compareString_def compareTemporal_def Let_def split: option.split; fail)+

lemma membership_known: "fst (membership_loop op a bs) \<noteq> resultUnknown"
  by (induction bs) (simp_all add: Let_def)

lemma evalLeaf_known: "fst (evalLeaf re op val v) \<noteq> resultUnknown"
  by (simp add: evalLeaf_def compareTyped_def compareMembership_def compare_known membership_known split: goval.split)

lemma unknown_group:
  "and_value rs = resultUnknown \<Longrightarrow> resultUnknown \<in> set rs" "or_value rs = resultUnknown \<Longrightarrow> resultUnknown \<in> set rs"
  by (auto simp: and_value_def or_value_def split: if_splits)

lemma unknown_missing:
  "cond_value re facts c = resultUnknown \<Longrightarrow> \<exists>f \<in> leaf_fields c. ResolveFact facts f = None"
proof (induction c)
  case (Condition field op v al an neg)
  show ?case
  proof (cases "field = []")
    case False
    then show ?thesis using Condition.prems evalLeaf_known by (auto split: option.splits)
  next
    case True
    have inv: "invertResult r = resultUnknown \<longleftrightarrow> r = resultUnknown" for r by (cases r) (simp_all add: invertResult_def)
    have some: "\<exists>f \<in> \<Union>(leaf_fields ` set cs). ResolveFact facts f = None"
      if "resultUnknown \<in> set (map (cond_value re facts) cs)"
        "\<And>c. c \<in> set cs \<Longrightarrow> cond_value re facts c = resultUnknown \<Longrightarrow> \<exists>f \<in> leaf_fields c. ResolveFact facts f = None" for cs
      using that by fastforce
    consider (al) "and_value (map (cond_value re facts) al) = resultUnknown" | (an) "or_value (map (cond_value re facts) an) = resultUnknown"
      | (neg) c where "neg = Some c" "cond_value re facts c = resultUnknown"
      using Condition.prems True by (auto simp: inv split: if_splits option.splits)
    then show ?thesis
    proof cases
      case al
      from some [OF unknown_group(1) [OF this] Condition.IH(1)] show ?thesis using True by auto
    next
      case an
      from some [OF unknown_group(2) [OF this] Condition.IH(2)] show ?thesis using True by auto
    next
      case (neg c)
      then show ?thesis using Condition.IH(3) [of c] True by auto
    qed
  qed
qed

subsection \<open>The latest submissions\<close>

definition submission_key :: "uuid \<Rightarrow> 's form_db_scheme \<Rightarrow> FormSubmission \<Rightarrow> string option" where
  "submission_key orgID s sub = (case form_FindByID orgID (sb_FormID sub) s of Inl e \<Rightarrow> None | Inr form \<Rightarrow> Some (fm_Key form))"

lemma latest_by_key_eq:
  "latest_by_key orgID s sub m = (case submission_key orgID s sub of None \<Rightarrow> m
     | Some key \<Rightarrow> (case map_of m key of None \<Rightarrow> AList.update key sub m
        | Some x \<Rightarrow> if SubmittedAt x < SubmittedAt sub then AList.update key sub m else m))"
  by (auto simp: latest_by_key_def submission_key_def resolver_FindByID_def toFormView_def split: sum.split option.split)

text \<open>The submissions come latest first, so that the first one of a key stays.\<close>

lemma fold_latest_by_key:
  assumes "sorted_wrt (\<lambda>x y. SubmittedAt y \<le> SubmittedAt x) subs"
    and "\<And>k x sub. map_of m k = Some x \<Longrightarrow> sub \<in> set subs \<Longrightarrow> SubmittedAt sub \<le> SubmittedAt x"
  shows "map_of (fold (latest_by_key orgID s) subs m) key = (case map_of m key of
     Some x \<Rightarrow> Some x | None \<Rightarrow> List.find (\<lambda>sub. submission_key orgID s sub = Some key) subs)"
  using assms
proof (induction subs arbitrary: m)
  case Nil
  then show ?case by (simp split: option.split)
next
  case (Cons sub subs)
  define m' where "m' = latest_by_key orgID s sub m"
  have m': "map_of m' k = (case map_of m k of Some x \<Rightarrow> Some x
      | None \<Rightarrow> if submission_key orgID s sub = Some k then Some sub else None)" for k
    using Cons.prems(2) [of _ _ sub]
    by (auto simp: m'_def latest_by_key_eq update_conv' not_less [symmetric] split: option.split)
  have "SubmittedAt y \<le> SubmittedAt x" if "map_of m' k = Some x" "y \<in> set subs" for k x y
    using that Cons.prems(1) Cons.prems(2) [of k x y] by (auto simp: m' split: option.splits if_splits)
  then have "map_of (fold (latest_by_key orgID s) subs m') key = (case map_of m' key of
     Some x \<Rightarrow> Some x | None \<Rightarrow> List.find (\<lambda>sub. submission_key orgID s sub = Some key) subs)"
    using Cons.prems(1) by (intro Cons.IH) auto
  then show ?case by (simp add: m'_def [symmetric] m' split: option.split)
qed

lemma submissions_sorted: "sorted_wrt (\<lambda>x y. SubmittedAt y \<le> SubmittedAt x) (submission_ListByCase orgID caseID s)"
proof -
  have "sorted (map (\<lambda>x. - SubmittedAt x) (submission_ListByCase orgID caseID s))"
    by (simp add: submission_ListByCase_def)
  then show ?thesis by (simp add: sorted_map)
qed

text \<open>A path into the form data.\<close>

lemma split_dotted: "plain_key k \<Longrightarrow> splitFactPath (k @ CHR ''.'' # rest) = k # splitFactPath rest"
  using split_path_plain [of k False "CHR ''.'' # rest" "[]"] by (simp add: plain_key_def splitFactPath_def)

lemma plain_descend:
  "plain_key k \<Longrightarrow> resolve_segments (GObject kvs) (k # segs) = (case map_of kvs k of None \<Rightarrow> None | Some v \<Rightarrow> resolve_segments v segs)"
  by (simp add: parseBracketIndex_def after_last_bracket_def plain_key_def segment_key_def descend_def split: option.split)

lemma resolve_form_field:
  assumes "plain_key key" "plain_key field" "assembled_facts now orgID caseID s = Inr facts"
  shows "ResolveFact facts (''form.'' @ key @ CHR ''.'' # field)
    = (case List.find (\<lambda>sub. submission_key orgID s sub = Some key) (submission_ListByCase orgID caseID s) of
         None \<Rightarrow> None | Some sub \<Rightarrow> map_of (submission_facts sub) field)"
proof -
  let ?L = "submission_ListByCase orgID caseID s"
  have "plain_key ''form''" by (simp add: plain_key_def)
  from split_dotted [OF this, of "key @ CHR ''.'' # field"]
  have sp: "splitFactPath (''form.'' @ key @ CHR ''.'' # field) = [''form'', key, field]"
    by (simp add: split_dotted [OF assms(1)] split_plain_key [OF assms(2)])
  define m where "m = fold (latest_by_key orgID s) ?L []"
  have m: "map_of m key = List.find (\<lambda>sub. submission_key orgID s sub = Some key) ?L"
    unfolding m_def using fold_latest_by_key [OF submissions_sorted, of "[]"] by simp
  have fm: "map_of facts ''form'' = Some (GObject (map (\<lambda>(key, sub). (key, GObject (submission_facts sub))) m))"
    using assms(3) by (auto simp: assembled_facts_def m_def split: sum.splits)
  have "map_of (map (\<lambda>(key, sub). (key, GObject (submission_facts sub))) m) key = map_option (\<lambda>sub. GObject (submission_facts sub)) (map_of m key)"
    by (simp add: map_of_map)
  then show ?thesis
    unfolding ResolveFact_def sp list.case
    by (simp add: plain_descend assms(1,2) \<open>plain_key ''form''\<close> fm m split: option.split del: resolve_segments.simps(2))
qed

end
