(* ===== verification/Form_Runs.thy ===== *)
theory Form_Runs
  imports Form_Effects
begin

section \<open>What the tables of forms always satisfy\<close>

text \<open>
  The invariant of forms, versions and fields under requests served one after the other, and
  what a version keeps once it is published.
\<close>

subsection \<open>The invariant\<close>

definition version_ok :: "Form list \<Rightarrow> FormVersion \<Rightarrow> bool" where
  "version_ok F v \<longleftrightarrow> (\<exists>f \<in> set F. fm_ID f = FormID v \<and> fm_OrganizationID f = fv_OrganizationID v)
     \<and> fv_Status v \<noteq> FormVersionStatusArchived \<and> 1 \<le> fv_Version v
     \<and> (fv_Status v = FormVersionStatusDraft \<longrightarrow> PublishedAt v = Some zero_time)"

definition field_ok :: "FormVersion list \<Rightarrow> FormField \<Rightarrow> bool" where
  "field_ok V l \<longleftrightarrow> (\<exists>v \<in> set V. fv_ID v = FormVersionID l \<and> fv_OrganizationID v = ff_OrganizationID l)
     \<and> IsValidFieldType (ff_Type l)"

definition has_published :: "FormVersion list \<Rightarrow> Form \<Rightarrow> bool" where
  "has_published V f \<longleftrightarrow> (\<exists>v \<in> set V. FormID v = fm_ID f \<and> fv_OrganizationID v = fm_OrganizationID f
     \<and> fv_Status v = FormVersionStatusPublished)"

definition forms_ok :: "Form list \<times> FormVersion list \<times> FormField list \<Rightarrow> bool" where
  "forms_ok = (\<lambda>(F, V, L).
     distinct (map fm_ID F) \<and> distinct (map (\<lambda>f. (fm_OrganizationID f, fm_Key f)) F)
     \<and> distinct (map fv_ID V) \<and> distinct (map (\<lambda>v. (FormID v, fv_Version v)) V)
     \<and> distinct (map ff_ID L) \<and> distinct (map (\<lambda>l. (FormVersionID l, ff_Key l)) L)
     \<and> (\<forall>v \<in> set V. version_ok F v) \<and> (\<forall>l \<in> set L. field_ok V l)
     \<and> (\<forall>f \<in> set F. fm_Status f = FormStatusActive \<longrightarrow> has_published V f))"

definition form_part :: "'s form_db_scheme \<Rightarrow> Form list \<times> FormVersion list \<times> FormField list" where
  "form_part s = (forms s, form_versions s, form_fields s)"

lemma form_part_eq: "form_part s = (F, V, L) \<longleftrightarrow> forms s = F \<and> form_versions s = V \<and> form_fields s = L"
  by (simp add: form_part_def)

lemma audit_grows_part: "audit_grows s s' \<Longrightarrow> form_part s' = form_part s"
  by (auto simp: audit_grows_def form_part_def)

lemma forms_okD:
  assumes "forms_ok (F, V, L)"
  shows "distinct (map fm_ID F)" "distinct (map (\<lambda>f. (fm_OrganizationID f, fm_Key f)) F)"
    "distinct (map fv_ID V)" "distinct (map (\<lambda>v. (FormID v, fv_Version v)) V)"
    "distinct (map ff_ID L)" "distinct (map (\<lambda>l. (FormVersionID l, ff_Key l)) L)"
    "v \<in> set V \<Longrightarrow> version_ok F v" "l \<in> set L \<Longrightarrow> field_ok V l"
    "f \<in> set F \<Longrightarrow> fm_Status f = FormStatusActive \<Longrightarrow> has_published V f"
  using assms by (auto simp: forms_ok_def)

lemma forms_okI:
  assumes "distinct (map fm_ID F)" "distinct (map (\<lambda>f. (fm_OrganizationID f, fm_Key f)) F)"
    "distinct (map fv_ID V)" "distinct (map (\<lambda>v. (FormID v, fv_Version v)) V)"
    "distinct (map ff_ID L)" "distinct (map (\<lambda>l. (FormVersionID l, ff_Key l)) L)"
    "\<And>v. v \<in> set V \<Longrightarrow> version_ok F v" "\<And>l. l \<in> set L \<Longrightarrow> field_ok V l"
    "\<And>f. f \<in> set F \<Longrightarrow> fm_Status f = FormStatusActive \<Longrightarrow> has_published V f"
  shows "forms_ok (F, V, L)"
  using assms by (auto simp: forms_ok_def)

subsection \<open>Changes that keep it\<close>

lemma version_ok_mono: "version_ok F v \<Longrightarrow> (\<And>f. f \<in> set F \<Longrightarrow> \<exists>g \<in> set F'. fm_ID g = fm_ID f
    \<and> fm_OrganizationID g = fm_OrganizationID f) \<Longrightarrow> version_ok F' v"
  unfolding version_ok_def by metis

lemma field_ok_mono: "field_ok V l \<Longrightarrow> (\<And>v. v \<in> set V \<Longrightarrow> \<exists>w \<in> set V'. fv_ID w = fv_ID v
    \<and> fv_OrganizationID w = fv_OrganizationID v) \<Longrightarrow> field_ok V' l"
  unfolding field_ok_def by metis

lemma forms_ok_new_form:
  assumes ok: "forms_ok (F, V, L)" and new: "fm_ID f \<notin> fm_ID ` set F"
    "\<not> (\<exists>g \<in> set F. fm_OrganizationID g = fm_OrganizationID f \<and> fm_Key g = fm_Key f)" "fm_Status f = FormStatusDraft"
  shows "forms_ok (F @ [f], V, L)"
proof (rule forms_okI)
  fix v assume "v \<in> set V"
  from forms_okD(7) [OF ok this] show "version_ok (F @ [f]) v" by (rule version_ok_mono) auto
qed (use forms_okD [OF ok] new in auto)

text \<open>A change of names and status of forms.\<close>

definition form_change :: "(Form \<Rightarrow> Form) \<Rightarrow> bool" where
  "form_change g \<longleftrightarrow> (\<forall>f. fm_ID (g f) = fm_ID f \<and> fm_OrganizationID (g f) = fm_OrganizationID f \<and> fm_Key (g f) = fm_Key f)"

lemma forms_ok_form_change:
  assumes ok: "forms_ok (F, V, L)" and g: "form_change g"
    and active: "\<And>f. f \<in> set F \<Longrightarrow> fm_Status (g f) = FormStatusActive \<Longrightarrow> has_published V f"
  shows "forms_ok (map g F, V, L)"
proof (rule forms_okI)
  have keys: "map fm_ID (map g F) = map fm_ID F"
    "map (\<lambda>f. (fm_OrganizationID f, fm_Key f)) (map g F) = map (\<lambda>f. (fm_OrganizationID f, fm_Key f)) F"
    using g by (simp_all add: form_change_def)
  show "distinct (map fm_ID (map g F))" "distinct (map (\<lambda>f. (fm_OrganizationID f, fm_Key f)) (map g F))"
    unfolding keys using forms_okD(1,2) [OF ok] .
  fix v assume "v \<in> set V"
  from forms_okD(7) [OF ok this] show "version_ok (map g F) v" by (rule version_ok_mono) (use g in \<open>auto simp: form_change_def\<close>)
next
  fix f assume "f \<in> set (map g F)" "fm_Status f = FormStatusActive"
  then obtain f0 where "f0 \<in> set F" "f = g f0" "fm_Status (g f0) = FormStatusActive" by auto
  then show "has_published V f" using active [of f0] g by (simp add: has_published_def form_change_def)
qed (use forms_okD [OF ok] in auto)

lemma forms_ok_new_version:
  assumes ok: "forms_ok (F, V, L)" and v: "fv_ID v \<notin> fv_ID ` set V" "version_ok F v"
    "\<not> (\<exists>w \<in> set V. FormID w = FormID v \<and> fv_Version w = fv_Version v)"
  shows "forms_ok (F, V @ [v], L)"
proof (rule forms_okI)
  fix l assume "l \<in> set L"
  from forms_okD(8) [OF ok this] show "field_ok (V @ [v]) l" by (rule field_ok_mono) auto
next
  fix f assume "f \<in> set F" "fm_Status f = FormStatusActive"
  then show "has_published (V @ [v]) f" using forms_okD(9) [OF ok] by (auto simp: has_published_def)
qed (use forms_okD [OF ok] v in auto)

text \<open>The publication of a version.\<close>

definition publish_row :: "FormVersion \<Rightarrow> FormVersion \<Rightarrow> FormVersion" where
  "publish_row v w = (if fv_ID w = fv_ID v
     then w\<lparr>fv_Status := FormVersionStatusPublished, PublishedAt := stored_published_at v,
            fv_UpdatedAt := trunc_micros (fv_UpdatedAt v)\<rparr> else w)"

lemma publish_row_simps [simp]:
  "fv_ID (publish_row v w) = fv_ID w" "FormID (publish_row v w) = FormID w"
  "fv_OrganizationID (publish_row v w) = fv_OrganizationID w" "fv_Version (publish_row v w) = fv_Version w"
  by (simp_all add: publish_row_def)

lemma forms_ok_publish:
  assumes ok: "forms_ok (F, V, L)"
  shows "forms_ok (F, map (publish_row v) V, L)"
proof (rule forms_okI)
  have keys: "map fv_ID (map (publish_row v) V) = map fv_ID V"
    "map (\<lambda>w. (FormID w, fv_Version w)) (map (publish_row v) V) = map (\<lambda>w. (FormID w, fv_Version w)) V" by simp_all
  show "distinct (map fv_ID (map (publish_row v) V))"
    "distinct (map (\<lambda>w. (FormID w, fv_Version w)) (map (publish_row v) V))"
    unfolding keys using forms_okD(3,4) [OF ok] .
  fix w assume "w \<in> set (map (publish_row v) V)"
  then obtain w0 where "w0 \<in> set V" "w = publish_row v w0" by auto
  then show "version_ok F w"
    using forms_okD(7) [OF ok, of w0] by (auto simp: version_ok_def publish_row_def split: if_splits)
next
  fix l assume "l \<in> set L"
  from forms_okD(8) [OF ok this] show "field_ok (map (publish_row v) V) l" by (rule field_ok_mono) auto
next
  fix f assume "f \<in> set F" "fm_Status f = FormStatusActive"
  from forms_okD(9) [OF ok this] obtain w where "w \<in> set V" "FormID w = fm_ID f"
    "fv_OrganizationID w = fm_OrganizationID f" "fv_Status w = FormVersionStatusPublished"
    by (auto simp: has_published_def)
  then show "has_published (map (publish_row v) V) f"
    unfolding has_published_def by (intro bexI [of _ "publish_row v w"]) (simp_all add: publish_row_def)
qed (use forms_okD [OF ok] in auto)

lemma forms_ok_new_field:
  assumes ok: "forms_ok (F, V, L)" and l: "ff_ID l \<notin> ff_ID ` set L" "field_ok V l"
    "\<not> (\<exists>g \<in> set L. FormVersionID g = FormVersionID l \<and> ff_Key g = ff_Key l)"
  shows "forms_ok (F, V, L @ [l])"
  by (rule forms_okI) (use forms_okD [OF ok] l in auto)

lemma forms_ok_field_change:
  assumes ok: "forms_ok (F, V, L)"
    and g: "\<And>l. ff_ID (g l) = ff_ID l \<and> FormVersionID (g l) = FormVersionID l \<and> ff_Key (g l) = ff_Key l
        \<and> ff_OrganizationID (g l) = ff_OrganizationID l"
    and t: "\<And>l. l \<in> set L \<Longrightarrow> IsValidFieldType (ff_Type (g l))"
  shows "forms_ok (F, V, map g L)"
proof (rule forms_okI)
  have keys: "map ff_ID (map g L) = map ff_ID L"
    "map (\<lambda>l. (FormVersionID l, ff_Key l)) (map g L) = map (\<lambda>l. (FormVersionID l, ff_Key l)) L"
    using g by simp_all
  show "distinct (map ff_ID (map g L))" "distinct (map (\<lambda>l. (FormVersionID l, ff_Key l)) (map g L))"
    unfolding keys using forms_okD(5,6) [OF ok] .
  fix l assume "l \<in> set (map g L)"
  then obtain l0 where "l0 \<in> set L" "l = g l0" by auto
  then show "field_ok V l" using forms_okD(8) [OF ok, of l0] g t by (auto simp: field_ok_def)
qed (use forms_okD [OF ok] in auto)

lemma forms_ok_field_delete: "forms_ok (F, V, L) \<Longrightarrow> forms_ok (F, V, filter p L)"
  by (rule forms_okI) (use forms_okD in \<open>auto simp: distinct_map_filter\<close>)

subsection \<open>Requests\<close>

text \<open>
  A request on forms that reads the store it is served on, whatever its outcome; the identifier
  drawn for a new version is fresh. Requests of other services leave forms, versions and fields
  alone. The requests themselves take the store they have read before their transaction as an
  argument of its own; a step gives them the current one, since a request to change fields that has
  read an earlier one can change a version after it was published.
\<close>

inductive form_step :: "regexp \<Rightarrow> (string \<Rightarrow> string) \<Rightarrow> 's form_db_scheme auditor \<Rightarrow> 's form_db_scheme
    \<Rightarrow> 's form_db_scheme \<Rightarrow> bool" for re lower auditor where
  create_form: "CreateForm lower auditor c cp s = (r1, s') \<Longrightarrow> form_step re lower auditor s s'"
| update_form: "UpdateForm auditor c s up s = (r1, s') \<Longrightarrow> form_step re lower auditor s s'"
| archive_form: "ArchiveForm auditor c s orgID formID actorID s = (r1, s') \<Longrightarrow> form_step re lower auditor s s'"
| create_version: "CreateVersion auditor c s orgID formID actorID s = (r2, s')
    \<Longrightarrow> ctx_uuid c 0 \<notin> fv_ID ` set (form_versions s) \<Longrightarrow> form_step re lower auditor s s'"
| publish_version: "PublishVersion auditor c s orgID versionID actorID s = (r2, s') \<Longrightarrow> form_step re lower auditor s s'"
| add_field: "AddField re lower auditor c s ap s = (r3, s') \<Longrightarrow> form_step re lower auditor s s'"
| update_field: "UpdateField re auditor c s dp s = (r3, s') \<Longrightarrow> form_step re lower auditor s s'"
| delete_field: "DeleteField auditor c s orgID fieldID actorID s = (r3, s') \<Longrightarrow> form_step re lower auditor s s'"
| elsewhere: "form_part s' = form_part s \<Longrightarrow> form_step re lower auditor s s'"

inductive forms_reachable :: "regexp \<Rightarrow> (string \<Rightarrow> string) \<Rightarrow> 's form_db_scheme auditor \<Rightarrow> 's form_db_scheme \<Rightarrow> bool"
  for re lower auditor where
  start: "form_part s = ([], [], []) \<Longrightarrow> forms_reachable re lower auditor s"
| step: "forms_reachable re lower auditor s \<Longrightarrow> form_step re lower auditor s s' \<Longrightarrow> forms_reachable re lower auditor s'"

text \<open>
  What a version is once it is published: its row and its fields. A step of the invariant
  keeps both.
\<close>

definition version_fields :: "'s form_db_scheme \<Rightarrow> FormVersion \<Rightarrow> FormField list" where
  "version_fields s v = filter (\<lambda>l. FormVersionID l = fv_ID v) (form_fields s)"

lemma FindByVersion_fields: "fv_ID x = fv_ID v \<Longrightarrow>
    FindByVersion orgID (fv_ID v) t = field_order (filter (\<lambda>f. ff_OrganizationID f = orgID) (version_fields t x))"
  by (simp add: FindByVersion_def version_fields_def conj_commute)

definition same_version :: "FormVersion \<Rightarrow> FormVersion \<Rightarrow> bool" where
  "same_version v w \<longleftrightarrow> fv_ID w = fv_ID v \<and> FormID w = FormID v \<and> fv_OrganizationID w = fv_OrganizationID v
     \<and> fv_Version w = fv_Version v \<and> fv_Status w = FormVersionStatusPublished"

definition freezes :: "'s form_db_scheme \<Rightarrow> 's form_db_scheme \<Rightarrow> bool" where
  "freezes s s' \<longleftrightarrow> (\<forall>v \<in> set (form_versions s). fv_Status v = FormVersionStatusPublished \<longrightarrow>
     (\<exists>w \<in> set (form_versions s'). same_version v w \<and> version_fields s' w = version_fields s v))"

lemma same_version_refl: "fv_Status v = FormVersionStatusPublished \<Longrightarrow> same_version v v"
  by (simp add: same_version_def)

lemma freezesI:
  assumes "\<And>v. v \<in> set (form_versions s) \<Longrightarrow> fv_Status v = FormVersionStatusPublished \<Longrightarrow>
      \<exists>w \<in> set (form_versions s'). same_version v w \<and> version_fields s' w = version_fields s v"
  shows "freezes s s'"
  using assms by (simp add: freezes_def)

interpretation freezing: tx_frame freezes
proof unfold_locales
  show "freezes s s" for s :: "'s form_db_scheme"
    by (rule freezesI) (auto intro: same_version_refl)
  show "freezes s1 s3" if f: "freezes s1 s2" "freezes s2 s3" for s1 s2 s3 :: "'s form_db_scheme"
  proof (rule freezesI)
    fix v assume "v \<in> set (form_versions s1)" "fv_Status v = FormVersionStatusPublished"
    then obtain w where w: "w \<in> set (form_versions s2)" "same_version v w" "version_fields s2 w = version_fields s1 v"
      using f(1) by (auto simp: freezes_def)
    then obtain x where "x \<in> set (form_versions s3)" "same_version w x" "version_fields s3 x = version_fields s2 w"
      using f(2) by (auto simp: freezes_def same_version_def)
    then show "\<exists>w \<in> set (form_versions s3). same_version v w \<and> version_fields s3 w = version_fields s1 v"
      using w by (auto simp: same_version_def)
  qed
qed

text \<open>Changes that do not touch the versions, nor the fields of published ones.\<close>

lemma freezes_same_versions:
  assumes "form_versions s' = form_versions s"
    and "\<And>v. v \<in> set (form_versions s) \<Longrightarrow> fv_Status v = FormVersionStatusPublished
       \<Longrightarrow> version_fields s' v = version_fields s v"
  shows "freezes s s'"
  by (rule freezesI) (use assms same_version_refl in auto)

definition step_ok :: "'s form_db_scheme \<Rightarrow> 's form_db_scheme \<Rightarrow> bool" where
  "step_ok s s' \<longleftrightarrow> forms_ok (form_part s') \<and> freezes s s'"

lemma step_ok_refl: "forms_ok (form_part s) \<Longrightarrow> step_ok s s"
  by (simp add: step_ok_def freezing.refl)

lemma step_ok_part: "forms_ok (form_part s) \<Longrightarrow> form_part s' = form_part s \<Longrightarrow> step_ok s s'"
  unfolding step_ok_def by (auto intro!: freezes_same_versions simp: form_part_def version_fields_def)

lemma update_where_map: "update_where p f rows = map (\<lambda>r. if p r then f r else r) rows"
  by (simp add: update_where_def)

subsection \<open>Every request keeps the invariant\<close>

lemma form_change_update:
  "form_change (\<lambda>f. if p f then f\<lparr>fm_Name := a, fm_Description := b, fm_Status := st, fm_UpdatedAt := n\<rparr> else f)"
  by (simp add: form_change_def)

lemma part_update:
  "form_Update n orgID i f s = (Inr u, s1) \<Longrightarrow> form_part s1
     = (map (\<lambda>g. if fm_OrganizationID g = orgID \<and> fm_ID g = i
          then g\<lparr>fm_Name := fm_Name f, fm_Description := fm_Description f, fm_Status := fm_Status f,
                 fm_UpdatedAt := n\<rparr> else g) (forms s), form_versions s, form_fields s)"
  by (auto simp: form_Update_Inr form_part_def update_where_map)

lemma step_ok_update:
  assumes ok: "forms_ok (form_part s)" and up: "form_Update n orgID i f s = (Inr u, s1)" "form_part s' = form_part s1"
    and st: "fm_Status f = FormStatusActive \<Longrightarrow>
      \<exists>v \<in> set (form_versions s). FormID v = i \<and> fv_OrganizationID v = orgID \<and> fv_Status v = FormVersionStatusPublished"
  shows "step_ok s s'"
proof -
  note F = ok [unfolded form_part_def] and t = up(2) [unfolded part_update [OF up(1)]]
  have "forms_ok (form_part s')" unfolding t
  proof (rule forms_ok_form_change [OF F form_change_update])
    fix g assume g: "g \<in> set (forms s)" and
      a: "fm_Status (if fm_OrganizationID g = orgID \<and> fm_ID g = i
          then g\<lparr>fm_Name := fm_Name f, fm_Description := fm_Description f, fm_Status := fm_Status f,
                 fm_UpdatedAt := n\<rparr> else g) = FormStatusActive"
    show "has_published (form_versions s) g"
    proof (cases "fm_OrganizationID g = orgID \<and> fm_ID g = i")
      case True
      then show ?thesis using a st by (auto simp: has_published_def)
    next
      case False
      then have "fm_Status g = FormStatusActive" using a by (simp split: if_splits)
      then show ?thesis by (rule forms_okD(9) [OF F g])
    qed
  qed
  moreover have "freezes s s'"
    by (rule freezes_same_versions) (use t in \<open>auto simp: form_part_eq version_fields_def\<close>)
  ultimately show ?thesis by (simp add: step_ok_def)
qed

context form_recorder
begin

lemma create_form_step:
  assumes ok: "forms_ok (form_part s)" and run: "CreateForm lower auditor c p s = (Inr form, s')"
  shows "step_ok s s'"
proof (rule CreateForm_Inr [OF run])
  fix s1 assume f: "NewForm lower c (cf_OrganizationID p) (cf_Key p) (cf_Name p) (cf_Description p) (cf_CreatedByID p) = Inr form"
    "form_Save form s = (Inr (), s1)" "audit_grows s1 s'"
  have "fm_Status form = FormStatusDraft" using f(1) by (auto simp: NewForm_def split: option.splits)
  then have "forms_ok (forms s @ [form_row form], form_versions s, form_fields s)"
    using f(2) by (intro forms_ok_new_form [OF ok [unfolded form_part_def]]) (auto simp: form_Save_Inr form_row_def)
  moreover have t: "form_part s' = (forms s @ [form_row form], form_versions s, form_fields s)"
    using audit_grows_part [OF f(3)] f(2) by (auto simp: form_Save_Inr form_part_def)
  moreover have "freezes s s'"
    by (rule freezes_same_versions) (use t in \<open>auto simp: form_part_eq version_fields_def\<close>)
  ultimately show "step_ok s s'" by (simp add: step_ok_def)
qed

lemma published_exists:
  assumes ok: "forms_ok (form_part s)" and f: "form_FindByID orgID i s = Inr old" "fm_Status old = FormStatusActive"
  shows "\<exists>v \<in> set (form_versions s). FormID v = i \<and> fv_OrganizationID v = orgID \<and> fv_Status v = FormVersionStatusPublished"
  using forms_okD(9) [OF ok [unfolded form_part_def], of old] form_FindByID_Inr [OF f(1)] f(2)
  by (auto simp: has_published_def)

lemma update_form_step:
  assumes ok: "forms_ok (form_part s)" and run: "UpdateForm auditor c s p s = (Inr form, s')"
  shows "step_ok s s'"
proof (rule UpdateForm_Inr [OF run])
  fix old s1
  assume f: "form_FindByID (uf_OrganizationID p) (uf_ID p) s = Inr old"
    "form = old\<lparr>fm_Name := (if uf_Name p \<noteq> [] then uf_Name p else fm_Name old),
       fm_Description := (if uf_Description p \<noteq> [] then uf_Description p else fm_Description old),
       fm_UpdatedAt := ctx_time c 0\<rparr>"
    "form_Update (ctx_time c 1) (uf_OrganizationID p) (uf_ID p) form s = (Inr (), s1)" "audit_grows s1 s'"
  have "fm_Status form = fm_Status old" using f(2) by simp
  then show "step_ok s s'"
    by (intro step_ok_update [OF ok f(3) audit_grows_part [OF f(4)]]) (metis published_exists [OF ok f(1)])
qed

lemma archive_form_step:
  assumes ok: "forms_ok (form_part s)" and run: "ArchiveForm auditor c s orgID formID actorID s = (Inr form, s')"
  shows "step_ok s s'"
proof (rule ArchiveForm_Inr [OF run])
  fix old s1
  assume "form = old\<lparr>fm_Status := FormStatusArchived, fm_UpdatedAt := ctx_time c 0\<rparr>"
    and up: "form_Update (ctx_time c 1) orgID formID form s = (Inr (), s1)" "audit_grows s1 s'"
  then show "step_ok s s'" by (intro step_ok_update [OF ok up(1) audit_grows_part [OF up(2)]]) simp
qed

lemma create_version_step:
  assumes ok: "forms_ok (form_part s)" and run: "CreateVersion auditor c s orgID formID actorID s = (Inr v, s')"
    and fresh: "ctx_uuid c 0 \<notin> fv_ID ` set (form_versions s)"
  shows "step_ok s s'"
proof (rule CreateVersion_Inr [OF run])
  note F = ok [unfolded form_part_def]
  fix form latest s1
  assume f: "form_FindByID orgID formID s = Inr form"
    "optional dErrFormVersionNotFound ''failed to find latest version'' (FindLatest orgID formID s) = Inr latest"
    and v: "v = (NewFormVersion c formID orgID actorID)\<lparr>fv_Version := (case latest of None \<Rightarrow> 1 | Some w \<Rightarrow> fv_Version w + 1)\<rparr>"
    and s1: "version_Save v s = (Inr (), s1)" "audit_grows s1 s'"
  have new: "fv_ID v \<notin> fv_ID ` set (form_versions s)" using fresh v by (simp add: NewFormVersion_def)
  have "latest = Some w \<Longrightarrow> w \<in> set (form_versions s)" for w
    using f(2) row_or_sorted_mem [of dErrFormVersionNotFound "\<lambda>v. - fv_Version v" _ "form_versions s" w]
    by (auto simp: optional_Inr FindLatest_def newest_version_def split: sum.splits)
  then have "1 \<le> fv_Version v"
    using forms_okD(7) [OF F] v by (auto simp: version_ok_def split: option.splits) fastforce
  then have "version_ok (forms s) (version_row v)"
    using v form_FindByID_Inr [OF f(1)]
    by (auto simp: version_ok_def version_row_def NewFormVersion_def stored_published_at_def)
  moreover have sv: "\<not> (\<exists>w \<in> set (form_versions s). FormID w = FormID v \<and> fv_Version w = fv_Version v)"
    "s1 = s\<lparr>form_versions := form_versions s @ [version_row v]\<rparr>"
  proof -
    have "\<not> (\<exists>w \<in> set (form_versions s). fv_ID w = fv_ID v)" using new by (metis imageI)
    then show "\<not> (\<exists>w \<in> set (form_versions s). FormID w = FormID v \<and> fv_Version w = fv_Version v)"
      "s1 = s\<lparr>form_versions := form_versions s @ [version_row v]\<rparr>"
      using s1(1) by (simp_all add: version_Save_Inr)
  qed
  ultimately have "forms_ok (forms s, form_versions s @ [version_row v], form_fields s)"
    using new by (intro forms_ok_new_version [OF F]) (simp_all add: version_row_def)
  moreover have t: "form_part s' = (forms s, form_versions s @ [version_row v], form_fields s)"
    using audit_grows_part [OF s1(2)] sv(2) by (simp add: form_part_def)
  moreover have "freezes s s'"
    by (rule freezesI) (use t same_version_refl in \<open>auto simp: form_part_eq version_fields_def intro!: bexI\<close>)
  ultimately show "step_ok s s'" by (simp add: step_ok_def)
qed

lemma publish_part:
  assumes "version_Save (published c old) s = (Inr (), s1)" "old \<in> set (form_versions s)"
  shows "form_part s1 = (forms s, map (publish_row (published c old)) (form_versions s), form_fields s)"
proof -
  have "\<exists>w \<in> set (form_versions s). fv_ID w = fv_ID (published c old)" using assms(2) by (auto simp: published_def)
  then have "s1 = s\<lparr>form_versions := map (publish_row (published c old)) (form_versions s)\<rparr>"
    using assms(1) by (simp add: version_Save_Inr update_where_map publish_row_def [abs_def])
      (simp add: published_def)
  then show ?thesis by (simp add: form_part_def)
qed

lemma publish_freezes:
  assumes part: "form_part s1 = (F, map (publish_row v) (form_versions s), form_fields s)"
  shows "freezes s s1"
proof (rule freezesI)
  fix w assume "w \<in> set (form_versions s)" "fv_Status w = FormVersionStatusPublished"
  then show "\<exists>x \<in> set (form_versions s1). same_version w x \<and> version_fields s1 x = version_fields s w"
    using part by (intro bexI [of _ "publish_row v w"])
      (auto simp: form_part_eq same_version_def version_fields_def publish_row_def)
qed

lemma publish_step:
  assumes ok: "forms_ok (form_part s)" and run: "PublishVersion auditor c s orgID versionID actorID s = (Inr v, s')"
  shows "step_ok s s'"
proof (rule PublishVersion_Inr [OF run])
  note F = ok [unfolded form_part_def]
  fix old form s1 s2
  assume old: "version_FindByID orgID versionID s = Inr old" and v: "v = published c old"
    and s1: "version_Save v s = (Inr (), s1)"
    and s2: "form_Update (ctx_time c 1) orgID (FormID old)
       (form\<lparr>fm_Status := FormStatusActive, fm_UpdatedAt := ctx_time c 0\<rparr>) s1 = (Inr (), s2)"
    and s': "audit_grows s2 s'"
  have o': "old \<in> set (form_versions s)" "fv_OrganizationID old = orgID" using version_FindByID_Inr [OF old] by auto
  have p1: "form_part s1 = (forms s, map (publish_row v) (form_versions s), form_fields s)"
    using publish_part s1 o'(1) unfolding v by blast
  have "forms_ok (form_part s1)" unfolding p1 by (rule forms_ok_publish [OF F])
  then have "step_ok s1 s'"
  proof (rule step_ok_update [OF _ s2 audit_grows_part [OF s']])
    show "\<exists>w \<in> set (form_versions s1). FormID w = FormID old \<and> fv_OrganizationID w = orgID
        \<and> fv_Status w = FormVersionStatusPublished"
      using p1 o' v by (intro bexI [of _ "publish_row v old"]) (auto simp: form_part_eq publish_row_def published_def)
  qed
  then show "step_ok s s'" using publish_freezes [OF p1] freezing.trans unfolding step_ok_def by blast
qed

text \<open>A version that was read as a draft is not one of the published ones.\<close>

lemma draft_not_published:
  assumes ok: "forms_ok (form_part s)" and v: "version_FindByID orgID i s = Inr v" "fv_Status v = FormVersionStatusDraft"
    and w: "w \<in> set (form_versions s)" "fv_Status w = FormVersionStatusPublished"
  shows "fv_ID w \<noteq> i"
proof
  assume "fv_ID w = i"
  then have "v = w"
    using by_distinct_key [OF forms_okD(3) [OF ok [unfolded form_part_def]], of v w] version_FindByID_Inr [OF v(1)] w(1)
    by simp
  then show False using v(2) w(2) by simp
qed

lemma step_ok_fields:
  assumes ok: "forms_ok (form_part s)" and v: "version_FindByID orgID i s = Inr v" "fv_Status v = FormVersionStatusDraft"
    and t: "form_part s' = (forms s, form_versions s, L)" "forms_ok (forms s, form_versions s, L)"
    and same: "\<And>j. j \<noteq> i \<Longrightarrow> filter (\<lambda>l. FormVersionID l = j) L = filter (\<lambda>l. FormVersionID l = j) (form_fields s)"
  shows "step_ok s s'"
proof -
  have "freezes s s'"
  proof (rule freezes_same_versions)
    show "form_versions s' = form_versions s" using t(1) by (simp add: form_part_eq)
    fix w assume "w \<in> set (form_versions s)" "fv_Status w = FormVersionStatusPublished"
    then show "version_fields s' w = version_fields s w"
      using same draft_not_published [OF ok v] t(1) by (simp add: version_fields_def form_part_eq)
  qed
  then show ?thesis using t by (simp add: step_ok_def)
qed

lemma add_field_step:
  assumes ok: "forms_ok (form_part s)" and run: "AddField re lower auditor c s p s = (Inr f, s')"
  shows "step_ok s s'"
proof (rule AddField_Inr [OF run])
  fix v s1
  assume v: "version_FindByID (af_OrganizationID p) (af_VersionID p) s = Inr v" "fv_Status v = FormVersionStatusDraft"
    and f: "f = NewFormField c p" and s1: "field_Save f s = (Inr (), s1)" "audit_grows s1 s'"
  have t: "form_part s' = (forms s, form_versions s, form_fields s @ [field_row f])"
    using audit_grows_part [OF s1(2)] s1(1) by (auto simp: field_Save_Inr form_part_def)
  have "field_ok (form_versions s) (field_row f)"
    using s1(1) f version_FindByID_Inr [OF v(1)] by (auto simp: field_ok_def field_row_def field_Save_Inr NewFormField_def)
  then have "forms_ok (forms s, form_versions s, form_fields s @ [field_row f])"
    using s1(1) by (intro forms_ok_new_field [OF ok [unfolded form_part_def]]) (auto simp: field_Save_Inr field_row_def)
  then show "step_ok s s'"
    by (rule step_ok_fields [OF ok v t]) (simp add: f field_row_def NewFormField_def)
qed

lemma update_field_step:
  assumes ok: "forms_ok (form_part s)" and run: "UpdateField re auditor c s p s = (Inr f, s')"
  shows "step_ok s s'"
proof (rule UpdateField_Inr [OF run])
  fix old v s1
  assume old: "field_FindByID (ud_OrganizationID p) (ud_FieldID p) s = Inr old"
    and v: "version_FindByID (ud_OrganizationID p) (FormVersionID old) s = Inr v" "fv_Status v = FormVersionStatusDraft"
    and f: "f = updated_field c p old" and s1: "field_Update (ctx_time c 1) f s = (Inr (), s1)" "audit_grows s1 s'"
  let ?p = "\<lambda>g. ff_ID g = ff_ID f \<and> FormVersionID g = FormVersionID f"
  let ?g = "\<lambda>g. if ?p g then field_changes (ctx_time c 1) f g else g"
  have fv: "FormVersionID f = FormVersionID old" using f by (simp add: updated_field_def)
  have t: "form_part s' = (forms s, form_versions s, map ?g (form_fields s))"
    using audit_grows_part [OF s1(2)] s1(1) by (auto simp: field_Update_Inr form_part_def update_where_map)
  have "IsValidFieldType (ff_Type f)" using s1(1) by (simp add: field_Update_Inr)
  then have "IsValidFieldType (ff_Type (?g l))" if "l \<in> set (form_fields s)" for l
    using forms_okD(8) [OF ok [unfolded form_part_def] that] by (simp add: field_changes_def field_ok_def)
  then have "forms_ok (forms s, form_versions s, map ?g (form_fields s))"
    by (intro forms_ok_field_change [OF ok [unfolded form_part_def]]) (auto simp: field_changes_def)
  moreover have "filter (\<lambda>l. FormVersionID l = j) (map ?g L) = filter (\<lambda>l. FormVersionID l = j) L"
    if "j \<noteq> FormVersionID old" for j L
    using that fv by (induction L) (auto simp: field_changes_def)
  ultimately show "step_ok s s'" by (rule step_ok_fields [OF ok v t])
qed

lemma delete_field_step:
  assumes ok: "forms_ok (form_part s)" and run: "DeleteField auditor c s orgID fieldID actorID s = (Inr f, s')"
  shows "step_ok s s'"
proof (rule DeleteField_Inr [OF run])
  fix v s1
  assume f: "field_FindByID orgID fieldID s = Inr f"
    and v: "version_FindByID orgID (FormVersionID f) s = Inr v" "fv_Status v = FormVersionStatusDraft"
    and s1: "field_Delete orgID fieldID s = (Inr (), s1)" "audit_grows s1 s'"
  let ?L = "filter (\<lambda>g. \<not> (ff_ID g = fieldID \<and> ff_OrganizationID g = orgID)) (form_fields s)"
  have t: "form_part s' = (forms s, form_versions s, ?L)"
    using audit_grows_part [OF s1(2)] s1(1) by (auto simp: field_Delete_Inr form_part_def)
  have u: "g = f" if "g \<in> set (form_fields s)" "ff_ID g = fieldID" for g
    using by_distinct_key [OF forms_okD(5) [OF ok [unfolded form_part_def]], of g f] field_FindByID_Inr [OF f] that by simp
  have "filter (\<lambda>l. FormVersionID l = j) ?L = filter (\<lambda>l. FormVersionID l = j) (form_fields s)"
    if "j \<noteq> FormVersionID f" for j
    unfolding filter_filter using u that by (intro filter_cong refl) auto
  then show "step_ok s s'"
    by (rule step_ok_fields [OF ok v t forms_ok_field_delete [OF ok [unfolded form_part_def]]])
qed

text \<open>Every request, whatever its outcome.\<close>

lemma outcome:
  assumes "tx_atomic m" "m s = (r, s')" "forms_ok (form_part s)" "\<And>a. m s = (Inr a, s') \<Longrightarrow> step_ok s s'"
  shows "step_ok s s'"
proof (cases r)
  case (Inl e)
  then have "s' = s" using assms(1,2) by (blast dest: tx_atomicD)
  then show ?thesis using step_ok_refl [OF assms(3)] by simp
next
  case (Inr a)
  then show ?thesis using assms(2,4) by simp
qed

lemma form_step_ok:
  assumes "form_step re lower auditor s s'" and ok: "forms_ok (form_part s)"
  shows "step_ok s s'"
  using assms(1)
proof cases
  case (create_form c cp r1)
  show ?thesis by (rule outcome [OF form_requests_atomic(1) create_form ok create_form_step [OF ok]])
next
  case (update_form c up r1)
  show ?thesis by (rule outcome [OF form_requests_atomic(2) update_form ok update_form_step [OF ok]])
next
  case (archive_form c orgID formID actorID r1)
  show ?thesis by (rule outcome [OF form_requests_atomic(3) archive_form ok archive_form_step [OF ok]])
next
  case (create_version c orgID formID actorID r2)
  show ?thesis by (rule outcome [OF form_requests_atomic(4) create_version(1) ok create_version_step [OF ok _ create_version(2)]])
next
  case (publish_version c orgID versionID actorID r2)
  show ?thesis by (rule outcome [OF form_requests_atomic(5) publish_version ok publish_step [OF ok]])
next
  case (add_field c ap r3)
  show ?thesis by (rule outcome [OF form_requests_atomic(6) add_field ok add_field_step [OF ok]])
next
  case (update_field c dp r3)
  show ?thesis by (rule outcome [OF form_requests_atomic(7) update_field ok update_field_step [OF ok]])
next
  case (delete_field c orgID fieldID actorID r3)
  show ?thesis by (rule outcome [OF form_requests_atomic(8) delete_field ok delete_field_step [OF ok]])
next
  case elsewhere
  then show ?thesis by (rule step_ok_part [OF ok])
qed

lemma forms_reachable_ok: "forms_reachable re lower auditor s \<Longrightarrow> forms_ok (form_part s)"
proof (induction rule: forms_reachable.induct)
  case (start s)
  then show ?case by (simp add: forms_ok_def)
next
  case (step s s')
  then show ?case using form_step_ok by (auto simp: step_ok_def)
qed

end

end
