(* ===== verification/Workflow_Properties.thy ===== *)
theory Workflow_Properties
  imports Workflow_Runs "HOL-Library.Code_Target_Nat"
begin

section \<open>Properties of the workflow engine\<close>

text \<open>
  The theorems about runs of the workflow service, for every auditor and observer that leave
  the workflow tables alone, and a small concrete run on which they are applied.
\<close>

subsection \<open>A concrete run\<close>

text \<open>A definition with two states, its activation, one instance and one transition.\<close>

definition sample_ctx :: "nat \<Rightarrow> ctx" where
  "sample_ctx n = \<lparr>ctx_uuid = (\<lambda>k. 100 * n + k), ctx_time = (\<lambda>k. int (1000 * (n + k))), ctx_request_id = ''req''\<rparr>"

definition sample_state :: "string \<Rightarrow> bool \<Rightarrow> WorkflowState" where
  "sample_state k final = \<lparr>ws_ID = 0, ws_WorkflowDefID = 0, ws_TenantID = 0, ws_Key = k, ws_Name = k,
     ws_Description = [], ws_Category = [], Terminal = final, DisplayOrder = 0, ResponsibleRole = [],
     ws_CreatedAt = 0\<rparr>"

definition sample_transition :: WorkflowTransition where
  "sample_transition = \<lparr>wt_ID = 0, wt_WorkflowDefID = 0, wt_TenantID = 0, wt_Key = ''go'', wt_Name = ''go'',
     FromState = ''a'', ToState = ''b'', wt_Description = [], wt_Conditions = [], AllowedRoles = [''r''],
     wt_Active = True, DecisionType = ''APPROVE'', wt_CreatedAt = 0\<rparr>"

definition sample_params :: CreateWorkflowDefinitionParams where
  "sample_params = \<lparr>cwp_TenantID = 7, cwp_ActorID = 8, cwp_Key = ''k'', cwp_Name = ''n'', cwp_Description = [],
     cwp_Version = 1, cwp_InitialState = ''a'', cwp_States = [sample_state ''a'' False, sample_state ''b'' True],
     cwp_Transitions = [sample_transition], cwp_Metadata = GObject []\<rparr>"

definition sample_move :: ExecuteTransitionParams where
  "sample_move = \<lparr>etp_TenantID = 7, etp_InstanceID = 300, etp_TransitionKey = ''go'', etp_ActorID = 8,
     etp_ActorRole = ''r'', etp_Reason = [], etp_DecisionID = None\<rparr>"

definition sample0 :: wf_db where
  "sample0 = \<lparr>audit_events = [], audit_vocabulary = [], workflow_definitions = [], workflow_states = [],
     workflow_transitions = [], workflow_instances = [], workflow_history = []\<rparr>"

definition sample1 :: wf_db where
  "sample1 = snd (CreateWorkflowDefinition None (sample_ctx 1) sample_params sample0)"

definition sample2 :: wf_db where
  "sample2 = snd (ActivateWorkflowDefinition None (sample_ctx 2) 7 100 8 sample1)"

definition sample3 :: wf_db where
  "sample3 = snd (CreateInstanceForCaseByDefID None (sample_ctx 3) 7 50 100 8 sample2)"

definition sample4 :: wf_db where
  "sample4 = snd (executeTransition None None (sample_ctx 4) sample3 False sample_move sample3)"

lemma sample_prefix: "wf_run None None [sample3, sample2, sample1, sample0]"
proof -
  have "wf_run None None [sample0]" by (rule wf_run.start) (simp add: sample0_def wf_tables_def)
  then have "wf_run None None [sample1, sample0]"
    by (rule wf_run.create) (unfold sample1_def, rule surjective_pairing)
  then have "wf_run None None [sample2, sample1, sample0]"
    by (rule wf_run.activate) (unfold sample2_def, rule surjective_pairing)
  then show ?thesis
    by (rule wf_run.start_instance) (unfold sample3_def, rule surjective_pairing)
qed

lemma sample_run: "wf_run None None [sample4, sample3, sample2, sample1, sample0]"
  using sample_prefix
proof (rule wf_run.transition)
  show "sample3 \<in> set [sample3, sample2, sample1, sample0]" by simp
  show "executeTransition None None (sample_ctx 4) sample3 False sample_move sample3
      = (fst (executeTransition None None (sample_ctx 4) sample3 False sample_move sample3), sample4)"
    by (simp add: sample4_def)
qed


lemma sample1_rows :
  "sample1 = sample0\<lparr>
     workflow_definitions := [\<lparr>wd_ID = 100, wd_TenantID = 7, wd_Key = ''k'', wd_Name = ''n'', wd_Description = [],
       wd_Version = 1, wd_Status = WorkflowStatusDraft, InitialState = ''a'', wd_States = [], wd_Transitions = [],
       wd_Metadata = GObject [], wd_CreatedAt = 1000, wd_UpdatedAt = 1000\<rparr>],
     workflow_states := [(sample_state ''a'' False)\<lparr>ws_ID := 101, ws_WorkflowDefID := 100, ws_TenantID := 7\<rparr>,
       (sample_state ''b'' True)\<lparr>ws_ID := 102, ws_WorkflowDefID := 100, ws_TenantID := 7\<rparr>],
     workflow_transitions := [sample_transition\<lparr>wt_ID := 103, wt_WorkflowDefID := 100, wt_TenantID := 7\<rparr>]\<rparr>"
  by code_simp

lemmas wf_eval = tx_defs Let_def optional_row_def scan_def_def query_row_def trunc_micros_def
  def_FindByID_def def_FindByIDTx_def load_definition_tx_def RecordAuditEventInTx_def notify_def
  instance_row_def history_row_def update_where_def affected_def int4_def

lemma sample_ctx_simps [simp]:
  "ctx_uuid (sample_ctx n) k = 100 * n + k" "ctx_time (sample_ctx n) k = int (1000 * (n + k))"
  by (simp_all add: sample_ctx_def)

lemma sample2_rows:
  "sample2 = sample1\<lparr>workflow_definitions :=
     map (\<lambda>d. d\<lparr>wd_Status := WorkflowStatusActive, wd_UpdatedAt := 3000\<rparr>) (workflow_definitions sample1)\<rparr>"
  by (simp add: sample2_def ActivateWorkflowDefinition_def wf_eval def_FindLatestActiveByKeyTx_def
    def_FindLatestActiveByKey_def latest_first_def def_updateStatus_def sample1_rows sample0_def)

lemma sample3_rows:
  "sample3 = sample2\<lparr>workflow_instances := [\<lparr>wi_ID = 300, wi_TenantID = 7, wi_WorkflowDefID = 100,
     wi_WorkflowDefVersion = 1, wi_CaseID = 50, CurrentState = ''a'', StartedAt = 3000, CompletedAt = None,
     wi_Metadata = GObject [], wi_Version = 1, wi_Definition = None\<rparr>]\<rparr>"
  by (simp add: sample3_def CreateInstanceForCaseByDefID_def createInstanceForCaseByDefID_def new_instance_def
    saveInstance_def wf_eval sample2_rows sample1_rows sample0_def)

lemmas sample3_eval = sample_move_def sample_state_def sample_transition_def
  sample3_rows sample2_rows sample1_rows sample0_def

lemma sample3_plan:
  "\<exists>i def t x. plan_transition sample3 sample_move = Inr (i, def, t, x) \<and> workflow_instances sample3 = [i] \<and> Terminal x"
  by (simp add: plan_transition_def with_graph_def state_FindByDefinitionID_def transition_FindByDefinitionID_def
    instance_FindByID_def scan_instance_def statesMap_def role_allowed_def wf_eval sample3_eval)

lemma sample4_rows:
  "sample4 = sample3\<lparr>workflow_instances := map (\<lambda>i. i\<lparr>CurrentState := ''b'', CompletedAt := Some 5000,
       wi_Version := 3\<rparr>) (workflow_instances sample3),
     workflow_history := [\<lparr>wh_ID = 400, wh_TenantID = 7, wh_InstanceID = 300, wh_CaseID = 50, wh_FromState = ''a'',
       wh_ToState = ''b'', wh_TransitionKey = ''go'', wh_ActorID = Some 8, OccurredAt = 4000, wh_Reason = [],
       wh_Metadata = GObject [], wh_DecisionID = None\<rparr>]\<rparr>" (is ?rows)
  and sample4_result: "\<exists>r. executeTransition None None (sample_ctx 4) sample3 False sample_move sample3 = (Inr r, sample4)"
    (is ?result)
proof -
  have "\<exists>r. executeTransition None None (sample_ctx 4) sample3 False sample_move sample3 =
      (Inr r, sample3\<lparr>workflow_instances := map (\<lambda>i. i\<lparr>CurrentState := ''b'', CompletedAt := Some 5000,
       wi_Version := 3\<rparr>) (workflow_instances sample3),
     workflow_history := [\<lparr>wh_ID = 400, wh_TenantID = 7, wh_InstanceID = 300, wh_CaseID = 50, wh_FromState = ''a'',
       wh_ToState = ''b'', wh_TransitionKey = ''go'', wh_ActorID = Some 8, OccurredAt = 4000, wh_Reason = [],
       wh_Metadata = GObject [], wh_DecisionID = None\<rparr>]\<rparr>)"
    by (simp add: executeTransition_def plan_transition_def apply_transition_def with_graph_def
      state_FindByDefinitionID_def transition_FindByDefinitionID_def instance_FindByID_def scan_instance_def
      statesMap_def role_allowed_def moved_instance_def transition_history_def instance_updateState_def
      at_version_def saveHistory_def instance_complete_def wf_eval sample3_eval)
  then show ?rows ?result by (auto simp: sample4_def)
qed

lemmas sample_rows = sample0_def sample1_rows sample2_rows sample3_rows sample4_rows

subsection \<open>Instances\<close>

lemma runs_unique:
  assumes "wf_ok s" "d \<in> set (workflow_definitions s)" "runs d i" "e \<in> set (workflow_definitions s)" "runs e i"
  shows "e = d"
proof -
  have "wd_ID e = wd_ID d" using assms(3,5) unfolding runs_def by metis
  then show ?thesis using by_distinct_key [OF tables_okD(2) [OF assms(1) [unfolded wf_ok_tables]] assms(4,2)] by blast
qed

text \<open>
  C10. In every run of the service, every instance belongs to a definition of its tenant that
  has been activated and whose graph is consistent; its current state is a state of that
  graph, its history is a path from the initial state to the current one along active
  transitions of the definition, and its version counts these moves: one to start with, one
  per move, and one more when the instance was completed, which it is exactly when it has
  moved into a terminal state.
\<close>

theorem workflow_instances_follow_graph:
  assumes quiet: "quiet_auditor auditor" "quiet_observer observer"
    and run: "wf_run auditor observer (s # run)" and i: "i \<in> set (workflow_instances s)"
  shows "\<exists>d \<in> set (workflow_definitions s). \<exists>g. g = with_graph (wd_TenantID d) s d
     \<and> wd_ID d = wi_WorkflowDefID i \<and> wd_TenantID d = wi_TenantID i \<and> wd_Status d \<noteq> WorkflowStatusDraft
     \<and> consistent_definition g \<and> CurrentState i \<in> ws_Key ` set (wd_States g)
     \<and> history_path (InitialState d) (history_of i (workflow_history s)) (CurrentState i)
     \<and> (\<forall>h \<in> set (history_of i (workflow_history s)). \<exists>t \<in> set (wd_Transitions g). takes t h)
     \<and> (CompletedAt i \<noteq> None \<longleftrightarrow> history_of i (workflow_history s) \<noteq> [] \<and> terminal_key (wd_States g) (CurrentState i))
     \<and> wi_Version i = 1 + int (length (history_of i (workflow_history s))) + (if CompletedAt i = None then 0 else 1)"
proof -
  have "wf_ok s"
    using wf_environment.wf_run_ok [OF wf_environment.intro [OF quiet] run] by (simp add: run_ok_def)
  note ok = this [unfolded wf_ok_tables]
  obtain d where d: "d \<in> set (workflow_definitions s)" "runs d i"
    and i': "instance_ok d (workflow_states s) (workflow_transitions s) (history_of i (workflow_history s)) i"
    using tables_okD(9) [OF ok i] by blast
  have "consistent_definition (with_graph (wd_TenantID d) s d)"
    using with_graph_consistent tables_okD(8) [OF ok d(1)] by blast
  then show ?thesis
    using d i' unfolding runs_def instance_ok_def terminal_key_def
    by (intro bexI [OF _ d(1)] exI conjI refl) (simp_all add: with_graph_rows [of d s, symmetric] del: not_None_eq)
qed

lemma workflow_instances_follow_graph_witness:
  "\<exists>i d. workflow_instances sample4 = [i] \<and> d \<in> set (workflow_definitions sample4)
     \<and> wd_ID d = wi_WorkflowDefID i \<and> history_path (InitialState d) (history_of i (workflow_history sample4)) ''b''"
proof -
  obtain i where i: "workflow_instances sample4 = [i]" "CurrentState i = ''b''"
    by (simp add: sample_rows)
  then show ?thesis
    using workflow_instances_follow_graph [OF no_auditor_quiet no_observer_quiet sample_run, of i] by auto
qed

text \<open>
  C5. A transition that succeeds although it was planned on an earlier store of the run has
  the effect it would have had if the plan had been made on the current store: the plan is
  still the plan, exactly one instance moves (its version growing by one, by two when it is
  completed), exactly one history row is added, and nothing else in the workflow tables
  changes. The instance that is returned is the moved one with its version grown by one.
\<close>

theorem workflow_transition_serialised:
  assumes quiet: "quiet_auditor auditor" "quiet_observer observer"
    and run: "wf_run auditor observer (s # run)" "s0 \<in> set (s # run)"
    and exec: "executeTransition auditor observer c s0 False params s = (Inr res, s')"
  shows "\<exists>i def t x. plan_transition s params = Inr (i, def, t, x)
     \<and> workflow_definitions s' = workflow_definitions s \<and> workflow_states s' = workflow_states s
     \<and> workflow_transitions s' = workflow_transitions s
     \<and> workflow_instances s' = map (\<lambda>y. if y = i then y\<lparr>CurrentState := ToState t,
            CompletedAt := (if Terminal x then Some (ctx_time c 1) else CompletedAt y),
            wi_Version := wi_Version y + (if Terminal x then 2 else 1)\<rparr> else y) (workflow_instances s)
     \<and> workflow_history s' = workflow_history s @ [history_row (transition_history c params i t)]
     \<and> CurrentState res = ToState t \<and> wi_ID res = wi_ID i \<and> wi_Version res = wi_Version i + 1"
proof -
  note env = wf_environment.intro [OF quiet]
  have ok: "wf_ok s0" "wf_ok s" "wf_evolves s0 s"
    using wf_environment.wf_run_ok [OF env run(1)] run(2) by (auto simp: run_ok_def)
  show ?thesis
  proof (rule wf_environment.executeTransition_Inr [OF env ok exec])
    fix i d def t x
    assume res: "res = moved_instance i def t" and en: "enabled s params i d t x"
      and tables: "wf_tables s' = (workflow_definitions s, workflow_states s, workflow_transitions s,
       map (\<lambda>y. if y = i then moved t (Terminal x) (ctx_time c 1) y else y) (workflow_instances s),
       workflow_history s @ [history_row (transition_history c params i t)])"
    show ?thesis
      using enabled_plan_transition [OF ok(2) en] tables res
      by (intro exI conjI) (auto simp: wf_tables_eq moved_def moved_instance_def cong: if_cong)
  qed
qed

lemma workflow_transition_serialised_witness:
  "\<exists>i def t x. plan_transition sample3 sample_move = Inr (i, def, t, x)
     \<and> workflow_history sample4 = workflow_history sample3 @ [history_row (transition_history (sample_ctx 4) sample_move i t)]"
proof -
  obtain r where "executeTransition None None (sample_ctx 4) sample3 False sample_move sample3 = (Inr r, sample4)"
    using sample4_result by blast
  then show ?thesis
    using workflow_transition_serialised [OF no_auditor_quiet no_observer_quiet sample_prefix, of sample3] by fastforce
qed

text \<open>
  C17. No lost update: when the instance has been changed since the store on which a
  transition of it was planned, the transition fails with ErrConcurrentModification and the
  store is left as it was.
\<close>

theorem workflow_no_lost_update:
  assumes quiet: "quiet_auditor auditor" "quiet_observer observer"
    and run: "wf_run auditor observer (s # run)" "s0 \<in> set (s # run)"
    and plan: "plan_transition s0 params = Inr (i, def, t, x)"
    and changed: "i \<notin> set (workflow_instances s)"
  shows "executeTransition auditor observer c s0 False params s
     = (Inl (Wrap ''failed to update workflow instance state'' ErrConcurrentModification), s)"
proof -
  have ok: "wf_ok s0" "wf_ok s" "wf_evolves s0 s"
    using wf_environment.wf_run_ok [OF wf_environment.intro [OF quiet] run(1)] run(2) by (auto simp: run_ok_def)
  obtain d where en: "enabled s0 params i d t x" using plan_transition_enabled [OF ok(1) plan] by blast
  have "\<not> at_version (etp_TenantID params) (wi_ID i) (wi_Version i) y" if "y \<in> set (workflow_instances s)" for y
    using stale_enabled [OF ok en] that changed by (metis enabled_def)
  then have "affected (at_version (etp_TenantID params) (wi_ID i) (wi_Version i)) (workflow_instances s) = 0"
    by (simp add: affected_0)
  then show ?thesis
    by (simp add: executeTransition_def plan apply_transition_def instance_updateState_def tx_defs)
qed

lemma workflow_no_lost_update_witness:
  "executeTransition None None (sample_ctx 5) sample3 False sample_move sample4
     = (Inl (Wrap ''failed to update workflow instance state'' ErrConcurrentModification), sample4)"
proof -
  obtain i def t x where p: "plan_transition sample3 sample_move = Inr (i, def, t, x)" "workflow_instances sample3 = [i]"
    using sample3_plan by blast
  moreover have "i \<notin> set (workflow_instances sample4)" using p(2) by (auto simp: sample4_rows sample3_rows)
  ultimately show ?thesis
    using workflow_no_lost_update [OF no_auditor_quiet no_observer_quiet sample_run, of sample3] by simp
qed

text \<open>
  C28. An instance that was completed stays completed, where it is, for the rest of the run:
  no transition of it succeeds, on whatever store it was planned, and one planned on the
  current store is refused with TerminalStateError.
\<close>

theorem workflow_completed_is_final:
  assumes quiet: "quiet_auditor auditor" "quiet_observer observer"
    and run: "wf_run auditor observer (s # run)"
    and i: "i \<in> set (workflow_instances s)" "CompletedAt i \<noteq> None"
    and params: "etp_InstanceID params = wi_ID i" "etp_TenantID params = wi_TenantID i"
  shows "plan_transition s params = Inl (TerminalStateError (CurrentState i))
     \<and> (\<forall>s0 \<in> set (s # run). \<exists>e. executeTransition auditor observer c s0 False params s = (Inl e, s))"
proof -
  note env = wf_environment.intro [OF quiet]
  note runs_ok = wf_environment.wf_run_ok [OF env run, unfolded run_ok_def]
  have ok: "wf_ok s" using runs_ok by simp
  note tables = ok [unfolded wf_ok_tables]
  obtain d where d: "d \<in> set (workflow_definitions s)" "runs d i"
    and i': "instance_ok d (workflow_states s) (workflow_transitions s) (history_of i (workflow_history s)) i"
    using tables_okD(9) [OF tables i(1)] by blast
  then have final: "terminal_key (def_states d (workflow_states s)) (CurrentState i)"
    using i(2) by (simp add: instance_ok_def)
  have no_plan: "\<not> enabled s p j e t x" if "wi_ID j = wi_ID i" for p j e t x
  proof
    assume en: "enabled s p j e t x"
    then have "j = i" using by_distinct_key [OF tables_okD(3) [OF tables] _ i(1)] that by (simp add: enabled_def)
    moreover from this have "e = d" using runs_unique [OF ok d] en by (simp add: enabled_def)
    ultimately show False using en final by (simp add: enabled_def)
  qed
  have "\<exists>e. executeTransition auditor observer c s0 False params s = (Inl e, s)" if s0: "s0 \<in> set (s # run)" for s0
  proof -
    have ok0: "wf_ok s0" "wf_evolves s0 s" using runs_ok s0 by auto
    have "executeTransition auditor observer c s0 False params s \<noteq> (Inr res, s')" for res s'
    proof
      assume exec: "executeTransition auditor observer c s0 False params s = (Inr res, s')"
      show False
        by (rule wf_environment.executeTransition_Inr [OF env ok0(1) ok ok0(2) exec])
          (metis no_plan enabled_def params(1))
    qed
    then obtain e s' where "executeTransition auditor observer c s0 False params s = (Inl e, s')"
      by (metis sum.exhaust_sel surj_pair sumE)
    then show ?thesis using executeTransition_Inl by blast
  qed
  moreover have "plan_transition s params = Inl (TerminalStateError (CurrentState i))"
  proof -
    let ?g = "with_graph (wi_TenantID i) s d"
    have tn: "wd_TenantID d = wi_TenantID i" "wd_ID d = wi_WorkflowDefID i" using d(2) by (simp_all add: runs_def)
    obtain k where k: "k \<in> set (wd_States ?g)" "ws_Key k = CurrentState i" "Terminal k"
      using final with_graph_rows(1) [of d s] by (auto simp: terminal_key_def tn)
    have "consistent_definition ?g"
      using with_graph_consistent [of d s] tables_okD(8) [OF tables d(1)] by (simp add: tn)
    then have "statesMap ?g (CurrentState i) = Some k" using statesMap_consistent k by metis
    then show ?thesis
      using instance_FindByID_only [OF ok i(1)] def_FindByID_only [OF ok d(1)] k(3)
      by (simp add: plan_transition_def params tn Let_def)
  qed
  ultimately show ?thesis by blast
qed

lemma workflow_completed_is_final_witness:
  "plan_transition sample4 sample_move = Inl (TerminalStateError ''b'')
     \<and> (\<exists>e. executeTransition None None (sample_ctx 6) sample3 False sample_move sample4 = (Inl e, sample4))"
proof -
  obtain i where "workflow_instances sample4 = [i]" "CompletedAt i \<noteq> None" "CurrentState i = ''b''" "wi_ID i = etp_InstanceID sample_move"
      "wi_TenantID i = etp_TenantID sample_move"
    by (simp add: sample4_rows sample3_eval)
  then show ?thesis
    using workflow_completed_is_final [OF no_auditor_quiet no_observer_quiet sample_run, of i sample_move] by simp
qed

text \<open>
  C34. GetValidTransitions offers exactly the transitions that can be planned: in every store of
  a run, its answer and the plan being read from that store, a transition can be planned for a
  request if and only if it is in the answer, has the key of the request and admits its role. (The
  forms a state requires and the version of the instance are checked when the plan is carried out.)
\<close>

theorem valid_transitions_are_executable:
  assumes quiet: "quiet_auditor auditor" "quiet_observer observer"
    and run: "wf_run auditor observer (s # run)"
    and valid: "GetValidTransitions tenantID instanceID s = Inr ts"
    and params: "etp_TenantID params = tenantID" "etp_InstanceID params = instanceID"
  shows "(\<exists>i def x. plan_transition s params = Inr (i, def, t, x))
     \<longleftrightarrow> t \<in> set ts \<and> wt_Key t = etp_TransitionKey params \<and> role_allowed t (etp_ActorRole params)"
proof -
  have ok: "wf_ok s"
    using wf_environment.wf_run_ok [OF wf_environment.intro [OF quiet] run] by (simp add: run_ok_def)
  note tables = ok [unfolded wf_ok_tables]
  obtain i d where i: "instance_FindByID tenantID instanceID s = Inr i"
    and d: "def_FindByID tenantID (wi_WorkflowDefID i) s = Inr d"
    and ts: "ts = filter (\<lambda>t. statesMap (d\<lparr>wd_States := state_FindByDefinitionID tenantID (wd_ID d) s\<rparr>) (ToState t) \<noteq> None)
               (transition_FindByFromState tenantID (wd_ID d) (CurrentState i) s)"
    using valid by (auto simp: GetValidTransitions_def Let_def split: sum.splits)
  note i' = instance_FindByID_Inr [OF i] and d' = def_FindByID_Inr [OF d]
  obtain e where e: "e \<in> set (workflow_definitions s)" "runs e i"
    using tables_okD(9) [OF tables] i' by blast
  then have "e = d" using by_distinct_key [OF tables_okD(2) [OF tables], of e d] d' by (simp add: runs_def)
  with e have r: "runs d i" by blast
  let ?S = "def_states d (workflow_states s)" and ?T = "def_transitions d (workflow_transitions s)"
  have g: "graph_ok d (workflow_states s) (workflow_transitions s)" using tables_okD(8) [OF tables] d' by blast
  have states: "set (state_FindByDefinitionID tenantID (wd_ID d) s) = set ?S"
    using d' by (simp add: state_FindByDefinitionID_def def_states_def)
  have mem: "t \<in> set ts \<longleftrightarrow> t \<in> set ?T \<and> wt_Active t \<and> FromState t = CurrentState i \<and> ToState t \<in> ws_Key ` set ?S" for t
    using d' statesMap_None [of "d\<lparr>wd_States := state_FindByDefinitionID tenantID (wd_ID d) s\<rparr>" "ToState t"] states
    by (auto simp: ts transition_FindByFromState_def def_transitions_def)
  have "\<not> terminal_key ?S (CurrentState i)" if "t \<in> set ?T" "wt_Active t" "FromState t = CurrentState i" for t
    using g that by (fastforce simp: graph_ok_def consistent_definition_def terminal_key_def outgoing_def filter_empty_conv)
  then have "(\<exists>x. enabled s params i d t x)
      \<longleftrightarrow> t \<in> set ts \<and> wt_Key t = etp_TransitionKey params \<and> role_allowed t (etp_ActorRole params)"
    unfolding mem enabled_def using i' d' r params by (auto intro: image_eqI [OF sym])
  moreover have "(\<exists>i def x. plan_transition s params = Inr (i, def, t, x)) \<longleftrightarrow> (\<exists>x. enabled s params i d t x)"
  proof
    assume "\<exists>i def x. plan_transition s params = Inr (i, def, t, x)"
    then obtain j e x where en: "enabled s params j e t x" using plan_transition_enabled [OF ok] by metis
    have "j = i" using by_distinct_key [OF tables_okD(3) [OF tables], of j i] en i' params by (simp add: enabled_def)
    moreover from this have "e = d" using runs_unique [OF ok _ r] d' en by (simp add: enabled_def)
    ultimately show "\<exists>x. enabled s params i d t x" using en by blast
  next
    assume "\<exists>x. enabled s params i d t x"
    then show "\<exists>i def x. plan_transition s params = Inr (i, def, t, x)"
      using enabled_plan_transition [OF ok] by metis
  qed
  ultimately show ?thesis by simp
qed

lemma valid_transitions_are_executable_witness:
  "\<exists>ts t. GetValidTransitions 7 300 sample3 = Inr ts \<and> t \<in> set ts \<and> wt_Key t = ''go''"
proof -
  obtain ts where ts: "GetValidTransitions 7 300 sample3 = Inr ts"
    by (simp add: GetValidTransitions_def instance_FindByID_def scan_instance_def wf_eval sample3_eval)
  obtain i def t x where "plan_transition sample3 sample_move = Inr (i, def, t, x)" using sample3_plan by blast
  then have "t \<in> set ts \<and> wt_Key t = etp_TransitionKey sample_move"
    using valid_transitions_are_executable [OF no_auditor_quiet no_observer_quiet sample_prefix ts, of sample_move t]
    by (auto simp: sample_move_def)
  then show ?thesis using ts by (auto simp: sample_move_def)
qed

subsection \<open>Definitions\<close>

text \<open>
  C35. An activated definition is immutable: between any two stores of a run it keeps its
  key, version, initial state, states and transitions, and never goes back to DRAFT; only its
  status and update time may change.
\<close>

theorem activated_definition_immutable:
  assumes quiet: "quiet_auditor auditor" "quiet_observer observer"
    and run: "wf_run auditor observer (s # run)" "s0 \<in> set (s # run)"
    and d: "GetWorkflowDefinition tenantID i s0 = Inr d" "wd_Status d \<noteq> WorkflowStatusDraft"
  shows "\<exists>st n. st \<noteq> WorkflowStatusDraft
     \<and> GetWorkflowDefinition tenantID i s = Inr (d\<lparr>wd_Status := st, wd_UpdatedAt := n\<rparr>)"
proof -
  have ok: "wf_ok s0" "wf_ok s" "wf_evolves s0 s"
    using wf_environment.wf_run_ok [OF wf_environment.intro [OF quiet] run(1)] run(2) by (auto simp: run_ok_def)
  obtain e where e: "def_FindByID tenantID i s0 = Inr e" "d = with_graph tenantID s0 e"
    using d(1) by (auto simp: GetWorkflowDefinition_def split: sum.splits)
  note e' = def_FindByID_Inr [OF e(1)]
  have "wd_Status e \<noteq> WorkflowStatusDraft" using d(2) e(2) by (simp add: with_graph_def)
  then obtain e2 where e2: "e2 \<in> set (workflow_definitions s)" "same_definition s0 s e e2"
    using ok(3) e' unfolding wf_evolves_def by blast
  note keys = same_definition_keys [OF e2(2)]
  have look: "def_FindByID tenantID i s = Inr e2" using def_FindByID_only [OF ok(2) e2(1)] keys e' by simp
  have graph: "state_FindByDefinitionID tenantID (wd_ID e2) s = state_FindByDefinitionID tenantID (wd_ID e) s0"
    "transition_FindByDefinitionID tenantID (wd_ID e2) s = transition_FindByDefinitionID tenantID (wd_ID e) s0"
    using e2(2) e' keys
    by (simp_all add: same_definition_def def_states_def def_transitions_def
        state_FindByDefinitionID_def transition_FindByDefinitionID_def)
  obtain st n where e2_row: "e2 = e\<lparr>wd_Status := st, wd_UpdatedAt := n\<rparr>" and st: "st \<noteq> WorkflowStatusDraft"
    using e2(2) unfolding same_definition_def by metis
  have "with_graph tenantID s e2 = d\<lparr>wd_Status := st, wd_UpdatedAt := n\<rparr>"
    using graph unfolding with_graph_def e(2) e2_row by simp
  then show ?thesis using look st by (auto simp: GetWorkflowDefinition_def)
qed

lemma activated_definition_immutable_witness:
  "\<exists>d st n. GetWorkflowDefinition 7 100 sample2 = Inr d
     \<and> GetWorkflowDefinition 7 100 sample4 = Inr (d\<lparr>wd_Status := st, wd_UpdatedAt := n\<rparr>)"
proof -
  obtain d where "GetWorkflowDefinition 7 100 sample2 = Inr d" "wd_Status d \<noteq> WorkflowStatusDraft"
    by (simp add: GetWorkflowDefinition_def with_graph_def wf_eval sample3_eval)
  then show ?thesis
    using activated_definition_immutable [OF no_auditor_quiet no_observer_quiet sample_run, of sample2 7 100] by fastforce
qed



text \<open>
  UpdateWorkflowDefinition never succeeds: it validates the definition row, which
  carries no states, before it looks at the new ones, so every update of a run returns an
  error and leaves the store as it was.
\<close>

theorem workflow_update_never_succeeds:
  assumes quiet: "quiet_auditor auditor" "quiet_observer observer"
    and run: "wf_run auditor observer (s # run)"
  shows "\<exists>e. UpdateWorkflowDefinition auditor c params s = (Inl e, s)"
  using wf_environment.wf_run_ok [OF wf_environment.intro [OF quiet] run] UpdateWorkflowDefinition_fails
  by (auto simp: run_ok_def)

lemma workflow_update_never_succeeds_witness:
  "\<exists>e. UpdateWorkflowDefinition None (sample_ctx 9) \<lparr>uwp_TenantID = 7, uwp_ID = 100, uwp_ActorID = 8, uwp_Key = ''k'',
     uwp_Name = ''n'', uwp_Description = [], uwp_Version = 1, uwp_InitialState = ''a'',
     uwp_States = [sample_state ''a'' False], uwp_Transitions = [], uwp_Metadata = GNil\<rparr> sample1 = (Inl e, sample1)"
proof (rule workflow_update_never_succeeds [OF no_auditor_quiet no_observer_quiet])
  have "wf_run None None [sample0]" by (rule wf_run.start) (simp add: sample0_def wf_tables_def)
  then show "wf_run None None [sample1, sample0]"
    by (rule wf_run.create) (unfold sample1_def, rule surjective_pairing)
qed

definition keys_unique :: "'s wf_db_scheme \<Rightarrow> bool" where
  "keys_unique s \<longleftrightarrow> distinct (map (\<lambda>d. (wd_TenantID d, wd_Key d)) (workflow_definitions s))"

lemma keys_unique_next:
  assumes "\<forall>s \<in> set (s # run). keys_unique s" "\<And>e. r = Inl e \<Longrightarrow> s' = s"
    and "\<And>v. r = Inr v \<Longrightarrow> keys_unique s \<Longrightarrow> keys_unique s'"
  shows "\<forall>s \<in> set (s' # s # run). keys_unique s"
  using assms by (cases r) auto

lemma keys_unique_status:
  "keys_unique s \<Longrightarrow> wf_tables s' = (update_where p (\<lambda>d. d\<lparr>wd_Status := st, wd_UpdatedAt := n\<rparr>) (workflow_definitions s), R)
     \<Longrightarrow> keys_unique s'"
  by (simp add: keys_unique_def wf_tables_def map_update_where)

lemma keys_unique_same: "keys_unique s \<Longrightarrow> wf_tables s' = (workflow_definitions s, R) \<Longrightarrow> keys_unique s'"
  by (simp add: keys_unique_def wf_tables_def)

lemma keys_unique_filter:
  "keys_unique s \<Longrightarrow> wf_tables s' = (filter p (workflow_definitions s), R) \<Longrightarrow> keys_unique s'"
  by (simp add: keys_unique_def wf_tables_def distinct_map_filter)

context wf_environment
begin

lemma create_keys_unique:
  assumes "CreateWorkflowDefinition auditor c params s = (Inr def, s')" "keys_unique s"
  shows "keys_unique s'"
  using CreateWorkflowDefinition_Inr(3,5) [OF assms(1)] assms(2)
  by (auto simp: keys_unique_def wf_tables_eq new_definition_def)

lemma activate_keys_unique:
  assumes "ActivateWorkflowDefinition auditor c tenantID i actorID s = (Inr u, s')" "keys_unique s"
  shows "keys_unique s'"
  by (rule ActivateWorkflowDefinition_Inr [OF assms(1)]) (erule keys_unique_status [OF assms(2)])

lemma archive_keys_unique:
  assumes "ArchiveWorkflowDefinition auditor c tenantID i actorID s = (Inr u, s')" "keys_unique s"
  shows "keys_unique s'"
  by (rule ArchiveWorkflowDefinition_Inr [OF assms(1)]) (erule keys_unique_status [OF assms(2)])

lemma delete_keys_unique:
  assumes "DeleteWorkflowDefinition auditor c tenantID i actorID s = (Inr u, s')" "keys_unique s"
  shows "keys_unique s'"
  by (rule DeleteWorkflowDefinition_Inr [OF assms(1)]) (erule keys_unique_filter [OF assms(2)])

lemma create_instance_keys_unique:
  assumes "createInstanceForCaseByDefID auditor c tenantID caseID i actorID s = (Inr k, s')" "keys_unique s"
  shows "keys_unique s'"
  by (rule createInstanceForCaseByDefID_Inr [OF assms(1)]) (erule keys_unique_same [OF assms(2)])

lemma execute_keys_unique:
  assumes "wf_ok s0" "wf_ok s" "wf_evolves s0 s"
    "executeTransition auditor observer c s0 outer params s = (Inr res, s')" "keys_unique s"
  shows "keys_unique s'"
  by (rule executeTransition_Inr [OF assms(1-4)]) (erule keys_unique_same [OF assms(5)])

lemma run_keys_unique: "wf_run auditor observer run \<Longrightarrow> \<forall>s \<in> set run. keys_unique s"
proof (induction rule: wf_run.induct)
  case (start s)
  then show ?case by (simp add: keys_unique_def wf_tables_def)
next
  case (create s run c params r1 s')
  show ?case
    by (rule keys_unique_next [OF create.IH, of r1])
      (use create.hyps in \<open>auto dest: CreateWorkflowDefinition_Inl create_keys_unique\<close>)
next
  case (update s run c params r1 s')
  have "wf_ok s" using wf_run_ok [OF update.hyps(1)] by (simp add: run_ok_def)
  then have "s' = s" using UpdateWorkflowDefinition_fails [of s auditor c params] update.hyps(2) by auto
  then show ?case using update.IH by simp
next
  case (activate s run c tenantID i actorID r2 s')
  show ?case
    by (rule keys_unique_next [OF activate.IH, of r2])
      (use activate.hyps in \<open>auto dest: definition_calls_Inl activate_keys_unique\<close>)
next
  case (archive s run c tenantID i actorID r2 s')
  show ?case
    by (rule keys_unique_next [OF archive.IH, of r2])
      (use archive.hyps in \<open>auto dest: definition_calls_Inl archive_keys_unique\<close>)
next
  case (delete s run c tenantID i actorID r2 s')
  show ?case
    by (rule keys_unique_next [OF delete.IH, of r2])
      (use delete.hyps in \<open>auto dest: definition_calls_Inl delete_keys_unique\<close>)
next
  case (start_instance s run c tenantID caseID i actorID r3 s')
  show ?case
    by (rule keys_unique_next [OF start_instance.IH, of r3])
      (use start_instance.hyps in \<open>auto simp: CreateInstanceForCaseByDefID_def InTransaction_Inr
        dest: InTransaction_Inl create_instance_keys_unique\<close>)
next
  case (transition s run s0 c params r3 s')
  have ok: "wf_ok s0" "wf_ok s" "wf_evolves s0 s"
    using wf_run_ok [OF transition.hyps(1)] transition.hyps(2) by (auto simp: run_ok_def)
  show ?case
    by (rule keys_unique_next [OF transition.IH, of r3])
      (use transition.hyps(3) in \<open>auto dest: executeTransition_Inl execute_keys_unique [OF ok]\<close>)
qed

end

text \<open>
  In every run a tenant has at most one definition for a key, whatever the version: a
  second version of a workflow can never be stored. (Creation refuses any key that exists,
  and the update that could change a key never succeeds.)
\<close>

theorem workflow_one_definition_per_key:
  assumes quiet: "quiet_auditor auditor" "quiet_observer observer"
    and run: "wf_run auditor observer (s # run)"
    and d: "d \<in> set (workflow_definitions s)" "d' \<in> set (workflow_definitions s)"
      "wd_TenantID d = wd_TenantID d'" "wd_Key d = wd_Key d'"
  shows "d = d'"
proof -
  have "keys_unique s"
    using wf_environment.run_keys_unique [OF wf_environment.intro [OF quiet] run] by simp
  then show ?thesis
    unfolding keys_unique_def by (rule by_distinct_key) (simp_all add: d)
qed

lemma workflow_one_definition_per_key_witness:
  "\<exists>d d'. hd (workflow_definitions sample3) = d \<and> last (workflow_definitions sample3) = d' \<and> wd_Key d' = ''k'' \<and> d = d'"
proof -
  obtain d where d: "workflow_definitions sample3 = [d]" "wd_Key d = ''k''" by (simp add: sample3_eval)
  then have "hd (workflow_definitions sample3) = last (workflow_definitions sample3)"
    by (intro workflow_one_definition_per_key [OF no_auditor_quiet no_observer_quiet sample_prefix]) simp_all
  then show ?thesis using d by simp
qed

end
