(* ===== verification/Case_Sample.thy ===== *)
theory Case_Sample
  imports Case_Runs Form_Runs Workflow_Properties
begin

section \<open>A concrete run of the services\<close>

text \<open>
  A small run on which the theorems about forms and cases are applied: a workflow with two
  states is created and activated, a form with one required text field is published and
  assigned to its first state, a case is created, the form is submitted, the case moves on.
  Every store is computed by the operations of the model.
\<close>

definition sample_service :: "'s case_db_scheme CaseService" where
  "sample_service = \<lparr>caseAuditor = None, personFinder = (\<lambda>org person. Inr org), userChecker = None, wfAvailable = True,
     wfAuditor = None, formRepos = True, ruleIntegration = None\<rparr>"

definition any_regexp :: regexp where
  "any_regexp p = Some (\<lambda>s. True)"

definition sample_form :: CreateFormParams where
  "sample_form = \<lparr>cf_OrganizationID = 7, cf_Key = ''f'', cf_Name = ''F'', cf_Description = [], cf_CreatedByID = 8\<rparr>"

definition sample_field :: AddFieldParams where
  "sample_field = \<lparr>af_OrganizationID = 7, af_FormID = 300, af_VersionID = 400, af_Key = ''name'', af_Label = ''Name'',
     af_Type = FieldTypeText, af_Required = True, af_Description = [], af_Placeholder = [], af_DefaultValue = None,
     af_Validation = None, af_Options = [], af_Order = 0, af_ActorID = 8\<rparr>"

definition sample_assignment :: CreateAssignmentParams where
  "sample_assignment = \<lparr>ca_TenantID = 7, ca_WorkflowDefinitionID = 100, ca_WorkflowStateKey = ''a'', ca_FormID = 300,
     ca_FormVersionID = 400, ca_Required = True, ca_DisplayOrder = 0, ca_Active = True, ca_CreatedBy = 8\<rparr>"

definition sample_case :: CreateCaseParams where
  "sample_case = \<lparr>cc_OrganizationID = 7, cc_Title = ''T'', cc_Description = [], cc_ServiceType = ''s'', cc_Priority = ''LOW'',
     cc_PersonID = None, cc_CreatedByID = 8, cc_WorkflowID = Some 100\<rparr>"

definition sample_status :: ChangeCaseStatusParams where
  "sample_status = \<lparr>ch_OrganizationID = 7, ch_CaseID = 800, ch_Status = ''b'', ch_ActorID = 8, ch_ActorRole = ''r''\<rparr>"

definition sample_data :: "facts option" where
  "sample_data = Some [(''name'', GString ''x'')]"

definition case0 :: case_db where
  "case0 = \<lparr>audit_events = [], audit_vocabulary = [], workflow_definitions = [], workflow_states = [],
     workflow_transitions = [], workflow_instances = [], workflow_history = [], forms = [], form_versions = [],
     form_fields = [], form_assignments = [], form_submissions = [], cases = []\<rparr>"

definition "case1 = snd (CreateWorkflowDefinition None (sample_ctx 1) sample_params case0)"
definition "case2 = snd (ActivateWorkflowDefinition None (sample_ctx 2) 7 100 8 case1)"
definition "case3 = snd (CreateForm id None (sample_ctx 3) sample_form case2)"
definition "case4 = snd (CreateVersion None (sample_ctx 4) case3 7 300 8 case3)"
definition "case5 = snd (AddField any_regexp id None (sample_ctx 5) case4 sample_field case4)"
definition "case6 = snd (PublishVersion None (sample_ctx 6) case5 7 400 8 case5)"
definition "case7 = snd (CreateAssignment None (sample_ctx 7) case6 sample_assignment case6)"
definition "case8 = snd (CreateCase sample_service (sample_ctx 8) case7 sample_case case7)"
definition "case9 = snd (SubmitForm any_regexp sample_service (sample_ctx 9) case8 7 800 8 400 sample_data case8)"
definition "case10 = snd (ChangeStatus sample_service (sample_ctx 10) case9 sample_status case9)"

lemma case1_rows:
  "case1 = case0\<lparr>
     workflow_definitions := [\<lparr>wd_ID = 100, wd_TenantID = 7, wd_Key = ''k'', wd_Name = ''n'', wd_Description = [],
       wd_Version = 1, wd_Status = WorkflowStatusDraft, InitialState = ''a'', wd_States = [], wd_Transitions = [],
       wd_Metadata = GObject [], wd_CreatedAt = 1000, wd_UpdatedAt = 1000\<rparr>],
     workflow_states := [(sample_state ''a'' False)\<lparr>ws_ID := 101, ws_WorkflowDefID := 100, ws_TenantID := 7\<rparr>,
       (sample_state ''b'' True)\<lparr>ws_ID := 102, ws_WorkflowDefID := 100, ws_TenantID := 7\<rparr>],
     workflow_transitions := [sample_transition\<lparr>wt_ID := 103, wt_WorkflowDefID := 100, wt_TenantID := 7\<rparr>]\<rparr>"
  by code_simp

lemma case2_rows:
  "case2 = case1\<lparr>workflow_definitions :=
     map (\<lambda>d. d\<lparr>wd_Status := WorkflowStatusActive, wd_UpdatedAt := 3000\<rparr>) (workflow_definitions case1)\<rparr>"
  by (simp add: case2_def ActivateWorkflowDefinition_def wf_eval def_FindLatestActiveByKeyTx_def
    def_FindLatestActiveByKey_def latest_first_def def_updateStatus_def case1_rows case0_def)

lemmas form_eval = wf_eval tx_check_def tx_read_def unless_def form_audit_def row_or_def optional_def errors_Is_refl
  form_FindByID_def version_FindByID_def

definition form_row3 :: Form where
  "form_row3 = \<lparr>fm_ID = 300, fm_OrganizationID = 7, fm_Key = ''f'', fm_Name = ''F'', fm_Description = [],
     fm_Status = FormStatusDraft, fm_CreatedByID = 8, fm_CreatedAt = 3000, fm_UpdatedAt = 3000, Versions = []\<rparr>"

lemma case3_rows: "case3 = case2\<lparr>forms := [form_row3]\<rparr>"
  by (simp add: case3_def CreateForm_def sample_form_def ValidateFormKey_def ToLower_def is_ascii_def ascii_lower_def
    of_char_def ValidateFormName_def ValidateFormDescription_def NewForm_def form_eval form_FindByKey_def
    form_Save_def form_row_def form_row3_def case2_rows case1_rows case0_def)

definition version_row4 :: FormVersion where
  "version_row4 = \<lparr>fv_ID = 400, FormID = 300, fv_OrganizationID = 7, fv_Version = 1,
     fv_Status = FormVersionStatusDraft, fv_CreatedByID = 8, fv_CreatedAt = 4000, PublishedAt = Some zero_time,
     fv_UpdatedAt = 4000, Fields = []\<rparr>"

lemma case4_rows: "case4 = case3\<lparr>form_versions := [version_row4]\<rparr>"
  by (simp add: case4_def CreateVersion_def form_eval FindLatest_def newest_version_def NewFormVersion_def
    version_Save_def version_row_def int4_def stored_published_at_def form_row3_def version_row4_def
    case3_rows case2_rows case1_rows case0_def)

definition field_row5 :: FormField where
  "field_row5 = \<lparr>ff_ID = 500, ff_FormID = 300, FormVersionID = 400, ff_OrganizationID = 7, ff_Key = ''name'',
     Label = ''Name'', ff_Type = FieldTypeText, Required = True, ff_Description = [], Placeholder = [],
     DefaultValue = Some [], Validation = [], Options = [], ff_Order = 0, ff_CreatedAt = 5000, ff_UpdatedAt = 5000\<rparr>"

lemma case5_rows: "case5 = case4\<lparr>form_fields := [field_row5]\<rparr>"
  by (simp add: case5_def AddField_def form_eval sample_field_def ValidateFieldKey_def ToLower_def is_ascii_def
    ascii_lower_def of_char_def ValidateField_def ValidateFieldLabel_def ValidateFieldType_def IsValidFieldType_def
    ValidateFieldValidation_def FindByVersion_def field_order_def NewFormField_def field_Save_def field_row_def
    decoded_facts_def int4_def form_row3_def version_row4_def field_row5_def
    case4_rows case3_rows case2_rows case1_rows case0_def)

lemma case6_rows: "case6 = case5
   \<lparr>form_versions := [version_row4\<lparr>fv_Status := FormVersionStatusPublished, PublishedAt := Some 6000, fv_UpdatedAt := 6000\<rparr>],
    forms := [form_row3\<lparr>fm_Status := FormStatusActive, fm_UpdatedAt := 7000\<rparr>]\<rparr>"
  by (simp add: case6_def PublishVersion_def form_eval ValidateVersionStatusTransition_def FindActiveVersion_def
    newest_version_def published_def version_Save_def form_Update_def stored_published_at_def
    form_row3_def version_row4_def case5_rows case4_rows case3_rows case2_rows case1_rows case0_def)

definition assignment_row7 :: WorkflowStateFormAssignment where
  "assignment_row7 = \<lparr>fa_ID = 700, fa_TenantID = 7, fa_WorkflowDefinitionID = 100, WorkflowStateKey = ''a'', fa_FormID = 300,
     fa_FormVersionID = 400, fa_Required = True, fa_DisplayOrder = 0, fa_Active = True, fa_CreatedBy = 8,
     fa_CreatedAt = 7000, fa_UpdatedAt = 7000\<rparr>"

lemmas case6_eval = form_row3_def version_row4_def field_row5_def assignment_row7_def
  sample_state_def sample_transition_def case6_rows case5_rows case4_rows case3_rows case2_rows case1_rows case0_def

lemma case7_rows: "case7 = case6\<lparr>form_assignments := [assignment_row7]\<rparr>"
  by (simp add: case7_def CreateAssignment_def form_eval sample_assignment_def ValidateAssignment_def
    stateExistsInWorkflow_def state_FindByDefinitionID_def assignment_conflict.simps FindByWorkflowAndState_def
    NewWorkflowStateFormAssignment_def assignment_Save_def assignment_row_def char_length_def order_ok_def int4_def
    assignment_audit_def of_char_def case6_eval)

definition instance_row8 :: WorkflowInstance where
  "instance_row8 = \<lparr>wi_ID = 820, wi_TenantID = 7, wi_WorkflowDefID = 100, wi_WorkflowDefVersion = 1, wi_CaseID = 800,
     CurrentState = ''a'', StartedAt = 28000, CompletedAt = None, wi_Metadata = GObject [], wi_Version = 1,
     wi_Definition = None\<rparr>"

definition case_row8 :: Case where
  "case_row8 = \<lparr>cs_ID = 800, cs_OrganizationID = 7, CaseNumber = GenerateCaseNumber 8000 801, Title = ''T'',
     cs_Description = [], cs_Status = ''a'', WorkflowState = ''a'', ServiceType = ''s'', Priority = ''LOW'', PersonID = None,
     AssignedToID = None, cs_CreatedByID = 8, cs_CreatedAt = 8000, cs_UpdatedAt = 9000, ClosedAt = None,
     WorkflowInstanceID = Some 820, WorkflowKey = [], WorkflowID = Some 100, cs_Version = 2\<rparr>"

lemma case8_result: "\<exists>cs. CreateCase sample_service (sample_ctx 8) case7 sample_case case7 = (Inr cs, case8)"
  and case8_rows: "case8 = case7\<lparr>workflow_instances := [instance_row8], cases := [case_row8]\<rparr>"
proof -
  have "\<exists>cs. CreateCase sample_service (sample_ctx 8) case7 sample_case case7
      = (Inr cs, case7\<lparr>workflow_instances := [instance_row8], cases := [case_row8]\<rparr>)"
    by (simp add: CreateCase_def form_eval sample_case_def sample_service_def ValidateServiceType_def
      choose_workflow_def given_workflow_def NewCase_def validateCaseInput_def create_loop_once case_SaveTx_once
      case_insert_result_def case_row_ok_def status_blank_def case_row_def after_save_def case_audit_def
      CreateInstanceForCaseByDefIDTx_def createInstanceForCaseByDefID_def new_instance_def saveInstance_def
      later_ctx_def link_instance_def SyncStatusFromWorkflow_def IsClosed_def case_UpdateWorkflowInstanceID_def
      case_UpdateStatus_def case_update_def case_by_id_def case_at_def instance_row8_def case_row8_def case7_rows case6_eval)
  then show "\<exists>cs. CreateCase sample_service (sample_ctx 8) case7 sample_case case7 = (Inr cs, case8)"
    "case8 = case7\<lparr>workflow_instances := [instance_row8], cases := [case_row8]\<rparr>"
    by (auto simp: case8_def)
qed

lemmas case8_eval = instance_row8_def case_row8_def case8_rows case7_rows case6_eval

definition submission_row9 :: FormSubmission where
  "submission_row9 = \<lparr>sb_ID = 900, sb_TenantID = 7, sb_CaseID = 800, sb_FormID = 300, sb_FormVersionID = 400,
     SubmittedBy = 8, sb_Status = SubmissionStatusSubmitted, sb_Data = [(''name'', GString ''x'')], SubmittedAt = 9000,
     sb_UpdatedAt = 9000\<rparr>"

lemma case9_result: "\<exists>r. SubmitForm any_regexp sample_service (sample_ctx 9) case8 7 800 8 400 sample_data case8 = (Inr r, case9)"
  and case9_rows: "case9 = case8\<lparr>form_submissions := [submission_row9]\<rparr>"
proof -
  have "\<exists>r. SubmitForm any_regexp sample_service (sample_ctx 9) case8 7 800 8 400 sample_data case8
      = (Inr r, case8\<lparr>form_submissions := [submission_row9]\<rparr>)"
    by (simp add: SubmitForm_def submit_tx_def form_eval sample_data_def sample_service_def case_FindByID_def scanCase_def
      case_instance_def instance_FindByID_def scan_instance_def scanned_case_def entries_def validateSubmissionData_def
      FindByVersion_def field_order_def validateFieldValue_def is_blank_def typed_error_def expect_string_def text_error_def
      length_bound_def NewFormSubmission_def state_assignments_def FindByWorkflowAndState_def
      FindByCaseAndFormVersion_def dErrSubmissionNotFound_def submission_Save_def submission_row_def submission_row9_def
      decoded_facts_def case8_eval del: set_sort set_filter)
  then show "\<exists>r. SubmitForm any_regexp sample_service (sample_ctx 9) case8 7 800 8 400 sample_data case8 = (Inr r, case9)"
    "case9 = case8\<lparr>form_submissions := [submission_row9]\<rparr>"
    by (auto simp: case9_def)
qed

lemmas case9_eval = submission_row9_def case9_rows case8_eval

lemma case10_result: "\<exists>r. ChangeStatus sample_service (sample_ctx 10) case9 sample_status case9 = (Inr r, case10)"
  and case10_rows: "case10 = case9\<lparr>workflow_instances := [instance_row8\<lparr>CurrentState := ''b'', CompletedAt := Some 11000,
       wi_Version := 3\<rparr>],
     workflow_history := [\<lparr>wh_ID = 1000, wh_TenantID = 7, wh_InstanceID = 820, wh_CaseID = 800, wh_FromState = ''a'',
       wh_ToState = ''b'', wh_TransitionKey = ''go'', wh_ActorID = Some 8, OccurredAt = 10000, wh_Reason = [],
       wh_Metadata = GObject [], wh_DecisionID = None\<rparr>],
     cases := [case_row8\<lparr>cs_Status := ''b'', WorkflowState := ''b'', cs_Version := 3, cs_UpdatedAt := 11000,
       ClosedAt := Some 11000\<rparr>]\<rparr>"
    (is "_ = ?s")
proof -
  have "\<exists>r. ChangeStatus sample_service (sample_ctx 10) case9 sample_status case9 = (Inr r, ?s)"
    by (simp add: ChangeStatus_def changeStatusViaWorkflow_def form_eval sample_status_def sample_service_def
      case_FindByID_def case_FindByIDTx_def scanCase_def scanned_case_def GetInstanceByCaseID_def GetValidTransitions_def instance_FindByCaseID_def transition_FindByFromState_def
      with_graph_def state_FindByDefinitionID_def transition_FindByDefinitionID_def instance_FindByID_def
      scan_instance_def checkRequiredFormsCompleteInTx_def missing_forms_def FindByWorkflowAndState_def
      FindByCaseAndFormVersion_def dErrSubmissionNotFound_def ExecuteTransitionInTx_def status_transition_def
      executeTransition_def plan_transition_def apply_transition_def statesMap_def role_allowed_def moved_instance_def
      transition_history_def instance_updateState_def at_version_def saveHistory_def instance_complete_def case_observer_def
      OnTransition_def UpdateWorkflowStateTx_def case_update_def case_at_def case_row_ok_def status_blank_def case_audit_def
      case9_eval)
  then show "\<exists>r. ChangeStatus sample_service (sample_ctx 10) case9 sample_status case9 = (Inr r, case10)" "case10 = ?s"
    by (auto simp: case10_def)
qed

subsection \<open>The run\<close>

lemma sample_environment: "case_environment sample_service"
  by unfold_locales (simp_all add: sample_service_def no_auditor_grows)

lemma case_run7: "case_run sample_service [case7, case6, case5, case4, case3, case2, case1, case0]"
proof -
  have "case_run sample_service [case0]" by (rule case_run.start) (simp_all add: case0_def wf_tables_def)
  moreover have "definition_request (wfAuditor sample_service) case0 case1"
    unfolding case1_def sample_service_def by (simp, rule definition_request.create, rule surjective_pairing)
  moreover have "definition_request (wfAuditor sample_service) case1 case2"
    unfolding case2_def sample_service_def by (simp, rule definition_request.activate, rule surjective_pairing)
  ultimately have "case_run sample_service [case2, case1, case0]" by (meson case_run.workflow)
  then have "case_run sample_service [case3, case2, case1, case0]"
    by (rule case_run.elsewhere) (simp_all add: case3_rows wf_tables_def)
  then have "case_run sample_service [case4, case3, case2, case1, case0]"
    by (rule case_run.elsewhere) (simp_all add: case4_rows wf_tables_def)
  then have "case_run sample_service [case5, case4, case3, case2, case1, case0]"
    by (rule case_run.elsewhere) (simp_all add: case5_rows wf_tables_def)
  then have "case_run sample_service [case6, case5, case4, case3, case2, case1, case0]"
    by (rule case_run.elsewhere) (simp_all add: case6_rows wf_tables_def)
  then show ?thesis
    by (rule case_run.elsewhere) (simp_all add: case7_rows wf_tables_def)
qed

lemma case_run9: "case_run sample_service [case9, case8, case7, case6, case5, case4, case3, case2, case1, case0]"
proof -
  obtain r where "CreateCase sample_service (sample_ctx 8) case7 sample_case case7 = (r, case8)"
    using case8_result by blast
  then have "case_run sample_service [case8, case7, case6, case5, case4, case3, case2, case1, case0]"
    by (intro case_run.create_case [OF case_run7]) simp_all
  then show ?thesis by (rule case_run.elsewhere) (simp_all add: case9_rows wf_tables_def)
qed

lemma case_run10: "case_run sample_service [case10, case9, case8, case7, case6, case5, case4, case3, case2, case1, case0]"
proof -
  obtain r where "ChangeStatus sample_service (sample_ctx 10) case9 sample_status case9 = (r, case10)"
    using case10_result by blast
  then show ?thesis by (intro case_run.change_status [OF case_run9]) simp_all
qed

lemma forms_reachable2: "forms_reachable any_regexp id None case2"
  by (rule forms_reachable.start) (simp add: form_part_def case6_eval)

lemma form_steps:
  "form_step any_regexp id None case2 case3" "form_step any_regexp id None case3 case4"
  "form_step any_regexp id None case4 case5" "form_step any_regexp id None case5 case6"
  "form_step any_regexp id None case6 case7" "form_step any_regexp id None case7 case8"
  "form_step any_regexp id None case8 case9"
proof -
  show "form_step any_regexp id None case2 case3"
    unfolding case3_def by (rule form_step.create_form, rule surjective_pairing)
  show "form_step any_regexp id None case3 case4"
    unfolding case4_def by (rule form_step.create_version, rule surjective_pairing) (simp add: case6_eval)
  show "form_step any_regexp id None case4 case5"
    unfolding case5_def by (rule form_step.add_field, rule surjective_pairing)
  show "form_step any_regexp id None case5 case6"
    unfolding case6_def by (rule form_step.publish_version, rule surjective_pairing)
qed (rule form_step.elsewhere, simp add: form_part_def case7_rows case8_rows case9_rows)+

lemma forms_reachable5: "forms_reachable any_regexp id None case5"
  by (rule forms_reachable.step, rule forms_reachable.step, rule forms_reachable.step)
    (rule forms_reachable2 form_steps)+

lemma forms_reachable6: "forms_reachable any_regexp id None case6"
  by (rule forms_reachable.step [OF forms_reachable5 form_steps(4)])

end
