(* ===== verification/Rule_Sample.thy ===== *)
theory Rule_Sample
  imports Rule_Cases Case_Sample
begin

section \<open>A concrete run of the rules services\<close>

text \<open>
  The run of \<open>Case_Sample\<close> continued, for the theorems on rules: a rule set on the submitted form
  is created and published, assigned to the second state of the workflow, evaluated when the case
  moves there and again on request, and a second version of it is published.
\<close>

definition sample_rule :: Rule where
  "sample_rule = \<lparr>rule_ID = 5, Rule.Priority = 3, rule_Outcome = OutcomeEligible,
     Conditions = Condition ''form.f.name'' OpEqual (GString ''x'') [] [] None, rule_Active = True, rule_CreatedAt = 0\<rparr>"

definition sample_rule_set :: CreateRuleSetParams where
  "sample_rule_set = \<lparr>cr_OrganizationID = 7, cr_CaseID = None, cr_Key = ''k'', cr_Name = ''n'', cr_Description = [],
     cr_DefaultOutcome = OutcomeIneligible, cr_Rules = [sample_rule], cr_Triggers = [], cr_ActorID = 8\<rparr>"

definition sample_rule_assignment :: CreateRuleAssignmentParams where
  "sample_rule_assignment = \<lparr>cra_OrganizationID = 7, cra_WorkflowDefID = 100, cra_WorkflowStateKey = ''b'', cra_RuleSetID = 1100,
     cra_Required = True, cra_Active = True, cra_DisplayOrder = 0, cra_ActorID = 8\<rparr>"

definition sample_ruler :: "rules_db RuleSetService" where
  "sample_ruler = \<lparr>rulesAuditor = None, fieldDiscoverer = False\<rparr>"

definition sample_evaluation :: EvaluateRuleSetParams where
  "sample_evaluation = \<lparr>ep_OrganizationID = 7, ep_ID = 1100, ep_CaseID = None, ep_Facts = None, ep_Trigger = TriggerManual,
     ep_ActorID = Some 8, ep_EvaluatedAt = None\<rparr>"

definition rule_sorter :: "Rule list \<Rightarrow> Rule list" where
  "rule_sorter rs = sort_key Rule.Priority rs"

text \<open>No number of the sample needs strconv.FormatFloat.\<close>

definition sample_text :: "rat \<Rightarrow> string" where
  "sample_text r = []"

definition ruled_service :: "ctx \<Rightarrow> rules_db CaseService" where
  "ruled_service c = \<lparr>caseAuditor = None, personFinder = (\<lambda>org person. Inr org), userChecker = None, wfAvailable = True,
     wfAuditor = None, formRepos = True, ruleIntegration = Some (transition_rules sample_text any_regexp rule_sorter (\<lambda>k. None) c)\<rparr>"

definition rules_start :: rules_db where
  "rules_start = \<lparr>audit_events = [], audit_vocabulary = [], workflow_definitions = workflow_definitions case7,
     workflow_states = workflow_states case7, workflow_transitions = workflow_transitions case7,
     workflow_instances = [instance_row8], workflow_history = [], forms = forms case7,
     form_versions = form_versions case7, form_fields = form_fields case7, form_assignments = form_assignments case7,
     form_submissions = [submission_row9], cases = [case_row8], decisions = [], review_queue = [],
     rule_sets = [], evaluations = [], rule_templates = [], rule_assignments = []\<rparr>"

definition "rules1 = snd (CreateRuleSet any_regexp sample_ruler (sample_ctx 11) rules_start sample_rule_set rules_start)"
definition "rules2 = snd (PublishRuleSet any_regexp sample_ruler (sample_ctx 12) rules1 7 1100 8 rules1)"
definition "rules3 = snd (CreateRuleAssignment None (sample_ctx 13) rules2 sample_rule_assignment rules2)"
definition "rules4 = snd (CreateRuleSetVersion sample_ruler (sample_ctx 15) rules3 7 1100 8 rules3)"
definition "rules5 = snd (PublishRuleSet any_regexp sample_ruler (sample_ctx 16) rules4 7 1501 8 rules4)"
definition "rules6 = snd (EvaluateRuleSet sample_text any_regexp rule_sorter sample_ruler (sample_ctx 17) rules5 sample_evaluation rules5)"

subsection \<open>The stores\<close>

definition rule_set_row1 :: RuleSet where
  "rule_set_row1 = \<lparr>rs_ID = 1100, rs_OrganizationID = 7, rs_CaseID = None, rs_Key = ''k'', rs_Name = ''n'', rs_Description = [],
     rs_Version = 1, rs_Status = StatusDraft, DefaultOutcome = OutcomeIneligible, Rules = [sample_rule], Triggers = [],
     rs_CreatedBy = 8, rs_CreatedAt = 11000, rs_UpdatedAt = 11000\<rparr>"

lemma form_f_name: "splitFactPath ''form.f.name'' = [''form'', ''f'', ''name'']"
  by (simp add: splitFactPath_def)

lemma sample_condition_valid: "ValidateCondition re (Conditions sample_rule) 0 = None"
  by (simp add: sample_rule_def MaxConditionNestingDepth_def validateLeaf_def IsValidOperator_def isValidFactPath_def
      form_f_name existenceOperators_def validateValueForOperator_def operator_classes isJSONObject_def isJSONArray_def)

lemma sample_rule_valid: "validate_rule re (sample_rule\<lparr>rule_ID := i\<rparr>) [] = []"
  using sample_condition_valid [of re]
  by (simp add: validate_rule_def sample_rule_def IsValidOutcome_def IsValidOperator_def)

lemma sample_decoded: "rule_decoded (sample_rule\<lparr>rule_ID := i\<rparr>) = Inr (sample_rule\<lparr>rule_ID := i\<rparr>)"
  by (simp add: rule_decoded_def sample_rule_def condition_of_raw_def raw_shape_def Operator_of_def operator_string_def)

lemma sample_encodable: "rule_encodable (sample_rule\<lparr>rule_ID := i\<rparr>)"
  by (simp add: rule_encodable_def sample_rule_def four_digit_year_def epoch_days_def)

lemma sample_id [simp]: "sample_rule\<lparr>rule_ID := 5\<rparr> = sample_rule"
  by (simp add: sample_rule_def)

lemma row1_valid: "ValidateRuleSet re (rule_set_row1\<lparr>rs_ID := i, rs_Version := v, rs_Status := st, rs_UpdatedAt := t,
    Rules := [sample_rule\<lparr>rule_ID := k\<rparr>]\<rparr>) = None \<longleftrightarrow> 1 \<le> v"
  using sample_rule_valid [of re k]
  by (simp add: ValidateRuleSet_def rule_set_errors_def rule_set_row1_def MaxRulesPerRuleSet_def MaxConditionsPerRuleSet_def
      IsValidOutcome_def sample_rule_def)

lemmas rules_eval = form_eval sample_ruler_def rule_audit_def Let_def svc_validateKey_def svc_validateName_def
  svc_validateDescription_def isValidDefaultOutcome_def valid_default_outcome_def rule_set_FindByKey_def latest_versions_def
  with_key_def scan_rule_set_def scanRuleSet_def rule_set_FindByID_def rule_set_at_def

lemma rules1_result: "CreateRuleSet any_regexp sample_ruler (sample_ctx 11) rules_start sample_rule_set rules_start = (Inr rule_set_row1, rules1)"
  and rules1_rows: "rules1 = rules_start\<lparr>rule_sets := [rule_set_row1]\<rparr>"
proof -
  have v: "ValidateRuleSet any_regexp rule_set_row1 = None"
    using row1_valid [where re = any_regexp and i = 1100 and v = 1 and st = StatusDraft and t = 11000 and k = 5] by (simp add: rule_set_row1_def)
  have n: "NewRuleSet any_regexp (sample_ctx 11) (Some 7) None ''k'' ''n'' [] OutcomeIneligible [sample_rule] [] 8 = Inr rule_set_row1"
    using v by (simp add: NewRuleSet_def check_def validateKey_def validateName_def validateDescription_def ValidateOutcome_def
        IsValidOutcome_def sample_ctx_def rule_set_row1_def)
  have "CreateRuleSet any_regexp sample_ruler (sample_ctx 11) rules_start sample_rule_set rules_start
      = (Inr rule_set_row1, rules_start\<lparr>rule_sets := [rule_set_row1]\<rparr>)"
    using sample_encodable [of 5]
    by (simp add: CreateRuleSet_def rules_eval sample_rule_set_def n rules_start_def rule_set_Save_def int4_def rs_row_def
        rule_set_row1_def trunc_micros_def given_def)
  then show "CreateRuleSet any_regexp sample_ruler (sample_ctx 11) rules_start sample_rule_set rules_start = (Inr rule_set_row1, rules1)"
    "rules1 = rules_start\<lparr>rule_sets := [rule_set_row1]\<rparr>"
    by (simp_all add: rules1_def)
qed

definition rule_set_row2 :: RuleSet where
  "rule_set_row2 = rule_set_row1\<lparr>rs_Status := StatusPublished, rs_UpdatedAt := 13000\<rparr>"

lemma scan_sample [simp]: "rule_decoded sample_rule = Inr sample_rule"
  using sample_decoded [of 5] by simp

lemma rules2_result: "\<exists>rs. PublishRuleSet any_regexp sample_ruler (sample_ctx 12) rules1 7 1100 8 rules1 = (Inr rs, rules2)"
  and rules2_rows: "rules2 = rules_start\<lparr>rule_sets := [rule_set_row2]\<rparr>"
proof -
  have v: "ValidateRuleSet any_regexp rule_set_row1 = None"
    using row1_valid [where re = any_regexp and i = 1100 and v = 1 and st = StatusDraft and t = 11000 and k = 5] by (simp add: rule_set_row1_def)
  have f: "rule_set_FindByID 7 1100 rules1 = Inr rule_set_row1"
    by (simp add: rule_set_FindByID_def scan_rule_set_def scanRuleSet_def rule_set_at_def rules1_rows rule_set_row1_def)
  have u: "rule_set_UpdateStatus 13000 7 1100 StatusDraft StatusPublished rules1 = (Inr (), rules_start\<lparr>rule_sets := [rule_set_row2]\<rparr>)"
    by (simp add: rule_set_UpdateStatus_def rule_set_update_def rules1_rows rule_set_at_def rule_set_row1_def rule_set_row2_def
        valid_default_outcome_def int4_def update_where_def)
  have "\<exists>rs. PublishRuleSet any_regexp sample_ruler (sample_ctx 12) rules1 7 1100 8 rules1
      = (Inr rs, rules_start\<lparr>rule_sets := [rule_set_row2]\<rparr>)"
    using u f v by (simp add: PublishRuleSet_def change_rule_set_status_def rules_eval sample_ctx_def rule_set_row1_def)
  then show "\<exists>rs. PublishRuleSet any_regexp sample_ruler (sample_ctx 12) rules1 7 1100 8 rules1 = (Inr rs, rules2)"
    "rules2 = rules_start\<lparr>rule_sets := [rule_set_row2]\<rparr>"
    by (auto simp: rules2_def)
qed

definition assignment_row3 :: WorkflowStateRuleAssignment where
  "assignment_row3 = \<lparr>ra_ID = 1300, ra_OrganizationID = 7, ra_WorkflowDefID = 100, ra_WorkflowStateKey = ''b'',
     ra_RuleSetID = 1100, ra_Required = True, ra_Active = True, ra_DisplayOrder = 0, ra_CreatedAt = 14000, ra_UpdatedAt = 14000\<rparr>"

lemma found_row2: "rule_sets s = [rule_set_row2] \<Longrightarrow> rule_set_FindByID 7 1100 s = Inr rule_set_row2"
  by (simp add: rule_set_FindByID_def scan_rule_set_def scanRuleSet_def rule_set_at_def rule_set_row1_def rule_set_row2_def)

lemma rules3_result: "\<exists>a. CreateRuleAssignment None (sample_ctx 13) rules2 sample_rule_assignment rules2 = (Inr a, rules3)"
  and rules3_rows: "rules3 = rules_start\<lparr>rule_sets := [rule_set_row2], rule_assignments := [assignment_row3]\<rparr>"
proof -
  have "workflow_definitions rules2 = workflow_definitions case2" by (simp add: rules2_rows rules_start_def case7_rows case6_eval)
  then have d: "100 \<in> wd_ID ` set (workflow_definitions rules2)" by (simp add: case2_rows case1_rows)
  have sv: "rule_assignment_Save 14000 (new_rule_assignment (sample_ctx 13) sample_rule_assignment) rules2
      = (Inr (), rules_start\<lparr>rule_sets := [rule_set_row2], rule_assignments := [assignment_row3]\<rparr>)"
    using d by (simp add: rule_assignment_Save_def new_rule_assignment_def sample_rule_assignment_def sample_ctx_def
        assignment_Validate_def unless_def order_ok_def int4_def ra_row_def trunc_micros_def assignment_row3_def rules2_rows rules_start_def
        rule_set_row1_def rule_set_row2_def)
  have f: "rule_set_FindByID 7 1100 rules2 = Inr rule_set_row2" by (rule found_row2) (simp add: rules2_rows)
  have "\<exists>a. CreateRuleAssignment None (sample_ctx 13) rules2 sample_rule_assignment rules2
      = (Inr a, rules_start\<lparr>rule_sets := [rule_set_row2], rule_assignments := [assignment_row3]\<rparr>)"
    using sv f by (simp add: CreateRuleAssignment_def form_eval rule_assignment_audit_def Let_def assignment_Validate_def
        new_rule_assignment_def sample_rule_assignment_def sample_ctx_def)
  then show "\<exists>a. CreateRuleAssignment None (sample_ctx 13) rules2 sample_rule_assignment rules2 = (Inr a, rules3)"
    "rules3 = rules_start\<lparr>rule_sets := [rule_set_row2], rule_assignments := [assignment_row3]\<rparr>"
    by (auto simp: rules3_def)
qed

text \<open>The evaluation of the published rule set on facts with the submitted value.\<close>

lemma row2_valid: "ValidateRuleSet any_regexp rule_set_row2 = None"
  using row1_valid [where re = any_regexp and i = 1100 and v = 1 and st = StatusPublished and t = 13000 and k = 5]
  by (simp add: rule_set_row1_def rule_set_row2_def)

lemma sample_trace:
  assumes "ResolveFact facts ''form.f.name'' = Some (GString ''x'')" "four_digit_year t"
  shows "ev_Status (Evaluate any_regexp rule_sorter c rule_set_row2 facts t b tr) = StatusEligible"
    "ev_Outcome (Evaluate any_regexp rule_sorter c rule_set_row2 facts t b tr) = OutcomeEligible"
    "list_all trace_encodable (ev_Trace (Evaluate any_regexp rule_sorter c rule_set_row2 facts t b tr))"
proof -
  have v: "fst (evalLeaf any_regexp OpEqual (GString ''x'') (GString ''x'')) = resultTrue"
    by (simp add: evalLeaf_def compareTyped_def operator_classes compareEquality_def isNumber_def isStringType_def
        equality_verdict_def string_of_def)
  then obtain reason where v: "evalLeaf any_regexp OpEqual (GString ''x'') (GString ''x'') = (resultTrue, reason)" by (metis prod.collapse)
  have "rule_sorter [sample_rule] = [sample_rule]" by (simp add: rule_sorter_def)
  then show "ev_Status (Evaluate any_regexp rule_sorter c rule_set_row2 facts t b tr) = StatusEligible"
    "ev_Outcome (Evaluate any_regexp rule_sorter c rule_set_row2 facts t b tr) = OutcomeEligible"
    "list_all trace_encodable (ev_Trace (Evaluate any_regexp rule_sorter c rule_set_row2 facts t b tr))"
    using assms by (simp_all add: Evaluate_def rule_set_row1_def rule_set_row2_def newTraceNode_def sample_rule_def v outcomeToStatus_def
        set_fields_def appendChild_def Let_def)
qed

lemma sample_saved:
  fixes s :: "'s rules_db_scheme"
  assumes s: "rule_sets s = [rule_set_row2]" "evaluations s = []" "800 \<in> cs_ID ` set (cases s)"
    and facts: "ResolveFact facts ''form.f.name'' = Some (GString ''x'')" "json_encodable (GObject facts)"
    and p: "ec_CaseID p = 800" "ec_Trigger p = TriggerAutomatic" "ec_Tx p = None" and t: "four_digit_year (ctx_time c 0)"
  shows "saveEvaluation sample_text None d None (fst (evaluated_rule_set any_regexp rule_sorter c p facts rule_set_row2)) s
    = (Inr (), s\<lparr>evaluations := [evaluation_row sample_text (fst (evaluated_rule_set any_regexp rule_sorter c p facts rule_set_row2))]\<rparr>)"
proof -
  note tr = sample_trace [OF facts(1) t]
  have "rs_Version rule_set_row2 = 1" "rs_ID rule_set_row2 = 1100" by (simp_all add: rule_set_row1_def rule_set_row2_def)
  then show ?thesis
    using s facts(2) p by (simp add: saveEvaluation_def recordEvaluationAudit_def RecordAuditEventInTx_def tx_defs evaluated_rule_set_def
        row2_valid Let_def evaluation_Save_def tr int4_def IsValidOutcome_def given_def)
qed

lemma sample_facts:
  fixes s :: "'s rules_db_scheme"
  assumes "cases s = [cs]" "cs_ID cs = 800" "cs_OrganizationID cs = 7" "forms s = forms case7" "form_submissions s = [submission_row9]"
  obtains facts where "assembled_facts now 7 800 s = Inr facts" "ResolveFact facts ''form.f.name'' = Some (GString ''x'')"
    "json_encodable (GObject facts)"
proof -
  have key: "submission_key 7 s submission_row9 = Some ''f''"
    using assms(4) by (simp add: submission_key_def form_FindByID_def row_or_def submission_row9_def case7_rows case6_eval)
  have subs: "submission_ListByCase 7 800 s = [submission_row9]"
    using assms(5) by (simp add: submission_ListByCase_def submission_row9_def)
  have m: "fold (latest_by_key 7 s) [submission_row9] [] = [(''f'', submission_row9)]"
    by (simp add: latest_by_key_eq key)
  define facts where "facts = [(''case'', GObject (case_facts now (scanned_case cs))),
       (''form'', GObject [(''f'', GObject (submission_facts submission_row9))])]"
  have a: "assembled_facts now 7 800 s = Inr facts"
    using assms(1-3) subs m by (simp add: assembled_facts_def case_FindByID_def scanCase_def query_row_def facts_def)
  have "plain_key ''f''" "plain_key ''name''" by (simp_all add: plain_key_def)
  from resolve_form_field [OF this a]
  have "ResolveFact facts ''form.f.name'' = Some (GString ''x'')"
    by (simp add: subs key) (simp add: submission_facts_def submission_row9_def)
  moreover have "json_encodable (GObject facts)"
    by (simp add: facts_def case_facts_def submission_facts_def submission_row9_def four_digit_year_def epoch_days_def)
  ultimately show thesis using that a by blast
qed

lemma sample_transition_rules:
  fixes s :: "'s rules_db_scheme"
  assumes s: "cases s = [cs]" "cs_ID cs = 800" "cs_OrganizationID cs = 7" "WorkflowInstanceID cs = Some 820" "forms s = forms case7"
    "form_submissions s = [submission_row9]" "rule_sets s = [rule_set_row2]" "rule_assignments s = [assignment_row3]" "evaluations s = []"
    and i: "workflow_instances s = [i]" "wi_TenantID i = 7" "wi_CaseID i = 800" "wi_WorkflowDefID i = 100" "CurrentState i = ''b''"
  shows "\<exists>ev. transition_rules sample_text any_regexp rule_sorter (\<lambda>k. None) (sample_ctx 14) 7 800 s = (Inr (), s\<lparr>evaluations := [ev]\<rparr>)"
proof -
  obtain facts where facts: "assembled_facts (ctx_time (sample_ctx 14) 1) 7 800 s = Inr facts"
      "ResolveFact facts ''form.f.name'' = Some (GString ''x'')" "json_encodable (GObject facts)"
    using sample_facts [OF s(1-3,5,6)] by metis
  define p where "p = (transition_params 7 800 :: 's rules_db_scheme EvaluateCaseRulesParams)"
  have p: "ec_CaseID p = 800" "ec_Trigger p = TriggerAutomatic" "ec_Tx p = None" "ec_OrganizationID p = 7" "ec_Facts p = None"
    "ec_Event p = TriggerWorkflowTransition" "p\<lparr>ec_Trigger := TriggerAutomatic\<rparr> = p"
    by (simp_all add: p_def transition_params_def)
  have c: "case_FindByID 7 800 s = Inr (scanned_case cs)"
    using s(1-3) by (simp add: case_FindByID_def scanCase_def query_row_def)
  have inst: "\<exists>j. instance_FindByCaseID 7 800 s = Inr j \<and> wi_WorkflowDefID j = 100 \<and> CurrentState j = ''b''"
    using i by (simp add: instance_FindByCaseID_def scan_instance_def query_row_def)
  then obtain j where j: "instance_FindByCaseID 7 800 s = Inr j" "wi_WorkflowDefID j = 100" "CurrentState j = ''b''" by blast
  have as: "FindRulesByWorkflowAndState 7 100 ''b'' s = [assignment_row3]"
    using s(8) by (simp add: FindRulesByWorkflowAndState_def assignment_row3_def)
  have f: "rule_set_FindByID 7 1100 s = Inr rule_set_row2" by (rule found_row2 [OF s(7)])
  have sel: "selected_rule_set TriggerWorkflowTransition (Inr rule_set_row2) = Some rule_set_row2"
    by (simp add: selected_rule_set_def rule_set_row1_def rule_set_row2_def triggersMatch_def)
  have "four_digit_year (ctx_time (later_ctx 2 (sample_ctx 14)) 0)"
    by (simp add: four_digit_year_def epoch_days_def later_ctx_def sample_ctx_def)
  then have sv: "saveEvaluation sample_text None (sample_ctx 14) None
      (fst (evaluated_rule_set any_regexp rule_sorter (later_ctx 2 (sample_ctx 14)) p facts rule_set_row2)) s
      = (Inr (), s\<lparr>evaluations := [evaluation_row sample_text (fst (evaluated_rule_set any_regexp rule_sorter (later_ctx 2 (sample_ctx 14)) p facts rule_set_row2))]\<rparr>)"
    using s(1,2) by (intro sample_saved s(7,9) facts(2,3) p(1-3)) simp_all
  obtain ev missing where e: "evaluated_rule_set any_regexp rule_sorter (later_ctx 2 (sample_ctx 14)) p facts rule_set_row2 = (ev, missing)"
    by fastforce
  have active: "ra_Active assignment_row3" "ra_RuleSetID assignment_row3 = 1100" by (simp_all add: assignment_row3_def)
  have "\<exists>res. integration_EvaluateCaseRules sample_text any_regexp rule_sorter (\<lambda>k. None) (sample_ctx 14) p s
      = (Inr res, s\<lparr>evaluations := [evaluation_row sample_text ev]\<rparr>)"
    using sv s(4) facts(1)
    by (simp add: integration_EvaluateCaseRules_def tx_defs evaluated_case_def evaluated_instance_def AssembleFactsFromCase_def
        tx_view_def or_else_def p c j as f sel e active Let_def scanned_case_def)
  then show ?thesis by (auto simp: transition_rules_def p_def tx_defs)
qed

text \<open>The transition to the second state, with the evaluation in its transaction.\<close>

definition sample_move :: ExecuteTransitionParams where
  "sample_move = \<lparr>etp_TenantID = 7, etp_InstanceID = 820, etp_TransitionKey = ''go'', etp_ActorID = 8, etp_ActorRole = ''r'',
     etp_Reason = [], etp_DecisionID = None\<rparr>"

definition "moved_rules = snd (executeTransition None (case_observer (ruled_service (sample_ctx 14)) (sample_ctx 14)) (sample_ctx 14)
   rules3 False sample_move rules3)"

lemma moved_result:
  "\<exists>i. executeTransition None (case_observer (ruled_service (sample_ctx 14)) (sample_ctx 14)) (sample_ctx 14) rules3 False sample_move rules3
     = (Inr i, moved_rules) \<and> wi_TenantID i = 7 \<and> wi_CaseID i = 800"
  "\<exists>ev. evaluations moved_rules = [ev]"
proof -
  have one: "\<exists>ev. EvaluateCaseRules (ruled_service (sample_ctx 14)) 7 800 s = (Inr (), s\<lparr>evaluations := [ev]\<rparr>)"
    if "\<exists>cs. cases s = [cs] \<and> cs_ID cs = 800 \<and> cs_OrganizationID cs = 7 \<and> WorkflowInstanceID cs = Some 820"
      "forms s = forms case7" "form_submissions s = [submission_row9]" "rule_sets s = [rule_set_row2]"
      "rule_assignments s = [assignment_row3]" "evaluations s = []"
      "\<exists>i. workflow_instances s = [i] \<and> wi_TenantID i = 7 \<and> wi_CaseID i = 800 \<and> wi_WorkflowDefID i = 100 \<and> CurrentState i = ''b''"
    for s
    using that sample_transition_rules [of s] by (auto simp: EvaluateCaseRules_def ruled_service_def)
  define E where "E s = hd (evaluations (snd (EvaluateCaseRules (ruled_service (sample_ctx 14)) 7 800 s)))" for s
  have one: "EvaluateCaseRules (ruled_service (sample_ctx 14)) 7 800 s = (Inr (), s\<lparr>evaluations := [E s]\<rparr>)"
    if "\<exists>cs. cases s = [cs] \<and> cs_ID cs = 800 \<and> cs_OrganizationID cs = 7 \<and> WorkflowInstanceID cs = Some 820"
      "forms s = forms case7" "form_submissions s = [submission_row9]" "rule_sets s = [rule_set_row2]"
      "rule_assignments s = [assignment_row3]" "evaluations s = []"
      "\<exists>i. workflow_instances s = [i] \<and> wi_TenantID i = 7 \<and> wi_CaseID i = 800 \<and> wi_WorkflowDefID i = 100 \<and> CurrentState i = ''b''"
    for s
    using one [OF that] by (auto simp: E_def)
  have "\<exists>i s. executeTransition None (case_observer (ruled_service (sample_ctx 14)) (sample_ctx 14)) (sample_ctx 14) rules3 False sample_move rules3
     = (Inr i, s) \<and> (\<exists>ev. evaluations s = [ev]) \<and> wi_TenantID i = 7 \<and> wi_CaseID i = 800"
    by (simp add: form_eval sample_move_def case_FindByID_def case_FindByIDTx_def scanCase_def scanned_case_def transition_FindByFromState_def
      with_graph_def state_FindByDefinitionID_def transition_FindByDefinitionID_def instance_FindByID_def
      scan_instance_def checkRequiredFormsCompleteInTx_def missing_forms_def FindByWorkflowAndState_def
      FindByCaseAndFormVersion_def dErrSubmissionNotFound_def
      executeTransition_def plan_transition_def apply_transition_def statesMap_def role_allowed_def moved_instance_def
      transition_history_def instance_updateState_def at_version_def saveHistory_def instance_complete_def case_observer_def
      OnTransition_def UpdateWorkflowStateTx_def case_update_def case_at_def case_row_ok_def status_blank_def
      ruled_service_def rules3_rows rules_start_def case9_eval one [unfolded ruled_service_def])
  then show "\<exists>i. executeTransition None (case_observer (ruled_service (sample_ctx 14)) (sample_ctx 14)) (sample_ctx 14) rules3 False sample_move rules3
     = (Inr i, moved_rules) \<and> wi_TenantID i = 7 \<and> wi_CaseID i = 800" "\<exists>ev. evaluations moved_rules = [ev]"
    by (auto simp: moved_rules_def)
qed

text \<open>The second version, its publication, and an evaluation of the first version without facts.\<close>

definition rule_set_row4 :: RuleSet where
  "rule_set_row4 = rule_set_row1\<lparr>rs_ID := 1501, rs_Version := 2, Rules := [sample_rule\<lparr>rule_ID := 1500\<rparr>], rs_UpdatedAt := 15000\<rparr>"

definition rule_set_row5 :: RuleSet where
  "rule_set_row5 = rule_set_row4\<lparr>rs_Status := StatusPublished, rs_UpdatedAt := 17000\<rparr>"

lemmas rows_def = rule_set_row1_def rule_set_row2_def rule_set_row4_def rule_set_row5_def

lemma rows_valid: "valid_row re rule_set_row2" "valid_row re rule_set_row4" "valid_row re rule_set_row5"
  using row1_valid [where re = re and i = 1100 and v = 1 and st = StatusPublished and t = 13000 and k = 5]
    row1_valid [where re = re and i = 1501 and v = 2 and st = StatusDraft and t = 15000 and k = 1500]
    row1_valid [where re = re and i = 1501 and v = 2 and st = StatusPublished and t = 17000 and k = 1500]
    sample_encodable [of 1500] sample_encodable [of 5]
  by (simp_all add: valid_row_def rows_def)

lemma rules4_result: "\<exists>rs. CreateRuleSetVersion sample_ruler (sample_ctx 15) rules3 7 1100 8 rules3 = (Inr rs, rules4)"
  and rules4_rows: "rules4 = rules3\<lparr>rule_sets := [rule_set_row2, rule_set_row4]\<rparr>"
proof -
  have f: "rule_set_FindByID 7 1100 rules3 = Inr rule_set_row2" by (rule found_row2) (simp add: rules3_rows)
  have c: "(RuleSet_Clone (sample_ctx 15) rule_set_row2)\<lparr>rs_Status := StatusDraft, rs_UpdatedAt := ctx_time (sample_ctx 15) 0\<rparr> = rule_set_row4"
    by (simp add: RuleSet_Clone_def rows_def sample_ctx_def sample_rule_def)
  have v: "rule_set_Save rule_set_row4 rules3 = (Inr (), rules3\<lparr>rule_sets := [rule_set_row2, rule_set_row4]\<rparr>)"
    using sample_encodable [of 1500] by (simp add: rule_set_Save_def Let_def rules3_rows rows_def rs_row_def given_def trunc_micros_def
      int4_def valid_default_outcome_def same_published_def Rule_Store.same_version_def)
  have "\<exists>rs. CreateRuleSetVersion sample_ruler (sample_ctx 15) rules3 7 1100 8 rules3
      = (Inr rs, rules3\<lparr>rule_sets := [rule_set_row2, rule_set_row4]\<rparr>)"
    using f c v by (simp add: CreateRuleSetVersion_def tx_defs tx_read_def rule_audit_def sample_ruler_def RecordAuditEventInTx_def Let_def)
  then show "\<exists>rs. CreateRuleSetVersion sample_ruler (sample_ctx 15) rules3 7 1100 8 rules3 = (Inr rs, rules4)"
    "rules4 = rules3\<lparr>rule_sets := [rule_set_row2, rule_set_row4]\<rparr>"
    by (auto simp: rules4_def)
qed

lemma rules5_result: "\<exists>rs. PublishRuleSet any_regexp sample_ruler (sample_ctx 16) rules4 7 1501 8 rules4 = (Inr rs, rules5)"
  and rules5_rows: "rules5 = rules3\<lparr>rule_sets := [rule_set_row2, rule_set_row5]\<rparr>"
proof -
  have v: "ValidateRuleSet any_regexp rule_set_row4 = None" using rows_valid(2) [of any_regexp] by (simp add: valid_row_def)
  have f: "rule_set_FindByID 7 1501 rules4 = Inr rule_set_row4"
    using sample_decoded [of 1500] by (simp add: rule_set_FindByID_def scan_rule_set_def scanRuleSet_def rule_set_at_def rules4_rows rows_def)
  have u: "rule_set_UpdateStatus 17000 7 1501 StatusDraft StatusPublished rules4
      = (Inr (), rules3\<lparr>rule_sets := [rule_set_row2, rule_set_row5]\<rparr>)"
    by (simp add: rule_set_UpdateStatus_def rule_set_update_def rules4_rows rule_set_at_def rows_def
        valid_default_outcome_def int4_def update_where_def same_published_def Rule_Store.same_version_def Let_def conj_disj_distribR
        ex_disj_distrib)
  have "\<exists>rs. PublishRuleSet any_regexp sample_ruler (sample_ctx 16) rules4 7 1501 8 rules4
      = (Inr rs, rules3\<lparr>rule_sets := [rule_set_row2, rule_set_row5]\<rparr>)"
    using u f v by (simp add: PublishRuleSet_def change_rule_set_status_def rules_eval sample_ctx_def rows_def)
  then show "\<exists>rs. PublishRuleSet any_regexp sample_ruler (sample_ctx 16) rules4 7 1501 8 rules4 = (Inr rs, rules5)"
    "rules5 = rules3\<lparr>rule_sets := [rule_set_row2, rule_set_row5]\<rparr>"
    by (auto simp: rules5_def)
qed

lemma no_sample_fact: "ResolveFact [] ''form.f.name'' = None"
  by (simp add: ResolveFact_def form_f_name plain_descend plain_key_def del: resolve_segments.simps(2))

lemma sample_uninformed:
  assumes "four_digit_year t"
  shows "list_all trace_encodable (ev_Trace (Evaluate any_regexp rule_sorter c rule_set_row2 [] t b tr))"
    "ev_Outcome (Evaluate any_regexp rule_sorter c rule_set_row2 [] t b tr) = OutcomeInformationRequired"
    "ev_Status (Evaluate any_regexp rule_sorter c rule_set_row2 [] t b tr) = StatusInformationRequired"
proof -
  have "rule_sorter [sample_rule] = [sample_rule]" by (simp add: rule_sorter_def)
  then show "list_all trace_encodable (ev_Trace (Evaluate any_regexp rule_sorter c rule_set_row2 [] t b tr))"
    "ev_Outcome (Evaluate any_regexp rule_sorter c rule_set_row2 [] t b tr) = OutcomeInformationRequired"
    "ev_Status (Evaluate any_regexp rule_sorter c rule_set_row2 [] t b tr) = StatusInformationRequired"
    using no_sample_fact assms by (simp_all add: Evaluate_def rule_set_row1_def rule_set_row2_def newTraceNode_def sample_rule_def
        set_fields_def appendChild_def Let_def)
qed

lemma rules6_result: "EvaluateRuleSet sample_text any_regexp rule_sorter sample_ruler (sample_ctx 17) rules5 sample_evaluation rules5
     = (Inr (requested_evaluation any_regexp rule_sorter (sample_ctx 17) sample_evaluation rule_set_row2), rules6)"
  and rules6_rows: "rules6 = rules5\<lparr>evaluations := [evaluation_row sample_text
     (requested_evaluation any_regexp rule_sorter (sample_ctx 17) sample_evaluation rule_set_row2)]\<rparr>"
proof -
  let ?ev = "requested_evaluation any_regexp rule_sorter (sample_ctx 17) sample_evaluation rule_set_row2"
  have f: "rule_set_FindByID 7 1100 rules5 = Inr rule_set_row2"
    by (simp add: rule_set_FindByID_def scan_rule_set_def scanRuleSet_def rule_set_at_def rules5_rows rows_def)
  have "four_digit_year 17000" by (simp add: four_digit_year_def epoch_days_def)
  note u = sample_uninformed [OF this]
  have o: "list_all trace_encodable (ev_Trace ?ev)" "ev_Outcome ?ev = OutcomeInformationRequired"
    by (simp_all add: requested_evaluation_def Let_def sample_evaluation_def requested_facts_def requested_time_def sample_ctx_def u)
  have k: "ev_CaseID (Evaluate re srt c rs facts t b tr) = rs_CaseID rs" for re srt c rs facts t b tr
    by (simp add: Evaluate_def Let_def split: prod.split option.split)
  have e: "ev_FactsSnapshot ?ev = []" "ev_RuleSetVersion ?ev = 1" "ev_RuleSetID ?ev = 1100" "ev_Trigger ?ev = TriggerManual"
      "ev_CaseID ?ev = None"
    by (simp_all add: requested_evaluation_def Let_def sample_evaluation_def requested_facts_def requested_trigger_def k rows_def)
  have v: "evaluation_Save sample_text ?ev rules5 = (Inr (), rules5\<lparr>evaluations := [evaluation_row sample_text ?ev]\<rparr>)"
    using o e by (simp add: evaluation_Save_def int4_def IsValidOutcome_def given_def rules5_rows rules3_rows rules_start_def)
       (simp add: rows_def given_def)
  have "EvaluateRuleSet sample_text any_regexp rule_sorter sample_ruler (sample_ctx 17) rules5 sample_evaluation rules5
     = (Inr ?ev, rules5\<lparr>evaluations := [evaluation_row sample_text ?ev]\<rparr>)"
    using f row2_valid v by (simp add: EvaluateRuleSet_def sample_evaluation_def tx_defs tx_read_def sample_ruler_def RecordAuditEventInTx_def
        requested_trigger_def Let_def) (simp add: rows_def)
  then show "EvaluateRuleSet sample_text any_regexp rule_sorter sample_ruler (sample_ctx 17) rules5 sample_evaluation rules5 = (Inr ?ev, rules6)"
    "rules6 = rules5\<lparr>evaluations := [evaluation_row sample_text ?ev]\<rparr>"
    by (auto simp: rules6_def)
qed

text \<open>The run of these requests.\<close>

lemma sample_rules_run5: "rules_run sample_text any_regexp rule_sorter sample_ruler None (\<lambda>k. None)
    [rules5, rules4, rules3, rules2, rules1, rules_start]"
proof -
  have 0: "rules_run sample_text any_regexp rule_sorter sample_ruler None (\<lambda>k. None) [rules_start]"
    by (rule no_rules) (simp add: rules_tables_def rules_start_def)
  have 1: "rules_run sample_text any_regexp rule_sorter sample_ruler None (\<lambda>k. None) [rules1, rules_start]"
    by (rule ruling [OF 0], rule create [OF _ rules1_result]) simp
  have 2: "rules_run sample_text any_regexp rule_sorter sample_ruler None (\<lambda>k. None) [rules2, rules1, rules_start]"
    using rules2_result by (auto intro!: ruling [OF 1] intro: publish)
  have 3: "rules_run sample_text any_regexp rule_sorter sample_ruler None (\<lambda>k. None) [rules3, rules2, rules1, rules_start]"
    using rules3_result by (auto intro!: ruling [OF 2] intro: assign)
  have 4: "rules_run sample_text any_regexp rule_sorter sample_ruler None (\<lambda>k. None) [rules4, rules3, rules2, rules1, rules_start]"
    using rules4_result by (auto intro!: ruling [OF 3] intro: new_version)
  show ?thesis using rules5_result by (auto intro!: ruling [OF 4] intro: publish)
qed

lemma sample_rules_run: "rules_run sample_text any_regexp rule_sorter sample_ruler None (\<lambda>k. None)
    [rules6, rules5, rules4, rules3, rules2, rules1, rules_start]"
  by (rule ruling [OF sample_rules_run5], rule evaluate [OF _ rules6_result]) simp

lemma sample_services: "rule_services sample_ruler None (\<lambda>k. None)"
  by unfold_locales (simp_all add: sample_ruler_def no_auditor_grows)

end
