(* ===== verification/Rule_Record.thy ===== *)
theory Rule_Record
  imports Rule_Cases Rule_Properties
begin

section \<open>What the record of an evaluation keeps\<close>

text \<open>
  The facts of an evaluation are recorded as a JSON document. The engine reads from the document
  what it read from the facts as long as the values its conditions name are exact: no times, and
  no numbers whose text denotes another number.
\<close>

subsection \<open>Reading a recorded number\<close>

lemma digits_val_append: "digits_val (a @ b) = digits_val a * 10 ^ length b + digits_val b"
proof (induction b rule: rev_induct)
  case (snoc c b)
  then show ?case
    using digits_val_snoc [of "a @ b" c] digits_val_snoc [of b c] by (simp add: algebra_simps)
qed (simp add: digits_val_def)

lemma digits_val_fixed: "digits_val (fixed_digits digit_char 10 w n) = n mod 10 ^ w"
proof (induction w arbitrary: n)
  case (Suc w)
  have "n mod (10 * 10 ^ w) = 10 * (n div 10 mod 10 ^ w) + n mod 10" by (rule mod_mult2_eq)
  with Suc show ?case by (simp add: digits_val_snoc)
qed (simp add: digits_val_def)

lemma fixed_digits_are_digits: "list_all is_digit (fixed_digits digit_char 10 w n)"
  by (induction w arbitrary: n) simp_all

lemma dec_string_are_digits: "list_all is_digit (dec_string n)"
  by (simp add: list_all_iff dec_string_digits)

lemma digits_prefix:
  assumes "list_all is_digit ds" "rest = [] \<or> \<not> is_digit (hd rest)"
  shows "takeWhile is_digit (ds @ rest) = ds" "dropWhile is_digit (ds @ rest) = rest"
  using assms by (cases rest; auto simp: list_all_iff takeWhile_append dropWhile_append)+

text \<open>A number without an exponent, in parts.\<close>

lemma read_plain_number:
  assumes "list_all is_digit ip" "ip \<noteq> []" "list_all is_digit fp"
  shows "read_number ((if neg then ''-'' else []) @ ip @ (if fp = [] then [] else CHR ''.'' # fp))
    = Some (neg, digits_val (ip @ fp), length fp, 0)"
proof -
  let ?rest = "if fp = [] then [] else CHR ''.'' # fp"
  have "hd ip \<noteq> CHR ''-''" using assms(1,2) by (cases ip) (auto simp: is_digit_def)
  then have s: "strip_sign ((if neg then ''-'' else []) @ ip @ ?rest) = (neg, ip @ ?rest)"
    using assms(2) by (cases ip) (auto simp: strip_sign_def)
  have "?rest = [] \<or> \<not> is_digit (hd ?rest)" by (simp add: is_digit_def)
  note t = digits_prefix [OF assms(1) this]
  have "takeWhile is_digit (fp @ []) = fp" "dropWhile is_digit (fp @ []) = []"
    by (rule digits_prefix [OF assms(3)], simp)+
  then have "takeWhile is_digit fp = fp" "dropWhile is_digit fp = []" by (simp_all only: append_Nil2)
  then have f: "strip_fraction ?rest = Some (fp, [])" unfolding strip_fraction_def by (cases "fp = []") (simp_all (no_asm_simp))
  show ?thesis
    unfolding read_number_def s Let_def prod.case t f using assms(2) by (simp add: read_exponent_def)
qed

lemma read_jsonb_number:
  assumes "read_number s = Some (neg, m, d, e)"
  shows "read_number (jsonb_number s)
    = Some (neg \<and> m \<noteq> 0, m * 10 ^ nat (e - int d), nat (int d - e), 0)"
proof -
  define ds k where "ds = nat (int d - e)" and "k = m * 10 ^ nat (e - int d)"
  define fp where "fp = fixed_digits digit_char 10 ds k"
  have l: "length fp = ds" "list_all is_digit fp" by (simp_all add: fp_def fixed_digits_are_digits)
  have "fp = [] \<longleftrightarrow> ds = 0" using l(1) by (cases fp) auto
  then have "jsonb_number s = (if neg \<and> m \<noteq> 0 then ''-'' else []) @ dec_string (k div 10 ^ ds)
      @ (if fp = [] then [] else CHR ''.'' # fp)"
    unfolding jsonb_number_def assms option.case prod.case Let_def ds_def [symmetric] k_def [symmetric] fp_def [symmetric]
    by simp
  moreover have "digits_val (dec_string (k div 10 ^ ds) @ fp) = k"
    by (simp add: digits_val_append l(1)) (simp add: fp_def digits_val_fixed div_mult_mod_eq)
  ultimately show ?thesis
    using read_plain_number [OF dec_string_are_digits dec_string_nonempty l(2)] l(1)
    by (simp add: ds_def k_def)
qed

text \<open>A literal that big.Rat reads denotes the same number in the column.\<close>

lemma SetString_jsonb:
  assumes "SetString s = Some r" shows "SetString (jsonb_number s) = Some r"
proof -
  obtain neg m d e where n: "read_number s = Some (neg, m, d, e)"
    using assms by (auto simp: SetString_def split: option.splits)
  show ?thesis
  proof (cases "m = 0")
    case True
    then show ?thesis using assms n read_jsonb_number [OF n] by (auto simp: SetString_def split: if_splits)
  next
    case False
    then have r: "r = decimal_value neg m (e - int d)" and b: "\<bar>e - int d\<bar> \<le> 1000000"
      using assms n by (auto simp: SetString_def split: if_splits)
    have "decimal_value neg (m * 10 ^ nat (e - int d)) (- int (nat (int d - e))) = r"
      unfolding r by (cases "e - int d < 0") (simp_all add: decimal_value_def scale10_def)
    moreover have "m * 10 ^ nat (e - int d) \<noteq> 0" using False by simp
    moreover have "\<not> 1000000 < \<bar>0 - int (nat (int d - e))\<bar>" using b by linarith
    ultimately show ?thesis
      using False unfolding SetString_def read_jsonb_number [OF n] option.case prod.case by (simp only: if_False) simp
  qed
qed

lemma SetString_itoa: "SetString (itoa i) = Some (of_int i)"
proof -
  have "itoa i = (if i < 0 then ''-'' else []) @ dec_string (nat \<bar>i\<bar>) @ (if [] = [] then [] else CHR ''.'' # [])"
    by (simp add: itoa_def)
  then have n: "read_number (itoa i) = Some (i < 0, nat \<bar>i\<bar>, 0, 0)"
    using read_plain_number [OF dec_string_are_digits dec_string_nonempty, of "[]"] by simp
  show ?thesis
    unfolding SetString_def n by (simp add: decimal_value_def scale10_def)
qed

subsection \<open>Values that are recorded exactly\<close>

text \<open>
  Of an array or an object nothing is asked: no operator looks into one, and a path into one
  names a value of its own.
\<close>

definition exact_fact :: "(rat \<Rightarrow> string) \<Rightarrow> goval \<Rightarrow> bool" where
  "exact_fact nt v = (case v of
     GNumber n \<Rightarrow> SetString n \<noteq> None
   | GFloat64 r \<Rightarrow> (case r of None \<Rightarrow> False | Some x \<Rightarrow> SetString (float_text nt x) = Some x)
   | GInt32 i \<Rightarrow> False
   | GFloat32 r \<Rightarrow> False
   | GTime t \<Rightarrow> False
   | _ \<Rightarrow> True)"

lemma whole_float_exact: "\<bar>i\<bar> \<le> 2 ^ 53 \<Longrightarrow> exact_fact nt (GFloat64 (Some (of_int i)))"
  by (simp add: exact_fact_def float_text_int SetString_itoa)

lemma json_numbered_list_map: "json_numbered_list nt vs = map (json_numbered nt) vs"
  by (induction vs) simp_all

lemma map_of_numbered: "map_of (json_numbered_members nt kvs) k = map_option (json_numbered nt) (map_of kvs k)"
  by (induction kvs) auto

lemma descend_numbered:
  "descend (json_numbered nt cur) key idx bracket = map_option (json_numbered nt) (descend cur key idx bracket)"
  by (cases cur)
    (auto simp: descend_def json_numbered_list_map map_of_numbered nat_less_iff split: option.split)

lemma resolve_numbered:
  "resolve_segments (json_numbered nt cur) segs = map_option (json_numbered nt) (resolve_segments cur segs)"
proof (induction segs arbitrary: cur)
  case (Cons seg segs)
  obtain i b where "parseBracketIndex seg = (i, b)" by fastforce
  with Cons show ?case by (simp add: descend_numbered split: option.split)
qed simp

lemma ResolveFact_numbered:
  "ResolveFact (json_numbered_members nt facts) path = map_option (json_numbered nt) (ResolveFact facts path)"
  using resolve_numbered [of nt "GObject facts"]
  by (cases "splitFactPath path") (simp_all add: ResolveFact_def del: resolve_segments.simps(2))

subsection \<open>The engine on recorded facts\<close>

text \<open>What the operators look at: the kind of the value, its number, its text, its truth value.\<close>

lemma numbered_exact:
  assumes "exact_fact nt v"
  shows "isNumber (json_numbered nt v) = isNumber v" "toRat (json_numbered nt v) = toRat v"
    "isStringType (json_numbered nt v) = isStringType v" "string_of (json_numbered nt v) = string_of v"
    "isBoolean (json_numbered nt v) = isBoolean v" "bool_of (json_numbered nt v) = bool_of v"
    "isNull (json_numbered nt v) = isNull v" "json_numbered nt v = GNil \<longleftrightarrow> v = GNil"
proof -
  have empty: "SetString [] = None" by (simp add: SetString_def read_number_def strip_sign_def)
  show "toRat (json_numbered nt v) = toRat v"
    using assms empty SetString_jsonb
    by (cases v) (auto simp: exact_fact_def toRat_def SetString_itoa split: option.splits)
qed (use assms in \<open>cases v; auto simp: exact_fact_def goval_tests string_of_def bool_of_def split: option.splits\<close>)+

lemma compareEquality_numbered:
  assumes "exact_fact nt v"
  shows "fst (compareEquality op (json_numbered nt v) w) = fst (compareEquality op v w)"
  unfolding compareEquality_def numbered_exact [OF assms]
  by (simp add: type_mismatch_def split: option.split Operator.split)

lemma membership_numbered:
  assumes "exact_fact nt v"
  shows "membership_loop op (json_numbered nt v) vs = membership_loop op v vs"
  by (induction vs) (simp_all add: Let_def compareEquality_numbered [OF assms])

lemma evalLeaf_numbered:
  assumes "exact_fact nt v"
  shows "fst (evalLeaf re op (json_numbered nt v) w) = fst (evalLeaf re op v w)"
proof -
  have "compareNumeric op (json_numbered nt v) w = compareNumeric op v w"
    "compareBoolean op (json_numbered nt v) w = compareBoolean op v w"
    "compareString re op (json_numbered nt v) w = compareString re op v w"
    "compareTemporal op (json_numbered nt v) w = compareTemporal op v w"
    "compareMembership op (json_numbered nt v) w = compareMembership op v w"
    unfolding compareNumeric_def compareBoolean_def compareString_def compareTemporal_def compareMembership_def
    unfolding numbered_exact [OF assms] membership_numbered [OF assms] by (rule refl)+
  then show ?thesis
    unfolding evalLeaf_def compareTyped_def numbered_exact(8) [OF assms]
    by (simp add: compareEquality_numbered [OF assms])
qed

definition exact_facts :: "(rat \<Rightarrow> string) \<Rightarrow> facts \<Rightarrow> string set \<Rightarrow> bool" where
  "exact_facts nt facts paths \<longleftrightarrow> (\<forall>f \<in> paths. case ResolveFact facts f of None \<Rightarrow> True | Some v \<Rightarrow> exact_fact nt v)"

lemma exact_facts_mono: "exact_facts nt facts A \<Longrightarrow> B \<subseteq> A \<Longrightarrow> exact_facts nt facts B"
  by (auto simp: exact_facts_def)

lemma cond_value_numbered:
  "exact_facts nt facts (leaf_fields c) \<Longrightarrow> cond_value re (json_numbered_members nt facts) c = cond_value re facts c"
proof (induction c)
  case (Condition f op v al an ng)
  show ?case
  proof (cases "f = []")
    case False
    with Condition.prems show ?thesis
      by (auto simp: exact_facts_def ResolveFact_numbered evalLeaf_numbered split: option.splits)
  next
    case True
    have sub: "exact_facts nt facts (leaf_fields c)" if "c \<in> set al \<or> c \<in> set an \<or> ng = Some c" for c
      using Condition.prems that True by (auto intro!: exact_facts_mono [OF Condition.prems] split: option.splits)
    have "map (cond_value re (json_numbered_members nt facts)) al = map (cond_value re facts) al"
      "map (cond_value re (json_numbered_members nt facts)) an = map (cond_value re facts) an"
      using Condition.IH(1,2) sub by auto
    moreover have "cond_value re (json_numbered_members nt facts) n = cond_value re facts n" if "ng = Some n" for n
      using Condition.IH(3) [of n] sub [of n] that by simp
    ultimately show ?thesis using True by (simp split: option.split del: map_eq_conv)
  qed
qed

text \<open>The paths of the conditions of a rule set.\<close>

definition rule_paths :: "RuleSet \<Rightarrow> string set" where
  "rule_paths rs = (\<Union>r \<in> set (Rules rs). leaf_fields (Conditions r))"

lemma Evaluate_numbered:
  fixes re c t eb tr
  assumes "sorts_by_priority srt" "exact_facts nt facts (rule_paths rs)"
  defines "e \<equiv> \<lambda>fs. Evaluate re srt c rs fs t eb tr"
  shows "ev_Status (e (json_numbered_members nt facts)) = ev_Status (e facts)"
    "ev_Outcome (e (json_numbered_members nt facts)) = ev_Outcome (e facts)"
    "ev_MatchedRuleID (e (json_numbered_members nt facts)) = ev_MatchedRuleID (e facts)"
proof -
  let ?recorded = "json_numbered_members nt facts" and ?rules = "srt (Rules rs)"
  have rules: "set ?rules = set (Rules rs)"
    using assms(1) by (intro priority_sorter.same_rules) (simp add: priority_sorter_def)
  have same: "rule_value re ?recorded r = rule_value re facts r" if "r \<in> set ?rules" for r
  proof -
    have "leaf_fields (Conditions r) \<subseteq> rule_paths rs" using that rules by (auto simp: rule_paths_def)
    then show ?thesis using exact_facts_mono [OF assms(2)] by (simp add: rule_value_def cond_value_numbered)
  qed
  have found: "List.find (\<lambda>r. rule_value re ?recorded r = resultTrue) ?rules
      = List.find (\<lambda>r. rule_value re facts r = resultTrue) ?rules"
    by (rule find_cong [OF refl]) (simp add: same)
  have vals: "rule_value re ?recorded ` set ?rules = rule_value re facts ` set ?rules"
    by (rule image_cong [OF refl]) (rule same)
  have "ev_Status (e ?recorded) = ev_Status (e facts) \<and> ev_Outcome (e ?recorded) = ev_Outcome (e facts)
      \<and> ev_MatchedRuleID (e ?recorded) = ev_MatchedRuleID (e facts)"
  proof (cases "List.find (\<lambda>r. rule_value re facts r = resultTrue) ?rules")
    case (Some r)
    then show ?thesis unfolding e_def using Evaluate_fields found by metis
  next
    case None
    then have none: "\<forall>r \<in> set ?rules. rule_value re facts r \<noteq> resultTrue"
      "\<forall>r \<in> set ?rules. rule_value re ?recorded r \<noteq> resultTrue"
      by (simp_all add: find_None_iff same)
    show ?thesis
      unfolding e_def Evaluate_fallback_fields [of srt rs re facts, OF none(1)]
        Evaluate_fallback_fields [of srt rs re "json_numbered_members nt facts", OF none(2)] vals by simp
  qed
  then show "ev_Status (e ?recorded) = ev_Status (e facts)" "ev_Outcome (e ?recorded) = ev_Outcome (e facts)"
    "ev_MatchedRuleID (e ?recorded) = ev_MatchedRuleID (e facts)"
    by simp_all
qed

end
