(* ===== verification/Ruleset_Properties.thy ===== *)
theory Ruleset_Properties
  imports Rule_Sample Rule_Record
begin

section \<open>The properties of rule sets, their evaluations and their cases\<close>

text \<open>
  The theorems on the rules services: what a published rule set and an evaluation promise over
  every run, what a stored rule set says, every answer of an evaluation request, and what a
  transition of a case evaluates. The witnesses use the run of \<open>Rule_Sample\<close>.
\<close>

subsection \<open>Over a run\<close>

text \<open>
  C8: an evaluation stays on record, and it can be reproduced. Its rule set can still be read, in
  the version the evaluation names and no longer a draft. The engine says of it, on facts whose
  JSON document is the one that was recorded, the status, outcome, matched rule and trace that
  were recorded, the values in the trace being JSON documents, too. On the recorded document
  itself, which is what can be read back, the engine gives the same status, outcome and matched
  rule if the facts that the conditions of the rule set name are recorded exactly: json.Numbers
  that big.Rat reads, ints, float64s whose shortest decimal is their value, booleans, strings,
  nulls, arrays and objects are; times, other numbers and float64s like 0.1 are not.
\<close>

theorem evaluations_reproducible:
  fixes run :: "'s rules_db_scheme list"
  assumes "rule_services svc assigner integration" "rules_run nt re srt svc assigner integration run"
    and "s \<in> set run" "ev \<in> set (evaluations s)"
  shows "ev \<in> set (evaluations (hd run))
    \<and> (\<exists>rs facts c t. GetRuleSet (ev_OrganizationID ev) (ev_RuleSetID ev) (hd run) = Inr rs
        \<and> rs_Version rs = ev_RuleSetVersion ev \<and> rs_Status rs \<noteq> StatusDraft \<and> trunc_micros t = ev_EvaluatedAt ev
        \<and> ev_FactsSnapshot ev = json_numbered_members nt facts
        \<and> (let e = Evaluate re srt c rs facts t (ev_EvaluatedBy ev) (ev_Trigger ev)
           in ev_Status ev = ev_Status e \<and> ev_Outcome ev = ev_Outcome e \<and> ev_Trace ev = map (json_trace nt) (ev_Trace e)
              \<and> ev_MatchedRuleID ev = given (ev_MatchedRuleID e))
        \<and> (sorts_by_priority srt \<and> exact_facts nt facts (rule_paths rs) \<longrightarrow>
             (let e = Evaluate re srt c rs (ev_FactsSnapshot ev) t (ev_EvaluatedBy ev) (ev_Trigger ev)
              in ev_Status ev = ev_Status e \<and> ev_Outcome ev = ev_Outcome e
                 \<and> ev_MatchedRuleID ev = given (ev_MatchedRuleID e))))"
proof -
  have ok: "rules_run_ok nt re srt run" by (rule rule_services.rules_run_is_ok [OF assms(1,2)])
  have "hd run \<in> set run" using assms(3) by (cases run) auto
  with ok assms(3) have h: "rules_ok nt re srt (hd run)" "rules_keep s (hd run)" by (simp_all add: rules_run_ok_def)
  then have e: "ev \<in> set (evaluations (hd run))" using assms(4) by (auto simp: rules_keep_def)
  then obtain r where r: "r \<in> set (rule_sets (hd run))" "reproduced nt re srt r ev" using h(1) by (auto simp: rules_ok_def)
  then have rs: "GetRuleSet (ev_OrganizationID ev) (ev_RuleSetID ev) (hd run) = Inr (stored_set r)"
    using stored_row_found [of re "hd run" r] h(1) by (simp add: rules_ok_def GetRuleSet_def reproduced_def)
  obtain facts c t where f: "trunc_micros t = ev_EvaluatedAt ev" "ev_FactsSnapshot ev = json_numbered_members nt facts"
    and said: "let e = Evaluate re srt c (stored_set r) facts t (ev_EvaluatedBy ev) (ev_Trigger ev)
             in ev_Status ev = ev_Status e \<and> ev_Outcome ev = ev_Outcome e \<and> ev_MatchedRuleID ev = given (ev_MatchedRuleID e)
                \<and> ev_Trace ev = map (json_trace nt) (ev_Trace e)"
    using r(2) unfolding reproduced_def by blast
  show ?thesis
    using e rs r(2) f said Evaluate_numbered [where nt = nt and facts = facts and rs = "stored_set r" and srt = srt]
    by (intro conjI exI [of _ "stored_set r"] exI [of _ facts] exI [of _ c] exI [of _ t])
       (auto simp: reproduced_def Let_def)
qed

theorem evaluations_reproducible_witness:
  "\<exists>ev rs c t. evaluations rules6 = [ev] \<and> ev_RuleSetID ev = 1100 \<and> GetRuleSet 7 1100 rules6 = Inr rs
     \<and> rs_Version rs = ev_RuleSetVersion ev \<and> rs_Status rs \<noteq> StatusDraft
     \<and> ev_Outcome ev = ev_Outcome (Evaluate any_regexp rule_sorter c rs (ev_FactsSnapshot ev) t (ev_EvaluatedBy ev) (ev_Trigger ev))"
proof -
  let ?ev = "evaluation_row sample_text (requested_evaluation any_regexp rule_sorter (sample_ctx 17) sample_evaluation rule_set_row2)"
  have i: "evaluations rules6 = [?ev]" by (simp add: rules6_rows)
  moreover have "ev_RuleSetID ?ev = 1100" "ev_OrganizationID ?ev = 7"
    by (simp_all add: requested_evaluation_def Let_def rows_def)
  moreover have "json_numbered_members sample_text facts = [] \<Longrightarrow> exact_facts sample_text facts paths" for facts paths
    by (cases facts) (auto simp: exact_facts_def ResolveFact_def descend_def split: list.splits prod.splits)
  moreover have "ev_FactsSnapshot ?ev = []"
    by (simp add: requested_evaluation_def Let_def sample_evaluation_def requested_facts_def)
  moreover have "sorts_by_priority rule_sorter" by (simp add: sorts_by_priority_def rule_sorter_def)
  ultimately show ?thesis
    using evaluations_reproducible [OF sample_services sample_rules_run, of rules6 ?ev] by (fastforce simp: Let_def)
qed

text \<open>
  The decimal 0.1 is not recorded exactly: as a float64 it is a binary fraction above a tenth, and
  the document says a tenth. A condition that compares it with the number a tenth is false when it is
  evaluated and true of the recorded facts.
\<close>

definition float_tenth :: rat where
  "float_tenth = 3602879701896397 / 2 ^ 55"

definition tenth_text :: "rat \<Rightarrow> string" where
  "tenth_text r = (if r = float_tenth then ''0.1'' else [])"

lemma recorded_decimal_differs:
  "cond_value re [(''x'', GFloat64 (Some float_tenth))] (Condition ''x'' OpEqual (GNumber ''0.1'') [] [] None) = resultFalse"
  "cond_value re (json_numbered_members tenth_text [(''x'', GFloat64 (Some float_tenth))])
     (Condition ''x'' OpEqual (GNumber ''0.1'') [] [] None) = resultTrue"
proof -
  have x: "plain_key ''x''" by (simp add: plain_key_def)
  have t: "float_text tenth_text float_tenth = ''0.1''" by code_simp
  have n: "SetString (jsonb_number ''0.1'') = Some (1 / 10)" "SetString ''0.1'' = Some (1 / 10)" by code_simp+
  have "float_tenth \<noteq> 1 / 10" by code_simp
  then show "cond_value re [(''x'', GFloat64 (Some float_tenth))] (Condition ''x'' OpEqual (GNumber ''0.1'') [] [] None) = resultFalse"
    "cond_value re (json_numbered_members tenth_text [(''x'', GFloat64 (Some float_tenth))])
       (Condition ''x'' OpEqual (GNumber ''0.1'') [] [] None) = resultTrue"
    by (simp_all add: resolve_plain_key [OF x] evalLeaf_def compareTyped_def operator_classes compareEquality_def
      isNumber_def toRat_def rat_cmp_def equality_verdict_def t n)
qed

text \<open>
  C19: once it is published, a rule set is never deleted and nothing of it changes but its
  status, which can only become archived, and the time of that change.
\<close>

theorem published_rule_sets_frozen:
  fixes run :: "'s rules_db_scheme list"
  assumes "rule_services svc assigner integration" "rules_run nt re srt svc assigner integration run"
    and "s \<in> set run" "r \<in> set (rule_sets s)" "rs_Status r \<noteq> StatusDraft"
  shows "\<exists>r' \<in> set (rule_sets (hd run)). r' = r\<lparr>rs_Status := rs_Status r', rs_UpdatedAt := rs_UpdatedAt r'\<rparr>
    \<and> (rs_Status r' = rs_Status r \<or> rs_Status r = StatusPublished \<and> rs_Status r' = StatusArchived)"
  using rule_services.rules_run_is_ok [OF assms(1,2)] assms(3-5)
  unfolding rules_run_ok_def rules_keep_def frozen_def by blast

theorem published_rule_sets_frozen_witness:
  "\<exists>r' \<in> set (rule_sets rules6). rs_ID r' = 1100 \<and> Rules r' = [sample_rule]"
proof -
  have "rule_set_row2 \<in> set (rule_sets rules2)" "rs_Status rule_set_row2 \<noteq> StatusDraft"
    by (simp_all add: rules2_rows rows_def)
  with published_rule_sets_frozen [OF sample_services sample_rules_run, of rules2 rule_set_row2]
  obtain r' where r': "r' \<in> set (rule_sets rules6)"
    "r' = rule_set_row2\<lparr>rs_Status := rs_Status r', rs_UpdatedAt := rs_UpdatedAt r'\<rparr>" by auto
  have "rs_ID r' = 1100" "Rules r' = [sample_rule]" by (subst r'(2), simp add: rows_def)+
  then show ?thesis using r'(1) by blast
qed

text \<open>
  C38: in every state of a run no two rule sets have the same id or the same key and version in
  an organization, at most one version for a case is published, and every rule set can be read
  and is valid.
\<close>

theorem rule_set_versions_unique:
  fixes run :: "'s rules_db_scheme list"
  assumes "rule_services svc assigner integration" "rules_run nt re srt svc assigner integration run" "s \<in> set run"
  shows "distinct (map rs_ID (rule_sets s))
    \<and> (\<forall>a \<in> set (rule_sets s). \<forall>b \<in> set (rule_sets s). rs_OrganizationID a = rs_OrganizationID b \<and> rs_Key a = rs_Key b
         \<and> (rs_Version a = rs_Version b \<or> rs_Status a = StatusPublished \<and> rs_Status b = StatusPublished
              \<and> rs_CaseID a \<noteq> None \<and> rs_CaseID a = rs_CaseID b) \<longrightarrow> a = b)
    \<and> (\<forall>r \<in> set (rule_sets s). \<exists>rs. GetRuleSet (rs_OrganizationID r) (rs_ID r) s = Inr rs \<and> rs_Version rs = rs_Version r
         \<and> rs_Status rs = rs_Status r \<and> ValidateRuleSet re rs = None)"
proof -
  have ok: "sets_ok re (rule_sets s)"
    using rule_services.rules_run_is_ok [OF assms(1,2)] assms(3) by (simp add: rules_run_ok_def rules_ok_def)
  show ?thesis
  proof (intro conjI ballI impI)
    show "distinct (map rs_ID (rule_sets s))" by (rule sets_okD(1) [OF ok])
  next
    fix a b assume "a \<in> set (rule_sets s)" "b \<in> set (rule_sets s)" "rs_OrganizationID a = rs_OrganizationID b \<and> rs_Key a = rs_Key b
         \<and> (rs_Version a = rs_Version b \<or> rs_Status a = StatusPublished \<and> rs_Status b = StatusPublished
              \<and> rs_CaseID a \<noteq> None \<and> rs_CaseID a = rs_CaseID b)"
    then show "a = b"
      using sets_okD(3,4) [OF ok, of a b] by (auto simp: Rule_Store.same_version_def same_published_def)
  next
    fix r assume "r \<in> set (rule_sets s)"
    then show "\<exists>rs. GetRuleSet (rs_OrganizationID r) (rs_ID r) s = Inr rs \<and> rs_Version rs = rs_Version r
         \<and> rs_Status rs = rs_Status r \<and> ValidateRuleSet re rs = None"
      using stored_row_found [OF ok, of r] sets_okD(2) [OF ok, of r] by (simp add: GetRuleSet_def valid_row_def stored_set_valid)
  qed
qed

theorem rule_set_versions_unique_witness:
  "\<exists>rs. GetRuleSet 7 1501 rules6 = Inr rs \<and> rs_Version rs = 2 \<and> ValidateRuleSet any_regexp rs = None"
proof -
  have "rule_set_row5 \<in> set (rule_sets rules6)" by (simp add: rules6_rows rules5_rows)
  then show ?thesis
    using rule_set_versions_unique [OF sample_services sample_rules_run, of rules6] by (auto simp: rows_def)
qed

text \<open>
  For rule sets of the whole organization the index that should keep one published version
  does nothing, because their case is null: two versions of a key can be published at once, and
  both are evaluated when they are assigned.
\<close>

theorem two_versions_published:
  "\<exists>run a b. rules_run sample_text any_regexp rule_sorter sample_ruler None (\<lambda>k. None) run
     \<and> a \<in> set (rule_sets (hd run)) \<and> b \<in> set (rule_sets (hd run)) \<and> rs_OrganizationID a = rs_OrganizationID b
     \<and> rs_Key a = rs_Key b \<and> rs_CaseID a = rs_CaseID b \<and> rs_Status a = StatusPublished \<and> rs_Status b = StatusPublished
     \<and> rs_Version a \<noteq> rs_Version b"
  by (rule exI, rule exI [of _ rule_set_row2], rule exI [of _ rule_set_row5], rule conjI [OF sample_rules_run])
     (simp add: rules6_rows rules5_rows, simp add: rows_def)

subsection \<open>What is stored\<close>

lemma eval_rules_stored:
  assumes "\<forall>r \<in> set rules. decoded_values (Conditions r)"
  shows "eval_rules re facts (map stored_rule rules) ae au tr ec
    = (case eval_rules re facts rules ae au tr ec of (m, e, u, t) \<Rightarrow> (map_option stored_rule m, e, u, t))"
  using assms
  by (induction rules arbitrary: ae au tr ec) (auto simp: Let_def evaluate_stored(1) split: prod.splits)

lemma sort_stored: "sort_key Rule.Priority (map stored_rule rules) = map stored_rule (sort_key Rule.Priority rules)"
proof (induction rules)
  case (Cons r rules)
  have "insort_key Rule.Priority (stored_rule r) (map stored_rule xs) = map stored_rule (insort_key Rule.Priority r xs)" for xs
    by (induction xs) simp_all
  with Cons show ?case by simp
qed simp

lemma Evaluate_stored:
  assumes "ValidateRuleSet re rs = None" "sorts_by_priority srt" "\<forall>r \<in> set (Rules rs). decoded_values (Conditions r)"
  shows "ev_Status (Evaluate re srt c (stored_set rs) facts t by tr) = ev_Status (Evaluate re srt c rs facts t by tr)"
    "ev_Outcome (Evaluate re srt c (stored_set rs) facts t by tr) = ev_Outcome (Evaluate re srt c rs facts t by tr)"
    "ev_MatchedRuleID (Evaluate re srt c (stored_set rs) facts t by tr) = ev_MatchedRuleID (Evaluate re srt c rs facts t by tr)"
    "ev_Trace (Evaluate re srt c (stored_set rs) facts t by tr) = ev_Trace (Evaluate re srt c rs facts t by tr)"
proof -
  have "map Rule.Priority (Rules (stored_set rs)) = map Rule.Priority (Rules rs)" by (simp add: comp_def)
  then have "srt (Rules (stored_set rs)) = map stored_rule (srt (Rules rs))"
    using ValidateRuleSet_priorities [OF assms(1)] assms(2) sort_stored
    by (simp add: priority_sorter.unique_result priority_sorter_def comp_def)
  moreover have "\<forall>r \<in> set (srt (Rules rs)). decoded_values (Conditions r)"
    using assms(2,3) by (simp add: priority_sorter.same_rules priority_sorter_def)
  ultimately have e: "eval_rules re facts (srt (Rules (stored_set rs))) ae au n ec
    = (case eval_rules re facts (srt (Rules rs)) ae au n ec of (m, e, u, t) \<Rightarrow> (map_option stored_rule m, e, u, t))" for ae au n ec
    by (simp add: eval_rules_stored)
  show "ev_Status (Evaluate re srt c (stored_set rs) facts t by tr) = ev_Status (Evaluate re srt c rs facts t by tr)"
    "ev_Outcome (Evaluate re srt c (stored_set rs) facts t by tr) = ev_Outcome (Evaluate re srt c rs facts t by tr)"
    "ev_MatchedRuleID (Evaluate re srt c (stored_set rs) facts t by tr) = ev_MatchedRuleID (Evaluate re srt c rs facts t by tr)"
    "ev_Trace (Evaluate re srt c (stored_set rs) facts t by tr) = ev_Trace (Evaluate re srt c rs facts t by tr)"
    unfolding Evaluate_def Let_def e by (auto split: prod.split option.split)
qed

text \<open>
  C37: a rule set whose condition values are as a JSON document gives them reads back after its
  creation, and on all facts the engine gives the stored one the status, outcome, matched rule
  and trace of the one that was created, however it sorts the rules by priority.
\<close>

theorem created_rule_set_evaluates_alike:
  fixes s :: "'s rules_db_scheme"
  assumes "rule_services svc assigner integration" "rules_run nt re srt svc assigner integration (s # run)"
    and "CreateRuleSet re svc c s0 p s = (Inr rs, s')"
    and "sorts_by_priority srt" "\<forall>r \<in> set (cr_Rules p). decoded_values (Conditions r)"
  shows "\<exists>rs'. GetRuleSet (cr_OrganizationID p) (rs_ID rs) s' = Inr rs' \<and> rs_Key rs' = cr_Key p \<and> rs_Version rs' = 1
    \<and> rs_Status rs' = StatusDraft
    \<and> (\<forall>facts t by tr. let e = Evaluate re srt c rs facts t by tr; e' = Evaluate re srt c rs' facts t by tr
         in ev_Status e' = ev_Status e \<and> ev_Outcome e' = ev_Outcome e \<and> ev_MatchedRuleID e' = ev_MatchedRuleID e
            \<and> ev_Trace e' = ev_Trace e)"
proof -
  have "rules_ok nt re srt s" using rule_services.rules_run_is_ok [OF assms(1,2)] by (simp add: rules_run_ok_def)
  then have ok: "sets_ok re (rule_sets s')"
    using rule_services.CreateRuleSet_step [OF assms(1,3), where srt = srt] by (auto simp: rules_step_def rules_ok_def)
  obtain s1 where n: "NewRuleSet re c (Some (cr_OrganizationID p)) (cr_CaseID p) (cr_Key p) (cr_Name p) (cr_Description p)
       (cr_DefaultOutcome p) (cr_Rules p) (cr_Triggers p) (cr_ActorID p) = Inr rs"
    and sv: "rule_set_Save rs s = (Inr (), s1)" "same_rules s1 s'"
    using rule_services.CreateRuleSet_Inr [OF assms(1,3)] by metis
  have new: "rs_OrganizationID rs = cr_OrganizationID p" "rs_Key rs = cr_Key p" "rs_Version rs = 1" "rs_Status rs = StatusDraft"
    "Rules rs = cr_Rules p"
    using n by (auto simp: NewRuleSet_def check_def Let_def split: option.splits if_splits)
  have "rs_row rs \<in> set (rule_sets s')" using rule_set_Save_Inr [OF sv(1)] sv(2) by (simp add: same_rules_sets)
  from stored_row_found [OF ok this]
  have f: "GetRuleSet (cr_OrganizationID p) (rs_ID rs) s' = Inr (stored_set (rs_row rs))" by (simp add: GetRuleSet_def new)
  have same: "ev_Status (Evaluate re srt c (stored_set (rs_row rs)) facts t by tr) = ev_Status (Evaluate re srt c (stored_set rs) facts t by tr)"
    "ev_Outcome (Evaluate re srt c (stored_set (rs_row rs)) facts t by tr) = ev_Outcome (Evaluate re srt c (stored_set rs) facts t by tr)"
    "ev_MatchedRuleID (Evaluate re srt c (stored_set (rs_row rs)) facts t by tr)
      = ev_MatchedRuleID (Evaluate re srt c (stored_set rs) facts t by tr)"
    "ev_Trace (Evaluate re srt c (stored_set (rs_row rs)) facts t by tr) = ev_Trace (Evaluate re srt c (stored_set rs) facts t by tr)"
    for facts t "by" tr
    by (rule Evaluate_agree; simp)+
  show ?thesis
    using f Evaluate_stored [OF NewRuleSet_valid [OF n] assms(4)] assms(5) by (simp add: new same)
qed

theorem created_rule_set_evaluates_alike_witness:
  "\<exists>rs'. GetRuleSet 7 1100 rules1 = Inr rs' \<and> rs_Key rs' = ''k'' \<and> rs_Status rs' = StatusDraft"
proof -
  have run: "rules_run sample_text any_regexp rule_sorter sample_ruler None (\<lambda>k. None) [rules_start]"
    by (rule no_rules) (simp add: rules_tables_def rules_start_def)
  have sorts: "sorts_by_priority rule_sorter" by (simp add: sorts_by_priority_def rule_sorter_def)
  have "\<forall>r \<in> set (cr_Rules sample_rule_set). decoded_values (Conditions r)"
    by (simp add: sample_rule_set_def sample_rule_def)
  from created_rule_set_evaluates_alike [OF sample_services run rules1_result sorts this]
  show ?thesis by (auto simp: sample_rule_set_def rows_def)
qed

subsection \<open>Requests\<close>

text \<open>
  C20: a request to evaluate a rule set fails without a trace if the rule set does not exist for
  the organization, is archived, is a draft, or the trigger is neither manual nor automatic, with
  the error of the first of these; otherwise it fails without a trace or saves exactly one
  evaluation, the engine's on the given facts. Evaluations are saved for valid rule sets only.
\<close>

theorem EvaluateRuleSet_answers:
  fixes s :: "'s rules_db_scheme"
  assumes "rule_services svc assigner integration" "rules_run nt re srt svc assigner integration (s # run)" "s0 \<in> set (s # run)"
    and "EvaluateRuleSet nt re srt svc c s0 p s = (answer, s')"
  shows "case rule_set_FindByID (ep_OrganizationID p) (ep_ID p) s0 of
      Inl e \<Rightarrow> answer = Inl (instead aErrRuleSetNotFound e) \<and> s' = s
    | Inr rs \<Rightarrow>
        if rs_Status rs = StatusArchived then answer = Inl (Wrap ''rule set is archived'' aErrRuleSetArchived) \<and> s' = s
        else if rs_Status rs = StatusDraft
          then answer = Inl (Wrap ''only published rule sets can be evaluated'' aErrRuleSetNotPublished) \<and> s' = s
        else if requested_trigger p \<notin> {TriggerManual, TriggerAutomatic} then answer = Inl aErrInvalidTrigger \<and> s' = s
        else (case answer of
            Inl e \<Rightarrow> s' = s
          | Inr ev \<Rightarrow> ValidateRuleSet re rs = None \<and> ev = requested_evaluation re srt c p rs
              \<and> evaluations s' = evaluations s @ [evaluation_row nt ev] \<and> rule_sets s' = rule_sets s)"
proof (cases "rule_set_FindByID (ep_OrganizationID p) (ep_ID p) s0")
  case (Inl e)
  then show ?thesis using assms(4) by (auto simp: EvaluateRuleSet_def tx_read_def tx_defs)
next
  case (Inr rs)
  have ok: "rules_ok nt re srt s0" using rule_services.rules_run_is_ok [OF assms(1,2)] assms(3) by (auto simp: rules_run_ok_def)
  have v: "ValidateRuleSet re rs = None" by (rule found_valid [OF Inr ok])
  have refused: "answer = Inl (Wrap ''rule set is archived'' aErrRuleSetArchived) \<and> s' = s" if "rs_Status rs = StatusArchived"
    using assms(4) Inr that by (simp add: EvaluateRuleSet_def tx_read_def tx_defs)
  have draft: "answer = Inl (Wrap ''only published rule sets can be evaluated'' aErrRuleSetNotPublished) \<and> s' = s"
    if "rs_Status rs = StatusDraft"
    using assms(4) Inr that by (simp add: EvaluateRuleSet_def tx_read_def tx_defs)
  have trigger: "answer = Inl aErrInvalidTrigger \<and> s' = s"
    if "requested_trigger p \<notin> {TriggerManual, TriggerAutomatic}" "rs_Status rs = StatusPublished"
    using assms(4) Inr that by (simp add: EvaluateRuleSet_def tx_read_def tx_defs)
  have failed: "s' = s" if "answer = Inl e" for e
    using tx_atomicD [OF rules_requests_atomic(7)] assms(4) that by blast
  have saved: "ev = requested_evaluation re srt c p rs \<and> evaluations s' = evaluations s @ [evaluation_row nt ev] \<and> rule_sets s' = rule_sets s"
    if a: "answer = Inr ev" for ev
  proof -
    obtain s1 where e: "ev = requested_evaluation re srt c p rs" and sv: "evaluation_Save nt ev s = (Inr (), s1)" "same_rules s1 s'"
      using rule_services.EvaluateRuleSet_Inr [OF assms(1)] assms(4) a v Inr by (metis sum.inject(2))
    then show ?thesis using evaluation_Save_Inr [OF sv(1)] same_rules_sets [OF sv(2)] by simp
  qed
  show ?thesis
    using refused draft trigger failed saved v Inr by (cases "rs_Status rs") (auto split: sum.split)
qed

theorem EvaluateRuleSet_answers_witness:
  "evaluations rules6 = evaluations rules5 @ [evaluation_row sample_text
      (requested_evaluation any_regexp rule_sorter (sample_ctx 17) sample_evaluation rule_set_row2)]
   \<and> ValidateRuleSet any_regexp rule_set_row2 = None"
proof -
  have "requested_trigger sample_evaluation = TriggerManual" "rs_Status rule_set_row2 = StatusPublished"
    by (simp_all add: requested_trigger_def sample_evaluation_def rows_def)
  moreover have "rule_set_FindByID (ep_OrganizationID sample_evaluation) (ep_ID sample_evaluation) rules5 = Inr rule_set_row2"
    by (simp add: sample_evaluation_def rule_set_FindByID_def scan_rule_set_def scanRuleSet_def rule_set_at_def rules5_rows rows_def)
  ultimately show ?thesis
    using EvaluateRuleSet_answers [OF sample_services sample_rules_run5 _ rules6_result] by simp
qed

text \<open>
  A new version can be made of the latest version only: from one whose next version exists
  the request fails with an internal error, and nothing changes.
\<close>

theorem new_version_of_superseded_fails:
  fixes s :: "'s rules_db_scheme"
  assumes "rule_set_FindByID orgID i s0 = Inr rs"
    and "x \<in> set (rule_sets s)" "rs_OrganizationID x = rs_OrganizationID rs" "rs_Key x = rs_Key rs" "rs_Version x = rs_Version rs + 1"
  shows "\<exists>e. CreateRuleSetVersion svc c s0 orgID i actorID s = (Inl (Wrap ''failed to save new version'' e), s)"
proof -
  define clone where "clone = (RuleSet_Clone c rs)\<lparr>rs_Status := StatusDraft, rs_UpdatedAt := ctx_time c 0\<rparr>"
  have "Rule_Store.same_version (rs_row clone) x"
    using assms(3-5) by (simp add: clone_def RuleSet_Clone_def Rule_Store.same_version_def)
  then have "Bex (set (rule_sets s)) (Rule_Store.same_version (rs_row clone))" using assms(2) by blast
  moreover obtain r s2 where q: "rule_set_Save clone s = (r, s2)" by fastforce
  ultimately have r: "r \<noteq> Inr ()" using rule_set_Save_Inr [of clone s "()" s2] by auto
  with q have "s2 = s" by (simp add: rule_set_Save_def Let_def split: if_splits)
  with q r obtain e where "rule_set_Save clone s = (Inl e, s)" by (cases r) auto
  then show ?thesis
    using assms(1) by (simp add: CreateRuleSetVersion_def tx_read_def tx_defs clone_def [symmetric])
qed

theorem new_version_of_superseded_fails_witness:
  "\<exists>e. CreateRuleSetVersion sample_ruler (sample_ctx 18) rules5 7 1100 8 rules5 = (Inl (Wrap ''failed to save new version'' e), rules5)"
proof (rule new_version_of_superseded_fails)
  show "rule_set_FindByID 7 1100 rules5 = Inr rule_set_row2"
    by (simp add: rule_set_FindByID_def scan_rule_set_def scanRuleSet_def rule_set_at_def rules5_rows rows_def)
  show "rule_set_row5 \<in> set (rule_sets rules5)" by (simp add: rules5_rows)
qed (simp_all add: rows_def)

subsection \<open>The rules of a case\<close>

text \<open>
  C9: when a case with rules moves to another state, the transition saves, in its own
  transaction, one evaluation for every published rule set with a matching trigger that is
  actively assigned to the state entered, in the order of the assignments, on the facts of the
  case as it is afterwards; and no other evaluation.
\<close>

theorem transition_evaluates_rules:
  fixes s :: "'s rules_db_scheme"
  assumes "rule_services svc assigner integration" "growing_auditor (wfAuditor csvc)"
    and "ruleIntegration csvc = Some (transition_rules nt re srt integration c')"
    and "executeTransition (wfAuditor csvc) (case_observer csvc c) c s0 outer params s = (Inr i, s')"
  shows "\<exists>j facts. instance_FindByCaseID (wi_TenantID i) (wi_CaseID i) s' = Inr j
    \<and> assembled_facts (ctx_time c' 1) (wi_TenantID i) (wi_CaseID i) s' = Inr facts
    \<and> evaluations s' = evaluations s @ map (\<lambda>(ev, missing). evaluation_row nt ev)
        (due_evaluations re srt c' (transition_params (wi_TenantID i) (wi_CaseID i) :: 's rules_db_scheme EvaluateCaseRulesParams) facts 0
          (due_rule_sets TriggerWorkflowTransition (wi_TenantID i) s'
            (FindRulesByWorkflowAndState (wi_TenantID i) (wi_WorkflowDefID j) (CurrentState j) s')))"
proof -
  obtain s1 where s1: "same_rules s s1"
    "transition_rules nt re srt integration c' (wi_TenantID i) (wi_CaseID i) s1 = (Inr (), s')"
    by (rule rule_services.executeTransition_rules [OF assms])
  obtain j facts where "instance_FindByCaseID (wi_TenantID i) (wi_CaseID i) s' = Inr j"
    "assembled_facts (ctx_time c' 1) (wi_TenantID i) (wi_CaseID i) s' = Inr facts"
    "evaluations s' = evaluations s1 @ map (evaluation_row nt \<circ> fst) (due_evaluations re srt c'
       (transition_params (wi_TenantID i) (wi_CaseID i) :: 's rules_db_scheme EvaluateCaseRulesParams) facts 0
       (due_rule_sets TriggerWorkflowTransition (wi_TenantID i) s'
         (FindRulesByWorkflowAndState (wi_TenantID i) (wi_WorkflowDefID j) (CurrentState j) s')))"
    by (rule rule_services.transition_rules_Inr [OF assms(1) s1(2)])
  then show ?thesis using same_rules_sets [OF s1(1)] by (auto simp: comp_def split_def)
qed

theorem transition_evaluates_rules_witness:
  "\<exists>i ev. executeTransition None (case_observer (ruled_service (sample_ctx 14)) (sample_ctx 14)) (sample_ctx 14) rules3 False sample_move rules3
     = (Inr i, moved_rules) \<and> evaluations moved_rules = [ev]
   \<and> (\<exists>j facts. instance_FindByCaseID 7 800 moved_rules = Inr j \<and> [ev] = map (\<lambda>(ev, missing). evaluation_row sample_text ev)
       (due_evaluations any_regexp rule_sorter (sample_ctx 14) (transition_params 7 800 :: rules_db EvaluateCaseRulesParams) facts 0
         (due_rule_sets TriggerWorkflowTransition 7 moved_rules
           (FindRulesByWorkflowAndState 7 (wi_WorkflowDefID j) (CurrentState j) moved_rules))))"
proof -
  obtain i ev where i: "executeTransition None (case_observer (ruled_service (sample_ctx 14)) (sample_ctx 14)) (sample_ctx 14) rules3 False
      sample_move rules3 = (Inr i, moved_rules)" "wi_TenantID i = 7" "wi_CaseID i = 800" and ev: "evaluations moved_rules = [ev]"
    using moved_result by metis
  have a: "wfAuditor (ruled_service (sample_ctx 14)) = None"
    and r: "ruleIntegration (ruled_service (sample_ctx 14)) = Some (transition_rules sample_text any_regexp rule_sorter (\<lambda>k. None) (sample_ctx 14))"
    by (simp_all add: ruled_service_def)
  have "executeTransition (wfAuditor (ruled_service (sample_ctx 14))) (case_observer (ruled_service (sample_ctx 14)) (sample_ctx 14))
      (sample_ctx 14) rules3 False sample_move rules3 = (Inr i, moved_rules)"
    unfolding a by (rule i(1))
  from transition_evaluates_rules [OF sample_services _ r this]
  obtain j facts where "instance_FindByCaseID 7 800 moved_rules = Inr j"
    "evaluations moved_rules = evaluations rules3 @ map (\<lambda>(ev, missing). evaluation_row sample_text ev)
       (due_evaluations any_regexp rule_sorter (sample_ctx 14) (transition_params 7 800 :: rules_db EvaluateCaseRulesParams) facts 0
         (due_rule_sets TriggerWorkflowTransition 7 moved_rules
           (FindRulesByWorkflowAndState 7 (wi_WorkflowDefID j) (CurrentState j) moved_rules)))"
    unfolding a i(2,3) using no_auditor_grows by blast
  moreover have "evaluations rules3 = []" by (simp add: rules3_rows rules_start_def)
  ultimately have "instance_FindByCaseID 7 800 moved_rules = Inr j \<and> [ev] = map (\<lambda>(ev, missing). evaluation_row sample_text ev)
       (due_evaluations any_regexp rule_sorter (sample_ctx 14) (transition_params 7 800 :: rules_db EvaluateCaseRulesParams) facts 0
         (due_rule_sets TriggerWorkflowTransition 7 moved_rules
           (FindRulesByWorkflowAndState 7 (wi_WorkflowDefID j) (CurrentState j) moved_rules)))"
    unfolding ev by simp
  then show ?thesis using i(1) ev by (intro exI [of _ i] exI [of _ ev]) (intro conjI exI [of _ j] exI [of _ facts]; simp only:)
qed

text \<open>
  C21: an evaluation of a case that ends for want of information lists the missing facts
  exactly, each once: the fields of the conditions of the rule set that do not resolve. The list
  is not empty unless the outcome comes from a rule or is the default; for every other
  evaluation it is empty.
\<close>

theorem missing_facts_exact:
  assumes "sorts_by_priority srt" "ValidateRuleSet re rs = None"
    and "evaluated_rule_set re srt c p facts rs = (ev, missing)"
  shows "if ev_Status ev = StatusInformationRequired
    then distinct missing \<and> set missing = {f. (\<exists>r \<in> set (Rules rs). f \<in> leaf_fields (Conditions r)) \<and> ResolveFact facts f = None}
      \<and> (missing = [] \<longrightarrow> ev_MatchedRuleID ev \<noteq> None \<or> DefaultOutcome rs = OutcomeInformationRequired)
    else missing = []"
proof (cases "ev_Status ev = StatusInformationRequired")
  case False
  then show ?thesis using assms(2,3) by (auto simp: evaluated_rule_set_def Let_def split: if_splits)
next
  case True
  then have m: "missing = findMissingFacts rs facts" using assms(2,3) by (auto simp: evaluated_rule_set_def Let_def split: if_splits)
  have "missing \<noteq> []" if none: "ev_MatchedRuleID ev = None" and d: "DefaultOutcome rs \<noteq> OutcomeInformationRequired"
  proof -
    have same: "set (srt (Rules rs)) = set (Rules rs)" using assms(1) by (simp add: priority_sorter.same_rules priority_sorter_def)
    obtain t who tr where e: "ev_Status ev = ev_Status (Evaluate re srt c rs facts t who tr)"
      "ev_MatchedRuleID ev = ev_MatchedRuleID (Evaluate re srt c rs facts t who tr)"
      using assms(2,3) by (auto simp: evaluated_rule_set_def Let_def)
    have "List.find (\<lambda>r. rule_value re facts r = resultTrue) (srt (Rules rs)) = None"
      using none e(2) Evaluate_fields(3) [of re facts srt rs] by (metis option.exhaust option.distinct(1))
    then have nt: "\<forall>r \<in> set (srt (Rules rs)). rule_value re facts r \<noteq> resultTrue" by (simp add: find_None_iff)
    have "resultUnknown \<in> rule_value re facts ` set (Rules rs)"
      using True d Evaluate_fallback_fields(2) [where re = re and facts = facts and srt = srt and rs = rs, OF nt] unfolding e(1)
      by (auto simp: fallback_outcome_def outcomeToStatus_def same split: if_splits Outcome.splits)
    then obtain r where "r \<in> set (Rules rs)" "cond_value re facts (Conditions r) = resultUnknown" by (auto simp: rule_value_def)
    with unknown_missing [OF this(2)] show ?thesis using findMissingFacts_set [of rs facts] by (auto simp: m)
  qed
  then show ?thesis using True findMissingFacts_set [of rs facts] by (auto simp: m)
qed

theorem missing_facts_exact_witness:
  "\<exists>ev. evaluated_rule_set any_regexp rule_sorter (sample_ctx 17) (transition_params 7 800 :: rules_db EvaluateCaseRulesParams) [] rule_set_row2
     = (ev, [''form.f.name'']) \<and> ev_Status ev = StatusInformationRequired"
proof -
  let ?p = "transition_params 7 800 :: rules_db EvaluateCaseRulesParams"
  obtain ev missing where e: "evaluated_rule_set any_regexp rule_sorter (sample_ctx 17) ?p [] rule_set_row2 = (ev, missing)" by fastforce
  have "four_digit_year (ctx_time (sample_ctx 17) 0)" by (simp add: sample_ctx_def four_digit_year_def epoch_days_def)
  then have st: "ev_Status ev = StatusInformationRequired"
    using e row2_valid sample_uninformed(3) by (auto simp: evaluated_rule_set_def Let_def)
  have "sorts_by_priority rule_sorter" by (simp add: sorts_by_priority_def rule_sorter_def)
  from missing_facts_exact [OF this row2_valid e] st
  have m: "distinct missing" "set missing = {''form.f.name''}"
    using no_sample_fact by (auto simp: rows_def sample_rule_def)
  then have "missing = [''form.f.name'']" by (cases missing; cases "tl missing") auto
  then show ?thesis using e st by blast
qed

text \<open>
  C36: the facts of a case take the data of a form from its latest submission for the case:
  a path form.key.field resolves to what that submission says of the field, or does not resolve.
\<close>

theorem facts_from_latest_submission:
  fixes s :: "'s case_db_scheme"
  assumes "plain_key key" "plain_key field" "fst (AssembleFactsFromCase c None orgID caseID s) = Inr facts"
    and "sub \<in> set (form_submissions s)" "sb_TenantID sub = orgID" "sb_CaseID sub = caseID"
    and "form_FindByID orgID (sb_FormID sub) s = Inr form" "fm_Key form = key"
    and "\<forall>x \<in> set (form_submissions s). x \<noteq> sub \<and> sb_TenantID x = orgID \<and> sb_CaseID x = caseID
           \<and> (\<exists>f. form_FindByID orgID (sb_FormID x) s = Inr f \<and> fm_Key f = key) \<longrightarrow> SubmittedAt x < SubmittedAt sub"
  shows "ResolveFact facts (''form.'' @ key @ CHR ''.'' # field) = map_of (submission_facts sub) field"
proof -
  let ?L = "submission_ListByCase orgID caseID s" and ?P = "\<lambda>x. submission_key orgID s x = Some key"
  have a: "assembled_facts (ctx_time c 1) orgID caseID s = Inr facts"
    using assms(3) by (simp add: AssembleFactsFromCase_def tx_view_def or_else_def)
  have sub: "sub \<in> set ?L" "?P sub" using assms(4-8) by (simp_all add: submission_ListByCase_def submission_key_def)
  then have "List.find ?P ?L \<noteq> None" unfolding find_None_iff by blast
  then obtain x where x: "List.find ?P ?L = Some x" by auto
  then obtain k where k: "k < length ?L" "?P (?L ! k)" "x = ?L ! k" "\<forall>j<k. \<not> ?P (?L ! j)" by (auto simp: find_Some_iff)
  obtain n where n: "n < length ?L" "?L ! n = sub" using sub(1) by (metis in_set_conv_nth)
  have "k \<le> n" using k(4) n sub(2) by (metis not_le)
  then have le: "SubmittedAt sub \<le> SubmittedAt x"
    using submissions_sorted [of orgID caseID s] n k(1,3) by (cases "k = n") (auto simp: sorted_wrt_iff_nth_less)
  have "x \<in> set (form_submissions s)" "sb_TenantID x = orgID" "sb_CaseID x = caseID"
    using k(1,3) nth_mem [of k ?L] by (auto simp: submission_ListByCase_def)
  moreover have "\<exists>f. form_FindByID orgID (sb_FormID x) s = Inr f \<and> fm_Key f = key"
    using k(2,3) by (auto simp: submission_key_def split: sum.splits)
  ultimately have "x = sub" using assms(9) le by fastforce
  then show ?thesis using resolve_form_field [OF assms(1,2) a] x by simp
qed

theorem facts_from_latest_submission_witness:
  "\<exists>facts. fst (AssembleFactsFromCase (sample_ctx 17) None 7 800 rules3) = Inr facts
     \<and> ResolveFact facts ''form.f.name'' = Some (GString ''x'')"
proof -
  have s: "cases rules3 = [case_row8]" "cs_ID case_row8 = 800" "cs_OrganizationID case_row8 = 7" "forms rules3 = forms case7"
    "form_submissions rules3 = [submission_row9]"
    by (simp_all add: rules3_rows rules_start_def case_row8_def)
  obtain facts where f: "assembled_facts (ctx_time (sample_ctx 17) 1) 7 800 rules3 = Inr facts"
    using sample_facts [OF s] by metis
  then have f: "fst (AssembleFactsFromCase (sample_ctx 17) None 7 800 rules3) = Inr facts"
    by (simp add: AssembleFactsFromCase_def tx_view_def or_else_def)
  have "\<exists>form. form_FindByID 7 (sb_FormID submission_row9) rules3 = Inr form \<and> fm_Key form = ''f''"
    by (simp add: s form_FindByID_def row_or_def submission_row9_def case7_rows case6_eval)
  then obtain form where "form_FindByID 7 (sb_FormID submission_row9) rules3 = Inr form" "fm_Key form = ''f''" by blast
  with facts_from_latest_submission [of "''f''" "''name''", OF _ _ f, of submission_row9] f
  have "ResolveFact facts ''form.f.name'' = map_of (submission_facts submission_row9) ''name''"
    by (simp add: s plain_key_def) (simp add: submission_row9_def)
  then show ?thesis using f by (simp add: submission_facts_def submission_row9_def)
qed

end
