(* ===== verification/Audit_Properties.thy ===== *)
theory Audit_Properties
  imports Audit_Chain "HOL-Library.Multiset"
begin

section \<open>Properties of the audit trail\<close>

text \<open>
  The chain invariant and what keeps or breaks it, tamper evidence, the reports of the
  verification pass, and the append-only behaviour of recording.
\<close>

subsection \<open>Chains\<close>

text \<open>
  A list of events is linked when every event verifies and no event contradicts the hash of
  the one before; VerifyChain reports no failure exactly then.
\<close>

definition link_ok :: "string option \<Rightarrow> AuditEvent \<Rightarrow> bool" where
  "link_ok prev e \<longleftrightarrow> ae_PreviousHash e = None \<or> prev = None \<or> ae_PreviousHash e = prev"

fun linked :: "(rat \<Rightarrow> string) \<Rightarrow> string option \<Rightarrow> AuditEvent list \<Rightarrow> bool" where
  "linked ft prev [] = True"
| "linked ft prev (e # es) = (VerifyIntegrity ft e \<and> link_ok prev e \<and> linked ft (Some (ae_Hash e)) es)"

lemma verify_loop_failed_mono: "failed \<le> snd (verify_loop ft evs prev v failed)"
  by (induction ft evs prev v failed rule: verify_loop.induct) auto

lemma verify_loop_linked:
  "linked ft prev evs \<Longrightarrow> verify_loop ft (map Some evs) prev v f = (v + length evs, f)"
  by (induction evs arbitrary: prev v) (auto simp: link_ok_def)

lemma verify_loop_broken:
  "\<not> linked ft prev evs \<Longrightarrow> f < snd (verify_loop ft (map Some evs) prev v f)"
proof (induction evs arbitrary: prev v)
  case (Cons e evs)
  have "f < snd (verify_loop ft evs' p w (f + 1))" for evs' p w
    using verify_loop_failed_mono [of "f + 1" ft evs' p w] by simp
  with Cons show ?case by (auto simp: link_ok_def)
qed simp

lemma VerifyChain_linked:
  "linked ft None evs \<Longrightarrow> VerifyChain ft (map Some evs) = (length evs, 0, None)"
  by (simp add: VerifyChain_def verify_loop_linked)

lemma VerifyChain_broken:
  "\<not> linked ft None evs \<Longrightarrow> snd (snd (VerifyChain ft (map Some evs))) \<noteq> None"
  using verify_loop_broken [of ft None evs 0 0]
  by (cases "verify_loop ft (map Some evs) None 0 0") (simp add: VerifyChain_def)

definition last_link :: "string option \<Rightarrow> AuditEvent list \<Rightarrow> string option" where
  "last_link prev evs = (if evs = [] then prev else Some (ae_Hash (last evs)))"

lemma linked_append:
  "linked ft prev (xs @ ys) \<longleftrightarrow> linked ft prev xs \<and> linked ft (last_link prev xs) ys"
  by (induction xs arbitrary: prev) (auto simp: last_link_def)

subsection \<open>Rows in the order of the chain\<close>

lemma org_events_snoc:
  "org_events o' (rows @ [e]) = org_events o' rows @ (if ae_OrganizationID e = o' then [e] else [])"
  by (simp add: org_events_def)

lemma set_ascending [simp]: "set (ascending_events rows) = set rows"
  by (simp add: ascending_events_def)

lemma length_ascending [simp]: "length (ascending_events rows) = length rows"
  by (simp add: ascending_events_def)

lemma ascending_snoc_max:
  assumes "\<forall>x \<in> set rows. chain_key x \<le> chain_key e"
  shows "ascending_events (rows @ [e]) = ascending_events rows @ [e]"
  unfolding ascending_events_def
proof (rule properties_for_sort_key)
  show "mset (sort_key chain_key rows @ [e]) = mset (rows @ [e])" by simp
  show "sorted (map chain_key (sort_key chain_key rows @ [e]))"
    using assms by (simp add: sorted_append)
  show "[x\<leftarrow>sort_key chain_key rows @ [e]. chain_key k = chain_key x] = [x\<leftarrow>rows @ [e]. chain_key k = chain_key x]"
    for k using sort_key_stable [of chain_key "chain_key k" rows] by (simp add: eq_commute [of "chain_key k"])
qed

lemma last_hash_ascending:
  "last_hash orgID rows = last_link None (ascending_events (org_events orgID rows))"
  by (auto simp: last_hash_def descending_events_def last_link_def hd_rev split: list.split
      dest: arg_cong [of _ _ hd])

subsection \<open>What a write does\<close>

lemma ComputeHash_stored:
  assumes "exact_numbers (ae_Metadata e)"
  shows "ComputeHash ft (stored e) = ComputeHash ft e"
  using assms by (simp add: ComputeHash_def stored_def json_text_decoded(1) hash_input_def
      format_micros_trunc split: option.split)

lemma VerifyIntegrity_hashed:
  assumes "exact_numbers (ae_Metadata e)" "ComputeHash ft e = Inr h"
  shows "VerifyIntegrity ft (stored (e\<lparr>ae_Hash := h\<rparr>))"
proof -
  have "ComputeHash ft (e\<lparr>ae_Hash := h\<rparr>) = ComputeHash ft e"
    by (simp add: ComputeHash_def hash_input_def split: option.split)
  then show ?thesis using assms ComputeHash_stored [of "e\<lparr>ae_Hash := h\<rparr>" ft]
    by (simp add: VerifyIntegrity_def stored_def)
qed

text \<open>A write either fails and changes nothing or appends one row linked to the last one.\<close>

lemma writeEvent_cases:
  assumes "writeEvent ft orgID event s = (r, s')"
  obtains (failed) e where "r = Inl e" "s' = s"
  | (written) h where "r = Inr ()" "ComputeHash ft (event\<lparr>ae_PreviousHash := last_hash orgID (audit_events s)\<rparr>) = Inr h"
      "s' = s\<lparr>audit_events := audit_events s
         @ [stored (event\<lparr>ae_PreviousHash := last_hash orgID (audit_events s), ae_Hash := h\<rparr>)]\<rparr>"
      "ae_ID event \<notin> ae_ID ` set (audit_events s)" "ae_Action event \<in> set (audit_vocabulary s)"
  using assms that
  by (auto simp: writeEvent_def tx_bind_def GetLastHash_def tx_gets_def tx_map_error_def tx_lift_def
      insert_event_def Let_def split: sum.splits if_splits)

lemma writeEvent_rollback: "InTransaction (writeEvent ft orgID event) s = writeEvent ft orgID event s"
proof -
  obtain r s' where w: "writeEvent ft orgID event s = (r, s')" by fastforce
  from w show ?thesis by (cases rule: writeEvent_cases) (simp_all add: InTransaction_def w)
qed

subsection \<open>The verification pass\<close>

definition org_linked :: "(rat \<Rightarrow> string) \<Rightarrow> uuid \<Rightarrow> AuditEvent list \<Rightarrow> bool" where
  "org_linked ft orgID rows \<longleftrightarrow> linked ft None (ascending_events (org_events orgID rows))"

lemma VerifyOrganization_eval:
  assumes "HashChainEnabled cfg"
  shows "org_linked ft orgID (audit_events s) \<Longrightarrow>
      VerifyOrganization ft cfg orgID s = (Inr (length (org_events orgID (audit_events s)), 0), s)"
    "\<not> org_linked ft orgID (audit_events s) \<Longrightarrow> \<exists>e. VerifyOrganization ft cfg orgID s = (Inl e, s)"
proof -
  let ?evs = "ascending_events (org_events orgID (audit_events s))"
  have find: "audit_FindByOrganization orgID (int (length (org_events orgID (audit_events s)))) 0 s = (Inr (rev ?evs), s)"
    by (simp add: audit_FindByOrganization_def limit_offset_def descending_events_def)
  have run: "VerifyOrganization ft cfg orgID s = (case VerifyChain ft (map Some ?evs) of
       (verified, failed, Some e) \<Rightarrow> (Inl (Wrap ''audit chain verification failed'' e), s)
     | (verified, failed, None) \<Rightarrow> (Inr (verified, failed), s))"
    using assms by (simp add: VerifyOrganization_def tx_bind_def audit_CountByOrganization_def tx_gets_def find
        tx_throw_def tx_return_def split: prod.split option.split)
  show "org_linked ft orgID (audit_events s) \<Longrightarrow>
      VerifyOrganization ft cfg orgID s = (Inr (length (org_events orgID (audit_events s)), 0), s)"
    by (simp add: run org_linked_def VerifyChain_linked)
  show "\<exists>e. VerifyOrganization ft cfg orgID s = (Inl e, s)" if "\<not> org_linked ft orgID (audit_events s)"
    using VerifyChain_broken [of ft ?evs] that
    by (cases "VerifyChain ft (map Some ?evs)") (auto simp: run org_linked_def)
qed

lemma verify_orgs_eval:
  assumes "HashChainEnabled cfg"
  shows "\<forall>o' \<in> set orgs. org_linked ft o' (audit_events s) \<Longrightarrow>
      verify_orgs ft cfg orgs (v, f, n) s
        = (Inr (v + sum_list (map (\<lambda>o'. length (org_events o' (audit_events s))) orgs), f, n + length orgs), s)"
    "\<exists>o' \<in> set orgs. \<not> org_linked ft o' (audit_events s) \<Longrightarrow> \<exists>e. verify_orgs ft cfg orgs (v, f, n) s = (Inl e, s)"
proof (induction orgs arbitrary: v f n)
  case (Cons o' orgs)
  { case 1
    then show ?case using Cons.IH(1)
      by (simp add: tx_bind_def VerifyOrganization_eval(1) [OF assms] add.assoc)
  next
    case 2
    then show ?case using Cons.IH(2)
      by (cases "org_linked ft o' (audit_events s)")
        (auto simp: tx_bind_def VerifyOrganization_eval(1) [OF assms] dest: VerifyOrganization_eval(2) [OF assms, of ft o' s])
  }
qed (simp_all add: tx_return_def)

lemma sum_indicator:
  "distinct orgs \<Longrightarrow> sum_list (map (\<lambda>o'. if x = o' then 1 else 0) orgs) = (if x \<in> set orgs then 1 else (0::nat))"
  by (induction orgs) auto

lemma sum_org_events:
  assumes "distinct orgs" "\<forall>e \<in> set rows. ae_OrganizationID e \<in> set orgs"
  shows "sum_list (map (\<lambda>o'. length (org_events o' rows)) orgs) = length rows"
  using assms(2)
proof (induction rows)
  case (Cons e rows)
  have "sum_list (map (\<lambda>o'. length (org_events o' (e # rows))) orgs)
      = sum_list (map (\<lambda>o'. length (org_events o' rows)) orgs)
        + sum_list (map (\<lambda>o'. if ae_OrganizationID e = o' then 1 else 0) orgs)"
    by (induction orgs) (auto simp: org_events_def)
  with Cons assms(1) show ?case by (simp add: sum_indicator)
qed (simp add: org_events_def sum_list_0)

lemma verify_all_eval:
  assumes h: "HashChainEnabled cfg"
  shows "(\<forall>o'. org_linked ft o' (audit_events s)) \<Longrightarrow>
      VerifyAllOrganizations ft cfg s
        = (Inr (length (audit_events s), 0, card (ae_OrganizationID ` set (audit_events s))), s)"
    "(\<exists>o'. \<not> org_linked ft o' (audit_events s)) \<Longrightarrow>
      (\<exists>e. VerifyAllOrganizations ft cfg s = (Inl e, s))"
proof -
  let ?orgs = "sort (remdups (map ae_OrganizationID (audit_events s)))"
  have run: "VerifyAllOrganizations ft cfg s = verify_orgs ft cfg ?orgs (0, 0, 0) s"
    using h by (simp add: VerifyAllOrganizations_def tx_bind_def AllOrganizationIDs_def tx_gets_def)
  have len: "length ?orgs = card (ae_OrganizationID ` set (audit_events s))"
    by (metis length_sort length_remdups_card_conv list.set_map)
  have empty: "org_linked ft o' (audit_events s)" if "o' \<notin> set ?orgs" for o'
  proof -
    have "org_events o' (audit_events s) = []" using that by (auto simp: org_events_def filter_empty_conv)
    then show ?thesis by (simp add: org_linked_def ascending_events_def)
  qed
  {
    assume "\<forall>o'. org_linked ft o' (audit_events s)"
    then show "VerifyAllOrganizations ft cfg s
        = (Inr (length (audit_events s), 0, card (ae_OrganizationID ` set (audit_events s))), s)"
      using verify_orgs_eval(1) [OF h, of ?orgs ft s 0 0 0] run len by (simp add: sum_org_events)
  next
    assume "\<exists>o'. \<not> org_linked ft o' (audit_events s)"
    then have "\<exists>o' \<in> set ?orgs. \<not> org_linked ft o' (audit_events s)" using empty by blast
    from verify_orgs_eval(2) [OF h this, of 0 0 0] run show "\<exists>e. VerifyAllOrganizations ft cfg s = (Inl e, s)"
      by simp
  }
qed

text \<open>
  With the hash chain enabled, VerifyAllOrganizations succeeds exactly when every
  organization's chain verifies, and then reports every stored event verified and none
  failed; one bad event anywhere makes the whole pass return an error and no counts.
\<close>

theorem VerifyAllOrganizations_reports:
  assumes h: "HashChainEnabled cfg"
  shows "((\<forall>o'. org_linked ft o' (audit_events s)) \<longrightarrow>
      VerifyAllOrganizations ft cfg s
        = (Inr (length (audit_events s), 0, card (ae_OrganizationID ` set (audit_events s))), s))
    \<and> ((\<exists>o'. \<not> org_linked ft o' (audit_events s)) \<longrightarrow>
      (\<exists>e. VerifyAllOrganizations ft cfg s = (Inl e, s)))"
  using verify_all_eval [OF h, of ft s] by blast

theorem VerifyAllOrganizations_reports_witness:
  "VerifyAllOrganizations (\<lambda>_. []) \<lparr>Enabled = True, HashChainEnabled = True, RetentionDays = 0\<rparr>
     \<lparr>audit_events = [], audit_vocabulary = []\<rparr> = (Inr (0, 0, 0), \<lparr>audit_events = [], audit_vocabulary = []\<rparr>)"
  using VerifyAllOrganizations_reports [of "\<lparr>Enabled = True, HashChainEnabled = True, RetentionDays = 0\<rparr>"
      "\<lambda>_. []" "\<lparr>audit_events = [], audit_vocabulary = []\<rparr>"]
  by (simp add: org_linked_def org_events_def ascending_events_def)

subsection \<open>Recording keeps and breaks chains\<close>

text \<open>
  The states that recording reaches from an empty trail when the clock and the identifiers
  of each organization only move forward.
\<close>

inductive recorded :: "(rat \<Rightarrow> string) \<Rightarrow> AuditConfig \<Rightarrow> audit_db \<Rightarrow> bool" for ft cfg where
  empty: "recorded ft cfg \<lparr>audit_events = [], audit_vocabulary = voc\<rparr>"
| step: "recorded ft cfg s \<Longrightarrow> RecordEvent ft cfg c params s = (Inr (), s')
    \<Longrightarrow> exact_numbers (rp_Metadata params)
    \<Longrightarrow> \<forall>e \<in> set (org_events (rp_OrganizationID params) (audit_events s)).
          chain_key e \<le> (trunc_micros (ctx_time c 0), ctx_uuid c 0)
    \<Longrightarrow> recorded ft cfg s'"

text \<open>The event a call of the service builds.\<close>

definition built_event :: "ctx \<Rightarrow> RecordEventParams \<Rightarrow> AuditEvent" where
  "built_event c params = (let actorID = (case rp_ActorID params of None \<Rightarrow> uuid_nil | Some a \<Rightarrow> a) in
     \<lparr>ae_ID = ctx_uuid c 0, ae_OrganizationID = rp_OrganizationID params,
      ae_ActorID = (if actorID = uuid_nil then None else Some actorID),
      ae_Action = rp_Action params, ae_Resource = rp_Resource params,
      ae_ResourceID = rp_ResourceID params, ae_Outcome = rp_Outcome params,
      ae_RequestID = rp_RequestID params, ae_Metadata = rp_Metadata params,
      ae_Timestamp = ctx_time c 0, ae_PreviousHash = None, ae_Hash = []\<rparr>)"

lemma recordEvent_unfold:
  "recordEvent ft cfg c inTx params s =
     (if \<not> Enabled cfg then (Inr (), s)
      else if \<not> audit_IsValidOutcome (rp_Outcome params) then (Inl (Err ''invalid outcome''), s)
      else (case writeEvent ft (rp_OrganizationID params) (built_event c params) s of
              (Inl e, s1) \<Rightarrow> (Inl (Wrap ''failed to record audit event'' e), s1)
            | (Inr a, s1) \<Rightarrow> (Inr a, s1)))"
  unfolding recordEvent_def built_event_def Let_def
  by (cases inTx) (simp_all add: tx_return_def tx_throw_def tx_map_error_def RecordEventTx_def
      repo_RecordEvent_def writeEvent_rollback)

lemma recordEvent_cases:
  assumes "recordEvent ft cfg c inTx params s = (r, s')"
  obtains (unchanged) "s' = s" "r = Inr () \<Longrightarrow> \<not> Enabled cfg"
  | (written) h where "r = Inr ()" "Enabled cfg" "audit_IsValidOutcome (rp_Outcome params)"
      "ComputeHash ft ((built_event c params)\<lparr>ae_PreviousHash := last_hash (rp_OrganizationID params) (audit_events s)\<rparr>) = Inr h"
      "s' = s\<lparr>audit_events := audit_events s @ [stored ((built_event c params)
         \<lparr>ae_PreviousHash := last_hash (rp_OrganizationID params) (audit_events s), ae_Hash := h\<rparr>)]\<rparr>"
      "ctx_uuid c 0 \<notin> ae_ID ` set (audit_events s)" "rp_Action params \<in> set (audit_vocabulary s)"
proof (cases "Enabled cfg \<and> audit_IsValidOutcome (rp_Outcome params)")
  case False
  with assms show ?thesis by (intro unchanged) (auto simp: recordEvent_unfold split: if_splits)
next
  case True
  obtain r1 s1 where w1: "writeEvent ft (rp_OrganizationID params) (built_event c params) s = (r1, s1)"
    by fastforce
  with assms True have r1: "r = (case r1 of Inl e \<Rightarrow> Inl (Wrap ''failed to record audit event'' e) | Inr a \<Rightarrow> Inr a)"
    and w: "writeEvent ft (rp_OrganizationID params) (built_event c params) s = (r1, s')"
    by (auto simp: recordEvent_unfold split: sum.splits)
  from w show ?thesis
  proof (cases rule: writeEvent_cases)
    case (failed e)
    then show ?thesis using r1 by (intro unchanged) auto
  next
    case (written h)
    then show ?thesis using r1 True by (intro that(2)) (auto simp: built_event_def Let_def)
  qed
qed

lemma org_linked_snoc:
  assumes "org_linked ft (ae_OrganizationID e) rows" "VerifyIntegrity ft e"
    and "link_ok (last_hash (ae_OrganizationID e) rows) e"
    and "\<forall>x \<in> set (org_events (ae_OrganizationID e) rows). chain_key x \<le> chain_key e"
  shows "org_linked ft (ae_OrganizationID e) (rows @ [e])"
  using assms unfolding org_linked_def org_events_snoc
  by (simp add: ascending_snoc_max linked_append last_hash_ascending)

lemma org_linked_other: "ae_OrganizationID e \<noteq> o' \<Longrightarrow> org_linked ft o' (rows @ [e]) = org_linked ft o' rows"
  by (simp add: org_linked_def org_events_snoc)

lemma recorded_linked: "recorded ft cfg s \<Longrightarrow> org_linked ft o' (audit_events s)"
proof (induction rule: recorded.induct)
  case (empty voc)
  show ?case by (simp add: org_linked_def org_events_def ascending_events_def)
next
  case (step s c params s')
  from step(2) have "recordEvent ft cfg c False params s = (Inr (), s')" by (simp add: RecordEvent_def)
  then show ?case
  proof (cases rule: recordEvent_cases)
    case unchanged
    with step show ?thesis by simp
  next
    case (written h)
    let ?e1 = "(built_event c params)\<lparr>ae_PreviousHash := last_hash (rp_OrganizationID params) (audit_events s)\<rparr>"
    let ?e = "stored (?e1\<lparr>ae_Hash := h\<rparr>)"
    have "exact_numbers (ae_Metadata ?e1)" using step(3) by (simp add: built_event_def Let_def)
    then have v: "VerifyIntegrity ft ?e" using written(4) by (rule VerifyIntegrity_hashed)
    have f: "ae_OrganizationID ?e = rp_OrganizationID params" "chain_key ?e = (trunc_micros (ctx_time c 0), ctx_uuid c 0)"
      "ae_PreviousHash ?e = last_hash (rp_OrganizationID params) (audit_events s)"
      by (simp_all add: stored_def built_event_def chain_key_def Let_def)
    have rows: "audit_events s' = audit_events s @ [?e]" using written(5) by simp
    show ?thesis
    proof (cases "o' = rp_OrganizationID params")
      case True
      have "org_linked ft (ae_OrganizationID ?e) (audit_events s @ [?e])"
        using step(4,5) True f v by (intro org_linked_snoc) (auto simp: link_ok_def)
      with rows True f show ?thesis by simp
    next
      case False
      with rows f org_linked_other [of ?e o'] step(5) show ?thesis by simp
    qed
  qed
qed

text \<open>
  C4: take a trail all of whose events were recorded by the service, for whichever
  organizations, each organization's in the order of their times in microseconds and, of those
  with equal times, of their ids, and with metadata whose numbers survive the jsonb column (ints of
  at most 53 bits and float64s, no json.Number). Then the pass over all organizations verifies every
  stored event and finds nothing broken.
\<close>

theorem recorded_trail_verifies:
  "recorded ft cfg s \<Longrightarrow> HashChainEnabled cfg \<Longrightarrow>
     VerifyAllOrganizations ft cfg s
       = (Inr (length (audit_events s), 0, card (ae_OrganizationID ` set (audit_events s))), s)"
  using recorded_linked [of ft cfg s] verify_all_eval(1) [of cfg ft s] by blast

definition demo_cfg :: AuditConfig where
  "demo_cfg = \<lparr>Enabled = True, HashChainEnabled = True, RetentionDays = 0\<rparr>"

definition demo_audit_ctx :: "nat \<Rightarrow> instant \<Rightarrow> ctx" where
  "demo_audit_ctx u t = \<lparr>ctx_uuid = \<lambda>k. u + k, ctx_time = \<lambda>k. t, ctx_request_id = ''req''\<rparr>"

definition demo_params :: RecordEventParams where
  "demo_params = \<lparr>rp_OrganizationID = 7, rp_ActorID = Some 8, rp_Action = ''case.created'',
     rp_Resource = ''case'', rp_ResourceID = Some ''1'', rp_Outcome = ''success'', rp_RequestID = None,
     rp_Metadata = GNil\<rparr>"

text \<open>Recording the demo event succeeds wherever its identifier is new and its action known.\<close>

lemma demo_record:
  assumes "u \<notin> ae_ID ` set (audit_events s)" "''case.created'' \<in> set (audit_vocabulary s)"
  obtains s' where "RecordEvent ft demo_cfg (demo_audit_ctx u t) demo_params s = (Inr (), s')"
    "length (audit_events s') = Suc (length (audit_events s))"
  using assms that
  by (auto simp: RecordEvent_def recordEvent_unfold demo_cfg_def demo_params_def audit_IsValidOutcome_def
      built_event_def writeEvent_def GetLastHash_def tx_gets_def tx_bind_def tx_map_error_def tx_lift_def
      ComputeHash_def insert_event_def demo_audit_ctx_def Let_def)

theorem recorded_trail_verifies_witness:
  "\<exists>s :: audit_db. length (audit_events s) = 1 \<and> fst (VerifyAllOrganizations (\<lambda>_. []) demo_cfg s)
     = Inr (1, 0, card (ae_OrganizationID ` set (audit_events s)))"
proof -
  let ?s = "\<lparr>audit_events = [], audit_vocabulary = [''case.created'']\<rparr>"
  obtain s' where r: "RecordEvent (\<lambda>_. []) demo_cfg (demo_audit_ctx 100 0) demo_params ?s = (Inr (), s')"
    "length (audit_events s') = 1" using demo_record [of 100 ?s "\<lambda>_. []" 0] by auto
  have "recorded (\<lambda>_. []) demo_cfg s'"
    using r(1) by (rule recorded.step [OF recorded.empty]) (simp_all add: demo_params_def org_events_def)
  from recorded_trail_verifies [OF this] r(2) show ?thesis
    by (intro exI [of _ s']) (simp add: demo_cfg_def)
qed

lemma ascending_snoc_between:
  assumes "ascending_events rows = xs @ [p, l]" "chain_key p < chain_key e" "chain_key e < chain_key l"
  shows "ascending_events (rows @ [e]) = xs @ [p, e, l]"
  unfolding ascending_events_def
proof (rule properties_for_sort_key)
  have m: "mset rows = mset (xs @ [p, l])" using assms(1) by (metis ascending_events_def mset_sort)
  then show "mset (xs @ [p, e, l]) = mset (rows @ [e])" by simp
  have srt: "sorted (map chain_key (xs @ [p, l]))" using assms(1) by (metis ascending_events_def sorted_sort_key)
  then show "sorted (map chain_key (xs @ [p, e, l]))" using assms(2,3) by (auto simp: sorted_append)
  have stable: "filter (\<lambda>x. chain_key x = k) rows = filter (\<lambda>x. chain_key x = k) (xs @ [p, l])" for k
    using assms(1) sort_key_stable [of chain_key k rows] by (simp add: ascending_events_def)
  have none: "\<forall>x \<in> set xs. chain_key x \<noteq> chain_key e"
    using srt assms(2) by (force simp: sorted_append)
  fix y assume "y \<in> set (xs @ [p, e, l])"
  show "[x\<leftarrow>xs @ [p, e, l]. chain_key y = chain_key x] = [x\<leftarrow>rows @ [e]. chain_key y = chain_key x]"
    using stable [of "chain_key y"] none assms(2,3)
    by (auto simp: eq_commute [of "chain_key y"] filter_empty_conv)
qed

text \<open>
  An event whose timestamp falls between the last two events of its organization's chain
  (as when two requests read the clock in one order and take the chain lock in the other)
  is accepted, and from then on verification of the trail fails, with nothing tampered.
\<close>

theorem out_of_order_write_breaks_chain:
  assumes "HashChainEnabled cfg" and "Enabled cfg"
    and "RecordEvent ft cfg c params s = (Inr (), s')"
    and "ascending_events (org_events (rp_OrganizationID params) (audit_events s)) = xs @ [p, l]"
    and "chain_key p < (trunc_micros (ctx_time c 0), ctx_uuid c 0)"
    and "(trunc_micros (ctx_time c 0), ctx_uuid c 0) < chain_key l"
    and "ae_Hash p \<noteq> ae_Hash l"
  shows "\<exists>e. VerifyAllOrganizations ft cfg s' = (Inl e, s')"
proof -
  let ?org = "rp_OrganizationID params"
  from assms(3) have "recordEvent ft cfg c False params s = (Inr (), s')" by (simp add: RecordEvent_def)
  then show ?thesis
  proof (cases rule: recordEvent_cases)
    case unchanged
    with assms(2) show ?thesis by simp
  next
    case (written h)
    let ?e = "stored ((built_event c params)\<lparr>ae_PreviousHash := last_hash ?org (audit_events s), ae_Hash := h\<rparr>)"
    have f: "ae_OrganizationID ?e = ?org" "chain_key ?e = (trunc_micros (ctx_time c 0), ctx_uuid c 0)"
      by (simp_all add: stored_def built_event_def chain_key_def Let_def)
    have prev: "ae_PreviousHash ?e = Some (ae_Hash l)"
      using assms(4) by (simp add: stored_def last_hash_ascending last_link_def)
    have "ascending_events (org_events ?org (audit_events s) @ [?e]) = xs @ [p, ?e, l]"
      using assms(4-6) f(2) by (intro ascending_snoc_between) simp_all
    moreover have "org_events ?org (audit_events s') = org_events ?org (audit_events s) @ [?e]"
      using written(5) f(1) by (simp add: org_events_snoc)
    moreover have "\<not> linked ft None (xs @ [p, ?e, l])"
      using prev assms(7) by (simp add: linked_append link_ok_def)
    ultimately have "\<not> org_linked ft ?org (audit_events s')" by (simp add: org_linked_def)
    then show ?thesis using verify_all_eval(2) [OF assms(1), of ft s'] by blast
  qed
qed

definition demo_row :: "nat \<Rightarrow> instant \<Rightarrow> string \<Rightarrow> AuditEvent" where
  "demo_row u t h = \<lparr>ae_ID = u, ae_OrganizationID = 7, ae_ActorID = None, ae_Action = ''case.created'',
     ae_Resource = ''case'', ae_ResourceID = None, ae_Outcome = ''success'', ae_RequestID = None,
     ae_Metadata = GNil, ae_Timestamp = t, ae_PreviousHash = None, ae_Hash = h\<rparr>"

theorem out_of_order_write_breaks_chain_witness:
  "\<exists>s' e. RecordEvent (\<lambda>_. []) demo_cfg (demo_audit_ctx 100 2000) demo_params
        \<lparr>audit_events = [demo_row 1 1000 ''a'', demo_row 2 3000 ''b''], audit_vocabulary = [''case.created'']\<rparr>
      = (Inr (), s') \<and> VerifyAllOrganizations (\<lambda>_. []) demo_cfg s' = (Inl e, s')"
proof -
  let ?s = "\<lparr>audit_events = [demo_row 1 1000 ''a'', demo_row 2 3000 ''b''], audit_vocabulary = [''case.created'']\<rparr>"
  obtain s' where r: "RecordEvent (\<lambda>_. []) demo_cfg (demo_audit_ctx 100 2000) demo_params ?s = (Inr (), s')"
    using demo_record [of 100 ?s "\<lambda>_. []" 2000] by (auto simp: demo_row_def)
  have "ascending_events (org_events (rp_OrganizationID demo_params) (audit_events ?s))
      = [] @ [demo_row 1 1000 ''a'', demo_row 2 3000 ''b'']"
    by (simp add: ascending_events_def org_events_def demo_params_def demo_row_def chain_key_def)
  from out_of_order_write_breaks_chain [OF _ _ r this] r show ?thesis
    by (auto simp: demo_cfg_def demo_row_def chain_key_def demo_audit_ctx_def trunc_micros_def)
qed

subsection \<open>Recording is append-only\<close>

text \<open>
  RecordEvent writes nothing or exactly one row, never touches the rows before it, and a
  row it writes carries a known action, an outcome that is success or failure, a fresh id, the
  hash of its own content and the hash of the organization's last event.
\<close>

theorem RecordEvent_append_only:
  assumes "RecordEvent ft cfg c params s = (r, s')" and "exact_numbers (rp_Metadata params)"
  shows "(s' = s \<and> (r = Inr () \<longrightarrow> \<not> Enabled cfg))
    \<or> (\<exists>e. r = Inr () \<and> s' = s\<lparr>audit_events := audit_events s @ [e]\<rparr>
         \<and> ae_OrganizationID e = rp_OrganizationID params \<and> ae_Action e \<in> set (audit_vocabulary s)
         \<and> ae_Outcome e \<in> {''success'', ''failure''} \<and> ae_ID e \<notin> ae_ID ` set (audit_events s)
         \<and> VerifyIntegrity ft e
         \<and> ae_PreviousHash e = last_hash (rp_OrganizationID params) (audit_events s))"
proof -
  from assms(1) have "recordEvent ft cfg c False params s = (r, s')" by (simp add: RecordEvent_def)
  then show ?thesis
  proof (cases rule: recordEvent_cases)
    case unchanged
    then show ?thesis by blast
  next
    case (written h)
    let ?e1 = "(built_event c params)\<lparr>ae_PreviousHash := last_hash (rp_OrganizationID params) (audit_events s)\<rparr>"
    have "exact_numbers (ae_Metadata ?e1)" using assms(2) by (simp add: built_event_def Let_def)
    then have "VerifyIntegrity ft (stored (?e1\<lparr>ae_Hash := h\<rparr>))" using written(4) by (rule VerifyIntegrity_hashed)
    with written show ?thesis
      by (intro disjI2 exI [of _ "stored (?e1\<lparr>ae_Hash := h\<rparr>)"])
        (auto simp: stored_def built_event_def Let_def audit_IsValidOutcome_def)
  qed
qed

theorem RecordEvent_append_only_witness:
  "\<exists>s' e. RecordEvent (\<lambda>_. []) demo_cfg (demo_audit_ctx 100 0) demo_params
        \<lparr>audit_events = [], audit_vocabulary = [''case.created'']\<rparr> = (Inr (), s')
     \<and> audit_events s' = [e] \<and> VerifyIntegrity (\<lambda>_. []) e"
proof -
  let ?s = "\<lparr>audit_events = [], audit_vocabulary = [''case.created'']\<rparr>"
  obtain s' where r: "RecordEvent (\<lambda>_. []) demo_cfg (demo_audit_ctx 100 0) demo_params ?s = (Inr (), s')"
    "length (audit_events s') = Suc 0" using demo_record [of 100 ?s "\<lambda>_. []" 0] by auto
  from RecordEvent_append_only [OF r(1)] r show ?thesis by (auto simp: demo_params_def)
qed

subsection \<open>Tamper evidence\<close>

lemma split_left:
  "bar \<notin> set a \<Longrightarrow> bar \<notin> set b \<Longrightarrow> a @ ''|'' @ x = b @ ''|'' @ y \<Longrightarrow> a = b \<and> x = y"
proof (induction a arbitrary: b)
  case Nil
  then show ?case by (cases b) auto
next
  case (Cons c a)
  then show ?case by (cases b) auto
qed

lemma split_right:
  assumes "bar \<notin> set a" "bar \<notin> set b" "x @ ''|'' @ a = y @ ''|'' @ b"
  shows "a = b \<and> x = y"
proof -
  have "rev a @ ''|'' @ rev x = rev b @ ''|'' @ rev y"
    using arg_cong [OF assms(3), of rev] by simp
  from split_left [OF _ _ this] assms(1,2) show ?thesis by simp
qed

text \<open>Events whose text fields are free of the separator and whose identifiers and time are real.\<close>

definition separable :: "AuditEvent \<Rightarrow> bool" where
  "separable e \<longleftrightarrow> valid_uuid (ae_OrganizationID e)
     \<and> (case ae_ActorID e of None \<Rightarrow> True | Some a \<Rightarrow> valid_uuid a) \<and> four_digit_year (ae_Timestamp e)
     \<and> bar \<notin> set (ae_Action e) \<and> bar \<notin> set (ae_Resource e) \<and> bar \<notin> set (opt_text (ae_ResourceID e))
     \<and> bar \<notin> set (ae_Outcome e) \<and> bar \<notin> set (opt_text (ae_RequestID e))"

definition same_content :: "(rat \<Rightarrow> string) \<Rightarrow> AuditEvent \<Rightarrow> AuditEvent \<Rightarrow> bool" where
  "same_content ft e e' \<longleftrightarrow> ae_OrganizationID e = ae_OrganizationID e' \<and> ae_ActorID e = ae_ActorID e'
     \<and> ae_Action e = ae_Action e' \<and> ae_Resource e = ae_Resource e'
     \<and> opt_text (ae_ResourceID e) = opt_text (ae_ResourceID e') \<and> ae_Outcome e = ae_Outcome e'
     \<and> opt_text (ae_RequestID e) = opt_text (ae_RequestID e')
     \<and> json_text ft (ae_Metadata e) = json_text ft (ae_Metadata e')
     \<and> trunc_micros (ae_Timestamp e) = trunc_micros (ae_Timestamp e')"

lemma actor_text_no_bar: "bar \<notin> set (opt_text (map_option uuid_string a))"
  by (cases a) (simp_all add: opt_text_def uuid_string_no_bar)

lemma actor_text_inj:
  assumes "opt_text (map_option uuid_string a) = opt_text (map_option uuid_string b)"
    and "case a of None \<Rightarrow> True | Some u \<Rightarrow> valid_uuid u" "case b of None \<Rightarrow> True | Some u \<Rightarrow> valid_uuid u"
  shows "a = b"
  using assms uuid_string_length
  by (cases a; cases b) (auto simp: opt_text_def intro: uuid_string_inj dest: arg_cong [of _ _ length])

lemma hash_input_inj:
  assumes "hash_input e m = hash_input e' m'" "separable e" "separable e'"
    and "bar \<notin> set (opt_text (ae_PreviousHash e))" "bar \<notin> set (opt_text (ae_PreviousHash e'))"
    and "json_text ft (ae_Metadata e) = Some m" "json_text ft (ae_Metadata e') = Some m'"
  shows "same_content ft e e' \<and> opt_text (ae_PreviousHash e) = opt_text (ae_PreviousHash e')"
proof -
  note s = assms(2,3) [unfolded separable_def]
  define tail where "tail x n = n @ ''|'' @ format_micros (ae_Timestamp x) @ ''|'' @ opt_text (ae_PreviousHash x)" for x :: AuditEvent and n
  note h = assms(1) [unfolded hash_input_def, folded tail_def]
  have 1: "uuid_string (ae_OrganizationID e) = uuid_string (ae_OrganizationID e')"
    and h1: "opt_text (map_option uuid_string (ae_ActorID e)) @ ''|'' @ ae_Action e @ ''|'' @ ae_Resource e @ ''|''
      @ opt_text (ae_ResourceID e) @ ''|'' @ ae_Outcome e @ ''|'' @ opt_text (ae_RequestID e) @ ''|'' @ tail e m
      = opt_text (map_option uuid_string (ae_ActorID e')) @ ''|'' @ ae_Action e' @ ''|'' @ ae_Resource e' @ ''|''
      @ opt_text (ae_ResourceID e') @ ''|'' @ ae_Outcome e' @ ''|'' @ opt_text (ae_RequestID e') @ ''|'' @ tail e' m'"
    using split_left [OF uuid_string_no_bar uuid_string_no_bar h] by auto
  note h2 = split_left [OF actor_text_no_bar actor_text_no_bar h1]
  have a: "ae_ActorID e = ae_ActorID e'" using h2 s actor_text_inj by blast
  note h3 = split_left [OF _ _ conjunct2 [OF h2]]
  have 3: "ae_Action e = ae_Action e'" and r3: "ae_Resource e @ ''|''
      @ opt_text (ae_ResourceID e) @ ''|'' @ ae_Outcome e @ ''|'' @ opt_text (ae_RequestID e) @ ''|'' @ tail e m
      = ae_Resource e' @ ''|'' @ opt_text (ae_ResourceID e') @ ''|'' @ ae_Outcome e' @ ''|''
      @ opt_text (ae_RequestID e') @ ''|'' @ tail e' m'"
    using h3 s by blast+
  have 4: "ae_Resource e = ae_Resource e'" and r4: "opt_text (ae_ResourceID e) @ ''|'' @ ae_Outcome e @ ''|''
      @ opt_text (ae_RequestID e) @ ''|'' @ tail e m
      = opt_text (ae_ResourceID e') @ ''|'' @ ae_Outcome e' @ ''|'' @ opt_text (ae_RequestID e') @ ''|'' @ tail e' m'"
    using split_left [OF _ _ r3] s by blast+
  have 5: "opt_text (ae_ResourceID e) = opt_text (ae_ResourceID e')" and r5: "ae_Outcome e @ ''|''
      @ opt_text (ae_RequestID e) @ ''|'' @ tail e m
      = ae_Outcome e' @ ''|'' @ opt_text (ae_RequestID e') @ ''|'' @ tail e' m'"
    using split_left [OF _ _ r4] s by blast+
  have 6: "ae_Outcome e = ae_Outcome e'" and r6: "opt_text (ae_RequestID e) @ ''|'' @ tail e m
      = opt_text (ae_RequestID e') @ ''|'' @ tail e' m'"
    using split_left [OF _ _ r5] s by blast+
  have 7: "opt_text (ae_RequestID e) = opt_text (ae_RequestID e')" and r7: "tail e m = tail e' m'"
    using split_left [OF _ _ r6] s by blast+
  have 8: "opt_text (ae_PreviousHash e) = opt_text (ae_PreviousHash e')"
    and r8: "m @ ''|'' @ format_micros (ae_Timestamp e) = m' @ ''|'' @ format_micros (ae_Timestamp e')"
    using split_right [OF assms(4,5), of "m @ ''|'' @ format_micros (ae_Timestamp e)"
        "m' @ ''|'' @ format_micros (ae_Timestamp e')"] r7 by (simp_all add: tail_def)
  have "format_micros (ae_Timestamp e) = format_micros (ae_Timestamp e')" "m = m'"
    using split_right [OF format_micros_no_bar format_micros_no_bar r8] by auto
  with 1 a 3 4 5 6 7 8 s show ?thesis
    using assms(6,7) by (auto simp: same_content_def intro: uuid_string_inj format_micros_fields)
qed

text \<open>Every event but the first names a predecessor.\<close>

definition fully_chained :: "AuditEvent list \<Rightarrow> bool" where
  "fully_chained evs \<longleftrightarrow> evs \<noteq> [] \<and> ae_PreviousHash (hd evs) = None
     \<and> (\<forall>e \<in> set (tl evs). ae_PreviousHash e \<noteq> None)"

definition hash_inputs :: "(rat \<Rightarrow> string) \<Rightarrow> AuditEvent list \<Rightarrow> string set" where
  "hash_inputs ft evs = {hash_input e m | e m. e \<in> set evs \<and> json_text ft (ae_Metadata e) = Some m}"

lemma VerifyIntegrity_sha:
  "VerifyIntegrity ft e \<Longrightarrow> \<exists>m. json_text ft (ae_Metadata e) = Some m \<and> ae_Hash e = sha256_hex (hash_input e m)"
  by (auto simp: VerifyIntegrity_def ComputeHash_def split: option.splits sum.splits)

lemma fully_chained_snoc:
  "fully_chained (xs @ [e]) \<Longrightarrow> xs \<noteq> [] \<Longrightarrow> fully_chained xs \<and> ae_PreviousHash e \<noteq> None"
  by (cases xs) (auto simp: fully_chained_def)

text \<open>The text of the link of a last event: empty for the first event, else its predecessor's hash.\<close>

lemma last_link_text:
  assumes "linked ft None (xs @ [e])" "fully_chained (xs @ [e])"
  shows "opt_text (ae_PreviousHash e) = (if xs = [] then [] else ae_Hash (last xs))"
    "xs \<noteq> [] \<Longrightarrow> length (ae_Hash (last xs)) = 64" "bar \<notin> set (opt_text (ae_PreviousHash e))"
proof -
  have l: "linked ft None xs" "VerifyIntegrity ft e" "link_ok (last_link None xs) e"
    using assms(1) by (simp_all add: linked_append)
  show t: "opt_text (ae_PreviousHash e) = (if xs = [] then [] else ae_Hash (last xs))"
  proof (cases "xs = []")
    case True
    with assms(2) show ?thesis by (simp add: fully_chained_def opt_text_def)
  next
    case False
    with fully_chained_snoc [OF assms(2)] l(3) show ?thesis
      by (auto simp: link_ok_def last_link_def opt_text_def)
  qed
  have hash: "\<exists>i. ae_Hash (last xs) = sha256_hex i" if "xs \<noteq> []"
  proof -
    from that have "VerifyIntegrity ft (last xs)"
      using l(1) by (cases xs rule: rev_cases) (simp_all add: linked_append)
    then show ?thesis by (auto dest: VerifyIntegrity_sha)
  qed
  show "length (ae_Hash (last xs)) = 64" if "xs \<noteq> []" using hash [OF that] sha256_hex_length by auto
  show "bar \<notin> set (opt_text (ae_PreviousHash e))"
    using t hash sha256_hex_no_bar by (cases "xs = []") auto
qed

lemma chains_agree:
  assumes "linked ft None evs" "linked ft None evs'" "fully_chained evs" "fully_chained evs'"
    and "\<forall>e \<in> set evs \<union> set evs'. separable e"
    and "ae_Hash (last evs) = ae_Hash (last evs')"
    and "inj_on sha256_hex (hash_inputs ft evs \<union> hash_inputs ft evs')"
  shows "list_all2 (same_content ft) evs evs'"
  using assms
proof (induction evs arbitrary: evs' rule: rev_induct)
  case Nil
  then show ?case by (simp add: fully_chained_def)
next
  case (snoc e xs)
  from snoc.prems(4) obtain ys e' where ys: "evs' = ys @ [e']"
    by (cases evs' rule: rev_cases) (auto simp: fully_chained_def)
  note l = snoc.prems(1) and l' = snoc.prems(2) [unfolded ys]
    and f = snoc.prems(3) and f' = snoc.prems(4) [unfolded ys]
  have "VerifyIntegrity ft e" "VerifyIntegrity ft e'" using l l' by (simp_all add: linked_append)
  then obtain m m' where m: "json_text ft (ae_Metadata e) = Some m" "ae_Hash e = sha256_hex (hash_input e m)"
    and m': "json_text ft (ae_Metadata e') = Some m'" "ae_Hash e' = sha256_hex (hash_input e' m')"
    using VerifyIntegrity_sha by blast
  have "hash_input e m \<in> hash_inputs ft (xs @ [e]) \<union> hash_inputs ft evs'"
    "hash_input e' m' \<in> hash_inputs ft (xs @ [e]) \<union> hash_inputs ft evs'"
    using m(1) m'(1) by (auto simp: hash_inputs_def ys)
  then have eq: "hash_input e m = hash_input e' m'"
    using snoc.prems(6,7) m(2) m'(2) by (auto simp: ys dest: inj_onD)
  have "same_content ft e e' \<and> opt_text (ae_PreviousHash e) = opt_text (ae_PreviousHash e')"
    using snoc.prems(5) ys last_link_text(3) [OF l f] last_link_text(3) [OF l' f'] m(1) m'(1)
    by (intro hash_input_inj [OF eq]) auto
  then have c: "same_content ft e e'" and p: "opt_text (ae_PreviousHash e) = opt_text (ae_PreviousHash e')" by auto
  have "xs = [] \<longleftrightarrow> ys = []"
    using p last_link_text(1,2) [OF l f] last_link_text(1,2) [OF l' f'] by (auto split: if_splits)
  show ?case
  proof (cases "xs = []")
    case True
    with \<open>xs = [] \<longleftrightarrow> ys = []\<close> c ys show ?thesis by simp
  next
    case False
    then have "ys \<noteq> []" using \<open>xs = [] \<longleftrightarrow> ys = []\<close> by simp
    have "list_all2 (same_content ft) xs ys"
    proof (rule snoc.IH)
      show "linked ft None xs" "linked ft None ys" using l l' by (simp_all add: linked_append)
      show "fully_chained xs" "fully_chained ys"
        using fully_chained_snoc [OF f False] fully_chained_snoc [OF f' \<open>ys \<noteq> []\<close>] by auto
      show "\<forall>e \<in> set xs \<union> set ys. separable e" using snoc.prems(5) ys by auto
      show "ae_Hash (last xs) = ae_Hash (last ys)"
        using p last_link_text(1) [OF l f] last_link_text(1) [OF l' f'] False \<open>ys \<noteq> []\<close> by simp
      have "hash_inputs ft xs \<union> hash_inputs ft ys \<subseteq> hash_inputs ft (xs @ [e]) \<union> hash_inputs ft evs'"
        using ys by (auto simp: hash_inputs_def)
      then show "inj_on sha256_hex (hash_inputs ft xs \<union> hash_inputs ft ys)"
        using snoc.prems(7) by (rule inj_on_subset [rotated])
    qed
    with c ys show ?thesis by (simp add: list_all2_appendI)
  qed
qed

text \<open>
  C29: tamper evidence, under three conditions. Take two chains of events that both pass
  VerifyChain and end in the same hash. If in both the first event names no predecessor and every
  later one names one (VerifyChain accepts later events that name none), if no field but the
  metadata contains the separator of the hashed text and ids and years have their usual width (otherwise different
  fields can give the same text, see \<open>hash_input_ambiguous\<close>), and if SHA-256 does not collide on the
  texts that were hashed, then the chains have the same length and agree event by event on
  organization, actor, action, resource, outcome, request, rendered metadata and time to the
  microsecond.
\<close>

theorem audit_trail_tamper_evident:
  assumes "VerifyChain ft (map Some evs) = (n, 0, None)" and "VerifyChain ft (map Some evs') = (n', 0, None)"
    and "fully_chained evs" and "fully_chained evs'"
    and "\<forall>e \<in> set evs \<union> set evs'. separable e"
    and "ae_Hash (last evs) = ae_Hash (last evs')"
    and "inj_on sha256_hex (hash_inputs ft evs \<union> hash_inputs ft evs')"
  shows "length evs = length evs' \<and> list_all2 (same_content ft) evs evs'"
proof -
  have "linked ft None evs" "linked ft None evs'"
    using VerifyChain_broken [of ft evs] VerifyChain_broken [of ft evs'] assms(1,2) by auto
  from chains_agree [OF this assms(3-7)] show ?thesis by (simp add: list_all2_lengthD)
qed

theorem audit_trail_tamper_evident_witness:
  "let e = demo_row 1 0 (sha256_hex (hash_input (demo_row 1 0 []) ''null'')); e' = e\<lparr>ae_ID := 2\<rparr>
   in e \<noteq> e' \<and> same_content (\<lambda>_. []) e e'"
proof -
  let ?e = "demo_row 1 0 (sha256_hex (hash_input (demo_row 1 0 []) ''null''))"
  let ?e' = "?e\<lparr>ae_ID := 2\<rparr>"
  have same: "hash_input ?e ''null'' = hash_input (demo_row 1 0 []) ''null''" "hash_input ?e' ''null'' = hash_input (demo_row 1 0 []) ''null''"
    by (simp_all add: hash_input_def demo_row_def)
  then have "VerifyIntegrity (\<lambda>_. []) ?e" "VerifyIntegrity (\<lambda>_. []) ?e'"
    by (simp_all add: VerifyIntegrity_def ComputeHash_def) (simp_all add: demo_row_def)
  then have v: "VerifyChain (\<lambda>_. []) (map Some [?e]) = (1, 0, None)" "VerifyChain (\<lambda>_. []) (map Some [?e']) = (1, 0, None)"
    by (simp_all add: VerifyChain_def demo_row_def)
  have f: "fully_chained [?e]" "fully_chained [?e']" by (simp_all add: fully_chained_def demo_row_def)
  have s: "\<forall>e \<in> set [?e] \<union> set [?e']. separable e"
    by (simp add: separable_def demo_row_def opt_text_def valid_uuid_def four_digit_year_def epoch_days_def
        days_before_year.simps)
  have h: "ae_Hash (last [?e]) = ae_Hash (last [?e'])" by simp
  have i: "inj_on sha256_hex (hash_inputs (\<lambda>_. []) [?e] \<union> hash_inputs (\<lambda>_. []) [?e'])"
    using same by (auto simp: inj_on_def hash_inputs_def demo_row_def)
  have "?e \<noteq> ?e'" by (simp add: demo_row_def)
  with audit_trail_tamper_evident [OF v f s h i] show ?thesis by (simp add: Let_def)
qed

text \<open>
  the separator does not separate: two events that differ in their resource and resource
  id have the same hash when a field contains the separator, so the content of a row can be
  changed this way without verification noticing.
\<close>

theorem hash_input_ambiguous:
  "ComputeHash ft \<lparr>ae_ID = i, ae_OrganizationID = u, ae_ActorID = a, ae_Action = act, ae_Resource = ''x|y'',
      ae_ResourceID = Some ''z'', ae_Outcome = oc, ae_RequestID = rq, ae_Metadata = md, ae_Timestamp = t,
      ae_PreviousHash = p, ae_Hash = h\<rparr>
   = ComputeHash ft \<lparr>ae_ID = j, ae_OrganizationID = u, ae_ActorID = a, ae_Action = act, ae_Resource = ''x'',
      ae_ResourceID = Some ''y|z'', ae_Outcome = oc, ae_RequestID = rq, ae_Metadata = md, ae_Timestamp = t,
      ae_PreviousHash = p, ae_Hash = h\<rparr>"
  by (simp add: ComputeHash_def hash_input_def opt_text_def split: option.split)

end
