(* ===== verification/Form_Properties.thy ===== *)
theory Form_Properties
  imports Case_Sample
begin

section \<open>Properties of forms\<close>

text \<open>
  The theorems about the form service: what a published version keeps, what the readers of
  active forms rely on, what publishing does, and the race that the status check outside the
  transaction leaves open.
\<close>

subsection \<open>Sorting\<close>

lemma sort_key_head:
  assumes "x \<in> set xs" "\<And>y. y \<in> set xs \<Longrightarrow> y \<noteq> x \<Longrightarrow> k x < k y"
  shows "\<exists>rest. sort_key k xs = x # rest"
proof (cases "sort_key k xs")
  case Nil
  then show ?thesis using assms(1) by (metis empty_iff set_empty set_sort)
next
  case (Cons y rest)
  have s: "sorted (map k (y # rest))" using sorted_sort_key [of k xs] Cons by simp
  have "x \<in> set (y # rest)" "y \<in> set xs" using assms(1) Cons set_sort [of k xs] by auto
  then have "k y \<le> k x" using s by auto
  then have "y = x" using assms(2) [OF \<open>y \<in> set xs\<close>] by (meson not_le)
  then show ?thesis using Cons by simp
qed

subsection \<open>Published versions\<close>

text \<open>
  C14. When the form service serves its requests one after the other, a version of a form never
  changes again once it is published: whatever the requests are, the version keeps its identity,
  its form, its number and its status, and reading its fields gives the same list. Requests that
  have read the version before it was published and write after it are left out:
  \<open>stale_field_enters_published_version\<close> shows what they can do.
\<close>

theorem published_version_frozen:
  assumes g: "growing_auditor auditor" and r: "forms_reachable re lower auditor s"
    and steps: "(form_step re lower auditor)\<^sup>*\<^sup>* s s'"
    and v: "v \<in> set (form_versions s)" "fv_Status v = FormVersionStatusPublished"
  shows "\<exists>w \<in> set (form_versions s'). fv_ID w = fv_ID v \<and> FormID w = FormID v
     \<and> fv_OrganizationID w = fv_OrganizationID v \<and> fv_Version w = fv_Version v
     \<and> fv_Status w = FormVersionStatusPublished
     \<and> FindByVersion orgID (fv_ID v) s' = FindByVersion orgID (fv_ID v) s"
proof -
  note rec = form_recorder.intro [OF g]
  have "forms_ok (form_part s)" by (rule form_recorder.forms_reachable_ok [OF rec r])
  with steps have "step_ok s s'"
  proof (induction rule: rtranclp_induct)
    case base
    then show ?case by (rule step_ok_refl)
  next
    case (step y z)
    then show ?case
      using form_recorder.form_step_ok [OF rec] freezing.trans unfolding step_ok_def by blast
  qed
  then obtain w where "w \<in> set (form_versions s')" "same_version v w" "version_fields s' w = version_fields s v"
    using v by (auto simp: step_ok_def freezes_def)
  moreover from this have "FindByVersion orgID (fv_ID v) s' = FindByVersion orgID (fv_ID v) s"
    using FindByVersion_fields [of w v orgID s'] FindByVersion_fields [of v v orgID s] by (simp add: same_version_def)
  ultimately show ?thesis unfolding same_version_def by blast
qed

lemma published_version_frozen_witness:
  "\<exists>v. form_versions case6 = [v] \<and> (\<exists>w \<in> set (form_versions case9). fv_Version w = fv_Version v
     \<and> FindByVersion 7 400 case9 = FindByVersion 7 400 case6)"
proof -
  have steps: "(form_step any_regexp id None)\<^sup>*\<^sup>* case6 case9" using form_steps by (meson converse_rtranclp_into_rtranclp rtranclp.rtrancl_refl)
  obtain v where v: "form_versions case6 = [v]" "fv_Status v = FormVersionStatusPublished" "fv_ID v = 400"
    by (simp add: case6_rows version_row4_def)
  then show ?thesis
    using published_version_frozen [OF no_auditor_grows forms_reachable6 steps, of v 7] by auto
qed

text \<open>
  The status of the version is read before the transaction starts. A request to add a field
  that was checked before the publication still adds it afterwards: the freeze above needs
  requests that are served one after the other.
\<close>

definition late_field :: AddFieldParams where
  "late_field = sample_field\<lparr>af_Key := ''late''\<rparr>"

lemma stale_field_enters_published_version:
  "\<exists>f s'. AddField any_regexp id None (sample_ctx 11) case5 late_field case6 = (Inr f, s')
     \<and> FindByVersion 7 400 s' = FindByVersion 7 400 case6 @ [f\<lparr>DefaultValue := Some []\<rparr>]
     \<and> (\<exists>v. form_versions s' = [v] \<and> fv_Status v = FormVersionStatusPublished)"
  by (simp add: AddField_def form_eval late_field_def sample_field_def ValidateFieldKey_def ToLower_def is_ascii_def
    ascii_lower_def of_char_def ValidateField_def ValidateFieldLabel_def ValidateFieldType_def IsValidFieldType_def
    ValidateFieldValidation_def FindByVersion_def field_order_def NewFormField_def field_Save_def field_row_def
    decoded_facts_def int4_def case6_eval del: set_sort set_filter)

subsection \<open>Active forms\<close>

text \<open>What FindActiveVersion finds: the published version with the largest number.\<close>

lemma FindActiveVersion_newest:
  assumes "v \<in> set (form_versions s)" "FormID v = formID" "fv_OrganizationID v = orgID"
    "fv_Status v = FormVersionStatusPublished"
    "\<And>w. w \<in> set (form_versions s) \<Longrightarrow> FormID w = formID \<Longrightarrow> fv_OrganizationID w = orgID
       \<Longrightarrow> fv_Status w = FormVersionStatusPublished \<Longrightarrow> w \<noteq> v \<Longrightarrow> fv_Version w < fv_Version v"
  shows "FindActiveVersion orgID formID s = Inr v"
proof -
  have "\<exists>rest. sort_key (\<lambda>v. - fv_Version v) (filter (\<lambda>v. FormID v = formID \<and> fv_OrganizationID v = orgID
      \<and> fv_Status v = FormVersionStatusPublished) (form_versions s)) = v # rest"
    by (rule sort_key_head) (use assms in auto)
  then show ?thesis by (auto simp: FindActiveVersion_def newest_version_def row_or_def)
qed

lemma FindActiveVersion_Inr:
  "FindActiveVersion orgID formID s = Inr v \<Longrightarrow> v \<in> set (form_versions s) \<and> FormID v = formID
     \<and> fv_OrganizationID v = orgID \<and> fv_Status v = FormVersionStatusPublished"
  unfolding FindActiveVersion_def newest_version_def by (drule row_or_sorted_mem) simp

lemma FindActiveVersion_some:
  "has_published (form_versions s) f \<Longrightarrow> \<exists>v. FindActiveVersion (fm_OrganizationID f) (fm_ID f) s = Inr v"
  by (cases "FindActiveVersion (fm_OrganizationID f) (fm_ID f) s")
    (auto simp: FindActiveVersion_def newest_version_def row_or_Inl has_published_def filter_empty_conv simp flip: set_empty)

definition offered :: "uuid \<Rightarrow> 's form_db_scheme \<Rightarrow> Form \<Rightarrow> FormFieldView \<Rightarrow> bool" where
  "offered orgID s form w \<longleftrightarrow> fm_Status form = FormStatusActive
     \<and> (\<exists>v \<in> set (form_versions s). FormID v = fm_ID form \<and> fv_OrganizationID v = orgID
          \<and> fv_Status v = FormVersionStatusPublished
          \<and> (\<exists>f \<in> set (form_fields s). FormVersionID f = fv_ID v \<and> w = field_view form f))"

lemma discoverable_Inr:
  assumes "\<And>f. f \<in> set F \<Longrightarrow> fm_Status f = FormStatusActive \<Longrightarrow> \<exists>v. FindActiveVersion orgID (fm_ID f) s = Inr v"
  shows "\<exists>views. discoverable orgID s F = Inr views \<and> (\<forall>w \<in> set views. \<exists>f \<in> set F. offered orgID s f w)"
  using assms
proof (induction F)
  case (Cons f F)
  then obtain views where IH: "discoverable orgID s F = Inr views" "\<forall>w \<in> set views. \<exists>f \<in> set F. offered orgID s f w"
    by auto
  show ?case
  proof (cases "fm_Status f = FormStatusActive")
    case True
    then obtain v where v: "FindActiveVersion orgID (fm_ID f) s = Inr v" using Cons.prems by auto
    have "offered orgID s f (field_view f l)" if "l \<in> set (FindByVersion orgID (fv_ID v) s)" for l
      using FindActiveVersion_Inr [OF v] that True
      by (auto simp: offered_def FindByVersion_def field_order_def)
    then show ?thesis using IH v True by auto
  qed (use IH in auto)
qed simp

text \<open>
  The list of discoverable fields never fails: in every reachable store each of the first
  200 forms that is active has a published version, which is what the loop would stop at. Every
  entry it returns is a field of a published version of an active form of the organization.
\<close>

theorem discoverable_fields_never_fail:
  assumes g: "growing_auditor auditor" and r: "forms_reachable re lower auditor s"
  shows "\<exists>views. ListDiscoverableFields orgID s = Inr views
     \<and> (\<forall>w \<in> set views. \<exists>form \<in> set (forms s). fm_OrganizationID form = orgID \<and> fm_Status form = FormStatusActive
          \<and> (\<exists>v \<in> set (form_versions s). FormID v = fm_ID form \<and> fv_Status v = FormVersionStatusPublished
               \<and> (\<exists>f \<in> set (form_fields s). FormVersionID f = fv_ID v \<and> w = field_view form f)))"
proof -
  have ok: "forms_ok (forms s, form_versions s, form_fields s)"
    using form_recorder.forms_reachable_ok [OF form_recorder.intro [OF g] r] by (simp add: form_part_def)
  let ?page = "take 200 (sort_key (\<lambda>f. - fm_CreatedAt f) (filter (\<lambda>f. fm_OrganizationID f = orgID) (forms s)))"
  have page: "f \<in> set (forms s) \<and> fm_OrganizationID f = orgID" if "f \<in> set ?page" for f
    using set_take_subset [of 200] that by fastforce
  have "\<exists>v. FindActiveVersion orgID (fm_ID f) s = Inr v" if "f \<in> set ?page" "fm_Status f = FormStatusActive" for f
    using FindActiveVersion_some [OF forms_okD(9) [OF ok, of f]] page [OF that(1)] that(2) by simp
  then obtain views where d: "discoverable orgID s ?page = Inr views" "\<forall>w \<in> set views. \<exists>f \<in> set ?page. offered orgID s f w"
    using discoverable_Inr [of ?page orgID s] by blast
  have "form_List orgID 200 0 s = Inr (?page, length (filter (\<lambda>f. fm_OrganizationID f = orgID) (forms s)))"
    by (simp add: form_List_def Let_def limit_offset_def)
  then have "ListDiscoverableFields orgID s = Inr views" using d(1) by (simp add: ListDiscoverableFields_def)
  moreover have "\<exists>form \<in> set (forms s). fm_OrganizationID form = orgID \<and> fm_Status form = FormStatusActive
          \<and> (\<exists>v \<in> set (form_versions s). FormID v = fm_ID form \<and> fv_Status v = FormVersionStatusPublished
               \<and> (\<exists>f \<in> set (form_fields s). FormVersionID f = fv_ID v \<and> w = field_view form f))" if "w \<in> set views" for w
  proof -
    obtain f where "f \<in> set ?page" "offered orgID s f w" using d(2) \<open>w \<in> set views\<close> by blast
    then show ?thesis using page [of f] unfolding offered_def by blast
  qed
  ultimately show ?thesis by blast
qed

lemma discoverable_fields_never_fail_witness:
  "\<exists>views. ListDiscoverableFields 7 case6 = Inr views"
  using discoverable_fields_never_fail [OF no_auditor_grows forms_reachable6, of 7] by blast

subsection \<open>Publishing\<close>

lemma sort_key_head_least: "sort_key k xs = y # rest \<Longrightarrow> x \<in> set xs \<Longrightarrow> k y \<le> k x"
proof -
  assume s: "sort_key k xs = y # rest" "x \<in> set xs"
  then have "sorted (map k (y # rest))" "x \<in> set (y # rest)"
    using sorted_sort_key [of k xs] set_sort [of k xs] by auto
  then show "k y \<le> k x" by auto
qed

lemma FindActiveVersion_max:
  assumes "FindActiveVersion orgID formID s = Inr a" "u \<in> set (form_versions s)" "FormID u = formID"
    "fv_OrganizationID u = orgID" "fv_Status u = FormVersionStatusPublished"
  shows "fv_Version u \<le> fv_Version a"
proof -
  obtain rest where "sort_key (\<lambda>v. - fv_Version v) (filter (\<lambda>v. FormID v = formID \<and> fv_OrganizationID v = orgID
      \<and> fv_Status v = FormVersionStatusPublished) (form_versions s)) = a # rest"
    using assms(1) by (auto simp: FindActiveVersion_def newest_version_def row_or_Inr)
  from sort_key_head_least [OF this, of u] show ?thesis using assms(2-) by simp
qed

lemma optional_active_le:
  assumes "optional dErrFormVersionNotFound msg (FindActiveVersion orgID formID s) = Inr active"
    "case active of None \<Rightarrow> True | Some a \<Rightarrow> fv_Version a \<le> n"
    "u \<in> set (form_versions s)" "FormID u = formID" "fv_OrganizationID u = orgID" "fv_Status u = FormVersionStatusPublished"
  shows "fv_Version u \<le> n"
proof (cases "FindActiveVersion orgID formID s")
  case (Inl e)
  then have "filter (\<lambda>v. FormID v = formID \<and> fv_OrganizationID v = orgID
      \<and> fv_Status v = FormVersionStatusPublished) (form_versions s) = []"
    by (simp add: FindActiveVersion_def newest_version_def row_or_Inl) (metis set_empty set_sort)
  then show ?thesis using assms(3-) by (auto simp: filter_empty_conv)
next
  case (Inr a)
  then show ?thesis using assms(1,2) FindActiveVersion_max [OF Inr assms(3-)] by (simp add: optional_Inr)
qed

lemma filter_update_where: "(\<And>r. p (f r) = p r) \<Longrightarrow> filter p (update_where p f rows) = map f (filter p rows)"
  by (induction rows) (simp_all add: update_where_def)

text \<open>
  Publishing a version makes it the one that is found as active, and its form active (an
  archived one too): the version was a draft, no published version of the form has a larger
  number, and the other versions stay as they were.
\<close>

theorem publishing_activates:
  assumes g: "growing_auditor auditor" and r: "forms_reachable re lower auditor s"
    and run: "PublishVersion auditor c s orgID versionID actorID s = (Inr v, s')"
  shows "\<exists>old w form. version_FindByID orgID versionID s = Inr old \<and> fv_Status old = FormVersionStatusDraft
     \<and> FindActiveVersion orgID (FormID old) s' = Inr w \<and> fv_ID w = versionID \<and> fv_Version w = fv_Version old
     \<and> form_FindByID orgID (FormID old) s' = Inr form \<and> fm_Status form = FormStatusActive
     \<and> (\<forall>u \<in> set (form_versions s). fv_ID u = versionID \<or> u \<in> set (form_versions s'))"
proof (rule form_recorder.PublishVersion_Inr [OF form_recorder.intro [OF g] run])
  fix old and form :: Form and active s1 s2
  assume old: "version_FindByID orgID versionID s = Inr old" "fv_Status old = FormVersionStatusDraft"
    and form: "form_FindByID orgID (FormID old) s = Inr form"
    and active: "optional dErrFormVersionNotFound ''failed to check active version'' (FindActiveVersion orgID (FormID old) s) = Inr active"
      "case active of None \<Rightarrow> True | Some a \<Rightarrow> fv_Version a \<le> fv_Version old"
    and v: "v = published c old" and s1: "version_Save v s = (Inr (), s1)"
    and s2: "form_Update (ctx_time c 1) orgID (FormID old)
       (form\<lparr>fm_Status := FormStatusActive, fm_UpdatedAt := ctx_time c 0\<rparr>) s1 = (Inr (), s2)"
    and s': "audit_grows s2 s'"
  have ok: "forms_ok (forms s, form_versions s, form_fields s)"
    using form_recorder.forms_reachable_ok [OF form_recorder.intro [OF g] r] by (simp add: form_part_def)
  have o': "old \<in> set (form_versions s)" "fv_OrganizationID old = orgID" "fv_ID old = versionID"
    using version_FindByID_Inr [OF old(1)] by auto
  have "form_part s1 = (forms s, map (publish_row v) (form_versions s), form_fields s)"
    using form_recorder.publish_part [OF form_recorder.intro [OF g]] s1 o'(1) unfolding v by blast
  then have V: "form_versions s' = map (publish_row v) (form_versions s)"
    and F: "forms s' = update_where (\<lambda>f. fm_OrganizationID f = orgID \<and> fm_ID f = FormID old)
      (\<lambda>f. f\<lparr>fm_Name := fm_Name form, fm_Description := fm_Description form, fm_Status := FormStatusActive,
             fm_UpdatedAt := ctx_time c 1\<rparr>) (forms s)"
    using audit_grows_part [OF s'] s2 by (auto simp: form_part_def form_Update_Inr)
  have vid: "fv_ID v = versionID" using v o' by (simp add: published_def)
  let ?w = "publish_row v old"
  have "FindActiveVersion orgID (FormID old) s' = Inr ?w"
  proof (rule FindActiveVersion_newest)
    show "?w \<in> set (form_versions s')" using V o' by simp
    fix x assume x: "x \<in> set (form_versions s')" "FormID x = FormID old" "fv_OrganizationID x = orgID"
      "fv_Status x = FormVersionStatusPublished" "x \<noteq> ?w"
    from x(1) obtain u0 where "u0 \<in> set (form_versions s)" "x = publish_row v u0" unfolding V by auto
    then obtain u where u: "u \<in> set (form_versions s)" "x = publish_row v u" "FormID u = FormID old"
      "fv_OrganizationID u = orgID" "u \<noteq> old" using x(2-) that [of u0] by auto
    then have "fv_ID u \<noteq> versionID" using by_distinct_key [OF forms_okD(3) [OF ok], of u old] o' by auto
    then have "fv_Status u = FormVersionStatusPublished"
      using \<open>fv_Status x = FormVersionStatusPublished\<close> u(2) vid by (simp add: publish_row_def)
    then have "fv_Version u \<le> fv_Version old" using optional_active_le [OF active] u by blast
    moreover have "fv_Version u \<noteq> fv_Version old"
      using by_distinct_key [OF forms_okD(4) [OF ok], of u old] u o' by auto
    ultimately show "fv_Version x < fv_Version ?w" using u(2) by simp
  qed (use o' vid in \<open>simp_all add: publish_row_def\<close>)
  moreover have "\<exists>f. form_FindByID orgID (FormID old) s' = Inr f \<and> fm_Status f = FormStatusActive"
  proof -
    have "form_FindByID orgID (FormID old) s' = row_or dErrFormNotFound
        (map (\<lambda>f. f\<lparr>fm_Name := fm_Name form, fm_Description := fm_Description form, fm_Status := FormStatusActive,
           fm_UpdatedAt := ctx_time c 1\<rparr>) (filter (\<lambda>f. fm_OrganizationID f = orgID \<and> fm_ID f = FormID old) (forms s)))"
      unfolding form_FindByID_def F by (subst filter_update_where) simp_all
    then show ?thesis using form by (auto simp: form_FindByID_def row_or_def split: list.splits)
  qed
  moreover have "fv_ID u = versionID \<or> u \<in> set (form_versions s')" if "u \<in> set (form_versions s)" for u
    using that vid unfolding V by (force simp: publish_row_def image_iff)
  ultimately show ?thesis using old o' by (intro exI [of _ old] exI [of _ ?w]) auto
qed

lemma publishing_activates_witness:
  "\<exists>w form. FindActiveVersion 7 300 case6 = Inr w \<and> fv_ID w = 400 \<and> form_FindByID 7 300 case6 = Inr form
     \<and> fm_Status form = FormStatusActive"
proof -
  obtain v old where v: "PublishVersion None (sample_ctx 6) case5 7 400 8 case5 = (Inr v, case6)"
    "version_FindByID 7 400 case5 = Inr old" "FormID old = 300"
  proof -
    have "\<exists>v. PublishVersion None (sample_ctx 6) case5 7 400 8 case5 = (Inr v, case6)"
      by (simp add: PublishVersion_def form_eval ValidateVersionStatusTransition_def FindActiveVersion_def
        newest_version_def published_def version_Save_def form_Update_def stored_published_at_def case6_eval)
    then show thesis using that by (auto simp: version_FindByID_def row_or_def case6_eval)
  qed
  then show ?thesis using publishing_activates [OF no_auditor_grows forms_reachable5 v(1)] by auto
qed

end
