(* ===== verification/Intake_Runs.thy ===== *)
theory Intake_Runs
  imports Case_Effects Form_Runs
begin

section \<open>Forms, their assignments and their submissions\<close>

text \<open>
  Runs of the form service, the assignment service and the submission of forms together. What
  an assignment or a submission was checked against stays true, because a published version is
  frozen (\<open>Form_Runs.freezes\<close>).
\<close>

subsection \<open>The invariant\<close>

abbreviation published_at :: "uuid \<Rightarrow> uuid \<Rightarrow> uuid \<Rightarrow> 's form_db_scheme \<Rightarrow> bool" where
  "published_at orgID formID versionID s \<equiv> \<exists>v \<in> set (form_versions s). fv_ID v = versionID \<and> FormID v = formID
     \<and> fv_OrganizationID v = orgID \<and> fv_Status v = FormVersionStatusPublished"

definition state_of :: "WorkflowStateFormAssignment \<Rightarrow> uuid \<times> uuid \<times> string" where
  "state_of a = (fa_TenantID a, fa_WorkflowDefinitionID a, WorkflowStateKey a)"

lemma same_state_of: "same_state a b \<longleftrightarrow> state_of a = state_of b"
  by (simp add: same_state_def state_of_def)

definition assignments_ok :: "'s form_db_scheme \<Rightarrow> bool" where
  "assignments_ok s \<longleftrightarrow> (let A = form_assignments s in
     (\<forall>a \<in> set A. published_at (fa_TenantID a) (fa_FormID a) (fa_FormVersionID a) s)
     \<and> distinct (map fa_ID A) \<and> distinct (map (\<lambda>a. (state_of a, fa_FormVersionID a)) A)
     \<and> distinct (map (\<lambda>a. (state_of a, fa_DisplayOrder a)) A))"

definition validated :: "regexp \<Rightarrow> 's form_db_scheme \<Rightarrow> FormSubmission \<Rightarrow> bool" where
  "validated re s x \<longleftrightarrow> (\<exists>data. sb_Data x = decoded_facts data
     \<and> validateSubmissionData re data (FindByVersion (sb_TenantID x) (sb_FormVersionID x) s) = None)"

definition submission_key :: "FormSubmission \<Rightarrow> uuid \<times> uuid \<times> uuid" where
  "submission_key x = (sb_TenantID x, sb_CaseID x, sb_FormVersionID x)"

definition submissions_ok :: "regexp \<Rightarrow> 's form_db_scheme \<Rightarrow> bool" where
  "submissions_ok re s \<longleftrightarrow> (let B = form_submissions s in
     (\<forall>x \<in> set B. published_at (sb_TenantID x) (sb_FormID x) (sb_FormVersionID x) s \<and> validated re s x)
     \<and> distinct (map sb_ID B) \<and> distinct (map submission_key B))"

definition intake_ok :: "regexp \<Rightarrow> 's form_db_scheme \<Rightarrow> bool" where
  "intake_ok re s \<longleftrightarrow> forms_ok (form_part s) \<and> assignments_ok s \<and> submissions_ok re s"

text \<open>Freezing keeps what assignments and submissions rely on.\<close>

lemma published_at_kept: "freezes s s' \<Longrightarrow> published_at orgID formID i s \<Longrightarrow> published_at orgID formID i s'"
  unfolding freezes_def same_version_def by metis

lemma fields_kept:
  assumes "freezes s s'" "published_at orgID formID i s"
  shows "FindByVersion tenantID i s' = FindByVersion tenantID i s"
proof -
  obtain v where v: "v \<in> set (form_versions s)" "fv_ID v = i" "fv_Status v = FormVersionStatusPublished" using assms(2) by blast
  then obtain w where w: "fv_ID w = fv_ID v" "version_fields s' w = version_fields s v"
    using assms(1) by (auto simp: freezes_def same_version_def)
  show ?thesis
    using FindByVersion_fields [of w v tenantID s'] FindByVersion_fields [of v v tenantID s] w v(2) by simp
qed

definition intake_part :: "'s form_db_scheme \<Rightarrow> WorkflowStateFormAssignment list \<times> FormSubmission list" where
  "intake_part s = (form_assignments s, form_submissions s)"

lemma intake_ok_frozen:
  assumes ok: "intake_ok re s" and step: "step_ok s s'" and same: "intake_part s' = intake_part s"
  shows "intake_ok re s'"
proof -
  have f: "freezes s s'" and t: "form_assignments s' = form_assignments s" "form_submissions s' = form_submissions s"
    using step same by (simp_all add: step_ok_def intake_part_def)
  have "assignments_ok s'"
    using ok published_at_kept [OF f] unfolding intake_ok_def assignments_ok_def Let_def t by blast
  moreover have "validated re s' x" if "x \<in> set (form_submissions s)" for x
    using ok that fields_kept [OF f] unfolding intake_ok_def submissions_ok_def validated_def Let_def by metis
  then have "submissions_ok re s'"
    using ok published_at_kept [OF f] unfolding intake_ok_def submissions_ok_def Let_def t by blast
  ultimately show ?thesis using step by (simp add: intake_ok_def step_ok_def)
qed

subsection \<open>Changes of assignments and submissions\<close>

lemma update_where_none: "(\<And>r. r \<in> set rows \<Longrightarrow> \<not> p r) \<Longrightarrow> update_where p f rows = rows"
  by (simp add: update_where_def map_idI)

lemma distinct_update_one:
  assumes "distinct (map k rows)" "\<And>x y. x \<in> set rows \<Longrightarrow> y \<in> set rows \<Longrightarrow> p x \<Longrightarrow> p y \<Longrightarrow> x = y" "distinct rows"
    and "\<And>x y. x \<in> set rows \<Longrightarrow> y \<in> set rows \<Longrightarrow> p x \<Longrightarrow> \<not> p y \<Longrightarrow> k (f x) \<noteq> k y"
  shows "distinct (map k (update_where p f rows))"
  using assms
proof (induction rows)
  case (Cons r rows)
  show ?case
  proof (cases "p r")
    case True
    then have no: "\<not> p y" if "y \<in> set rows" for y using Cons.prems(2) [of r y] Cons.prems(3) that by auto
    then have "update_where p f rows = rows" by (simp add: update_where_none)
    moreover have "k (f r) \<notin> k ` set rows" using Cons.prems(4) [of r] True no by auto
    ultimately show ?thesis using Cons.prems(1) True by (simp add: update_where_def)
  next
    case False
    have "k r \<notin> k ` set (update_where p f rows)"
    proof
      assume "k r \<in> k ` set (update_where p f rows)"
      then obtain y where "y \<in> set rows" "k r = k (if p y then f y else y)" by (auto simp: update_where_def)
      then show False using Cons.prems(1) Cons.prems(4) [of y r] False by (auto split: if_splits)
    qed
    moreover have "update_where p f (r # rows) = r # update_where p f rows" using False by (simp add: update_where_def)
    moreover have "distinct (map k (update_where p f rows))" using Cons.prems by (intro Cons.IH) auto
    ultimately show ?thesis by simp
  qed
qed (simp add: update_where_def)

lemma same_forms:
  assumes "form_part s' = form_part s"
  shows "form_versions s' = form_versions s" "FindByVersion t i s' = FindByVersion t i s" "validated re s' x = validated re s x"
  using assms by (simp_all add: form_part_def FindByVersion_def validated_def)

lemma intake_ok_assignments:
  assumes ok: "intake_ok re s" and same: "form_part s' = form_part s" "form_submissions s' = form_submissions s"
    and a: "assignments_ok s'"
  shows "intake_ok re s'"
  using ok a same_forms [OF same(1)] same by (simp add: intake_ok_def submissions_ok_def)

lemma assignments_okD:
  assumes "assignments_ok s"
  shows "a \<in> set (form_assignments s) \<Longrightarrow> published_at (fa_TenantID a) (fa_FormID a) (fa_FormVersionID a) s"
    "distinct (map fa_ID (form_assignments s))" "distinct (map (\<lambda>a. (state_of a, fa_FormVersionID a)) (form_assignments s))"
    "distinct (map (\<lambda>a. (state_of a, fa_DisplayOrder a)) (form_assignments s))"
  using assms by (simp_all add: assignments_ok_def Let_def)

lemma assignment_row_simps [simp]:
  "fa_ID (assignment_row a) = fa_ID a" "state_of (assignment_row a) = state_of a" "fa_FormID (assignment_row a) = fa_FormID a"
  "fa_TenantID (assignment_row a) = fa_TenantID a" "fa_FormVersionID (assignment_row a) = fa_FormVersionID a"
  "fa_DisplayOrder (assignment_row a) = fa_DisplayOrder a"
  by (simp_all add: assignment_row_def state_of_def)

lemma assignment_Save_ok:
  assumes ok: "assignments_ok s" and sv: "assignment_Save a s = (Inr (), s')"
    and p: "published_at (fa_TenantID a) (fa_FormID a) (fa_FormVersionID a) s"
  shows "assignments_ok s'"
  using assignments_okD [OF ok] sv p unfolding assignment_Save_Inr same_state_of assignments_ok_def by (auto simp: Let_def)

lemma assignment_Update_Inr:
  "assignment_Update a s = (Inr u, s') \<Longrightarrow>
     let p = (\<lambda>b. fa_TenantID b = fa_TenantID a \<and> fa_ID b = fa_ID a) in
     s' = s\<lparr>form_assignments := update_where p
            (\<lambda>b. b\<lparr>fa_Required := fa_Required a, fa_DisplayOrder := fa_DisplayOrder a, fa_Active := fa_Active a,
                   fa_UpdatedAt := trunc_micros (fa_UpdatedAt a)\<rparr>) (form_assignments s)\<rparr>
     \<and> (\<forall>b \<in> set (form_assignments s). \<forall>r \<in> set (form_assignments s).
          \<not> p b \<and> p r \<and> state_of r = state_of b \<longrightarrow> fa_DisplayOrder b \<noteq> fa_DisplayOrder a)"
  by (auto simp: assignment_Update_def Let_def affected_0 same_state_of update_where_none split: if_splits)

lemma assignment_Update_ok:
  assumes ok: "assignments_ok s" and up: "assignment_Update a s = (Inr u, s')"
  shows "assignments_ok s'"
proof -
  let ?p = "\<lambda>b. fa_TenantID b = fa_TenantID a \<and> fa_ID b = fa_ID a"
  let ?f = "\<lambda>b. b\<lparr>fa_Required := fa_Required a, fa_DisplayOrder := fa_DisplayOrder a, fa_Active := fa_Active a,
     fa_UpdatedAt := trunc_micros (fa_UpdatedAt a)\<rparr>"
  note A = assignments_okD [OF ok]
  have s': "s' = s\<lparr>form_assignments := update_where ?p ?f (form_assignments s)\<rparr>"
    and free: "\<And>b r. b \<in> set (form_assignments s) \<Longrightarrow> r \<in> set (form_assignments s) \<Longrightarrow> \<not> ?p b \<Longrightarrow> ?p r
      \<Longrightarrow> state_of r = state_of b \<Longrightarrow> fa_DisplayOrder b \<noteq> fa_DisplayOrder a"
    using assignment_Update_Inr [OF up, unfolded Let_def] by blast+
  have st: "state_of (?f b) = state_of b" for b by (simp add: state_of_def)
  have "distinct (map (\<lambda>a. (state_of a, fa_DisplayOrder a)) (update_where ?p ?f (form_assignments s)))"
  proof (rule distinct_update_one)
    show "x = y" if "x \<in> set (form_assignments s)" "y \<in> set (form_assignments s)" "?p x" "?p y" for x y
      using by_distinct_key [OF A(2), of x y] that by simp
    show "distinct (form_assignments s)" using A(2) by (simp add: distinct_map)
    show "(state_of (?f x), fa_DisplayOrder (?f x)) \<noteq> (state_of y, fa_DisplayOrder y)"
      if "x \<in> set (form_assignments s)" "y \<in> set (form_assignments s)" "?p x" "\<not> ?p y" for x y
      using free [OF that(2,1,4,3)] st by auto
  qed (rule A(4))
  moreover have "map fa_ID (update_where ?p ?f rows) = map fa_ID rows"
    "map (\<lambda>a. (state_of a, fa_FormVersionID a)) (update_where ?p ?f rows) = map (\<lambda>a. (state_of a, fa_FormVersionID a)) rows" for rows
    by (rule map_update_where, simp add: state_of_def)+
  moreover have "published_at (fa_TenantID b) (fa_FormID b) (fa_FormVersionID b) s"
    if b: "b \<in> set (update_where ?p ?f (form_assignments s))" for b
  proof -
    obtain b0 where "b0 \<in> set (form_assignments s)" "b = (if ?p b0 then ?f b0 else b0)"
      using b unfolding update_where_def set_map image_iff by blast
    then show ?thesis using A(1) [of b0] by auto
  qed
  ultimately show ?thesis using A(2,3) unfolding assignments_ok_def s' by (simp add: Let_def)
qed

lemma assignment_Delete_ok: "assignments_ok s \<Longrightarrow> assignment_Delete tenantID i s = (Inr u, s') \<Longrightarrow> assignments_ok s'"
  by (auto simp: assignment_Delete_def tx_Inr assignments_ok_def Let_def distinct_map_filter)

text \<open>A new submission, validated in its transaction against the fields of a published version.\<close>

lemma NewFormSubmission_Inr:
  assumes "NewFormSubmission c tenantID caseID formID formVersionID submittedBy data status = Inr x"
  shows "sb_TenantID x = tenantID" "sb_CaseID x = caseID" "sb_FormID x = formID" "sb_FormVersionID x = formVersionID"
    "SubmittedBy x = submittedBy" "sb_Status x = status" "data = Some (sb_Data x)" "sb_ID x = ctx_uuid c 0"
  using assms by (auto simp: NewFormSubmission_def unless_def split: option.splits if_splits)

lemma submission_row_simps [simp]:
  "sb_ID (submission_row x) = sb_ID x" "submission_key (submission_row x) = submission_key x"
  "sb_TenantID (submission_row x) = sb_TenantID x" "sb_CaseID (submission_row x) = sb_CaseID x"
  "sb_FormID (submission_row x) = sb_FormID x" "sb_FormVersionID (submission_row x) = sb_FormVersionID x"
  "sb_Data (submission_row x) = decoded_facts (sb_Data x)" "sb_Status (submission_row x) = sb_Status x"
  by (simp_all add: submission_row_def submission_key_def)

lemma submission_Save_keys:
  "submission_Save x s = (Inr u, s') \<Longrightarrow> sb_ID x \<notin> sb_ID ` set (form_submissions s)
     \<and> submission_key x \<notin> submission_key ` set (form_submissions s)"
  by (auto simp: submission_Save_Inr submission_key_def)

context case_environment
begin

lemma submit_keeps:
  assumes ok: "intake_ok re s" and run: "SubmitForm re svc c s0 orgID caseID submittedBy v data s = (Inr res, s')"
  shows "intake_ok re s'"
proof (rule SubmitForm_Inr [OF run])
  fix ver x
  assume ver: "version_FindByID orgID v s = Inr ver" "fv_Status ver = FormVersionStatusPublished"
    and new: "NewFormSubmission c orgID caseID (FormID ver) v submittedBy data SubmissionStatusSubmitted = Inr x"
    and valid: "validateSubmissionData re (entries data) (FindByVersion orgID v s) = None"
    and sv: "submission_Save x s = (Inr (), s\<lparr>form_submissions := form_submissions s @ [submission_row x]\<rparr>)"
    and t: "form_tables s' = (forms s, form_versions s, form_fields s, form_assignments s,
       form_submissions s @ [submission_row x])"
  note x = NewFormSubmission_Inr [OF new]
  have same: "form_part s' = form_part s" "form_assignments s' = form_assignments s"
    "form_submissions s' = form_submissions s @ [submission_row x]"
    using t by (simp_all add: form_tables_eq form_part_def)
  have p: "published_at (sb_TenantID x) (sb_FormID x) (sb_FormVersionID x) s"
    using version_FindByID_Inr [OF ver(1)] ver(2) x by auto
  have "validated re s (submission_row x)"
    using valid x by (auto simp: validated_def entries_def)
  then have "submissions_ok re s'"
    using ok p submission_Save_keys [OF sv] same_forms [OF same(1)] same
    by (auto simp: intake_ok_def submissions_ok_def Let_def)
  then show ?thesis
    using ok same same_forms [OF same(1)] by (simp add: intake_ok_def assignments_ok_def)
qed

end

context form_recorder
begin

lemma assignment_requests_keep:
  assumes ok: "intake_ok re s" and ok0: "freezes s0 s"
  shows "CreateAssignment auditor c s0 p s = (Inr a, s') \<Longrightarrow> intake_ok re s'"
    "UpdateAssignment auditor c s0 q s = (Inr a, s') \<Longrightarrow> intake_ok re s'"
    "DeleteAssignment auditor c s0 tenantID i actorID s = (Inr u, s') \<Longrightarrow> intake_ok re s'"
proof -
  note A = ok [unfolded intake_ok_def]
  have audit: "intake_ok re s'" if "audit_grows s1 s'" "assignments_ok s1" "form_part s1 = form_part s"
      "form_submissions s1 = form_submissions s" for s1 :: "'s form_db_scheme" and s' :: "'s form_db_scheme"
  proof -
    have "form_part s' = form_part s" "form_submissions s' = form_submissions s" "assignments_ok s'"
      using audit_grows_forms(1) [OF that(1)] that(2-4)
      by (simp_all add: form_tables_def form_part_def assignments_ok_def)
    then show ?thesis using intake_ok_assignments [OF ok] by blast
  qed
  show "intake_ok re s'" if run: "CreateAssignment auditor c s0 p s = (Inr a, s')"
  proof (rule CreateAssignment_Inr [OF run])
    fix v a0 s1
    assume v: "version_FindByID (ca_TenantID p) (ca_FormVersionID p) s0 = Inr v" "fv_Status v = FormVersionStatusPublished"
        "FormID v = ca_FormID p"
      and a0: "NewWorkflowStateFormAssignment c (ca_TenantID p) (ca_WorkflowDefinitionID p) (ca_FormID p) (ca_FormVersionID p)
       (ca_CreatedBy p) (ca_WorkflowStateKey p) (ca_Required p) (ca_DisplayOrder p) = Inr a0"
      and a: "a = a0\<lparr>fa_Active := ca_Active p\<rparr>" and s1: "assignment_Save a s = (Inr (), s1)" "audit_grows s1 s'"
    have keys: "fa_TenantID a = ca_TenantID p" "fa_FormID a = ca_FormID p" "fa_FormVersionID a = ca_FormVersionID p"
      using a0 a by (auto simp: NewWorkflowStateFormAssignment_def split: option.splits)
    have "published_at (ca_TenantID p) (ca_FormID p) (ca_FormVersionID p) s0"
      using version_FindByID_Inr [OF v(1)] v(2,3) by auto
    then have "assignments_ok s1"
      using A published_at_kept [OF ok0] keys by (intro assignment_Save_ok [OF _ s1(1)]) auto
    then show "intake_ok re s'" using s1(1) by (intro audit [OF s1(2)]) (auto simp: assignment_Save_Inr form_part_def)
  qed
  show "intake_ok re s'" if run: "UpdateAssignment auditor c s0 q s = (Inr a, s')"
  proof (rule UpdateAssignment_Inr [OF run])
    fix s1 assume s1: "assignment_Update a s = (Inr (), s1)" "audit_grows s1 s'"
    then show "intake_ok re s'"
      using A assignment_Update_ok [OF _ s1(1)] assignment_Update_Inr [OF s1(1)]
      by (intro audit [OF s1(2)]) (auto simp: Let_def form_part_def)
  qed
  show "intake_ok re s'" if run: "DeleteAssignment auditor c s0 tenantID i actorID s = (Inr u, s')"
  proof (rule DeleteAssignment_Inr [OF run])
    fix s1 assume s1: "assignment_Delete tenantID i s = (Inr (), s1)" "audit_grows s1 s'"
    then show "intake_ok re s'"
      using A assignment_Delete_ok [OF _ s1(1)]
      by (intro audit [OF s1(2)]) (auto simp: assignment_Delete_def tx_Inr form_part_def)
  qed
qed

end

subsection \<open>Runs\<close>

text \<open>The requests of the form service leave assignments and submissions alone.\<close>

definition same_intake :: "'s form_db_scheme \<Rightarrow> 's form_db_scheme \<Rightarrow> bool" where
  "same_intake s s' \<longleftrightarrow> intake_part s' = intake_part s"

interpretation intake_frame: tx_frame same_intake
  by unfold_locales (simp_all add: same_intake_def)

lemma intake_framedI: "(\<And>s. intake_part (snd (m s)) = intake_part s) \<Longrightarrow> tx_framed same_intake m"
  by (rule intake_frame.framedI) (simp add: same_intake_def)

lemma intake_statements:
  "tx_framed same_intake (form_Save f)" "tx_framed same_intake (form_Update n orgID i f)"
  "tx_framed same_intake (version_Save v)" "tx_framed same_intake (field_Save l)" "tx_framed same_intake (field_Update n l)"
  "tx_framed same_intake (field_Delete orgID i)" "tx_framed same_intake (\<lambda>s. (h s, s))"
  by (rule intake_framedI, simp add: form_Save_def form_Update_def version_Save_def field_Save_def field_Update_def
      field_Delete_def intake_part_def Let_def)+

lemma intake_checks: "tx_framed same_intake (tx_check g oe)" "tx_framed same_intake (tx_read g r)"
  by (auto intro!: intake_framedI simp: tx_check_def tx_read_def tx_defs intake_part_def split: option.split sum.split)

context form_recorder
begin

lemma intake_audit: "tx_framed same_intake (form_audit auditor c orgID actorID action i meta)"
proof (rule intake_framedI)
  show "intake_part (snd (form_audit auditor c orgID actorID action i meta s)) = intake_part s" for s
    using audit_grows_forms(1) [OF form_audit_grows] by (metis form_tables_def intake_part_def prod.collapse prod.inject)
qed

lemma form_requests_intake:
  "tx_framed same_intake (CreateForm lower auditor c cp)" "tx_framed same_intake (UpdateForm auditor c s0 up)"
  "tx_framed same_intake (ArchiveForm auditor c s0 orgID formID actorID)"
  "tx_framed same_intake (CreateVersion auditor c s0 orgID formID actorID)"
  "tx_framed same_intake (PublishVersion auditor c s0 orgID versionID actorID)"
  "tx_framed same_intake (AddField re lower auditor c s0 ap)" "tx_framed same_intake (UpdateField re auditor c s0 dp)"
  "tx_framed same_intake (DeleteField auditor c s0 orgID fieldID actorID)"
  unfolding CreateForm_def UpdateForm_def ArchiveForm_def CreateVersion_def PublishVersion_def AddField_def
    UpdateField_def DeleteField_def Let_def
  by (intro intake_frame.seq intake_frame.bind intake_frame.in_transaction intake_frame.map_error intake_frame.return
      intake_frame.guard intake_frame.lift intake_statements intake_checks intake_audit)+

end

text \<open>
  A run is the list of its committed stores, the latest first. The requests of the form service
  are served one after the other; assignments and submissions may have read any store of the
  run before their transaction. Other requests leave the tables of forms alone.
\<close>

inductive intake_run :: "regexp \<Rightarrow> (string \<Rightarrow> string) \<Rightarrow> 's case_db_scheme auditor \<Rightarrow> 's case_db_scheme CaseService
    \<Rightarrow> 's case_db_scheme list \<Rightarrow> bool" for re lower auditor svc where
  start: "form_tables s = ([], [], [], [], []) \<Longrightarrow> intake_run re lower auditor svc [s]"
| form_request: "intake_run re lower auditor svc (s # run) \<Longrightarrow> form_step re lower auditor s s'
    \<Longrightarrow> intake_part s' = intake_part s \<Longrightarrow> intake_run re lower auditor svc (s' # s # run)"
| create_assignment: "intake_run re lower auditor svc (s # run) \<Longrightarrow> s0 \<in> set (s # run)
    \<Longrightarrow> CreateAssignment auditor c s0 ap s = (r1, s') \<Longrightarrow> intake_run re lower auditor svc (s' # s # run)"
| update_assignment: "intake_run re lower auditor svc (s # run) \<Longrightarrow> s0 \<in> set (s # run)
    \<Longrightarrow> UpdateAssignment auditor c s0 up s = (r1, s') \<Longrightarrow> intake_run re lower auditor svc (s' # s # run)"
| delete_assignment: "intake_run re lower auditor svc (s # run) \<Longrightarrow> s0 \<in> set (s # run)
    \<Longrightarrow> DeleteAssignment auditor c s0 tenantID i actorID s = (r2, s') \<Longrightarrow> intake_run re lower auditor svc (s' # s # run)"
| submit: "intake_run re lower auditor svc (s # run) \<Longrightarrow> s0 \<in> set (s # run)
    \<Longrightarrow> SubmitForm re svc c s0 orgID caseID submittedBy v data s = (r3, s') \<Longrightarrow> intake_run re lower auditor svc (s' # s # run)"
| elsewhere: "intake_run re lower auditor svc (s # run) \<Longrightarrow> form_tables s' = form_tables s
    \<Longrightarrow> intake_run re lower auditor svc (s' # s # run)"

definition intake_run_ok :: "regexp \<Rightarrow> 's case_db_scheme list \<Rightarrow> bool" where
  "intake_run_ok re run \<longleftrightarrow> (\<forall>s \<in> set run. intake_ok re s \<and> freezes s (hd run))"

lemma intake_run_next:
  assumes "intake_run_ok re (s # run)" "intake_ok re s'" "freezes s s'"
  shows "intake_run_ok re (s' # s # run)"
  using assms freezing.trans freezing.refl unfolding intake_run_ok_def by fastforce

lemma SubmitForm_atomic: "tx_atomic (SubmitForm re svc c s0 orgID caseID submittedBy v data)"
  unfolding SubmitForm_def by (intro tx_atomic_intros)

lemma intake_step:
  assumes ok: "intake_run_ok re (s # run)" and m: "tx_atomic m" "m s = (r, s')"
    and keeps: "\<And>a. m s = (Inr a, s') \<Longrightarrow> intake_ok re s' \<and> form_part s' = form_part s"
  shows "intake_run_ok re (s' # s # run)"
proof (rule intake_run_next [OF ok])
  have s: "intake_ok re s" using ok by (simp add: intake_run_ok_def)
  then have "forms_ok (form_part s)" by (simp add: intake_ok_def)
  then show "freezes s s'"
    using m keeps step_ok_part step_ok_refl by (cases r) (auto simp: step_ok_def dest: tx_atomicD)
  show "intake_ok re s'" using m keeps s by (cases r) (auto dest: tx_atomicD)
qed

lemma intake_run_is_ok:
  assumes svc: "case_environment svc" and aud: "growing_auditor auditor" and run: "intake_run re lower auditor svc run"
  shows "intake_run_ok re run"
  using run
proof (induction rule: intake_run.induct)
  case (start s)
  then show ?case
    by (simp add: intake_run_ok_def freezing.refl intake_ok_def forms_ok_def form_part_def assignments_ok_def
        submissions_ok_def form_tables_eq)
next
  case (form_request s run s')
  have ok: "intake_ok re s" using form_request.IH by (simp add: intake_run_ok_def)
  then have "step_ok s s'"
    using form_recorder.form_step_ok [OF form_recorder.intro [OF aud] form_request.hyps(2)] by (simp add: intake_ok_def)
  then show ?case
    using intake_ok_frozen [OF ok] form_request.hyps(3) by (intro intake_run_next [OF form_request.IH]) (auto simp: step_ok_def)
next
  case (create_assignment s run s0 c ap r s')
  show ?case
  proof (rule intake_step [OF create_assignment.IH form_requests_atomic(9) create_assignment.hyps(3)], rule conjI)
    fix a assume a: "CreateAssignment auditor c s0 ap s = (Inr a, s')"
    show "intake_ok re s'"
      using create_assignment.IH create_assignment.hyps(2) a
        form_recorder.assignment_requests_keep(1) [OF form_recorder.intro [OF aud], of re s s0]
      by (auto simp: intake_run_ok_def)
    show "form_part s' = form_part s"
      by (rule form_recorder.CreateAssignment_Inr [OF form_recorder.intro [OF aud] a])
        (auto simp: assignment_Save_Inr form_part_def dest!: audit_grows_forms(1) simp: form_tables_def)
  qed
next
  case (update_assignment s run s0 c up r s')
  show ?case
  proof (rule intake_step [OF update_assignment.IH form_requests_atomic(10) update_assignment.hyps(3)], rule conjI)
    fix a assume a: "UpdateAssignment auditor c s0 up s = (Inr a, s')"
    show "intake_ok re s'"
      using update_assignment.IH update_assignment.hyps(2) a
        form_recorder.assignment_requests_keep(2) [OF form_recorder.intro [OF aud], of re s s0]
      by (auto simp: intake_run_ok_def)
    show "form_part s' = form_part s"
      by (rule form_recorder.UpdateAssignment_Inr [OF form_recorder.intro [OF aud] a])
        (auto simp: Let_def form_part_def form_tables_def dest!: audit_grows_forms(1) assignment_Update_Inr)
  qed
next
  case (delete_assignment s run s0 c tenantID i actorID r s')
  show ?case
  proof (rule intake_step [OF delete_assignment.IH form_requests_atomic(11) delete_assignment.hyps(3)], rule conjI)
    fix a assume a: "DeleteAssignment auditor c s0 tenantID i actorID s = (Inr a, s')"
    show "intake_ok re s'"
      using delete_assignment.IH delete_assignment.hyps(2) a
        form_recorder.assignment_requests_keep(3) [OF form_recorder.intro [OF aud], of re s s0]
      by (auto simp: intake_run_ok_def)
    show "form_part s' = form_part s"
      by (rule form_recorder.DeleteAssignment_Inr [OF form_recorder.intro [OF aud] a])
        (auto simp: assignment_Delete_def tx_Inr form_part_def form_tables_def dest!: audit_grows_forms(1))
  qed
next
  case (submit s run s0 c orgID caseID submittedBy v data r s')
  show ?case
  proof (rule intake_step [OF submit.IH SubmitForm_atomic submit.hyps(3)], rule conjI)
    fix a assume a: "SubmitForm re svc c s0 orgID caseID submittedBy v data s = (Inr a, s')"
    show "intake_ok re s'"
      using submit.IH a case_environment.submit_keeps [OF svc] by (auto simp: intake_run_ok_def)
    show "form_part s' = form_part s"
      by (rule case_environment.SubmitForm_Inr [OF svc a]) (simp add: form_tables_eq form_part_def)
  qed
next
  case (elsewhere s run s')
  have ok: "intake_ok re s" using elsewhere.IH by (simp add: intake_run_ok_def)
  have same: "intake_part s' = intake_part s" "form_part s' = form_part s"
    using elsewhere.hyps(2) by (simp_all add: form_tables_def intake_part_def form_part_def)
  have step: "step_ok s s'" using ok same(2) by (intro step_ok_part) (simp_all add: intake_ok_def)
  show ?case
    using intake_ok_frozen [OF ok step same(1)] step by (intro intake_run_next [OF elsewhere.IH]) (simp_all add: step_ok_def)
qed

end
