(* ===== verification/Intake_Properties.thy ===== *)
theory Intake_Properties
  imports Intake_Runs Case_Sample
begin

section \<open>Properties of assignments and submissions\<close>

text \<open>
  What a stored assignment and a stored submission are known to satisfy, the validation of
  submitted data against its specification, and what is read back after a submission.
\<close>

subsection \<open>The sample run\<close>

lemma sample_intake: "intake_run any_regexp id None sample_service [case9, case8, case7, case6, case5, case4, case3, case2]"
proof -
  have "intake_run any_regexp id None sample_service [case2]"
    by (rule intake_run.start) (simp add: form_tables_def case6_eval)
  then have "intake_run any_regexp id None sample_service [case3, case2]"
    by (rule intake_run.form_request [OF _ form_steps(1)]) (simp add: intake_part_def case6_eval)
  then have "intake_run any_regexp id None sample_service [case4, case3, case2]"
    by (rule intake_run.form_request [OF _ form_steps(2)]) (simp add: intake_part_def case6_eval)
  then have "intake_run any_regexp id None sample_service [case5, case4, case3, case2]"
    by (rule intake_run.form_request [OF _ form_steps(3)]) (simp add: intake_part_def case6_eval)
  then have "intake_run any_regexp id None sample_service [case6, case5, case4, case3, case2]"
    by (rule intake_run.form_request [OF _ form_steps(4)]) (simp add: intake_part_def case6_eval)
  then have "intake_run any_regexp id None sample_service [case7, case6, case5, case4, case3, case2]"
    by (rule intake_run.create_assignment [of _ _ _ _ _ _ case6]) (simp, unfold case7_def, rule surjective_pairing)
  then have "intake_run any_regexp id None sample_service [case8, case7, case6, case5, case4, case3, case2]"
    by (rule intake_run.elsewhere) (simp add: form_tables_def case8_rows)
  then show ?thesis
    by (rule intake_run.submit [of _ _ _ _ _ _ case8]) (simp, unfold case9_def, rule surjective_pairing)
qed

subsection \<open>Assignments\<close>

text \<open>
  C18. In every run, whatever stores the requests have read before their transactions, each
  assignment of a form to a workflow state refers to a published version of that form, of the
  same tenant; and two assignments to the same state never share a form version or a display
  order.
\<close>

theorem assignments_refer_to_published:
  assumes svc: "case_environment svc" and aud: "growing_auditor auditor"
    and run: "intake_run re lower auditor svc (s # run)" and a: "a \<in> set (form_assignments s)"
  shows "\<exists>v \<in> set (form_versions s). fv_ID v = fa_FormVersionID a \<and> FormID v = fa_FormID a
     \<and> fv_OrganizationID v = fa_TenantID a \<and> fv_Status v = FormVersionStatusPublished
     \<and> (\<forall>b \<in> set (form_assignments s). same_state a b \<longrightarrow> b = a
          \<or> (fa_FormVersionID b \<noteq> fa_FormVersionID a \<and> fa_DisplayOrder b \<noteq> fa_DisplayOrder a))"
proof -
  have "assignments_ok s" using intake_run_is_ok [OF svc aud run] by (simp add: intake_run_ok_def intake_ok_def)
  note A = assignments_okD [OF this]
  have "b = a \<or> (fa_FormVersionID b \<noteq> fa_FormVersionID a \<and> fa_DisplayOrder b \<noteq> fa_DisplayOrder a)"
    if "b \<in> set (form_assignments s)" "same_state a b" for b
    using by_distinct_key [OF A(3) that(1) a] by_distinct_key [OF A(4) that(1) a] that(2) by (auto simp: same_state_of)
  then show ?thesis using A(1) [OF a] by blast
qed

lemma assignments_refer_to_published_witness:
  "\<exists>a v. form_assignments case9 = [a] \<and> v \<in> set (form_versions case9) \<and> fv_ID v = fa_FormVersionID a
     \<and> fv_Status v = FormVersionStatusPublished"
proof -
  obtain a where "form_assignments case9 = [a]" by (simp add: case9_rows case8_rows case7_rows)
  then show ?thesis
    using assignments_refer_to_published [OF sample_environment no_auditor_grows sample_intake, of a] by auto
qed

subsection \<open>Submitted data\<close>

text \<open>The constraints on the length of a text, and the values a field takes.\<close>

definition length_within :: "FormField \<Rightarrow> string \<Rightarrow> bool" where
  "length_within f s \<longleftrightarrow>
     (\<forall>n. length_bound (Validation f) [''minLength'', ''min_length''] = Some n \<longrightarrow> n \<le> int (length s))
     \<and> (\<forall>n. length_bound (Validation f) [''maxLength'', ''max_length''] = Some n \<longrightarrow> int (length s) \<le> n)"

definition pattern_matches :: "regexp \<Rightarrow> FormField \<Rightarrow> string \<Rightarrow> bool" where
  "pattern_matches re f s \<longleftrightarrow> (\<forall>p. map_of (Validation f) ''pattern'' = Some (GString p) \<and> p \<noteq> []
     \<longrightarrow> (\<exists>m. re p = Some m \<and> m s))"

definition value_within :: "FormField \<Rightarrow> float64 \<Rightarrow> bool" where
  "value_within f x \<longleftrightarrow>
     (\<forall>lo. validationNumber (Validation f) [''minValue'', ''min_value''] = Some lo \<longrightarrow> \<not> float_less x lo)
     \<and> (\<forall>hi. validationNumber (Validation f) [''maxValue'', ''max_value''] = Some hi \<longrightarrow> \<not> float_less hi x)"

text \<open>What the code takes: it looks at the pattern of a field for the types EMAIL and PHONE only.\<close>

definition acceptable :: "regexp \<Rightarrow> FormField \<Rightarrow> goval \<Rightarrow> bool" where
  "acceptable re f v = (case ff_Type f of
     FieldTypeText \<Rightarrow> \<exists>s. v = GString s \<and> length_within f s
   | FieldTypeTextarea \<Rightarrow> \<exists>s. v = GString s \<and> length_within f s
   | FieldTypeEmail \<Rightarrow> \<exists>s. v = GString s \<and> length_within f s \<and> IsValidEmail s \<and> pattern_matches re f s
   | FieldTypePhone \<Rightarrow> \<exists>s. v = GString s \<and> length_within f s \<and> IsValidPhone s \<and> pattern_matches re f s
   | FieldTypeNumber \<Rightarrow> \<exists>x. getFloat v = Some x \<and> value_within f x
   | FieldTypeDecimal \<Rightarrow> \<exists>x. getFloat v = Some x \<and> value_within f x
   | FieldTypeDate \<Rightarrow> \<exists>s. v = GString s \<and> parse_date s \<noteq> None
   | FieldTypeDatetime \<Rightarrow> \<exists>s. v = GString s \<and> isValidDatetime s
   | FieldTypeBoolean \<Rightarrow> isBoolean v
   | FieldTypeCheckbox \<Rightarrow> isBoolean v
   | FieldTypeSelect \<Rightarrow> \<exists>s. v = GString s \<and> s \<in> option_values f
   | FieldTypeRadio \<Rightarrow> \<exists>s. v = GString s \<and> s \<in> option_values f
   | FieldTypeMultiSelect \<Rightarrow> \<exists>vs. v = GArray vs \<and> set vs \<subseteq> GString ` option_values f
   | FieldTypeOther _ \<Rightarrow> True)"

definition accepted_submission :: "regexp \<Rightarrow> facts \<Rightarrow> FormField list \<Rightarrow> bool" where
  "accepted_submission re data flds \<longleftrightarrow> fst ` set data \<subseteq> ff_Key ` set flds
     \<and> (\<forall>f \<in> set flds. case map_of data (ff_Key f) of
            None \<Rightarrow> \<not> Required f
          | Some v \<Rightarrow> if v = GNil \<or> v = GString [] then \<not> Required f else acceptable re f v)"

lemma length_checks:
  "(case length_bound v k of None \<Rightarrow> None | Some n \<Rightarrow> unless (P n) e) = None \<longleftrightarrow> (\<forall>n. length_bound v k = Some n \<longrightarrow> P n)"
  "(case validationNumber v k of None \<Rightarrow> None | Some x \<Rightarrow> unless (Q x) e) = None \<longleftrightarrow> (\<forall>x. validationNumber v k = Some x \<longrightarrow> Q x)"
  by (auto split: option.split)

lemma pattern_None: "validatePatternConstraint re f s = None \<longleftrightarrow> pattern_matches re f s"
  by (auto simp: validatePatternConstraint_def pattern_matches_def split: option.splits goval.splits)

lemma text_error_None: "text_error re f s = None \<longleftrightarrow> length_within f s
   \<and> (ff_Type f = FieldTypeEmail \<longrightarrow> IsValidEmail s \<and> pattern_matches re f s)
   \<and> (ff_Type f = FieldTypePhone \<longrightarrow> IsValidPhone s \<and> pattern_matches re f s)"
  unfolding text_error_def length_within_def first_error_None
  by (auto simp: length_checks pattern_None first_error_None simp del: first_error.simps validationNumber.simps)

lemma number_error_None: "number_error f x = None \<longleftrightarrow> value_within f x"
  unfolding number_error_def value_within_def first_error_None
  by (simp add: length_checks del: validationNumber.simps)

lemma expect_string_None: "expect_string v k = None \<longleftrightarrow> (\<exists>s. v = GString s \<and> k s = None)"
  by (auto simp: expect_string_def split: goval.split)

lemma is_option_image: "is_option f v \<longleftrightarrow> v \<in> GString ` option_values f"
  by (cases v) (auto simp: is_option_def)

lemma options_None: "list_all (is_option f) vs \<longleftrightarrow> set vs \<subseteq> GString ` option_values f"
  by (auto simp: list_all_iff is_option_image)

lemma typed_error_None: "typed_error re f v = None \<longleftrightarrow> acceptable re f v"
  by (cases "ff_Type f")
    (auto simp: typed_error_def acceptable_def expect_string_None text_error_None number_error_None options_None
      split: option.splits goval.splits)

lemma validateFieldValue_None: "validateFieldValue re f v = None
    \<longleftrightarrow> (if v = GNil \<or> v = GString [] then \<not> Required f else acceptable re f v)"
  by (simp add: validateFieldValue_def is_blank_def typed_error_None)

lemma either_error_None: "(case e of None \<Rightarrow> r | Some x \<Rightarrow> Some x) = None \<longleftrightarrow> e = None \<and> r = None"
  by (simp split: option.split)

lemma field_errors_None: "field_errors re data flds = None \<longleftrightarrow> (\<forall>f \<in> set flds. case map_of data (ff_Key f) of
    None \<Rightarrow> \<not> Required f
  | Some v \<Rightarrow> if v = GNil \<or> v = GString [] then \<not> Required f else acceptable re f v)"
proof (induction flds)
  case (Cons f flds)
  show ?case
    by (cases "map_of data (ff_Key f)")
      (simp_all add: Cons.IH validateFieldValue_None either_error_None)
qed simp

lemma submission_validation_spec:
  "validateSubmissionData re data flds = None \<longleftrightarrow> accepted_submission re data flds"
  by (auto simp: validateSubmissionData_def accepted_submission_def field_errors_None)

text \<open>
  What a form asks for: its patterns count for the texts it takes, TEXT and TEXTAREA fields
  included.
\<close>

definition intended :: "regexp \<Rightarrow> FormField \<Rightarrow> goval \<Rightarrow> bool" where
  "intended re f v = (case ff_Type f of
     FieldTypeText \<Rightarrow> \<exists>s. v = GString s \<and> length_within f s \<and> pattern_matches re f s
   | FieldTypeTextarea \<Rightarrow> \<exists>s. v = GString s \<and> length_within f s \<and> pattern_matches re f s
   | FieldTypeEmail \<Rightarrow> \<exists>s. v = GString s \<and> length_within f s \<and> IsValidEmail s \<and> pattern_matches re f s
   | FieldTypePhone \<Rightarrow> \<exists>s. v = GString s \<and> length_within f s \<and> IsValidPhone s \<and> pattern_matches re f s
   | FieldTypeNumber \<Rightarrow> \<exists>x. getFloat v = Some x \<and> value_within f x
   | FieldTypeDecimal \<Rightarrow> \<exists>x. getFloat v = Some x \<and> value_within f x
   | FieldTypeDate \<Rightarrow> \<exists>s. v = GString s \<and> parse_date s \<noteq> None
   | FieldTypeDatetime \<Rightarrow> \<exists>s. v = GString s \<and> isValidDatetime s
   | FieldTypeBoolean \<Rightarrow> isBoolean v
   | FieldTypeCheckbox \<Rightarrow> isBoolean v
   | FieldTypeSelect \<Rightarrow> \<exists>s. v = GString s \<and> s \<in> option_values f
   | FieldTypeRadio \<Rightarrow> \<exists>s. v = GString s \<and> s \<in> option_values f
   | FieldTypeMultiSelect \<Rightarrow> \<exists>vs. v = GArray vs \<and> set vs \<subseteq> GString ` option_values f
   | FieldTypeOther _ \<Rightarrow> True)"

definition intended_submission :: "regexp \<Rightarrow> facts \<Rightarrow> FormField list \<Rightarrow> bool" where
  "intended_submission re data flds \<longleftrightarrow> fst ` set data \<subseteq> ff_Key ` set flds
     \<and> (\<forall>f \<in> set flds. case map_of data (ff_Key f) of
            None \<Rightarrow> \<not> Required f
          | Some v \<Rightarrow> if v = GNil \<or> v = GString [] then \<not> Required f else intended re f v)"

definition text_matches :: "regexp \<Rightarrow> FormField \<Rightarrow> goval \<Rightarrow> bool" where
  "text_matches re f v \<longleftrightarrow> (case v of
     GString s \<Rightarrow> ff_Type f \<in> {FieldTypeText, FieldTypeTextarea} \<and> s \<noteq> [] \<longrightarrow> pattern_matches re f s
   | _ \<Rightarrow> True)"

definition text_patterns_hold :: "regexp \<Rightarrow> facts \<Rightarrow> FormField list \<Rightarrow> bool" where
  "text_patterns_hold re data flds \<longleftrightarrow>
     (\<forall>f \<in> set flds. \<forall>v. map_of data (ff_Key f) = Some v \<longrightarrow> text_matches re f v)"

lemma intended_acceptable:
  "v \<noteq> GString [] \<Longrightarrow> intended re f v \<longleftrightarrow> acceptable re f v \<and> text_matches re f v"
proof -
  assume v: "v \<noteq> GString []"
  show ?thesis
  proof (cases "ff_Type f \<in> {FieldTypeText, FieldTypeTextarea}")
    case True
    then consider "ff_Type f = FieldTypeText" | "ff_Type f = FieldTypeTextarea" by blast
    then show ?thesis
    proof cases
      case 1
      then show ?thesis using v unfolding intended_def acceptable_def text_matches_def by (cases v) simp_all
    next
      case 2
      then show ?thesis using v unfolding intended_def acceptable_def text_matches_def by (cases v) simp_all
    qed
  next
    case False
    then have "intended re f v = acceptable re f v"
      unfolding intended_def acceptable_def by (simp split: FieldType.split)
    moreover have "text_matches re f v" using False unfolding text_matches_def by (simp split: goval.split)
    ultimately show ?thesis by simp
  qed
qed

text \<open>
  C26. The validation of submitted data accepts everything it should, and of what it should not
  accept only texts that miss the pattern of their field: a submission has only keys of fields of
  the version, every required field present and not blank, and every value that is not blank of the
  type of its field and within its constraints, patterns included, if and only if it is accepted
  and the values of its TEXT and TEXTAREA fields match their patterns, which the code does not look at.
\<close>

theorem submission_validation_exact:
  "intended_submission re data flds
    \<longleftrightarrow> validateSubmissionData re data flds = None \<and> text_patterns_hold re data flds"
proof -
  have blank: "text_matches re f GNil" "text_matches re f (GString [])" for f by (simp_all add: text_matches_def)
  have each: "(case map_of data (ff_Key f) of None \<Rightarrow> \<not> Required f
        | Some v \<Rightarrow> if v = GNil \<or> v = GString [] then \<not> Required f else intended re f v)
    \<longleftrightarrow> (case map_of data (ff_Key f) of None \<Rightarrow> \<not> Required f
        | Some v \<Rightarrow> if v = GNil \<or> v = GString [] then \<not> Required f else acceptable re f v)
      \<and> (\<forall>v. map_of data (ff_Key f) = Some v \<longrightarrow> text_matches re f v)" for f
    using blank by (cases "map_of data (ff_Key f)") (auto simp: intended_acceptable)
  show ?thesis
    unfolding submission_validation_spec intended_submission_def accepted_submission_def text_patterns_hold_def
      each ball_conj_distrib by (simp only: conj_assoc)
qed

text \<open>A text that misses the pattern of its TEXT field is accepted, even when no text matches it.\<close>

lemma text_pattern_unchecked:
  assumes "ff_Type f = FieldTypeText" "ff_Key f = ''k''" "Validation f = [(''pattern'', GString ''x'')]"
  shows "validateSubmissionData (\<lambda>_. Some (\<lambda>_. False)) [(''k'', GString ''a'')] [f] = None
     \<and> \<not> intended_submission (\<lambda>_. Some (\<lambda>_. False)) [(''k'', GString ''a'')] [f]"
  using assms
  by (simp add: submission_validation_spec accepted_submission_def acceptable_def intended_submission_def intended_def
    length_within_def pattern_matches_def length_bound_def)

subsection \<open>Stored submissions\<close>

text \<open>The values of a field as they are stored, after the round trip through JSON.\<close>

definition well_typed :: "FormField \<Rightarrow> goval \<Rightarrow> bool" where
  "well_typed f v = (case ff_Type f of
     FieldTypeNumber \<Rightarrow> \<exists>x. v = GFloat64 x
   | FieldTypeDecimal \<Rightarrow> \<exists>x. v = GFloat64 x
   | FieldTypeBoolean \<Rightarrow> \<exists>b. v = GBool b
   | FieldTypeCheckbox \<Rightarrow> \<exists>b. v = GBool b
   | FieldTypeSelect \<Rightarrow> \<exists>s. v = GString s \<and> s \<in> option_values f
   | FieldTypeRadio \<Rightarrow> \<exists>s. v = GString s \<and> s \<in> option_values f
   | FieldTypeMultiSelect \<Rightarrow> \<exists>vs. v = GArray vs \<and> set vs \<subseteq> GString ` option_values f
   | FieldTypeOther _ \<Rightarrow> True
   | _ \<Rightarrow> \<exists>s. v = GString s)"

lemma decoded_strings: "set vs \<subseteq> GString ` A \<Longrightarrow> json_decoded_list vs = vs"
  by (induction vs) auto

lemma decoded_number: "getFloat v = Some x \<Longrightarrow> \<exists>y. json_decoded v = GFloat64 y"
  by (cases v) (auto simp: getFloat_def)

lemma decoded_boolean: "isBoolean v \<Longrightarrow> \<exists>b. json_decoded v = GBool b"
  by (cases v) (auto simp: isBoolean_def)

lemma decoded_typed: "acceptable re f v \<Longrightarrow> well_typed f (json_decoded v)"
  by (cases "ff_Type f")
    (auto simp: acceptable_def well_typed_def decoded_strings dest: decoded_number decoded_boolean)

lemma decoded_blank: "json_decoded v = GNil \<longleftrightarrow> v = GNil" "json_decoded v = GString [] \<longleftrightarrow> v = GString []"
  by (cases v; simp; fail)+

lemma decoded_members:
  "map_of (json_decoded_members d) k = map_option json_decoded (map_of d k)"
  "fst ` set (json_decoded_members d) = fst ` set d"
proof -
  show "map_of (json_decoded_members d) k = map_option json_decoded (map_of d k)" by (induction d) auto
  have "map fst (json_decoded_members d) = map fst d" by (induction d) auto
  then show "fst ` set (json_decoded_members d) = fst ` set d" by (metis set_map)
qed

lemma accepted_stored:
  assumes "accepted_submission re data flds"
  shows "fst ` set (decoded_facts data) \<subseteq> ff_Key ` set flds"
    "f \<in> set flds \<Longrightarrow> case map_of (decoded_facts data) (ff_Key f) of
        None \<Rightarrow> \<not> Required f | Some w \<Rightarrow> if w = GNil \<or> w = GString [] then \<not> Required f else well_typed f w"
  using assms
  by (auto simp: accepted_submission_def decoded_facts_def decoded_members decoded_blank
      intro: decoded_typed split: option.splits if_splits)

text \<open>
  C6. In every run in which the requests on forms are served one after another (submissions and
  the requests on cases and workflows read earlier stores), each stored submission refers to a
  published version of its form, of the same tenant, and is the only one of its case for that
  version. Its data were validated, and still fit the fields the version has: every key is one of
  theirs, every required field has a value that is not blank, and every value that is not blank has
  the type of its field as it is stored (numbers as float64, choices among the options). A request
  to add a field that has read the version before it was published breaks this:
  \<open>stale_field_enters_published_version\<close>.
\<close>

theorem stored_submissions_typed:
  assumes svc: "case_environment svc" and aud: "growing_auditor auditor"
    and run: "intake_run re lower auditor svc (s # run)" and x: "x \<in> set (form_submissions s)"
  shows "\<exists>v \<in> set (form_versions s). fv_ID v = sb_FormVersionID x \<and> FormID v = sb_FormID x
     \<and> fv_OrganizationID v = sb_TenantID x \<and> fv_Status v = FormVersionStatusPublished
     \<and> (\<forall>y \<in> set (form_submissions s). sb_TenantID y = sb_TenantID x \<and> sb_CaseID y = sb_CaseID x
            \<and> sb_FormVersionID y = sb_FormVersionID x \<longrightarrow> y = x)
     \<and> fst ` set (sb_Data x) \<subseteq> ff_Key ` set (FindByVersion (sb_TenantID x) (fv_ID v) s)
     \<and> (\<forall>f \<in> set (FindByVersion (sb_TenantID x) (fv_ID v) s). case map_of (sb_Data x) (ff_Key f) of
            None \<Rightarrow> \<not> Required f
          | Some w \<Rightarrow> if w = GNil \<or> w = GString [] then \<not> Required f else well_typed f w)"
proof -
  have ok: "submissions_ok re s" using intake_run_is_ok [OF svc aud run] by (simp add: intake_run_ok_def intake_ok_def)
  then have p: "published_at (sb_TenantID x) (sb_FormID x) (sb_FormVersionID x) s"
    and "validated re s x" and d: "distinct (map submission_key (form_submissions s))"
    using x by (simp_all add: submissions_ok_def Let_def)
  then obtain data where data: "sb_Data x = decoded_facts data"
    "accepted_submission re data (FindByVersion (sb_TenantID x) (sb_FormVersionID x) s)"
    by (auto simp: validated_def submission_validation_spec)
  have "y = x" if "y \<in> set (form_submissions s)" "sb_TenantID y = sb_TenantID x" "sb_CaseID y = sb_CaseID x"
      "sb_FormVersionID y = sb_FormVersionID x" for y
    using by_distinct_key [OF d that(1) x] that by (simp add: submission_key_def)
  moreover obtain v where v: "v \<in> set (form_versions s)" "fv_ID v = sb_FormVersionID x" "FormID v = sb_FormID x"
    "fv_OrganizationID v = sb_TenantID x" "fv_Status v = FormVersionStatusPublished"
    using p by blast
  ultimately show ?thesis
    using accepted_stored [OF data(2)] unfolding data(1) by (intro bexI [OF _ v(1)] conjI ballI v) (simp_all add: v(2))
qed

lemma stored_submissions_typed_witness:
  "\<exists>x v. form_submissions case9 = [x] \<and> v \<in> set (form_versions case9) \<and> fv_ID v = sb_FormVersionID x
     \<and> fv_Status v = FormVersionStatusPublished"
proof -
  obtain x where "form_submissions case9 = [x]" by (simp add: case9_rows)
  then show ?thesis
    using stored_submissions_typed [OF sample_environment no_auditor_grows sample_intake, of x] by auto
qed

text \<open>
  A submission that was accepted reads back under its identifier: the answer of the
  request, with the times in microseconds and the data as JSON stores them; the data are those
  of the request, and the status is SUBMITTED.
\<close>

theorem submitted_form_reads_back:
  assumes svc: "case_environment svc"
    and run: "SubmitForm re svc c committed orgID caseID submittedBy v data s = (Inr res, s')"
  shows "GetSubmission svc orgID caseID (sr_ID res) s' = Inr (res\<lparr>sr_Data := decoded_facts (sr_Data res),
       sr_SubmittedAt := trunc_micros (sr_SubmittedAt res), sr_UpdatedAt := trunc_micros (sr_UpdatedAt res)\<rparr>)
     \<and> data = Some (sr_Data res) \<and> sr_Status res = SubmissionStatusSubmitted \<and> sr_FormVersionID res = v
     \<and> sr_CaseID res = caseID \<and> sr_SubmittedBy res = submittedBy"
proof (rule case_environment.SubmitForm_Inr [OF svc run])
  fix ver x
  assume new: "NewFormSubmission c orgID caseID (FormID ver) v submittedBy data SubmissionStatusSubmitted = Inr x"
    and sv: "submission_Save x s = (Inr (), s\<lparr>form_submissions := form_submissions s @ [submission_row x]\<rparr>)"
    and res: "res = submission_response x"
    and t: "form_tables s' = (forms s, form_versions s, form_fields s, form_assignments s,
       form_submissions s @ [submission_row x])"
  note n = NewFormSubmission_Inr [OF new]
  have "formRepos svc" using run by (auto simp: SubmitForm_def tx_Inr)
  moreover have "filter (\<lambda>y. sb_TenantID y = orgID \<and> sb_ID y = sb_ID x) (form_submissions s') = [submission_row x]"
  proof -
    have "filter (\<lambda>y. sb_TenantID y = orgID \<and> sb_ID y = sb_ID x) (form_submissions s) = []"
      using submission_Save_keys [OF sv] unfolding filter_empty_conv by (metis imageI)
    then show ?thesis using t n(1) by (simp add: form_tables_eq)
  qed
  ultimately show ?thesis
    using n res
    by (simp add: GetSubmission_def submission_FindByID_def row_or_def submission_response_def submission_row_def)
qed

lemma submitted_form_reads_back_witness:
  "\<exists>r. GetSubmission sample_service 7 800 900 case9 = Inr r \<and> sr_Status r = SubmissionStatusSubmitted"
proof -
  obtain r where r: "SubmitForm any_regexp sample_service (sample_ctx 9) case8 7 800 8 400 sample_data case8 = (Inr r, case9)"
    using case9_result by blast
  have "sr_ID r = 900"
    by (rule case_environment.SubmitForm_Inr [OF sample_environment r])
      (auto simp: submission_response_def dest: NewFormSubmission_Inr(8))
  then show ?thesis using submitted_form_reads_back [OF sample_environment r] by auto
qed

end
