(* ===== verification/Case_Properties.thy ===== *)
theory Case_Properties
  imports Intake_Properties
begin

section \<open>Properties of cases\<close>

text \<open>
  The theorems about runs of the case service on top of the workflow service and the forms:
  the mirror of the workflow state, the gate of required forms, the effect of creating a case
  and of changing its status.
\<close>

lemma case_run_stores:
  assumes "case_environment svc" "case_run svc (s # run)"
  shows "wf_ok s" "cases_ok s" "s0 \<in> set (s # run) \<Longrightarrow> wf_ok s0 \<and> wf_evolves s0 s"
  using case_environment.case_run_is_ok [OF assms] by (auto simp: case_run_ok_def run_ok_def)

subsection \<open>The mirror\<close>

text \<open>
  C2. In every run of the services, whatever stores the requests have read before their
  transactions, each workflow instance belongs to exactly one case, which is linked to it, is
  of the same tenant and has the current state of the instance as its status and as its
  workflow state. Once the instance has moved, the case has a closing time exactly when the
  instance is completed.
\<close>

theorem case_mirrors_workflow_instance:
  assumes svc: "case_environment svc" and run: "case_run svc (s # run)" and i: "i \<in> set (workflow_instances s)"
  shows "\<exists>r \<in> set (cases s). cs_ID r = wi_CaseID i \<and> cs_OrganizationID r = wi_TenantID i
     \<and> WorkflowInstanceID r = Some (wi_ID i) \<and> cs_Status r = CurrentState i \<and> WorkflowState r = CurrentState i
     \<and> (1 < wi_Version i \<longrightarrow> (ClosedAt r \<noteq> None \<longleftrightarrow> CompletedAt i \<noteq> None))
     \<and> (\<forall>q \<in> set (cases s). WorkflowInstanceID q = Some (wi_ID i) \<longrightarrow> q = r)"
proof -
  note ok = case_run_stores(1,2) [OF svc run]
  note m = ok(2) [unfolded cases_ok_def]
  obtain r where r: "r \<in> set (cases s)" "mirrors i r" using mirroredD(4) [OF m i] by blast
  have "q = r" if q: "q \<in> set (cases s)" "WorkflowInstanceID q = Some (wi_ID i)" for q
  proof -
    obtain j where "j \<in> set (workflow_instances s)" "wi_ID j = wi_ID i" "mirrors j q"
      using mirroredD(5) [OF m q] by blast
    then have "mirrors i q"
      using by_distinct_key [OF tables_okD(3) [OF ok(1) [unfolded wf_ok_tables]], of j i] i by simp
    then show "q = r" using by_distinct_key [OF mirroredD(2) [OF m] q(1) r(1)] r(2) by (simp add: mirrors_def)
  qed
  then show ?thesis using r unfolding mirrors_def by blast
qed

lemma case_mirrors_workflow_instance_witness:
  "\<exists>i r. workflow_instances case10 = [i] \<and> r \<in> set (cases case10) \<and> CurrentState i = ''b'' \<and> cs_Status r = ''b''
     \<and> ClosedAt r \<noteq> None"
proof -
  obtain i where i: "workflow_instances case10 = [i]" "CurrentState i = ''b''" "wi_Version i = 3" "CompletedAt i = Some 11000"
    by (simp add: case10_rows)
  then have "i \<in> set (workflow_instances case10)" by simp
  from case_mirrors_workflow_instance [OF sample_environment case_run10 this] obtain r where
    "r \<in> set (cases case10)" "cs_Status r = CurrentState i"
    "1 < wi_Version i \<longrightarrow> (ClosedAt r \<noteq> None \<longleftrightarrow> CompletedAt i \<noteq> None)"
    by blast
  then show ?thesis using i by (intro exI [of _ i] exI [of _ r]) simp
qed

subsection \<open>Required forms\<close>

lemma missing_forms_Nil:
  "missing_forms tenantID caseID defID k s = [] \<longleftrightarrow> (\<forall>a \<in> set (form_assignments s). fa_TenantID a = tenantID
     \<and> fa_WorkflowDefinitionID a = defID \<and> WorkflowStateKey a = k \<and> fa_Active a \<and> fa_Required a \<longrightarrow>
     (\<exists>x \<in> set (form_submissions s). sb_TenantID x = tenantID \<and> sb_CaseID x = caseID
        \<and> sb_FormVersionID x = fa_FormVersionID a))"
proof -
  have "FindByCaseAndFormVersion tenantID caseID v s = Inl dErrSubmissionNotFound \<longleftrightarrow>
      \<not> (\<exists>x \<in> set (form_submissions s). sb_TenantID x = tenantID \<and> sb_CaseID x = caseID \<and> sb_FormVersionID x = v)" for v
    by (simp add: FindByCaseAndFormVersion_def row_or_Inl filter_empty_conv)
  then show ?thesis
    unfolding missing_forms_def FindByWorkflowAndState_def by (auto simp: filter_empty_conv)
qed

text \<open>
  C1. No case leaves a state while a required form of that state is missing: when a transition
  of a run succeeds, through the workflow service or through the case service, every active
  required assignment of the state the instance leaves has a submission for the case.
\<close>

theorem required_forms_gate:
  assumes svc: "case_environment svc" "formRepos svc" and run: "case_run svc (s # run)" "s0 \<in> set (s # run)"
    and exec: "executeTransition (wfAuditor svc) (case_observer svc c) c s0 outer params s = (Inr res, s')"
  shows "\<exists>i \<in> set (workflow_instances s). wi_ID i = etp_InstanceID params \<and> wi_TenantID i = etp_TenantID params
     \<and> (\<forall>a \<in> set (form_assignments s). fa_TenantID a = wi_TenantID i \<and> fa_WorkflowDefinitionID a = wi_WorkflowDefID i
          \<and> WorkflowStateKey a = CurrentState i \<and> fa_Active a \<and> fa_Required a \<longrightarrow>
          (\<exists>x \<in> set (form_submissions s). sb_TenantID x = wi_TenantID i \<and> sb_CaseID x = wi_CaseID i
             \<and> sb_FormVersionID x = fa_FormVersionID a))"
proof -
  note ok = case_run_stores(3) [OF svc(1) run] case_run_stores(1) [OF svc(1) run(1)]
  show ?thesis
  proof (rule case_environment.case_transition_Inr [OF svc(1) _ _ _ exec])
    fix i d t x
    assume "enabled s params i d t x"
      and "formRepos svc \<Longrightarrow> missing_forms (wi_TenantID i) (wi_CaseID i) (wi_WorkflowDefID i) (CurrentState i) s = []"
    then show ?thesis
      using svc(2) unfolding missing_forms_Nil by (intro bexI [of _ i]) (auto simp: enabled_def)
  qed (use ok in auto)
qed

lemma required_forms_gate_witness:
  "\<exists>i x. i \<in> set (workflow_instances case9) \<and> x \<in> set (form_submissions case9) \<and> sb_CaseID x = wi_CaseID i
     \<and> sb_FormVersionID x = 400"
proof -
  obtain r where "ChangeStatus sample_service (sample_ctx 10) case9 sample_status case9 = (Inr r, case10)"
    using case10_result by blast
  then obtain i t res s1 where "executeTransition (wfAuditor sample_service) (case_observer sample_service (sample_ctx 10))
      (sample_ctx 10) case9 True (status_transition sample_status i t) case9 = (Inr res, s1)"
    by (rule case_environment.ChangeStatus_Inr [OF sample_environment])
  from required_forms_gate [OF sample_environment _ case_run9 _ this] obtain j where
      "j \<in> set (workflow_instances case9)"
    and "\<forall>a \<in> set (form_assignments case9). fa_TenantID a = wi_TenantID j \<and> fa_WorkflowDefinitionID a = wi_WorkflowDefID j
          \<and> WorkflowStateKey a = CurrentState j \<and> fa_Active a \<and> fa_Required a \<longrightarrow>
          (\<exists>x \<in> set (form_submissions case9). sb_TenantID x = wi_TenantID j \<and> sb_CaseID x = wi_CaseID j
             \<and> sb_FormVersionID x = fa_FormVersionID a)"
    by (auto simp: sample_service_def)
  then show ?thesis by (simp add: case9_eval)
qed

text \<open>The available forms behind a list of assignments: one per assignment that can be shown.\<close>

lemma version_by_id_Some: "version_by_id vs i = Some v \<Longrightarrow> fv_ID v = i"
  by (auto simp: version_by_id_def dest: map_of_SomeD)

lemma available_from: "b \<in> set (available_forms orgID as s) \<Longrightarrow> \<exists>a \<in> set as. cfa_FormVersionID b = fa_FormVersionID a"
proof -
  assume "b \<in> set (available_forms orgID as s)"
  then obtain a form v flds where "a \<in> set as" "fv_ID v = fa_FormVersionID a" "b = availability a form v flds"
    by (auto simp: available_forms_def Let_def split: option.splits if_splits dest: version_by_id_Some [OF sym])
  then show ?thesis by (auto simp: availability_def)
qed

lemma map_of_keyed: "distinct (map g xs) \<Longrightarrow> x \<in> set xs \<Longrightarrow> map_of (rev (map (\<lambda>y. (g y, y)) xs)) (g x) = Some x"
  by (rule map_of_is_SomeI) (simp_all add: o_def rev_map [symmetric])

lemma available_to:
  assumes ok: "intake_ok re s" and a: "a \<in> set (form_assignments s)" "fa_TenantID a = orgID" "a \<in> set as"
    and live: "\<forall>f \<in> set (forms s). fm_ID f = fa_FormID a \<longrightarrow> fm_Status f \<noteq> FormStatusArchived"
  shows "\<exists>b \<in> set (available_forms orgID as s). cfa_FormVersionID b = fa_FormVersionID a"
proof -
  have F: "forms_ok (forms s, form_versions s, form_fields s)" using ok by (simp add: intake_ok_def form_part_def)
  have "assignments_ok s" using ok by (simp add: intake_ok_def)
  from assignments_okD(1) [OF this a(1)] obtain v where v: "v \<in> set (form_versions s)" "fv_ID v = fa_FormVersionID a"
    "FormID v = fa_FormID a" "fv_OrganizationID v = orgID" "fv_Status v = FormVersionStatusPublished"
    using a(2) by blast
  obtain f where f: "f \<in> set (forms s)" "fm_ID f = fa_FormID a" "fm_OrganizationID f = orgID"
    using forms_okD(7) [OF F v(1)] v by (auto simp: version_ok_def)
  have ne: "as \<noteq> []" using a(3) by auto
  have form: "form_by_id (form_FindByIDs orgID (map fa_FormID as) s) (fa_FormID a) = Some f"
    using map_of_keyed [of fm_ID "form_FindByIDs orgID (map fa_FormID as) s" f] f a(3) forms_okD(1) [OF F] ne
    by (auto simp: form_by_id_def form_FindByIDs_def distinct_map_filter)
  have version: "version_by_id (version_FindByIDs orgID (map fa_FormVersionID as) s) (fa_FormVersionID a) = Some v"
    using map_of_keyed [of fv_ID "version_FindByIDs orgID (map fa_FormVersionID as) s" v] v a(3) forms_okD(3) [OF F] ne
    by (auto simp: version_by_id_def version_FindByIDs_def distinct_map_filter)
  let ?flds = "filter (\<lambda>l. FormVersionID l = fv_ID v) (FindFieldsByVersionIDs orgID (map fv_ID
     (filter (\<lambda>v. fv_Status v = FormVersionStatusPublished) (version_FindByIDs orgID (map fa_FormVersionID as) s))) s)"
  have "availability a f v ?flds \<in> set (available_forms orgID as s)"
    unfolding available_forms_def Let_def set_concat set_map
    by (rule UN_I [OF imageI [OF a(3)]]) (use form version v(5) live f in simp)
  then show ?thesis by (rule bexI [rotated]) (simp add: availability_def v(2))
qed

text \<open>
  What a reader is told before the move: whenever the gate would let the case through, the
  requirements say that it can proceed; and when none of the forms required in the state is
  archived, they say so only then.
\<close>

theorem requirements_agree_with_gate:
  assumes svc: "case_environment svc" "formRepos svc" and aud: "growing_auditor auditor"
    and run: "intake_run re lower auditor svc (s # run)"
    and cs: "case_FindByID orgID caseID s = Inr cs" "case_instance orgID cs s = Inr i"
  shows "\<exists>w. GetWorkflowRequirements svc orgID caseID s = Inr w
     \<and> (missing_forms orgID caseID (wi_WorkflowDefID i) (CurrentState i) s = [] \<longrightarrow> CanProceed w)
     \<and> ((\<forall>a \<in> set (state_assignments orgID i s). \<forall>f \<in> set (forms s). fa_Active a \<and> fa_Required a
            \<and> fm_ID f = fa_FormID a \<longrightarrow> fm_Status f \<noteq> FormStatusArchived)
         \<longrightarrow> CanProceed w \<longrightarrow> missing_forms orgID caseID (wi_WorkflowDefID i) (CurrentState i) s = [])"
proof -
  let ?as = "filter (\<lambda>a. fa_Active a \<and> fa_Required a) (state_assignments orgID i s)"
  let ?xs = "submission_ListByCase orgID caseID s"
  let ?missing = "filter (\<lambda>a. cfa_FormVersionID a \<notin> sb_FormVersionID ` set ?xs) (available_forms orgID ?as s)"
  have ok: "intake_ok re s" using intake_run_is_ok [OF svc(1) aud run] by (simp add: intake_run_ok_def)
  have linked: "WorkflowInstanceID cs \<noteq> None" using cs(2) by (auto simp: case_instance_def split: option.splits)
  obtain w where w: "GetWorkflowRequirements svc orgID caseID s = Inr w" "CanProceed w \<longleftrightarrow> ?missing = []"
    using svc(2) cs linked by (simp add: GetWorkflowRequirements_def Let_def)
  have gate: "missing_forms orgID caseID (wi_WorkflowDefID i) (CurrentState i) s = []
      \<longleftrightarrow> (\<forall>a \<in> set ?as. fa_FormVersionID a \<in> sb_FormVersionID ` set ?xs)"
  proof -
    have "a \<in> set ?as \<longleftrightarrow> a \<in> set (form_assignments s) \<and> fa_TenantID a = orgID
        \<and> fa_WorkflowDefinitionID a = wi_WorkflowDefID i \<and> WorkflowStateKey a = CurrentState i \<and> fa_Active a \<and> fa_Required a" for a
      by (auto simp: state_assignments_def FindByWorkflowAndState_def)
    moreover have "v \<in> sb_FormVersionID ` set ?xs \<longleftrightarrow> (\<exists>x \<in> set (form_submissions s). sb_TenantID x = orgID
        \<and> sb_CaseID x = caseID \<and> sb_FormVersionID x = v)" for v
      by (auto simp: submission_ListByCase_def)
    ultimately show ?thesis unfolding missing_forms_Nil by blast
  qed
  have from_as: "\<exists>a \<in> set ?as. cfa_FormVersionID b = fa_FormVersionID a" if "b \<in> set (available_forms orgID ?as s)" for b
    using that available_from by blast
  have to_as: "\<exists>b \<in> set (available_forms orgID ?as s). cfa_FormVersionID b = fa_FormVersionID a"
    if "a \<in> set ?as" "\<forall>f \<in> set (forms s). fm_ID f = fa_FormID a \<longrightarrow> fm_Status f \<noteq> FormStatusArchived" for a
    using that available_to [OF ok] by (auto simp: state_assignments_def FindByWorkflowAndState_def)
  show ?thesis
  proof (intro exI [of _ w] conjI impI)
    show "GetWorkflowRequirements svc orgID caseID s = Inr w" by (rule w)
    assume "missing_forms orgID caseID (wi_WorkflowDefID i) (CurrentState i) s = []"
    then show "CanProceed w" unfolding w(2) gate filter_empty_conv using from_as by metis
  next
    assume live: "\<forall>a \<in> set (state_assignments orgID i s). \<forall>f \<in> set (forms s). fa_Active a \<and> fa_Required a
            \<and> fm_ID f = fa_FormID a \<longrightarrow> fm_Status f \<noteq> FormStatusArchived" and "CanProceed w"
    then have none: "cfa_FormVersionID b \<in> sb_FormVersionID ` set ?xs" if "b \<in> set (available_forms orgID ?as s)" for b
      using that unfolding w(2) filter_empty_conv by blast
    have "fa_FormVersionID a \<in> sb_FormVersionID ` set ?xs" if a: "a \<in> set ?as" for a
    proof -
      have "\<forall>f \<in> set (forms s). fm_ID f = fa_FormID a \<longrightarrow> fm_Status f \<noteq> FormStatusArchived"
        using live a by auto
      from to_as [OF a this] none show ?thesis by metis
    qed
    then show "missing_forms orgID caseID (wi_WorkflowDefID i) (CurrentState i) s = []"
      unfolding gate by blast
  qed
qed

lemma requirements_agree_with_gate_witness:
  "\<exists>w. GetWorkflowRequirements sample_service 7 800 case9 = Inr w \<and> CanProceed w"
proof -
  have cs: "case_FindByID 7 800 case9 = Inr (scanned_case case_row8)"
    by (simp add: case_FindByID_def scanCase_def query_row_def case9_eval)
  have i: "case_instance 7 (scanned_case case_row8) case9 = Inr instance_row8"
    by (simp add: case_instance_def instance_FindByID_def scan_instance_def query_row_def case9_eval)
  have svc: "formRepos sample_service" by (simp add: sample_service_def)
  have "missing_forms 7 800 (wi_WorkflowDefID instance_row8) (CurrentState instance_row8) case9 = []"
    by (simp add: missing_forms_Nil case9_eval)
  then show ?thesis
    using requirements_agree_with_gate [OF sample_environment svc no_auditor_grows sample_intake cs i] by blast
qed

subsection \<open>Creating a case\<close>

text \<open>
  The loop around saving a new case always returns, after one attempt: inside its
  transaction a first unique violation aborts every later statement, and the error that follows
  is not the conflict the loops of the repository and of the service would retry on.
\<close>

lemma create_case_single_attempt:
  "create_loop svc c p n cs s = Some (case case_insert_result cs (cases s) of
     Inserted \<Rightarrow> after_save svc c p cs (s\<lparr>cases := cases s @ [case_row cs]\<rparr>)
   | UniqueViolation \<Rightarrow> (Inl (Wrap ''failed to save case'' (Wrap ''failed to insert case''
         (Err ''current transaction is aborted''))), s)
   | CheckViolation \<Rightarrow> (Inl (Wrap ''failed to save case'' (Wrap ''failed to insert case'' (SqlConstraint ''cases''))), s))"
  by (simp add: create_loop_once case_SaveTx_once split: insert_result.split)

text \<open>
  When there is a workflow service, a request to create a case that leaves the workflow to
  the service type never succeeds: the workflow is looked up and stored in the case, but the
  instance is then created for the pointer of the request, which is nil.
\<close>

theorem create_case_needs_workflow_id:
  assumes "wfAvailable svc" "cc_WorkflowID p = None"
  shows "\<exists>e. CreateCase svc c committed p s = (Inl e, s)"
proof (cases "CreateCase svc c committed p s")
  case (Pair r s')
  show ?thesis
  proof (cases r)
    case (Inl e)
    have "s' = s" by (rule tx_atomicD [OF case_requests_atomic(1) Pair [unfolded Inl]])
    then show ?thesis using Pair Inl by simp
  next
    case (Inr cs)
    have no: "after_save svc c p x t \<noteq> (Inr cs, s')" for x t
      using assms by (simp add: after_save_def tx_Inr)
    show ?thesis by (rule CreateCase_once [OF Pair [unfolded Inr]]) (simp add: no)
  qed
qed

lemma create_case_needs_workflow_id_witness:
  "\<exists>e. CreateCase sample_service (sample_ctx 8) case7 (sample_case\<lparr>cc_WorkflowID := None\<rparr>) case7 = (Inl e, case7)"
  by (rule create_case_needs_workflow_id) (simp_all add: sample_service_def)

text \<open>
  C31. A case that is created in a run is stored with a fresh identifier and a number that is
  new in its organization, and is linked to a new instance of the active definition of the
  request, at its initial state, which is the status of the case. Nothing else changes in the
  workflow tables, in the cases and in the forms.
\<close>

theorem created_case_starts_workflow:
  assumes svc: "case_environment svc" "wfAvailable svc" and run: "case_run svc (s # run)"
    and create: "CreateCase svc c committed p s = (Inr cs', s')"
  shows "\<exists>d i r w. cc_WorkflowID p = Some w \<and> def_FindByID (cc_OrganizationID p) w s = Inr d
     \<and> wd_Status d = WorkflowStatusActive
     \<and> cases s' = cases s @ [r] \<and> cs_ID r \<notin> cs_ID ` set (cases s)
     \<and> (\<forall>q \<in> set (cases s). cs_OrganizationID q = cs_OrganizationID r \<longrightarrow> CaseNumber q \<noteq> CaseNumber r)
     \<and> cs_OrganizationID r = cc_OrganizationID p \<and> WorkflowInstanceID r = Some (wi_ID i)
     \<and> cs_Status r = InitialState d \<and> WorkflowState r = InitialState d
     \<and> wf_tables s' = (workflow_definitions s, workflow_states s, workflow_transitions s,
         workflow_instances s @ [i], workflow_history s)
     \<and> wi_CaseID i = cs_ID r \<and> wi_WorkflowDefID i = w \<and> CurrentState i = InitialState d \<and> CompletedAt i = None
     \<and> form_tables s' = form_tables s"
proof (rule CreateCase_once [OF create])
  fix w and cs0 :: Case
  define cs where "cs = cs0\<lparr>WorkflowID := Some w\<rparr>"
  let ?s = "s\<lparr>cases := cases s @ [case_row cs]\<rparr>"
  assume new: "NewCase c (cc_OrganizationID p) (cc_CreatedByID p) (cc_Title p) (cc_Description p) (cc_ServiceType p)
       (cc_Priority p) (cc_PersonID p) = Inr cs0"
    and ins: "case_insert_result (cs0\<lparr>WorkflowID := Some w\<rparr>) (cases s) = Inserted"
    and saved: "after_save svc c p (cs0\<lparr>WorkflowID := Some w\<rparr>)
      (s\<lparr>cases := cases s @ [case_row (cs0\<lparr>WorkflowID := Some w\<rparr>)]\<rparr>) = (Inr cs', s')"
  have org: "cs_OrganizationID cs = cc_OrganizationID p"
    using new by (auto simp: cs_def NewCase_def split: option.splits)
  have id: "cs_ID cs \<notin> cs_ID ` set (cases s)"
    "\<forall>q \<in> set (cases s). cs_OrganizationID q = cs_OrganizationID cs \<longrightarrow> CaseNumber q \<noteq> CaseNumber cs"
    using ins by (auto simp: case_insert_result_def cs_def split: if_splits)
  note m = case_run_stores(2) [OF svc(1) run, unfolded cases_ok_def]
  show ?thesis
  proof (rule case_environment.after_save_Inr [OF svc(1) saved [folded cs_def] svc(2) _ id(1)])
    show "cases ?s = cases s @ [case_row cs]" by simp
    fix v and d :: WorkflowDefinition and i
    let ?r = "linked_row (ctx_time c 1) i (if InitialState d = [] then cs_Status cs else InitialState d) (case_row cs)"
    assume v: "cc_WorkflowID p = Some v" and d: "def_FindByID (cs_OrganizationID cs) v ?s = Inr d" "wd_Status d = WorkflowStatusActive"
      and i: "i = new_instance (later_ctx 20 c) (cs_OrganizationID cs) (cs_ID cs) d"
      and t: "wf_tables s' = (workflow_definitions ?s, workflow_states ?s, workflow_transitions ?s,
        workflow_instances ?s @ [instance_row i], workflow_history ?s)"
      and C: "cases s' = cases s @ [?r]" and F: "form_tables s' = form_tables ?s"
    have d': "def_FindByID (cc_OrganizationID p) v s = Inr d" using d(1) org by (simp add: def_FindByID_def)
    have st: "(if InitialState d = [] then cs_Status cs else InitialState d) = InitialState d"
      using def_FindByID_Inr [OF d'] mirroredD(1) [OF m, of d] by simp
    have "wd_ID d = v" using def_FindByID_Inr [OF d'] by simp
    then show ?thesis
      using v d' d(2) t C F id org
      by (intro exI [of _ d] exI [of _ "instance_row i"] exI [of _ ?r] exI [of _ v])
        (simp add: st, simp add: i new_instance_def instance_row_def form_tables_def)
  qed
qed

lemma created_case_starts_workflow_witness:
  "\<exists>d i r. def_FindByID 7 100 case7 = Inr d \<and> cases case8 = [r] \<and> cs_Status r = InitialState d
     \<and> workflow_instances case8 = [i] \<and> WorkflowInstanceID r = Some (wi_ID i)"
proof -
  obtain cs where "CreateCase sample_service (sample_ctx 8) case7 sample_case case7 = (Inr cs, case8)"
    using case8_result by blast
  from created_case_starts_workflow [OF sample_environment _ case_run7 this]
  obtain d i r where "def_FindByID 7 100 case7 = Inr d" "cases case8 = cases case7 @ [r]" "cs_Status r = InitialState d"
    "WorkflowInstanceID r = Some (wi_ID i)" "workflow_instances case8 = workflow_instances case7 @ [i]"
    by (auto simp: sample_service_def sample_case_def wf_tables_eq)
  then show ?thesis by (simp add: case6_eval case7_rows)
qed

subsection \<open>Changing the status\<close>

text \<open>The transition that is planned is the one that was chosen among the valid ones.\<close>

lemma chosen_transition:
  assumes ok: "wf_ok s" and i: "GetInstanceByCaseID orgID caseID s = Inr i" and ts: "GetValidTransitions orgID (wi_ID i) s = Inr ts"
    and t: "t \<in> set ts" and en: "enabled s params j d u x" "etp_InstanceID params = wi_ID i" "etp_TenantID params = orgID"
      "etp_TransitionKey params = wt_Key t"
  shows "j = i" "u = t" "wi_CaseID i = caseID" "wi_TenantID i = orgID"
proof -
  note tables = ok [unfolded wf_ok_tables] and e = en(1) [unfolded enabled_def]
  obtain i': "i \<in> set (workflow_instances s)" and c: "wi_CaseID i = caseID" "wi_TenantID i = orgID"
  proof -
    have "scan_instance (filter (\<lambda>i. wi_TenantID i = orgID \<and> wi_CaseID i = caseID) (workflow_instances s)) = Inr i"
      using i by (auto simp: GetInstanceByCaseID_def instance_FindByCaseID_def split: sum.splits)
    then show thesis using that unfolding scan_instance_def by (auto dest!: query_row_mem)
  qed
  show "wi_CaseID i = caseID" "wi_TenantID i = orgID" by (rule c)+
  show ji: "j = i" using by_distinct_key [OF tables_okD(3) [OF tables], of j i] e en(2) i' by simp
  obtain d0 where "def_FindByID orgID (wi_WorkflowDefID j) s = Inr d0"
    "t \<in> set (transition_FindByFromState orgID (wd_ID d0) (CurrentState j) s)"
    using ts t ji instance_FindByID_only [OF ok i'] c
    by (auto simp: GetValidTransitions_def Let_def split: sum.splits)
  then have "t \<in> set (def_transitions d (workflow_transitions s))"
    using def_FindByID_Inr [of orgID "wi_WorkflowDefID j" s d0] e en(3)
    by (auto simp: transition_FindByFromState_def def_transitions_def runs_def)
  moreover have "distinct (map wt_Key (def_transitions d (workflow_transitions s)))"
    using tables_okD(8) [OF tables, of d] e by (simp add: graph_ok_def consistent_definition_def)
  ultimately show "u = t" using by_distinct_key [of wt_Key _ u t] e en(4) by auto
qed

text \<open>The effect of one transition on the case, the other cases and the history.\<close>

definition case_moved :: "instant \<Rightarrow> uuid \<Rightarrow> uuid \<Rightarrow> WorkflowTransition \<Rightarrow> uuid option \<Rightarrow> 's case_db_scheme \<Rightarrow> 's case_db_scheme \<Rightarrow> bool" where
  "case_moved n orgID caseID t decisionID s s' \<longleftrightarrow>
     (\<exists>i x r h. i \<in> set (workflow_instances s) \<and> wi_CaseID i = caseID \<and> wi_TenantID i = orgID
        \<and> t \<in> set (workflow_transitions s) \<and> wt_Active t \<and> FromState t = CurrentState i
        \<and> x \<in> set (workflow_states s) \<and> ws_Key x = ToState t \<and> r \<in> set (cases s) \<and> cs_ID r = caseID
        \<and> cases s' = map (\<lambda>q. if q = r then state_changes n (ToState t) (Terminal x) q else q) (cases s)
        \<and> form_tables s' = form_tables s \<and> workflow_history s' = workflow_history s @ [h] \<and> wh_CaseID h = caseID
        \<and> wh_FromState h = CurrentState i \<and> wh_ToState h = ToState t
        \<and> wh_DecisionID h = (if decisionID = Some uuid_nil then None else decisionID))"

lemma chosen_move:
  assumes svc: "case_environment svc" and run: "case_run svc (s # run)" "s0 \<in> set (s # run)"
    and i: "GetInstanceByCaseID orgID caseID s0 = Inr i" and ts: "GetValidTransitions orgID (wi_ID i) s0 = Inr ts" "t \<in> set ts"
    and par: "etp_InstanceID params = wi_ID i" "etp_TenantID params = orgID" "etp_TransitionKey params = wt_Key t"
    and moves: "moves_case svc c s0 params s s'"
  shows "case_moved (ctx_time c 1) orgID caseID t (etp_DecisionID params) s s' \<and> role_allowed t (etp_ActorRole params)"
proof -
  obtain s1 res s2 where s1: "same_records s s1" and s2: "same_records s2 s'"
    and e: "executeTransition (wfAuditor svc) (case_observer svc c) c s0 True params s1 = (Inr res, s2)"
    using moves by (auto simp: moves_case_def)
  note ok = case_run_stores(3) [OF svc run] case_run_stores(1,2) [OF svc run(1)]
  have ok0: "wf_ok s0" "wf_evolves s0 s1" "wf_ok s1"
    using ok case_environment.same_records_ok(1,3) [OF svc s1] evolution.trans [of s0 s s1] by auto
  have same: "wf_tables s1 = wf_tables s" "cases s1 = cases s" "form_tables s1 = form_tables s"
    using s1 by (simp_all add: same_records_def)
  note m = ok(3) [unfolded cases_ok_def]
  show ?thesis
  proof (rule case_environment.case_transition_Inr [OF svc ok0(1,3,2) e])
    fix j d def u x r
    assume plan: "plan_transition s0 params = Inr (j, def, u, x)" and en: "enabled s1 params j d u x"
      and tables: "wf_tables s2 = (workflow_definitions s1, workflow_states s1, workflow_transitions s1,
       map (\<lambda>y. if y = j then moved u (Terminal x) (ctx_time c 1) y else y) (workflow_instances s1),
       workflow_history s1 @ [history_row (transition_history c params j u)])"
      and r: "r \<in> set (cases s1)" "cs_OrganizationID r = wi_TenantID j" "cs_ID r = wi_CaseID j"
      and C: "cases s2 = update_where (case_at (wi_TenantID j) (wi_CaseID j) (cs_Version r))
         (state_changes (ctx_time c 1) (ToState u) (Terminal x)) (cases s1)"
      and F: "form_tables s2 = form_tables s1"
    obtain d0 where en0: "enabled s0 params j d0 u x" using plan_transition_enabled [OF ok0(1) plan] by blast
    note same_t = chosen_transition [OF ok0(1) i ts en0 par]
    have "case_at (wi_TenantID j) (wi_CaseID j) (cs_Version r) q \<longleftrightarrow> q = r" if "q \<in> set (cases s1)" for q
      using by_distinct_key [OF mirroredD(2) [OF m], of q r] that r same(2) by (auto simp: case_at_def)
    then have "cases s2 = map (\<lambda>q. if q = r then state_changes (ctx_time c 1) (ToState t) (Terminal x) q else q) (cases s1)"
      unfolding C update_where_def same_t(2) by (intro map_cong refl) simp
    moreover have "workflow_history s1 = workflow_history s" "workflow_instances s1 = workflow_instances s"
      "workflow_states s1 = workflow_states s" "workflow_transitions s1 = workflow_transitions s"
      using same(1) by (simp_all add: wf_tables_def)
    ultimately show ?thesis
      using en r same_t same s2 tables F unfolding case_moved_def same_records_def
      by (intro conjI exI [of _ j] exI [of _ x] exI [of _ r] exI [of _ "history_row (transition_history c params j u)"])
        (auto simp: enabled_def def_transitions_def def_states_def history_row_def transition_history_def wf_tables_eq split: option.split)
  qed
qed

text \<open>
  C30. A change of status that succeeds in a run makes exactly one transition: an active
  transition of the workflow from the current state of the case's instance to the requested
  status, allowed for the actor's role. The row of the case gets the new status, the next
  version and, when the new state is terminal, a closing time (otherwise none); no other case
  changes; one history row records the move; and the answer carries the requested status.
\<close>

theorem change_status_makes_one_transition:
  assumes svc: "case_environment svc" and run: "case_run svc (s # run)" "s0 \<in> set (s # run)"
    and change: "ChangeStatus svc c s0 p s = (Inr cs', s')"
  shows "\<exists>i t x r. i \<in> set (workflow_instances s) \<and> wi_CaseID i = ch_CaseID p \<and> wi_TenantID i = ch_OrganizationID p
     \<and> t \<in> set (workflow_transitions s) \<and> wt_Active t \<and> FromState t = CurrentState i \<and> ToState t = ch_Status p
     \<and> role_allowed t (ch_ActorRole p) \<and> x \<in> set (workflow_states s) \<and> ws_Key x = ch_Status p
     \<and> r \<in> set (cases s) \<and> cs_ID r = ch_CaseID p
     \<and> cases s' = map (\<lambda>q. if q = r then q\<lparr>WorkflowState := ch_Status p, cs_Status := ch_Status p,
            cs_Version := cs_Version q + 1, cs_UpdatedAt := ctx_time c 1,
            ClosedAt := (if Terminal x then Some (ctx_time c 1) else None)\<rparr> else q) (cases s)
     \<and> (\<exists>h. workflow_history s' = workflow_history s @ [h] \<and> wh_CaseID h = ch_CaseID p
            \<and> wh_FromState h = CurrentState i \<and> wh_ToState h = ch_Status p)
     \<and> cs_Status cs' = ch_Status p \<and> cs_Version cs' = cs_Version r + 1 \<and> form_tables s' = form_tables s"
proof (rule case_environment.ChangeStatus_Inr [OF svc change])
  fix cs and i :: WorkflowInstance and ts and t :: WorkflowTransition and res s1 and updated :: Case
  let ?par = "status_transition p i t"
  assume i: "GetInstanceByCaseID (ch_OrganizationID p) (ch_CaseID p) s0 = Inr i"
    and ts: "GetValidTransitions (ch_OrganizationID p) (wi_ID i) s0 = Inr ts" "t \<in> set ts" "ToState t = ch_Status p"
    and e: "executeTransition (wfAuditor svc) (case_observer svc c) c s0 True ?par s = (Inr res, s1)"
    and upd: "case_FindByID (ch_OrganizationID p) (ch_CaseID p) s1 = Inr updated" and same: "same_records s1 s'"
    and cs': "cs' = refreshed_case c cs updated"
  have "moves_case svc c s0 ?par s s'" unfolding moves_case_def using e same records_frame.refl by blast
  then have "case_moved (ctx_time c 1) (ch_OrganizationID p) (ch_CaseID p) t (etp_DecisionID ?par) s s' \<and> role_allowed t (etp_ActorRole ?par)"
    by (rule chosen_move [OF svc run i ts(1,2), rotated 3]) (simp_all add: status_transition_def)
  then obtain j x r h where j: "j \<in> set (workflow_instances s)" "wi_CaseID j = ch_CaseID p" "wi_TenantID j = ch_OrganizationID p"
    and t: "t \<in> set (workflow_transitions s)" "wt_Active t" "FromState t = CurrentState j" "role_allowed t (ch_ActorRole p)"
    and x: "x \<in> set (workflow_states s)" "ws_Key x = ch_Status p" and r: "r \<in> set (cases s)" "cs_ID r = ch_CaseID p"
    and C: "cases s' = map (\<lambda>q. if q = r then state_changes (ctx_time c 1) (ch_Status p) (Terminal x) q else q) (cases s)"
    and h: "form_tables s' = form_tables s" "workflow_history s' = workflow_history s @ [h]" "wh_CaseID h = ch_CaseID p"
      "wh_FromState h = CurrentState j" "wh_ToState h = ch_Status p"
    unfolding case_moved_def ts(3) status_transition_def by auto
  obtain q where q: "q \<in> set (cases s')" "cs_ID q = ch_CaseID p" "updated = scanned_case q"
    using case_FindByID_Inr [OF upd] same by (auto simp: same_records_def)
  obtain q0 where q0: "q0 \<in> set (cases s)" "q = (if q0 = r then state_changes (ctx_time c 1) (ch_Status p) (Terminal x) q0 else q0)"
    using q(1) unfolding C by auto
  have "cs_ID q0 = cs_ID r" using q(2) q0(2) r(2) by (auto split: if_splits)
  then have "q0 = r"
    using by_distinct_key [OF mirroredD(2) [OF case_run_stores(2) [OF svc run(1), unfolded cases_ok_def]] q0(1) r(1)] by simp
  then have "cs_Status cs' = ch_Status p" "cs_Version cs' = cs_Version r + 1"
    using q(3) q0(2) cs' by (simp_all add: refreshed_case_def)
  then show ?thesis
    using j t ts(3) x r C h unfolding state_changes_def
    by (intro exI [of _ j] exI [of _ t] exI [of _ x] exI [of _ r] conjI exI [of _ h]) simp_all
qed

lemma change_status_makes_one_transition_witness:
  "\<exists>r h. ChangeStatus sample_service (sample_ctx 10) case9 sample_status case9 = (Inr r, case10) \<and> cs_Status r = ''b''
     \<and> workflow_history case10 = workflow_history case9 @ [h] \<and> wh_ToState h = ''b''"
proof -
  obtain r where r: "ChangeStatus sample_service (sample_ctx 10) case9 sample_status case9 = (Inr r, case10)"
    using case10_result by blast
  have "ch_Status sample_status = ''b''" by (simp add: sample_status_def)
  then show ?thesis
    using change_status_makes_one_transition [OF sample_environment case_run9 _ r] r by fastforce
qed

end
