(* ===== verification/Case_Lifecycle.thy ===== *)
theory Case_Lifecycle
  imports Case_Properties
begin

section \<open>The life of a case, abstractly\<close>

text \<open>
  A specification of the case and workflow services that knows nothing of tables and requests:
  a partial map from cases to the states they are in. A case appears in the initial state of a
  workflow, and then only moves along the transitions of that workflow. The theorem at the end
  says that every request of a run is such a step of the abstraction, or none.
\<close>

type_synonym life = "uuid \<rightharpoonup> string"

definition life_of :: "'s wf_db_scheme \<Rightarrow> life" where
  "life_of s = map_of (map (\<lambda>i. (wi_CaseID i, CurrentState i)) (workflow_instances s))"

text \<open>A workflow as the specification sees it: its initial state and its moves.\<close>

record lifecycle =
  first_state :: string
  moves :: "(string \<times> string) set"

definition lifecycle_of :: "WorkflowDefinition \<Rightarrow> 's wf_db_scheme \<Rightarrow> lifecycle" where
  "lifecycle_of d s = \<lparr>first_state = InitialState d,
     moves = (\<lambda>t. (FromState t, ToState t)) ` set (filter wt_Active (def_transitions d (workflow_transitions s)))\<rparr>"

inductive life_step :: "(uuid \<Rightarrow> lifecycle option) \<Rightarrow> lifecycle set \<Rightarrow> life \<Rightarrow> life \<Rightarrow> bool"
  for follows available where
  stay: "life_step follows available L L"
| begin_case: "L caseID = None \<Longrightarrow> w \<in> available \<Longrightarrow> life_step follows available L (L(caseID \<mapsto> first_state w))"
| move: "L caseID = Some k \<Longrightarrow> follows caseID = Some w \<Longrightarrow> (k, k') \<in> moves w
    \<Longrightarrow> life_step follows available L (L(caseID \<mapsto> k'))"

text \<open>The workflow a case follows: that of its instance; the available ones are the active definitions.\<close>

definition follows_of :: "'s wf_db_scheme \<Rightarrow> uuid \<Rightarrow> lifecycle option" where
  "follows_of s caseID = (case List.find (\<lambda>i. wi_CaseID i = caseID) (workflow_instances s) of
     None \<Rightarrow> None
   | Some i \<Rightarrow> map_option (\<lambda>d. lifecycle_of d s)
       (List.find (\<lambda>d. wd_ID d = wi_WorkflowDefID i) (workflow_definitions s)))"

definition available_in :: "'s wf_db_scheme \<Rightarrow> lifecycle set" where
  "available_in s = (\<lambda>d. lifecycle_of d s) ` {d \<in> set (workflow_definitions s). wd_Status d = WorkflowStatusActive}"

lemma life_of_same: "wf_tables s' = wf_tables s \<Longrightarrow> life_of s' = life_of s"
  by (simp add: life_of_def wf_tables_def)

lemma life_of_None: "life_of s caseID = None \<longleftrightarrow> caseID \<notin> wi_CaseID ` set (workflow_instances s)"
  by (auto simp: life_of_def map_of_eq_None_iff image_image)

lemma life_of_Some:
  assumes "distinct (map wi_CaseID (workflow_instances s))" "i \<in> set (workflow_instances s)"
  shows "life_of s (wi_CaseID i) = Some (CurrentState i)"
  unfolding life_of_def by (rule map_of_is_SomeI) (use assms in \<open>simp_all add: o_def\<close>)

lemma map_of_append_new: "k \<notin> fst ` set xs \<Longrightarrow> map_of (xs @ [(k, v)]) = (map_of xs)(k \<mapsto> v)"
  by (induction xs) (auto simp: fun_eq_iff simp del: map_of_append)

lemma map_of_moved:
  assumes "distinct (map wi_CaseID I)" "i \<in> set I"
  shows "map_of (map (\<lambda>y. (wi_CaseID y, CurrentState y)) (map (\<lambda>y. if y = i then moved t final n y else y) I))
    = (map_of (map (\<lambda>y. (wi_CaseID y, CurrentState y)) I))(wi_CaseID i \<mapsto> ToState t)"
  using assms
proof (induction I)
  case (Cons y I)
  show ?case
  proof (cases "y = i")
    case True
    then have "map (\<lambda>y. if y = i then moved t final n y else y) I = I"
      using Cons.prems(1) by (intro map_idI) auto
    then show ?thesis using True by (simp add: fun_eq_iff)
  next
    case False
    then have "wi_CaseID y \<noteq> wi_CaseID i" using Cons.prems by (auto simp: image_iff)
    then show ?thesis using Cons.IH Cons.prems False by (auto simp: fun_eq_iff)
  qed
qed simp

lemma follows_of_instance:
  assumes ok: "wf_ok s" and i: "i \<in> set (workflow_instances s)" and d: "d \<in> set (workflow_definitions s)" "runs d i"
  shows "follows_of s (wi_CaseID i) = Some (lifecycle_of d s)"
proof -
  note tables = ok [unfolded wf_ok_tables]
  have "List.find (\<lambda>j. wi_CaseID j = wi_CaseID i) (workflow_instances s) = Some i"
    by (rule find_only [OF i refl]) (use by_distinct_key [OF tables_okD(4) [OF tables] _ i] in blast)
  moreover have "List.find (\<lambda>e. wd_ID e = wi_WorkflowDefID i) (workflow_definitions s) = Some d"
  proof (rule find_only [OF d(1)])
    show "wd_ID d = wi_WorkflowDefID i" using d(2) by (simp add: runs_def)
    then show "e = d" if "e \<in> set (workflow_definitions s)" "wd_ID e = wi_WorkflowDefID i" for e
      using by_distinct_key [OF tables_okD(2) [OF tables] that(1) d(1)] that(2) by simp
  qed
  ultimately show ?thesis by (simp add: follows_of_def)
qed

text \<open>The three kinds of change.\<close>

lemma life_begin:
  assumes "wf_tables s' = (workflow_definitions s, workflow_states s, workflow_transitions s,
      workflow_instances s @ [i], workflow_history s)"
    and "wi_CaseID i \<notin> wi_CaseID ` set (workflow_instances s)"
    and "d \<in> set (workflow_definitions s)" "wd_Status d = WorkflowStatusActive" "CurrentState i = InitialState d"
  shows "life_step (follows_of s) (available_in s) (life_of s) (life_of s')"
proof -
  have "life_of s' = (life_of s)(wi_CaseID i \<mapsto> first_state (lifecycle_of d s))"
    using assms(1,2,5) by (simp add: life_of_def wf_tables_eq lifecycle_of_def map_of_append_new image_image
        del: map_of_append)
  moreover have "lifecycle_of d s \<in> available_in s" using assms(3,4) by (simp add: available_in_def)
  ultimately show ?thesis using life_of_None [of s] assms(2) life_step.begin_case by metis
qed

lemma life_move:
  assumes ok: "wf_ok s" and en: "enabled s params i d t x"
    and t: "wf_tables s' = (workflow_definitions s, workflow_states s, workflow_transitions s,
       map (\<lambda>y. if y = i then moved t (Terminal x) n y else y) (workflow_instances s), H)"
  shows "life_step (follows_of s) (available_in s) (life_of s) (life_of s')"
proof -
  note e = en [unfolded enabled_def] and ids = tables_okD(4) [OF ok [unfolded wf_ok_tables]]
  have "life_of s' = (life_of s)(wi_CaseID i \<mapsto> ToState t)"
    using map_of_moved [OF ids, of i] t e by (simp add: life_of_def wf_tables_eq)
  moreover have "life_of s (wi_CaseID i) = Some (CurrentState i)" using life_of_Some [OF ids] e by blast
  moreover have "follows_of s (wi_CaseID i) = Some (lifecycle_of d s)" using follows_of_instance [OF ok] e by blast
  moreover have "(CurrentState i, ToState t) \<in> moves (lifecycle_of d s)" using e by (force simp: lifecycle_of_def)
  ultimately show ?thesis using life_step.move by metis
qed

text \<open>Requests that leave the instances alone, or that only move one.\<close>

context case_environment
begin

lemma definition_request_instances:
  assumes "definition_request (wfAuditor svc) s s'" "wf_ok s"
  shows "workflow_instances s' = workflow_instances s"
proof -
  have env: "wf_environment (wfAuditor svc) None"
    using environment by (simp add: wf_environment_def no_observer_quiet)
  from assms(1) show ?thesis
  proof cases
    case (create c params r)
    show ?thesis
    proof (cases r)
      case (Inl e)
      then show ?thesis using CreateWorkflowDefinition_Inl create by blast
    next
      case (Inr d)
      then show ?thesis
        using wf_environment.CreateWorkflowDefinition_Inr(5) [OF env create [unfolded Inr]] by (simp add: wf_tables_eq)
    qed
  next
    case (update c params r)
    then show ?thesis using UpdateWorkflowDefinition_fails [OF assms(2)] by (metis prod.inject)
  next
    case (activate c tenantID i actorID r)
    then show ?thesis
      by (cases r) (auto dest: definition_calls_Inl elim!: wf_environment.ActivateWorkflowDefinition_Inr [OF env]
          simp: wf_tables_eq)
  next
    case (archive c tenantID i actorID r)
    then show ?thesis
      by (cases r) (auto dest: definition_calls_Inl elim!: wf_environment.ArchiveWorkflowDefinition_Inr [OF env]
          simp: wf_tables_eq)
  next
    case (delete c tenantID i actorID r)
    then show ?thesis
      by (cases r) (auto dest: definition_calls_Inl elim!: wf_environment.DeleteWorkflowDefinition_Inr [OF env]
          simp: wf_tables_eq)
  qed
qed

lemma nested_life:
  assumes ok: "wf_ok s0" "wf_ok s" and ev: "wf_evolves s0 s" and s1: "same_records s s1"
    and run: "executeTransition (wfAuditor svc) (case_observer svc c) c s0 outer params s1 = (Inr res, s2)"
    and s2: "same_records s2 s'"
  shows "life_step (follows_of s) (available_in s) (life_of s) (life_of s')"
proof (rule case_transition_Inr [OF ok(1) same_records_ok(1) [OF s1 ok(2)] evolution.trans [OF ev same_records_ok(3) [OF s1]] run])
  fix i d t x
  have t: "wf_tables s1 = wf_tables s" "life_of s' = life_of s2"
    using s1 s2 life_of_same [of s' s2] by (simp_all add: same_records_def)
  assume "enabled s1 params i d t x"
    and "wf_tables s2 = (workflow_definitions s1, workflow_states s1, workflow_transitions s1,
       map (\<lambda>y. if y = i then moved t (Terminal x) (ctx_time c 1) y else y) (workflow_instances s1),
       workflow_history s1 @ [history_row (transition_history c params i t)])"
  then show ?thesis
    unfolding t(2) by (intro life_move [OF ok(2)]) (use t(1) in \<open>auto simp: enabled_def wf_tables_def\<close>)
qed

lemma create_case_life:
  assumes run: "CreateCase svc c s0 p s = (Inr cs', s')"
  shows "life_step (follows_of s) (available_in s) (life_of s) (life_of s')"
proof (rule CreateCase_once [OF run])
  fix w and cs :: Case
  let ?cs = "cs\<lparr>WorkflowID := Some w\<rparr>"
  let ?s = "s\<lparr>cases := cases s @ [case_row ?cs]\<rparr>"
  assume ins: "case_insert_result ?cs (cases s) = Inserted" and saved: "after_save svc c p ?cs ?s = (Inr cs', s')"
  show ?thesis
  proof (cases "wfAvailable svc")
    case True
    have id: "cs_ID ?cs \<notin> cs_ID ` set (cases s)" using ins by (auto simp: case_insert_result_def split: if_splits)
    show ?thesis
    proof (rule after_save_Inr [OF saved True _ id])
      show "cases ?s = cases s @ [case_row ?cs]" by simp
      fix v and d :: WorkflowDefinition and i
      assume d: "def_FindByID (cs_OrganizationID ?cs) v ?s = Inr d" "wd_Status d = WorkflowStatusActive"
        and i: "i = new_instance (later_ctx 20 c) (cs_OrganizationID ?cs) (cs_ID ?cs) d"
        and new: "cs_ID ?cs \<notin> wi_CaseID ` set (workflow_instances ?s)"
        and t: "wf_tables s' = (workflow_definitions ?s, workflow_states ?s, workflow_transitions ?s,
          workflow_instances ?s @ [instance_row i], workflow_history ?s)"
      show ?thesis
        by (rule life_begin [of s' s "instance_row i" d])
          (use t new d def_FindByID_Inr [OF d(1)] in \<open>auto simp: i new_instance_def instance_row_def wf_tables_eq\<close>)
    qed
  next
    case False
    then have "\<exists>ps u. case_audit svc c (cs_OrganizationID ?cs) (cs_CreatedByID ?cs) ''case.created'' (cs_ID ?cs) [] ?s = (Inr u, s')"
      using saved by (auto simp: after_save_def tx_Inr)
    then have "wf_tables s' = wf_tables ?s" using case_audit_records by (auto simp: same_records_def)
    then have "life_of s' = life_of s" using life_of_same [of s' ?s] by (simp add: life_of_def)
    then show ?thesis using life_step.stay by metis
  qed
qed

lemma assign_life: "AssignCase svc c s0 orgID caseID userID actorID s = (Inr cs, s') \<Longrightarrow> life_of s' = life_of s"
  by (rule AssignCase_Inr, assumption) (auto simp: same_records_def life_of_def wf_tables_def)

lemma change_status_life:
  assumes ok: "wf_ok s0" "wf_ok s" "wf_evolves s0 s" and run: "ChangeStatus svc c s0 p s = (Inr cs', s')"
  shows "life_step (follows_of s) (available_in s) (life_of s) (life_of s')"
  by (rule ChangeStatus_Inr [OF run]) (rule nested_life [OF ok records_frame.refl])

end

text \<open>A request that changes nothing when it fails.\<close>

lemma atomic_life:
  assumes "tx_atomic m" "m s = (r, s')"
    and "\<And>a. m s = (Inr a, s') \<Longrightarrow> life_step (follows_of s) (available_in s) (life_of s) (life_of s')"
  shows "life_step (follows_of s) (available_in s) (life_of s) (life_of s')"
proof (cases r)
  case (Inl e)
  then have "s' = s" using assms(1,2) by (auto dest: tx_atomicD)
  then show ?thesis using life_step.stay by metis
qed (use assms in simp)

text \<open>
  C7. Refinement: every request of a run, whatever its outcome and whatever it has read before
  its transaction, changes the map from cases to their states as the specification allows:
  not at all, by one case that begins in the initial state of an active workflow, or by one
  case that moves along a transition of the workflow it follows.
\<close>

theorem case_run_refines_lifecycle:
  assumes svc: "case_environment svc" and run: "case_run svc (s' # s # run)"
  shows "life_step (follows_of s) (available_in s) (life_of s) (life_of s')"
  using run
proof cases
  case workflow
  note ok = case_run_stores(1) [OF svc workflow(1)]
  show ?thesis
    using case_environment.definition_request_instances [OF svc workflow(2) ok] life_step.stay by (metis life_of_def)
next
  case (transition s0 c params r)
  note ok = case_run_stores(3) [OF svc transition(1,2)] case_run_stores(1) [OF svc transition(1)]
  show ?thesis
  proof (cases r)
    case (Inl e)
    then show ?thesis using transition(3) executeTransition_Inl life_step.stay by metis
  next
    case (Inr res)
    then show ?thesis
      using transition(3) case_environment.nested_life [OF svc _ _ _ records_frame.refl _ records_frame.refl] ok by blast
  qed
next
  case (create_case s0 c p r)
  show ?thesis
    by (rule atomic_life [OF case_requests_atomic(1) create_case(3)]) (rule case_environment.create_case_life [OF svc])
next
  case (change_status s0 c p r)
  note ok = case_run_stores(3) [OF svc change_status(1,2)] case_run_stores(1) [OF svc change_status(1)]
  show ?thesis
    by (rule atomic_life [OF case_requests_atomic(2) change_status(3)], rule case_environment.change_status_life [OF svc])
      (use ok in simp_all)
next
  case (assign s0 c orgID caseID userID actorID r)
  show ?thesis
    by (rule atomic_life [OF case_requests_atomic(3) assign(3)])
      (metis case_environment.assign_life [OF svc] life_step.stay)
next
  case (nested s0 s1 c params res s2)
  note ok = case_run_stores(3) [OF svc nested(1,2)] case_run_stores(1) [OF svc nested(1)]
  show ?thesis by (rule case_environment.nested_life [OF svc _ _ _ nested(3-5)]) (use ok in simp_all)
next
  case elsewhere
  then show ?thesis using life_of_same life_step.stay by metis
qed

lemma case_run_refines_lifecycle_witness:
  "life_step (follows_of case9) (available_in case9) (life_of case9) (life_of case10)
     \<and> life_of case9 800 = Some ''a'' \<and> life_of case10 800 = Some ''b''"
  using case_run_refines_lifecycle [OF sample_environment case_run10]
  by (simp add: life_of_def case10_rows case9_eval)

end
