(* ===== verification/Review_Runs.thy ===== *)
theory Review_Runs
  imports Review_Effects
begin

section \<open>Runs of decisions and reviews\<close>

text \<open>
  Runs in which the decision service and the review queue work beside the case and workflow
  services, and the invariants of their tables: the decisions of a case are the versions
  1, 2, 3, ... and each points to the one that superseded it; a review that has ended, or that
  waits for information, has left a decision on its case.
\<close>

subsection \<open>Chains of decisions\<close>

text \<open>The invariant: identifiers and versions are unique, and consecutive versions are linked.\<close>

definition linked :: "Decision list \<Rightarrow> bool" where
  "linked D \<longleftrightarrow> distinct (map dc_ID D) \<and> (\<forall>d \<in> set D. 1 \<le> dc_Version d)
     \<and> (\<forall>d \<in> set D. \<forall>e \<in> set D. same_request d e \<longrightarrow> dc_Version d = dc_Version e \<longrightarrow> d = e)
     \<and> (\<forall>d \<in> set D. 1 < dc_Version d \<longrightarrow>
         (\<exists>e \<in> set D. same_request d e \<and> dc_Version e + 1 = dc_Version d \<and> SupersededByID e = Some (dc_ID d)))
     \<and> (\<forall>d \<in> set D. SupersededByID d \<noteq> None \<longrightarrow> (\<exists>e \<in> set D. same_request d e \<and> dc_Version e = dc_Version d + 1))"

lemma linkedD:
  assumes "linked D"
  shows "distinct (map dc_ID D)" "d \<in> set D \<Longrightarrow> 1 \<le> dc_Version d"
    "d \<in> set D \<Longrightarrow> e \<in> set D \<Longrightarrow> same_request d e \<Longrightarrow> dc_Version d = dc_Version e \<Longrightarrow> d = e"
    "d \<in> set D \<Longrightarrow> 1 < dc_Version d \<Longrightarrow>
       \<exists>e \<in> set D. same_request d e \<and> dc_Version e + 1 = dc_Version d \<and> SupersededByID e = Some (dc_ID d)"
    "d \<in> set D \<Longrightarrow> SupersededByID d \<noteq> None \<Longrightarrow> \<exists>e \<in> set D. same_request d e \<and> dc_Version e = dc_Version d + 1"
  using assms unfolding linked_def by blast+

lemma same_request_sym: "same_request d e \<longleftrightarrow> same_request e d"
  by (auto simp: same_request_def)

lemma same_request_trans: "same_request d e \<Longrightarrow> same_request e f \<Longrightarrow> same_request d f"
  by (simp add: same_request_def)

text \<open>The versions of a case have no gap below.\<close>

lemma linked_below:
  assumes "linked D" "d \<in> set D" "1 \<le> v" "v \<le> dc_Version d"
  shows "\<exists>e \<in> set D. same_request d e \<and> dc_Version e = v"
  using assms(2,4)
proof (induction "nat (dc_Version d - v)" arbitrary: d)
  case 0
  then show ?case by (intro bexI [of _ d]) (auto simp: same_request_def)
next
  case (Suc n)
  then have "1 < dc_Version d" using assms(3) by linarith
  then obtain e where e: "e \<in> set D" "same_request d e" "dc_Version e + 1 = dc_Version d"
    using linkedD(4) [OF assms(1) Suc.prems(1)] by blast
  have "n = nat (dc_Version e - v)" "v \<le> dc_Version e" using Suc.hyps(2) e(3) by linarith+
  then obtain f where "f \<in> set D" "same_request e f" "dc_Version f = v"
    using Suc.hyps(1) [of e] e(1) by blast
  then show ?case using e(2) same_request_trans by blast
qed

lemma first_decision_none:
  assumes ok: "linked D" and new: "first_decision D d" and e: "e \<in> set D"
  shows "\<not> same_request d e"
proof
  assume "same_request d e"
  moreover obtain f where "f \<in> set D" "same_request e f" "dc_Version f = 1"
    using linked_below [OF ok e, of 1] linkedD(2) [OF ok e] by auto
  ultimately show False using new same_request_trans by (auto simp: first_decision_def)
qed

lemma linked_first:
  assumes ok: "linked D" and new: "first_decision D d"
  shows "linked (D @ [decision_row d])"
proof -
  let ?d = "decision_row d"
  have none: "\<not> same_request ?d e" if "e \<in> set D" for e
    using first_decision_none [OF ok new that] by (simp add: same_request_def)
  then have none': "\<not> same_request e ?d" if "e \<in> set D" for e using that same_request_sym by blast
  have v: "dc_Version ?d = 1" "SupersededByID ?d = None" "dc_ID ?d \<notin> dc_ID ` set D"
    using new by (simp_all add: first_decision_def)
  show ?thesis
    unfolding linked_def
  proof (intro conjI ballI impI)
    show "d1 = d2" if "d1 \<in> set (D @ [?d])" "d2 \<in> set (D @ [?d])" "same_request d1 d2" "dc_Version d1 = dc_Version d2" for d1 d2
      using that none none' linkedD(3) [OF ok] by auto
    show "\<exists>e \<in> set (D @ [?d]). same_request d1 e \<and> dc_Version e + 1 = dc_Version d1 \<and> SupersededByID e = Some (dc_ID d1)"
      if "d1 \<in> set (D @ [?d])" "1 < dc_Version d1" for d1
      using that v(1) linkedD(4) [OF ok] by (auto simp del: decision_row_simps)
    show "\<exists>e \<in> set (D @ [?d]). same_request d1 e \<and> dc_Version e = dc_Version d1 + 1"
      if "d1 \<in> set (D @ [?d])" "SupersededByID d1 \<noteq> None" for d1
      using that v(2) linkedD(5) [OF ok] by (auto simp del: decision_row_simps)
  qed (use v linkedD(1,2) [OF ok] in auto)
qed

text \<open>Superseding the last decision of a case.\<close>

lemma linked_superseding:
  assumes ok: "linked D" and e: "e \<in> set D" and d: "same_request e d" "dc_Version d = dc_Version e + 1"
    "SupersededByID d = None" "dc_ID d \<notin> dc_ID ` set D"
    and fresh: "\<And>f. f \<in> set D \<Longrightarrow> same_request d f \<Longrightarrow> dc_Version f \<noteq> dc_Version d"
  shows "linked (map (\<lambda>r. if r = e then r\<lparr>SupersededByID := Some (dc_ID d)\<rparr> else r) D @ [d])"
proof -
  define g where "g r = (if r = e then r\<lparr>SupersededByID := Some (dc_ID d)\<rparr> else r)" for r
  have g_id: "map dc_ID (map g D) = map dc_ID D" by (simp add: g_def)
  have g: "dc_ID (g r) = dc_ID r" "dc_Version (g r) = dc_Version r" "same_request (g r) f = same_request r f"
    "same_request f (g r) = same_request f r" for r f
    by (simp_all add: same_request_def g_def)
  have g_link: "SupersededByID (g r) = (if r = e then Some (dc_ID d) else SupersededByID r)" for r by (simp add: g_def)
  have last: "SupersededByID e = None"
  proof (rule ccontr)
    assume "SupersededByID e \<noteq> None"
    then obtain f where "f \<in> set D" "same_request e f" "dc_Version f = dc_Version e + 1" using linkedD(5) [OF ok e] by blast
    then show False using fresh [of f] d(1,2) by (auto simp: same_request_def)
  qed
  have new: "\<not> (same_request d r \<and> dc_Version r = dc_Version d)" if "r \<in> set D" for r using fresh that by blast
  have in_g: "g r \<in> set (map g D @ [d])" if "r \<in> set D" for r using that by auto
  have "linked (map g D @ [d])"
    unfolding linked_def
  proof (intro conjI ballI impI)
    show "distinct (map dc_ID (map g D @ [d]))"
      unfolding map_append g_id using linkedD(1) [OF ok] d(4) by simp
    show "1 \<le> dc_Version r" if "r \<in> set (map g D @ [d])" for r
    proof -
      have "1 \<le> dc_Version e" using linkedD(2) [OF ok e] .
      then show ?thesis using that linkedD(2) [OF ok] d(2) by (auto simp: g)
    qed
    show "r = q" if r: "r \<in> set (map g D @ [d])" "q \<in> set (map g D @ [d])" "same_request r q" "dc_Version r = dc_Version q" for r q
    proof -
      consider (old) r0 q0 where "r0 \<in> set D" "q0 \<in> set D" "r = g r0" "q = g q0" | (both) "r = d" "q = d"
        | (left) q0 where "r = d" "q0 \<in> set D" "q = g q0" | (right) r0 where "q = d" "r0 \<in> set D" "r = g r0"
        using r(1,2) by auto
      then show ?thesis
      proof cases
        case old
        then have "r0 = q0" using linkedD(3) [OF ok old(1,2)] r(3,4) g by metis
        then show ?thesis using old by simp
      next
        case left
        then show ?thesis using new [OF left(2)] r(3,4) g by metis
      next
        case right
        then show ?thesis using new [OF right(2)] r(3,4) g same_request_sym by metis
      qed simp
    qed
    show "\<exists>q \<in> set (map g D @ [d]). same_request r q \<and> dc_Version q + 1 = dc_Version r \<and> SupersededByID q = Some (dc_ID r)"
      if r: "r \<in> set (map g D @ [d])" "1 < dc_Version r" for r
    proof (cases "r = d")
      case True
      then show ?thesis using in_g [OF e] d(1,2) same_request_sym [of e d]
        by (intro bexI [of _ "g e"]) (simp_all add: g g_link)
    next
      case False
      then obtain r0 where r0: "r0 \<in> set D" "r = g r0" using r(1) by auto
      then obtain q where q: "q \<in> set D" "same_request r0 q" "dc_Version q + 1 = dc_Version r0" "SupersededByID q = Some (dc_ID r0)"
        using linkedD(4) [OF ok r0(1)] r(2) g(2) [of r0] by auto
      then have "q \<noteq> e" using last by auto
      then show ?thesis using q in_g [OF q(1)] r0(2) by (intro bexI [of _ "g q"]) (simp_all add: g g_link)
    qed
    show "\<exists>q \<in> set (map g D @ [d]). same_request r q \<and> dc_Version q = dc_Version r + 1"
      if r: "r \<in> set (map g D @ [d])" "SupersededByID r \<noteq> None" for r
    proof -
      obtain r0 where r0: "r0 \<in> set D" "r = g r0" using r d(3) by (auto simp: g_link)
      show ?thesis
      proof (cases "r0 = e")
        case True
        then show ?thesis using r0 d(1,2) by (intro bexI [of _ d]) (simp_all add: g)
      next
        case False
        then obtain q where "q \<in> set D" "same_request r0 q" "dc_Version q = dc_Version r0 + 1"
          using linkedD(5) [OF ok r0(1)] r(2) r0(2) by (auto simp: g_link)
        then show ?thesis using in_g [of q] r0(2) by (intro bexI [of _ "g q"]) (simp_all add: g)
      qed
    qed
  qed
  then show ?thesis unfolding g_def .
qed

subsection \<open>What never changes\<close>

text \<open>A decision keeps everything but an unset link; a review keeps its identity and its case.\<close>

definition kept_decision :: "Decision \<Rightarrow> Decision \<Rightarrow> bool" where
  "kept_decision d d' \<longleftrightarrow> d' = d\<lparr>SupersededByID := SupersededByID d'\<rparr>
     \<and> (SupersededByID d = None \<or> SupersededByID d' = SupersededByID d)"

definition kept_review :: "ReviewQueueEntry \<Rightarrow> ReviewQueueEntry \<Rightarrow> bool" where
  "kept_review r r' \<longleftrightarrow> r' = r\<lparr>rv_Status := rv_Status r', rv_AssignedToID := rv_AssignedToID r', rv_UpdatedAt := rv_UpdatedAt r'\<rparr>"

definition keeps_history :: "'s review_db_scheme \<Rightarrow> 's review_db_scheme \<Rightarrow> bool" where
  "keeps_history s s' \<longleftrightarrow> (\<forall>d \<in> set (decisions s). \<exists>d' \<in> set (decisions s'). kept_decision d d')
     \<and> (\<forall>r \<in> set (review_queue s). \<exists>r' \<in> set (review_queue s'). kept_review r r')"

lemma kept_decisionD:
  assumes "kept_decision d d'"
  shows "dc_ID d' = dc_ID d" "dc_OrganizationID d' = dc_OrganizationID d" "ServiceRequestID d' = ServiceRequestID d"
    "dc_Version d' = dc_Version d" "dc_Decision d' = dc_Decision d"
  using assms unfolding kept_decision_def by (metis Decision.select_convs Decision.surjective Decision.update_convs(9))+

lemma kept_reviewD:
  assumes "kept_review r r'"
  shows "rv_ID r' = rv_ID r" "rv_OrganizationID r' = rv_OrganizationID r" "rv_CaseID r' = rv_CaseID r"
  using assms unfolding kept_review_def by (cases r; cases r'; simp)+

lemma kept_refl [simp]: "kept_decision d d" "kept_review r r"
  by (simp_all add: kept_decision_def kept_review_def)

lemma kept_decision_trans: "kept_decision d e \<Longrightarrow> kept_decision e f \<Longrightarrow> kept_decision d f"
  unfolding kept_decision_def by (cases d; cases e; cases f; auto)

lemma kept_review_trans: "kept_review q r \<Longrightarrow> kept_review r t \<Longrightarrow> kept_review q t"
  unfolding kept_review_def by (cases q; cases r; cases t; simp)

interpretation history: tx_frame keeps_history
proof unfold_locales
  show "keeps_history s s" for s :: "'s review_db_scheme"
    unfolding keeps_history_def using kept_refl by blast
  show "keeps_history s1 s3" if "keeps_history s1 s2" "keeps_history s2 s3" for s1 s2 s3 :: "'s review_db_scheme"
    using that unfolding keeps_history_def by (metis kept_decision_trans kept_review_trans)
qed

lemma same_keeps_history: "same_reviews s s' \<Longrightarrow> keeps_history s s'"
  unfolding same_reviews_def using history.refl [of s] by (simp add: keeps_history_def)

subsection \<open>The invariant of the tables\<close>

definition ended :: "ReviewStatus \<Rightarrow> bool" where
  "ended st \<longleftrightarrow> final_status st \<or> st = ReviewStatusWaitingInfo"

definition decided :: "uuid \<Rightarrow> uuid \<Rightarrow> Decision list \<Rightarrow> bool" where
  "decided orgID caseID D \<longleftrightarrow> (\<exists>d \<in> set D. dc_OrganizationID d = orgID \<and> ServiceRequestID d = caseID)"

definition queue_ok :: "bool \<Rightarrow> Decision list \<Rightarrow> ReviewQueueEntry list \<Rightarrow> bool" where
  "queue_ok deciding D Q \<longleftrightarrow> distinct (map rv_ID Q)
     \<and> (\<forall>r \<in> set Q. rv_CompletedAt r = None \<and> (deciding \<longrightarrow> ended (rv_Status r) \<longrightarrow> decided (rv_OrganizationID r) (rv_CaseID r) D))"

definition reviews_ok :: "'s review_db_scheme ReviewQueueService \<Rightarrow> 's review_db_scheme \<Rightarrow> bool" where
  "reviews_ok rs s \<longleftrightarrow> linked (decisions s) \<and> queue_ok (reviewDecisions rs) (decisions s) (review_queue s)"

lemma decided_append: "decided orgID caseID D \<Longrightarrow> decided orgID caseID (D @ E)"
  by (auto simp: decided_def)

lemma queue_ok_decisions:
  "queue_ok b D Q \<Longrightarrow> (\<And>o' k. decided o' k D \<Longrightarrow> decided o' k D') \<Longrightarrow> queue_ok b D' Q"
  by (auto simp: queue_ok_def)

text \<open>The status of one review changes.\<close>

lemma queue_ok_reviewed:
  assumes ok: "queue_ok b D Q" and ext: "\<And>o' k. decided o' k D \<Longrightarrow> decided o' k D'"
    and new: "\<And>r. r \<in> set Q \<Longrightarrow> review_key orgID i r \<Longrightarrow> b \<Longrightarrow> ended st \<Longrightarrow> decided orgID (rv_CaseID r) D'"
  shows "queue_ok b D' (update_where (review_key orgID i) (reviewed now st a) Q)"
proof -
  have "map rv_ID (update_where (review_key orgID i) (reviewed now st a) Q) = map rv_ID Q"
    by (rule map_update_where) simp
  then show ?thesis
    using ok ext new unfolding queue_ok_def by (auto simp: set_update_where review_key_def split: if_splits)
qed

lemma reviewed_kept: "r \<in> set Q \<Longrightarrow> \<exists>r' \<in> set (update_where p (reviewed now st a) Q). kept_review r r'"
  unfolding update_where_def set_map
  by (intro bexI [OF _ imageI]) (auto simp: kept_review_def reviewed_def)

subsection \<open>The requests keep it\<close>

definition review_step :: "'s review_db_scheme ReviewQueueService \<Rightarrow> 's review_db_scheme \<Rightarrow> 's review_db_scheme \<Rightarrow> bool" where
  "review_step rs s s' \<longleftrightarrow> reviews_ok rs s' \<and> keeps_history s s'"

lemma same_reviews_step: "reviews_ok rs s \<Longrightarrow> same_reviews s s' \<Longrightarrow> review_step rs s s'"
  using same_keeps_history [of s s'] by (simp add: review_step_def reviews_ok_def same_reviews_def)

lemma first_decision_step:
  assumes ok: "reviews_ok rs s" and new: "first_decision (decisions s) d"
    and D: "decisions s' = decisions s @ [decision_row d]" and Q: "review_queue s' = review_queue s"
  shows "review_step rs s s'"
proof -
  have "queue_ok (reviewDecisions rs) (decisions s') (review_queue s)"
    using ok unfolding reviews_ok_def D by (blast intro: queue_ok_decisions decided_append)
  then show ?thesis
    using ok linked_first [OF _ new] kept_refl unfolding review_step_def reviews_ok_def keeps_history_def D Q set_append by blast
qed

text \<open>The row of an entry read earlier.\<close>

lemma still_there:
  assumes ok: "reviews_ok rs s" and kept: "keeps_history s0 s" and q: "q \<in> set (review_queue s0)"
    and r: "r \<in> set (review_queue s)" "rv_ID r = rv_ID q"
  shows "kept_review q r"
proof -
  obtain r' where r': "r' \<in> set (review_queue s)" "kept_review q r'" using kept q by (auto simp: keeps_history_def)
  then have "r' = r"
    using ok r by_distinct_key [of rv_ID "review_queue s" r' r] kept_reviewD(1)
    by (simp add: reviews_ok_def queue_ok_def)
  then show ?thesis using r' by simp
qed

lemma CreateReview_Inr:
  assumes "CreateReview c orgID caseID wi st pr rules ev form missing s = (Inr r, s')"
  shows "rv_ID r \<notin> rv_ID ` set (review_queue s)" "s' = s\<lparr>review_queue := review_queue s @ [review_row r]\<rparr>"
    "rv_Status r = ReviewStatusPending" "rv_CompletedAt r = None" "rv_OrganizationID r = orgID" "rv_CaseID r = caseID"
    "rv_ID r = ctx_uuid c 0" "MissingInformation r = missing" "rv_AssignedToID r = None"
  using assms
  by (auto simp: CreateReview_def Let_def NewReviewQueueEntry_def SaveReview_def saveReview_def tx_Inr split: if_splits)

lemma review_row_simps [simp]:
  "rv_ID (review_row r) = rv_ID r" "rv_Status (review_row r) = rv_Status r"
  "rv_OrganizationID (review_row r) = rv_OrganizationID r" "rv_CaseID (review_row r) = rv_CaseID r"
  "rv_CompletedAt (review_row r) = map_option trunc_micros (rv_CompletedAt r)"
  by (simp_all add: review_row_def)

lemma create_review_step:
  assumes ok: "reviews_ok rs s" and run: "CreateReview c orgID caseID wi st pr rules ev form missing s = (Inr r, s')"
  shows "review_step rs s s'" "same_records s s'"
proof -
  note e = CreateReview_Inr [OF run]
  have "queue_ok (reviewDecisions rs) (decisions s) (review_queue s @ [review_row r])"
    using ok e(1,3,4) by (auto simp: reviews_ok_def queue_ok_def ended_def final_status_def)
  then show "review_step rs s s'"
    using ok kept_refl unfolding e(2) review_step_def reviews_ok_def keeps_history_def
    by (simp del: kept_refl) blast
  show "same_records s s'" unfolding e(2) by simp
qed

lemma reviewed_step:
  assumes ok: "reviews_ok rs s"
    and Q: "review_queue s' = update_where (review_key orgID i) (reviewed now st a) (review_queue s)"
    and D: "linked (decisions s')" "\<forall>d \<in> set (decisions s). d \<in> set (decisions s')"
    and new: "\<And>r. r \<in> set (review_queue s) \<Longrightarrow> review_key orgID i r \<Longrightarrow> reviewDecisions rs \<Longrightarrow> ended st
       \<Longrightarrow> decided orgID (rv_CaseID r) (decisions s')"
  shows "review_step rs s s'"
proof -
  have "queue_ok (reviewDecisions rs) (decisions s') (review_queue s')"
    unfolding Q by (rule queue_ok_reviewed [where D = "decisions s"]) (use ok D(2) new in \<open>auto simp: reviews_ok_def decided_def\<close>)
  then show ?thesis
    using D reviewed_kept kept_refl unfolding review_step_def reviews_ok_def keeps_history_def Q by blast
qed

context review_environment
begin

lemma make_step:
  assumes "reviews_ok rs s" "MakeDecision svc ds c s0 p s = (Inr d, s')"
  shows "review_step rs s s'"
  by (rule MakeDecision_Inr [OF assms(2)]) (rule first_decision_step [OF assms(1)])

lemma supersede_step:
  assumes ok: "reviews_ok rs s" and kept: "keeps_history s0 s" and uuid: "ctx_uuid c 0 \<noteq> uuid_nil"
    and run: "SupersedeDecision ds c s0 p s = (Inr d, s')"
  shows "review_step rs s s'" "same_records s s'"
proof -
  show "same_records s s'" by (rule SupersedeDecision_Inr [OF run])
  obtain x where x: "FindByServiceRequest (sd_OrganizationID p) (sd_ServiceRequestID p) s0 = Inr x"
    and d: "dc_OrganizationID d = sd_OrganizationID p" "ServiceRequestID d = sd_ServiceRequestID p" "dc_ID d = ctx_uuid c 0"
      "dc_Version d = (if dc_Version x + 1 < 1 then 1 else dc_Version x + 1)" "SupersededByID d = None"
      "dc_ID d \<notin> dc_ID ` set (decisions s)"
      "\<And>e. e \<in> set (decisions s) \<Longrightarrow> same_request d e \<Longrightarrow> dc_Version e \<noteq> dc_Version d"
    and D: "decisions s' = update_where (\<lambda>r. dc_ID r = dc_ID x \<and> dc_OrganizationID r = sd_OrganizationID p)
       (\<lambda>r. r\<lparr>SupersededByID := (if dc_ID d = uuid_nil then None else Some (dc_ID d))\<rparr>) (decisions s) @ [decision_row d]"
    and Q: "review_queue s' = review_queue s"
    by (rule SupersedeDecision_Inr [OF run]) (rule that; assumption)
  have L: "linked (decisions s)" using ok by (simp add: reviews_ok_def)
  note x' = FindByServiceRequest_Inr [OF x]
  obtain e where e: "e \<in> set (decisions s)" "kept_decision x e" using kept x'(1) by (auto simp: keeps_history_def)
  note k = kept_decisionD [OF e(2)]
  have v: "dc_Version d = dc_Version e + 1" using d(4) linkedD(2) [OF L e(1)] k(4) by simp
  have only: "dc_ID r = dc_ID x \<and> dc_OrganizationID r = sd_OrganizationID p \<longleftrightarrow> r = e" if "r \<in> set (decisions s)" for r
    using by_distinct_key [OF linkedD(1) [OF L] that e(1)] k x'(2) by auto
  define D' where "D' = map (\<lambda>r. if r = e then r\<lparr>SupersededByID := Some (dc_ID (decision_row d))\<rparr> else r) (decisions s)"
  have D': "decisions s' = D' @ [decision_row d]"
    unfolding D D'_def update_where_def using only d(3) uuid by (simp cong: map_cong)
  have same: "same_request e (decision_row d)" using k x' d(1,2) by (simp add: same_request_def)
  have linked: "linked (decisions s')"
    unfolding D' D'_def
    by (rule linked_superseding [OF L e(1) same]) (use v d(5-7) in \<open>auto simp: same_request_def\<close>)
  have unset: "SupersededByID e = None"
  proof (rule ccontr)
    assume "SupersededByID e \<noteq> None"
    then obtain f where "f \<in> set (decisions s)" "same_request e f" "dc_Version f = dc_Version e + 1"
      using linkedD(5) [OF L e(1)] by blast
    then show False using d(7) [of f] v same by (simp add: same_request_def)
  qed
  have kept': "\<exists>q \<in> set D'. kept_decision r q" if "r \<in> set (decisions s)" for r
    using that unset unfolding D'_def set_map
    by (intro bexI [OF _ imageI [OF that]]) (auto simp: kept_decision_def)
  have "decided o' k (decisions s')" if "decided o' k (decisions s)" for o' k
  proof -
    obtain r where r: "r \<in> set (decisions s)" "dc_OrganizationID r = o'" "ServiceRequestID r = k"
      using \<open>decided o' k (decisions s)\<close> by (auto simp: decided_def)
    obtain q where "q \<in> set D'" "kept_decision r q" using kept' [OF r(1)] by blast
    then show ?thesis using r kept_decisionD [of r q] unfolding D' decided_def by auto
  qed
  then have "queue_ok (reviewDecisions rs) (decisions s') (review_queue s)"
    using ok by (auto simp: reviews_ok_def intro: queue_ok_decisions)
  then show "review_step rs s s'"
    using linked kept' kept_refl unfolding review_step_def reviews_ok_def keeps_history_def Q D'
    by (simp del: kept_refl) blast
qed

text \<open>Claiming and starting leave no decision; the other requests end the review with one.\<close>

lemma claim_step:
  assumes ok: "reviews_ok rs s" and run: "ClaimReview rs c s0 orgID i a s = (Inr r, s')"
  shows "review_step rs s s'"
  by (rule ClaimReview_Inr [OF run], rule reviewed_step [OF ok, of _ orgID i "ctx_time c 2" ReviewStatusAssigned "Some a"])
    (use ok in \<open>simp_all add: reviews_ok_def ended_def final_status_def\<close>)

lemma start_step:
  assumes ok: "reviews_ok rs s" and run: "StartReview rs c s0 orgID i a s = (Inr r, s')"
  shows "review_step rs s s'"
  by (rule StartReview_Inr [OF run], rule reviewed_step [OF ok, of _ orgID i "ctx_time c 2" ReviewStatusInReview "Some a"])
    (use ok in \<open>simp_all add: reviews_ok_def ended_def final_status_def\<close>)

lemma end_step:
  assumes ok: "reviews_ok rs s" and kept: "keeps_history s0 s"
    and own: "own_review c s0 orgID i reviewerID True st = Inr r"
    and run: "end_review svc ds rs c before during orgID reviewerID r st checked decision reason action meta s = (Inr u, s')"
  shows "review_step rs s s'" "same_records s s' \<or> (\<exists>params. moves_case svc (later_ctx 20 c) during params s s')"
proof -
  obtain q where q: "q \<in> set (review_queue s0)" "rv_OrganizationID q = orgID" "rv_ID q = i" "rv_ID r = i" "rv_CaseID r = rv_CaseID q"
    by (rule own_review_Inr [OF own]) blast
  show "review_step rs s s'" "same_records s s' \<or> (\<exists>params. moves_case svc (later_ctx 20 c) during params s s')"
  proof (atomize (full), rule end_review_Inr [OF run], intro conjI)
    fix decisionID
    assume d: "review_decides rs orgID r reviewerID decision decisionID (decisions s) (decisions s')"
      and Q: "review_queue s' = update_where (review_key orgID (rv_ID r)) (reviewed (ctx_time c 2) st (rv_AssignedToID r)) (review_queue s)"
      and m: "(reviewWorkflow rs \<longrightarrow> offered_transition orgID (rv_CaseID r) decision during = None) \<and> same_records s s'
        \<or> (\<exists>i t. reviewWorkflow rs \<and> offered_transition orgID (rv_CaseID r) decision during = Some (i, t)
         \<and> moves_case svc (later_ctx 20 c) during
             (review_transition orgID reviewerID (wi_ID i) (wt_Key t) reason decisionID) s s')"
    show "same_records s s' \<or> (\<exists>params. moves_case svc (later_ctx 20 c) during params s s')" using m by blast
    show "review_step rs s s'"
    proof (rule reviewed_step [OF ok Q])
      show "linked (decisions s')" "\<forall>d \<in> set (decisions s). d \<in> set (decisions s')"
        using d ok linked_first by (auto simp: review_decides_def reviews_ok_def split: if_splits)
      show "decided orgID (rv_CaseID x) (decisions s')"
        if x: "x \<in> set (review_queue s)" "review_key orgID (rv_ID r) x" and on: "reviewDecisions rs" for x
      proof -
        have "rv_CaseID x = rv_CaseID r"
          using still_there [OF ok kept q(1) x(1)] x(2) q kept_reviewD(3) by (simp add: review_key_def)
        then show ?thesis using d on by (auto simp: review_decides_def decided_def)
      qed
    qed
  qed
qed

lemma ending_Inr:
  "CompleteReview svc ds rs c before during orgID i reviewerID decision reason s = (Inr r, s') \<Longrightarrow>
     \<exists>checked meta u. checked = first_error [validateDecisionType (DecisionType_of decision),
           unless (ReasonRequired (DecisionType_of decision) \<longrightarrow> reason \<noteq> []) aErrReviewInvalidInput]
       \<and> own_review c before orgID i reviewerID True ReviewStatusCompleted = Inr r
       \<and> end_review svc ds rs c before during orgID reviewerID r ReviewStatusCompleted checked (DecisionType_of decision)
           reason ''review.completed'' meta s = (Inr u, s')"
  "EscalateReview svc ds rs c before during orgID i reviewerID reason s = (Inr r, s') \<Longrightarrow>
     \<exists>checked meta u. own_review c before orgID i reviewerID True ReviewStatusEscalated = Inr r
       \<and> end_review svc ds rs c before during orgID reviewerID r ReviewStatusEscalated checked DecisionTypeEscalate
           reason ''review.escalated'' meta s = (Inr u, s')"
  "RequestInformation svc ds rs c before during orgID i reviewerID missing reason s = (Inr r, s') \<Longrightarrow>
     \<exists>q checked meta u. own_review c before orgID i reviewerID True ReviewStatusWaitingInfo = Inr q \<and> r = q\<lparr>MissingInformation := missing\<rparr>
       \<and> end_review svc ds rs c before during orgID reviewerID q ReviewStatusWaitingInfo checked DecisionTypeNeedsMoreInformation
           reason ''review.requested_information'' meta s = (Inr u, s')"
  by (auto simp: CompleteReview_def EscalateReview_def RequestInformation_def tx_Inr)

end

text \<open>A request that fails changes nothing.\<close>

lemma review_requests_atomic:
  "tx_atomic (MakeDecision svc ds c s0 p)" "tx_atomic (SupersedeDecision ds c s0 q)"
  "tx_atomic (CreateReview c orgID caseID wi st pr rules ev form missing)" "tx_atomic (ClaimReview rs c s0 orgID i a)"
  "tx_atomic (StartReview rs c s0 orgID i a)"
  "tx_atomic (CompleteReview svc ds rs c s0 s1 orgID i a decision reason)"
  "tx_atomic (EscalateReview svc ds rs c s0 s1 orgID i a reason)"
  "tx_atomic (RequestInformation svc ds rs c s0 s1 orgID i a missing reason)"
proof -
  note pure = tx_pure_intros(2,4,5) tx_pure_map_error tx_pure_bind tx_pure_seq
  have read: "tx_pure (tx_read g r)" for g r unfolding tx_read_def by (intro pure)
  have pre: "tx_pure (decidable_case ds s0 orgID caseID)" "tx_pure (known_user ds orgID a)" for orgID caseID a
    unfolding decidable_case_def known_user_def by (intro pure read)+
  show "tx_atomic (MakeDecision svc ds c s0 p)"
    unfolding MakeDecision_def
    by (intro tx_atomic_intros pre read; (split sum.split | split option.split);
        intro allI conjI impI tx_atomic_intros pre read tx_pure_atomic [OF tx_pure_intros(2)])
  show "tx_atomic (SupersedeDecision ds c s0 q)"
    unfolding SupersedeDecision_def by (intro tx_atomic_intros pre read)
  show "tx_atomic (CreateReview c orgID caseID wi st pr rules ev form missing)"
    by (auto simp: tx_atomic_def CreateReview_def Let_def SaveReview_def saveReview_def tx_seq_def tx_bind_def tx_return_def split: if_splits)
  show "tx_atomic (ClaimReview rs c s0 orgID i a)" unfolding ClaimReview_def by (intro tx_atomic_intros read)
  show "tx_atomic (StartReview rs c s0 orgID i a)"
    unfolding StartReview_def tx_seq_def by (intro tx_atomic_intros)
  show "tx_atomic (CompleteReview svc ds rs c s0 s1 orgID i a decision reason)"
    "tx_atomic (EscalateReview svc ds rs c s0 s1 orgID i a reason)"
    "tx_atomic (RequestInformation svc ds rs c s0 s1 orgID i a missing reason)"
    unfolding CompleteReview_def EscalateReview_def RequestInformation_def end_review_def tx_seq_def
    by (intro tx_atomic_intros)+
qed

subsection \<open>Runs\<close>

text \<open>
  The requests of the two services. The stores that a request reads before its transaction, or
  beside it, are any earlier stores of the run.
\<close>

inductive review_request :: "'s review_db_scheme CaseService \<Rightarrow> 's review_db_scheme DecisionService
    \<Rightarrow> 's review_db_scheme ReviewQueueService \<Rightarrow> 's review_db_scheme set \<Rightarrow> 's review_db_scheme \<Rightarrow> 's review_db_scheme \<Rightarrow> bool"
  for svc ds rs earlier s where
  make: "s0 \<in> earlier \<Longrightarrow> MakeDecision svc ds c s0 mparams s = (r1, s') \<Longrightarrow> review_request svc ds rs earlier s s'"
| supersede: "s0 \<in> earlier \<Longrightarrow> ctx_uuid c 0 \<noteq> uuid_nil \<Longrightarrow> SupersedeDecision ds c s0 sparams s = (r1, s')
    \<Longrightarrow> review_request svc ds rs earlier s s'"
| create: "CreateReview c orgID caseID wi st pr rules ev form missing s = (r2, s') \<Longrightarrow> review_request svc ds rs earlier s s'"
| claim: "s0 \<in> earlier \<Longrightarrow> ClaimReview rs c s0 orgID i a s = (r2, s') \<Longrightarrow> review_request svc ds rs earlier s s'"
| start: "s0 \<in> earlier \<Longrightarrow> StartReview rs c s0 orgID i a s = (r2, s') \<Longrightarrow> review_request svc ds rs earlier s s'"
| complete: "s0 \<in> earlier \<Longrightarrow> s1 \<in> earlier \<Longrightarrow> CompleteReview svc ds rs c s0 s1 orgID i a decision reason s = (r2, s')
    \<Longrightarrow> review_request svc ds rs earlier s s'"
| escalate: "s0 \<in> earlier \<Longrightarrow> s1 \<in> earlier \<Longrightarrow> EscalateReview svc ds rs c s0 s1 orgID i a reason s = (r2, s')
    \<Longrightarrow> review_request svc ds rs earlier s s'"
| request_information: "s0 \<in> earlier \<Longrightarrow> s1 \<in> earlier
    \<Longrightarrow> RequestInformation svc ds rs c s0 s1 orgID i a missing reason s = (r2, s') \<Longrightarrow> review_request svc ds rs earlier s s'"

inductive review_run :: "'s review_db_scheme CaseService \<Rightarrow> 's review_db_scheme DecisionService
    \<Rightarrow> 's review_db_scheme ReviewQueueService \<Rightarrow> 's review_db_scheme list \<Rightarrow> bool" for svc ds rs where
  begin_run: "case_run svc [s] \<Longrightarrow> decisions s = [] \<Longrightarrow> review_queue s = [] \<Longrightarrow> review_run svc ds rs [s]"
| other: "review_run svc ds rs (s # run) \<Longrightarrow> case_run svc (s' # s # run) \<Longrightarrow> same_reviews s s'
    \<Longrightarrow> review_run svc ds rs (s' # s # run)"
| reviewing: "review_run svc ds rs (s # run) \<Longrightarrow> review_request svc ds rs (set (s # run)) s s'
    \<Longrightarrow> review_run svc ds rs (s' # s # run)"

inductive_cases review_run_NilE: "review_run svc ds rs []"

text \<open>What a request does to the cases, as a run of the case service sees it.\<close>

definition case_step :: "'s case_db_scheme CaseService \<Rightarrow> 's case_db_scheme set \<Rightarrow> 's case_db_scheme \<Rightarrow> 's case_db_scheme \<Rightarrow> bool" where
  "case_step svc earlier s s' \<longleftrightarrow> same_records s s' \<or> (\<exists>c. \<exists>s0 \<in> earlier. \<exists>params. moves_case svc c s0 params s s')"

lemma case_step_run: "case_run svc (s # run) \<Longrightarrow> case_step svc (set (s # run)) s s' \<Longrightarrow> case_run svc (s' # s # run)"
  unfolding case_step_def moves_case_def same_records_def [of s s']
  by (blast intro: case_run.nested case_run.elsewhere)

definition review_run_ok :: "'s review_db_scheme ReviewQueueService \<Rightarrow> 's review_db_scheme list \<Rightarrow> bool" where
  "review_run_ok rs run \<longleftrightarrow> (\<forall>s \<in> set run. reviews_ok rs s \<and> keeps_history s (hd run))"

lemma review_run_next:
  assumes "review_run_ok rs (s # run)" "review_step rs s s'"
  shows "review_run_ok rs (s' # s # run)"
  using assms history.refl [of s'] history.trans [of _ s s'] by (auto simp: review_run_ok_def review_step_def)

context review_environment
begin

lemma same_step: "reviews_ok rs s \<Longrightarrow> review_step rs s s \<and> case_step svc E s s"
  by (simp add: review_step_def history.refl case_step_def records_frame.refl)

lemma request_outcome:
  assumes "reviews_ok rs s" "tx_atomic m" "m s = (r, s')" "\<And>d. m s = (Inr d, s') \<Longrightarrow> review_step rs s s' \<and> case_step svc E s s'"
  shows "review_step rs s s' \<and> case_step svc E s s'"
proof (cases r)
  case (Inl e)
  then have "m s = (Inl e, s')" using assms(3) by simp
  then have "s' = s" by (rule tx_atomicD [OF assms(2)])
  then show ?thesis using same_step [OF assms(1)] by simp
qed (use assms(3,4) in simp)

lemma request_step:
  assumes req: "review_request svc ds rs E s s'" and ok: "reviews_ok rs s" and kept: "\<forall>s0 \<in> E. keeps_history s0 s"
  shows "review_step rs s s' \<and> case_step svc E s s'"
proof -
  note outcome = request_outcome [OF ok]
  have ending: "review_step rs s s' \<and> case_step svc E s s'"
    if "s0 \<in> E" "s1 \<in> E" "own_review c s0 orgID i a True st = Inr r"
      "end_review svc ds rs c s0 s1 orgID a r st checked decision reason action meta s = (Inr u, s')"
    for s0 s1 c orgID i a st r checked decision reason action meta u
    using end_step [OF ok _ that(3,4)] kept that(1,2) unfolding case_step_def by blast
  from req show ?thesis
  proof cases
    case (make s0 c p r)
    have "review_step rs s s' \<and> case_step svc E s s'" if "MakeDecision svc ds c s0 p s = (Inr d, s')" for d
      using make_step [OF ok that] MakeDecision_Inr [OF that] make(1) unfolding case_step_def by blast
    then show ?thesis by (rule outcome [OF review_requests_atomic(1) make(2)])
  next
    case (supersede s0 c p r)
    have "review_step rs s s' \<and> case_step svc E s s'" if "SupersedeDecision ds c s0 p s = (Inr d, s')" for d
      using supersede_step [OF ok _ supersede(2) that] kept supersede(1) unfolding case_step_def by blast
    then show ?thesis by (rule outcome [OF review_requests_atomic(2) supersede(3)])
  next
    case (create c orgID caseID wi st pr rules ev form missing r)
    have "review_step rs s s' \<and> case_step svc E s s'"
      if "CreateReview c orgID caseID wi st pr rules ev form missing s = (Inr d, s')" for d
      using create_review_step [OF ok that] unfolding case_step_def by blast
    then show ?thesis by (rule outcome [OF review_requests_atomic(3) create])
  next
    case (claim s0 c orgID i a r)
    have "review_step rs s s' \<and> case_step svc E s s'" if "ClaimReview rs c s0 orgID i a s = (Inr d, s')" for d
      using claim_step [OF ok that] ClaimReview_Inr [OF that] unfolding case_step_def by blast
    then show ?thesis by (rule outcome [OF review_requests_atomic(4) claim(2)])
  next
    case (start s0 c orgID i a r)
    have "review_step rs s s' \<and> case_step svc E s s'" if "StartReview rs c s0 orgID i a s = (Inr d, s')" for d
      using start_step [OF ok that] StartReview_Inr [OF that] unfolding case_step_def by blast
    then show ?thesis by (rule outcome [OF review_requests_atomic(5) start(2)])
  next
    case (complete s0 s1 c orgID i a decision reason r)
    have "review_step rs s s' \<and> case_step svc E s s'"
      if "CompleteReview svc ds rs c s0 s1 orgID i a decision reason s = (Inr d, s')" for d
      using ending [OF complete(1,2)] ending_Inr(1) [OF that] by blast
    then show ?thesis by (rule outcome [OF review_requests_atomic(6) complete(3)])
  next
    case (escalate s0 s1 c orgID i a reason r)
    have "review_step rs s s' \<and> case_step svc E s s'"
      if "EscalateReview svc ds rs c s0 s1 orgID i a reason s = (Inr d, s')" for d
      using ending [OF escalate(1,2)] ending_Inr(2) [OF that] by blast
    then show ?thesis by (rule outcome [OF review_requests_atomic(7) escalate(3)])
  next
    case (request_information s0 s1 c orgID i a missing reason r)
    have "review_step rs s s' \<and> case_step svc E s s'"
      if "RequestInformation svc ds rs c s0 s1 orgID i a missing reason s = (Inr d, s')" for d
      using ending [OF request_information(1,2)] ending_Inr(3) [OF that] by blast
    then show ?thesis by (rule outcome [OF review_requests_atomic(8) request_information(3)])
  qed
qed

lemma review_run_is_ok: "review_run svc ds rs run \<Longrightarrow> review_run_ok rs run \<and> case_run svc run"
proof (induction rule: review_run.induct)
  case (begin_run s)
  then show ?case
    by (simp add: review_run_ok_def reviews_ok_def linked_def queue_ok_def history.refl)
next
  case (other s run s')
  then have "reviews_ok rs s" by (simp add: review_run_ok_def)
  then show ?case
    using review_run_next [of rs s run s'] same_reviews_step other by blast
next
  case (reviewing s run s')
  then have "reviews_ok rs s" "\<forall>s0 \<in> set (s # run). keeps_history s0 s" by (auto simp: review_run_ok_def)
  then have "review_step rs s s' \<and> case_step svc (set (s # run)) s s'" using request_step reviewing.hyps(2) by blast
  then show ?case using review_run_next [of rs s run s'] case_step_run reviewing.IH by blast
qed

end

lemma review_run_stores:
  assumes "review_environment svc ds rs" "review_run svc ds rs (s # run)" "s0 \<in> set (s # run)"
  shows "reviews_ok rs s0" "keeps_history s0 s"
  using review_environment.review_run_is_ok [OF assms(1,2)] assms(3) by (auto simp: review_run_ok_def)

lemma review_run_case_run:
  "review_environment svc ds rs \<Longrightarrow> review_run svc ds rs run \<Longrightarrow> case_run svc run"
  using review_environment.review_run_is_ok by blast

end
