(* ===== verification/Review_Sample.thy ===== *)
theory Review_Sample
  imports Review_Runs Case_Sample
begin

section \<open>A concrete run of decisions and reviews\<close>

text \<open>
  A workflow that approves, or rejects for one role, and one case that follows it. The case is decided
  directly and the decision superseded (\<open>made4\<close>, \<open>made5\<close>), or it is reviewed (\<open>rev4\<close> to
  \<open>rev8\<close>), or its reviewer asks for information (\<open>info7\<close>, \<open>info8\<close>).
\<close>

definition approve_transition :: WorkflowTransition where
  "approve_transition = sample_transition\<lparr>wt_Key := ''approve'', AllowedRoles := [], DecisionType := ''APPROVED''\<rparr>"

definition reject_transition :: WorkflowTransition where
  "reject_transition = sample_transition\<lparr>wt_Key := ''reject'', DecisionType := ''REJECTED''\<rparr>"

definition approve_params :: CreateWorkflowDefinitionParams where
  "approve_params = sample_params\<lparr>cwp_Transitions := [approve_transition, reject_transition]\<rparr>"

definition deciding :: "'s review_db_scheme DecisionService" where
  "deciding = \<lparr>decisionUsers = (\<lambda>_ _. Inr True), decisionAuditor = None, decisionWorkflow = True\<rparr>"

definition reviewing :: "'s review_db_scheme ReviewQueueService" where
  "reviewing = \<lparr>reviewUsers = (\<lambda>_ _. Inr True), reviewAuditor = None, reviewWorkflow = True, reviewDecisions = True\<rparr>"

definition made_params :: MakeDecisionParams where
  "made_params = \<lparr>md_OrganizationID = 7, md_ServiceRequestID = 300, md_Decision = DecisionTypeApproved, md_Reason = [],
     md_ActorID = 9, md_ActorRole = [], md_WorkflowState = [], md_RuleEvaluationIDs = [], md_EvidenceIDs = [],
     md_FormSubmissionID = None\<rparr>"

definition superseded_params :: SupersedeDecisionParams where
  "superseded_params = \<lparr>sd_OrganizationID = 7, sd_ServiceRequestID = 300, sd_Decision = DecisionTypeRejected,
     sd_Reason = ''no'', sd_ActorID = 9, sd_WorkflowState = ''b'', sd_RuleEvaluationIDs = [], sd_EvidenceIDs = [],
     sd_FormSubmissionID = None\<rparr>"

definition rev0 :: review_db where
  "rev0 = \<lparr>audit_events = [], audit_vocabulary = [], workflow_definitions = [], workflow_states = [],
     workflow_transitions = [], workflow_instances = [], workflow_history = [], forms = [], form_versions = [],
     form_fields = [], form_assignments = [], form_submissions = [], cases = [], decisions = [], review_queue = []\<rparr>"

definition "rev1 = snd (CreateWorkflowDefinition None (sample_ctx 1) approve_params rev0)"
definition "rev2 = snd (ActivateWorkflowDefinition None (sample_ctx 2) 7 100 8 rev1)"
definition "rev3 = snd (CreateCase sample_service (sample_ctx 3) rev2 sample_case rev2)"
definition "made4 = snd (MakeDecision sample_service deciding (sample_ctx 4) rev3 made_params rev3)"
definition "made5 = snd (SupersedeDecision deciding (sample_ctx 5) made4 superseded_params made4)"
definition "rev4 = snd (CreateReview (sample_ctx 4) 7 300 320 ''a'' [] [] [] None [] rev3)"
definition "rev5 = snd (ClaimReview reviewing (sample_ctx 5) rev4 7 400 9 rev4)"
definition "rev6 = snd (StartReview reviewing (sample_ctx 6) rev5 7 400 9 rev5)"
definition "rev7 = snd (CompleteReview sample_service deciding reviewing (sample_ctx 7) rev6 rev6 7 400 9 ''APPROVED'' [] rev6)"
definition "rev8 = snd (StartReview reviewing (sample_ctx 8) rev5 7 400 9 rev7)"
definition "info7 = snd (RequestInformation sample_service deciding reviewing (sample_ctx 7) rev6 rev6 7 400 9 [''f''] ''why'' rev6)"
definition "info8 = snd (StartReview reviewing (sample_ctx 8) info7 7 400 9 info7)"

subsection \<open>The stores\<close>

lemma rev1_rows:
  "rev1 = rev0\<lparr>
     workflow_definitions := [\<lparr>wd_ID = 100, wd_TenantID = 7, wd_Key = ''k'', wd_Name = ''n'', wd_Description = [],
       wd_Version = 1, wd_Status = WorkflowStatusDraft, InitialState = ''a'', wd_States = [], wd_Transitions = [],
       wd_Metadata = GObject [], wd_CreatedAt = 1000, wd_UpdatedAt = 1000\<rparr>],
     workflow_states := [(sample_state ''a'' False)\<lparr>ws_ID := 101, ws_WorkflowDefID := 100, ws_TenantID := 7\<rparr>,
       (sample_state ''b'' True)\<lparr>ws_ID := 102, ws_WorkflowDefID := 100, ws_TenantID := 7\<rparr>],
     workflow_transitions := [approve_transition\<lparr>wt_ID := 103, wt_WorkflowDefID := 100, wt_TenantID := 7\<rparr>,
       reject_transition\<lparr>wt_ID := 104, wt_WorkflowDefID := 100, wt_TenantID := 7\<rparr>]\<rparr>"
  by code_simp

lemma rev2_rows:
  "rev2 = rev1\<lparr>workflow_definitions :=
     map (\<lambda>d. d\<lparr>wd_Status := WorkflowStatusActive, wd_UpdatedAt := 3000\<rparr>) (workflow_definitions rev1)\<rparr>"
  by (simp add: rev2_def ActivateWorkflowDefinition_def wf_eval def_FindLatestActiveByKeyTx_def
    def_FindLatestActiveByKey_def latest_first_def def_updateStatus_def rev1_rows rev0_def)

definition instance_row3 :: WorkflowInstance where
  "instance_row3 = \<lparr>wi_ID = 320, wi_TenantID = 7, wi_WorkflowDefID = 100, wi_WorkflowDefVersion = 1, wi_CaseID = 300,
     CurrentState = ''a'', StartedAt = 23000, CompletedAt = None, wi_Metadata = GObject [], wi_Version = 1,
     wi_Definition = None\<rparr>"

definition case_row3 :: Case where
  "case_row3 = \<lparr>cs_ID = 300, cs_OrganizationID = 7, CaseNumber = GenerateCaseNumber 3000 301, Title = ''T'',
     cs_Description = [], cs_Status = ''a'', WorkflowState = ''a'', ServiceType = ''s'', Priority = ''LOW'', PersonID = None,
     AssignedToID = None, cs_CreatedByID = 8, cs_CreatedAt = 3000, cs_UpdatedAt = 4000, ClosedAt = None,
     WorkflowInstanceID = Some 320, WorkflowKey = [], WorkflowID = Some 100, cs_Version = 2\<rparr>"

lemmas rev2_eval = approve_transition_def reject_transition_def sample_state_def sample_transition_def rev2_rows rev1_rows rev0_def

lemma rev3_result: "\<exists>cs. CreateCase sample_service (sample_ctx 3) rev2 sample_case rev2 = (Inr cs, rev3)"
  and rev3_rows: "rev3 = rev2\<lparr>workflow_instances := [instance_row3], cases := [case_row3]\<rparr>"
proof -
  have "\<exists>cs. CreateCase sample_service (sample_ctx 3) rev2 sample_case rev2
      = (Inr cs, rev2\<lparr>workflow_instances := [instance_row3], cases := [case_row3]\<rparr>)"
    by (simp add: CreateCase_def form_eval sample_case_def sample_service_def ValidateServiceType_def
      choose_workflow_def given_workflow_def NewCase_def validateCaseInput_def create_loop_once case_SaveTx_once
      case_insert_result_def case_row_ok_def status_blank_def case_row_def after_save_def case_audit_def
      CreateInstanceForCaseByDefIDTx_def createInstanceForCaseByDefID_def new_instance_def saveInstance_def
      later_ctx_def link_instance_def SyncStatusFromWorkflow_def IsClosed_def case_UpdateWorkflowInstanceID_def
      case_UpdateStatus_def case_update_def case_by_id_def case_at_def instance_row3_def case_row3_def rev2_eval)
  then show "\<exists>cs. CreateCase sample_service (sample_ctx 3) rev2 sample_case rev2 = (Inr cs, rev3)"
    "rev3 = rev2\<lparr>workflow_instances := [instance_row3], cases := [case_row3]\<rparr>"
    by (auto simp: rev3_def)
qed

lemmas rev3_eval = instance_row3_def case_row3_def rev3_rows rev2_eval

lemmas review_eval = tx_check_def unless_def tx_read_def row_or_def review_FindByID_def review_FindByIDTx_def
  Transition_def CanTransition_def set_status_def UpdateStatusTx_def review_key_def valid_review_status_def
  own_review_def review_audit_def reviewing_def

definition review_row4 :: ReviewQueueEntry where
  "review_row4 = \<lparr>rv_ID = 400, rv_OrganizationID = 7, rv_CaseID = 300, rv_WorkflowInstanceID = 320,
     rv_Status = ReviewStatusPending, rv_AssignedToID = None, rv_Priority = ''NORMAL'', rv_WorkflowState = ''a'',
     rv_RuleEvaluationIDs = [], rv_EvidenceIDs = [], MissingInformation = [], rv_FormSubmissionID = None,
     rv_CreatedAt = 4000, rv_UpdatedAt = 4000, rv_CompletedAt = None, rv_Metadata = GObject []\<rparr>"

lemma rev4_rows: "rev4 = rev3\<lparr>review_queue := [review_row4]\<rparr>"
  by (simp add: rev4_def CreateReview_def NewReviewQueueEntry_def SaveReview_def saveReview_def review_row_def
    wf_eval review_eval review_row4_def rev3_eval)

lemma rev5_rows: "rev5 = rev4\<lparr>review_queue := [review_row4\<lparr>rv_Status := ReviewStatusAssigned,
     rv_AssignedToID := Some 9, rv_UpdatedAt := 7000\<rparr>]\<rparr>"
  by (simp add: rev5_def ClaimReview_def wf_eval review_eval case_FindByID_def scanCase_def scanned_case_def
    review_row4_def rev4_rows rev3_eval)

lemma rev6_rows: "rev6 = rev5\<lparr>review_queue := [review_row4\<lparr>rv_Status := ReviewStatusInReview,
     rv_AssignedToID := Some 9, rv_UpdatedAt := 8000\<rparr>]\<rparr>"
  by (simp add: rev6_def StartReview_def wf_eval review_eval review_row4_def rev5_rows rev4_rows rev3_eval)

lemmas rev6_eval = review_row4_def rev6_rows rev5_rows rev4_rows rev3_eval

text \<open>The decisions, and the transition they make.\<close>

lemmas decision_eval = MakeDecision_def SupersedeDecision_def CreateDecisionTx_def record_decision_def follow_decision_def
  seen_state_def offered_transition_def GetTransitionForDecision_def end_review_def decidable_case_def known_user_def
  decision_audit_def deciding_def NewDecisionWithContext_def NewSupersedingDecision_def ReasonRequired_def saveDecision_def
  updateDecision_def decision_row_def same_request_def valid_decision_def FindByServiceRequest_def request_decisions_def
  transition_key_def decision_transition_def review_transition_def int4_def

lemmas moving_eval = case_FindByID_def case_FindByIDTx_def scanCase_def scanned_case_def GetInstanceByCaseID_def
  GetValidTransitions_def instance_FindByCaseID_def transition_FindByFromState_def with_graph_def
  state_FindByDefinitionID_def transition_FindByDefinitionID_def instance_FindByID_def scan_instance_def
  checkRequiredFormsCompleteInTx_def missing_forms_def FindByWorkflowAndState_def FindByCaseAndFormVersion_def
  ExecuteTransitionInTx_def executeTransition_def plan_transition_def apply_transition_def
  statesMap_def role_allowed_def moved_instance_def transition_history_def instance_updateState_def at_version_def
  saveHistory_def instance_complete_def case_observer_def OnTransition_def UpdateWorkflowStateTx_def case_update_def
  case_at_def case_row_ok_def status_blank_def case_audit_def sample_service_def later_ctx_def

definition decision4 :: Decision where
  "decision4 = \<lparr>dc_ID = 400, dc_OrganizationID = 7, ServiceRequestID = 300, dc_Decision = DecisionTypeApproved,
     dc_Reason = [], DecisionMaker = 9, DecidedAt = 4000, dc_CreatedAt = 4000, SupersededByID = None,
     dc_WorkflowState = ''a'', dc_RuleEvaluationIDs = [], dc_EvidenceIDs = [], dc_FormSubmissionID = None,
     ReviewQueueEntryID = None, dc_Version = 1\<rparr>"

definition moved_rows :: "nat \<Rightarrow> int \<Rightarrow> uuid \<Rightarrow> string \<Rightarrow> review_db \<Rightarrow> review_db" where
  "moved_rows h n decisionID reason s = s\<lparr>
     workflow_instances := [instance_row3\<lparr>CurrentState := ''b'', CompletedAt := Some (n + 1000), wi_Version := 3\<rparr>],
     workflow_history := [\<lparr>wh_ID = h, wh_TenantID = 7, wh_InstanceID = 320, wh_CaseID = 300, wh_FromState = ''a'',
       wh_ToState = ''b'', wh_TransitionKey = ''approve'', wh_ActorID = Some 9, OccurredAt = n, wh_Reason = reason,
       wh_Metadata = GObject [], wh_DecisionID = Some decisionID\<rparr>],
     cases := [case_row3\<lparr>cs_Status := ''b'', WorkflowState := ''b'', cs_Version := 3, cs_UpdatedAt := n + 1000,
       ClosedAt := Some (n + 1000)\<rparr>]\<rparr>"

lemma made4_result: "\<exists>d. MakeDecision sample_service deciding (sample_ctx 4) rev3 made_params rev3 = (Inr d, made4)"
  and made4_rows: "made4 = (moved_rows 420 24000 400 [] rev3)\<lparr>decisions := [decision4]\<rparr>"
proof -
  have "\<exists>d. MakeDecision sample_service deciding (sample_ctx 4) rev3 made_params rev3
      = (Inr d, (moved_rows 420 24000 400 [] rev3)\<lparr>decisions := [decision4]\<rparr>)"
    by (simp add: decision_eval wf_eval review_eval moving_eval made_params_def moved_rows_def decision4_def rev3_eval)
  then show "\<exists>d. MakeDecision sample_service deciding (sample_ctx 4) rev3 made_params rev3 = (Inr d, made4)"
    "made4 = (moved_rows 420 24000 400 [] rev3)\<lparr>decisions := [decision4]\<rparr>"
    by (auto simp: made4_def)
qed

lemmas made4_eval = moved_rows_def decision4_def made4_rows rev3_eval

lemma made5_result: "\<exists>d. SupersedeDecision deciding (sample_ctx 5) made4 superseded_params made4 = (Inr d, made5)"
  and made5_rows: "made5 = made4\<lparr>decisions := [decision4\<lparr>SupersededByID := Some 500\<rparr>,
     \<lparr>dc_ID = 500, dc_OrganizationID = 7, ServiceRequestID = 300, dc_Decision = DecisionTypeRejected,
      dc_Reason = ''no'', DecisionMaker = 9, DecidedAt = 5000, dc_CreatedAt = 5000, SupersededByID = None,
      dc_WorkflowState = ''b'', dc_RuleEvaluationIDs = [], dc_EvidenceIDs = [], dc_FormSubmissionID = None,
      ReviewQueueEntryID = None, dc_Version = 2\<rparr>]\<rparr>" (is "_ = ?s")
proof -
  have "\<exists>d. SupersedeDecision deciding (sample_ctx 5) made4 superseded_params made4 = (Inr d, ?s)"
    by (simp add: decision_eval wf_eval review_eval moving_eval superseded_params_def made4_eval)
  then show "\<exists>d. SupersedeDecision deciding (sample_ctx 5) made4 superseded_params made4 = (Inr d, made5)" "made5 = ?s"
    by (auto simp: made5_def)
qed

definition decision7 :: "DecisionType \<Rightarrow> string \<Rightarrow> Decision" where
  "decision7 t reason = decision4\<lparr>dc_ID := 700, dc_Decision := t, dc_Reason := reason, DecidedAt := 7000,
     dc_CreatedAt := 7000, ReviewQueueEntryID := Some 400\<rparr>"

definition review_row7 :: "ReviewStatus \<Rightarrow> int \<Rightarrow> ReviewQueueEntry" where
  "review_row7 st n = review_row4\<lparr>rv_Status := st, rv_AssignedToID := Some 9, rv_UpdatedAt := n\<rparr>"

lemma rev7_result: "\<exists>r. CompleteReview sample_service deciding reviewing (sample_ctx 7) rev6 rev6 7 400 9 ''APPROVED'' [] rev6
    = (Inr r, rev7)"
  and rev7_rows: "rev7 = (moved_rows 720 27000 700 [] rev6)\<lparr>decisions := [decision7 DecisionTypeApproved []],
     review_queue := [review_row7 ReviewStatusCompleted 9000]\<rparr>" (is "_ = ?s")
proof -
  have "\<exists>r. CompleteReview sample_service deciding reviewing (sample_ctx 7) rev6 rev6 7 400 9 ''APPROVED'' [] rev6 = (Inr r, ?s)"
    by (simp add: CompleteReview_def DecisionType_of_def validateDecisionType_def decision_eval wf_eval review_eval moving_eval
      moved_rows_def decision4_def decision7_def review_row7_def rev6_eval)
  then show "\<exists>r. CompleteReview sample_service deciding reviewing (sample_ctx 7) rev6 rev6 7 400 9 ''APPROVED'' [] rev6
      = (Inr r, rev7)" "rev7 = ?s"
    by (auto simp: rev7_def)
qed

lemmas rev7_eval = moved_rows_def decision4_def decision7_def review_row7_def rev7_rows rev6_eval

lemma rev8_result: "\<exists>r. StartReview reviewing (sample_ctx 8) rev5 7 400 9 rev7 = (Inr r, rev8)"
  and rev8_rows: "rev8 = rev7\<lparr>review_queue := [review_row7 ReviewStatusInReview 10000]\<rparr>" (is "_ = ?s")
proof -
  have "\<exists>r. StartReview reviewing (sample_ctx 8) rev5 7 400 9 rev7 = (Inr r, ?s)"
    by (simp add: StartReview_def wf_eval review_eval rev7_eval)
  then show "\<exists>r. StartReview reviewing (sample_ctx 8) rev5 7 400 9 rev7 = (Inr r, rev8)" "rev8 = ?s"
    by (auto simp: rev8_def)
qed

lemma info7_rows: "info7 = rev6\<lparr>decisions := [decision7 DecisionTypeNeedsMoreInformation ''why''],
     review_queue := [review_row7 ReviewStatusWaitingInfo 9000]\<rparr>"
  by (simp add: info7_def RequestInformation_def decision_eval wf_eval review_eval moving_eval
    decision4_def decision7_def review_row7_def rev6_eval)

lemma info8_rows: "info8 = info7\<lparr>review_queue := [review_row7 ReviewStatusInReview 10000]\<rparr>"
  by (simp add: info8_def StartReview_def wf_eval review_eval review_row7_def info7_rows rev6_eval)

subsection \<open>The runs\<close>

lemma review_sample_environment: "review_environment sample_service deciding reviewing"
  by unfold_locales (simp_all add: sample_service_def deciding_def reviewing_def no_auditor_grows)

lemma review_run3: "review_run sample_service deciding reviewing [rev3, rev2, rev1, rev0]"
proof -
  have c0: "case_run sample_service [rev0]" by (rule case_run.start) (simp_all add: rev0_def wf_tables_def)
  have "definition_request (wfAuditor sample_service) rev0 rev1"
    unfolding rev1_def sample_service_def by (simp, rule definition_request.create, rule surjective_pairing)
  with c0 have c1: "case_run sample_service [rev1, rev0]" by (rule case_run.workflow)
  have "definition_request (wfAuditor sample_service) rev1 rev2"
    unfolding rev2_def sample_service_def by (simp, rule definition_request.activate, rule surjective_pairing)
  with c1 have c2: "case_run sample_service [rev2, rev1, rev0]" by (rule case_run.workflow)
  obtain r where "CreateCase sample_service (sample_ctx 3) rev2 sample_case rev2 = (r, rev3)" using rev3_result by blast
  then have c3: "case_run sample_service [rev3, rev2, rev1, rev0]" by (intro case_run.create_case [OF c2]) simp_all
  have "review_run sample_service deciding reviewing [rev0]" by (rule review_run.begin_run [OF c0]) (simp_all add: rev0_def)
  then have "review_run sample_service deciding reviewing [rev1, rev0]"
    by (rule review_run.other [OF _ c1]) (simp add: same_reviews_def rev1_rows)
  then have "review_run sample_service deciding reviewing [rev2, rev1, rev0]"
    by (rule review_run.other [OF _ c2]) (simp add: same_reviews_def rev2_rows)
  then show ?thesis
    by (rule review_run.other [OF _ c3]) (simp add: same_reviews_def rev3_rows)
qed

lemma review_run_made: "review_run sample_service deciding reviewing [made5, made4, rev3, rev2, rev1, rev0]"
proof -
  have "review_request sample_service deciding reviewing (set [rev3, rev2, rev1, rev0]) rev3 made4"
    unfolding made4_def by (rule review_request.make [rotated], rule surjective_pairing, simp)
  from review_run.reviewing [OF review_run3 this]
  have run: "review_run sample_service deciding reviewing [made4, rev3, rev2, rev1, rev0]" .
  have "review_request sample_service deciding reviewing (set [made4, rev3, rev2, rev1, rev0]) made4 made5"
    unfolding made5_def
    by (rule review_request.supersede [rotated 2], rule surjective_pairing, simp_all)
  from review_run.reviewing [OF run this] show ?thesis .
qed

lemma review_run6: "review_run sample_service deciding reviewing [rev6, rev5, rev4, rev3, rev2, rev1, rev0]"
proof -
  have "review_request sample_service deciding reviewing (set [rev3, rev2, rev1, rev0]) rev3 rev4"
    unfolding rev4_def by (rule review_request.create, rule surjective_pairing)
  note run = review_run.reviewing [OF review_run3 this]
  have "review_request sample_service deciding reviewing (set [rev4, rev3, rev2, rev1, rev0]) rev4 rev5"
    unfolding rev5_def by (rule review_request.claim [of rev4], simp, rule surjective_pairing)
  note run = review_run.reviewing [OF run this]
  have "review_request sample_service deciding reviewing (set [rev5, rev4, rev3, rev2, rev1, rev0]) rev5 rev6"
    unfolding rev6_def by (rule review_request.start [of rev5], simp, rule surjective_pairing)
  from review_run.reviewing [OF run this] show ?thesis .
qed

lemma review_run8: "review_run sample_service deciding reviewing [rev8, rev7, rev6, rev5, rev4, rev3, rev2, rev1, rev0]"
proof -
  have "review_request sample_service deciding reviewing (set [rev6, rev5, rev4, rev3, rev2, rev1, rev0]) rev6 rev7"
    unfolding rev7_def by (rule review_request.complete [of rev6 _ rev6], simp, simp, rule surjective_pairing)
  note run = review_run.reviewing [OF review_run6 this]
  have "review_request sample_service deciding reviewing (set [rev7, rev6, rev5, rev4, rev3, rev2, rev1, rev0]) rev7 rev8"
    unfolding rev8_def by (rule review_request.start [of rev5], simp, rule surjective_pairing)
  from review_run.reviewing [OF run this] show ?thesis .
qed

lemma review_run_info: "review_run sample_service deciding reviewing [info8, info7, rev6, rev5, rev4, rev3, rev2, rev1, rev0]"
proof -
  have "review_request sample_service deciding reviewing (set [rev6, rev5, rev4, rev3, rev2, rev1, rev0]) rev6 info7"
    unfolding info7_def by (rule review_request.request_information [of rev6 _ rev6], simp, simp, rule surjective_pairing)
  note run = review_run.reviewing [OF review_run6 this]
  have "review_request sample_service deciding reviewing (set [info7, rev6, rev5, rev4, rev3, rev2, rev1, rev0]) info7 info8"
    unfolding info8_def by (rule review_request.start [of info7], simp, rule surjective_pairing)
  from review_run.reviewing [OF run this] show ?thesis .
qed

end
