(* ===== verification/Review_Properties.thy ===== *)
theory Review_Properties
  imports Review_Sample Case_Properties
begin

section \<open>Properties of decisions and reviews\<close>

text \<open>
  The theorems about runs of the decision service and the review queue beside the case and
  workflow services, and their application to the concrete runs.
\<close>

subsection \<open>Histories\<close>

lemma initial_segment:
  assumes "finite S" "\<And>v. v \<in> S \<Longrightarrow> 1 \<le> v" "\<And>v w. v \<in> S \<Longrightarrow> 1 \<le> w \<Longrightarrow> w \<le> v \<Longrightarrow> w \<in> S"
  shows "S = {1..int (card S)}"
proof (cases "S = {}")
  case False
  have m: "Max S \<in> S" by (rule Max_in [OF assms(1) False])
  have "S = {1..Max S}"
  proof (intro equalityI subsetI)
    show "v \<in> {1..Max S}" if "v \<in> S" for v using that assms(2) Max_ge [OF assms(1)] by simp
    show "v \<in> S" if "v \<in> {1..Max S}" for v using that assms(3) [OF m] by simp
  qed
  moreover from this have "card S = nat (Max S)" by (metis card_atLeastAtMost_int diff_add_cancel)
  moreover have "1 \<le> Max S" by (rule assms(2) [OF m])
  ultimately show ?thesis by simp
qed simp

lemma history_versions:
  assumes ok: "linked (decisions s)" and L: "L = ListByServiceRequest orgID caseID s"
  shows "map dc_Version L = map int [1..<Suc (length L)]"
proof (rule sorted_distinct_set_unique)
  define R where "R = request_decisions orgID caseID (decisions s)"
  have mem: "d \<in> set L \<longleftrightarrow> d \<in> set (decisions s) \<and> dc_OrganizationID d = orgID \<and> ServiceRequestID d = caseID" for d
    unfolding L ListByServiceRequest_def request_decisions_def by auto
  have same: "same_request d e \<longleftrightarrow> e \<in> set L" if "d \<in> set L" "e \<in> set (decisions s)" for d e
    using that by (auto simp: mem same_request_def)
  have "distinct (map dc_ID (decisions s))" using linkedD(1) [OF ok] .
  then have "distinct L"
    unfolding L ListByServiceRequest_def request_decisions_def by (simp add: distinct_map)
  moreover have inj: "inj_on dc_Version (set L)"
    using linkedD(3) [OF ok] same mem by (intro inj_onI) blast
  ultimately show d: "distinct (map dc_Version L)" by (simp add: distinct_map)
  have "dc_Version ` set L = {1..int (card (dc_Version ` set L))}"
  proof (rule initial_segment)
    show "1 \<le> v" if "v \<in> dc_Version ` set L" for v using that linkedD(2) [OF ok] mem by auto
    show "w \<in> dc_Version ` set L" if "v \<in> dc_Version ` set L" "1 \<le> w" "w \<le> v" for v w
    proof -
      obtain x where x: "x \<in> set L" "v = dc_Version x" using \<open>v \<in> dc_Version ` set L\<close> by blast
      then obtain e where "e \<in> set (decisions s)" "same_request x e" "dc_Version e = w"
        using linked_below [OF ok _ \<open>1 \<le> w\<close>, of x] \<open>w \<le> v\<close> mem by blast
      then show ?thesis using same [OF x(1)] by blast
    qed
  qed simp
  moreover have "card (dc_Version ` set L) = length L" using d distinct_card [OF d] by simp
  moreover have "int ` {1..<Suc (length L)} = {1..int (length L)}"
    by (auto simp: image_int_atLeastLessThan)
  ultimately show "set (map dc_Version L) = set (map int [1..<Suc (length L)])" by (simp del: upt_Suc)
  show "sorted (map dc_Version L)" unfolding L ListByServiceRequest_def by (rule sorted_sort_key)
  show "sorted (map int [1..<Suc (length L)])" by (simp add: sorted_map sorted_wrt_map del: upt_Suc)
  show "distinct (map int [1..<Suc (length L)])" by (simp add: distinct_map)
qed

lemma history_links:
  assumes ok: "linked (decisions s)" and L: "L = ListByServiceRequest orgID caseID s" and k: "k < length L"
  shows "SupersededByID (L ! k) = (if k + 1 < length L then Some (dc_ID (L ! (k + 1))) else None)"
proof -
  have mem: "d \<in> set L \<longleftrightarrow> d \<in> set (decisions s) \<and> dc_OrganizationID d = orgID \<and> ServiceRequestID d = caseID" for d
    unfolding L ListByServiceRequest_def request_decisions_def by auto
  have v: "dc_Version (L ! j) = int j + 1" if "j < length L" for j
    using arg_cong [OF history_versions [OF ok L], of "\<lambda>xs. xs ! j"] that by (simp del: upt_Suc)
  have at: "d = L ! j" if "d \<in> set L" "j < length L" "dc_Version d = int j + 1" for d j
  proof -
    obtain i where "i < length L" "L ! i = d" using \<open>d \<in> set L\<close> by (auto simp: in_set_conv_nth)
    then show ?thesis using v [of i] that(3) by auto
  qed
  note here = nth_mem [OF k]
  show ?thesis
  proof (cases "k + 1 < length L")
    case True
    let ?n = "L ! (k + 1)"
    have n: "?n \<in> set L" "1 < dc_Version ?n" using True v [of "k + 1"] by auto
    then obtain e where e: "e \<in> set (decisions s)" "same_request ?n e" "dc_Version e + 1 = dc_Version ?n"
      "SupersededByID e = Some (dc_ID ?n)"
      using linkedD(4) [OF ok, of ?n] mem by blast
    then have "e \<in> set L" "dc_Version e = int k + 1" using n(1) mem v [OF True] by (auto simp: same_request_def)
    then show ?thesis using at [of e k] k e(4) True by simp
  next
    case False
    have "SupersededByID (L ! k) = None"
    proof (rule ccontr)
      assume "SupersededByID (L ! k) \<noteq> None"
      then obtain e where e: "e \<in> set (decisions s)" "same_request (L ! k) e" "dc_Version e = dc_Version (L ! k) + 1"
        using linkedD(5) [OF ok] here mem by blast
      then have "e \<in> set L" using here mem by (auto simp: same_request_def)
      then obtain j where "j < length L" "dc_Version e = int j + 1" using v by (auto simp: in_set_conv_nth)
      then show False using e(3) v [OF k] False by simp
    qed
    then show ?thesis using False by simp
  qed
qed

text \<open>
  C11. Invariant: the history of the decisions of a case, as the service returns it in any run,
  has the versions 1, 2, 3, ... in this order, and every decision but the last one points to
  the decision that superseded it; the last one points nowhere.
\<close>

theorem decision_history_linked:
  assumes svc: "review_environment svc ds rs" and run: "review_run svc ds rs (s # run)"
    and get: "GetDecisionHistory orgID caseID s = Inr L"
  shows "map dc_Version L = map int [1..<Suc (length L)]
    \<and> map SupersededByID L = (if L = [] then [] else map (\<lambda>d. Some (dc_ID d)) (tl L) @ [None])"
proof
  have ok: "linked (decisions s)" using review_run_stores(1) [OF svc run] by (simp add: reviews_ok_def)
  have L: "L = ListByServiceRequest orgID caseID s" using get by (simp add: GetDecisionHistory_def)
  show "map dc_Version L = map int [1..<Suc (length L)]" by (rule history_versions [OF ok L])
  show "map SupersededByID L = (if L = [] then [] else map (\<lambda>d. Some (dc_ID d)) (tl L) @ [None])"
  proof (cases "L = []")
    case False
    have "map SupersededByID L = map (\<lambda>d. Some (dc_ID d)) (tl L) @ [None]"
    proof (rule nth_equalityI)
      show "map SupersededByID L ! k = (map (\<lambda>d. Some (dc_ID d)) (tl L) @ [None]) ! k"
        if "k < length (map SupersededByID L)" for k
        using that history_links [OF ok L, of k] by (auto simp: nth_append nth_tl)
    qed (use False in simp)
    then show ?thesis using False by simp
  qed simp
qed

lemma decision_history_linked_witness:
  "map SupersededByID (ListByServiceRequest 7 300 made5) = [Some 500, None]
     \<and> map dc_Version (ListByServiceRequest 7 300 made5) = map int [1..<Suc (length (ListByServiceRequest 7 300 made5))]"
  using decision_history_linked [OF review_sample_environment review_run_made, of 7 300 "ListByServiceRequest 7 300 made5"]
  by (simp add: GetDecisionHistory_def ListByServiceRequest_def request_decisions_def made5_rows decision4_def
      del: set_sort set_filter)

subsection \<open>Nothing is rewritten\<close>

text \<open>
  C32. Invariant: a decision stored at some point of a run is stored, unchanged, in every later
  store, except that it may have been superseded since; once superseded, its link does not
  change either. A review keeps everything but its status, its reviewer and its update time.
\<close>

theorem review_history_kept:
  assumes svc: "review_environment svc ds rs" and run: "review_run svc ds rs (s # run)" and s0: "s0 \<in> set (s # run)"
  shows "(\<forall>d \<in> set (decisions s0). \<exists>d' \<in> set (decisions s). d' = d\<lparr>SupersededByID := SupersededByID d'\<rparr>
        \<and> (SupersededByID d = None \<or> SupersededByID d' = SupersededByID d))
    \<and> (\<forall>r \<in> set (review_queue s0). \<exists>r' \<in> set (review_queue s).
        r' = r\<lparr>rv_Status := rv_Status r', rv_AssignedToID := rv_AssignedToID r', rv_UpdatedAt := rv_UpdatedAt r'\<rparr>)"
  using review_run_stores(2) [OF svc run s0]
  by (simp add: keeps_history_def kept_decision_def kept_review_def)

lemma review_history_kept_witness:
  "\<exists>d' \<in> set (decisions made5). d' = decision4\<lparr>SupersededByID := SupersededByID d'\<rparr>"
proof -
  have "decision4 \<in> set (decisions made4)" by (simp add: made4_rows)
  then show ?thesis using review_history_kept [OF review_sample_environment review_run_made, of made4] by auto
qed

subsection \<open>A decision moves its case\<close>

lemma no_decision_before:
  assumes "reviews_ok rs s" "first_decision (decisions s) d"
  shows "request_decisions (dc_OrganizationID d) (ServiceRequestID d) (decisions s) = []"
proof -
  have "linked (decisions s)" using assms(1) by (simp add: reviews_ok_def)
  from first_decision_none [OF this assms(2)] show ?thesis
    by (auto simp: request_decisions_def filter_empty_conv same_request_def)
qed

text \<open>
  C23. A decision that is made in a run is the first one of its case, is stored with version 1,
  and moves the case in the same transaction: along the transition whose key belongs to the
  decision, allowed for the role of the actor, from the current state of the case's
  instance; the history row of the move names the decision, and no other case changes.
\<close>

theorem made_decision_moves_case:
  assumes svc: "review_environment svc ds rs" and run: "review_run svc ds rs (s # run)" and s0: "s0 \<in> set (s # run)"
    and made: "MakeDecision svc ds c s0 p s = (Inr d, s')"
  shows "(\<exists>t. wt_Key t = transition_key (md_Decision p) \<and> role_allowed t (md_ActorRole p)
        \<and> case_moved (ctx_time c 21) (md_OrganizationID p) (md_ServiceRequestID p) t (Some (dc_ID d)) s s')
    \<and> request_decisions (md_OrganizationID p) (md_ServiceRequestID p) (decisions s) = []
    \<and> decisions s' = decisions s @ [decision_row d] \<and> dc_Version d = 1 \<and> dc_Decision d = md_Decision p
    \<and> dc_OrganizationID d = md_OrganizationID p \<and> ServiceRequestID d = md_ServiceRequestID p
    \<and> review_queue s' = review_queue s"
proof (rule review_environment.MakeDecision_Inr [OF svc made])
  fix i ts and t :: WorkflowTransition
  assume i: "GetInstanceByCaseID (md_OrganizationID p) (md_ServiceRequestID p) s0 = Inr i"
    and ts: "GetValidTransitions (md_OrganizationID p) (wi_ID i) s0 = Inr ts" "t \<in> set ts"
    and key: "wt_Key t = transition_key (md_Decision p)"
    and d: "dc_OrganizationID d = md_OrganizationID p" "ServiceRequestID d = md_ServiceRequestID p"
      "dc_Decision d = md_Decision p" "first_decision (decisions s) d"
    and moves: "moves_case svc (later_ctx 20 c) s0 (decision_transition p (wi_ID i) (wt_Key t) (dc_ID d)) s s'"
    and rows: "decisions s' = decisions s @ [decision_row d]" "review_queue s' = review_queue s"
  have env: "case_environment svc" using svc by (rule review_environment.axioms)
  have "case_moved (ctx_time c 21) (md_OrganizationID p) (md_ServiceRequestID p) t (Some (dc_ID d)) s s'
      \<and> role_allowed t (md_ActorRole p)"
    using chosen_move [OF env review_run_case_run [OF svc run] s0 i ts _ _ _ moves]
    by (simp add: decision_transition_def later_ctx_def)
  then show ?thesis
    using key d rows no_decision_before [OF review_run_stores(1) [OF svc run], of s d] by (auto simp: first_decision_def)
qed

lemma made_decision_moves_case_witness:
  "\<exists>t. wt_Key t = ''approve'' \<and> case_moved 25000 7 300 t (Some 400) rev3 made4"
proof -
  obtain d where d: "MakeDecision sample_service deciding (sample_ctx 4) rev3 made_params rev3 = (Inr d, made4)"
    using made4_result by blast
  note result = made_decision_moves_case [OF review_sample_environment review_run3 _ d]
  have "decisions made4 = decisions rev3 @ [decision_row d]" using result by simp
  then have "dc_ID d = 400" by (auto simp: made4_rows rev3_eval decision4_def dest: arg_cong [of _ _ dc_ID])
  then show ?thesis using result by (auto simp: made_params_def transition_key_def)
qed

subsection \<open>Ending a review\<close>

lemma offered_transition_Some:
  assumes "offered_transition orgID caseID decision during = Some (i, t)"
  obtains ts where "GetInstanceByCaseID orgID caseID during = Inr i" "GetValidTransitions orgID (wi_ID i) during = Inr ts"
    "t \<in> set ts" "DecisionType t = decision_string decision"
  using assms
  by (auto simp: offered_transition_def GetTransitionForDecision_def split: sum.splits option.splits dest!: find_Some_mem)

text \<open>What the transaction that ends a review does to the case.\<close>

lemma ended_review_moves:
  assumes svc: "review_environment svc ds rs" and run: "review_run svc ds rs (s # run)" and during: "during \<in> set (s # run)"
    and e: "end_review svc ds rs c before during orgID reviewerID r st checked decision reason action meta s = (Inr u, s')"
  shows "\<exists>decisionID. review_decides rs orgID r reviewerID decision decisionID (decisions s) (decisions s')
    \<and> (case if reviewWorkflow rs then offered_transition orgID (rv_CaseID r) decision during else None of
         None \<Rightarrow> same_records s s'
       | Some (i, t) \<Rightarrow> DecisionType t = decision_string decision \<and> role_allowed t []
           \<and> case_moved (ctx_time c 21) orgID (rv_CaseID r) t decisionID s s')
    \<and> review_queue s' = update_where (review_key orgID (rv_ID r)) (reviewed (ctx_time c 2) st (rv_AssignedToID r)) (review_queue s)"
proof (rule review_environment.end_review_Inr [OF svc e])
  have env: "case_environment svc" using svc by (rule review_environment.axioms)
  fix decisionID
  assume d: "review_decides rs orgID r reviewerID decision decisionID (decisions s) (decisions s')"
    and Q: "review_queue s' = update_where (review_key orgID (rv_ID r)) (reviewed (ctx_time c 2) st (rv_AssignedToID r)) (review_queue s)"
    and m: "(reviewWorkflow rs \<longrightarrow> offered_transition orgID (rv_CaseID r) decision during = None) \<and> same_records s s'
     \<or> (\<exists>i t. reviewWorkflow rs \<and> offered_transition orgID (rv_CaseID r) decision during = Some (i, t)
         \<and> moves_case svc (later_ctx 20 c) during
             (review_transition orgID reviewerID (wi_ID i) (wt_Key t) reason decisionID) s s')"
  have moved: "DecisionType t = decision_string decision \<and> role_allowed t []
      \<and> case_moved (ctx_time c 21) orgID (rv_CaseID r) t decisionID s s'"
    if off: "offered_transition orgID (rv_CaseID r) decision during = Some (i, t)"
      and mv: "moves_case svc (later_ctx 20 c) during (review_transition orgID reviewerID (wi_ID i) (wt_Key t) reason decisionID) s s'"
    for i t
  proof (rule offered_transition_Some [OF off])
    fix ts
    assume i: "GetInstanceByCaseID orgID (rv_CaseID r) during = Inr i"
      and ts: "GetValidTransitions orgID (wi_ID i) during = Inr ts" "t \<in> set ts" and key: "DecisionType t = decision_string decision"
    show ?thesis
      using chosen_move [OF env review_run_case_run [OF svc run] during i ts _ _ _ mv] key
      by (simp add: review_transition_def later_ctx_def)
  qed
  have "case if reviewWorkflow rs then offered_transition orgID (rv_CaseID r) decision during else None of
         None \<Rightarrow> same_records s s'
       | Some (i, t) \<Rightarrow> DecisionType t = decision_string decision \<and> role_allowed t []
           \<and> case_moved (ctx_time c 21) orgID (rv_CaseID r) t decisionID s s'"
    using m moved by (auto split: option.split)
  then show ?thesis using d Q by blast
qed

text \<open>
  C13. A review that is completed in a run gets the status of a completed review, and stores,
  when there is a decision service, the first decision of its case, with the type, the
  reviewer and the review it comes from. The case moves in the same transaction along the
  transition that the workflow offers for the type of the decision, with that decision in the
  history; when it offers none, the decision is stored and the case stays where it is.
\<close>

theorem completed_review_decides:
  assumes svc: "review_environment svc ds rs" and run: "review_run svc ds rs (s # run)"
    and during: "during \<in> set (s # run)"
    and ends: "CompleteReview svc ds rs c before during orgID reviewID reviewerID decision reason s = (Inr r, s')"
  shows "valid_decision (DecisionType_of decision)
    \<and> review_queue s' = update_where (review_key orgID reviewID)
        (reviewed (ctx_time c 2) ReviewStatusCompleted (Some reviewerID)) (review_queue s)
    \<and> (\<exists>decisionID.
        (if reviewDecisions rs
         then request_decisions orgID (rv_CaseID r) (decisions s) = []
            \<and> (\<exists>d. decisions s' = decisions s @ [d] \<and> dc_Version d = 1 \<and> dc_Decision d = DecisionType_of decision
                 \<and> dc_OrganizationID d = orgID \<and> ServiceRequestID d = rv_CaseID r \<and> DecisionMaker d = reviewerID
                 \<and> decisionID = Some (dc_ID d))
         else decisions s' = decisions s)
        \<and> (case if reviewWorkflow rs then offered_transition orgID (rv_CaseID r) (DecisionType_of decision) during else None of
             None \<Rightarrow> cases s' = cases s \<and> wf_tables s' = wf_tables s
           | Some (i, t) \<Rightarrow> DecisionType t = decision_string (DecisionType_of decision)
               \<and> case_moved (ctx_time c 21) orgID (rv_CaseID r) t decisionID s s'))"
proof -
  obtain checked meta u where ch: "checked = first_error [validateDecisionType (DecisionType_of decision),
           unless (ReasonRequired (DecisionType_of decision) \<longrightarrow> reason \<noteq> []) aErrReviewInvalidInput]"
    and own: "own_review c before orgID reviewID reviewerID True ReviewStatusCompleted = Inr r"
    and e: "end_review svc ds rs c before during orgID reviewerID r ReviewStatusCompleted checked
         (DecisionType_of decision) reason ''review.completed'' meta s = (Inr u, s')"
    using review_environment.ending_Inr(1) [OF svc ends] by blast
  have r: "rv_ID r = reviewID" "rv_AssignedToID r = Some reviewerID" 
    by (rule own_review_Inr [OF own], assumption)+
  have "checked = None" by (rule review_environment.end_review_Inr [OF svc e])
  then have "valid_decision (DecisionType_of decision)"
    using ch by (auto simp: validateDecisionType_def unless_def split: if_splits)
  moreover obtain decisionID where d: "review_decides rs orgID r reviewerID (DecisionType_of decision) decisionID (decisions s) (decisions s')"
    and m: "case if reviewWorkflow rs then offered_transition orgID (rv_CaseID r) (DecisionType_of decision) during else None of
         None \<Rightarrow> same_records s s'
       | Some (i, t) \<Rightarrow> DecisionType t = decision_string (DecisionType_of decision) \<and> role_allowed t []
           \<and> case_moved (ctx_time c 21) orgID (rv_CaseID r) t decisionID s s'"
    and Q: "review_queue s' = update_where (review_key orgID (rv_ID r))
       (reviewed (ctx_time c 2) ReviewStatusCompleted (rv_AssignedToID r)) (review_queue s)"
    using ended_review_moves [OF svc run during e] by blast
  have "case if reviewWorkflow rs then offered_transition orgID (rv_CaseID r) (DecisionType_of decision) during else None of
         None \<Rightarrow> cases s' = cases s \<and> wf_tables s' = wf_tables s
       | Some (i, t) \<Rightarrow> DecisionType t = decision_string (DecisionType_of decision)
           \<and> case_moved (ctx_time c 21) orgID (rv_CaseID r) t decisionID s s'"
    using m by (auto simp: same_records_def split: option.splits if_splits)
  moreover have "if reviewDecisions rs
         then request_decisions orgID (rv_CaseID r) (decisions s) = []
            \<and> (\<exists>d. decisions s' = decisions s @ [d] \<and> dc_Version d = 1 \<and> dc_Decision d = DecisionType_of decision
                 \<and> dc_OrganizationID d = orgID \<and> ServiceRequestID d = rv_CaseID r \<and> DecisionMaker d = reviewerID
                 \<and> decisionID = Some (dc_ID d))
         else decisions s' = decisions s"
  proof (cases "reviewDecisions rs")
    case True
    then obtain x where x: "first_decision (decisions s) x" "dc_OrganizationID x = orgID" "ServiceRequestID x = rv_CaseID r"
      "dc_Decision x = DecisionType_of decision" "DecisionMaker x = reviewerID" "decisionID = Some (dc_ID x)"
      "decisions s' = decisions s @ [decision_row x]"
      using d by (auto simp: review_decides_def)
    then show ?thesis
      using True no_decision_before [OF review_run_stores(1) [OF svc run], of s x] by (simp add: first_decision_def)
  qed (use d in \<open>simp add: review_decides_def\<close>)
  ultimately show ?thesis using Q unfolding r by blast
qed

lemma completed_review_decides_witness:
  "\<exists>d t. decisions rev7 = decisions rev6 @ [d] \<and> dc_Decision d = DecisionTypeApproved
     \<and> DecisionType t = ''APPROVED'' \<and> case_moved 28000 7 300 t (Some (dc_ID d)) rev6 rev7"
proof -
  obtain r where r: "CompleteReview sample_service deciding reviewing (sample_ctx 7) rev6 rev6 7 400 9 ''APPROVED'' [] rev6 = (Inr r, rev7)"
    using rev7_result by blast
  have "rv_CaseID r = 300"
    using r by (auto simp: CompleteReview_def tx_Inr own_review_def review_FindByID_def row_or_def rev6_eval
        dest!: Transition_Inr split: if_splits)
  moreover obtain i t where "offered_transition 7 300 DecisionTypeApproved rev6 = Some (i, t)"
    by (simp add: offered_transition_def GetTransitionForDecision_def moving_eval wf_eval rev6_eval)
  ultimately show ?thesis
    using completed_review_decides [OF review_sample_environment review_run6 _ r]
    by (simp add: reviewing_def DecisionType_of_def) blast
qed

text \<open>
  C33. Error: the reviewer's role is not known to the review queue, so a review cannot be
  completed with a decision whose transition is restricted to roles: the request fails and
  changes nothing.
\<close>

theorem restricted_decision_blocks_review:
  assumes svc: "review_environment svc ds rs" and run: "review_run svc ds rs (s # run)" and during: "during \<in> set (s # run)"
    and wf: "reviewWorkflow rs" and r: "review_FindByID orgID reviewID before = Inr r"
    and off: "offered_transition orgID (rv_CaseID r) (DecisionType_of decision) during = Some (i, t)"
    and roles: "AllowedRoles t \<noteq> []" "[] \<notin> set (AllowedRoles t)"
  shows "\<exists>e. CompleteReview svc ds rs c before during orgID reviewID reviewerID decision reason s = (Inl e, s)"
proof -
  obtain x s' where x: "CompleteReview svc ds rs c before during orgID reviewID reviewerID decision reason s = (x, s')"
    by fastforce
  have "x \<noteq> Inr q" for q
  proof
    assume "x = Inr q"
    then obtain meta checked u where own: "own_review c before orgID reviewID reviewerID True ReviewStatusCompleted = Inr q"
      and e: "end_review svc ds rs c before during orgID reviewerID q ReviewStatusCompleted checked (DecisionType_of decision)
         reason ''review.completed'' meta s = (Inr u, s')"
      using x review_environment.ending_Inr(1) [OF svc] by blast
    have "rv_CaseID q = rv_CaseID r" using own r by (auto simp: own_review_def split: if_splits dest!: Transition_Inr)
    then show False using ended_review_moves [OF svc run during e] off wf roles by (simp add: role_allowed_def)
  qed
  then obtain e where "x = Inl e" by (cases x) auto
  then show ?thesis using x tx_atomicD [OF review_requests_atomic(6)] by metis
qed

lemma restricted_decision_blocks_review_witness:
  "\<exists>e. CompleteReview sample_service deciding reviewing (sample_ctx 7) rev6 rev6 7 400 9 ''REJECTED'' ''no'' rev6 = (Inl e, rev6)"
proof -
  obtain r where r: "review_FindByID 7 400 rev6 = Inr r" "rv_CaseID r = 300"
    by (simp add: review_FindByID_def row_or_def rev6_eval)
  obtain i t where t: "offered_transition 7 300 DecisionTypeRejected rev6 = Some (i, t)" "AllowedRoles t = [''r'']"
    by (simp add: offered_transition_def GetTransitionForDecision_def moving_eval wf_eval rev6_eval)
  show ?thesis
    using restricted_decision_blocks_review [OF review_sample_environment review_run6 _ _ r(1), of rev6 "''REJECTED''" i t] r(2) t
    by (simp add: reviewing_def DecisionType_of_def)
qed

subsection \<open>Reviews of decided cases\<close>

lemma decided_no_first:
  assumes ok: "linked D" and dec: "decided orgID caseID D"
    and new: "first_decision D d" "dc_OrganizationID d = orgID" "ServiceRequestID d = caseID"
  shows False
proof -
  obtain e where "e \<in> set D" "same_request d e" using dec new(2,3) by (auto simp: decided_def same_request_def)
  then show False using first_decision_none [OF ok new(1)] by blast
qed

lemma decided_later:
  assumes "keeps_history s0 s" "decided orgID caseID (decisions s0)" shows "decided orgID caseID (decisions s)"
proof -
  obtain d where d: "d \<in> set (decisions s0)" "dc_OrganizationID d = orgID" "ServiceRequestID d = caseID"
    using assms(2) by (auto simp: decided_def)
  then obtain e where "e \<in> set (decisions s)" "kept_decision d e" using assms(1) by (auto simp: keeps_history_def)
  then show ?thesis using d kept_decisionD(2,3) [of d e] by (auto simp: decided_def)
qed

text \<open>
  C24. Error: once a case has a decision, or one of its reviews has ended or waits for
  information, that review cannot be completed or escalated, nor can it ask for information
  again: every such request, whatever stores it has read, fails and changes nothing. In
  particular a review that has asked for information can never be completed.
\<close>

theorem decided_review_cannot_end:
  assumes svc: "review_environment svc ds rs" and run: "review_run svc ds rs (s # run)" and on: "reviewDecisions rs"
    and stores: "s0 \<in> set (s # run)" "before \<in> set (s # run)"
    and r: "r \<in> set (review_queue s0)" "rv_ID r = reviewID" "rv_OrganizationID r = orgID"
    and dec: "decided orgID (rv_CaseID r) (decisions s0)
      \<or> rv_Status r \<in> {ReviewStatusWaitingInfo, ReviewStatusCompleted, ReviewStatusEscalated}"
  shows "(\<exists>e. CompleteReview svc ds rs c before during orgID reviewID reviewerID decision reason s = (Inl e, s))
    \<and> (\<exists>e. EscalateReview svc ds rs c before during orgID reviewID reviewerID reason s = (Inl e, s))
    \<and> (\<exists>e. RequestInformation svc ds rs c before during orgID reviewID reviewerID missing reason s = (Inl e, s))"
proof -
  note ok = review_run_stores(1) [OF svc run] and kept = review_run_stores(2) [OF svc run]
  have "decided orgID (rv_CaseID r) (decisions s0)"
    using dec ok [OF stores(1)] r on by (auto simp: reviews_ok_def queue_ok_def ended_def final_status_def)
  then have now: "decided orgID (rv_CaseID r) (decisions s)" by (rule decided_later [OF kept [OF stores(1)]])
  have L: "linked (decisions s)" "distinct (map rv_ID (review_queue s))"
    using ok [of s] by (simp_all add: reviews_ok_def queue_ok_def)
  have blocked: False
    if own: "own_review c before orgID reviewID reviewerID True st = Inr q"
      and e: "end_review svc ds rs c before during orgID reviewerID q st checked dec' reason action meta s = (Inr u, s')"
    for st q checked dec' action meta u s'
  proof -
    obtain q0 where q0: "q0 \<in> set (review_queue before)" "rv_ID q0 = reviewID" "rv_CaseID q = rv_CaseID q0"
      by (rule own_review_Inr [OF own]) blast
    obtain x where x: "x \<in> set (review_queue s)" "kept_review q0 x"
      using kept [OF stores(2)] q0(1) by (auto simp: keeps_history_def)
    obtain y where y: "y \<in> set (review_queue s)" "kept_review r y"
      using kept [OF stores(1)] r(1) by (auto simp: keeps_history_def)
    have "x = y" using by_distinct_key [OF L(2) x(1) y(1)] kept_reviewD(1) [OF x(2)] kept_reviewD(1) [OF y(2)] q0(2) r(2) by simp
    then have case_q: "rv_CaseID q = rv_CaseID r" using kept_reviewD(3) [OF x(2)] kept_reviewD(3) [OF y(2)] q0(3) by simp
    show False
    proof (rule review_environment.end_review_Inr [OF svc e])
      fix decisionID
      assume "review_decides rs orgID q reviewerID dec' decisionID (decisions s) (decisions s')"
      then show False using on case_q decided_no_first [OF L(1) now] by (auto simp: review_decides_def)
    qed
  qed
  note ends = review_environment.ending_Inr [OF svc]
  have fails: "\<exists>e. m s = (Inl e, s)" if at: "tx_atomic m" and no: "\<And>q s'. m s \<noteq> (Inr q, s')" for m :: "('a review_db_scheme, ReviewQueueEntry) tx"
  proof (cases "m s")
    case (Pair x s')
    then obtain e where "x = Inl e" using no by (cases x) auto
    then show ?thesis using Pair tx_atomicD [OF at] by simp
  qed
  show ?thesis
    by (intro conjI fails review_requests_atomic notI) (drule ends, use blocked in blast)+
qed

lemma decided_review_cannot_end_witness:
  "\<exists>e. CompleteReview sample_service deciding reviewing (sample_ctx 9) info8 info8 7 400 9 ''APPROVED'' [] info8 = (Inl e, info8)"
proof -
  obtain r where "r \<in> set (review_queue info7)" "rv_ID r = 400" "rv_OrganizationID r = 7" "rv_Status r = ReviewStatusWaitingInfo"
    by (auto simp: info7_rows review_row7_def review_row4_def)
  then show ?thesis
    using decided_review_cannot_end [OF review_sample_environment review_run_info, of info7 info8 r 400 7]
    by (simp add: reviewing_def)
qed

subsection \<open>The state machine of reviews\<close>

lemma status_step:
  assumes ids: "distinct (map rv_ID Q)" and q: "q \<in> set Q" "rv_OrganizationID q = orgID" "rv_ID q = i" "CanTransition (rv_Status q) st"
    and Q': "Q' = update_where (review_key orgID i) (reviewed n st a) Q" and r: "r \<in> set Q"
  shows "\<exists>r' \<in> set Q'. rv_ID r' = rv_ID r \<and> rv_CaseID r' = rv_CaseID r
    \<and> (rv_Status r' = rv_Status r \<or> CanTransition (rv_Status r) (rv_Status r'))"
proof (intro bexI)
  let ?r = "if review_key orgID i r then reviewed n st a r else r"
  show "?r \<in> set Q'" using r unfolding Q' set_update_where by blast
  have "r = q" if "review_key orgID i r"
    using by_distinct_key [OF ids r q(1)] that q(3) by (simp add: review_key_def)
  then show "rv_ID ?r = rv_ID r \<and> rv_CaseID ?r = rv_CaseID r
    \<and> (rv_Status ?r = rv_Status r \<or> CanTransition (rv_Status r) (rv_Status ?r))"
    using q(4) by auto
qed

text \<open>The change a request makes to the queue: an entry that was seen moves to a status.\<close>

definition queue_move :: "'s review_db_scheme set \<Rightarrow> ReviewQueueEntry list \<Rightarrow> ReviewQueueEntry list \<Rightarrow> bool" where
  "queue_move seen Q Q' \<longleftrightarrow> set Q \<subseteq> set Q'
     \<or> (\<exists>s0 \<in> seen. \<exists>q \<in> set (review_queue s0). \<exists>n st a. CanTransition (rv_Status q) st
          \<and> Q' = update_where (review_key (rv_OrganizationID q) (rv_ID q)) (reviewed n st a) Q)"

lemma queue_moveI:
  "s0 \<in> seen \<Longrightarrow> q \<in> set (review_queue s0) \<Longrightarrow> rv_OrganizationID q = orgID \<Longrightarrow> rv_ID q = i \<Longrightarrow> CanTransition (rv_Status q) st
     \<Longrightarrow> Q' = update_where (review_key orgID i) (reviewed n st a) Q \<Longrightarrow> queue_move seen Q Q'"
  unfolding queue_move_def by blast

lemma queue_unmoved: "set Q \<subseteq> set Q' \<Longrightarrow> queue_move seen Q Q'"
  by (simp add: queue_move_def)

lemma request_moves_queue:
  assumes svc: "review_environment svc ds rs" and req: "review_request svc ds rs E s s'"
  shows "queue_move (insert s E) (review_queue s) (review_queue s')"
proof -
  have outcome: ?thesis if at: "tx_atomic m" and m: "m s = (x, s')"
      and yes: "\<And>d. m s = (Inr d, s') \<Longrightarrow> queue_move (insert s E) (review_queue s) (review_queue s')"
    for m :: "('a review_db_scheme, 'b) tx" and x
  proof (cases x)
    case (Inl e)
    then have "s' = s" using m tx_atomicD [OF at] by simp
    then show ?thesis by (simp add: queue_unmoved)
  qed (use m yes in simp)
  have ends: ?thesis
    if s0: "s0 \<in> E" and own: "own_review c s0 orgID i a True st = Inr q"
      and e: "end_review svc ds rs c s0 s1 orgID a q st checked decision reason action meta s = (Inr u, s')"
    for s0 s1 c orgID i a st q checked decision reason action meta u
    by (rule own_review_Inr [OF own], rule review_environment.end_review_Inr [OF svc e],
      rule queue_moveI [of s0]) (use s0 in auto)
  note at = review_requests_atomic and ending = review_environment.ending_Inr [OF svc]
  from req show ?thesis
  proof cases
    case (make s0 c p x)
    show ?thesis
      by (rule outcome [OF at(1) make(2)], rule queue_unmoved, rule review_environment.MakeDecision_Inr [OF svc]) auto
  next
    case (supersede s0 c p x)
    show ?thesis
      by (rule outcome [OF at(2) supersede(3)], rule queue_unmoved, rule review_environment.SupersedeDecision_Inr [OF svc]) auto
  next
    case (create c orgID caseID wi st pr rules ev form missing x)
    show ?thesis
      by (rule outcome [OF at(3) create], rule queue_unmoved) (auto dest: CreateReview_Inr(2))
  next
    case (claim s0 c orgID i a x)
    show ?thesis
      by (rule outcome [OF at(4) claim(2)], rule review_environment.ClaimReview_Inr [OF svc], assumption,
        rule queue_moveI [of s]) (auto simp: CanTransition_def)
  next
    case (start s0 c orgID i a x)
    show ?thesis
      by (rule outcome [OF at(5) start(2)], rule review_environment.StartReview_Inr [OF svc], assumption,
        rule queue_moveI [of s0]) (use start(1) in auto)
  next
    case (complete s0 s1 c orgID i a decision reason x)
    show ?thesis by (rule outcome [OF at(6) complete(3)], drule ending(1)) (use complete(1) ends in blast)
  next
    case (escalate s0 s1 c orgID i a reason x)
    show ?thesis by (rule outcome [OF at(7) escalate(3)], drule ending(2)) (use escalate(1) ends in blast)
  next
    case (request_information s0 s1 c orgID i a missing reason x)
    show ?thesis by (rule outcome [OF at(8) request_information(3)], drule ending(3)) (use request_information(1) ends in blast)
  qed
qed

text \<open>
  C25. Safety: a request on decisions or reviews that reads nothing older than the store it
  writes changes the status of a review only along the transitions of the state machine of
  reviews; in particular a completed or escalated review stays what it is.
\<close>

theorem serial_reviews_follow_state_machine:
  assumes svc: "review_environment svc ds rs" and run: "review_run svc ds rs (s # run)"
    and req: "review_request svc ds rs {s} s s'" and r: "r \<in> set (review_queue s)"
  shows "\<exists>r' \<in> set (review_queue s'). rv_ID r' = rv_ID r \<and> rv_CaseID r' = rv_CaseID r
    \<and> (rv_Status r' = rv_Status r \<or> CanTransition (rv_Status r) (rv_Status r'))"
proof -
  have ids: "distinct (map rv_ID (review_queue s))"
    using review_run_stores(1) [OF svc run] by (simp add: reviews_ok_def queue_ok_def)
  consider "set (review_queue s) \<subseteq> set (review_queue s')"
    | q n st a where "q \<in> set (review_queue s)" "CanTransition (rv_Status q) st"
      "review_queue s' = update_where (review_key (rv_OrganizationID q) (rv_ID q)) (reviewed n st a) (review_queue s)"
    using request_moves_queue [OF svc req] by (auto simp: queue_move_def)
  then show ?thesis
  proof cases
    case 2
    show ?thesis by (rule status_step [OF ids 2(1) refl refl 2(2,3) r])
  qed (use r in blast)
qed

lemma serial_reviews_follow_state_machine_witness:
  "\<exists>r \<in> set (review_queue rev6). \<exists>r' \<in> set (review_queue rev7). rv_ID r' = rv_ID r
     \<and> CanTransition (rv_Status r) (rv_Status r') \<and> rv_Status r' = ReviewStatusCompleted"
proof -
  have "review_request sample_service deciding reviewing {rev6} rev6 rev7"
    unfolding rev7_def by (rule review_request.complete [of rev6 _ rev6], simp, simp, rule surjective_pairing)
  moreover have r: "review_row7 ReviewStatusInReview 8000 \<in> set (review_queue rev6)"
    by (simp add: rev6_rows review_row7_def)
  ultimately show ?thesis
    using serial_reviews_follow_state_machine [OF review_sample_environment review_run6 _ r]
    by (intro bexI [OF _ r]) (auto simp: rev7_rows review_row7_def CanTransition_def)
qed

text \<open>
  Safety, and its limit: the entry is read before the transaction and not again inside it.
  There is a run in which the review that has been completed, its decision made and its case
  moved, is taken back to the status of a review in progress by a request to start it that had
  read it before.
\<close>

theorem stale_start_reopens_review:
  "\<exists>(s :: review_db) s' run r r'. review_run sample_service deciding reviewing (s' # s # run)
     \<and> (\<exists>before \<in> set run. \<exists>e. StartReview reviewing (sample_ctx 8) before 7 400 9 s = (Inr e, s'))
     \<and> review_queue s = [r] \<and> rv_Status r = ReviewStatusCompleted \<and> \<not> CanTransition ReviewStatusCompleted ReviewStatusInReview
     \<and> decisions s \<noteq> [] \<and> review_queue s' = [r'] \<and> rv_ID r' = rv_ID r \<and> rv_Status r' = ReviewStatusInReview"
proof -
  let ?run = "[rev6, rev5, rev4, rev3, rev2, rev1, rev0]"
  have "\<exists>before \<in> set ?run. \<exists>e. StartReview reviewing (sample_ctx 8) before 7 400 9 rev7 = (Inr e, rev8)"
    using rev8_result by simp
  moreover have "\<not> CanTransition ReviewStatusCompleted ReviewStatusInReview" by (simp add: CanTransition_def)
  moreover have "review_queue rev7 = [review_row7 ReviewStatusCompleted 9000]" "decisions rev7 \<noteq> []"
    "review_queue rev8 = [review_row7 ReviewStatusInReview 10000]" "rv_Status (review_row7 st n) = st"
    "rv_ID (review_row7 st n) = 400" for st n
    by (simp_all add: rev8_rows rev7_rows review_row7_def review_row4_def)
  ultimately show ?thesis using review_run8 by metis
qed

end
