(* ===== verification/Evidence_Domain.thy ===== *)
theory Evidence_Domain
  imports Case_Domain Rule_Engine
begin

section \<open>Evidence and its documents\<close>

text \<open>
  internal/evidence/domain/evidence.go and document.go: evidence, the validation of its storage
  reference and metadata, the verification state machine, and the documents uploaded for it.
  The storage reference is read as url.Parse of Go 1.23 reads it. An identifier, an instant and
  the current time come from the request context.
\<close>

subsection \<open>net/url\<close>

text \<open>The parts of a URL the program looks at; of the user information only that there is some.\<close>

record go_url =
  url_Scheme :: string
  url_User :: bool
  url_Host :: string
  url_Path :: string
  url_RawQuery :: string
  url_Fragment :: string

definition byte :: "char \<Rightarrow> nat" where
  "byte c = of_char c"

definition unhex :: "char \<Rightarrow> nat option" where
  "unhex c = (if is_digit c then Some (byte c - 48)
     else if 97 \<le> byte c \<and> byte c \<le> 102 then Some (byte c - 87)
     else if 65 \<le> byte c \<and> byte c \<le> 70 then Some (byte c - 55) else None)"

text \<open>strings.Cut at a character, LastIndex of a character and Index of a text.\<close>

definition cut_before :: "char \<Rightarrow> string \<Rightarrow> string" where
  "cut_before c s = takeWhile (\<lambda>x. x \<noteq> c) s"

definition cut_after :: "char \<Rightarrow> string \<Rightarrow> string" where
  "cut_after c s = drop 1 (dropWhile (\<lambda>x. x \<noteq> c) s)"

definition after_last :: "char \<Rightarrow> string \<Rightarrow> string" where
  "after_last c s = rev (takeWhile (\<lambda>x. x \<noteq> c) (rev s))"

definition before_last :: "char \<Rightarrow> string \<Rightarrow> string" where
  "before_last c s = take (length s - Suc (length (after_last c s))) s"

fun index_of :: "string \<Rightarrow> string \<Rightarrow> nat option" where
  "index_of sub [] = (if sub = [] then Some 0 else None)"
| "index_of sub (c # cs) = (if take (length sub) (c # cs) = sub then Some 0 else map_option Suc (index_of sub cs))"

text \<open>
  shouldEscape for a host lets through letters, digits, the other unreserved characters and
  the sub-delimiters; unescape in a path, a fragment or user information only decodes.
\<close>

datatype url_part = PathPart | HostPart | ZonePart

definition host_escapes :: "char \<Rightarrow> bool" where
  "host_escapes c \<longleftrightarrow> \<not> (is_letter c \<or> is_digit c
     \<or> byte c \<in> {33, 34, 36, 38, 39, 40, 41, 42, 43, 44, 45, 46, 58, 59, 60, 61, 62, 91, 93, 95, 126})"

definition bad_escape :: "url_part \<Rightarrow> nat \<Rightarrow> bool" where
  "bad_escape part v = (case part of
     PathPart \<Rightarrow> False
   | HostPart \<Rightarrow> v < 128 \<and> v \<noteq> 37
   | ZonePart \<Rightarrow> v \<noteq> 37 \<and> v \<noteq> 32 \<and> host_escapes (char_of v))"

fun url_unescape :: "url_part \<Rightarrow> string \<Rightarrow> string option" where
  "url_unescape part [] = Some []"
| "url_unescape part (c # cs) =
     (if byte c = 37 then (case cs of
          a # b # rest \<Rightarrow> (case (unhex a, unhex b) of
              (Some h, Some l) \<Rightarrow> if bad_escape part (16 * h + l) then None
                else map_option ((#) (char_of (16 * h + l))) (url_unescape part rest)
            | _ \<Rightarrow> None)
        | _ \<Rightarrow> None)
      else if part \<noteq> PathPart \<and> byte c < 128 \<and> host_escapes c then None
      else map_option ((#) c) (url_unescape part cs))"

definition validOptionalPort :: "string \<Rightarrow> bool" where
  "validOptionalPort port \<longleftrightarrow> port = [] \<or> hd port = CHR '':'' \<and> list_all is_digit (tl port)"

definition parseHost :: "string \<Rightarrow> string option" where
  "parseHost host =
     (if take 1 host = ''['' then
        (if CHR '']'' \<notin> set host \<or> \<not> validOptionalPort (after_last CHR '']'' host) then None
         else (case index_of ''%25'' (before_last CHR '']'' host) of
             None \<Rightarrow> url_unescape HostPart host
           | Some z \<Rightarrow> (let i = length (before_last CHR '']'' host) in
               (case (url_unescape HostPart (take z host), url_unescape ZonePart (drop z (take i host)),
                      url_unescape HostPart (drop i host)) of
                  (Some a, Some b, Some d) \<Rightarrow> Some (a @ b @ d)
                | _ \<Rightarrow> None))))
      else if CHR '':'' \<in> set host \<and> \<not> validOptionalPort (CHR '':'' # after_last CHR '':'' host) then None
      else url_unescape HostPart host)"

definition validUserinfo :: "string \<Rightarrow> bool" where
  "validUserinfo s \<longleftrightarrow> list_all (\<lambda>c. is_letter c \<or> is_digit c
     \<or> byte c \<in> {45, 46, 95, 58, 126, 33, 36, 38, 39, 40, 41, 42, 43, 44, 59, 61, 37, 64}) s"

definition parseAuthority :: "string \<Rightarrow> (bool \<times> string) option" where
  "parseAuthority authority =
     (if CHR ''@'' \<notin> set authority then map_option (Pair False) (parseHost authority)
      else (case parseHost (after_last CHR ''@'' authority) of
          None \<Rightarrow> None
        | Some host \<Rightarrow> (let user = before_last CHR ''@'' authority in
            if \<not> validUserinfo user \<or> url_unescape PathPart (cut_before CHR '':'' user) = None
               \<or> url_unescape PathPart (cut_after CHR '':'' user) = None then None
            else Some (True, host))))"

text \<open>getScheme: \<open>None\<close> is an error, an empty scheme means that there is none.\<close>

definition getScheme :: "string \<Rightarrow> (string \<times> string) option" where
  "getScheme s = (let scheme = takeWhile (\<lambda>c. is_letter c \<or> is_digit c \<or> byte c \<in> {43, 45, 46}) s; rest = drop (length scheme) s in
     if rest = [] \<or> hd rest \<noteq> CHR '':'' then Some ([], s)
     else if scheme = [] then None
     else if \<not> is_letter (hd scheme) then Some ([], s)
     else Some (scheme, tl rest))"

definition url_parse :: "string \<Rightarrow> go_url option" where
  "url_parse raw =
     (if list_ex (\<lambda>c. byte c < 32 \<or> byte c = 127) raw then None
      else (case getScheme raw of
          None \<Rightarrow> None
        | Some (scheme0, rest0) \<Rightarrow>
            (let scheme = map ascii_lower scheme0; rest = cut_before CHR ''?'' rest0; query = cut_after CHR ''?'' rest0;
                 u = \<lparr>url_Scheme = scheme, url_User = False, url_Host = [], url_Path = [], url_RawQuery = query, url_Fragment = []\<rparr>
             in if take 1 rest \<noteq> ''/'' \<and> scheme \<noteq> [] then Some u
                else if take 1 rest \<noteq> ''/'' \<and> CHR '':'' \<in> set (cut_before CHR ''/'' rest) then None
                else if (scheme \<noteq> [] \<or> take 3 rest \<noteq> ''///'') \<and> take 2 rest = ''//''
                  then (case (parseAuthority (cut_before CHR ''/'' (drop 2 rest)),
                              url_unescape PathPart (dropWhile (\<lambda>c. c \<noteq> CHR ''/'') (drop 2 rest))) of
                      (Some (user, host), Some path) \<Rightarrow> Some (u\<lparr>url_User := user, url_Host := host, url_Path := path\<rparr>)
                    | _ \<Rightarrow> None)
                else map_option (\<lambda>path. u\<lparr>url_Path := path\<rparr>) (url_unescape PathPart rest))))"

definition url_Parse :: "string \<Rightarrow> go_url option" where
  "url_Parse raw = (case url_parse (cut_before CHR ''#'' raw) of
     None \<Rightarrow> None
   | Some u \<Rightarrow> map_option (\<lambda>fragment. u\<lparr>url_Fragment := fragment\<rparr>) (url_unescape PathPart (cut_after CHR ''#'' raw)))"

text \<open>strings.Split at the slash.\<close>

fun split_at :: "char \<Rightarrow> string \<Rightarrow> string list" where
  "split_at sep [] = [[]]"
| "split_at sep (c # cs) = (if c = sep then [] # split_at sep cs
     else (c # hd (split_at sep cs)) # tl (split_at sep cs))"

subsection \<open>Evidence\<close>

text \<open>The last constructor of each enumeration holds any other text, the empty one included.\<close>

datatype EvidenceType =
    EvidenceTypeIdentityDocument | EvidenceTypeProofOfResidence | EvidenceTypeReferral
  | EvidenceTypeSupportingDocument | EvidenceTypePhotograph | EvidenceTypeStaffNote | EvidenceTypeOther
  | EvidenceTypeUnknown string

datatype EvidenceSource =
    EvidenceSourceUpload | EvidenceSourceExternalReference | EvidenceSourceExternalAPI | EvidenceSourceManual
  | EvidenceSourceUnknown string

datatype VerificationStatus =
    VerificationStatusUnverified | VerificationStatusNeedsReview | VerificationStatusVerified
  | VerificationStatusRejected | VerificationStatusUnknown string

fun evidence_type_string :: "EvidenceType \<Rightarrow> string" where
  "evidence_type_string EvidenceTypeIdentityDocument = ''IDENTITY_DOCUMENT''"
| "evidence_type_string EvidenceTypeProofOfResidence = ''PROOF_OF_RESIDENCE''"
| "evidence_type_string EvidenceTypeReferral = ''REFERRAL''"
| "evidence_type_string EvidenceTypeSupportingDocument = ''SUPPORTING_DOCUMENT''"
| "evidence_type_string EvidenceTypePhotograph = ''PHOTOGRAPH''"
| "evidence_type_string EvidenceTypeStaffNote = ''STAFF_NOTE''"
| "evidence_type_string EvidenceTypeOther = ''OTHER''"
| "evidence_type_string (EvidenceTypeUnknown t) = t"

fun evidence_source_string :: "EvidenceSource \<Rightarrow> string" where
  "evidence_source_string EvidenceSourceUpload = ''UPLOAD''"
| "evidence_source_string EvidenceSourceExternalReference = ''EXTERNAL_REFERENCE''"
| "evidence_source_string EvidenceSourceExternalAPI = ''EXTERNAL_API''"
| "evidence_source_string EvidenceSourceManual = ''MANUAL''"
| "evidence_source_string (EvidenceSourceUnknown t) = t"

fun verification_string :: "VerificationStatus \<Rightarrow> string" where
  "verification_string VerificationStatusUnverified = ''UNVERIFIED''"
| "verification_string VerificationStatusNeedsReview = ''NEEDS_REVIEW''"
| "verification_string VerificationStatusVerified = ''VERIFIED''"
| "verification_string VerificationStatusRejected = ''REJECTED''"
| "verification_string (VerificationStatusUnknown t) = t"

definition evidence_domain :: "string \<Rightarrow> go_error" where
  "evidence_domain m = Err (''evidence/domain: '' @ m)"

abbreviation (input) "dErrEvidenceNotFound \<equiv> evidence_domain ''evidence not found''"
abbreviation (input) "dErrEvidenceInvalidInput \<equiv> evidence_domain ''invalid evidence input''"
abbreviation (input) "ErrVerificationInvalid \<equiv> evidence_domain ''invalid verification operation''"
abbreviation (input) "ErrMetadataTooLarge \<equiv> evidence_domain ''metadata exceeds maximum size''"
abbreviation (input) "ErrDocumentNotFound \<equiv> evidence_domain ''document not found''"
abbreviation (input) "ErrDocumentInvalidInput \<equiv> evidence_domain ''invalid document input''"

text \<open>Metadata without members is the nil map; so copyMetadata copies it.\<close>

record Evidence =
  en_ID :: uuid
  en_OrganizationID :: uuid
  en_ServiceRequestID :: uuid
  en_Type :: EvidenceType
  CustomType :: "string option"
  en_Description :: string
  StorageReference :: string
  en_UploadedBy :: uuid
  en_PersonID :: "uuid option"
  en_Source :: EvidenceSource
  en_Metadata :: facts
  en_Status :: VerificationStatus
  VerifiedBy :: "uuid option"
  VerifiedAt :: "instant option"
  VerificationReason :: string
  VerificationMethod :: string
  en_CreatedAt :: instant

record EvidenceParams =
  nev_OrganizationID :: uuid
  nev_ServiceRequestID :: uuid
  nev_Type :: EvidenceType
  nev_CustomType :: string
  nev_Description :: string
  nev_StorageReference :: string
  nev_UploadedBy :: uuid
  nev_PersonID :: "uuid option"
  nev_Source :: EvidenceSource
  nev_Metadata :: facts

record VerificationRecord =
  vr_ID :: uuid
  vr_EvidenceID :: uuid
  vr_OrganizationID :: uuid
  vr_Status :: VerificationStatus
  vr_VerifierID :: "uuid option"
  vr_VerifiedAt :: instant
  vr_Reason :: string
  vr_Method :: string
  vr_Notes :: string
  vr_CreatedAt :: instant

definition validateStorageReference :: "string \<Rightarrow> go_error option" where
  "validateStorageReference reference =
     (if contains_control reference then Some (Err ''storage reference contains control characters'')
      else (case url_Parse reference of
          None \<Rightarrow> Some (Err ''storage reference must be a valid object URI'')
        | Some u \<Rightarrow> first_error
            [unless (url_Scheme u \<noteq> [] \<and> url_Host u \<noteq> []) (Err ''storage reference must be a valid object URI''),
             unless (url_Scheme u \<in> {''s3'', ''gs'', ''azureblob'', ''civora''})
               (Err ''storage reference uses an unsupported scheme''),
             unless (\<not> url_User u \<and> url_RawQuery u = [] \<and> url_Fragment u = [])
               (Err ''storage reference must not contain credentials, query parameters, or fragments''),
             unless (''..'' \<notin> set (split_at CHR ''/'' (url_Path u)))
               (Err ''storage reference must not contain parent directory segments'')]))"

abbreviation (input) MaxMetadataSize :: nat where
  "MaxMetadataSize \<equiv> 100000"

definition validateMetadata :: "(rat \<Rightarrow> string) \<Rightarrow> facts \<Rightarrow> go_error option" where
  "validateMetadata ft metadata =
     (if metadata = [] then None
      else (case json_text ft (GObject metadata) of
          None \<Rightarrow> Some (Err ''metadata is not JSON-serializable'')
        | Some raw \<Rightarrow> first_error
            [unless (length raw \<le> MaxMetadataSize) (Wrap ''exceeds'' ErrMetadataTooLarge),
             unless (\<not> list_ex (\<lambda>(k, v). list_ex (\<lambda>c. byte c = 46 \<or> byte c = 34) k) metadata)
               (Err ''metadata keys must not contain a dot or a quote'')]))"

definition has_custom_type :: "EvidenceParams \<Rightarrow> bool" where
  "has_custom_type p \<longleftrightarrow> nev_Type p = EvidenceTypeOther \<and> nev_CustomType p \<noteq> []"

definition evidence_input :: "string \<Rightarrow> go_error" where
  "evidence_input m = Wrap m dErrEvidenceInvalidInput"

text \<open>\<^verbatim>\<open>fmt.Errorf("%w: %w", a, b)\<close> around a check.\<close>

definition joined_with :: "go_error \<Rightarrow> go_error option \<Rightarrow> go_error option" where
  "joined_with a oe = map_option (Join a) oe"

definition NewEvidence :: "(rat \<Rightarrow> string) \<Rightarrow> ctx \<Rightarrow> EvidenceParams \<Rightarrow> go_error + Evidence" where
  "NewEvidence ft c p =
     (case first_error
        [unless (nev_OrganizationID p \<noteq> uuid_nil) (evidence_input ''organization ID is required''),
         unless (nev_ServiceRequestID p \<noteq> uuid_nil) (evidence_input ''service request ID is required''),
         unless (nev_UploadedBy p \<noteq> uuid_nil) (evidence_input ''uploaded_by is required''),
         unless (length (nev_Description p) \<le> 5000) (evidence_input ''description exceeds maximum length of 5000 characters''),
         unless (nev_Description p \<noteq> []) (evidence_input ''description is required''),
         unless (length (nev_StorageReference p) \<le> 500) (evidence_input ''storage reference exceeds maximum length of 500 characters''),
         unless (nev_StorageReference p \<noteq> []) (evidence_input ''storage reference is required''),
         joined_with dErrEvidenceInvalidInput (validateStorageReference (nev_StorageReference p)),
         joined_with dErrEvidenceInvalidInput (validateMetadata ft (nev_Metadata p)),
         unless (\<not> (has_custom_type p \<and> 200 < length (nev_CustomType p)))
           (evidence_input ''custom type exceeds maximum length of 200 characters''),
         unless (\<not> (has_custom_type p \<and> contains_control (nev_CustomType p)))
           (evidence_input ''custom type contains control characters'')] of
       Some e \<Rightarrow> Inl e
     | None \<Rightarrow> Inr \<lparr>en_ID = ctx_uuid c 0, en_OrganizationID = nev_OrganizationID p, en_ServiceRequestID = nev_ServiceRequestID p,
         en_Type = nev_Type p, CustomType = (if has_custom_type p then Some (nev_CustomType p) else None),
         en_Description = nev_Description p, StorageReference = nev_StorageReference p, en_UploadedBy = nev_UploadedBy p,
         en_PersonID = nev_PersonID p,
         en_Source = (if evidence_source_string (nev_Source p) = [] then EvidenceSourceUpload else nev_Source p),
         en_Metadata = nev_Metadata p, en_Status = VerificationStatusUnverified, VerifiedBy = None, VerifiedAt = None,
         VerificationReason = [], VerificationMethod = [], en_CreatedAt = ctx_time c 0\<rparr>)"

subsection \<open>Verification\<close>

fun IsValidVerificationTransition :: "VerificationStatus \<Rightarrow> VerificationStatus \<Rightarrow> bool" where
  "IsValidVerificationTransition VerificationStatusUnverified to \<longleftrightarrow>
     to = VerificationStatusVerified \<or> to = VerificationStatusRejected \<or> to = VerificationStatusNeedsReview"
| "IsValidVerificationTransition VerificationStatusNeedsReview to \<longleftrightarrow>
     to = VerificationStatusVerified \<or> to = VerificationStatusRejected"
| "IsValidVerificationTransition VerificationStatusVerified to \<longleftrightarrow>
     to = VerificationStatusRejected \<or> to = VerificationStatusNeedsReview"
| "IsValidVerificationTransition VerificationStatusRejected to \<longleftrightarrow>
     to = VerificationStatusVerified \<or> to = VerificationStatusNeedsReview"
| "IsValidVerificationTransition (VerificationStatusUnknown t) to \<longleftrightarrow> False"

definition isValidVerificationStatus :: "VerificationStatus \<Rightarrow> bool" where
  "isValidVerificationStatus s \<longleftrightarrow> s \<in> {VerificationStatusUnverified, VerificationStatusNeedsReview,
     VerificationStatusVerified, VerificationStatusRejected}"

text \<open>The methods change the evidence they are called on: they return it with the record.\<close>

definition evidence_applyVerification :: "ctx \<Rightarrow> Evidence \<Rightarrow> uuid \<Rightarrow> VerificationStatus \<Rightarrow> string \<Rightarrow> string \<Rightarrow> string
    \<Rightarrow> go_error + Evidence \<times> VerificationRecord" where
  "evidence_applyVerification c e actorID status reason method notes =
     (case first_error
        [unless (en_OrganizationID e \<noteq> uuid_nil) (Wrap ''evidence is not persisted'' ErrVerificationInvalid),
         unless (isValidVerificationStatus status) (Wrap ''invalid status'' ErrVerificationInvalid),
         unless (IsValidVerificationTransition (en_Status e) status) (Wrap ''cannot transition'' ErrVerificationInvalid)] of
       Some err \<Rightarrow> Inl err
     | None \<Rightarrow> Inr (e\<lparr>en_Status := status, VerifiedBy := Some actorID, VerifiedAt := Some (ctx_time c 0),
           VerificationReason := reason, VerificationMethod := method\<rparr>,
         \<lparr>vr_ID = ctx_uuid c 0, vr_EvidenceID = en_ID e, vr_OrganizationID = en_OrganizationID e, vr_Status = status,
          vr_VerifierID = Some actorID, vr_VerifiedAt = ctx_time c 0, vr_Reason = reason, vr_Method = method,
          vr_Notes = notes, vr_CreatedAt = ctx_time c 0\<rparr>))"

definition evidence_Verify :: "ctx \<Rightarrow> Evidence \<Rightarrow> uuid \<Rightarrow> string \<Rightarrow> string \<Rightarrow> go_error + Evidence \<times> VerificationRecord" where
  "evidence_Verify c e verifierID reason method =
     (if verifierID = uuid_nil then Inl (Wrap ''verifier ID is required'' ErrVerificationInvalid)
      else if en_OrganizationID e = uuid_nil then Inl (Wrap ''evidence is not persisted'' ErrVerificationInvalid)
      else evidence_applyVerification c e verifierID VerificationStatusVerified reason method [])"

definition evidence_Reject :: "ctx \<Rightarrow> Evidence \<Rightarrow> uuid \<Rightarrow> string \<Rightarrow> string \<Rightarrow> go_error + Evidence \<times> VerificationRecord" where
  "evidence_Reject c e reviewerID reason method =
     (if reviewerID = uuid_nil then Inl (Wrap ''reviewer ID is required'' ErrVerificationInvalid)
      else evidence_applyVerification c e reviewerID VerificationStatusRejected reason method [])"

definition evidence_MarkForReview :: "ctx \<Rightarrow> Evidence \<Rightarrow> uuid \<Rightarrow> string \<Rightarrow> string \<Rightarrow> go_error + Evidence \<times> VerificationRecord" where
  "evidence_MarkForReview c e reviewerID reason method =
     (if reviewerID = uuid_nil then Inl (Wrap ''reviewer ID is required'' ErrVerificationInvalid)
      else evidence_applyVerification c e reviewerID VerificationStatusNeedsReview reason method [])"

definition evidence_UpdateMetadata :: "(rat \<Rightarrow> string) \<Rightarrow> Evidence \<Rightarrow> uuid \<Rightarrow> facts \<Rightarrow> go_error + Evidence" where
  "evidence_UpdateMetadata ft e actorID metadata =
     (case first_error
        [unless (actorID \<noteq> uuid_nil) (evidence_input ''actor ID is required''),
         joined_with dErrEvidenceInvalidInput (validateMetadata ft metadata)] of
       Some err \<Rightarrow> Inl err
     | None \<Rightarrow> Inr (e\<lparr>en_Metadata := metadata\<rparr>))"

definition evidence_SetPerson :: "Evidence \<Rightarrow> uuid \<Rightarrow> go_error + Evidence" where
  "evidence_SetPerson e personID =
     (if personID = uuid_nil then Inl (evidence_input ''person ID is required'') else Inr (e\<lparr>en_PersonID := Some personID\<rparr>))"

subsection \<open>Documents\<close>

datatype StorageProvider =
    StorageProviderLocal | StorageProviderS3 | StorageProviderGS | StorageProviderAzure | StorageProviderUnknown string

record Document =
  doc_ID :: uuid
  doc_EvidenceID :: uuid
  doc_OrganizationID :: uuid
  doc_FileName :: string
  doc_ContentType :: string
  doc_SizeBytes :: int
  doc_Checksum :: string
  doc_StorageKey :: string
  doc_StorageProvider :: StorageProvider
  doc_UploadedBy :: uuid
  doc_UploadedAt :: instant
  doc_CreatedAt :: instant

record DocumentParams =
  dp_OrganizationID :: uuid
  dp_EvidenceID :: uuid
  dp_FileName :: string
  dp_ContentType :: string
  dp_SizeBytes :: int
  dp_Checksum :: string
  dp_StorageKey :: string
  dp_StorageProv :: StorageProvider
  dp_UploadedBy :: uuid

definition isValidStorageProvider :: "StorageProvider \<Rightarrow> bool" where
  "isValidStorageProvider p = (case p of StorageProviderUnknown _ \<Rightarrow> False | _ \<Rightarrow> True)"

definition document_input :: "string \<Rightarrow> go_error" where
  "document_input m = Wrap m ErrDocumentInvalidInput"

abbreviation (input) MaxDocumentFileNameLength :: nat where
  "MaxDocumentFileNameLength \<equiv> 255"

definition NewDocument :: "ctx \<Rightarrow> DocumentParams \<Rightarrow> go_error + Document" where
  "NewDocument c p =
     (case first_error
        [unless (dp_OrganizationID p \<noteq> uuid_nil) (document_input ''organization ID is required''),
         unless (dp_EvidenceID p \<noteq> uuid_nil) (document_input ''evidence ID is required''),
         unless (dp_UploadedBy p \<noteq> uuid_nil) (document_input ''uploaded_by is required''),
         unless (dp_FileName p \<noteq> [] \<and> length (dp_FileName p) \<le> MaxDocumentFileNameLength)
           (document_input ''file name is required and must not exceed 255 characters''),
         unless (isValidStorageProvider (dp_StorageProv p)) (document_input ''invalid storage provider''),
         unless (dp_Checksum p \<noteq> []) (document_input ''checksum is required''),
         unless (0 < dp_SizeBytes p) (document_input ''size_bytes must be positive''),
         unless (dp_StorageKey p \<noteq> []) (document_input ''storage key is required'')] of
       Some e \<Rightarrow> Inl e
     | None \<Rightarrow> Inr \<lparr>doc_ID = ctx_uuid c 0, doc_EvidenceID = dp_EvidenceID p, doc_OrganizationID = dp_OrganizationID p,
         doc_FileName = dp_FileName p, doc_ContentType = dp_ContentType p, doc_SizeBytes = dp_SizeBytes p,
         doc_Checksum = dp_Checksum p, doc_StorageKey = dp_StorageKey p, doc_StorageProvider = dp_StorageProv p,
         doc_UploadedBy = dp_UploadedBy p, doc_UploadedAt = ctx_time c 0, doc_CreatedAt = ctx_time c 0\<rparr>)"

end
