(* ===== verification/Evidence_Storage.thy ===== *)
theory Evidence_Storage
  imports Evidence_Domain
begin

section \<open>The storage of files\<close>

text \<open>
  internal/evidence/infrastructure/storage: names and content types of uploaded files, storage
  keys, and the provider that keeps files in a directory. The files are a map from paths to
  contents; what the operating system refuses comes with the provider, as functions from a
  path to an error. A reader is what it delivers and the error it ends with, if any. File names
  are UTF-8, of which the model sees the bytes: control characters are single bytes there.
\<close>

subsection \<open>Paths\<close>

text \<open>filepath.Clean on Unix: the elements of a path, with every \<^verbatim>\<open>..\<close> resolved.\<close>

fun clean_elements :: "bool \<Rightarrow> string list \<Rightarrow> string list \<Rightarrow> string list" where
  "clean_elements rooted out [] = rev out"
| "clean_elements rooted out (e # es) =
     (if e = [] \<or> e = ''.'' then clean_elements rooted out es
      else if e = ''..'' then
        (if out \<noteq> [] \<and> hd out \<noteq> ''..'' then clean_elements rooted (tl out) es
         else if rooted then clean_elements rooted out es
         else clean_elements rooted (e # out) es)
      else clean_elements rooted (e # out) es)"

definition rooted_path :: "string \<Rightarrow> bool" where
  "rooted_path path \<longleftrightarrow> path \<noteq> [] \<and> hd path = CHR ''/''"

definition Clean :: "string \<Rightarrow> string" where
  "Clean path = (let body = join_with ''/'' (clean_elements (rooted_path path) [] (split_at CHR ''/'' path)) in
     if rooted_path path then ''/'' @ body else if body = [] then ''.'' else body)"

definition filepath_Join :: "string \<Rightarrow> string \<Rightarrow> string" where
  "filepath_Join a b = (if a \<noteq> [] then Clean (a @ ''/'' @ b) else if b \<noteq> [] then Clean b else [])"

definition filepath_Abs :: "string \<Rightarrow> string \<Rightarrow> string" where
  "filepath_Abs cwd path = (if rooted_path path then Clean path else filepath_Join cwd path)"

definition filepath_Dir :: "string \<Rightarrow> string" where
  "filepath_Dir path = Clean (take (length path - length (after_last CHR ''/'' path)) path)"

definition filepath_Ext :: "string \<Rightarrow> string" where
  "filepath_Ext path = (let base = after_last CHR ''/'' path in
     if CHR ''.'' \<in> set base then CHR ''.'' # after_last CHR ''.'' base else [])"

subsection \<open>Names and content types\<close>

definition storage_error :: "string \<Rightarrow> go_error" where
  "storage_error m = Err (''storage: '' @ m)"

abbreviation (input) "ErrInvalidFilename \<equiv> storage_error ''invalid filename''"
abbreviation (input) "ErrUnsupportedContent \<equiv> storage_error ''unsupported content type''"
abbreviation (input) "ErrFileTooLarge \<equiv> storage_error ''file exceeds maximum allowed size''"
abbreviation (input) "ErrStorageUnavailable \<equiv> storage_error ''storage backend unavailable''"

abbreviation (input) MaxFileNameLength :: nat where
  "MaxFileNameLength \<equiv> 255"

abbreviation (input) MaxFileSize :: int where
  "MaxFileSize \<equiv> 10 * 2 ^ 20"

definition AllowedContentTypes :: "string list" where
  "AllowedContentTypes = [''application/pdf'', ''application/json'', ''application/octet-stream'', ''application/zip'',
     ''image/png'', ''image/jpeg'', ''image/gif'', ''image/webp'', ''text/plain'', ''text/csv'', ''text/html'',
     ''application/vnd.openxmlformats-officedocument.spreadsheetml.sheet'']"

text \<open>strings.ReplaceAll of two dots by nothing.\<close>

fun remove_double_dots :: "string \<Rightarrow> string" where
  "remove_double_dots (a # b # cs) =
     (if a = CHR ''.'' \<and> b = CHR ''.'' then remove_double_dots cs else a # remove_double_dots (b # cs))"
| "remove_double_dots cs = cs"

definition is_separator :: "char \<Rightarrow> bool" where
  "is_separator c \<longleftrightarrow> byte c = 47 \<or> byte c = 92"

definition is_control_byte :: "char \<Rightarrow> bool" where
  "is_control_byte c \<longleftrightarrow> byte c < 32 \<or> byte c = 127"

definition sanitized :: "string \<Rightarrow> string" where
  "sanitized name = filter (\<lambda>c. \<not> is_control_byte c)
     (remove_double_dots (rev (takeWhile (\<lambda>c. \<not> is_separator c) (rev name))))"

definition SanitizeFileName :: "string \<Rightarrow> go_error + string" where
  "SanitizeFileName name =
     (if name = [] \<or> name = ''.'' \<or> name = ''..'' then Inl (Wrap ''filename is empty or dangerous'' ErrInvalidFilename)
      else if sanitized name = [] then Inl (Wrap ''filename is empty after sanitization'' ErrInvalidFilename)
      else if MaxFileNameLength < length (sanitized name) then Inl (Wrap ''filename exceeds 255 characters'' ErrInvalidFilename)
      else Inr (sanitized name))"

text \<open>
  strings.TrimSpace: the spaces of Unicode, by the bytes of their encoding. \<open>space_at\<close> is the
  length of the space a text begins with.
\<close>

definition space_at :: "string \<Rightarrow> nat" where
  "space_at s = (case map byte (take 3 s) of
     [] \<Rightarrow> 0
   | a # rest \<Rightarrow>
       if a \<in> {9, 10, 11, 12, 13, 32} then 1
       else if rest \<noteq> [] \<and> a = 194 \<and> hd rest \<in> {133, 160} then 2
       else if rest \<in> {[154, 128]} \<and> a = 225 then 3
       else if a = 226 \<and> (rest \<in> set (map (\<lambda>b. [128, b]) ([128..<139] @ [168, 169, 175])) \<or> rest = [129, 159]) then 3
       else if a = 227 \<and> rest = [128, 128] then 3
       else 0)"

fun trim_left :: "string \<Rightarrow> string" where
  "trim_left s = (if space_at s = 0 \<or> s = [] then s else trim_left (drop (space_at s) s))"

definition final_space :: "string \<Rightarrow> nat" where
  "final_space s = (case filter (\<lambda>n. n \<le> length s \<and> space_at (drop (length s - n) s) = n) [1, 2, 3] of
     [] \<Rightarrow> 0 | n # _ \<Rightarrow> n)"

fun trim_right :: "string \<Rightarrow> string" where
  "trim_right s = (if final_space s = 0 \<or> s = [] then s else trim_right (take (length s - final_space s) s))"

declare trim_left.simps [simp del] trim_right.simps [simp del]

definition strings_TrimSpace :: "string \<Rightarrow> string" where
  "strings_TrimSpace s = trim_right (trim_left s)"

definition ValidateContentType :: "(string \<Rightarrow> string) \<Rightarrow> string \<Rightarrow> go_error + string" where
  "ValidateContentType lower ct =
     (if ct = [] then Inl (Wrap ''content type is required'' ErrUnsupportedContent)
      else (let t = strings_TrimSpace (cut_before CHR '';'' (strings_TrimSpace (ToLower lower ct))) in
        if t \<in> set AllowedContentTypes then Inr t else Inl (Wrap t ErrUnsupportedContent)))"

subsection \<open>Storage keys\<close>

text \<open>t.Format("2006/01/02").\<close>

definition slashed_date :: "instant \<Rightarrow> string" where
  "slashed_date t = (let date = compact_date t in take 4 date @ ''/'' @ take 2 (drop 4 date) @ ''/'' @ drop 6 date)"

definition GenerateStorageKey :: "instant \<Rightarrow> uuid \<Rightarrow> string \<Rightarrow> string" where
  "GenerateStorageKey now evidenceID fileName = slashed_date now @ ''/'' @ uuid_string evidenceID @ filepath_Ext fileName"

subsection \<open>The local provider\<close>

type_synonym files = "string \<Rightarrow> string option"

record reader =
  delivered :: string
  failure :: "go_error option"

record StorageMetadata =
  sm_Key :: string
  sm_Checksum :: string
  sm_SizeBytes :: int

record LocalStorageProvider =
  rootDir :: string
  mkdir_error :: "string \<Rightarrow> go_error option"
  create_error :: "string \<Rightarrow> go_error option"
  open_error :: "string \<Rightarrow> go_error option"
  remove_error :: "string \<Rightarrow> go_error option"

text \<open>The arguments of the constructor that stand for the operating system come first.\<close>

definition NewLocalStorageProvider :: "LocalStorageProvider \<Rightarrow> string \<Rightarrow> string \<Rightarrow> go_error + LocalStorageProvider" where
  "NewLocalStorageProvider os cwd dir = (let absRoot = filepath_Abs cwd dir in
     case mkdir_error os absRoot of
       Some e \<Rightarrow> Inl (Wrap ''failed to create storage directory'' e)
     | None \<Rightarrow> Inr (os\<lparr>rootDir := absRoot\<rparr>))"

definition removed :: "LocalStorageProvider \<Rightarrow> string \<Rightarrow> files \<Rightarrow> files" where
  "removed p path f = (if remove_error p path = None then f(path := None) else f)"

definition local_Store :: "LocalStorageProvider \<Rightarrow> string \<Rightarrow> reader \<Rightarrow> int \<Rightarrow> (files, StorageMetadata) tx" where
  "local_Store p key rd sz = (\<lambda>f. let dest = filepath_Join (rootDir p) key in
     if MaxFileSize < sz then (Inl (Wrap ''exceeds limit'' ErrFileTooLarge), f)
     else (case mkdir_error p (filepath_Dir dest) of
         Some e \<Rightarrow> (Inl (Wrap ''failed to create directory'' e), f)
       | None \<Rightarrow> (case create_error p dest of
           Some e \<Rightarrow> (Inl (Wrap ''failed to create file'' e), f)
         | None \<Rightarrow> (let f' = f(dest \<mapsto> delivered rd) in
             case failure rd of
               Some e \<Rightarrow> (Inl (Wrap ''failed to write file'' e), removed p dest f')
             | None \<Rightarrow>
                 if int (length (delivered rd)) \<noteq> sz \<and> 0 < sz
                 then (Inl (Wrap ''declared size does not match actual'' ErrInvalidFilename), removed p dest f')
                 else (Inr \<lparr>sm_Key = key, sm_Checksum = sha256_hex (delivered rd), sm_SizeBytes = int (length (delivered rd))\<rparr>, f')))))"

text \<open>
  strings.HasPrefix(cleanPath, p.rootDir): the text of the path starts with that of the directory,
  which paths in directories of a longer name do, too.
\<close>

definition under_root :: "LocalStorageProvider \<Rightarrow> string \<Rightarrow> bool" where
  "under_root p path \<longleftrightarrow> take (length (rootDir p)) path = rootDir p"

definition local_Retrieve :: "LocalStorageProvider \<Rightarrow> string \<Rightarrow> files \<Rightarrow> go_error + string" where
  "local_Retrieve p key f = (let path = Clean (filepath_Join (rootDir p) key) in
     if \<not> under_root p path then Inl (Wrap ''path traversal detected'' ErrInvalidFilename)
     else (case open_error p path of
         Some e \<Rightarrow> Inl (Wrap ''failed to open file'' e)
       | None \<Rightarrow> (case f path of
           None \<Rightarrow> Inl (Wrap ''file not found'' ErrStorageUnavailable)
         | Some content \<Rightarrow> Inr content)))"

definition local_Delete :: "LocalStorageProvider \<Rightarrow> string \<Rightarrow> (files, unit) tx" where
  "local_Delete p key = (\<lambda>f. let path = Clean (filepath_Join (rootDir p) key) in
     if \<not> under_root p path then (Inl (Wrap ''path traversal detected'' ErrInvalidFilename), f)
     else (case remove_error p path of
         Some e \<Rightarrow> (Inl (Wrap ''failed to delete file'' e), f)
       | None \<Rightarrow> (Inr (), f(path := None))))"

definition ComputeChecksum :: "reader \<Rightarrow> go_error + string \<times> int" where
  "ComputeChecksum rd = (case failure rd of
     Some e \<Rightarrow> Inl (Wrap ''failed to compute checksum'' e)
   | None \<Rightarrow> Inr (sha256_hex (delivered rd), int (length (delivered rd))))"

end
