(* ===== verification/Evidence_Store.thy ===== *)
theory Evidence_Store
  imports Evidence_Storage Rule_Store
begin

section \<open>The tables of evidence\<close>

text \<open>
  internal/evidence/infrastructure/postgres/evidence_repository.go, on the tables of migrations
  0003, 0032, 0033 and 0040. The foreign key into cases is checked, that into people is the
  argument \<open>known\<close>; those into organizations and users hold by assumption. The values drawn for
  the history row of an update come after those of the request.
\<close>

record evidence_db = rules_db +
  evidence_rows :: "Evidence list"
  verification_history :: "VerificationRecord list"
  evidence_documents :: "Document list"

subsection \<open>Evidence\<close>

definition valid_evidence_type :: "EvidenceType \<Rightarrow> bool" where
  "valid_evidence_type t = (case t of EvidenceTypeUnknown _ \<Rightarrow> False | _ \<Rightarrow> True)"

definition valid_evidence_source :: "EvidenceSource \<Rightarrow> bool" where
  "valid_evidence_source t = (case t of EvidenceSourceUnknown _ \<Rightarrow> False | _ \<Rightarrow> True)"

definition en_row :: "Evidence \<Rightarrow> Evidence" where
  "en_row e = e\<lparr>VerifiedAt := map_option trunc_micros (VerifiedAt e), en_CreatedAt := trunc_micros (en_CreatedAt e)\<rparr>"

definition saveEvidence :: "(uuid \<Rightarrow> bool) \<Rightarrow> Evidence \<Rightarrow> ('s evidence_db_scheme, unit) tx" where
  "saveEvidence known e = (\<lambda>s.
     let msg = ''failed to insert evidence'' in
     if \<not> json_encodable (GObject (en_Metadata e)) then (Inl (Err ''failed to marshal metadata''), s)
     else if \<not> valid_evidence_type (en_Type e) then (Inl (Wrap msg (SqlConstraint ''valid_evidence_type'')), s)
     else if \<not> valid_evidence_source (en_Source e) then (Inl (Wrap msg (SqlConstraint ''valid_evidence_source'')), s)
     else if \<not> isValidVerificationStatus (en_Status e)
       then (Inl (Wrap msg (SqlConstraint ''valid_verification_status'')), s)
     else if en_ID e \<in> en_ID ` set (evidence_rows s) then (Inl (unique_violation msg ''evidence_pkey''), s)
     else if en_ServiceRequestID e \<notin> cs_ID ` set (cases s)
       then (Inl (Wrap msg (SqlConstraint ''evidence_service_request_id_fkey'')), s)
     else if en_PersonID e \<noteq> None \<and> \<not> known (the (en_PersonID e))
       then (Inl (Wrap msg (SqlConstraint ''evidence_person_id_fkey'')), s)
     else (Inr (), s\<lparr>evidence_rows := evidence_rows s @ [en_row e]\<rparr>))"

definition scanEvidence :: "Evidence \<Rightarrow> Evidence" where
  "scanEvidence row = row\<lparr>en_Metadata := json_decoded_members (en_Metadata row)\<rparr>"

definition evidence_at :: "uuid \<Rightarrow> uuid \<Rightarrow> Evidence \<Rightarrow> bool" where
  "evidence_at orgID i e \<longleftrightarrow> en_OrganizationID e = orgID \<and> en_ID e = i"

definition evidence_FindByID :: "uuid \<Rightarrow> uuid \<Rightarrow> 's evidence_db_scheme \<Rightarrow> go_error + Evidence" where
  "evidence_FindByID orgID i s =
     map_sum id scanEvidence (row_or dErrEvidenceNotFound (filter (evidence_at orgID i) (evidence_rows s)))"

definition evidence_page :: "int \<Rightarrow> int \<Rightarrow> Evidence list \<Rightarrow> go_error + Evidence list" where
  "evidence_page limit offset rows = (case limit_offset limit offset (sort_key (\<lambda>e. - en_CreatedAt e) rows) of
     Inl e \<Rightarrow> Inl (Wrap ''failed to query evidence'' e)
   | Inr page \<Rightarrow> Inr (map scanEvidence page))"

definition of_request :: "uuid \<Rightarrow> uuid \<Rightarrow> 's evidence_db_scheme \<Rightarrow> Evidence list" where
  "of_request orgID serviceRequestID s =
     filter (\<lambda>e. en_OrganizationID e = orgID \<and> en_ServiceRequestID e = serviceRequestID) (evidence_rows s)"

definition evidence_FindByServiceRequest :: "uuid \<Rightarrow> uuid \<Rightarrow> int \<Rightarrow> int \<Rightarrow> 's evidence_db_scheme \<Rightarrow> go_error + Evidence list" where
  "evidence_FindByServiceRequest orgID serviceRequestID limit offset s =
     evidence_page limit offset (of_request orgID serviceRequestID s)"

definition CountByServiceRequest :: "uuid \<Rightarrow> uuid \<Rightarrow> 's evidence_db_scheme \<Rightarrow> nat" where
  "CountByServiceRequest orgID serviceRequestID s = length (of_request orgID serviceRequestID s)"

definition evidence_FindByOrganization :: "uuid \<Rightarrow> int \<Rightarrow> int \<Rightarrow> 's evidence_db_scheme \<Rightarrow> go_error + Evidence list" where
  "evidence_FindByOrganization orgID limit offset s =
     evidence_page limit offset (filter (\<lambda>e. en_OrganizationID e = orgID) (evidence_rows s))"

subsection \<open>Verification\<close>

definition vr_row :: "VerificationRecord \<Rightarrow> VerificationRecord" where
  "vr_row r = r\<lparr>vr_VerifiedAt := trunc_micros (vr_VerifiedAt r), vr_CreatedAt := trunc_micros (vr_CreatedAt r)\<rparr>"

definition saveVerificationHistory :: "VerificationRecord \<Rightarrow> ('s evidence_db_scheme, unit) tx" where
  "saveVerificationHistory rec = (\<lambda>s.
     let msg = ''failed to insert verification history'' in
     if \<not> isValidVerificationStatus (vr_Status rec) then (Inl (Wrap msg (SqlConstraint ''valid_history_status'')), s)
     else if vr_ID rec \<in> vr_ID ` set (verification_history s)
       then (Inl (unique_violation msg ''evidence_verification_history_pkey''), s)
     else if vr_EvidenceID rec \<notin> en_ID ` set (evidence_rows s)
       then (Inl (Wrap msg (SqlConstraint ''evidence_verification_history_evidence_id_fkey'')), s)
     else (Inr (), s\<lparr>verification_history := verification_history s @ [vr_row rec]\<rparr>))"

definition verified_fields :: "Evidence \<Rightarrow> Evidence \<Rightarrow> Evidence" where
  "verified_fields e r = r\<lparr>en_Status := en_Status e, VerifiedBy := VerifiedBy e,
     VerifiedAt := map_option trunc_micros (VerifiedAt e), VerificationReason := VerificationReason e,
     VerificationMethod := VerificationMethod e\<rparr>"

definition history_record :: "ctx \<Rightarrow> Evidence \<Rightarrow> VerificationRecord" where
  "history_record c e = \<lparr>vr_ID = ctx_uuid c 0, vr_EvidenceID = en_ID e, vr_OrganizationID = en_OrganizationID e,
     vr_Status = en_Status e, vr_VerifierID = VerifiedBy e,
     vr_VerifiedAt = (case VerifiedAt e of None \<Rightarrow> zero_time | Some t \<Rightarrow> t), vr_Reason = VerificationReason e,
     vr_Method = VerificationMethod e, vr_Notes = [], vr_CreatedAt = ctx_time c 0\<rparr>"

text \<open>The row is read under its lock, so the row that is checked is the row that is updated.\<close>

definition UpdateVerificationTx :: "ctx \<Rightarrow> Evidence \<Rightarrow> ('s evidence_db_scheme, unit) tx" where
  "UpdateVerificationTx c e =
     tx_bind (\<lambda>s. (evidence_FindByID (en_OrganizationID e) (en_ID e) s, s)) (\<lambda>current.
     tx_seq (tx_guard (IsValidVerificationTransition (en_Status current) (en_Status e))
               (Wrap ''invalid verification transition'' ErrVerificationInvalid))
    (tx_seq (tx_guard (isValidVerificationStatus (en_Status e))
               (Wrap ''failed to update evidence verification'' (SqlConstraint ''valid_verification_status'')))
    (tx_seq (tx_modify (\<lambda>s. s\<lparr>evidence_rows := update_where (evidence_at (en_OrganizationID e) (en_ID e))
               (verified_fields e) (evidence_rows s)\<rparr>))
      (tx_map_error (Wrap ''failed to save verification history'')
        (saveVerificationHistory (history_record c e))))))"

text \<open>
  The deferred function commits whatever the update returned; what a failing statement leaves of
  a PostgreSQL transaction is nothing.
\<close>

definition UpdateVerification :: "ctx \<Rightarrow> Evidence \<Rightarrow> ('s evidence_db_scheme, unit) tx" where
  "UpdateVerification c e = InTransaction (UpdateVerificationTx c e)"

definition verifications_of :: "uuid \<Rightarrow> uuid \<Rightarrow> 's evidence_db_scheme \<Rightarrow> VerificationRecord list" where
  "verifications_of orgID evidenceID s =
     filter (\<lambda>r. vr_OrganizationID r = orgID \<and> vr_EvidenceID r = evidenceID) (verification_history s)"

definition FindVerificationHistory :: "uuid \<Rightarrow> uuid \<Rightarrow> int \<Rightarrow> int \<Rightarrow> 's evidence_db_scheme
    \<Rightarrow> go_error + VerificationRecord list" where
  "FindVerificationHistory orgID evidenceID limit offset s =
     map_sum (Wrap ''failed to query verification history'') id
       (limit_offset limit offset (sort_key vr_VerifiedAt (verifications_of orgID evidenceID s)))"

definition CountVerificationHistory :: "uuid \<Rightarrow> uuid \<Rightarrow> 's evidence_db_scheme \<Rightarrow> nat" where
  "CountVerificationHistory orgID evidenceID s = length (verifications_of orgID evidenceID s)"

subsection \<open>Documents\<close>

definition doc_row :: "Document \<Rightarrow> Document" where
  "doc_row d = d\<lparr>doc_UploadedAt := trunc_micros (doc_UploadedAt d), doc_CreatedAt := trunc_micros (doc_CreatedAt d)\<rparr>"

definition SaveDocumentTx :: "Document \<Rightarrow> ('s evidence_db_scheme, unit) tx" where
  "SaveDocumentTx d = (\<lambda>s.
     let msg = ''failed to insert evidence document'' in
     if \<not> isValidStorageProvider (doc_StorageProvider d) then (Inl (Wrap msg (SqlConstraint ''valid_storage_provider'')), s)
     else if doc_ContentType d \<notin> set AllowedContentTypes then (Inl (Wrap msg (SqlConstraint ''valid_content_type'')), s)
     else if doc_ID d \<in> doc_ID ` set (evidence_documents s) then (Inl (unique_violation msg ''evidence_documents_pkey''), s)
     else if doc_StorageKey d \<in> doc_StorageKey ` set (evidence_documents s)
       then (Inl (unique_violation msg ''idx_evidence_docs_storage_key''), s)
     else if doc_EvidenceID d \<notin> en_ID ` set (evidence_rows s)
       then (Inl (Wrap msg (SqlConstraint ''evidence_documents_evidence_id_fkey'')), s)
     else (Inr (), s\<lparr>evidence_documents := evidence_documents s @ [doc_row d]\<rparr>))"

definition document_at :: "uuid \<Rightarrow> uuid \<Rightarrow> Document \<Rightarrow> bool" where
  "document_at orgID i d \<longleftrightarrow> doc_OrganizationID d = orgID \<and> doc_ID d = i"

definition FindDocumentByID :: "uuid \<Rightarrow> uuid \<Rightarrow> 's evidence_db_scheme \<Rightarrow> go_error + Document" where
  "FindDocumentByID orgID i s = row_or ErrDocumentNotFound (filter (document_at orgID i) (evidence_documents s))"

definition documents_of :: "uuid \<Rightarrow> uuid \<Rightarrow> 's evidence_db_scheme \<Rightarrow> Document list" where
  "documents_of orgID evidenceID s =
     filter (\<lambda>d. doc_OrganizationID d = orgID \<and> doc_EvidenceID d = evidenceID) (evidence_documents s)"

definition newest_documents :: "Document list \<Rightarrow> Document list" where
  "newest_documents rows = sort_key (\<lambda>d. - doc_CreatedAt d) rows"

definition FindDocumentByEvidence :: "uuid \<Rightarrow> uuid \<Rightarrow> 's evidence_db_scheme \<Rightarrow> go_error + Document" where
  "FindDocumentByEvidence orgID evidenceID s =
     row_or ErrDocumentNotFound (newest_documents (documents_of orgID evidenceID s))"

definition CountDocuments :: "uuid \<Rightarrow> 's evidence_db_scheme \<Rightarrow> nat" where
  "CountDocuments orgID s = length (filter (\<lambda>d. doc_OrganizationID d = orgID) (evidence_documents s))"

definition repo_ListDocuments :: "uuid \<Rightarrow> uuid \<Rightarrow> int \<Rightarrow> int \<Rightarrow> 's evidence_db_scheme \<Rightarrow> go_error + Document list \<times> nat" where
  "repo_ListDocuments orgID evidenceID limit offset s =
     (case limit_offset limit offset (newest_documents (documents_of orgID evidenceID s)) of
        Inl e \<Rightarrow> Inl (Wrap ''failed to list documents'' e)
      | Inr page \<Rightarrow> Inr (page, length (documents_of orgID evidenceID s)))"

definition repo_DeleteDocument :: "uuid \<Rightarrow> uuid \<Rightarrow> ('s evidence_db_scheme, unit) tx" where
  "repo_DeleteDocument orgID i = (\<lambda>s.
     if affected (document_at orgID i) (evidence_documents s) = 0 then (Inl ErrDocumentNotFound, s)
     else (Inr (), s\<lparr>evidence_documents := filter (\<lambda>d. \<not> document_at orgID i d) (evidence_documents s)\<rparr>))"

end
