(* ===== verification/Evidence_Service.thy ===== *)
theory Evidence_Service
  imports Evidence_Store Rule_Service Case_Service
begin

section \<open>The evidence service\<close>

text \<open>
  internal/evidence/application/service.go. The collaborators of an EvidenceService are the
  fields of a record: the user checker, the two methods of the auditor (inside a transaction and
  outside), the storage, and which people exist. Reads through the connection pool see the
  committed store. The operations on documents act on the database and on the files: a
  transaction covers the first only.
\<close>

definition evidence_app :: "string \<Rightarrow> go_error" where
  "evidence_app m = Err (''evidence/application: '' @ m)"

abbreviation (input) "ErrEvidenceNotFound \<equiv> evidence_app ''evidence not found''"
abbreviation (input) "ErrEvidenceInput \<equiv> evidence_app ''invalid evidence input''"
abbreviation (input) "eErrCaseNotFound \<equiv> evidence_app ''case not found''"
abbreviation (input) "ErrCaseClosed \<equiv> evidence_app ''case is closed''"
abbreviation (input) "eErrUserNotFound \<equiv> evidence_app ''user not found''"
abbreviation (input) "ErrVerifierNotFound \<equiv> evidence_app ''verifier not found''"

record 's EvidenceService =
  evidenceUsers :: "uuid \<Rightarrow> uuid \<Rightarrow> go_error + bool"
  evidenceAuditor :: "'s auditor"
  evidenceRecorder :: "'s auditor"
  evidenceStorage :: LocalStorageProvider
  knownPerson :: "uuid \<Rightarrow> bool"

definition evidence_audit :: "'s evidence_db_scheme EvidenceService \<Rightarrow> ctx \<Rightarrow> uuid \<Rightarrow> uuid \<Rightarrow> string \<Rightarrow> string \<Rightarrow> uuid
    \<Rightarrow> (string \<times> goval) list \<Rightarrow> ('s evidence_db_scheme, unit) tx" where
  "evidence_audit svc c orgID actorID action resource i meta =
     RecordAuditEventInTx (evidenceAuditor svc) (audit_params c orgID actorID action resource i meta)"

text \<open>The user checker, with the message for its failure and the error for an outsider.\<close>

definition user_check :: "(uuid \<Rightarrow> uuid \<Rightarrow> go_error + bool) \<Rightarrow> string \<Rightarrow> go_error \<Rightarrow> uuid \<Rightarrow> uuid \<Rightarrow> ('s, unit) tx" where
  "user_check users msg e orgID userID =
     tx_bind (tx_read (Wrap msg) (users orgID userID)) (\<lambda>valid. tx_guard valid e)"

subsection \<open>Adding and reading evidence\<close>

record AddEvidenceParams =
  ad_OrganizationID :: uuid
  ad_ServiceRequestID :: uuid
  ad_Type :: EvidenceType
  ad_CustomType :: string
  ad_Description :: string
  ad_StorageReference :: string
  ad_UploadedBy :: uuid
  ad_PersonID :: "uuid option"
  ad_Source :: EvidenceSource
  ad_Metadata :: facts

definition evidence_params :: "AddEvidenceParams \<Rightarrow> EvidenceParams" where
  "evidence_params p = \<lparr>nev_OrganizationID = ad_OrganizationID p, nev_ServiceRequestID = ad_ServiceRequestID p,
     nev_Type = ad_Type p, nev_CustomType = ad_CustomType p, nev_Description = ad_Description p,
     nev_StorageReference = ad_StorageReference p, nev_UploadedBy = ad_UploadedBy p, nev_PersonID = ad_PersonID p,
     nev_Source = ad_Source p, nev_Metadata = ad_Metadata p\<rparr>"

definition AddEvidence :: "(rat \<Rightarrow> string) \<Rightarrow> 's evidence_db_scheme EvidenceService \<Rightarrow> ctx \<Rightarrow> 's evidence_db_scheme
    \<Rightarrow> AddEvidenceParams \<Rightarrow> ('s evidence_db_scheme, Evidence) tx" where
  "AddEvidence ft svc c committed p =
     tx_bind (tx_read (instead eErrCaseNotFound)
        (case_FindByID (ad_OrganizationID p) (ad_ServiceRequestID p) committed)) (\<lambda>cs.
     tx_seq (tx_guard (cs_OrganizationID cs = ad_OrganizationID p) eErrCaseNotFound)
    (tx_seq (tx_guard (\<not> IsClosed (cs_Status cs)) ErrCaseClosed)
    (tx_seq (user_check (evidenceUsers svc) ''failed to validate uploader'' eErrUserNotFound
        (ad_OrganizationID p) (ad_UploadedBy p))
    (tx_bind (tx_read (instead ErrEvidenceInput) (NewEvidence ft c (evidence_params p))) (\<lambda>e.
     InTransaction
       (tx_seq (tx_map_error (Wrap ''failed to save evidence'') (saveEvidence (knownPerson svc) e))
       (tx_seq (evidence_audit svc c (en_OrganizationID e) (ad_UploadedBy p) ''evidence.added'' ''evidence'' (en_ID e)
                  [(''service_request_id'', GString (uuid_string (en_ServiceRequestID e))),
                   (''evidence_type'', GString (evidence_type_string (en_Type e))),
                   (''source'', GString (evidence_source_string (en_Source e)))])
         (tx_return e))))))))"

definition GetEvidence :: "uuid \<Rightarrow> uuid \<Rightarrow> 's evidence_db_scheme \<Rightarrow> go_error + Evidence" where
  "GetEvidence orgID i s = map_sum (\<lambda>_. ErrEvidenceNotFound) id (evidence_FindByID orgID i s)"

definition document_page :: "int \<Rightarrow> int" where
  "document_page limit = (if limit \<le> 0 then 50 else min limit 200)"

definition page_start :: "int \<Rightarrow> int" where
  "page_start offset = max offset 0"

definition ListEvidence :: "uuid \<Rightarrow> uuid \<Rightarrow> int \<Rightarrow> int \<Rightarrow> 's evidence_db_scheme \<Rightarrow> go_error + Evidence list \<times> nat" where
  "ListEvidence orgID serviceRequestID limit offset s =
     (case evidence_FindByServiceRequest orgID serviceRequestID (clamp_page limit) (page_start offset) s of
        Inl e \<Rightarrow> Inl (Wrap ''failed to list evidence'' e)
      | Inr items \<Rightarrow> Inr (items, CountByServiceRequest orgID serviceRequestID s))"

subsection \<open>Verification\<close>

record VerifyEvidenceParams =
  ve_OrganizationID :: uuid
  ve_EvidenceID :: uuid
  ve_VerifierID :: uuid
  ve_Reason :: string
  ve_Method :: string

definition applyVerification :: "'s evidence_db_scheme EvidenceService \<Rightarrow> ctx \<Rightarrow> 's evidence_db_scheme \<Rightarrow> uuid \<Rightarrow> uuid \<Rightarrow> uuid
    \<Rightarrow> (Evidence \<Rightarrow> go_error + Evidence \<times> VerificationRecord) \<Rightarrow> string \<Rightarrow> VerifyEvidenceParams
    \<Rightarrow> ('s evidence_db_scheme, Evidence \<times> VerificationRecord) tx" where
  "applyVerification svc c committed evidenceID orgID actorID verifyFn auditAction p =
     tx_seq (tx_guard (actorID \<noteq> uuid_nil) (Wrap ''verifier ID is required'' ErrEvidenceInput))
    (tx_seq (user_check (evidenceUsers svc) ''failed to validate verifier'' ErrVerifierNotFound orgID actorID)
    (tx_bind (tx_read (\<lambda>_. ErrEvidenceNotFound) (evidence_FindByID orgID evidenceID committed)) (\<lambda>found.
     tx_bind (tx_read (instead ErrEvidenceInput) (verifyFn found)) (\<lambda>(e, rec).
     InTransaction
       (tx_seq (tx_map_error (Wrap ''failed to update verification'') (UpdateVerificationTx (later_ctx 1 c) e))
       (tx_seq (tx_map_error (Wrap ''failed to save verification history'') (saveVerificationHistory rec))
       (tx_seq (evidence_audit svc c orgID actorID auditAction ''evidence'' (en_ID e)
                  [(''service_request_id'', GString (uuid_string (en_ServiceRequestID e))),
                   (''verification_status'', GString (verification_string (en_Status e))),
                   (''reason'', GString (ve_Reason p)), (''method'', GString (ve_Method p))])
         (tx_return (e, rec)))))))))"

definition VerifyEvidence :: "'s evidence_db_scheme EvidenceService \<Rightarrow> ctx \<Rightarrow> 's evidence_db_scheme \<Rightarrow> VerifyEvidenceParams
    \<Rightarrow> ('s evidence_db_scheme, Evidence \<times> VerificationRecord) tx" where
  "VerifyEvidence svc c committed p =
     applyVerification svc c committed (ve_EvidenceID p) (ve_OrganizationID p) (ve_VerifierID p)
       (\<lambda>e. evidence_Verify c e (ve_VerifierID p) (ve_Reason p) (ve_Method p)) ''evidence.verified'' p"

definition RejectEvidence :: "'s evidence_db_scheme EvidenceService \<Rightarrow> ctx \<Rightarrow> 's evidence_db_scheme \<Rightarrow> VerifyEvidenceParams
    \<Rightarrow> ('s evidence_db_scheme, Evidence \<times> VerificationRecord) tx" where
  "RejectEvidence svc c committed p =
     applyVerification svc c committed (ve_EvidenceID p) (ve_OrganizationID p) (ve_VerifierID p)
       (\<lambda>e. evidence_Reject c e (ve_VerifierID p) (ve_Reason p) (ve_Method p)) ''evidence.rejected'' p"

definition MarkEvidenceForReview :: "'s evidence_db_scheme EvidenceService \<Rightarrow> ctx \<Rightarrow> 's evidence_db_scheme
    \<Rightarrow> VerifyEvidenceParams \<Rightarrow> ('s evidence_db_scheme, Evidence \<times> VerificationRecord) tx" where
  "MarkEvidenceForReview svc c committed p =
     applyVerification svc c committed (ve_EvidenceID p) (ve_OrganizationID p) (ve_VerifierID p)
       (\<lambda>e. evidence_MarkForReview c e (ve_VerifierID p) (ve_Reason p) (ve_Method p)) ''evidence.needs_review'' p"

record UpdateEvidenceMetadataParams =
  um_OrganizationID :: uuid
  um_EvidenceID :: uuid
  um_Metadata :: facts
  um_ActorID :: uuid

text \<open>The changed evidence is saved with the INSERT of SaveTx.\<close>

definition UpdateEvidenceMetadata :: "(rat \<Rightarrow> string) \<Rightarrow> 's evidence_db_scheme EvidenceService \<Rightarrow> ctx \<Rightarrow> 's evidence_db_scheme
    \<Rightarrow> UpdateEvidenceMetadataParams \<Rightarrow> ('s evidence_db_scheme, Evidence) tx" where
  "UpdateEvidenceMetadata ft svc c committed p =
     tx_seq (tx_guard (um_ActorID p \<noteq> uuid_nil) (Wrap ''actor ID is required'' ErrEvidenceInput))
    (tx_seq (user_check (evidenceUsers svc) ''failed to validate actor'' eErrUserNotFound (um_OrganizationID p) (um_ActorID p))
    (tx_bind (tx_read (\<lambda>_. ErrEvidenceNotFound) (evidence_FindByID (um_OrganizationID p) (um_EvidenceID p) committed)) (\<lambda>found.
     tx_bind (tx_read (instead ErrEvidenceInput) (evidence_UpdateMetadata ft found (um_ActorID p) (um_Metadata p))) (\<lambda>e.
     InTransaction
       (tx_seq (tx_map_error (Wrap ''failed to update evidence'') (saveEvidence (knownPerson svc) e))
       (tx_seq (evidence_audit svc c (en_OrganizationID e) (um_ActorID p) ''evidence.metadata_updated'' ''evidence'' (en_ID e)
                  [(''service_request_id'', GString (uuid_string (en_ServiceRequestID e)))])
         (tx_return e)))))))"

definition ListVerificationHistory :: "uuid \<Rightarrow> uuid \<Rightarrow> int \<Rightarrow> int \<Rightarrow> 's evidence_db_scheme
    \<Rightarrow> go_error + VerificationRecord list \<times> nat" where
  "ListVerificationHistory orgID evidenceID limit offset s =
     (case FindVerificationHistory orgID evidenceID (clamp_page limit) (page_start offset) s of
        Inl e \<Rightarrow> Inl (Wrap ''failed to list verification history'' e)
      | Inr items \<Rightarrow> Inr (items, CountVerificationHistory orgID evidenceID s))"

subsection \<open>Documents\<close>

text \<open>What acts on the database, or on the files, acts on the pair of both.\<close>

definition on_db :: "('s, 'a) tx \<Rightarrow> ('s \<times> files, 'a) tx" where
  "on_db m = (\<lambda>(s, f). case m s of (r, s') \<Rightarrow> (r, (s', f)))"

definition on_files :: "(files, 'a) tx \<Rightarrow> ('s \<times> files, 'a) tx" where
  "on_files m = (\<lambda>(s, f). case m f of (r, f') \<Rightarrow> (r, (s, f')))"

text \<open>An error after which something is undone, whether or not the undoing succeeds.\<close>

definition tx_or_undo :: "('s, 'b) tx \<Rightarrow> ('s, 'a) tx \<Rightarrow> ('s, 'a) tx" where
  "tx_or_undo undo m = (\<lambda>s. case m s of
     (Inl e, s') \<Rightarrow> (Inl e, snd (undo s'))
   | (Inr a, s') \<Rightarrow> (Inr a, s'))"

text \<open>\<^verbatim>\<open>_ = f()\<close>\<close>

definition tx_ignore :: "('s, 'a) tx \<Rightarrow> ('s, unit) tx" where
  "tx_ignore m = (\<lambda>s. (Inr (), snd (m s)))"

record UploadDocumentParams =
  up_OrganizationID :: uuid
  up_EvidenceID :: uuid
  up_FileName :: string
  up_ContentType :: string
  up_Size :: int
  up_Reader :: reader
  up_UploadedBy :: uuid

record UploadDocumentResult =
  upr_Document :: Document
  upr_StorageKey :: string
  upr_Checksum :: string

definition document_facts :: "uuid \<Rightarrow> string \<Rightarrow> string \<Rightarrow> int \<Rightarrow> string \<Rightarrow> facts" where
  "document_facts evidenceID fileName contentType sizeBytes checksum =
     [(''evidence_id'', GString (uuid_string evidenceID)), (''file_name'', GString fileName),
      (''content_type'', GString contentType), (''size_bytes'', GInt sizeBytes), (''checksum'', GString checksum)]"

definition document_params :: "UploadDocumentParams \<Rightarrow> string \<Rightarrow> string \<Rightarrow> StorageMetadata \<Rightarrow> string \<Rightarrow> DocumentParams" where
  "document_params p name contentType metadata key =
     \<lparr>dp_OrganizationID = up_OrganizationID p, dp_EvidenceID = up_EvidenceID p, dp_FileName = name,
      dp_ContentType = contentType, dp_SizeBytes = sm_SizeBytes metadata, dp_Checksum = sm_Checksum metadata,
      dp_StorageKey = key, dp_StorageProv = StorageProviderLocal, dp_UploadedBy = up_UploadedBy p\<rparr>"

definition save_document :: "'s evidence_db_scheme EvidenceService \<Rightarrow> ctx \<Rightarrow> UploadDocumentParams \<Rightarrow> StorageMetadata \<Rightarrow> Document
    \<Rightarrow> ('s evidence_db_scheme, UploadDocumentResult) tx" where
  "save_document svc c p metadata doc = InTransaction
     (tx_seq (tx_map_error (Wrap ''failed to save document metadata'') (SaveDocumentTx doc))
     (tx_seq (evidence_audit svc c (up_OrganizationID p) (up_UploadedBy p) ''evidence.document_uploaded'' ''evidence_document''
                (doc_ID doc)
                (document_facts (up_EvidenceID p) (doc_FileName doc) (doc_ContentType doc) (sm_SizeBytes metadata) (sm_Checksum metadata)))
       (tx_return \<lparr>upr_Document = doc, upr_StorageKey = doc_StorageKey doc, upr_Checksum = sm_Checksum metadata\<rparr>)))"

text \<open>What an upload does once the file is stored: the checks, the document, its row.\<close>

definition register_upload :: "(string \<Rightarrow> string) \<Rightarrow> 's evidence_db_scheme EvidenceService \<Rightarrow> ctx \<Rightarrow> UploadDocumentParams \<Rightarrow> string
    \<Rightarrow> StorageMetadata \<Rightarrow> ('s evidence_db_scheme \<times> files, UploadDocumentResult) tx" where
  "register_upload lower svc c p key metadata =
     tx_seq (tx_guard (sm_SizeBytes metadata = up_Size p) (Wrap ''size mismatch'' ErrEvidenceInput))
    (tx_bind (tx_read (Join ErrEvidenceInput) (ValidateContentType lower (up_ContentType p))) (\<lambda>contentType.
     tx_bind (tx_read (Join ErrEvidenceInput) (SanitizeFileName (up_FileName p))) (\<lambda>name.
     tx_bind (tx_read (instead ErrEvidenceInput)
        (NewDocument (later_ctx 1 c) (document_params p name contentType metadata key))) (\<lambda>doc.
     on_db (save_document svc c p metadata doc)))))"

definition upload_key :: "ctx \<Rightarrow> UploadDocumentParams \<Rightarrow> string" where
  "upload_key c p = GenerateStorageKey (ctx_time c 0) (up_EvidenceID p) (up_FileName p)"

text \<open>
  Every error after the file is stored deletes the file. The whole request is one step on the
  database and the files: other requests that come between the file and the row of the same upload
  are not represented.
\<close>

definition UploadDocument :: "(string \<Rightarrow> string) \<Rightarrow> 's evidence_db_scheme EvidenceService \<Rightarrow> ctx \<Rightarrow> 's evidence_db_scheme
    \<Rightarrow> UploadDocumentParams \<Rightarrow> ('s evidence_db_scheme \<times> files, UploadDocumentResult) tx" where
  "UploadDocument lower svc c committed p =
     tx_seq (tx_check id (first_error
        [unless (up_UploadedBy p \<noteq> uuid_nil) (Wrap ''uploaded_by is required'' ErrEvidenceInput),
         unless (up_EvidenceID p \<noteq> uuid_nil) (Wrap ''evidence ID is required'' ErrEvidenceInput),
         unless (up_FileName p \<noteq> []) (Wrap ''file name is required'' ErrEvidenceInput),
         unless (0 < up_Size p) (Wrap ''file size must be positive'' ErrEvidenceInput)]))
    (tx_seq (user_check (evidenceUsers svc) ''failed to validate uploader'' eErrUserNotFound (up_OrganizationID p) (up_UploadedBy p))
    (tx_bind (tx_read (\<lambda>_. ErrEvidenceNotFound) (evidence_FindByID (up_OrganizationID p) (up_EvidenceID p) committed)) (\<lambda>_.
     tx_bind (tx_map_error (Wrap ''failed to store file'')
        (on_files (local_Store (evidenceStorage svc) (upload_key c p) (up_Reader p) (up_Size p)))) (\<lambda>metadata.
     tx_or_undo (on_files (local_Delete (evidenceStorage svc) (upload_key c p)))
       (register_upload lower svc c p (upload_key c p) metadata)))))"

record DownloadDocumentResult =
  dl_Document :: Document
  dl_Content :: string
  dl_ContentType :: string
  dl_FileName :: string

definition document_event :: "ctx \<Rightarrow> uuid \<Rightarrow> uuid \<Rightarrow> string \<Rightarrow> Document \<Rightarrow> RecordEventParams" where
  "document_event c orgID actorID action d = audit_params c orgID actorID action ''evidence_document'' (doc_ID d)
     (document_facts (doc_EvidenceID d) (doc_FileName d) (doc_ContentType d) (doc_SizeBytes d) (doc_Checksum d))"

text \<open>The event of a download is recorded outside any transaction and may fail.\<close>

definition GetDocumentStream :: "'s evidence_db_scheme EvidenceService \<Rightarrow> ctx \<Rightarrow> 's evidence_db_scheme \<Rightarrow> uuid \<Rightarrow> uuid \<Rightarrow> uuid \<Rightarrow> uuid
    \<Rightarrow> ('s evidence_db_scheme \<times> files, DownloadDocumentResult) tx" where
  "GetDocumentStream svc c committed orgID evidenceID documentID downloaderID =
     tx_seq (tx_guard (downloaderID \<noteq> uuid_nil) (Wrap ''downloader ID is required'' ErrEvidenceInput))
    (tx_seq (user_check (evidenceUsers svc) ''failed to validate downloader'' eErrUserNotFound orgID downloaderID)
    (tx_bind (tx_read (\<lambda>_. ErrEvidenceNotFound) (evidence_FindByID orgID evidenceID committed)) (\<lambda>_.
     tx_bind (tx_read (\<lambda>_. ErrDocumentNotFound) (FindDocumentByID orgID documentID committed)) (\<lambda>doc.
     tx_seq (tx_guard (doc_EvidenceID doc = evidenceID) ErrDocumentNotFound)
    (tx_bind (tx_map_error (Wrap ''failed to retrieve file'')
        (on_files (\<lambda>f. (local_Retrieve (evidenceStorage svc) (doc_StorageKey doc) f, f)))) (\<lambda>content.
     tx_seq (tx_ignore (on_db (RecordAuditEventInTx (evidenceRecorder svc)
        (document_event c orgID downloaderID ''evidence.document_downloaded'' doc))))
       (tx_return \<lparr>dl_Document = doc, dl_Content = content, dl_ContentType = doc_ContentType doc,
          dl_FileName = doc_FileName doc\<rparr>)))))))"

definition ListDocuments :: "'s evidence_db_scheme EvidenceService \<Rightarrow> uuid \<Rightarrow> uuid \<Rightarrow> uuid \<Rightarrow> int \<Rightarrow> int \<Rightarrow> 's evidence_db_scheme
    \<Rightarrow> go_error + Document list \<times> nat" where
  "ListDocuments svc orgID evidenceID downloaderID limit offset s = fst
    (tx_seq (tx_guard (downloaderID \<noteq> uuid_nil) (Wrap ''downloader ID is required'' ErrEvidenceInput))
    (tx_seq (user_check (evidenceUsers svc) ''failed to validate downloader'' eErrUserNotFound orgID downloaderID)
    (tx_bind (tx_read (\<lambda>_. ErrEvidenceNotFound) (evidence_FindByID orgID evidenceID s)) (\<lambda>_.
     tx_read (Wrap ''failed to list documents'')
       (repo_ListDocuments orgID evidenceID (document_page limit) (page_start offset) s)))) s)"

text \<open>The file goes before the row; neither waits for the other.\<close>

definition DeleteDocument :: "'s evidence_db_scheme EvidenceService \<Rightarrow> ctx \<Rightarrow> 's evidence_db_scheme \<Rightarrow> uuid \<Rightarrow> uuid \<Rightarrow> uuid
    \<Rightarrow> ('s evidence_db_scheme \<times> files, unit) tx" where
  "DeleteDocument svc c committed orgID documentID deletedBy =
     tx_seq (tx_guard (deletedBy \<noteq> uuid_nil) (Wrap ''deleted_by is required'' ErrEvidenceInput))
    (tx_seq (user_check (evidenceUsers svc) ''failed to validate deleter'' eErrUserNotFound orgID deletedBy)
    (tx_bind (tx_read (\<lambda>_. ErrDocumentNotFound) (FindDocumentByID orgID documentID committed)) (\<lambda>doc.
     tx_seq (tx_map_error (Wrap ''failed to delete file from storage'')
        (on_files (local_Delete (evidenceStorage svc) (doc_StorageKey doc))))
    (tx_seq (tx_map_error (Wrap ''failed to delete document metadata'')
        (on_db (repo_DeleteDocument orgID documentID)))
       (tx_ignore (on_db (RecordAuditEventInTx (evidenceRecorder svc)
          (document_event c orgID deletedBy ''evidence.document_deleted'' doc))))))))"

end
