(* ===== verification/Evidence_Paths.thy ===== *)
theory Evidence_Paths
  imports Evidence_Storage
begin

section \<open>Where files are kept\<close>

text \<open>
  filepath.Clean on absolute paths: its result is a list of proper elements below the root, and
  joining the storage directory with a generated storage key appends the elements of the key.
  So the files of different keys are different, and no key leads out of the directory.
\<close>

subsection \<open>Splitting and joining\<close>

lemma split_at_not_Nil [simp]: "split_at c s \<noteq> []"
  by (cases s) auto

lemma split_at_single: "c \<notin> set s \<Longrightarrow> split_at c s = [s]"
  by (induction s) auto

lemma split_at_append: "split_at c (a @ c # b) = split_at c a @ split_at c b"
  by (induction a) (auto simp: neq_Nil_conv)

lemma split_at_elements: "e \<in> set (split_at c s) \<Longrightarrow> c \<notin> set e"
proof (induction s arbitrary: e)
  case (Cons x s)
  then show ?case by (cases "split_at c s") (auto split: if_splits)
qed simp

lemma join_with_Cons: "xs \<noteq> [] \<Longrightarrow> join_with sep (x # xs) = x @ sep @ join_with sep xs"
  by (cases xs) auto

lemma join_split: "join_with [c] (split_at c s) = s"
proof (induction s)
  case (Cons x s)
  obtain e es where s: "split_at c s = e # es" by (meson split_at_not_Nil neq_Nil_conv)
  then show ?case using Cons by (cases es) (auto simp: join_with_Cons)
qed simp

lemma split_join: "es \<noteq> [] \<Longrightarrow> (\<And>e. e \<in> set es \<Longrightarrow> c \<notin> set e) \<Longrightarrow> split_at c (join_with [c] es) = es"
proof (induction es rule: induct_list012)
  case (3 x y zs)
  then have "split_at c (join_with [c] (y # zs)) = y # zs" "split_at c x = [x]" by (simp_all add: split_at_single)
  then show ?case by (simp add: split_at_append)
qed (simp_all add: split_at_single)

lemma join_append: "xs \<noteq> [] \<Longrightarrow> ys \<noteq> [] \<Longrightarrow> join_with sep (xs @ ys) = join_with sep xs @ sep @ join_with sep ys"
proof (induction xs)
  case (Cons x xs)
  then show ?case by (cases "xs = []") (simp_all add: join_with_Cons)
qed simp

subsection \<open>Clean paths\<close>

definition proper_element :: "string \<Rightarrow> bool" where
  "proper_element e \<longleftrightarrow> e \<noteq> [] \<and> e \<noteq> ''.'' \<and> e \<noteq> ''..'' \<and> CHR ''/'' \<notin> set e"

definition proper :: "string list \<Rightarrow> bool" where
  "proper es \<longleftrightarrow> list_all proper_element es"

definition abs_path :: "string list \<Rightarrow> string" where
  "abs_path es = ''/'' @ join_with ''/'' es"

lemma proper_simps [simp]:
  "proper []" "proper (e # es) \<longleftrightarrow> proper_element e \<and> proper es" "proper (es @ fs) \<longleftrightarrow> proper es \<and> proper fs"
  "proper (rev es) \<longleftrightarrow> proper es"
  by (auto simp: proper_def)

lemma clean_elements_proper: "proper es \<Longrightarrow> clean_elements r out es = rev out @ es"
  by (induction r out es rule: clean_elements.induct) (simp_all add: proper_element_def)

lemma clean_elements_rooted: "proper out \<Longrightarrow> (\<And>e. e \<in> set es \<Longrightarrow> CHR ''/'' \<notin> set e) \<Longrightarrow> proper (clean_elements True out es)"
proof (induction "True" out es rule: clean_elements.induct)
  case (2 out e es)
  have "proper (tl out)" using "2.prems"(1) by (cases out) simp_all
  moreover have "hd out \<noteq> ''..''" if "out \<noteq> []" using that "2.prems"(1) by (cases out) (simp_all add: proper_element_def)
  moreover have "CHR ''/'' \<notin> set e" using "2.prems"(2) by simp
  ultimately show ?case using 2 by (simp add: proper_element_def)
qed simp

lemma rooted_Clean: "rooted_path path \<Longrightarrow> \<exists>es. proper es \<and> Clean path = abs_path es"
  by (rule exI [of _ "clean_elements True [] (split_at CHR ''/'' path)"])
    (simp add: Clean_def abs_path_def clean_elements_rooted split_at_elements)

lemma rooted_abs_path [simp]: "rooted_path (abs_path es)" "rooted_path (abs_path es @ s)"
  by (simp_all add: rooted_path_def abs_path_def)

lemma split_proper: "proper es \<Longrightarrow> es \<noteq> [] \<Longrightarrow> split_at CHR ''/'' (join_with ''/'' es) = es"
  by (rule split_join) (simp_all add: proper_def proper_element_def list_all_iff)

lemma split_abs_path: "proper es \<Longrightarrow> \<exists>pre. split_at CHR ''/'' (abs_path es) = pre @ es \<and> set pre \<subseteq> {[]}"
proof (cases "es = []")
  case True
  then show ?thesis by (intro exI [of _ "[[], []]"]) (simp add: abs_path_def)
next
  case False
  assume "proper es"
  then have "split_at CHR ''/'' (join_with ''/'' es) = es" by (rule split_proper [OF _ False])
  then show ?thesis by (intro exI [of _ "[[]]"]) (simp add: abs_path_def)
qed

lemma clean_elements_empty: "set pre \<subseteq> {[]} \<Longrightarrow> clean_elements r out (pre @ es) = clean_elements r out es"
  by (induction pre) auto

lemma Clean_abs_path: "proper es \<Longrightarrow> Clean (abs_path es) = abs_path es"
proof -
  assume "proper es"
  moreover from this obtain pre where "split_at CHR ''/'' (abs_path es) = pre @ es" "set pre \<subseteq> {[]}"
    using split_abs_path by blast
  ultimately have "clean_elements True [] (split_at CHR ''/'' (abs_path es)) = es"
    by (simp add: clean_elements_empty clean_elements_proper)
  then have "Clean (abs_path es) = ''/'' @ join_with ''/'' es" by (simp only: Clean_def rooted_abs_path Let_def if_True)
  then show ?thesis by (simp only: abs_path_def)
qed

lemma Join_abs_path:
  assumes "proper es" "proper (split_at CHR ''/'' key)"
  shows "filepath_Join (abs_path es) key = abs_path (es @ split_at CHR ''/'' key)"
proof -
  obtain pre where "split_at CHR ''/'' (abs_path es) = pre @ es" "set pre \<subseteq> {[]}"
    using split_abs_path [OF assms(1)] by blast
  then have "clean_elements True [] (split_at CHR ''/'' (abs_path es @ CHR ''/'' # key)) = es @ split_at CHR ''/'' key"
    using assms by (simp only: split_at_append append_assoc clean_elements_empty) (simp add: clean_elements_proper)
  then have "Clean (abs_path es @ CHR ''/'' # key) = abs_path (es @ split_at CHR ''/'' key)"
    by (simp only: Clean_def rooted_abs_path Let_def if_True) (simp only: abs_path_def)
  moreover have "abs_path es \<noteq> []" by (simp add: abs_path_def)
  ultimately show ?thesis by (simp add: filepath_Join_def)
qed

lemma abs_path_inj:
  assumes "proper es" "proper fs" "es \<noteq> []" "fs \<noteq> []" "abs_path es = abs_path fs" shows "es = fs"
proof -
  have "join_with ''/'' es = join_with ''/'' fs" using assms(5) by (simp add: abs_path_def)
  then show ?thesis using split_proper [OF assms(1,3)] split_proper [OF assms(2,4)] by (metis (no_types))
qed

lemma abs_path_extends: "\<exists>rest. abs_path (es @ fs) = abs_path es @ rest"
proof (cases "es = []")
  case True
  then show ?thesis by (simp add: abs_path_def)
next
  case False
  then show ?thesis by (cases "fs = []") (simp_all add: abs_path_def join_append)
qed

lemma abs_path_prefix: "take (length (abs_path es)) (abs_path (es @ fs)) = abs_path es"
  using abs_path_extends [of es fs] by (metis append_eq_conv_conj)

subsection \<open>Generated keys\<close>

lemma digits_no_slash: "CHR ''/'' \<notin> set (fixed_digits digit_char 10 w n)" "CHR ''/'' \<notin> set (fixed_digits hex_char 16 w n)"
proof -
  have d: "d < 10 \<Longrightarrow> digit_char d \<noteq> CHR ''/''" for d
  proof
    assume "d < 10" "digit_char d = CHR ''/''"
    then show False using of_char_digit_char [of d] by simp
  qed
  have h: "d < 16 \<Longrightarrow> hex_char d \<noteq> CHR ''/''" for d
  proof
    assume "d < 16" "hex_char d = CHR ''/''"
    then show False using of_char_hex_char [of d] by (simp split: if_splits)
  qed
  show "CHR ''/'' \<notin> set (fixed_digits digit_char 10 w n)" using d fixed_digits_set [of 10 _ digit_char w n] by (metis zero_less_numeral)
  show "CHR ''/'' \<notin> set (fixed_digits hex_char 16 w n)" using h fixed_digits_set [of 16 _ hex_char w n] by (metis zero_less_numeral)
qed

lemma uuid_no_slash: "CHR ''/'' \<notin> set (uuid_string u)"
  by (simp add: uuid_string_def digits_no_slash)

lemma Ext_no_slash: "CHR ''/'' \<notin> set (filepath_Ext name)"
proof -
  have "CHR ''/'' \<notin> set (after_last CHR ''/'' name)"
    unfolding after_last_def by (auto dest: set_takeWhileD)
  moreover have "set (after_last CHR ''.'' base) \<subseteq> set base" for base
    unfolding after_last_def by (auto dest: set_takeWhileD)
  ultimately show ?thesis by (auto simp: filepath_Ext_def Let_def)
qed

lemma slashed_date_parts:
  obtains y m d where "slashed_date t = y @ ''/'' @ m @ ''/'' @ d" "length y = 4" "length m = 2" "length d = 2"
    "CHR ''/'' \<notin> set y" "CHR ''/'' \<notin> set m" "CHR ''/'' \<notin> set d" "proper [y, m, d]"
proof -
  obtain a b k where date: "compact_date t = fixed_digits digit_char 10 4 a @ fixed_digits digit_char 10 2 b @ fixed_digits digit_char 10 2 k"
    by (auto simp: compact_date_def Let_def)
  let ?y = "fixed_digits digit_char 10 4 a" and ?m = "fixed_digits digit_char 10 2 b" and ?d = "fixed_digits digit_char 10 2 k"
  have "slashed_date t = ?y @ ''/'' @ ?m @ ''/'' @ ?d" by (simp add: slashed_date_def date del: fixed_digits.simps)
  moreover have "digit_char i \<noteq> CHR ''.''" if "i < 10" for i
  proof
    assume "digit_char i = CHR ''.''"
    then show False using of_char_digit_char [OF that] by simp
  qed
  then have "CHR ''.'' \<notin> set (fixed_digits digit_char 10 w n)" for w n
    using fixed_digits_set [of 10 "CHR ''.''" digit_char w n] by (metis zero_less_numeral)
  then have "proper_element (fixed_digits digit_char 10 (Suc w) n)" for w n
    using digits_no_slash(1) [of "Suc w" n]
    by (metis fixed_digits_length length_0_conv list.set_intros(1) nat.simps(3) proper_element_def)
  from this [of 3 a] this [of 1 b] this [of 1 k] have "proper [?y, ?m, ?d]"
    by (simp only: proper_simps eval_nat_numeral BitM.simps pred_numeral_simps One_nat_def) 
  ultimately show thesis
    by (intro that [of ?y ?m ?d]) (simp_all add: digits_no_slash del: fixed_digits.simps)
qed

lemma key_elements: "\<exists>y m d. split_at CHR ''/'' (GenerateStorageKey t i name) = [y, m, d, uuid_string i @ filepath_Ext name]
   \<and> proper [y, m, d, uuid_string i @ filepath_Ext name]"
proof -
  obtain y m d where date: "slashed_date t = y @ ''/'' @ m @ ''/'' @ d" and no: "CHR ''/'' \<notin> set y" "CHR ''/'' \<notin> set m" "CHR ''/'' \<notin> set d"
    and p: "proper [y, m, d]" by (rule slashed_date_parts)
  have last: "CHR ''/'' \<notin> set (uuid_string i @ filepath_Ext name)" using uuid_no_slash Ext_no_slash by simp
  moreover have "36 \<le> length (uuid_string i @ filepath_Ext name)" by (simp add: uuid_string_length)
  then have "uuid_string i @ filepath_Ext name \<notin> {[], ''.'', ''..''}" by (auto simp del: append_is_Nil_conv length_append)
  then have "proper_element (uuid_string i @ filepath_Ext name)" using last by (simp add: proper_element_def)
  moreover have "split_at CHR ''/'' (GenerateStorageKey t i name) = [y, m, d, uuid_string i @ filepath_Ext name]"
    using no last by (simp add: GenerateStorageKey_def date split_at_append split_at_single)
  ultimately show ?thesis using p by (intro exI [of _ y] exI [of _ m] exI [of _ d]) simp
qed

definition storage_key :: "string \<Rightarrow> bool" where
  "storage_key key \<longleftrightarrow> (\<exists>t i name. key = GenerateStorageKey t i name)"

lemma storage_key_proper: "storage_key key \<Longrightarrow> proper (split_at CHR ''/'' key)"
  using key_elements unfolding storage_key_def by metis

subsection \<open>The storage directory\<close>

definition storage_root :: "LocalStorageProvider \<Rightarrow> bool" where
  "storage_root p \<longleftrightarrow> (\<exists>es. proper es \<and> rootDir p = abs_path es)"

definition stored_at :: "LocalStorageProvider \<Rightarrow> string \<Rightarrow> string" where
  "stored_at p key = filepath_Join (rootDir p) key"

lemma storage_key_path:
  assumes "storage_root p" "storage_key key"
  shows "Clean (stored_at p key) = stored_at p key" "under_root p (stored_at p key)"
proof -
  obtain es where es: "proper es" "rootDir p = abs_path es" using assms(1) by (auto simp: storage_root_def)
  then have at: "stored_at p key = abs_path (es @ split_at CHR ''/'' key)"
    using Join_abs_path storage_key_proper [OF assms(2)] by (simp add: stored_at_def)
  then show "Clean (stored_at p key) = stored_at p key" using es storage_key_proper [OF assms(2)] by (simp add: Clean_abs_path)
  show "under_root p (stored_at p key)" unfolding under_root_def at es(2) by (rule abs_path_prefix)
qed

text \<open>A path inside a directory: its elements are those of the directory and more, none of which leads up.\<close>

definition path_elements :: "string \<Rightarrow> string list" where
  "path_elements path = filter (\<lambda>e. e \<noteq> []) (split_at CHR ''/'' path)"

definition inside :: "string \<Rightarrow> string \<Rightarrow> bool" where
  "inside dir path \<longleftrightarrow> (let d = path_elements dir; e = path_elements path in
     length d < length e \<and> take (length d) e = d \<and> ''..'' \<notin> set (drop (length d) e))"

lemma path_elements_abs: "proper es \<Longrightarrow> path_elements (abs_path es) = es"
proof -
  assume es: "proper es"
  obtain pre where pre: "split_at CHR ''/'' (abs_path es) = pre @ es" "set pre \<subseteq> {[]}"
    using split_abs_path [OF es] by blast
  have "filter (\<lambda>e. e \<noteq> []) pre = []" using pre(2) by (auto simp: filter_empty_conv)
  moreover have "filter (\<lambda>e. e \<noteq> []) es = es" using es by (auto simp: proper_def list_all_iff proper_element_def filter_id_conv)
  ultimately show ?thesis by (simp add: path_elements_def pre(1))
qed

lemma stored_inside:
  assumes "storage_root p" "storage_key key" shows "inside (rootDir p) (stored_at p key)"
proof -
  obtain es where es: "proper es" "rootDir p = abs_path es" using assms(1) by (auto simp: storage_root_def)
  note key = storage_key_proper [OF assms(2)]
  have "stored_at p key = abs_path (es @ split_at CHR ''/'' key)"
    using Join_abs_path [OF es(1) key] by (simp add: stored_at_def es(2))
  then have "path_elements (stored_at p key) = es @ split_at CHR ''/'' key" using es(1) key by (simp add: path_elements_abs)
  moreover have "''..'' \<notin> set (split_at CHR ''/'' key)" using key by (auto simp: proper_def list_all_iff proper_element_def)
  ultimately show ?thesis using es by (simp add: inside_def path_elements_abs)
qed

lemma stored_at_inj:
  assumes "storage_root p" "storage_key a" "storage_key b" "stored_at p a = stored_at p b"
  shows "a = b"
proof -
  obtain es where es: "proper es" "rootDir p = abs_path es" using assms(1) by (auto simp: storage_root_def)
  have "abs_path (es @ split_at CHR ''/'' a) = abs_path (es @ split_at CHR ''/'' b)"
    using assms(4) es Join_abs_path storage_key_proper [OF assms(2)] storage_key_proper [OF assms(3)] by (simp add: stored_at_def)
  then have "split_at CHR ''/'' a = split_at CHR ''/'' b"
    using abs_path_inj [of "es @ split_at CHR ''/'' a" "es @ split_at CHR ''/'' b"] es(1)
      storage_key_proper [OF assms(2)] storage_key_proper [OF assms(3)] by simp
  then show ?thesis by (metis join_split)
qed

lemma new_provider_root:
  assumes "NewLocalStorageProvider os cwd dir = Inr p" "rooted_path cwd" shows "storage_root p"
proof -
  have "rooted_path dir \<or> rooted_path (cwd @ ''/'' @ dir) \<and> cwd \<noteq> []" using assms(2) by (auto simp: rooted_path_def)
  then have "\<exists>es. proper es \<and> filepath_Abs cwd dir = abs_path es"
    using rooted_Clean by (auto simp: filepath_Abs_def filepath_Join_def)
  then show ?thesis
    using assms(1) by (auto simp: NewLocalStorageProvider_def Let_def storage_root_def split: option.splits)
qed

end
