(* ===== verification/Evidence_Runs.thy ===== *)
theory Evidence_Runs
  imports Evidence_Service Evidence_Paths Rule_Effects
begin

section \<open>Runs of the evidence service\<close>

text \<open>
  The changes the operations on evidence make, and the invariant of the runs in which they
  interleave: what the verification history of every evidence says, and that a stored file is
  the file its document describes. A request sees any earlier store of the run; the operations
  on documents are single steps on the database and the files, in which the removal of a file
  does not fail.
\<close>

subsection \<open>Frames\<close>

definition evidence_tables :: "'s evidence_db_scheme \<Rightarrow> Evidence list \<times> VerificationRecord list \<times> Document list" where
  "evidence_tables s = (evidence_rows s, verification_history s, evidence_documents s)"

definition same_evidence :: "'s evidence_db_scheme \<Rightarrow> 's evidence_db_scheme \<Rightarrow> bool" where
  "same_evidence s s' \<longleftrightarrow> evidence_tables s' = evidence_tables s"

lemma same_evidenceD:
  assumes "same_evidence s s'"
  shows "evidence_rows s' = evidence_rows s" "verification_history s' = verification_history s"
    "evidence_documents s' = evidence_documents s"
  using assms by (simp_all add: same_evidence_def evidence_tables_def)

lemma same_evidence_refl [simp]: "same_evidence s s"
  by (simp add: same_evidence_def)

lemma audit_grows_evidence: "audit_grows s s' \<Longrightarrow> same_evidence s s'" for s :: "'s evidence_db_scheme"
  by (drule audit_grows_tables(2), cases s, cases s', simp add: same_evidence_def evidence_tables_def)

locale evidence_services =
  fixes svc :: "'s evidence_db_scheme EvidenceService"
  assumes auditor_grows: "growing_auditor (evidenceAuditor svc)" and recorder_grows: "growing_auditor (evidenceRecorder svc)"
    and root: "storage_root (evidenceStorage svc)" and removes: "remove_error (evidenceStorage svc) path = None"
begin

lemma evidence_audit_same:
  "evidence_audit svc c orgID actorID action resource i meta s = (r, s') \<Longrightarrow> same_evidence s s'"
  "RecordAuditEventInTx (evidenceRecorder svc) ps s = (r, s') \<Longrightarrow> same_evidence s s'"
  using recorder.audit_grows [OF recorder.intro [OF auditor_grows]] recorder.audit_grows [OF recorder.intro [OF recorder_grows]]
  by (auto simp: evidence_audit_def intro: audit_grows_evidence)

end

lemma RecordEvent_grows: "growing_auditor (Some (RecordEvent ft cfg c))"
proof -
  have "tx_framed audit_grows (RecordEvent ft cfg c ps)" for ps
    unfolding RecordEvent_def recordEvent_def repo_RecordEvent_def
    by (auto simp: Let_def intro!: audit_frame.return audit_frame.throw audit_frame.map_error audit_frame.in_transaction writeEvent_frame)
  then show ?thesis by (auto simp: growing_auditor_def)
qed

lemma new_provider_services:
  assumes "NewLocalStorageProvider os cwd dir = Inr p" "rooted_path cwd" "\<And>path. remove_error os path = None"
  shows "storage_root p" "remove_error p path = None"
  using new_provider_root [OF assms(1,2)] assms(1,3)
  by (auto simp: NewLocalStorageProvider_def Let_def split: option.splits)

interpretation audited_evidence: evidence_services
  "\<lparr>evidenceUsers = users, evidenceAuditor = Some (RecordEventInTx ft cfg c), evidenceRecorder = Some (RecordEvent ft cfg c),
    evidenceStorage = \<lparr>rootDir = Clean (CHR ''/'' # dir), mkdir_error = mk, create_error = cr, open_error = op,
      remove_error = (\<lambda>_. None)\<rparr>, knownPerson = known\<rparr>" for users ft cfg c dir mk cr op known
proof unfold_locales
  have "rooted_path (CHR ''/'' # dir)" by (simp add: rooted_path_def)
  then show "storage_root (evidenceStorage \<lparr>evidenceUsers = users, evidenceAuditor = Some (RecordEventInTx ft cfg c),
      evidenceRecorder = Some (RecordEvent ft cfg c),
      evidenceStorage = \<lparr>rootDir = Clean (CHR ''/'' # dir), mkdir_error = mk, create_error = cr, open_error = op,
      remove_error = (\<lambda>_. None)\<rparr>, knownPerson = known\<rparr>)"
    using rooted_Clean by (simp add: storage_root_def)
qed (simp_all add: audit_service_grows RecordEvent_grows)

subsection \<open>The history of a verification\<close>

text \<open>The verification fields of an evidence, and what a history row says of them.\<close>

type_synonym ruling = "VerificationStatus \<times> uuid option \<times> instant option \<times> string \<times> string"

definition standing :: "Evidence \<Rightarrow> ruling" where
  "standing e = (en_Status e, VerifiedBy e, VerifiedAt e, VerificationReason e, VerificationMethod e)"

definition entry :: "VerificationRecord \<Rightarrow> ruling" where
  "entry r = (vr_Status r, vr_VerifierID r, Some (vr_VerifiedAt r), vr_Reason r, vr_Method r)"

definition unverified :: ruling where
  "unverified = (VerificationStatusUnverified, None, None, [], [])"

fun doubled :: "'a list \<Rightarrow> 'a list" where
  "doubled [] = []"
| "doubled (x # xs) = x # x # doubled xs"

fun verification_path :: "VerificationStatus \<Rightarrow> VerificationStatus list \<Rightarrow> bool" where
  "verification_path st [] \<longleftrightarrow> True"
| "verification_path st (to # rest) \<longleftrightarrow> IsValidVerificationTransition st to \<and> verification_path to rest"

lemma doubled_append [simp]: "doubled (xs @ ys) = doubled xs @ doubled ys"
  by (induction xs) simp_all

lemma verification_path_append:
  "verification_path st (xs @ [to]) \<longleftrightarrow> verification_path st xs \<and> IsValidVerificationTransition (last (st # xs)) to"
  by (induction xs arbitrary: st) simp_all

text \<open>No allowed step leads back to where it starts, so that a path is its history without repetitions.\<close>

lemma remdups_adj_doubled:
  "verification_path st (map fst path) \<Longrightarrow> remdups_adj (doubled path) = path"
proof (induction path arbitrary: st rule: induct_list012)
  case (3 x y path)
  have "\<not> IsValidVerificationTransition v v" for v by (cases v) simp_all
  then have "fst x \<noteq> fst y" using "3.prems" by auto
  then have "x \<noteq> y" by auto
  moreover have "remdups_adj (doubled (y # path)) = y # path" using "3.IH"(2) "3.prems" by auto
  ultimately show ?case by simp
qed simp_all

definition rows_for :: "Evidence \<Rightarrow> VerificationRecord list \<Rightarrow> VerificationRecord list" where
  "rows_for e h = filter (\<lambda>r. vr_EvidenceID r = en_ID e) h"

definition trail_ok :: "VerificationRecord list \<Rightarrow> Evidence \<Rightarrow> bool" where
  "trail_ok h e \<longleftrightarrow> (\<exists>path. map entry (rows_for e h) = doubled path
     \<and> verification_path VerificationStatusUnverified (map fst path) \<and> standing e = last (unverified # path))"

lemma trail_ok_new: "standing e = unverified \<Longrightarrow> rows_for e h = [] \<Longrightarrow> trail_ok h e"
  unfolding trail_ok_def by (intro exI [of _ "[]"]) simp

lemma trail_ok_other: "\<lbrakk>trail_ok h e; vr_EvidenceID a \<noteq> en_ID e; vr_EvidenceID b \<noteq> en_ID e\<rbrakk> \<Longrightarrow> trail_ok (h @ [a, b]) e"
  by (simp add: trail_ok_def rows_for_def)

lemma trail_ok_step:
  assumes "trail_ok h e" "en_ID e' = en_ID e" "vr_EvidenceID a = en_ID e" "vr_EvidenceID b = en_ID e"
    "entry a = standing e'" "entry b = standing e'" "IsValidVerificationTransition (en_Status e) (en_Status e')"
  shows "trail_ok (h @ [a, b]) e'"
proof -
  obtain path where p: "map entry (rows_for e h) = doubled path" "verification_path VerificationStatusUnverified (map fst path)"
    "standing e = last (unverified # path)" using assms(1) by (auto simp: trail_ok_def)
  have "en_Status e = last (VerificationStatusUnverified # map fst path)"
    using arg_cong [OF p(3), of fst] by (simp add: standing_def unverified_def last_map)
  then have "verification_path VerificationStatusUnverified (map fst (path @ [standing e']))"
    using p(2) assms(7) by (simp add: verification_path_append standing_def del: last.simps)
  moreover have "map entry (rows_for e' (h @ [a, b])) = doubled (path @ [standing e'])"
    using p(1) assms(2-6) by (simp add: rows_for_def)
  ultimately show ?thesis unfolding trail_ok_def by (intro exI [of _ "path @ [standing e']"]) simp
qed

definition evidence_ok :: "'s evidence_db_scheme \<Rightarrow> bool" where
  "evidence_ok s \<longleftrightarrow> distinct (map en_ID (evidence_rows s)) \<and> (\<forall>e \<in> set (evidence_rows s). trail_ok (verification_history s) e)
     \<and> (\<forall>r \<in> set (verification_history s). \<exists>e \<in> set (evidence_rows s).
          en_ID e = vr_EvidenceID r \<and> en_OrganizationID e = vr_OrganizationID r)"

lemma same_evidence_ok: "same_evidence s s' \<Longrightarrow> evidence_ok s \<Longrightarrow> evidence_ok s'"
  by (simp add: evidence_ok_def same_evidenceD)

text \<open>
  Evidence is never deleted, what was submitted stays as it is, and the history of verifications
  grows at its end only.
\<close>

definition submitted :: "Evidence \<Rightarrow> Evidence" where
  "submitted e = e\<lparr>en_Status := VerificationStatusUnverified, VerifiedBy := None, VerifiedAt := None,
     VerificationReason := [], VerificationMethod := []\<rparr>"

definition evidence_keep :: "'s evidence_db_scheme \<Rightarrow> 's evidence_db_scheme \<Rightarrow> bool" where
  "evidence_keep s s' \<longleftrightarrow> submitted ` set (evidence_rows s) \<subseteq> submitted ` set (evidence_rows s')
     \<and> (\<exists>h. verification_history s' = verification_history s @ h)"

lemma evidence_keep_refl [simp]: "evidence_keep s s"
  by (simp add: evidence_keep_def)

lemma evidence_keep_trans: "evidence_keep s1 s2 \<Longrightarrow> evidence_keep s2 s3 \<Longrightarrow> evidence_keep s1 s3"
  by (auto simp: evidence_keep_def)

definition evidence_step :: "'s evidence_db_scheme \<Rightarrow> 's evidence_db_scheme \<Rightarrow> bool" where
  "evidence_step s s' \<longleftrightarrow> evidence_keep s s' \<and> (evidence_ok s \<longrightarrow> evidence_ok s')"

interpretation evidence_step: tx_frame evidence_step
  by unfold_locales (auto simp: evidence_step_def intro: evidence_keep_trans)

lemma same_evidence_step: "same_evidence s s' \<Longrightarrow> evidence_step s s'"
  by (simp add: evidence_step_def evidence_keep_def same_evidence_ok same_evidenceD)

lemma submitted_verified [simp]: "submitted (verified_fields e r) = submitted r" "en_ID (submitted e) = en_ID e"
  by (simp_all add: submitted_def verified_fields_def)

subsection \<open>The statements\<close>

lemma saveEvidence_Inr:
  "saveEvidence known e s = (Inr u, s') \<Longrightarrow> en_ID e \<notin> en_ID ` set (evidence_rows s)
     \<and> s' = s\<lparr>evidence_rows := evidence_rows s @ [en_row e]\<rparr>"
  by (auto simp: saveEvidence_def Let_def split: if_splits)

lemma saveEvidence_step:
  assumes "saveEvidence known e s = (Inr u, s')" "standing e = unverified"
  shows "evidence_step s s'"
proof -
  note w = saveEvidence_Inr [OF assms(1)]
  have st: "standing (en_row e) = unverified" "en_ID (en_row e) = en_ID e"
    using assms(2) by (auto simp: standing_def unverified_def en_row_def)
  have "evidence_ok s'" if ok: "evidence_ok s"
  proof -
    have "rows_for (en_row e) (verification_history s) = []"
      unfolding rows_for_def filter_empty_conv
    proof (intro ballI notI)
      fix r assume "r \<in> set (verification_history s)" "vr_EvidenceID r = en_ID (en_row e)"
      then show False using ok w st(2) unfolding evidence_ok_def by (metis image_eqI)
    qed
    then have "trail_ok (verification_history s) (en_row e)" using st(1) by (simp add: trail_ok_new)
    then show ?thesis using ok w st(2) by (auto simp: evidence_ok_def)
  qed
  then show ?thesis using w by (auto simp: evidence_step_def evidence_keep_def)
qed

lemma evidence_FindByID_Inr:
  assumes "evidence_FindByID orgID i s = Inr e"
  obtains r where "r \<in> set (evidence_rows s)" "evidence_at orgID i r" "e = scanEvidence r"
proof -
  obtain r rest where f: "filter (evidence_at orgID i) (evidence_rows s) = r # rest" "e = scanEvidence r"
    using assms by (auto simp: evidence_FindByID_def row_or_def split: list.splits)
  then have "r \<in> set (filter (evidence_at orgID i) (evidence_rows s))" by simp
  then show thesis using that [of r] f(2) by simp
qed

lemma scanEvidence_simps [simp]:
  "en_ID (scanEvidence r) = en_ID r" "en_OrganizationID (scanEvidence r) = en_OrganizationID r"
  "en_Status (scanEvidence r) = en_Status r" "standing (scanEvidence r) = standing r"
  by (simp_all add: scanEvidence_def standing_def)

lemma saveVerificationHistory_Inr:
  "saveVerificationHistory r s = (Inr u, s') \<Longrightarrow> s' = s\<lparr>verification_history := verification_history s @ [vr_row r]\<rparr>"
  by (auto simp: saveVerificationHistory_def Let_def split: if_splits)

lemma UpdateVerification_Inr:
  assumes "UpdateVerificationTx c e s = (Inr u, s')"
  obtains cur where "cur \<in> set (evidence_rows s)" "evidence_at (en_OrganizationID e) (en_ID e) cur"
    "IsValidVerificationTransition (en_Status cur) (en_Status e)"
    "s' = s\<lparr>evidence_rows := update_where (evidence_at (en_OrganizationID e) (en_ID e)) (verified_fields e) (evidence_rows s),
           verification_history := verification_history s @ [vr_row (history_record c e)]\<rparr>"
  using assms
  by (auto simp: UpdateVerificationTx_def tx_Inr dest!: saveVerificationHistory_Inr elim!: evidence_FindByID_Inr)

text \<open>The record the methods of an evidence return describes the evidence they leave.\<close>

definition describes :: "VerificationRecord \<Rightarrow> Evidence \<Rightarrow> bool" where
  "describes r e \<longleftrightarrow> vr_EvidenceID r = en_ID e \<and> vr_OrganizationID r = en_OrganizationID e \<and> entry r = standing e"

definition verification_of :: "ctx \<Rightarrow> (Evidence \<Rightarrow> go_error + Evidence \<times> VerificationRecord) \<Rightarrow> bool" where
  "verification_of c f \<longleftrightarrow> (\<forall>found e r. f found = Inr (e, r) \<longrightarrow> describes r e \<and> en_ID e = en_ID found
     \<and> en_OrganizationID e = en_OrganizationID found)"

lemma verifications:
  "verification_of c (\<lambda>e. evidence_Verify c e who reason method)" "verification_of c (\<lambda>e. evidence_Reject c e who reason method)"
  "verification_of c (\<lambda>e. evidence_MarkForReview c e who reason method)"
  by (auto simp: verification_of_def evidence_Verify_def evidence_Reject_def evidence_MarkForReview_def
      evidence_applyVerification_def describes_def entry_def standing_def split: if_splits option.splits)

text \<open>An update keeps every row in its place.\<close>

lemma verified_there:
  "x \<in> set rows \<Longrightarrow> \<exists>y \<in> set (update_where q (verified_fields e) rows). en_ID y = en_ID x \<and> en_OrganizationID y = en_OrganizationID x"
  by (rule bexI [of _ "if q x then verified_fields e x else x"]) (auto simp: update_where_def verified_fields_def)

lemma verified_keep:
  assumes "evidence_rows s2 = update_where q (verified_fields e) (evidence_rows s)"
    "verification_history s2 = verification_history s @ h"
  shows "evidence_keep s s2"
proof -
  have "map submitted (evidence_rows s2) = map submitted (evidence_rows s)" unfolding assms(1) by (simp add: map_update_where)
  then have "submitted ` set (evidence_rows s) \<subseteq> submitted ` set (evidence_rows s2)" by (metis list.set_map order_refl)
  then show ?thesis using assms(2) by (simp add: evidence_keep_def)
qed

lemma update_step:
  assumes up: "UpdateVerificationTx c e s = (Inr u, s1)" and h: "saveVerificationHistory r s1 = (Inr v, s2)" and d: "describes r e"
  shows "evidence_step s s2"
proof -
  let ?q = "evidence_at (en_OrganizationID e) (en_ID e)" and ?a = "vr_row (history_record c e)" and ?b = "vr_row r"
  obtain cur where cur: "cur \<in> set (evidence_rows s)" "?q cur" "IsValidVerificationTransition (en_Status cur) (en_Status e)"
    and s1: "s1 = s\<lparr>evidence_rows := update_where ?q (verified_fields e) (evidence_rows s),
        verification_history := verification_history s @ [?a]\<rparr>" by (rule UpdateVerification_Inr [OF up])
  have s2: "s2 = s\<lparr>evidence_rows := update_where ?q (verified_fields e) (evidence_rows s),
      verification_history := verification_history s @ [?a, ?b]\<rparr>"
    using saveVerificationHistory_Inr [OF h] s1 by simp
  have ids: "map en_ID (evidence_rows s2) = map en_ID (evidence_rows s)"
    unfolding s2 by (simp add: map_update_where verified_fields_def)
  obtain t where t: "VerifiedAt e = Some t" using d by (cases "VerifiedAt e") (auto simp: describes_def entry_def standing_def)
  have new: "entry ?a = standing (verified_fields e x)" "entry ?b = standing (verified_fields e x)" "vr_EvidenceID ?a = en_ID e"
    "vr_EvidenceID ?b = en_ID e" "vr_OrganizationID ?a = en_OrganizationID e" "vr_OrganizationID ?b = en_OrganizationID e" for x
    using d t by (auto simp: entry_def standing_def verified_fields_def vr_row_def history_record_def describes_def)
  have "evidence_ok s2" if ok: "evidence_ok s"
  proof -
    have dist: "distinct (map en_ID (evidence_rows s))" using ok by (simp add: evidence_ok_def)
    have same: "x = cur" if "x \<in> set (evidence_rows s)" "en_ID x = en_ID e" for x
      using dist that cur(1,2) by (auto simp: distinct_map inj_on_def evidence_at_def)
    have "trail_ok (verification_history s2) y" if "y \<in> set (evidence_rows s2)" for y
    proof -
      have "y \<in> (\<lambda>x. if ?q x then verified_fields e x else x) ` set (evidence_rows s)"
        using that by (simp add: s2 update_where_def)
      then obtain x where x: "x \<in> set (evidence_rows s)" "y = (if ?q x then verified_fields e x else x)" by blast
      have tr: "trail_ok (verification_history s) x" using ok x(1) by (simp add: evidence_ok_def)
      show ?thesis
      proof (cases "en_ID x = en_ID e")
        case True
        then have "x = cur" "?q x" using same x(1) cur(2) by auto
        then show ?thesis
          using x(2) True cur(3) new unfolding s2 evidence_db.simps
          by (auto intro!: trail_ok_step [OF tr] simp: verified_fields_def)
      next
        case False
        then have "y = x" using x(2) by (simp add: evidence_at_def)
        then show ?thesis using False new(3,4) by (simp add: s2 trail_ok_other [OF tr])
      qed
    qed
    moreover have "\<exists>y \<in> set (evidence_rows s2). en_ID y = vr_EvidenceID k \<and> en_OrganizationID y = vr_OrganizationID k"
      if "k \<in> set (verification_history s2)" for k
    proof -
      have "\<exists>x \<in> set (evidence_rows s). en_ID x = vr_EvidenceID k \<and> en_OrganizationID x = vr_OrganizationID k"
        using that ok cur(1,2) new(3-6) by (auto simp: s2 evidence_ok_def evidence_at_def)
      moreover have "evidence_rows s2 = update_where ?q (verified_fields e) (evidence_rows s)" by (simp add: s2)
      ultimately show ?thesis using verified_there [of _ "evidence_rows s" ?q e] by metis
    qed
    ultimately show ?thesis using dist by (simp add: evidence_ok_def ids)
  qed
  moreover have "evidence_keep s s2" by (rule verified_keep) (simp_all add: s2)
  ultimately show ?thesis by (simp add: evidence_step_def)
qed

subsection \<open>The requests on evidence\<close>

lemma user_check_Inr [tx_Inr]: "user_check users msg e orgID userID s = (Inr u, s') \<longleftrightarrow> users orgID userID = Inr True \<and> s' = s"
  by (auto simp: user_check_def tx_Inr)

lemma NewEvidence_Inr: "NewEvidence ft c p = Inr e \<Longrightarrow> standing e = unverified"
  by (auto simp: NewEvidence_def standing_def unverified_def simp del: first_error.simps split: option.splits)

context evidence_services
begin

lemma AddEvidence_step:
  assumes "AddEvidence ft svc c committed p s = (Inr e, s')" shows "evidence_step s s'"
proof -
  obtain s1 where "saveEvidence (knownPerson svc) e s = (Inr (), s1)" "same_evidence s1 s'" "NewEvidence ft c (evidence_params p) = Inr e"
    using assms by (auto simp: AddEvidence_def tx_Inr dest: evidence_audit_same)
  then show ?thesis using saveEvidence_step NewEvidence_Inr same_evidence_step evidence_step.trans by metis
qed

lemma applyVerification_Inr:
  assumes "applyVerification svc c committed evidenceID orgID actorID f action p s = (Inr (e, r), s')"
  obtains found s1 s2 where "evidence_FindByID orgID evidenceID committed = Inr found"
    "f found = Inr (e, r)" "UpdateVerificationTx (later_ctx 1 c) e s = (Inr (), s1)"
    "saveVerificationHistory r s1 = (Inr (), s2)" "same_evidence s2 s'"
  using assms by (auto simp: applyVerification_def tx_Inr dest: evidence_audit_same)

lemma applyVerification_step:
  assumes "applyVerification svc c committed evidenceID orgID actorID f action p s = (Inr x, s')" "verification_of c f"
  shows "evidence_step s s'"
proof -
  obtain e r where x: "x = (e, r)" by (cases x)
  obtain found s1 s2 where f: "f found = Inr (e, r)" and u: "UpdateVerificationTx (later_ctx 1 c) e s = (Inr (), s1)"
    "saveVerificationHistory r s1 = (Inr (), s2)" and a: "same_evidence s2 s'"
    using assms(1) unfolding x by (rule applyVerification_Inr)
  have "describes r e" using assms(2) f by (auto simp: verification_of_def)
  then show ?thesis using update_step [OF u] same_evidence_step [OF a] evidence_step.trans by blast
qed

end

subsection \<open>The pair of the database and the files\<close>

lemma on_db_Inr [tx_Inr]: "on_db m sf = (Inr a, sf') \<longleftrightarrow> m (fst sf) = (Inr a, fst sf') \<and> snd sf' = snd sf"
  by (cases sf; cases sf') (auto simp: on_db_def split: prod.splits)

lemma on_files_Inr [tx_Inr]: "on_files m sf = (Inr a, sf') \<longleftrightarrow> m (snd sf) = (Inr a, snd sf') \<and> fst sf' = fst sf"
  by (cases sf; cases sf') (auto simp: on_files_def split: prod.splits)

lemma tx_or_undo_Inr [tx_Inr]: "tx_or_undo undo m s = (Inr a, s') \<longleftrightarrow> m s = (Inr a, s')"
  by (auto simp: tx_or_undo_def split: prod.splits sum.splits)

lemma tx_ignore_Inr [tx_Inr]: "tx_ignore m s = (Inr u, s') \<longleftrightarrow> s' = snd (m s)"
  by (auto simp: tx_ignore_def)

lemma tx_atomic_on_db [tx_atomic_intros]: "tx_atomic m \<Longrightarrow> tx_atomic (on_db m)"
  by (auto simp: tx_atomic_def on_db_def split: prod.splits)

lemma user_check_pure [tx_atomic_intros]: "tx_pure (user_check users msg e orgID userID)"
  unfolding user_check_def by (intro tx_atomic_intros)

lemma register_upload_atomic: "tx_atomic (register_upload lower svc c p key metadata)"
  unfolding register_upload_def save_document_def by (intro tx_atomic_intros)

definition file_path :: "'s EvidenceService \<Rightarrow> string \<Rightarrow> string" where
  "file_path svc key = stored_at (evidenceStorage svc) key"

lemma pure_bind:
  "tx_pure m \<Longrightarrow> tx_bind m k s = (r, s') \<Longrightarrow> (\<exists>e. r = Inl e \<and> s' = s) \<or> (\<exists>a. k a s = (r, s'))"
  by (auto simp: tx_pure_def tx_bind_def split: prod.splits sum.splits) (metis snd_conv)+

lemma upload_key_storage: "storage_key (upload_key c p)"
  by (auto simp: storage_key_def upload_key_def)

text \<open>The metadata that storing a file returns.\<close>

definition stored_metadata :: "string \<Rightarrow> reader \<Rightarrow> StorageMetadata" where
  "stored_metadata key rd = \<lparr>sm_Key = key, sm_Checksum = sha256_hex (delivered rd), sm_SizeBytes = int (length (delivered rd))\<rparr>"

context evidence_services
begin

lemma store_cases:
  assumes "local_Store (evidenceStorage svc) key rd sz f = (r, f')"
  shows "(\<exists>e. r = Inl e \<and> (f' = f \<or> f' = f(file_path svc key := None)))
    \<or> r = Inr (stored_metadata key rd) \<and> f' = f(file_path svc key \<mapsto> delivered rd)"
  using assms removes
  by (auto simp: local_Store_def Let_def removed_def file_path_def stored_at_def stored_metadata_def split: if_splits option.splits)

lemma delete_stored:
  "storage_key key \<Longrightarrow> local_Delete (evidenceStorage svc) key f = (Inr (), f(file_path svc key := None))"
  using storage_key_path [OF root] removes
  by (simp add: local_Delete_def Let_def file_path_def stored_at_def)

lemma retrieve_stored:
  "storage_key key \<Longrightarrow> local_Retrieve (evidenceStorage svc) key f = (case open_error (evidenceStorage svc) (file_path svc key) of
     Some e \<Rightarrow> Inl (Wrap ''failed to open file'' e)
   | None \<Rightarrow> (case f (file_path svc key) of
       None \<Rightarrow> Inl (Wrap ''file not found'' (storage_error ''storage backend unavailable''))
     | Some content \<Rightarrow> Inr content))"
  using storage_key_path [OF root] by (simp add: local_Retrieve_def Let_def file_path_def stored_at_def split: option.split)

lemma UploadDocument_cases:
  assumes "UploadDocument lower svc c committed p (s, f) = (r, (s', f'))"
  shows "(\<exists>e. r = Inl e \<and> s' = s \<and> (f' = f \<or> f' = f(file_path svc (upload_key c p) := None)))
    \<or> (\<exists>u. r = Inr u \<and> f' = f(file_path svc (upload_key c p) \<mapsto> delivered (up_Reader p))
        \<and> register_upload lower svc c p (upload_key c p) (stored_metadata (upload_key c p) (up_Reader p)) (s, f') = (Inr u, (s', f')))"
proof -
  let ?key = "upload_key c p" and ?undo = "on_files (local_Delete (evidenceStorage svc) (upload_key c p))"
  let ?rest = "\<lambda>m. register_upload lower svc c p ?key m"
  have pure: "tx_pure (tx_check g oe)" "tx_pure (user_check users msg e orgID userID)" "tx_pure (tx_read h x)"
    for g oe users msg e orgID userID h and x :: "go_error + Evidence"
    by (intro tx_atomic_intros)+
  have "(\<exists>e. r = Inl e \<and> s' = s \<and> f' = f) \<or> tx_bind (tx_map_error (Wrap ''failed to store file'')
        (on_files (local_Store (evidenceStorage svc) ?key (up_Reader p) (up_Size p)))) (\<lambda>m. tx_or_undo ?undo (?rest m)) (s, f) = (r, (s', f'))"
    (is "_ \<or> ?store = _")
    using assms unfolding UploadDocument_def tx_seq_def
    by (auto dest!: pure_bind [OF pure(1)] pure_bind [OF pure(2)] pure_bind [OF pure(3)])
  then show ?thesis
  proof
    assume b: "?store = (r, (s', f'))"
    obtain x f1 where st: "local_Store (evidenceStorage svc) ?key (up_Reader p) (up_Size p) f = (x, f1)" by fastforce
    show ?thesis
    proof (cases x)
      case (Inl e)
      then show ?thesis using b st store_cases [OF st]
        by (auto simp: tx_bind_def tx_map_error_def on_files_def)
    next
      case (Inr m)
      then have m: "m = stored_metadata ?key (up_Reader p)" "f1 = f(file_path svc ?key \<mapsto> delivered (up_Reader p))"
        using store_cases [OF st] by auto
      have rest: "tx_or_undo ?undo (?rest m) (s, f1) = (r, (s', f'))"
        using b st Inr by (simp add: tx_bind_def tx_map_error_def on_files_def)
      obtain y s2 f2 where y: "?rest m (s, f1) = (y, (s2, f2))" by (metis surj_pair)
      show ?thesis
      proof (cases y)
        case (Inl e)
        then have "s2 = s" "f2 = f1" using tx_atomicD [OF register_upload_atomic] y by blast+
        then show ?thesis
          using rest y Inl m(2) delete_stored [OF upload_key_storage] by (auto simp: tx_or_undo_def on_files_def)
      next
        case (Inr u)
        then have "f2 = f1" using y by (auto simp: register_upload_def tx_Inr)
        then show ?thesis using rest y Inr m by (auto simp: tx_or_undo_def)
      qed
    qed
  qed blast
qed


lemma register_upload_Inr:
  assumes "register_upload lower svc c p key m (s, f) = (Inr u, (s', f'))"
  obtains ct name doc s1 where "ValidateContentType lower (up_ContentType p) = Inr ct" "SanitizeFileName (up_FileName p) = Inr name"
    "NewDocument (later_ctx 1 c) (document_params p name ct m key) = Inr doc" "sm_SizeBytes m = up_Size p"
    "SaveDocumentTx doc s = (Inr (), s1)" "same_evidence s1 s'" "f' = f"
    "u = \<lparr>upr_Document = doc, upr_StorageKey = doc_StorageKey doc, upr_Checksum = sm_Checksum m\<rparr>"
  using assms by (auto simp: register_upload_def save_document_def tx_Inr dest: evidence_audit_same)

end

lemma NewDocument_Inr:
  "NewDocument c p = Inr d \<Longrightarrow> doc_StorageKey d = dp_StorageKey p \<and> doc_Checksum d = dp_Checksum p \<and> doc_SizeBytes d = dp_SizeBytes p
     \<and> doc_EvidenceID d = dp_EvidenceID p \<and> doc_OrganizationID d = dp_OrganizationID p \<and> doc_ID d = ctx_uuid c 0
     \<and> doc_FileName d = dp_FileName p \<and> doc_ContentType d = dp_ContentType p"
  by (auto simp: NewDocument_def simp del: first_error.simps split: option.splits)

lemma SaveDocumentTx_Inr:
  "SaveDocumentTx d s = (Inr u, s') \<Longrightarrow> doc_ID d \<notin> doc_ID ` set (evidence_documents s)
     \<and> doc_StorageKey d \<notin> doc_StorageKey ` set (evidence_documents s)
     \<and> s' = s\<lparr>evidence_documents := evidence_documents s @ [doc_row d]\<rparr>"
  by (auto simp: SaveDocumentTx_def Let_def split: if_splits)

lemma doc_row_simps [simp]:
  "doc_ID (doc_row d) = doc_ID d" "doc_StorageKey (doc_row d) = doc_StorageKey d" "doc_Checksum (doc_row d) = doc_Checksum d"
  "doc_SizeBytes (doc_row d) = doc_SizeBytes d" "doc_EvidenceID (doc_row d) = doc_EvidenceID d"
  "doc_OrganizationID (doc_row d) = doc_OrganizationID d" "doc_FileName (doc_row d) = doc_FileName d"
  "doc_ContentType (doc_row d) = doc_ContentType d"
  by (simp_all add: doc_row_def)

lemma FindDocumentByID_Inr:
  assumes "FindDocumentByID orgID i s = Inr d" shows "d \<in> set (evidence_documents s)" "document_at orgID i d"
proof -
  obtain rest where "filter (document_at orgID i) (evidence_documents s) = d # rest"
    using assms by (auto simp: FindDocumentByID_def row_or_def split: list.splits)
  then have "d \<in> set (filter (document_at orgID i) (evidence_documents s))" by simp
  then show "d \<in> set (evidence_documents s)" "document_at orgID i d" by simp_all
qed

subsection \<open>The files of documents\<close>

text \<open>A file is the file its document describes, or it is gone.\<close>

definition describes_file :: "string \<Rightarrow> files \<Rightarrow> Document \<Rightarrow> bool" where
  "describes_file dir f d \<longleftrightarrow> storage_key (doc_StorageKey d) \<and> (case f (filepath_Join dir (doc_StorageKey d)) of
     None \<Rightarrow> True
   | Some content \<Rightarrow> sha256_hex content = doc_Checksum d \<and> int (length content) = doc_SizeBytes d)"

definition documents_ok :: "string \<Rightarrow> 's evidence_db_scheme \<Rightarrow> files \<Rightarrow> bool" where
  "documents_ok dir s f \<longleftrightarrow> distinct (map doc_ID (evidence_documents s)) \<and> distinct (map doc_StorageKey (evidence_documents s))
     \<and> (\<forall>d \<in> set (evidence_documents s). describes_file dir f d)"

lemma describes_removed: "describes_file dir f d \<Longrightarrow> describes_file dir (f(x := None)) d"
  by (simp add: describes_file_def)

lemma documents_removed: "documents_ok dir s f \<Longrightarrow> documents_ok dir s (f(x := None))"
  by (simp add: documents_ok_def describes_removed)

lemma same_documents: "evidence_documents s' = evidence_documents s \<Longrightarrow> documents_ok dir s' f = documents_ok dir s f"
  by (simp add: documents_ok_def)

context evidence_services
begin

lemma UploadDocument_documents:
  assumes up: "UploadDocument lower svc c committed p (s, f) = (r, (s', f'))" and dir: "rootDir (evidenceStorage svc) = dir"
    and ok: "documents_ok dir s f"
  shows "documents_ok dir s' f'"
  using UploadDocument_cases [OF up]
proof (elim disjE exE conjE)
  fix u assume f': "f' = f(file_path svc (upload_key c p) \<mapsto> delivered (up_Reader p))"
    and reg: "register_upload lower svc c p (upload_key c p) (stored_metadata (upload_key c p) (up_Reader p)) (s, f') = (Inr u, s', f')"
  obtain ct name doc s1 where doc: "NewDocument (later_ctx 1 c)
      (document_params p name ct (stored_metadata (upload_key c p) (up_Reader p)) (upload_key c p)) = Inr doc"
    and sv: "SaveDocumentTx doc s = (Inr (), s1)" and a: "same_evidence s1 s'"
    using register_upload_Inr [OF reg] by metis
  note d = NewDocument_Inr [OF doc] and w = SaveDocumentTx_Inr [OF sv]
  have key: "doc_StorageKey doc = upload_key c p" using d by (simp add: document_params_def)
  have docs: "evidence_documents s' = evidence_documents s @ [doc_row doc]" using w a by (simp add: same_evidenceD)
  have "describes_file dir f' (doc_row doc)"
    using d key f' dir upload_key_storage
    by (simp add: describes_file_def document_params_def stored_metadata_def file_path_def stored_at_def)
  moreover have "describes_file dir f' x" if x: "x \<in> set (evidence_documents s)" for x
  proof -
    have "describes_file dir f x" using ok x by (simp add: documents_ok_def)
    moreover have "doc_StorageKey x \<noteq> upload_key c p" using x w key by (metis image_eqI)
    ultimately have old: "describes_file dir f x" "doc_StorageKey x \<noteq> upload_key c p" .
    then have "file_path svc (doc_StorageKey x) \<noteq> file_path svc (upload_key c p)"
      using stored_at_inj [OF root] upload_key_storage by (auto simp: file_path_def describes_file_def)
    then show ?thesis using old f' dir by (simp add: describes_file_def file_path_def stored_at_def)
  qed
  ultimately show ?thesis using ok w by (auto simp: documents_ok_def docs)
qed (use ok in \<open>simp_all add: documents_removed\<close>)

end

text \<open>What reading and deleting documents may do: drop rows of documents, drop files.\<close>

definition shrinks :: "'s evidence_db_scheme \<times> files \<Rightarrow> 's evidence_db_scheme \<times> files \<Rightarrow> bool" where
  "shrinks a b \<longleftrightarrow> evidence_rows (fst b) = evidence_rows (fst a) \<and> verification_history (fst b) = verification_history (fst a)
     \<and> (\<exists>p. evidence_documents (fst b) = filter p (evidence_documents (fst a))) \<and> (\<forall>x. snd b x = None \<or> snd b x = snd a x)"

lemma all_kept: "\<exists>p. xs = filter p xs"
  by (rule exI [of _ "\<lambda>_. True"]) simp

interpretation shrink_frame: tx_frame shrinks
proof unfold_locales
  show "shrinks a a" for a :: "'s evidence_db_scheme \<times> files"
    unfolding shrinks_def using all_kept by blast
  show "shrinks a d" if ab: "shrinks a b" and bd: "shrinks b d" for a b d :: "'s evidence_db_scheme \<times> files"
  proof -
    obtain p where p: "evidence_documents (fst b) = filter p (evidence_documents (fst a))" using ab by (auto simp: shrinks_def)
    obtain q where q: "evidence_documents (fst d) = filter q (evidence_documents (fst b))" using bd by (auto simp: shrinks_def)
    have "evidence_documents (fst d) = filter (\<lambda>x. q x \<and> p x) (evidence_documents (fst a))"
      by (simp add: p q conj_commute)
    then have "\<exists>r. evidence_documents (fst d) = filter r (evidence_documents (fst a))" by blast
    moreover have "snd d x = None \<or> snd d x = snd a x" for x using ab bd unfolding shrinks_def by metis
    ultimately show ?thesis using ab bd by (simp add: shrinks_def)
  qed
qed

lemma shrinks_step:
  assumes "shrinks (s, f) (s', f')"
  shows "evidence_step s s'" "documents_ok dir s f \<Longrightarrow> documents_ok dir s' f'"
proof -
  obtain p where p: "evidence_documents s' = filter p (evidence_documents s)" using assms by (auto simp: shrinks_def)
  have f: "f' x = None \<or> f' x = f x" for x using assms by (simp add: shrinks_def)
  show "evidence_step s s'" using assms by (simp add: shrinks_def evidence_step_def evidence_keep_def evidence_ok_def)
  have "describes_file dir f' d" if "describes_file dir f d" for d
    using that f [of "filepath_Join dir (doc_StorageKey d)"] by (auto simp: describes_file_def)
  then show "documents_ok dir s f \<Longrightarrow> documents_ok dir s' f'"
    by (auto simp: documents_ok_def p distinct_map_filter)
qed

lemma shrinking_statements:
  "tx_framed shrinks (on_files (local_Delete p key))" "tx_framed shrinks (on_files (\<lambda>f. (g f, f)))"
  "tx_framed shrinks (on_db (repo_DeleteDocument orgID i))"
proof -
  show "tx_framed shrinks (on_files (\<lambda>f. (g f, f)))" by (rule shrink_frame.framedI) (auto simp: on_files_def shrink_frame.refl)
  show "tx_framed shrinks (on_files (local_Delete p key))"
  proof (rule shrink_frame.framedI)
    fix sf :: "'s evidence_db_scheme \<times> files"
    obtain s f where sf: "sf = (s, f)" by (cases sf)
    have "\<exists>r g. local_Delete p key f = (r, g) \<and> (\<forall>x. g x = None \<or> g x = f x)"
      by (auto simp: local_Delete_def Let_def split: option.split)
    then obtain r g where "local_Delete p key f = (r, g)" "\<forall>x. g x = None \<or> g x = f x" by blast
    moreover have "\<exists>p. evidence_documents s = filter p (evidence_documents s)" by (rule all_kept)
    ultimately show "shrinks sf (snd (on_files (local_Delete p key) sf))"
      by (simp add: sf on_files_def shrinks_def)
  qed
  show "tx_framed shrinks (on_db (repo_DeleteDocument orgID i))"
  proof (rule shrink_frame.framedI)
    fix sf :: "'s evidence_db_scheme \<times> files"
    obtain s f where sf: "sf = (s, f)" by (cases sf)
    have "\<exists>p. evidence_documents s = filter p (evidence_documents s)" by (rule all_kept)
    then show "shrinks sf (snd (on_db (repo_DeleteDocument orgID i) sf))"
      by (auto simp: sf on_db_def repo_DeleteDocument_def shrinks_def)
  qed
qed

lemma pure_shrinks: "tx_pure m \<Longrightarrow> tx_framed shrinks m"
  by (rule shrink_frame.framedI) (simp only: tx_pure_def shrink_frame.refl)

lemma ignored_shrinks: "tx_framed shrinks m \<Longrightarrow> tx_framed shrinks (tx_ignore m)"
  by (simp add: tx_framed_def tx_ignore_def)

context evidence_services
begin

lemma recorder_shrinks: "tx_framed shrinks (on_db (RecordAuditEventInTx (evidenceRecorder svc) ps))"
proof (rule shrink_frame.framedI)
  fix sf :: "'s evidence_db_scheme \<times> files"
  obtain s f where sf: "sf = (s, f)" by (cases sf)
  obtain r s' where r: "RecordAuditEventInTx (evidenceRecorder svc) ps s = (r, s')" by fastforce
  have "shrinks (s, f) (s', f)"
    using same_evidenceD [OF evidence_audit_same(2) [OF r]] shrink_frame.refl [of "(s, f)"] by (simp add: shrinks_def)
  then show "shrinks sf (snd (on_db (RecordAuditEventInTx (evidenceRecorder svc) ps) sf))" by (simp add: sf on_db_def r)
qed

lemma documents_shrink:
  "tx_framed shrinks (GetDocumentStream svc c committed orgID evidenceID documentID downloaderID)"
  "tx_framed shrinks (DeleteDocument svc c committed orgID documentID deletedBy)"
  unfolding GetDocumentStream_def DeleteDocument_def
  by (intro shrink_frame.bind shrink_frame.seq shrink_frame.map_error shrink_frame.guard shrink_frame.return
      shrinking_statements ignored_shrinks recorder_shrinks pure_shrinks user_check_pure tx_read_pure)+

end

subsection \<open>Runs\<close>

inductive evidence_request :: "(rat \<Rightarrow> string) \<Rightarrow> (string \<Rightarrow> string) \<Rightarrow> 's evidence_db_scheme EvidenceService set
    \<Rightarrow> 's evidence_db_scheme set \<Rightarrow> 's evidence_db_scheme \<times> files \<Rightarrow> 's evidence_db_scheme \<times> files \<Rightarrow> bool"
  for ft lower svcs earlier where
  add: "svc \<in> svcs \<Longrightarrow> s0 \<in> earlier \<Longrightarrow> AddEvidence ft svc c s0 pa s = (r1, s') \<Longrightarrow> evidence_request ft lower svcs earlier (s, f) (s', f)"
| verify: "svc \<in> svcs \<Longrightarrow> s0 \<in> earlier \<Longrightarrow> VerifyEvidence svc c s0 pv s = (r2, s')
    \<Longrightarrow> evidence_request ft lower svcs earlier (s, f) (s', f)"
| reject: "svc \<in> svcs \<Longrightarrow> s0 \<in> earlier \<Longrightarrow> RejectEvidence svc c s0 pv s = (r2, s')
    \<Longrightarrow> evidence_request ft lower svcs earlier (s, f) (s', f)"
| review: "svc \<in> svcs \<Longrightarrow> s0 \<in> earlier \<Longrightarrow> MarkEvidenceForReview svc c s0 pv s = (r2, s')
    \<Longrightarrow> evidence_request ft lower svcs earlier (s, f) (s', f)"
| metadata: "svc \<in> svcs \<Longrightarrow> s0 \<in> earlier \<Longrightarrow> UpdateEvidenceMetadata ft svc c s0 pm s = (r1, s')
    \<Longrightarrow> evidence_request ft lower svcs earlier (s, f) (s', f)"
| upload: "svc \<in> svcs \<Longrightarrow> s0 \<in> earlier \<Longrightarrow> UploadDocument lower svc c s0 pu (s, f) = (r3, (s', f'))
    \<Longrightarrow> evidence_request ft lower svcs earlier (s, f) (s', f')"
| download: "svc \<in> svcs \<Longrightarrow> s0 \<in> earlier \<Longrightarrow> GetDocumentStream svc c s0 orgID i documentID userID (s, f) = (r4, (s', f'))
    \<Longrightarrow> evidence_request ft lower svcs earlier (s, f) (s', f')"
| delete: "svc \<in> svcs \<Longrightarrow> s0 \<in> earlier \<Longrightarrow> DeleteDocument svc c s0 orgID documentID userID (s, f) = (r5, (s', f'))
    \<Longrightarrow> evidence_request ft lower svcs earlier (s, f) (s', f')"
| elsewhere: "same_evidence s s' \<Longrightarrow> evidence_request ft lower svcs earlier (s, f) (s', f)"

inductive evidence_run :: "(rat \<Rightarrow> string) \<Rightarrow> (string \<Rightarrow> string) \<Rightarrow> 's evidence_db_scheme EvidenceService set
    \<Rightarrow> ('s evidence_db_scheme \<times> files) list \<Rightarrow> bool" for ft lower svcs where
  no_evidence: "evidence_tables s = ([], [], []) \<Longrightarrow> evidence_run ft lower svcs [(s, f)]"
| request: "evidence_run ft lower svcs (sf # run) \<Longrightarrow> evidence_request ft lower svcs (fst ` set (sf # run)) sf sf'
    \<Longrightarrow> evidence_run ft lower svcs (sf' # sf # run)"

text \<open>The services of a run keep their files in one directory.\<close>

definition serving :: "'s evidence_db_scheme EvidenceService set \<Rightarrow> string \<Rightarrow> bool" where
  "serving svcs dir \<longleftrightarrow> (\<forall>svc \<in> svcs. evidence_services svc \<and> rootDir (evidenceStorage svc) = dir)"

definition evidence_run_ok :: "string \<Rightarrow> ('s evidence_db_scheme \<times> files) list \<Rightarrow> bool" where
  "evidence_run_ok dir run \<longleftrightarrow> (\<forall>(s, f) \<in> set run. evidence_ok s \<and> documents_ok dir s f \<and> evidence_keep s (fst (hd run)))"

lemma evidence_requests_atomic:
  "tx_atomic (AddEvidence ft svc c s0 pa)" "tx_atomic (VerifyEvidence svc c s0 pv)" "tx_atomic (RejectEvidence svc c s0 pv)"
  "tx_atomic (MarkEvidenceForReview svc c s0 pv)" "tx_atomic (UpdateEvidenceMetadata ft svc c s0 pm)"
proof -
  have apply_atomic: "tx_atomic (applyVerification svc c s0 i orgID who g action pv)" for g action i orgID who
    unfolding applyVerification_def by (intro tx_atomic_intros) (auto intro: tx_atomic_intros)
  show "tx_atomic (VerifyEvidence svc c s0 pv)" "tx_atomic (RejectEvidence svc c s0 pv)" "tx_atomic (MarkEvidenceForReview svc c s0 pv)"
    unfolding VerifyEvidence_def RejectEvidence_def MarkEvidenceForReview_def by (rule apply_atomic)+
  show "tx_atomic (AddEvidence ft svc c s0 pa)" "tx_atomic (UpdateEvidenceMetadata ft svc c s0 pm)"
    unfolding AddEvidence_def UpdateEvidenceMetadata_def by (intro tx_atomic_intros)+
qed

subsection \<open>Every request keeps the invariant\<close>

lemma submitted_metadata:
  assumes "evidence_keep s0 s" "evidence_FindByID orgID i s0 = Inr e"
  shows "en_ID e \<in> en_ID ` set (evidence_rows s)"
proof -
  obtain r where r: "r \<in> set (evidence_rows s0)" "e = scanEvidence r" using evidence_FindByID_Inr [OF assms(2)] by metis
  then obtain r' where "r' \<in> set (evidence_rows s)" "submitted r' = submitted r" using assms(1) by (force simp: evidence_keep_def)
  then show ?thesis using r(2) submitted_verified(2) by (metis image_eqI scanEvidence_simps(1))
qed

text \<open>The INSERT of an evidence that is there already cannot succeed.\<close>

lemma metadata_fails:
  assumes "evidence_keep s0 s"
  shows "\<exists>err. UpdateEvidenceMetadata ft svc c s0 p s = (Inl err, s)"
proof (cases "UpdateEvidenceMetadata ft svc c s0 p s")
  case (Pair r s')
  show ?thesis
  proof (cases r)
    case (Inl err)
    then show ?thesis using Pair tx_atomicD [OF evidence_requests_atomic(5)] by blast
  next
    case (Inr e)
    then obtain found s1 where found: "evidence_FindByID (um_OrganizationID p) (um_EvidenceID p) s0 = Inr found"
      and up: "evidence_UpdateMetadata ft found (um_ActorID p) (um_Metadata p) = Inr e"
      and save: "saveEvidence (knownPerson svc) e s = (Inr (), s1)"
      using Pair by (auto simp: UpdateEvidenceMetadata_def tx_Inr)
    have "en_ID e = en_ID found" using up by (auto simp: evidence_UpdateMetadata_def simp del: first_error.simps split: option.splits)
    then show ?thesis using saveEvidence_Inr [OF save] submitted_metadata [OF assms found] by simp
  qed
qed

context evidence_services
begin

lemma verified_requests:
  "VerifyEvidence svc c s0 p s = (Inr x, s') \<Longrightarrow> evidence_step s s' \<and> evidence_documents s' = evidence_documents s"
  "RejectEvidence svc c s0 p s = (Inr x, s') \<Longrightarrow> evidence_step s s' \<and> evidence_documents s' = evidence_documents s"
  "MarkEvidenceForReview svc c s0 p s = (Inr x, s') \<Longrightarrow> evidence_step s s' \<and> evidence_documents s' = evidence_documents s"
proof -
  have docs: "evidence_documents s' = evidence_documents s" if "applyVerification svc c s0 i orgID who g a p s = (Inr x, s')" for i orgID who g a
  proof -
    obtain e r where x: "x = (e, r)" by (cases x)
    show ?thesis
      using that unfolding x
      by (rule applyVerification_Inr)
        (auto elim!: UpdateVerification_Inr dest!: saveVerificationHistory_Inr same_evidenceD(3))
  qed
  show "VerifyEvidence svc c s0 p s = (Inr x, s') \<Longrightarrow> evidence_step s s' \<and> evidence_documents s' = evidence_documents s"
    "RejectEvidence svc c s0 p s = (Inr x, s') \<Longrightarrow> evidence_step s s' \<and> evidence_documents s' = evidence_documents s"
    "MarkEvidenceForReview svc c s0 p s = (Inr x, s') \<Longrightarrow> evidence_step s s' \<and> evidence_documents s' = evidence_documents s"
    unfolding VerifyEvidence_def RejectEvidence_def MarkEvidenceForReview_def
    using applyVerification_step verifications docs by metis+
qed

lemma AddEvidence_documents:
  "AddEvidence ft svc c committed p s = (Inr e, s') \<Longrightarrow> evidence_documents s' = evidence_documents s"
  by (auto simp: AddEvidence_def tx_Inr dest!: evidence_audit_same(1) saveEvidence_Inr same_evidenceD(3))

lemma upload_step:
  assumes up: "UploadDocument lower svc c committed p (s, f) = (r, (s', f'))" shows "evidence_step s s'"
  using UploadDocument_cases [OF up]
proof (elim disjE exE conjE)
  fix u assume reg: "register_upload lower svc c p (upload_key c p) (stored_metadata (upload_key c p) (up_Reader p)) (s, f') = (Inr u, s', f')"
  obtain doc s1 where "SaveDocumentTx doc s = (Inr (), s1)" "same_evidence s1 s'" by (rule register_upload_Inr [OF reg])
  then show ?thesis
    using SaveDocumentTx_Inr by (fastforce simp: evidence_step_def evidence_keep_def evidence_ok_def same_evidenceD)
qed (simp_all add: evidence_step.refl)

end

lemma atomic_evidence:
  assumes "tx_atomic m" "m s = (r, s')" "\<And>a. m s = (Inr a, s') \<Longrightarrow> evidence_step s s' \<and> evidence_documents s' = evidence_documents s"
  shows "evidence_step s s' \<and> evidence_documents s' = evidence_documents s"
  using assms by (cases r) (auto dest: tx_atomicD simp: evidence_step.refl)

lemma evidence_request_step:
  assumes req: "evidence_request ft lower svcs E (s, f) (s', f')" and svcs: "serving svcs dir"
    and before: "\<And>s0. s0 \<in> E \<Longrightarrow> evidence_keep s0 s"
  shows "evidence_step s s' \<and> (documents_ok dir s f \<longrightarrow> documents_ok dir s' f')"
  using req
proof cases
  case (add svc s0 c pa r)
  then show ?thesis
    using atomic_evidence [OF evidence_requests_atomic(1)] svcs evidence_services.AddEvidence_step
      evidence_services.AddEvidence_documents same_documents unfolding serving_def by metis
next
  case (verify svc s0 c pv r)
  then show ?thesis
    using atomic_evidence [OF evidence_requests_atomic(2)] svcs evidence_services.verified_requests(1) same_documents
    unfolding serving_def by metis
next
  case (reject svc s0 c pv r)
  then show ?thesis
    using atomic_evidence [OF evidence_requests_atomic(3)] svcs evidence_services.verified_requests(2) same_documents
    unfolding serving_def by metis
next
  case (review svc s0 c pv r)
  then show ?thesis
    using atomic_evidence [OF evidence_requests_atomic(4)] svcs evidence_services.verified_requests(3) same_documents
    unfolding serving_def by metis
next
  case (metadata svc s0 c pm r)
  then have "s' = s" using metadata_fails [OF before [OF metadata(3)], of ft svc c pm] by simp
  then show ?thesis using metadata(1) by (simp add: evidence_step.refl)
next
  case (upload svc s0 c pu r)
  then show ?thesis
    using evidence_services.upload_step evidence_services.UploadDocument_documents svcs unfolding serving_def by metis
next
  case (download svc s0 c orgID i documentID userID r)
  then have "shrinks (s, f) (s', f')"
    using evidence_services.documents_shrink(1) svcs shrink_frame.framedD unfolding serving_def by metis
  then show ?thesis using shrinks_step by blast
next
  case (delete svc s0 c orgID documentID userID r)
  then have "shrinks (s, f) (s', f')"
    using evidence_services.documents_shrink(2) svcs shrink_frame.framedD unfolding serving_def by metis
  then show ?thesis using shrinks_step by blast
next
  case elsewhere
  then show ?thesis using same_evidence_step same_documents same_evidenceD(3) by metis
qed

lemma evidence_run_is_ok:
  assumes "evidence_run ft lower svcs run" "serving svcs dir"
  shows "evidence_run_ok dir run"
  using assms(1)
proof (induction rule: evidence_run.induct)
  case (no_evidence s f)
  then show ?case by (simp add: evidence_run_ok_def evidence_tables_def evidence_ok_def documents_ok_def evidence_keep_def)
next
  case (request sf run sf')
  obtain s f s' f' where sf: "sf = (s, f)" "sf' = (s', f')" by (cases sf; cases sf')
  have before: "evidence_keep s0 s" if "s0 \<in> fst ` set (sf # run)" for s0
    using that request.IH by (auto simp: evidence_run_ok_def sf)
  have st: "evidence_step s s' \<and> (documents_ok dir s f \<longrightarrow> documents_ok dir s' f')"
    by (rule evidence_request_step [OF request.hyps(2) [unfolded sf] assms(2)]) (rule before, simp add: sf)
  have "evidence_ok s" "documents_ok dir s f" using request.IH by (auto simp: evidence_run_ok_def sf)
  then have "evidence_ok s'" "documents_ok dir s' f'" "evidence_keep s s'" using st by (auto simp: evidence_step_def)
  moreover have "evidence_keep s0 s'" if "evidence_keep s0 s" for s0
    by (rule evidence_keep_trans [OF that \<open>evidence_keep s s'\<close>])
  moreover have "evidence_keep s' s'" by simp
  ultimately show ?case using request.IH unfolding evidence_run_ok_def sf by (simp split: prod.splits)
qed

end
