(* ===== verification/Evidence_Sample.thy ===== *)
theory Evidence_Sample
  imports Evidence_Runs Case_Sample
begin

section \<open>A concrete run of the evidence service\<close>

text \<open>
  For the case of \<open>Case_Sample\<close> a piece of evidence is submitted, verified and rejected again,
  and a document is uploaded for it.
\<close>

definition sample_storage :: LocalStorageProvider where
  "sample_storage = \<lparr>rootDir = ''/data'', mkdir_error = (\<lambda>_. None), create_error = (\<lambda>_. None), open_error = (\<lambda>_. None),
     remove_error = (\<lambda>_. None)\<rparr>"

definition sample_evidence_service :: "evidence_db EvidenceService" where
  "sample_evidence_service = \<lparr>evidenceUsers = (\<lambda>org user. Inr True), evidenceAuditor = None, evidenceRecorder = None,
     evidenceStorage = sample_storage, knownPerson = (\<lambda>_. False)\<rparr>"

definition sample_submission :: AddEvidenceParams where
  "sample_submission = \<lparr>ad_OrganizationID = 7, ad_ServiceRequestID = 800, ad_Type = EvidenceTypeReferral, ad_CustomType = [],
     ad_Description = ''d'', ad_StorageReference = ''s3://b/k'', ad_UploadedBy = 8, ad_PersonID = None,
     ad_Source = EvidenceSourceUpload, ad_Metadata = []\<rparr>"

definition sample_verification :: VerifyEvidenceParams where
  "sample_verification = \<lparr>ve_OrganizationID = 7, ve_EvidenceID = 2000, ve_VerifierID = 8, ve_Reason = ''r'', ve_Method = ''m''\<rparr>"

definition sample_upload :: UploadDocumentParams where
  "sample_upload = \<lparr>up_OrganizationID = 7, up_EvidenceID = 2000, up_FileName = ''a.txt'', up_ContentType = ''text/plain'',
     up_Size = 2, up_Reader = \<lparr>delivered = ''hi'', failure = None\<rparr>, up_UploadedBy = 8\<rparr>"

definition evidence_start :: evidence_db where
  "evidence_start = \<lparr>audit_events = [], audit_vocabulary = [], workflow_definitions = [], workflow_states = [],
     workflow_transitions = [], workflow_instances = [], workflow_history = [], forms = [], form_versions = [],
     form_fields = [], form_assignments = [], form_submissions = [], cases = [case_row8], decisions = [], review_queue = [],
     rule_sets = [], evaluations = [], rule_templates = [], rule_assignments = [], evidence_rows = [],
     verification_history = [], evidence_documents = []\<rparr>"

definition "evidence1 = snd (AddEvidence (\<lambda>_. []) sample_evidence_service (sample_ctx 20) evidence_start sample_submission evidence_start)"
definition "evidence2 = snd (VerifyEvidence sample_evidence_service (sample_ctx 21) evidence1 sample_verification evidence1)"
definition "evidence3 = snd (RejectEvidence sample_evidence_service (sample_ctx 22) evidence2 sample_verification evidence2)"
definition "uploaded4 = snd (UploadDocument id sample_evidence_service (sample_ctx 23) evidence3 sample_upload (evidence3, \<lambda>_. None))"

subsection \<open>The stores\<close>

definition evidence_row1 :: Evidence where
  "evidence_row1 = \<lparr>en_ID = 2000, en_OrganizationID = 7, en_ServiceRequestID = 800, en_Type = EvidenceTypeReferral,
     CustomType = None, en_Description = ''d'', StorageReference = ''s3://b/k'', en_UploadedBy = 8, en_PersonID = None,
     en_Source = EvidenceSourceUpload, en_Metadata = [], en_Status = VerificationStatusUnverified, VerifiedBy = None,
     VerifiedAt = None, VerificationReason = [], VerificationMethod = [], en_CreatedAt = 20000\<rparr>"

lemma sample_reference: "validateStorageReference ''s3://b/k'' = None"
  by code_simp

lemma sample_new: "NewEvidence (\<lambda>_. []) (sample_ctx 20) (evidence_params sample_submission) = Inr evidence_row1"
  by (simp add: NewEvidence_def evidence_params_def sample_submission_def sample_reference validateMetadata_def joined_with_def
      has_custom_type_def evidence_row1_def sample_ctx_def unless_def)

lemma sample_open_case: "\<exists>cs. case_FindByID 7 800 evidence_start = Inr cs \<and> cs_OrganizationID cs = 7 \<and> \<not> IsClosed (cs_Status cs)"
  by (simp add: case_FindByID_def scanCase_def query_row_def scanned_case_def evidence_start_def case_row8_def IsClosed_def)

lemma sample_save: "saveEvidence (\<lambda>_. False) evidence_row1 evidence_start = (Inr (), evidence_start\<lparr>evidence_rows := [evidence_row1]\<rparr>)"
  by (simp add: saveEvidence_def evidence_row1_def evidence_start_def case_row8_def valid_evidence_type_def
      valid_evidence_source_def isValidVerificationStatus_def en_row_def trunc_micros_def)

lemmas sample_service = sample_evidence_service_def evidence_audit_def RecordAuditEventInTx_def tx_Inr

lemma evidence1_result: "AddEvidence (\<lambda>_. []) sample_evidence_service (sample_ctx 20) evidence_start sample_submission evidence_start
    = (Inr evidence_row1, evidence1)"
  and evidence1_rows: "evidence1 = evidence_start\<lparr>evidence_rows := [evidence_row1]\<rparr>"
proof -
  have "AddEvidence (\<lambda>_. []) sample_evidence_service (sample_ctx 20) evidence_start sample_submission evidence_start
      = (Inr evidence_row1, evidence_start\<lparr>evidence_rows := [evidence_row1]\<rparr>)"
    using sample_open_case sample_save sample_new
    by (simp add: AddEvidence_def sample_service) (simp add: sample_submission_def)
  then show "AddEvidence (\<lambda>_. []) sample_evidence_service (sample_ctx 20) evidence_start sample_submission evidence_start
      = (Inr evidence_row1, evidence1)" "evidence1 = evidence_start\<lparr>evidence_rows := [evidence_row1]\<rparr>"
    by (simp_all add: evidence1_def)
qed

text \<open>The evidence after its verification and after its rejection, and the rows of the history.\<close>

definition evidence_row2 :: Evidence where
  "evidence_row2 = evidence_row1\<lparr>en_Status := VerificationStatusVerified, VerifiedBy := Some 8, VerifiedAt := Some 21000,
     VerificationReason := ''r'', VerificationMethod := ''m''\<rparr>"

definition evidence_row3 :: Evidence where
  "evidence_row3 = evidence_row2\<lparr>en_Status := VerificationStatusRejected, VerifiedAt := Some 22000\<rparr>"

definition verification_row :: "uuid \<Rightarrow> VerificationStatus \<Rightarrow> instant \<Rightarrow> instant \<Rightarrow> VerificationRecord" where
  "verification_row i st t t' = \<lparr>vr_ID = i, vr_EvidenceID = 2000, vr_OrganizationID = 7, vr_Status = st, vr_VerifierID = Some 8,
     vr_VerifiedAt = t, vr_Reason = ''r'', vr_Method = ''m'', vr_Notes = [], vr_CreatedAt = t'\<rparr>"

lemma id_verified: "en_ID (verified_fields e r) = en_ID r"
  by (simp add: verified_fields_def)

lemma UpdateVerificationTx_ok:
  assumes "evidence_FindByID (en_OrganizationID e) (en_ID e) s = Inr cur" "IsValidVerificationTransition (en_Status cur) (en_Status e)"
    "isValidVerificationStatus (en_Status e)" "ctx_uuid c 0 \<notin> vr_ID ` set (verification_history s)"
  shows "UpdateVerificationTx c e s = (Inr (), s\<lparr>evidence_rows := update_where (evidence_at (en_OrganizationID e) (en_ID e)) (verified_fields e) (evidence_rows s),
     verification_history := verification_history s @ [vr_row (history_record c e)]\<rparr>)"
proof -
  obtain r where "r \<in> set (evidence_rows s)" "en_ID r = en_ID e"
    using evidence_FindByID_Inr [OF assms(1)] by (metis evidence_at_def)
  then have "en_ID e \<in> en_ID ` set (update_where (evidence_at (en_OrganizationID e) (en_ID e)) (verified_fields e) (evidence_rows s))"
    using map_update_where [of en_ID "verified_fields e"] by (metis (no_types, lifting) id_verified image_eqI image_set)
  then show ?thesis
    using assms by (simp add: UpdateVerificationTx_def tx_Inr saveVerificationHistory_def history_record_def)
qed

lemma sample_found:
  "evidence_FindByID 7 2000 (evidence_start\<lparr>evidence_rows := [evidence_row1]\<rparr>) = Inr evidence_row1"
  "evidence_FindByID 7 2000 (evidence_start\<lparr>evidence_rows := [evidence_row2], verification_history := h\<rparr>) = Inr evidence_row2"
  by (simp_all add: evidence_FindByID_def row_or_def evidence_at_def scanEvidence_def evidence_row1_def evidence_row2_def)

lemma sample_verdicts:
  "evidence_Verify (sample_ctx 21) evidence_row1 8 ''r'' ''m'' = Inr (evidence_row2, verification_row 2100 VerificationStatusVerified 21000 21000)"
  "evidence_Reject (sample_ctx 22) evidence_row2 8 ''r'' ''m'' = Inr (evidence_row3, verification_row 2200 VerificationStatusRejected 22000 22000)"
  by (simp_all add: evidence_Verify_def evidence_Reject_def evidence_applyVerification_def unless_def isValidVerificationStatus_def
      evidence_row1_def evidence_row2_def evidence_row3_def verification_row_def sample_ctx_def)

lemma evidence2_result: "VerifyEvidence sample_evidence_service (sample_ctx 21) evidence1 sample_verification evidence1
    = (Inr (evidence_row2, verification_row 2100 VerificationStatusVerified 21000 21000), evidence2)"
  and evidence2_rows: "evidence2 = evidence_start\<lparr>evidence_rows := [evidence_row2], verification_history :=
      [verification_row 2101 VerificationStatusVerified 21000 22000, verification_row 2100 VerificationStatusVerified 21000 21000]\<rparr>"
proof -
  have up: "UpdateVerificationTx (later_ctx 1 (sample_ctx 21)) evidence_row2 evidence1 = (Inr (), evidence_start\<lparr>evidence_rows := [evidence_row2],
      verification_history := [verification_row 2101 VerificationStatusVerified 21000 22000]\<rparr>)"
    by (subst UpdateVerificationTx_ok [where cur = evidence_row1])
      (simp_all add: evidence1_rows evidence_start_def evidence_row1_def evidence_row2_def isValidVerificationStatus_def verification_row_def
        evidence_FindByID_def row_or_def evidence_at_def scanEvidence_def update_where_def verified_fields_def history_record_def
        vr_row_def trunc_micros_def sample_ctx_def later_ctx_def)
  have "VerifyEvidence sample_evidence_service (sample_ctx 21) evidence1 sample_verification evidence1
    = (Inr (evidence_row2, verification_row 2100 VerificationStatusVerified 21000 21000),
       evidence_start\<lparr>evidence_rows := [evidence_row2], verification_history :=
      [verification_row 2101 VerificationStatusVerified 21000 22000, verification_row 2100 VerificationStatusVerified 21000 21000]\<rparr>)"
    using up sample_found sample_verdicts
    by (simp add: VerifyEvidence_def applyVerification_def sample_service sample_verification_def evidence1_rows saveVerificationHistory_def
        verification_row_def vr_row_def trunc_micros_def isValidVerificationStatus_def) (simp add: evidence_row2_def evidence_row1_def)
  then show "VerifyEvidence sample_evidence_service (sample_ctx 21) evidence1 sample_verification evidence1
    = (Inr (evidence_row2, verification_row 2100 VerificationStatusVerified 21000 21000), evidence2)"
    "evidence2 = evidence_start\<lparr>evidence_rows := [evidence_row2], verification_history :=
      [verification_row 2101 VerificationStatusVerified 21000 22000, verification_row 2100 VerificationStatusVerified 21000 21000]\<rparr>"
    by (simp_all add: evidence2_def)
qed

lemma evidence3_result: "RejectEvidence sample_evidence_service (sample_ctx 22) evidence2 sample_verification evidence2
    = (Inr (evidence_row3, verification_row 2200 VerificationStatusRejected 22000 22000), evidence3)"
  and evidence3_rows: "evidence3 = evidence_start\<lparr>evidence_rows := [evidence_row3], verification_history :=
      [verification_row 2101 VerificationStatusVerified 21000 22000, verification_row 2100 VerificationStatusVerified 21000 21000,
       verification_row 2201 VerificationStatusRejected 22000 23000, verification_row 2200 VerificationStatusRejected 22000 22000]\<rparr>"
proof -
  have up: "UpdateVerificationTx (later_ctx 1 (sample_ctx 22)) evidence_row3 evidence2 = (Inr (), evidence_start\<lparr>evidence_rows := [evidence_row3],
      verification_history := [verification_row 2101 VerificationStatusVerified 21000 22000,
        verification_row 2100 VerificationStatusVerified 21000 21000, verification_row 2201 VerificationStatusRejected 22000 23000]\<rparr>)"
    by (subst UpdateVerificationTx_ok [where cur = evidence_row2])
      (simp_all add: evidence2_rows evidence_start_def evidence_row1_def evidence_row2_def evidence_row3_def isValidVerificationStatus_def
        verification_row_def evidence_FindByID_def row_or_def evidence_at_def scanEvidence_def update_where_def verified_fields_def
        history_record_def vr_row_def trunc_micros_def sample_ctx_def later_ctx_def)
  have "RejectEvidence sample_evidence_service (sample_ctx 22) evidence2 sample_verification evidence2
    = (Inr (evidence_row3, verification_row 2200 VerificationStatusRejected 22000 22000),
       evidence_start\<lparr>evidence_rows := [evidence_row3], verification_history :=
      [verification_row 2101 VerificationStatusVerified 21000 22000, verification_row 2100 VerificationStatusVerified 21000 21000,
       verification_row 2201 VerificationStatusRejected 22000 23000, verification_row 2200 VerificationStatusRejected 22000 22000]\<rparr>)"
    using up sample_found sample_verdicts
    by (simp add: RejectEvidence_def applyVerification_def sample_service sample_verification_def evidence2_rows saveVerificationHistory_def
        verification_row_def vr_row_def trunc_micros_def isValidVerificationStatus_def)
      (simp add: evidence_row3_def evidence_row2_def evidence_row1_def)
  then show "RejectEvidence sample_evidence_service (sample_ctx 22) evidence2 sample_verification evidence2
    = (Inr (evidence_row3, verification_row 2200 VerificationStatusRejected 22000 22000), evidence3)"
    "evidence3 = evidence_start\<lparr>evidence_rows := [evidence_row3], verification_history :=
      [verification_row 2101 VerificationStatusVerified 21000 22000, verification_row 2100 VerificationStatusVerified 21000 21000,
       verification_row 2201 VerificationStatusRejected 22000 23000, verification_row 2200 VerificationStatusRejected 22000 22000]\<rparr>"
    by (simp_all add: evidence3_def)
qed

subsection \<open>The document\<close>

definition sample_key :: string where
  "sample_key = upload_key (sample_ctx 23) sample_upload"

definition sample_path :: string where
  "sample_path = filepath_Join ''/data'' sample_key"

definition document_row4 :: Document where
  "document_row4 = \<lparr>doc_ID = 2301, doc_EvidenceID = 2000, doc_OrganizationID = 7, doc_FileName = ''a.txt'',
     doc_ContentType = ''text/plain'', doc_SizeBytes = 2, doc_Checksum = sha256_hex ''hi'', doc_StorageKey = sample_key,
     doc_StorageProvider = StorageProviderLocal, doc_UploadedBy = 8, doc_UploadedAt = 24000, doc_CreatedAt = 24000\<rparr>"

lemma sample_key_nonempty: "sample_key \<noteq> []" "sha256_hex x \<noteq> []"
proof -
  show "sample_key \<noteq> []" by (simp add: sample_key_def upload_key_def GenerateStorageKey_def)
  show "sha256_hex x \<noteq> []" using sha256_hex_length [of x] by auto
qed

lemma sample_names: "ValidateContentType id ''text/plain'' = Inr ''text/plain''" "SanitizeFileName ''a.txt'' = Inr ''a.txt''"
  by code_simp+

lemma sample_document: "NewDocument (later_ctx 1 (sample_ctx 23)) (document_params sample_upload ''a.txt'' ''text/plain''
    (stored_metadata sample_key (up_Reader sample_upload)) sample_key) = Inr document_row4"
  by (simp add: NewDocument_def document_params_def sample_upload_def stored_metadata_def sample_key_nonempty isValidStorageProvider_def
      unless_def document_row4_def later_ctx_def sample_ctx_def)

lemma uploaded4_result: "\<exists>u. UploadDocument id sample_evidence_service (sample_ctx 23) evidence3 sample_upload (evidence3, \<lambda>_. None)
    = (Inr u, uploaded4) \<and> upr_Document u = document_row4"
  and uploaded4_rows: "uploaded4 = (evidence3\<lparr>evidence_documents := [document_row4]\<rparr>, (\<lambda>_. None)(sample_path \<mapsto> ''hi''))"
proof -
  have store: "local_Store sample_storage sample_key (up_Reader sample_upload) 2 (\<lambda>_. None)
      = (Inr (stored_metadata sample_key (up_Reader sample_upload)), (\<lambda>_. None)(sample_path \<mapsto> ''hi''))"
    by (simp add: local_Store_def sample_storage_def sample_upload_def stored_metadata_def sample_path_def)
  have found: "evidence_FindByID 7 2000 evidence3 = Inr evidence_row3"
    by (simp add: evidence3_rows evidence_FindByID_def row_or_def evidence_at_def scanEvidence_def evidence_row3_def evidence_row2_def
        evidence_row1_def)
  have save: "SaveDocumentTx document_row4 evidence3 = (Inr (), evidence3\<lparr>evidence_documents := [document_row4]\<rparr>)"
    by (simp add: SaveDocumentTx_def document_row4_def evidence3_rows evidence_start_def isValidStorageProvider_def AllowedContentTypes_def
        evidence_row3_def evidence_row2_def evidence_row1_def doc_row_def trunc_micros_def)
  have "UploadDocument id sample_evidence_service (sample_ctx 23) evidence3 sample_upload (evidence3, \<lambda>_. None)
     = (Inr \<lparr>upr_Document = document_row4, upr_StorageKey = sample_key, upr_Checksum = sha256_hex ''hi''\<rparr>,
        evidence3\<lparr>evidence_documents := [document_row4]\<rparr>, (\<lambda>_. None)(sample_path \<mapsto> ''hi''))"
    using store found save sample_names sample_document
    by (simp add: UploadDocument_def register_upload_def save_document_def sample_service unless_def sample_key_def [symmetric])
      (simp add: sample_upload_def stored_metadata_def document_row4_def)
  then show "\<exists>u. UploadDocument id sample_evidence_service (sample_ctx 23) evidence3 sample_upload (evidence3, \<lambda>_. None)
      = (Inr u, uploaded4) \<and> upr_Document u = document_row4"
    "uploaded4 = (evidence3\<lparr>evidence_documents := [document_row4]\<rparr>, (\<lambda>_. None)(sample_path \<mapsto> ''hi''))"
    by (simp_all add: uploaded4_def)
qed

subsection \<open>The run\<close>

lemma sample_evidence_services: "evidence_services sample_evidence_service"
proof unfold_locales
  have "proper [''data''] \<and> ''/data'' = abs_path [''data'']" by (simp add: proper_element_def abs_path_def)
  then show "storage_root (evidenceStorage sample_evidence_service)"
    unfolding storage_root_def by (intro exI [of _ "[''data'']"]) (simp add: sample_evidence_service_def sample_storage_def)
qed (simp_all add: sample_evidence_service_def sample_storage_def no_auditor_grows)

lemma sample_serving: "serving {sample_evidence_service} ''/data''"
  using sample_evidence_services by (simp add: serving_def sample_evidence_service_def sample_storage_def)

lemma sample_evidence_run: "evidence_run (\<lambda>_. []) id {sample_evidence_service}
    [uploaded4, (evidence3, \<lambda>_. None), (evidence2, \<lambda>_. None), (evidence1, \<lambda>_. None), (evidence_start, \<lambda>_. None)]"
proof -
  let ?run = "evidence_run (\<lambda>_. []) id {sample_evidence_service}" and ?at = "\<lambda>s. (s, \<lambda>_. None)"
  have 0: "?run [?at evidence_start]" by (rule no_evidence) (simp add: evidence_tables_def evidence_start_def)
  have 1: "?run [?at evidence1, ?at evidence_start]"
    by (rule request [OF 0], rule add [OF _ _ evidence1_result]) simp_all
  have 2: "?run [?at evidence2, ?at evidence1, ?at evidence_start]"
    by (rule request [OF 1], rule verify [OF _ _ evidence2_result]) simp_all
  have 3: "?run [?at evidence3, ?at evidence2, ?at evidence1, ?at evidence_start]"
    by (rule request [OF 2], rule reject [OF _ _ evidence3_result]) simp_all
  obtain u s f where up: "UploadDocument id sample_evidence_service (sample_ctx 23) evidence3 sample_upload (evidence3, \<lambda>_. None)
      = (Inr u, (s, f))" "uploaded4 = (s, f)" using uploaded4_result by (metis surj_pair)
  show ?thesis unfolding up(2) by (rule request [OF 3], rule upload [OF _ _ up(1)]) simp_all
qed

end
