(* ===== verification/Evidence_Properties.thy ===== *)
theory Evidence_Properties
  imports Evidence_Sample
begin

section \<open>The properties of evidence and documents\<close>

text \<open>
  What the verification history promises over every run, what becomes of the metadata of an
  evidence, and what the files of documents are worth: a download is what was uploaded, unless a
  later upload of the same day took the file away. The witnesses use the run of
  \<open>Evidence_Sample\<close>.
\<close>

subsection \<open>Verification\<close>

text \<open>
  C12: in every run the verification history of a piece of evidence is only ever appended to, and
  at every moment its rulings (status, verifier, time, reason, method), a repeated ruling counted
  once, are a path of allowed verification steps from UNVERIFIED, the last of which is what the
  verification fields of the evidence say.
\<close>

theorem verification_history_is_path:
  fixes run :: "('s evidence_db_scheme \<times> files) list"
  assumes "evidence_run ft lower svcs run" "serving svcs dir" "(s, f) \<in> set run" "e \<in> set (evidence_rows s)"
  defines "history \<equiv> verifications_of (en_OrganizationID e) (en_ID e)"
  shows "(\<exists>later. history (fst (hd run)) = history s @ later)
     \<and> (let path = remdups_adj (map entry (history s)) in
          verification_path VerificationStatusUnverified (map fst path) \<and> standing e = last (unverified # path))"
proof -
  have ok: "evidence_ok s" "evidence_keep s (fst (hd run))"
    using evidence_run_is_ok [OF assms(1,2)] assms(3) by (auto simp: evidence_run_ok_def)
  have "vr_OrganizationID r = en_OrganizationID e" if r: "r \<in> set (verification_history s)" "vr_EvidenceID r = en_ID e" for r
  proof -
    obtain x where x: "x \<in> set (evidence_rows s)" "en_ID x = vr_EvidenceID r" "en_OrganizationID x = vr_OrganizationID r"
      using ok(1) r(1) by (auto simp: evidence_ok_def)
    then have "x = e" using ok(1) assms(4) r(2) by (auto simp: evidence_ok_def distinct_map inj_on_def)
    then show ?thesis using x(3) by simp
  qed
  then have h: "history s = rows_for e (verification_history s)"
    unfolding history_def by (auto simp: verifications_of_def rows_for_def intro!: filter_cong)
  obtain path where p: "map entry (history s) = doubled path"
    "verification_path VerificationStatusUnverified (map fst path)" "standing e = last (unverified # path)"
    using ok(1) assms(4) unfolding h by (auto simp: evidence_ok_def trail_ok_def)
  have "\<exists>later. history (fst (hd run)) = history s @ later"
    using ok(2) by (auto simp: history_def evidence_keep_def verifications_of_def)
  then show ?thesis using p(2,3) remdups_adj_doubled [OF p(2)] unfolding p(1) Let_def by simp
qed

theorem verification_history_is_path_witness:
  "\<exists>path. remdups_adj (map entry (verifications_of 7 2000 evidence3)) = path \<and> length path = 2
     \<and> verification_path VerificationStatusUnverified (map fst path) \<and> standing evidence_row3 = last path"
proof -
  have e: "evidence_row3 \<in> set (evidence_rows evidence3)" "en_OrganizationID evidence_row3 = 7" "en_ID evidence_row3 = 2000"
    by (simp_all add: evidence3_rows evidence_row3_def evidence_row2_def evidence_row1_def)
  have "length (remdups_adj (map entry (verifications_of 7 2000 evidence3))) = 2"
    by (simp add: verifications_of_def evidence3_rows evidence_start_def verification_row_def entry_def)
  moreover have "(evidence3, \<lambda>_. None) \<in> set [uploaded4, (evidence3, \<lambda>_. None), (evidence2, \<lambda>_. None), (evidence1, \<lambda>_. None),
      (evidence_start, \<lambda>_. None)]" by simp
  ultimately show ?thesis
    using verification_history_is_path [OF sample_evidence_run sample_serving _ e(1)] e(2,3)
    by (metis last_ConsR list.size(3) zero_neq_numeral)
qed

text \<open>
  No request to change the metadata of an evidence ever succeeds: what it found in any
  earlier store of a run is still there, so that the INSERT it ends with violates the primary
  key; the store stays as it is.
\<close>

theorem metadata_update_never_succeeds:
  fixes run :: "('s evidence_db_scheme \<times> files) list"
  assumes "evidence_run ft lower svcs run" "serving svcs dir" "(s0, f0) \<in> set run" "hd run = (s, f)"
  shows "\<exists>err. UpdateEvidenceMetadata ft svc c s0 p s = (Inl err, s)"
proof (rule metadata_fails)
  show "evidence_keep s0 s" using evidence_run_is_ok [OF assms(1,2)] assms(3,4) by (auto simp: evidence_run_ok_def)
qed

theorem metadata_update_never_succeeds_witness:
  "\<exists>err. UpdateEvidenceMetadata (\<lambda>_. []) sample_evidence_service (sample_ctx 30) evidence2
     \<lparr>um_OrganizationID = 7, um_EvidenceID = 2000, um_Metadata = [(''k'', GString ''v'')], um_ActorID = 8\<rparr> (fst uploaded4)
     = (Inl err, fst uploaded4)"
  by (rule metadata_update_never_succeeds [OF sample_evidence_run sample_serving, of _ "\<lambda>_. None" _ "snd uploaded4"]) simp_all

subsection \<open>Documents\<close>

lemma download_result:
  assumes "who \<noteq> uuid_nil" "evidenceUsers svc orgID who = Inr True" "evidence_FindByID orgID i s0 = Inr e"
    "FindDocumentByID orgID documentID s0 = Inr d" "doc_EvidenceID d = i"
    "local_Retrieve (evidenceStorage svc) (doc_StorageKey d) f = Inr content"
  shows "\<exists>s'. GetDocumentStream svc c s0 orgID i documentID who (s, f)
    = (Inr \<lparr>dl_Document = d, dl_Content = content, dl_ContentType = doc_ContentType d, dl_FileName = doc_FileName d\<rparr>, (s', f))"
proof -
  let ?event = "RecordAuditEventInTx (evidenceRecorder svc) (document_event c orgID who ''evidence.document_downloaded'' d)"
  have "snd (on_db ?event (s, f)) = (snd (?event s), f)" by (simp add: on_db_def split: prod.split)
  then have "GetDocumentStream svc c s0 orgID i documentID who (s, f)
    = (Inr \<lparr>dl_Document = d, dl_Content = content, dl_ContentType = doc_ContentType d, dl_FileName = doc_FileName d\<rparr>, (snd (?event s), f))"
    using assms by (simp add: GetDocumentStream_def tx_Inr)
  then show ?thesis by blast
qed

lemma download_missing:
  assumes "evidence_FindByID orgID i s0 = Inr e" "FindDocumentByID orgID documentID s0 = Inr d" "doc_EvidenceID d = i"
    "local_Retrieve (evidenceStorage svc) (doc_StorageKey d) f = Inl err" "who \<noteq> uuid_nil" "evidenceUsers svc orgID who = Inr True"
  shows "GetDocumentStream svc c s0 orgID i documentID who (s, f) = (Inl (Wrap ''failed to retrieve file'' err), (s, f))"
  using assms by (simp add: GetDocumentStream_def user_check_def tx_defs tx_read_def on_files_def)

text \<open>
  C15: in every run in which uploads and deletions are single steps and files that are to be
  removed can be, the content a download returns has the checksum and the size that the document
  says, and the document belongs to the organization and the evidence asked for, if the download
  reads the tables as they are when it opens the file, or reads earlier tables and the document it
  found is still there. (A document that was deleted in between can have its file replaced by that
  of a later upload with the same key.)
\<close>

theorem download_matches_document:
  fixes run :: "('s evidence_db_scheme \<times> files) list"
  assumes "evidence_run ft lower svcs run" "serving svcs dir" "hd run = (s, f)" "svc \<in> svcs"
    and "GetDocumentStream svc c s0 orgID evidenceID documentID userID (s, f) = (Inr d, sf')"
    and "s0 = s \<or> dl_Document d \<in> set (evidence_documents s)"
  shows "sha256_hex (dl_Content d) = doc_Checksum (dl_Document d) \<and> int (length (dl_Content d)) = doc_SizeBytes (dl_Document d)
     \<and> dl_Document d \<in> set (evidence_documents s) \<and> doc_ID (dl_Document d) = documentID
     \<and> doc_EvidenceID (dl_Document d) = evidenceID \<and> doc_OrganizationID (dl_Document d) = orgID"
proof -
  have "(s, f) \<in> set run" using assms(1,3) by cases auto
  then have ok: "documents_ok dir s f" using evidence_run_is_ok [OF assms(1,2)] by (auto simp: evidence_run_ok_def)
  have svc: "evidence_services svc" "rootDir (evidenceStorage svc) = dir" using assms(2,4) by (auto simp: serving_def)
  obtain doc content where doc: "FindDocumentByID orgID documentID s0 = Inr doc" "doc_EvidenceID doc = evidenceID"
    and content: "local_Retrieve (evidenceStorage svc) (doc_StorageKey doc) f = Inr content"
    and d: "dl_Document d = doc" "dl_Content d = content"
    using assms(5) by (auto simp: GetDocumentStream_def tx_Inr)
  note found = FindDocumentByID_Inr [OF doc(1)]
  have at: "doc \<in> set (evidence_documents s)" using found(1) assms(6) d(1) by auto
  have "describes_file dir f doc" using ok at by (simp add: documents_ok_def)
  then show ?thesis
    using content at found(2) doc(2) d evidence_services.retrieve_stored [OF svc(1)]
    by (auto simp: describes_file_def file_path_def stored_at_def svc(2) document_at_def split: option.splits)
qed

lemma uploaded4_there:
  "fst uploaded4 = evidence3\<lparr>evidence_documents := [document_row4]\<rparr>" "snd uploaded4 = (\<lambda>_. None)(sample_path \<mapsto> ''hi'')"
  "evidence_FindByID 7 2000 (fst uploaded4) = Inr evidence_row3" "FindDocumentByID 7 2301 (fst uploaded4) = Inr document_row4"
  "evidence_FindByID 7 2000 evidence3 = Inr evidence_row3"
  by (simp_all add: uploaded4_rows evidence3_rows evidence_FindByID_def row_or_def evidence_at_def scanEvidence_def evidence_row3_def
      evidence_row2_def evidence_row1_def FindDocumentByID_def document_at_def document_row4_def)

lemma sample_file: "file_path sample_evidence_service sample_key = sample_path" "evidenceStorage sample_evidence_service = sample_storage"
  by (simp_all add: file_path_def stored_at_def sample_path_def sample_evidence_service_def sample_storage_def)

theorem download_matches_document_witness:
  "\<exists>d. fst (GetDocumentStream sample_evidence_service (sample_ctx 31) (fst uploaded4) 7 2000 2301 8 uploaded4) = Inr d
     \<and> sha256_hex (dl_Content d) = sha256_hex ''hi'' \<and> doc_ID (dl_Document d) = 2301"
proof -
  have key: "storage_key sample_key" by (simp add: sample_key_def upload_key_storage)
  have "local_Retrieve sample_storage sample_key ((\<lambda>_. None)(sample_path \<mapsto> ''hi'')) = Inr ''hi''"
    using evidence_services.retrieve_stored [OF sample_evidence_services key, of "(\<lambda>_. None)(sample_path \<mapsto> ''hi'')"] sample_file
    by (simp add: sample_storage_def)
  then have "local_Retrieve sample_storage sample_key (snd uploaded4) = Inr ''hi''" unfolding uploaded4_there(2) .
  then have r: "local_Retrieve (evidenceStorage sample_evidence_service) (doc_StorageKey document_row4) (snd uploaded4) = Inr ''hi''"
    by (simp add: sample_file document_row4_def)
  have d4: "doc_EvidenceID document_row4 = 2000" by (simp add: document_row4_def)
  have who: "(8::uuid) \<noteq> uuid_nil" "evidenceUsers sample_evidence_service 7 8 = Inr True" by (simp_all add: sample_evidence_service_def)
  obtain s' where g: "GetDocumentStream sample_evidence_service (sample_ctx 31) (fst uploaded4) 7 2000 2301 8 (fst uploaded4, snd uploaded4)
      = (Inr \<lparr>dl_Document = document_row4, dl_Content = ''hi'', dl_ContentType = doc_ContentType document_row4,
          dl_FileName = doc_FileName document_row4\<rparr>, (s', snd uploaded4))"
    using download_result [OF who uploaded4_there(3,4) d4 r] by blast
  from download_matches_document [OF sample_evidence_run sample_serving _ _ g]
  show ?thesis using g by (simp add: document_row4_def)
qed

text \<open>
  C22: what was uploaded can be downloaded: after a successful upload, a download of the document
  by a user of the organization returns the uploaded bytes, with the file name and content type
  that were derived from the request, and the checksum of the bytes.
\<close>

theorem upload_then_download:
  fixes s :: "'s evidence_db_scheme"
  assumes "evidence_services svc" "UploadDocument lower svc c s p (s, f) = (Inr u, (s1, f1))"
    and "evidenceUsers svc (up_OrganizationID p) who = Inr True" "who \<noteq> uuid_nil" "\<And>path. open_error (evidenceStorage svc) path = None"
  shows "\<exists>d. fst (GetDocumentStream svc c' s1 (up_OrganizationID p) (up_EvidenceID p) (doc_ID (upr_Document u)) who (s1, f1)) = Inr d
     \<and> dl_Content d = delivered (up_Reader p) \<and> doc_Checksum (dl_Document d) = sha256_hex (delivered (up_Reader p))
     \<and> Inr (dl_FileName d) = SanitizeFileName (up_FileName p) \<and> Inr (dl_ContentType d) = ValidateContentType lower (up_ContentType p)"
proof -
  note inv = evidence_services.register_upload_Inr [OF assms(1)]
  have f1: "f1 = f(file_path svc (upload_key c p) \<mapsto> delivered (up_Reader p))"
    and reg: "register_upload lower svc c p (upload_key c p) (stored_metadata (upload_key c p) (up_Reader p)) (s, f1) = (Inr u, (s1, f1))"
    using evidence_services.UploadDocument_cases [OF assms(1,2)] by auto
  obtain e where e: "evidence_FindByID (up_OrganizationID p) (up_EvidenceID p) s = Inr e"
    using assms(2) by (auto simp: UploadDocument_def tx_Inr)
  obtain ct name doc s2 where ct: "ValidateContentType lower (up_ContentType p) = Inr ct" and name: "SanitizeFileName (up_FileName p) = Inr name"
    and doc: "NewDocument (later_ctx 1 c) (document_params p name ct (stored_metadata (upload_key c p) (up_Reader p)) (upload_key c p)) = Inr doc"
    and sv: "SaveDocumentTx doc s = (Inr (), s2)" and a: "same_evidence s2 s1" and u: "upr_Document u = doc"
    by (rule inv [OF reg]) auto
  note d = NewDocument_Inr [OF doc] and w = SaveDocumentTx_Inr [OF sv]
  have rows: "evidence_rows s1 = evidence_rows s" "evidence_documents s1 = evidence_documents s @ [doc_row doc]"
    using w a by (simp_all add: same_evidenceD)
  have "evidence_FindByID (up_OrganizationID p) (up_EvidenceID p) s1 = Inr e" using e rows by (simp add: evidence_FindByID_def)
  moreover have "filter (document_at (up_OrganizationID p) (doc_ID doc)) (evidence_documents s) = []"
    using w unfolding filter_empty_conv document_at_def by (metis image_eqI)
  then have "FindDocumentByID (up_OrganizationID p) (doc_ID doc) s1 = Inr (doc_row doc)"
    using d by (simp add: FindDocumentByID_def rows row_or_def document_at_def document_params_def)
  moreover have "doc_EvidenceID (doc_row doc) = up_EvidenceID p" "doc_StorageKey (doc_row doc) = upload_key c p"
    using d by (simp_all add: document_params_def)
  moreover have "local_Retrieve (evidenceStorage svc) (upload_key c p) f1 = Inr (delivered (up_Reader p))"
    using evidence_services.retrieve_stored [OF assms(1) upload_key_storage] assms(5) f1 by simp
  ultimately obtain s2 where "GetDocumentStream svc c' s1 (up_OrganizationID p) (up_EvidenceID p) (doc_ID doc) who (s1, f1)
      = (Inr \<lparr>dl_Document = doc_row doc, dl_Content = delivered (up_Reader p), dl_ContentType = doc_ContentType doc,
          dl_FileName = doc_FileName doc\<rparr>, (s2, f1))"
    using download_result [OF assms(4,3)] by fastforce
  then show ?thesis using d ct name u by (simp add: document_params_def stored_metadata_def)
qed

theorem upload_then_download_witness:
  "\<exists>d. fst (GetDocumentStream sample_evidence_service (sample_ctx 31) (fst uploaded4) 7 2000 2301 9 uploaded4) = Inr d
     \<and> dl_Content d = ''hi'' \<and> Inr (dl_FileName d) = SanitizeFileName ''a.txt''"
proof -
  obtain u where u: "UploadDocument id sample_evidence_service (sample_ctx 23) evidence3 sample_upload (evidence3, \<lambda>_. None)
      = (Inr u, (fst uploaded4, snd uploaded4))" "upr_Document u = document_row4" using uploaded4_result by auto
  have "doc_ID document_row4 = 2301" "up_OrganizationID sample_upload = 7" "up_EvidenceID sample_upload = 2000"
    "delivered (up_Reader sample_upload) = ''hi''" "up_FileName sample_upload = ''a.txt''"
    by (simp_all add: document_row4_def sample_upload_def)
  moreover have "evidenceUsers sample_evidence_service org 9 = Inr True" "open_error (evidenceStorage sample_evidence_service) path = None" for org path
    by (simp_all add: sample_evidence_service_def sample_storage_def)
  ultimately show ?thesis
    using upload_then_download [OF sample_evidence_services u(1), of 9 "sample_ctx 31"] u(2) by auto
qed

text \<open>
  C16: the storage key of a document is the day, the evidence and the extension, so that a second
  upload of the same day with the same extension meets the file and the row of the first: it
  writes over the file, fails on the unique key, and deletes the file; the document that was
  there stays in the database and can never be downloaded again.
\<close>

theorem reupload_destroys_document:
  fixes s :: "'s evidence_db_scheme"
  assumes "evidence_services svc" "FindDocumentByID (up_OrganizationID p) documentID s = Inr d" "doc_EvidenceID d = up_EvidenceID p"
    and key: "doc_StorageKey d = upload_key c p" and found: "evidence_FindByID (up_OrganizationID p) (up_EvidenceID p) s = Inr e"
    and user: "up_UploadedBy p \<noteq> uuid_nil" "evidenceUsers svc (up_OrganizationID p) (up_UploadedBy p) = Inr True"
    and request: "up_EvidenceID p \<noteq> uuid_nil" "up_FileName p \<noteq> []" "0 < up_Size p" "up_Size p \<le> 10 * 2 ^ 20"
      "failure (up_Reader p) = None" "int (length (delivered (up_Reader p))) = up_Size p"
    and disk: "\<And>path. mkdir_error (evidenceStorage svc) path = None" "\<And>path. create_error (evidenceStorage svc) path = None"
      "\<And>path. open_error (evidenceStorage svc) path = None"
  shows "(\<exists>err. UploadDocument lower svc c s p (s, f) = (Inl err, (s, f(file_path svc (doc_StorageKey d) := None))))
    \<and> fst (GetDocumentStream svc c' s (up_OrganizationID p) (up_EvidenceID p) documentID (up_UploadedBy p)
         (s, f(file_path svc (doc_StorageKey d) := None)))
      = Inl (Wrap ''failed to retrieve file'' (Wrap ''file not found'' (storage_error ''storage backend unavailable'')))"
proof
  let ?key = "upload_key c p" and ?m = "stored_metadata (upload_key c p) (up_Reader p)"
  let ?f1 = "f(file_path svc (upload_key c p) \<mapsto> delivered (up_Reader p))" and ?f2 = "f(file_path svc (upload_key c p) := None)"
  have store: "local_Store (evidenceStorage svc) ?key (up_Reader p) (up_Size p) f = (Inr ?m, ?f1)"
    using request disk by (simp add: local_Store_def Let_def stored_metadata_def file_path_def stored_at_def)
  have delete: "local_Delete (evidenceStorage svc) ?key ?f1 = (Inr (), ?f2)"
    using evidence_services.delete_stored [OF assms(1) upload_key_storage] by simp
  obtain r s1 f1 where reg: "register_upload lower svc c p ?key ?m (s, ?f1) = (r, (s1, f1))" by (metis surj_pair)
  have "\<exists>err. r = Inl err"
  proof (cases r)
    case (Inr u)
    obtain ct name doc s2 where doc: "NewDocument (later_ctx 1 c) (document_params p name ct ?m ?key) = Inr doc"
      and sv: "SaveDocumentTx doc s = (Inr (), s2)"
      by (rule evidence_services.register_upload_Inr [OF assms(1) reg [unfolded Inr]]) auto
    have "doc_StorageKey doc = doc_StorageKey d" using NewDocument_Inr [OF doc] key by (simp add: document_params_def)
    then show ?thesis using SaveDocumentTx_Inr [OF sv] FindDocumentByID_Inr(1) [OF assms(2)] by auto
  qed blast
  then obtain err where err: "r = Inl err" ..
  then have "(s1, f1) = (s, ?f1)" using reg tx_atomicD [OF register_upload_atomic] by metis
  then have reg: "register_upload lower svc c p ?key ?m (s, ?f1) = (Inl err, (s, ?f1))" using reg err by simp
  have "UploadDocument lower svc c s p (s, f) = (Inl err, (s, ?f2))"
    using reg store delete found user request
    by (simp add: UploadDocument_def user_check_def tx_defs tx_read_def tx_check_def tx_map_error_def tx_or_undo_def on_files_def unless_def)
  then show "\<exists>err. UploadDocument lower svc c s p (s, f) = (Inl err, (s, f(file_path svc (doc_StorageKey d) := None)))"
    using key by auto
  have "local_Retrieve (evidenceStorage svc) (doc_StorageKey d) ?f2
      = Inl (Wrap ''file not found'' (storage_error ''storage backend unavailable''))"
    using evidence_services.retrieve_stored [OF assms(1) upload_key_storage] disk(3) key by simp
  from download_missing [OF found assms(2,3) this user]
  show "fst (GetDocumentStream svc c' s (up_OrganizationID p) (up_EvidenceID p) documentID (up_UploadedBy p)
         (s, f(file_path svc (doc_StorageKey d) := None)))
      = Inl (Wrap ''failed to retrieve file'' (Wrap ''file not found'' (storage_error ''storage backend unavailable'')))"
    by (simp add: key)
qed

lemma second_key: "upload_key (sample_ctx 24) sample_upload = sample_key"
  unfolding sample_key_def upload_key_def sample_ctx_def by code_simp

theorem reupload_destroys_document_witness:
  "(\<exists>err. UploadDocument id sample_evidence_service (sample_ctx 24) (fst uploaded4) sample_upload uploaded4
       = (Inl err, (fst uploaded4, (snd uploaded4)(sample_path := None))))
    \<and> (snd uploaded4) sample_path = Some ''hi''"
proof -
  have up: "up_OrganizationID sample_upload = 7" "up_EvidenceID sample_upload = 2000" "up_UploadedBy sample_upload = 8"
    "up_FileName sample_upload = ''a.txt''" "up_Size sample_upload = 2" "up_Reader sample_upload = \<lparr>delivered = ''hi'', failure = None\<rparr>"
    by (simp_all add: sample_upload_def)
  have key: "doc_EvidenceID document_row4 = 2000" "doc_StorageKey document_row4 = sample_key" by (simp_all add: document_row4_def)
  have accepts: "evidenceUsers sample_evidence_service org who = Inr True" "mkdir_error sample_storage path = None"
    "create_error sample_storage path = None" "open_error sample_storage path = None" for org who path
    by (simp_all add: sample_evidence_service_def sample_storage_def)
  have "\<exists>err. UploadDocument id sample_evidence_service (sample_ctx 24) (fst uploaded4) sample_upload (fst uploaded4, snd uploaded4)
       = (Inl err, (fst uploaded4, (snd uploaded4)(file_path sample_evidence_service (doc_StorageKey document_row4) := None)))"
    by (rule reupload_destroys_document [THEN conjunct1, OF sample_evidence_services, of sample_upload 2301])
      (simp_all only: up uploaded4_there(3,4) key second_key accepts sample_file, simp_all)
  moreover have "snd uploaded4 sample_path = Some ''hi''" by (simp add: uploaded4_there(2))
  ultimately show ?thesis by (simp add: key sample_file)
qed

text \<open>
  C27: what was stored under a generated key is what is read under it, whatever the file name of
  the request was; the file of no other generated key is touched, and the file is inside the
  storage directory: the elements of its path are those of the directory, followed by more, none
  of which leads up.
\<close>

theorem store_then_retrieve:
  assumes "NewLocalStorageProvider os cwd dir = Inr p" "rooted_path cwd" "local_Store p (GenerateStorageKey t i name) rd sz f = (Inr m, f')"
    and "\<And>path. open_error p path = None"
  shows "local_Retrieve p (GenerateStorageKey t i name) f' = Inr (delivered rd)
    \<and> sm_Checksum m = sha256_hex (delivered rd) \<and> inside (rootDir p) (stored_at p (GenerateStorageKey t i name))
    \<and> (GenerateStorageKey t' i' name' = GenerateStorageKey t i name
        \<or> local_Retrieve p (GenerateStorageKey t' i' name') f' = local_Retrieve p (GenerateStorageKey t' i' name') f)"
proof -
  have root: "storage_root p" by (rule new_provider_root [OF assms(1,2)])
  have keys: "storage_key (GenerateStorageKey t i name)" "storage_key (GenerateStorageKey t' i' name')" by (auto simp: storage_key_def)
  note at = storage_key_path [OF root keys(1)] storage_key_path [OF root keys(2)]
  have "f' = f(stored_at p (GenerateStorageKey t i name) \<mapsto> delivered rd)" "sm_Checksum m = sha256_hex (delivered rd)"
    using assms(3) by (auto simp: local_Store_def Let_def stored_at_def split: if_splits option.splits)
  then have "local_Retrieve p (GenerateStorageKey t i name) f' = Inr (delivered rd)
    \<and> sm_Checksum m = sha256_hex (delivered rd)
    \<and> (GenerateStorageKey t' i' name' = GenerateStorageKey t i name
        \<or> local_Retrieve p (GenerateStorageKey t' i' name') f' = local_Retrieve p (GenerateStorageKey t' i' name') f)"
    using at assms(4) stored_at_inj [OF root keys] by (auto simp: local_Retrieve_def Let_def stored_at_def)
  then show ?thesis using stored_inside [OF root keys(1)] by blast
qed

theorem store_then_retrieve_witness:
  "local_Retrieve sample_storage sample_key ((\<lambda>_. None)(sample_path \<mapsto> ''hi'')) = Inr ''hi''
   \<and> inside ''/data'' (stored_at sample_storage sample_key)"
proof -
  have new: "NewLocalStorageProvider (sample_storage\<lparr>rootDir := []\<rparr>) ''/'' ''data'' = Inr sample_storage"
    "rooted_path ''/''" by (simp_all add: NewLocalStorageProvider_def sample_storage_def) code_simp+
  have "local_Store sample_storage sample_key (up_Reader sample_upload) 2 (\<lambda>_. None)
      = (Inr (stored_metadata sample_key (up_Reader sample_upload)), (\<lambda>_. None)(sample_path \<mapsto> ''hi''))"
    by (simp add: local_Store_def sample_storage_def sample_upload_def stored_metadata_def sample_path_def)
  from store_then_retrieve [OF new this [unfolded sample_key_def upload_key_def]]
  show ?thesis by (simp add: sample_key_def upload_key_def sample_storage_def sample_upload_def)
qed

end
