(* ===== verification/Spec2Isabelle.thy ===== *)
theory Spec2Isabelle
  imports Ruleset_Properties Audit_Properties Workflow_Properties Form_Properties Case_Lifecycle Review_Properties Evidence_Properties
begin

text \<open>
  Civora is a multi-tenant case-management platform: a case of an organization follows a
  configurable workflow, forms are filled in at the states of the workflow, rules are evaluated
  on what is known of a case, and an audit trail records every change. This development models
  the core of the Go implementation under \<^verbatim>\<open>src/internal/\<close> and proves what makes it correct.

  \<^bold>\<open>Parts and how they interact.\<close> The case service creates a case and, in the same transaction,
  an instance of a workflow for it. A transition of an instance, requested from the workflow
  service or from the case service, calls the case service back as an observer inside its
  transaction; the observer refuses the move while a required form of the state is missing
  and mirrors the new state into the case. Forms are published as versions, the versions are
  assigned to states of a workflow, and submissions are validated against the fields of a
  version. A decision on a case, made directly or at the end of a review, is stored in one
  transaction with the transition of the workflow that follows from it, and can be superseded
  later. Rule sets are drafted, published and assigned to states of a workflow; when a case enters
  a state, the observer has the rules of the state evaluated on the facts of the case, which are
  assembled from the case and its submissions, and every evaluation is stored with its facts and
  its trace. Evidence is submitted for a case, verified, and has documents, whose files are kept
  by a storage provider beside the database. Every service records audit events through the audit
  service, which chains them by hashes.

  \<^bold>\<open>Stores and requests.\<close> A database is a record of tables (\<open>audit_db\<close>, extended by \<open>wf_db\<close>,
  \<open>form_db\<close>, \<open>case_db\<close>, \<open>review_db\<close>, \<open>rules_db\<close> and \<open>evidence_db\<close>), a table a list of rows in insertion order. An operation is a
  function of type \<open>('s, 'a) tx\<close>: from a store to a result or an error, and a store.
  \<open>InTransaction\<close> (database/db.go) restores the store when its body fails. What a request reads
  before its transaction is read from an argument \<open>committed\<close>, which in a run is any earlier
  store: so requests interleave, and stale reads are part of the runs of workflows, assignments,
  submissions, cases, decisions, reviews, rules and evidence. Two things are coarser. Requests on
  forms, versions and fields are served one after another in every run (\<open>form_step\<close>): the code
  checks that a version is a draft before its transaction, and \<open>stale_field_enters_published_version\<close>
  shows that a stale check lets a field into a published version. And an upload or a deletion of a
  document is one step on the database and the files, although the code stores or removes the file
  outside the transaction. Repositories are written
  with the constraints of the migrations: uniqueness and checks are errors of the model;
  foreign keys are not, nor are row locks, since transactions are atomic here. Times and
  identifiers come from a context \<open>ctx\<close>: \<open>ctx_time c k\<close> and \<open>ctx_uuid c k\<close> are what the k-th
  call of the clock or of the uuid generator in a request returns. Errors are values of
  \<open>go_error\<close>; \<open>errors_Is\<close> searches the wrapped chain.

  \<^bold>\<open>Theories.\<close>
  \<^item> \<open>Civora_Prelude\<close>: transactions, errors, SQL fragments, the locale \<open>tx_frame\<close> of relations
    that transactions preserve. \<open>Go_Values\<close>: \<^verbatim>\<open>interface{}\<close> values. \<open>Go_Text\<close>: UUID and time
    formatting, JSON encoding, SHA-256.
  \<^item> \<open>Rule_Temporal\<close>, \<open>Rule_Conditions\<close>, \<open>Rule_Engine\<close> (rules/domain): conditions, rule sets and
    their validation, the evaluation engine with its traces. \<open>Rule_Semantics\<close>: the value of a
    condition without its trace, the locale \<open>priority_sorter\<close>; \<open>Rule_Properties\<close>: what an
    evaluation decides, for any sorting algorithm, and what validation bounds.
  \<^item> \<open>Rule_Json\<close>, \<open>Rule_Domain\<close>, \<open>Rule_Store\<close>, \<open>Rule_Service\<close>, \<open>Rule_Assignments\<close>,
    \<open>Rule_Integration\<close> (rules): the JSON documents of conditions, templates and assignments, the
    four tables, the three services and the facts of a case. \<open>Rule_Effects\<close>: the locale
    \<open>rule_services\<close>, and its tables beside those of the other services, so that the evaluation of rules
    is a rule integration of \<open>review_environment\<close>; \<open>Rule_Runs\<close>: runs of the rules services and
    their invariant; \<open>Rule_Cases\<close>: the evaluation of a case in closed form; \<open>Rule_Sample\<close>: a
    concrete run; \<open>Rule_Record\<close>: of which facts the engine says the same on the JSON document in which
    an evaluation records them; \<open>Ruleset_Properties\<close>: evaluations can be reproduced, published rule sets are
    frozen, and what a transition of a case evaluates.
  \<^item> \<open>Audit_Chain\<close> (audit): events, their hashes, the repository, the service and the
    verification pass; \<open>Audit_Properties\<close>: chains stay valid, tampering is evident, and where
    they break.
  \<^item> \<open>Workflow_Definition\<close>, \<open>Workflow_Store\<close>, \<open>Workflow_Service\<close> (workflow): definitions and their
    validation, five tables, the service. \<open>Workflow_Effects\<close>: what a request that succeeds has
    done, in the locale \<open>wf_environment\<close> of observers and auditors that keep the tables;
    \<open>Workflow_Invariants\<close>, \<open>Workflow_Runs\<close>: the invariant of the tables and the runs;
    \<open>Workflow_Properties\<close>: instances follow their graph, transitions are serialised, activated
    definitions are immutable.
  \<^item> \<open>Form_Domain\<close>, \<open>Form_Store\<close>, \<open>Form_Service\<close> (forms, form_submission,
    workflow_form_assignment): forms, versions, fields, assignments, submissions.
    \<open>Form_Effects\<close>, \<open>Form_Runs\<close>: effects of requests, the invariant of the form tables;
    \<open>Form_Properties\<close>: published versions are frozen.
  \<^item> \<open>Case_Domain\<close>, \<open>Case_Store\<close>, \<open>Case_Service\<close>, \<open>Case_Forms\<close> (cases): the case and its table,
    the service, the validation of submitted data. \<open>Case_Effects\<close>: what the observer and the
    operations do, in the locale \<open>case_environment\<close> of services whose parameters only write their
    own tables; \<open>Case_Runs\<close>: the mirror of instances by cases is invariant, also under transitions
    made inside the transaction of another service; \<open>Intake_Runs\<close>:
    invariants of assignments and submissions in runs with stale reads; \<open>Case_Sample\<close>: a
    concrete run for the witnesses; \<open>Intake_Properties\<close> (assignments and submissions in runs),
    \<open>Case_Properties\<close> (the gate, the mirror, creation and moves of cases) and
    \<open>Case_Lifecycle\<close>, the refinement of an abstract lifecycle.
  \<^item> \<open>Review_Domain\<close>, \<open>Review_Store\<close>, \<open>Decision_Service\<close>, \<open>Review_Service\<close> (decisions,
    review_queue): decisions, the state machine of reviews, their tables and services.
    \<open>Review_Effects\<close>: what the operations do, in the locale \<open>review_environment\<close>, which extends
    \<open>case_environment\<close>; \<open>Review_Runs\<close>: runs of these services, which are runs of the case
    service, and their invariant; \<open>Review_Sample\<close>: concrete runs; \<open>Review_Properties\<close>: decisions
    form linked histories, move their case, and close its reviews.
  \<^item> \<open>Evidence_Domain\<close>, \<open>Evidence_Storage\<close>, \<open>Evidence_Store\<close>, \<open>Evidence_Service\<close> (evidence):
    evidence, its verification and its documents, file names, storage keys and the local provider,
    three tables, the service. \<open>Evidence_Paths\<close>: cleaned paths, and that keys stay apart and inside
    the storage directory; \<open>Evidence_Runs\<close>: the locale \<open>evidence_services\<close>, runs and their
    invariant; \<open>Evidence_Sample\<close>: a concrete run; \<open>Evidence_Properties\<close>: the verification history
    is a path of allowed steps, downloads match their document, and how a document is lost.

  \<^bold>\<open>Correspondence.\<close> Definitions keep the names of the Go functions; a prefix (\<open>case_\<close>, \<open>form_\<close>,
  \<open>version_\<close>, \<open>def_\<close>, \<open>instance_\<close>, ...) tells methods of several repositories apart, and record
  fields carry a prefix of the struct where a name occurs twice. A variant with and without a
  transaction is one definition where the two do the same. Texts are lists of characters that
  stand for their UTF-8 bytes.

  \<^bold>\<open>Parameters.\<close> Code outside the repository is an argument: \<open>re\<close> (compiling and matching of
  package regexp), \<open>lower\<close> (strings.ToLower outside ASCII), \<open>ft\<close> and \<open>nt\<close> (strconv.FormatFloat), the
  sorting algorithm of sort.Slice. The person lookup, the user check and the rule integration
  are fields of the record \<open>CaseService\<close>. Theorems on runs assume of the auditor that it only
  writes the audit table, and of the rule integration that it only writes tables of its own;
  both are discharged for the audit service of the model.

  \<^bold>\<open>Numbers and bounds.\<close> Numbers of facts are exact rationals, as big.Rat reads them, which
  refuses exponents outside int64 and, unless the number is zero, scales above a million; a float64
  is the nearest one (\<open>nearest_float\<close>), with overflow to infinity. Words of SHA-256 are
  \<open>32 word\<close>. Columns of type INTEGER refuse what does not fit (\<open>int4\<close>). Columns of type JSONB keep
  a document as the value that is read from it; texts with a NUL character and numbers beyond the
  range of numeric, which such a column refuses, are left out. The only loop without a
  structural measure, the retry loop of CreateCase, is a \<open>partial_function\<close>, and
  \<open>create_case_single_attempt\<close> shows that it returns; the loop of the repository has its five attempts as an argument. All other
  loops are structural recursion, so that no fuel is needed.

  \<^bold>\<open>Not modelled.\<close> HTTP handlers, middleware, configuration, migrations and the command line (I/O
  and wiring); identity (cryptographic libraries); the AI platform, document intelligence, case
  context and summaries and the operations metrics (external providers, aggregates computed by
  the database), and the small services of people, organizations, eligibility, assessment,
  assistance and follow-up (a table and its queries each). The operating system is seen by the
  storage provider only through the errors it returns, and files change only by its operations.
\<close>

end
